(* ===== verification/Prelude.thy ===== *)
theory Prelude
  imports Main "HOL-Library.AList"
begin

text \<open>
  The shared base of the development: decimal rendering of indices (JavaScript template
  literals print array indices into error paths), the early-return loop over an indexed
  array, JavaScript \<open>Map\<close> objects as association lists kept in insertion order, and
  the collections of rewrite rules that the component proofs use.

  A JavaScript \<open>Map\<close> enumerates its entries in insertion order, \<open>set\<close> on an
  existing key keeps the entry's position, and \<open>delete\<close> removes the entry. This is
  exactly \<^const>\<open>AList.update\<close>, \<^const>\<open>AList.delete\<close> and \<^const>\<open>map_of\<close> on a
  list of pairs with distinct keys.
\<close>

named_theorems model_defs "definitions of the model that component proofs unfold"
named_theorems inv_intros "preservation of a component's invariant by its operations"

section \<open>Decimal rendering of natural numbers\<close>

definition digit_char :: "nat \<Rightarrow> char" where
  "digit_char d = char_of (48 + d)"

fun show_nat :: "nat \<Rightarrow> string" where
  "show_nat n = (if n < 10 then [digit_char n] else show_nat (n div 10) @ [digit_char (n mod 10)])"

declare show_nat.simps [simp del]

definition is_digit :: "char \<Rightarrow> bool" where
  "is_digit c \<longleftrightarrow> 48 \<le> (of_char c :: nat) \<and> (of_char c :: nat) \<le> 57"

definition digit_val :: "char \<Rightarrow> nat" where
  "digit_val c = of_char c - 48"

fun nat_of_digits_acc :: "nat \<Rightarrow> string \<Rightarrow> nat" where
  "nat_of_digits_acc a [] = a"
| "nat_of_digits_acc a (c # cs) = nat_of_digits_acc (10 * a + digit_val c) cs"

definition nat_of_digits :: "string \<Rightarrow> nat" where
  "nat_of_digits = nat_of_digits_acc 0"

lemma of_char_digit_char: "d < 10 \<Longrightarrow> (of_char (digit_char d) :: nat) = 48 + d"
  by (simp add: digit_char_def of_char_of)

lemma digit_val_digit_char [simp]: "d < 10 \<Longrightarrow> digit_val (digit_char d) = d"
  by (simp add: digit_val_def of_char_digit_char)

lemma is_digit_digit_char [simp]: "d < 10 \<Longrightarrow> is_digit (digit_char d)"
  by (simp add: is_digit_def of_char_digit_char)

lemma nat_of_digits_acc_append:
  "nat_of_digits_acc a (xs @ [c]) = 10 * nat_of_digits_acc a xs + digit_val c"
  by (induction xs arbitrary: a) auto

lemma show_nat_digits: "list_all is_digit (show_nat n)"
  by (induction n rule: show_nat.induct) (subst show_nat.simps, auto)

lemma show_nat_nonempty [simp]: "show_nat n \<noteq> []"
  by (subst show_nat.simps) simp

lemma nat_of_digits_show_nat [simp]: "nat_of_digits (show_nat n) = n"
proof (induction n rule: show_nat.induct)
  case (1 n)
  then show ?case
    by (subst show_nat.simps) (auto simp: nat_of_digits_def nat_of_digits_acc_append)
qed

lemma show_nat_inject [simp]: "show_nat m = show_nat n \<longleftrightarrow> m = n"
  by (metis nat_of_digits_show_nat)

section \<open>Loops over an indexed array with early return\<close>

text \<open>
  \<open>for (const [index, x] of xs.entries()) { const e = f(index, x); if (e) return e; }\<close>
\<close>

fun first_error :: "(nat \<Rightarrow> 'a \<Rightarrow> 'e option) \<Rightarrow> nat \<Rightarrow> 'a list \<Rightarrow> 'e option" where
  "first_error f i [] = None"
| "first_error f i (x # xs) = (case f i x of Some e \<Rightarrow> Some e | None \<Rightarrow> first_error f (Suc i) xs)"

lemma first_error_cong [fundef_cong]:
  assumes "xs = ys" and "i = j" and "\<And>k x. x \<in> set ys \<Longrightarrow> f k x = g k x"
  shows "first_error f i xs = first_error g j ys"
  using assms(3) unfolding assms(1,2) by (induction ys arbitrary: j) (auto split: option.splits)

lemma first_error_None_iff:
  "first_error f i xs = None \<longleftrightarrow> (\<forall>k < length xs. f (i + k) (xs ! k) = None)"
proof (induction xs arbitrary: i)
  case (Cons x xs)
  show ?case
    by (auto simp: Cons.IH nth_Cons split: option.splits nat.splits)
qed simp

lemma first_error_NoneD:
  assumes "first_error f i xs = None" and "x \<in> set xs"
  shows "\<exists>k. f k x = None"
  using assms by (auto simp: first_error_None_iff in_set_conv_nth)

section \<open>Results\<close>

text \<open>
  A computation that throws is a sum: \<open>Inl\<close> the error, \<open>Inr\<close> the value. Sequencing
  stops at the first error.
\<close>

definition and_then :: "'e + 'a \<Rightarrow> ('a \<Rightarrow> 'e + 'b) \<Rightarrow> 'e + 'b" where
  "and_then r f = (case r of Inl e \<Rightarrow> Inl e | Inr x \<Rightarrow> f x)"

definition require :: "bool \<Rightarrow> 'e \<Rightarrow> 'e + unit" where
  "require b e = (if b then Inr () else Inl e)"

fun opt_all :: "('a \<Rightarrow> bool) \<Rightarrow> 'a option \<Rightarrow> bool" where
  "opt_all P None = True"
| "opt_all P (Some x) = P x"

text \<open>A check that returns its first error, as a statement.\<close>

definition no_error :: "'e option \<Rightarrow> 'e + unit" where
  "no_error r = (case r of None \<Rightarrow> Inr () | Some e \<Rightarrow> Inl e)"

text \<open>\<open>xs.map((x, index) => f(index, x))\<close> with a function that may throw.\<close>

fun map_indexed :: "(nat \<Rightarrow> 'a \<Rightarrow> 'e + 'b) \<Rightarrow> nat \<Rightarrow> 'a list \<Rightarrow> 'e + 'b list" where
  "map_indexed f i [] = Inr []"
| "map_indexed f i (x # xs) = and_then (f i x) (\<lambda>y. and_then (map_indexed f (Suc i) xs) (\<lambda>ys. Inr (y # ys)))"

lemma and_then_Inr_iff [simp]: "and_then r f = Inr y \<longleftrightarrow> (\<exists>x. r = Inr x \<and> f x = Inr y)"
  by (cases r) (simp_all add: and_then_def)

lemma and_then_Inr [simp]: "and_then (Inr x) f = f x"
  by (simp add: and_then_def)

lemma and_then_Inl [simp]: "and_then (Inl e) f = Inl e"
  by (simp add: and_then_def)

lemma and_then_Inl_iff: "and_then r f = Inl e \<longleftrightarrow> r = Inl e \<or> (\<exists>x. r = Inr x \<and> f x = Inl e)"
  by (cases r) (simp_all add: and_then_def)

lemma and_then_cong [fundef_cong]:
  "r = r' \<Longrightarrow> (\<And>x. r' = Inr x \<Longrightarrow> f x = g x) \<Longrightarrow> and_then r f = and_then r' g"
  by (cases r') (simp_all add: and_then_def)

lemma require_Inr_iff [simp]: "require b e = Inr u \<longleftrightarrow> b"
  by (simp add: require_def)

lemma require_Inl_iff [simp]: "require b e = Inl e' \<longleftrightarrow> \<not> b \<and> e' = e"
  by (auto simp: require_def)

lemma no_error_iff [simp]: "no_error r = Inr u \<longleftrightarrow> r = None" "no_error r = Inl e \<longleftrightarrow> r = Some e"
  by (auto simp: no_error_def split: option.splits)

lemma map_indexed_Inr:
  "map_indexed f i xs = Inr ys \<Longrightarrow> length ys = length xs \<and> (\<forall>k < length xs. f (i + k) (xs ! k) = Inr (ys ! k))"
  by (induction f i xs arbitrary: ys rule: map_indexed.induct) (fastforce simp: nth_Cons split: nat.splits)+

lemma map_indexed_all:
  "map_indexed f i xs = Inr ys \<Longrightarrow> (\<And>k x y. f k x = Inr y \<Longrightarrow> P x y) \<Longrightarrow> list_all2 P xs ys"
  by (induction f i xs arbitrary: ys rule: map_indexed.induct) auto

lemma map_indexed_same:
  "(\<And>k x. x \<in> set xs \<Longrightarrow> f k (g x) = Inr x) \<Longrightarrow> map_indexed f i (map g xs) = Inr xs"
  by (induction xs arbitrary: i) auto

section \<open>JavaScript Map objects\<close>

type_synonym ('k, 'v) jsmap = "('k \<times> 'v) list"

abbreviation map_get :: "('k, 'v) jsmap \<Rightarrow> 'k \<Rightarrow> 'v option" where
  "map_get \<equiv> map_of"

abbreviation map_set :: "'k \<Rightarrow> 'v \<Rightarrow> ('k, 'v) jsmap \<Rightarrow> ('k, 'v) jsmap" where
  "map_set \<equiv> AList.update"

abbreviation map_delete :: "'k \<Rightarrow> ('k, 'v) jsmap \<Rightarrow> ('k, 'v) jsmap" where
  "map_delete \<equiv> AList.delete"

abbreviation map_wf :: "('k, 'v) jsmap \<Rightarrow> bool" where
  "map_wf m \<equiv> distinct (map fst m)"

lemma map_get_set [simp]: "map_get (map_set k v m) k' = (if k' = k then Some v else map_get m k')"
  by (simp add: update_conv')

lemma map_get_delete [simp]: "map_get (map_delete k m) k' = (if k' = k then None else map_get m k')"
  by (simp add: delete_conv')

lemma map_wf_set [simp]: "map_wf m \<Longrightarrow> map_wf (map_set k v m)"
  by (rule distinct_update)

lemma map_wf_delete [simp]: "map_wf m \<Longrightarrow> map_wf (map_delete k m)"
  by (rule distinct_delete)

lemma map_get_in_set: "map_wf m \<Longrightarrow> (k, v) \<in> set m \<longleftrightarrow> map_get m k = Some v"
  by (simp add: map_of_eq_Some_iff)

lemma map_set_fresh: "map_get m k = None \<Longrightarrow> map_set k v m = m @ [(k, v)]"
  by (induction m) (auto split: if_splits)

lemma length_map_set: "length (map_set k v m) = (if map_get m k = None then Suc (length m) else length m)"
  by (induction m) auto

section \<open>Distinct counting\<close>

text \<open>\<open>new Set(xs).size\<close> counts the distinct elements of \<open>xs\<close>.\<close>

definition set_size :: "'a list \<Rightarrow> nat" where
  "set_size xs = length (remdups xs)"

text \<open>\<open>[...new Set(xs)]\<close>: each value at its first occurrence.\<close>

definition unique :: "'a list \<Rightarrow> 'a list" where
  "unique xs = rev (remdups (rev xs))"

lemma set_unique [simp]: "set (unique xs) = set xs"
  by (simp add: unique_def)

lemma distinct_unique [simp]: "distinct (unique xs)"
  by (simp add: unique_def)

lemma set_size_card: "set_size xs = card (set xs)"
  by (simp add: set_size_def length_remdups_card_conv)

lemma set_size_length_iff: "set_size xs = length xs \<longleftrightarrow> distinct xs"
  by (simp add: set_size_def length_remdups_eq)

end
