(* ===== verification/JsValue.thy ===== *)
theory JsValue
  imports Complex_Main "HOL-Library.Log_Nat" Prelude
begin

text \<open>
  JavaScript values as the code handles them: parsed JSON plus \<open>undefined\<close> (the result
  of reading an absent property) and BigInt. A number is a double: NaN, an infinity, or a
  finite value, written as the rational it denotes. An object is its list of own
  properties in enumeration order; a well-formed object has distinct keys (\<open>js_wf\<close>).
  Strings are sequences of code units below 256.

  The section on equality models \<open>===\<close> and the equality of \<open>Array.includes\<close> between
  values of two different documents: distinct objects and arrays are distinct references.
\<close>

section \<open>Numbers\<close>

datatype jsnum = NaN | NegInf | PosInf | Fin rat

definition num_of_nat :: "nat \<Rightarrow> jsnum" where
  "num_of_nat n = Fin (of_nat n)"

definition num_of_int :: "int \<Rightarrow> jsnum" where
  "num_of_int n = Fin (of_int n)"

fun num_lt :: "jsnum \<Rightarrow> jsnum \<Rightarrow> bool" where
  "num_lt NaN _ = False"
| "num_lt _ NaN = False"
| "num_lt (Fin a) (Fin b) = (a < b)"
| "num_lt NegInf b = (b \<noteq> NegInf)"
| "num_lt a PosInf = (a \<noteq> PosInf)"
| "num_lt _ _ = False"

fun num_eq :: "jsnum \<Rightarrow> jsnum \<Rightarrow> bool" where
  "num_eq NaN _ = False"
| "num_eq a b = (a = b)"

definition num_le :: "jsnum \<Rightarrow> jsnum \<Rightarrow> bool" where
  "num_le a b \<longleftrightarrow> num_lt a b \<or> num_eq a b"

text \<open>\<open>Number.isInteger\<close>.\<close>

fun num_is_integer :: "jsnum \<Rightarrow> bool" where
  "num_is_integer (Fin q) = (snd (quotient_of q) = 1)"
| "num_is_integer _ = False"

lemma num_is_integer_iff: "num_is_integer x \<longleftrightarrow> (\<exists>k. x = Fin (of_int k))"
proof (cases x)
  case (Fin q)
  have "snd (quotient_of q) = 1 \<longleftrightarrow> (\<exists>k. q = of_int k)"
  proof
    assume "snd (quotient_of q) = 1"
    then have "q = of_int (fst (quotient_of q))"
      by (metis div_by_1 of_int_1 prod.collapse quotient_of_div)
    then show "\<exists>k. q = of_int k" ..
  qed auto
  with Fin show ?thesis by simp
qed auto

lemma num_le_Fin [simp]: "num_le (Fin a) (Fin b) \<longleftrightarrow> a \<le> b"
  by (auto simp: num_le_def)

text \<open>
  Rounding a rational to the nearest double, ties to even: the exponent of the unit in the
  last place is at least \<open>-1074\<close>, and values from \<open>2^1024\<close> on are infinite.
\<close>

definition pow2 :: "int \<Rightarrow> rat" where
  "pow2 k = (if 0 \<le> k then 2 ^ nat k else 1 / 2 ^ nat (- k))"

definition ilog2 :: "rat \<Rightarrow> int" where
  "ilog2 q = (let (n, d) = quotient_of q;
                  k = int (floorlog 2 (nat n)) - int (floorlog 2 (nat d))
              in if pow2 k \<le> q then k else k - 1)"

definition round_half_even :: "rat \<Rightarrow> int" where
  "round_half_even q = (let f = \<lfloor>q\<rfloor>; r = q - of_int f
     in if r < 1 / 2 then f else if 1 / 2 < r then f + 1 else if even f then f else f + 1)"

definition round_pos :: "rat \<Rightarrow> jsnum" where
  "round_pos q = (let u = max (ilog2 q - 52) (- 1074);
                      v = of_int (round_half_even (q / pow2 u)) * pow2 u
                  in if pow2 1024 \<le> v then PosInf else Fin v)"

definition num_neg :: "jsnum \<Rightarrow> jsnum" where
  "num_neg x = (case x of NaN \<Rightarrow> NaN | NegInf \<Rightarrow> PosInf | PosInf \<Rightarrow> NegInf | Fin q \<Rightarrow> Fin (- q))"

definition round_double :: "rat \<Rightarrow> jsnum" where
  "round_double q = (if q = 0 then Fin 0 else if 0 < q then round_pos q else num_neg (round_pos (- q)))"

section \<open>Text to number: \<open>Number(string)\<close>\<close>

text \<open>White space and line terminators removed by \<open>String.trim\<close> (and matched by \<open>\s\<close>).\<close>

definition is_space :: "char \<Rightarrow> bool" where
  "is_space c \<longleftrightarrow> (let n = (of_char c :: nat) in (9 \<le> n \<and> n \<le> 13) \<or> n = 32 \<or> n = 160)"

definition trim :: "string \<Rightarrow> string" where
  "trim s = rev (dropWhile is_space (rev (dropWhile is_space s)))"

definition starts_with :: "string \<Rightarrow> string \<Rightarrow> bool" where
  "starts_with p s \<longleftrightarrow> take (length p) s = p"

text \<open>Character classes of the regular expressions, on code units.\<close>

definition lower_or_digit :: "char \<Rightarrow> bool" where
  "lower_or_digit c \<longleftrightarrow> (let n = (of_char c :: nat) in (97 \<le> n \<and> n \<le> 122) \<or> (48 \<le> n \<and> n \<le> 57))"

definition lower :: "char \<Rightarrow> char" where
  "lower c = (let n = (of_char c :: nat) in if 65 \<le> n \<and> n \<le> 90 then char_of (n + 32) else c)"

definition hex_char :: "char \<Rightarrow> bool" where
  "hex_char c \<longleftrightarrow> (let n = (of_char c :: nat) in (48 \<le> n \<and> n \<le> 57) \<or> (97 \<le> n \<and> n \<le> 102))"

text \<open>\<open>split\<close> at a one-character separator.\<close>

fun split_on :: "char \<Rightarrow> string \<Rightarrow> string list" where
  "split_on c [] = [[]]"
| "split_on c (x # xs) = (if x = c then [] # split_on c xs
     else case split_on c xs of [] \<Rightarrow> [[x]] | p # ps \<Rightarrow> (x # p) # ps)"

definition digit_in_base :: "nat \<Rightarrow> char \<Rightarrow> nat option" where
  "digit_in_base b c = (let n = (of_char c :: nat);
      d = (if 48 \<le> n \<and> n \<le> 57 then n - 48
           else if 97 \<le> n \<and> n \<le> 122 then n - 87
           else if 65 \<le> n \<and> n \<le> 90 then n - 55 else 99)
    in if d < b then Some d else None)"

fun base_digits :: "nat \<Rightarrow> nat \<Rightarrow> string \<Rightarrow> nat option" where
  "base_digits b a [] = Some a"
| "base_digits b a (c # cs) =
     (case digit_in_base b c of None \<Rightarrow> None | Some d \<Rightarrow> base_digits b (a * b + d) cs)"

definition split_digits :: "string \<Rightarrow> string \<times> string" where
  "split_digits s = (takeWhile is_digit s, dropWhile is_digit s)"

text \<open>The exponent part: nothing, or \<open>e\<close>, a sign and at least one digit, up to the end.\<close>

definition parse_exponent :: "string \<Rightarrow> int option" where
  "parse_exponent s = (case s of [] \<Rightarrow> Some 0
     | c # r \<Rightarrow> if c \<noteq> CHR ''e'' \<and> c \<noteq> CHR ''E'' then None
       else let (sg, ds) = (case r of [] \<Rightarrow> (1, [])
                 | x # r' \<Rightarrow> if x = CHR ''-'' then (- 1, r') else if x = CHR ''+'' then (1, r') else (1, r))
            in if ds \<noteq> [] \<and> list_all is_digit ds then Some (sg * int (nat_of_digits ds)) else None)"

definition pow10 :: "int \<Rightarrow> rat" where
  "pow10 k = (if 0 \<le> k then 10 ^ nat k else 1 / 10 ^ nat (- k))"

text \<open>\<open>StrUnsignedDecimalLiteral\<close>: digits, an optional fraction, an optional exponent.\<close>

definition parse_unsigned_decimal :: "string \<Rightarrow> rat option" where
  "parse_unsigned_decimal s = (let (ip, r) = split_digits s;
      (fp, r') = (case r of [] \<Rightarrow> ([], []) | c # cs \<Rightarrow> if c = CHR ''.'' then split_digits cs else ([], r))
    in if ip = [] \<and> fp = [] then None
       else case parse_exponent r' of None \<Rightarrow> None
            | Some e \<Rightarrow> Some (of_nat (nat_of_digits (ip @ fp)) * pow10 (e - int (length fp))))"

definition parse_decimal :: "string \<Rightarrow> jsnum" where
  "parse_decimal s = (if s = ''Infinity'' then PosInf
     else case parse_unsigned_decimal s of None \<Rightarrow> NaN | Some q \<Rightarrow> round_double q)"

definition prefixed_literal :: "nat \<Rightarrow> string \<Rightarrow> jsnum" where
  "prefixed_literal b ds = (if ds = [] then NaN
     else case base_digits b 0 ds of None \<Rightarrow> NaN | Some n \<Rightarrow> round_double (of_nat n))"

definition js_number_of_string :: "string \<Rightarrow> jsnum" where
  "js_number_of_string s0 = (let s = trim s0; p = take 2 s; r = drop 2 s in
     if s = [] then Fin 0
     else if p = ''0x'' \<or> p = ''0X'' then prefixed_literal 16 r
     else if p = ''0o'' \<or> p = ''0O'' then prefixed_literal 8 r
     else if p = ''0b'' \<or> p = ''0B'' then prefixed_literal 2 r
     else if hd s = CHR ''-'' then num_neg (parse_decimal (tl s))
     else if hd s = CHR ''+'' then parse_decimal (tl s)
     else parse_decimal s)"

section \<open>Values\<close>

datatype jsval =
    Undefined
  | Null
  | Bool bool
  | Num jsnum
  | BigI int
  | Str string
  | Arr "jsval list"
  | Obj "(string \<times> jsval) list"

fun is_record :: "jsval \<Rightarrow> bool" where
  "is_record (Obj _) = True"
| "is_record _ = False"

fun is_array :: "jsval \<Rightarrow> bool" where
  "is_array (Arr _) = True"
| "is_array _ = False"

fun is_string :: "jsval \<Rightarrow> bool" where
  "is_string (Str _) = True"
| "is_string _ = False"

fun elements :: "jsval \<Rightarrow> jsval list" where
  "elements (Arr xs) = xs"
| "elements _ = []"

fun entries :: "jsval \<Rightarrow> (string \<times> jsval) list" where
  "entries (Obj kvs) = kvs"
| "entries _ = []"

definition object_keys :: "jsval \<Rightarrow> string list" where
  "object_keys v = map fst (entries v)"

text \<open>
  \<open>v.k\<close> for a record \<open>v\<close>; every property name the code reads this way is a fixed
  literal that no built-in prototype defines.
\<close>

fun js_get :: "jsval \<Rightarrow> string \<Rightarrow> jsval" where
  "js_get (Obj kvs) k = (case map_of kvs k of None \<Rightarrow> Undefined | Some v \<Rightarrow> v)"
| "js_get _ _ = Undefined"

text \<open>
  \<open>Object.hasOwn\<close>: an array's own properties are its indices in canonical decimal form
  and \<open>length\<close>.
\<close>

definition array_index :: "string \<Rightarrow> nat option" where
  "array_index k = (if k \<noteq> [] \<and> list_all is_digit k \<and> show_nat (nat_of_digits k) = k
                    then Some (nat_of_digits k) else None)"

fun has_own :: "jsval \<Rightarrow> string \<Rightarrow> bool" where
  "has_own (Obj kvs) k = (k \<in> fst ` set kvs)"
| "has_own (Arr xs) k = (k = ''length'' \<or> (case array_index k of Some i \<Rightarrow> i < length xs | None \<Rightarrow> False))"
| "has_own _ _ = False"

fun own_value :: "jsval \<Rightarrow> string \<Rightarrow> jsval" where
  "own_value (Obj kvs) k = js_get (Obj kvs) k"
| "own_value (Arr xs) k = (if k = ''length'' then Num (num_of_nat (length xs))
     else case array_index k of Some i \<Rightarrow> (if i < length xs then xs ! i else Undefined) | None \<Rightarrow> Undefined)"
| "own_value _ _ = Undefined"

fun js_wf :: "jsval \<Rightarrow> bool" where
  "js_wf (Arr xs) = list_all js_wf xs"
| "js_wf (Obj kvs) = (distinct (map fst kvs) \<and> list_all (\<lambda>(k, v). js_wf v) kvs)"
| "js_wf _ = True"

lemma array_index_show [simp]: "array_index (show_nat i) = Some i"
  by (simp add: array_index_def show_nat_digits)

lemma is_recordE: "is_record v \<Longrightarrow> (\<And>kvs. v = Obj kvs \<Longrightarrow> P) \<Longrightarrow> P"
  by (cases v) auto

lemma is_stringE: "is_string v \<Longrightarrow> (\<And>s. v = Str s \<Longrightarrow> P) \<Longrightarrow> P"
  by (cases v) auto

lemma js_get_not_record [simp]: "\<not> is_record v \<Longrightarrow> js_get v k = Undefined"
  by (cases v) auto

lemma js_get_Str_record: "js_get v k = Str s \<Longrightarrow> is_record v"
  by (cases v) auto

lemma has_own_js_get: "is_record v \<Longrightarrow> js_get v k \<noteq> Undefined \<Longrightarrow> has_own v k"
  by (cases v) (auto simp: rev_image_eqI split: option.splits dest!: map_of_SomeD)

section \<open>Equality\<close>

fun strict_eq :: "jsval \<Rightarrow> jsval \<Rightarrow> bool" where
  "strict_eq Undefined Undefined = True"
| "strict_eq Null Null = True"
| "strict_eq (Bool a) (Bool b) = (a = b)"
| "strict_eq (Num a) (Num b) = num_eq a b"
| "strict_eq (BigI a) (BigI b) = (a = b)"
| "strict_eq (Str a) (Str b) = (a = b)"
| "strict_eq _ _ = False"

definition same_value_zero :: "jsval \<Rightarrow> jsval \<Rightarrow> bool" where
  "same_value_zero a b \<longleftrightarrow> strict_eq a b \<or> (a = Num NaN \<and> b = Num NaN)"

fun truthy :: "jsval \<Rightarrow> bool" where
  "truthy Undefined = False"
| "truthy Null = False"
| "truthy (Bool b) = b"
| "truthy (Num x) = (x \<noteq> NaN \<and> x \<noteq> Fin 0)"
| "truthy (BigI n) = (n \<noteq> 0)"
| "truthy (Str s) = (s \<noteq> [])"
| "truthy _ = True"

definition array_includes :: "jsval \<Rightarrow> jsval \<Rightarrow> bool" where
  "array_includes a x \<longleftrightarrow> list_ex (\<lambda>y. same_value_zero y x) (elements a)"

section \<open>Shape checks shared by the validators\<close>

text \<open>\<open>firstUnexpectedKey\<close>: the first own key that the allow-list lacks.\<close>

definition firstUnexpectedKey :: "jsval \<Rightarrow> string list \<Rightarrow> string option" where
  "firstUnexpectedKey v allowed = List.find (\<lambda>k. k \<notin> set allowed) (object_keys v)"

definition hasUnexpectedKeys :: "jsval \<Rightarrow> string list \<Rightarrow> bool" where
  "hasUnexpectedKeys v allowed = list_ex (\<lambda>k. k \<notin> set allowed) (object_keys v)"

lemma firstUnexpectedKey_None_iff: "firstUnexpectedKey v allowed = None \<longleftrightarrow> set (object_keys v) \<subseteq> set allowed"
  by (auto simp: firstUnexpectedKey_def find_None_iff)

lemma hasUnexpectedKeys_iff: "hasUnexpectedKeys v allowed \<longleftrightarrow> \<not> set (object_keys v) \<subseteq> set allowed"
  by (auto simp: hasUnexpectedKeys_def list_ex_iff)

end
