(* ===== verification/MpasTypes.thy ===== *)
theory MpasTypes
  imports JsValue
begin

text \<open>
  Protocol types of \<open>sdk/protocol/src/types/mpas.ts\<close> and of the verification module that
  several components share. Protocol artifacts (Action Package, Action Envelope, Approval,
  Execution Payload) stay JSON values: the code validates, hashes and forwards them as such.
  The fields that the code reads after validation are the accessors below.
\<close>

type_synonym did = string

type_synonym timestamp = string

datatype decision = Propose | Approve | Reject | Abstain

fun decision_text :: "decision \<Rightarrow> string" where
  "decision_text Propose = ''propose''"
| "decision_text Approve = ''approve''"
| "decision_text Reject = ''reject''"
| "decision_text Abstain = ''abstain''"

definition decision_of_text :: "string \<Rightarrow> decision option" where
  "decision_of_text s = (if s = ''propose'' then Some Propose else if s = ''approve'' then Some Approve
     else if s = ''reject'' then Some Reject else if s = ''abstain'' then Some Abstain else None)"

fun decision_of :: "jsval \<Rightarrow> decision option" where
  "decision_of (Str s) = decision_of_text s"
| "decision_of _ = None"

lemma decision_of_text_Some_iff: "decision_of_text s = Some d \<longleftrightarrow> s = decision_text d"
  by (cases d) (auto simp: decision_of_text_def)

lemma decision_of_Some_iff: "decision_of v = Some d \<longleftrightarrow> v = Str (decision_text d)"
  by (cases v) (auto simp: decision_of_text_Some_iff)

lemma decision_text_inject [simp]: "decision_text a = decision_text b \<longleftrightarrow> a = b"
  by (cases a; cases b) simp_all

record hash_object =
  hash_alg :: string
  hash_value :: string

definition hash_json :: "hash_object \<Rightarrow> jsval" where
  "hash_json h = Obj [(''alg'', Str (hash_alg h)), (''value'', Str (hash_value h))]"

section \<open>Reading typed fields of a validated artifact\<close>

fun text_of :: "jsval \<Rightarrow> string" where
  "text_of (Str s) = s"
| "text_of _ = []"

fun text_opt :: "jsval \<Rightarrow> string option" where
  "text_opt (Str s) = Some s"
| "text_opt _ = None"

definition hash_of :: "jsval \<Rightarrow> hash_object" where
  "hash_of v = \<lparr>hash_alg = text_of (js_get v ''alg''), hash_value = text_of (js_get v ''value'')\<rparr>"

definition actionEnvelope :: "jsval \<Rightarrow> jsval" where
  "actionEnvelope pkg = js_get pkg ''actionEnvelope''"

definition executionPayload :: "jsval \<Rightarrow> jsval" where
  "executionPayload pkg = js_get pkg ''executionPayload''"

definition approvalBundle :: "jsval \<Rightarrow> jsval" where
  "approvalBundle pkg = js_get pkg ''approvalBundle''"

definition proposer_did :: "jsval \<Rightarrow> did" where
  "proposer_did env = text_of (js_get (js_get env ''proposer'') ''did'')"

definition application_did :: "jsval \<Rightarrow> did" where
  "application_did env = text_of (js_get (js_get env ''target'') ''applicationDid'')"

record action_id =
  aid_value :: string
  aid_scope :: "string option"

definition action_id_of :: "jsval \<Rightarrow> action_id" where
  "action_id_of env = \<lparr>aid_value = text_of (js_get (js_get env ''actionId'') ''value''),
     aid_scope = text_opt (js_get (js_get env ''actionId'') ''scope'')\<rparr>"

lemma hash_of_json [simp]: "hash_of (hash_json h) = h"
  by (simp add: hash_of_def hash_json_def)

section \<open>Verified approvals\<close>

record verified_approval =
  va_approval :: jsval
  va_signerDid :: did
  va_decision :: decision
  va_createdAt :: timestamp

record verified_approvals =
  vas_actionEnvelopeHash :: hash_object
  vas_approvals :: "verified_approval list"

section \<open>The host\<close>

text \<open>
  What the code obtains from third-party packages and the platform: JCS canonicalization
  (\<open>json-canonicalize\<close>), SHA-256 with base64url output (\<open>node:crypto\<close>),
  \<open>Date.parse\<close> of texts that are not MPAS time stamps, and the URL parser: the
  \<open>origin\<close> and \<open>protocol\<close> of \<open>new URL(text)\<close>, or nothing where it throws.
\<close>

record host =
  jcs :: "jsval \<Rightarrow> string"
  sha256 :: "string \<Rightarrow> string"
  legacy_date :: "string \<Rightarrow> int option"
  url_parse :: "string \<Rightarrow> (string \<times> string) option"

text \<open>\<open>computeJsonHash\<close> and \<open>verifyJsonHash\<close> (\<open>utils/hash.ts\<close>).\<close>

definition computeJsonHash :: "('a) host_scheme \<Rightarrow> jsval \<Rightarrow> hash_object" where
  "computeJsonHash H v = \<lparr>hash_alg = ''sha-256'', hash_value = sha256 H (jcs H v)\<rparr>"

definition verifyJsonHash :: "('a) host_scheme \<Rightarrow> jsval \<Rightarrow> hash_object \<Rightarrow> bool" where
  "verifyJsonHash H v expected = (if hash_alg expected \<noteq> ''sha-256'' then False
     else (let actual = computeJsonHash H v
           in hash_alg actual = hash_alg expected \<and> hash_value actual = hash_value expected))"

definition hashesEqual :: "hash_object \<Rightarrow> hash_object \<Rightarrow> bool" where
  "hashesEqual left right \<longleftrightarrow> hash_alg left = hash_alg right \<and> hash_value left = hash_value right"

lemma hashesEqual_iff [simp]: "hashesEqual a b \<longleftrightarrow> a = b"
  by (auto simp: hashesEqual_def)

lemma verifyJsonHash_iff: "verifyJsonHash H v h \<longleftrightarrow> h = computeJsonHash H v"
  by (auto simp: verifyJsonHash_def computeJsonHash_def)

end
