(* ===== verification/PolicyEngine.thy ===== *)
theory PolicyEngine
  imports MpasTypes
begin

text \<open>
  The JSON verifier policy engine, \<open>sdk/protocol/src/lib/policy-engine.ts\<close>.

  \<^item> The deployment policy arrives as JSON: \<open>validatePolicyConfig\<close> and its helpers check
    the raw value and return the first error message; \<open>policy_of\<close> is the cast to the
    typed policy that the code performs after a successful check.
  \<^item> \<open>evaluatePolicy\<close> works on the typed policy, the JSON package and the verified
    approvals. Exceptions are values: an unparseable number is caught and becomes a
    malformed result, a \<open>TypeError\<close> (a condition without a path) leaves the function.
  \<^item> \<open>req_holds\<close> is the abstract meaning of a requirement: a predicate on the set of
    pairs of signer and decision. \<open>evaluateRequirement_refines\<close> connects the two.
\<close>

section \<open>Types\<close>

record threshold_requirement =
  tr_threshold :: jsnum
  tr_eligibleSignerGroup :: "string option"
  tr_eligibleSigners :: "did list option"
  tr_decision :: "decision option"
  tr_description :: "string option"

datatype requirement =
    ProposerOnly
  | Threshold threshold_requirement
  | AllOf "requirement list"
  | AnyOf "requirement list"

datatype condition_source = ExecutionPayload | ActionEnvelope

datatype condition_op = Eq | Neq | In | NotIn | Gt | Gte | Lt | Lte | Exists | NotExists | Contains | Prefix

text \<open>\<open>pc_path\<close> is \<open>None\<close> where the JSON condition has no string \<open>path\<close>.\<close>

record policy_condition =
  pc_source :: condition_source
  pc_path :: "string option"
  pc_op :: condition_op
  pc_value :: jsval

record policy_entry_base =
  pe_description :: "string option"
  pe_conditions :: "policy_condition list option"

datatype policy_entry =
    RequirementPolicyEntry policy_entry_base requirement
  | RejectPolicyEntry policy_entry_base

record policy_config =
  defaultRequirement :: requirement
  policies :: "(string \<times> policy_entry list) list option"
  signerGroups :: "(string \<times> did list) list option"

record unsatisfied_threshold =
  us_requirement :: threshold_requirement
  us_requiredRole :: string
  us_requiredDecision :: decision
  us_threshold :: jsnum
  us_found :: nat
  us_eligibleSigners :: "did list"

text \<open>The exceptions of condition evaluation.\<close>

datatype condition_error =
    UnparseableNumericValue policy_condition jsval
  | PathTypeError

datatype reject_code = ACTION_BLOCKED_BY_POLICY | CONFLICTING_SIGNER_DECISIONS

text \<open>
  The message of a malformed result is the text of its error, which is determined by the
  error's arguments.
\<close>

datatype policy_result =
    Satisfied
  | Rejected reject_code string
  | AdditionalApprovalsRequired "unsatisfied_threshold list"
  | Malformed condition_error

datatype proposer_gate_result = Allowed | ProposerNotAuthorized string

fun entry_base :: "policy_entry \<Rightarrow> policy_entry_base" where
  "entry_base (RequirementPolicyEntry b _) = b"
| "entry_base (RejectPolicyEntry b) = b"

fun is_reject :: "policy_entry \<Rightarrow> bool" where
  "is_reject (RejectPolicyEntry _) = True"
| "is_reject _ = False"

section \<open>Validation of the raw policy\<close>

fun all_texts :: "jsval list \<Rightarrow> string list option" where
  "all_texts [] = Some []"
| "all_texts (Str s # vs) = map_option (Cons s) (all_texts vs)"
| "all_texts (_ # vs) = None"

definition isDidArray :: "jsval \<Rightarrow> bool" where
  "isDidArray value \<longleftrightarrow> is_array value \<and> elements value \<noteq> [] \<and>
     (case all_texts (elements value) of None \<Rightarrow> False
      | Some ds \<Rightarrow> list_all (\<lambda>d. d \<noteq> []) ds \<and> set_size ds = length ds)"

definition CONDITION_OPERATORS :: "(string \<times> condition_op) list" where
  "CONDITION_OPERATORS = [(''eq'', Eq), (''neq'', Neq), (''in'', In), (''notIn'', NotIn), (''gt'', Gt),
     (''gte'', Gte), (''lt'', Lt), (''lte'', Lte), (''exists'', Exists), (''notExists'', NotExists),
     (''contains'', Contains), (''prefix'', Prefix)]"

definition op_of :: "jsval \<Rightarrow> condition_op option" where
  "op_of v = (case v of Str s \<Rightarrow> map_of CONDITION_OPERATORS s | _ \<Rightarrow> None)"

lemma size_elements_get:
  "x \<in> set (elements (js_get v k)) \<Longrightarrow> size x < size v"
proof (cases v)
  case (Obj kvs)
  assume x: "x \<in> set (elements (js_get v k))"
  with Obj obtain w where w: "map_of kvs k = Some w" "x \<in> set (elements w)"
    by (auto split: option.splits)
  then have "(k, w) \<in> set kvs" by (blast dest: map_of_SomeD)
  then have "size w < size v" using Obj by (induction kvs arbitrary: v) fastforce+
  moreover have "size x < size w" using w(2) by (cases w) (auto dest: size_list_estimation' [OF _ order_refl, of _ _ size] simp: less_Suc_eq_le)
  ultimately show ?thesis by simp
qed auto

definition threshold_error :: "jsval \<Rightarrow> jsval \<Rightarrow> string \<Rightarrow> string option" where
  "threshold_error requirement groups path =
    (let thr = js_get requirement ''threshold'';
         grp = js_get requirement ''eligibleSignerGroup'';
         hasGroup = (case grp of Str s \<Rightarrow> s \<noteq> [] | _ \<Rightarrow> False);
         hasSigners = isDidArray (js_get requirement ''eligibleSigners'');
         dec = js_get requirement ''decision''; desc = js_get requirement ''description''
     in if hasUnexpectedKeys requirement
           [''type'', ''threshold'', ''eligibleSignerGroup'', ''eligibleSigners'', ''decision'', ''description'']
        then Some (path @ ''.threshold has unsupported fields.'')
        else if \<not> (case thr of Num n \<Rightarrow> num_is_integer n \<and> \<not> num_lt n (Fin 1) | _ \<Rightarrow> False)
        then Some (path @ ''.threshold must be a positive integer.'')
        else if hasGroup = hasSigners
        then Some (path @ '' must define exactly one of eligibleSignerGroup or eligibleSigners.'')
        else if hasGroup \<and> \<not> has_own groups (text_of grp)
        then Some (path @ ''.eligibleSignerGroup does not exist in signerGroups.'')
        else if dec = Str ''reject'' \<or>
          (dec \<noteq> Undefined \<and> dec \<notin> {Str ''approve'', Str ''propose'', Str ''abstain''})
        then Some (path @ ''.decision is invalid.'')
        else if desc \<noteq> Undefined \<and> \<not> is_string desc
        then Some (path @ ''.description must be a string.'')
        else None)"

function validateRequirement :: "jsval \<Rightarrow> jsval \<Rightarrow> string \<Rightarrow> string option" where
  "validateRequirement requirement groups path =
    (if \<not> is_record requirement \<or> \<not> is_string (js_get requirement ''type'')
     then Some (path @ '' must be an approval requirement object.'')
     else let type = text_of (js_get requirement ''type'') in
       if type = ''proposerOnly'' then
         (if length (object_keys requirement) = 1 then None
          else Some (path @ ''.proposerOnly has unsupported fields.''))
       else if type = ''threshold'' then threshold_error requirement groups path
       else if type = ''allOf'' \<or> type = ''anyOf'' then
         (let reqs = js_get requirement ''requirements'' in
          if hasUnexpectedKeys requirement [''type'', ''requirements'']
          then Some (path @ ''.'' @ type @ '' has unsupported fields.'')
          else if \<not> is_array reqs \<or> elements reqs = []
          then Some (path @ ''.requirements must be a non-empty array.'')
          else first_error (\<lambda>index nested. validateRequirement nested groups
                 (path @ ''.requirements['' @ show_nat index @ '']'')) 0 (elements reqs))
       else Some (path @ ''.type is invalid.''))"
  by pat_completeness auto
termination
  by (relation "measure (\<lambda>(r, g, p). size r)") (auto dest: size_elements_get)

declare validateRequirement.simps [simp del]

definition condition_shape_error :: "string \<Rightarrow> nat \<Rightarrow> jsval \<Rightarrow> string option" where
  "condition_shape_error path index condition =
    (let loc = path @ ''.conditions['' @ show_nat index @ '']'';
         src = js_get condition ''source''; oper = js_get condition ''op''
     in if \<not> is_record condition then Some (loc @ '' must be an object.'')
        else if hasUnexpectedKeys condition [''source'', ''path'', ''op'', ''value'']
        then Some (loc @ '' has unsupported fields.'')
        else if src \<noteq> Str ''executionPayload'' \<and> src \<noteq> Str ''actionEnvelope''
        then Some (loc @ ''.source is invalid.'')
        else if op_of oper = None then Some (loc @ ''.op is invalid.'')
        else if oper \<noteq> Str ''exists'' \<and> oper \<noteq> Str ''notExists'' \<and> \<not> is_string (js_get condition ''path'')
        then Some (loc @ ''.path is required.'')
        else None)"

definition validateMatch :: "jsval \<Rightarrow> string \<Rightarrow> string option" where
  "validateMatch value path =
    (if value = Undefined then None
     else if \<not> is_record value then Some (path @ '' must be an object.'')
     else if hasUnexpectedKeys value [''conditions''] then Some (path @ '' has unsupported fields.'')
     else let conds = js_get value ''conditions'' in
       if conds \<noteq> Undefined \<and> \<not> is_array conds then Some (path @ ''.conditions must be an array.'')
       else first_error (condition_shape_error path) 0 (elements conds))"

definition validatePolicyEntry :: "jsval \<Rightarrow> jsval \<Rightarrow> string \<Rightarrow> string option" where
  "validatePolicyEntry entry groups path =
    (let rej = js_get entry ''reject''; isReject = (rej = Bool True);
         hasRequirements = has_own entry ''requirements'';
         desc = js_get entry ''description''; ctx = js_get entry ''context''
     in if \<not> is_record entry then Some (path @ '' must be an object.'')
        else if hasUnexpectedKeys entry [''reject'', ''description'', ''match'', ''requirements'', ''context'']
        then Some (path @ '' has unsupported fields.'')
        else if isReject = hasRequirements
        then Some (path @ '' must contain either reject: true or requirements, but not both.'')
        else if rej \<noteq> Undefined \<and> rej \<noteq> Bool True \<and> rej \<noteq> Bool False
        then Some (path @ ''.reject must be a boolean.'')
        else if desc \<noteq> Undefined \<and> \<not> is_string desc
        then Some (path @ ''.description must be a string.'')
        else if ctx \<noteq> Undefined \<and> \<not> is_record ctx
        then Some (path @ ''.context must be an object.'')
        else case (if \<not> isReject
                   then validateRequirement (js_get entry ''requirements'') groups (path @ ''.requirements'')
                   else None) of
               Some requirementError \<Rightarrow> Some requirementError
             | None \<Rightarrow> validateMatch (js_get entry ''match'') (path @ ''.match''))"

definition validatePolicyConfig :: "jsval \<Rightarrow> string option" where
  "validatePolicyConfig policy =
    (let groups = js_get policy ''signerGroups''; ctx = js_get policy ''context'';
         pols = js_get policy ''policies''
     in if \<not> is_record policy \<or> \<not> is_record groups then Some ''Policy must define signerGroups.''
        else if ctx \<noteq> Undefined \<and> \<not> is_record ctx then Some ''Policy context must be an object.''
        else if \<not> isDidArray (js_get groups ''all'')
        then Some ''Policy signerGroups.all must be a non-empty array of unique DIDs.''
        else case first_error (\<lambda>_ (groupName, signers). if isDidArray signers then None
               else Some (''Policy signerGroups.'' @ groupName @ '' must be a non-empty array of unique DIDs.''))
               0 (entries groups) of Some e \<Rightarrow> Some e
        | None \<Rightarrow>
          (case validateRequirement (js_get policy ''defaultRequirement'') groups ''defaultRequirement'' of
             Some defaultError \<Rightarrow> Some defaultError
           | None \<Rightarrow>
              if pols = Undefined then None
              else if \<not> is_record pols then Some ''Policy policies must be an object keyed by operation name.''
              else first_error (\<lambda>_ (operation, ents).
                     if \<not> is_array ents then Some (''Policy policies.'' @ operation @ '' must be an array.'')
                     else first_error (\<lambda>index entry. validatePolicyEntry entry groups
                            (''policies.'' @ operation @ ''['' @ show_nat index @ '']'')) 0 (elements ents))
                   0 (entries pols)))"

section \<open>The typed policy\<close>

text \<open>
  The cast of the validated JSON to \<open>PolicyConfig\<close>; \<open>None\<close> where a field does not have
  its declared type.
\<close>

fun opt_text :: "jsval \<Rightarrow> string option option" where
  "opt_text Undefined = Some None"
| "opt_text (Str s) = Some (Some s)"
| "opt_text _ = None"

fun opt_texts :: "jsval \<Rightarrow> string list option option" where
  "opt_texts Undefined = Some None"
| "opt_texts (Arr vs) = map_option Some (all_texts vs)"
| "opt_texts _ = None"

fun all_some :: "'a option list \<Rightarrow> 'a list option" where
  "all_some [] = Some []"
| "all_some (None # xs) = None"
| "all_some (Some x # xs) = map_option (Cons x) (all_some xs)"

definition opt_decision :: "jsval \<Rightarrow> decision option option" where
  "opt_decision v = (if v = Undefined then Some None else map_option Some (decision_of v))"

definition threshold_of :: "jsval \<Rightarrow> threshold_requirement option" where
  "threshold_of v =
    (case (js_get v ''threshold'', opt_text (js_get v ''eligibleSignerGroup''),
           opt_texts (js_get v ''eligibleSigners''), opt_decision (js_get v ''decision''),
           opt_text (js_get v ''description'')) of
       (Num n, Some g, Some sg, Some d, Some ds) \<Rightarrow>
          Some \<lparr>tr_threshold = n, tr_eligibleSignerGroup = g, tr_eligibleSigners = sg,
                tr_decision = d, tr_description = ds\<rparr>
     | _ \<Rightarrow> None)"

function requirement_of :: "jsval \<Rightarrow> requirement option" where
  "requirement_of v =
    (let ty = js_get v ''type'' in
     if ty = Str ''proposerOnly'' then Some ProposerOnly
     else if ty = Str ''threshold'' then map_option Threshold (threshold_of v)
     else if ty = Str ''allOf'' then
       map_option AllOf (all_some (map requirement_of (elements (js_get v ''requirements''))))
     else if ty = Str ''anyOf'' then
       map_option AnyOf (all_some (map requirement_of (elements (js_get v ''requirements''))))
     else None)"
  by pat_completeness auto
termination
  by (relation "measure size") (auto dest: size_elements_get)

declare requirement_of.simps [simp del]

definition condition_of :: "jsval \<Rightarrow> policy_condition option" where
  "condition_of v = (case op_of (js_get v ''op'') of None \<Rightarrow> None
     | Some oper \<Rightarrow> Some \<lparr>pc_source = (if js_get v ''source'' = Str ''actionEnvelope'' then ActionEnvelope
                                       else ExecutionPayload),
                        pc_path = text_opt (js_get v ''path''), pc_op = oper, pc_value = js_get v ''value''\<rparr>)"

definition conditions_of :: "jsval \<Rightarrow> policy_condition list option option" where
  "conditions_of m = (let cs = js_get m ''conditions'' in
     if cs = Undefined then Some None else map_option Some (all_some (map condition_of (elements cs))))"

definition entry_of :: "jsval \<Rightarrow> policy_entry option" where
  "entry_of v =
    (case (opt_text (js_get v ''description''), conditions_of (js_get v ''match'')) of
       (Some d, Some cs) \<Rightarrow>
         (let base = \<lparr>pe_description = d, pe_conditions = cs\<rparr> in
          if js_get v ''reject'' = Bool True then Some (RejectPolicyEntry base)
          else map_option (RequirementPolicyEntry base) (requirement_of (js_get v ''requirements'')))
     | _ \<Rightarrow> None)"

definition group_of :: "string \<times> jsval \<Rightarrow> (string \<times> did list) option" where
  "group_of kv = map_option (Pair (fst kv)) (all_texts (elements (snd kv)))"

definition operation_entries_of :: "string \<times> jsval \<Rightarrow> (string \<times> policy_entry list) option" where
  "operation_entries_of kv = map_option (Pair (fst kv)) (all_some (map entry_of (elements (snd kv))))"

definition policy_of :: "jsval \<Rightarrow> policy_config option" where
  "policy_of v =
    (case (requirement_of (js_get v ''defaultRequirement''),
           all_some (map operation_entries_of (entries (js_get v ''policies''))),
           all_some (map group_of (entries (js_get v ''signerGroups'')))) of
       (Some d, Some ps, Some gs) \<Rightarrow>
          Some \<lparr>defaultRequirement = d,
                policies = (if js_get v ''policies'' = Undefined then None else Some ps),
                signerGroups = (if js_get v ''signerGroups'' = Undefined then None else Some gs)\<rparr>
     | _ \<Rightarrow> None)"

section \<open>Proposer gating\<close>

definition group_lookup :: "policy_config \<Rightarrow> string \<Rightarrow> did list option" where
  "group_lookup policy g = (case signerGroups policy of None \<Rightarrow> None | Some gs \<Rightarrow> map_of gs g)"

definition checkProposerAuthorization :: "did \<Rightarrow> policy_config \<Rightarrow> proposer_gate_result" where
  "checkProposerAuthorization proposerDid policy =
    (case (case group_lookup policy ''proposers'' of Some ps \<Rightarrow> Some ps | None \<Rightarrow> group_lookup policy ''all'') of
       None \<Rightarrow> ProposerNotAuthorized
         ''Policy defines no allowed proposer set (signerGroups.proposers or signerGroups.all).''
     | Some allowedProposers \<Rightarrow>
         if allowedProposers = [] then ProposerNotAuthorized
           ''Policy defines no allowed proposer set (signerGroups.proposers or signerGroups.all).''
         else if proposerDid \<notin> set allowedProposers then ProposerNotAuthorized
           (''Proposer '' @ proposerDid @ '' is not in the allowed proposer set.'')
         else Allowed)"

section \<open>Conditions\<close>

text \<open>\<open>part.replaceAll("~d", r)\<close> for a two-character pattern.\<close>

fun replace_tilde :: "char \<Rightarrow> char \<Rightarrow> string \<Rightarrow> string" where
  "replace_tilde d r (x # y # xs) = (if x = CHR ''~'' \<and> y = d then r # replace_tilde d r xs
     else x # replace_tilde d r (y # xs))"
| "replace_tilde d r [x] = [x]"
| "replace_tilde d r [] = []"

definition unescape_token :: "string \<Rightarrow> string" where
  "unescape_token part = replace_tilde (CHR ''0'') (CHR ''~'') (replace_tilde (CHR ''1'') (CHR ''/'') part)"

fun follow_path :: "jsval \<Rightarrow> string list \<Rightarrow> jsval" where
  "follow_path current [] = current"
| "follow_path current (part # parts) =
     (if \<not> is_record current \<and> \<not> is_array current then Undefined
      else if \<not> has_own current part then Undefined
      else follow_path (own_value current part) parts)"

definition getJsonPointerValue :: "jsval \<Rightarrow> string \<Rightarrow> jsval" where
  "getJsonPointerValue value pointer =
    (if pointer = [] then value
     else follow_path value (map unescape_token (tl (split_on (CHR ''/'') pointer))))"

definition toNumber :: "jsval \<Rightarrow> policy_condition \<Rightarrow> condition_error + jsnum" where
  "toNumber value condition =
    (case value of
       Num n \<Rightarrow> (case n of Fin q \<Rightarrow> Inr n | _ \<Rightarrow> Inl (UnparseableNumericValue condition value))
     | BigI k \<Rightarrow> Inr (round_double (of_int k))
     | Str s \<Rightarrow> (if trim s \<noteq> [] \<and> js_number_of_string s \<noteq> NaN then Inr (js_number_of_string s)
                 else Inl (UnparseableNumericValue condition value))
     | Undefined \<Rightarrow> Inr NaN
     | _ \<Rightarrow> Inl (UnparseableNumericValue condition value))"

definition compare_numbers ::
    "(jsnum \<Rightarrow> jsnum \<Rightarrow> bool) \<Rightarrow> jsval \<Rightarrow> policy_condition \<Rightarrow> condition_error + bool" where
  "compare_numbers rel actual condition =
    (case toNumber actual condition of Inl e \<Rightarrow> Inl e
     | Inr a \<Rightarrow> (case toNumber (pc_value condition) condition of Inl e \<Rightarrow> Inl e | Inr b \<Rightarrow> Inr (rel a b)))"

definition apply_op :: "policy_condition \<Rightarrow> jsval \<Rightarrow> condition_error + bool" where
  "apply_op condition actual =
    (let value = pc_value condition in
     case pc_op condition of
       Eq \<Rightarrow> Inr (strict_eq actual value)
     | Neq \<Rightarrow> Inr (\<not> strict_eq actual value)
     | In \<Rightarrow> Inr (is_array value \<and> array_includes value actual)
     | NotIn \<Rightarrow> Inr (is_array value \<and> \<not> array_includes value actual)
     | Gt \<Rightarrow> compare_numbers (\<lambda>a b. num_lt b a) actual condition
     | Gte \<Rightarrow> compare_numbers (\<lambda>a b. num_le b a) actual condition
     | Lt \<Rightarrow> compare_numbers num_lt actual condition
     | Lte \<Rightarrow> compare_numbers num_le actual condition
     | Exists \<Rightarrow> Inr (actual \<noteq> Undefined)
     | NotExists \<Rightarrow> Inr (actual = Undefined)
     | Contains \<Rightarrow> Inr (is_array actual \<and> array_includes actual value)
     | Prefix \<Rightarrow> Inr (case (actual, value) of (Str a, Str v) \<Rightarrow> starts_with v a | _ \<Rightarrow> False))"

text \<open>\<open>undefined.split\<close> is the \<open>TypeError\<close> of a condition without a path.\<close>

definition conditionMatches :: "policy_condition \<Rightarrow> jsval \<Rightarrow> condition_error + bool" where
  "conditionMatches condition actionPackage =
    (let source = (case pc_source condition of ActionEnvelope \<Rightarrow> actionEnvelope actionPackage
                   | ExecutionPayload \<Rightarrow> executionPayload actionPackage)
     in case pc_path condition of None \<Rightarrow> Inl PathTypeError
        | Some path \<Rightarrow> apply_op condition (getJsonPointerValue source path))"

fun matchesConditions :: "policy_condition list \<Rightarrow> jsval \<Rightarrow> condition_error + bool" where
  "matchesConditions [] actionPackage = Inr True"
| "matchesConditions (condition # conditions) actionPackage =
     (case conditionMatches condition actionPackage of
        Inl e \<Rightarrow> Inl e
      | Inr False \<Rightarrow> Inr False
      | Inr True \<Rightarrow> matchesConditions conditions actionPackage)"

section \<open>Requirements\<close>

definition resolveEligibleSigners :: "threshold_requirement \<Rightarrow> policy_config \<Rightarrow> did list" where
  "resolveEligibleSigners requirement policy =
    (case tr_eligibleSigners requirement of
       Some (d # ds) \<Rightarrow> d # ds
     | _ \<Rightarrow> (case tr_eligibleSignerGroup requirement of
           None \<Rightarrow> []
         | Some g \<Rightarrow> if g = [] then []
             else (case group_lookup policy g of None \<Rightarrow> [] | Some ds \<Rightarrow> ds)))"

definition unsatisfiableRequirement :: unsatisfied_threshold where
  "unsatisfiableRequirement =
    \<lparr>us_requirement = \<lparr>tr_threshold = Fin 1, tr_eligibleSignerGroup = None, tr_eligibleSigners = None,
        tr_decision = None, tr_description = None\<rparr>,
     us_requiredRole = ''(unsatisfiable requirement)'', us_requiredDecision = Approve,
     us_threshold = Fin 1, us_found = 0, us_eligibleSigners = []\<rparr>"

definition threshold_decision :: "threshold_requirement \<Rightarrow> decision" where
  "threshold_decision requirement = (case tr_decision requirement of None \<Rightarrow> Approve | Some d \<Rightarrow> d)"

definition evaluateThreshold ::
    "threshold_requirement \<Rightarrow> verified_approval list \<Rightarrow> policy_config \<Rightarrow> did \<Rightarrow> unsatisfied_threshold list" where
  "evaluateThreshold requirement approvals policy proposerDid =
    (if num_eq (tr_threshold requirement) (Fin 0) then []
     else let decision = threshold_decision requirement;
              eligibleSigners = resolveEligibleSigners requirement policy;
              found = set_size (map va_signerDid (filter (\<lambda>approval.
                  if va_signerDid approval = proposerDid then False
                  else if va_decision approval \<noteq> decision then False
                  else eligibleSigners \<noteq> [] \<and> va_signerDid approval \<in> set eligibleSigners) approvals))
          in if num_le (tr_threshold requirement) (num_of_nat found) then []
             else [\<lparr>us_requirement = requirement,
                    us_requiredRole = (case tr_eligibleSignerGroup requirement of None \<Rightarrow> ''unknown'' | Some g \<Rightarrow> g),
                    us_requiredDecision = decision, us_threshold = tr_threshold requirement,
                    us_found = found, us_eligibleSigners = eligibleSigners\<rparr>])"

fun evaluateRequirement ::
    "requirement \<Rightarrow> verified_approval list \<Rightarrow> policy_config \<Rightarrow> did \<Rightarrow> unsatisfied_threshold list" where
  "evaluateRequirement ProposerOnly approvals policy proposerDid = []"
| "evaluateRequirement (Threshold requirement) approvals policy proposerDid =
     evaluateThreshold requirement approvals policy proposerDid"
| "evaluateRequirement (AllOf requirements) approvals policy proposerDid =
     concat (map (\<lambda>r. evaluateRequirement r approvals policy proposerDid) requirements)"
| "evaluateRequirement (AnyOf []) approvals policy proposerDid = [unsatisfiableRequirement]"
| "evaluateRequirement (AnyOf (r0 # rs)) approvals policy proposerDid =
     (if list_ex (\<lambda>r. evaluateRequirement r approvals policy proposerDid = []) (r0 # rs) then []
      else evaluateRequirement r0 approvals policy proposerDid)"

section \<open>The evaluation\<close>

text \<open>The consistency loop over \<open>decisionBySigner\<close>: true when a signer contradicts itself.\<close>

fun conflicting_decisions :: "(did, decision) jsmap \<Rightarrow> verified_approval list \<Rightarrow> bool" where
  "conflicting_decisions m [] = False"
| "conflicting_decisions m (approval # approvals) =
     (case map_get m (va_signerDid approval) of
        Some prior \<Rightarrow> if prior \<noteq> va_decision approval then True
          else conflicting_decisions (map_set (va_signerDid approval) (va_decision approval) m) approvals
      | None \<Rightarrow> conflicting_decisions (map_set (va_signerDid approval) (va_decision approval) m) approvals)"

fun collect_matching :: "policy_entry list \<Rightarrow> jsval \<Rightarrow> condition_error + policy_entry list" where
  "collect_matching [] actionPackage = Inr []"
| "collect_matching (entry # es) actionPackage =
     (case (case pe_conditions (entry_base entry) of
              None \<Rightarrow> Inr True
            | Some conditions \<Rightarrow> if conditions = [] then Inr True else matchesConditions conditions actionPackage) of
        Inl e \<Rightarrow> Inl e
      | Inr b \<Rightarrow> (case collect_matching es actionPackage of Inl e \<Rightarrow> Inl e
                  | Inr ms \<Rightarrow> Inr (if b then entry # ms else ms)))"

fun requirements_of_entries :: "policy_entry list \<Rightarrow> requirement list" where
  "requirements_of_entries [] = []"
| "requirements_of_entries (RequirementPolicyEntry b r # es) = r # requirements_of_entries es"
| "requirements_of_entries (RejectPolicyEntry b # es) = requirements_of_entries es"

definition operation_name_of :: "jsval \<Rightarrow> string option" where
  "operation_name_of payload = text_opt (js_get payload ''name'')"

definition policy_entries_for :: "policy_config \<Rightarrow> jsval \<Rightarrow> policy_entry list" where
  "policy_entries_for policy actionPackage =
    (case operation_name_of (executionPayload actionPackage) of
       None \<Rightarrow> []
     | Some actionName \<Rightarrow> if actionName = [] then []
         else (case policies policy of None \<Rightarrow> []
               | Some ps \<Rightarrow> (case map_of ps actionName of None \<Rightarrow> [] | Some es \<Rightarrow> es)))"

definition effective_requirement :: "policy_entry list \<Rightarrow> policy_config \<Rightarrow> requirement" where
  "effective_requirement matchedEntries policy =
    (if matchedEntries = [] then defaultRequirement policy
     else if length matchedEntries = 1 then hd (requirements_of_entries matchedEntries)
     else AllOf (requirements_of_entries matchedEntries))"

definition evaluatePolicy ::
    "jsval \<Rightarrow> verified_approvals \<Rightarrow> policy_config \<Rightarrow> condition_error + policy_result" where
  "evaluatePolicy actionPackage verifiedApprovals policy =
    (let approvals = vas_approvals verifiedApprovals in
     if conflicting_decisions [] approvals then
       Inr (Rejected CONFLICTING_SIGNER_DECISIONS
         ''One Signer supplied contradictory decisions for the same Action Envelope.'')
     else let proposerDid = proposer_did (actionEnvelope actionPackage) in
       case collect_matching (policy_entries_for policy actionPackage) actionPackage of
         Inl (UnparseableNumericValue c v) \<Rightarrow> Inr (Malformed (UnparseableNumericValue c v))
       | Inl e \<Rightarrow> Inl e
       | Inr matchedEntries \<Rightarrow>
           if list_ex is_reject matchedEntries then
             Inr (Rejected ACTION_BLOCKED_BY_POLICY (''Action '' @
               (case operation_name_of (executionPayload actionPackage) of None \<Rightarrow> ''(unknown)'' | Some n \<Rightarrow> n) @
               '' is blocked by policy.''))
           else let unsatisfied = evaluateRequirement (effective_requirement matchedEntries policy)
                      approvals policy proposerDid
             in if unsatisfied = [] then Inr Satisfied else Inr (AdditionalApprovalsRequired unsatisfied))"

section \<open>Meaning of a requirement\<close>

definition decisions_of :: "verified_approval list \<Rightarrow> (did \<times> decision) set" where
  "decisions_of approvals = (\<lambda>a. (va_signerDid a, va_decision a)) ` set approvals"

definition supporters :: "policy_config \<Rightarrow> did \<Rightarrow> (did \<times> decision) set \<Rightarrow> threshold_requirement \<Rightarrow> did set" where
  "supporters policy proposerDid D t =
     {s \<in> set (resolveEligibleSigners t policy). s \<noteq> proposerDid \<and> (s, threshold_decision t) \<in> D}"

fun req_holds :: "policy_config \<Rightarrow> did \<Rightarrow> (did \<times> decision) set \<Rightarrow> requirement \<Rightarrow> bool" where
  "req_holds policy pd D ProposerOnly \<longleftrightarrow> True"
| "req_holds policy pd D (Threshold t) \<longleftrightarrow>
     num_le (tr_threshold t) (num_of_nat (card (supporters policy pd D t)))"
| "req_holds policy pd D (AllOf rs) \<longleftrightarrow> (\<forall>r \<in> set rs. req_holds policy pd D r)"
| "req_holds policy pd D (AnyOf rs) \<longleftrightarrow> (\<exists>r \<in> set rs. req_holds policy pd D r)"

definition consistent :: "(did \<times> decision) set \<Rightarrow> bool" where
  "consistent D \<longleftrightarrow> (\<forall>s d d'. (s, d) \<in> D \<longrightarrow> (s, d') \<in> D \<longrightarrow> d = d')"

lemma finite_supporters [simp]: "finite (supporters policy pd D t)"
  by (simp add: supporters_def)

lemma found_supporters:
  "set_size (map va_signerDid (filter (\<lambda>approval.
      if va_signerDid approval = pd then False
      else if va_decision approval \<noteq> threshold_decision t then False
      else resolveEligibleSigners t policy \<noteq> [] \<and>
           va_signerDid approval \<in> set (resolveEligibleSigners t policy)) approvals)) =
   card (supporters policy pd (decisions_of approvals) t)"
  unfolding set_size_card
  by (rule arg_cong [where f = card]) (auto simp: supporters_def decisions_of_def)

lemma evaluateThreshold_eq:
  "evaluateThreshold t approvals policy pd =
     (if num_le (tr_threshold t) (num_of_nat (card (supporters policy pd (decisions_of approvals) t))) then []
      else [\<lparr>us_requirement = t,
             us_requiredRole = (case tr_eligibleSignerGroup t of None \<Rightarrow> ''unknown'' | Some g \<Rightarrow> g),
             us_requiredDecision = threshold_decision t, us_threshold = tr_threshold t,
             us_found = card (supporters policy pd (decisions_of approvals) t),
             us_eligibleSigners = resolveEligibleSigners t policy\<rparr>])"
proof (cases "num_eq (tr_threshold t) (Fin 0)")
  case True
  then have "tr_threshold t = Fin 0" by (cases "tr_threshold t") auto
  then show ?thesis by (simp add: evaluateThreshold_def num_of_nat_def)
next
  case False
  then show ?thesis unfolding evaluateThreshold_def Let_def found_supporters by simp
qed

lemma evaluateRequirement_Nil_iff:
  "evaluateRequirement r approvals policy pd = [] \<longleftrightarrow> req_holds policy pd (decisions_of approvals) r"
  by (induction r approvals policy pd rule: evaluateRequirement.induct)
     (auto simp: evaluateThreshold_eq list_ex_iff)

lemma evaluateRequirement_cong:
  assumes "\<And>t. supporters policy pd (decisions_of as) t = supporters policy pd (decisions_of bs) t"
  shows "evaluateRequirement r as policy pd = evaluateRequirement r bs policy pd"
proof (induction r)
  case (Threshold t)
  show ?case by (simp add: evaluateThreshold_eq assms)
next
  case (AllOf rs)
  then show ?case by (simp cong: map_cong)
next
  case (AnyOf rs)
  then show ?case by (cases rs) (auto simp: list_ex_iff)
qed simp

lemma req_holds_mono:
  assumes "D \<subseteq> D'" "req_holds policy pd D r"
  shows "req_holds policy pd D' r"
  using assms(2)
proof (induction r)
  case (Threshold t)
  have "card (supporters policy pd D t) \<le> card (supporters policy pd D' t)"
    using assms(1) by (intro card_mono) (auto simp: supporters_def)
  with Threshold show ?case by (cases "tr_threshold t") (auto simp: num_of_nat_def num_le_def split: if_splits)
qed auto

section \<open>Consistency of decisions\<close>

lemma conflicting_decisions_iff:
  "conflicting_decisions m approvals \<longleftrightarrow>
     \<not> consistent ({(s, d). map_get m s = Some d} \<union> decisions_of approvals)"
proof (induction m approvals rule: conflicting_decisions.induct)
  case (1 m)
  then show ?case by (simp add: consistent_def decisions_of_def)
next
  case (2 m a as)
  let ?s = "va_signerDid a" and ?d = "va_decision a"
  have ins: "map_get m ?s = None \<or> map_get m ?s = Some ?d \<Longrightarrow>
      {(s, d). map_get (map_set ?s ?d m) s = Some d} \<union> decisions_of as =
      {(s, d). map_get m s = Some d} \<union> decisions_of (a # as)"
    by (auto simp: decisions_of_def split: if_splits)
  show ?case
  proof (cases "map_get m ?s")
    case None
    with 2 ins show ?thesis by simp
  next
    case (Some d)
    show ?thesis
    proof (cases "d = ?d")
      case True
      with Some 2 ins show ?thesis by simp
    next
      case False
      with Some have "\<not> consistent ({(s, d). map_get m s = Some d} \<union> decisions_of (a # as))"
        by (auto simp: consistent_def decisions_of_def)
      with Some False show ?thesis by simp
    qed
  qed
qed

lemma conflicting_iff: "conflicting_decisions [] approvals \<longleftrightarrow> \<not> consistent (decisions_of approvals)"
  by (simp add: conflicting_decisions_iff)

section \<open>Matching entries\<close>

definition entry_match :: "jsval \<Rightarrow> policy_entry \<Rightarrow> condition_error + bool" where
  "entry_match pkg entry = (case pe_conditions (entry_base entry) of None \<Rightarrow> Inr True
     | Some cs \<Rightarrow> matchesConditions cs pkg)"

lemma collect_matching_Inr:
  "collect_matching es pkg = Inr ms \<Longrightarrow>
     ms = filter (\<lambda>e. entry_match pkg e = Inr True) es \<and> (\<forall>e \<in> set es. \<exists>b. entry_match pkg e = Inr b)"
proof (induction es arbitrary: ms)
  case (Cons e es)
  have [simp]: "(case pe_conditions (entry_base e) of None \<Rightarrow> Inr True
      | Some conditions \<Rightarrow> if conditions = [] then Inr True else matchesConditions conditions pkg) = entry_match pkg e"
    by (auto simp: entry_match_def split: option.splits)
  from Cons.prems show ?case
    by (auto split: sum.splits dest!: Cons.IH)
qed simp

lemma collect_matching_Inl:
  "collect_matching es pkg = Inl err \<Longrightarrow> \<exists>e \<in> set es. entry_match pkg e = Inl err"
proof (induction es)
  case (Cons e es)
  have [simp]: "(case pe_conditions (entry_base e) of None \<Rightarrow> Inr True
      | Some conditions \<Rightarrow> if conditions = [] then Inr True else matchesConditions conditions pkg) = entry_match pkg e"
    by (auto simp: entry_match_def split: option.splits)
  from Cons show ?case by (auto split: sum.splits)
qed simp

lemma requirements_of_entries_no_reject:
  "\<not> list_ex is_reject es \<Longrightarrow> length (requirements_of_entries es) = length es"
  by (induction es rule: requirements_of_entries.induct) auto

lemma set_requirements_of_entries:
  "r \<in> set (requirements_of_entries es) \<longleftrightarrow> (\<exists>b. RequirementPolicyEntry b r \<in> set es)"
  by (induction es rule: requirements_of_entries.induct) auto

lemma effective_requirement_holds:
  assumes "\<not> list_ex is_reject ms"
  shows "req_holds policy pd D (effective_requirement ms policy) \<longleftrightarrow>
    (if ms = [] then req_holds policy pd D (defaultRequirement policy)
     else \<forall>b r. RequirementPolicyEntry b r \<in> set ms \<longrightarrow> req_holds policy pd D r)"
proof (cases "length ms = 1")
  case True
  then obtain e where "ms = [e]" by (auto simp: length_Suc_conv)
  with assms show ?thesis by (cases e) (auto simp: effective_requirement_def)
next
  case False
  then show ?thesis
    by (auto simp: effective_requirement_def set_requirements_of_entries Ball_def)
qed

section \<open>Well-formed policies\<close>

definition wf_threshold :: "policy_config \<Rightarrow> threshold_requirement \<Rightarrow> bool" where
  "wf_threshold policy t \<longleftrightarrow> num_is_integer (tr_threshold t) \<and> num_le (Fin 1) (tr_threshold t) \<and>
     tr_decision t \<noteq> Some Reject \<and> resolveEligibleSigners t policy \<noteq> []"

fun wf_requirement :: "policy_config \<Rightarrow> requirement \<Rightarrow> bool" where
  "wf_requirement policy ProposerOnly \<longleftrightarrow> True"
| "wf_requirement policy (Threshold t) \<longleftrightarrow> wf_threshold policy t"
| "wf_requirement policy (AllOf rs) \<longleftrightarrow> rs \<noteq> [] \<and> list_all (wf_requirement policy) rs"
| "wf_requirement policy (AnyOf rs) \<longleftrightarrow> rs \<noteq> [] \<and> list_all (wf_requirement policy) rs"

definition wf_condition :: "policy_condition \<Rightarrow> bool" where
  "wf_condition c \<longleftrightarrow> pc_path c \<noteq> None \<or> pc_op c = Exists \<or> pc_op c = NotExists"

fun wf_entry :: "policy_config \<Rightarrow> policy_entry \<Rightarrow> bool" where
  "wf_entry policy (RequirementPolicyEntry b r) \<longleftrightarrow> wf_requirement policy r \<and>
     (case pe_conditions b of None \<Rightarrow> True | Some cs \<Rightarrow> list_all wf_condition cs)"
| "wf_entry policy (RejectPolicyEntry b) \<longleftrightarrow>
     (case pe_conditions b of None \<Rightarrow> True | Some cs \<Rightarrow> list_all wf_condition cs)"

definition wf_group :: "did list \<Rightarrow> bool" where
  "wf_group ds \<longleftrightarrow> ds \<noteq> [] \<and> distinct ds \<and> list_all (\<lambda>d. d \<noteq> []) ds"

definition wf_policy :: "policy_config \<Rightarrow> bool" where
  "wf_policy policy \<longleftrightarrow>
     (case signerGroups policy of None \<Rightarrow> False
      | Some gs \<Rightarrow> ''all'' \<in> fst ` set gs \<and> list_all (\<lambda>(g, ds). wf_group ds) gs) \<and>
     wf_requirement policy (defaultRequirement policy) \<and>
     (case policies policy of None \<Rightarrow> True
      | Some ps \<Rightarrow> list_all (\<lambda>(operation, es). list_all (wf_entry policy) es) ps)"

lemma all_texts_Some_iff: "all_texts vs = Some ds \<longleftrightarrow> vs = map Str ds"
  by (induction vs arbitrary: ds rule: all_texts.induct) auto

lemma map_Str_inject [simp]: "map Str xs = map Str ys \<longleftrightarrow> xs = ys"
  by (rule inj_map_eq_map) (auto simp: inj_def)

lemma all_texts_map [simp]: "all_texts (map Str ds) = Some ds"
  by (simp add: all_texts_Some_iff)

lemma all_some_Some_iff: "all_some xs = Some ys \<longleftrightarrow> xs = map Some ys"
  by (induction xs arbitrary: ys rule: all_some.induct) (auto simp: Cons_eq_map_conv)

lemma map_eq_map_SomeD: "map f xs = map Some ys \<Longrightarrow> list_all2 (\<lambda>x y. f x = Some y) xs ys"
  by (induction xs arbitrary: ys) (auto simp: Cons_eq_map_conv)

lemma list_all2_source:
  "list_all2 (\<lambda>x y. f x = Some y) xs ys \<Longrightarrow> y \<in> set ys \<Longrightarrow> \<exists>x \<in> set xs. f x = Some y"
  by (induction rule: list_all2_induct) auto

lemma isDidArray_iff: "isDidArray v \<longleftrightarrow> (\<exists>ds. v = Arr (map Str ds) \<and> wf_group ds)"
  by (cases v) (auto simp: isDidArray_def wf_group_def set_size_length_iff all_texts_Some_iff
      split: option.splits)

lemma opt_texts_didArray: "isDidArray v \<Longrightarrow> opt_texts v = Some sg \<Longrightarrow> \<exists>d ds. sg = Some (d # ds)"
  by (auto simp: isDidArray_iff wf_group_def all_texts_Some_iff neq_Nil_conv)

text \<open>The signer groups of a validated policy are the non-empty duplicate-free lists of the JSON.\<close>

lemma map_of_groups:
  assumes "list_all2 (\<lambda>kv g. group_of kv = Some g) kvs gs" and "g \<in> fst ` set kvs"
    and "\<And>kv. kv \<in> set kvs \<Longrightarrow> isDidArray (snd kv)"
  shows "\<exists>ds. map_of gs g = Some ds \<and> wf_group ds"
  using assms
proof (induction rule: list_all2_induct)
  case (Cons kv kvs gd gs)
  then have "isDidArray (snd kv)" by simp
  then obtain ds where ds: "snd kv = Arr (map Str ds)" "wf_group ds"
    unfolding isDidArray_iff by blast
  then have gd: "gd = (fst kv, ds)"
    using Cons.hyps(1) by (auto simp: group_of_def all_texts_Some_iff)
  show ?case
  proof (cases "g = fst kv")
    case False
    with Cons.prems(1) have "g \<in> fst ` set kvs" by auto
    with Cons.IH Cons.prems(2) False gd show ?thesis by (auto simp: list_all2_Cons)
  qed (use gd ds in simp)
qed simp

text \<open>What validation gives about the typed signer groups.\<close>

definition groups_agree :: "jsval \<Rightarrow> policy_config \<Rightarrow> bool" where
  "groups_agree groups policy \<longleftrightarrow>
     (\<forall>g. has_own groups g \<longrightarrow> (\<exists>ds. group_lookup policy g = Some ds \<and> wf_group ds))"

lemma threshold_error_None_wf:
  assumes ok: "threshold_error v groups path = None" and t: "threshold_of v = Some t"
    and groups: "groups_agree groups policy"
  shows "wf_threshold policy t"
proof -
  let ?g = "js_get v ''eligibleSignerGroup''" and ?sg = "js_get v ''eligibleSigners''"
  define hasGroup where "hasGroup = (case ?g of Str s \<Rightarrow> s \<noteq> [] | _ \<Rightarrow> False)"
  obtain n where n: "js_get v ''threshold'' = Num n" "tr_threshold t = n"
    using t by (auto simp: threshold_of_def split: jsval.splits option.splits)
  have g: "opt_text ?g = Some (tr_eligibleSignerGroup t)" and sg: "opt_texts ?sg = Some (tr_eligibleSigners t)"
    and d: "opt_decision (js_get v ''decision'') = Some (tr_decision t)"
    using t by (auto simp: threshold_of_def split: jsval.splits option.splits)
  have int: "num_is_integer n" "\<not> num_lt n (Fin 1)" and one: "hasGroup \<noteq> isDidArray ?sg"
    and known: "hasGroup \<Longrightarrow> has_own groups (text_of ?g)"
    and dec: "js_get v ''decision'' \<noteq> Str ''reject''"
    using ok n(1) by (simp_all add: hasGroup_def threshold_error_def Let_def split: if_splits)
  have "num_le (Fin 1) n" using int by (auto simp: num_is_integer_iff)
  moreover have "tr_decision t \<noteq> Some Reject"
    using d dec by (auto simp: opt_decision_def decision_of_Some_iff split: if_splits)
  moreover have "resolveEligibleSigners t policy \<noteq> []"
  proof (cases hasGroup)
    case True
    then obtain s where s: "?g = Str s" "s \<noteq> []" by (auto simp: hasGroup_def split: jsval.splits)
    with g have "tr_eligibleSignerGroup t = Some s" by simp
    moreover obtain ds where "group_lookup policy s = Some ds" "wf_group ds"
      using known [OF True] groups s by (auto simp: groups_agree_def)
    ultimately show ?thesis using s
      by (auto simp: resolveEligibleSigners_def wf_group_def split: option.splits list.splits)
  next
    case False
    with one have "isDidArray ?sg" by simp
    with sg show ?thesis by (auto dest!: opt_texts_didArray simp: resolveEligibleSigners_def)
  qed
  ultimately show ?thesis using int n(2) by (simp add: wf_threshold_def)
qed

lemma validateRequirement_None_wf:
  assumes "groups_agree groups policy" "validateRequirement v groups path = None" "requirement_of v = Some r"
  shows "wf_requirement policy r"
  using assms
proof (induction v groups path arbitrary: r rule: validateRequirement.induct)
  case (1 v groups path)
  let ?reqs = "js_get v ''requirements''"
  obtain ty where ty: "js_get v ''type'' = Str ty"
    using 1(3) by (subst (asm) validateRequirement.simps) (auto split: if_splits elim: is_stringE)
  have rec: "is_record v" using ty by (rule js_get_Str_record)
  have nested: "rs \<noteq> [] \<and> list_all (wf_requirement policy) rs"
    if comp: "ty = ''allOf'' \<or> ty = ''anyOf''" and rs: "all_some (map requirement_of (elements ?reqs)) = Some rs" for rs
  proof -
    have ne: "elements ?reqs \<noteq> []" and arr: "is_array ?reqs" "\<not> hasUnexpectedKeys v [''type'', ''requirements'']"
      and fe: "first_error (\<lambda>index nested. validateRequirement nested groups
        (path @ ''.requirements['' @ show_nat index @ '']'')) 0 (elements ?reqs) = None"
      using 1(3) comp ty rec by (subst (asm) validateRequirement.simps; auto simp: Let_def split: if_splits)+
    have all2: "list_all2 (\<lambda>x y. requirement_of x = Some y) (elements ?reqs) rs"
      using rs by (simp add: all_some_Some_iff map_eq_map_SomeD)
    have "wf_requirement policy y" if y: "y \<in> set rs" for y
    proof -
      obtain i where i: "i < length rs" "y = rs ! i" using y by (auto simp: in_set_conv_nth)
      with all2 have x: "elements ?reqs ! i \<in> set (elements ?reqs)" "requirement_of (elements ?reqs ! i) = Some y"
        by (auto simp: list_all2_conv_all_nth)
      have "validateRequirement (elements ?reqs ! i) groups (path @ ''.requirements['' @ show_nat i @ '']'') = None"
        using fe i all2 by (auto simp: first_error_None_iff list_all2_conv_all_nth)
      from 1(1) [OF _ refl _ _ _ refl _ _ x(1) 1(2) this x(2)] comp ty rec ne arr
      show ?thesis by auto
    qed
    with all2 ne show ?thesis by (auto simp: list_all_iff)
  qed
  have "ty \<in> {''proposerOnly'', ''threshold'', ''allOf'', ''anyOf''}"
    using 1(4) ty by (subst (asm) requirement_of.simps) (auto simp: Let_def split: if_splits)
  then consider "ty = ''proposerOnly''" | "ty = ''threshold''" | "ty = ''allOf''" | "ty = ''anyOf''" by blast
  then show ?case
  proof cases
    case 2
    then show ?thesis using 1(2,3,4) ty rec
      by (subst (asm) validateRequirement.simps, subst (asm) requirement_of.simps)
         (auto simp: Let_def intro: threshold_error_None_wf)
  qed (use 1(4) ty nested in \<open>subst (asm) requirement_of.simps, auto simp: Let_def\<close>)+
qed

lemma validateMatch_None_wf:
  assumes "validateMatch m path = None" "conditions_of m = Some cs"
  shows "case cs of None \<Rightarrow> True | Some cs \<Rightarrow> list_all wf_condition cs"
proof (cases cs)
  case (Some cs')
  have fe: "first_error (condition_shape_error path) 0 (elements (js_get m ''conditions'')) = None"
    using assms Some by (auto simp: validateMatch_def conditions_of_def Let_def split: if_splits)
  have all2: "list_all2 (\<lambda>x y. condition_of x = Some y) (elements (js_get m ''conditions'')) cs'"
    using assms(2) Some by (auto simp: conditions_of_def Let_def all_some_Some_iff map_eq_map_SomeD split: if_splits)
  have "wf_condition c" if "c \<in> set cs'" for c
  proof -
    obtain v where v: "v \<in> set (elements (js_get m ''conditions''))" "condition_of v = Some c"
      using list_all2_source [OF all2 \<open>c \<in> set cs'\<close>] by blast
    obtain i where "condition_shape_error path i v = None" using first_error_NoneD [OF fe v(1)] ..
    with v(2) show ?thesis
      by (auto simp: condition_shape_error_def condition_of_def wf_condition_def Let_def op_of_def
          CONDITION_OPERATORS_def split: if_splits option.splits elim!: is_stringE)
  qed
  with Some show ?thesis by (simp add: list_all_iff)
qed simp

lemma validatePolicyEntry_None_wf:
  assumes "groups_agree groups policy" "validatePolicyEntry v groups path = None" "entry_of v = Some e"
  shows "wf_entry policy e"
proof -
  obtain d cs where cs: "conditions_of (js_get v ''match'') = Some cs"
    and e: "js_get v ''reject'' = Bool True \<Longrightarrow> e = RejectPolicyEntry \<lparr>pe_description = d, pe_conditions = cs\<rparr>"
      "js_get v ''reject'' \<noteq> Bool True \<Longrightarrow> \<exists>r. requirement_of (js_get v ''requirements'') = Some r \<and>
         e = RequirementPolicyEntry \<lparr>pe_description = d, pe_conditions = cs\<rparr> r"
    using assms(3) by (auto simp: entry_of_def Let_def split: option.splits if_splits)
  have req: "js_get v ''reject'' \<noteq> Bool True \<Longrightarrow>
      validateRequirement (js_get v ''requirements'') groups (path @ ''.requirements'') = None"
    and m: "validateMatch (js_get v ''match'') (path @ ''.match'') = None"
    using assms(2) by (auto simp: validatePolicyEntry_def Let_def split: if_splits option.splits)
  from validateMatch_None_wf [OF m cs] e validateRequirement_None_wf [OF assms(1) req]
  show ?thesis by (cases "js_get v ''reject'' = Bool True") auto
qed

lemma validatePolicyConfig_None_wf:
  assumes ok: "validatePolicyConfig j = None" and p: "policy_of j = Some p"
  shows "wf_policy p"
proof -
  let ?groups = "js_get j ''signerGroups''" and ?pols = "js_get j ''policies''"
  have rec: "is_record ?groups" and all: "isDidArray (js_get ?groups ''all'')"
    and fg: "first_error (\<lambda>_ (groupName, signers). if isDidArray signers then None
               else Some (''Policy signerGroups.'' @ groupName @ '' must be a non-empty array of unique DIDs.''))
               0 (entries ?groups) = None"
    and default: "validateRequirement (js_get j ''defaultRequirement'') ?groups ''defaultRequirement'' = None"
    and fp: "?pols \<noteq> Undefined \<Longrightarrow> first_error (\<lambda>_ (operation, ents).
                     if \<not> is_array ents then Some (''Policy policies.'' @ operation @ '' must be an array.'')
                     else first_error (\<lambda>index entry. validatePolicyEntry entry ?groups
                            (''policies.'' @ operation @ ''['' @ show_nat index @ '']'')) 0 (elements ents))
                   0 (entries ?pols) = None"
    using ok by (auto simp: validatePolicyConfig_def Let_def split: if_splits option.splits)
  obtain gs ps where gs: "signerGroups p = Some gs" "all_some (map group_of (entries ?groups)) = Some gs"
    and ps: "all_some (map operation_entries_of (entries ?pols)) = Some ps"
      "policies p = (if ?pols = Undefined then None else Some ps)"
    and d: "requirement_of (js_get j ''defaultRequirement'') = Some (defaultRequirement p)"
    using p rec by (auto simp: policy_of_def split: option.splits if_splits)
  have all2: "list_all2 (\<lambda>kv g. group_of kv = Some g) (entries ?groups) gs"
    using gs(2) by (simp add: all_some_Some_iff map_eq_map_SomeD)
  have did: "isDidArray (snd kv)" if "kv \<in> set (entries ?groups)" for kv
    using first_error_NoneD [OF fg that] by (auto split: prod.splits if_splits)
  have agree: "groups_agree ?groups p"
    unfolding groups_agree_def
  proof (intro allI impI)
    fix g assume "has_own ?groups g"
    then have "g \<in> fst ` set (entries ?groups)" using rec by (cases ?groups) auto
    from map_of_groups [OF all2 this did] show "\<exists>ds. group_lookup p g = Some ds \<and> wf_group ds"
      by (simp add: group_lookup_def gs(1))
  qed
  have wf_gs: "list_all (\<lambda>(g, ds). wf_group ds) gs"
    using all2 did
  proof (induction rule: list_all2_induct)
    case (Cons kv kvs g gs)
    then have "isDidArray (snd kv)" by simp
    with Cons.hyps(1) have "wf_group (snd g)" by (auto simp: isDidArray_iff group_of_def)
    with Cons show ?case by (auto split: prod.splits)
  qed simp
  have "has_own ?groups ''all''"
    using all by (intro has_own_js_get rec) (auto simp: isDidArray_def)
  then obtain ds where "map_of gs ''all'' = Some ds"
    using agree gs(1) by (auto simp: groups_agree_def group_lookup_def)
  then have "''all'' \<in> fst ` set gs" by (metis map_of_eq_None_iff option.distinct(1))
  moreover have "wf_requirement p (defaultRequirement p)"
    by (rule validateRequirement_None_wf [OF agree default d])
  moreover have "list_all (\<lambda>(operation, es). list_all (wf_entry p) es) ps" if pols: "?pols \<noteq> Undefined"
  proof -
    have all2p: "list_all2 (\<lambda>kv e. operation_entries_of kv = Some e) (entries ?pols) ps"
      using ps(1) by (simp add: all_some_Some_iff map_eq_map_SomeD)
    have "list_all (wf_entry p) (snd oe)" if oe: "oe \<in> set ps" for oe
    proof -
      obtain kv where kv: "kv \<in> set (entries ?pols)" "operation_entries_of kv = Some oe"
        using list_all2_source [OF all2p oe] by blast
      have es: "all_some (map entry_of (elements (snd kv))) = Some (snd oe)"
        using kv(2) by (auto simp: operation_entries_of_def)
      have fe: "first_error (\<lambda>index entry. validatePolicyEntry entry ?groups
            (''policies.'' @ fst kv @ ''['' @ show_nat index @ '']'')) 0 (elements (snd kv)) = None"
        using first_error_NoneD [OF fp [OF pols] kv(1)] by (auto split: prod.splits if_splits)
      have all2e: "list_all2 (\<lambda>x y. entry_of x = Some y) (elements (snd kv)) (snd oe)"
        using es by (simp add: all_some_Some_iff map_eq_map_SomeD)
      have "wf_entry p e" if "e \<in> set (snd oe)" for e
      proof -
        obtain v where v: "v \<in> set (elements (snd kv))" "entry_of v = Some e"
          using list_all2_source [OF all2e \<open>e \<in> set (snd oe)\<close>] by blast
        from first_error_NoneD [OF fe v(1)] obtain i where
          "validatePolicyEntry v ?groups (''policies.'' @ fst kv @ ''['' @ show_nat i @ '']'') = None" ..
        from validatePolicyEntry_None_wf [OF agree this v(2)] show ?thesis .
      qed
      then show ?thesis by (simp add: list_all_iff)
    qed
    then show ?thesis by (auto simp: list_all_iff)
  qed
  ultimately show ?thesis using gs(1) wf_gs ps(2) by (simp add: wf_policy_def)
qed

end
