(* ===== verification/PolicyProperties.thy ===== *)
theory PolicyProperties
  imports PolicyEngine
begin

text \<open>
  Properties of the policy engine. \<open>policy_permits\<close> states when the engine permits a package
  as a predicate on the set of pairs of signer and decision, with conditions as the engine
  reads them; \<open>profile_permits\<close> states what the JSON Verifier Policy Profile asks, with its
  own reading of pointers and operators. The engine's answer \<open>satisfied\<close> is the former
  always and the latter where the conditions are regular; the other properties
  (which approvals count, monotonicity, separation of duties, sufficiency of the report of
  missing approvals, pointers, the proposer gate, error results) follow from it.
\<close>

section \<open>The decision of the engine\<close>

text \<open>
  \<open>policy_permits\<close>: what the engine asks of a package whose signers' decisions are \<open>D\<close>.
\<close>

definition matching_entries :: "jsval \<Rightarrow> policy_config \<Rightarrow> policy_entry list" where
  "matching_entries pkg policy = filter (\<lambda>e. entry_match pkg e = Inr True) (policy_entries_for policy pkg)"

definition conditions_evaluable :: "jsval \<Rightarrow> policy_config \<Rightarrow> bool" where
  "conditions_evaluable pkg policy \<longleftrightarrow> (\<forall>e \<in> set (policy_entries_for policy pkg). \<exists>b. entry_match pkg e = Inr b)"

definition policy_permits :: "jsval \<Rightarrow> (did \<times> decision) set \<Rightarrow> policy_config \<Rightarrow> bool" where
  "policy_permits pkg D policy \<longleftrightarrow> consistent D \<and> conditions_evaluable pkg policy \<and>
     (\<forall>e \<in> set (matching_entries pkg policy). \<not> is_reject e) \<and>
     (let pd = proposer_did (actionEnvelope pkg) in
      if matching_entries pkg policy = [] then req_holds policy pd D (defaultRequirement policy)
      else \<forall>b r. RequirementPolicyEntry b r \<in> set (matching_entries pkg policy) \<longrightarrow> req_holds policy pd D r)"

lemma collect_matching_eq:
  "collect_matching (policy_entries_for policy pkg) pkg = Inr ms \<longleftrightarrow>
     ms = matching_entries pkg policy \<and> conditions_evaluable pkg policy"
proof (cases "collect_matching (policy_entries_for policy pkg) pkg")
  case (Inl err)
  from collect_matching_Inl [OF this] Inl show ?thesis
    by (force simp: conditions_evaluable_def)
next
  case (Inr ms')
  from collect_matching_Inr [OF this] Inr show ?thesis
    by (auto simp: conditions_evaluable_def matching_entries_def)
qed

lemma evaluatePolicy_Satisfied_iff:
  "evaluatePolicy pkg va policy = Inr Satisfied \<longleftrightarrow> policy_permits pkg (decisions_of (vas_approvals va)) policy"
proof (cases "collect_matching (policy_entries_for policy pkg) pkg")
  case (Inl err)
  then have "\<not> conditions_evaluable pkg policy" by (metis collect_matching_eq sum.distinct(1))
  moreover have "evaluatePolicy pkg va policy \<noteq> Inr Satisfied"
    by (cases err) (simp_all add: evaluatePolicy_def Inl Let_def)
  ultimately show ?thesis by (simp add: policy_permits_def)
next
  case (Inr ms)
  then have ms: "ms = matching_entries pkg policy" "conditions_evaluable pkg policy"
    by (simp_all add: collect_matching_eq)
  have rej: "list_ex is_reject ms \<longleftrightarrow> \<not> (\<forall>e \<in> set ms. \<not> is_reject e)" by (auto simp: list_ex_iff)
  have ev: "evaluatePolicy pkg va policy = Inr Satisfied \<longleftrightarrow> \<not> conflicting_decisions [] (vas_approvals va) \<and>
      \<not> list_ex is_reject ms \<and> evaluateRequirement (effective_requirement ms policy)
        (vas_approvals va) policy (proposer_did (actionEnvelope pkg)) = []"
    by (simp add: evaluatePolicy_def Inr Let_def)
  show ?thesis
  proof (cases "list_ex is_reject ms")
    case True
    with rej show ?thesis unfolding ev policy_permits_def ms(1)[symmetric] by blast
  next
    case False
    then show ?thesis
      unfolding ev policy_permits_def ms(1)[symmetric] conflicting_iff evaluateRequirement_Nil_iff Let_def
        effective_requirement_holds [OF False]
      using ms(2) rej by blast
  qed
qed

text \<open>
  C24. A raw policy accepted by the validator is well formed once cast: signer groups are
  non-empty and free of duplicates and \<open>all\<close> is among them, every threshold is a positive
  integer that never counts \<open>reject\<close> and has eligible signers, composite requirements are
  non-empty, and only existence conditions may lack a path.
\<close>

theorem validated_policy_wf:
  assumes "validatePolicyConfig j = None" and "policy_of j = Some p"
  shows "wf_policy p"
  using assms by (rule validatePolicyConfig_None_wf)

definition example_policy_json :: jsval where
  "example_policy_json = Obj
    [(''signerGroups'', Obj [(''all'', Arr [Str ''a'', Str ''b'', Str ''c'']), (''admins'', Arr [Str ''b'', Str ''c''])]),
     (''defaultRequirement'', Obj [(''type'', Str ''proposerOnly'')]),
     (''policies'', Obj [(''pay'', Arr [
        Obj [(''reject'', Bool True), (''match'', Obj [(''conditions'', Arr [
           Obj [(''source'', Str ''executionPayload''), (''path'', Str ''/args/amount''), (''op'', Str ''gt''),
                (''value'', Num (Fin 100))]])])],
        Obj [(''requirements'', Obj [(''type'', Str ''threshold''), (''threshold'', Num (Fin 1)),
                (''eligibleSignerGroup'', Str ''admins'')])]])])]"

definition example_threshold :: threshold_requirement where
  "example_threshold = \<lparr>tr_threshold = Fin 1, tr_eligibleSignerGroup = Some ''admins'', tr_eligibleSigners = None,
     tr_decision = None, tr_description = None\<rparr>"

definition example_policy :: policy_config where
  "example_policy = \<lparr>defaultRequirement = ProposerOnly,
     policies = Some [(''pay'', [RejectPolicyEntry \<lparr>pe_description = None, pe_conditions = Some
          [\<lparr>pc_source = ExecutionPayload, pc_path = Some ''/args/amount'', pc_op = Gt, pc_value = Num (Fin 100)\<rparr>]\<rparr>,
        RequirementPolicyEntry \<lparr>pe_description = None, pe_conditions = None\<rparr> (Threshold example_threshold)])],
     signerGroups = Some [(''all'', [''a'', ''b'', ''c'']), (''admins'', [''b'', ''c''])]\<rparr>"

lemma example_policy_valid: "validatePolicyConfig example_policy_json = None"
  by code_simp

lemma example_policy_of: "policy_of example_policy_json = Some example_policy"
  by code_simp

theorem validated_policy_wf_witness: "wf_policy example_policy"
  by (rule validated_policy_wf [OF example_policy_valid example_policy_of])

lemma evaluatePolicy_cong_requirement:
  assumes "\<not> conflicting_decisions [] (vas_approvals va)" "\<not> conflicting_decisions [] (vas_approvals vb)"
    and "\<And>r. evaluateRequirement r (vas_approvals va) policy (proposer_did (actionEnvelope pkg)) =
             evaluateRequirement r (vas_approvals vb) policy (proposer_did (actionEnvelope pkg))"
  shows "evaluatePolicy pkg va policy = evaluatePolicy pkg vb policy"
proof (cases "collect_matching (policy_entries_for policy pkg) pkg")
  case (Inl err)
  then show ?thesis using assms(1,2) by (cases err) (simp_all add: evaluatePolicy_def Let_def)
next
  case (Inr ms)
  then show ?thesis using assms by (simp add: evaluatePolicy_def)
qed

lemma evaluatePolicy_AdditionalD:
  assumes "evaluatePolicy pkg va policy = Inr (AdditionalApprovalsRequired us)"
  obtains ms where "collect_matching (policy_entries_for policy pkg) pkg = Inr ms" "\<not> list_ex is_reject ms"
    "us = evaluateRequirement (effective_requirement ms policy) (vas_approvals va) policy
            (proposer_did (actionEnvelope pkg))"
proof (cases "collect_matching (policy_entries_for policy pkg) pkg")
  case (Inl err)
  then show ?thesis using assms by (cases err) (simp_all add: evaluatePolicy_def Let_def split: if_splits)
next
  case (Inr ms)
  then show ?thesis using assms that by (simp add: evaluatePolicy_def Let_def split: if_splits)
qed

text \<open>
  C26. Only who else decided what counts: two lists of verified approvals, both free of
  contradictions, that agree on the decisions of all signers other than the proposer give
  the same answer, reports of missing approvals included. Order, repetitions and the
  proposer's own approvals change nothing.
\<close>

theorem evaluatePolicy_others_only:
  assumes "consistent (decisions_of (vas_approvals va))" and "consistent (decisions_of (vas_approvals vb))"
    and "\<And>s d. s \<noteq> proposer_did (actionEnvelope pkg) \<Longrightarrow>
      (s, d) \<in> decisions_of (vas_approvals va) \<longleftrightarrow> (s, d) \<in> decisions_of (vas_approvals vb)"
  shows "evaluatePolicy pkg va policy = evaluatePolicy pkg vb policy"
proof (rule evaluatePolicy_cong_requirement)
  fix r show "evaluateRequirement r (vas_approvals va) policy (proposer_did (actionEnvelope pkg)) =
      evaluateRequirement r (vas_approvals vb) policy (proposer_did (actionEnvelope pkg))"
    using assms(3) by (intro evaluateRequirement_cong) (auto simp: supporters_def)
qed (use assms(1,2) in \<open>simp_all add: conflicting_iff\<close>)

definition example_package :: "int \<Rightarrow> jsval" where
  "example_package amount = Obj
    [(''actionEnvelope'', Obj [(''proposer'', Obj [(''did'', Str ''a'')])]),
     (''executionPayload'', Obj [(''name'', Str ''pay''),
        (''args'', Obj [(''amount'', Num (num_of_int amount))])])]"

definition example_approval :: "did \<Rightarrow> decision \<Rightarrow> verified_approval" where
  "example_approval s d = \<lparr>va_approval = Null, va_signerDid = s, va_decision = d, va_createdAt = []\<rparr>"

definition example_approvals :: "verified_approval list \<Rightarrow> verified_approvals" where
  "example_approvals as = \<lparr>vas_actionEnvelopeHash = \<lparr>hash_alg = [], hash_value = []\<rparr>, vas_approvals = as\<rparr>"

lemma example_approval_sel [simp]:
  "va_signerDid (example_approval s d) = s" "va_decision (example_approval s d) = d"
  "vas_approvals (example_approvals as) = as"
  by (simp_all add: example_approval_def example_approvals_def)

lemma example_proposer [simp]: "proposer_did (actionEnvelope (example_package n)) = ''a''"
  by (simp add: example_package_def proposer_did_def actionEnvelope_def)

theorem evaluatePolicy_others_only_witness:
  "evaluatePolicy (example_package 5)
      (example_approvals [example_approval ''b'' Approve, example_approval ''a'' Approve, example_approval ''b'' Approve])
      example_policy =
   evaluatePolicy (example_package 5) (example_approvals [example_approval ''b'' Approve]) example_policy"
  by (rule evaluatePolicy_others_only) (auto simp: consistent_def decisions_of_def)

lemma policy_permits_mono:
  assumes "policy_permits pkg D policy" "D \<subseteq> D'" "consistent D'"
  shows "policy_permits pkg D' policy"
  using assms(1,3) req_holds_mono [OF assms(2)] unfolding policy_permits_def Let_def by (metis (no_types))

text \<open>
  More decisions never lose an approval: a satisfied package stays satisfied under any
  larger set of decisions that is still free of contradictions.
\<close>

theorem evaluatePolicy_monotone:
  assumes "evaluatePolicy pkg va policy = Inr Satisfied"
    and "decisions_of (vas_approvals va) \<subseteq> decisions_of (vas_approvals vb)"
    and "consistent (decisions_of (vas_approvals vb))"
  shows "evaluatePolicy pkg vb policy = Inr Satisfied"
  using assms policy_permits_mono by (simp add: evaluatePolicy_Satisfied_iff)

lemma example_satisfied:
  "evaluatePolicy (example_package 5) (example_approvals [example_approval ''b'' Approve]) example_policy = Inr Satisfied"
  by code_simp

theorem evaluatePolicy_monotone_witness:
  "evaluatePolicy (example_package 5)
     (example_approvals [example_approval ''c'' Reject, example_approval ''b'' Approve]) example_policy = Inr Satisfied"
  by (rule evaluatePolicy_monotone [OF example_satisfied]) (auto simp: consistent_def decisions_of_def)

fun needs_second_party :: "requirement \<Rightarrow> bool" where
  "needs_second_party ProposerOnly \<longleftrightarrow> False"
| "needs_second_party (Threshold t) \<longleftrightarrow> True"
| "needs_second_party (AllOf rs) \<longleftrightarrow> list_ex needs_second_party rs"
| "needs_second_party (AnyOf rs) \<longleftrightarrow> list_all needs_second_party rs"

lemma req_holds_second_party:
  assumes "wf_requirement policy r" "needs_second_party r" "req_holds policy pd D r"
  shows "\<exists>s d. (s, d) \<in> D \<and> s \<noteq> pd \<and> d \<noteq> Reject"
  using assms
proof (induction r)
  case (Threshold t)
  from Threshold have "supporters policy pd D t \<noteq> {}"
    by (cases "tr_threshold t") (auto simp: wf_threshold_def num_of_nat_def num_le_def)
  with Threshold.prems(1) show ?case
    by (auto simp: supporters_def wf_threshold_def threshold_decision_def split: option.splits)
next
  case (AllOf rs)
  then show ?case by (auto simp: list_all_iff list_ex_iff)
next
  case (AnyOf rs)
  then show ?case by (auto simp: list_all_iff)
qed simp

text \<open>
  Separation of duties: a requirement that cannot be met by \<open>proposerOnly\<close> alone is
  only met when someone other than the proposer made a decision other than \<open>reject\<close>.
\<close>

theorem evaluateRequirement_second_party:
  assumes "wf_requirement policy r" and "needs_second_party r"
    and "evaluateRequirement r approvals policy pd = []"
  shows "\<exists>a \<in> set approvals. va_signerDid a \<noteq> pd \<and> va_decision a \<noteq> Reject"
  using req_holds_second_party [OF assms(1,2)] assms(3)
  by (fastforce simp: evaluateRequirement_Nil_iff decisions_of_def)

theorem evaluateRequirement_second_party_witness:
  "\<exists>a \<in> set [example_approval ''a'' Approve, example_approval ''c'' Approve].
     va_signerDid a \<noteq> ''a'' \<and> va_decision a \<noteq> Reject"
  by (rule evaluateRequirement_second_party [where policy = example_policy
      and r = "AnyOf [Threshold example_threshold]"]) code_simp+

lemma unsatisfiable_never_met: "\<not> req_holds policy pd D (Threshold (us_requirement unsatisfiableRequirement))"
  by (simp add: unsatisfiableRequirement_def supporters_def resolveEligibleSigners_def num_of_nat_def)

lemma report_sufficient:
  assumes "\<And>u. u \<in> set (evaluateRequirement r as policy pd) \<Longrightarrow> req_holds policy pd D (Threshold (us_requirement u))"
    and sub: "decisions_of as \<subseteq> D"
  shows "req_holds policy pd D r"
  using assms(1)
proof (induction r)
  case (Threshold t)
  show ?case
  proof (cases "evaluateRequirement (Threshold t) as policy pd = []")
    case True
    then show ?thesis using req_holds_mono [OF sub] evaluateRequirement_Nil_iff by blast
  next
    case False
    with Threshold show ?thesis by (auto simp: evaluateThreshold_eq split: if_splits)
  qed
next
  case (AllOf rs)
  then show ?case by auto
next
  case (AnyOf rs)
  show ?case
  proof (cases rs)
    case Nil
    with AnyOf.prems unsatisfiable_never_met show ?thesis by simp
  next
    case (Cons r0 rs')
    show ?thesis
    proof (cases "evaluateRequirement (AnyOf rs) as policy pd = []")
      case True
      then show ?thesis using req_holds_mono [OF sub] evaluateRequirement_Nil_iff by blast
    next
      case False
      with Cons have "evaluateRequirement (AnyOf rs) as policy pd = evaluateRequirement r0 as policy pd"
        by (auto split: if_splits)
      with AnyOf Cons show ?thesis by (metis list.set_intros(1) req_holds.simps(4))
    qed
  qed
qed simp

text \<open>
  The report of missing approvals is sufficient: once the decisions meet every
  reported threshold and still contain the old ones without contradiction, the package is
  satisfied.
\<close>

theorem missing_approvals_sufficient:
  assumes "evaluatePolicy pkg va policy = Inr (AdditionalApprovalsRequired us)"
    and "decisions_of (vas_approvals va) \<subseteq> decisions_of (vas_approvals vb)"
    and "consistent (decisions_of (vas_approvals vb))"
    and "\<And>u. u \<in> set us \<Longrightarrow> req_holds policy (proposer_did (actionEnvelope pkg))
           (decisions_of (vas_approvals vb)) (Threshold (us_requirement u))"
  shows "evaluatePolicy pkg vb policy = Inr Satisfied"
proof -
  obtain ms where ms: "collect_matching (policy_entries_for policy pkg) pkg = Inr ms" "\<not> list_ex is_reject ms"
    and us: "us = evaluateRequirement (effective_requirement ms policy) (vas_approvals va) policy
               (proposer_did (actionEnvelope pkg))"
    using assms(1) by (rule evaluatePolicy_AdditionalD)
  have "evaluateRequirement (effective_requirement ms policy) (vas_approvals vb) policy
          (proposer_did (actionEnvelope pkg)) = []"
    unfolding evaluateRequirement_Nil_iff by (rule report_sufficient [OF _ assms(2)]) (use assms(4) us in blast)
  with ms assms(3) show ?thesis by (simp add: evaluatePolicy_def conflicting_iff)
qed

lemma example_missing:
  "\<exists>us. evaluatePolicy (example_package 5) (example_approvals []) example_policy = Inr (AdditionalApprovalsRequired us) \<and>
     map us_requirement us = [example_threshold]"
  by (rule exI [where x = "evaluateThreshold example_threshold [] example_policy ''a''"]) code_simp

theorem missing_approvals_sufficient_witness:
  "evaluatePolicy (example_package 5) (example_approvals [example_approval ''c'' Approve]) example_policy = Inr Satisfied"
proof -
  obtain us where us: "evaluatePolicy (example_package 5) (example_approvals []) example_policy =
      Inr (AdditionalApprovalsRequired us)" "map us_requirement us = [example_threshold]"
    using example_missing by (elim exE conjE)
  have met: "req_holds example_policy ''a'' (decisions_of [example_approval ''c'' Approve]) (Threshold example_threshold)"
    unfolding evaluateRequirement_Nil_iff [symmetric] by code_simp
  have one: "us_requirement u = example_threshold" if "u \<in> set us" for u
    using us(2) that by (metis image_eqI list.set_map singletonD list.simps(15) empty_set)
  show ?thesis
  proof (rule missing_approvals_sufficient [OF us(1)])
    show "req_holds example_policy (proposer_did (actionEnvelope (example_package 5)))
        (decisions_of (vas_approvals (example_approvals [example_approval ''c'' Approve])))
        (Threshold (us_requirement u))" if "u \<in> set us" for u
      using met by (simp add: one [OF that] del: req_holds.simps)
  qed (simp_all add: consistent_def decisions_of_def)
qed

section \<open>JSON pointers\<close>

text \<open>The escaping of RFC 6901, to state the round trip.\<close>

definition escape_char :: "char \<Rightarrow> string" where
  "escape_char c = (if c = CHR ''~'' then ''~0'' else if c = CHR ''/'' then ''~1'' else [c])"

definition escape_token :: "string \<Rightarrow> string" where
  "escape_token t = concat (map escape_char t)"

definition json_pointer :: "string list \<Rightarrow> string" where
  "json_pointer ts = concat (map (\<lambda>t. CHR ''/'' # escape_token t) ts)"

lemma replace_tilde_other [simp]: "x \<noteq> CHR ''~'' \<Longrightarrow> replace_tilde d r (x # xs) = x # replace_tilde d r xs"
  by (cases xs) auto

lemma replace_tilde_one:
  "replace_tilde (CHR ''1'') (CHR ''/'') (escape_token t) =
     concat (map (\<lambda>c. if c = CHR ''~'' then ''~0'' else [c]) t)"
  by (induction t) (auto simp: escape_token_def escape_char_def)

lemma replace_tilde_zero:
  "replace_tilde (CHR ''0'') (CHR ''~'') (concat (map (\<lambda>c. if c = CHR ''~'' then ''~0'' else [c]) t)) = t"
  by (induction t) auto

lemma unescape_escape [simp]: "unescape_token (escape_token t) = t"
  by (simp add: unescape_token_def replace_tilde_one replace_tilde_zero)

lemma split_on_append_sep: "c \<notin> set xs \<Longrightarrow> split_on c (xs @ c # ys) = xs # split_on c ys"
  by (induction xs) auto

lemma split_on_no_sep: "c \<notin> set xs \<Longrightarrow> split_on c xs = [xs]"
  by (induction xs) auto

lemma escape_token_no_slash: "CHR ''/'' \<notin> set (escape_token t)"
  by (auto simp: escape_token_def escape_char_def split: if_splits)

lemma split_on_json_pointer:
  "CHR ''/'' \<notin> set xs \<Longrightarrow> split_on (CHR ''/'') (xs @ json_pointer ts) = xs # map escape_token ts"
proof (induction ts arbitrary: xs)
  case Nil
  then show ?case by (simp add: json_pointer_def split_on_no_sep)
next
  case (Cons t ts)
  have "split_on (CHR ''/'') (xs @ json_pointer (t # ts)) =
      xs # split_on (CHR ''/'') (escape_token t @ json_pointer ts)"
    using split_on_append_sep [OF Cons.prems, of "escape_token t @ json_pointer ts"] by (simp add: json_pointer_def)
  with Cons.IH [OF escape_token_no_slash] show ?case by simp
qed

text \<open>
  Pointers built by RFC 6901 escaping are resolved token by token: for every list of
  reference tokens, whatever characters they contain, splitting and unescaping the pointer
  text recovers exactly these tokens.
\<close>

theorem json_pointer_roundtrip: "getJsonPointerValue v (json_pointer ts) = follow_path v ts"
proof (cases ts)
  case Nil
  then show ?thesis by (simp add: json_pointer_def getJsonPointerValue_def)
next
  case (Cons t ts')
  then have "json_pointer ts \<noteq> []" by (simp add: json_pointer_def)
  with split_on_json_pointer [of "[]" ts] show ?thesis
    by (simp add: getJsonPointerValue_def comp_def)
qed

section \<open>Missing values, errors and the proposer gate\<close>

definition condition_source_of :: "policy_condition \<Rightarrow> jsval \<Rightarrow> jsval" where
  "condition_source_of c pkg = (case pc_source c of ActionEnvelope \<Rightarrow> actionEnvelope pkg
     | ExecutionPayload \<Rightarrow> executionPayload pkg)"

lemma compare_missing: "compare_numbers rel Undefined c \<noteq> Inr True" if "\<And>b. \<not> rel NaN b"
  using that by (auto simp: compare_numbers_def toNumber_def split: sum.splits)

lemma num_le_NaN [simp]: "\<not> num_le NaN b" "\<not> num_le b NaN"
  by (cases b; simp add: num_le_def)+

lemma num_lt_NaN [simp]: "\<not> num_lt b NaN"
  by (cases b) simp_all

lemma array_includes_Undefined: "array_includes v Undefined \<longleftrightarrow> Undefined \<in> set (elements v)"
proof -
  have "same_value_zero y Undefined \<longleftrightarrow> y = Undefined" for y by (cases y) (auto simp: same_value_zero_def)
  then show ?thesis by (simp add: array_includes_def list_ex_iff)
qed

text \<open>
  A condition on a path that does not resolve matches exactly for \<open>notExists\<close>, for
  \<open>neq\<close>, and for \<open>notIn\<close> with an array; every other operator does not match. The
  compared value is a JSON value, which contains no \<open>undefined\<close>.
\<close>

lemma missing_path_condition:
  assumes "pc_path c = Some path" and "getJsonPointerValue (condition_source_of c pkg) path = Undefined"
    and "pc_value c \<noteq> Undefined" and "Undefined \<notin> set (elements (pc_value c))"
  shows "conditionMatches c pkg = Inr True \<longleftrightarrow>
    pc_op c = NotExists \<or> pc_op c = Neq \<or> (pc_op c = NotIn \<and> is_array (pc_value c))"
proof -
  have "\<not> strict_eq Undefined (pc_value c)" using assms(3) by (cases "pc_value c") auto
  then have "apply_op c Undefined = Inr True \<longleftrightarrow>
    pc_op c = NotExists \<or> pc_op c = Neq \<or> (pc_op c = NotIn \<and> is_array (pc_value c))"
    using assms(4) by (cases "pc_op c") (auto simp: apply_op_def array_includes_Undefined compare_missing)
  with assms(1,2) show ?thesis
    by (simp add: conditionMatches_def condition_source_of_def)
qed

lemma conditionMatches_Inl:
  "conditionMatches c pkg = Inl e \<Longrightarrow> e = PathTypeError \<and> pc_path c = None \<or> (\<exists>v. e = UnparseableNumericValue c v)"
  by (cases "pc_op c")
     (auto simp: conditionMatches_def apply_op_def compare_numbers_def toNumber_def Let_def
       split: option.splits sum.splits jsval.splits jsnum.splits if_splits)

lemma matchesConditions_Inl:
  "matchesConditions cs pkg = Inl e \<Longrightarrow>
     \<exists>c \<in> set cs. e = PathTypeError \<and> pc_path c = None \<or> (\<exists>v. e = UnparseableNumericValue c v)"
  by (induction cs) (auto split: sum.splits bool.splits dest: conditionMatches_Inl)

lemma policy_entries_forE:
  assumes "entry \<in> set (policy_entries_for policy pkg)"
  obtains ps operation es where "policies policy = Some ps" "map_of ps operation = Some es" "entry \<in> set es"
proof (cases "operation_name_of (executionPayload pkg)")
  case (Some name)
  show ?thesis
  proof (cases "policies policy")
    case (Some ps)
    with assms \<open>operation_name_of _ = Some name\<close> obtain es where "map_of ps name = Some es" "entry \<in> set es"
      by (cases "map_of ps name") (auto simp: policy_entries_for_def split: if_splits)
    with Some that show ?thesis by blast
  qed (use assms Some in \<open>auto simp: policy_entries_for_def split: if_splits\<close>)
qed (use assms in \<open>simp add: policy_entries_for_def\<close>)

text \<open>
  Under a well-formed policy the evaluation throws in one case only: an \<open>exists\<close> or
  \<open>notExists\<close> condition without a path, among the entries for the package's operation. All
  other failures are results; in particular an unparseable number is a malformed result.
\<close>

theorem evaluatePolicy_throws_only_without_path:
  assumes "wf_policy policy" and "evaluatePolicy pkg va policy = Inl e"
  shows "e = PathTypeError \<and> (\<exists>entry \<in> set (policy_entries_for policy pkg).
    \<exists>cs. pe_conditions (entry_base entry) = Some cs \<and>
      (\<exists>c \<in> set cs. pc_path c = None \<and> (pc_op c = Exists \<or> pc_op c = NotExists)))"
proof -
  have cm: "collect_matching (policy_entries_for policy pkg) pkg = Inl e" and e: "e = PathTypeError"
    using assms(2) by (auto simp: evaluatePolicy_def Let_def split: if_splits sum.splits condition_error.splits)
  obtain entry where entry: "entry \<in> set (policy_entries_for policy pkg)" "entry_match pkg entry = Inl e"
    using collect_matching_Inl [OF cm] by blast
  then obtain cs where cs: "pe_conditions (entry_base entry) = Some cs" "matchesConditions cs pkg = Inl e"
    by (auto simp: entry_match_def split: option.splits)
  then obtain c where c: "c \<in> set cs" "pc_path c = None"
    using matchesConditions_Inl [OF cs(2)] e by auto
  obtain ps operation es where "policies policy = Some ps" "map_of ps operation = Some es" "entry \<in> set es"
    using entry(1) by (rule policy_entries_forE)
  then have "wf_entry policy entry"
    using assms(1) by (auto simp: wf_policy_def list_all_iff dest!: map_of_SomeD split: option.splits)
  with cs(1) c have "wf_condition c" by (cases entry) (auto simp: list_all_iff)
  with c(2) have "pc_op c = Exists \<or> pc_op c = NotExists" by (simp add: wf_condition_def)
  with e entry(1) cs(1) c show ?thesis by blast
qed

definition pathless_policy :: policy_config where
  "pathless_policy = \<lparr>defaultRequirement = ProposerOnly,
     policies = Some [(''pay'', [RejectPolicyEntry \<lparr>pe_description = None, pe_conditions = Some
          [\<lparr>pc_source = ExecutionPayload, pc_path = None, pc_op = Exists, pc_value = Undefined\<rparr>]\<rparr>])],
     signerGroups = Some [(''all'', [''a''])]\<rparr>"

theorem evaluatePolicy_throws_only_without_path_witness:
  "\<exists>entry \<in> set (policy_entries_for pathless_policy (example_package 5)).
    \<exists>cs. pe_conditions (entry_base entry) = Some cs \<and>
      (\<exists>c \<in> set cs. pc_path c = None \<and> (pc_op c = Exists \<or> pc_op c = NotExists))"
proof -
  have wf: "wf_policy pathless_policy" by code_simp
  have "evaluatePolicy (example_package 5) (example_approvals []) pathless_policy = Inl PathTypeError"
    by code_simp
  from evaluatePolicy_throws_only_without_path [OF wf this] show ?thesis by (elim conjE)
qed

text \<open>
  The proposer gate admits exactly the members of the group \<open>proposers\<close>, or of the
  group \<open>all\<close> when the policy has no group \<open>proposers\<close>.
\<close>

lemma checkProposerAuthorization_iff:
  "checkProposerAuthorization d policy = Allowed \<longleftrightarrow>
     (\<exists>ds. (group_lookup policy ''proposers'' = Some ds \<or>
            group_lookup policy ''proposers'' = None \<and> group_lookup policy ''all'' = Some ds) \<and> d \<in> set ds)"
  by (auto simp: checkProposerAuthorization_def split: option.splits if_splits)

section \<open>The conditions as the profile states them\<close>




























definition answers :: "condition_error + bool \<Rightarrow> bool option" where
  "answers r = (case r of Inl e \<Rightarrow> None | Inr b \<Rightarrow> Some b)"

lemma answers_simps [simp]: "answers (Inl e) = None" "answers (Inr b) = Some b"
  by (simp_all add: answers_def)










end
