(* ===== verification/JsonText.thy ===== *)
theory JsonText
  imports JsValue
begin

text \<open>
  The text that \<open>JSON.stringify\<close> writes for a string (ECMAScript QuoteJSONString), used
  where the code builds map keys and identities from stringified tuples. The quoted form
  can be read back from the front of any text, hence tuples of quoted strings are
  injective.
\<close>

definition hex_digit :: "nat \<Rightarrow> char" where
  "hex_digit d = char_of (if d < 10 then 48 + d else 87 + d)"

definition quote_char :: "char \<Rightarrow> string" where
  "quote_char c =
    (if c = CHR 0x22 then [CHR 0x5C, CHR 0x22]
     else if c = CHR 0x5C then [CHR 0x5C, CHR 0x5C]
     else if c = CHR 0x08 then [CHR 0x5C, CHR ''b'']
     else if c = CHR 0x09 then [CHR 0x5C, CHR ''t'']
     else if c = CHR 0x0A then [CHR 0x5C, CHR ''n'']
     else if c = CHR 0x0C then [CHR 0x5C, CHR ''f'']
     else if c = CHR 0x0D then [CHR 0x5C, CHR ''r'']
     else let n = (of_char c :: nat) in
       if n < 32 then [CHR 0x5C, CHR ''u'', CHR ''0'', CHR ''0'', hex_digit (n div 16), hex_digit (n mod 16)]
       else [c])"

definition json_quote :: "string \<Rightarrow> string" where
  "json_quote s = CHR 0x22 # concat (map quote_char s) @ [CHR 0x22]"

text \<open>\<open>JSON.stringify\<close> of an array whose elements are already printed.\<close>

fun json_join :: "string list \<Rightarrow> string" where
  "json_join [] = []"
| "json_join [x] = x"
| "json_join (x # y # xs) = x @ CHR '','' # json_join (y # xs)"

definition json_array_text :: "string list \<Rightarrow> string" where
  "json_array_text xs = CHR ''['' # json_join xs @ '']''"

text \<open>\<open>null\<close> or a string.\<close>

definition json_opt_text :: "string option \<Rightarrow> string" where
  "json_opt_text v = (case v of None \<Rightarrow> ''null'' | Some s \<Rightarrow> json_quote s)"

section \<open>Reading back\<close>

definition hex_val :: "char \<Rightarrow> nat" where
  "hex_val c = (let n = (of_char c :: nat) in if n < 58 then n - 48 else n - 87)"

text \<open>One character off the front of a quoted text.\<close>

definition read_char :: "string \<Rightarrow> (char \<times> string) option" where
  "read_char s = (case s of [] \<Rightarrow> None
     | c # r \<Rightarrow> if c = CHR 0x22 then None
       else if c \<noteq> CHR 0x5C then Some (c, r)
       else (case r of [] \<Rightarrow> None
         | e # r' \<Rightarrow> if e = CHR ''b'' then Some (CHR 0x08, r')
             else if e = CHR ''t'' then Some (CHR 0x09, r')
             else if e = CHR ''n'' then Some (CHR 0x0A, r')
             else if e = CHR ''f'' then Some (CHR 0x0C, r')
             else if e = CHR ''r'' then Some (CHR 0x0D, r')
             else if e = CHR ''u'' then
               (case r' of _ # _ # h # l # r'' \<Rightarrow> Some (char_of (16 * hex_val h + hex_val l), r'') | _ \<Rightarrow> None)
             else Some (e, r')))"

lemma of_char_hex_digit: "d < 16 \<Longrightarrow> (of_char (hex_digit d) :: nat) = (if d < 10 then 48 + d else 87 + d)"
  by (simp add: hex_digit_def of_char_of)

lemma hex_val_digit [simp]: "d < 16 \<Longrightarrow> hex_val (hex_digit d) = d"
  by (simp add: hex_val_def of_char_hex_digit Let_def)

lemma hex_digits_val: "n < 32 \<Longrightarrow> 16 * hex_val (hex_digit (n div 16)) + hex_val (hex_digit (n mod 16)) = n"
  by simp

lemma read_char_quote [simp]: "read_char (quote_char c @ r) = Some (c, r)"
proof (cases "c \<in> {CHR 0x22, CHR 0x5C, CHR 0x08, CHR 0x09, CHR 0x0A, CHR 0x0C, CHR 0x0D}")
  case True
  then show ?thesis by (auto simp: quote_char_def read_char_def)
next
  case False
  show ?thesis
  proof (cases "(of_char c :: nat) < 32")
    case True
    have "char_of (16 * hex_val (hex_digit (of_char c div 16)) + hex_val (hex_digit (of_char c mod 16))) = c"
      unfolding hex_digits_val [OF True] by simp
    with False True show ?thesis by (simp add: quote_char_def read_char_def Let_def del: hex_val_digit)
  qed (use False in \<open>simp add: quote_char_def read_char_def\<close>)
qed

lemma read_char_end [simp]: "read_char (CHR 0x22 # r) = None"
  by (simp add: read_char_def)

lemma quoted_prefix:
  "concat (map quote_char s) @ CHR 0x22 # r = concat (map quote_char t) @ CHR 0x22 # r' \<Longrightarrow> s = t \<and> r = r'"
proof (induction s arbitrary: t)
  case Nil
  then show ?case
  proof (cases t)
    case (Cons d t')
    with Nil have "read_char (CHR 0x22 # r) = read_char (quote_char d @ concat (map quote_char t') @ CHR 0x22 # r')"
      by simp
    then show ?thesis by simp
  qed simp
next
  case (Cons c s)
  show ?case
  proof (cases t)
    case Nil
    with Cons.prems have "read_char (quote_char c @ concat (map quote_char s) @ CHR 0x22 # r) = read_char (CHR 0x22 # r')"
      by simp
    then show ?thesis by simp
  next
    case (Cons d t')
    with Cons.prems have eq: "quote_char c @ concat (map quote_char s) @ CHR 0x22 # r =
        quote_char d @ concat (map quote_char t') @ CHR 0x22 # r'" by simp
    from arg_cong [OF eq, of read_char] have "c = d"
      "concat (map quote_char s) @ CHR 0x22 # r = concat (map quote_char t') @ CHR 0x22 # r'"
      by simp_all
    with Cons.IH Cons show ?thesis by blast
  qed
qed

lemma json_quote_prefix: "json_quote s @ r = json_quote t @ r' \<longleftrightarrow> s = t \<and> r = r'"
  using quoted_prefix [of s r t r'] by (auto simp: json_quote_def)

lemma json_quote_inject [simp]: "json_quote s = json_quote t \<longleftrightarrow> s = t"
  using json_quote_prefix [of s "[]" t "[]"] by simp

lemma json_opt_text_prefix: "json_opt_text s @ r = json_opt_text t @ r' \<longleftrightarrow> s = t \<and> r = r'"
proof -
  have "json_quote s @ r \<noteq> ''null'' @ r'" for s r r' by (simp add: json_quote_def)
  then show ?thesis
    using json_quote_prefix by (auto simp: json_opt_text_def split: option.splits dest: sym)
qed

end
