(* ===== verification/JsDate.thy ===== *)
theory JsDate
  imports JsValue
begin

text \<open>
  Time stamps. \<open>Date.prototype.toISOString\<close> for the years 0 to 9999 and
  \<open>Date.parse\<close> of the two MPAS timestamp forms (seconds, or milliseconds, with a
  \<open>Z\<close> suffix), following the proleptic Gregorian calendar of ECMAScript: a day of the
  month is accepted from 1 to 31 and overflows into the next month, and hour 24 is accepted
  at midnight only. Texts of any other form are left to the host: \<open>date_parse\<close> takes the
  host's parser for them as an argument.

  The calendar is computed over 400-year eras starting on March 1st; \<open>date_parse_iso\<close>
  shows that parsing the text of a time value gives that value back.
\<close>

section \<open>Calendar\<close>

definition days_from_civil :: "int \<Rightarrow> int \<Rightarrow> int \<Rightarrow> int" where
  "days_from_civil y m d = (let y' = (if m \<le> 2 then y - 1 else y);
      era = y' div 400; yoe = y' mod 400;
      doy = (153 * (if 2 < m then m - 3 else m + 9) + 2) div 5 + (d - 1);
      doe = yoe * 365 + yoe div 4 - yoe div 100 + doy
    in era * 146097 + doe - 719468)"

text \<open>The year of the era from centuries, four-year cycles and years of the cycle.\<close>

definition year_of_era :: "int \<Rightarrow> int" where
  "year_of_era doe = (let c = min (doe div 36524) 3; r = doe - c * 36524;
      q = r div 1461; s = r - q * 1461
    in 100 * c + 4 * q + min (s div 365) 3)"

definition civil_from_days :: "int \<Rightarrow> int \<times> int \<times> int" where
  "civil_from_days z0 = (let z = z0 + 719468; era = z div 146097; doe = z mod 146097;
      yoe = year_of_era doe;
      doy = doe - (365 * yoe + yoe div 4 - yoe div 100);
      mp = (5 * doy + 2) div 153;
      d = doy - (153 * mp + 2) div 5 + 1;
      m = (if mp < 10 then mp + 3 else mp - 9);
      y = yoe + era * 400
    in (if m \<le> 2 then y + 1 else y, m, d))"

lemma year_of_era_bounds:
  assumes "0 \<le> doe" "doe < 146097"
  shows "0 \<le> year_of_era doe" "year_of_era doe < 400"
    "0 \<le> doe - (365 * year_of_era doe + year_of_era doe div 4 - year_of_era doe div 100)"
    "doe - (365 * year_of_era doe + year_of_era doe div 4 - year_of_era doe div 100) < 366"
proof -
  define c where "c = min (doe div 36524) 3"
  define r where "r = doe - c * 36524"
  define q where "q = r div 1461"
  define s where "s = r - q * 1461"
  define y where "y = min (s div 365) 3"
  have c: "0 \<le> c" "c \<le> 3" using assms by (auto simp: c_def)
  have r: "0 \<le> r" "r \<le> 36524"
    using assms by (auto simp: r_def c_def min_def)
  have q: "0 \<le> q" "q \<le> 24" using r by (auto simp: q_def)
  have s: "0 \<le> s" "s \<le> 1460" by (auto simp: s_def q_def)
  have y: "0 \<le> y" "y \<le> 3" "0 \<le> s - 365 * y" "s - 365 * y < 366"
    using s by (auto simp: y_def min_def)
  have Y: "year_of_era doe = 100 * c + 4 * q + y"
    by (simp add: year_of_era_def Let_def c_def r_def q_def s_def y_def)
  have d4: "(100 * c + 4 * q + y) div 4 = 25 * c + q" and d100: "(100 * c + 4 * q + y) div 100 = c"
    using y q by (auto intro!: int_div_pos_eq [where r = y] int_div_pos_eq [where r = "4 * q + y"])
  have D: "doe = 36524 * c + 1461 * q + s" by (simp add: s_def r_def)
  show "0 \<le> year_of_era doe" "year_of_era doe < 400" using Y c q y by auto
  show "0 \<le> doe - (365 * year_of_era doe + year_of_era doe div 4 - year_of_era doe div 100)"
    unfolding Y d4 d100 using y by (subst D) (simp add: algebra_simps)
  show "doe - (365 * year_of_era doe + year_of_era doe div 4 - year_of_era doe div 100) < 366"
    unfolding Y d4 d100 using y by (subst D) (simp add: algebra_simps)
qed

lemma month_bounds:
  fixes doy :: int
  assumes "0 \<le> doy" "doy < 366"
  shows "0 \<le> (5 * doy + 2) div 153" "(5 * doy + 2) div 153 < 12"
    "1 \<le> doy - (153 * ((5 * doy + 2) div 153) + 2) div 5 + 1"
    "doy - (153 * ((5 * doy + 2) div 153) + 2) div 5 + 1 \<le> 31"
proof -
  define mp where "mp = (5 * doy + 2) div 153"
  define f where "f = (153 * mp + 2) div 5"
  have mp: "5 * doy + 2 = 153 * mp + (5 * doy + 2) mod 153" by (simp add: mp_def)
  have f: "153 * mp + 2 = 5 * f + (153 * mp + 2) mod 5" by (simp add: f_def)
  have b: "0 \<le> (5 * doy + 2) mod 153" "(5 * doy + 2) mod 153 < 153"
    "0 \<le> (153 * mp + 2) mod 5" "(153 * mp + 2) mod 5 < 5" by simp_all
  show "0 \<le> (5 * doy + 2) div 153" "(5 * doy + 2) div 153 < 12" using assms mp b by linarith+
  show "1 \<le> doy - (153 * ((5 * doy + 2) div 153) + 2) div 5 + 1"
    "doy - (153 * ((5 * doy + 2) div 153) + 2) div 5 + 1 \<le> 31"
    using mp f b unfolding mp_def [symmetric] f_def [symmetric] by linarith+
qed

lemma days_civil:
  assumes "civil_from_days z = (y, m, d)"
  shows "days_from_civil y m d = z" "1 \<le> m" "m \<le> 12" "1 \<le> d" "d \<le> 31"
proof -
  define doe where "doe = (z + 719468) mod 146097"
  define era where "era = (z + 719468) div 146097"
  define yoe where "yoe = year_of_era doe"
  define doy where "doy = doe - (365 * yoe + yoe div 4 - yoe div 100)"
  define mp where "mp = (5 * doy + 2) div 153"
  have doe: "0 \<le> doe" "doe < 146097" by (simp_all add: doe_def)
  note yb = year_of_era_bounds [OF doe, folded yoe_def]
  have doy: "0 \<le> doy" "doy < 366" using yb(3,4) unfolding doy_def .
  have mb: "0 \<le> mp" "mp < 12" "1 \<le> doy - (153 * mp + 2) div 5 + 1" "doy - (153 * mp + 2) div 5 + 1 \<le> 31"
    unfolding mp_def by (rule month_bounds [OF doy])+
  define mm where "mm = (if mp < 10 then mp + 3 else mp - 9)"
  have "civil_from_days z = (if mm \<le> 2 then yoe + era * 400 + 1 else yoe + era * 400, mm, doy - (153 * mp + 2) div 5 + 1)"
    unfolding civil_from_days_def Let_def mm_def mp_def doy_def yoe_def doe_def era_def by (rule refl)
  with assms have mm: "mm = m" and "y = (if mm \<le> 2 then yoe + era * 400 + 1 else yoe + era * 400)"
    "d = doy - (153 * mp + 2) div 5 + 1" by auto
  then have eq: "y = (if m \<le> 2 then yoe + era * 400 + 1 else yoe + era * 400)"
    "m = (if mp < 10 then mp + 3 else mp - 9)" "d = doy - (153 * mp + 2) div 5 + 1"
    using mm_def by simp_all
  show "1 \<le> m" "m \<le> 12" "1 \<le> d" "d \<le> 31" using eq mb by auto
  have y': "(if m \<le> 2 then y - 1 else y) = yoe + era * 400" using eq(1) by simp
  have mp': "(if 2 < m then m - 3 else m + 9) = mp" using eq(2) mb by auto
  have "(yoe + era * 400) div 400 = era" "(yoe + era * 400) mod 400 = yoe" using yb(1,2) by auto
  then have "days_from_civil y m d = era * 146097 + doe - 719468"
    unfolding days_from_civil_def Let_def y' mp' using eq(3) by (simp add: doy_def)
  then show "days_from_civil y m d = z" by (simp add: era_def doe_def)
qed


section \<open>Text\<close>

definition ms_per_day :: int where
  "ms_per_day = 86400000"

text \<open>The \<open>w\<close> low decimal digits of \<open>n\<close>.\<close>

fun n_digits :: "nat \<Rightarrow> nat \<Rightarrow> string" where
  "n_digits 0 n = []"
| "n_digits (Suc w) n = n_digits w (n div 10) @ [digit_char (n mod 10)]"

abbreviation two_digits :: "int \<Rightarrow> string" where
  "two_digits k \<equiv> n_digits 2 (nat k)"

definition iso_year :: "int \<Rightarrow> string" where
  "iso_year y = (if 0 \<le> y \<and> y \<le> 9999 then n_digits 4 (nat y)
     else (if y < 0 then CHR ''-'' # n_digits 6 (nat (- y)) else CHR ''+'' # n_digits 6 (nat y)))"

text \<open>\<open>new Date(t).toISOString()\<close> for a time value \<open>t\<close> in milliseconds.\<close>

definition iso_of_ms :: "int \<Rightarrow> string" where
  "iso_of_ms t = (let (y, m, d) = civil_from_days (t div ms_per_day); r = t mod ms_per_day
     in iso_year y @ ''-'' @ two_digits m @ ''-'' @ two_digits d @ ''T'' @
        two_digits (r div 3600000) @ '':'' @ two_digits (r div 60000 mod 60) @ '':'' @
        two_digits (r div 1000 mod 60) @ ''.'' @ n_digits 3 (nat (r mod 1000)) @ ''Z'')"

definition iso_range :: "int \<Rightarrow> bool" where
  "iso_range t \<longleftrightarrow> (let (y, m, d) = civil_from_days (t div ms_per_day) in 0 \<le> y \<and> y \<le> 9999)"

definition digits_at :: "string \<Rightarrow> nat list \<Rightarrow> bool" where
  "digits_at s is = list_all (\<lambda>i. is_digit (s ! i)) is"

text \<open>The fixed positions of \<open>dddd-dd-ddTdd:dd:dd\<close>.\<close>

definition iso_prefix :: "string \<Rightarrow> bool" where
  "iso_prefix s \<longleftrightarrow> digits_at s [0, 1, 2, 3, 5, 6, 8, 9, 11, 12, 14, 15, 17, 18] \<and>
     s ! 4 = CHR ''-'' \<and> s ! 7 = CHR ''-'' \<and> s ! 10 = CHR ''T'' \<and> s ! 13 = CHR '':'' \<and> s ! 16 = CHR '':''"

definition iso_sec_form :: "string \<Rightarrow> bool" where
  "iso_sec_form s \<longleftrightarrow> length s = 20 \<and> iso_prefix s \<and> s ! 19 = CHR ''Z''"

definition iso_ms_form :: "string \<Rightarrow> bool" where
  "iso_ms_form s \<longleftrightarrow> length s = 24 \<and> iso_prefix s \<and> s ! 19 = CHR ''.'' \<and> digits_at s [20, 21, 22] \<and> s ! 23 = CHR ''Z''"

definition field :: "string \<Rightarrow> nat \<Rightarrow> nat \<Rightarrow> int" where
  "field s i n = int (nat_of_digits (take n (drop i s)))"

definition date_fields :: "string \<Rightarrow> int option" where
  "date_fields s = (let m = field s 5 2; d = field s 8 2; h = field s 11 2; mi = field s 14 2;
       sec = field s 17 2; ms = (if length s = 24 then field s 20 3 else 0)
     in if 1 \<le> m \<and> m \<le> 12 \<and> 1 \<le> d \<and> d \<le> 31 \<and> mi < 60 \<and> sec < 60 \<and>
           (h < 24 \<or> h = 24 \<and> mi = 0 \<and> sec = 0 \<and> ms = 0)
        then Some (days_from_civil (field s 0 4) m d * ms_per_day + h * 3600000 + mi * 60000 + sec * 1000 + ms)
        else None)"

text \<open>
  \<open>Date.parse\<close>; \<open>None\<close> is NaN. The host parses every text that is not a valid time stamp of
  the two forms.
\<close>

definition date_parse :: "(string \<Rightarrow> int option) \<Rightarrow> string \<Rightarrow> int option" where
  "date_parse legacy s = (if iso_sec_form s \<or> iso_ms_form s
     then (case date_fields s of Some t \<Rightarrow> Some t | None \<Rightarrow> legacy s) else legacy s)"

section \<open>Round trip\<close>

lemma length_n_digits [simp]: "length (n_digits w n) = w"
  by (induction w arbitrary: n) auto

lemma is_digit_n_digits [simp]: "i < w \<Longrightarrow> is_digit (n_digits w n ! i)"
  by (induction w arbitrary: n) (auto simp: nth_append less_Suc_eq)

lemma nat_of_digits_snoc: "nat_of_digits (xs @ [c]) = 10 * nat_of_digits xs + digit_val c"
  by (simp add: nat_of_digits_def nat_of_digits_acc_append)

lemma n_digits_val: "n < 10 ^ w \<Longrightarrow> nat_of_digits (n_digits w n) = n"
proof (induction w arbitrary: n)
  case 0
  then show ?case by (simp add: nat_of_digits_def)
next
  case (Suc w)
  then have "n div 10 < 10 ^ w" by (simp add: less_mult_imp_div_less)
  with Suc.IH show ?case by (simp add: nat_of_digits_snoc)
qed

lemma n_digits_int: "0 \<le> k \<Longrightarrow> k < 10 ^ w \<Longrightarrow> int (nat_of_digits (n_digits w (nat k))) = k"
  by (simp add: n_digits_val nat_less_iff)

lemma mixed_radix:
  fixes r :: int
  assumes "r = 1000 * x + a" "x = 60 * y + b" "y = 60 * z + c"
  shows "z * 3600000 + c * 60000 + b * 1000 + a = r"
  using assms by simp

lemma time_of_day:
  fixes r :: int
  assumes "0 \<le> r" "r < 86400000"
  shows "r div 3600000 * 3600000 + r div 60000 mod 60 * 60000 + r div 1000 mod 60 * 1000 + r mod 1000 = r"
    "0 \<le> r div 3600000" "r div 3600000 < 24"
proof -
  have d: "r div 60000 = r div 1000 div 60" "r div 3600000 = r div 1000 div 60 div 60"
    using zdiv_zmult2_eq [of 60 r 1000] zdiv_zmult2_eq [of 3600 r 1000] zdiv_zmult2_eq [of 60 "r div 1000" 60]
    by simp_all
  show "r div 3600000 * 3600000 + r div 60000 mod 60 * 60000 + r div 1000 mod 60 * 1000 + r mod 1000 = r"
    unfolding d by (rule mixed_radix) (rule mult_div_mod_eq [symmetric])+
  show "0 \<le> r div 3600000" "r div 3600000 < 24" using assms by auto
qed

lemma list_of_length:
  "length xs = 2 \<Longrightarrow> \<exists>a b. xs = [a, b]" "length xs = 3 \<Longrightarrow> \<exists>a b c. xs = [a, b, c]"
  "length xs = 4 \<Longrightarrow> \<exists>a b c d. xs = [a, b, c, d]"
  by (auto simp: numeral_eq_Suc length_Suc_conv)

lemma slices_aux:
  assumes "length Y = 4" "length M = 2" "length D = 2" "length H = 2" "length I = 2" "length S = 2" "length F = 3"
    and s: "s = Y @ ''-'' @ M @ ''-'' @ D @ ''T'' @ H @ '':'' @ I @ '':'' @ S @ ''.'' @ F @ ''Z''"
  shows "take 4 (drop 0 s) = Y" "take 2 (drop 5 s) = M" "take 2 (drop 8 s) = D" "take 2 (drop 11 s) = H"
    "take 2 (drop 14 s) = I" "take 2 (drop 17 s) = S" "take 3 (drop 20 s) = F" "length s = 24"
proof -
  obtain y1 y2 y3 y4 m1 m2 d1 d2 h1 h2 i1 i2 s1 s2 f1 f2 f3 where
    e: "Y = [y1, y2, y3, y4]" "M = [m1, m2]" "D = [d1, d2]" "H = [h1, h2]" "I = [i1, i2]" "S = [s1, s2]"
      "F = [f1, f2, f3]"
    using assms(1-7) by (metis list_of_length)
  show "take 4 (drop 0 s) = Y" "take 2 (drop 5 s) = M" "take 2 (drop 8 s) = D" "take 2 (drop 11 s) = H"
    "take 2 (drop 14 s) = I" "take 2 (drop 17 s) = S" "take 3 (drop 20 s) = F" "length s = 24"
    unfolding s e by simp_all
qed

lemmas iso_slices = slices_aux [OF length_n_digits length_n_digits length_n_digits length_n_digits
    length_n_digits length_n_digits length_n_digits]

lemma iso_fields:
  assumes "0 \<le> y" "y \<le> 9999" "0 \<le> m" "m < 100" "0 \<le> d" "d < 100" "0 \<le> h" "h < 100"
    "0 \<le> mi" "mi < 100" "0 \<le> sec" "sec < 100" "0 \<le> ms" "ms < 1000"
    and s: "s = n_digits 4 (nat y) @ ''-'' @ two_digits m @ ''-'' @ two_digits d @ ''T'' @
        two_digits h @ '':'' @ two_digits mi @ '':'' @ two_digits sec @ ''.'' @ n_digits 3 (nat ms) @ ''Z''"
  shows "field s 0 4 = y" "field s 5 2 = m" "field s 8 2 = d" "field s 11 2 = h"
    "field s 14 2 = mi" "field s 17 2 = sec" "field s 20 3 = ms" "length s = 24"
proof -
  have t: "take 4 (drop 0 s) = n_digits 4 (nat y)" "take 2 (drop 5 s) = two_digits m"
    "take 2 (drop 8 s) = two_digits d" "take 2 (drop 11 s) = two_digits h"
    "take 2 (drop 14 s) = two_digits mi" "take 2 (drop 17 s) = two_digits sec"
    "take 3 (drop 20 s) = n_digits 3 (nat ms)"
    and l: "length s = 24"
    by (rule iso_slices [OF s])+
  show "length s = 24" by (rule l)
  show "field s 0 4 = y" unfolding field_def t by (rule n_digits_int) (use assms(1,2) in simp_all)
  show "field s 5 2 = m" unfolding field_def t by (rule n_digits_int) (use assms(3,4) in simp_all)
  show "field s 8 2 = d" unfolding field_def t by (rule n_digits_int) (use assms(5,6) in simp_all)
  show "field s 11 2 = h" unfolding field_def t by (rule n_digits_int) (use assms(7,8) in simp_all)
  show "field s 14 2 = mi" unfolding field_def t by (rule n_digits_int) (use assms(9,10) in simp_all)
  show "field s 17 2 = sec" unfolding field_def t by (rule n_digits_int) (use assms(11,12) in simp_all)
  show "field s 20 3 = ms" unfolding field_def t by (rule n_digits_int) (use assms(13,14) in simp_all)
qed

lemma iso_of_ms_split:
  assumes "civil_from_days (t div ms_per_day) = (y, m, d)" "0 \<le> y" "y \<le> 9999" "r = t mod ms_per_day"
  shows "iso_of_ms t = n_digits 4 (nat y) @ ''-'' @ two_digits m @ ''-'' @ two_digits d @ ''T'' @
        two_digits (r div 3600000) @ '':'' @ two_digits (r div 60000 mod 60) @ '':'' @
        two_digits (r div 1000 mod 60) @ ''.'' @ n_digits 3 (nat (r mod 1000)) @ ''Z''"
  using assms by (simp add: iso_of_ms_def iso_year_def Let_def)

lemma iso_of_ms_form: "iso_range t \<Longrightarrow> iso_ms_form (iso_of_ms t)"
  by (auto simp: iso_range_def iso_of_ms_split iso_ms_form_def iso_prefix_def
      digits_at_def nth_append split: prod.splits)

lemma date_fields_eq:
  assumes "field s 0 4 = y" "field s 5 2 = m" "field s 8 2 = d" "field s 11 2 = h"
    "field s 14 2 = mi" "field s 17 2 = sec" "field s 20 3 = ms" "length s = 24"
    and "1 \<le> m" "m \<le> 12" "1 \<le> d" "d \<le> 31" "h < 24" "mi < 60" "sec < 60"
  shows "date_fields s = Some (days_from_civil y m d * ms_per_day + (h * 3600000 + mi * 60000 + sec * 1000 + ms))"
  using assms by (simp add: date_fields_def Let_def)

theorem date_parse_iso:
  assumes "iso_range t"
  shows "date_parse legacy (iso_of_ms t) = Some t"
proof -
  obtain y m d where c: "civil_from_days (t div ms_per_day) = (y, m, d)" by (metis prod_cases3)
  from assms c have y: "0 \<le> y" "y \<le> 9999" by (auto simp: iso_range_def)
  note dc = days_civil [OF c]
  define r where "r = t mod ms_per_day"
  have r: "0 \<le> r" "r < 86400000" by (simp_all add: r_def ms_per_day_def)
  define s where "s = iso_of_ms t"
  have b: "0 \<le> m" "m < 100" "0 \<le> d" "d < 100" using dc by auto
  have h: "0 \<le> r div 3600000" "r div 3600000 < 100" "0 \<le> r div 60000 mod 60" "r div 60000 mod 60 < 100"
    "0 \<le> r div 1000 mod 60" "r div 1000 mod 60 < 100" "0 \<le> r mod 1000" "r mod 1000 < 1000"
    using time_of_day(2,3) [OF r] by simp_all
  note fs = iso_fields [OF y b h iso_of_ms_split [OF c y r_def], folded s_def]
  have "date_fields s = Some (days_from_civil y m d * ms_per_day + (r div 3600000 * 3600000 +
      r div 60000 mod 60 * 60000 + r div 1000 mod 60 * 1000 + r mod 1000))"
    by (rule date_fields_eq [OF fs dc(2-5) time_of_day(3) [OF r]]) simp_all
  also note time_of_day(1) [OF r]
  also have "days_from_civil y m d * ms_per_day + r = t" by (simp add: dc r_def)
  finally show ?thesis
    using iso_of_ms_form [OF assms] by (simp add: date_parse_def s_def)
qed

end
