(* ===== verification/DispatchLedger.thy ===== *)
theory DispatchLedger
  imports JsonText JsDate MpasTypes
begin

text \<open>
  The dispatch ledger of the adapter, \<open>cli/src/adapter/dispatch-ledger.ts\<close>: the verifier's
  only protocol state, with the invariant that an action id is dispatched at most once.

  \<^item> The operations are written over a journal of any type \<open>'j\<close> with its \<open>append\<close> and
    \<open>readAll\<close>; the locale \<open>dispatch_journal\<close> states the contract of the interface
    \<open>DispatchJournal\<close> and is interpreted on \<open>MemoryDispatchJournal\<close>.
  \<^item> Entries are mutable objects held only by the map \<open>entries\<close>, each under one key, so a
    change of an entry is an update of the map at that key.
  \<^item> The clock readings are arguments; \<open>toISOString\<close> prints them.
\<close>

section \<open>Types\<close>

datatype ledger_id = Pair_Id action_id | Legacy_Id string

datatype resolution = Executed | Failed | Indeterminate

fun resolution_text :: "resolution \<Rightarrow> string" where
  "resolution_text Executed = ''executed''"
| "resolution_text Failed = ''failed''"
| "resolution_text Indeterminate = ''indeterminate''"

datatype ledger_event =
    is_executing: Ev_Executing (ev_id: ledger_id) (ev_hash: string) (ev_expires: timestamp) (ev_at: timestamp)
  | Ev_Resolved (ev_id: ledger_id) (ev_resolution: resolution) (ev_response: "jsval option") (ev_at: timestamp)

datatype entry_status = St_Executing | St_Resolved

record ledger_entry =
  le_id :: ledger_id
  le_hash :: string
  le_status :: entry_status
  le_resolution :: "resolution option"
  le_response :: "jsval option"
  le_expires :: timestamp

datatype ledger_check = Absent | Already_Executing | Reject_Check string string

type_synonym ledger_map = "(string, ledger_entry) jsmap"

record 'j ledger =
  lg_journal :: 'j
  lg_entries :: ledger_map

section \<open>Keys\<close>

text \<open>\<open>JSON.stringify\<close> of a one-element tuple or of the pair of scope (or null) and value.\<close>

fun key :: "ledger_id \<Rightarrow> string" where
  "key (Legacy_Id s) = json_array_text [json_quote s]"
| "key (Pair_Id a) = json_array_text [json_opt_text (aid_scope a), json_quote (aid_value a)]"

definition legacy_id :: "action_id \<Rightarrow> ledger_id" where
  "legacy_id a = Legacy_Id (case aid_scope a of None \<Rightarrow> aid_value a
     | Some s \<Rightarrow> if s = [] then aid_value a else s @ '':'' @ aid_value a)"

text \<open>The entry for an action id, with the key it is stored under.\<close>

definition entryFor :: "ledger_map \<Rightarrow> action_id \<Rightarrow> (string \<times> ledger_entry) option" where
  "entryFor es a = (case map_get es (key (Pair_Id a)) of
       Some e \<Rightarrow> Some (key (Pair_Id a), e)
     | None \<Rightarrow> map_option (Pair (key (legacy_id a))) (map_get es (key (legacy_id a))))"

section \<open>Operations\<close>

definition check :: "ledger_map \<Rightarrow> action_id \<Rightarrow> string \<Rightarrow> ledger_check" where
  "check es a envelopeHash = (case entryFor es a of
       None \<Rightarrow> Absent
     | Some (_, e) \<Rightarrow>
         if le_status e = St_Resolved then Reject_Check ''REPLAY_DETECTED'' ''Action has already been dispatched.''
         else if le_hash e = envelopeHash then Already_Executing
         else Reject_Check ''ACTION_ID_HASH_MISMATCH'' ''Action ID is already dispatching a different Action Envelope.'')"

definition authorizeDispatch ::
    "('j \<Rightarrow> ledger_event \<Rightarrow> 'j) \<Rightarrow> int \<Rightarrow> 'j ledger \<Rightarrow> action_id \<Rightarrow> string \<Rightarrow> timestamp \<Rightarrow> 'j ledger \<times> ledger_check" where
  "authorizeDispatch app now l a envelopeHash expiresAt =
    (let decision = check (lg_entries l) a envelopeHash in
     if decision \<noteq> Absent then (l, decision)
     else (\<lparr>lg_journal = app (lg_journal l) (Ev_Executing (Pair_Id a) envelopeHash expiresAt (iso_of_ms now)),
            lg_entries = map_set (key (Pair_Id a))
              \<lparr>le_id = Pair_Id a, le_hash = envelopeHash, le_status = St_Executing, le_resolution = None,
               le_response = None, le_expires = expiresAt\<rparr> (lg_entries l)\<rparr>, Absent))"

text \<open>
  \<open>resolve\<close>: \<open>Inl\<close> is the thrown \<open>Error\<close> for a response that does not match.
\<close>

definition response_mismatch :: "ledger_entry \<Rightarrow> resolution \<Rightarrow> jsval option \<Rightarrow> bool" where
  "response_mismatch e r response = (case response of None \<Rightarrow> False
     | Some v \<Rightarrow> js_get v ''result'' \<noteq> Str (resolution_text r) \<or>
         js_get (js_get v ''actionEnvelopeHash'') ''value'' \<noteq> Str (le_hash e))"

definition resolve ::
    "('j \<Rightarrow> ledger_event \<Rightarrow> 'j) \<Rightarrow> int \<Rightarrow> 'j ledger \<Rightarrow> action_id \<Rightarrow> resolution \<Rightarrow> jsval option \<Rightarrow> string + 'j ledger" where
  "resolve app now l a r response =
    (case entryFor (lg_entries l) a of
       None \<Rightarrow> Inr l
     | Some (k, e) \<Rightarrow>
         if response_mismatch e r response
         then Inl ''Terminal ActionResponse does not match the dispatch ledger resolution.''
         else if le_status e = St_Resolved then
           (if le_resolution e \<noteq> Some r \<or> le_response e \<noteq> None \<or> response = None then Inr l
            else Inr \<lparr>lg_journal = app (lg_journal l) (Ev_Resolved (le_id e) r response (iso_of_ms now)),
                      lg_entries = map_set k (e\<lparr>le_response := response\<rparr>) (lg_entries l)\<rparr>)
         else Inr \<lparr>lg_journal = app (lg_journal l) (Ev_Resolved (le_id e) r response (iso_of_ms now)),
                   lg_entries = map_set k (e\<lparr>le_status := St_Resolved, le_resolution := Some r,
                     le_response := response\<rparr>) (lg_entries l)\<rparr>)"

definition recoveryFor :: "ledger_map \<Rightarrow> action_id \<Rightarrow> string \<Rightarrow> (resolution \<times> jsval option) option" where
  "recoveryFor es a envelopeHash = (case entryFor es a of None \<Rightarrow> None
     | Some (_, e) \<Rightarrow> if le_status e \<noteq> St_Resolved \<or> le_hash e \<noteq> envelopeHash then None
         else map_option (\<lambda>r. (r, le_response e)) (le_resolution e))"

definition ledger_size :: "'j ledger \<Rightarrow> nat" where
  "ledger_size l = length (lg_entries l)"

section \<open>Replay and recovery\<close>

fun replay_event :: "ledger_map \<Rightarrow> ledger_event \<Rightarrow> ledger_map" where
  "replay_event es (Ev_Executing i h x t) =
     map_set (key i) \<lparr>le_id = i, le_hash = h, le_status = St_Executing, le_resolution = None,
        le_response = None, le_expires = x\<rparr> es"
| "replay_event es (Ev_Resolved i r p t) =
     (case map_get es (key i) of None \<Rightarrow> es
      | Some e \<Rightarrow> map_set (key i) (e\<lparr>le_status := St_Resolved, le_resolution := Some r, le_response := p\<rparr>) es)"

definition replay :: "ledger_event list \<Rightarrow> ledger_map" where
  "replay evs = foldl replay_event [] evs"

text \<open>The loop over the entries, with the clock reading of each journal app.\<close>

fun recover ::
    "('j \<Rightarrow> ledger_event \<Rightarrow> 'j) \<Rightarrow> (nat \<Rightarrow> int) \<Rightarrow> nat \<Rightarrow> 'j \<Rightarrow> ledger_map \<Rightarrow> 'j \<times> ledger_map" where
  "recover app clock n j [] = (j, [])"
| "recover app clock n j ((k, e) # es) =
     (if le_status e = St_Executing then
        (let (j', es') = recover app clock (Suc n)
               (app j (Ev_Resolved (le_id e) Indeterminate None (iso_of_ms (clock n)))) es
         in (j', (k, e\<lparr>le_status := St_Resolved, le_resolution := Some Indeterminate\<rparr>) # es'))
      else (let (j', es') = recover app clock n j es in (j', (k, e) # es')))"

definition newDispatchLedger ::
    "('j \<Rightarrow> ledger_event \<Rightarrow> 'j) \<Rightarrow> ('j \<Rightarrow> ledger_event list) \<Rightarrow> (nat \<Rightarrow> int) \<Rightarrow> 'j \<Rightarrow> 'j ledger" where
  "newDispatchLedger app readAll clock j =
    (let (j', es') = recover app clock 0 j (replay (readAll j)) in \<lparr>lg_journal = j', lg_entries = es'\<rparr>)"

section \<open>The journals\<close>

definition memory_append :: "ledger_event list \<Rightarrow> ledger_event \<Rightarrow> ledger_event list" where
  "memory_append events e = events @ [e]"

definition memory_readAll :: "ledger_event list \<Rightarrow> ledger_event list" where
  "memory_readAll events = events"

locale dispatch_journal =
  fixes app :: "'j \<Rightarrow> ledger_event \<Rightarrow> 'j" and readAll :: "'j \<Rightarrow> ledger_event list"
  assumes readAll_append: "readAll (app j e) = readAll j @ [e]"

section \<open>Keys are injective\<close>

lemma key_inject [simp]: "key i = key j \<longleftrightarrow> i = j"
proof -
  have "json_quote s @ '']'' \<noteq> json_opt_text p @ CHR '','' # t" for s p t
  proof
    assume eq: "json_quote s @ '']'' = json_opt_text p @ CHR '','' # t"
    show False
    proof (cases p)
      case None
      with eq show False by (simp add: json_opt_text_def json_quote_def)
    next
      case (Some q)
      with eq show False using json_quote_prefix [of s "'']''" q "CHR '','' # t"] by (simp add: json_opt_text_def)
    qed
  qed
  note ne = this this [symmetric]
  show ?thesis
  proof (cases i; cases j)
    fix a b assume ij: "i = Pair_Id a" "j = Pair_Id b"
    show ?thesis
      using json_opt_text_prefix [of "aid_scope a" "CHR '','' # json_quote (aid_value a) @ '']''"
          "aid_scope b" "CHR '','' # json_quote (aid_value b) @ '']''"]
        json_quote_prefix [of "aid_value a" "'']''" "aid_value b" "'']''"]
      by (cases a; cases b) (auto simp: ij json_array_text_def)
  next
    fix a s assume ij: "i = Pair_Id a" "j = Legacy_Id s"
    with ne show ?thesis by (simp add: json_array_text_def)
  next
    fix a s assume ij: "i = Legacy_Id s" "j = Pair_Id a"
    with ne show ?thesis by (simp add: json_array_text_def)
  next
    fix s t assume ij: "i = Legacy_Id s" "j = Legacy_Id t"
    show ?thesis using json_quote_prefix [of s "'']''" t "'']''"] by (simp add: ij json_array_text_def)
  qed
qed

declare key.simps [simp del]

section \<open>What replay establishes\<close>

definition entry_wf :: "string \<Rightarrow> ledger_entry \<Rightarrow> bool" where
  "entry_wf k e \<longleftrightarrow> key (le_id e) = k \<and>
     (if le_status e = St_Executing then le_resolution e = None \<and> le_response e = None
      else le_resolution e \<noteq> None)"

definition entries_wf :: "ledger_map \<Rightarrow> bool" where
  "entries_wf es \<longleftrightarrow> map_wf es \<and> (\<forall>(k, e) \<in> set es. entry_wf k e)"

lemma set_map_setD: "(k', v') \<in> set (map_set k v m) \<Longrightarrow> (k', v') = (k, v) \<or> (k', v') \<in> set m"
  by (induction m) (auto split: if_splits)

lemma entries_wf_set: "entries_wf es \<Longrightarrow> entry_wf k e \<Longrightarrow> entries_wf (map_set k e es)"
  by (auto simp: entries_wf_def dest!: set_map_setD)

lemma entries_wf_get: "entries_wf es \<Longrightarrow> map_get es k = Some e \<Longrightarrow> entry_wf k e"
  by (auto simp: entries_wf_def dest!: map_of_SomeD)

lemma entries_wf_replay_event: "entries_wf es \<Longrightarrow> entries_wf (replay_event es ev)"
proof (cases ev)
  case (Ev_Resolved i r p t)
  assume wf: "entries_wf es"
  show ?thesis
  proof (cases "map_get es (key i)")
    case (Some e)
    from entries_wf_get [OF wf Some] have "key (le_id e) = key i" by (simp add: entry_wf_def)
    then show ?thesis using wf Some Ev_Resolved by (auto intro!: entries_wf_set simp: entry_wf_def)
  qed (use wf Ev_Resolved in simp)
qed (auto intro!: entries_wf_set simp: entry_wf_def)

lemma entries_wf_foldl: "entries_wf es \<Longrightarrow> entries_wf (foldl replay_event es evs)"
  by (induction evs arbitrary: es) (auto intro: entries_wf_replay_event)

lemma entries_wf_replay: "entries_wf (replay evs)"
  unfolding replay_def by (rule entries_wf_foldl) (simp add: entries_wf_def)

lemma replay_snoc: "replay (evs @ [e]) = replay_event (replay evs) e"
  by (simp add: replay_def)

section \<open>Recovery\<close>

text \<open>What recovery makes of an entry, and the events it appends.\<close>

definition settle :: "ledger_entry \<Rightarrow> ledger_entry" where
  "settle e = (if le_status e = St_Executing
     then e\<lparr>le_status := St_Resolved, le_resolution := Some Indeterminate\<rparr> else e)"

definition settle_all :: "ledger_map \<Rightarrow> ledger_map" where
  "settle_all es = map (\<lambda>(k, e). (k, settle e)) es"

fun recovery_events :: "(nat \<Rightarrow> int) \<Rightarrow> nat \<Rightarrow> ledger_map \<Rightarrow> ledger_event list" where
  "recovery_events clock n [] = []"
| "recovery_events clock n ((k, e) # es) =
     (if le_status e = St_Executing
      then Ev_Resolved (le_id e) Indeterminate None (iso_of_ms (clock n)) # recovery_events clock (Suc n) es
      else recovery_events clock n es)"

lemma map_set_middle: "k \<notin> fst ` set pre \<Longrightarrow> map_set k v (pre @ (k, e) # post) = pre @ (k, v) # post"
  by (induction pre) auto

lemma map_get_middle: "k \<notin> fst ` set pre \<Longrightarrow> map_get (pre @ (k, e) # post) k = Some e"
  by (induction pre) auto

lemma foldl_recovery_events:
  "entries_wf (pre @ es) \<Longrightarrow> foldl replay_event (pre @ es) (recovery_events clock n es) = pre @ settle_all es"
proof (induction es arbitrary: pre n)
  case (Cons ke es)
  obtain k e where ke: "ke = (k, e)" by (cases ke)
  have k: "k \<notin> fst ` set pre" and wf: "entry_wf k e" using Cons.prems ke by (auto simp: entries_wf_def)
  let ?e = "e\<lparr>le_status := St_Resolved, le_resolution := Some Indeterminate\<rparr>"
  show ?case
  proof (cases "le_status e = St_Executing")
    case True
    with wf have id: "key (le_id e) = k" and same: "?e\<lparr>le_response := None\<rparr> = ?e"
      by (simp_all add: entry_wf_def)
    have step: "replay_event (pre @ (k, e) # es) (Ev_Resolved (le_id e) Indeterminate None (iso_of_ms (clock n)))
        = (pre @ [(k, ?e)]) @ es"
      using same by (simp add: id map_get_middle [OF k] map_set_middle [OF k] del: map_of_append)
    have "entries_wf ((pre @ [(k, ?e)]) @ es)"
      using entries_wf_replay_event [OF Cons.prems [unfolded ke],
          of "Ev_Resolved (le_id e) Indeterminate None (iso_of_ms (clock n))"] unfolding step .
    from Cons.IH [OF this] show ?thesis
      using True step by (simp add: ke settle_all_def settle_def)
  next
    case False
    from Cons.IH [of "pre @ [(k, e)]"] Cons.prems False show ?thesis
      by (simp add: ke settle_all_def settle_def)
  qed
qed (simp add: settle_all_def)

lemma recover_entries: "snd (recover app clock n j es) = settle_all es"
  by (induction app clock n j es rule: recover.induct)
     (auto simp: settle_all_def settle_def split: prod.splits)

lemma map_get_settle_all [simp]: "map_get (settle_all es) k = map_option settle (map_get es k)"
  by (induction es) (auto simp: settle_all_def)

lemma le_id_settle [simp]: "le_id (settle e) = le_id e" "le_hash (settle e) = le_hash e"
  "le_status (settle e) = St_Resolved"
  by (auto simp: settle_def split: entry_status.splits) (cases "le_status e"; simp)

section \<open>Runs of a ledger\<close>

datatype ledger_cmd = Authorize action_id string timestamp | Resolve action_id resolution "jsval option" | Restart

text \<open>
  One call on the ledger or a restart of the process, which keeps only the journal. The
  call comes with the clock readings it makes.
\<close>

fun ledger_step ::
    "('j \<Rightarrow> ledger_event \<Rightarrow> 'j) \<Rightarrow> ('j \<Rightarrow> ledger_event list) \<Rightarrow> 'j ledger \<Rightarrow> (nat \<Rightarrow> int) \<times> ledger_cmd \<Rightarrow> 'j ledger" where
  "ledger_step app readAll l (clock, Authorize a h x) = fst (authorizeDispatch app (clock 0) l a h x)"
| "ledger_step app readAll l (clock, Resolve a r p) =
     (case resolve app (clock 0) l a r p of Inl _ \<Rightarrow> l | Inr l' \<Rightarrow> l')"
| "ledger_step app readAll l (clock, Restart) = newDispatchLedger app readAll clock (lg_journal l)"

text \<open>
  The action ids whose authorization \<open>authorizeDispatch\<close> answered with \<open>absent\<close>, the
  permission to transmit, in order.
\<close>

fun permitted ::
    "('j \<Rightarrow> ledger_event \<Rightarrow> 'j) \<Rightarrow> 'j ledger \<Rightarrow> (nat \<Rightarrow> int) \<times> ledger_cmd \<Rightarrow> action_id list" where
  "permitted app l (clock, Authorize a h x) = (if snd (authorizeDispatch app (clock 0) l a h x) = Absent then [a] else [])"
| "permitted app l (clock, _) = []"

fun run_permitted ::
    "('j \<Rightarrow> ledger_event \<Rightarrow> 'j) \<Rightarrow> ('j \<Rightarrow> ledger_event list) \<Rightarrow> 'j ledger \<Rightarrow> ((nat \<Rightarrow> int) \<times> ledger_cmd) list \<Rightarrow> action_id list" where
  "run_permitted app readAll l [] = []"
| "run_permitted app readAll l (c # cs) = permitted app l c @ run_permitted app readAll (ledger_step app readAll l c) cs"

definition run_ledger ::
    "('j \<Rightarrow> ledger_event \<Rightarrow> 'j) \<Rightarrow> ('j \<Rightarrow> ledger_event list) \<Rightarrow> 'j ledger \<Rightarrow> ((nat \<Rightarrow> int) \<times> ledger_cmd) list \<Rightarrow> 'j ledger" where
  "run_ledger app readAll l cs = foldl (ledger_step app readAll) l cs"

lemma check_Absent_iff: "check es a h = Absent \<longleftrightarrow> entryFor es a = None"
  by (auto simp: check_def split: option.splits prod.splits if_splits)

lemma authorizeDispatch_answer: "snd (authorizeDispatch app now l a h x) = check (lg_entries l) a h"
  by (simp add: authorizeDispatch_def Let_def)

lemma permitted_iff: "a \<in> set (permitted app l c) \<longleftrightarrow> (\<exists>clock h x. c = (clock, Authorize a h x)) \<and> entryFor (lg_entries l) a = None"
  by (cases c; cases "snd c") (auto simp: check_Absent_iff authorizeDispatch_answer)

lemma entryFor_get: "entryFor es a = Some (k, e) \<Longrightarrow> map_get es k = Some e"
  by (auto simp: entryFor_def split: option.splits)

lemma entryFor_None_iff:
  "entryFor es a = None \<longleftrightarrow> map_get es (key (Pair_Id a)) = None \<and> map_get es (key (legacy_id a)) = None"
  by (auto simp: entryFor_def split: option.splits)

section \<open>Consequences of the journal contract\<close>

context dispatch_journal
begin

text \<open>The entries in memory are what a replay of the journal gives.\<close>

definition ledger_inv :: "'j ledger \<Rightarrow> bool" where
  "ledger_inv l \<longleftrightarrow> lg_entries l = replay (readAll (lg_journal l))"

lemma inv_wf: "ledger_inv l \<Longrightarrow> entries_wf (lg_entries l)"
  by (simp add: ledger_inv_def entries_wf_replay)

lemma inv_authorize: "ledger_inv l \<Longrightarrow> ledger_inv (fst (authorizeDispatch app now l a h x))"
  by (simp add: ledger_inv_def authorizeDispatch_def readAll_append replay_snoc Let_def)

lemma inv_resolve:
  assumes "ledger_inv l" "resolve app now l a r p = Inr l'"
  shows "ledger_inv l'"
proof (cases "entryFor (lg_entries l) a")
  case None
  with assms show ?thesis by (simp add: resolve_def)
next
  case (Some ke)
  obtain k e where ke: "ke = (k, e)" by (cases ke)
  have get: "map_get (lg_entries l) k = Some e" using Some ke by (blast intro: entryFor_get)
  from entries_wf_get [OF inv_wf [OF assms(1)] get] have wf: "entry_wf k e" .
  then have id: "key (le_id e) = k" by (simp add: entry_wf_def)
  have rep: "replay (readAll (app (lg_journal l) (Ev_Resolved (le_id e) r p t))) =
      map_set k (e\<lparr>le_status := St_Resolved, le_resolution := Some r, le_response := p\<rparr>) (lg_entries l)" for t
    using assms(1) get by (simp add: readAll_append replay_snoc id ledger_inv_def)
  have same: "e\<lparr>le_response := q\<rparr> = e\<lparr>le_status := St_Resolved, le_resolution := Some r, le_response := q\<rparr>"
    if "le_status e = St_Resolved" "le_resolution e = Some r" for q using that by simp
  have ent: "lg_entries l = replay (readAll (lg_journal l))" using assms(1) by (simp add: ledger_inv_def)
  from assms(2) have l': "l' = l \<or> (l' = \<lparr>lg_journal = app (lg_journal l) (Ev_Resolved (le_id e) r p (iso_of_ms now)),
      lg_entries = map_set k (e\<lparr>le_status := St_Resolved, le_resolution := Some r, le_response := p\<rparr>) (lg_entries l)\<rparr>)"
    unfolding resolve_def Some ke by (cases "le_status e") (auto simp: same split: if_splits)
  then show ?thesis
  proof
    assume "l' = l" with assms(1) show ?thesis by simp
  qed (simp add: ledger_inv_def rep)
qed

lemma readAll_recover: "readAll (fst (recover app clock n j es)) = readAll j @ recovery_events clock n es"
proof (induction es arbitrary: j n)
  case (Cons ke es)
  then show ?case by (cases ke) (simp add: readAll_append case_prod_beta Let_def)
qed simp

lemma new_ledger_entries: "lg_entries (newDispatchLedger app readAll clock j) = settle_all (replay (readAll j))"
  using recover_entries [of app clock 0 j "replay (readAll j)"] by (simp add: newDispatchLedger_def case_prod_beta Let_def)

lemma new_ledger_journal:
  "readAll (lg_journal (newDispatchLedger app readAll clock j)) = readAll j @ recovery_events clock 0 (replay (readAll j))"
  using readAll_recover [of clock 0 j "replay (readAll j)"] by (simp add: newDispatchLedger_def case_prod_beta Let_def)

lemma inv_new: "ledger_inv (newDispatchLedger app readAll clock j)"
proof -
  have "foldl replay_event (replay (readAll j)) (recovery_events clock 0 (replay (readAll j))) = settle_all (replay (readAll j))"
    using foldl_recovery_events [of "[]" "replay (readAll j)"] entries_wf_replay by simp
  then show ?thesis
    by (simp add: ledger_inv_def new_ledger_entries new_ledger_journal) (simp add: replay_def)
qed

lemma inv_step: "ledger_inv l \<Longrightarrow> ledger_inv (ledger_step app readAll l c)"
  by (cases c; cases "snd c") (auto intro: inv_authorize inv_resolve inv_new split: sum.splits)

lemma inv_run: "ledger_inv l \<Longrightarrow> ledger_inv (run_ledger app readAll l cs)"
  unfolding run_ledger_def by (induction cs arbitrary: l) (auto intro: inv_step)

text \<open>No step forgets an entry, its envelope hash or its resolution.\<close>

definition entry_le :: "ledger_entry \<Rightarrow> ledger_entry \<Rightarrow> bool" where
  "entry_le e e' \<longleftrightarrow> le_id e' = le_id e \<and> le_hash e' = le_hash e \<and>
     (le_status e = St_Resolved \<longrightarrow> le_status e' = St_Resolved \<and> le_resolution e' = le_resolution e \<and>
        (le_response e \<noteq> None \<longrightarrow> le_response e' = le_response e))"

definition entries_le :: "ledger_map \<Rightarrow> ledger_map \<Rightarrow> bool" where
  "entries_le es es' \<longleftrightarrow> (\<forall>k e. map_get es k = Some e \<longrightarrow> (\<exists>e'. map_get es' k = Some e' \<and> entry_le e e'))"

lemma entry_le_refl [simp]: "entry_le e e"
  by (simp add: entry_le_def)

lemma entries_le_refl [simp]: "entries_le es es"
  by (simp add: entries_le_def)

lemma entry_le_trans: "entry_le a b \<Longrightarrow> entry_le b c \<Longrightarrow> entry_le a c"
  by (auto simp: entry_le_def)

lemma entries_le_trans: "entries_le a b \<Longrightarrow> entries_le b c \<Longrightarrow> entries_le a c"
  unfolding entries_le_def by (meson entry_le_trans)

lemma entries_le_set: "(\<And>e. map_get es k = Some e \<Longrightarrow> entry_le e e') \<Longrightarrow> entries_le es (map_set k e' es)"
  by (auto simp: entries_le_def)

lemma step_entries_le:
  assumes "ledger_inv l"
  shows "entries_le (lg_entries l) (lg_entries (ledger_step app readAll l c))"
proof -
  obtain clock cmd where c: "c = (clock, cmd)" by (cases c)
  show ?thesis
  proof (cases cmd)
    case (Authorize a h x)
    then show ?thesis
      by (auto simp: c authorizeDispatch_def check_Absent_iff entryFor_None_iff intro!: entries_le_set)
  next
    case (Resolve a r p)
    show ?thesis
    proof (cases "entryFor (lg_entries l) a")
      case (Some ke)
      then obtain k e where ke: "ke = (k, e)" "map_get (lg_entries l) k = Some e"
        by (cases ke) (auto dest: entryFor_get)
      then show ?thesis
        by (auto simp: c Resolve resolve_def Some entry_le_def intro!: entries_le_set)
    qed (simp add: c Resolve resolve_def)
  next
    case Restart
    have "entry_le e (settle e)" for e by (simp add: entry_le_def settle_def)
    with assms show ?thesis by (simp add: c Restart new_ledger_entries ledger_inv_def entries_le_def)
  qed
qed

lemma run_entries_le: "ledger_inv l \<Longrightarrow> entries_le (lg_entries l) (lg_entries (run_ledger app readAll l cs))"
  unfolding run_ledger_def
  by (induction cs arbitrary: l) (auto intro: entries_le_trans step_entries_le inv_step)

lemma replay_keeps_keys: "map_get es k \<noteq> None \<Longrightarrow> map_get (foldl replay_event es evs) k \<noteq> None"
proof (induction evs arbitrary: es)
  case (Cons ev evs)
  have "map_get (replay_event es ev) k \<noteq> None"
    using Cons.prems by (cases ev) (auto split: option.splits)
  with Cons.IH show ?case by simp
qed simp

lemma executing_known:
  assumes "ev \<in> set evs" "is_executing ev"
  shows "map_get (replay evs) (key (ev_id ev)) \<noteq> None"
proof -
  obtain pre post where evs: "evs = pre @ ev # post" using assms(1) by (auto simp: in_set_conv_decomp)
  have "map_get (replay_event (replay pre) ev) (key (ev_id ev)) \<noteq> None"
    using assms(2) by (cases ev) auto
  from replay_keeps_keys [OF this, of post] show ?thesis by (simp add: evs replay_def)
qed

text \<open>The key an entry is found under does not change.\<close>

lemma step_entryFor:
  assumes inv: "ledger_inv l" and e: "entryFor (lg_entries l) a = Some (k, e)"
  shows "\<exists>e'. entryFor (lg_entries (ledger_step app readAll l c)) a = Some (k, e') \<and> entry_le e e'"
proof -
  let ?es = "lg_entries l" and ?es' = "lg_entries (ledger_step app readAll l c)"
  obtain e' where e': "map_get ?es' k = Some e'" "entry_le e e'"
    using step_entries_le [OF inv, of c] entryFor_get [OF e] by (auto simp: entries_le_def)
  have keys: "map_get ?es' (key (Pair_Id a)) = None" if none: "map_get ?es (key (Pair_Id a)) = None"
  proof (cases c)
    case (Pair clock cmd)
    show ?thesis
    proof (cases cmd)
      case (Authorize b h x)
      with e none Pair show ?thesis
        by (cases "b = a") (auto simp: authorizeDispatch_def check_Absent_iff Let_def)
    next
      case (Resolve b r p)
      then show ?thesis using none Pair
        by (auto simp: resolve_def split: option.splits prod.splits dest!: entryFor_get)
    next
      case Restart
      then show ?thesis using none Pair inv by (simp add: new_ledger_entries ledger_inv_def)
    qed
  qed
  show ?thesis
  proof (cases "map_get ?es (key (Pair_Id a))")
    case None
    with e e' keys show ?thesis by (auto simp: entryFor_def)
  next
    case (Some e0)
    with e e' show ?thesis by (auto simp: entryFor_def)
  qed
qed

lemma run_entryFor:
  assumes "ledger_inv l" and "entryFor (lg_entries l) a = Some (k, e)"
  shows "\<exists>e'. entryFor (lg_entries (run_ledger app readAll l cs)) a = Some (k, e') \<and> entry_le e e'"
  using assms unfolding run_ledger_def
proof (induction cs arbitrary: l e)
  case (Cons c cs)
  from step_entryFor [OF Cons.prems, of c] obtain e1 where
    e1: "entryFor (lg_entries (ledger_step app readAll l c)) a = Some (k, e1)" "entry_le e e1" by blast
  from Cons.IH [OF inv_step [OF Cons.prems(1)] e1(1)] e1(2) show ?case
    by (auto intro: entry_le_trans)
qed simp

lemma run_recoveryFor:
  assumes "ledger_inv l" and "recoveryFor (lg_entries l) a h = Some (r, p)"
  shows "\<exists>p'. recoveryFor (lg_entries (run_ledger app readAll l cs)) a h = Some (r, p') \<and> (p \<noteq> None \<longrightarrow> p' = p)"
proof -
  obtain k e where e: "entryFor (lg_entries l) a = Some (k, e)" "le_status e = St_Resolved" "le_hash e = h"
      "le_resolution e = Some r" "le_response e = p"
    using assms(2) by (auto simp: recoveryFor_def split: option.splits if_splits)
  from run_entryFor [OF assms(1) e(1), of cs] e(2-) show ?thesis
    by (auto simp: recoveryFor_def entry_le_def)
qed

lemma step_journal:
  "\<exists>evs. readAll (lg_journal (ledger_step app readAll l c)) = readAll (lg_journal l) @ evs \<and>
     map ev_id (filter is_executing evs) = map Pair_Id (permitted app l c)"
proof -
  obtain clock cmd where c: "c = (clock, cmd)" by (cases c)
  show ?thesis
  proof (cases cmd)
    case (Authorize a h x)
    then show ?thesis by (simp add: c authorizeDispatch_def readAll_append Let_def)
  next
    case (Resolve a r p)
    show ?thesis
    proof (cases "resolve app (clock 0) l a r p")
      case (Inr l')
      have "lg_journal l' = lg_journal l \<or>
          (\<exists>i t. lg_journal l' = app (lg_journal l) (Ev_Resolved i r p t))"
        using Inr by (auto simp: resolve_def split: option.splits prod.splits if_splits) blast+
      with Inr show ?thesis by (auto simp: c Resolve readAll_append)
    qed (simp add: c Resolve)
  next
    case Restart
    have "filter is_executing (recovery_events clock n es) = []" for n es
      by (induction clock n es rule: recovery_events.induct) simp_all
    then show ?thesis by (simp add: c Restart new_ledger_journal)
  qed
qed

lemma run_journal:
  "\<exists>evs. readAll (lg_journal (run_ledger app readAll l cs)) = readAll (lg_journal l) @ evs \<and>
     map ev_id (filter is_executing evs) = map Pair_Id (run_permitted app readAll l cs)"
proof (induction cs arbitrary: l)
  case (Cons c cs)
  from step_journal [of l c] obtain e1 where e1: "readAll (lg_journal (ledger_step app readAll l c)) = readAll (lg_journal l) @ e1"
    "map ev_id (filter is_executing e1) = map Pair_Id (permitted app l c)" by blast
  from Cons.IH [of "ledger_step app readAll l c"] obtain e2 where
    "readAll (lg_journal (run_ledger app readAll (ledger_step app readAll l c) cs)) =
       readAll (lg_journal (ledger_step app readAll l c)) @ e2"
    "map ev_id (filter is_executing e2) = map Pair_Id (run_permitted app readAll (ledger_step app readAll l c) cs)" by blast
  with e1 show ?case by (intro exI [of _ "e1 @ e2"]) (simp add: run_ledger_def)
qed (simp add: run_ledger_def)

lemma restart_idle:
  "newDispatchLedger app readAll clock' (lg_journal (newDispatchLedger app readAll clock j)) =
     newDispatchLedger app readAll clock j"
proof -
  let ?l = "newDispatchLedger app readAll clock j"
  have settled: "recover app clock' n j' (settle_all es) = (j', settle_all es)" for n j' es
    by (induction es arbitrary: n) (auto simp: settle_all_def)
  have "replay (readAll (lg_journal ?l)) = settle_all (replay (readAll j))"
    using inv_new [of clock j] by (simp add: ledger_inv_def new_ledger_entries)
  then have "newDispatchLedger app readAll clock' (lg_journal ?l) =
      \<lparr>lg_journal = lg_journal ?l, lg_entries = settle_all (replay (readAll j))\<rparr>"
    by (simp add: newDispatchLedger_def settled)
  also have "\<dots> = ?l" by (simp flip: new_ledger_entries [of clock])
  finally show ?thesis .
qed

lemma entryFor_Some_le: "entries_le es es' \<Longrightarrow> entryFor es a \<noteq> None \<Longrightarrow> entryFor es' a \<noteq> None"
  unfolding entryFor_None_iff entries_le_def by (metis not_None_eq)

lemma permitted_then_known:
  "a \<in> set (permitted app l c) \<Longrightarrow> entryFor (lg_entries (ledger_step app readAll l c)) a \<noteq> None"
  by (cases c; cases "snd c")
    (auto simp: authorizeDispatch_answer entryFor_None_iff, auto simp: authorizeDispatch_def Let_def)

lemma run_permitted_fresh:
  assumes "ledger_inv l"
  shows "distinct (run_permitted app readAll l cs) \<and>
    (\<forall>a \<in> set (run_permitted app readAll l cs). entryFor (lg_entries l) a = None)"
  using assms
proof (induction cs arbitrary: l)
  case (Cons c cs)
  let ?l = "ledger_step app readAll l c"
  have IH: "distinct (run_permitted app readAll ?l cs)"
      "\<And>a. a \<in> set (run_permitted app readAll ?l cs) \<Longrightarrow> entryFor (lg_entries ?l) a = None"
    using Cons.IH [OF inv_step [OF Cons.prems]] by auto
  have "distinct (permitted app l c)" by (cases c; cases "snd c") auto
  moreover have "entryFor (lg_entries l) a = None" if "a \<in> set (run_permitted app readAll ?l cs)" for a
    using entryFor_Some_le [OF step_entries_le [OF Cons.prems, of c], of a] IH(2) [OF that] by blast
  moreover have "a \<notin> set (run_permitted app readAll ?l cs)" if "a \<in> set (permitted app l c)" for a
    using permitted_then_known [OF that] IH(2) [of a] by auto
  moreover have "entryFor (lg_entries l) a = None" if "a \<in> set (permitted app l c)" for a
    using that permitted_iff by blast
  ultimately show ?case
    using IH(1) by (auto simp: disjoint_iff)
qed simp

end

interpretation memory_journal: dispatch_journal memory_append memory_readAll
  by unfold_locales (simp add: memory_append_def memory_readAll_def)

section \<open>Properties\<close>

text \<open>
  C27. At most once: over any sequence of authorizations, resolutions and restarts, from
  any journal, no action id receives the permission to transmit, the answer \<open>absent\<close> of
  \<open>authorizeDispatch\<close>, twice, and none that the
  journal already records as executing, as a pair or in the legacy form, receives it at all.
\<close>

theorem dispatched_at_most_once:
  assumes "dispatch_journal app readAll"
  shows "distinct (run_permitted app readAll (newDispatchLedger app readAll clock j) cs) \<and>
    (\<forall>a \<in> set (run_permitted app readAll (newDispatchLedger app readAll clock j) cs).
      \<forall>ev \<in> set (readAll j). is_executing ev \<longrightarrow> ev_id ev \<noteq> Pair_Id a \<and> ev_id ev \<noteq> legacy_id a)"
proof -
  note contract = assms
  have inv: "dispatch_journal.ledger_inv readAll (newDispatchLedger app readAll clock j)"
    by (rule dispatch_journal.inv_new [OF contract])
  have fresh: "entryFor (lg_entries (newDispatchLedger app readAll clock j)) a = None"
    if "a \<in> set (run_permitted app readAll (newDispatchLedger app readAll clock j) cs)" for a
    using dispatch_journal.run_permitted_fresh [OF contract inv, of cs] that by blast
  have "ev_id ev \<noteq> Pair_Id a \<and> ev_id ev \<noteq> legacy_id a"
    if a: "a \<in> set (run_permitted app readAll (newDispatchLedger app readAll clock j) cs)"
      and ev: "ev \<in> set (readAll j)" "is_executing ev" for a ev
    using fresh [OF a] dispatch_journal.executing_known [OF contract ev]
    by (auto simp: entryFor_None_iff dispatch_journal.new_ledger_entries [OF contract])
  with dispatch_journal.run_permitted_fresh [OF contract inv, of cs] show ?thesis by blast
qed

definition example_id :: action_id where
  "example_id = \<lparr>aid_value = ''1'', aid_scope = Some ''s''\<rparr>"

definition example_cmds :: "((nat \<Rightarrow> int) \<times> ledger_cmd) list" where
  "example_cmds = map (Pair (\<lambda>n. 0)) [Authorize example_id ''h'' ''x'', Authorize example_id ''h'' ''x'', Restart,
     Authorize example_id ''h'' ''x'']"

lemma memory_contract: "dispatch_journal memory_append memory_readAll"
  by (rule memory_journal.dispatch_journal_axioms)

theorem dispatched_at_most_once_witness:
  "distinct (run_permitted memory_append memory_readAll
     (newDispatchLedger memory_append memory_readAll (\<lambda>n. 0) []) example_cmds)"
  using dispatched_at_most_once [OF memory_contract] by (rule conjunct1)

text \<open>
  C28. The journal determines the ledger: after any sequence of operations the entries in
  memory are the replay of the journal, so a ledger opened on the journal after a crash has
  the same entries, with those still executing resolved as indeterminate.
\<close>

theorem restart_restores_entries:
  assumes "dispatch_journal app readAll"
    and "l = run_ledger app readAll (newDispatchLedger app readAll clock j) cs"
  shows "lg_entries l = replay (readAll (lg_journal l)) \<and>
    lg_entries (newDispatchLedger app readAll clock' (lg_journal l)) = settle_all (lg_entries l)"
proof -
  note contract = assms(1)
  have "dispatch_journal.ledger_inv readAll l"
    unfolding assms(2)
    by (rule dispatch_journal.inv_run [OF contract dispatch_journal.inv_new [OF contract]])
  then show ?thesis
    by (simp add: dispatch_journal.ledger_inv_def [OF contract] dispatch_journal.new_ledger_entries [OF contract])
qed

theorem restart_restores_entries_witness:
  "let l = run_ledger memory_append memory_readAll (newDispatchLedger memory_append memory_readAll (\<lambda>n. 0) []) example_cmds
   in lg_entries l = replay (memory_readAll (lg_journal l))"
  unfolding Let_def using restart_restores_entries [OF memory_contract refl] by (rule conjunct1)

text \<open>
  A recorded outcome is final: once the recovery lookup of an envelope gives a
  resolution it gives the same one after any further operations and restarts, and a
  terminal response, once attached, is never replaced.
\<close>

theorem resolution_final:
  assumes "dispatch_journal app readAll"
    and "l = run_ledger app readAll (newDispatchLedger app readAll clock j) before"
    and "recoveryFor (lg_entries l) a h = Some (r, p)"
  shows "\<exists>p'. recoveryFor (lg_entries (run_ledger app readAll l after)) a h = Some (r, p') \<and> (p \<noteq> None \<longrightarrow> p' = p)"
proof -
  note contract = assms(1)
  have "dispatch_journal.ledger_inv readAll l"
    unfolding assms(2)
    by (rule dispatch_journal.inv_run [OF contract dispatch_journal.inv_new [OF contract]])
  from dispatch_journal.run_recoveryFor [OF contract this assms(3)] show ?thesis .
qed

definition example_response :: jsval where
  "example_response = Obj [(''result'', Str ''executed''), (''actionEnvelopeHash'', Obj [(''value'', Str ''h'')])]"

definition example_ledger :: "ledger_event list ledger" where
  "example_ledger = run_ledger memory_append memory_readAll (newDispatchLedger memory_append memory_readAll (\<lambda>n. 0) [])
     (map (Pair (\<lambda>n. 0)) [Authorize example_id ''h'' ''x'', Resolve example_id Executed None])"

lemma example_recovery: "recoveryFor (lg_entries example_ledger) example_id ''h'' = Some (Executed, None)"
  by code_simp

theorem resolution_final_witness:
  "\<exists>p'. recoveryFor (lg_entries (run_ledger memory_append memory_readAll example_ledger
      [(\<lambda>n. 0, Resolve example_id Failed None), (\<lambda>n. 0, Restart),
       (\<lambda>n. 0, Resolve example_id Executed (Some example_response))])) example_id ''h'' = Some (Executed, p')"
  using resolution_final [OF memory_contract example_ledger_def example_recovery] by blast

text \<open>
  Write-ahead: over any sequence of operations the journal only grows, and the
  executing events it gains are exactly the permissions given, one each, in order.
\<close>

theorem permissions_are_journaled:
  assumes "dispatch_journal app readAll"
  shows "\<exists>evs. readAll (lg_journal (run_ledger app readAll l cs)) = readAll (lg_journal l) @ evs \<and>
    map ev_id (filter is_executing evs) = map Pair_Id (run_permitted app readAll l cs)"
  by (rule dispatch_journal.run_journal [OF assms])

theorem permissions_are_journaled_witness:
  "\<exists>evs. memory_readAll (lg_journal (run_ledger memory_append memory_readAll example_ledger example_cmds)) =
      memory_readAll (lg_journal example_ledger) @ evs \<and>
    map ev_id (filter is_executing evs) = map Pair_Id (run_permitted memory_append memory_readAll example_ledger example_cmds)"
  by (rule permissions_are_journaled [OF memory_contract])

end
