(* ===== verification/ApprovalRequirements.thy ===== *)
theory ApprovalRequirements
  imports MpasTypes
begin

text \<open>
  The coordination view of an approval expression,
  \<open>sdk/protocol/src/lib/approval-requirements.ts\<close>: whether immutable signer decisions
  satisfy the expression, may still satisfy it, or have made it unreachable.
\<close>

record ar_threshold =
  at_threshold :: jsnum
  at_eligibleSigners :: "did list"
  at_decision :: "decision option"

record override_signer =
  os_signer :: did
  os_permissions :: "string list"

record approval_requirements =
  ar_anyOf :: "ar_threshold list option"
  ar_allOf :: "ar_threshold list option"
  ar_overrideSigners :: "override_signer list option"

datatype ar_status = AR_Satisfied | AR_Pending | AR_Unreachable

fun immutableDecisionMap_from ::
    "(did, decision) jsmap \<Rightarrow> (did \<times> decision) list \<Rightarrow> string + (did, decision) jsmap" where
  "immutableDecisionMap_from result [] = Inr result"
| "immutableDecisionMap_from result ((s, d) # ds) =
     (case map_get result s of
        Some existing \<Rightarrow>
          if existing \<noteq> d then Inl (''Signer '' @ s @ '' has conflicting decisions for one Action Envelope.'')
          else immutableDecisionMap_from (map_set s d result) ds
      | None \<Rightarrow> immutableDecisionMap_from (map_set s d result) ds)"

definition immutableDecisionMap :: "(did \<times> decision) list \<Rightarrow> string + (did, decision) jsmap" where
  "immutableDecisionMap ds = immutableDecisionMap_from [] ds"

definition expected_decision :: "ar_threshold \<Rightarrow> decision" where
  "expected_decision t = (case at_decision t of None \<Rightarrow> Approve | Some d \<Rightarrow> d)"

fun count_decisions :: "(did, decision) jsmap \<Rightarrow> decision \<Rightarrow> did list \<Rightarrow> nat \<Rightarrow> nat \<Rightarrow> nat \<times> nat" where
  "count_decisions m expected [] matching undecided = (matching, undecided)"
| "count_decisions m expected (d # dids) matching undecided =
     (if map_get m d = Some expected then count_decisions m expected dids (matching + 1) undecided
      else if map_get m d = None then count_decisions m expected dids matching (undecided + 1)
      else count_decisions m expected dids matching undecided)"

definition thresholdStatus :: "ar_threshold \<Rightarrow> (did, decision) jsmap \<Rightarrow> ar_status" where
  "thresholdStatus t m =
    (let (matching, undecided) = count_decisions m (expected_decision t) (remdups (at_eligibleSigners t)) 0 0
     in if num_le (at_threshold t) (num_of_nat matching) then AR_Satisfied
        else if num_le (at_threshold t) (num_of_nat (matching + undecided)) then AR_Pending
        else AR_Unreachable)"

definition opt_list :: "'a list option \<Rightarrow> 'a list" where
  "opt_list xs = (case xs of None \<Rightarrow> [] | Some ys \<Rightarrow> ys)"

definition evaluateApprovalRequirements ::
    "approval_requirements \<Rightarrow> (did \<times> decision) list \<Rightarrow> string + ar_status" where
  "evaluateApprovalRequirements requirements decisions =
    (case immutableDecisionMap decisions of Inl e \<Rightarrow> Inl e
     | Inr decisionsBySigner \<Rightarrow>
       let overrides = opt_list (ar_overrideSigners requirements);
           anyOf = opt_list (ar_anyOf requirements); allOf = opt_list (ar_allOf requirements);
           status = (\<lambda>entry. thresholdStatus entry decisionsBySigner)
       in if list_ex (\<lambda>entry. ''reject'' \<in> set (os_permissions entry) \<and>
               map_get decisionsBySigner (os_signer entry) = Some Reject) overrides then Inr AR_Unreachable
          else if list_ex (\<lambda>entry. ''approve'' \<in> set (os_permissions entry) \<and>
               map_get decisionsBySigner (os_signer entry) = Some Approve) overrides then Inr AR_Satisfied
          else let anyOfSatisfied = (anyOf = [] \<or> list_ex (\<lambda>entry. status entry = AR_Satisfied) anyOf);
                   allOfSatisfied = list_all (\<lambda>entry. status entry = AR_Satisfied) allOf
               in if anyOfSatisfied \<and> allOfSatisfied then Inr AR_Satisfied
                  else let anyOfReachable = (anyOf = [] \<or> list_ex (\<lambda>entry. status entry \<noteq> AR_Unreachable) anyOf);
                           allOfReachable = list_all (\<lambda>entry. status entry \<noteq> AR_Unreachable) allOf
                       in if anyOfReachable \<and> allOfReachable then Inr AR_Pending
                          else if list_ex (\<lambda>entry. ''approve'' \<in> set (os_permissions entry) \<and>
                                 map_get decisionsBySigner (os_signer entry) = None) overrides
                               then Inr AR_Pending else Inr AR_Unreachable)"

section \<open>Counting\<close>

lemma count_decisions_eq:
  "count_decisions m x ds a b =
     (a + length (filter (\<lambda>d. map_get m d = Some x) ds), b + length (filter (\<lambda>d. map_get m d = None) ds))"
  by (induction ds arbitrary: a b) auto

definition matching_signers :: "(did \<Rightarrow> decision option) \<Rightarrow> ar_threshold \<Rightarrow> did set" where
  "matching_signers D t = {d \<in> set (at_eligibleSigners t). D d = Some (expected_decision t)}"

definition open_signers :: "(did \<Rightarrow> decision option) \<Rightarrow> ar_threshold \<Rightarrow> did set" where
  "open_signers D t = {d \<in> set (at_eligibleSigners t). D d = Some (expected_decision t) \<or> D d = None}"

definition at_met :: "(did \<Rightarrow> decision option) \<Rightarrow> ar_threshold \<Rightarrow> bool" where
  "at_met D t \<longleftrightarrow> num_le (at_threshold t) (num_of_nat (card (matching_signers D t)))"

definition at_open :: "(did \<Rightarrow> decision option) \<Rightarrow> ar_threshold \<Rightarrow> bool" where
  "at_open D t \<longleftrightarrow> num_le (at_threshold t) (num_of_nat (card (open_signers D t)))"

lemma length_filter_remdups: "length (filter P (remdups xs)) = card {x \<in> set xs. P x}"
proof -
  have "length (filter P (remdups xs)) = card (set (filter P (remdups xs)))"
    by (rule distinct_card [symmetric]) simp
  also have "set (filter P (remdups xs)) = {x \<in> set xs. P x}" by auto
  finally show ?thesis .
qed

lemma open_card:
  "card {d \<in> set xs. D d = Some x} + card {d \<in> set xs. D d = None} = card {d \<in> set xs. D d = Some x \<or> D d = None}"
proof -
  have "{d \<in> set xs. D d = Some x \<or> D d = None} = {d \<in> set xs. D d = Some x} \<union> {d \<in> set xs. D d = None}" by auto
  then show ?thesis by (subst card_Un_disjoint [symmetric]) auto
qed

lemma num_le_of_nat_mono: "num_le x (num_of_nat a) \<Longrightarrow> a \<le> b \<Longrightarrow> num_le x (num_of_nat b)"
  by (cases x) (auto simp: num_of_nat_def num_le_def)

lemma thresholdStatus_iff:
  "thresholdStatus t m = AR_Satisfied \<longleftrightarrow> at_met (map_get m) t"
  "thresholdStatus t m \<noteq> AR_Unreachable \<longleftrightarrow> at_open (map_get m) t"
proof -
  have le: "card (matching_signers (map_get m) t) \<le> card (open_signers (map_get m) t)"
    by (rule card_mono) (auto simp: matching_signers_def open_signers_def)
  show "thresholdStatus t m = AR_Satisfied \<longleftrightarrow> at_met (map_get m) t"
    "thresholdStatus t m \<noteq> AR_Unreachable \<longleftrightarrow> at_open (map_get m) t"
    using num_le_of_nat_mono [OF _ le]
    by (auto simp: thresholdStatus_def count_decisions_eq length_filter_remdups open_card
        at_met_def at_open_def matching_signers_def open_signers_def)
qed

section \<open>The decision map\<close>

definition extends :: "(did \<Rightarrow> decision option) \<Rightarrow> (did \<Rightarrow> decision option) \<Rightarrow> bool" where
  "extends D' D \<longleftrightarrow> (\<forall>s d. D s = Some d \<longrightarrow> D' s = Some d)"

lemma immutableDecisionMap_append:
  "immutableDecisionMap_from m (ds @ es) =
     (case immutableDecisionMap_from m ds of Inl e \<Rightarrow> Inl e | Inr m' \<Rightarrow> immutableDecisionMap_from m' es)"
  by (induction m ds rule: immutableDecisionMap_from.induct) (auto split: option.splits)

lemma immutableDecisionMap_get:
  "immutableDecisionMap_from m ds = Inr m' \<Longrightarrow>
     map_get m' s = Some d \<longleftrightarrow> map_get m s = Some d \<or> (s, d) \<in> set ds"
  by (induction m ds rule: immutableDecisionMap_from.induct) (auto split: option.splits if_splits)

lemma immutableDecisionMap_extends: "immutableDecisionMap_from m ds = Inr m' \<Longrightarrow> extends (map_get m') (map_get m)"
  by (simp add: extends_def immutableDecisionMap_get)

text \<open>The loop succeeds when some decision function has exactly the given decisions.\<close>

lemma immutableDecisionMap_ok:
  assumes "\<And>s d. D s = Some d \<longleftrightarrow> map_get m s = Some d \<or> (s, d) \<in> set ds"
  shows "\<exists>m'. immutableDecisionMap_from m ds = Inr m' \<and> map_get m' = D"
  using assms
proof (induction m ds rule: immutableDecisionMap_from.induct)
  case (1 m)
  have "map_get m = D"
  proof
    fix s
    have "D s = Some d \<longleftrightarrow> map_get m s = Some d" for d using 1 [of s d] by simp
    then show "map_get m s = D s" by (metis option.exhaust)
  qed
  then show ?case by simp
next
  case (2 result s d ds)
  have d: "D s = Some d" using 2(3) [of s d] by simp
  have upd: "D s' = Some d' \<longleftrightarrow> map_get (map_set s d result) s' = Some d' \<or> (s', d') \<in> set ds" for s' d'
    using 2(3) [of s' d'] d by auto
  show ?case
  proof (cases "map_get result s")
    case None
    from 2(1) [OF None upd] None show ?thesis by simp
  next
    case (Some existing)
    with 2(3) [of s existing] d have ex: "existing = d" by simp
    then have "\<not> existing \<noteq> d" by simp
    from 2(2) [OF Some this upd] Some ex show ?thesis by simp
  qed
qed

section \<open>Meaning of the status\<close>

text \<open>
  The status as conditions on the decision function \<open>D\<close>: an override rejected, an override
  approved, the threshold paths met, or still open.
\<close>

definition override_decided :: "(did \<Rightarrow> decision option) \<Rightarrow> approval_requirements \<Rightarrow> string \<Rightarrow> decision option \<Rightarrow> bool" where
  "override_decided D r permission d \<longleftrightarrow>
     (\<exists>e \<in> set (opt_list (ar_overrideSigners r)). permission \<in> set (os_permissions e) \<and> D (os_signer e) = d)"

definition paths_hold :: "(ar_threshold \<Rightarrow> bool) \<Rightarrow> approval_requirements \<Rightarrow> bool" where
  "paths_hold P r \<longleftrightarrow> (opt_list (ar_anyOf r) = [] \<or> (\<exists>t \<in> set (opt_list (ar_anyOf r)). P t)) \<and>
     (\<forall>t \<in> set (opt_list (ar_allOf r)). P t)"

definition status_of :: "(did \<Rightarrow> decision option) \<Rightarrow> approval_requirements \<Rightarrow> ar_status" where
  "status_of D r =
    (if override_decided D r ''reject'' (Some Reject) then AR_Unreachable
     else if override_decided D r ''approve'' (Some Approve) \<or> paths_hold (at_met D) r then AR_Satisfied
     else if paths_hold (at_open D) r \<or> override_decided D r ''approve'' None then AR_Pending
     else AR_Unreachable)"

lemma merge_branches:
  "(if a then Inr u else if b then Inr v else if c then Inr v else if d then Inr w else if e then Inr w else Inr u) =
   Inr (if a then u else if b \<or> c then v else if d \<or> e then w else u)"
  by simp

lemma evaluate_status_of:
  assumes "immutableDecisionMap ds = Inr m"
  shows "evaluateApprovalRequirements r ds = Inr (status_of (map_get m) r)"
  unfolding evaluateApprovalRequirements_def assms Let_def thresholdStatus_iff status_of_def
    override_decided_def paths_hold_def list_ex_iff list_all_iff sum.case merge_branches
  by (rule refl)

lemma at_open_antimono:
  assumes "extends D' D" "at_open D' t" shows "at_open D t"
proof -
  have "card (open_signers D' t) \<le> card (open_signers D t)"
    using assms(1) by (intro card_mono) (auto simp: open_signers_def extends_def)
  with assms(2) num_le_of_nat_mono show ?thesis unfolding at_open_def by blast
qed

lemma matching_le_open: "card (matching_signers D t) \<le> card (open_signers D t)"
  by (rule card_mono) (auto simp: matching_signers_def open_signers_def)

lemma at_met_open: "at_met D t \<Longrightarrow> at_open D t"
  unfolding at_met_def at_open_def using num_le_of_nat_mono [OF _ matching_le_open] .

lemma paths_hold_mono: "(\<And>t. P t \<Longrightarrow> Q t) \<Longrightarrow> paths_hold P r \<Longrightarrow> paths_hold Q r"
  unfolding paths_hold_def by blast

lemma override_decided_extends:
  "extends D' D \<Longrightarrow> override_decided D r p (Some d) \<Longrightarrow> override_decided D' r p (Some d)"
  unfolding override_decided_def extends_def by blast

lemma override_decided_back:
  "extends D' D \<Longrightarrow> override_decided D' r p d \<Longrightarrow> override_decided D r p None \<or> override_decided D r p d"
  unfolding override_decided_def extends_def by (metis option.exhaust)

lemma unreachable_stays:
  assumes ext: "extends D' D" and st: "status_of D r = AR_Unreachable"
  shows "status_of D' r = AR_Unreachable"
proof (cases "override_decided D r ''reject'' (Some Reject)")
  case True
  with override_decided_extends [OF ext] show ?thesis by (simp add: status_of_def)
next
  case False
  with st have closed: "\<not> paths_hold (at_open D) r" "\<not> override_decided D r ''approve'' None"
      "\<not> override_decided D r ''approve'' (Some Approve)"
    by (auto simp: status_of_def split: if_splits)
  have "\<not> paths_hold (at_open D') r"
    using closed(1) paths_hold_mono [of "at_open D'" "at_open D"] at_open_antimono [OF ext] by blast
  moreover from this have "\<not> paths_hold (at_met D') r"
    using paths_hold_mono [of "at_met D'" "at_open D'"] at_met_open by blast
  moreover have "\<not> override_decided D' r ''approve'' None" "\<not> override_decided D' r ''approve'' (Some Approve)"
    using override_decided_back [OF ext, of r "''approve''"] closed(2,3) by metis+
  ultimately show ?thesis by (simp add: status_of_def)
qed

section \<open>Properties\<close>

text \<open>
  Unreachable is final: whatever further decisions arrive, an expression once
  unreachable stays so (or the further decisions contradict earlier ones and are refused).
\<close>

theorem unreachable_is_final:
  assumes "evaluateApprovalRequirements r ds = Inr AR_Unreachable"
    and "evaluateApprovalRequirements r (ds @ es) = Inr s"
  shows "s = AR_Unreachable"
proof -
  obtain m where m: "immutableDecisionMap ds = Inr m"
    using assms(1) by (auto simp: evaluateApprovalRequirements_def split: sum.splits)
  obtain m' where m': "immutableDecisionMap (ds @ es) = Inr m'"
    using assms(2) by (auto simp: evaluateApprovalRequirements_def split: sum.splits)
  have "immutableDecisionMap_from m es = Inr m'"
    using m m' by (simp add: immutableDecisionMap_def immutableDecisionMap_append)
  from immutableDecisionMap_extends [OF this] have "extends (map_get m') (map_get m)" .
  with assms show ?thesis by (auto simp: evaluate_status_of [OF m] evaluate_status_of [OF m'] unreachable_stays)
qed

definition example_requirements :: approval_requirements where
  "example_requirements = \<lparr>ar_anyOf = None,
     ar_allOf = Some [\<lparr>at_threshold = Fin 2, at_eligibleSigners = [''a'', ''b''], at_decision = None\<rparr>],
     ar_overrideSigners = None\<rparr>"

lemma example_unreachable: "evaluateApprovalRequirements example_requirements [(''a'', Reject)] = Inr AR_Unreachable"
  by code_simp

lemma example_extension:
  "evaluateApprovalRequirements example_requirements ([(''a'', Reject)] @ [(''b'', Approve)]) = Inr AR_Unreachable"
  by code_simp

theorem unreachable_is_final_witness: "AR_Unreachable = AR_Unreachable"
  by (rule unreachable_is_final [OF example_unreachable example_extension])

lemma decisions_of_map:
  assumes "immutableDecisionMap ds = Inr m"
  shows "map_get m s = Some d \<longleftrightarrow> (s, d) \<in> set ds"
  using immutableDecisionMap_get [of "[]" ds m s d] assms by (simp add: immutableDecisionMap_def)

lemma map_of_decisions:
  assumes "\<And>s d. D s = Some d \<longleftrightarrow> (s, d) \<in> set ds"
  shows "\<exists>m. immutableDecisionMap ds = Inr m \<and> map_get m = D"
  unfolding immutableDecisionMap_def by (rule immutableDecisionMap_ok) (simp add: assms)

text \<open>
  C29. Satisfied means satisfied: the expression is satisfied exactly when the decisions are
  those of a function \<open>D\<close> of the signers, no reject override rejected, and either an
  approve override approved or the threshold paths are met, where distinct eligible signers
  are counted.
\<close>

theorem evaluateApprovalRequirements_satisfied_iff:
  "evaluateApprovalRequirements r ds = Inr AR_Satisfied \<longleftrightarrow>
     (\<exists>D. (\<forall>s d. D s = Some d \<longleftrightarrow> (s, d) \<in> set ds) \<and> \<not> override_decided D r ''reject'' (Some Reject) \<and>
        (override_decided D r ''approve'' (Some Approve) \<or> paths_hold (at_met D) r))"
proof
  assume sat: "evaluateApprovalRequirements r ds = Inr AR_Satisfied"
  then obtain m where m: "immutableDecisionMap ds = Inr m"
    by (auto simp: evaluateApprovalRequirements_def split: sum.splits)
  with sat have "status_of (map_get m) r = AR_Satisfied" by (simp add: evaluate_status_of)
  then show "\<exists>D. (\<forall>s d. D s = Some d \<longleftrightarrow> (s, d) \<in> set ds) \<and> \<not> override_decided D r ''reject'' (Some Reject) \<and>
        (override_decided D r ''approve'' (Some Approve) \<or> paths_hold (at_met D) r)"
    by (intro exI [of _ "map_get m"]) (simp add: decisions_of_map [OF m] status_of_def split: if_splits)
next
  assume "\<exists>D. (\<forall>s d. D s = Some d \<longleftrightarrow> (s, d) \<in> set ds) \<and> \<not> override_decided D r ''reject'' (Some Reject) \<and>
        (override_decided D r ''approve'' (Some Approve) \<or> paths_hold (at_met D) r)"
  then obtain D where D: "\<And>s d. D s = Some d \<longleftrightarrow> (s, d) \<in> set ds"
    and D': "\<not> override_decided D r ''reject'' (Some Reject)"
      "override_decided D r ''approve'' (Some Approve) \<or> paths_hold (at_met D) r" by (elim exE conjE) blast
  then have st: "status_of D r = AR_Satisfied" by (simp add: status_of_def)
  from map_of_decisions [OF D] obtain m where "immutableDecisionMap ds = Inr m" "map_get m = D" by blast
  with st show "evaluateApprovalRequirements r ds = Inr AR_Satisfied" by (simp add: evaluate_status_of)
qed

section \<open>Pending can be completed\<close>

definition approve_only :: "approval_requirements \<Rightarrow> bool" where
  "approve_only r \<longleftrightarrow> (\<forall>t \<in> set (opt_list (ar_anyOf r)) \<union> set (opt_list (ar_allOf r)). expected_decision t = Approve)"

definition relevant_signers :: "approval_requirements \<Rightarrow> did list" where
  "relevant_signers r = concat (map at_eligibleSigners (opt_list (ar_anyOf r) @ opt_list (ar_allOf r))) @
     map os_signer (opt_list (ar_overrideSigners r))"

definition all_approve :: "approval_requirements \<Rightarrow> (did \<Rightarrow> decision option) \<Rightarrow> did \<Rightarrow> decision option" where
  "all_approve r D s = (if D s = None \<and> s \<in> set (relevant_signers r) then Some Approve else D s)"

lemma at_met_all_approve:
  assumes "at_open D t" "expected_decision t = Approve" "set (at_eligibleSigners t) \<subseteq> set (relevant_signers r)"
  shows "at_met (all_approve r D) t"
proof -
  have "open_signers D t = matching_signers (all_approve r D) t"
    using assms(2,3) by (auto simp: open_signers_def matching_signers_def all_approve_def)
  with assms(1) show ?thesis by (simp add: at_open_def at_met_def)
qed

lemma override_all_approve:
  "override_decided (all_approve r D) r p (Some Reject) \<Longrightarrow> override_decided D r p (Some Reject)"
  "override_decided D r p None \<Longrightarrow> override_decided (all_approve r D) r p (Some Approve)"
  "override_decided D r p (Some d) \<Longrightarrow> override_decided (all_approve r D) r p (Some d)"
  by (auto simp: override_decided_def all_approve_def relevant_signers_def split: if_splits)

lemma pending_all_approve:
  assumes "approve_only r" "status_of D r = AR_Pending"
  shows "status_of (all_approve r D) r = AR_Satisfied"
proof -
  have "\<not> override_decided (all_approve r D) r ''reject'' (Some Reject)"
    using assms(2) override_all_approve(1) [of r D "''reject''"] by (simp add: status_of_def split: if_splits) argo
  moreover have "paths_hold (at_met (all_approve r D)) r" if "paths_hold (at_open D) r"
  proof -
    have "at_met (all_approve r D) t" if "at_open D t" "t \<in> set (opt_list (ar_anyOf r)) \<union> set (opt_list (ar_allOf r))" for t
      using that assms(1) by (intro at_met_all_approve) (auto simp: approve_only_def relevant_signers_def)
    then show ?thesis using \<open>paths_hold (at_open D) r\<close> unfolding paths_hold_def by blast
  qed
  moreover have "paths_hold (at_open D) r \<or> override_decided D r ''approve'' None"
    using assms(2) by (simp add: status_of_def split: if_splits)
  ultimately show ?thesis using override_all_approve(2) [of D r "''approve''"] by (simp add: status_of_def) argo
qed

text \<open>
  Pending is not a dead end: when every threshold counts approvals, a pending
  expression is satisfied by some further decisions.
\<close>

theorem pending_can_be_satisfied:
  assumes "evaluateApprovalRequirements r ds = Inr AR_Pending" and "approve_only r"
  shows "\<exists>es. evaluateApprovalRequirements r (ds @ es) = Inr AR_Satisfied"
proof -
  obtain m where m: "immutableDecisionMap ds = Inr m"
    using assms(1) by (auto simp: evaluateApprovalRequirements_def split: sum.splits)
  let ?D = "all_approve r (map_get m)"
  define es where "es = map (\<lambda>s. (s, Approve)) (filter (\<lambda>s. map_get m s = None) (relevant_signers r))"
  have "?D s = Some d \<longleftrightarrow> (s, d) \<in> set (ds @ es)" for s d
  proof -
    have "(s, d) \<in> set es \<longleftrightarrow> map_get m s = None \<and> s \<in> set (relevant_signers r) \<and> d = Approve"
      by (auto simp: es_def)
    moreover have "(s, d) \<in> set ds \<longleftrightarrow> map_get m s = Some d" by (simp add: decisions_of_map [OF m])
    ultimately show ?thesis by (simp add: all_approve_def) (metis option.distinct(1))
  qed
  from map_of_decisions [OF this] obtain m' where m': "immutableDecisionMap (ds @ es) = Inr m'" "map_get m' = ?D"
    by blast
  have "status_of (map_get m) r = AR_Pending" using assms(1) by (simp add: evaluate_status_of [OF m])
  from pending_all_approve [OF assms(2) this] m'(2)
  have "evaluateApprovalRequirements r (ds @ es) = Inr AR_Satisfied" by (simp add: evaluate_status_of [OF m'(1)])
  then show ?thesis ..
qed

theorem pending_can_be_satisfied_witness:
  "\<exists>es. evaluateApprovalRequirements example_requirements ([(''a'', Approve)] @ es) = Inr AR_Satisfied"
  by (rule pending_can_be_satisfied) code_simp+

end
