(* ===== verification/StrictJson.thy ===== *)
theory StrictJson
  imports JsonText
begin

text \<open>
  The strict JSON parser, \<open>sdk/protocol/src/utils/strict-json.ts\<close>. The position in the
  text is the list of characters still to be read. A parse result is an error or the value
  with the rest of the text. Positions in the texts of syntax errors are not modelled.

  The recursive functions count their nesting and loop steps with a fuel argument; twice
  the length of the text and one is enough (\<open>strictJsonParse_has_fuel\<close>). Strings have code
  units below 256; \<open>wide\<close> says how the model writes a larger unit given by an escape.
\<close>

datatype json_error = Json_Syntax | Json_Duplicate string string | Json_Fuel

section \<open>Object properties in enumeration order\<close>

text \<open>
  Own properties are enumerated with array indices first, in ascending order, then the other
  keys in order of creation.
\<close>

definition index_key :: "string \<Rightarrow> nat option" where
  "index_key k = (case array_index k of None \<Rightarrow> None
     | Some i \<Rightarrow> if i < 4294967295 then Some i else None)"

fun insert_index :: "nat \<Rightarrow> string \<Rightarrow> jsval \<Rightarrow> (string \<times> jsval) list \<Rightarrow> (string \<times> jsval) list" where
  "insert_index i k v [] = [(k, v)]"
| "insert_index i k v (kv # kvs) =
     (case index_key (fst kv) of Some j \<Rightarrow> if j < i then kv # insert_index i k v kvs else (k, v) # kv # kvs
      | None \<Rightarrow> (k, v) # kv # kvs)"

definition define_property :: "string \<Rightarrow> jsval \<Rightarrow> (string \<times> jsval) list \<Rightarrow> (string \<times> jsval) list" where
  "define_property k v kvs = (case index_key k of Some i \<Rightarrow> insert_index i k v kvs | None \<Rightarrow> kvs @ [(k, v)])"

section \<open>Scanning\<close>

fun skipWhitespace :: "string \<Rightarrow> string" where
  "skipWhitespace [] = []"
| "skipWhitespace (c # r) = (if c = CHR '' '' \<or> c = CHR 0x09 \<or> c = CHR 0x0A \<or> c = CHR 0x0D
     then skipWhitespace r else c # r)"

text \<open>
  The characters of a string literal after the opening quote: the raw contents up to the
  closing quote, and the rest. A backslash takes the next character with it.
\<close>

fun scan_string :: "string \<Rightarrow> (string \<times> string) option" where
  "scan_string [] = None"
| "scan_string (c # r) =
     (if c = CHR 0x5C then
        (case r of [] \<Rightarrow> None
         | e # r' \<Rightarrow> map_option (\<lambda>(raw, rest). (c # e # raw, rest)) (scan_string r'))
      else if c = CHR 0x22 then Some ([], r)
      else map_option (\<lambda>(raw, rest). (c # raw, rest)) (scan_string r))"

text \<open>\<open>JSON.parse\<close> of a string literal with the given raw contents.\<close>

definition hex_number :: "char \<Rightarrow> char \<Rightarrow> char \<Rightarrow> char \<Rightarrow> nat option" where
  "hex_number a b c d = base_digits 16 0 [a, b, c, d]"

definition code_unit :: "(nat \<Rightarrow> string) \<Rightarrow> nat \<Rightarrow> string" where
  "code_unit wide n = (if n < 256 then [char_of n] else wide n)"

definition simple_escape :: "char \<Rightarrow> char option" where
  "simple_escape e = (if e = CHR 0x22 \<or> e = CHR 0x5C \<or> e = CHR ''/'' then Some e
     else if e = CHR ''b'' then Some (CHR 0x08) else if e = CHR ''f'' then Some (CHR 0x0C)
     else if e = CHR ''n'' then Some (CHR 0x0A) else if e = CHR ''r'' then Some (CHR 0x0D)
     else if e = CHR ''t'' then Some (CHR 0x09) else None)"

fun decode_string :: "(nat \<Rightarrow> string) \<Rightarrow> string \<Rightarrow> string option" where
  "decode_string wide [] = Some []"
| "decode_string wide (c # r) =
     (if c = CHR 0x5C then
        (case r of [] \<Rightarrow> None
         | e # r' \<Rightarrow>
             if e = CHR ''u'' then
               (case r' of h1 # h2 # h3 # h4 # r'' \<Rightarrow>
                  (case hex_number h1 h2 h3 h4 of None \<Rightarrow> None
                   | Some n \<Rightarrow> map_option (\<lambda>s. code_unit wide n @ s) (decode_string wide r''))
                | _ \<Rightarrow> None)
             else (case simple_escape e of None \<Rightarrow> None
                   | Some x \<Rightarrow> map_option (Cons x) (decode_string wide r')))
      else if c = CHR 0x22 \<or> (of_char c :: nat) < 32 then None
      else map_option (Cons c) (decode_string wide r))"

definition parseString :: "(nat \<Rightarrow> string) \<Rightarrow> string \<Rightarrow> json_error + (string \<times> string)" where
  "parseString wide t = (case t of [] \<Rightarrow> Inl Json_Syntax
     | c # r \<Rightarrow> if c \<noteq> CHR 0x22 then Inl Json_Syntax
       else (case scan_string r of None \<Rightarrow> Inl Json_Syntax
         | Some (raw, rest) \<Rightarrow> (case decode_string wide raw of None \<Rightarrow> Inl Json_Syntax
             | Some s \<Rightarrow> Inr (s, rest))))"

text \<open>\<open>NUMBER_PATTERN\<close>: the longest prefix it matches, with the rest, or no match.\<close>

definition match_fraction :: "string \<Rightarrow> string \<times> string" where
  "match_fraction t = (case t of c # r \<Rightarrow>
       if c = CHR ''.'' \<and> takeWhile is_digit r \<noteq> [] then (c # takeWhile is_digit r, dropWhile is_digit r) else ([], t)
     | [] \<Rightarrow> ([], t))"

definition match_exponent :: "string \<Rightarrow> string \<times> string" where
  "match_exponent t = (case t of c # r \<Rightarrow>
       if c = CHR ''e'' \<or> c = CHR ''E'' then
         (let (sg, ds) = (case r of x # r' \<Rightarrow> if x = CHR ''+'' \<or> x = CHR ''-'' then ([x], r') else ([], r) | [] \<Rightarrow> ([], r))
          in if takeWhile is_digit ds \<noteq> [] then (c # sg @ takeWhile is_digit ds, dropWhile is_digit ds) else ([], t))
       else ([], t)
     | [] \<Rightarrow> ([], t))"

definition match_integer :: "string \<Rightarrow> (string \<times> string) option" where
  "match_integer t = (case t of [] \<Rightarrow> None
     | c # r \<Rightarrow> if c = CHR ''0'' then Some ([c], r)
       else if is_digit c then Some (takeWhile is_digit t, dropWhile is_digit t) else None)"

definition match_number :: "string \<Rightarrow> (string \<times> string) option" where
  "match_number t =
    (let (sg, t1) = (case t of c # r \<Rightarrow> if c = CHR ''-'' then ([c], r) else ([], t) | [] \<Rightarrow> ([], t))
     in case match_integer t1 of None \<Rightarrow> None
        | Some (i, t2) \<Rightarrow>
            (let (f, t3) = match_fraction t2; (e, t4) = match_exponent t3 in Some (sg @ i @ f @ e, t4)))"

section \<open>The parser\<close>

fun parseValue :: "(nat \<Rightarrow> string) \<Rightarrow> nat \<Rightarrow> string \<Rightarrow> string \<Rightarrow> json_error + (jsval \<times> string)"
and parseMembers :: "(nat \<Rightarrow> string) \<Rightarrow> nat \<Rightarrow> string \<Rightarrow> string set \<Rightarrow> (string \<times> jsval) list \<Rightarrow> string \<Rightarrow> json_error + (jsval \<times> string)"
and parseElements :: "(nat \<Rightarrow> string) \<Rightarrow> nat \<Rightarrow> string \<Rightarrow> jsval list \<Rightarrow> string \<Rightarrow> json_error + (jsval \<times> string)"
where
  "parseValue wide 0 path t0 = Inl Json_Fuel"
| "parseValue wide (Suc n) path t0 =
     (let t = skipWhitespace t0 in
      case t of [] \<Rightarrow> Inl Json_Syntax
      | c # r \<Rightarrow>
          if c = CHR ''{'' then
            (case skipWhitespace r of
               x # r' \<Rightarrow> if x = CHR ''}'' then Inr (Obj [], r') else parseMembers wide n path {} [] r
             | [] \<Rightarrow> parseMembers wide n path {} [] r)
          else if c = CHR ''['' then
            (case skipWhitespace r of
               x # r' \<Rightarrow> if x = CHR '']'' then Inr (Arr [], r') else parseElements wide n path [] r
             | [] \<Rightarrow> parseElements wide n path [] r)
          else if c = CHR 0x22 then
            (case parseString wide t of Inl e \<Rightarrow> Inl e | Inr (s, rest) \<Rightarrow> Inr (Str s, rest))
          else if starts_with ''true'' t then Inr (Bool True, drop 4 t)
          else if starts_with ''false'' t then Inr (Bool False, drop 5 t)
          else if starts_with ''null'' t then Inr (Null, drop 4 t)
          else (case match_number t of None \<Rightarrow> Inl Json_Syntax
                | Some (m, rest) \<Rightarrow> Inr (Num (js_number_of_string m), rest)))"
| "parseMembers wide 0 path seen result t0 = Inl Json_Fuel"
| "parseMembers wide (Suc n) path seen result t0 =
     (case parseString wide (skipWhitespace t0) of
        Inl e \<Rightarrow> Inl e
      | Inr (k, t1) \<Rightarrow>
          if k \<in> seen then Inl (Json_Duplicate k path)
          else (case skipWhitespace t1 of
             [] \<Rightarrow> Inl Json_Syntax
           | c # t2 \<Rightarrow> if c \<noteq> CHR '':'' then Inl Json_Syntax
               else (case parseValue wide n (path @ ''.'' @ k) t2 of
                  Inl e \<Rightarrow> Inl e
                | Inr (v, t3) \<Rightarrow>
                    (case skipWhitespace t3 of
                       [] \<Rightarrow> Inl Json_Syntax
                     | d # t4 \<Rightarrow>
                         if d = CHR '','' then
                           parseMembers wide n path (insert k seen) (define_property k v result) t4
                         else if d = CHR ''}'' then Inr (Obj (define_property k v result), t4)
                         else Inl Json_Syntax))))"
| "parseElements wide 0 path result t0 = Inl Json_Fuel"
| "parseElements wide (Suc n) path result t0 =
     (case parseValue wide n (path @ ''['' @ show_nat (length result) @ '']'') t0 of
        Inl e \<Rightarrow> Inl e
      | Inr (v, t1) \<Rightarrow>
          (case skipWhitespace t1 of
             [] \<Rightarrow> Inl Json_Syntax
           | d # t2 \<Rightarrow>
               if d = CHR '','' then parseElements wide n path (result @ [v]) t2
               else if d = CHR '']'' then Inr (Arr (result @ [v]), t2)
               else Inl Json_Syntax))"

definition strictJsonParse :: "(nat \<Rightarrow> string) \<Rightarrow> string \<Rightarrow> json_error + jsval" where
  "strictJsonParse wide text =
    (case parseValue wide (Suc (2 * length text)) ''$'' text of
       Inl e \<Rightarrow> Inl e
     | Inr (v, rest) \<Rightarrow> if skipWhitespace rest = [] then Inr v else Inl Json_Syntax)"

section \<open>Consumption and fuel\<close>

lemma skipWhitespace_le: "length (skipWhitespace t) \<le> length t"
  by (induction t) auto

lemma scan_string_lt: "scan_string t = Some (raw, rest) \<Longrightarrow> length rest < length t"
proof (induction t arbitrary: raw rest rule: scan_string.induct)
  case (2 c r)
  then show ?case by (cases r) (auto split: if_splits simp: less_SucI)
qed simp

lemma parseString_lt: "parseString wide t = Inr (s, rest) \<Longrightarrow> length rest < length t"
  by (auto simp: parseString_def split: list.splits if_splits option.splits dest!: scan_string_lt)

lemma match_fraction_le: "match_fraction t = (f, r) \<Longrightarrow> length r \<le> length t"
  by (auto simp: match_fraction_def length_dropWhile_le le_SucI split: list.splits if_splits)

lemma match_exponent_le: "match_exponent t = (e, r) \<Longrightarrow> length r \<le> length t"
  by (auto simp: match_exponent_def Let_def length_dropWhile_le le_SucI split: list.splits if_splits prod.splits)

lemma match_integer_lt: "match_integer t = Some (i, r) \<Longrightarrow> length r < length t"
  by (cases t) (auto simp: match_integer_def le_imp_less_Suc length_dropWhile_le split: if_splits)

lemma match_number_lt:
  assumes "match_number t = Some (m, r)"
  shows "length r < length t"
proof -
  obtain sg t1 where sg: "(case t of c # r \<Rightarrow> if c = CHR ''-'' then ([c], r) else ([], t) | [] \<Rightarrow> ([], t)) = (sg, t1)"
    by fastforce
  then have "length t1 \<le> length t" by (auto split: list.splits if_splits)
  moreover obtain i t2 where i: "match_integer t1 = Some (i, t2)"
    using assms by (auto simp: match_number_def sg split: option.splits)
  moreover obtain f t3 e t4 where "match_fraction t2 = (f, t3)" "match_exponent t3 = (e, t4)" by fastforce
  moreover from this i assms have "r = t4" by (simp add: match_number_def sg)
  ultimately show ?thesis
    using match_integer_lt match_fraction_le match_exponent_le by (meson le_less_trans less_le_trans order_trans)
qed

lemma skipWhitespace_Cons: "skipWhitespace t = c # r \<Longrightarrow> length r < length t"
  using skipWhitespace_le [of t] by simp

section \<open>Well-formed results\<close>

lemma keys_insert_index: "set (map fst (insert_index i k v kvs)) = insert k (set (map fst kvs))"
  by (induction kvs) (auto split: option.splits)

lemma distinct_insert_index:
  "distinct (map fst kvs) \<Longrightarrow> k \<notin> set (map fst kvs) \<Longrightarrow> distinct (map fst (insert_index i k v kvs))"
proof (induction kvs)
  case (Cons kv kvs)
  then show ?case using keys_insert_index [of i k v kvs] by (auto split: option.splits)
qed simp

lemma values_insert_index: "list_all P (insert_index i k v kvs) \<longleftrightarrow> P (k, v) \<and> list_all P kvs"
  by (induction kvs) (auto split: option.splits)

lemma keys_define_property: "fst ` set (define_property k v kvs) = insert k (fst ` set kvs)"
  using keys_insert_index by (auto simp: define_property_def split: option.splits)

lemma wf_define_property:
  "js_wf (Obj kvs) \<Longrightarrow> js_wf v \<Longrightarrow> k \<notin> fst ` set kvs \<Longrightarrow> js_wf (Obj (define_property k v kvs))"
  by (auto simp: define_property_def distinct_insert_index values_insert_index split: option.splits)

text \<open>
  What one call gives: a value that is well formed, and less text; and no lack of fuel when
  the fuel exceeds twice the length of the text by the given margin.
\<close>

definition good :: "nat \<Rightarrow> nat \<Rightarrow> string \<Rightarrow> json_error + (jsval \<times> string) \<Rightarrow> bool" where
  "good margin n t res \<longleftrightarrow> (\<forall>v r. res = Inr (v, r) \<longrightarrow> length r < length t \<and> js_wf v) \<and>
     (2 * length t + margin \<le> n \<longrightarrow> res \<noteq> Inl Json_Fuel)"

lemma good_Inl [simp]: "good margin n t (Inl e) \<longleftrightarrow> e \<noteq> Json_Fuel \<or> n < 2 * length t + margin"
  by (auto simp: good_def)

lemma good_Inr [simp]: "good margin n t (Inr (v, r)) \<longleftrightarrow> length r < length t \<and> js_wf v"
  by (auto simp: good_def)

lemma good_shrink:
  assumes "good m' n t' res" "length t' < length t" "m' \<le> m + 1"
  shows "good m (Suc n) t res"
  using assms unfolding good_def by fastforce

lemma parseString_not_fuel: "parseString wide t \<noteq> Inl Json_Fuel"
  by (auto simp: parseString_def split: list.splits option.splits)

lemma good_string:
  "good m n t (case parseString wide (skipWhitespace t) of Inl e \<Rightarrow> Inl e | Inr (s, rest) \<Rightarrow> Inr (Str s, rest))"
  using parseString_not_fuel [of wide "skipWhitespace t"] skipWhitespace_le [of t]
  by (auto split: sum.splits dest!: parseString_lt)

lemma good_number:
  "good m n t (case match_number (skipWhitespace t) of None \<Rightarrow> Inl Json_Syntax
     | Some (x, rest) \<Rightarrow> Inr (Num (js_number_of_string x), rest))"
  using skipWhitespace_le [of t] by (auto split: option.splits dest!: match_number_lt)

lemma good_parseValue:
  assumes members: "\<And>path t. good 1 n t (parseMembers wide n path {} [] t)"
    and elems: "\<And>path t. good 2 n t (parseElements wide n path [] t)"
  shows "good 1 (Suc n) t0 (parseValue wide (Suc n) path t0)"
proof (cases "skipWhitespace t0")
  case Nil
  then show ?thesis by simp
next
  case (Cons c r)
  have r: "length r < length t0" by (rule skipWhitespace_Cons [OF Cons])
  have m: "good 1 (Suc n) t0 (parseMembers wide n path {} [] r)"
    by (rule good_shrink [OF members r]) simp
  have e: "good 1 (Suc n) t0 (parseElements wide n path [] r)"
    by (rule good_shrink [OF elems r]) simp
  have short: "length x' < length t0" if "skipWhitespace r = x # x'" for x x'
    using skipWhitespace_Cons [OF that] r by simp
  have str: "good 1 (Suc n) t0 (case parseString wide (c # r) of Inl e \<Rightarrow> Inl e | Inr (s, rest) \<Rightarrow> Inr (Str s, rest))"
    using good_string [of 1 "Suc n" t0 wide] by (simp add: Cons)
  then have quote: "c = CHR 0x22 \<Longrightarrow> good 1 (Suc n) t0
      (case parseString wide (CHR 0x22 # r) of Inl e \<Rightarrow> Inl e | Inr (s, rest) \<Rightarrow> Inr (Str s, rest))" by simp
  have num: "good 1 (Suc n) t0 (case match_number (c # r) of None \<Rightarrow> Inl Json_Syntax
     | Some (x, rest) \<Rightarrow> Inr (Num (js_number_of_string x), rest))"
    using good_number [of 1 "Suc n" t0] by (simp add: Cons)
  have drop: "length (drop (Suc k) (c # r)) < length t0" for k using r by simp
  show ?thesis
    unfolding parseValue.simps Let_def Cons list.case
    using m e quote num drop [of 3] drop [of 4] short
    by (simp add: numeral_eq_Suc split: list.split)
qed

lemma good_parseMembers:
  assumes val: "\<And>path t. good 1 n t (parseValue wide n path t)"
    and members: "\<And>path seen result t. seen = fst ` set result \<Longrightarrow> js_wf (Obj result) \<Longrightarrow>
        good 1 n t (parseMembers wide n path seen result t)"
    and seen: "seen = fst ` set result" "js_wf (Obj result)"
  shows "good 1 (Suc n) t0 (parseMembers wide (Suc n) path seen result t0)"
proof (cases "parseString wide (skipWhitespace t0)")
  case (Inl e)
  with parseString_not_fuel [of wide "skipWhitespace t0"] show ?thesis by auto
next
  case (Inr kt)
  then obtain k t1 where k: "parseString wide (skipWhitespace t0) = Inr (k, t1)" by (cases kt) auto
  have t1: "length t1 < length t0" using parseString_lt [OF k] skipWhitespace_le [of t0] by simp
  show ?thesis
  proof (cases "k \<in> seen")
    case False
    show ?thesis
    proof (cases "skipWhitespace t1")
      case (Cons c t2)
      have t2: "length t2 < length t0" using skipWhitespace_Cons [OF Cons] t1 by simp
      show ?thesis
      proof (cases "parseValue wide n (path @ CHR ''.'' # k) t2")
        case (Inl e)
        have "good 1 (Suc n) t0 (Inl e)"
          using good_shrink [OF val t2, of 1 "path @ CHR ''.'' # k"] Inl by simp
        then show ?thesis by (simp add: k Cons False Inl)
      next
        case (Inr vt)
        then obtain v t3 where v: "parseValue wide n (path @ CHR ''.'' # k) t2 = Inr (v, t3)" by (cases vt) auto
        then have vwf: "length t3 < length t2" "js_wf v" using val [of t2 "path @ CHR ''.'' # k"] by simp_all
        let ?res = "define_property k v result"
        have res: "insert k seen = fst ` set ?res" "js_wf (Obj ?res)"
          using wf_define_property [OF seen(2) vwf(2)] False seen(1) by (simp_all add: keys_define_property)
        show ?thesis
        proof (cases "skipWhitespace t3")
          case (Cons d t4)
          have t4: "length t4 < length t0" using skipWhitespace_Cons [OF Cons] vwf(1) t2 by simp
          have "good 1 (Suc n) t0 (parseMembers wide n path (insert k seen) ?res t4)"
            by (rule good_shrink [OF members [OF res] t4]) simp
          then show ?thesis using t4 res(2) by (simp add: k \<open>skipWhitespace t1 = c # t2\<close> False v Cons del: js_wf.simps)
        qed (simp add: k Cons False v)
      qed
    qed (simp add: k False)
  qed (simp add: k)
qed

lemma good_parseElements:
  assumes val: "\<And>path t. good 1 n t (parseValue wide n path t)"
    and elems: "\<And>path result t. list_all js_wf result \<Longrightarrow> good 2 n t (parseElements wide n path result t)"
    and wf: "list_all js_wf result"
  shows "good 2 (Suc n) t0 (parseElements wide (Suc n) path result t0)"
proof (cases "parseValue wide n (path @ CHR ''['' # show_nat (length result) @ '']'') t0")
  case (Inl e)
  with val [of t0 "path @ CHR ''['' # show_nat (length result) @ '']''"] show ?thesis by auto
next
  case (Inr vt)
  then obtain v t1 where v: "parseValue wide n (path @ CHR ''['' # show_nat (length result) @ '']'') t0 = Inr (v, t1)"
    by (cases vt) auto
  then have vwf: "length t1 < length t0" "js_wf v"
    using val [of t0 "path @ CHR ''['' # show_nat (length result) @ '']''"] by simp_all
  show ?thesis
  proof (cases "skipWhitespace t1")
    case (Cons d t2)
    have t2: "length t2 < length t0" using skipWhitespace_Cons [OF Cons] vwf(1) by simp
    have res: "list_all js_wf (result @ [v])" using wf vwf by simp
    have "good 2 (Suc n) t0 (parseElements wide n path (result @ [v]) t2)"
      by (rule good_shrink [OF elems [OF res] t2]) simp
    then show ?thesis using t2 res by (simp add: v Cons)
  qed (simp add: v)
qed

lemma good_parse:
  "(\<forall>path t. good 1 n t (parseValue wide n path t)) \<and>
   (\<forall>path seen result t. seen = fst ` set result \<longrightarrow> js_wf (Obj result) \<longrightarrow>
      good 1 n t (parseMembers wide n path seen result t)) \<and>
   (\<forall>path result t. list_all js_wf result \<longrightarrow> good 2 n t (parseElements wide n path result t))"
proof (induction n)
  case (Suc n)
  note IH = Suc.IH [THEN conjunct1, rule_format] Suc.IH [THEN conjunct2, THEN conjunct1, rule_format]
    Suc.IH [THEN conjunct2, THEN conjunct2, rule_format]
  have "good 1 (Suc n) t (parseValue wide (Suc n) path t)" for path t
  proof (rule good_parseValue)
    show "good 1 n t (parseMembers wide n path {} [] t)" for path t by (rule IH(2)) simp_all
    show "good 2 n t (parseElements wide n path [] t)" for path t by (rule IH(3)) simp
  qed
  then show ?case
    using good_parseMembers [OF IH(1,2)] good_parseElements [OF IH(1,3)] by (intro conjI allI impI) assumption+
qed simp

lemma parsed_wf: "strictJsonParse wide text = Inr v \<Longrightarrow> js_wf v"
proof -
  assume "strictJsonParse wide text = Inr v"
  moreover have "good 1 (Suc (2 * length text)) text (parseValue wide (Suc (2 * length text)) ''$'' text)"
    using good_parse [of "Suc (2 * length text)" wide] by (elim conjE allE)
  ultimately show "js_wf v"
    by (auto simp: strictJsonParse_def good_def split: sum.splits if_splits simp del: parseValue.simps)
qed

text \<open>
  C30. The strict parser always finishes within its fuel, and a value it accepts has no
  object with a repeated member name, at any depth.
\<close>

theorem strictJsonParse_wf:
  "strictJsonParse wide text \<noteq> Inl Json_Fuel \<and> pred_sum (\<lambda>_. True) js_wf (strictJsonParse wide text)"
proof -
  have "good 1 (Suc (2 * length text)) text (parseValue wide (Suc (2 * length text)) ''$'' text)"
    using good_parse [of "Suc (2 * length text)" wide] by (elim conjE allE)
  then show ?thesis
    by (auto simp: strictJsonParse_def good_def pred_sum.simps split: sum.splits simp del: parseValue.simps)
qed

end
