(* ===== verification/Base64url.thy ===== *)
theory Base64url
  imports JsValue
begin

text \<open>
  Unpadded base64url as the code uses it: \<open>Buffer.from(text, "base64url")\<close>,
  \<open>toString("base64url")\<close>, and the strict decoder \<open>decodeBase64url\<close> of
  \<open>sdk/protocol/src/lib/signature-suites.ts\<close>, which accepts exactly the texts that encoding
  produces. A byte sequence is a string.
\<close>

definition b64_char :: "nat \<Rightarrow> char" where
  "b64_char n = (if n < 26 then char_of (65 + n) else if n < 52 then char_of (71 + n)
     else if n < 62 then char_of (n - 4) else if n = 62 then CHR ''-'' else CHR ''_'')"

definition b64_val :: "char \<Rightarrow> nat" where
  "b64_val c = (let n = (of_char c :: nat) in
     if 65 \<le> n \<and> n \<le> 90 then n - 65 else if 97 \<le> n \<and> n \<le> 122 then n - 71
     else if 48 \<le> n \<and> n \<le> 57 then n + 4 else if n = 45 then 62 else 63)"

definition b64_alphabet :: "char \<Rightarrow> bool" where
  "b64_alphabet c \<longleftrightarrow> (let n = (of_char c :: nat) in
     (65 \<le> n \<and> n \<le> 90) \<or> (97 \<le> n \<and> n \<le> 122) \<or> (48 \<le> n \<and> n \<le> 57) \<or> n = 45 \<or> n = 95)"

abbreviation byte :: "char \<Rightarrow> nat" where
  "byte \<equiv> of_char"

fun b64_encode :: "string \<Rightarrow> string" where
  "b64_encode [] = []"
| "b64_encode [a] = [b64_char (byte a div 4), b64_char (byte a mod 4 * 16)]"
| "b64_encode [a, b] = [b64_char (byte a div 4), b64_char (byte a mod 4 * 16 + byte b div 16),
     b64_char (byte b mod 16 * 4)]"
| "b64_encode (a # b # c # r) = b64_char (byte a div 4) # b64_char (byte a mod 4 * 16 + byte b div 16) #
     b64_char (byte b mod 16 * 4 + byte c div 64) # b64_char (byte c mod 64) # b64_encode r"

text \<open>Decoding of a text over the alphabet; left-over bits are dropped.\<close>

fun b64_bytes :: "string \<Rightarrow> string" where
  "b64_bytes [] = []"
| "b64_bytes [w] = []"
| "b64_bytes [w, x] = [char_of (b64_val w * 4 + b64_val x div 16)]"
| "b64_bytes [w, x, y] = [char_of (b64_val w * 4 + b64_val x div 16),
     char_of (b64_val x mod 16 * 16 + b64_val y div 4)]"
| "b64_bytes (w # x # y # z # r) = char_of (b64_val w * 4 + b64_val x div 16) #
     char_of (b64_val x mod 16 * 16 + b64_val y div 4) #
     char_of (b64_val y mod 4 * 64 + b64_val z) # b64_bytes r"

definition decodeBase64url :: "string \<Rightarrow> bool \<Rightarrow> string option" where
  "decodeBase64url value allowEmpty =
    (if \<not> list_all b64_alphabet value \<or> (value = [] \<and> \<not> allowEmpty) then None
     else let decoded = b64_bytes value in
       if b64_encode decoded \<noteq> value then None else Some decoded)"

section \<open>Round trip\<close>

lemma b64_char_cases:
  assumes "n < 64"
  obtains "n < 26" "b64_char n = char_of (65 + n)" | "26 \<le> n" "n < 52" "b64_char n = char_of (71 + n)"
    | m where "n = m + 52" "m < 10" "b64_char n = char_of (m + 48)"
    | "n = 62" "b64_char n = CHR ''-''" | "n = 63" "b64_char n = CHR ''_''"
proof -
  consider "n < 26" | "26 \<le> n" "n < 52" | "52 \<le> n" "n < 62" | "n = 62" | "n = 63" using assms by linarith
  then show thesis
  proof cases
    case 3
    define m where "m = n - 52"
    with 3 have "n = m + 52" "m < 10" by simp_all
    then show thesis using that by (simp add: b64_char_def)
  qed (use that in \<open>simp_all add: b64_char_def\<close>)
qed

lemma b64_val_char [simp]: "n < 64 \<Longrightarrow> b64_val (b64_char n) = n"
  by (erule b64_char_cases) (simp_all add: b64_val_def of_char_of Let_def)

lemma b64_alphabet_char [simp]: "n < 64 \<Longrightarrow> b64_alphabet (b64_char n)"
  by (erule b64_char_cases) (simp_all add: b64_alphabet_def of_char_of Let_def)

lemma byte_lt: "byte c < 256"
  using range_nat_of_char by auto

lemma byte_div: "byte c div 4 < 64" "byte c div 16 < 16" "byte c div 64 < 4"
  using byte_lt [of c] by (simp_all add: less_mult_imp_div_less)

lemma bits_lt1 [simp]: "byte a mod 4 * 16 < 64"
  using mod_less_divisor [of 4 "byte a"] by linarith

lemma bits_lt2 [simp]: "byte a mod 16 * 4 < 64"
  using mod_less_divisor [of 16 "byte a"] by linarith

lemma bits_lt3 [simp]: "byte a mod 4 * 16 + byte b div 16 < 64"
  using mod_less_divisor [of 4 "byte a"] byte_div(2) [of b] by linarith

lemma bits_lt4 [simp]: "byte b mod 16 * 4 + byte c div 64 < 64"
  using mod_less_divisor [of 16 "byte b"] byte_div(3) [of c] by linarith

lemma bits_lt5 [simp]: "byte c mod 64 < 64" "byte a div 4 < 64"
  by (simp_all add: byte_div)

lemma byte_split4: "byte a div 4 * 4 + (byte a mod 4 * 16 + k) div 16 = byte a" if "k < 16"
proof -
  have "(byte a mod 4 * 16 + k) div 16 = byte a mod 4" using that by simp
  then show ?thesis by (simp add: div_mult_mod_eq)
qed

lemma byte_split16: "(m * 16 + byte b div 16) mod 16 * 16 + (byte b mod 16 * 4 + k) div 4 = byte b" if "k < 4"
proof -
  have "(m * 16 + byte b div 16) mod 16 = byte b div 16" using byte_div(2) [of b] by simp
  moreover have "(byte b mod 16 * 4 + k) div 4 = byte b mod 16" using that by simp
  ultimately show ?thesis by (simp add: div_mult_mod_eq)
qed

lemma byte_split64: "(m * 4 + byte c div 64) mod 4 * 64 + byte c mod 64 = byte c"
proof -
  have "(m * 4 + byte c div 64) mod 4 = byte c div 64" using byte_div(3) [of c] by simp
  then show ?thesis by (simp add: div_mult_mod_eq)
qed

lemma b64_bytes_encode [simp]: "b64_bytes (b64_encode bs) = bs"
proof (induction bs rule: b64_encode.induct)
  case (2 a)
  then show ?case using byte_split4 [of 0 a] by simp
next
  case (3 a b)
  then show ?case using byte_split4 [OF byte_div(2), of a b] byte_split16 [of 0 "byte a mod 4" b] by simp
next
  case (4 a b c r)
  then show ?case
    using byte_split4 [OF byte_div(2), of a b] byte_split16 [OF byte_div(3), of "byte a mod 4" b c]
      byte_split64 [of "byte b mod 16" c] by simp
qed simp

lemma b64_encode_alphabet: "list_all b64_alphabet (b64_encode bs)"
  by (induction bs rule: b64_encode.induct) simp_all

lemma b64_encode_Nil [simp]: "b64_encode bs = [] \<longleftrightarrow> bs = []"
  by (cases bs rule: b64_encode.cases) auto

lemma decodeBase64url_iff:
  "decodeBase64url v e = Some bs \<longleftrightarrow> v = b64_encode bs \<and> (bs \<noteq> [] \<or> e)"
  using b64_encode_alphabet [of bs] by (auto simp: decodeBase64url_def Let_def)

lemma b64_encode_inject [simp]: "b64_encode a = b64_encode b \<longleftrightarrow> a = b"
  by (metis b64_bytes_encode)

text \<open>
  C31. The strict base64url decoder accepts exactly the texts that the encoder produces, and
  gives back the encoded bytes: no two accepted texts denote the same bytes.
\<close>

theorem base64url_canonical:
  "decodeBase64url v True = Some bs \<longleftrightarrow> v = b64_encode bs"
  by (simp add: decodeBase64url_iff)

end
