(* ===== verification/SignatureSuites.thy ===== *)
theory SignatureSuites
  imports StrictJson Base64url MpasTypes
begin

text \<open>
  Signature suites and key identities of the protocol library: the verification side of
  \<open>signature-suites.ts\<close>, the decoding of \<open>did:jwk\<close> identities (\<open>did-jwk.ts\<close>) and the choice
  of the key identifier (\<open>verificationKid\<close> in \<open>signer.ts\<close>).

  Cryptography and text decoding come from \<open>node:crypto\<close> and \<open>jose\<close>; they are fields of
  the record \<open>crypto_host\<close>. A thrown exception is \<open>None\<close>.
\<close>

record crypto_host = host +
  utf8_text :: "string \<Rightarrow> string"
  wide_unit :: "nat \<Rightarrow> string"
  p256_point :: "string \<Rightarrow> string \<Rightarrow> bool"
  compact_verify :: "string \<Rightarrow> jsval \<Rightarrow> string \<Rightarrow> string option"

text \<open>
  \<^item> \<open>utf8_text\<close>: the text of a buffer, \<open>toString("utf8")\<close>;
  \<^item> \<open>wide_unit\<close>: how the model writes a code unit above 255 of an escape;
  \<^item> \<open>p256_point\<close>: whether \<open>ECDH.convertKey\<close> accepts the coordinates;
  \<^item> \<open>compact_verify\<close>: \<open>importJWK\<close> followed by \<open>compactVerify\<close> of \<open>jose\<close> with the given
    algorithm, key and JWS; the payload bytes, or \<open>None\<close> when it throws.
\<close>

datatype signature_suite = Ed25519 | P256

fun suite_kty :: "signature_suite \<Rightarrow> string" where
  "suite_kty Ed25519 = ''OKP''" | "suite_kty P256 = ''EC''"

fun suite_name :: "signature_suite \<Rightarrow> string" where
  "suite_name Ed25519 = ''Ed25519''" | "suite_name P256 = ''P-256''"

fun jwsAlgorithm :: "signature_suite \<Rightarrow> string" where
  "jwsAlgorithm Ed25519 = ''EdDSA''" | "jwsAlgorithm P256 = ''ES256''"

datatype key_operation = Sign_Op | Verify_Op

fun operation_text :: "key_operation \<Rightarrow> string" where
  "operation_text Sign_Op = ''sign''" | "operation_text Verify_Op = ''verify''"

definition parse_strict :: "('a) crypto_host_scheme \<Rightarrow> string \<Rightarrow> jsval option" where
  "parse_strict H text = (case strictJsonParse (wide_unit H) text of Inl _ \<Rightarrow> None | Inr v \<Rightarrow> Some v)"

section \<open>Keys\<close>

definition fixedBytes :: "jsval \<Rightarrow> string option" where
  "fixedBytes v = (case v of
       Str s \<Rightarrow> (case decodeBase64url s False of None \<Rightarrow> None
                 | Some decoded \<Rightarrow> if length decoded \<noteq> 32 then None else Some decoded)
     | _ \<Rightarrow> None)"

text \<open>
  \<open>validateMetadata\<close>: the optional members \<open>alg\<close>, \<open>use\<close> and \<open>key_ops\<close> permit the suite
  and the operation. Elements of \<open>key_ops\<close> other than the two texts are refused, so that
  the elements left to compare are texts.
\<close>

definition validateMetadata :: "jsval \<Rightarrow> signature_suite \<Rightarrow> key_operation option \<Rightarrow> bool" where
  "validateMetadata jwk suite operation \<longleftrightarrow>
     \<not> (has_own jwk ''alg'' \<and> js_get jwk ''alg'' \<noteq> Str (jwsAlgorithm suite)) \<and>
     \<not> (has_own jwk ''use'' \<and> js_get jwk ''use'' \<noteq> Str ''sig'') \<and>
     (has_own jwk ''key_ops'' \<longrightarrow>
       (let ops = js_get jwk ''key_ops'' in
        is_array ops \<and> elements ops \<noteq> [] \<and>
        list_all (\<lambda>oper. oper = Str ''sign'' \<or> oper = Str ''verify'') (elements ops) \<and>
        set_size (elements ops) = length (elements ops) \<and>
        (case operation of None \<Rightarrow> True | Some oper \<Rightarrow> Str (operation_text oper) \<in> set (elements ops))))"

definition suites_matching :: "jsval \<Rightarrow> signature_suite list" where
  "suites_matching jwk = filter (\<lambda>suite. js_get jwk ''kty'' = Str (suite_kty suite) \<and>
     js_get jwk ''crv'' = Str (suite_name suite)) [Ed25519, P256]"

definition resolveSignatureSuite :: "('a) crypto_host_scheme \<Rightarrow> jsval \<Rightarrow> signature_suite option" where
  "resolveSignatureSuite H jwk =
    (if \<not> is_record jwk then None
     else case suites_matching jwk of
       [suite] \<Rightarrow>
         (case fixedBytes (js_get jwk ''x'') of None \<Rightarrow> None
          | Some x \<Rightarrow>
              let point = (case suite of Ed25519 \<Rightarrow> True
                 | P256 \<Rightarrow> (case fixedBytes (js_get jwk ''y'') of None \<Rightarrow> False | Some y \<Rightarrow> p256_point H x y))
              in if point \<and> validateMetadata jwk suite None then Some suite else None)
     | _ \<Rightarrow> None)"

definition privateMembers :: "string list" where
  "privateMembers = [''d'', ''p'', ''q'', ''dp'', ''dq'', ''qi'', ''oth'', ''k'']"

definition validatePublicJwk :: "('a) crypto_host_scheme \<Rightarrow> jsval \<Rightarrow> key_operation option \<Rightarrow> signature_suite option" where
  "validatePublicJwk H jwk operation =
    (case resolveSignatureSuite H jwk of None \<Rightarrow> None
     | Some suite \<Rightarrow> if list_ex (has_own jwk) privateMembers then None
         else if \<not> validateMetadata jwk suite operation then None else Some suite)"

definition normalizePublicJwk :: "('a) crypto_host_scheme \<Rightarrow> jsval \<Rightarrow> jsval option" where
  "normalizePublicJwk H jwk =
    (case validatePublicJwk H jwk None of None \<Rightarrow> None
     | Some suite \<Rightarrow> Some (Obj ([(''crv'', Str (suite_name suite)), (''kty'', Str (suite_kty suite)), (''x'', js_get jwk ''x'')] @
         (case suite of P256 \<Rightarrow> [(''y'', js_get jwk ''y'')] | Ed25519 \<Rightarrow> []))))"

text \<open>
  \<open>samePublicKey\<close> compares the JSON texts of two normalized keys. These are objects of
  texts with the same keys in the same order, so equal texts are equal objects.
\<close>

definition samePublicKey :: "('a) crypto_host_scheme \<Rightarrow> jsval \<Rightarrow> jsval \<Rightarrow> bool option" where
  "samePublicKey H left right =
    (case (normalizePublicJwk H left, normalizePublicJwk H right) of
       (Some l, Some r) \<Rightarrow> Some (l = r) | _ \<Rightarrow> None)"

section \<open>The did:jwk method\<close>

definition isDidJwk :: "did \<Rightarrow> bool" where
  "isDidJwk d = starts_with ''did:jwk:'' d"

definition didJwkToKid :: "did \<Rightarrow> string" where
  "didJwkToKid d = d @ ''#0''"

definition didJwkToJwk :: "('a) crypto_host_scheme \<Rightarrow> did \<Rightarrow> jsval option" where
  "didJwkToJwk H d =
    (if \<not> isDidJwk d then None
     else let encoded = drop (length ''did:jwk:'') d in
       case decodeBase64url encoded False of None \<Rightarrow> None
       | Some decoded \<Rightarrow>
           (case parse_strict H (utf8_text H decoded) of None \<Rightarrow> None
            | Some parsed \<Rightarrow> if \<not> is_record parsed then None
                else case validatePublicJwk H parsed (Some Verify_Op) of None \<Rightarrow> None | Some _ \<Rightarrow> Some parsed))"

definition verificationKid :: "('a) crypto_host_scheme \<Rightarrow> jsval \<Rightarrow> did \<Rightarrow> string option" where
  "verificationKid H publicKey identity =
    (if isDidJwk identity then
       (case didJwkToJwk H identity of None \<Rightarrow> None
        | Some key \<Rightarrow> (case samePublicKey H key publicKey of
             Some True \<Rightarrow> Some (didJwkToKid identity) | _ \<Rightarrow> None))
     else (case js_get publicKey ''kid'' of Str k \<Rightarrow> if k = [] then None else Some k | _ \<Rightarrow> None))"

section \<open>Compact JWS\<close>

definition p256Order :: nat where
  "p256Order = 0xffffffff00000000ffffffffffffffffbce6faada7179e84f3b9cac2fc632551"

fun bytes_value :: "nat \<Rightarrow> string \<Rightarrow> nat" where
  "bytes_value a [] = a"
| "bytes_value a (c # cs) = bytes_value (256 * a + of_char c) cs"

definition validScalar :: "string \<Rightarrow> bool" where
  "validScalar bs \<longleftrightarrow> 0 < bytes_value 0 bs \<and> bytes_value 0 bs < p256Order"

definition validateSignatureEncoding :: "signature_suite \<Rightarrow> string \<Rightarrow> bool" where
  "validateSignatureEncoding suite signature \<longleftrightarrow> length signature = 64 \<and>
     (suite = P256 \<longrightarrow> validScalar (take 32 signature) \<and> validScalar (drop 32 signature))"

definition verifySuiteCompactJws :: "('a) crypto_host_scheme \<Rightarrow> string \<Rightarrow> jsval \<Rightarrow> string \<Rightarrow> string option" where
  "verifySuiteCompactJws H jws publicJwk expectedKid =
    (case validatePublicJwk H publicJwk (Some Verify_Op) of None \<Rightarrow> None
     | Some suite \<Rightarrow>
       (case split_on (CHR ''.'') jws of
          [p0, p1, p2] \<Rightarrow>
            (case decodeBase64url p0 False of None \<Rightarrow> None
             | Some header_bytes \<Rightarrow>
               (case parse_strict H (utf8_text H header_bytes) of None \<Rightarrow> None
                | Some header \<Rightarrow>
                    if \<not> is_record header \<or> js_get header ''alg'' \<noteq> Str (jwsAlgorithm suite) \<or>
                       js_get header ''kid'' \<noteq> Str expectedKid \<or> js_get header ''b64'' = Bool False then None
                    else (case (decodeBase64url p1 True, decodeBase64url p2 False) of
                       (Some _, Some signature) \<Rightarrow>
                          if validateSignatureEncoding suite signature
                          then compact_verify H (jwsAlgorithm suite) publicJwk jws else None
                     | _ \<Rightarrow> None)))
        | _ \<Rightarrow> None))"

section \<open>Facts\<close>

lemma validatePublicJwk_public:
  "validatePublicJwk H jwk oper = Some suite \<Longrightarrow> \<not> has_own jwk ''d'' \<and> is_record jwk"
  by (auto simp: validatePublicJwk_def privateMembers_def resolveSignatureSuite_def split: option.splits if_splits)

lemma didJwkToJwk_valid:
  "didJwkToJwk H d = Some jwk \<Longrightarrow> \<exists>suite. validatePublicJwk H jwk (Some Verify_Op) = Some suite"
  by (auto simp: didJwkToJwk_def Let_def split: if_splits option.splits)

lemma verifySuiteCompactJws_SomeD:
  assumes "verifySuiteCompactJws H jws jwk kid = Some payload"
  obtains suite p0 p1 p2 hb header where "validatePublicJwk H jwk (Some Verify_Op) = Some suite"
    "split_on (CHR ''.'') jws = [p0, p1, p2]" "decodeBase64url p0 False = Some hb"
    "parse_strict H (utf8_text H hb) = Some header" "js_get header ''alg'' = Str (jwsAlgorithm suite)"
    "js_get header ''kid'' = Str kid" "compact_verify H (jwsAlgorithm suite) jwk jws = Some payload"
  using assms that by (auto simp: verifySuiteCompactJws_def split: option.splits list.splits if_splits)

end
