(* ===== verification/Verification.thy ===== *)
theory Verification
  imports SignatureSuites JsDate
begin

text \<open>
  Verification of Action Packages, \<open>sdk/protocol/src/lib/verification.ts\<close>: structural
  validation of the package, the envelope and the approval bundle, the checks of every
  approval, and \<open>verifyActionPackage\<close>, which runs them in order.

  A structural check returns the first error as a message and a path. The host
  \<open>H\<close> provides hashing, canonicalization, signatures and \<open>Date.parse\<close> of texts that are
  not MPAS time stamps; times are milliseconds as integers. The trace callback
  \<open>onStep\<close> only observes the steps and is left out.
\<close>

section \<open>Lexical forms\<close>

text \<open>\<open>/^did:[a-z0-9]+:\S+$/\<close>: the method name has no colon.\<close>

definition did_form :: "string \<Rightarrow> bool" where
  "did_form s \<longleftrightarrow> starts_with ''did:'' s \<and>
     (let r = drop 4 s; method = takeWhile lower_or_digit r; rest = dropWhile lower_or_digit r
      in method \<noteq> [] \<and> (case rest of [] \<Rightarrow> False
        | c # ident \<Rightarrow> c = CHR '':'' \<and> ident \<noteq> [] \<and> list_all (\<lambda>x. \<not> is_space x) ident))"

definition isDid :: "jsval \<Rightarrow> bool" where
  "isDid v = (case v of Str s \<Rightarrow> did_form s | _ \<Rightarrow> False)"

definition parse_time :: "('a) host_scheme \<Rightarrow> jsval \<Rightarrow> int option" where
  "parse_time H v = (case v of Str s \<Rightarrow> date_parse (legacy_date H) s | _ \<Rightarrow> None)"

definition isMpasTimestamp :: "('a) host_scheme \<Rightarrow> jsval \<Rightarrow> bool" where
  "isMpasTimestamp H v = (case v of Str s \<Rightarrow> (iso_sec_form s \<or> iso_ms_form s) \<and> date_parse (legacy_date H) s \<noteq> None
     | _ \<Rightarrow> False)"

definition isEnvelopeTimestamp :: "('a) host_scheme \<Rightarrow> jsval \<Rightarrow> bool" where
  "isEnvelopeTimestamp H v = (case v of Str s \<Rightarrow> iso_ms_form s \<and> date_parse (legacy_date H) s \<noteq> None | _ \<Rightarrow> False)"

definition b64url_text :: "string \<Rightarrow> bool" where
  "b64url_text s \<longleftrightarrow> s \<noteq> [] \<and> list_all b64_alphabet s"

definition HASH_ALGORITHMS :: "string list" where
  "HASH_ALGORITHMS = [''sha-256'', ''sha-384'', ''sha-512'', ''sha3-256'', ''sha3-384'', ''sha3-512'']"

definition isHashObject :: "jsval \<Rightarrow> bool" where
  "isHashObject v \<longleftrightarrow> is_record v \<and> firstUnexpectedKey v [''alg'', ''value''] = None \<and>
     (case js_get v ''alg'' of Str a \<Rightarrow> a \<in> set HASH_ALGORITHMS | _ \<Rightarrow> False) \<and>
     (case js_get v ''value'' of Str s \<Rightarrow> b64url_text s | _ \<Rightarrow> False)"

definition isDecision :: "jsval \<Rightarrow> bool" where
  "isDecision v \<longleftrightarrow> v = Str ''propose'' \<or> v = Str ''approve'' \<or> v = Str ''reject'' \<or> v = Str ''abstain''"

definition isCompactJws :: "string \<Rightarrow> bool" where
  "isCompactJws s \<longleftrightarrow> (let parts = split_on (CHR ''.'') s in length parts = 3 \<and> list_all b64url_text parts)"

text \<open>Texts of a fixed length with a class of characters at each position.\<close>

definition matches_classes :: "(char \<Rightarrow> bool) list \<Rightarrow> string \<Rightarrow> bool" where
  "matches_classes ps s \<longleftrightarrow> list_all2 (\<lambda>p c. p c) ps s"

definition uuid_classes :: "(char \<Rightarrow> bool) list" where
  "uuid_classes = map (\<lambda>c x. x = c) ''urn:uuid:'' @ replicate 8 hex_char @ [\<lambda>x. x = CHR ''-''] @
     replicate 4 hex_char @ [\<lambda>x. x = CHR ''-'', \<lambda>x. x \<in> set ''12345678''] @ replicate 3 hex_char @
     [\<lambda>x. x = CHR ''-'', \<lambda>x. x \<in> set ''89ab''] @ replicate 3 hex_char @ [\<lambda>x. x = CHR ''-''] @
     replicate 12 hex_char"

definition ulid_char :: "char \<Rightarrow> bool" where
  "ulid_char c \<longleftrightarrow> (let n = (of_char c :: nat) in
     (48 \<le> n \<and> n \<le> 57) \<or> (65 \<le> n \<and> n \<le> 90 \<and> c \<notin> set ''ILOU''))"

definition hasSafeReplayDomain :: "jsval \<Rightarrow> bool" where
  "hasSafeReplayDomain actionId =
    (let v = text_of (js_get actionId ''value'') in
     if matches_classes uuid_classes (map lower v) then True
     else if matches_classes (map (\<lambda>c x. x = c) ''urn:ulid:'' @ replicate 26 ulid_char) v \<or> did_form v then True
     else (case js_get actionId ''scope'' of Str s \<Rightarrow> s \<noteq> [] | _ \<Rightarrow> False))"

definition isMcpToolCallPayload :: "jsval \<Rightarrow> bool" where
  "isMcpToolCallPayload payload =
    (if \<not> is_record payload \<or> firstUnexpectedKey payload [''name'', ''arguments''] \<noteq> None then False
     else (case js_get payload ''name'' of Str s \<Rightarrow> s \<noteq> [] | _ \<Rightarrow> False) \<and> is_record (js_get payload ''arguments''))"

definition operationNameFromPayload :: "jsval \<Rightarrow> string option" where
  "operationNameFromPayload payload = text_opt (js_get payload ''name'')"

text \<open>
  \<open>if (unexpectedField)\<close> on the result of \<open>firstUnexpectedKey\<close>: the test is on truthiness, so
  an undeclared member with the empty name, when it comes first, counts as none.
\<close>

definition undeclaredField :: "jsval \<Rightarrow> string list \<Rightarrow> string option" where
  "undeclaredField v allowed = (case firstUnexpectedKey v allowed of None \<Rightarrow> None
     | Some k \<Rightarrow> if k = [] then None else Some k)"

section \<open>The Action Envelope\<close>

datatype validation_code = INVALID_ACTION_ENVELOPE | EXPIRED_ACTION_ENVELOPE

record envelope_options =
  eo_checkExpiry :: bool
  eo_checkTime :: bool
  eo_now :: int
  eo_tolerance :: int

type_synonym validation_error = "validation_code \<times> string \<times> string"

definition ENVELOPE_FIELDS :: "string list" where
  "ENVELOPE_FIELDS = [''version'', ''type'', ''proposer'', ''target'', ''executionProfile'',
     ''executionPayloadHash'', ''actionId'', ''createdAt'', ''expiresAt'']"

text \<open>The checks that do not consult the clock; the result is a message and a path.\<close>

definition envelope_structure_error :: "('a) host_scheme \<Rightarrow> jsval \<Rightarrow> (string \<times> string) option" where
  "envelope_structure_error H envelope =
    (if \<not> is_record envelope then Some (''Action Envelope must be a JSON object.'', ''$'')
     else case undeclaredField envelope ENVELOPE_FIELDS of
       Some k \<Rightarrow> Some (''Action Envelope contains an undeclared field.'', ''$.'' @ k)
     | None \<Rightarrow>
       (case List.find (\<lambda>f. \<not> has_own envelope f) ENVELOPE_FIELDS of
          Some f \<Rightarrow> Some (''Action Envelope missing required field: '' @ f, ''$.'' @ f)
        | None \<Rightarrow>
          let proposer = js_get envelope ''proposer''; target = js_get envelope ''target'';
              profile = js_get envelope ''executionProfile''; actionId = js_get envelope ''actionId'';
              idv = js_get actionId ''value''; scope = js_get actionId ''scope'';
              createdAt = js_get envelope ''createdAt''; expiresAt = js_get envelope ''expiresAt''
          in if js_get envelope ''version'' \<noteq> Str ''1''
             then Some (''Action Envelope version must be \"1\".'', ''$.version'')
             else if js_get envelope ''type'' \<noteq> Str ''ActionEnvelope''
             then Some (''Action Envelope type must be \"ActionEnvelope\".'', ''$.type'')
             else if \<not> is_record proposer \<or> firstUnexpectedKey proposer [''did''] \<noteq> None \<or> \<not> isDid (js_get proposer ''did'')
             then Some (''Action Envelope proposer.did must be a DID.'', ''$.proposer.did'')
             else if \<not> is_record target \<or> \<not> isDid (js_get target ''applicationDid'')
             then Some (''Action Envelope target.applicationDid must be a DID.'', ''$.target.applicationDid'')
             else if \<not> is_record profile \<or> firstUnexpectedKey profile [''id'', ''format''] \<noteq> None \<or> \<not> isDid (js_get profile ''id'')
             then Some (''Action Envelope executionProfile.id must be a DID.'', ''$.executionProfile.id'')
             else if has_own profile ''format'' \<and> \<not> is_string (js_get profile ''format'')
             then Some (''Action Envelope executionProfile.format must be a string.'', ''$.executionProfile.format'')
             else if \<not> isHashObject (js_get envelope ''executionPayloadHash'')
             then Some (''Action Envelope executionPayloadHash must be a well-formed hash object.'', ''$.executionPayloadHash'')
             else if \<not> is_record actionId \<or> firstUnexpectedKey actionId [''value'', ''scope''] \<noteq> None \<or>
                \<not> is_string idv \<or> idv = Str []
             then Some (''Action Envelope actionId.value is required.'', ''$.actionId.value'')
             else if has_own actionId ''scope'' \<and> (\<not> is_string scope \<or> scope = Str [])
             then Some (''Action Envelope actionId.scope must be non-empty.'', ''$.actionId.scope'')
             else if \<not> isEnvelopeTimestamp H createdAt
             then Some (''Action Envelope createdAt must be an MPAS timestamp with millisecond precision.'', ''$.createdAt'')
             else if \<not> isEnvelopeTimestamp H expiresAt
             then Some (''Action Envelope expiresAt must be an MPAS timestamp with millisecond precision.'', ''$.expiresAt'')
             else None))"

text \<open>Comparisons of times; a comparison with NaN or an absent time is false.\<close>

definition time_lt :: "int option \<Rightarrow> int option \<Rightarrow> bool" where
  "time_lt a b = (case (a, b) of (Some x, Some y) \<Rightarrow> x < y | _ \<Rightarrow> False)"

definition time_le :: "int option \<Rightarrow> int option \<Rightarrow> bool" where
  "time_le a b = (case (a, b) of (Some x, Some y) \<Rightarrow> x \<le> y | _ \<Rightarrow> False)"

definition validateActionEnvelope :: "('a) host_scheme \<Rightarrow> jsval \<Rightarrow> envelope_options \<Rightarrow> validation_error option" where
  "validateActionEnvelope H envelope options =
    (case envelope_structure_error H envelope of
       Some (message, path) \<Rightarrow> Some (INVALID_ACTION_ENVELOPE, message, path)
     | None \<Rightarrow>
       let createdAt = parse_time H (js_get envelope ''createdAt'');
           expiresAt = parse_time H (js_get envelope ''expiresAt'')
       in if time_le expiresAt createdAt
          then Some (INVALID_ACTION_ENVELOPE, ''Action Envelope expiresAt must be after createdAt.'', ''$.expiresAt'')
          else if eo_checkTime options \<and> time_lt (Some (eo_now options + eo_tolerance options)) createdAt
          then Some (INVALID_ACTION_ENVELOPE, ''Action Envelope createdAt is beyond the accepted clock tolerance.'', ''$.createdAt'')
          else if eo_checkTime options \<and> eo_checkExpiry options \<and> time_le expiresAt (Some (eo_now options - eo_tolerance options))
          then Some (EXPIRED_ACTION_ENVELOPE, ''Action Envelope is expired.'', ''$.expiresAt'')
          else None)"

definition isActionEnvelopeExpired :: "('a) host_scheme \<Rightarrow> jsval \<Rightarrow> int \<Rightarrow> bool" where
  "isActionEnvelopeExpired H envelope now = time_le (parse_time H (js_get envelope ''expiresAt'')) (Some now)"

definition exceedsMaxEnvelopeValidity :: "('a) host_scheme \<Rightarrow> jsval \<Rightarrow> int \<Rightarrow> int \<Rightarrow> bool" where
  "exceedsMaxEnvelopeValidity H envelope maxValidityMs now =
    (case parse_time H (js_get envelope ''expiresAt'') of None \<Rightarrow> False | Some expiresAt \<Rightarrow> expiresAt - now > maxValidityMs)"

definition DEFAULT_MAX_ENVELOPE_VALIDITY_MS :: int where
  "DEFAULT_MAX_ENVELOPE_VALIDITY_MS = 24 * 60 * 60 * 1000"

section \<open>The Approval Bundle\<close>

definition approval_structure_error :: "('a) host_scheme \<Rightarrow> nat \<Rightarrow> jsval \<Rightarrow> (string \<times> string) option" where
  "approval_structure_error H index approval =
    (let path = ''$.approvalBundle.approvals['' @ show_nat index @ '']''; signature = js_get approval ''signature'' in
     if \<not> is_record approval then Some (''Approval must be a JSON object.'', path)
     else case undeclaredField approval [''version'', ''type'', ''actionEnvelopeHash'', ''decision'',
         ''signature'', ''createdAt'', ''expiresAt''] of
       Some k \<Rightarrow> Some (''Approval contains an undeclared field.'', path @ ''.'' @ k)
     | None \<Rightarrow>
       if js_get approval ''version'' \<noteq> Str ''1'' then Some (''Approval version must be \"1\".'', path @ ''.version'')
       else if js_get approval ''type'' \<noteq> Str ''Approval'' then Some (''Approval type must be \"Approval\".'', path @ ''.type'')
       else if \<not> isHashObject (js_get approval ''actionEnvelopeHash'')
       then Some (''Approval actionEnvelopeHash must be a hash object.'', path @ ''.actionEnvelopeHash'')
       else if \<not> isDecision (js_get approval ''decision'')
       then Some (''Approval decision is not a Core decision.'', path @ ''.decision'')
       else if \<not> is_record signature \<or> firstUnexpectedKey signature [''format'', ''value''] \<noteq> None \<or>
          js_get signature ''format'' \<noteq> Str ''jws'' \<or>
          (case js_get signature ''value'' of Str s \<Rightarrow> \<not> isCompactJws s | _ \<Rightarrow> True)
       then Some (''Approval signature must be a signature object.'', path @ ''.signature'')
       else if \<not> isMpasTimestamp H (js_get approval ''createdAt'')
       then Some (''Approval createdAt must be an MPAS timestamp.'', path @ ''.createdAt'')
       else if has_own approval ''expiresAt'' \<and> \<not> isMpasTimestamp H (js_get approval ''expiresAt'')
       then Some (''Approval expiresAt must be an MPAS timestamp.'', path @ ''.expiresAt'')
       else None)"

definition validateApprovalBundleStructure :: "('a) host_scheme \<Rightarrow> jsval \<Rightarrow> (string \<times> string) option" where
  "validateApprovalBundleStructure H bundle =
    (if \<not> is_record bundle then Some (''Approval Bundle must be a JSON object.'', ''$.approvalBundle'')
     else case undeclaredField bundle [''version'', ''type'', ''actionEnvelopeHash'', ''approvals'', ''assembledBy'', ''createdAt''] of
       Some k \<Rightarrow> Some (''Approval Bundle contains an undeclared field.'', ''$.approvalBundle.'' @ k)
     | None \<Rightarrow>
       if js_get bundle ''version'' \<noteq> Str ''1'' then Some (''Approval Bundle version must be \"1\".'', ''$.approvalBundle.version'')
       else if js_get bundle ''type'' \<noteq> Str ''ApprovalBundle''
       then Some (''Approval Bundle type must be \"ApprovalBundle\".'', ''$.approvalBundle.type'')
       else if \<not> isHashObject (js_get bundle ''actionEnvelopeHash'')
       then Some (''Approval Bundle actionEnvelopeHash must be a hash object.'', ''$.approvalBundle.actionEnvelopeHash'')
       else if has_own bundle ''assembledBy'' \<and> \<not> isDid (js_get bundle ''assembledBy'')
       then Some (''Approval Bundle assembledBy must be a DID.'', ''$.approvalBundle.assembledBy'')
       else if has_own bundle ''createdAt'' \<and> \<not> isMpasTimestamp H (js_get bundle ''createdAt'')
       then Some (''Approval Bundle createdAt must be an MPAS timestamp.'', ''$.approvalBundle.createdAt'')
       else if \<not> is_array (js_get bundle ''approvals'') \<or> elements (js_get bundle ''approvals'') = []
       then Some (''Approval Bundle approvals must be a non-empty array.'', ''$.approvalBundle.approvals'')
       else first_error (approval_structure_error H) 0 (elements (js_get bundle ''approvals'')))"

section \<open>The Action Package\<close>

definition parseActionPackage :: "('a) host_scheme \<Rightarrow> jsval \<Rightarrow> (string \<times> string) option" where
  "parseActionPackage H json =
    (if \<not> is_record json then Some (''Action Package must be a JSON object.'', ''$'')
     else case undeclaredField json [''version'', ''type'', ''executionPayload'', ''actionEnvelope'', ''approvalBundle'', ''createdAt''] of
       Some k \<Rightarrow> Some (''Action Package contains an undeclared field.'', ''$.'' @ k)
     | None \<Rightarrow>
       if js_get json ''version'' \<noteq> Str ''1'' then Some (''Action Package version must be \"1\".'', ''$.version'')
       else if js_get json ''type'' \<noteq> Str ''ActionPackage''
       then Some (''Action Package type must be \"ActionPackage\".'', ''$.type'')
       else if \<not> has_own json ''executionPayload''
       then Some (''Action Package missing required field: executionPayload'', ''$.executionPayload'')
       else if js_get json ''executionPayload'' = Null
       then Some (''Action Package executionPayload must not be null.'', ''$.executionPayload'')
       else if \<not> has_own json ''actionEnvelope''
       then Some (''Action Package missing required field: actionEnvelope'', ''$.actionEnvelope'')
       else if \<not> is_record (js_get json ''actionEnvelope'')
       then Some (''Action Package field actionEnvelope must be a JSON object.'', ''$.actionEnvelope'')
       else (case validateActionEnvelope H (js_get json ''actionEnvelope'')
                \<lparr>eo_checkExpiry = False, eo_checkTime = False, eo_now = 0, eo_tolerance = 0\<rparr> of
         Some (_, message, path) \<Rightarrow> Some (message, ''$.actionEnvelope'' @ drop 1 path)
       | None \<Rightarrow>
         if \<not> has_own json ''approvalBundle''
         then Some (''Action Package missing required field: approvalBundle'', ''$.approvalBundle'')
         else if \<not> is_record (js_get json ''approvalBundle'')
         then Some (''Action Package field approvalBundle must be a JSON object.'', ''$.approvalBundle'')
         else (case validateApprovalBundleStructure H (js_get json ''approvalBundle'') of
           Some e \<Rightarrow> Some e
         | None \<Rightarrow>
           if has_own json ''createdAt'' \<and> \<not> isMpasTimestamp H (js_get json ''createdAt'')
           then Some (''Action Package createdAt must be an MPAS timestamp.'', ''$.createdAt'')
           else None)))"

section \<open>Trusted signers, profiles and configuration\<close>

record trusted_signer =
  ts_did :: did
  ts_publicJwk :: "jsval option"

definition resolveTrustedSignerJwk :: "('a) crypto_host_scheme \<Rightarrow> trusted_signer \<Rightarrow> jsval option" where
  "resolveTrustedSignerJwk H signer =
    (if isDidJwk (ts_did signer) then didJwkToJwk H (ts_did signer) else ts_publicJwk signer)"

text \<open>The functions of a profile are supplied by the caller of the library.\<close>

record execution_profile =
  xp_id :: did
  xp_format :: string
  xp_validatePayload :: "jsval \<Rightarrow> bool"
  xp_hashPayload :: "jsval \<Rightarrow> hash_object"
  xp_validateActionId :: "(jsval \<Rightarrow> bool) option"

record application_profile =
  ap_applicationDid :: did
  ap_executionProfile :: execution_profile

definition MCP_TOOL_CALL_EXECUTION_PROFILE :: "('a) host_scheme \<Rightarrow> execution_profile" where
  "MCP_TOOL_CALL_EXECUTION_PROFILE H = \<lparr>xp_id = ''did:web:profiles.oma3.org:mcp'', xp_format = ''mcp.toolsCall'',
     xp_validatePayload = isMcpToolCallPayload, xp_hashPayload = computeJsonHash H,
     xp_validateActionId = Some hasSafeReplayDomain\<rparr>"

record verification_config =
  vc_trustedSigners :: "trusted_signer list"
  vc_trustedApplicationProfiles :: "application_profile list option"
  vc_trustedApplicationDids :: "did list option"
  vc_now :: "int option"
  vc_timestampToleranceMs :: "int option"
  vc_maxEnvelopeValidityMs :: "int option"

definition or_default :: "'a \<Rightarrow> 'a option \<Rightarrow> 'a" where
  "or_default d x = (case x of None \<Rightarrow> d | Some y \<Rightarrow> y)"

definition trustedApplicationBindings :: "('a) host_scheme \<Rightarrow> verification_config \<Rightarrow> application_profile list" where
  "trustedApplicationBindings H config = (case vc_trustedApplicationProfiles config of Some ps \<Rightarrow> ps
     | None \<Rightarrow> map (\<lambda>d. \<lparr>ap_applicationDid = d, ap_executionProfile = MCP_TOOL_CALL_EXECUTION_PROFILE H\<rparr>)
         (or_default [] (vc_trustedApplicationDids config)))"

definition profile_id_matches :: "execution_profile \<Rightarrow> jsval \<Rightarrow> bool" where
  "profile_id_matches p envelope \<longleftrightarrow>
     Str (xp_id p) = js_get (js_get envelope ''executionProfile'') ''id'' \<and>
     Str (xp_format p) = js_get (js_get envelope ''executionProfile'') ''format''"

definition resolveBuiltInExecutionProfile :: "('a) host_scheme \<Rightarrow> jsval \<Rightarrow> execution_profile option" where
  "resolveBuiltInExecutionProfile H envelope =
    (if profile_id_matches (MCP_TOOL_CALL_EXECUTION_PROFILE H) envelope
     then Some (MCP_TOOL_CALL_EXECUTION_PROFILE H) else None)"

definition verifyPayloadBinding :: "('a) host_scheme \<Rightarrow> jsval \<Rightarrow> jsval \<Rightarrow> execution_profile option \<Rightarrow> bool" where
  "verifyPayloadBinding H payload envelope executionProfile =
    (case (case executionProfile of Some p \<Rightarrow> Some p | None \<Rightarrow> resolveBuiltInExecutionProfile H envelope) of
       None \<Rightarrow> False
     | Some p \<Rightarrow> if \<not> xp_validatePayload p payload then False
         else hashesEqual (xp_hashPayload p payload) (hash_of (js_get envelope ''executionPayloadHash'')))"

section \<open>Approvals\<close>

definition isCanonicalApprovalPayload :: "('a) host_scheme \<Rightarrow> jsval \<Rightarrow> bool" where
  "isCanonicalApprovalPayload H v =
    (if \<not> is_record v \<or> firstUnexpectedKey v [''type'', ''actionEnvelopeHash'', ''decision'', ''signerDid'',
         ''createdAt'', ''expiresAt''] \<noteq> None then False
     else js_get v ''type'' = Str ''ApprovalPayload'' \<and> isHashObject (js_get v ''actionEnvelopeHash'') \<and>
       isDecision (js_get v ''decision'') \<and> isDid (js_get v ''signerDid'') \<and>
       isMpasTimestamp H (js_get v ''createdAt'') \<and>
       (\<not> has_own v ''expiresAt'' \<or> isMpasTimestamp H (js_get v ''expiresAt'')))"

datatype bundle_code =
    ACTION_ENVELOPE_HASH_MISMATCH | APPROVAL_HASH_MISMATCH | MALFORMED_BUNDLE | UNTRUSTED_SIGNER
  | INVALID_SIGNATURE | APPROVAL_PAYLOAD_MISMATCH | NON_CANONICAL_APPROVAL_PAYLOAD | APPROVAL_TIME_INVALID

definition signature_value :: "jsval \<Rightarrow> string" where
  "signature_value approval = text_of (js_get (js_get approval ''signature'') ''value'')"

definition decodeApprovalJws :: "('a) crypto_host_scheme \<Rightarrow> jsval \<Rightarrow> (bundle_code \<times> string) + jsval" where
  "decodeApprovalJws H approval =
    (case split_on (CHR ''.'') (signature_value approval) of
       p0 # p1 # ps \<Rightarrow>
         (let payloadText = utf8_text H (b64_bytes p1) in
          case parse_strict H payloadText of
            None \<Rightarrow> Inl (APPROVAL_PAYLOAD_MISMATCH, ''Signed Approval payload is malformed.'')
          | Some payload \<Rightarrow>
              if \<not> isCanonicalApprovalPayload H payload
              then Inl (APPROVAL_PAYLOAD_MISMATCH, ''Signed Approval payload is malformed.'')
              else if jcs H payload \<noteq> payloadText
              then Inl (NON_CANONICAL_APPROVAL_PAYLOAD, ''Signed Approval payload bytes are not JCS canonical.'')
              else Inr payload)
     | _ \<Rightarrow> Inl (APPROVAL_PAYLOAD_MISMATCH, ''Signed Approval payload is malformed.''))"

text \<open>\<open>validateApprovalTime\<close>: the offending field and the message.\<close>

definition validateApprovalTime :: "('a) host_scheme \<Rightarrow> jsval \<Rightarrow> jsval option \<Rightarrow> int \<Rightarrow> int \<Rightarrow> (string \<times> string) option" where
  "validateApprovalTime H approval envelope now tolerance =
    (let createdAt = parse_time H (js_get approval ''createdAt'');
         shift = (\<lambda>t k. map_option (\<lambda>x. x + k) t);
         envelopeCreatedAt = (case envelope of None \<Rightarrow> None | Some e \<Rightarrow> parse_time H (js_get e ''createdAt''));
         envelopeExpiresAt = (case envelope of None \<Rightarrow> None | Some e \<Rightarrow> parse_time H (js_get e ''expiresAt''));
         expiresAt = (if text_of (js_get approval ''expiresAt'') \<noteq> [] then parse_time H (js_get approval ''expiresAt'')
                      else envelopeExpiresAt)
     in if time_lt (Some (now + tolerance)) createdAt
        then Some (''createdAt'', ''Approval createdAt is beyond the accepted clock tolerance.'')
        else if time_lt createdAt (shift envelopeCreatedAt (- tolerance))
        then Some (''createdAt'', ''Approval createdAt is before the Action Envelope temporal window.'')
        else if time_lt (shift envelopeExpiresAt tolerance) createdAt
        then Some (''createdAt'', ''Approval createdAt is after the Action Envelope expiresAt.'')
        else if time_le expiresAt createdAt
        then Some (''expiresAt'', ''Approval expiresAt must be after createdAt.'')
        else if time_lt (shift envelopeExpiresAt tolerance) expiresAt
        then Some (''expiresAt'', ''Approval expiresAt cannot outlive the Action Envelope.'')
        else if time_le expiresAt (Some (now - tolerance))
        then Some (''expiresAt'', ''Approval is expired.'')
        else None)"

type_synonym bundle_error = "bundle_code \<times> string \<times> string"

text \<open>The decision of an approval whose structure was validated.\<close>

definition decision_field :: "jsval \<Rightarrow> decision" where
  "decision_field approval = or_default Abstain (decision_of (js_get approval ''decision''))"

text \<open>The body of the loop over the approvals.\<close>

definition verify_one_approval ::
    "('a) crypto_host_scheme \<Rightarrow> hash_object \<Rightarrow> trusted_signer list \<Rightarrow> jsval option \<Rightarrow> int \<Rightarrow> int \<Rightarrow> nat \<Rightarrow> jsval \<Rightarrow>
     bundle_error + verified_approval" where
  "verify_one_approval H actionEnvelopeHash trustedSigners envelope now tolerance index approval =
    (let path = ''$.approvalBundle.approvals['' @ show_nat index @ '']'' in
     if \<not> hashesEqual (hash_of (js_get approval ''actionEnvelopeHash'')) actionEnvelopeHash
     then Inl (APPROVAL_HASH_MISMATCH, ''Approval actionEnvelopeHash does not match the Action Envelope hash.'',
            path @ ''.actionEnvelopeHash'')
     else (case decodeApprovalJws H approval of
       Inl (code, message) \<Rightarrow> Inl (code, message, path @ ''.signature.value'')
     | Inr payload \<Rightarrow>
       let signerDid = text_of (js_get payload ''signerDid'') in
       if signerDid = [] then Inl (UNTRUSTED_SIGNER, ''Approval payload does not identify a trusted signer.'', path)
       else (case map_of (rev (map (\<lambda>s. (ts_did s, s)) trustedSigners)) signerDid of
         None \<Rightarrow> Inl (UNTRUSTED_SIGNER, ''Approval signer is not trusted.'', path @ ''.signature'')
       | Some trustedSigner \<Rightarrow>
         (case resolveTrustedSignerJwk H trustedSigner of
           None \<Rightarrow> Inl (UNTRUSTED_SIGNER, ''No verification key could be resolved for the trusted signer.'', path @ ''.signature'')
         | Some signerJwk \<Rightarrow>
           (case (case verificationKid H signerJwk (ts_did trustedSigner) of None \<Rightarrow> None
                  | Some kid \<Rightarrow> verifySuiteCompactJws H (signature_value approval) signerJwk kid) of
             None \<Rightarrow> Inl (INVALID_SIGNATURE, ''Approval signature could not be verified.'', path @ ''.signature'')
           | Some _ \<Rightarrow>
             if \<not> hashesEqual (hash_of (js_get payload ''actionEnvelopeHash'')) (hash_of (js_get approval ''actionEnvelopeHash'')) \<or>
                js_get payload ''decision'' \<noteq> js_get approval ''decision'' \<or>
                js_get payload ''createdAt'' \<noteq> js_get approval ''createdAt'' \<or>
                js_get payload ''expiresAt'' \<noteq> js_get approval ''expiresAt'' \<or>
                js_get payload ''signerDid'' \<noteq> Str (ts_did trustedSigner)
             then Inl (APPROVAL_PAYLOAD_MISMATCH, ''Signed Approval payload does not match the top-level Approval fields.'', path)
             else (case validateApprovalTime H approval envelope now tolerance of
               Some (fld, message) \<Rightarrow> Inl (APPROVAL_TIME_INVALID, message, path @ ''.'' @ fld)
             | None \<Rightarrow> Inr \<lparr>va_approval = approval, va_signerDid = ts_did trustedSigner,
                 va_decision = decision_field approval, va_createdAt = text_of (js_get approval ''createdAt'')\<rparr>))))))"

fun verify_approvals ::
    "(nat \<Rightarrow> jsval \<Rightarrow> bundle_error + verified_approval) \<Rightarrow> nat \<Rightarrow> jsval list \<Rightarrow> bundle_error + verified_approval list" where
  "verify_approvals f i [] = Inr []"
| "verify_approvals f i (approval # approvals) =
     (case f i approval of Inl e \<Rightarrow> Inl e
      | Inr v \<Rightarrow> (case verify_approvals f (Suc i) approvals of Inl e \<Rightarrow> Inl e | Inr vs \<Rightarrow> Inr (v # vs)))"

definition verifyApprovalBundle ::
    "('a) crypto_host_scheme \<Rightarrow> jsval \<Rightarrow> hash_object \<Rightarrow> trusted_signer list \<Rightarrow> jsval option \<Rightarrow> int \<Rightarrow> int \<Rightarrow>
     bundle_error + verified_approvals" where
  "verifyApprovalBundle H bundle actionEnvelopeHash trustedSigners envelope now tolerance =
    (case validateApprovalBundleStructure H bundle of
       Some (message, path) \<Rightarrow> Inl (MALFORMED_BUNDLE, message, path)
     | None \<Rightarrow>
       if \<not> hashesEqual (hash_of (js_get bundle ''actionEnvelopeHash'')) actionEnvelopeHash
       then Inl (ACTION_ENVELOPE_HASH_MISMATCH,
         ''Approval Bundle actionEnvelopeHash does not match the Action Envelope hash.'', ''$.approvalBundle.actionEnvelopeHash'')
       else (case verify_approvals (verify_one_approval H actionEnvelopeHash trustedSigners envelope now tolerance) 0
               (elements (js_get bundle ''approvals'')) of
         Inl e \<Rightarrow> Inl e
       | Inr approvals \<Rightarrow> Inr \<lparr>vas_actionEnvelopeHash = actionEnvelopeHash, vas_approvals = approvals\<rparr>))"

section \<open>The whole verification\<close>

datatype failure_code =
    FAIL_PACKAGE | FAIL_ENVELOPE validation_code | FAIL_VALIDITY_TOO_LONG | FAIL_EXECUTION_PROFILE
  | FAIL_EXECUTION_PAYLOAD | FAIL_ACTION_ID | FAIL_PAYLOAD_HASH | FAIL_BUNDLE | FAIL_MALFORMED_BUNDLE
  | FAIL_PROPOSER_APPROVAL | FAIL_APPLICATION

datatype verification_result =
    Verified string did "string option" verified_approvals
  | Verification_Rejected failure_code string string

definition verifyActionPackage ::
    "('a) crypto_host_scheme \<Rightarrow> int \<Rightarrow> jsval \<Rightarrow> verification_config \<Rightarrow> verification_result" where
  "verifyActionPackage H clock pkg config =
    (let now = or_default clock (vc_now config); tolerance = or_default 0 (vc_timestampToleranceMs config);
         envelope = actionEnvelope pkg
     in case parseActionPackage H pkg of
       Some (message, path) \<Rightarrow>
         Verification_Rejected (if starts_with ''$.approvalBundle'' path then FAIL_MALFORMED_BUNDLE else FAIL_PACKAGE) message path
     | None \<Rightarrow>
       (case validateActionEnvelope H envelope \<lparr>eo_checkExpiry = True, eo_checkTime = True, eo_now = now, eo_tolerance = tolerance\<rparr> of
         Some (code, message, path) \<Rightarrow> Verification_Rejected (FAIL_ENVELOPE code) message path
       | None \<Rightarrow>
         if exceedsMaxEnvelopeValidity H envelope
              (or_default DEFAULT_MAX_ENVELOPE_VALIDITY_MS (vc_maxEnvelopeValidityMs config)) now
         then Verification_Rejected FAIL_VALIDITY_TOO_LONG
           ''Action Envelope remaining validity exceeds the configured maximum.'' ''$.actionEnvelope.expiresAt''
         else let applicationMatches = filter (\<lambda>b. Str (ap_applicationDid b) = js_get (js_get envelope ''target'') ''applicationDid'')
                    (trustedApplicationBindings H config)
         in if applicationMatches = []
            then Verification_Rejected FAIL_APPLICATION ''Action Envelope target.applicationDid is not trusted.''
              ''$.actionEnvelope.target.applicationDid''
            else (case List.find (\<lambda>b. profile_id_matches (ap_executionProfile b) envelope) applicationMatches of
              None \<Rightarrow> Verification_Rejected FAIL_EXECUTION_PROFILE
                ''Action Envelope execution profile is not authorized for the target Application.'' ''$.actionEnvelope.executionProfile''
            | Some binding \<Rightarrow>
              let profile = ap_executionProfile binding in
              if \<not> xp_validatePayload profile (executionPayload pkg)
              then Verification_Rejected FAIL_EXECUTION_PAYLOAD
                ''Execution Payload is malformed for the declared execution profile.'' ''$.executionPayload''
              else if \<not> (or_default hasSafeReplayDomain (xp_validateActionId profile)) (js_get envelope ''actionId'')
              then Verification_Rejected FAIL_ACTION_ID
                ''Action ID is not globally unique and has no trusted replay-domain scope.'' ''$.actionEnvelope.actionId.scope''
              else if \<not> verifyPayloadBinding H (executionPayload pkg) envelope (Some profile)
              then Verification_Rejected FAIL_PAYLOAD_HASH
                ''Execution Payload hash does not match the Action Envelope.'' ''$.actionEnvelope.executionPayloadHash''
              else (case validateApprovalBundleStructure H (approvalBundle pkg) of
                Some (message, path) \<Rightarrow> Verification_Rejected FAIL_MALFORMED_BUNDLE message path
              | None \<Rightarrow>
                (case verifyApprovalBundle H (approvalBundle pkg) (computeJsonHash H envelope) (vc_trustedSigners config)
                    (Some envelope) now tolerance of
                  Inl (code, message, path) \<Rightarrow> Verification_Rejected FAIL_BUNDLE message path
                | Inr verifiedApprovals \<Rightarrow>
                  if \<not> list_ex (\<lambda>v. va_decision v = Propose \<and> va_signerDid v = proposer_did envelope) (vas_approvals verifiedApprovals)
                  then Verification_Rejected FAIL_PROPOSER_APPROVAL
                    ''Approval Bundle must include a verified propose Approval from actionEnvelope.proposer.did.''
                    ''$.approvalBundle.approvals''
                  else Verified (aid_value (action_id_of envelope)) (application_did envelope)
                    (operationNameFromPayload (executionPayload pkg)) verifiedApprovals)))))"

end
