(* ===== verification/Routing.thy ===== *)
theory Routing
  imports MpasTypes JsDate JsonText Base64url "HOL-Library.Char_ord" "HOL-Library.List_Lexorder"
begin

text \<open>
  Routing messages, \<open>sdk/protocol/src/lib/routing.ts\<close>: parsers of delivery envelopes and
  of the relay and coordination messages, idempotency keys, and the request-equivalence
  fingerprint. A parser returns the new object of the code, as a JSON value, or the error
  it throws; \<open>new URL\<close> and \<open>Date.parse\<close> of other texts are host functions.
\<close>

datatype routing_error =
    Routing_Validation string string
  | Invalid_Url
  | No_Scope jsval string

section \<open>Field checks\<close>

definition requireRecord :: "jsval \<Rightarrow> string \<Rightarrow> string \<Rightarrow> routing_error + jsval" where
  "requireRecord value path message = (if \<not> is_record value then Inl (Routing_Validation message path) else Inr value)"

definition requireLiteral :: "jsval \<Rightarrow> string \<Rightarrow> string \<Rightarrow> routing_error + string" where
  "requireLiteral value expected path =
    (if value \<noteq> Str expected then Inl (Routing_Validation (''Expected '' @ json_quote expected @ ''.'') path)
     else Inr expected)"

text \<open>\<open>/^did:[a-z0-9]+:\S+$/i\<close>.\<close>

definition routing_did_form :: "string \<Rightarrow> bool" where
  "routing_did_form s \<longleftrightarrow> starts_with ''did:'' (map lower s) \<and>
     (let r = drop 4 s; method = takeWhile (\<lambda>c. lower_or_digit (lower c)) r;
          rest = dropWhile (\<lambda>c. lower_or_digit (lower c)) r
      in method \<noteq> [] \<and> (case rest of [] \<Rightarrow> False
        | c # ident \<Rightarrow> c = CHR '':'' \<and> ident \<noteq> [] \<and> list_all (\<lambda>x. \<not> is_space x) ident))"

definition requireDid :: "jsval \<Rightarrow> string \<Rightarrow> routing_error + did" where
  "requireDid value path = (case value of
       Str s \<Rightarrow> if routing_did_form s then Inr s else Inl (Routing_Validation ''Expected a DID string.'' path)
     | _ \<Rightarrow> Inl (Routing_Validation ''Expected a DID string.'' path))"

definition requireTimestamp :: "('a) host_scheme \<Rightarrow> jsval \<Rightarrow> string \<Rightarrow> routing_error + timestamp" where
  "requireTimestamp H value path = (case value of
       Str s \<Rightarrow> if iso_ms_form s \<and> date_parse (legacy_date H) s \<noteq> None then Inr s
                else Inl (Routing_Validation ''Expected an RFC 3339 timestamp.'' path)
     | _ \<Rightarrow> Inl (Routing_Validation ''Expected an RFC 3339 timestamp.'' path))"

definition requireOrigin :: "('a) host_scheme \<Rightarrow> jsval \<Rightarrow> string \<Rightarrow> routing_error + string" where
  "requireOrigin H value path = (case value of
       Str s \<Rightarrow> (case url_parse H s of
           Some (origin, protocol) \<Rightarrow>
             if origin \<noteq> s \<or> (protocol \<noteq> ''https:'' \<and> protocol \<noteq> ''http:'')
             then Inl (Routing_Validation ''Expected a canonical HTTP(S) origin.'' path) else Inr s
         | None \<Rightarrow> Inl (Routing_Validation ''Expected a canonical HTTP(S) origin.'' path))
     | _ \<Rightarrow> Inl (Routing_Validation ''Expected an audience origin.'' path))"

definition index_path :: "string \<Rightarrow> nat \<Rightarrow> string" where
  "index_path path index = path @ ''['' @ show_nat index @ '']''"

definition member_path :: "string \<Rightarrow> string \<Rightarrow> string" where
  "member_path path key = path @ ''.'' @ key"

function requireJsonValue :: "jsval \<Rightarrow> string \<Rightarrow> routing_error option" where
  "requireJsonValue value path = (case value of
       Null \<Rightarrow> None | Str _ \<Rightarrow> None | Bool _ \<Rightarrow> None
     | Num n \<Rightarrow> (case n of Fin _ \<Rightarrow> None | _ \<Rightarrow> Some (Routing_Validation ''JSON numbers must be finite.'' path))
     | Arr xs \<Rightarrow> first_error (\<lambda>index entry. requireJsonValue entry (index_path path index)) 0 xs
     | Obj kvs \<Rightarrow> first_error (\<lambda>_ (key, entry).
         if entry = Undefined then Some (Routing_Validation ''undefined is not a JSON value.'' (member_path path key))
         else requireJsonValue entry (member_path path key)) 0 kvs
     | _ \<Rightarrow> Some (Routing_Validation ''Expected a JSON value.'' path))"
  by pat_completeness auto

lemma size_member: "(k, v) \<in> set kvs \<Longrightarrow> size (v :: jsval) < size (Obj kvs)"
  by (induction kvs) auto

lemma size_element: "v \<in> set xs \<Longrightarrow> size (v :: jsval) < size (Arr xs)"
  by (induction xs) auto

termination requireJsonValue
  by (relation "measure (\<lambda>(v, p). size v)") (auto dest: size_member size_element)

declare requireJsonValue.simps [simp del]

text \<open>A field that the object may lack: \<open>value === undefined ? undefined : parse(value)\<close>.\<close>

definition if_defined :: "jsval \<Rightarrow> (jsval \<Rightarrow> 'e + 'b) \<Rightarrow> 'e + 'b option" where
  "if_defined v f = (if v = Undefined then Inr None else and_then (f v) (\<lambda>x. Inr (Some x)))"

text \<open>\<open>...(value !== undefined ? { key: value } : {})\<close>.\<close>

definition spread :: "string \<Rightarrow> jsval option \<Rightarrow> (string \<times> jsval) list" where
  "spread key v = (case v of None \<Rightarrow> [] | Some x \<Rightarrow> [(key, x)])"

section \<open>Delivery envelopes\<close>

record delivery_envelope =
  de_sender :: did
  de_recipients :: "did list"
  de_createdAt :: timestamp
  de_payload :: jsval
  de_expiresAt :: "timestamp option"
  de_audience :: "string option"

definition envelope_json :: "delivery_envelope \<Rightarrow> jsval" where
  "envelope_json e = Obj ([(''version'', Str ''1''), (''type'', Str ''DeliveryEnvelope''), (''sender'', Str (de_sender e)),
      (''recipients'', Arr (map Str (de_recipients e))), (''createdAt'', Str (de_createdAt e)), (''payload'', de_payload e)] @
      spread ''expiresAt'' (map_option Str (de_expiresAt e)) @ spread ''audience'' (map_option Str (de_audience e)))"

text \<open>\<open>Date.parse(expiresAt) <= now\<close>; a comparison with NaN is false.\<close>

definition parsed_le :: "('a) host_scheme \<Rightarrow> timestamp \<Rightarrow> int \<Rightarrow> bool" where
  "parsed_le H t now = (case date_parse (legacy_date H) t of None \<Rightarrow> False | Some e \<Rightarrow> e \<le> now)"

definition later_than :: "('a) host_scheme \<Rightarrow> timestamp \<Rightarrow> timestamp \<Rightarrow> bool" where
  "later_than H expiresAt createdAt = (case (date_parse (legacy_date H) expiresAt, date_parse (legacy_date H) createdAt) of
     (Some e, Some c) \<Rightarrow> \<not> e \<le> c | _ \<Rightarrow> True)"

definition parseDeliveryEnvelope :: "('a) host_scheme \<Rightarrow> jsval \<Rightarrow> routing_error + delivery_envelope" where
  "parseDeliveryEnvelope H value =
    and_then (requireRecord value ''$'' ''DeliveryEnvelope must be a JSON object.'') (\<lambda>object.
    and_then (requireLiteral (js_get object ''version'') ''1'' ''$.version'') (\<lambda>_.
    and_then (requireLiteral (js_get object ''type'') ''DeliveryEnvelope'' ''$.type'') (\<lambda>_.
    and_then (requireDid (js_get object ''sender'') ''$.sender'') (\<lambda>sender.
    and_then (require (is_array (js_get object ''recipients'') \<and> elements (js_get object ''recipients'') \<noteq> [])
      (Routing_Validation ''DeliveryEnvelope.recipients must be a non-empty array.'' ''$.recipients'')) (\<lambda>_.
    and_then (map_indexed (\<lambda>index recipient. requireDid recipient (index_path ''$.recipients'' index)) 0
      (elements (js_get object ''recipients''))) (\<lambda>recipients.
    and_then (require (set_size recipients = length recipients)
      (Routing_Validation ''DeliveryEnvelope.recipients must contain unique DIDs.'' ''$.recipients'')) (\<lambda>_.
    and_then (requireTimestamp H (js_get object ''createdAt'') ''$.createdAt'') (\<lambda>createdAt.
    and_then (if_defined (js_get object ''expiresAt'') (\<lambda>v. requireTimestamp H v ''$.expiresAt'')) (\<lambda>expiresAt.
    and_then (require (opt_all (\<lambda>e. later_than H e createdAt) expiresAt)
      (Routing_Validation ''DeliveryEnvelope.expiresAt must be later than createdAt.'' ''$.expiresAt'')) (\<lambda>_.
    and_then (if_defined (js_get object ''audience'') (\<lambda>v. requireOrigin H v ''$.audience'')) (\<lambda>audience.
    and_then (no_error (requireJsonValue (js_get object ''payload'') ''$.payload'')) (\<lambda>_.
    Inr \<lparr>de_sender = sender, de_recipients = recipients, de_createdAt = createdAt,
        de_payload = js_get object ''payload'', de_expiresAt = expiresAt, de_audience = audience\<rparr>))))))))))))"

lemma requireRecord_Inr [simp]: "requireRecord v p m = Inr x \<longleftrightarrow> is_record v \<and> x = v"
  by (auto simp: requireRecord_def)

lemma requireLiteral_Inr [simp]: "requireLiteral v s p = Inr x \<longleftrightarrow> v = Str s \<and> x = s"
  by (auto simp: requireLiteral_def)

lemma requireDid_Inr [simp]: "requireDid v p = Inr s \<longleftrightarrow> v = Str s \<and> routing_did_form s"
  by (auto simp: requireDid_def split: jsval.splits)

lemma requireTimestamp_Inr [simp]:
  "requireTimestamp H v p = Inr s \<longleftrightarrow> v = Str s \<and> iso_ms_form s \<and> date_parse (legacy_date H) s \<noteq> None"
  by (auto simp: requireTimestamp_def split: jsval.splits)

definition canonical_origin :: "('a) host_scheme \<Rightarrow> string \<Rightarrow> bool" where
  "canonical_origin H s \<longleftrightarrow> (\<exists>protocol \<in> {''https:'', ''http:''}. url_parse H s = Some (s, protocol))"

lemma requireOrigin_Inr [simp]: "requireOrigin H v p = Inr s \<longleftrightarrow> v = Str s \<and> canonical_origin H s"
  by (auto simp: requireOrigin_def canonical_origin_def split: jsval.splits option.splits)

lemma if_defined_Inr [simp]:
  "if_defined v f = Inr x \<longleftrightarrow> (case x of None \<Rightarrow> v = Undefined | Some y \<Rightarrow> v \<noteq> Undefined \<and> f v = Inr y)"
  by (auto simp: if_defined_def split: option.splits)

lemma requireDid_map: "map_indexed (\<lambda>i v. requireDid v (P i)) n vs = Inr ss \<longleftrightarrow> vs = map Str ss \<and> list_all routing_did_form ss"
  by (induction vs arbitrary: n ss) (auto simp: map_eq_Cons_conv)

lemma set_size_distinct [simp]: "set_size xs = length xs \<longleftrightarrow> distinct xs"
  by (rule set_size_length_iff)

text \<open>What the envelope parser accepts, and what it returns.\<close>

lemma parseDeliveryEnvelope_Inr:
  "parseDeliveryEnvelope H v = Inr e \<longleftrightarrow> is_record v \<and> js_get v ''version'' = Str ''1'' \<and>
     js_get v ''type'' = Str ''DeliveryEnvelope'' \<and> js_get v ''sender'' = Str (de_sender e) \<and> routing_did_form (de_sender e) \<and>
     js_get v ''recipients'' = Arr (map Str (de_recipients e)) \<and> de_recipients e \<noteq> [] \<and>
     list_all routing_did_form (de_recipients e) \<and> distinct (de_recipients e) \<and>
     requireTimestamp H (js_get v ''createdAt'') ''$.createdAt'' = Inr (de_createdAt e) \<and>
     if_defined (js_get v ''expiresAt'') (\<lambda>v. requireTimestamp H v ''$.expiresAt'') = Inr (de_expiresAt e) \<and>
     opt_all (\<lambda>x. later_than H x (de_createdAt e)) (de_expiresAt e) \<and>
     if_defined (js_get v ''audience'') (\<lambda>v. requireOrigin H v ''$.audience'') = Inr (de_audience e) \<and>
     requireJsonValue (js_get v ''payload'') ''$.payload'' = None \<and> de_payload e = js_get v ''payload''"
proof -
  have arr: "is_array w \<Longrightarrow> elements w = map Str ss \<Longrightarrow> w = Arr (map Str ss)" for w ss by (cases w) auto
  show ?thesis
    unfolding parseDeliveryEnvelope_def and_then_Inr_iff requireRecord_Inr requireLiteral_Inr requireDid_Inr
      requireDid_map require_Inr_iff no_error_iff set_size_distinct
    by (cases e) (auto simp del: if_defined_Inr requireTimestamp_Inr intro: arr)
qed

lemma parse_payload: "parseDeliveryEnvelope H v = Inr e \<Longrightarrow> is_record v \<and> de_payload e = js_get v ''payload''"
  by (simp add: parseDeliveryEnvelope_Inr)

definition buildDeliveryEnvelope ::
    "('a) host_scheme \<Rightarrow> int \<Rightarrow> did \<Rightarrow> did list \<Rightarrow> jsval \<Rightarrow> timestamp option \<Rightarrow> timestamp option \<Rightarrow> string option \<Rightarrow>
     routing_error + delivery_envelope" where
  "buildDeliveryEnvelope H clock sender recipients payload createdAt expiresAt audience =
    (let created = (case createdAt of None \<Rightarrow> iso_of_ms clock | Some t \<Rightarrow> t)
     in parseDeliveryEnvelope H (envelope_json \<lparr>de_sender = sender, de_recipients = recipients, de_createdAt = created,
          de_payload = payload, de_expiresAt = expiresAt, de_audience = audience\<rparr>))"

definition hasDeliveryEnvelopeRecipient :: "delivery_envelope \<Rightarrow> did \<Rightarrow> bool" where
  "hasDeliveryEnvelopeRecipient envelope did \<longleftrightarrow> did \<in> set (de_recipients envelope)"

definition isDeliveryEnvelopeExpired :: "('a) host_scheme \<Rightarrow> delivery_envelope \<Rightarrow> int \<Rightarrow> bool" where
  "isDeliveryEnvelopeExpired H envelope now = (case de_expiresAt envelope of None \<Rightarrow> False | Some t \<Rightarrow> parsed_le H t now)"

section \<open>Action requests and responses\<close>

definition subset_keys :: "jsval \<Rightarrow> string list \<Rightarrow> bool" where
  "subset_keys v allowed \<longleftrightarrow> list_all (\<lambda>key. key \<in> set allowed) (object_keys v)"

text \<open>\<open>/^[A-Za-z0-9_-]{43}$/\<close> and canonical base64url.\<close>

definition sha256_value :: "string \<Rightarrow> bool" where
  "sha256_value s \<longleftrightarrow> length s = 43 \<and> list_all b64_alphabet s \<and> b64_encode (b64_bytes s) = s"

text \<open>\<open>/^sha256:[a-f0-9]{64}$/\<close>.\<close>

definition upstream_digest :: "string \<Rightarrow> bool" where
  "upstream_digest s \<longleftrightarrow> starts_with ''sha256:'' s \<and> length s = 71 \<and> list_all hex_char (drop 7 s)"

definition parse_upstream_binding :: "jsval \<Rightarrow> routing_error + jsval" where
  "parse_upstream_binding value =
    and_then (requireRecord value ''$.upstreamBinding'' ''upstreamBinding must be an object.'') (\<lambda>binding.
    and_then (requireRecord (js_get binding ''toolSurface'') ''$.upstreamBinding.toolSurface'' ''toolSurface must be a hash.'') (\<lambda>hash.
    and_then (require (subset_keys binding [''toolSurface'', ''upstreamDigest''] \<and> subset_keys hash [''alg'', ''value''] \<and>
        js_get hash ''alg'' = Str ''sha-256'' \<and>
        (case js_get hash ''value'' of Str s \<Rightarrow> sha256_value s | _ \<Rightarrow> False) \<and>
        (js_get binding ''upstreamDigest'' = Undefined \<or>
          (case js_get binding ''upstreamDigest'' of Str s \<Rightarrow> upstream_digest s | _ \<Rightarrow> False)))
      (Routing_Validation ''Invalid upstream binding.'' ''$.upstreamBinding'')) (\<lambda>_.
    Inr (Obj ([(''toolSurface'', Obj [(''alg'', Str ''sha-256''), (''value'', js_get hash ''value'')])] @
      (if js_get binding ''upstreamDigest'' \<noteq> Undefined then [(''upstreamDigest'', js_get binding ''upstreamDigest'')] else []))))))"

definition MPAS_MAX_IDEMPOTENCY_KEY_LENGTH :: nat where
  "MPAS_MAX_IDEMPOTENCY_KEY_LENGTH = 128"

definition validateIdempotencyKey :: "string \<Rightarrow> routing_error + string" where
  "validateIdempotencyKey s =
    (if length s = 0 \<or> MPAS_MAX_IDEMPOTENCY_KEY_LENGTH < length s
     then Inl (Routing_Validation (''idempotencyKey must contain 1 to '' @ show_nat MPAS_MAX_IDEMPOTENCY_KEY_LENGTH @ '' characters.'')
       ''$.idempotencyKey'')
     else Inr s)"

definition validateOptionalIdempotencyKey :: "jsval \<Rightarrow> string \<Rightarrow> routing_error + string option" where
  "validateOptionalIdempotencyKey value path = (case value of
       Undefined \<Rightarrow> Inr None
     | Str s \<Rightarrow> and_then (validateIdempotencyKey s) (\<lambda>k. Inr (Some k))
     | _ \<Rightarrow> Inl (Routing_Validation ''idempotencyKey must be a string.'' path))"

definition resolveIdempotencyKey :: "jsval \<Rightarrow> string option \<Rightarrow> routing_error + string option" where
  "resolveIdempotencyKey bodyValue headerValue =
    and_then (validateOptionalIdempotencyKey bodyValue ''$.idempotencyKey'') (\<lambda>body.
    and_then (case headerValue of None \<Rightarrow> Inr None | Some h \<Rightarrow> and_then (validateIdempotencyKey h) (\<lambda>k. Inr (Some k))) (\<lambda>header.
    if body \<noteq> None \<and> header \<noteq> None \<and> body \<noteq> header
    then Inl (Routing_Validation ''Body and Idempotency-Key header values differ.'' ''$.idempotencyKey'')
    else Inr (case body of None \<Rightarrow> header | Some b \<Rightarrow> Some b)))"

definition parseActionRequest :: "('a) host_scheme \<Rightarrow> jsval \<Rightarrow> routing_error + jsval" where
  "parseActionRequest H value =
    and_then (requireRecord value ''$'' ''ActionRequest must be a JSON object.'') (\<lambda>object.
    and_then (requireLiteral (js_get object ''version'') ''1'' ''$.version'') (\<lambda>_.
    and_then (requireLiteral (js_get object ''type'') ''ActionRequest'' ''$.type'') (\<lambda>_.
    and_then (requireRecord (js_get object ''actionPackage'') ''$.actionPackage'' ''ActionRequest.actionPackage is required.'') (\<lambda>pkg.
    and_then (requireLiteral (js_get pkg ''version'') ''1'' ''$.actionPackage.version'') (\<lambda>_.
    and_then (requireLiteral (js_get pkg ''type'') ''ActionPackage'' ''$.actionPackage.type'') (\<lambda>_.
    and_then (validateOptionalIdempotencyKey (js_get object ''idempotencyKey'') ''$.idempotencyKey'') (\<lambda>idempotencyKey.
    and_then (if_defined (js_get object ''upstreamBinding'') parse_upstream_binding) (\<lambda>upstreamBinding.
    and_then (if_defined (js_get object ''audience'') (\<lambda>v. requireOrigin H v ''$.audience'')) (\<lambda>audience.
    and_then (if_defined (js_get object ''context'') (\<lambda>v.
      and_then (requireRecord v ''$.context'' ''ActionRequest.context must be a JSON object.'') (\<lambda>context.
      and_then (no_error (requireJsonValue context ''$.context'')) (\<lambda>_. Inr context)))) (\<lambda>context.
    Inr (Obj ([(''version'', Str ''1''), (''type'', Str ''ActionRequest''), (''actionPackage'', pkg)] @
      spread ''upstreamBinding'' upstreamBinding @ spread ''idempotencyKey'' (map_option Str idempotencyKey) @
      spread ''audience'' (map_option Str audience) @ spread ''context'' context))))))))))))"

definition parseActionRequestEnvelope :: "('a) host_scheme \<Rightarrow> jsval \<Rightarrow> routing_error + delivery_envelope" where
  "parseActionRequestEnvelope H value =
    and_then (parseDeliveryEnvelope H value) (\<lambda>envelope.
    and_then (parseActionRequest H (de_payload envelope)) (\<lambda>payload. Inr (envelope\<lparr>de_payload := payload\<rparr>)))"

definition ACTION_RESPONSE_RESULTS :: "string list" where
  "ACTION_RESPONSE_RESULTS = [''executed'', ''additionalApprovalsRequired'', ''rejected'', ''notSupported'', ''malformed'',
     ''policyUnavailable'', ''pending'', ''failed'', ''indeterminate'', ''expired'', ''cancelled'']"

definition parseActionResponseAt :: "jsval \<Rightarrow> string \<Rightarrow> routing_error + jsval" where
  "parseActionResponseAt value path =
    and_then (requireRecord value path ''ActionResponse must be a JSON object.'') (\<lambda>object.
    and_then (requireLiteral (js_get object ''version'') ''1'' (member_path path ''version'')) (\<lambda>_.
    and_then (requireLiteral (js_get object ''type'') ''ActionResponse'' (member_path path ''type'')) (\<lambda>_.
    and_then (require (case js_get object ''result'' of Str r \<Rightarrow> r \<in> set ACTION_RESPONSE_RESULTS | _ \<Rightarrow> False)
      (Routing_Validation ''ActionResponse.result is invalid.'' (member_path path ''result''))) (\<lambda>_.
    if js_get object ''authorizationRequirements'' = Undefined then Inr object
    else
      and_then (requireRecord (js_get object ''verifier'') (member_path path ''verifier'') ''ActionResponse.verifier is required.'') (\<lambda>verifier.
      and_then (requireDid (js_get verifier ''did'') (member_path path ''verifier.did'')) (\<lambda>verifierDid.
      and_then (requireRecord (js_get object ''authorizationRequirements'') (member_path path ''authorizationRequirements'')
        ''ActionResponse.authorizationRequirements must be an object.'') (\<lambda>requirements.
      and_then (requireRecord (js_get requirements ''verifier'') (member_path path ''authorizationRequirements.verifier'')
        ''AuthorizationRequirements.verifier is required.'') (\<lambda>requirementsVerifier.
      and_then (requireDid (js_get requirementsVerifier ''did'') (member_path path ''authorizationRequirements.verifier.did'')) (\<lambda>requirementsVerifierDid.
      and_then (require (requirementsVerifierDid = verifierDid)
        (Routing_Validation ''AuthorizationRequirements.verifier.did must equal ActionResponse.verifier.did.''
          (member_path path ''authorizationRequirements.verifier.did''))) (\<lambda>_.
      Inr object))))))))))"

definition parseActionResponse :: "jsval \<Rightarrow> routing_error + jsval" where
  "parseActionResponse value = parseActionResponseAt value ''$''"

definition parseActionResponseEnvelope :: "('a) host_scheme \<Rightarrow> jsval \<Rightarrow> routing_error + delivery_envelope" where
  "parseActionResponseEnvelope H value =
    and_then (parseDeliveryEnvelope H value) (\<lambda>envelope.
    and_then (parseActionResponseAt (de_payload envelope) ''$.payload'') (\<lambda>payload. Inr (envelope\<lparr>de_payload := payload\<rparr>)))"

section \<open>Acknowledgements, sessions, notifications and poll pages\<close>

definition header :: "jsval \<Rightarrow> string \<Rightarrow> routing_error + jsval" where
  "header value type =
    and_then (requireRecord value ''$'' (type @ '' must be a JSON object.'')) (\<lambda>object.
    and_then (requireLiteral (js_get object ''version'') ''1'' ''$.version'') (\<lambda>_.
    and_then (requireLiteral (js_get object ''type'') type ''$.type'') (\<lambda>_. Inr object)))"

definition parse_delivery_response :: "('a) host_scheme \<Rightarrow> string \<Rightarrow> string \<Rightarrow> jsval \<Rightarrow> routing_error + jsval" where
  "parse_delivery_response H type refused value =
    and_then (header value type) (\<lambda>object.
    and_then (require (js_get object ''accepted'' = Bool True) (Routing_Validation refused ''$.accepted'')) (\<lambda>_.
    and_then (if_defined (js_get object ''createdAt'') (\<lambda>v. requireTimestamp H v ''$.createdAt'')) (\<lambda>createdAt.
    Inr (Obj ([(''version'', Str ''1''), (''type'', Str type), (''accepted'', Bool True)] @
      spread ''createdAt'' (map_option Str createdAt))))))"

definition parseRelayDeliveryResponse :: "('a) host_scheme \<Rightarrow> jsval \<Rightarrow> routing_error + jsval" where
  "parseRelayDeliveryResponse H = parse_delivery_response H ''RelayDeliveryResponse'' ''Relay delivery was not accepted.''"

definition parseCoordinationDeliveryResponse :: "('a) host_scheme \<Rightarrow> jsval \<Rightarrow> routing_error + jsval" where
  "parseCoordinationDeliveryResponse H =
     parse_delivery_response H ''CoordinationDeliveryResponse'' ''Coordination delivery was not accepted.''"

definition parse_session_response :: "('a) host_scheme \<Rightarrow> string \<Rightarrow> jsval \<Rightarrow> routing_error + jsval" where
  "parse_session_response H type value =
    and_then (header value type) (\<lambda>object.
    case js_get object ''websocketUrl'' of
      Str url \<Rightarrow> (case url_parse H url of
          None \<Rightarrow> Inl Invalid_Url
        | Some (origin, protocol) \<Rightarrow>
            and_then (require (protocol = ''wss:'' \<or> protocol = ''ws:'')
              (Routing_Validation ''websocketUrl must use ws or wss.'' ''$.websocketUrl'')) (\<lambda>_.
            and_then (require (case js_get object ''ticket'' of Str t \<Rightarrow> length t \<noteq> 0 | _ \<Rightarrow> False)
              (Routing_Validation ''ticket is required.'' ''$.ticket'')) (\<lambda>_.
            and_then (requireTimestamp H (js_get object ''expiresAt'') ''$.expiresAt'') (\<lambda>expiresAt.
            Inr (Obj [(''version'', Str ''1''), (''type'', Str type), (''websocketUrl'', Str url),
              (''ticket'', js_get object ''ticket''), (''expiresAt'', Str expiresAt)])))))
    | _ \<Rightarrow> Inl (Routing_Validation ''websocketUrl is required.'' ''$.websocketUrl''))"

definition parseCoordinationSessionResponse :: "('a) host_scheme \<Rightarrow> jsval \<Rightarrow> routing_error + jsval" where
  "parseCoordinationSessionResponse H = parse_session_response H ''CoordinationSessionResponse''"

definition parseRelaySessionResponse :: "('a) host_scheme \<Rightarrow> jsval \<Rightarrow> routing_error + jsval" where
  "parseRelaySessionResponse H = parse_session_response H ''RelaySessionResponse''"

definition parseCoordinationWorkAvailable :: "jsval \<Rightarrow> routing_error + jsval" where
  "parseCoordinationWorkAvailable value = and_then (header value ''CoordinationWorkAvailable'') (\<lambda>_.
     Inr (Obj [(''version'', Str ''1''), (''type'', Str ''CoordinationWorkAvailable'')]))"

definition parseRelayWorkAvailable :: "jsval \<Rightarrow> routing_error + jsval" where
  "parseRelayWorkAvailable value = and_then (header value ''RelayWorkAvailable'') (\<lambda>_.
     Inr (Obj [(''version'', Str ''1''), (''type'', Str ''RelayWorkAvailable'')]))"

definition parseRelayPollResponse :: "('a) host_scheme \<Rightarrow> jsval \<Rightarrow> routing_error + jsval" where
  "parseRelayPollResponse H value =
    and_then (header value ''RelayPollResponse'') (\<lambda>object.
    and_then (require (is_array (js_get object ''deliveries''))
      (Routing_Validation ''deliveries must be an array.'' ''$.deliveries'')) (\<lambda>_.
    and_then (require (js_get object ''nextCursor'' = Undefined \<or> is_string (js_get object ''nextCursor''))
      (Routing_Validation ''nextCursor must be a string.'' ''$.nextCursor'')) (\<lambda>_.
    and_then (map_indexed (\<lambda>_. parseDeliveryEnvelope H) 0 (elements (js_get object ''deliveries''))) (\<lambda>deliveries.
    Inr (Obj ([(''version'', Str ''1''), (''type'', Str ''RelayPollResponse''), (''deliveries'', Arr (map envelope_json deliveries))] @
      (if is_string (js_get object ''nextCursor'') then [(''nextCursor'', js_get object ''nextCursor'')] else [])))))))"

definition parseCoordinationPollResponse :: "jsval \<Rightarrow> routing_error + jsval" where
  "parseCoordinationPollResponse value =
    and_then (header value ''CoordinationPollResponse'') (\<lambda>object.
    and_then (require (is_array (js_get object ''approvalRequests''))
      (Routing_Validation ''approvalRequests must be an array.'' ''$.approvalRequests'')) (\<lambda>_.
    and_then (require (js_get object ''actionUpdates'' = Undefined \<or> is_array (js_get object ''actionUpdates''))
      (Routing_Validation ''actionUpdates must be an array when present.'' ''$.actionUpdates'')) (\<lambda>_.
    and_then (require (js_get object ''deliveries'' = Undefined \<and> js_get object ''nextCursor'' = Undefined)
      (Routing_Validation ''Coordination poll responses must not contain relay deliveries or relay cursors.''
        (if js_get object ''deliveries'' \<noteq> Undefined then ''$.deliveries'' else ''$.nextCursor''))) (\<lambda>_.
    Inr (Obj [(''version'', Str ''1''), (''type'', Str ''CoordinationPollResponse''),
      (''approvalRequests'', js_get object ''approvalRequests''),
      (''actionUpdates'', if js_get object ''actionUpdates'' = Undefined then Arr [] else js_get object ''actionUpdates'')])))))"

section \<open>Request equivalence\<close>

definition without_keys :: "string list \<Rightarrow> jsval \<Rightarrow> jsval" where
  "without_keys ks v = Obj (filter (\<lambda>(k, x). k \<notin> set ks) (entries v))"

lemma size_js_get: "is_record v \<Longrightarrow> size (js_get v k) < size v"
  by (cases v) (auto split: option.splits dest!: map_of_SomeD size_member)


function idempotencyProjection :: "('a) host_scheme \<Rightarrow> jsval \<Rightarrow> string \<Rightarrow> routing_error + jsval" where
  "idempotencyProjection H value path =
    and_then (requireRecord value path ''Idempotent request layer must be a JSON object.'') (\<lambda>object.
    if js_get object ''type'' = Str ''DeliveryEnvelope'' then
      and_then (parseDeliveryEnvelope H object) (\<lambda>envelope.
      and_then (idempotencyProjection H (de_payload envelope) (member_path path ''payload'')) (\<lambda>payload.
      Inr (Obj [(''version'', Str ''1''), (''type'', Str ''DeliveryEnvelope''), (''sender'', Str (de_sender envelope)),
        (''recipients'', Arr (map Str (sort (de_recipients envelope)))), (''payload'', payload)])))
    else if js_get object ''type'' \<in> Str ` {''ActionRequest'', ''CoordinationActionRequest'',
        ''CoordinationApprovalSubmission'', ''CoordinationActionCancelRequest''} then
      (let projection = without_keys [''idempotencyKey'', ''audience''] object
       in and_then (no_error (requireJsonValue projection path)) (\<lambda>_. Inr projection))
    else Inl (No_Scope (js_get object ''type'') (member_path path ''type'')))"
  by pat_completeness auto

termination idempotencyProjection
  by (relation "measure (\<lambda>(H, v, p). size v)") (auto dest!: parse_payload simp: size_js_get)

declare idempotencyProjection.simps [simp del]

definition computeIdempotencyFingerprint :: "('a) host_scheme \<Rightarrow> jsval \<Rightarrow> routing_error + string" where
  "computeIdempotencyFingerprint H request =
    and_then (idempotencyProjection H request ''$'') (\<lambda>v. Inr (hash_value (computeJsonHash H v)))"

section \<open>Properties\<close>

lemma js_get_envelope_json [simp]:
  "js_get (envelope_json e) ''version'' = Str ''1''" "js_get (envelope_json e) ''type'' = Str ''DeliveryEnvelope''"
  "js_get (envelope_json e) ''sender'' = Str (de_sender e)"
  "js_get (envelope_json e) ''recipients'' = Arr (map Str (de_recipients e))"
  "js_get (envelope_json e) ''createdAt'' = Str (de_createdAt e)" "js_get (envelope_json e) ''payload'' = de_payload e"
  "js_get (envelope_json e) ''expiresAt'' = (case de_expiresAt e of None \<Rightarrow> Undefined | Some t \<Rightarrow> Str t)"
  "js_get (envelope_json e) ''audience'' = (case de_audience e of None \<Rightarrow> Undefined | Some t \<Rightarrow> Str t)"
  by (simp_all add: envelope_json_def spread_def split: option.splits)

lemma is_record_envelope_json [simp]: "is_record (envelope_json e)"
  by (simp add: envelope_json_def)

text \<open>
  Sending a parsed envelope on loses nothing: the receiver of the printed envelope parses
  the same envelope.
\<close>

theorem parsed_envelope_roundtrip:
  assumes "parseDeliveryEnvelope H v = Inr e"
  shows "parseDeliveryEnvelope H (envelope_json e) = Inr e"
  using assms by (auto simp: parseDeliveryEnvelope_Inr split: option.splits)

definition routing_host :: host where
  "routing_host = \<lparr>jcs = (\<lambda>v. []), sha256 = (\<lambda>s. s), legacy_date = (\<lambda>s. None),
     url_parse = (\<lambda>s. if s = ''https://a.b'' then Some (s, ''https:'') else None)\<rparr>"

definition example_action_request :: "string \<Rightarrow> jsval" where
  "example_action_request key = Obj [(''version'', Str ''1''), (''type'', Str ''ActionRequest''), (''idempotencyKey'', Str key)]"

definition example_delivery :: "string \<Rightarrow> did list \<Rightarrow> delivery_envelope" where
  "example_delivery key recipients = \<lparr>de_sender = ''did:web:p'', de_recipients = recipients,
     de_createdAt = ''2024-01-01T00:00:00.000Z'', de_payload = example_action_request key,
     de_expiresAt = Some ''2024-01-01T01:00:00.000Z'', de_audience = Some ''https://a.b''\<rparr>"

lemma example_times:
  "iso_ms_form ''2024-01-01T00:00:00.000Z''" "iso_ms_form ''2024-01-01T01:00:00.000Z''"
  "date_parse f ''2024-01-01T00:00:00.000Z'' = Some 1704067200000"
  "date_parse f ''2024-01-01T01:00:00.000Z'' = Some 1704070800000"
  by (simp_all add: iso_ms_form_def iso_prefix_def digits_at_def is_digit_def date_parse_def date_fields_def field_def
      nat_of_digits_def digit_val_def days_from_civil_def ms_per_day_def Let_def)

lemma example_dids:
  "routing_did_form ''did:web:p''" "routing_did_form ''did:web:a''" "routing_did_form ''did:web:b''"
  by (simp_all add: routing_did_form_def lower_def lower_or_digit_def is_space_def starts_with_def Let_def)

lemma example_payload: "requireJsonValue (example_action_request k) p = None"
  by (simp add: requireJsonValue.simps [of "example_action_request k"] example_action_request_def requireJsonValue.simps)

lemma example_delivery_parsed:
  assumes "list_all routing_did_form rs" "distinct rs" "rs \<noteq> []"
  shows "parseDeliveryEnvelope routing_host (envelope_json (example_delivery k rs)) = Inr (example_delivery k rs)"
  using assms
  by (simp add: parseDeliveryEnvelope_Inr example_delivery_def example_dids example_times example_payload later_than_def
      canonical_origin_def routing_host_def)

lemma example_delivery_ab:
  "parseDeliveryEnvelope routing_host (envelope_json (example_delivery ''k'' [''did:web:a'', ''did:web:b''])) =
     Inr (example_delivery ''k'' [''did:web:a'', ''did:web:b''])"
  "parseDeliveryEnvelope routing_host (envelope_json (example_delivery ''l'' [''did:web:b'', ''did:web:a''])) =
     Inr (example_delivery ''l'' [''did:web:b'', ''did:web:a''])"
  by (rule example_delivery_parsed; simp add: example_dids)+

theorem parsed_envelope_roundtrip_witness:
  "parseDeliveryEnvelope routing_host (envelope_json (example_delivery ''k'' [''did:web:a'', ''did:web:b''])) =
     Inr (example_delivery ''k'' [''did:web:a'', ''did:web:b''])"
  by (rule parsed_envelope_roundtrip [OF example_delivery_ab(1)])

lemma sort_distinct_eq:
  fixes xs ys :: "did list"
  assumes "distinct xs" "distinct ys"
  shows "sort xs = sort ys \<longleftrightarrow> set xs = set ys"
proof
  assume "sort xs = sort ys"
  then have "set (sort xs) = set (sort ys)" by simp
  then show "set xs = set ys" by simp
next
  assume "set xs = set ys"
  then show "sort xs = sort ys" using assms by (intro sorted_distinct_set_unique) simp_all
qed

lemma projection_envelope:
  assumes "parseDeliveryEnvelope H v = Inr e"
  shows "idempotencyProjection H v path =
    and_then (idempotencyProjection H (de_payload e) (member_path path ''payload'')) (\<lambda>payload.
      Inr (Obj [(''version'', Str ''1''), (''type'', Str ''DeliveryEnvelope''), (''sender'', Str (de_sender e)),
        (''recipients'', Arr (map Str (sort (de_recipients e)))), (''payload'', payload)]))"
proof -
  from assms have "is_record v" "js_get v ''type'' = Str ''DeliveryEnvelope''" by (simp_all add: parseDeliveryEnvelope_Inr)
  with assms show ?thesis by (subst idempotencyProjection.simps) (simp add: requireRecord_def)
qed

lemma projection_request:
  assumes "js_get v ''type'' = Str ''ActionRequest''" "idempotencyProjection H v path = Inr x"
  shows "x = without_keys [''idempotencyKey'', ''audience''] v"
  using assms(2) by (subst (asm) idempotencyProjection.simps) (simp add: assms(1) Let_def)

text \<open>
  C34. Request equivalence: two delivered action requests have the same projection, and so
  the same fingerprint, exactly when the sender, the set of recipients and the request
  without its idempotency key and audience are the same; the envelope's time stamps,
  audience and the order of its recipients do not matter.
\<close>

theorem request_equivalence:
  assumes "parseDeliveryEnvelope H v = Inr e" "parseDeliveryEnvelope H w = Inr f"
    and "js_get (de_payload e) ''type'' = Str ''ActionRequest''" "js_get (de_payload f) ''type'' = Str ''ActionRequest''"
    and "idempotencyProjection H v ''$'' = Inr x" "idempotencyProjection H w ''$'' = Inr y"
  shows "(x = y \<longleftrightarrow> de_sender e = de_sender f \<and> set (de_recipients e) = set (de_recipients f) \<and>
      without_keys [''idempotencyKey'', ''audience''] (de_payload e) = without_keys [''idempotencyKey'', ''audience''] (de_payload f)) \<and>
    computeIdempotencyFingerprint H v = Inr (hash_value (computeJsonHash H x))"
proof -
  have d: "distinct (de_recipients e)" "distinct (de_recipients f)"
    using assms(1,2) by (simp_all add: parseDeliveryEnvelope_Inr)
  have inj: "map Str xs = map Str ys \<longleftrightarrow> xs = ys" for xs ys by (simp add: inj_map_eq_map inj_def)
  from assms(3,5) have x: "x = Obj [(''version'', Str ''1''), (''type'', Str ''DeliveryEnvelope''), (''sender'', Str (de_sender e)),
      (''recipients'', Arr (map Str (sort (de_recipients e)))),
      (''payload'', without_keys [''idempotencyKey'', ''audience''] (de_payload e))]"
    by (auto simp: projection_envelope [OF assms(1)] dest: projection_request)
  from assms(4,6) have y: "y = Obj [(''version'', Str ''1''), (''type'', Str ''DeliveryEnvelope''), (''sender'', Str (de_sender f)),
      (''recipients'', Arr (map Str (sort (de_recipients f)))),
      (''payload'', without_keys [''idempotencyKey'', ''audience''] (de_payload f))]"
    by (auto simp: projection_envelope [OF assms(2)] dest: projection_request)
  have "computeIdempotencyFingerprint H v = Inr (hash_value (computeJsonHash H x))"
    by (simp add: computeIdempotencyFingerprint_def assms(5))
  moreover have "x = y \<longleftrightarrow> de_sender e = de_sender f \<and> set (de_recipients e) = set (de_recipients f) \<and>
      without_keys [''idempotencyKey'', ''audience''] (de_payload e) = without_keys [''idempotencyKey'', ''audience''] (de_payload f)"
    by (simp add: x y inj sort_distinct_eq [OF d] del: map_map)
  ultimately show ?thesis by blast
qed

lemma example_sorted: "sort [''did:web:a'', ''did:web:b''] = [''did:web:a'', ''did:web:b'']"
    "sort [''did:web:b'', ''did:web:a''] = [''did:web:a'', ''did:web:b'']"
  by code_simp+

lemma example_request_projection:
  "idempotencyProjection routing_host (example_action_request k) p = Inr (Obj [(''version'', Str ''1''), (''type'', Str ''ActionRequest'')])"
  by (subst idempotencyProjection.simps)
    (simp add: requireRecord_def example_action_request_def without_keys_def no_error_def requireJsonValue.simps)

lemma example_projection:
  assumes "list_all routing_did_form rs" "distinct rs" "rs \<noteq> []"
  shows "idempotencyProjection routing_host (envelope_json (example_delivery k rs)) ''$'' =
   Inr (Obj [(''version'', Str ''1''), (''type'', Str ''DeliveryEnvelope''), (''sender'', Str ''did:web:p''),
     (''recipients'', Arr (map Str (sort rs))), (''payload'', Obj [(''version'', Str ''1''), (''type'', Str ''ActionRequest'')])])"
  unfolding projection_envelope [OF example_delivery_parsed [OF assms]]
  by (simp add: example_delivery_def example_request_projection)

theorem request_equivalence_witness:
  "without_keys [''idempotencyKey'', ''audience''] (example_action_request ''k'') =
   without_keys [''idempotencyKey'', ''audience''] (example_action_request ''l'')"
proof -
  have p: "idempotencyProjection routing_host (envelope_json (example_delivery ''k'' [''did:web:a'', ''did:web:b''])) ''$'' =
      Inr (Obj [(''version'', Str ''1''), (''type'', Str ''DeliveryEnvelope''), (''sender'', Str ''did:web:p''),
        (''recipients'', Arr (map Str [''did:web:a'', ''did:web:b''])), (''payload'', Obj [(''version'', Str ''1''), (''type'', Str ''ActionRequest'')])])"
    "idempotencyProjection routing_host (envelope_json (example_delivery ''l'' [''did:web:b'', ''did:web:a''])) ''$'' =
      Inr (Obj [(''version'', Str ''1''), (''type'', Str ''DeliveryEnvelope''), (''sender'', Str ''did:web:p''),
        (''recipients'', Arr (map Str [''did:web:a'', ''did:web:b''])), (''payload'', Obj [(''version'', Str ''1''), (''type'', Str ''ActionRequest'')])])"
    by (subst example_projection; simp add: example_sorted example_dids)+
  have "js_get (de_payload (example_delivery k rs)) ''type'' = Str ''ActionRequest''" for k rs
    by (simp add: example_delivery_def example_action_request_def)
  from request_equivalence [OF example_delivery_ab this this p]
  show ?thesis by (simp add: example_delivery_def)
qed

end
