(* ===== verification/PluginLoader.thy ===== *)
theory PluginLoader
  imports SignatureSuites JsonText Routing
begin

text \<open>
  The plugin boundary of the adapter: the checks of an Execution Payload against an
  application plugin (\<open>sdk/protocol/src/lib/plugin-loader.ts\<close>), the structure of an MCP
  payload (\<open>mcp-payload.ts\<close>) and the upstream binding (\<open>upstream-binding.ts\<close>).

  \<^item> \<open>measureJsonStructure\<close> is the loop over its explicit stack. A value here is a tree, so
    the set of active objects never finds a cycle and the frames that leave an object,
    which only maintain that set, are left out. \<open>json_nodes\<close> and \<open>json_depth\<close> are the
    reference.
  \<^item> \<open>applyFailClosedDefaults\<close> builds plain objects by assignment: a member \<open>__proto__\<close>
    becomes the prototype and not a property.
  \<^item> Ajv compiles and evaluates schemas, and the platform prints numbers and signs: they
    are fields of \<open>adapter_host\<close>. The cache of compiled schemas is left out, since a
    descriptor is never changed. Error details other than code, message and path, which no
    caller reads, are left out too.
\<close>

record adapter_host = crypto_host +
  number_text :: "rat \<Rightarrow> string"
  compile_schema :: "jsval \<Rightarrow> (jsval \<Rightarrow> bool) option"
  sign_jws :: "string \<Rightarrow> string + string"

text \<open>
  \<^item> \<open>number_text\<close>: \<open>Number::toString\<close> of a finite number;
  \<^item> \<open>compile_schema\<close>: \<open>ajv.compile\<close> and the validator it returns, \<open>None\<close> when it throws;
  \<^item> \<open>sign_jws\<close>: the compact JWS of the bytes with the adapter's signer, or the message of the
    error it throws.
\<close>

section \<open>Resource limits\<close>

definition maxOperationSchemaDepth :: nat where "maxOperationSchemaDepth = 32"
definition maxOperationSchemaNodes :: nat where "maxOperationSchemaNodes = 4096"
definition maxPayloadBytes :: nat where "maxPayloadBytes = 1048576"
definition maxPayloadDepth :: nat where "maxPayloadDepth = 64"
definition maxPayloadNodes :: nat where "maxPayloadNodes = 100000"

section \<open>The size of a JSON value\<close>

datatype structure_failure = Depth_Exceeded | Nodes_Exceeded

datatype structure_result = Structure_Ok nat nat | Structure_Failed structure_failure

fun json_nodes :: "jsval \<Rightarrow> nat" where
  "json_nodes (Arr xs) = Suc (sum_list (map json_nodes xs))"
| "json_nodes (Obj kvs) = Suc (sum_list (map (\<lambda>(k, v). json_nodes v) kvs))"
| "json_nodes _ = 1"

fun json_depth :: "jsval \<Rightarrow> nat" where
  "json_depth (Arr xs) = foldr max (map (\<lambda>v. Suc (json_depth v)) xs) 0"
| "json_depth (Obj kvs) = foldr max (map (\<lambda>(k, v). Suc (json_depth v)) kvs) 0"
| "json_depth _ = 0"

text \<open>The frames pushed for the children of a value, in the order they are popped.\<close>

fun pushed :: "nat \<Rightarrow> jsval \<Rightarrow> (jsval \<times> nat) list" where
  "pushed d (Arr xs) = map (\<lambda>v. (v, d)) xs"
| "pushed d (Obj kvs) = rev (map (\<lambda>(k, v). (v, d)) kvs)"
| "pushed d _ = []"

definition stack_nodes :: "(jsval \<times> nat) list \<Rightarrow> nat" where
  "stack_nodes st = sum_list (map (\<lambda>(v, d). json_nodes v) st)"

definition stack_depth :: "(jsval \<times> nat) list \<Rightarrow> nat" where
  "stack_depth st = foldr max (map (\<lambda>(v, d). d + json_depth v) st) 0"

lemma stack_nodes_simps [simp]:
  "stack_nodes [] = 0" "stack_nodes ((v, d) # st) = json_nodes v + stack_nodes st"
  "stack_nodes (st @ st') = stack_nodes st + stack_nodes st'"
  by (simp_all add: stack_nodes_def)

lemma stack_nodes_pushed: "json_nodes v = Suc (stack_nodes (pushed d v))"
  by (cases v) (simp_all add: stack_nodes_def rev_map [symmetric] comp_def split_def)

lemma foldr_max: "foldr max xs (a :: nat) = max (foldr max xs 0) a"
  by (induction xs) auto

lemma stack_depth_simps [simp]:
  "stack_depth [] = 0" "stack_depth ((v, d) # st) = max (d + json_depth v) (stack_depth st)"
  "stack_depth (st @ st') = max (stack_depth st) (stack_depth st')"
  by (simp_all add: stack_depth_def foldr_max [of _ "foldr max _ 0"])

lemma foldr_max_shift:
  "max d (foldr max (map (\<lambda>x. Suc (d + f x)) xs) 0) = d + foldr max (map (\<lambda>x. Suc (f x)) xs) 0" for d :: nat
  by (induction xs) (simp_all add: max.left_commute nat_add_max_right)

lemma foldr_max_set: "foldr max xs (0 :: nat) = Max (insert 0 (set xs))"
  by (induction xs) (simp_all add: insert_commute [of 0])

lemma foldr_max_rev [simp]: "foldr max (rev xs) (0 :: nat) = foldr max xs 0"
  by (simp only: foldr_max_set set_rev)

lemma stack_depth_pushed: "max d (stack_depth (pushed (Suc d) v)) = d + json_depth v"
  using foldr_max_shift [of d json_depth] foldr_max_shift [of d "\<lambda>(k, v). json_depth v"]
  by (cases v) (simp_all add: stack_depth_def rev_map [symmetric] comp_def split_def)

function measure_loop :: "nat \<Rightarrow> nat \<Rightarrow> nat \<Rightarrow> nat \<Rightarrow> (jsval \<times> nat) list \<Rightarrow> structure_result" where
  "measure_loop maxDepth maxNodes nodes depth [] = Structure_Ok depth nodes"
| "measure_loop maxDepth maxNodes nodes depth ((v, d) # stack) =
    (if maxNodes < Suc nodes then Structure_Failed Nodes_Exceeded
     else if maxDepth < max depth d then Structure_Failed Depth_Exceeded
     else measure_loop maxDepth maxNodes (Suc nodes) (max depth d) (pushed (Suc d) v @ stack))"
  by pat_completeness auto

lemma stack_nodes_less: "stack_nodes (pushed d v) < json_nodes v"
  by (simp add: stack_nodes_pushed [of v d])

termination measure_loop
  by (relation "measure (\<lambda>(_, _, _, _, st). stack_nodes st)") (simp_all add: stack_nodes_less)

definition measureJsonStructure :: "jsval \<Rightarrow> nat \<Rightarrow> nat \<Rightarrow> structure_result" where
  "measureJsonStructure document maxDepth maxNodes = measure_loop maxDepth maxNodes 0 0 [(document, 0)]"

lemma measure_loop_correct:
  assumes "nodes \<le> maxNodes" "depth \<le> maxDepth"
  shows "case measure_loop maxDepth maxNodes nodes depth st of
     Structure_Ok d n \<Rightarrow> n = nodes + stack_nodes st \<and> d = max depth (stack_depth st) \<and> n \<le> maxNodes \<and> d \<le> maxDepth
   | Structure_Failed Nodes_Exceeded \<Rightarrow> maxNodes < nodes + stack_nodes st
   | Structure_Failed Depth_Exceeded \<Rightarrow> maxDepth < max depth (stack_depth st)"
  using assms
proof (induction maxDepth maxNodes nodes depth st rule: measure_loop.induct)
  case (2 maxDepth maxNodes nodes depth v d stack)
  note [simp] = stack_nodes_pushed [of v "Suc d"] stack_depth_pushed [of d v, symmetric]
  show ?case
  proof (cases "maxNodes < Suc nodes \<or> maxDepth < max depth d")
    case True
    then show ?thesis by (auto simp: max_def)
  next
    case False
    then have bounds: "\<not> maxNodes < Suc nodes" "\<not> maxDepth < max depth d"
      and le: "Suc nodes \<le> maxNodes" "max depth d \<le> maxDepth" by auto
    from 2(1) [OF bounds le] bounds show ?thesis
      by (simp add: max.assoc max.left_commute split: structure_result.splits structure_failure.splits)
  qed
qed simp

text \<open>The walk agrees with the recursive measures, and fails only when a bound is exceeded.\<close>

lemma measureJsonStructure_Ok_iff:
  "measureJsonStructure v maxDepth maxNodes = Structure_Ok d n \<longleftrightarrow>
     d = json_depth v \<and> n = json_nodes v \<and> d \<le> maxDepth \<and> n \<le> maxNodes"
  using measure_loop_correct [of 0 maxNodes 0 maxDepth "[(v, 0)]"]
  by (auto simp: measureJsonStructure_def split: structure_result.splits structure_failure.splits)

lemma measureJsonStructure_Failed:
  "measureJsonStructure v maxDepth maxNodes = Structure_Failed reason \<Longrightarrow> maxDepth < json_depth v \<or> maxNodes < json_nodes v"
  using measureJsonStructure_Ok_iff [of v maxDepth maxNodes "json_depth v" "json_nodes v"] by auto

section \<open>The serialized payload\<close>

text \<open>\<open>JSON.stringify\<close> throws on a BigInt.\<close>

fun has_bigint :: "jsval \<Rightarrow> bool" where
  "has_bigint (BigI _) = True"
| "has_bigint (Arr xs) = list_ex has_bigint xs"
| "has_bigint (Obj kvs) = list_ex (\<lambda>(k, v). has_bigint v) kvs"
| "has_bigint _ = False"

text \<open>
  \<open>JSON.stringify(value) ?? ""\<close> of a value without BigInt: an undefined member is
  omitted, an undefined element and a number that is not finite are \<open>null\<close>.
\<close>

fun json_text :: "(rat \<Rightarrow> string) \<Rightarrow> jsval \<Rightarrow> string" where
  "json_text num Null = ''null''"
| "json_text num (Bool b) = (if b then ''true'' else ''false'')"
| "json_text num (Num n) = (case n of Fin r \<Rightarrow> num r | _ \<Rightarrow> ''null'')"
| "json_text num (Str s) = json_quote s"
| "json_text num (Arr xs) = json_array_text (map (\<lambda>v. if v = Undefined then ''null'' else json_text num v) xs)"
| "json_text num (Obj kvs) = ''{'' @ json_join (map (\<lambda>(k, v). json_quote k @ '':'' @ json_text num v)
     (filter (\<lambda>(k, v). v \<noteq> Undefined) kvs)) @ ''}''"
| "json_text num _ = []"

text \<open>\<open>Buffer.byteLength(text, "utf8")\<close> for code units below 256.\<close>

definition utf8_length :: "string \<Rightarrow> nat" where
  "utf8_length s = sum_list (map (\<lambda>c. if (of_char c :: nat) < 128 then 1 else 2) s)"

definition measurePayloadBytes :: "('a) adapter_host_scheme \<Rightarrow> jsval \<Rightarrow> nat option" where
  "measurePayloadBytes H payload =
    (if has_bigint payload then None else Some (utf8_length (json_text (number_text H) payload)))"

section \<open>Fail-closed schemas\<close>

definition SCHEMA_MAP_KEYWORDS :: "string list" where
  "SCHEMA_MAP_KEYWORDS = [''properties'', ''patternProperties'', ''$defs'', ''definitions'', ''dependentSchemas'']"

definition SCHEMA_VALUE_KEYWORDS :: "string list" where
  "SCHEMA_VALUE_KEYWORDS = [''items'', ''additionalItems'', ''prefixItems'', ''additionalProperties'',
     ''unevaluatedProperties'', ''unevaluatedItems'', ''propertyNames'', ''contains'', ''if'', ''then'', ''else'', ''not'',
     ''allOf'', ''anyOf'', ''oneOf'']"

text \<open>The members that \<open>object[key] = value\<close> makes own properties.\<close>

definition assigned :: "(string \<times> jsval) list \<Rightarrow> (string \<times> jsval) list" where
  "assigned kvs = filter (\<lambda>(key, v). key \<noteq> ''__proto__'') kvs"

text \<open>
  The end of the loop body: \<open>transformed\<close> are the own properties, and the schema's member
  \<open>__proto__\<close>, if it has one, is the prototype that reads fall back to.
\<close>

definition with_closed_default :: "(string \<times> jsval) list \<Rightarrow> (string \<times> jsval) list \<Rightarrow> jsval" where
  "with_closed_default kvs transformed =
    (let proto = js_get (Obj kvs) ''__proto__'';
         read = (\<lambda>key. case map_of transformed key of Some v \<Rightarrow> v | None \<Rightarrow> js_get proto key)
     in if (read ''type'' = Str ''object'' \<or> is_record (read ''properties'')) \<and> \<not> has_own (Obj transformed) ''additionalProperties''
        then Obj (transformed @ [(''additionalProperties'', Bool False)]) else Obj transformed)"

lemma size_assigned: "(key, v) \<in> set (assigned kvs) \<Longrightarrow> size (v :: jsval) < size (Obj kvs)"
  by (auto simp: assigned_def dest: size_member)

lemma size_assigned_entry: "(key, v) \<in> set (assigned kvs) \<Longrightarrow> (k, w) \<in> set (assigned (entries v)) \<Longrightarrow> size (w :: jsval) < size (Obj kvs)"
  by (cases v) (auto simp: assigned_def dest!: size_member)

function applyFailClosedDefaults :: "jsval \<Rightarrow> jsval" where
  "applyFailClosedDefaults schema = (case schema of
       Arr xs \<Rightarrow> Arr (map applyFailClosedDefaults xs)
     | Obj kvs \<Rightarrow> with_closed_default kvs (map (\<lambda>(key, v). (key,
         if key \<in> set SCHEMA_MAP_KEYWORDS \<and> is_record v
         then Obj (map (\<lambda>(name, subschema). (name, applyFailClosedDefaults subschema)) (assigned (entries v)))
         else if key \<in> set SCHEMA_VALUE_KEYWORDS then applyFailClosedDefaults v
         else v)) (assigned kvs))
     | _ \<Rightarrow> schema)"
  by pat_completeness auto

termination applyFailClosedDefaults
  by (relation "measure size") (auto dest: size_element size_assigned size_assigned_entry)

declare applyFailClosedDefaults.simps [simp del]

text \<open>
  A schema is closed when every object level of it, at a schema position, says what happens
  to additional properties.
\<close>

function closed_schema :: "jsval \<Rightarrow> bool" where
  "closed_schema schema = (case schema of
       Arr xs \<Rightarrow> list_all closed_schema xs
     | Obj kvs \<Rightarrow> (js_get schema ''type'' = Str ''object'' \<or> is_record (js_get schema ''properties'') \<longrightarrow>
           has_own schema ''additionalProperties'') \<and>
         list_all (\<lambda>(key, v). if key \<in> set SCHEMA_MAP_KEYWORDS \<and> is_record v
           then list_all (\<lambda>(name, subschema). closed_schema subschema) (entries v)
           else if key \<in> set SCHEMA_VALUE_KEYWORDS then closed_schema v else True) kvs
     | _ \<Rightarrow> True)"
  by pat_completeness auto

lemma size_entry: "(key, v) \<in> set kvs \<Longrightarrow> (k, w) \<in> set (entries v) \<Longrightarrow> size (w :: jsval) < size (Obj kvs)"
  by (cases v) (auto dest!: size_member)

termination closed_schema
  by (relation "measure size") (auto dest: size_element size_member size_entry)

declare closed_schema.simps [simp del]

lemma keyword_sets_disjoint: "key \<in> set SCHEMA_VALUE_KEYWORDS \<Longrightarrow> key \<notin> set SCHEMA_MAP_KEYWORDS"
  by (auto simp: SCHEMA_VALUE_KEYWORDS_def SCHEMA_MAP_KEYWORDS_def)

text \<open>The transformed members of an object schema.\<close>

definition closed_members :: "(string \<times> jsval) list \<Rightarrow> (string \<times> jsval) list" where
  "closed_members kvs = map (\<lambda>(key, v). (key,
     if key \<in> set SCHEMA_MAP_KEYWORDS \<and> is_record v
     then Obj (map (\<lambda>(name, subschema). (name, applyFailClosedDefaults subschema)) (assigned (entries v)))
     else if key \<in> set SCHEMA_VALUE_KEYWORDS then applyFailClosedDefaults v
     else v)) (assigned kvs)"

lemma apply_Obj: "applyFailClosedDefaults (Obj kvs) = with_closed_default kvs (closed_members kvs)"
  by (subst applyFailClosedDefaults.simps) (simp add: closed_members_def)

lemma apply_Arr [simp]: "applyFailClosedDefaults (Arr xs) = Arr (map applyFailClosedDefaults xs)"
  by (subst applyFailClosedDefaults.simps) simp

lemma apply_Bool [simp]: "applyFailClosedDefaults (Bool b) = Bool b"
  by (subst applyFailClosedDefaults.simps) simp

lemma closed_Bool [simp]: "closed_schema (Bool b)"
  by (subst closed_schema.simps) simp

lemma assigned_append [simp]: "assigned (xs @ ys) = assigned xs @ assigned ys"
  by (simp add: assigned_def)

lemma closed_members_append [simp]: "closed_members (xs @ ys) = closed_members xs @ closed_members ys"
  by (simp add: closed_members_def)

lemma closed_members_Nil [simp]: "closed_members [] = []"
  by (simp add: closed_members_def assigned_def)

lemma assigned_proto: "js_get (Obj (assigned kvs)) ''__proto__'' = Undefined"
  by (induction kvs) (auto simp: assigned_def)

lemma assigned_idem [simp]: "assigned (assigned kvs) = assigned kvs"
  by (simp add: assigned_def)

lemma assigned_members [simp]: "assigned (closed_members kvs) = closed_members kvs"
  by (auto simp: assigned_def closed_members_def filter_map comp_def split_def intro!: filter_cong)

lemma assigned_mapped [simp]: "assigned (map (\<lambda>(k, v). (k, f v)) (assigned kvs)) = map (\<lambda>(k, v). (k, f v)) (assigned kvs)"
  by (auto simp: assigned_def filter_map comp_def split_def)

text \<open>The default that may be appended.\<close>

lemma with_closed_default_cases:
  obtains tail where "with_closed_default kvs t = Obj (t @ tail)" "tail = [] \<or> tail = [(''additionalProperties'', Bool False)]"
    "js_get (Obj (t @ tail)) ''type'' = Str ''object'' \<or> is_record (js_get (Obj (t @ tail)) ''properties'') \<longrightarrow>
      has_own (Obj (t @ tail)) ''additionalProperties''"
proof (cases "with_closed_default kvs t = Obj t")
  case True
  show ?thesis
    by (rule that [of "[]"])
      (use True in \<open>auto simp: with_closed_default_def Let_def split: option.splits if_splits\<close>)
next
  case False
  show ?thesis
    by (rule that [of "[(''additionalProperties'', Bool False)]"])
      (use False in \<open>auto simp: with_closed_default_def Let_def split: if_splits\<close>)
qed

lemma closed_members_cases:
  assumes "(key, w) \<in> set (closed_members kvs)"
  obtains v where "(key, v) \<in> set (assigned kvs)" "key \<in> set SCHEMA_MAP_KEYWORDS" "key \<notin> set SCHEMA_VALUE_KEYWORDS" "is_record v"
      "w = Obj (map (\<lambda>(name, subschema). (name, applyFailClosedDefaults subschema)) (assigned (entries v)))"
  | v where "(key, v) \<in> set (assigned kvs)" "key \<in> set SCHEMA_VALUE_KEYWORDS" "key \<notin> set SCHEMA_MAP_KEYWORDS"
      "w = applyFailClosedDefaults v"
  | "key \<notin> set SCHEMA_VALUE_KEYWORDS" "\<not> (key \<in> set SCHEMA_MAP_KEYWORDS \<and> is_record w)"
proof -
  obtain v where "(key, v) \<in> set (assigned kvs)" "w = (if key \<in> set SCHEMA_MAP_KEYWORDS \<and> is_record v
      then Obj (map (\<lambda>(name, subschema). (name, applyFailClosedDefaults subschema)) (assigned (entries v)))
      else if key \<in> set SCHEMA_VALUE_KEYWORDS then applyFailClosedDefaults v else v)"
    using assms by (auto simp: closed_members_def)
  then show thesis
    using that keyword_sets_disjoint [of key]
    by (cases "key \<in> set SCHEMA_VALUE_KEYWORDS"; cases "key \<in> set SCHEMA_MAP_KEYWORDS"; cases "is_record v") simp_all
qed

lemma member_closed:
  assumes "\<And>w. size w < size (Obj kvs) \<Longrightarrow> closed_schema (applyFailClosedDefaults w)"
  shows "list_all (\<lambda>(key, v). if key \<in> set SCHEMA_MAP_KEYWORDS \<and> is_record v
           then list_all (\<lambda>(name, subschema). closed_schema subschema) (entries v)
           else if key \<in> set SCHEMA_VALUE_KEYWORDS then closed_schema v else True) (closed_members kvs)"
  unfolding list_all_iff
proof clarify
  fix key w assume "(key, w) \<in> set (closed_members kvs)"
  then show "if key \<in> set SCHEMA_MAP_KEYWORDS \<and> is_record w then \<forall>(name, subschema) \<in> set (entries w). closed_schema subschema
      else if key \<in> set SCHEMA_VALUE_KEYWORDS then closed_schema w else True"
    by (cases rule: closed_members_cases) (auto intro: assms size_assigned size_assigned_entry)
qed

lemma applied_closed: "closed_schema (applyFailClosedDefaults schema)"
proof (induction schema rule: measure_induct_rule [where f = size])
  case (less schema)
  show ?case
  proof (cases schema)
    case (Arr xs)
    then show ?thesis
      by (subst closed_schema.simps) (auto simp: list_all_iff intro: less size_element)
  next
    case (Obj kvs)
    obtain tail where t: "applyFailClosedDefaults schema = Obj (closed_members kvs @ tail)"
      "tail = [] \<or> tail = [(''additionalProperties'', Bool False)]"
      "js_get (Obj (closed_members kvs @ tail)) ''type'' = Str ''object'' \<or>
         is_record (js_get (Obj (closed_members kvs @ tail)) ''properties'') \<longrightarrow>
       has_own (Obj (closed_members kvs @ tail)) ''additionalProperties''"
      unfolding Obj apply_Obj by (rule with_closed_default_cases [of kvs "closed_members kvs"])
    show ?thesis unfolding t(1)
      by (subst closed_schema.simps)
        (use t(2,3) member_closed [of kvs] less Obj in \<open>auto simp: list_all_append simp del: js_get.simps has_own.simps\<close>)
  qed (subst applyFailClosedDefaults.simps; subst closed_schema.simps; simp)+
qed

lemma closed_members_idem:
  assumes "\<And>w. size w < size (Obj kvs) \<Longrightarrow> applyFailClosedDefaults (applyFailClosedDefaults w) = applyFailClosedDefaults w"
  shows "closed_members (closed_members kvs) = closed_members kvs"
proof -
  have "closed_members (closed_members kvs) = map (\<lambda>(key, v). (key,
     if key \<in> set SCHEMA_MAP_KEYWORDS \<and> is_record v
     then Obj (map (\<lambda>(name, subschema). (name, applyFailClosedDefaults subschema)) (assigned (entries v)))
     else if key \<in> set SCHEMA_VALUE_KEYWORDS then applyFailClosedDefaults v
     else v)) (closed_members kvs)"
    by (subst (1) closed_members_def) simp
  also have "\<dots> = closed_members kvs"
  proof (rule map_idI)
    fix x assume x: "x \<in> set (closed_members kvs)"
    obtain key w where [simp]: "x = (key, w)" by (cases x)
    from x have "(key, if key \<in> set SCHEMA_MAP_KEYWORDS \<and> is_record w
        then Obj (map (\<lambda>(name, subschema). (name, applyFailClosedDefaults subschema)) (assigned (entries w)))
        else if key \<in> set SCHEMA_VALUE_KEYWORDS then applyFailClosedDefaults w else w) = (key, w)"
      unfolding \<open>x = (key, w)\<close>
      by (cases rule: closed_members_cases) (auto intro!: assms intro: size_assigned size_assigned_entry)
    then show "(case x of (key, v) \<Rightarrow> (key, if key \<in> set SCHEMA_MAP_KEYWORDS \<and> is_record v
        then Obj (map (\<lambda>(name, subschema). (name, applyFailClosedDefaults subschema)) (assigned (entries v)))
        else if key \<in> set SCHEMA_VALUE_KEYWORDS then applyFailClosedDefaults v else v)) = x" by simp
  qed
  finally show ?thesis .
qed

lemma applied_idem: "applyFailClosedDefaults (applyFailClosedDefaults schema) = applyFailClosedDefaults schema"
proof (induction schema rule: measure_induct_rule [where f = size])
  case (less schema)
  show ?case
  proof (cases schema)
    case (Arr xs)
    then show ?thesis by (auto intro: less size_element)
  next
    case (Obj kvs)
    obtain tail where t: "applyFailClosedDefaults schema = Obj (closed_members kvs @ tail)"
      "tail = [] \<or> tail = [(''additionalProperties'', Bool False)]"
      "js_get (Obj (closed_members kvs @ tail)) ''type'' = Str ''object'' \<or>
         is_record (js_get (Obj (closed_members kvs @ tail)) ''properties'') \<longrightarrow>
       has_own (Obj (closed_members kvs @ tail)) ''additionalProperties''"
      unfolding Obj apply_Obj by (rule with_closed_default_cases [of kvs "closed_members kvs"])
    let ?t = "closed_members kvs @ tail"
    have members: "closed_members ?t = ?t"
      using t(2) closed_members_idem [of kvs] less Obj
      by (auto simp: closed_members_def [of "[_]"] assigned_def [of "[_]"] SCHEMA_VALUE_KEYWORDS_def SCHEMA_MAP_KEYWORDS_def)
    have "assigned ?t = ?t" using t(2) by (auto simp: assigned_def [of "[_]"] assigned_def [of "[]"])
    then have "js_get (Obj ?t) ''__proto__'' = Undefined" by (metis assigned_proto)
    then have "with_closed_default ?t ?t = Obj ?t"
      using t(3) by (auto simp: with_closed_default_def Let_def split: option.splits)
    then show ?thesis by (simp only: t(1) apply_Obj members)
  qed (subst applyFailClosedDefaults.simps; simp)+
qed

section \<open>Payload validation\<close>

record application_plugin =
  pl_profileId :: string
  pl_profileFormat :: "string option"
  pl_toolSurface :: "(hash_object \<times> string list) option"
  pl_operations :: "(string \<times> jsval) list"

datatype payload_code =
    PAYLOAD_NOT_OBJECT | UNKNOWN_OPERATION | PAYLOAD_SCHEMA_INVALID | PAYLOAD_RESOURCE_EXCEEDED

fun payload_code_text :: "payload_code \<Rightarrow> string" where
  "payload_code_text PAYLOAD_NOT_OBJECT = ''PAYLOAD_NOT_OBJECT''"
| "payload_code_text UNKNOWN_OPERATION = ''UNKNOWN_OPERATION''"
| "payload_code_text PAYLOAD_SCHEMA_INVALID = ''PAYLOAD_SCHEMA_INVALID''"
| "payload_code_text PAYLOAD_RESOURCE_EXCEEDED = ''PAYLOAD_RESOURCE_EXCEEDED''"

type_synonym payload_error = "payload_code \<times> string \<times> string"

fun structureReasonText :: "structure_failure \<Rightarrow> string" where
  "structureReasonText Depth_Exceeded = ''exceeds the depth limit''"
| "structureReasonText Nodes_Exceeded = ''exceeds the node limit''"

text \<open>
  \<open>plugin.operations[name]\<close>: an own member, or a member that every object inherits; the
  inherited ones have no \<open>executionPayloadSchema\<close>. The result is that schema.
\<close>

definition OBJECT_PROTOTYPE_MEMBERS :: "string list" where
  "OBJECT_PROTOTYPE_MEMBERS = [''constructor'', ''hasOwnProperty'', ''isPrototypeOf'', ''propertyIsEnumerable'',
     ''toLocaleString'', ''toString'', ''valueOf'', ''__proto__'', ''__defineGetter__'', ''__defineSetter__'',
     ''__lookupGetter__'', ''__lookupSetter__'']"

definition operation_schema :: "application_plugin \<Rightarrow> string \<Rightarrow> jsval option" where
  "operation_schema plugin name = (case map_of (pl_operations plugin) name of
       Some operation \<Rightarrow> if truthy operation then Some (js_get operation ''executionPayloadSchema'') else None
     | None \<Rightarrow> if name \<in> set OBJECT_PROTOTYPE_MEMBERS then Some Undefined else None)"

definition compileOperationSchema ::
    "('a) adapter_host_scheme \<Rightarrow> jsval \<Rightarrow> string \<Rightarrow> payload_error + (jsval \<Rightarrow> bool)" where
  "compileOperationSchema H schema operationName =
    (let schemaPath = ''$.plugin.operations.'' @ operationName @ ''.executionPayloadSchema''
     in case measureJsonStructure schema maxOperationSchemaDepth maxOperationSchemaNodes of
       Structure_Failed reason \<Rightarrow> Inl (PAYLOAD_RESOURCE_EXCEEDED,
         ''Operation schema for '' @ operationName @ '' '' @ structureReasonText reason @ ''.'', schemaPath)
     | Structure_Ok _ _ \<Rightarrow>
         (case compile_schema H (applyFailClosedDefaults schema) of
            None \<Rightarrow> Inl (PAYLOAD_SCHEMA_INVALID, ''Operation schema for '' @ operationName @ '' failed to compile.'', schemaPath)
          | Some validate \<Rightarrow> Inr validate))"

definition validatePayloadAgainstPlugin ::
    "('a) adapter_host_scheme \<Rightarrow> jsval \<Rightarrow> application_plugin \<Rightarrow> payload_error + string" where
  "validatePayloadAgainstPlugin H payload plugin =
    (if \<not> is_string (js_get payload ''name'')
     then Inl (PAYLOAD_NOT_OBJECT, ''Execution Payload must be an object with a string name field.'', ''$.executionPayload.name'')
     else case measureJsonStructure payload maxPayloadDepth maxPayloadNodes of
       Structure_Failed reason \<Rightarrow> Inl (PAYLOAD_RESOURCE_EXCEEDED,
         ''Execution Payload '' @ structureReasonText reason @ ''.'', ''$.executionPayload'')
     | Structure_Ok _ _ \<Rightarrow>
       (case measurePayloadBytes H payload of
          None \<Rightarrow> Inl (PAYLOAD_RESOURCE_EXCEEDED, ''Execution Payload cannot be measured as JSON: Do not know how to serialize a BigInt'', ''$.executionPayload'')
        | Some bytes \<Rightarrow>
          if maxPayloadBytes < bytes
          then Inl (PAYLOAD_RESOURCE_EXCEEDED, ''Execution Payload serializes to '' @ show_nat bytes @ '' bytes; the limit is '' @
            show_nat maxPayloadBytes @ ''.'', ''$.executionPayload'')
          else let operationName = text_of (js_get payload ''name'')
          in case operation_schema plugin operationName of
               None \<Rightarrow> Inl (UNKNOWN_OPERATION, ''Unknown operation: '' @ operationName, ''$.executionPayload.name'')
             | Some schema \<Rightarrow>
               (case compileOperationSchema H schema operationName of
                  Inl e \<Rightarrow> Inl e
                | Inr validate \<Rightarrow>
                    if \<not> validate payload
                    then Inl (PAYLOAD_SCHEMA_INVALID,
                      ''Execution Payload failed schema validation for operation: '' @ operationName, ''$.executionPayload'')
                    else Inr operationName)))"

section \<open>Loading a plugin\<close>

definition maxPluginDocumentBytes :: nat where "maxPluginDocumentBytes = 262144"
definition maxPluginDocumentDepth :: nat where "maxPluginDocumentDepth = 64"
definition maxPluginDocumentNodes :: nat where "maxPluginDocumentNodes = 20000"

definition string_schema :: jsval where
  "string_schema = Obj [(''type'', Str ''string'')]"

definition nonempty_schema :: jsval where
  "nonempty_schema = Obj [(''type'', Str ''string''), (''minLength'', Num (Fin 1))]"

definition did_schema :: jsval where
  "did_schema = Obj [(''type'', Str ''string''), (''pattern'', Str ''^did:[a-z0-9]+:.+'')]"

definition tool_surface_schema :: jsval where
  "tool_surface_schema = Obj [(''type'', Str ''object''), (''additionalProperties'', Bool False),
     (''required'', Arr [Str ''hash'', Str ''toolNames'']),
     (''properties'', Obj [
       (''hash'', Obj [(''type'', Str ''object''), (''additionalProperties'', Bool False),
         (''required'', Arr [Str ''alg'', Str ''value'']),
         (''properties'', Obj [(''alg'', Obj [(''const'', Str ''sha-256'')]),
           (''value'', Obj [(''type'', Str ''string''), (''pattern'', Str ''^[A-Za-z0-9_-]{42}[AEIMQUYcgkosw048]$'')])])]),
       (''toolNames'', Obj [(''type'', Str ''array''), (''uniqueItems'', Bool True), (''items'', nonempty_schema)])])]"

definition execution_profile_schema :: jsval where
  "execution_profile_schema = Obj [(''type'', Str ''object''), (''required'', Arr [Str ''id'', Str ''protocolVersion'']),
     (''properties'', Obj [(''id'', did_schema), (''format'', nonempty_schema), (''protocolVersion'', nonempty_schema)]),
     (''additionalProperties'', Bool False)]"

definition credential_requirements_schema :: jsval where
  "credential_requirements_schema = Obj [(''type'', Str ''array''), (''items'', Obj [(''type'', Str ''object''),
     (''required'', Arr [Str ''type'']),
     (''properties'', Obj [(''type'', string_schema),
       (''expectedAuthority'', Obj [(''type'', Str ''array''), (''items'', string_schema)]),
       (''refreshScope'', nonempty_schema), (''description'', string_schema)]),
     (''additionalProperties'', Bool False)])]"

definition operations_schema :: jsval where
  "operations_schema = Obj [(''type'', Str ''object''), (''minProperties'', Num (Fin 1)),
     (''additionalProperties'', Obj [(''type'', Str ''object''), (''required'', Arr [Str ''executionPayloadSchema'']),
       (''properties'', Obj [(''description'', string_schema), (''impact'', string_schema),
         (''executionPayloadSchema'', Obj [(''type'', Str ''object'')])]),
       (''additionalProperties'', Bool False)])]"

definition applicationPluginSchema :: jsval where
  "applicationPluginSchema = Obj [(''$schema'', Str ''https://json-schema.org/draft/2020-12/schema''), (''type'', Str ''object''),
     (''required'', Arr (map Str [''version'', ''type'', ''pluginDid'', ''pluginVersion'', ''publisherDid'', ''applicationDid'',
        ''executionProfile'', ''operations''])),
     (''properties'', Obj [(''toolSurface'', tool_surface_schema), (''version'', Obj [(''const'', Str ''1'')]),
       (''type'', Obj [(''const'', Str ''MpasApplicationPlugin'')]), (''pluginDid'', did_schema), (''pluginVersion'', nonempty_schema),
       (''publisherDid'', did_schema), (''applicationDid'', did_schema), (''executionProfile'', execution_profile_schema),
       (''credentialRequirements'', credential_requirements_schema), (''operations'', operations_schema)]),
     (''additionalProperties'', Bool False)]"

datatype load_code = PLUGIN_READ_FAILED | PLUGIN_INVALID_JSON | PLUGIN_SCHEMA_INVALID | PLUGIN_RESOURCE_EXCEEDED

record resource_details =
  rd_resource :: string
  rd_path :: string
  rd_actual :: nat
  rd_limit :: nat

record load_error =
  ld_code :: load_code
  ld_message :: string
  ld_path :: string
  ld_details :: "resource_details option"

definition loadError :: "load_code \<Rightarrow> string \<Rightarrow> string \<Rightarrow> load_error + 'a" where
  "loadError code message path = Inl \<lparr>ld_code = code, ld_message = message, ld_path = path, ld_details = None\<rparr>"

definition resourceLoadError :: "string \<Rightarrow> string \<times> resource_details \<Rightarrow> load_error + 'a" where
  "resourceLoadError path e = Inl \<lparr>ld_code = PLUGIN_RESOURCE_EXCEEDED, ld_message = fst e, ld_path = path, ld_details = Some (snd e)\<rparr>"

text \<open>The details of a structure that is too deep or too large.\<close>

definition structure_details :: "string \<Rightarrow> string \<Rightarrow> nat \<Rightarrow> nat \<Rightarrow> structure_failure \<Rightarrow> resource_details" where
  "structure_details resource path maxDepth maxNodes reason = (case reason of
       Depth_Exceeded \<Rightarrow> \<lparr>rd_resource = resource @ ''-depth'', rd_path = path, rd_actual = maxDepth + 1, rd_limit = maxDepth\<rparr>
     | Nodes_Exceeded \<Rightarrow> \<lparr>rd_resource = resource @ ''-nodes'', rd_path = path, rd_actual = maxNodes + 1, rd_limit = maxNodes\<rparr>)"

text \<open>The loop over the operations; the nodes counted so far are the accumulator.\<close>

fun check_operation_schemas :: "nat \<Rightarrow> (string \<times> jsval) list \<Rightarrow> (string \<times> resource_details) option" where
  "check_operation_schemas totalNodes [] = None"
| "check_operation_schemas totalNodes ((name, operation) # rest) =
    (let schemaPath = ''$.operations.'' @ name @ ''.executionPayloadSchema''
     in case measureJsonStructure (js_get operation ''executionPayloadSchema'') maxOperationSchemaDepth maxOperationSchemaNodes of
       Structure_Failed reason \<Rightarrow> Some (''Operation schema for '' @ name @ '' '' @ structureReasonText reason @ ''.'',
         structure_details ''operation-schema'' schemaPath maxOperationSchemaDepth maxOperationSchemaNodes reason)
     | Structure_Ok depth nodes \<Rightarrow>
         if maxOperationSchemaNodes < totalNodes + nodes
         then Some (''Operation schemas together hold more than '' @ show_nat maxOperationSchemaNodes @ '' JSON values.'',
           \<lparr>rd_resource = ''operation-schema-nodes'', rd_path = schemaPath, rd_actual = totalNodes + nodes, rd_limit = maxOperationSchemaNodes\<rparr>)
         else check_operation_schemas (totalNodes + nodes) rest)"

definition checkOperationSchemaResources :: "jsval \<Rightarrow> (string \<times> resource_details) option" where
  "checkOperationSchemaResources operations = check_operation_schemas 0 (entries operations)"

text \<open>The bytes of the file, \<open>None\<close> when it cannot be read.\<close>

definition loadPlugin :: "('a) adapter_host_scheme \<Rightarrow> string \<Rightarrow> string option \<Rightarrow> load_error + jsval" where
  "loadPlugin H path file = (case file of
       None \<Rightarrow> loadError PLUGIN_READ_FAILED (''Unable to read plugin: '' @ path) path
     | Some raw \<Rightarrow>
       if maxPluginDocumentBytes < length raw
       then resourceLoadError path (''Plugin document is '' @ show_nat (length raw) @ '' bytes; the limit is '' @
         show_nat maxPluginDocumentBytes @ ''.'', \<lparr>rd_resource = ''plugin-document-bytes'', rd_path = ''$'',
           rd_actual = length raw, rd_limit = maxPluginDocumentBytes\<rparr>)
       else (case strictJsonParse (wide_unit H) (utf8_text H raw) of
         Inl e \<Rightarrow> loadError PLUGIN_INVALID_JSON (''Plugin is not valid JSON: '' @ path) path
       | Inr parsed \<Rightarrow>
         (case measureJsonStructure parsed maxPluginDocumentDepth maxPluginDocumentNodes of
            Structure_Failed reason \<Rightarrow> resourceLoadError path (''Plugin document '' @ structureReasonText reason @ ''.'',
              structure_details ''plugin-document'' ''$'' maxPluginDocumentDepth maxPluginDocumentNodes reason)
          | Structure_Ok depth nodes \<Rightarrow>
            if \<not> (case compile_schema H applicationPluginSchema of Some validate \<Rightarrow> validate parsed | None \<Rightarrow> False)
            then loadError PLUGIN_SCHEMA_INVALID ''Plugin does not conform to the MPAS Application Plugin Profile v0.2.'' path
            else (case checkOperationSchemaResources (js_get parsed ''operations'') of
              Some e \<Rightarrow> resourceLoadError path e
            | None \<Rightarrow> Inr parsed))))"

lemma check_operation_schemas_None:
  "check_operation_schemas totalNodes operations = None \<longleftrightarrow>
     (operations = [] \<or> totalNodes + (\<Sum>(name, operation) \<leftarrow> operations. json_nodes (js_get operation ''executionPayloadSchema''))
       \<le> maxOperationSchemaNodes) \<and>
     (\<forall>(name, operation) \<in> set operations. json_depth (js_get operation ''executionPayloadSchema'') \<le> maxOperationSchemaDepth)"
proof (induction operations arbitrary: totalNodes)
  case (Cons member rest)
  obtain name operation where member: "member = (name, operation)" by (cases member)
  let ?schema = "js_get operation ''executionPayloadSchema''"
  show ?case
  proof (cases "json_depth ?schema \<le> maxOperationSchemaDepth \<and> json_nodes ?schema \<le> maxOperationSchemaNodes")
    case True
    then have ok: "measureJsonStructure ?schema maxOperationSchemaDepth maxOperationSchemaNodes =
        Structure_Ok (json_depth ?schema) (json_nodes ?schema)" by (simp add: measureJsonStructure_Ok_iff)
    show ?thesis using True Cons.IH [of "totalNodes + json_nodes ?schema"]
      by (cases rest) (auto simp: member Let_def ok)
  next
    case False
    then obtain reason where "measureJsonStructure ?schema maxOperationSchemaDepth maxOperationSchemaNodes = Structure_Failed reason"
      by (cases "measureJsonStructure ?schema maxOperationSchemaDepth maxOperationSchemaNodes") (auto simp: measureJsonStructure_Ok_iff)
    with False show ?thesis by (auto simp: member Let_def)
  qed
qed simp

lemma loadPlugin_Inr:
  "loadPlugin H path file = Inr plugin \<longleftrightarrow> (\<exists>raw. file = Some raw \<and> length raw \<le> maxPluginDocumentBytes \<and>
     strictJsonParse (wide_unit H) (utf8_text H raw) = Inr plugin \<and>
     json_depth plugin \<le> maxPluginDocumentDepth \<and> json_nodes plugin \<le> maxPluginDocumentNodes \<and>
     (\<exists>validate. compile_schema H applicationPluginSchema = Some validate \<and> validate plugin) \<and>
     checkOperationSchemaResources (js_get plugin ''operations'') = None)"
  by (auto simp: loadPlugin_def loadError_def resourceLoadError_def measureJsonStructure_Ok_iff
      split: option.splits sum.splits structure_result.splits dest!: measureJsonStructure_Failed)

section \<open>The MCP payload\<close>

text \<open>\<open>validateMcpPayloadStructure\<close>: the message and path, or the name and arguments.\<close>

definition comma_join :: "string list \<Rightarrow> string" where
  "comma_join xs = (case xs of [] \<Rightarrow> [] | y # ys \<Rightarrow> y @ concat (map (\<lambda>z. '', '' @ z) ys))"

definition validateMcpPayloadStructure :: "jsval \<Rightarrow> (string \<times> string) + (string \<times> jsval)" where
  "validateMcpPayloadStructure payload =
    (if \<not> is_record payload then Inl (''Execution Payload must be a JSON object.'', ''$.executionPayload'')
     else let extraKeys = filter (\<lambda>key. key \<noteq> ''name'' \<and> key \<noteq> ''arguments'') (object_keys payload) in
     if extraKeys \<noteq> []
     then Inl (''Execution Payload must contain exactly \"name\" and \"arguments\"; unexpected member(s): '' @
       comma_join extraKeys @ ''.'', ''$.executionPayload'')
     else if \<not> is_string (js_get payload ''name'') \<or> js_get payload ''name'' = Str []
     then Inl (''Execution Payload name must be a non-empty string.'', ''$.executionPayload.name'')
     else if \<not> has_own payload ''arguments''
     then Inl (''Execution Payload must include \"arguments\" (an empty object for tools that take no arguments).'',
       ''$.executionPayload.arguments'')
     else if \<not> is_record (js_get payload ''arguments'')
     then Inl (''Execution Payload arguments must be a JSON object.'', ''$.executionPayload.arguments'')
     else Inr (text_of (js_get payload ''name''), js_get payload ''arguments''))"

section \<open>The upstream binding\<close>

text \<open>\<open>/^[^\s]+@(sha256:[a-fA-F0-9]{64})$/\<close>: the pin, in lower case.\<close>

definition upstream_pin :: "string \<Rightarrow> string list" where
  "upstream_pin arg =
    (let n = length arg - 71; pin = drop n arg; prefix = take n arg
     in if 72 < length arg \<and> starts_with ''sha256:'' pin \<and> list_all (\<lambda>c. hex_char (lower c)) (drop 7 pin) \<and>
           last prefix = CHR ''@'' \<and> list_all (\<lambda>c. \<not> is_space c) prefix
        then [map lower pin] else [])"

text \<open>\<open>Inl\<close> is the thrown error.\<close>

definition upstreamDigestFromArgs :: "string list \<Rightarrow> string + string option" where
  "upstreamDigestFromArgs args =
    (let pins = unique (concat (map upstream_pin args))
     in if 1 < length pins then Inl ''Ambiguous upstream image digest pins''
        else Inr (case pins of [] \<Rightarrow> None | pin # _ \<Rightarrow> Some pin))"

definition upstreamBindingMatches :: "jsval \<Rightarrow> hash_object option \<Rightarrow> string option \<Rightarrow> bool" where
  "upstreamBindingMatches binding surface digest =
    (if \<not> truthy binding then surface = None
     else case surface of
       None \<Rightarrow> False
     | Some hash \<Rightarrow>
         if js_get (js_get binding ''toolSurface'') ''alg'' \<noteq> Str (hash_alg hash) \<or>
            js_get (js_get binding ''toolSurface'') ''value'' \<noteq> Str (hash_value hash)
         then False
         else js_get binding ''upstreamDigest'' = (case digest of None \<Rightarrow> Undefined | Some d \<Rightarrow> Str d))"

section \<open>The property\<close>

text \<open>
  The schema that is compiled for an operation fails closed: every object schema
  nested in it that lists properties, at whatever depth and under whatever keyword, says
  whether it admits further ones, and applying the defaults again changes nothing.
\<close>

theorem fail_closed_defaults:
  "closed_schema (applyFailClosedDefaults schema) \<and>
   applyFailClosedDefaults (applyFailClosedDefaults schema) = applyFailClosedDefaults schema"
  by (simp add: applied_closed applied_idem)

text \<open>
  A plugin that loads stays within the limits: the document has bounded depth and
  size, its operation schemas together are bounded, no member name is repeated, and when a
  payload is validated later no operation of the plugin is refused for the size of its schema.
\<close>

theorem loaded_plugin_bounded:
  assumes "loadPlugin H path file = Inr plugin"
  shows "json_depth plugin \<le> 64 \<and> json_nodes plugin \<le> 20000 \<and> js_wf plugin \<and>
    (\<Sum>(name, operation) \<leftarrow> entries (js_get plugin ''operations''). json_nodes (js_get operation ''executionPayloadSchema'')) \<le> 4096 \<and>
    (\<forall>(name, operation) \<in> set (entries (js_get plugin ''operations'')).
       \<forall>e. compileOperationSchema H (js_get operation ''executionPayloadSchema'') name = Inl e \<longrightarrow> fst e = PAYLOAD_SCHEMA_INVALID)"
proof -
  note loaded = assms [unfolded loadPlugin_Inr]
  let ?operations = "entries (js_get plugin ''operations'')"
  have checked: "check_operation_schemas 0 ?operations = None"
    using loaded by (auto simp: checkOperationSchemaResources_def)
  have total: "(\<Sum>(name, operation) \<leftarrow> ?operations. json_nodes (js_get operation ''executionPayloadSchema'')) \<le> maxOperationSchemaNodes"
    using checked unfolding check_operation_schemas_None by (elim conjE disjE) simp_all
  have "fst e = PAYLOAD_SCHEMA_INVALID"
    if member: "(name, operation) \<in> set ?operations" and e: "compileOperationSchema H (js_get operation ''executionPayloadSchema'') name = Inl e"
    for name operation e
  proof -
    have "json_nodes (js_get operation ''executionPayloadSchema'') \<le> maxOperationSchemaNodes"
      using member_le_sum_list [of "json_nodes (js_get operation ''executionPayloadSchema'')"
          "map (\<lambda>(name, operation). json_nodes (js_get operation ''executionPayloadSchema'')) ?operations"] member total by force
    moreover have "json_depth (js_get operation ''executionPayloadSchema'') \<le> maxOperationSchemaDepth"
      using checked member by (auto simp: check_operation_schemas_None)
    ultimately have "measureJsonStructure (js_get operation ''executionPayloadSchema'') maxOperationSchemaDepth maxOperationSchemaNodes =
        Structure_Ok (json_depth (js_get operation ''executionPayloadSchema'')) (json_nodes (js_get operation ''executionPayloadSchema''))"
      by (simp add: measureJsonStructure_Ok_iff)
    with e show ?thesis by (auto simp: compileOperationSchema_def Let_def split: option.splits)
  qed
  moreover have "js_wf plugin" "json_depth plugin \<le> 64" "json_nodes plugin \<le> 20000"
    using loaded by (auto intro: parsed_wf simp: maxPluginDocumentDepth_def maxPluginDocumentNodes_def)
  ultimately show ?thesis using total by (auto simp: maxOperationSchemaNodes_def)
qed

text \<open>A small plugin document, on a host that accepts every schema.\<close>

definition example_plugin_text :: string where
  "example_plugin_text = ''{\"operations\":{\"pay\":{\"executionPayloadSchema\":{\"type\":\"object\"}}}}''"

definition example_plugin_host :: adapter_host where
  "example_plugin_host = \<lparr>jcs = (\<lambda>v. []), sha256 = (\<lambda>s. []), legacy_date = (\<lambda>s. None), url_parse = (\<lambda>s. None),
     utf8_text = (\<lambda>bs. bs), wide_unit = (\<lambda>n. []), p256_point = (\<lambda>x y. False),
     compact_verify = (\<lambda>alg key jws. None), number_text = (\<lambda>r. []),
     compile_schema = (\<lambda>schema. Some (\<lambda>v. True)), sign_jws = (\<lambda>s. Inl [])\<rparr>"

definition example_plugin :: jsval where
  "example_plugin = Obj [(''operations'', Obj [(''pay'', Obj [(''executionPayloadSchema'', Obj [(''type'', Str ''object'')])])])]"

lemma example_plugin_loads: "loadPlugin example_plugin_host ''p.json'' (Some example_plugin_text) = Inr example_plugin"
proof -
  have "strictJsonParse (wide_unit example_plugin_host) (utf8_text example_plugin_host example_plugin_text) = Inr example_plugin"
    by code_simp
  moreover have "length example_plugin_text \<le> maxPluginDocumentBytes"
    by (simp add: example_plugin_text_def maxPluginDocumentBytes_def)
  ultimately show ?thesis
    by (simp add: loadPlugin_Inr example_plugin_def example_plugin_host_def maxPluginDocumentDepth_def maxPluginDocumentNodes_def
        checkOperationSchemaResources_def check_operation_schemas_None maxOperationSchemaDepth_def maxOperationSchemaNodes_def
        del: check_operation_schemas.simps)
qed

theorem loaded_plugin_bounded_witness:
  "json_depth example_plugin \<le> 64"
  using loaded_plugin_bounded [OF example_plugin_loads] by (rule conjunct1)

end
