(* ===== verification/VerificationExample.thy ===== *)
theory VerificationExample
  imports Verification PluginLoader
begin

text \<open>
  One concrete Action Package with its trust configuration, evaluated by the kernel: it is
  verified, it is malformed without its approvals, and its envelope is expired a day later.
  The properties of the verification are applied to it.
\<close>



definition ex_payload_text :: string where
  "ex_payload_text = ''{\"actionEnvelopeHash\":{\"alg\":\"sha-256\",\"value\":\"aGFzaA\"},\"createdAt\":\"2024-01-01T00:00:00.000Z\",\"decision\":\"propose\",\"signerDid\":\"did:web:p\",\"type\":\"ApprovalPayload\"}''"

definition ex_hash :: jsval where
  "ex_hash = Obj [(''alg'', Str ''sha-256''), (''value'', Str ''aGFzaA'')]"

text \<open>
  A toy host: a constant digest, fixed texts for the two buffers, every signature and schema
  accepted.
\<close>

definition ex_host :: adapter_host where
  "ex_host = \<lparr>jcs = (\<lambda>v. ex_payload_text), sha256 = (\<lambda>s. ''aGFzaA''), legacy_date = (\<lambda>s. None), url_parse = (\<lambda>s. None),
     utf8_text = (\<lambda>bs. if bs = b64_bytes ''AAAB'' then ex_payload_text else ''{\"alg\":\"EdDSA\",\"kid\":\"k\"}''),
     wide_unit = (\<lambda>n. []), p256_point = (\<lambda>x y. False),
     compact_verify = (\<lambda>alg key jws. Some ex_payload_text), number_text = (\<lambda>r. ''1''),
     compile_schema = (\<lambda>schema. Some (\<lambda>v. True)), sign_jws = (\<lambda>s. Inr ''signature'')\<rparr>"

definition ex_key :: jsval where
  "ex_key = Obj [(''kty'', Str ''OKP''), (''crv'', Str ''Ed25519''), (''x'', Str (replicate 43 (CHR ''A''))), (''kid'', Str ''k'')]"

definition ex_jws :: string where
  "ex_jws = ''AAAA.AAAB.'' @ replicate 86 (CHR ''A'')"

definition ex_envelope :: jsval where
  "ex_envelope = Obj [(''version'', Str ''1''), (''type'', Str ''ActionEnvelope''),
     (''proposer'', Obj [(''did'', Str ''did:web:p'')]), (''target'', Obj [(''applicationDid'', Str ''did:web:app'')]),
     (''executionProfile'', Obj [(''id'', Str ''did:web:profiles.oma3.org:mcp''), (''format'', Str ''mcp.toolsCall'')]),
     (''executionPayloadHash'', ex_hash), (''actionId'', Obj [(''value'', Str ''1''), (''scope'', Str ''s'')]),
     (''createdAt'', Str ''2024-01-01T00:00:00.000Z''), (''expiresAt'', Str ''2024-01-01T01:00:00.000Z'')]"

definition ex_approval :: jsval where
  "ex_approval = Obj [(''version'', Str ''1''), (''type'', Str ''Approval''), (''actionEnvelopeHash'', ex_hash),
     (''decision'', Str ''propose''), (''signature'', Obj [(''format'', Str ''jws''), (''value'', Str ex_jws)]),
     (''createdAt'', Str ''2024-01-01T00:00:00.000Z'')]"

definition ex_bundle :: jsval where
  "ex_bundle = Obj [(''version'', Str ''1''), (''type'', Str ''ApprovalBundle''), (''actionEnvelopeHash'', ex_hash),
     (''approvals'', Arr [ex_approval])]"

definition ex_package :: jsval where
  "ex_package = Obj [(''version'', Str ''1''), (''type'', Str ''ActionPackage''),
     (''executionPayload'', Obj [(''name'', Str ''pay''), (''arguments'', Obj [])]),
     (''actionEnvelope'', ex_envelope), (''approvalBundle'', ex_bundle)]"

definition ex_config :: verification_config where
  "ex_config = \<lparr>vc_trustedSigners = [\<lparr>ts_did = ''did:web:p'', ts_publicJwk = Some ex_key\<rparr>],
     vc_trustedApplicationProfiles = None, vc_trustedApplicationDids = Some [''did:web:app''],
     vc_now = Some 1704067201000, vc_timestampToleranceMs = None, vc_maxEnvelopeValidityMs = Some DEFAULT_MAX_ENVELOPE_VALIDITY_MS\<rparr>"

definition ex_malformed :: jsval where
  "ex_malformed = Obj [(''version'', Str ''1''), (''type'', Str ''ActionPackage''),
     (''executionPayload'', Obj []), (''actionEnvelope'', ex_envelope), (''approvalBundle'', Obj [])]"

definition ex_later :: envelope_options where
  "ex_later = \<lparr>eo_checkExpiry = True, eo_checkTime = True, eo_now = 1704167201000, eo_tolerance = 0\<rparr>"

text \<open>Verified, with one approval.\<close>

fun is_verified :: "verification_result \<Rightarrow> bool" where
  "is_verified (Verified i app operation va) = (case vas_approvals va of [v] \<Rightarrow> True | _ \<Rightarrow> False)"
| "is_verified _ = False"

fun is_malformed_bundle :: "verification_result \<Rightarrow> bool" where
  "is_malformed_bundle (Verification_Rejected FAIL_MALFORMED_BUNDLE message path) = True"
| "is_malformed_bundle _ = False"

lemma ex_verified_checked: "is_verified (verifyActionPackage ex_host 0 ex_package ex_config)"
  by code_simp

lemma ex_malformed_checked: "is_malformed_bundle (verifyActionPackage ex_host 0 ex_malformed ex_config)"
  by code_simp

lemma ex_expired_checked: "map_option fst (validateActionEnvelope ex_host ex_envelope ex_later) = Some EXPIRED_ACTION_ENVELOPE"
  by code_simp

lemma ex_verified: "\<exists>i app operation va v. verifyActionPackage ex_host 0 ex_package ex_config = Verified i app operation va \<and>
    vas_approvals va = [v]"
  using ex_verified_checked by (rule is_verified.elims(2)) (auto split: list.splits)

lemma ex_malformed: "\<exists>message path. verifyActionPackage ex_host 0 ex_malformed ex_config = Verification_Rejected FAIL_MALFORMED_BUNDLE message path"
  using ex_malformed_checked by (rule is_malformed_bundle.elims(2)) blast

lemma ex_expired: "\<exists>message path. validateActionEnvelope ex_host ex_envelope ex_later = Some (EXPIRED_ACTION_ENVELOPE, message, path)"
  using ex_expired_checked by (cases "validateActionEnvelope ex_host ex_envelope ex_later") auto

end
