(* ===== verification/VerificationProperties.thy ===== *)
theory VerificationProperties
  imports VerificationExample
begin

text \<open>
  What a verified Action Package guarantees: its times, its payload binding, the signature
  behind every approval, the completeness of the list of verified approvals, and how
  rejections relate to the checks.
\<close>

section \<open>Decomposition of the verification\<close>

lemma verify_approvals_Inr:
  "verify_approvals f i as = Inr vs \<Longrightarrow> length vs = length as \<and> (\<forall>k < length as. f (i + k) (as ! k) = Inr (vs ! k))"
proof (induction f i as arbitrary: vs rule: verify_approvals.induct)
  case (2 f i approval approvals)
  then obtain v vs' where v: "f i approval = Inr v" "verify_approvals f (Suc i) approvals = Inr vs'" "vs = v # vs'"
    by (auto split: sum.splits)
  from 2(1) [OF v(1) v(2)] v show ?case by (auto simp: nth_Cons split: nat.splits)
qed simp

lemma verifyApprovalBundle_Inr:
  assumes "verifyApprovalBundle H bundle h signers env now tol = Inr va"
  shows "validateApprovalBundleStructure H bundle = None" "hash_of (js_get bundle ''actionEnvelopeHash'') = h"
    "verify_approvals (verify_one_approval H h signers env now tol) 0 (elements (js_get bundle ''approvals'')) =
       Inr (vas_approvals va)" "vas_actionEnvelopeHash va = h"
  using assms by (auto simp: verifyApprovalBundle_def split: option.splits if_splits sum.splits)

lemma verify_one_approval_Inr:
  assumes "verify_one_approval H h signers env now tol i approval = Inr v"
  obtains payload signer jwk kid signed where
    "hash_of (js_get approval ''actionEnvelopeHash'') = h" "decodeApprovalJws H approval = Inr payload"
    "map_of (rev (map (\<lambda>s. (ts_did s, s)) signers)) (text_of (js_get payload ''signerDid'')) = Some signer"
    "resolveTrustedSignerJwk H signer = Some jwk" "verificationKid H jwk (ts_did signer) = Some kid"
    "verifySuiteCompactJws H (signature_value approval) jwk kid = Some signed"
    "hash_of (js_get payload ''actionEnvelopeHash'') = hash_of (js_get approval ''actionEnvelopeHash'')"
    "js_get payload ''decision'' = js_get approval ''decision''" "js_get payload ''signerDid'' = Str (ts_did signer)"
    "js_get payload ''createdAt'' = js_get approval ''createdAt''" "js_get payload ''expiresAt'' = js_get approval ''expiresAt''"
    "validateApprovalTime H approval env now tol = None"
    "v = \<lparr>va_approval = approval, va_signerDid = ts_did signer, va_decision = decision_field approval,
          va_createdAt = text_of (js_get approval ''createdAt'')\<rparr>"
  using assms that unfolding verify_one_approval_def Let_def
  by (auto split: if_splits sum.splits option.splits prod.splits)

lemma find_SomeD: "List.find P xs = Some x \<Longrightarrow> x \<in> set xs \<and> P x"
  by (induction xs) (auto split: if_splits)

text \<open>All the checks that a verified package passed.\<close>

lemma verifyActionPackage_Verified:
  assumes "verifyActionPackage H clock pkg config = Verified i app operation va"
  obtains b where "parseActionPackage H pkg = None"
    "validateActionEnvelope H (actionEnvelope pkg) \<lparr>eo_checkExpiry = True, eo_checkTime = True,
       eo_now = or_default clock (vc_now config), eo_tolerance = or_default 0 (vc_timestampToleranceMs config)\<rparr> = None"
    "\<not> exceedsMaxEnvelopeValidity H (actionEnvelope pkg)
       (or_default DEFAULT_MAX_ENVELOPE_VALIDITY_MS (vc_maxEnvelopeValidityMs config)) (or_default clock (vc_now config))"
    "b \<in> set (trustedApplicationBindings H config)"
    "Str (ap_applicationDid b) = js_get (js_get (actionEnvelope pkg) ''target'') ''applicationDid''"
    "profile_id_matches (ap_executionProfile b) (actionEnvelope pkg)"
    "xp_validatePayload (ap_executionProfile b) (executionPayload pkg)"
    "or_default hasSafeReplayDomain (xp_validateActionId (ap_executionProfile b)) (js_get (actionEnvelope pkg) ''actionId'')"
    "verifyPayloadBinding H (executionPayload pkg) (actionEnvelope pkg) (Some (ap_executionProfile b))"
    "verifyApprovalBundle H (approvalBundle pkg) (computeJsonHash H (actionEnvelope pkg)) (vc_trustedSigners config)
       (Some (actionEnvelope pkg)) (or_default clock (vc_now config)) (or_default 0 (vc_timestampToleranceMs config)) = Inr va"
    "list_ex (\<lambda>v. va_decision v = Propose \<and> va_signerDid v = proposer_did (actionEnvelope pkg)) (vas_approvals va)"
    "i = aid_value (action_id_of (actionEnvelope pkg))" "app = application_did (actionEnvelope pkg)"
    "operation = operationNameFromPayload (executionPayload pkg)"
proof -
  let ?ms = "filter (\<lambda>b. Str (ap_applicationDid b) = js_get (js_get (actionEnvelope pkg) ''target'') ''applicationDid'')
      (trustedApplicationBindings H config)"
  obtain b where b: "List.find (\<lambda>b. profile_id_matches (ap_executionProfile b) (actionEnvelope pkg)) ?ms = Some b"
    using assms unfolding verifyActionPackage_def Let_def by (auto split: option.splits if_splits)
  from find_SomeD [OF this] have "b \<in> set ?ms" "profile_id_matches (ap_executionProfile b) (actionEnvelope pkg)"
    by blast+
  then show thesis
    using assms b that unfolding verifyActionPackage_def Let_def
    by (auto split: option.splits if_splits sum.splits)
qed

section \<open>Times\<close>

lemma time_not_le: "time_le a b = False \<Longrightarrow> a = Some x \<Longrightarrow> b = Some y \<Longrightarrow> y < x"
  by (simp add: time_le_def)

lemma envelope_structure_times:
  assumes "envelope_structure_error H envelope = None"
  shows "\<exists>c. parse_time H (js_get envelope ''createdAt'') = Some c" "\<exists>e. parse_time H (js_get envelope ''expiresAt'') = Some e"
proof -
  have "isEnvelopeTimestamp H (js_get envelope ''createdAt'')" "isEnvelopeTimestamp H (js_get envelope ''expiresAt'')"
    using assms by (auto simp: envelope_structure_error_def Let_def split: option.splits if_splits)
  then show "\<exists>c. parse_time H (js_get envelope ''createdAt'') = Some c" "\<exists>e. parse_time H (js_get envelope ''expiresAt'') = Some e"
    by (auto simp: isEnvelopeTimestamp_def parse_time_def split: jsval.splits)
qed

lemma validateActionEnvelope_None:
  assumes "validateActionEnvelope H envelope opts = None"
  obtains c e where "envelope_structure_error H envelope = None"
    "parse_time H (js_get envelope ''createdAt'') = Some c" "parse_time H (js_get envelope ''expiresAt'') = Some e"
    "c < e" "eo_checkTime opts \<Longrightarrow> c \<le> eo_now opts + eo_tolerance opts"
    "eo_checkTime opts \<Longrightarrow> eo_checkExpiry opts \<Longrightarrow> eo_now opts - eo_tolerance opts < e"
proof -
  have s: "envelope_structure_error H envelope = None"
    using assms by (auto simp: validateActionEnvelope_def split: option.splits)
  from envelope_structure_times [OF s] obtain c e where
    t: "parse_time H (js_get envelope ''createdAt'') = Some c" "parse_time H (js_get envelope ''expiresAt'') = Some e" by blast
  with assms s that show thesis
    by (auto simp: validateActionEnvelope_def Let_def time_le_def time_lt_def split: if_splits)
qed

text \<open>
  C32. A verified package is timely and bound to its payload: its creation time lies before
  its expiry and not after the trusted clock, its expiry is still ahead and within the
  maximum validity (all up to the configured tolerance), a trusted profile of the target
  application accepts the payload, and the payload's hash is the one in the envelope.
\<close>

theorem verified_package_timely_and_bound:
  assumes "verifyActionPackage H clock pkg config = Verified i app operation va"
    and "now = or_default clock (vc_now config)" and "tol = or_default 0 (vc_timestampToleranceMs config)"
  shows "\<exists>c e b. parse_time H (js_get (actionEnvelope pkg) ''createdAt'') = Some c \<and>
    parse_time H (js_get (actionEnvelope pkg) ''expiresAt'') = Some e \<and>
    c < e \<and> c \<le> now + tol \<and> now - tol < e \<and>
    e - now \<le> or_default DEFAULT_MAX_ENVELOPE_VALIDITY_MS (vc_maxEnvelopeValidityMs config) \<and>
    b \<in> set (trustedApplicationBindings H config) \<and>
    js_get (js_get (actionEnvelope pkg) ''target'') ''applicationDid'' = Str (ap_applicationDid b) \<and>
    profile_id_matches (ap_executionProfile b) (actionEnvelope pkg) \<and>
    xp_validatePayload (ap_executionProfile b) (executionPayload pkg) \<and>
    xp_hashPayload (ap_executionProfile b) (executionPayload pkg) = hash_of (js_get (actionEnvelope pkg) ''executionPayloadHash'')"
proof -
  from assms(1) obtain b where v: "validateActionEnvelope H (actionEnvelope pkg) \<lparr>eo_checkExpiry = True, eo_checkTime = True,
       eo_now = now, eo_tolerance = tol\<rparr> = None"
    and x: "\<not> exceedsMaxEnvelopeValidity H (actionEnvelope pkg)
       (or_default DEFAULT_MAX_ENVELOPE_VALIDITY_MS (vc_maxEnvelopeValidityMs config)) now"
    and b: "b \<in> set (trustedApplicationBindings H config)"
      "Str (ap_applicationDid b) = js_get (js_get (actionEnvelope pkg) ''target'') ''applicationDid''"
      "profile_id_matches (ap_executionProfile b) (actionEnvelope pkg)"
      "xp_validatePayload (ap_executionProfile b) (executionPayload pkg)"
    and p: "verifyPayloadBinding H (executionPayload pkg) (actionEnvelope pkg) (Some (ap_executionProfile b))"
    unfolding assms(2,3) by (rule verifyActionPackage_Verified)
  from v obtain c e where ce: "parse_time H (js_get (actionEnvelope pkg) ''createdAt'') = Some c"
    "parse_time H (js_get (actionEnvelope pkg) ''expiresAt'') = Some e" "c < e" "c \<le> now + tol" "now - tol < e"
    by (rule validateActionEnvelope_None) simp
  with x have "e - now \<le> or_default DEFAULT_MAX_ENVELOPE_VALIDITY_MS (vc_maxEnvelopeValidityMs config)"
    by (simp add: exceedsMaxEnvelopeValidity_def)
  moreover have "xp_hashPayload (ap_executionProfile b) (executionPayload pkg) = hash_of (js_get (actionEnvelope pkg) ''executionPayloadHash'')"
    using p by (simp add: verifyPayloadBinding_def split: if_splits)
  ultimately show ?thesis using ce b
    by (intro exI [of _ c] exI [of _ e] exI [of _ b] conjI) simp_all
qed

theorem verified_package_timely_and_bound_witness:
  "\<exists>c e. parse_time ex_host (js_get (actionEnvelope ex_package) ''createdAt'') = Some c \<and>
    parse_time ex_host (js_get (actionEnvelope ex_package) ''expiresAt'') = Some e \<and> c < e"
proof -
  obtain i app operation va where "verifyActionPackage ex_host 0 ex_package ex_config = Verified i app operation va"
    using ex_verified by blast
  from verified_package_timely_and_bound [OF this refl refl] show ?thesis by blast
qed

section \<open>Approvals\<close>

text \<open>
  \<open>backed\<close>: a trusted signer's key verifies the signature of the approval under the key
  identifier bound to that signer, and the signed payload names this envelope, this decision
  and this signer in canonical form; for a \<open>did:jwk\<close> signer the key is the one in the DID.
\<close>

definition backed :: "('a) crypto_host_scheme \<Rightarrow> hash_object \<Rightarrow> trusted_signer list \<Rightarrow> verified_approval \<Rightarrow> bool" where
  "backed H h signers v \<longleftrightarrow>
     (\<exists>signer jwk kid signed payload p0 p1 ps.
        signer \<in> set signers \<and> ts_did signer = va_signerDid v \<and>
        resolveTrustedSignerJwk H signer = Some jwk \<and> (isDidJwk (va_signerDid v) \<longrightarrow> didJwkToJwk H (va_signerDid v) = Some jwk) \<and>
        verificationKid H jwk (va_signerDid v) = Some kid \<and>
        verifySuiteCompactJws H (signature_value (va_approval v)) jwk kid = Some signed \<and>
        split_on (CHR ''.'') (signature_value (va_approval v)) = p0 # p1 # ps \<and>
        parse_strict H (utf8_text H (b64_bytes p1)) = Some payload \<and> jcs H payload = utf8_text H (b64_bytes p1) \<and>
        hash_of (js_get payload ''actionEnvelopeHash'') = h \<and>
        js_get payload ''decision'' = Str (decision_text (va_decision v)) \<and>
        js_get payload ''signerDid'' = Str (va_signerDid v))"

lemma isDecision_field: "isDecision (js_get a ''decision'') \<Longrightarrow> js_get a ''decision'' = Str (decision_text (decision_field a))"
proof -
  assume "isDecision (js_get a ''decision'')"
  then obtain d where d: "decision_of (js_get a ''decision'') = Some d"
    by (auto simp: isDecision_def decision_of_text_def)
  then have "js_get a ''decision'' = Str (decision_text d)" by (simp only: decision_of_Some_iff)
  moreover from d have "decision_field a = d" by (simp add: decision_field_def or_default_def)
  ultimately show ?thesis by simp
qed

lemma decodeApprovalJws_Inr:
  assumes "decodeApprovalJws H a = Inr payload"
  obtains p0 p1 ps where "split_on (CHR ''.'') (signature_value a) = p0 # p1 # ps"
    "parse_strict H (utf8_text H (b64_bytes p1)) = Some payload" "jcs H payload = utf8_text H (b64_bytes p1)"
    "isCanonicalApprovalPayload H payload"
  using assms that by (auto simp: decodeApprovalJws_def Let_def split: list.splits option.splits if_splits)

lemma map_of_rev_signers:
  "map_of (rev (map (\<lambda>s. (ts_did s, s)) signers)) d = Some s \<Longrightarrow> s \<in> set signers \<and> ts_did s = d"
  by (auto dest!: map_of_SomeD)

lemma verify_one_approval_backed:
  assumes "verify_one_approval H h signers env now tol i approval = Inr v"
  shows "backed H h signers v \<and> va_approval v = approval"
  using assms
proof (rule verify_one_approval_Inr)
  fix payload signer jwk kid signed
  assume a: "hash_of (js_get approval ''actionEnvelopeHash'') = h" "decodeApprovalJws H approval = Inr payload"
    "map_of (rev (map (\<lambda>s. (ts_did s, s)) signers)) (text_of (js_get payload ''signerDid'')) = Some signer"
    "resolveTrustedSignerJwk H signer = Some jwk" "verificationKid H jwk (ts_did signer) = Some kid"
    "verifySuiteCompactJws H (signature_value approval) jwk kid = Some signed"
    "hash_of (js_get payload ''actionEnvelopeHash'') = hash_of (js_get approval ''actionEnvelopeHash'')"
    "js_get payload ''decision'' = js_get approval ''decision''" "js_get payload ''signerDid'' = Str (ts_did signer)"
    "v = \<lparr>va_approval = approval, va_signerDid = ts_did signer, va_decision = decision_field approval,
          va_createdAt = text_of (js_get approval ''createdAt'')\<rparr>"
  obtain p0 p1 ps where p: "split_on (CHR ''.'') (signature_value approval) = p0 # p1 # ps"
    "parse_strict H (utf8_text H (b64_bytes p1)) = Some payload" "jcs H payload = utf8_text H (b64_bytes p1)"
    and c: "isCanonicalApprovalPayload H payload" using decodeApprovalJws_Inr [OF a(2)] .
  from c have "isDecision (js_get approval ''decision'')"
    unfolding a(8) [symmetric] by (auto simp: isCanonicalApprovalPayload_def split: if_splits)
  then have "js_get payload ''decision'' = Str (decision_text (va_decision v))"
    using isDecision_field by (simp add: a(8,10))
  moreover have "isDidJwk (va_signerDid v) \<longrightarrow> didJwkToJwk H (va_signerDid v) = Some jwk"
    using a(4) by (simp add: a(10) resolveTrustedSignerJwk_def split: if_splits)
  moreover have signer: "va_signerDid v = ts_did signer" "va_approval v = approval" by (simp_all add: a(10))
  moreover have "signer \<in> set signers" using map_of_rev_signers [OF a(3)] by blast
  moreover have "hash_of (js_get payload ''actionEnvelopeHash'') = h" using a(1,7) by simp
  ultimately have f: "signer \<in> set signers" "ts_did signer = va_signerDid v" "resolveTrustedSignerJwk H signer = Some jwk"
    "isDidJwk (va_signerDid v) \<longrightarrow> didJwkToJwk H (va_signerDid v) = Some jwk"
    "verificationKid H jwk (va_signerDid v) = Some kid"
    "verifySuiteCompactJws H (signature_value (va_approval v)) jwk kid = Some signed"
    "split_on (CHR ''.'') (signature_value (va_approval v)) = p0 # p1 # ps"
    "hash_of (js_get payload ''actionEnvelopeHash'') = h"
    "js_get payload ''decision'' = Str (decision_text (va_decision v))" "js_get payload ''signerDid'' = Str (va_signerDid v)"
    using a(4,5,6,9) p(1) by simp_all
  have "backed H h signers v"
    unfolding backed_def by (intro exI conjI) (rule f p)+
  with signer(2) show ?thesis by blast
qed

text \<open>
  C33. Every verified approval is backed by a signature of a trusted signer over this
  envelope's hash, the decision and the signer, and the list of verified approvals is the
  bundle's list, complete and in order; among them is the proposer's \<open>propose\<close>.
\<close>

theorem verified_approvals_backed:
  assumes "verifyActionPackage H clock pkg config = Verified i app operation va"
  shows "list_all (backed H (computeJsonHash H (actionEnvelope pkg)) (vc_trustedSigners config)) (vas_approvals va) \<and>
    map va_approval (vas_approvals va) = elements (js_get (approvalBundle pkg) ''approvals'') \<and>
    list_ex (\<lambda>v. va_decision v = Propose \<and> va_signerDid v = proposer_did (actionEnvelope pkg)) (vas_approvals va)"
proof -
  let ?h = "computeJsonHash H (actionEnvelope pkg)" and ?as = "elements (js_get (approvalBundle pkg) ''approvals'')"
  from assms obtain now tol where bun: "verifyApprovalBundle H (approvalBundle pkg) ?h (vc_trustedSigners config)
       (Some (actionEnvelope pkg)) now tol = Inr va"
    and propose: "list_ex (\<lambda>v. va_decision v = Propose \<and> va_signerDid v = proposer_did (actionEnvelope pkg)) (vas_approvals va)"
    by (rule verifyActionPackage_Verified) blast
  have len: "length (vas_approvals va) = length ?as"
    and each: "\<And>k. k < length ?as \<Longrightarrow> verify_one_approval H ?h (vc_trustedSigners config) (Some (actionEnvelope pkg)) now tol k (?as ! k)
       = Inr (vas_approvals va ! k)"
    using verify_approvals_Inr [OF verifyApprovalBundle_Inr(3) [OF bun]] by auto
  have "backed H ?h (vc_trustedSigners config) (vas_approvals va ! k) \<and> va_approval (vas_approvals va ! k) = ?as ! k"
    if "k < length ?as" for k
    using verify_one_approval_backed [OF each [OF that]] .
  then have "list_all (backed H ?h (vc_trustedSigners config)) (vas_approvals va)" "map va_approval (vas_approvals va) = ?as"
    using len by (auto simp: list_all_length intro: nth_equalityI)
  with propose show ?thesis by simp
qed

theorem verified_approvals_backed_witness:
  "\<exists>va :: verified_approvals. list_all (backed ex_host (computeJsonHash ex_host (actionEnvelope ex_package)) (vc_trustedSigners ex_config))
      (vas_approvals va) \<and> map va_approval (vas_approvals va) = elements (js_get (approvalBundle ex_package) ''approvals'')"
proof -
  obtain i app operation va where "verifyActionPackage ex_host 0 ex_package ex_config = Verified i app operation va"
    using ex_verified by blast
  note c = verified_approvals_backed [OF this]
  show ?thesis by (rule exI, rule conjI, rule c [THEN conjunct1], rule c [THEN conjunct2, THEN conjunct1])
qed

section \<open>Rejections\<close>

lemma parseActionPackage_bundle:
  "parseActionPackage H pkg = None \<Longrightarrow> validateApprovalBundleStructure H (approvalBundle pkg) = None"
  unfolding parseActionPackage_def approvalBundle_def
  by (auto split: if_splits option.splits)

text \<open>
  The second structural check of the bundle in \<open>verifyActionPackage\<close> never fires: a
  package is rejected for a malformed bundle only by the parser, with its message and path.
\<close>

theorem malformed_bundle_is_a_parse_error:
  assumes "verifyActionPackage H clock pkg config = Verification_Rejected FAIL_MALFORMED_BUNDLE message path"
  shows "parseActionPackage H pkg = Some (message, path) \<and> starts_with ''$.approvalBundle'' path"
proof (cases "parseActionPackage H pkg")
  case None
  with parseActionPackage_bundle [OF None] assms show ?thesis
    unfolding verifyActionPackage_def Let_def by (auto split: option.splits if_splits sum.splits)
next
  case (Some e)
  with assms show ?thesis unfolding verifyActionPackage_def Let_def by (auto split: if_splits prod.splits)
qed

theorem malformed_bundle_is_a_parse_error_witness:
  "\<exists>message path. parseActionPackage ex_host ex_malformed = Some (message, path)"
proof -
  obtain message path where
    "verifyActionPackage ex_host 0 ex_malformed ex_config = Verification_Rejected FAIL_MALFORMED_BUNDLE message path"
    using ex_malformed by blast
  from malformed_bundle_is_a_parse_error [OF this] show ?thesis by (elim conjE) blast
qed

text \<open>
  Expiry is permanent: an envelope rejected as expired is rejected as expired at every
  later time.
\<close>

theorem expired_stays_expired:
  assumes "validateActionEnvelope H envelope opts = Some (EXPIRED_ACTION_ENVELOPE, message, path)"
    and "eo_now opts \<le> now'"
  shows "validateActionEnvelope H envelope (opts\<lparr>eo_now := now'\<rparr>) = Some (EXPIRED_ACTION_ENVELOPE, message, path)"
proof -
  have s: "envelope_structure_error H envelope = None"
    using assms(1) by (auto simp: validateActionEnvelope_def split: option.splits)
  from envelope_structure_times [OF s] obtain c e where
    "parse_time H (js_get envelope ''createdAt'') = Some c" "parse_time H (js_get envelope ''expiresAt'') = Some e" by blast
  with assms s show ?thesis
    by (auto simp: validateActionEnvelope_def Let_def time_le_def time_lt_def split: if_splits)
qed

theorem expired_stays_expired_witness:
  "\<exists>message path. validateActionEnvelope ex_host ex_envelope (ex_later\<lparr>eo_now := 1804167201000\<rparr>) =
     Some (EXPIRED_ACTION_ENVELOPE, message, path)"
proof -
  obtain message path where "validateActionEnvelope ex_host ex_envelope ex_later = Some (EXPIRED_ACTION_ENVELOPE, message, path)"
    using ex_expired by blast
  moreover have "eo_now ex_later \<le> 1804167201000" by (simp add: ex_later_def)
  ultimately have "validateActionEnvelope ex_host ex_envelope (ex_later\<lparr>eo_now := 1804167201000\<rparr>) =
     Some (EXPIRED_ACTION_ENVELOPE, message, path)" by (rule expired_stays_expired)
  then show ?thesis by (intro exI)
qed

end
