(* ===== verification/CoordinationRequests.thy ===== *)
theory CoordinationRequests
  imports Routing
begin

text \<open>
  Validation of the request bodies of the coordination service,
  \<open>cli/src/coordination/validation.ts\<close>, and the error that the service throws. A validated
  body is used as it is, a JSON value; the envelopes are parsed.
\<close>

datatype service_error =
    Service_Error nat string string
  | Plain_Error string
  | Routing_Failure routing_error

abbreviation invalid :: "string \<Rightarrow> service_error" where
  "invalid message \<equiv> Service_Error 400 ''INVALID_REQUEST'' message"

text \<open>
  The message of a caught error. The parsers that validation calls throw no other error
  than a \<open>RoutingValidationError\<close>; the texts of the two others are not rendered in full.
\<close>

fun routing_message :: "routing_error \<Rightarrow> string" where
  "routing_message (Routing_Validation message path) = message"
| "routing_message Invalid_Url = ''Invalid URL''"
| "routing_message (No_Scope v path) = ''No idempotency equivalence scope is registered.''"

definition invalidRequest :: "routing_error \<Rightarrow> service_error" where
  "invalidRequest e = invalid (routing_message e)"

definition rethrow :: "('e \<Rightarrow> 'f) \<Rightarrow> 'e + 'a \<Rightarrow> 'f + 'a" where
  "rethrow f r = (case r of Inl e \<Rightarrow> Inl (f e) | Inr x \<Rightarrow> Inr x)"

lemma rethrow_Inr [simp]: "rethrow f r = Inr x \<longleftrightarrow> r = Inr x"
  by (cases r) (simp_all add: rethrow_def)

definition validateRelayedActionRequest ::
    "('a) host_scheme \<Rightarrow> int \<Rightarrow> jsval \<Rightarrow> did \<Rightarrow> service_error + delivery_envelope" where
  "validateRelayedActionRequest H clock value verifierDid = rethrow invalidRequest
    (and_then (parseActionRequestEnvelope H value) (\<lambda>envelope.
     let proposerDid = js_get (js_get (actionEnvelope (js_get (de_payload envelope) ''actionPackage'')) ''proposer'') ''did'' in
     and_then (require (Str (de_sender envelope) = proposerDid)
       (Routing_Validation ''DeliveryEnvelope.sender must equal ActionEnvelope.proposer.did.'' ''$.sender'')) (\<lambda>_.
     and_then (require (hasDeliveryEnvelopeRecipient envelope verifierDid)
       (Routing_Validation ''Configured Verifier DID must occur in DeliveryEnvelope.recipients.'' ''$.recipients'')) (\<lambda>_.
     and_then (require (\<not> isDeliveryEnvelopeExpired H envelope clock)
       (Routing_Validation ''DeliveryEnvelope.expiresAt must be in the future at submission.'' ''$.expiresAt'')) (\<lambda>_.
     Inr envelope)))))"

definition validateResponseDelivery_request ::
    "('a) host_scheme \<Rightarrow> int \<Rightarrow> jsval \<Rightarrow> service_error + delivery_envelope" where
  "validateResponseDelivery_request H clock value = rethrow invalidRequest
    (and_then (parseActionResponseEnvelope H value) (\<lambda>envelope.
     and_then (require (truthy (js_get (js_get (de_payload envelope) ''verifier'') ''did''))
       (Routing_Validation ''ActionResponse.verifier.did is required for coordinated delivery.'' ''$.payload.verifier.did'')) (\<lambda>_.
     and_then (require (truthy (js_get (js_get (de_payload envelope) ''actionEnvelopeHash'') ''value''))
       (Routing_Validation ''ActionResponse.actionEnvelopeHash is required for coordinated delivery.'' ''$.payload.actionEnvelopeHash'')) (\<lambda>_.
     and_then (require (\<not> isDeliveryEnvelopeExpired H envelope clock)
       (Routing_Validation ''DeliveryEnvelope.expiresAt must be in the future at submission.'' ''$.expiresAt'')) (\<lambda>_.
     Inr envelope)))))"

definition requireBody :: "jsval \<Rightarrow> service_error + jsval" where
  "requireBody v = (if \<not> is_record v then Inl (invalid ''Request body must be a JSON object.'') else Inr v)"

definition requireVersionType :: "jsval \<Rightarrow> string \<Rightarrow> service_error + unit" where
  "requireVersionType body type =
     require (js_get body ''version'' = Str ''1'' \<and> js_get body ''type'' = Str type) (invalid (''Expected version 1 '' @ type @ ''.''))"

fun did_prefixed :: "jsval \<Rightarrow> bool" where
  "did_prefixed (Str s) = starts_with ''did:'' s"
| "did_prefixed _ = False"

definition validate_did_request :: "string \<Rightarrow> jsval \<Rightarrow> service_error + jsval" where
  "validate_did_request type value =
    and_then (requireBody value) (\<lambda>body.
    and_then (requireVersionType body type) (\<lambda>_.
    and_then (require (did_prefixed (js_get body ''did'')) (invalid (type @ ''.did must be a DID.''))) (\<lambda>_. Inr body)))"

definition validateSessionRequest :: "jsval \<Rightarrow> service_error + jsval" where
  "validateSessionRequest = validate_did_request ''CoordinationSessionRequest''"

definition validateRelaySessionRequest :: "jsval \<Rightarrow> service_error + jsval" where
  "validateRelaySessionRequest = validate_did_request ''RelaySessionRequest''"

definition validateRelayPollRequest :: "jsval \<Rightarrow> service_error + jsval" where
  "validateRelayPollRequest value =
    and_then (validate_did_request ''RelayPollRequest'' value) (\<lambda>body.
    and_then (require (js_get body ''cursor'' = Undefined \<or> is_string (js_get body ''cursor''))
      (invalid ''RelayPollRequest.cursor must be a string.'')) (\<lambda>_. Inr body))"

definition validatePollRequest :: "jsval \<Rightarrow> service_error + jsval" where
  "validatePollRequest = validate_did_request ''CoordinationPollRequest''"

definition validateBodyIdempotency :: "jsval \<Rightarrow> service_error + unit" where
  "validateBodyIdempotency value =
    (if value = Undefined then Inr ()
     else and_then (rethrow invalidRequest (resolveIdempotencyKey value None)) (\<lambda>_. Inr ()))"

definition validateCoordinationActionRequest :: "jsval \<Rightarrow> service_error + jsval" where
  "validateCoordinationActionRequest value =
    and_then (requireBody value) (\<lambda>body.
    and_then (requireVersionType body ''CoordinationActionRequest'') (\<lambda>_.
    and_then (require (is_record (js_get body ''actionPackage'') \<and> js_get (js_get body ''actionPackage'') ''type'' = Str ''ActionPackage'')
      (invalid ''CoordinationActionRequest.actionPackage is required.'')) (\<lambda>_.
    and_then (require (is_record (js_get body ''authorizationRequirements'') \<and>
        js_get (js_get body ''authorizationRequirements'') ''type'' = Str ''AuthorizationRequirements'')
      (invalid ''CoordinationActionRequest.authorizationRequirements is required.'')) (\<lambda>_.
    and_then (validateBodyIdempotency (js_get body ''idempotencyKey'')) (\<lambda>_. Inr body)))))"

definition validateApprovalSubmission :: "jsval \<Rightarrow> service_error + jsval" where
  "validateApprovalSubmission value =
    and_then (requireBody value) (\<lambda>body.
    and_then (requireVersionType body ''CoordinationApprovalSubmission'') (\<lambda>_.
    and_then (require (is_record (js_get body ''actionEnvelopeHash'') \<and> is_string (js_get (js_get body ''actionEnvelopeHash'') ''value''))
      (invalid ''CoordinationApprovalSubmission.actionEnvelopeHash is required.'')) (\<lambda>_.
    and_then (require (is_record (js_get body ''approval'') \<and> js_get (js_get body ''approval'') ''type'' = Str ''Approval'')
      (invalid ''CoordinationApprovalSubmission.approval is required.'')) (\<lambda>_.
    and_then (validateBodyIdempotency (js_get body ''idempotencyKey'')) (\<lambda>_. Inr body)))))"

definition validateCancelRequest :: "jsval \<Rightarrow> service_error + jsval" where
  "validateCancelRequest value =
    and_then (requireBody value) (\<lambda>body.
    and_then (requireVersionType body ''CoordinationActionCancelRequest'') (\<lambda>_.
    and_then (require (is_record (js_get body ''actionId'') \<and> is_string (js_get (js_get body ''actionId'') ''value'') \<and>
        is_string (js_get body ''proposerDid''))
      (invalid ''Cancellation actionId and proposerDid are required.'')) (\<lambda>_.
    and_then (validateBodyIdempotency (js_get body ''idempotencyKey'')) (\<lambda>_. Inr body))))"

definition effectiveIdempotencyKey :: "jsval \<Rightarrow> jsval \<Rightarrow> service_error + string option" where
  "effectiveIdempotencyKey bodyValue headerValue =
    rethrow (\<lambda>e. Service_Error 400 ''idempotency_mismatch'' (routing_message e)) (resolveIdempotencyKey bodyValue (text_opt headerValue))"

end
