(* ===== verification/CoordinationStore.thy ===== *)
theory CoordinationStore
  imports CoordinationRequests ApprovalRequirements
begin

text \<open>
  The coordination store, \<open>cli/src/coordination/store.ts\<close>: approval workflows, relayed
  actions and deliveries of one service process. Every method is a function of the store,
  the live clock \<open>Date.now()\<close> and its arguments.

  \<open>actionsById\<close> and \<open>actionsByEnvelopeHash\<close> hold references to the same mutable
  records; the records are in a heap (a list, addressed by position) and the maps hold
  addresses. Artifacts (Action Package, Approval, requirements) are JSON values of their
  TypeScript types; what the code reads from them without a check of its own is read by
  the accessors of \<open>MpasTypes\<close>. Decoding the payload of a compact JWS, \<open>JSON.parse\<close> of
  the UTF-8 text of base64url bytes, is the host function \<open>decode_json\<close>.
\<close>

record coordination_host = host +
  decode_json :: "string \<Rightarrow> jsval option"

section \<open>State\<close>

datatype coordination_state = Awaiting_Approvals | Ready_For_Submission | Rejected_State | Cancelled_State | Expired_State

record action_ref =
  ref_actionId :: action_id
  ref_actionEnvelopeHash :: hash_object

record stored_approval =
  sap_approval :: jsval
  sap_signerDid :: did
  sap_decision :: decision

record stored_action =
  sa_actionPackage :: jsval
  sa_authorizationRequirements :: jsval
  sa_actionRef :: action_ref
  sa_state :: coordination_state
  sa_approvals :: "stored_approval list"
  sa_createdAt :: timestamp
  sa_updatedAt :: timestamp
  sa_cancelledAt :: "timestamp option"
  sa_rejectedAt :: "timestamp option"

record relayed_action =
  ra_envelope :: delivery_envelope
  ra_actionRef :: action_ref
  ra_verifierDid :: did
  ra_createdAt :: timestamp
  ra_response :: "jsval option"

record stored_delivery =
  sd_sequence :: nat
  sd_recipient :: did
  sd_envelope :: delivery_envelope

datatype routing_purpose = Initial_Action | Action_Response

record routing_audit_entry =
  au_purpose :: routing_purpose
  au_sender :: did
  au_recipients :: "did list"
  au_designatedVerifierDid :: did
  au_payloadHash :: hash_object
  au_createdAt :: timestamp

record coordination_store =
  cs_actions :: "stored_action list"
  cs_actionsById :: "(string, nat) jsmap"
  cs_actionsByEnvelopeHash :: "(string, nat) jsmap"
  cs_relayed :: "relayed_action list"
  cs_relayedActionsById :: "(string, nat) jsmap"
  cs_relayedActionsByEnvelopeHash :: "(string, nat) jsmap"
  cs_deliveries :: "stored_delivery list"
  cs_routingAuditEntries :: "routing_audit_entry list"
  cs_nextDeliverySequence :: nat
  cs_fixedNow :: "int option"

definition newCoordinationStore :: "int option \<Rightarrow> coordination_store" where
  "newCoordinationStore now = \<lparr>cs_actions = [], cs_actionsById = [], cs_actionsByEnvelopeHash = [], cs_relayed = [],
     cs_relayedActionsById = [], cs_relayedActionsByEnvelopeHash = [], cs_deliveries = [], cs_routingAuditEntries = [],
     cs_nextDeliverySequence = 1, cs_fixedNow = now\<rparr>"

definition store_now :: "coordination_store \<Rightarrow> int \<Rightarrow> int" where
  "store_now s clock = (case cs_fixedNow s of None \<Rightarrow> clock | Some t \<Rightarrow> t)"

definition DELIVERY_PAGE_SIZE :: nat where
  "DELIVERY_PAGE_SIZE = 100"

abbreviation action_at :: "coordination_store \<Rightarrow> nat \<Rightarrow> stored_action" where
  "action_at s r \<equiv> cs_actions s ! r"

definition set_action :: "nat \<Rightarrow> stored_action \<Rightarrow> coordination_store \<Rightarrow> coordination_store" where
  "set_action r a s = s\<lparr>cs_actions := (cs_actions s)[r := a]\<rparr>"

section \<open>Reading an artifact\<close>

definition buildActionRef :: "jsval \<Rightarrow> hash_object \<Rightarrow> action_ref" where
  "buildActionRef actionPackage h = \<lparr>ref_actionId = action_id_of (actionEnvelope actionPackage), ref_actionEnvelopeHash = h\<rparr>"

abbreviation proposer_of :: "stored_action \<Rightarrow> did" where
  "proposer_of a \<equiv> proposer_did (actionEnvelope (sa_actionPackage a))"

definition expires_text :: "jsval \<Rightarrow> timestamp" where
  "expires_text pkg = text_of (js_get (actionEnvelope pkg) ''expiresAt'')"

text \<open>\<open>left.alg === right.alg && left.value === right.value\<close> against an unchecked object.\<close>

definition hash_matches :: "hash_object \<Rightarrow> jsval \<Rightarrow> bool" where
  "hash_matches h v \<longleftrightarrow> js_get v ''alg'' = Str (hash_alg h) \<and> js_get v ''value'' = Str (hash_value h)"

definition decodeApprovalPayload :: "('a) coordination_host_scheme \<Rightarrow> jsval \<Rightarrow> jsval option" where
  "decodeApprovalPayload H approval = (case js_get (js_get approval ''signature'') ''value'' of
       Str s \<Rightarrow> (let parts = split_on (CHR ''.'') s in if length parts \<noteq> 3 then None else decode_json H (parts ! 1))
     | _ \<Rightarrow> None)"

definition decodeApprovalSignerDid :: "('a) coordination_host_scheme \<Rightarrow> jsval \<Rightarrow> jsval" where
  "decodeApprovalSignerDid H approval = (case decodeApprovalPayload H approval of
     None \<Rightarrow> Undefined | Some payload \<Rightarrow> js_get payload ''signerDid'')"

definition threshold_of :: "jsval \<Rightarrow> ar_threshold" where
  "threshold_of v = \<lparr>at_threshold = (case js_get v ''threshold'' of Num n \<Rightarrow> n | _ \<Rightarrow> NaN),
     at_eligibleSigners = map text_of (elements (js_get v ''eligibleSigners'')), at_decision = decision_of (js_get v ''decision'')\<rparr>"

definition override_of :: "jsval \<Rightarrow> override_signer" where
  "override_of v = \<lparr>os_signer = text_of (js_get v ''signer''), os_permissions = map text_of (elements (js_get v ''permissions''))\<rparr>"

definition opt_array :: "(jsval \<Rightarrow> 'b) \<Rightarrow> jsval \<Rightarrow> 'b list option" where
  "opt_array f v = (if v = Undefined then None else Some (map f (elements v)))"

definition approvalRequirements_of :: "jsval \<Rightarrow> approval_requirements" where
  "approvalRequirements_of requirements = (let r = js_get requirements ''approvalRequirements'' in
     \<lparr>ar_anyOf = opt_array threshold_of (js_get r ''anyOf''), ar_allOf = opt_array threshold_of (js_get r ''allOf''),
      ar_overrideSigners = opt_array override_of (js_get r ''overrideSigners'')\<rparr>)"

definition thresholdsFor :: "approval_requirements \<Rightarrow> ar_threshold list" where
  "thresholdsFor r = opt_list (ar_anyOf r) @ opt_list (ar_allOf r)"

abbreviation requirements_for :: "stored_action \<Rightarrow> approval_requirements" where
  "requirements_for a \<equiv> approvalRequirements_of (sa_authorizationRequirements a)"

section \<open>Validation of a package and of its requirements\<close>

definition validateActionPackageBindings :: "('a) host_scheme \<Rightarrow> jsval \<Rightarrow> service_error + unit" where
  "validateActionPackageBindings H pkg =
    and_then (require (has_own pkg ''executionPayload'' \<and> is_record (actionEnvelope pkg) \<and> is_record (approvalBundle pkg) \<and>
        is_record (js_get (actionEnvelope pkg) ''executionPayloadHash'') \<and>
        is_record (js_get (approvalBundle pkg) ''actionEnvelopeHash''))
      (invalid ''Action Package hash bindings are malformed.'')) (\<lambda>_.
    and_then (require (hash_matches (computeJsonHash H (executionPayload pkg)) (js_get (actionEnvelope pkg) ''executionPayloadHash''))
      (Service_Error 400 ''artifact_hash_mismatch''
        ''Execution Payload hash does not match ActionEnvelope.executionPayloadHash.'')) (\<lambda>_.
    require (hash_matches (computeJsonHash H (actionEnvelope pkg)) (js_get (approvalBundle pkg) ''actionEnvelopeHash''))
      (Service_Error 400 ''artifact_hash_mismatch'' ''ApprovalBundle.actionEnvelopeHash does not match the Action Envelope.'')))"

definition well_formed_threshold :: "jsval \<Rightarrow> bool" where
  "well_formed_threshold entry \<longleftrightarrow> is_record entry \<and> js_get entry ''type'' = Str ''threshold'' \<and>
     is_array (js_get entry ''eligibleSigners'') \<and> list_all did_prefixed (elements (js_get entry ''eligibleSigners''))"

definition threshold_field_check :: "jsval \<Rightarrow> string \<Rightarrow> service_error + unit" where
  "threshold_field_check requirements name =
    (let entries = js_get (js_get requirements ''approvalRequirements'') name in
     and_then (require (entries = Undefined \<or> is_array entries)
       (invalid (''approvalRequirements.'' @ name @ '' must be an array.''))) (\<lambda>_.
     require (list_all well_formed_threshold (elements entries)) (invalid ''Authorization threshold is malformed.'')))"

definition well_formed_override :: "jsval \<Rightarrow> bool" where
  "well_formed_override entry \<longleftrightarrow> is_record entry \<and> did_prefixed (js_get entry ''signer'') \<and> is_array (js_get entry ''permissions'') \<and>
     elements (js_get entry ''permissions'') \<noteq> [] \<and> list_all is_string (elements (js_get entry ''permissions''))"

definition threshold_check :: "ar_threshold \<Rightarrow> service_error option" where
  "threshold_check t = (let eligible = set_size (at_eligibleSigners t) in
     if eligible \<noteq> length (at_eligibleSigners t) then Some (invalid ''Threshold eligibleSigners must be unique.'')
     else if \<not> num_is_integer (at_threshold t) \<or> num_lt (at_threshold t) (num_of_nat 1) \<or> num_lt (num_of_nat eligible) (at_threshold t)
       then Some (invalid ''Threshold must be achievable by its eligibleSigners.'') else None)"

definition requirements_expiry_check :: "('a) host_scheme \<Rightarrow> jsval \<Rightarrow> int \<Rightarrow> service_error + unit" where
  "requirements_expiry_check H requirements now = (case js_get requirements ''expiresAt'' of
       Undefined \<Rightarrow> Inr ()
     | v \<Rightarrow> (case date_parse (legacy_date H) (text_of v) of
         None \<Rightarrow> Inl (invalid ''Authorization Requirements expiry is invalid.'')
       | Some expiresAt \<Rightarrow> require (\<not> expiresAt \<le> now) (Service_Error 409 ''expired'' ''Authorization Requirements are expired.'')))"

definition validateAuthorizationRequirements ::
    "('a) host_scheme \<Rightarrow> jsval \<Rightarrow> hash_object \<Rightarrow> did option \<Rightarrow> int \<Rightarrow> service_error + unit" where
  "validateAuthorizationRequirements H requirements actionEnvelopeHash verifierDid now =
    (let bound = js_get requirements ''actionEnvelopeHash''; verifier = js_get requirements ''verifier'';
         overrides = js_get (js_get requirements ''approvalRequirements'') ''overrideSigners''; r = approvalRequirements_of requirements in
     and_then (require (is_record bound \<and> is_string (js_get bound ''alg'') \<and> is_string (js_get bound ''value'') \<and>
         is_record verifier \<and> did_prefixed (js_get verifier ''did'') \<and> is_record (js_get requirements ''approvalRequirements''))
       (invalid ''Authorization Requirements are malformed.'')) (\<lambda>_.
     and_then (threshold_field_check requirements ''anyOf'') (\<lambda>_.
     and_then (threshold_field_check requirements ''allOf'') (\<lambda>_.
     and_then (require (overrides = Undefined \<or> is_array overrides \<and> list_all well_formed_override (elements overrides))
       (invalid ''Authorization override Signers are malformed.'')) (\<lambda>_.
     and_then (require (js_get requirements ''result'' = Str ''additionalApprovalsRequired'')
       (invalid ''Approval workflow requires additional-approval requirements.'')) (\<lambda>_.
     and_then (require (hash_matches actionEnvelopeHash bound)
       (Service_Error 400 ''artifact_hash_mismatch'' ''Authorization Requirements are bound to another Action.'')) (\<lambda>_.
     and_then (require (opt_all (\<lambda>d. js_get verifier ''did'' = Str d) verifierDid)
       (Service_Error 403 ''permission_denied'' ''Authorization Requirements came from another Verifier.'')) (\<lambda>_.
     and_then (requirements_expiry_check H requirements now) (\<lambda>_.
     and_then (require (\<not> (thresholdsFor r = [] \<and> opt_list (ar_overrideSigners r) = []))
       (invalid ''Authorization Requirements contain no approval path.'')) (\<lambda>_.
     and_then (no_error (first_error (\<lambda>_. threshold_check) 0 (thresholdsFor r))) (\<lambda>_.
     require (set_size (map os_signer (opt_list (ar_overrideSigners r))) = length (opt_list (ar_overrideSigners r)))
       (invalid ''Override Signer DIDs must be unique.''))))))))))))"

section \<open>Workflows\<close>

definition effectiveState :: "('a) host_scheme \<Rightarrow> stored_action \<Rightarrow> int \<Rightarrow> coordination_state" where
  "effectiveState H stored now =
    (if sa_state stored = Cancelled_State \<or> sa_state stored = Expired_State \<or> sa_state stored = Rejected_State then sa_state stored
     else if parsed_le H (expires_text (sa_actionPackage stored)) now then Expired_State else sa_state stored)"

definition expireIfNeeded :: "('a) host_scheme \<Rightarrow> stored_action \<Rightarrow> int \<Rightarrow> stored_action" where
  "expireIfNeeded H stored now =
    (if sa_state stored = Cancelled_State \<or> sa_state stored = Expired_State \<or> sa_state stored = Rejected_State then stored
     else if parsed_le H (expires_text (sa_actionPackage stored)) now
       then stored\<lparr>sa_state := Expired_State, sa_updatedAt := iso_of_ms now\<rparr> else stored)"

definition validateCreateWorkflow :: "('a) host_scheme \<Rightarrow> coordination_store \<Rightarrow> int \<Rightarrow> jsval \<Rightarrow> jsval \<Rightarrow> service_error + unit" where
  "validateCreateWorkflow H s clock pkg requirements =
    and_then (validateActionPackageBindings H pkg) (\<lambda>_.
    let actionEnvelopeHash = computeJsonHash H (actionEnvelope pkg) in
    and_then (validateAuthorizationRequirements H requirements actionEnvelopeHash None (store_now s clock)) (\<lambda>_.
    case map_get (cs_actionsById s) (aid_value (action_id_of (actionEnvelope pkg))) of
      Some r \<Rightarrow> require (hash_value (ref_actionEnvelopeHash (sa_actionRef (action_at s r))) = hash_value actionEnvelopeHash)
        (Service_Error 409 ''ACTION_ID_CONFLICT'' ''Action ID already exists with a different envelope hash.'')
    | None \<Rightarrow> Inr ()))"

record workflow_response =
  wr_actionRef :: action_ref
  wr_state :: coordination_state
  wr_createdAt :: timestamp
  wr_created :: bool

definition createWorkflow :: "('a) host_scheme \<Rightarrow> coordination_store \<Rightarrow> int \<Rightarrow> jsval \<Rightarrow> jsval \<Rightarrow>
    coordination_store \<times> (service_error + workflow_response)" where
  "createWorkflow H s clock pkg requirements = (case validateCreateWorkflow H s clock pkg requirements of
     Inl e \<Rightarrow> (s, Inl e)
   | Inr _ \<Rightarrow>
     let actionEnvelopeHash = computeJsonHash H (actionEnvelope pkg) in
     (case map_get (cs_actionsByEnvelopeHash s) (hash_value actionEnvelopeHash) of
        Some r \<Rightarrow>
          let existing = expireIfNeeded H (action_at s r) (store_now s clock)
          in (set_action r existing s, Inr \<lparr>wr_actionRef = sa_actionRef existing, wr_state = sa_state existing,
                wr_createdAt = sa_createdAt existing, wr_created = False\<rparr>)
      | None \<Rightarrow>
          let actionRef = buildActionRef pkg actionEnvelopeHash; now = iso_of_ms clock; r = length (cs_actions s);
              stored = \<lparr>sa_actionPackage = pkg, sa_authorizationRequirements = requirements, sa_actionRef = actionRef,
                sa_state = Awaiting_Approvals, sa_approvals = [], sa_createdAt = now, sa_updatedAt = now,
                sa_cancelledAt = None, sa_rejectedAt = None\<rparr>
          in (s\<lparr>cs_actions := cs_actions s @ [stored],
                cs_actionsById := map_set (aid_value (ref_actionId actionRef)) r (cs_actionsById s),
                cs_actionsByEnvelopeHash := map_set (hash_value (ref_actionEnvelopeHash actionRef)) r (cs_actionsByEnvelopeHash s)\<rparr>,
              Inr \<lparr>wr_actionRef = actionRef, wr_state = Awaiting_Approvals, wr_createdAt = now, wr_created = True\<rparr>)))"

record approval_submission =
  sub_actionEnvelopeHash :: hash_object
  sub_approval :: jsval
  sub_decision :: decision

text \<open>
  \<open>approvalPreflight\<close> returns the address of the workflow, the signer and whether the
  signer's decision is already stored. \<open>sub_decision\<close> is \<open>request.approval.decision\<close>. A payload
  without \<open>actionEnvelopeHash\<close> makes the code throw a \<open>TypeError\<close>, where the definition gives the
  mismatch of the hashes; neither changes the store.
\<close>

definition approvalPreflight :: "('a) coordination_host_scheme \<Rightarrow> coordination_store \<Rightarrow> int \<Rightarrow> approval_submission \<Rightarrow>
    service_error + (nat \<times> did \<times> bool)" where
  "approvalPreflight H s clock request =
    (case map_get (cs_actionsByEnvelopeHash s) (hash_value (sub_actionEnvelopeHash request)) of
       None \<Rightarrow> Inl (Service_Error 404 ''ACTION_NOT_FOUND'' ''Pending action was not found.'')
     | Some r \<Rightarrow>
       let stored = action_at s r; h = hash_value (ref_actionEnvelopeHash (sa_actionRef stored));
           payload = (case decodeApprovalPayload H (sub_approval request) of None \<Rightarrow> Undefined | Some p \<Rightarrow> p) in
       if effectiveState H stored (store_now s clock) = Cancelled_State \<or> effectiveState H stored (store_now s clock) = Expired_State
       then Inl (Service_Error 404 ''ACTION_NOT_FOUND'' ''Pending action was not found.'')
       else if js_get (js_get (sub_approval request) ''actionEnvelopeHash'') ''value'' \<noteq> Str h
       then Inl (Service_Error 400 ''APPROVAL_HASH_MISMATCH'' ''Approval is bound to a different action envelope.'')
       else if js_get (js_get payload ''actionEnvelopeHash'') ''value'' \<noteq> Str h
       then Inl (Service_Error 400 ''APPROVAL_HASH_MISMATCH'' ''Signed approval payload is bound to a different action envelope.'')
       else if \<not> truthy (js_get payload ''signerDid'')
       then Inl (Service_Error 400 ''APPROVAL_SIGNER_MISSING'' ''Signed approval payload does not include signerDid.'')
       else if js_get payload ''decision'' \<noteq> Str (decision_text (sub_decision request))
       then Inl (Service_Error 400 ''APPROVAL_DECISION_MISMATCH'' ''Approval decision does not match its signed payload.'')
       else let signer = text_of (js_get payload ''signerDid''); prior = find (\<lambda>entry. sap_signerDid entry = signer) (sa_approvals stored) in
       if signer = proposer_of stored
       then Inl (Service_Error 403 ''SELF_APPROVAL_DENIED'' ''The proposer cannot approve their own action under the JSON policy profile.'')
       else if (case prior of None \<Rightarrow> False | Some entry \<Rightarrow> sap_decision entry \<noteq> sub_decision request)
       then Inl (Service_Error 409 ''SIGNER_DECISION_CONFLICT'' ''A Signer's first decision for an Action Envelope is final.'')
       else if sa_state stored \<noteq> Awaiting_Approvals \<and> prior = None
       then Inl (Service_Error 409 ''ACTION_NOT_AWAITING_APPROVALS'' ''The workflow is no longer accepting new decisions.'')
       else Inr (r, signer, prior \<noteq> None))"

definition validateSubmitApproval :: "('a) coordination_host_scheme \<Rightarrow> coordination_store \<Rightarrow> int \<Rightarrow> approval_submission \<Rightarrow>
    service_error + unit" where
  "validateSubmitApproval H s clock request = and_then (approvalPreflight H s clock request) (\<lambda>_. Inr ())"

definition decisions_of :: "stored_approval list \<Rightarrow> (did \<times> decision) list" where
  "decisions_of xs = map (\<lambda>entry. (sap_signerDid entry, sap_decision entry)) xs"

text \<open>The state change after a stored decision: the requirements may be met or unreachable.\<close>

definition settle_workflow :: "int \<Rightarrow> stored_action \<Rightarrow> stored_action \<times> (service_error + unit)" where
  "settle_workflow clock stored =
    (if sa_state stored \<noteq> Awaiting_Approvals then (stored, Inr ())
     else case evaluateApprovalRequirements (requirements_for stored)
            (decisions_of (filter (\<lambda>entry. sap_signerDid entry \<noteq> proposer_of stored) (sa_approvals stored))) of
       Inl e \<Rightarrow> (stored, Inl (Plain_Error e))
     | Inr status \<Rightarrow>
         (if status = AR_Satisfied then stored\<lparr>sa_state := Ready_For_Submission, sa_updatedAt := iso_of_ms clock\<rparr>
          else if status = AR_Unreachable
          then stored\<lparr>sa_state := Rejected_State, sa_rejectedAt := Some (iso_of_ms clock), sa_updatedAt := iso_of_ms clock\<rparr>
          else stored, Inr ()))"

definition submitApproval :: "('a) coordination_host_scheme \<Rightarrow> coordination_store \<Rightarrow> int \<Rightarrow> approval_submission \<Rightarrow>
    coordination_store \<times> (service_error + workflow_response)" where
  "submitApproval H s clock request = (case approvalPreflight H s clock request of
     Inl e \<Rightarrow> (s, Inl e)
   | Inr (r, signer, duplicate) \<Rightarrow>
     let stored = action_at s r;
         entry = \<lparr>sap_approval = sub_approval request, sap_signerDid = signer, sap_decision = sub_decision request\<rparr>;
         extended = (if duplicate then stored
           else stored\<lparr>sa_approvals := sa_approvals stored @ [entry], sa_updatedAt := iso_of_ms clock\<rparr>);
         (settled, result) = settle_workflow clock extended
     in (set_action r settled s, and_then result (\<lambda>_. Inr \<lparr>wr_actionRef = sa_actionRef settled, wr_state = sa_state settled,
           wr_createdAt = iso_of_ms clock, wr_created = False\<rparr>)))"

definition validateCancelAction :: "('a) host_scheme \<Rightarrow> coordination_store \<Rightarrow> int \<Rightarrow> string \<Rightarrow> did \<Rightarrow> service_error + unit" where
  "validateCancelAction H s clock actionId proposerDid = (case map_get (cs_actionsById s) actionId of
     None \<Rightarrow> Inl (Service_Error 404 ''ACTION_NOT_FOUND'' ''Pending action was not found.'')
   | Some r \<Rightarrow>
     let stored = action_at s r in
     if sa_state stored = Cancelled_State then Inl (Service_Error 404 ''ACTION_NOT_FOUND'' ''Pending action was not found.'')
     else if proposer_of stored \<noteq> proposerDid
     then Inl (Service_Error 403 ''NOT_PROPOSER'' ''Only the original proposer can cancel this action.'')
     else if effectiveState H stored (store_now s clock) = Expired_State
     then Inl (Service_Error 409 ''ACTION_EXPIRED'' ''Action has expired and can no longer be cancelled.'')
     else if sa_state stored = Ready_For_Submission
     then Inl (Service_Error 409 ''ACTION_READY'' ''Action is already ready for resubmission.'')
     else if sa_state stored = Rejected_State
     then Inl (Service_Error 409 ''ACTION_REJECTED'' ''Action approval requirements are already unreachable.'')
     else Inr ())"

definition cancelAction :: "('a) host_scheme \<Rightarrow> coordination_store \<Rightarrow> int \<Rightarrow> string \<Rightarrow> did \<Rightarrow>
    coordination_store \<times> (service_error + workflow_response)" where
  "cancelAction H s clock actionId proposerDid =
    (case and_then (validateCancelAction H s clock actionId proposerDid) (\<lambda>_.
        case map_get (cs_actionsById s) actionId of
          None \<Rightarrow> Inl (Service_Error 404 ''ACTION_NOT_FOUND'' ''Pending action was not found.'')
        | Some r \<Rightarrow> Inr r) of
       Inl e \<Rightarrow> (s, Inl e)
     | Inr r \<Rightarrow>
       let now = iso_of_ms clock;
           cancelled = (action_at s r)\<lparr>sa_state := Cancelled_State, sa_cancelledAt := Some now, sa_updatedAt := now\<rparr>
       in (set_action r cancelled s, Inr \<lparr>wr_actionRef = sa_actionRef cancelled, wr_state = Cancelled_State,
             wr_createdAt = now, wr_created = False\<rparr>))"

definition proposerForAction :: "coordination_store \<Rightarrow> string \<Rightarrow> did option" where
  "proposerForAction s actionId = map_option (\<lambda>r. proposer_of (action_at s r)) (map_get (cs_actionsById s) actionId)"

definition hasActionEnvelopeHash :: "coordination_store \<Rightarrow> string \<Rightarrow> bool" where
  "hasActionEnvelopeHash s h \<longleftrightarrow> map_get (cs_actionsByEnvelopeHash s) h \<noteq> None"

definition isEligibleSigner :: "coordination_store \<Rightarrow> string \<Rightarrow> did \<Rightarrow> bool" where
  "isEligibleSigner s h did = (case map_get (cs_actionsByEnvelopeHash s) h of
     None \<Rightarrow> False
   | Some r \<Rightarrow> list_ex (\<lambda>t. did \<in> set (at_eligibleSigners t)) (thresholdsFor (requirements_for (action_at s r))) \<or>
       list_ex (\<lambda>entry. os_signer entry = did) (opt_list (ar_overrideSigners (requirements_for (action_at s r)))))"

definition participantsForActionHash :: "coordination_store \<Rightarrow> string \<Rightarrow> did list" where
  "participantsForActionHash s h = (case map_get (cs_actionsByEnvelopeHash s) h of
     None \<Rightarrow> []
   | Some r \<Rightarrow> let stored = action_at s r in
       unique ([proposer_of stored, text_of (js_get (js_get (sa_authorizationRequirements stored) ''verifier'') ''did'')] @
         concat (map at_eligibleSigners (thresholdsFor (requirements_for stored))) @
         map os_signer (opt_list (ar_overrideSigners (requirements_for stored)))))"

section \<open>Polling for workflow work\<close>

record approval_request =
  arq_actionRef :: action_ref
  arq_actionEnvelope :: jsval
  arq_executionPayload :: jsval
  arq_authorizationRequirements :: jsval
  arq_requestedDecision :: decision

definition approvalRequestFor :: "stored_action \<Rightarrow> did \<Rightarrow> approval_request option" where
  "approvalRequestFor stored did =
    (let requirement = find (\<lambda>t. did \<in> set (at_eligibleSigners t)) (thresholdsFor (requirements_for stored));
         override = find (\<lambda>entry. os_signer entry = did) (opt_list (ar_overrideSigners (requirements_for stored)));
         fallback = (case override of None \<Rightarrow> Reject
           | Some entry \<Rightarrow> if ''approve'' \<in> set (os_permissions entry) then Approve else Reject);
         decision = (case requirement of None \<Rightarrow> fallback
           | Some t \<Rightarrow> (case at_decision t of None \<Rightarrow> fallback | Some d \<Rightarrow> d))
     in if requirement = None \<and> override = None then None
        else if list_ex (\<lambda>entry. sap_signerDid entry = did) (sa_approvals stored) then None
        else Some \<lparr>arq_actionRef = sa_actionRef stored, arq_actionEnvelope = actionEnvelope (sa_actionPackage stored),
          arq_executionPayload = executionPayload (sa_actionPackage stored),
          arq_authorizationRequirements = sa_authorizationRequirements stored, arq_requestedDecision = decision\<rparr>)"

definition approvedSignersFor :: "ar_threshold \<Rightarrow> decision \<Rightarrow> stored_approval list \<Rightarrow> did list" where
  "approvedSignersFor t decision approvals = unique (map sap_signerDid (filter (\<lambda>entry. sap_signerDid entry \<noteq> [] \<and>
     sap_signerDid entry \<in> set (at_eligibleSigners t) \<and> sap_decision entry = decision) approvals))"

definition isThresholdSatisfied :: "ar_threshold \<Rightarrow> stored_approval list \<Rightarrow> bool" where
  "isThresholdSatisfied t approvals =
     num_le (at_threshold t) (num_of_nat (length (approvedSignersFor t (expected_decision t) approvals)))"

record progress =
  pg_required :: jsnum
  pg_collected :: jsnum
  pg_pending :: "did list"

definition num_min :: "jsnum \<Rightarrow> jsnum \<Rightarrow> jsnum" where
  "num_min a b = (if a = NaN \<or> b = NaN then NaN else if num_le a b then a else b)"

definition progressFor :: "approval_requirements \<Rightarrow> stored_approval list \<Rightarrow> progress" where
  "progressFor requirements approvals =
    (let thresholds = thresholdsFor requirements;
         unmet = find (\<lambda>t. \<not> isThresholdSatisfied t approvals) thresholds
     in case (unmet, thresholds) of
          (None, []) \<Rightarrow> \<lparr>pg_required = num_of_nat 0, pg_collected = num_of_nat 0, pg_pending = []\<rparr>
        | _ \<Rightarrow> let t = (case unmet of Some t \<Rightarrow> t | None \<Rightarrow> hd thresholds);
                   approved = approvedSignersFor t (expected_decision t) approvals
               in \<lparr>pg_required = at_threshold t,
                   pg_collected = num_min (num_of_nat (length approved)) (at_threshold t),
                   pg_pending = filter (\<lambda>did. \<not> list_ex (\<lambda>entry. sap_signerDid entry = did) approvals) (at_eligibleSigners t)\<rparr>)"

text \<open>\<open>{...v, key: x}\<close>: a known key keeps its position.\<close>

definition with_member :: "string \<Rightarrow> jsval \<Rightarrow> jsval \<Rightarrow> jsval" where
  "with_member key x v = Obj (map_set key x (entries v))"

definition signature_value_of :: "jsval \<Rightarrow> jsval" where
  "signature_value_of approval = js_get (js_get approval ''signature'') ''value''"

definition buildCompletedActionPackage :: "int \<Rightarrow> stored_action \<Rightarrow> jsval" where
  "buildCompletedActionPackage clock stored =
    (let bundle = approvalBundle (sa_actionPackage stored); existing = elements (js_get bundle ''approvals'');
         existingSignatures = map signature_value_of existing;
         collected = filter (\<lambda>a. \<not> list_ex (same_value_zero (signature_value_of a)) existingSignatures)
           (map sap_approval (sa_approvals stored))
     in with_member ''approvalBundle''
          (with_member ''createdAt'' (Str (iso_of_ms clock))
            (with_member ''approvals'' (Arr (existing @ collected))
              (with_member ''actionEnvelopeHash'' (hash_json (ref_actionEnvelopeHash (sa_actionRef stored))) bundle)))
          (sa_actionPackage stored))"

record action_update =
  upd_actionRef :: action_ref
  upd_state :: coordination_state
  upd_expiresAt :: timestamp
  upd_progress :: "progress option"
  upd_actionPackage :: "jsval option"
  upd_cancelledAt :: "timestamp option"
  upd_rejectedAt :: "timestamp option"

definition buildActionUpdate :: "int \<Rightarrow> stored_action \<Rightarrow> action_update" where
  "buildActionUpdate clock stored =
    (let update = \<lparr>upd_actionRef = sa_actionRef stored, upd_state = sa_state stored,
           upd_expiresAt = expires_text (sa_actionPackage stored), upd_progress = None, upd_actionPackage = None,
           upd_cancelledAt = None, upd_rejectedAt = None\<rparr>
     in case sa_state stored of
          Cancelled_State \<Rightarrow> update\<lparr>upd_cancelledAt := sa_cancelledAt stored\<rparr>
        | Rejected_State \<Rightarrow> update\<lparr>upd_rejectedAt := sa_rejectedAt stored\<rparr>
        | Expired_State \<Rightarrow> update
        | Awaiting_Approvals \<Rightarrow> update\<lparr>upd_progress := Some (progressFor (requirements_for stored) (sa_approvals stored))\<rparr>
        | Ready_For_Submission \<Rightarrow> update\<lparr>upd_progress := Some (progressFor (requirements_for stored) (sa_approvals stored)),
            upd_actionPackage := Some (buildCompletedActionPackage clock stored)\<rparr>)"

fun poll_loop :: "('a) host_scheme \<Rightarrow> int \<Rightarrow> did \<Rightarrow> nat list \<Rightarrow> coordination_store \<Rightarrow>
    coordination_store \<times> approval_request list \<times> action_update list" where
  "poll_loop H clock did [] s = (s, [], [])"
| "poll_loop H clock did (r # rs) s =
    (let stored = expireIfNeeded H (action_at s r) (store_now s clock);
         request = (if sa_state stored = Awaiting_Approvals then approvalRequestFor stored did else None);
         (s', requests, updates) = poll_loop H clock did rs (set_action r stored s)
     in (s', (case request of None \<Rightarrow> requests | Some q \<Rightarrow> q # requests),
         if proposer_of stored = did then buildActionUpdate clock stored # updates else updates))"

definition poll :: "('a) host_scheme \<Rightarrow> coordination_store \<Rightarrow> int \<Rightarrow> did \<Rightarrow>
    coordination_store \<times> approval_request list \<times> action_update list" where
  "poll H s clock did = poll_loop H clock did (map snd (cs_actionsById s)) s"

fun outstanding_loop :: "('a) host_scheme \<Rightarrow> int \<Rightarrow> did \<Rightarrow> nat list \<Rightarrow> coordination_store \<Rightarrow> coordination_store \<times> bool" where
  "outstanding_loop H clock did [] s = (s, False)"
| "outstanding_loop H clock did (r # rs) s =
    (let stored = expireIfNeeded H (action_at s r) (store_now s clock); s' = set_action r stored s
     in if sa_state stored = Awaiting_Approvals \<and> approvalRequestFor stored did \<noteq> None then (s', True)
        else if proposer_of stored = did then (s', True)
        else outstanding_loop H clock did rs s')"

definition hasOutstandingCoordinationWork :: "('a) host_scheme \<Rightarrow> coordination_store \<Rightarrow> int \<Rightarrow> did \<Rightarrow> coordination_store \<times> bool" where
  "hasOutstandingCoordinationWork H s clock did = outstanding_loop H clock did (map snd (cs_actionsById s)) s"

section \<open>Relayed actions and deliveries\<close>

fun storeEnvelope_loop :: "delivery_envelope \<Rightarrow> did list \<Rightarrow> coordination_store \<Rightarrow> coordination_store" where
  "storeEnvelope_loop envelope [] s = s"
| "storeEnvelope_loop envelope (recipient # recipients) s = storeEnvelope_loop envelope recipients
     (s\<lparr>cs_deliveries := cs_deliveries s @
          [\<lparr>sd_sequence = cs_nextDeliverySequence s, sd_recipient = recipient, sd_envelope = envelope\<rparr>],
        cs_nextDeliverySequence := cs_nextDeliverySequence s + 1\<rparr>)"

definition storeEnvelope :: "delivery_envelope \<Rightarrow> coordination_store \<Rightarrow> coordination_store" where
  "storeEnvelope envelope s = storeEnvelope_loop envelope (de_recipients envelope) s"

definition recordRoutingAudit :: "('a) host_scheme \<Rightarrow> int \<Rightarrow> routing_purpose \<Rightarrow> delivery_envelope \<Rightarrow> did \<Rightarrow>
    coordination_store \<Rightarrow> coordination_store" where
  "recordRoutingAudit H clock purpose envelope designatedVerifierDid s = s\<lparr>cs_routingAuditEntries := cs_routingAuditEntries s @
     [\<lparr>au_purpose = purpose, au_sender = de_sender envelope, au_recipients = de_recipients envelope,
       au_designatedVerifierDid = designatedVerifierDid, au_payloadHash = computeJsonHash H (de_payload envelope),
       au_createdAt = iso_of_ms clock\<rparr>]\<rparr>"

definition routingAudit :: "coordination_store \<Rightarrow> routing_audit_entry list" where
  "routingAudit s = cs_routingAuditEntries s"

abbreviation package_of :: "delivery_envelope \<Rightarrow> jsval" where
  "package_of envelope \<equiv> js_get (de_payload envelope) ''actionPackage''"

definition validateRelayedAction :: "('a) host_scheme \<Rightarrow> coordination_store \<Rightarrow> delivery_envelope \<Rightarrow> did \<Rightarrow> service_error + unit" where
  "validateRelayedAction H s envelope verifierDid =
    and_then (validateActionPackageBindings H (package_of envelope)) (\<lambda>_.
    let h = computeJsonHash H (actionEnvelope (package_of envelope));
        actionId = aid_value (action_id_of (actionEnvelope (package_of envelope))) in
    and_then (case map_get (cs_relayedActionsById s) actionId of
        Some r \<Rightarrow> require (hash_value (ref_actionEnvelopeHash (ra_actionRef (cs_relayed s ! r))) = hash_value h)
          (Service_Error 409 ''ACTION_ID_CONFLICT'' ''Action ID already exists with a different envelope hash.'')
      | None \<Rightarrow> Inr ()) (\<lambda>_.
    require (verifierDid \<in> set (de_recipients envelope)) (invalid ''Configured Verifier DID is not an envelope recipient.'')))"

text \<open>The promise of the relayed action is its address; it settles when a response is stored.\<close>

definition beginRelayedAction :: "('a) host_scheme \<Rightarrow> coordination_store \<Rightarrow> int \<Rightarrow> delivery_envelope \<Rightarrow> did \<Rightarrow>
    coordination_store \<times> (service_error + (bool \<times> nat))" where
  "beginRelayedAction H s clock envelope verifierDid = (case validateRelayedAction H s envelope verifierDid of
     Inl e \<Rightarrow> (s, Inl e)
   | Inr _ \<Rightarrow>
     let h = computeJsonHash H (actionEnvelope (package_of envelope)) in
     (case map_get (cs_relayedActionsByEnvelopeHash s) (hash_value h) of
        Some r \<Rightarrow> (s, Inr (False, r))
      | None \<Rightarrow>
          let actionRef = buildActionRef (package_of envelope) h; r = length (cs_relayed s);
              stored = \<lparr>ra_envelope = envelope, ra_actionRef = actionRef, ra_verifierDid = verifierDid,
                ra_createdAt = iso_of_ms clock, ra_response = None\<rparr>;
              s' = s\<lparr>cs_relayed := cs_relayed s @ [stored],
                cs_relayedActionsById := map_set (aid_value (ref_actionId actionRef)) r (cs_relayedActionsById s),
                cs_relayedActionsByEnvelopeHash := map_set (hash_value h) r (cs_relayedActionsByEnvelopeHash s)\<rparr>
          in (recordRoutingAudit H clock Initial_Action envelope verifierDid (storeEnvelope envelope s'), Inr (True, r))))"

definition responseDeliveryTarget :: "('a) host_scheme \<Rightarrow> coordination_store \<Rightarrow> int \<Rightarrow> delivery_envelope \<Rightarrow> did list \<Rightarrow>
    service_error + nat" where
  "responseDeliveryTarget H s clock envelope administrativelyAuthorizedRecipients =
    (let payload = de_payload envelope; responseHash = js_get payload ''actionEnvelopeHash'';
         requirements = js_get payload ''authorizationRequirements'';
         additional = (js_get payload ''result'' = Str ''additionalApprovalsRequired'') in
     case (if truthy responseHash then map_get (cs_relayedActionsByEnvelopeHash s) (text_of (js_get responseHash ''value'')) else None) of
       None \<Rightarrow> Inl (Service_Error 404 ''ACTION_NOT_FOUND'' ''Relayed action was not found.'')
     | Some r \<Rightarrow>
       let stored = cs_relayed s ! r; proposer = proposer_did (actionEnvelope (package_of (ra_envelope stored))) in
       and_then (require (js_get responseHash ''alg'' = Str (hash_alg (ref_actionEnvelopeHash (ra_actionRef stored))))
         (Service_Error 400 ''ACTION_HASH_MISMATCH'' ''Action Response hash algorithm does not match the relayed Action.'')) (\<lambda>_.
       and_then (require (de_sender envelope = ra_verifierDid stored \<and>
           js_get (js_get payload ''verifier'') ''did'' = Str (ra_verifierDid stored))
         (Service_Error 403 ''permission_denied'' ''Response sender is not the relayed Action's designated Verifier.'')) (\<lambda>_.
       and_then (require (proposer \<in> set (de_recipients envelope)) (invalid ''Response envelope must address the Action Proposer.'')) (\<lambda>_.
       and_then (require (\<not> (additional \<and> \<not> truthy requirements))
         (invalid ''additionalApprovalsRequired response must include Authorization Requirements.'')) (\<lambda>_.
       and_then (require (\<not> (\<not> additional \<and> truthy requirements))
         (invalid ''Authorization Requirements are valid only with additionalApprovalsRequired.'')) (\<lambda>_.
       and_then (if truthy requirements then validateAuthorizationRequirements H requirements
           (ref_actionEnvelopeHash (ra_actionRef stored)) (Some (ra_verifierDid stored)) (store_now s clock) else Inr ()) (\<lambda>_.
       and_then (require (list_all (\<lambda>did. did = proposer \<or> did \<in> set administrativelyAuthorizedRecipients) (de_recipients envelope))
         (Service_Error 403 ''permission_denied'' ''Response envelope contains an unauthorized recipient.'')) (\<lambda>_.
       Inr r))))))))"

definition validateResponseDelivery :: "('a) host_scheme \<Rightarrow> coordination_store \<Rightarrow> int \<Rightarrow> delivery_envelope \<Rightarrow> did list \<Rightarrow>
    service_error + unit" where
  "validateResponseDelivery H s clock envelope administrativelyAuthorizedRecipients =
     and_then (responseDeliveryTarget H s clock envelope administrativelyAuthorizedRecipients) (\<lambda>_. Inr ())"

definition submitResponseDelivery :: "('a) host_scheme \<Rightarrow> coordination_store \<Rightarrow> int \<Rightarrow> delivery_envelope \<Rightarrow> did list \<Rightarrow>
    coordination_store \<times> (service_error + timestamp)" where
  "submitResponseDelivery H s clock envelope administrativelyAuthorizedRecipients =
    (case responseDeliveryTarget H s clock envelope administrativelyAuthorizedRecipients of
       Inl e \<Rightarrow> (s, Inl e)
     | Inr r \<Rightarrow>
       let stored = cs_relayed s ! r;
           s' = recordRoutingAudit H clock Action_Response envelope (ra_verifierDid stored) (storeEnvelope envelope s);
           answered = (if ra_response stored = None then stored\<lparr>ra_response := Some (de_payload envelope)\<rparr> else stored)
       in (s'\<lparr>cs_relayed := (cs_relayed s')[r := answered]\<rparr>, Inr (iso_of_ms clock)))"

definition retrievable :: "('a) host_scheme \<Rightarrow> int \<Rightarrow> stored_delivery \<Rightarrow> bool" where
  "retrievable H now entry = (case de_expiresAt (sd_envelope entry) of None \<Rightarrow> True
     | Some t \<Rightarrow> (case date_parse (legacy_date H) t of None \<Rightarrow> False | Some e \<Rightarrow> now < e))"

definition parseCursor :: "string option \<Rightarrow> service_error + jsnum" where
  "parseCursor cursor = (case cursor of None \<Rightarrow> Inr (num_of_nat 0)
     | Some c \<Rightarrow> if \<not> (c \<noteq> [] \<and> list_all is_digit c) then Inl (Service_Error 400 ''INVALID_CURSOR'' ''Relay cursor is invalid.'')
                 else Inr (js_number_of_string c))"

definition pollDeliveries :: "('a) host_scheme \<Rightarrow> coordination_store \<Rightarrow> int \<Rightarrow> did \<Rightarrow> string option \<Rightarrow>
    service_error + (delivery_envelope list \<times> string option)" where
  "pollDeliveries H s clock did cursor = and_then (parseCursor cursor) (\<lambda>after.
     let deliveries = take DELIVERY_PAGE_SIZE
           (filter (retrievable H (store_now s clock))
             (filter (\<lambda>entry. sd_recipient entry = did)
               (filter (\<lambda>entry. num_lt after (num_of_nat (sd_sequence entry))) (cs_deliveries s))));
         nextCursor = (if deliveries \<noteq> [] then Some (show_nat (sd_sequence (last deliveries))) else None)
     in Inr (map sd_envelope deliveries, nextCursor))"

definition hasOutstandingRelayWork :: "('a) host_scheme \<Rightarrow> coordination_store \<Rightarrow> int \<Rightarrow> did \<Rightarrow> bool" where
  "hasOutstandingRelayWork H s clock did =
     list_ex (\<lambda>entry. sd_recipient entry = did \<and> retrievable H (store_now s clock) entry) (cs_deliveries s)"

end
