(* ===== verification/NumberText.thy ===== *)
theory NumberText
  imports JsValue
begin

text \<open>
  Reading back a printed natural number: \<open>Number(String(n)) === n\<close> up to \<open>2^53\<close>, the
  safe integers of JavaScript.
\<close>

lemma pow2_pos [simp]: "0 < pow2 k"
  by (simp add: pow2_def)

lemma pow2_nonzero [simp]: "pow2 k \<noteq> 0"
  by (simp add: pow2_def)

lemma ilog2_le:
  assumes "0 < n" "n < 2 ^ 53"
  shows "ilog2 (of_nat n) \<le> 52"
proof -
  have q: "quotient_of (of_nat n) = (int n, 1)" by (rule quotient_of_rat_of_nat)
  have "floorlog 2 n \<le> 53" using assms by (simp add: floorlog_leI)
  moreover have "floorlog 2 (Suc 0) = 1" by (simp add: floorlog_def)
  ultimately show ?thesis by (simp add: ilog2_def q Let_def)
qed

lemma round_half_even_of_int [simp]: "round_half_even (of_int k) = k"
  by (simp add: round_half_even_def Let_def)

lemma pow2_minus: "u \<le> 0 \<Longrightarrow> of_nat n / pow2 u = (of_int (int n * 2 ^ nat (- u)) :: rat)"
  by (auto simp: pow2_def)

lemma round_pos_nat:
  assumes "0 < n" "n < 2 ^ 53"
  shows "round_pos (of_nat n) = Fin (of_nat n)"
proof -
  define u where "u = max (ilog2 (of_nat n) - 52) (- 1074)"
  have u: "u \<le> 0" using ilog2_le [OF assms] by (simp add: u_def)
  have "of_int (round_half_even (of_nat n / pow2 u)) * pow2 u = of_nat n / pow2 u * pow2 u"
    by (simp only: pow2_minus [OF u] round_half_even_of_int)
  also have "\<dots> = of_nat n" by simp
  finally have v: "of_int (round_half_even (of_nat n / pow2 u)) * pow2 u = of_nat n" .
  have "(of_nat n :: rat) < of_nat (2 ^ 53)" using assms(2) by (simp only: of_nat_less_iff)
  also have "\<dots> \<le> pow2 1024"
  proof -
    have "(2 :: rat) ^ 53 \<le> 2 ^ 1024" by (rule power_increasing) simp_all
    then show ?thesis by (simp add: pow2_def)
  qed
  finally show ?thesis by (simp add: round_pos_def v u_def [symmetric] Let_def)
qed

lemma round_double_nat: "n < 2 ^ 53 \<Longrightarrow> round_double (of_nat n) = num_of_nat n"
  by (cases "n = 0") (simp_all add: round_double_def round_pos_nat num_of_nat_def)

lemma digit_not_special:
  assumes "is_digit c"
  shows "\<not> is_space c" "c \<noteq> CHR ''-''" "c \<noteq> CHR ''+''" "c \<noteq> CHR ''.''" "c \<noteq> CHR ''x''" "c \<noteq> CHR ''X''"
    "c \<noteq> CHR ''o''" "c \<noteq> CHR ''O''" "c \<noteq> CHR ''b''" "c \<noteq> CHR ''B''" "c \<noteq> CHR ''I''"
  using assms by (auto simp: is_digit_def is_space_def Let_def)

lemma trim_digits: "list_all is_digit s \<Longrightarrow> trim s = s"
proof -
  assume a: "list_all is_digit s"
  have d: "dropWhile is_space t = t" if "list_all is_digit t" for t
    using that by (cases t) (simp_all add: digit_not_special)
  have "list_all is_digit (rev s)" using a by simp
  from d [OF a] d [OF this] show "trim s = s" by (simp add: trim_def)
qed

lemma parse_decimal_digits:
  assumes "list_all is_digit s" "s \<noteq> []"
  shows "parse_decimal s = round_double (of_nat (nat_of_digits s))"
proof -
  have "s \<noteq> ''Infinity''" using assms(1) by (auto simp: is_digit_def)
  moreover have "split_digits s = (s, [])"
    using assms(1) by (simp add: split_digits_def takeWhile_eq_all_conv dropWhile_eq_Nil_conv list_all_iff)
  ultimately show ?thesis
    using assms(2) by (simp add: parse_decimal_def parse_unsigned_decimal_def parse_exponent_def pow10_def)
qed

lemma no_prefix_digits:
  assumes "list_all is_digit s" "\<not> is_digit c"
  shows "take 2 s \<noteq> [CHR ''0'', c]"
proof
  assume "take 2 s = [CHR ''0'', c]"
  then have "c \<in> set s" by (metis in_set_takeD list.set_intros(1) list.set_intros(2))
  with assms show False by (simp add: list_all_iff)
qed

lemma js_number_of_digits:
  assumes "list_all is_digit s" "s \<noteq> []"
  shows "js_number_of_string s = round_double (of_nat (nat_of_digits s))"
proof -
  have hd: "is_digit (hd s)" using assms by (cases s) simp_all
  have "\<not> is_digit (CHR ''x'')" "\<not> is_digit (CHR ''X'')" "\<not> is_digit (CHR ''o'')" "\<not> is_digit (CHR ''O'')"
      "\<not> is_digit (CHR ''b'')" "\<not> is_digit (CHR ''B'')"
    by (simp_all add: is_digit_def)
  note np = this [THEN no_prefix_digits [OF assms(1)]]
  show ?thesis
    unfolding js_number_of_string_def Let_def trim_digits [OF assms(1)]
    using assms(2) np digit_not_special(2,3) [OF hd] parse_decimal_digits [OF assms] by simp
qed

lemma js_number_show_nat: "n < 2 ^ 53 \<Longrightarrow> js_number_of_string (show_nat n) = num_of_nat n"
  by (simp add: js_number_of_digits show_nat_digits round_double_nat)

lemma num_lt_nat [simp]: "num_lt (num_of_nat a) (num_of_nat b) \<longleftrightarrow> a < b"
  by (simp add: num_of_nat_def)

end
