(* ===== verification/CoordinationProperties.thy ===== *)
theory CoordinationProperties
  imports CoordinationStore NumberText
begin

text \<open>
  The coordination store as a state machine over all its operations, the invariant of its
  reachable states, and what follows for workflows, relayed responses and deliveries.
\<close>

section \<open>The store as a state machine\<close>

datatype coordination_cmd =
    Create_Workflow jsval jsval
  | Submit_Approval approval_submission
  | Cancel_Action string did
  | Poll did
  | Outstanding did
  | Begin_Relayed delivery_envelope did
  | Submit_Response delivery_envelope "did list"

fun coordination_step :: "('a) coordination_host_scheme \<Rightarrow> coordination_store \<Rightarrow> int \<times> coordination_cmd \<Rightarrow> coordination_store" where
  "coordination_step H s (clock, Create_Workflow pkg requirements) = fst (createWorkflow H s clock pkg requirements)"
| "coordination_step H s (clock, Submit_Approval request) = fst (submitApproval H s clock request)"
| "coordination_step H s (clock, Cancel_Action actionId did) = fst (cancelAction H s clock actionId did)"
| "coordination_step H s (clock, Poll did) = fst (poll H s clock did)"
| "coordination_step H s (clock, Outstanding did) = fst (hasOutstandingCoordinationWork H s clock did)"
| "coordination_step H s (clock, Begin_Relayed envelope verifier) = fst (beginRelayedAction H s clock envelope verifier)"
| "coordination_step H s (clock, Submit_Response envelope recipients) = fst (submitResponseDelivery H s clock envelope recipients)"

definition run_coordination ::
    "('a) coordination_host_scheme \<Rightarrow> coordination_store \<Rightarrow> (int \<times> coordination_cmd) list \<Rightarrow> coordination_store" where
  "run_coordination H s cs = foldl (coordination_step H) s cs"

section \<open>Indexes over the heap of records\<close>

text \<open>The map holds exactly the keys of the records, each at the record's address.\<close>

definition indexed :: "('a \<Rightarrow> string) \<Rightarrow> 'a list \<Rightarrow> (string, nat) jsmap \<Rightarrow> bool" where
  "indexed key heap m \<longleftrightarrow> map_wf m \<and> (\<forall>k r. map_get m k = Some r \<longleftrightarrow> r < length heap \<and> key (heap ! r) = k)"

lemma indexed_Nil [simp]: "indexed key [] []"
  by (simp add: indexed_def)

lemma indexed_get: "indexed key heap m \<Longrightarrow> map_get m k = Some r \<Longrightarrow> r < length heap \<and> key (heap ! r) = k"
  by (simp add: indexed_def)

lemma indexed_at: "indexed key heap m \<Longrightarrow> r < length heap \<Longrightarrow> map_get m (key (heap ! r)) = Some r"
  by (simp add: indexed_def)

lemma indexed_refs: "indexed key heap m \<Longrightarrow> list_all (\<lambda>r. r < length heap) (map snd m)"
  by (auto simp: indexed_def list_all_iff map_get_in_set [symmetric])

lemma indexed_append:
  assumes "indexed key heap m" "k = key a" "map_get m k = None" "n = length heap"
  shows "indexed key (heap @ [a]) (map_set k n m)"
  unfolding indexed_def
proof (intro conjI allI)
  show "map_wf (map_set k n m)" using assms(1) by (simp add: indexed_def)
next
  fix k' r
  from assms(2,3) have fresh: "r < length heap \<Longrightarrow> key (heap ! r) \<noteq> key a" using indexed_at [OF assms(1)] by fastforce
  show "map_get (map_set k n m) k' = Some r \<longleftrightarrow> r < length (heap @ [a]) \<and> key ((heap @ [a]) ! r) = k'"
    using assms(1,2,4) fresh by (cases "r < length heap") (auto simp: indexed_def nth_append)
qed

lemma indexed_update:
  assumes "indexed key heap m" "r < length heap" "key a = key (heap ! r)"
  shows "indexed key (heap[r := a]) m"
  using assms by (auto simp: indexed_def nth_list_update)

section \<open>The invariant\<close>

abbreviation action_id_key :: "stored_action \<Rightarrow> string" where
  "action_id_key a \<equiv> aid_value (ref_actionId (sa_actionRef a))"

abbreviation action_hash_key :: "stored_action \<Rightarrow> string" where
  "action_hash_key a \<equiv> hash_value (ref_actionEnvelopeHash (sa_actionRef a))"

abbreviation relayed_id_key :: "relayed_action \<Rightarrow> string" where
  "relayed_id_key a \<equiv> aid_value (ref_actionId (ra_actionRef a))"

abbreviation relayed_hash_key :: "relayed_action \<Rightarrow> string" where
  "relayed_hash_key a \<equiv> hash_value (ref_actionEnvelopeHash (ra_actionRef a))"

abbreviation workflow_status :: "stored_action \<Rightarrow> string + ar_status" where
  "workflow_status a \<equiv> evaluateApprovalRequirements (requirements_for a) (decisions_of (sa_approvals a))"

text \<open>
  A workflow's record: its reference names its package, its decisions are of distinct
  signers other than the proposer and as their payloads say, and its state says what the
  decisions amount to.
\<close>

definition entry_signed :: "('a) coordination_host_scheme \<Rightarrow> stored_action \<Rightarrow> stored_approval \<Rightarrow> bool" where
  "entry_signed H a entry \<longleftrightarrow> (\<exists>payload. decodeApprovalPayload H (sap_approval entry) = Some payload \<and>
     sap_signerDid entry = text_of (js_get payload ''signerDid'') \<and>
     js_get payload ''decision'' = Str (decision_text (sap_decision entry)) \<and>
     js_get (js_get payload ''actionEnvelopeHash'') ''value'' = Str (action_hash_key a))"

definition workflow_ok :: "('a) coordination_host_scheme \<Rightarrow> stored_action \<Rightarrow> bool" where
  "workflow_ok H a \<longleftrightarrow>
     sa_actionRef a = buildActionRef (sa_actionPackage a) (computeJsonHash H (actionEnvelope (sa_actionPackage a))) \<and>
     distinct (map sap_signerDid (sa_approvals a)) \<and>
     proposer_of a \<notin> sap_signerDid ` set (sa_approvals a) \<and>
     list_all (entry_signed H a) (sa_approvals a) \<and>
     (sa_state a = Ready_For_Submission \<longrightarrow> workflow_status a = Inr AR_Satisfied) \<and>
     (sa_state a = Rejected_State \<longrightarrow> workflow_status a = Inr AR_Unreachable \<and> sa_rejectedAt a \<noteq> None) \<and>
     (sa_state a = Cancelled_State \<longrightarrow> sa_cancelledAt a \<noteq> None)"

definition relayed_ok :: "('a) host_scheme \<Rightarrow> relayed_action \<Rightarrow> bool" where
  "relayed_ok H a \<longleftrightarrow>
     ra_actionRef a = buildActionRef (package_of (ra_envelope a)) (computeJsonHash H (actionEnvelope (package_of (ra_envelope a)))) \<and>
     ra_verifierDid a \<in> set (de_recipients (ra_envelope a)) \<and>
     opt_all (\<lambda>p. js_get (js_get p ''verifier'') ''did'' = Str (ra_verifierDid a)) (ra_response a)"

definition coordination_inv :: "('a) coordination_host_scheme \<Rightarrow> coordination_store \<Rightarrow> bool" where
  "coordination_inv H s \<longleftrightarrow>
     indexed action_id_key (cs_actions s) (cs_actionsById s) \<and>
     indexed action_hash_key (cs_actions s) (cs_actionsByEnvelopeHash s) \<and>
     list_all (workflow_ok H) (cs_actions s) \<and>
     indexed relayed_id_key (cs_relayed s) (cs_relayedActionsById s) \<and>
     indexed relayed_hash_key (cs_relayed s) (cs_relayedActionsByEnvelopeHash s) \<and>
     list_all (relayed_ok H) (cs_relayed s) \<and>
     map sd_sequence (cs_deliveries s) = [1..<cs_nextDeliverySequence s] \<and> 1 \<le> cs_nextDeliverySequence s"

lemma inv_newCoordinationStore: "coordination_inv H (newCoordinationStore now)"
  by (simp add: coordination_inv_def newCoordinationStore_def)

text \<open>Replacing one workflow by one with the same reference that is well formed.\<close>

lemma inv_set_action:
  assumes "coordination_inv H s" "r < length (cs_actions s)" "workflow_ok H a" "sa_actionRef a = sa_actionRef (action_at s r)"
  shows "coordination_inv H (set_action r a s)"
proof -
  have "list_all (workflow_ok H) ((cs_actions s)[r := a])"
    using assms by (auto simp: coordination_inv_def list_all_length nth_list_update)
  with assms show ?thesis
    unfolding coordination_inv_def set_action_def by (simp add: indexed_update)
qed

lemma inv_workflow_at: "coordination_inv H s \<Longrightarrow> r < length (cs_actions s) \<Longrightarrow> workflow_ok H (action_at s r)"
  by (simp add: coordination_inv_def list_all_length)

lemma inv_byId: "coordination_inv H s \<Longrightarrow> map_get (cs_actionsById s) k = Some r \<Longrightarrow>
    r < length (cs_actions s) \<and> action_id_key (action_at s r) = k"
  unfolding coordination_inv_def using indexed_get by fastforce

lemma inv_byHash: "coordination_inv H s \<Longrightarrow> map_get (cs_actionsByEnvelopeHash s) k = Some r \<Longrightarrow>
    r < length (cs_actions s) \<and> action_hash_key (action_at s r) = k"
  unfolding coordination_inv_def using indexed_get by fastforce

section \<open>Every operation keeps the invariant\<close>

lemma entry_signed_same: "sa_actionRef b = sa_actionRef a \<Longrightarrow> entry_signed H b = entry_signed H a"
  by (auto simp: entry_signed_def fun_eq_iff)

lemma entry_signed_update [simp]:
  "entry_signed H (a\<lparr>sa_state := x\<rparr>) = entry_signed H a" "entry_signed H (a\<lparr>sa_updatedAt := t\<rparr>) = entry_signed H a"
  "entry_signed H (a\<lparr>sa_approvals := es\<rparr>) = entry_signed H a" "entry_signed H (a\<lparr>sa_cancelledAt := c\<rparr>) = entry_signed H a"
  "entry_signed H (a\<lparr>sa_rejectedAt := c\<rparr>) = entry_signed H a"
  by (rule entry_signed_same; simp)+

lemma workflow_ok_expire: "workflow_ok H a \<Longrightarrow> workflow_ok H (expireIfNeeded H' a now)"
  by (simp add: expireIfNeeded_def workflow_ok_def)

lemma expire_actionRef [simp]: "sa_actionRef (expireIfNeeded H a now) = sa_actionRef a"
  "sa_actionPackage (expireIfNeeded H a now) = sa_actionPackage a"
  by (simp_all add: expireIfNeeded_def)

lemma inv_expire:
  assumes "coordination_inv H s" "r < length (cs_actions s)"
  shows "coordination_inv H (set_action r (expireIfNeeded H' (action_at s r) now) s)"
  by (rule inv_set_action [OF assms]) (simp_all add: workflow_ok_expire inv_workflow_at [OF assms])

lemma length_set_action [simp]: "length (cs_actions (set_action r a s)) = length (cs_actions s)"
  by (simp add: set_action_def)

lemma store_now_set_action [simp]: "store_now (set_action r a s) clock = store_now s clock"
  by (simp add: set_action_def store_now_def)

text \<open>A workflow that is created has an identifier and a hash that no workflow had.\<close>

lemma createWorkflow_fresh:
  assumes "coordination_inv H' s" "validateCreateWorkflow H s clock pkg requirements = Inr u"
    and "map_get (cs_actionsByEnvelopeHash s) (hash_value (computeJsonHash H (actionEnvelope pkg))) = None"
  shows "map_get (cs_actionsById s) (aid_value (action_id_of (actionEnvelope pkg))) = None"
proof (rule ccontr)
  assume "map_get (cs_actionsById s) (aid_value (action_id_of (actionEnvelope pkg))) \<noteq> None"
  then obtain r where r: "map_get (cs_actionsById s) (aid_value (action_id_of (actionEnvelope pkg))) = Some r" by blast
  with assms(2) have "action_hash_key (action_at s r) = hash_value (computeJsonHash H (actionEnvelope pkg))"
    unfolding validateCreateWorkflow_def Let_def by simp
  moreover have "map_get (cs_actionsByEnvelopeHash s) (action_hash_key (action_at s r)) = Some r"
    using inv_byId [OF assms(1) r] assms(1) indexed_at [of action_hash_key "cs_actions s"] by (simp add: coordination_inv_def)
  ultimately show False using assms(3) by simp
qed

lemma inv_createWorkflow:
  assumes "coordination_inv H s"
  shows "coordination_inv H (fst (createWorkflow H s clock pkg requirements))"
proof (cases "validateCreateWorkflow H s clock pkg requirements")
  case (Inl e)
  with assms show ?thesis by (simp add: createWorkflow_def)
next
  case (Inr u)
  let ?h = "computeJsonHash H (actionEnvelope pkg)"
  show ?thesis
  proof (cases "map_get (cs_actionsByEnvelopeHash s) (hash_value ?h)")
    case (Some r)
    with inv_byHash [OF assms Some] assms Inr show ?thesis by (simp add: createWorkflow_def Let_def inv_expire)
  next
    case None
    with createWorkflow_fresh [OF assms Inr None] Inr assms show ?thesis
      unfolding createWorkflow_def coordination_inv_def Let_def
      by (simp add: buildActionRef_def workflow_ok_def indexed_append)
  qed
qed

text \<open>What the preflight of an approval has checked.\<close>

lemma approvalPreflight_Inr:
  assumes "approvalPreflight H s clock request = Inr (r, signer, duplicate)"
  shows "map_get (cs_actionsByEnvelopeHash s) (hash_value (sub_actionEnvelopeHash request)) = Some r"
    "signer \<noteq> proposer_of (action_at s r)"
    "duplicate \<longleftrightarrow> signer \<in> sap_signerDid ` set (sa_approvals (action_at s r))"
    "\<not> duplicate \<Longrightarrow> sa_state (action_at s r) = Awaiting_Approvals"
    "effectiveState H (action_at s r) (store_now s clock) \<notin> {Cancelled_State, Expired_State}"
    "\<exists>payload. decodeApprovalPayload H (sub_approval request) = Some payload \<and>
       signer = text_of (js_get payload ''signerDid'') \<and> js_get payload ''decision'' = Str (decision_text (sub_decision request)) \<and>
       js_get (js_get payload ''actionEnvelopeHash'') ''value'' = Str (action_hash_key (action_at s r))"
  using assms unfolding approvalPreflight_def Let_def
  by (auto split: option.splits if_splits simp: find_Some_iff find_None_iff)

lemma workflow_ok_settle:
  assumes "workflow_ok H a"
  shows "workflow_ok H (fst (settle_workflow clock a))"
proof -
  have "proposer_of a \<notin> sap_signerDid ` set (sa_approvals a)" using assms by (simp add: workflow_ok_def)
  then have "sap_signerDid entry \<noteq> proposer_of a" if "entry \<in> set (sa_approvals a)" for entry
    using that by (metis image_eqI)
  then have "filter (\<lambda>entry. sap_signerDid entry \<noteq> proposer_of a) (sa_approvals a) = sa_approvals a" by simp
  with assms show ?thesis
    unfolding settle_workflow_def by (auto simp: workflow_ok_def split: sum.splits)
qed

lemma settle_actionRef [simp]:
  "sa_actionRef (fst (settle_workflow clock a)) = sa_actionRef a"
  "sa_actionPackage (fst (settle_workflow clock a)) = sa_actionPackage a"
  "sa_authorizationRequirements (fst (settle_workflow clock a)) = sa_authorizationRequirements a"
  "sa_approvals (fst (settle_workflow clock a)) = sa_approvals a"
  by (auto simp: settle_workflow_def split: sum.splits)

text \<open>The record that \<open>submitApproval\<close> writes.\<close>

definition with_approval :: "bool \<Rightarrow> int \<Rightarrow> stored_approval \<Rightarrow> stored_action \<Rightarrow> stored_action" where
  "with_approval duplicate clock entry a = (if duplicate then a
     else a\<lparr>sa_approvals := sa_approvals a @ [entry], sa_updatedAt := iso_of_ms clock\<rparr>)"

lemma submitApproval_state:
  assumes "approvalPreflight H s clock request = Inr (r, signer, duplicate)"
  shows "fst (submitApproval H s clock request) = set_action r (fst (settle_workflow clock (with_approval duplicate clock
      \<lparr>sap_approval = sub_approval request, sap_signerDid = signer, sap_decision = sub_decision request\<rparr> (action_at s r)))) s"
  by (simp add: submitApproval_def assms Let_def with_approval_def split: prod.split)

lemma workflow_ok_with_approval:
  assumes "workflow_ok H a" "sap_signerDid entry \<noteq> proposer_of a" "entry_signed H a entry"
    and "duplicate \<longleftrightarrow> sap_signerDid entry \<in> sap_signerDid ` set (sa_approvals a)"
    and "\<not> duplicate \<Longrightarrow> sa_state a = Awaiting_Approvals"
  shows "workflow_ok H (with_approval duplicate clock entry a)"
  using assms by (auto simp: workflow_ok_def with_approval_def)

lemma inv_submitApproval:
  assumes "coordination_inv H s"
  shows "coordination_inv H (fst (submitApproval H s clock request))"
proof (cases "approvalPreflight H s clock request")
  case (Inl e)
  with assms show ?thesis by (simp add: submitApproval_def)
next
  case (Inr p)
  obtain r signer duplicate where p: "p = (r, signer, duplicate)" by (cases p)
  note pre = approvalPreflight_Inr [OF Inr [unfolded p]]
  have r: "r < length (cs_actions s)" using inv_byHash [OF assms pre(1)] by simp
  have "workflow_ok H (with_approval duplicate clock
      \<lparr>sap_approval = sub_approval request, sap_signerDid = signer, sap_decision = sub_decision request\<rparr> (action_at s r))"
    by (rule workflow_ok_with_approval [OF inv_workflow_at [OF assms r]]) (use pre in \<open>simp_all add: entry_signed_def\<close>)
  from workflow_ok_settle [OF this] show ?thesis
    unfolding submitApproval_state [OF Inr [unfolded p]]
    by (rule inv_set_action [OF assms r]) (simp add: with_approval_def)
qed

lemma cancelAction_cases:
  obtains (error) e where "cancelAction H s clock actionId did = (s, Inl e)"
  | (ok) r where "map_get (cs_actionsById s) actionId = Some r" "proposer_of (action_at s r) = did"
      "sa_state (action_at s r) = Awaiting_Approvals"
      "effectiveState H (action_at s r) (store_now s clock) \<noteq> Expired_State"
      "fst (cancelAction H s clock actionId did) = set_action r ((action_at s r)\<lparr>sa_state := Cancelled_State,
         sa_cancelledAt := Some (iso_of_ms clock), sa_updatedAt := iso_of_ms clock\<rparr>) s"
proof (cases "validateCancelAction H s clock actionId did")
  case (Inl e)
  then show ?thesis by (intro error) (simp add: cancelAction_def)
next
  case (Inr u)
  then obtain r where r: "map_get (cs_actionsById s) actionId = Some r"
    by (cases "map_get (cs_actionsById s) actionId") (simp_all add: validateCancelAction_def)
  moreover from r Inr have "proposer_of (action_at s r) = did"
      "effectiveState H (action_at s r) (store_now s clock) \<noteq> Expired_State"
      "sa_state (action_at s r) \<notin> {Cancelled_State, Ready_For_Submission, Rejected_State}"
    unfolding validateCancelAction_def Let_def by (simp_all split: if_splits)
  moreover have "sa_state a \<noteq> Expired_State" if "effectiveState H a now \<noteq> Expired_State" for a :: stored_action and now
    using that by (auto simp: effectiveState_def)
  ultimately show ?thesis
    using Inr by (intro ok [OF r]) (cases "sa_state (action_at s r)"; auto simp: cancelAction_def Let_def)+
qed

lemma inv_cancelAction:
  assumes "coordination_inv H s"
  shows "coordination_inv H (fst (cancelAction H' s clock actionId did))"
proof (cases rule: cancelAction_cases [of H' s clock actionId did])
  case (error e)
  with assms show ?thesis by simp
next
  case (ok r)
  have r: "r < length (cs_actions s)" using inv_byId [OF assms ok(1)] by simp
  show ?thesis
    unfolding ok(5) by (rule inv_set_action [OF assms r]) (use inv_workflow_at [OF assms r] in \<open>auto simp: workflow_ok_def\<close>)
qed

lemma fst_poll_loop:
  "fst (poll_loop H clock did (r # rs) s) =
     fst (poll_loop H clock did rs (set_action r (expireIfNeeded H (action_at s r) (store_now s clock)) s))"
  by (simp add: Let_def split: prod.split)

lemma inv_poll_loop:
  "coordination_inv H s \<Longrightarrow> list_all (\<lambda>r. r < length (cs_actions s)) rs \<Longrightarrow> coordination_inv H (fst (poll_loop H' clock did rs s))"
  by (induction rs arbitrary: s) (simp_all only: fst_poll_loop, simp_all add: inv_expire)

lemma inv_outstanding_loop:
  "coordination_inv H s \<Longrightarrow> list_all (\<lambda>r. r < length (cs_actions s)) rs \<Longrightarrow> coordination_inv H (fst (outstanding_loop H' clock did rs s))"
  by (induction rs arbitrary: s) (simp_all add: Let_def inv_expire)

lemma inv_storeEnvelope_loop: "coordination_inv H s \<Longrightarrow> coordination_inv H (storeEnvelope_loop envelope rs s)"
  by (induction rs arbitrary: s) (simp_all add: coordination_inv_def)

lemma storeEnvelope_loop_other [simp]:
  "cs_actions (storeEnvelope_loop envelope rs s) = cs_actions s"
  "cs_relayed (storeEnvelope_loop envelope rs s) = cs_relayed s"
  "cs_relayedActionsById (storeEnvelope_loop envelope rs s) = cs_relayedActionsById s"
  "cs_relayedActionsByEnvelopeHash (storeEnvelope_loop envelope rs s) = cs_relayedActionsByEnvelopeHash s"
  by (induction rs arbitrary: s) simp_all

lemma inv_beginRelayedAction:
  assumes "coordination_inv H s"
  shows "coordination_inv H (fst (beginRelayedAction H s clock envelope verifier))"
proof (cases "validateRelayedAction H s envelope verifier")
  case (Inl e)
  with assms show ?thesis by (simp add: beginRelayedAction_def)
next
  case (Inr u)
  let ?h = "computeJsonHash H (actionEnvelope (package_of envelope))"
  show ?thesis
  proof (cases "map_get (cs_relayedActionsByEnvelopeHash s) (hash_value ?h)")
    case (Some r)
    with assms Inr show ?thesis by (simp add: beginRelayedAction_def Let_def)
  next
    case None
    have ids: "indexed relayed_id_key (cs_relayed s) (cs_relayedActionsById s)"
        "indexed relayed_hash_key (cs_relayed s) (cs_relayedActionsByEnvelopeHash s)"
      using assms by (simp_all add: coordination_inv_def)
    have "map_get (cs_relayedActionsById s) (aid_value (action_id_of (actionEnvelope (package_of envelope)))) = None"
    proof (rule ccontr)
      assume "map_get (cs_relayedActionsById s) (aid_value (action_id_of (actionEnvelope (package_of envelope)))) \<noteq> None"
      then obtain r where r: "map_get (cs_relayedActionsById s) (aid_value (action_id_of (actionEnvelope (package_of envelope)))) = Some r"
        by blast
      with Inr have "relayed_hash_key (cs_relayed s ! r) = hash_value ?h" unfolding validateRelayedAction_def Let_def by simp
      moreover from indexed_get [OF ids(1) r] have "r < length (cs_relayed s)" by simp
      ultimately show False using indexed_at [OF ids(2), of r] None by simp
    qed
    moreover from Inr have "verifier \<in> set (de_recipients envelope)" unfolding validateRelayedAction_def Let_def by simp
    ultimately have "coordination_inv H (s\<lparr>cs_relayed := cs_relayed s @ [\<lparr>ra_envelope = envelope,
        ra_actionRef = buildActionRef (package_of envelope) ?h, ra_verifierDid = verifier, ra_createdAt = iso_of_ms clock, ra_response = None\<rparr>],
        cs_relayedActionsById := map_set (aid_value (ref_actionId (buildActionRef (package_of envelope) ?h))) (length (cs_relayed s)) (cs_relayedActionsById s),
        cs_relayedActionsByEnvelopeHash := map_set (hash_value ?h) (length (cs_relayed s)) (cs_relayedActionsByEnvelopeHash s)\<rparr>)"
      using assms None unfolding coordination_inv_def by (simp add: buildActionRef_def relayed_ok_def indexed_append)
    from inv_storeEnvelope_loop [OF this] None Inr show ?thesis
      by (simp add: beginRelayedAction_def Let_def recordRoutingAudit_def storeEnvelope_def coordination_inv_def)
  qed
qed

lemma responseDeliveryTarget_Inr:
  assumes "responseDeliveryTarget H s clock envelope recipients = Inr r"
  shows "\<exists>k. map_get (cs_relayedActionsByEnvelopeHash s) k = Some r"
    "js_get (js_get (de_payload envelope) ''verifier'') ''did'' = Str (ra_verifierDid (cs_relayed s ! r))"
    "de_sender envelope = ra_verifierDid (cs_relayed s ! r)"
  using assms unfolding responseDeliveryTarget_def Let_def by (auto split: option.splits if_splits)

lemma inv_set_relayed:
  assumes "coordination_inv H s" "r < length (cs_relayed s)" "relayed_ok H a" "ra_actionRef a = ra_actionRef (cs_relayed s ! r)"
  shows "coordination_inv H (s\<lparr>cs_relayed := (cs_relayed s)[r := a]\<rparr>)"
  using assms by (simp add: coordination_inv_def indexed_update list_all_length nth_list_update)

definition answered :: "jsval \<Rightarrow> relayed_action \<Rightarrow> relayed_action" where
  "answered payload a = (if ra_response a = None then a\<lparr>ra_response := Some payload\<rparr> else a)"

lemma submitResponse_state:
  "responseDeliveryTarget H s clock envelope recipients = Inr r \<Longrightarrow>
     fst (submitResponseDelivery H s clock envelope recipients) =
       (let s' = recordRoutingAudit H clock Action_Response envelope (ra_verifierDid (cs_relayed s ! r))
              (storeEnvelope_loop envelope (de_recipients envelope) s)
        in s'\<lparr>cs_relayed := (cs_relayed s')[r := answered (de_payload envelope) (cs_relayed s ! r)]\<rparr>)"
  by (simp add: submitResponseDelivery_def storeEnvelope_def answered_def Let_def)

lemma recordRoutingAudit_other [simp]:
  "cs_actions (recordRoutingAudit H clock p e v s) = cs_actions s" "cs_relayed (recordRoutingAudit H clock p e v s) = cs_relayed s"
  by (simp_all add: recordRoutingAudit_def)

lemma inv_recordRoutingAudit: "coordination_inv H s \<Longrightarrow> coordination_inv H (recordRoutingAudit H' clock p e v s)"
  by (simp add: coordination_inv_def recordRoutingAudit_def)

lemma target_in_range:
  assumes "coordination_inv H s" "responseDeliveryTarget H' s clock envelope recipients = Inr r"
  shows "r < length (cs_relayed s)"
  using responseDeliveryTarget_Inr(1) [OF assms(2)] assms(1) indexed_get [of relayed_hash_key "cs_relayed s"]
  by (auto simp: coordination_inv_def)

lemma inv_submitResponseDelivery:
  assumes "coordination_inv H s"
  shows "coordination_inv H (fst (submitResponseDelivery H' s clock envelope recipients))"
proof (cases "responseDeliveryTarget H' s clock envelope recipients")
  case (Inl e)
  with assms show ?thesis by (simp add: submitResponseDelivery_def)
next
  case (Inr r)
  note t = responseDeliveryTarget_Inr [OF Inr]
  have r: "r < length (cs_relayed s)" using target_in_range [OF assms Inr] .
  have "relayed_ok H (cs_relayed s ! r)" using r assms by (simp add: coordination_inv_def list_all_length)
  with t(2) have a: "relayed_ok H (answered (de_payload envelope) (cs_relayed s ! r))" by (simp add: relayed_ok_def answered_def)
  show ?thesis
    unfolding submitResponse_state [OF Inr] Let_def
    by (rule inv_set_relayed) (use a r in \<open>simp_all add: inv_recordRoutingAudit inv_storeEnvelope_loop assms answered_def\<close>)
qed

theorem inv_coordination_step: "coordination_inv H s \<Longrightarrow> coordination_inv H (coordination_step H s c)"
proof (induction H s c rule: coordination_step.induct)
  case (4 H s clock did)
  then have "list_all (\<lambda>r. r < length (cs_actions s)) (map snd (cs_actionsById s))"
    using indexed_refs by (simp add: coordination_inv_def) blast
  with 4 show ?case by (simp add: poll_def inv_poll_loop)
next
  case (5 H s clock did)
  then have "list_all (\<lambda>r. r < length (cs_actions s)) (map snd (cs_actionsById s))"
    using indexed_refs by (simp add: coordination_inv_def) blast
  with 5 show ?case by (simp add: hasOutstandingCoordinationWork_def inv_outstanding_loop)
qed (simp_all add: inv_createWorkflow inv_submitApproval inv_cancelAction inv_beginRelayedAction inv_submitResponseDelivery)

lemma inv_run_coordination: "coordination_inv H s \<Longrightarrow> coordination_inv H (run_coordination H s cs)"
  unfolding run_coordination_def by (induction cs arbitrary: s) (simp_all add: inv_coordination_step)

section \<open>How a workflow evolves\<close>

definition terminal_state :: "coordination_state \<Rightarrow> bool" where
  "terminal_state x \<longleftrightarrow> x = Rejected_State \<or> x = Cancelled_State \<or> x = Expired_State"

definition evolves :: "stored_action \<Rightarrow> stored_action \<Rightarrow> bool" where
  "evolves a b \<longleftrightarrow> sa_actionRef b = sa_actionRef a \<and> sa_actionPackage b = sa_actionPackage a \<and>
     sa_authorizationRequirements b = sa_authorizationRequirements a \<and> (\<exists>more. sa_approvals b = sa_approvals a @ more) \<and>
     (sa_state a = Ready_For_Submission \<longrightarrow> sa_approvals b = sa_approvals a \<and> sa_state b \<in> {Ready_For_Submission, Expired_State}) \<and>
     (terminal_state (sa_state a) \<longrightarrow> b = a)"

lemma evolves_refl [simp]: "evolves a a"
  by (simp add: evolves_def)

lemma evolves_trans: "evolves a b \<Longrightarrow> evolves b c \<Longrightarrow> evolves a c"
  by (auto simp: evolves_def terminal_state_def)

lemma evolves_expire: "evolves a (expireIfNeeded H a now)"
  by (auto simp: evolves_def terminal_state_def expireIfNeeded_def)

lemma evolves_settle: "evolves a (fst (settle_workflow clock a))"
  by (cases "sa_state a = Awaiting_Approvals")
    (auto simp: evolves_def terminal_state_def settle_workflow_def split: sum.splits)

lemma evolves_with_approval:
  "(\<not> duplicate \<Longrightarrow> sa_state a = Awaiting_Approvals) \<Longrightarrow> evolves a (with_approval duplicate clock entry a)"
  by (auto simp: evolves_def terminal_state_def with_approval_def)

text \<open>Every workflow of \<open>s\<close> is in \<open>s'\<close>, at the same address, evolved.\<close>

definition store_evolves :: "coordination_store \<Rightarrow> coordination_store \<Rightarrow> bool" where
  "store_evolves s s' \<longleftrightarrow> length (cs_actions s) \<le> length (cs_actions s') \<and>
     (\<forall>r < length (cs_actions s). evolves (action_at s r) (action_at s' r))"

lemma store_evolves_refl [simp]: "store_evolves s s"
  by (simp add: store_evolves_def)

lemma store_evolves_trans: "store_evolves s t \<Longrightarrow> store_evolves t u \<Longrightarrow> store_evolves s u"
  unfolding store_evolves_def using evolves_trans less_le_trans by (intro conjI allI impI) (linarith, blast)

lemma store_evolves_set:
  assumes "evolves (action_at s r) a"
  shows "store_evolves s (set_action r a s)"
  unfolding store_evolves_def set_action_def
proof (intro conjI allI impI)
  fix k assume "k < length (cs_actions s)"
  with assms show "evolves (action_at s k) (action_at (s\<lparr>cs_actions := (cs_actions s)[r := a]\<rparr>) k)"
    by (cases "k = r") simp_all
qed simp

lemma store_evolves_same: "cs_actions s' = cs_actions s \<Longrightarrow> store_evolves s s'"
  by (simp add: store_evolves_def)

lemma evolves_createWorkflow: "store_evolves s (fst (createWorkflow H s clock pkg requirements))"
  unfolding createWorkflow_def Let_def
  by (auto split: sum.split option.split intro: store_evolves_set evolves_expire)
    (simp add: store_evolves_def nth_append)

lemma evolves_submitApproval: "store_evolves s (fst (submitApproval H s clock request))"
proof (cases "approvalPreflight H s clock request")
  case (Inl e)
  then show ?thesis by (simp add: submitApproval_def)
next
  case (Inr p)
  obtain r signer duplicate where p: "p = (r, signer, duplicate)" by (cases p)
  show ?thesis
    unfolding submitApproval_state [OF Inr [unfolded p]]
    by (intro store_evolves_set evolves_trans [OF evolves_with_approval evolves_settle])
      (rule approvalPreflight_Inr(4) [OF Inr [unfolded p]])
qed

lemma evolves_cancelAction: "store_evolves s (fst (cancelAction H s clock actionId did))"
proof (cases rule: cancelAction_cases [of H s clock actionId did])
  case (error e)
  then show ?thesis by simp
next
  case (ok r)
  show ?thesis unfolding ok(5) by (rule store_evolves_set) (simp add: evolves_def terminal_state_def ok(3))
qed

lemma evolves_poll_loop: "store_evolves s (fst (poll_loop H clock did rs s))"
proof (induction rs arbitrary: s)
  case (Cons r rs)
  show ?case unfolding fst_poll_loop by (rule store_evolves_trans [OF store_evolves_set [OF evolves_expire] Cons])
qed simp

lemma evolves_outstanding_loop: "store_evolves s (fst (outstanding_loop H clock did rs s))"
proof (induction rs arbitrary: s)
  case (Cons r rs)
  have "store_evolves s (set_action r (expireIfNeeded H (action_at s r) (store_now s clock)) s)"
    by (rule store_evolves_set [OF evolves_expire])
  with store_evolves_trans [OF this Cons] show ?case by (simp add: Let_def)
qed simp

lemma evolves_step: "store_evolves s (coordination_step H s c)"
proof (induction H s c rule: coordination_step.induct)
  case (6 H s clock envelope verifier)
  show ?case
    by (rule store_evolves_same)
      (simp add: beginRelayedAction_def Let_def recordRoutingAudit_def storeEnvelope_def split: sum.split option.split)
next
  case (7 H s clock envelope recipients)
  show ?case
    by (rule store_evolves_same)
      (simp add: submitResponseDelivery_def Let_def recordRoutingAudit_def storeEnvelope_def split: sum.split)
qed (simp_all add: evolves_createWorkflow evolves_submitApproval evolves_cancelAction poll_def evolves_poll_loop
      hasOutstandingCoordinationWork_def evolves_outstanding_loop)

lemma evolves_run: "store_evolves s (run_coordination H s cs)"
  unfolding run_coordination_def
proof (induction cs arbitrary: s)
  case (Cons c cs)
  from store_evolves_trans [OF evolves_step Cons] show ?case by simp
qed simp

section \<open>Relayed responses\<close>

definition response_kept :: "relayed_action \<Rightarrow> relayed_action \<Rightarrow> bool" where
  "response_kept a b \<longleftrightarrow> ra_envelope b = ra_envelope a \<and> ra_actionRef b = ra_actionRef a \<and> ra_verifierDid b = ra_verifierDid a \<and>
     (ra_response a \<noteq> None \<longrightarrow> ra_response b = ra_response a)"

definition relay_evolves :: "coordination_store \<Rightarrow> coordination_store \<Rightarrow> bool" where
  "relay_evolves s s' \<longleftrightarrow> length (cs_relayed s) \<le> length (cs_relayed s') \<and>
     (\<forall>r < length (cs_relayed s). response_kept (cs_relayed s ! r) (cs_relayed s' ! r))"

lemma relay_evolves_same: "cs_relayed s' = cs_relayed s \<Longrightarrow> relay_evolves s s'"
  by (simp add: relay_evolves_def response_kept_def)

lemma response_kept_trans: "response_kept a b \<Longrightarrow> response_kept b c \<Longrightarrow> response_kept a c"
  by (simp add: response_kept_def)

lemma relay_evolves_trans: "relay_evolves s t \<Longrightarrow> relay_evolves t u \<Longrightarrow> relay_evolves s u"
  unfolding relay_evolves_def using response_kept_trans less_le_trans by (intro conjI allI impI) (linarith, blast)

lemma cs_relayed_set_action [simp]: "cs_relayed (set_action r a s) = cs_relayed s"
  by (simp add: set_action_def)

lemma cs_relayed_poll_loop: "cs_relayed (fst (poll_loop H clock did rs s)) = cs_relayed s"
  by (induction rs arbitrary: s) (simp, simp only: fst_poll_loop cs_relayed_set_action)

lemma cs_relayed_outstanding_loop: "cs_relayed (fst (outstanding_loop H clock did rs s)) = cs_relayed s"
  by (induction rs arbitrary: s) (simp_all add: Let_def)

lemma relay_evolves_begin: "relay_evolves s (fst (beginRelayedAction H s clock envelope verifier))"
  unfolding relay_evolves_def response_kept_def
  by (auto simp: beginRelayedAction_def Let_def storeEnvelope_def nth_append split: sum.split option.split)

lemma relay_evolves_response: "relay_evolves s (fst (submitResponseDelivery H s clock envelope recipients))"
proof (cases "responseDeliveryTarget H s clock envelope recipients")
  case (Inl e)
  then show ?thesis by (simp add: submitResponseDelivery_def relay_evolves_same)
next
  case (Inr r)
  have kept: "response_kept (cs_relayed s ! r) (answered p (cs_relayed s ! r))" for p
    by (simp add: response_kept_def answered_def)
  have "response_kept (cs_relayed s ! k) ((cs_relayed s)[r := answered p (cs_relayed s ! r)] ! k)" if "k < length (cs_relayed s)" for k p
    using that kept by (cases "k = r") (simp_all add: response_kept_def)
  then show ?thesis unfolding submitResponse_state [OF Inr] Let_def relay_evolves_def by simp
qed

lemma relay_evolves_step: "relay_evolves s (coordination_step H s c)"
proof (induction H s c rule: coordination_step.induct)
  case (1 H s clock pkg requirements)
  show ?case by (rule relay_evolves_same) (simp add: createWorkflow_def Let_def split: sum.split option.split)
next
  case (2 H s clock request)
  show ?case by (rule relay_evolves_same) (simp add: submitApproval_def Let_def split: sum.split prod.split)
next
  case (3 H s clock actionId did)
  show ?case
    by (cases rule: cancelAction_cases [of H s clock actionId did]) (simp_all add: relay_evolves_same)
qed (simp_all add: relay_evolves_same poll_def cs_relayed_poll_loop hasOutstandingCoordinationWork_def
      cs_relayed_outstanding_loop relay_evolves_begin relay_evolves_response)

lemma relay_evolves_run: "relay_evolves s (run_coordination H s cs)"
  unfolding run_coordination_def
proof (induction cs arbitrary: s)
  case (Cons c cs)
  from relay_evolves_trans [OF relay_evolves_step Cons] show ?case by simp
qed (simp add: relay_evolves_same)

section \<open>What the store's indexes keep\<close>

text \<open>No step drops an identifier or a hash from an index, or moves it to another record.\<close>

definition index_kept :: "(string, nat) jsmap \<Rightarrow> (string, nat) jsmap \<Rightarrow> bool" where
  "index_kept m m' \<longleftrightarrow> (\<forall>k r. map_get m k = Some r \<longrightarrow> map_get m' k = Some r)"

lemma index_kept_refl [simp]: "index_kept m m"
  by (simp add: index_kept_def)

lemma index_kept_trans: "index_kept m n \<Longrightarrow> index_kept n p \<Longrightarrow> index_kept m p"
  by (simp add: index_kept_def)

lemma index_kept_set: "map_get m k = None \<Longrightarrow> index_kept m (map_set k r m)"
  by (auto simp: index_kept_def)

definition indexes_kept :: "coordination_store \<Rightarrow> coordination_store \<Rightarrow> bool" where
  "indexes_kept s s' \<longleftrightarrow> index_kept (cs_actionsById s) (cs_actionsById s') \<and>
     index_kept (cs_actionsByEnvelopeHash s) (cs_actionsByEnvelopeHash s') \<and>
     index_kept (cs_relayedActionsByEnvelopeHash s) (cs_relayedActionsByEnvelopeHash s')"

lemma indexes_kept_trans: "indexes_kept s t \<Longrightarrow> indexes_kept t u \<Longrightarrow> indexes_kept s u"
  unfolding indexes_kept_def using index_kept_trans by blast

lemma indexes_kept_refl [simp]: "indexes_kept s s"
  by (simp add: indexes_kept_def)

lemma indexes_kept_set_action [simp]: "indexes_kept s (set_action r a s)"
  by (simp add: indexes_kept_def set_action_def)

lemma indexes_kept_createWorkflow:
  assumes "coordination_inv H' s"
  shows "indexes_kept s (fst (createWorkflow H s clock pkg requirements))"
proof (cases "validateCreateWorkflow H s clock pkg requirements")
  case (Inl e)
  then show ?thesis by (simp add: createWorkflow_def)
next
  case (Inr u)
  show ?thesis
  proof (cases "map_get (cs_actionsByEnvelopeHash s) (hash_value (computeJsonHash H (actionEnvelope pkg)))")
    case (Some r)
    with Inr show ?thesis by (simp add: createWorkflow_def Let_def)
  next
    case None
    with createWorkflow_fresh [OF assms Inr None] Inr show ?thesis
      by (simp add: createWorkflow_def Let_def indexes_kept_def buildActionRef_def index_kept_set)
  qed
qed

lemma indexes_kept_poll_loop: "indexes_kept s (fst (poll_loop H clock did rs s))"
proof (induction rs arbitrary: s)
  case (Cons r rs)
  show ?case unfolding fst_poll_loop by (rule indexes_kept_trans [OF indexes_kept_set_action Cons])
qed simp

lemma indexes_kept_outstanding_loop: "indexes_kept s (fst (outstanding_loop H clock did rs s))"
proof (induction rs arbitrary: s)
  case (Cons r rs)
  have "indexes_kept s (set_action r (expireIfNeeded H (action_at s r) (store_now s clock)) s)" by simp
  with indexes_kept_trans [OF this Cons] show ?case by (simp add: Let_def)
qed simp

lemma storeEnvelope_loop_index [simp]:
  "cs_actionsById (storeEnvelope_loop envelope rs s) = cs_actionsById s"
  "cs_actionsByEnvelopeHash (storeEnvelope_loop envelope rs s) = cs_actionsByEnvelopeHash s"
  by (induction rs arbitrary: s) simp_all

lemma indexes_kept_begin: "indexes_kept s (fst (beginRelayedAction H s clock envelope verifier))"
  by (auto simp: beginRelayedAction_def Let_def recordRoutingAudit_def storeEnvelope_def indexes_kept_def index_kept_set
      split: sum.split option.split)

lemma indexes_kept_step: "coordination_inv H s \<Longrightarrow> indexes_kept s (coordination_step H s c)"
proof (induction H s c rule: coordination_step.induct)
  case (2 H s clock request)
  show ?case by (simp add: submitApproval_def Let_def split: sum.split prod.split)
next
  case (3 H s clock actionId did)
  show ?case by (cases rule: cancelAction_cases [of H s clock actionId did]) simp_all
next
  case (7 H s clock envelope recipients)
  show ?case
    by (simp add: submitResponseDelivery_def Let_def recordRoutingAudit_def storeEnvelope_def indexes_kept_def split: sum.split)
qed (simp_all add: indexes_kept_createWorkflow poll_def indexes_kept_poll_loop hasOutstandingCoordinationWork_def
      indexes_kept_outstanding_loop indexes_kept_begin)

lemma indexes_kept_run: "coordination_inv H s \<Longrightarrow> indexes_kept s (run_coordination H s cs)"
  unfolding run_coordination_def
proof (induction cs arbitrary: s)
  case (Cons c cs)
  from indexes_kept_trans [OF indexes_kept_step [OF Cons.prems] Cons.IH [OF inv_coordination_step [OF Cons.prems]]]
  show ?case by simp
qed simp

text \<open>An identifier that is known is not created again: it is refused or answered from the record.\<close>

lemma createWorkflow_existing:
  assumes "coordination_inv H' s" "map_get (cs_actionsById s) (aid_value (action_id_of (actionEnvelope pkg))) = Some r"
    and "snd (createWorkflow H s clock pkg requirements) = Inr w"
  shows "\<not> wr_created w \<and> wr_state w = sa_state (action_at (fst (createWorkflow H s clock pkg requirements)) r)"
proof -
  obtain u where u: "validateCreateWorkflow H s clock pkg requirements = Inr u"
    using assms(3) by (auto simp: createWorkflow_def split: sum.splits)
  with assms(2) have "action_hash_key (action_at s r) = hash_value (computeJsonHash H (actionEnvelope pkg))"
    unfolding validateCreateWorkflow_def Let_def by simp
  moreover have r: "r < length (cs_actions s)" using inv_byId [OF assms(1,2)] by simp
  moreover have "map_get (cs_actionsByEnvelopeHash s) (action_hash_key (action_at s r)) = Some r"
    using assms(1) indexed_at [of action_hash_key "cs_actions s"] r by (simp add: coordination_inv_def)
  ultimately show ?thesis using assms(3) u by (auto simp: createWorkflow_def Let_def set_action_def)
qed

section \<open>Where a stored response comes from\<close>

text \<open>
  The response of a relayed action was delivered to the action's proposer, in an envelope that
  the designated Verifier sent.
\<close>

definition response_delivered :: "stored_delivery list \<Rightarrow> relayed_action \<Rightarrow> bool" where
  "response_delivered ds a \<longleftrightarrow> opt_all (\<lambda>p. \<exists>d \<in> set ds. de_payload (sd_envelope d) = p \<and>
     de_sender (sd_envelope d) = ra_verifierDid a \<and>
     sd_recipient d = proposer_did (actionEnvelope (package_of (ra_envelope a)))) (ra_response a)"

definition responses_delivered :: "coordination_store \<Rightarrow> bool" where
  "responses_delivered s \<longleftrightarrow> list_all (response_delivered (cs_deliveries s)) (cs_relayed s)"

lemma response_delivered_mono: "set ds \<subseteq> set es \<Longrightarrow> response_delivered ds a \<Longrightarrow> response_delivered es a"
  unfolding response_delivered_def by (cases "ra_response a") auto

lemma responses_delivered_same:
  "cs_deliveries s' = cs_deliveries s \<Longrightarrow> cs_relayed s' = cs_relayed s \<Longrightarrow> responses_delivered s' = responses_delivered s"
  by (simp add: responses_delivered_def)

lemma cs_deliveries_set_action [simp]: "cs_deliveries (set_action r a s) = cs_deliveries s"
  by (simp add: set_action_def)

lemma cs_deliveries_poll_loop: "cs_deliveries (fst (poll_loop H clock did rs s)) = cs_deliveries s"
  by (induction rs arbitrary: s) (simp, simp only: fst_poll_loop cs_deliveries_set_action)

lemma cs_deliveries_outstanding_loop: "cs_deliveries (fst (outstanding_loop H clock did rs s)) = cs_deliveries s"
  by (induction rs arbitrary: s) (simp_all add: Let_def)

lemma cs_deliveries_storeEnvelope_loop:
  "set (cs_deliveries s) \<subseteq> set (cs_deliveries (storeEnvelope_loop envelope rs s)) \<and>
   (\<forall>did \<in> set rs. \<exists>d \<in> set (cs_deliveries (storeEnvelope_loop envelope rs s)). sd_envelope d = envelope \<and> sd_recipient d = did)"
proof (induction rs arbitrary: s)
  case (Cons recipient rs)
  let ?d = "\<lparr>sd_sequence = cs_nextDeliverySequence s, sd_recipient = recipient, sd_envelope = envelope\<rparr>"
  let ?s = "s\<lparr>cs_deliveries := cs_deliveries s @ [?d], cs_nextDeliverySequence := cs_nextDeliverySequence s + 1\<rparr>"
  from Cons [of ?s] have keep: "set (cs_deliveries ?s) \<subseteq> set (cs_deliveries (storeEnvelope_loop envelope rs ?s))"
    and rest: "\<forall>did \<in> set rs. \<exists>d \<in> set (cs_deliveries (storeEnvelope_loop envelope rs ?s)). sd_envelope d = envelope \<and> sd_recipient d = did"
    by blast+
  from keep have old: "set (cs_deliveries s) \<subseteq> set (cs_deliveries (storeEnvelope_loop envelope rs ?s))"
    and d: "?d \<in> set (cs_deliveries (storeEnvelope_loop envelope rs ?s))" by auto
  from d have "\<exists>d \<in> set (cs_deliveries (storeEnvelope_loop envelope rs ?s)). sd_envelope d = envelope \<and> sd_recipient d = recipient"
    by (rule bexI [rotated]) simp
  with old rest show ?case unfolding storeEnvelope_loop.simps by simp
qed simp

lemma delivered_begin:
  assumes "responses_delivered s"
  shows "responses_delivered (fst (beginRelayedAction H s clock envelope verifier))"
proof -
  have kept: "list_all (response_delivered ds) (cs_relayed s)" if "set (cs_deliveries s) \<subseteq> set ds" for ds
    using assms response_delivered_mono [OF that] by (auto simp: responses_delivered_def list_all_iff)
  have grow: "set (cs_deliveries t) \<subseteq> set (cs_deliveries (storeEnvelope_loop envelope rs t))" for rs t
    using cs_deliveries_storeEnvelope_loop by blast
  have "list_all (response_delivered (cs_deliveries (storeEnvelope_loop envelope rs t))) (cs_relayed s)"
      if "cs_deliveries t = cs_deliveries s" for rs t
    by (rule kept) (use grow [of t rs] that in simp)
  then show ?thesis
    using assms unfolding beginRelayedAction_def Let_def recordRoutingAudit_def storeEnvelope_def
    by (auto simp: responses_delivered_def response_delivered_def [of _ "a\<lparr>ra_response := None\<rparr>" for a] split: sum.split option.split)
      (simp add: response_delivered_def)
qed

lemma delivered_response:
  assumes "coordination_inv H' s" "responses_delivered s"
  shows "responses_delivered (fst (submitResponseDelivery H s clock envelope recipients))"
proof (cases "responseDeliveryTarget H s clock envelope recipients")
  case (Inl e)
  with assms show ?thesis by (simp add: submitResponseDelivery_def)
next
  case (Inr r)
  let ?s = "storeEnvelope_loop envelope (de_recipients envelope) s"
  note t = responseDeliveryTarget_Inr [OF Inr]
  have r: "r < length (cs_relayed s)" using target_in_range [OF assms(1) Inr] .
  have grow: "set (cs_deliveries s) \<subseteq> set (cs_deliveries ?s)"
    and new: "\<forall>did \<in> set (de_recipients envelope). \<exists>d \<in> set (cs_deliveries ?s). sd_envelope d = envelope \<and> sd_recipient d = did"
    using cs_deliveries_storeEnvelope_loop by blast+
  have kept: "response_delivered (cs_deliveries ?s) a" if "a \<in> set (cs_relayed s)" for a
    using response_delivered_mono [OF grow] assms(2) that by (auto simp: responses_delivered_def list_all_iff)
  have "proposer_did (actionEnvelope (package_of (ra_envelope (cs_relayed s ! r)))) \<in> set (de_recipients envelope)"
    using Inr unfolding responseDeliveryTarget_def Let_def by (auto split: option.splits if_splits)
  with new t(3) have "response_delivered (cs_deliveries ?s) (answered (de_payload envelope) (cs_relayed s ! r))"
    using kept [OF nth_mem [OF r]] by (cases "ra_response (cs_relayed s ! r)") (auto simp: response_delivered_def answered_def)
  with kept have "list_all (response_delivered (cs_deliveries ?s)) ((cs_relayed s)[r := answered (de_payload envelope) (cs_relayed s ! r)])"
    by (auto simp: list_all_iff dest!: set_update_subset_insert [THEN subsetD])
  then show ?thesis
    unfolding submitResponse_state [OF Inr] Let_def responses_delivered_def by (simp add: recordRoutingAudit_def)
qed

lemma delivered_step: "coordination_inv H s \<Longrightarrow> responses_delivered s \<Longrightarrow> responses_delivered (coordination_step H s c)"
proof (induction H s c rule: coordination_step.induct)
  case (1 H s clock pkg requirements)
  have "cs_deliveries (fst (createWorkflow H s clock pkg requirements)) = cs_deliveries s \<and>
      cs_relayed (fst (createWorkflow H s clock pkg requirements)) = cs_relayed s"
    by (simp add: createWorkflow_def Let_def split: sum.split option.split)
  with 1 show ?case by (simp add: responses_delivered_def)
next
  case (2 H s clock request)
  have "cs_deliveries (fst (submitApproval H s clock request)) = cs_deliveries s \<and>
      cs_relayed (fst (submitApproval H s clock request)) = cs_relayed s"
    by (simp add: submitApproval_def Let_def split: sum.split prod.split)
  with 2 show ?case by (simp add: responses_delivered_def)
next
  case (3 H s clock actionId did)
  then show ?case
    by (cases rule: cancelAction_cases [of H s clock actionId did]) (simp_all add: responses_delivered_def)
next
  case (4 H s clock did)
  then show ?case by (simp add: poll_def responses_delivered_def cs_relayed_poll_loop cs_deliveries_poll_loop)
next
  case (5 H s clock did)
  then show ?case
    by (simp add: hasOutstandingCoordinationWork_def responses_delivered_def cs_relayed_outstanding_loop cs_deliveries_outstanding_loop)
qed (simp_all add: delivered_begin delivered_response)

lemma delivered_run: "coordination_inv H s \<Longrightarrow> responses_delivered s \<Longrightarrow> responses_delivered (run_coordination H s cs)"
  unfolding run_coordination_def by (induction cs arbitrary: s) (simp_all add: inv_coordination_step delivered_step)

section \<open>Delivery pages\<close>

text \<open>A recipient that polls until a page has no cursor, with at most \<open>n\<close> polls.\<close>

fun poll_pages :: "('a) host_scheme \<Rightarrow> coordination_store \<Rightarrow> int \<Rightarrow> did \<Rightarrow> nat \<Rightarrow> string option \<Rightarrow> delivery_envelope list" where
  "poll_pages H s clock did 0 cursor = []"
| "poll_pages H s clock did (Suc n) cursor = (case pollDeliveries H s clock did cursor of
     Inl e \<Rightarrow> []
   | Inr (page, next_cursor) \<Rightarrow> page @ (case next_cursor of None \<Rightarrow> [] | Some c \<Rightarrow> poll_pages H s clock did n (Some c)))"

definition deliveries_for :: "('a) host_scheme \<Rightarrow> coordination_store \<Rightarrow> int \<Rightarrow> did \<Rightarrow> stored_delivery list" where
  "deliveries_for H s clock did =
     filter (\<lambda>entry. sd_recipient entry = did \<and> retrievable H (store_now s clock) entry) (cs_deliveries s)"

lemma sorted_le_last:
  fixes f :: "'b \<Rightarrow> nat"
  shows "sorted_wrt (\<lambda>x y. f x < f y) xs \<Longrightarrow> x \<in> set xs \<Longrightarrow> f x \<le> f (last xs)"
  by (induction xs rule: rev_induct) (auto simp: sorted_wrt_append)

lemma filter_after_take:
  fixes f :: "'b \<Rightarrow> nat"
  assumes "sorted_wrt (\<lambda>x y. f x < f y) xs" "take k xs \<noteq> []"
  shows "filter (\<lambda>x. f (last (take k xs)) < f x) xs = drop k xs"
proof -
  let ?b = "last (take k xs)"
  have split: "xs = take k xs @ drop k xs" by simp
  have cross: "\<forall>x \<in> set (take k xs). \<forall>y \<in> set (drop k xs). f x < f y"
    and s: "sorted_wrt (\<lambda>x y. f x < f y) (take k xs)"
    using assms(1) by (metis split sorted_wrt_append)+
  have b: "?b \<in> set (take k xs)" using assms(2) by (rule last_in_set)
  have le: "f x \<le> f ?b" if "x \<in> set (take k xs)" for x
    using s that by (rule sorted_le_last)
  have "filter (\<lambda>x. f ?b < f x) (take k xs) = []" using le by (force simp: filter_empty_conv)
  moreover have "filter (\<lambda>x. f ?b < f x) (drop k xs) = drop k xs" using cross b by simp
  ultimately show ?thesis by (metis append_Nil filter_append split)
qed

lemma pollDeliveries_after:
  assumes "parseCursor cursor = Inr (num_of_nat a)"
  shows "pollDeliveries H s clock did cursor =
    (let page = take DELIVERY_PAGE_SIZE (filter (\<lambda>e. a < sd_sequence e) (deliveries_for H s clock did))
     in Inr (map sd_envelope page, if page \<noteq> [] then Some (show_nat (sd_sequence (last page))) else None))"
proof -
  have "filter (retrievable H (store_now s clock)) (filter (\<lambda>entry. sd_recipient entry = did)
      (filter (\<lambda>entry. num_lt (num_of_nat a) (num_of_nat (sd_sequence entry))) (cs_deliveries s))) =
    filter (\<lambda>e. a < sd_sequence e) (deliveries_for H s clock did)"
    by (simp add: deliveries_for_def) (rule filter_cong, auto)
  then show ?thesis by (simp add: pollDeliveries_def assms Let_def)
qed

lemma poll_pages_after:
  assumes "sorted_wrt (\<lambda>x y. sd_sequence x < sd_sequence y) (deliveries_for H s clock did)"
    and "\<forall>e \<in> set (cs_deliveries s). sd_sequence e < 2 ^ 53"
  shows "parseCursor cursor = Inr (num_of_nat a) \<Longrightarrow>
    length (filter (\<lambda>e. a < sd_sequence e) (deliveries_for H s clock did)) < n \<Longrightarrow>
    poll_pages H s clock did n cursor = map sd_envelope (filter (\<lambda>e. a < sd_sequence e) (deliveries_for H s clock did))"
proof (induction n arbitrary: cursor a)
  case (Suc n)
  define xs where "xs = filter (\<lambda>e. a < sd_sequence e) (deliveries_for H s clock did)"
  define page where "page = take DELIVERY_PAGE_SIZE xs"
  have xs_sorted: "sorted_wrt (\<lambda>x y. sd_sequence x < sd_sequence y) xs"
    unfolding xs_def using assms(1) by (rule sorted_wrt_filter)
  show ?case
  proof (cases "page = []")
    case True
    then have "xs = []" by (simp add: page_def DELIVERY_PAGE_SIZE_def)
    with True show ?thesis
      by (simp add: pollDeliveries_after [OF Suc.prems(1)] xs_def [symmetric] page_def [symmetric] Let_def)
  next
    case False
    let ?b = "sd_sequence (last page)"
    have "last page \<in> set xs" using last_in_set [OF False] unfolding page_def by (rule in_set_takeD)
    then have b: "a < ?b" "last page \<in> set (cs_deliveries s)" by (simp_all add: xs_def deliveries_for_def)
    then have cursor: "parseCursor (Some (show_nat ?b)) = Inr (num_of_nat ?b)"
      using assms(2) by (simp add: parseCursor_def show_nat_digits js_number_show_nat)
    have rest: "filter (\<lambda>e. ?b < sd_sequence e) (deliveries_for H s clock did) = drop DELIVERY_PAGE_SIZE xs"
    proof -
      have "filter (\<lambda>e. ?b < sd_sequence e) (deliveries_for H s clock did) = filter (\<lambda>e. ?b < sd_sequence e) xs"
        unfolding xs_def filter_filter using b(1) by (intro filter_cong) auto
      also have "\<dots> = drop DELIVERY_PAGE_SIZE xs"
        unfolding page_def by (rule filter_after_take [OF xs_sorted]) (use False in \<open>simp add: page_def\<close>)
      finally show ?thesis .
    qed
    have "length (drop DELIVERY_PAGE_SIZE xs) < n"
      using Suc.prems(2) False unfolding xs_def [symmetric] page_def by (cases xs) (simp_all add: DELIVERY_PAGE_SIZE_def)
    from Suc.IH [OF cursor, unfolded rest, OF this] False show ?thesis
      by (simp add: pollDeliveries_after [OF Suc.prems(1)] xs_def [symmetric] page_def [symmetric] Let_def)
        (simp add: page_def flip: map_append)
  qed
qed simp

section \<open>A concrete run\<close>

definition coord_host :: coordination_host where
  "coord_host = \<lparr>jcs = (\<lambda>v. ''c''), sha256 = (\<lambda>s. ''h''), legacy_date = (\<lambda>s. None), url_parse = (\<lambda>s. None),
     decode_json = (\<lambda>s. Some (Obj [(''actionEnvelopeHash'', hash_json \<lparr>hash_alg = ''sha-256'', hash_value = ''h''\<rparr>),
       (''signerDid'', Str ''did:web:a''), (''decision'', Str ''approve'')]))\<rparr>"

definition coord_hash :: hash_object where
  "coord_hash = \<lparr>hash_alg = ''sha-256'', hash_value = ''h''\<rparr>"

definition coord_package :: jsval where
  "coord_package = Obj [(''executionPayload'', Null),
     (''actionEnvelope'', Obj [(''actionId'', Obj [(''value'', Str ''1'')]), (''proposer'', Obj [(''did'', Str ''did:web:p'')]),
       (''executionPayloadHash'', hash_json coord_hash), (''expiresAt'', Str ''later'')]),
     (''approvalBundle'', Obj [(''actionEnvelopeHash'', hash_json coord_hash), (''approvals'', Arr [])])]"

definition coord_requirements :: jsval where
  "coord_requirements = Obj [(''actionEnvelopeHash'', hash_json coord_hash), (''verifier'', Obj [(''did'', Str ''did:web:v'')]),
     (''result'', Str ''additionalApprovalsRequired''),
     (''approvalRequirements'', Obj [(''anyOf'', Arr [Obj [(''type'', Str ''threshold''), (''threshold'', Num (Fin 1)),
        (''eligibleSigners'', Arr [Str ''did:web:a''])]])])]"

definition coord_submission :: approval_submission where
  "coord_submission = \<lparr>sub_actionEnvelopeHash = coord_hash, sub_approval = Obj [(''actionEnvelopeHash'', hash_json coord_hash),
     (''signature'', Obj [(''value'', Str ''a.b.c'')])], sub_decision = Approve\<rparr>"

definition coord_relayed :: delivery_envelope where
  "coord_relayed = \<lparr>de_sender = ''did:web:p'', de_recipients = [''did:web:v''], de_createdAt = ''now'',
     de_payload = Obj [(''actionPackage'', coord_package)], de_expiresAt = None, de_audience = None\<rparr>"

definition coord_response :: delivery_envelope where
  "coord_response = \<lparr>de_sender = ''did:web:v'', de_recipients = [''did:web:p''], de_createdAt = ''now'',
     de_payload = Obj [(''actionEnvelopeHash'', hash_json coord_hash), (''verifier'', Obj [(''did'', Str ''did:web:v'')]),
       (''result'', Str ''executed'')], de_expiresAt = None, de_audience = None\<rparr>"

definition coord_cmds :: "(int \<times> coordination_cmd) list" where
  "coord_cmds = [(0, Create_Workflow coord_package coord_requirements), (0, Submit_Approval coord_submission),
     (0, Begin_Relayed coord_relayed ''did:web:v''), (0, Submit_Response coord_response [])]"

definition coord_time :: timestamp where
  "coord_time = ''1970-01-01T00:00:00.000Z''"

definition coord_ref :: action_ref where
  "coord_ref = \<lparr>ref_actionId = \<lparr>aid_value = ''1'', aid_scope = None\<rparr>, ref_actionEnvelopeHash = coord_hash\<rparr>"

definition coord_workflow :: "coordination_state \<Rightarrow> stored_approval list \<Rightarrow> stored_action" where
  "coord_workflow state approvals = \<lparr>sa_actionPackage = coord_package, sa_authorizationRequirements = coord_requirements,
     sa_actionRef = coord_ref, sa_state = state, sa_approvals = approvals, sa_createdAt = coord_time, sa_updatedAt = coord_time,
     sa_cancelledAt = None, sa_rejectedAt = None\<rparr>"

definition coord_approval :: stored_approval where
  "coord_approval = \<lparr>sap_approval = sub_approval coord_submission, sap_signerDid = ''did:web:a'', sap_decision = Approve\<rparr>"

definition coord_relay_record :: "jsval option \<Rightarrow> relayed_action" where
  "coord_relay_record response = \<lparr>ra_envelope = coord_relayed, ra_actionRef = coord_ref, ra_verifierDid = ''did:web:v'',
     ra_createdAt = coord_time, ra_response = response\<rparr>"

definition coord_delivery :: "nat \<Rightarrow> did \<Rightarrow> delivery_envelope \<Rightarrow> stored_delivery" where
  "coord_delivery n recipient envelope = \<lparr>sd_sequence = n, sd_recipient = recipient, sd_envelope = envelope\<rparr>"

definition coord_audit :: "routing_purpose \<Rightarrow> did \<Rightarrow> did \<Rightarrow> routing_audit_entry" where
  "coord_audit purpose sender recipient = \<lparr>au_purpose = purpose, au_sender = sender, au_recipients = [recipient],
     au_designatedVerifierDid = ''did:web:v'', au_payloadHash = coord_hash, au_createdAt = coord_time\<rparr>"

definition coord_store1 :: coordination_store where
  "coord_store1 = (newCoordinationStore None)\<lparr>cs_actions := [coord_workflow Awaiting_Approvals []],
     cs_actionsById := [(''1'', 0)], cs_actionsByEnvelopeHash := [(''h'', 0)]\<rparr>"

definition coord_store2 :: coordination_store where
  "coord_store2 = coord_store1\<lparr>cs_actions := [coord_workflow Ready_For_Submission [coord_approval]]\<rparr>"

definition coord_store3 :: coordination_store where
  "coord_store3 = coord_store2\<lparr>cs_relayed := [coord_relay_record None], cs_relayedActionsById := [(''1'', 0)],
     cs_relayedActionsByEnvelopeHash := [(''h'', 0)], cs_deliveries := [coord_delivery 1 ''did:web:v'' coord_relayed],
     cs_routingAuditEntries := [coord_audit Initial_Action ''did:web:p'' ''did:web:v''], cs_nextDeliverySequence := 2\<rparr>"

definition coord_store4 :: coordination_store where
  "coord_store4 = coord_store3\<lparr>cs_relayed := [coord_relay_record (Some (de_payload coord_response))],
     cs_deliveries := [coord_delivery 1 ''did:web:v'' coord_relayed, coord_delivery 2 ''did:web:p'' coord_response],
     cs_routingAuditEntries := [coord_audit Initial_Action ''did:web:p'' ''did:web:v'', coord_audit Action_Response ''did:web:v'' ''did:web:p''],
     cs_nextDeliverySequence := 3\<rparr>"

lemma coord_step1: "coordination_step coord_host (newCoordinationStore None) (0, Create_Workflow coord_package coord_requirements) = coord_store1"
  by code_simp

lemma coord_step2: "coordination_step coord_host coord_store1 (0, Submit_Approval coord_submission) = coord_store2"
  by code_simp

lemma coord_step3: "coordination_step coord_host coord_store2 (0, Begin_Relayed coord_relayed ''did:web:v'') = coord_store3"
  by code_simp

lemma coord_step4: "coordination_step coord_host coord_store3 (0, Submit_Response coord_response []) = coord_store4"
  by code_simp

lemma coord_run: "run_coordination coord_host (newCoordinationStore None) coord_cmds = coord_store4"
  by (simp only: run_coordination_def coord_cmds_def foldl.simps coord_step1 coord_step2 coord_step3 coord_step4)

lemma coord_store4_sel:
  "cs_actions coord_store4 = [coord_workflow Ready_For_Submission [coord_approval]]"
  "cs_relayed coord_store4 = [coord_relay_record (Some (de_payload coord_response))]"
  "length (cs_deliveries coord_store4) = 2" "cs_nextDeliverySequence coord_store4 = 3"
  "sa_state (coord_workflow x xs) = x" "ra_response (coord_relay_record q) = q"
  by (simp_all add: coord_store4_def coord_store3_def coord_store2_def coord_workflow_def coord_relay_record_def)

section \<open>Properties\<close>

lemma reachable_inv: "coordination_inv H (run_coordination H (newCoordinationStore now) cs)"
  by (rule inv_run_coordination [OF inv_newCoordinationStore])

lemma reachable_delivered: "responses_delivered (run_coordination H (newCoordinationStore now) cs)"
  by (rule delivered_run [OF inv_newCoordinationStore]) (simp add: responses_delivered_def newCoordinationStore_def)

text \<open>
  C35. A workflow is ready for submission only with its approval requirements satisfied by the
  stored decisions, which are of distinct signers, none of them the proposer, and as the
  approvals' payloads state them, for this envelope's hash.
\<close>

theorem ready_workflow_is_approved:
  assumes "a \<in> set (cs_actions (run_coordination H (newCoordinationStore now) cs))" "sa_state a = Ready_For_Submission"
  shows "evaluateApprovalRequirements (requirements_for a) (decisions_of (sa_approvals a)) = Inr AR_Satisfied \<and>
    distinct (map sap_signerDid (sa_approvals a)) \<and> proposer_of a \<notin> sap_signerDid ` set (sa_approvals a) \<and>
    list_all (entry_signed H a) (sa_approvals a)"
proof -
  have "list_all (workflow_ok H) (cs_actions (run_coordination H (newCoordinationStore now) cs))"
    using reachable_inv [of H now cs] by (simp add: coordination_inv_def)
  then have "workflow_ok H a" unfolding list_all_iff using assms(1) by (rule bspec)
  with assms(2) show ?thesis by (simp add: workflow_ok_def)
qed

theorem ready_workflow_is_approved_witness:
  "evaluateApprovalRequirements (requirements_for (coord_workflow Ready_For_Submission [coord_approval])) (decisions_of [coord_approval]) =
     Inr AR_Satisfied"
proof -
  have "coord_workflow Ready_For_Submission [coord_approval] \<in>
      set (cs_actions (run_coordination coord_host (newCoordinationStore None) coord_cmds))"
    unfolding coord_run coord_store4_sel by (rule list.set_intros)
  from ready_workflow_is_approved [OF this coord_store4_sel(5), THEN conjunct1] show ?thesis
    by (simp add: coord_workflow_def)
qed

text \<open>
  C36. The life of the workflow an action identifier names, whatever requests follow: the
  identifier and the envelope's hash name this workflow for good, and a request that creates
  the identifier again is refused or answered with the workflow's state. The workflow keeps
  its reference, package and requirements, decisions are only added and none after it is
  ready, a ready workflow can only expire, and a rejected, cancelled or expired one never
  changes again.
\<close>

theorem workflow_lifecycle:
  assumes "s = run_coordination H (newCoordinationStore now) cs" "map_get (cs_actionsById s) actionId = Some r"
    and "s' = run_coordination H s ds"
  shows "map_get (cs_actionsById s') actionId = Some r \<and>
    map_get (cs_actionsByEnvelopeHash s') (action_hash_key (action_at s r)) = Some r \<and>
    evolves (action_at s r) (action_at s' r) \<and>
    (\<forall>clock pkg requirements w. aid_value (action_id_of (actionEnvelope pkg)) = actionId \<longrightarrow>
       snd (createWorkflow H s' clock pkg requirements) = Inr w \<longrightarrow>
       \<not> wr_created w \<and> wr_state w = sa_state (action_at (fst (createWorkflow H s' clock pkg requirements)) r))"
proof -
  have inv: "coordination_inv H s" "coordination_inv H s'"
    unfolding assms(1,3) by (intro inv_run_coordination inv_newCoordinationStore)+
  have r: "r < length (cs_actions s)" using inv_byId [OF inv(1) assms(2)] by simp
  have "map_get (cs_actionsByEnvelopeHash s) (action_hash_key (action_at s r)) = Some r"
    using inv(1) indexed_at [of action_hash_key "cs_actions s"] r by (simp add: coordination_inv_def)
  then have kept: "map_get (cs_actionsById s') actionId = Some r"
      "map_get (cs_actionsByEnvelopeHash s') (action_hash_key (action_at s r)) = Some r"
    using indexes_kept_run [OF inv(1), of ds] assms(2,3) by (simp_all add: indexes_kept_def index_kept_def)
  have "evolves (action_at s r) (action_at s' r)"
    using evolves_run [of s H ds] r assms(3) by (simp add: store_evolves_def)
  moreover have "\<forall>clock pkg requirements w. aid_value (action_id_of (actionEnvelope pkg)) = actionId \<longrightarrow>
       snd (createWorkflow H s' clock pkg requirements) = Inr w \<longrightarrow>
       \<not> wr_created w \<and> wr_state w = sa_state (action_at (fst (createWorkflow H s' clock pkg requirements)) r)"
    using createWorkflow_existing [OF inv(2)] kept(1) by blast
  ultimately show ?thesis using kept by blast
qed

theorem workflow_lifecycle_witness:
  "evolves (coord_workflow Ready_For_Submission [coord_approval])
     (action_at (run_coordination coord_host coord_store4 [(0, Cancel_Action ''1'' ''did:web:p'')]) 0) \<and>
   map_get (cs_actionsById (run_coordination coord_host coord_store4 [(0, Cancel_Action ''1'' ''did:web:p'')])) ''1'' = Some 0"
proof -
  have "map_get (cs_actionsById coord_store4) ''1'' = Some 0"
    by (simp add: coord_store4_def coord_store3_def coord_store2_def coord_store1_def)
  from workflow_lifecycle [OF coord_run [symmetric] this refl, of "[(0, Cancel_Action ''1'' ''did:web:p'')]"]
  show ?thesis by (simp add: coord_store4_sel)
qed

text \<open>
  C37. The first response to a relayed action is final: in a reachable store the response of
  the action a hash names is the payload of a delivery to the action's proposer, sent by the
  designated Verifier, which is a recipient of the action and is named in the response. No
  later request replaces the response, or the action the hash names.
\<close>

theorem first_response_is_final:
  assumes "s = run_coordination H (newCoordinationStore now) cs"
    and "map_get (cs_relayedActionsByEnvelopeHash s) k = Some r" "a = cs_relayed s ! r" "ra_response a = Some p"
    and "s' = run_coordination H s ds"
  shows "(\<exists>d \<in> set (cs_deliveries s). de_payload (sd_envelope d) = p \<and> de_sender (sd_envelope d) = ra_verifierDid a \<and>
       sd_recipient d = proposer_did (actionEnvelope (package_of (ra_envelope a)))) \<and>
    js_get (js_get p ''verifier'') ''did'' = Str (ra_verifierDid a) \<and> ra_verifierDid a \<in> set (de_recipients (ra_envelope a)) \<and>
    map_get (cs_relayedActionsByEnvelopeHash s') k = Some r \<and> ra_response (cs_relayed s' ! r) = Some p"
proof -
  have inv: "coordination_inv H s" unfolding assms(1) by (intro inv_run_coordination inv_newCoordinationStore)
  have r: "r < length (cs_relayed s)"
    using inv assms(2) indexed_get [of relayed_hash_key "cs_relayed s"] by (auto simp: coordination_inv_def)
  then have a: "relayed_ok H a" "response_delivered (cs_deliveries s) a"
    using inv reachable_delivered [of H now cs] assms(1,3)
    by (simp_all add: coordination_inv_def responses_delivered_def list_all_length)
  have "response_kept a (cs_relayed s' ! r)"
    using relay_evolves_run [of s H ds] r assms(3,5) by (simp add: relay_evolves_def)
  moreover have "map_get (cs_relayedActionsByEnvelopeHash s') k = Some r"
    using indexes_kept_run [OF inv, of ds] assms(2,5) by (simp add: indexes_kept_def index_kept_def)
  ultimately show ?thesis using a assms(4) by (simp add: relayed_ok_def response_delivered_def response_kept_def)
qed

theorem first_response_is_final_witness:
  "ra_response (cs_relayed (run_coordination coord_host coord_store4 [(1, Submit_Response coord_response [])]) ! 0) =
     Some (de_payload coord_response)"
proof -
  have "map_get (cs_relayedActionsByEnvelopeHash coord_store4) ''h'' = Some 0"
      "ra_response (cs_relayed coord_store4 ! 0) = Some (de_payload coord_response)"
    by (simp_all add: coord_store4_sel coord_store4_def coord_store3_def coord_relay_record_def)
  from first_response_is_final [OF coord_run [symmetric] this(1) refl this(2) refl, THEN conjunct2, THEN conjunct2, THEN conjunct2, THEN conjunct2]
  show ?thesis .
qed

text \<open>
  C38. Paging loses and repeats nothing: a recipient that follows the cursors receives exactly
  its unexpired deliveries, in the order they were stored, after at most one poll more than
  there are deliveries. Sequence numbers are below \<open>2^53\<close>, the safe integers.
\<close>

theorem polling_reaches_every_delivery:
  assumes "s = run_coordination H (newCoordinationStore now) cs" "cs_nextDeliverySequence s \<le> 2 ^ 53"
    and "length (deliveries_for H s clock did) < n"
  shows "poll_pages H s clock did n None = map sd_envelope (deliveries_for H s clock did)"
proof -
  have seq: "map sd_sequence (cs_deliveries s) = [1..<cs_nextDeliverySequence s]"
    using reachable_inv [of H now cs] assms(1) by (simp add: coordination_inv_def)
  have bounds: "0 < sd_sequence e \<and> sd_sequence e < cs_nextDeliverySequence s" if "e \<in> set (cs_deliveries s)" for e
  proof -
    from that have "sd_sequence e \<in> set (map sd_sequence (cs_deliveries s))" by simp
    then show ?thesis unfolding seq by simp
  qed
  have "sorted_wrt (<) (map sd_sequence (cs_deliveries s))" unfolding seq by simp
  then have "sorted_wrt (\<lambda>x y. sd_sequence x < sd_sequence y) (deliveries_for H s clock did)"
    unfolding deliveries_for_def sorted_wrt_map by (rule sorted_wrt_filter)
  moreover have "\<forall>e \<in> set (cs_deliveries s). sd_sequence e < 2 ^ 53" using bounds assms(2) by fastforce
  moreover have "parseCursor None = Inr (num_of_nat 0)" by (simp add: parseCursor_def)
  moreover have all: "filter (\<lambda>e. 0 < sd_sequence e) (deliveries_for H s clock did) = deliveries_for H s clock did"
    unfolding filter_id_conv deliveries_for_def set_filter using bounds by blast
  ultimately show ?thesis using poll_pages_after [of H s clock did None 0 n] assms(3) by simp
qed

theorem polling_reaches_every_delivery_witness:
  "poll_pages coord_host coord_store4 0 ''did:web:v'' 3 None = map sd_envelope (deliveries_for coord_host coord_store4 0 ''did:web:v'')"
proof (rule polling_reaches_every_delivery [OF coord_run [symmetric]])
  show "cs_nextDeliverySequence coord_store4 \<le> 2 ^ 53" by (simp add: coord_store4_sel)
  have "length (deliveries_for coord_host coord_store4 0 ''did:web:v'') \<le> length (cs_deliveries coord_store4)"
    unfolding deliveries_for_def by (rule length_filter_le)
  then show "length (deliveries_for coord_host coord_store4 0 ''did:web:v'') < 3" by (simp add: coord_store4_sel)
qed

section \<open>Divergences from the specification\<close>

text \<open>
  A threshold without a decision counts approvals (\<open>expected_decision\<close>, as the
  specification says), but the request to its eligible signers asks for a rejection.
\<close>

lemma default_decision_asks_to_reject:
  assumes "find (\<lambda>t. did \<in> set (at_eligibleSigners t)) (thresholdsFor (requirements_for a)) = Some t" "at_decision t = None"
    and "find (\<lambda>e. os_signer e = did) (opt_list (ar_overrideSigners (requirements_for a))) = None"
    and "\<not> list_ex (\<lambda>e. sap_signerDid e = did) (sa_approvals a)"
  shows "expected_decision t = Approve \<and> map_option arq_requestedDecision (approvalRequestFor a did) = Some Reject"
  using assms by (simp add: approvalRequestFor_def expected_decision_def)

text \<open>
  Workflows are keyed by \<open>actionId.value\<close> alone: two actions with the same value in
  different scopes are in conflict.
\<close>

lemma action_scope_ignored:
  assumes "map_get (cs_actionsById s) (aid_value (action_id_of (actionEnvelope pkg))) = Some r"
    and "action_hash_key (action_at s r) \<noteq> hash_value (computeJsonHash H (actionEnvelope pkg))"
    and "validateActionPackageBindings H pkg = Inr ()"
    and "validateAuthorizationRequirements H requirements (computeJsonHash H (actionEnvelope pkg)) None (store_now s clock) = Inr ()"
  shows "snd (createWorkflow H s clock pkg requirements) =
    Inl (Service_Error 409 ''ACTION_ID_CONFLICT'' ''Action ID already exists with a different envelope hash.'')"
  using assms by (simp add: createWorkflow_def validateCreateWorkflow_def Let_def require_def)

end
