(* ===== verification/WorkflowStore.thy ===== *)
theory WorkflowStore
  imports MpasTypes JsDate
begin

text \<open>
  The workflow store of the proposer bridge, \<open>sdk/protocol/src/lib/workflow-store.ts\<close>: the
  contract as a locale over the client's view of a store, and the in-memory reference
  implementation, which satisfies it.

  Cloned values are the values themselves. \<open>now\<close> is the store's clock at the call; the
  claim reads it twice. Action packages, requirements and responses are opaque JSON values.
  \<open>listRecoverableWorkflows\<close> sorts by \<open>localeCompare\<close> of ISO time stamps of one form,
  which orders them by their characters.
\<close>

section \<open>Records\<close>

datatype workflow_state = Created | Submitting_To_Coordination | Awaiting_Approvals_W | Ready_W | Submitting_To_Verifier
  | Awaiting_Verifier_Result | Resolved_W | Unresolvable_W | Cancelled_W

definition TERMINAL_WORKFLOW_STATES :: "workflow_state list" where
  "TERMINAL_WORKFLOW_STATES = [Resolved_W, Unresolvable_W, Cancelled_W]"

abbreviation terminal :: "workflow_state \<Rightarrow> bool" where
  "terminal x \<equiv> x \<in> set TERMINAL_WORKFLOW_STATES"

datatype workflow_resolution =
    Resolution_Resolved jsval "jsval option"
  | Resolution_Unresolvable string string
  | Resolution_Cancelled timestamp

fun resolution_state :: "workflow_resolution \<Rightarrow> workflow_state" where
  "resolution_state (Resolution_Resolved _ _) = Resolved_W"
| "resolution_state (Resolution_Unresolvable _ _) = Unresolvable_W"
| "resolution_state (Resolution_Cancelled _) = Cancelled_W"

record create_workflow_input =
  cwi_taskId :: string
  cwi_actionId :: string
  cwi_actionIdempotencyKey :: string
  cwi_actionEnvelopeHash :: string
  cwi_toolName :: string
  cwi_actionPackage :: jsval
  cwi_expiresAt :: timestamp

record replace_action_input =
  rai_fromState :: workflow_state
  rai_actionId :: string
  rai_actionIdempotencyKey :: string
  rai_actionEnvelopeHash :: string
  rai_actionPackage :: jsval
  rai_authorizationRequirements :: jsval
  rai_expiresAt :: timestamp

record workflow_record =
  w_taskId :: string
  w_actionId :: string
  w_actionIdempotencyKey :: string
  w_actionEnvelopeHash :: string
  w_toolName :: string
  w_state :: workflow_state
  w_actionPackage :: jsval
  w_authorizationRequirements :: "jsval option"
  w_coordinationRef :: "jsval option"
  w_completedPackage :: "jsval option"
  w_adapterAttempts :: "jsval list"
  w_lastActionResponse :: "jsval option"
  w_expiresAt :: timestamp
  w_createdAt :: timestamp
  w_updatedAt :: timestamp
  w_claimedBy :: "string option"
  w_claimExpiresAt :: "timestamp option"
  w_resolvedAt :: "timestamp option"
  w_resolution :: "workflow_resolution option"

record memory_entry =
  me_record :: workflow_record
  me_claimExpiresMs :: "int option"

record memory_store =
  ms_entries :: "(string, memory_entry) jsmap"
  ms_actionTasks :: "(string, string) jsmap"

definition newMemoryStore :: memory_store where
  "newMemoryStore = \<lparr>ms_entries = [], ms_actionTasks = []\<rparr>"

section \<open>Operations\<close>

definition createWorkflowRecord :: "int \<Rightarrow> create_workflow_input \<Rightarrow> memory_store \<Rightarrow> memory_store \<times> (string + workflow_record)" where
  "createWorkflowRecord now input s =
    (if cwi_taskId input = cwi_actionId input then (s, Inl ''Task ID and Action ID must be distinct.'')
     else if map_get (ms_entries s) (cwi_taskId input) \<noteq> None
     then (s, Inl (''Workflow already exists for task '' @ cwi_taskId input @ ''.''))
     else if map_get (ms_actionTasks s) (cwi_actionId input) \<noteq> None
     then (s, Inl (''Workflow already exists for action '' @ cwi_actionId input @ ''.''))
     else let time = iso_of_ms now;
              record = \<lparr>w_taskId = cwi_taskId input, w_actionId = cwi_actionId input,
                w_actionIdempotencyKey = cwi_actionIdempotencyKey input, w_actionEnvelopeHash = cwi_actionEnvelopeHash input,
                w_toolName = cwi_toolName input, w_state = Created, w_actionPackage = cwi_actionPackage input,
                w_authorizationRequirements = None, w_coordinationRef = None, w_completedPackage = None, w_adapterAttempts = [],
                w_lastActionResponse = None, w_expiresAt = cwi_expiresAt input, w_createdAt = time, w_updatedAt = time,
                w_claimedBy = None, w_claimExpiresAt = None, w_resolvedAt = None, w_resolution = None\<rparr>
          in (s\<lparr>ms_entries := map_set (cwi_taskId input) \<lparr>me_record = record, me_claimExpiresMs = None\<rparr> (ms_entries s),
                ms_actionTasks := map_set (cwi_actionId input) (cwi_taskId input) (ms_actionTasks s)\<rparr>, Inr record))"

definition getWorkflow :: "memory_store \<Rightarrow> string \<Rightarrow> workflow_record option" where
  "getWorkflow s taskId = map_option me_record (map_get (ms_entries s) taskId)"

definition getWorkflowByActionId :: "memory_store \<Rightarrow> string \<Rightarrow> workflow_record option" where
  "getWorkflowByActionId s actionId = (case map_get (ms_actionTasks s) actionId of
     None \<Rightarrow> None | Some taskId \<Rightarrow> getWorkflow s taskId)"

text \<open>\<open>entry.record\<close> is changed in place.\<close>

definition put_record :: "string \<Rightarrow> memory_entry \<Rightarrow> workflow_record \<Rightarrow> memory_store \<Rightarrow> memory_store" where
  "put_record taskId entry r s = s\<lparr>ms_entries := map_set taskId (entry\<lparr>me_record := r\<rparr>) (ms_entries s)\<rparr>"

fun state_text :: "workflow_state \<Rightarrow> string" where
  "state_text Created = ''created''"
| "state_text Submitting_To_Coordination = ''submittingToCoordination''"
| "state_text Awaiting_Approvals_W = ''awaitingApprovals''"
| "state_text Ready_W = ''readyForSubmission''"
| "state_text Submitting_To_Verifier = ''submittingToVerifier''"
| "state_text Awaiting_Verifier_Result = ''awaitingVerifierResult''"
| "state_text Resolved_W = ''resolved''"
| "state_text Unresolvable_W = ''unresolvable''"
| "state_text Cancelled_W = ''cancelled''"

definition replaceAction :: "int \<Rightarrow> string \<Rightarrow> replace_action_input \<Rightarrow> memory_store \<Rightarrow> memory_store \<times> (string + workflow_record)" where
  "replaceAction now taskId input s =
    (if taskId = rai_actionId input then (s, Inl ''Task ID and Action ID must be distinct.'')
     else case map_get (ms_entries s) taskId of
       None \<Rightarrow> (s, Inl (''Workflow '' @ taskId @ '' is not in replacement state '' @ state_text (rai_fromState input) @ ''.''))
     | Some entry \<Rightarrow>
         if w_state (me_record entry) \<noteq> rai_fromState input
         then (s, Inl (''Workflow '' @ taskId @ '' is not in replacement state '' @ state_text (rai_fromState input) @ ''.''))
         else if map_get (ms_actionTasks s) (rai_actionId input) \<noteq> None
         then (s, Inl (''Workflow already exists for action '' @ rai_actionId input @ ''.''))
         else let record = (me_record entry)\<lparr>w_actionId := rai_actionId input, w_actionIdempotencyKey := rai_actionIdempotencyKey input,
                  w_actionEnvelopeHash := rai_actionEnvelopeHash input, w_actionPackage := rai_actionPackage input,
                  w_authorizationRequirements := Some (rai_authorizationRequirements input), w_expiresAt := rai_expiresAt input,
                  w_state := Submitting_To_Coordination, w_coordinationRef := None, w_completedPackage := None,
                  w_updatedAt := iso_of_ms now\<rparr>
              in (put_record taskId entry record (s\<lparr>ms_actionTasks := map_set (rai_actionId input) taskId (ms_actionTasks s)\<rparr>), Inr record))"

definition compareAndSetState :: "int \<Rightarrow> string \<Rightarrow> workflow_state \<Rightarrow> workflow_state \<Rightarrow> memory_store \<Rightarrow> memory_store \<times> bool" where
  "compareAndSetState now taskId from_state to_state s =
    (if terminal from_state \<or> terminal to_state then (s, False)
     else case map_get (ms_entries s) taskId of None \<Rightarrow> (s, False)
       | Some entry \<Rightarrow>
           if w_state (me_record entry) \<noteq> from_state then (s, False)
           else (put_record taskId entry ((me_record entry)\<lparr>w_state := to_state, w_updatedAt := iso_of_ms now\<rparr>) s, True))"

definition claimWorkflow :: "int \<Rightarrow> int \<Rightarrow> string \<Rightarrow> string \<Rightarrow> int \<Rightarrow> memory_store \<Rightarrow> memory_store \<times> bool" where
  "claimWorkflow nowMs later taskId workerId leaseMs s = (case map_get (ms_entries s) taskId of
     None \<Rightarrow> (s, False)
   | Some entry \<Rightarrow>
       if terminal (w_state (me_record entry)) then (s, False)
       else let record = me_record entry;
                held = (w_claimedBy record \<noteq> None \<and> w_claimedBy record \<noteq> Some workerId \<and>
                  nowMs < (case me_claimExpiresMs entry of None \<Rightarrow> 0 | Some t \<Rightarrow> t))
            in if held then (s, False)
               else (put_record taskId (entry\<lparr>me_claimExpiresMs := Some (nowMs + leaseMs)\<rparr>)
                      (record\<lparr>w_claimedBy := Some workerId, w_claimExpiresAt := Some (iso_of_ms (nowMs + leaseMs)),
                        w_updatedAt := iso_of_ms later\<rparr>) s, True))"

definition mutate :: "int \<Rightarrow> string \<Rightarrow> (workflow_record \<Rightarrow> workflow_record) \<Rightarrow> memory_store \<Rightarrow> memory_store" where
  "mutate now taskId f s = (case map_get (ms_entries s) taskId of
     None \<Rightarrow> s
   | Some entry \<Rightarrow> put_record taskId entry ((f (me_record entry))\<lparr>w_updatedAt := iso_of_ms now\<rparr>) s)"

definition saveCoordinationReference :: "int \<Rightarrow> string \<Rightarrow> jsval \<Rightarrow> memory_store \<Rightarrow> memory_store" where
  "saveCoordinationReference now taskId ref = mutate now taskId (w_coordinationRef_update (\<lambda>_. Some ref))"

definition saveCompletedPackage :: "int \<Rightarrow> string \<Rightarrow> jsval \<Rightarrow> memory_store \<Rightarrow> memory_store" where
  "saveCompletedPackage now taskId pkg = mutate now taskId (w_completedPackage_update (\<lambda>_. Some pkg))"

definition saveAuthorizationRequirements :: "int \<Rightarrow> string \<Rightarrow> jsval \<Rightarrow> memory_store \<Rightarrow> memory_store" where
  "saveAuthorizationRequirements now taskId requirements =
     mutate now taskId (w_authorizationRequirements_update (\<lambda>_. Some requirements))"

definition saveLastActionResponse :: "int \<Rightarrow> string \<Rightarrow> jsval \<Rightarrow> memory_store \<Rightarrow> memory_store" where
  "saveLastActionResponse now taskId response = mutate now taskId (w_lastActionResponse_update (\<lambda>_. Some response))"

definition saveAdapterAttempt :: "int \<Rightarrow> string \<Rightarrow> jsval \<Rightarrow> memory_store \<Rightarrow> memory_store" where
  "saveAdapterAttempt now taskId attempt = mutate now taskId (w_adapterAttempts_update (\<lambda>xs. xs @ [attempt]))"

definition resolved :: "timestamp \<Rightarrow> workflow_resolution \<Rightarrow> workflow_record \<Rightarrow> workflow_record" where
  "resolved time resolution r = r\<lparr>w_state := resolution_state resolution, w_resolution := Some resolution,
     w_resolvedAt := Some time, w_updatedAt := time\<rparr>"

definition resolveWorkflow :: "int \<Rightarrow> string \<Rightarrow> workflow_resolution \<Rightarrow> memory_store \<Rightarrow> memory_store" where
  "resolveWorkflow now taskId resolution s = (case map_get (ms_entries s) taskId of
     None \<Rightarrow> s
   | Some entry \<Rightarrow> if terminal (w_state (me_record entry)) then s
       else put_record taskId entry (resolved (iso_of_ms now) resolution (me_record entry)) s)"

definition cancelWorkflow :: "int \<Rightarrow> string \<Rightarrow> memory_store \<Rightarrow> memory_store \<times> bool" where
  "cancelWorkflow now taskId s = (case map_get (ms_entries s) taskId of
     None \<Rightarrow> (s, False)
   | Some entry \<Rightarrow> if terminal (w_state (me_record entry)) then (s, False)
       else (put_record taskId entry (resolved (iso_of_ms now) (Resolution_Cancelled (iso_of_ms now)) (me_record entry)) s, True))"

text \<open>A stable sort by a key of characters.\<close>

definition char_codes :: "string \<Rightarrow> nat list" where
  "char_codes = map of_char"

fun codes_le :: "nat list \<Rightarrow> nat list \<Rightarrow> bool" where
  "codes_le [] ys = True"
| "codes_le (x # xs) [] = False"
| "codes_le (x # xs) (y # ys) = (x < y \<or> x = y \<and> codes_le xs ys)"

fun insert_created :: "workflow_record \<Rightarrow> workflow_record list \<Rightarrow> workflow_record list" where
  "insert_created r [] = [r]"
| "insert_created r (x # xs) = (if codes_le (char_codes (w_createdAt r)) (char_codes (w_createdAt x)) then r # x # xs
     else x # insert_created r xs)"

definition listRecoverableWorkflows :: "memory_store \<Rightarrow> workflow_record list" where
  "listRecoverableWorkflows s =
     foldr insert_created (filter (\<lambda>r. \<not> terminal (w_state r)) (map (\<lambda>(k, e). me_record e) (ms_entries s))) []"

definition DEFAULT_RETENTION_MS :: int where
  "DEFAULT_RETENTION_MS = 24 * 60 * 60 * 1000"

text \<open>\<open>nowMs > Math.max(Date.parse(expiresAt), Date.parse(resolvedAt) + retentionMs)\<close>; false with NaN.\<close>

definition overdue :: "('a) host_scheme \<Rightarrow> int \<Rightarrow> int \<Rightarrow> workflow_record \<Rightarrow> bool" where
  "overdue H nowMs retentionMs r = (terminal (w_state r) \<and> (case w_resolvedAt r of None \<Rightarrow> False
     | Some resolvedAt \<Rightarrow> (case (date_parse (legacy_date H) (w_expiresAt r), date_parse (legacy_date H) resolvedAt) of
         (Some e, Some d) \<Rightarrow> max e (d + retentionMs) < nowMs
       | _ \<Rightarrow> False)))"

definition parsed_before :: "('a) host_scheme \<Rightarrow> timestamp \<Rightarrow> int \<Rightarrow> bool" where
  "parsed_before H t now = (case date_parse (legacy_date H) t of None \<Rightarrow> False | Some e \<Rightarrow> e < now)"

fun purge_loop :: "('a) host_scheme \<Rightarrow> int \<Rightarrow> int \<Rightarrow> (string \<times> memory_entry) list \<Rightarrow> memory_store \<times> nat \<Rightarrow> memory_store \<times> nat" where
  "purge_loop H nowMs retentionMs [] (s, purged) = (s, purged)"
| "purge_loop H nowMs retentionMs ((taskId, entry) # rest) (s, purged) =
     (if overdue H nowMs retentionMs (me_record entry)
      then purge_loop H nowMs retentionMs rest
        (s\<lparr>ms_entries := map_delete taskId (ms_entries s),
           ms_actionTasks := filter (\<lambda>(actionId, mappedTaskId). mappedTaskId \<noteq> taskId) (ms_actionTasks s)\<rparr>, purged + 1)
      else purge_loop H nowMs retentionMs rest (s, purged))"

definition purgeExpiredResults :: "('a) host_scheme \<Rightarrow> int \<Rightarrow> int \<Rightarrow> memory_store \<Rightarrow> memory_store \<times> nat" where
  "purgeExpiredResults H nowMs retentionMs s = purge_loop H nowMs retentionMs (ms_entries s) (s, 0)"

section \<open>The contract\<close>

text \<open>
  What the engine relies on, over any representation \<open>'s\<close> of the store: reading, the atomic
  transition, the exclusive claim with its lease, and the two first-wins terminal writes.
  \<open>lease s t\<close> is the holder of the workflow's claim and the time at which it ends.
\<close>

locale workflow_store =
  fixes get :: "'s \<Rightarrow> string \<Rightarrow> workflow_record option"
    and lease :: "'s \<Rightarrow> string \<Rightarrow> (string \<times> int) option"
    and cas :: "int \<Rightarrow> string \<Rightarrow> workflow_state \<Rightarrow> workflow_state \<Rightarrow> 's \<Rightarrow> 's \<times> bool"
    and claim :: "int \<Rightarrow> int \<Rightarrow> string \<Rightarrow> string \<Rightarrow> int \<Rightarrow> 's \<Rightarrow> 's \<times> bool"
    and resolve :: "int \<Rightarrow> string \<Rightarrow> workflow_resolution \<Rightarrow> 's \<Rightarrow> 's"
    and cancel :: "int \<Rightarrow> string \<Rightarrow> 's \<Rightarrow> 's \<times> bool"
  assumes cas_iff: "snd (cas now t a b s) \<longleftrightarrow> \<not> terminal a \<and> \<not> terminal b \<and> map_option w_state (get s t) = Some a"
    and cas_get: "snd (cas now t a b s) \<Longrightarrow> get (fst (cas now t a b s)) t' =
      (if t' = t then map_option (\<lambda>r. r\<lparr>w_state := b, w_updatedAt := iso_of_ms now\<rparr>) (get s t) else get s t')"
    and cas_fails: "\<not> snd (cas now t a b s) \<Longrightarrow> fst (cas now t a b s) = s"
    and claim_iff: "snd (claim now later t w l s) \<longleftrightarrow> (\<exists>r. get s t = Some r \<and> \<not> terminal (w_state r)) \<and>
      (case lease s t of None \<Rightarrow> True | Some (h, e) \<Rightarrow> h = w \<or> e \<le> now)"
    and claim_lease: "snd (claim now later t w l s) \<Longrightarrow> lease (fst (claim now later t w l s)) t = Some (w, now + l)"
    and claim_fails: "\<not> snd (claim now later t w l s) \<Longrightarrow> fst (claim now later t w l s) = s"
    and resolve_get: "get (resolve now t p s) t' = (if t' = t
      then map_option (\<lambda>r. if terminal (w_state r) then r else resolved (iso_of_ms now) p r) (get s t) else get s t')"
    and cancel_iff: "snd (cancel now t s) \<longleftrightarrow> (\<exists>r. get s t = Some r \<and> \<not> terminal (w_state r))"
    and cancel_get: "get (fst (cancel now t s)) t' = (if t' = t
      then map_option (\<lambda>r. if terminal (w_state r) then r else resolved (iso_of_ms now) (Resolution_Cancelled (iso_of_ms now)) r) (get s t)
      else get s t')"
begin

text \<open>Of two transitions from one state at most one succeeds.\<close>

lemma cas_race:
  assumes "snd (cas now t a b s)" "a \<noteq> b"
  shows "\<not> snd (cas now' t a c (fst (cas now t a b s)))"
  using assms cas_get [OF assms(1), of t] by (cases "get s t") (auto simp: cas_iff)

lemma terminal_resolution [simp]: "terminal (resolution_state p)"
  by (cases p) (simp_all add: TERMINAL_WORKFLOW_STATES_def)

text \<open>The first terminal write wins: the second changes nothing.\<close>

lemma resolve_first_wins: "get (resolve now' t q (resolve now t p s)) t' = get (resolve now t p s) t'"
  by (cases "get s t") (simp_all add: resolve_get resolved_def)

lemma cancel_after_resolve: "\<not> snd (cancel now' t (resolve now t p s))"
  by (auto simp: cancel_iff resolve_get resolved_def split: if_splits)

lemma resolve_after_cancel:
  "snd (cancel now t s) \<Longrightarrow> get (resolve now' t p (fst (cancel now t s))) t' = get (fst (cancel now t s)) t'"
  by (cases "get s t") (simp_all add: resolve_get cancel_get resolved_def TERMINAL_WORKFLOW_STATES_def)

lemma no_transition_after_resolve: "\<not> snd (cas now' t a b (resolve now t p s))"
  by (auto simp: cas_iff resolve_get resolved_def split: if_splits)

text \<open>A live lease shuts out every other worker.\<close>

lemma claim_excludes:
  assumes "snd (claim now later t w l s)" "w' \<noteq> w" "now' < now + l"
  shows "\<not> snd (claim now' later' t w' l' (fst (claim now later t w l s)))"
  using assms by (simp add: claim_iff [of now'] claim_lease)

end

section \<open>The in-memory store keeps the contract\<close>

definition memory_lease :: "memory_store \<Rightarrow> string \<Rightarrow> (string \<times> int) option" where
  "memory_lease s taskId = (case map_get (ms_entries s) taskId of
     None \<Rightarrow> None
   | Some entry \<Rightarrow> map_option (\<lambda>h. (h, case me_claimExpiresMs entry of None \<Rightarrow> 0 | Some t \<Rightarrow> t)) (w_claimedBy (me_record entry)))"

lemma getWorkflow_put [simp]:
  "getWorkflow (put_record t entry r s) t' = (if t' = t then Some r else getWorkflow s t')"
  by (simp add: getWorkflow_def put_record_def)

lemma get_entry: "map_get (ms_entries s) t = Some e \<Longrightarrow> getWorkflow s t = Some (me_record e)"
  by (simp add: getWorkflow_def)

lemma get_no_entry: "map_get (ms_entries s) t = None \<Longrightarrow> getWorkflow s t = None"
  by (simp add: getWorkflow_def)

interpretation memory_contract: workflow_store getWorkflow memory_lease compareAndSetState claimWorkflow resolveWorkflow cancelWorkflow
proof unfold_locales
  show "snd (claimWorkflow now later t w l s) \<longleftrightarrow> (\<exists>r. getWorkflow s t = Some r \<and> \<not> terminal (w_state r)) \<and>
      (case memory_lease s t of None \<Rightarrow> True | Some (h, e) \<Rightarrow> h = w \<or> e \<le> now)" for now later t w l s
    by (cases "map_get (ms_entries s) t")
      (auto simp: claimWorkflow_def memory_lease_def get_entry get_no_entry Let_def split: option.splits)
  show "memory_lease (fst (claimWorkflow now later t w l s)) t = Some (w, now + l)"
    if "snd (claimWorkflow now later t w l s)" for now later t w l s
    using that unfolding claimWorkflow_def memory_lease_def Let_def
    by (auto simp: put_record_def split: option.splits if_splits)
  show "fst (claimWorkflow now later t w l s) = s" if "\<not> snd (claimWorkflow now later t w l s)" for now later t w l s
    using that unfolding claimWorkflow_def Let_def by (auto split: option.splits if_splits)
qed (auto simp: compareAndSetState_def resolveWorkflow_def cancelWorkflow_def get_entry get_no_entry split: option.splits if_splits)

section \<open>All operations as steps\<close>

datatype store_cmd =
    Create_Cmd create_workflow_input
  | Replace_Cmd string replace_action_input
  | Cas_Cmd string workflow_state workflow_state
  | Claim_Cmd string string int
  | Save_Coordination_Cmd string jsval
  | Save_Completed_Cmd string jsval
  | Save_Requirements_Cmd string jsval
  | Save_Response_Cmd string jsval
  | Save_Attempt_Cmd string jsval
  | Resolve_Cmd string workflow_resolution
  | Cancel_Cmd string
  | Purge_Cmd int

fun store_step :: "('a) host_scheme \<Rightarrow> memory_store \<Rightarrow> int \<times> store_cmd \<Rightarrow> memory_store" where
  "store_step H s (now, Create_Cmd input) = fst (createWorkflowRecord now input s)"
| "store_step H s (now, Replace_Cmd t input) = fst (replaceAction now t input s)"
| "store_step H s (now, Cas_Cmd t a b) = fst (compareAndSetState now t a b s)"
| "store_step H s (now, Claim_Cmd t w l) = fst (claimWorkflow now now t w l s)"
| "store_step H s (now, Save_Coordination_Cmd t v) = saveCoordinationReference now t v s"
| "store_step H s (now, Save_Completed_Cmd t v) = saveCompletedPackage now t v s"
| "store_step H s (now, Save_Requirements_Cmd t v) = saveAuthorizationRequirements now t v s"
| "store_step H s (now, Save_Response_Cmd t v) = saveLastActionResponse now t v s"
| "store_step H s (now, Save_Attempt_Cmd t v) = saveAdapterAttempt now t v s"
| "store_step H s (now, Resolve_Cmd t p) = resolveWorkflow now t p s"
| "store_step H s (now, Cancel_Cmd t) = fst (cancelWorkflow now t s)"
| "store_step H s (now, Purge_Cmd retention) = fst (purgeExpiredResults H now retention s)"

definition run_store :: "('a) host_scheme \<Rightarrow> memory_store \<Rightarrow> (int \<times> store_cmd) list \<Rightarrow> memory_store" where
  "run_store H s cs = foldl (store_step H) s cs"

section \<open>Reading after an operation\<close>

lemma getWorkflow_actionTasks [simp]: "getWorkflow (s\<lparr>ms_actionTasks := m\<rparr>) t = getWorkflow s t"
  by (simp add: getWorkflow_def)

lemma getWorkflow_mutate [simp]:
  "getWorkflow (mutate now t f s) t' =
     (if t' = t then map_option (\<lambda>r. (f r)\<lparr>w_updatedAt := iso_of_ms now\<rparr>) (getWorkflow s t) else getWorkflow s t')"
  by (cases "map_get (ms_entries s) t") (simp_all add: mutate_def get_entry get_no_entry)

lemma purge_loop_entries:
  "map_get (ms_entries (fst (purge_loop H now ret es sp))) t =
     (if \<exists>e. (t, e) \<in> set es \<and> overdue H now ret (me_record e) then None else map_get (ms_entries (fst sp)) t)"
  by (induction H now ret es sp rule: purge_loop.induct) auto

lemma purge_loop_wf: "map_wf (ms_entries (fst sp)) \<Longrightarrow> map_wf (ms_entries (fst (purge_loop H now ret es sp)))"
  by (induction H now ret es sp rule: purge_loop.induct) auto

lemma purge_entries:
  assumes "map_wf (ms_entries s)"
  shows "map_get (ms_entries (fst (purgeExpiredResults H now ret s))) t =
    (case map_get (ms_entries s) t of Some e \<Rightarrow> if overdue H now ret (me_record e) then None else Some e | None \<Rightarrow> None)"
  using map_get_in_set [OF assms, of t] by (auto simp: purgeExpiredResults_def purge_loop_entries split: option.splits)

section \<open>The invariant\<close>

text \<open>
  Every entry is filed under its task identifier, its current Action ID leads to it, and it
  is terminal exactly when it holds a resolution, of that kind. Every known Action ID leads
  to a workflow, and none is a task identifier of its own workflow.
\<close>

definition record_ok :: "memory_store \<Rightarrow> string \<Rightarrow> workflow_record \<Rightarrow> bool" where
  "record_ok s t r \<longleftrightarrow> w_taskId r = t \<and> map_get (ms_actionTasks s) (w_actionId r) = Some t \<and>
     (case w_resolution r of None \<Rightarrow> \<not> terminal (w_state r) | Some p \<Rightarrow> w_state r = resolution_state p \<and> w_resolvedAt r \<noteq> None)"

definition store_inv :: "memory_store \<Rightarrow> bool" where
  "store_inv s \<longleftrightarrow> map_wf (ms_entries s) \<and> map_wf (ms_actionTasks s) \<and>
     (\<forall>t r. getWorkflow s t = Some r \<longrightarrow> record_ok s t r) \<and>
     (\<forall>a t. map_get (ms_actionTasks s) a = Some t \<longrightarrow> a \<noteq> t \<and> getWorkflow s t \<noteq> None)"

lemma store_inv_new: "store_inv newMemoryStore"
  by (simp add: store_inv_def newMemoryStore_def getWorkflow_def)

lemma store_inv_record: "store_inv s \<Longrightarrow> getWorkflow s t = Some r \<Longrightarrow> record_ok s t r"
  by (simp add: store_inv_def)

lemma put_record_sel [simp]:
  "ms_actionTasks (put_record t e r s) = ms_actionTasks s" "map_wf (ms_entries s) \<Longrightarrow> map_wf (ms_entries (put_record t e r s))"
  by (simp_all add: put_record_def)

lemma record_ok_same: "ms_actionTasks s' = ms_actionTasks s \<Longrightarrow> record_ok s' t r = record_ok s t r"
  by (simp add: record_ok_def)

text \<open>Writing a record back keeps the invariant when the record stays well formed.\<close>

lemma store_inv_put:
  assumes "store_inv s" "getWorkflow s t \<noteq> None" "record_ok s t r"
  shows "store_inv (put_record t e r s)"
  using assms unfolding store_inv_def by (auto simp: record_ok_same [of "put_record t e r s" s])

lemma store_inv_mutate:
  assumes "store_inv s" "\<And>r. record_ok s t r \<Longrightarrow> record_ok s t (f r)"
  shows "store_inv (mutate now t f s)"
proof (cases "map_get (ms_entries s) t")
  case None
  with assms(1) show ?thesis by (simp add: mutate_def)
next
  case (Some e)
  have "record_ok s t (f (me_record e))" using assms(2) store_inv_record [OF assms(1) get_entry [OF Some]] .
  then have "record_ok s t ((f (me_record e))\<lparr>w_updatedAt := iso_of_ms now\<rparr>)" by (auto simp: record_ok_def split: option.splits)
  with store_inv_put [OF assms(1)] get_entry [OF Some] show ?thesis by (simp add: mutate_def Some)
qed

lemma terminal_resolution_state [simp]: "terminal (resolution_state p)"
  by (cases p) (simp_all add: TERMINAL_WORKFLOW_STATES_def)

lemma record_ok_resolved: "record_ok s t r \<Longrightarrow> record_ok s t (resolved time p r)"
  by (simp add: record_ok_def resolved_def)

lemma record_ok_terminal: "record_ok s t r \<Longrightarrow> terminal (w_state r) \<longleftrightarrow> w_resolution r \<noteq> None"
  by (auto simp: record_ok_def split: option.splits)

lemma record_ok_state: "record_ok s t r \<Longrightarrow> \<not> terminal (w_state r) \<Longrightarrow> \<not> terminal x \<Longrightarrow> record_ok s t (r\<lparr>w_state := x, w_updatedAt := u\<rparr>)"
  by (auto simp: record_ok_def split: option.splits)

lemma store_inv_create:
  assumes "store_inv s"
  shows "store_inv (fst (createWorkflowRecord now input s))"
proof (cases "snd (createWorkflowRecord now input s)")
  case (Inl m)
  with assms show ?thesis by (auto simp: createWorkflowRecord_def Let_def split: if_splits)
next
  case (Inr r)
  define s' where "s' = fst (createWorkflowRecord now input s)"
  from Inr have new: "cwi_taskId input \<noteq> cwi_actionId input" "map_get (ms_entries s) (cwi_taskId input) = None"
      "map_get (ms_actionTasks s) (cwi_actionId input) = None"
    and r: "w_taskId r = cwi_taskId input" "w_actionId r = cwi_actionId input" "w_resolution r = None" "w_state r = Created"
    and s': "ms_entries s' = map_set (cwi_taskId input) \<lparr>me_record = r, me_claimExpiresMs = None\<rparr> (ms_entries s)"
      "ms_actionTasks s' = map_set (cwi_actionId input) (cwi_taskId input) (ms_actionTasks s)"
    by (auto simp: createWorkflowRecord_def Let_def s'_def split: if_splits)
  have get: "getWorkflow s' t = (if t = cwi_taskId input then Some r else getWorkflow s t)" for t
    by (simp add: getWorkflow_def s')
  have "record_ok s' (cwi_taskId input) r"
    using r by (simp add: record_ok_def s' TERMINAL_WORKFLOW_STATES_def)
  moreover have "record_ok s' t q" if "record_ok s t q" for t q
    using that new(3) by (auto simp: record_ok_def s')
  ultimately show ?thesis
    using assms new unfolding s'_def [symmetric] store_inv_def by (auto simp: s' get split: if_splits)
qed

lemma store_inv_replace:
  assumes "store_inv s" "\<not> terminal (rai_fromState input)"
  shows "store_inv (fst (replaceAction now t input s))"
proof (cases "snd (replaceAction now t input s)")
  case (Inl m)
  with assms show ?thesis by (auto simp: replaceAction_def Let_def split: if_splits option.splits)
next
  case (Inr r)
  then obtain e where e: "map_get (ms_entries s) t = Some e" "w_state (me_record e) = rai_fromState input"
      "t \<noteq> rai_actionId input" "map_get (ms_actionTasks s) (rai_actionId input) = None"
    and s': "fst (replaceAction now t input s) = put_record t e r (s\<lparr>ms_actionTasks := map_set (rai_actionId input) t (ms_actionTasks s)\<rparr>)"
    and r: "w_taskId r = w_taskId (me_record e)" "w_actionId r = rai_actionId input" "w_state r = Submitting_To_Coordination"
      "w_resolution r = w_resolution (me_record e)"
    by (auto simp: replaceAction_def Let_def split: if_splits option.splits)
  define s1 where "s1 = s\<lparr>ms_actionTasks := map_set (rai_actionId input) t (ms_actionTasks s)\<rparr>"
  have ok: "record_ok s t (me_record e)" using store_inv_record [OF assms(1) get_entry [OF e(1)]] .
  with e(2) assms(2) have "w_resolution (me_record e) = None" using record_ok_terminal by fastforce
  with ok r have "record_ok s1 t r" by (simp add: record_ok_def s1_def TERMINAL_WORKFLOW_STATES_def)
  moreover have "record_ok s1 t' q" if "record_ok s t' q" for t' q
    using that e(4) by (auto simp: record_ok_def s1_def)
  then have "store_inv s1"
    using assms(1) e(3) get_entry [OF e(1)] unfolding store_inv_def by (auto simp: s1_def split: if_splits)
  moreover have "getWorkflow s1 t \<noteq> None" using get_entry [OF e(1)] by (simp add: s1_def)
  ultimately show ?thesis unfolding s' s1_def [symmetric] by (intro store_inv_put)
qed

lemma purge_loop_inv:
  "store_inv (fst sp) \<Longrightarrow> store_inv (fst (purge_loop H now ret es sp))"
proof (induction H now ret es sp rule: purge_loop.induct)
  case (2 H now ret t e rest s purged)
  let ?s' = "s\<lparr>ms_entries := map_delete t (ms_entries s),
      ms_actionTasks := filter (\<lambda>(actionId, mappedTaskId). mappedTaskId \<noteq> t) (ms_actionTasks s)\<rparr>"
  show ?case
  proof (cases "overdue H now ret (me_record e)")
    case True
    from 2(3) have inv: "store_inv s" by simp
    then have wf: "map_wf (ms_actionTasks s)" by (simp add: store_inv_def)
    have keep: "map_get (filter (\<lambda>(a, t'). t' \<noteq> t) (ms_actionTasks s)) a = Some t' \<longleftrightarrow>
        map_get (ms_actionTasks s) a = Some t' \<and> t' \<noteq> t" for a t'
      using wf distinct_map_filter [OF wf, of "\<lambda>(a, t'). t' \<noteq> t"] by (auto simp: map_get_in_set [symmetric])
    have get: "getWorkflow (s\<lparr>ms_entries := map_delete t (ms_entries s)\<rparr>) t' = (if t' = t then None else getWorkflow s t')" for t'
      by (simp add: getWorkflow_def)
    have "record_ok ?s' t' r" if "record_ok s t' r" "t' \<noteq> t" for t' r
      using that by (simp add: record_ok_def keep)
    then have "store_inv ?s'"
      using inv unfolding store_inv_def by (auto simp: get keep distinct_map_filter split: if_splits)
    with 2(1) [OF True] True show ?thesis by simp
  next
    case False
    with 2 show ?thesis by simp
  qed
qed simp

text \<open>\<open>ReplaceWorkflowActionInput.fromState\<close> is one of two states, by its type.\<close>

fun cmd_typed :: "store_cmd \<Rightarrow> bool" where
  "cmd_typed (Replace_Cmd t input) = (rai_fromState input \<in> {Created, Submitting_To_Verifier})"
| "cmd_typed _ = True"

lemma store_inv_write:
  assumes "store_inv s" "map_get (ms_entries s) t = Some e" "record_ok s t (me_record e) \<Longrightarrow> record_ok s t r"
  shows "store_inv (put_record t e' r s)"
  using assms(1) _ assms(3) [OF store_inv_record [OF assms(1) get_entry [OF assms(2)]]]
  by (rule store_inv_put) (simp add: get_entry [OF assms(2)])

lemma record_ok_claim:
  "record_ok s t r \<Longrightarrow> record_ok s t (r\<lparr>w_claimedBy := x, w_claimExpiresAt := y, w_updatedAt := u\<rparr>)"
  by (auto simp: record_ok_def split: option.splits)

lemma store_inv_cas: "store_inv s \<Longrightarrow> store_inv (fst (compareAndSetState now t a b s))"
  by (cases "map_get (ms_entries s) t")
    (auto simp: compareAndSetState_def intro: store_inv_write record_ok_state)

lemma store_inv_claim: "store_inv s \<Longrightarrow> store_inv (fst (claimWorkflow now later t w l s))"
  by (cases "map_get (ms_entries s) t")
    (auto simp: claimWorkflow_def Let_def intro: store_inv_write record_ok_claim)

lemma store_inv_resolve: "store_inv s \<Longrightarrow> store_inv (resolveWorkflow now t p s)"
  by (cases "map_get (ms_entries s) t") (auto simp: resolveWorkflow_def intro: store_inv_write record_ok_resolved)

lemma store_inv_cancel: "store_inv s \<Longrightarrow> store_inv (fst (cancelWorkflow now t s))"
  by (cases "map_get (ms_entries s) t") (auto simp: cancelWorkflow_def intro: store_inv_write record_ok_resolved)

lemma store_inv_step:
  assumes "store_inv s" "cmd_typed (snd c)"
  shows "store_inv (store_step H s c)"
  using assms
proof (induction H s c rule: store_step.induct)
  case (2 H s now t input)
  then show ?case by (auto simp: TERMINAL_WORKFLOW_STATES_def intro!: store_inv_replace)
next
  case (12 H s now retention)
  then show ?case by (simp add: purgeExpiredResults_def purge_loop_inv)
qed (auto simp: store_inv_create store_inv_cas store_inv_claim store_inv_resolve store_inv_cancel saveCoordinationReference_def
    saveCompletedPackage_def saveAuthorizationRequirements_def saveLastActionResponse_def saveAdapterAttempt_def record_ok_def
    intro!: store_inv_mutate split: option.splits)

lemma store_inv_run:
  "store_inv s \<Longrightarrow> list_all (\<lambda>c. cmd_typed (snd c)) cs \<Longrightarrow> store_inv (run_store H s cs)"
  unfolding run_store_def by (induction cs arbitrary: s) (simp_all add: store_inv_step)

section \<open>Properties\<close>

definition same_outcome :: "workflow_record \<Rightarrow> workflow_record \<Rightarrow> bool" where
  "same_outcome r r' \<longleftrightarrow> w_state r' = w_state r \<and> w_resolution r' = w_resolution r \<and> w_resolvedAt r' = w_resolvedAt r"

text \<open>Creating a task that has a workflow is refused.\<close>

lemma createWorkflowRecord_known:
  "getWorkflow s (cwi_taskId input) = Some r \<Longrightarrow> fst (createWorkflowRecord now input s) = s"
  by (auto simp: createWorkflowRecord_def getWorkflow_def)

lemma createWorkflowRecord_entry:
  assumes "getWorkflow s t = Some r"
  shows "map_get (ms_entries (fst (createWorkflowRecord now input s))) t = map_get (ms_entries s) t"
proof (cases "cwi_taskId input = t")
  case True
  with assms show ?thesis by (simp add: createWorkflowRecord_known)
next
  case False
  then show ?thesis by (simp add: createWorkflowRecord_def Let_def)
qed

lemma getWorkflow_create: "getWorkflow s t = Some r \<Longrightarrow> getWorkflow (fst (createWorkflowRecord now input s)) t = Some r"
  using createWorkflowRecord_entry [of s t r now input] by (simp add: getWorkflow_def)

lemma getWorkflow_replace:
  "getWorkflow s t = Some r \<Longrightarrow> (t' = t \<Longrightarrow> w_state r \<noteq> rai_fromState input) \<Longrightarrow>
     getWorkflow (fst (replaceAction now t' input s)) t = Some r"
  by (cases "map_get (ms_entries s) t'") (auto simp: replaceAction_def Let_def get_entry)

lemma getWorkflow_claim:
  "getWorkflow (fst (claimWorkflow now later t w l s)) t' = (if t' = t \<and> snd (claimWorkflow now later t w l s)
     then map_option (\<lambda>r. r\<lparr>w_claimedBy := Some w, w_claimExpiresAt := Some (iso_of_ms (now + l)), w_updatedAt := iso_of_ms later\<rparr>)
       (getWorkflow s t) else getWorkflow s t')"
  by (cases "map_get (ms_entries s) t") (auto simp: claimWorkflow_def Let_def get_entry)

lemma getWorkflow_purge:
  "getWorkflow (fst (purgeExpiredResults H now ret s)) t \<in> {None, getWorkflow s t}"
  by (auto simp: getWorkflow_def purgeExpiredResults_def purge_loop_entries)

lemma terminal_step:
  assumes "getWorkflow s t = Some r" "terminal (w_state r)" "cmd_typed c"
  shows "getWorkflow (store_step H s (now, c)) t = None \<or> (\<exists>r'. getWorkflow (store_step H s (now, c)) t = Some r' \<and> same_outcome r r')"
proof (cases c)
  case (Create_Cmd input)
  with assms show ?thesis by (simp add: getWorkflow_create same_outcome_def)
next
  case (Replace_Cmd t' input)
  have "w_state r \<noteq> rai_fromState input" using assms(2,3) Replace_Cmd by (auto simp: TERMINAL_WORKFLOW_STATES_def)
  with assms(1) Replace_Cmd show ?thesis by (simp add: getWorkflow_replace same_outcome_def)
next
  case (Cas_Cmd t' a b)
  have "snd (compareAndSetState now t' a b s) \<Longrightarrow> t' \<noteq> t" using assms(1,2) by (auto simp: memory_contract.cas_iff)
  with assms(1) Cas_Cmd memory_contract.cas_get [of now t' a b s t] memory_contract.cas_fails [of now t' a b s] show ?thesis
    by (cases "snd (compareAndSetState now t' a b s)") (simp_all add: same_outcome_def)
next
  case (Purge_Cmd ret)
  with assms(1) getWorkflow_purge [of H now ret s t] show ?thesis by (auto simp: same_outcome_def)
qed (use assms in \<open>auto simp: same_outcome_def getWorkflow_claim memory_contract.resolve_get memory_contract.cancel_get
    saveCoordinationReference_def saveCompletedPackage_def saveAuthorizationRequirements_def saveLastActionResponse_def
    saveAdapterAttempt_def\<close>)

text \<open>The record of \<open>t\<close> was removed by a purge among \<open>cs\<close>, when it was \<open>P\<close> and overdue.\<close>

definition purged_in :: "('a) host_scheme \<Rightarrow> memory_store \<Rightarrow> string \<Rightarrow> (int \<times> store_cmd) list \<Rightarrow> (workflow_record \<Rightarrow> bool) \<Rightarrow> bool" where
  "purged_in H s t cs P \<longleftrightarrow> (\<exists>before now retention after r. cs = before @ (now, Purge_Cmd retention) # after \<and>
     getWorkflow (run_store H s before) t = Some r \<and> P r \<and> overdue H now retention r)"

lemma purged_in_Cons: "purged_in H (store_step H s c) t cs P \<Longrightarrow> purged_in H s t (c # cs) P"
  unfolding purged_in_def run_store_def by (metis append_Cons foldl_Cons)

lemma purged_in_now:
  "getWorkflow s t = Some r \<Longrightarrow> P r \<Longrightarrow> overdue H now retention r \<Longrightarrow> purged_in H s t ((now, Purge_Cmd retention) # cs) P"
  unfolding purged_in_def run_store_def by (metis append_Nil foldl_Nil)

text \<open>Only a purge removes a record, and only an overdue one.\<close>

lemma removed_step:
  assumes "store_inv s" "getWorkflow s t = Some r" "getWorkflow (store_step H s (now, c)) t = None"
  shows "\<exists>retention. c = Purge_Cmd retention \<and> overdue H now retention r"
proof (cases c)
  case (Create_Cmd input)
  with assms show ?thesis by (simp add: getWorkflow_create)
next
  case (Replace_Cmd t' input)
  with assms show ?thesis
    by (cases "map_get (ms_entries s) t'") (auto simp: replaceAction_def Let_def split: if_splits)
next
  case (Cas_Cmd t' a b)
  with assms memory_contract.cas_get [of now t' a b s t] memory_contract.cas_fails [of now t' a b s] show ?thesis
    by (cases "snd (compareAndSetState now t' a b s)") (auto split: if_splits)
next
  case (Purge_Cmd retention)
  with assms purge_entries [of s H now retention t] show ?thesis
    by (auto simp: getWorkflow_def store_inv_def split: if_splits)
qed (use assms in \<open>auto simp: getWorkflow_claim memory_contract.resolve_get memory_contract.cancel_get
    saveCoordinationReference_def saveCompletedPackage_def saveAuthorizationRequirements_def saveLastActionResponse_def
    saveAdapterAttempt_def split: if_splits\<close>)

text \<open>What every step keeps of a record that stays, a run keeps until the record is purged.\<close>

lemma kept_or_purged:
  assumes "\<And>s r now c. store_inv s \<Longrightarrow> getWorkflow s t = Some r \<Longrightarrow> Q s r \<Longrightarrow> cmd_typed c \<Longrightarrow> allowed now c \<Longrightarrow>
      getWorkflow (store_step H s (now, c)) t = None \<or>
      (\<exists>r'. getWorkflow (store_step H s (now, c)) t = Some r' \<and> Q (store_step H s (now, c)) r')"
    and "\<And>s r. Q s r \<Longrightarrow> P r"
  shows "store_inv s \<Longrightarrow> getWorkflow s t = Some r \<Longrightarrow> Q s r \<Longrightarrow> list_all (\<lambda>(now, c). cmd_typed c \<and> allowed now c) cs \<Longrightarrow>
    (\<exists>r'. getWorkflow (run_store H s cs) t = Some r' \<and> Q (run_store H s cs) r') \<or> purged_in H s t cs P"
proof (induction cs arbitrary: s r)
  case (Cons c cs)
  obtain now cmd where c: "c = (now, cmd)" by (cases c)
  from Cons.prems(4) c have cmd: "cmd_typed cmd" "allowed now cmd" by simp_all
  show ?case
  proof (cases "getWorkflow (store_step H s c) t")
    case None
    then obtain retention where "cmd = Purge_Cmd retention" "overdue H now retention r"
      using removed_step [OF Cons.prems(1,2), of H now cmd] c by auto
    then show ?thesis using purged_in_now [of s t r P] Cons.prems(2) assms(2) [OF Cons.prems(3)] c by blast
  next
    case (Some r')
    then have "Q (store_step H s c) r'" using assms(1) [OF Cons.prems(1-3) cmd] c by auto
    moreover have "store_inv (store_step H s c)" by (rule store_inv_step [OF Cons.prems(1)]) (simp add: c cmd(1))
    ultimately have "(\<exists>r'. getWorkflow (run_store H (store_step H s c) cs) t = Some r' \<and> Q (run_store H (store_step H s c) cs) r') \<or>
        purged_in H (store_step H s c) t cs P"
      using Some Cons.prems(4) by (intro Cons.IH) simp_all
    then show ?thesis using purged_in_Cons [of H s c t cs P] by (auto simp: run_store_def)
  qed
qed (simp add: run_store_def)

text \<open>
  C39. A terminal outcome is immutable: from a reachable store on, whatever operations follow
  (creating the same task again included), the workflow has the same state, resolution and
  resolution time, unless a purge among them removed it with that outcome, when it was overdue.
\<close>

theorem terminal_outcome_immutable:
  assumes "list_all (\<lambda>c. cmd_typed (snd c)) (cs0 @ cs)" "s = run_store H newMemoryStore cs0"
    and "getWorkflow s t = Some r" "terminal (w_state r)"
  shows "(\<exists>r'. getWorkflow (run_store H s cs) t = Some r' \<and> same_outcome r r') \<or> purged_in H s t cs (same_outcome r)"
proof -
  have inv: "store_inv s"
    unfolding assms(2) using assms(1) by (intro store_inv_run [OF store_inv_new]) simp
  have "getWorkflow (store_step H s (now, c)) t = None \<or>
      (\<exists>r'. getWorkflow (store_step H s (now, c)) t = Some r' \<and> same_outcome r r')"
    if "getWorkflow s t = Some r1" "same_outcome r r1" "cmd_typed c" for s r1 now c
    using terminal_step [OF that(1) _ that(3), of H now] that(2) assms(4) by (auto simp: same_outcome_def)
  note step = this
  have "same_outcome r r" "list_all (\<lambda>(now, c). cmd_typed c \<and> True) cs" using assms(1) by (simp_all add: same_outcome_def list_all_iff case_prod_beta)
  with kept_or_purged [where Q = "\<lambda>s. same_outcome r" and allowed = "\<lambda>now c. True" and P = "same_outcome r", OF _ _ inv assms(3), of H cs]
  show ?thesis using step by blast
qed

definition store_host :: host where
  "store_host = \<lparr>jcs = (\<lambda>v. []), sha256 = (\<lambda>s. s), legacy_date = (\<lambda>s. None), url_parse = (\<lambda>s. None)\<rparr>"

definition example_input :: create_workflow_input where
  "example_input = \<lparr>cwi_taskId = ''t'', cwi_actionId = ''a'', cwi_actionIdempotencyKey = ''k'', cwi_actionEnvelopeHash = ''h'',
     cwi_toolName = ''tool'', cwi_actionPackage = Null, cwi_expiresAt = ''1970-01-01T00:00:00.000Z''\<rparr>"

definition example_record :: workflow_record where
  "example_record = \<lparr>w_taskId = ''t'', w_actionId = ''a'', w_actionIdempotencyKey = ''k'', w_actionEnvelopeHash = ''h'',
     w_toolName = ''tool'', w_state = Created, w_actionPackage = Null, w_authorizationRequirements = None, w_coordinationRef = None,
     w_completedPackage = None, w_adapterAttempts = [], w_lastActionResponse = None, w_expiresAt = ''1970-01-01T00:00:00.000Z'',
     w_createdAt = ''1970-01-01T00:00:00.000Z'', w_updatedAt = ''1970-01-01T00:00:00.000Z'', w_claimedBy = None,
     w_claimExpiresAt = None, w_resolvedAt = None, w_resolution = None\<rparr>"

definition example_resolution :: workflow_resolution where
  "example_resolution = Resolution_Cancelled ''1970-01-01T00:00:00.000Z''"

definition example_store :: memory_store where
  "example_store = run_store store_host newMemoryStore [(0, Create_Cmd example_input)]"

definition example_done :: memory_store where
  "example_done = run_store store_host newMemoryStore [(0, Create_Cmd example_input), (0, Cancel_Cmd ''t'')]"

lemma epoch_text: "iso_of_ms 0 = ''1970-01-01T00:00:00.000Z''"
  by code_simp

lemma example_store_entries: "ms_entries example_store = [(''t'', \<lparr>me_record = example_record, me_claimExpiresMs = None\<rparr>)]"
  by (simp add: example_store_def run_store_def newMemoryStore_def createWorkflowRecord_def example_input_def example_record_def
      epoch_text Let_def)

lemma example_store_get: "getWorkflow example_store ''t'' = Some example_record"
  by (simp add: getWorkflow_def example_store_entries)

lemma example_done_step: "example_done = fst (cancelWorkflow 0 ''t'' example_store)"
  by (simp add: example_done_def example_store_def run_store_def)

lemma example_done_get: "getWorkflow example_done ''t'' = Some (resolved ''1970-01-01T00:00:00.000Z'' example_resolution example_record)"
  unfolding example_done_step memory_contract.cancel_get
  by (simp add: example_store_get epoch_text example_resolution_def) (simp add: example_record_def TERMINAL_WORKFLOW_STATES_def)

theorem terminal_outcome_immutable_witness:
  "\<exists>r'. getWorkflow (run_store store_host example_done [(5, Resolve_Cmd ''t'' (Resolution_Resolved Null None)), (6, Create_Cmd example_input)]) ''t'' =
     Some r' \<and> same_outcome (resolved ''1970-01-01T00:00:00.000Z'' example_resolution example_record) r'"
proof -
  let ?cs = "[(5, Resolve_Cmd ''t'' (Resolution_Resolved Null None)), (6, Create_Cmd example_input)] :: (int \<times> store_cmd) list"
  have "list_all (\<lambda>c. cmd_typed (snd c)) ([(0, Create_Cmd example_input), (0, Cancel_Cmd ''t'')] @ ?cs)" by simp
  moreover have "\<not> purged_in store_host example_done ''t'' ?cs P" for P
    by (auto simp: purged_in_def Cons_eq_append_conv)
  ultimately show ?thesis
    using terminal_outcome_immutable [OF _ example_done_def example_done_get, of ?cs] by (simp add: resolved_def)
qed

lemma memory_lease_put:
  "memory_lease (put_record t e r s) t' = (if t' = t
     then map_option (\<lambda>h. (h, case me_claimExpiresMs e of None \<Rightarrow> 0 | Some x \<Rightarrow> x)) (w_claimedBy r) else memory_lease s t')"
  by (simp add: memory_lease_def put_record_def)

lemma memory_lease_entry: "map_get (ms_entries s) t = Some e \<Longrightarrow>
    memory_lease s t = map_option (\<lambda>h. (h, case me_claimExpiresMs e of None \<Rightarrow> 0 | Some x \<Rightarrow> x)) (w_claimedBy (me_record e))"
  by (simp add: memory_lease_def)

lemma memory_lease_actionTasks [simp]: "memory_lease (s\<lparr>ms_actionTasks := m\<rparr>) t = memory_lease s t"
  by (simp add: memory_lease_def)

lemma memory_lease_mutate:
  "(\<And>r. w_claimedBy (f r) = w_claimedBy r) \<Longrightarrow> memory_lease (mutate now t f s) t' = memory_lease s t'"
  by (cases "map_get (ms_entries s) t") (auto simp: mutate_def memory_lease_put memory_lease_entry)

text \<open>A command of the holder that ends its lease before \<open>e\<close>.\<close>

fun shortens :: "int \<Rightarrow> store_cmd \<Rightarrow> string \<Rightarrow> string \<Rightarrow> int \<Rightarrow> bool" where
  "shortens now (Claim_Cmd t' w' l) t w e = (t' = t \<and> w' = w \<and> now + l < e)"
| "shortens now _ t w e = False"

definition leased :: "memory_store \<Rightarrow> string \<Rightarrow> string \<Rightarrow> int \<Rightarrow> bool" where
  "leased s t w e \<longleftrightarrow> (\<exists>e'. memory_lease s t = Some (w, e') \<and> e \<le> e')"

lemma leased_same: "memory_lease s' t = memory_lease s t \<Longrightarrow> leased s t w e \<Longrightarrow> leased s' t w e"
  by (simp add: leased_def)

lemma leased_claim:
  assumes "leased s t w e" "now < e" "\<not> shortens now (Claim_Cmd t' w' l) t w e"
  shows "leased (fst (claimWorkflow now now t' w' l s)) t w e"
proof (cases "t' = t \<and> snd (claimWorkflow now now t' w' l s)")
  case True
  with assms(1,2) have "w' = w" by (auto simp: leased_def memory_contract.claim_iff)
  moreover from True have "memory_lease (fst (claimWorkflow now now t' w' l s)) t = Some (w', now + l)"
    using memory_contract.claim_lease by blast
  ultimately show ?thesis using True assms(3) by (simp add: leased_def)
next
  case False
  then consider "t' \<noteq> t" | "\<not> snd (claimWorkflow now now t' w' l s)" by blast
  then show ?thesis
  proof cases
    case 1
    then have "memory_lease (fst (claimWorkflow now now t' w' l s)) t = memory_lease s t"
      by (cases "map_get (ms_entries s) t'") (auto simp: claimWorkflow_def Let_def memory_lease_put)
    with assms(1) show ?thesis by (simp add: leased_same)
  next
    case 2
    with assms(1) show ?thesis by (simp add: memory_contract.claim_fails)
  qed
qed

lemma lease_step:
  assumes "getWorkflow s t = Some r" "leased s t w e" "now < e" "\<not> shortens now c t w e"
  shows "getWorkflow (store_step H s (now, c)) t = None \<or> leased (store_step H s (now, c)) t w e"
proof (cases c)
  case (Create_Cmd input)
  with assms(1,2) show ?thesis by (simp add: leased_def memory_lease_def createWorkflowRecord_entry)
next
  case (Replace_Cmd t' input)
  with assms(2) show ?thesis
    by (cases "map_get (ms_entries s) t'") (auto simp: replaceAction_def Let_def leased_def memory_lease_put memory_lease_entry)
next
  case (Cas_Cmd t' a b)
  with assms(2) show ?thesis
    by (cases "map_get (ms_entries s) t'") (auto simp: compareAndSetState_def leased_def memory_lease_put memory_lease_entry)
next
  case (Claim_Cmd t' w' l)
  with assms show ?thesis by (simp add: leased_claim)
next
  case (Resolve_Cmd t' p)
  with assms(2) show ?thesis
    by (cases "map_get (ms_entries s) t'") (auto simp: resolveWorkflow_def resolved_def leased_def memory_lease_put memory_lease_entry)
next
  case (Cancel_Cmd t')
  with assms(2) show ?thesis
    by (cases "map_get (ms_entries s) t'") (auto simp: cancelWorkflow_def resolved_def leased_def memory_lease_put memory_lease_entry)
next
  case (Purge_Cmd ret)
  with assms(2) show ?thesis
    by (simp add: getWorkflow_def leased_def memory_lease_def purgeExpiredResults_def purge_loop_entries)
qed (use assms in \<open>simp_all add: leased_def memory_lease_mutate saveCoordinationReference_def saveCompletedPackage_def
    saveAuthorizationRequirements_def saveLastActionResponse_def saveAdapterAttempt_def\<close>)

lemma leased_claimed: "leased s t w e \<Longrightarrow> getWorkflow s t = Some r \<Longrightarrow> w_claimedBy r = Some w"
  by (auto simp: leased_def memory_lease_def getWorkflow_def split: option.splits)

text \<open>
  C40. Claims are exclusive: once a worker of a reachable store holds a claim, no other
  worker's claim of the same workflow succeeds before the lease ends, whatever operations are
  interleaved (creating the task again and the holder's own renewals included, as long as it
  does not renew to an earlier end), unless a purge among them removed the workflow, overdue
  and still claimed by the holder.
\<close>

theorem live_claim_is_exclusive:
  assumes "list_all (\<lambda>c. cmd_typed (snd c)) cs0" "s = run_store H newMemoryStore cs0" "snd (claimWorkflow n n' t w l s)"
    and "list_all (\<lambda>(now, c). cmd_typed c \<and> now < n + l \<and> \<not> shortens now c t w (n + l)) cs"
    and "w' \<noteq> w" "now < n + l"
  shows "\<not> snd (claimWorkflow now later t w' l' (run_store H (fst (claimWorkflow n n' t w l s)) cs)) \<or>
    purged_in H (fst (claimWorkflow n n' t w l s)) t cs (\<lambda>r. w_claimedBy r = Some w)"
proof -
  let ?s = "fst (claimWorkflow n n' t w l s)"
  have "store_inv s"
    unfolding assms(2) using assms(1) by (rule store_inv_run [OF store_inv_new])
  then have inv: "store_inv ?s" by (rule store_inv_claim)
  have held: "leased ?s t w (n + l)" using memory_contract.claim_lease [OF assms(3)] by (simp add: leased_def)
  obtain r where r: "getWorkflow ?s t = Some r" using assms(3) by (auto simp: getWorkflow_claim memory_contract.claim_iff)
  have "getWorkflow (store_step H s (now, c)) t = None \<or>
      (\<exists>r'. getWorkflow (store_step H s (now, c)) t = Some r' \<and> leased (store_step H s (now, c)) t w (n + l) \<and> w_claimedBy r' = Some w)"
    if "getWorkflow s t = Some r" "leased s t w (n + l)" "now < n + l" "\<not> shortens now c t w (n + l)" for s r now c
    using lease_step [OF that, of H] leased_claimed by fastforce
  from kept_or_purged [where Q = "\<lambda>s r. leased s t w (n + l) \<and> w_claimedBy r = Some w"
      and allowed = "\<lambda>now c. now < n + l \<and> \<not> shortens now c t w (n + l)" and P = "\<lambda>r. w_claimedBy r = Some w", OF _ _ inv r, of H cs] this
  have "leased (run_store H ?s cs) t w (n + l) \<or> purged_in H ?s t cs (\<lambda>r. w_claimedBy r = Some w)"
    using assms(4) held leased_claimed [OF held r] by blast
  then show ?thesis using assms(5,6) by (auto simp: leased_def memory_contract.claim_iff)
qed

theorem live_claim_is_exclusive_witness:
  "\<not> snd (claimWorkflow 50 50 ''t'' ''v'' 100 (run_store store_host (fst (claimWorkflow 0 0 ''t'' ''w'' 100 example_store))
     [(10, Create_Cmd example_input), (20, Claim_Cmd ''t'' ''v'' 5), (30, Claim_Cmd ''t'' ''w'' 90)]))"
proof -
  let ?cs = "[(10, Create_Cmd example_input), (20, Claim_Cmd ''t'' ''v'' 5), (30, Claim_Cmd ''t'' ''w'' 90)] :: (int \<times> store_cmd) list"
  have "memory_lease example_store ''t'' = None" by (simp add: memory_lease_def example_store_entries example_record_def)
  then have claimed: "snd (claimWorkflow 0 0 ''t'' ''w'' 100 example_store)"
    by (simp add: memory_contract.claim_iff example_store_get) (simp add: example_record_def TERMINAL_WORKFLOW_STATES_def)
  have "list_all (\<lambda>c. cmd_typed (snd c)) [(0 :: int, Create_Cmd example_input)]" by simp
  from live_claim_is_exclusive [OF this example_store_def claimed, of ?cs "''v''" 50 50 100]
  show ?thesis by (simp add: purged_in_def Cons_eq_append_conv)
qed

text \<open>
  The index of Action IDs is complete and sound in every reachable store: a workflow is
  found by its current Action ID, every known Action ID (current or retired) leads to a
  workflow, and a workflow is terminal exactly when it holds a resolution, of that kind.
\<close>

theorem action_index_complete:
  assumes "list_all (\<lambda>c. cmd_typed (snd c)) cs" "s = run_store H newMemoryStore cs" "getWorkflow s t = Some r"
  shows "w_taskId r = t \<and> w_actionId r \<noteq> t \<and> getWorkflowByActionId s (w_actionId r) = Some r \<and>
    (terminal (w_state r) \<longleftrightarrow> (\<exists>p. w_resolution r = Some p \<and> resolution_state p = w_state r)) \<and>
    (getWorkflowByActionId s a = None \<longleftrightarrow> map_get (ms_actionTasks s) a = None)"
proof -
  have inv: "store_inv s" unfolding assms(2) by (rule store_inv_run [OF store_inv_new assms(1)])
  note ok = store_inv_record [OF inv assms(3)]
  then have a: "map_get (ms_actionTasks s) (w_actionId r) = Some t" "w_taskId r = t" by (simp_all add: record_ok_def)
  moreover from inv a(1) have "w_actionId r \<noteq> t" by (auto simp: store_inv_def)
  moreover from a(1) assms(3) have "getWorkflowByActionId s (w_actionId r) = Some r" by (simp add: getWorkflowByActionId_def)
  moreover from ok have "terminal (w_state r) \<longleftrightarrow> (\<exists>p. w_resolution r = Some p \<and> resolution_state p = w_state r)"
    by (auto simp: record_ok_def split: option.splits)
  moreover from inv have "getWorkflowByActionId s a = None \<longleftrightarrow> map_get (ms_actionTasks s) a = None"
    by (auto simp: store_inv_def getWorkflowByActionId_def split: option.splits)
  ultimately show ?thesis by blast
qed

theorem action_index_complete_witness: "getWorkflowByActionId example_store (w_actionId example_record) = Some example_record"
proof -
  have "list_all (\<lambda>c. cmd_typed (snd c)) [(0 :: int, Create_Cmd example_input)]" by simp
  from action_index_complete [OF this example_store_def example_store_get, THEN conjunct2, THEN conjunct2, THEN conjunct1]
  show ?thesis .
qed

lemma purge_loop_count: "snd (purge_loop H now ret es sp) = snd sp + length (filter (\<lambda>(t, e). overdue H now ret (me_record e)) es)"
  by (induction H now ret es sp rule: purge_loop.induct) auto

text \<open>
  The purge removes exactly the overdue records and counts them: those in a terminal
  state whose envelope has expired and whose retention has passed; all other records stay
  as they are.
\<close>

theorem purge_removes_overdue:
  assumes "list_all (\<lambda>c. cmd_typed (snd c)) cs" "s = run_store H newMemoryStore cs"
  shows "getWorkflow (fst (purgeExpiredResults H now ret s)) t =
      (case getWorkflow s t of None \<Rightarrow> None | Some r \<Rightarrow> if overdue H now ret r then None else Some r) \<and>
    snd (purgeExpiredResults H now ret s) = length (filter (\<lambda>(t, e). overdue H now ret (me_record e)) (ms_entries s)) \<and>
    (overdue H now ret r \<longrightarrow> terminal (w_state r) \<and> parsed_before H (w_expiresAt r) now)"
proof -
  have "store_inv s" unfolding assms(2) by (rule store_inv_run [OF store_inv_new assms(1)])
  then have "map_wf (ms_entries s)" by (simp add: store_inv_def)
  note e = purge_entries [OF this, of H now ret t]
  have "getWorkflow (fst (purgeExpiredResults H now ret s)) t =
      (case getWorkflow s t of None \<Rightarrow> None | Some r \<Rightarrow> if overdue H now ret r then None else Some r)"
    by (simp add: getWorkflow_def e split: option.splits)
  moreover have "overdue H now ret r \<longrightarrow> terminal (w_state r) \<and> parsed_before H (w_expiresAt r) now"
    by (auto simp: overdue_def parsed_before_def split: option.splits)
  ultimately show ?thesis by (simp add: purgeExpiredResults_def purge_loop_count)
qed

theorem purge_removes_overdue_witness: "getWorkflow (fst (purgeExpiredResults store_host 1 0 example_done)) ''t'' = None"
proof -
  have "list_all (\<lambda>c. cmd_typed (snd c)) [(0 :: int, Create_Cmd example_input), (0, Cancel_Cmd ''t'')]" by simp
  note c = purge_removes_overdue [OF this example_done_def, of 1 0 "''t''", THEN conjunct1]
  have "date_parse f ''1970-01-01T00:00:00.000Z'' = Some 0" for f
    by (simp add: iso_ms_form_def iso_prefix_def digits_at_def is_digit_def date_parse_def date_fields_def field_def
        nat_of_digits_def digit_val_def days_from_civil_def ms_per_day_def Let_def)
  then have "overdue store_host 1 0 (resolved ''1970-01-01T00:00:00.000Z'' example_resolution example_record)"
    by (simp add: overdue_def resolved_def example_record_def)
  with c show ?thesis by (simp add: example_done_get)
qed

end
