(* ===== verification/RetryBackoff.thy ===== *)
theory RetryBackoff
  imports NumberText JsDate MpasTypes
begin

text \<open>
  Backoff with full jitter, \<open>sdk/protocol/src/lib/retry-backoff.ts\<close>. Numbers are doubles:
  the product of the random number and the ceiling is rounded. The policies' bounds and the
  failure count are integers, and \<open>Math.random()\<close> is an argument in \<open>[0, 1)\<close>.
\<close>

record backoff_policy =
  baseMs :: nat
  capMs :: nat

definition FAILURE_BACKOFF :: backoff_policy where
  "FAILURE_BACKOFF = \<lparr>baseMs = 5000, capMs = 300000\<rparr>"

definition PENDING_BACKOFF :: backoff_policy where
  "PENDING_BACKOFF = \<lparr>baseMs = 2000, capMs = 60000\<rparr>"

definition MAX_RETRY_AFTER_MS :: nat where
  "MAX_RETRY_AFTER_MS = 900000"

text \<open>\<open>Math.min\<close> and \<open>Math.max\<close> of two numbers, and the product of two non-negative ones.\<close>

definition math_min :: "jsnum \<Rightarrow> jsnum \<Rightarrow> jsnum" where
  "math_min a b = (if a = NaN \<or> b = NaN then NaN else if num_le a b then a else b)"

definition math_max :: "jsnum \<Rightarrow> jsnum \<Rightarrow> jsnum" where
  "math_max a b = (if a = NaN \<or> b = NaN then NaN else if num_le a b then b else a)"

definition num_times :: "jsnum \<Rightarrow> rat \<Rightarrow> jsnum" where
  "num_times a q = (case a of Fin x \<Rightarrow> round_double (x * q) | PosInf \<Rightarrow> if q = 0 then NaN else PosInf | _ \<Rightarrow> a)"

definition math_floor :: "jsnum \<Rightarrow> jsnum" where
  "math_floor a = (case a of Fin x \<Rightarrow> Fin (of_int \<lfloor>x\<rfloor>) | _ \<Rightarrow> a)"

definition backoff_ceiling :: "int \<Rightarrow> backoff_policy \<Rightarrow> nat" where
  "backoff_ceiling failures policy =
    (let exponent = nat (max 0 (min failures 31 - 1)) in min (capMs policy) (baseMs policy * 2 ^ exponent))"

definition backoffDelayMs :: "int \<Rightarrow> backoff_policy \<Rightarrow> rat \<Rightarrow> jsnum option \<Rightarrow> jsnum" where
  "backoffDelayMs failures policy random retryAfterMs = (case retryAfterMs of
     Some r \<Rightarrow> math_min (math_max (num_of_nat 0) r) (num_of_nat MAX_RETRY_AFTER_MS)
   | None \<Rightarrow> math_floor (num_times (num_of_nat (backoff_ceiling failures policy)) random))"

definition parseRetryAfterMs :: "('a) host_scheme \<Rightarrow> string option \<Rightarrow> int \<Rightarrow> jsnum option" where
  "parseRetryAfterMs H v nowMs = (case v of None \<Rightarrow> None
     | Some s \<Rightarrow> let trimmed = trim s in
         if trimmed \<noteq> [] \<and> list_all is_digit trimmed then Some (num_times (js_number_of_string trimmed) 1000)
         else (case date_parse (legacy_date H) trimmed of None \<Rightarrow> None
           | Some t \<Rightarrow> Some (math_max (num_of_nat 0) (num_of_int (t - nowMs)))))"

definition retryAfterMsOf :: "jsval \<Rightarrow> jsnum option" where
  "retryAfterMsOf error = (case js_get error ''retryAfterMs'' of
     Num (Fin x) \<Rightarrow> if 0 \<le> x then Some (Fin x) else None
   | _ \<Rightarrow> None)"

section \<open>Rounding below an integer\<close>

lemma ilog2_le_rat:
  assumes "0 < q" "q < 2 ^ 53"
  shows "ilog2 q \<le> 52"
proof -
  obtain n d where nd: "quotient_of q = (n, d)" by (cases "quotient_of q")
  have d: "0 < d" and q: "q = of_int n / of_int d" using quotient_of_denom_pos [OF nd] quotient_of_div [OF nd] by auto
  have n: "0 < n" using assms(1) d unfolding q by (simp add: zero_less_divide_iff)
  define a b where "a = floorlog 2 (nat n)" and "b = floorlog 2 (nat d)"
  have an: "2 ^ (a - 1) \<le> nat n" "0 < a" and bd: "nat d < 2 ^ b"
    using floorlog_bounds [of "nat n" 2] floorlog_bounds [of "nat d" 2] n d
    by (auto simp: a_def b_def floorlog_def)
  show ?thesis
  proof (cases "pow2 (int a - int b) \<le> q")
    case True
    have "pow2 (int a - int b) < 2 ^ 53" using True assms(2) by (rule le_less_trans)
    then have "int a - int b \<le> 52"
    proof (rule contrapos_pp)
      assume "\<not> int a - int b \<le> 52"
      then have "(2 :: rat) ^ 53 \<le> 2 ^ nat (int a - int b)" by (intro power_increasing) simp_all
      then show "\<not> pow2 (int a - int b) < 2 ^ 53" using \<open>\<not> int a - int b \<le> 52\<close> by (simp add: pow2_def)
    qed
    with True show ?thesis by (simp add: ilog2_def nd Let_def a_def b_def)
  next
    case False
    have "a \<le> b + 53"
    proof (rule ccontr)
      assume "\<not> a \<le> b + 53"
      then have "(2 :: nat) ^ (b + 53) \<le> 2 ^ (a - 1)" by (intro power_increasing) simp_all
      then have "2 ^ (b + 53) \<le> nat n" using an(1) by (rule le_trans)
      then have "2 ^ 53 * 2 ^ b \<le> nat n" by (simp only: power_add mult.commute)
      moreover have "2 ^ 53 * nat d < 2 ^ 53 * 2 ^ b" using bd by simp
      ultimately have "2 ^ 53 * nat d < nat n" by (rule less_le_trans [rotated])
      then have "int (2 ^ 53 * nat d) < int (nat n)" by (simp only: of_nat_less_iff)
      then have "2 ^ 53 * d < n" using d n by simp
      then have "(2 ^ 53 :: rat) * of_int d < of_int n" by (metis of_int_less_iff of_int_mult of_int_numeral of_int_power)
      with d have "2 ^ 53 < q" unfolding q by (simp add: pos_less_divide_eq)
      with assms(2) show False by simp
    qed
    with False show ?thesis by (simp add: ilog2_def nd Let_def a_def b_def)
  qed
qed

lemma round_half_even_le: "x \<le> of_int k \<Longrightarrow> round_half_even x \<le> k"
proof -
  assume x: "x \<le> of_int k"
  then have "\<lfloor>x\<rfloor> \<le> k" by (metis floor_mono floor_of_int)
  moreover have "round_half_even x \<le> \<lfloor>x\<rfloor> + 1" by (simp add: round_half_even_def Let_def)
  moreover have "round_half_even x = \<lfloor>x\<rfloor>" if "\<lfloor>x\<rfloor> = k"
    using x that by (simp add: round_half_even_def Let_def)
  ultimately show ?thesis by (cases "\<lfloor>x\<rfloor> = k") simp_all
qed

lemma round_half_even_nonneg: "0 \<le> x \<Longrightarrow> 0 \<le> round_half_even x"
  by (auto simp: round_half_even_def Let_def)

lemma round_double_le_nat:
  assumes "0 \<le> q" "q \<le> of_nat n" "n < 2 ^ 53"
  shows "\<exists>v. round_double q = Fin v \<and> 0 \<le> v \<and> v \<le> of_nat n"
proof (cases "q = 0")
  case True
  then show ?thesis by (simp add: round_double_def)
next
  case False
  have "(of_nat n :: rat) < of_nat (2 ^ 53)" using assms(3) by (simp only: of_nat_less_iff)
  then have n: "(of_nat n :: rat) < 2 ^ 53" by simp
  define u where "u = max (ilog2 q - 52) (- 1074)"
  have u: "u \<le> 0" using ilog2_le_rat [of q] assms(1,2) False n by (simp add: u_def)
  define v where "v = of_int (round_half_even (q / pow2 u)) * pow2 u"
  have "q / pow2 u \<le> of_nat n / pow2 u" using assms(2) by (simp add: divide_right_mono less_imp_le)
  then have "round_half_even (q / pow2 u) \<le> int n * 2 ^ nat (- u)"
    unfolding pow2_minus [OF u] by (rule round_half_even_le)
  then have "(of_int (round_half_even (q / pow2 u)) :: rat) \<le> of_nat n / pow2 u"
    unfolding pow2_minus [OF u] by (simp only: of_int_le_iff)
  then have le: "v \<le> of_nat n" unfolding v_def by (simp add: pos_le_divide_eq)
  have "0 \<le> q / pow2 u" using assms(1) by (simp add: less_imp_le)
  then have ge: "0 \<le> v" unfolding v_def by (simp add: round_half_even_nonneg less_imp_le)
  have "(2 :: rat) ^ 53 \<le> pow2 1024" unfolding pow2_def by (simp add: power_increasing)
  with le n have "\<not> pow2 1024 \<le> v" by linarith
  then have "round_pos q = Fin v" by (simp add: round_pos_def u_def [symmetric] v_def [symmetric] Let_def)
  with le ge assms(1) False show ?thesis by (simp add: round_double_def)
qed

section \<open>Bounds\<close>

lemma backoff_ceiling_le: "backoff_ceiling failures policy \<le> capMs policy"
  by (simp add: backoff_ceiling_def Let_def)

lemma random_delay:
  assumes "0 \<le> random" "random < 1" "capMs policy < 2 ^ 53"
  shows "\<exists>d. math_floor (num_times (num_of_nat (backoff_ceiling failures policy)) random) = Fin (of_int d) \<and>
    0 \<le> d \<and> d \<le> int (backoff_ceiling failures policy)"
proof -
  let ?c = "backoff_ceiling failures policy"
  have "?c < 2 ^ 53" using backoff_ceiling_le [of failures policy] assms(3) by (rule le_less_trans)
  moreover have "of_nat ?c * random \<le> of_nat ?c" using assms(2) by (simp add: mult_left_le)
  ultimately obtain v where v: "round_double (of_nat ?c * random) = Fin v" "0 \<le> v" "v \<le> of_nat ?c"
    using round_double_le_nat [of "of_nat ?c * random" ?c] assms(1) by auto
  have "\<lfloor>v\<rfloor> \<le> int ?c" using v(3) by (metis floor_mono floor_of_nat)
  with v show ?thesis by (simp add: math_floor_def num_times_def num_of_nat_def)
qed

lemma math_clamp:
  assumes "r \<noteq> NaN"
  shows "\<exists>x. math_min (math_max (num_of_nat 0) r) (num_of_nat n) = Fin x \<and> 0 \<le> x \<and> x \<le> of_nat n"
  using assms by (cases r) (auto simp: math_min_def math_max_def num_of_nat_def num_le_def)

lemma parseRetryAfterMs_not_NaN: "parseRetryAfterMs H v now = Some r \<Longrightarrow> r \<noteq> NaN"
proof -
  have rd: "round_double q \<noteq> NaN" for q
    by (simp add: round_double_def round_pos_def num_neg_def Let_def split: jsnum.splits)
  assume "parseRetryAfterMs H v now = Some r"
  then show "r \<noteq> NaN"
    using rd by (auto simp: parseRetryAfterMs_def js_number_of_digits num_times_def math_max_def num_of_nat_def num_of_int_def
        Let_def split: option.splits if_splits jsnum.splits)
qed

text \<open>
  Every delay is finite and bounded: a jittered delay is a whole number of milliseconds
  between 0 and the policy's cap, and a \<open>Retry-After\<close> of the server, whatever its text, is
  honored up to 15 minutes.
\<close>

theorem backoff_bounded:
  assumes "0 \<le> random" "random < 1" "capMs policy < 2 ^ 53"
  shows "\<exists>x. backoffDelayMs failures policy random (parseRetryAfterMs H v now) = Fin x \<and> 0 \<le> x \<and>
    x \<le> of_nat (max (capMs policy) MAX_RETRY_AFTER_MS) \<and>
    (parseRetryAfterMs H v now = None \<longrightarrow> x \<le> of_nat (backoff_ceiling failures policy) \<and> num_is_integer (Fin x))"
proof (cases "parseRetryAfterMs H v now")
  case None
  obtain d where d: "math_floor (num_times (num_of_nat (backoff_ceiling failures policy)) random) = Fin (of_int d)"
      "0 \<le> d" "d \<le> int (backoff_ceiling failures policy)"
    using random_delay [OF assms] by blast
  have "(of_int d :: rat) \<le> of_int (int (backoff_ceiling failures policy))" using d(3) by (simp only: of_int_le_iff)
  moreover have "(of_nat (backoff_ceiling failures policy) :: rat) \<le> of_nat (max (capMs policy) MAX_RETRY_AFTER_MS)"
    using backoff_ceiling_le [of failures policy] by (simp only: of_nat_le_iff)
  moreover have "num_is_integer (Fin (of_int d))" unfolding num_is_integer_iff by blast
  ultimately show ?thesis using d(1,2) None by (intro exI [of _ "of_int d"]) (simp add: backoffDelayMs_def)
next
  case (Some r)
  obtain x where "math_min (math_max (num_of_nat 0) r) (num_of_nat MAX_RETRY_AFTER_MS) = Fin x" "0 \<le> x" "x \<le> of_nat MAX_RETRY_AFTER_MS"
    using math_clamp [OF parseRetryAfterMs_not_NaN [OF Some]] by blast
  moreover have "(of_nat MAX_RETRY_AFTER_MS :: rat) \<le> of_nat (max (capMs policy) MAX_RETRY_AFTER_MS)"
    by (simp only: of_nat_le_iff)
  ultimately show ?thesis using Some by (intro exI [of _ x]) (simp add: backoffDelayMs_def)
qed

theorem backoff_bounded_witness:
  "\<exists>x. backoffDelayMs 3 FAILURE_BACKOFF (1 / 2) (parseRetryAfterMs \<lparr>jcs = \<lambda>v. [], sha256 = \<lambda>s. s, legacy_date = \<lambda>s. None,
     url_parse = \<lambda>s. None\<rparr> None 0) = Fin x \<and> 0 \<le> x"
proof -
  have "0 \<le> (1 / 2 :: rat)" "(1 / 2 :: rat) < 1" "capMs FAILURE_BACKOFF < 2 ^ 53" by (simp_all add: FAILURE_BACKOFF_def)
  from backoff_bounded [OF this, of 3 "\<lparr>jcs = \<lambda>v. [], sha256 = \<lambda>s. s, legacy_date = \<lambda>s. None, url_parse = \<lambda>s. None\<rparr>" None 0]
  show ?thesis by blast
qed

end
