(* ===== verification/Adapter.thy ===== *)
theory Adapter
  imports PluginLoader PolicyEngine Verification DispatchLedger CoordinationRequests
begin

text \<open>
  The action endpoint of the adapter, \<open>cli/src/adapter/adapter-api-server.ts\<close>, as a state
  machine over its shared state: the dispatch ledger and the map of dispatches in progress.

  Handlers of concurrent requests interleave at their awaits. Each handler is a thread,
  and a step is what runs between two reads or writes of the shared state:

  \<^item> \<open>Submit\<close>: the handler up to the prepared target; it reads the ledger once, and the
    dispatches in progress when it joins one (\<open>actionHandler\<close>);
  \<^item> \<open>Authorize_Dispatch\<close>: the check-and-write gate, the registration of the dispatch and
    the start of the transmission (\<open>authorize_thread\<close>);
  \<^item> \<open>Complete\<close>: the outcome of the transmission, the receipt, the resolution of the ledger
    entry and the end of the registration (\<open>complete_thread\<close>);
  \<^item> \<open>Deliver\<close> and \<open>Give_Up\<close>: a joined duplicate gets the outcome, or its wait expires;
  \<^item> \<open>Crash\<close>: the process stops and a new one opens the journal.

  Target preparation, credentials and transmission are I/O: their results are inputs of
  the steps. Trace events and timers are left out. A thrown error is the response of the
  error handler.
\<close>

section \<open>Configuration\<close>

text \<open>The flag of an HTTP target is \<open>auth?.type === "oauth2"\<close>.\<close>

datatype execution_target =
    Mcp_Stdio "string list option" "int option"
  | Mcp_Http bool "int option"

record loaded_config =
  lc_applicationDid :: did
  lc_credentialHandles :: "string list"
  lc_target :: execution_target
  lc_policy :: policy_config
  lc_signerKeys :: "trusted_signer list"
  lc_denyPassThrough :: bool
  lc_plugin :: application_plugin

record adapter_options =
  ao_configs :: "(did, loaded_config) jsmap"
  ao_adapterDid :: did
  ao_now :: "int option"
  ao_maxEnvelopeValidityMs :: int
  ao_joinWaitMs :: "int option"

record prepare_failure =
  pf_code :: string
  pf_message :: string
  pf_reason :: "string option"
  pf_operatorCommand :: "string option"
  pf_retryAfterSeconds :: "int option"

text \<open>
  One HTTP submission: the parsed body, the clock readings of its handler in order, and
  what the credential store and the target preparation will answer.
\<close>

record submission =
  sb_body :: jsval
  sb_clock :: "nat \<Rightarrow> int"
  sb_getCredential :: "string \<Rightarrow> (string \<times> string) + string"
  sb_prepareOAuth :: "prepare_failure option"
  sb_prepareTarget :: "prepare_failure option"

section \<open>Responses\<close>

datatype reply =
    Action_Response jsval
  | Http_Failure nat string string bool "string option"

definition mpasHttpError :: "nat \<Rightarrow> string \<Rightarrow> string \<Rightarrow> reply" where
  "mpasHttpError status code message = Http_Failure status code message False None"

text \<open>The error handler: the status of the error, 500 when it has none.\<close>

definition error_reply :: "nat option \<Rightarrow> string \<Rightarrow> reply" where
  "error_reply statusCode message =
    (let status = (case statusCode of Some n \<Rightarrow> if 400 \<le> n then n else 500 | None \<Rightarrow> 500)
     in Http_Failure status (if status = 400 then ''artifact_malformed'' else ''internal_error'') message (500 \<le> status) None)"

abbreviation thrown :: "string \<Rightarrow> reply" where
  "thrown \<equiv> error_reply None"

definition stillExecuting :: "string \<Rightarrow> reply" where
  "stillExecuting actionId = Http_Failure 503 ''timeout'' (''Action '' @ actionId @
     '' is still executing at this Verifier. Retry the same request to keep waiting for its outcome.'') True (Some ''2'')"

record response_init =
  ri_result :: string
  ri_hash :: "hash_object option"
  ri_requirements :: "jsval option"
  ri_receipt :: "jsval option"
  ri_executionResult :: jsval
  ri_error :: "(string \<times> string) option"
  ri_context :: "jsval option"

definition plain_response :: "string \<Rightarrow> hash_object \<Rightarrow> response_init" where
  "plain_response result envelopeHash = \<lparr>ri_result = result, ri_hash = Some envelopeHash, ri_requirements = None,
     ri_receipt = None, ri_executionResult = Undefined, ri_error = None, ri_context = None\<rparr>"

definition error_json :: "string \<times> string \<Rightarrow> jsval" where
  "error_json e = Obj [(''code'', Str (fst e)), (''message'', Str (snd e))]"

definition actionResponse :: "did \<Rightarrow> int \<Rightarrow> response_init \<Rightarrow> jsval" where
  "actionResponse adapterDid now init = Obj ([(''version'', Str ''1''), (''type'', Str ''ActionResponse''),
      (''verifier'', Obj [(''did'', Str adapterDid)])] @
      spread ''actionEnvelopeHash'' (map_option hash_json (ri_hash init)) @
      [(''result'', Str (ri_result init))] @
      spread ''authorizationRequirements'' (ri_requirements init) @
      spread ''executionReceipt'' (ri_receipt init) @
      (if ri_executionResult init \<noteq> Undefined then [(''executionResult'', ri_executionResult init)] else []) @
      spread ''error'' (map_option error_json (ri_error init)) @
      spread ''context'' (ri_context init) @
      [(''createdAt'', Str (iso_of_ms now))])"

text \<open>
  The receipt binds the envelope, the payload, the action and the outcome; \<open>Inl\<close> is the
  error of the signer.
\<close>

definition receipt_payload :: "('a) host_scheme \<Rightarrow> did \<Rightarrow> int \<Rightarrow> jsval \<Rightarrow> string \<Rightarrow> jsval" where
  "receipt_payload H verifierDid now pkg result =
    (let envelope = actionEnvelope pkg in Obj [(''issuerDid'', Str verifierDid),
      (''actionEnvelopeHash'', hash_json (computeJsonHash H envelope)),
      (''executionPayloadHash'', hash_json (computeJsonHash H (executionPayload pkg))),
      (''actionId'', js_get envelope ''actionId''),
      (''proposerDid'', js_get (js_get envelope ''proposer'') ''did''),
      (''result'', Str result), (''issuedAt'', Str (iso_of_ms now)), (''executionRef'', Undefined)])"

definition receiptFor :: "('a) adapter_host_scheme \<Rightarrow> did \<Rightarrow> int \<Rightarrow> jsval \<Rightarrow> string \<Rightarrow> string + jsval" where
  "receiptFor H verifierDid now pkg result =
    and_then (sign_jws H (jcs H (receipt_payload H verifierDid now pkg result))) (\<lambda>signature.
    Inr (Obj [(''version'', Str ''1''), (''type'', Str ''ExecutionReceipt''), (''format'', Str ''jws''),
      (''signature'', Str signature)]))"

text \<open>
  A deterministic rejection with its receipt. The clock readings are those of the receipt
  and of the response.
\<close>

definition rejection ::
    "('a) adapter_host_scheme \<Rightarrow> did \<Rightarrow> (nat \<Rightarrow> int) \<Rightarrow> jsval \<Rightarrow> hash_object \<Rightarrow> string \<Rightarrow> string \<Rightarrow> string \<Rightarrow> reply" where
  "rejection H adapterDid clock pkg envelopeHash result code message =
    (case receiptFor H adapterDid (clock 3) pkg result of
       Inl thrown_message \<Rightarrow> thrown thrown_message
     | Inr receipt \<Rightarrow> Action_Response (actionResponse adapterDid (clock 4)
         ((plain_response result envelopeHash)\<lparr>ri_receipt := Some receipt, ri_error := Some (code, message)\<rparr>)))"

definition error_response ::
    "did \<Rightarrow> (nat \<Rightarrow> int) \<Rightarrow> hash_object \<Rightarrow> string \<Rightarrow> string \<Rightarrow> string \<Rightarrow> reply" where
  "error_response adapterDid clock envelopeHash result code message =
    Action_Response (actionResponse adapterDid (clock 4) ((plain_response result envelopeHash)\<lparr>ri_error := Some (code, message)\<rparr>))"

text \<open>\<open>buildIndeterminateRecoveryResponse\<close>: the response for an execution that a crash left unresolved.\<close>

definition buildIndeterminateRecoveryResponse ::
    "('a) adapter_host_scheme \<Rightarrow> did \<Rightarrow> (nat \<Rightarrow> int) \<Rightarrow> jsval \<Rightarrow> string + jsval" where
  "buildIndeterminateRecoveryResponse H adapterDid clock pkg =
    and_then (receiptFor H adapterDid (clock 0) pkg ''indeterminate'') (\<lambda>receipt.
    Inr (actionResponse adapterDid (clock 1) ((plain_response ''indeterminate'' (computeJsonHash H (actionEnvelope pkg)))\<lparr>
      ri_receipt := Some receipt, ri_error := Some (''DISPATCH_RECOVERY_INDETERMINATE'',
        ''The Verifier restarted before it durably recorded the dispatch outcome.'')\<rparr>)))"

section \<open>Diagnostics\<close>

definition DIAGNOSTIC_MESSAGES :: "(string \<times> string) list" where
  "DIAGNOSTIC_MESSAGES = [
     (''TARGET_UNAVAILABLE'', ''The upstream MCP target could not be launched or initialized.''),
     (''OAUTH_REAUTHORIZATION_REQUIRED'', ''The OAuth grant is missing, expired without a refresh token, or requires operator login.''),
     (''OAUTH_AUTHENTICATION_FAILED'', ''The upstream MCP server rejected OAuth authentication. This is not a target outage.''),
     (''OAUTH_INVALID_GRANT'', ''The stored OAuth refresh grant is invalid or revoked. Operator reauthorization is required.''),
     (''OAUTH_SCOPE_CHANGE_REQUIRED'', ''The target requested OAuth authority requiring explicit operator review and reauthorization.''),
     (''OAUTH_SCOPE_NOT_SUPPORTED'', ''A configured OAuth scope is not advertised by the authorization server.''),
     (''OAUTH_LOGIN_REQUIRED'', ''No usable OAuth session exists. The operator must run the reported login command.''),
     (''OAUTH_TOKEN_REFRESH_FAILED'', ''OAuth token refresh did not complete safely. The previous refresh token was not resent.''),
     (''OAUTH_ACCESS_DENIED'', ''The upstream service denied access for this account, organization or adapter.''),
     (''OAUTH_RESOURCE_FORBIDDEN'', ''The upstream MCP server refused the request without an OAuth challenge.''),
     (''OAUTH_CLIENT_AUTHENTICATION_FAILED'', ''The authorization server rejected the adapter's client authentication.''),
     (''OAUTH_CLIENT_REGISTRATION_FAILED'', ''The OAuth client configuration or client document is not usable.''),
     (''OAUTH_DISCOVERY_FAILED'', ''OAuth metadata is missing, invalid or incompatible.''),
     (''OAUTH_TEMPORARILY_UNAVAILABLE'', ''An OAuth service is temporarily unavailable. The stored session was kept.''),
     (''OAUTH_RATE_LIMITED'', ''An OAuth endpoint is rate limiting requests. The stored session was kept.''),
     (''OAUTH_UNKNOWN_ERROR'', ''An OAuth endpoint returned an unrecognized error. No recovery was attempted.''),
     (''OAUTH_REFRESH_TOKEN_NOT_ISSUED'', ''Login succeeded but no refresh token was issued. Unattended refresh is unavailable.''),
     (''CREDENTIAL_PROVIDER_UNSUPPORTED'', ''The configured credential provider is not implemented.''),
     (''PROCESS_EXITED'', ''The upstream MCP process exited before responding.''),
     (''DISPATCH_TIMEOUT'', ''The upstream MCP server did not respond before the dispatch timeout.''),
     (''TRANSPORT_ERROR'', ''The upstream MCP transport failed after dispatch.''),
     (''INVALID_RESPONSE'', ''The upstream MCP server returned a protocol error.'')]"

definition diagnosticMessage :: "string \<Rightarrow> string" where
  "diagnosticMessage code = or_default ''The upstream MCP operation did not complete normally.'' (map_of DIAGNOSTIC_MESSAGES code)"

fun transport_name :: "execution_target \<Rightarrow> string" where
  "transport_name (Mcp_Stdio args timeout) = ''stdio''"
| "transport_name (Mcp_Http oauth timeout) = ''streamable-http''"

definition diagnosticContext :: "string \<Rightarrow> string \<Rightarrow> execution_target \<Rightarrow> (string \<times> jsval) list" where
  "diagnosticContext code phase target = [(''diagnostic'', Obj [(''code'', Str code), (''phase'', Str phase),
     (''transport'', Str (transport_name target)), (''message'', Str (diagnosticMessage code))])]"

section \<open>Classification of a dispatch\<close>

datatype dispatch_result = Dispatch_Ok jsval | Dispatch_Error string string

definition classifyDispatch :: "dispatch_result \<Rightarrow> resolution \<times> jsval \<times> (string \<times> string) option" where
  "classifyDispatch r = (case r of
       Dispatch_Ok toolResult \<Rightarrow>
         (if js_get toolResult ''isError'' = Bool True then (Failed, toolResult, None) else (Executed, toolResult, None))
     | Dispatch_Error code message \<Rightarrow>
         (if code \<in> set [''DISPATCH_TIMEOUT'', ''PROCESS_EXITED'', ''TRANSPORT_ERROR'', ''OAUTH_SCOPE_CHANGE_REQUIRED'']
          then (Indeterminate, Undefined, Some (code, message))
          else if starts_with ''OAUTH_'' code then (Indeterminate, Undefined, Some (code, message))
          else (Failed, Undefined, Some (code, message))))"

section \<open>The submitted request\<close>

text \<open>The body of a submission: a delivery envelope for this verifier, or a bare request.\<close>

definition unwrapActionRequest :: "('a) host_scheme \<Rightarrow> jsval \<Rightarrow> did \<Rightarrow> reply + jsval" where
  "unwrapActionRequest H body adapterDid = rethrow (error_reply (Some 400))
    (if js_get body ''type'' = Str ''DeliveryEnvelope'' then
       and_then (rethrow routing_message (parseActionRequestEnvelope H body)) (\<lambda>envelope.
       and_then (require (hasDeliveryEnvelopeRecipient envelope adapterDid)
         ''This Verifier DID is not an envelope recipient.'') (\<lambda>_.
       and_then (require (Str (de_sender envelope) =
           js_get (js_get (actionEnvelope (js_get (de_payload envelope) ''actionPackage'')) ''proposer'') ''did'')
         ''DeliveryEnvelope.sender does not match ActionEnvelope.proposer.did.'') (\<lambda>_.
       Inr (de_payload envelope))))
     else rethrow routing_message (parseActionRequest H body))"

text \<open>The strict parser of request bodies; an empty body is \<open>undefined\<close>.\<close>

definition strictBodyParser :: "(nat \<Rightarrow> string) \<Rightarrow> string \<Rightarrow> json_error + jsval" where
  "strictBodyParser wide text = (if text = [] then Inr Undefined else strictJsonParse wide text)"

record accepted_request =
  ar_request :: jsval
  ar_package :: jsval
  ar_hash :: hash_object
  ar_config :: loaded_config

fun validation_code_text :: "validation_code \<Rightarrow> string" where
  "validation_code_text INVALID_ACTION_ENVELOPE = ''INVALID_ACTION_ENVELOPE''"
| "validation_code_text EXPIRED_ACTION_ENVELOPE = ''EXPIRED_ACTION_ENVELOPE''"

definition upstream_digest_of :: "execution_target \<Rightarrow> string + string option" where
  "upstream_digest_of target = (case target of
       Mcp_Stdio args timeout \<Rightarrow> upstreamDigestFromArgs (or_default [] args)
     | Mcp_Http oauth timeout \<Rightarrow> Inr None)"

text \<open>
  The handler up to the ledger check. The second structural validation reads the clock for
  the creation time only.
\<close>

definition resolve_request ::
    "('a) adapter_host_scheme \<Rightarrow> adapter_options \<Rightarrow> submission \<Rightarrow> reply + accepted_request" where
  "resolve_request H options submission =
    (let clock = sb_clock submission; respond = error_response (ao_adapterDid options) clock in
     and_then (unwrapActionRequest H (sb_body submission) (ao_adapterDid options)) (\<lambda>actionRequest.
     let pkg = js_get actionRequest ''actionPackage''; envelope = actionEnvelope pkg in
     and_then (case parseActionPackage H pkg of
         Some (message, path) \<Rightarrow> Inl (mpasHttpError 400 ''artifact_malformed'' message) | None \<Rightarrow> Inr ()) (\<lambda>_.
     let envelopeHash = computeJsonHash H envelope in
     and_then (case validateActionEnvelope H envelope
           \<lparr>eo_checkExpiry = False, eo_checkTime = True, eo_now = clock 5, eo_tolerance = 0\<rparr> of
         Some (code, message, path) \<Rightarrow> Inl (respond envelopeHash ''malformed'' (validation_code_text code) message)
       | None \<Rightarrow> Inr ()) (\<lambda>_.
     and_then (case map_get (ao_configs options) (application_did envelope) of
         None \<Rightarrow> Inl (rejection H (ao_adapterDid options) clock pkg envelopeHash ''rejected''
           ''UNKNOWN_APPLICATION'' ''Unknown application.'')
       | Some loadedConfig \<Rightarrow> Inr loadedConfig) (\<lambda>loadedConfig.
     and_then (case upstream_digest_of (lc_target loadedConfig) of Inl message \<Rightarrow> Inl (thrown message) | Inr d \<Rightarrow> Inr d) (\<lambda>digest.
     and_then (require (upstreamBindingMatches (js_get actionRequest ''upstreamBinding'')
           (map_option fst (pl_toolSurface (lc_plugin loadedConfig))) digest)
       (respond envelopeHash ''rejected'' ''UPSTREAM_BINDING_MISMATCH''
         ''Bridge binding does not match the loaded plugin surface or execution-target digest pin.'')) (\<lambda>_.
     Inr \<lparr>ar_request = actionRequest, ar_package = pkg, ar_hash = envelopeHash, ar_config = loadedConfig\<rparr>)))))))"

section \<open>Authorization\<close>

text \<open>What remains to be dispatched once everything is checked and the target is ready.\<close>

record prepared =
  pr_accepted :: accepted_request
  pr_name :: string
  pr_arguments :: jsval

definition policyFromLoadedConfig :: "loaded_config \<Rightarrow> policy_config" where
  "policyFromLoadedConfig loadedConfig = \<lparr>defaultRequirement = defaultRequirement (lc_policy loadedConfig),
     policies = policies (lc_policy loadedConfig), signerGroups = signerGroups (lc_policy loadedConfig)\<rparr>"

definition adapter_verification_config :: "adapter_options \<Rightarrow> loaded_config \<Rightarrow> verification_config" where
  "adapter_verification_config options loadedConfig = \<lparr>vc_trustedSigners = lc_signerKeys loadedConfig,
     vc_trustedApplicationProfiles = None, vc_trustedApplicationDids = Some [lc_applicationDid loadedConfig],
     vc_now = ao_now options, vc_timestampToleranceMs = None,
     vc_maxEnvelopeValidityMs = Some (ao_maxEnvelopeValidityMs options)\<rparr>"

fun failure_code_text :: "failure_code \<Rightarrow> string" where
  "failure_code_text FAIL_PACKAGE = ''INVALID_ACTION_PACKAGE''"
| "failure_code_text (FAIL_ENVELOPE c) = validation_code_text c"
| "failure_code_text FAIL_VALIDITY_TOO_LONG = ''ENVELOPE_VALIDITY_TOO_LONG''"
| "failure_code_text FAIL_EXECUTION_PROFILE = ''UNSUPPORTED_EXECUTION_PROFILE''"
| "failure_code_text FAIL_EXECUTION_PAYLOAD = ''INVALID_EXECUTION_PAYLOAD''"
| "failure_code_text FAIL_ACTION_ID = ''INVALID_ACTION_ID''"
| "failure_code_text FAIL_PAYLOAD_HASH = ''PAYLOAD_HASH_MISMATCH''"
| "failure_code_text FAIL_BUNDLE = ''APPROVAL_BUNDLE_INVALID''"
| "failure_code_text FAIL_MALFORMED_BUNDLE = ''MALFORMED_APPROVAL_BUNDLE''"
| "failure_code_text FAIL_PROPOSER_APPROVAL = ''MISSING_PROPOSER_APPROVAL''"
| "failure_code_text FAIL_APPLICATION = ''UNKNOWN_APPLICATION''"

fun reject_code_text :: "reject_code \<Rightarrow> string" where
  "reject_code_text ACTION_BLOCKED_BY_POLICY = ''ACTION_BLOCKED_BY_POLICY''"
| "reject_code_text CONFLICTING_SIGNER_DECISIONS = ''CONFLICTING_SIGNER_DECISIONS''"

fun source_text :: "condition_source \<Rightarrow> string" where
  "source_text ExecutionPayload = ''executionPayload''"
| "source_text ActionEnvelope = ''actionEnvelope''"

definition condition_op_text :: "condition_op \<Rightarrow> string" where
  "condition_op_text c = or_default [] (map_option fst (List.find (\<lambda>(name, d). d = c) CONDITION_OPERATORS))"

text \<open>The message of \<open>UnparseableNumericValueError\<close>; the other error is a \<open>TypeError\<close> of the engine.\<close>

definition condition_error_message :: "('a) adapter_host_scheme \<Rightarrow> condition_error \<Rightarrow> string" where
  "condition_error_message H e = (case e of
       UnparseableNumericValue c v \<Rightarrow> ''Value at '' @ source_text (pc_source c) @ or_default ''undefined'' (pc_path c) @
         '' ('' @ json_text (number_text H) v @ '') cannot be parsed as a number for the \"'' @ condition_op_text (pc_op c) @
         ''\" comparison. Numeric conditions over unparseable values make the Action Package malformed (JSON Verifier Policy Profile '' @
         [CHR 0xA7] @ ''5.4).''
     | PathTypeError \<Rightarrow> ''Cannot read properties of undefined (reading 'split')'')"

definition number_or_null :: "('a) adapter_host_scheme \<Rightarrow> jsnum \<Rightarrow> string" where
  "number_or_null H n = (case n of Fin r \<Rightarrow> number_text H r | NaN \<Rightarrow> ''NaN'' | PosInf \<Rightarrow> ''Infinity'' | NegInf \<Rightarrow> ''-Infinity'')"

text \<open>\<open>buildAuthorizationRequirements\<close> (\<open>auth-requirements-builder.ts\<close>).\<close>

definition buildAuthorizationRequirements ::
    "('a) adapter_host_scheme \<Rightarrow> int \<Rightarrow> jsval \<Rightarrow> unsatisfied_threshold list \<Rightarrow> did \<Rightarrow> jsval" where
  "buildAuthorizationRequirements H now envelope unsatisfiedRules verifierDid = Obj [
     (''version'', Str ''1''), (''type'', Str ''AuthorizationRequirements''),
     (''actionEnvelopeHash'', hash_json (computeJsonHash H envelope)),
     (''result'', Str ''additionalApprovalsRequired''), (''verifier'', Obj [(''did'', Str verifierDid)]),
     (''approvalRequirements'', Obj [(''anyOf'', Arr (map (\<lambda>u. Obj [(''type'', Str ''threshold''),
        (''threshold'', Num (us_threshold u)), (''eligibleSigners'', Arr (map Str (us_eligibleSigners u))),
        (''decision'', Str (decision_text (us_requiredDecision u))),
        (''description'', Str (case tr_description (us_requirement u) of Some d \<Rightarrow> d
           | None \<Rightarrow> ''Requires '' @ number_or_null H (us_threshold u) @ '' '' @ us_requiredRole u @ '' approval(s).''))]) unsatisfiedRules))]),
     (''createdAt'', Str (iso_of_ms now)), (''expiresAt'', js_get envelope ''expiresAt'')]"

text \<open>The checks before the verification of the signatures.\<close>

definition check_timeliness ::
    "('a) adapter_host_scheme \<Rightarrow> adapter_options \<Rightarrow> (nat \<Rightarrow> int) \<Rightarrow> accepted_request \<Rightarrow> reply + unit" where
  "check_timeliness H options clock request =
    (let pkg = ar_package request; envelope = actionEnvelope pkg; envelopeHash = ar_hash request;
         plugin = lc_plugin (ar_config request); profile = js_get envelope ''executionProfile'';
         respond = error_response (ao_adapterDid options) clock envelopeHash;
         declaredProfileId = js_get profile ''id'';
         declaredFormat = (if js_get profile ''format'' = Undefined then Str ''mcp.toolsCall'' else js_get profile ''format'');
         supportedFormat = or_default ''mcp.toolsCall'' (pl_profileFormat plugin)
     in and_then (require (\<not> isActionEnvelopeExpired H envelope (or_default (clock 0) (ao_now options)))
          (rejection H (ao_adapterDid options) clock pkg envelopeHash ''expired'' ''EXPIRED_ACTION_ENVELOPE''
             ''Action Envelope is expired.'')) (\<lambda>_.
        and_then (require (declaredProfileId = Str (pl_profileId plugin) \<and> declaredFormat = Str supportedFormat)
          (respond ''notSupported'' ''UNSUPPORTED_EXECUTION_PROFILE'' (''This Verifier supports '' @ pl_profileId plugin @ '' ('' @
             supportedFormat @ ''); the Action Envelope declares '' @ text_of declaredProfileId @ '' ('' @
             text_of declaredFormat @ '').''))) (\<lambda>_.
        require (\<not> exceedsMaxEnvelopeValidity H envelope (ao_maxEnvelopeValidityMs options) (or_default (clock 1) (ao_now options)))
          (respond ''rejected'' ''ENVELOPE_VALIDITY_TOO_LONG''
             ''Action Envelope validity window exceeds the maximum permitted by this Verifier.''))))"

definition verify_submission ::
    "('a) adapter_host_scheme \<Rightarrow> adapter_options \<Rightarrow> (nat \<Rightarrow> int) \<Rightarrow> accepted_request \<Rightarrow> reply + verified_approvals" where
  "verify_submission H options clock request =
    (let pkg = ar_package request; envelopeHash = ar_hash request in
     case verifyActionPackage H (clock 2) pkg (adapter_verification_config options (ar_config request)) of
       Verified actionId applicationDid operation verifiedApprovals \<Rightarrow> Inr verifiedApprovals
     | Verification_Rejected code message path \<Rightarrow>
         (if code = FAIL_MALFORMED_BUNDLE
          then Inl (error_response (ao_adapterDid options) clock envelopeHash ''malformed'' (failure_code_text code) message)
          else Inl (rejection H (ao_adapterDid options) clock pkg envelopeHash
            (if code = FAIL_ENVELOPE EXPIRED_ACTION_ENVELOPE then ''expired'' else ''rejected'') (failure_code_text code) message)))"

definition policies_of :: "policy_config \<Rightarrow> (string \<times> policy_entry list) list" where
  "policies_of policy = or_default [] (policies policy)"

text \<open>The name that routes the operation, the empty text when the payload has none.\<close>

definition operationName :: "jsval \<Rightarrow> string" where
  "operationName pkg = text_of (js_get (executionPayload pkg) ''name'')"

definition in_policy :: "accepted_request \<Rightarrow> bool" where
  "in_policy request = (operationName (ar_package request) \<in> fst ` set (policies_of (lc_policy (ar_config request))))"

definition plugin_validation :: "('a) adapter_host_scheme \<Rightarrow> accepted_request \<Rightarrow> payload_error + string" where
  "plugin_validation H request =
     validatePayloadAgainstPlugin H (executionPayload (ar_package request)) (lc_plugin (ar_config request))"

definition is_governed :: "('a) adapter_host_scheme \<Rightarrow> accepted_request \<Rightarrow> bool" where
  "is_governed H request = (case plugin_validation H request of
       Inr operation \<Rightarrow> True
     | Inl (code, message, path) \<Rightarrow> code \<noteq> UNKNOWN_OPERATION \<or> in_policy request)"

text \<open>The governed path: the schema, unless only the policy knows the operation, and the policy.\<close>

definition apply_policy ::
    "('a) adapter_host_scheme \<Rightarrow> adapter_options \<Rightarrow> (nat \<Rightarrow> int) \<Rightarrow> accepted_request \<Rightarrow> verified_approvals \<Rightarrow> reply + unit" where
  "apply_policy H options clock request verifiedApprovals =
    (let pkg = ar_package request; envelopeHash = ar_hash request;
         reject = rejection H (ao_adapterDid options) clock pkg envelopeHash ''rejected'';
         respond = error_response (ao_adapterDid options) clock envelopeHash
     in and_then (case plugin_validation H request of
          Inr operation \<Rightarrow> Inr ()
        | Inl (code, message, path) \<Rightarrow>
            if code = UNKNOWN_OPERATION \<and> in_policy request then Inr () else Inl (reject (payload_code_text code) message)) (\<lambda>_.
        case evaluatePolicy pkg verifiedApprovals (policyFromLoadedConfig (ar_config request)) of
          Inl e \<Rightarrow> Inl (thrown (condition_error_message H e))
        | Inr (Malformed e) \<Rightarrow> Inl (respond ''malformed'' ''NUMERIC_CONDITION_UNPARSEABLE'' (condition_error_message H e))
        | Inr (Rejected code message) \<Rightarrow> Inl (reject (reject_code_text code) message)
        | Inr (AdditionalApprovalsRequired unsatisfiedRules) \<Rightarrow>
            Inl (Action_Response (actionResponse (ao_adapterDid options) (clock 4)
              ((plain_response ''additionalApprovalsRequired'' envelopeHash)\<lparr>ri_requirements :=
                Some (buildAuthorizationRequirements H (clock 3) (actionEnvelope pkg) unsatisfiedRules (ao_adapterDid options))\<rparr>)))
        | Inr Satisfied \<Rightarrow> Inr ()))"

text \<open>The pass-through path: neither the plugin nor the policy knows the operation.\<close>

definition pass_through ::
    "('a) adapter_host_scheme \<Rightarrow> adapter_options \<Rightarrow> (nat \<Rightarrow> int) \<Rightarrow> accepted_request \<Rightarrow> reply + unit" where
  "pass_through H options clock request =
    (let pkg = ar_package request; opName = operationName pkg; loadedConfig = ar_config request;
         reject = rejection H (ao_adapterDid options) clock pkg (ar_hash request) ''rejected''
     in and_then (require (case pl_toolSurface (lc_plugin loadedConfig) of None \<Rightarrow> True
          | Some (hash, toolNames) \<Rightarrow> opName \<noteq> [] \<and> opName \<in> set toolNames)
          (reject ''OPERATION_NOT_ATTESTED'' ''Operation is absent from the publisher-attested tool surface.'')) (\<lambda>_.
        require (\<not> lc_denyPassThrough loadedConfig)
          (reject ''OPERATION_NOT_GOVERNED'' (''Operation '' @ opName @
            '' is not present in the plugin or policy, and this deployment denies pass-through operations.''))))"

definition usesManagedOAuth :: "execution_target \<Rightarrow> bool" where
  "usesManagedOAuth target = (case target of Mcp_Http oauth timeout \<Rightarrow> oauth | Mcp_Stdio args timeout \<Rightarrow> False)"

text \<open>The credential: its value, absent under managed OAuth, or the code and message of its failure.\<close>

definition resolve_credential :: "submission \<Rightarrow> loaded_config \<Rightarrow> (string \<times> string) + string option" where
  "resolve_credential submission loadedConfig =
    (if usesManagedOAuth (lc_target loadedConfig) then Inr None
     else case lc_credentialHandles loadedConfig of
       [] \<Rightarrow> Inl (''CREDENTIAL_NOT_FOUND'', ''No credential binding configured.'')
     | handle # _ \<Rightarrow>
         if handle = [] then Inl (''CREDENTIAL_NOT_FOUND'', ''No credential binding configured.'')
         else and_then (sb_getCredential submission handle) (\<lambda>v. Inr (Some v)))"

definition prepareTarget :: "submission \<Rightarrow> loaded_config \<Rightarrow> string option \<Rightarrow> prepare_failure option" where
  "prepareTarget submission loadedConfig credential = (case lc_target loadedConfig of
       Mcp_Http oauth timeout \<Rightarrow>
         (if oauth then (case sb_prepareOAuth submission of Some e \<Rightarrow> Some e | None \<Rightarrow> sb_prepareTarget submission)
          else sb_prepareTarget submission)
     | Mcp_Stdio args timeout \<Rightarrow>
         (if credential = None then Some \<lparr>pf_code = ''TARGET_UNAVAILABLE'', pf_message = ''No credential binding configured.'',
            pf_reason = None, pf_operatorCommand = None, pf_retryAfterSeconds = None\<rparr>
          else sb_prepareTarget submission))"

definition oauth_context :: "prepare_failure \<Rightarrow> (string \<times> jsval) list" where
  "oauth_context e = (case pf_reason e of None \<Rightarrow> []
     | Some reason \<Rightarrow> if reason = [] then [] else [(''oauth'', Obj ([(''reason'', Str reason)] @
         (case pf_operatorCommand e of None \<Rightarrow> [] | Some c \<Rightarrow> if c = [] then [] else [(''operatorCommand'', Str c)]) @
         (case pf_retryAfterSeconds e of None \<Rightarrow> [] | Some n \<Rightarrow> [(''retryAfterSeconds'', Num (num_of_int n))])))])"

definition prepare_submission ::
    "adapter_options \<Rightarrow> submission \<Rightarrow> accepted_request \<Rightarrow> reply + unit" where
  "prepare_submission options submission request =
    (let clock = sb_clock submission; loadedConfig = ar_config request; envelopeHash = ar_hash request in
     and_then (case resolve_credential submission loadedConfig of
         Inl (code, message) \<Rightarrow> Inl (error_response (ao_adapterDid options) clock envelopeHash ''rejected'' code message)
       | Inr credential \<Rightarrow> Inr credential) (\<lambda>credential.
     case prepareTarget submission loadedConfig credential of
       Some e \<Rightarrow> Inl (Action_Response (actionResponse (ao_adapterDid options) (clock 4)
         ((plain_response ''rejected'' envelopeHash)\<lparr>ri_error := Some (pf_code e, pf_message e),
           ri_context := Some (Obj (diagnosticContext (pf_code e) ''initialize'' (lc_target loadedConfig) @ oauth_context e))\<rparr>)))
     | None \<Rightarrow> Inr ()))"

text \<open>The handler from the ledger check to the prepared target.\<close>

definition authorize_request ::
    "('a) adapter_host_scheme \<Rightarrow> adapter_options \<Rightarrow> submission \<Rightarrow> accepted_request \<Rightarrow> reply + prepared" where
  "authorize_request H options submission request =
    (let clock = sb_clock submission; pkg = ar_package request; envelope = actionEnvelope pkg in
     and_then (check_timeliness H options clock request) (\<lambda>_.
     and_then (verify_submission H options clock request) (\<lambda>verifiedApprovals.
     and_then (case validateMcpPayloadStructure (executionPayload pkg) of
         Inl (message, path) \<Rightarrow> Inl (error_response (ao_adapterDid options) clock (ar_hash request) ''malformed''
           ''PAYLOAD_STRUCTURE_INVALID'' message)
       | Inr structure \<Rightarrow> Inr structure) (\<lambda>(name, arguments).
     and_then (case checkProposerAuthorization (proposer_did envelope) (policyFromLoadedConfig (ar_config request)) of
         ProposerNotAuthorized message \<Rightarrow> Inl (rejection H (ao_adapterDid options) clock pkg (ar_hash request) ''rejected''
           ''PROPOSER_NOT_AUTHORIZED'' message)
       | Allowed \<Rightarrow> Inr ()) (\<lambda>_.
     and_then (if is_governed H request then apply_policy H options clock request verifiedApprovals
               else pass_through H options clock request) (\<lambda>_.
     and_then (prepare_submission options submission request) (\<lambda>_.
     Inr \<lparr>pr_accepted = request, pr_name = name, pr_arguments = arguments\<rparr>)))))))"

section \<open>The shared state\<close>

text \<open>
  A dispatch in progress refers to its outcome by the thread that owns it: the promise is
  pending while that thread dispatches, and settled by its reply.
\<close>

record inflight_dispatch =
  if_fingerprint :: string
  if_owner :: nat
  if_waitMs :: int

datatype thread_status =
    Prepared prepared
  | Dispatching prepared string
  | Waiting nat string
  | Replied reply
  | Crashed

record thread =
  th_submission :: submission
  th_status :: thread_status

text \<open>\<open>ad_transmitted\<close> is what the targets received: the thread and what it sent.\<close>

record 'j adapter =
  ad_ledger :: "'j ledger"
  ad_inFlight :: "(string, inflight_dispatch) jsmap"
  ad_threads :: "thread list"
  ad_transmitted :: "(nat \<times> prepared) list"

definition request_id :: "accepted_request \<Rightarrow> action_id" where
  "request_id request = action_id_of (actionEnvelope (ar_package request))"

definition request_expiry :: "accepted_request \<Rightarrow> timestamp" where
  "request_expiry request = text_of (js_get (actionEnvelope (ar_package request)) ''expiresAt'')"

definition dispatchKey :: "accepted_request \<Rightarrow> string" where
  "dispatchKey request = json_array_text [json_opt_text (aid_scope (request_id request)),
     json_quote (aid_value (request_id request)), json_quote (hash_value (ar_hash request))]"

text \<open>Joining the dispatch in progress: the status of the joining thread.\<close>

definition joinDispatch ::
    "('a) adapter_host_scheme \<Rightarrow> (string, inflight_dispatch) jsmap \<Rightarrow> accepted_request \<Rightarrow> thread_status" where
  "joinDispatch H inFlight request =
    (let actionId = aid_value (request_id request) in
     case map_get inFlight (dispatchKey request) of
       None \<Rightarrow> Replied (stillExecuting actionId)
     | Some entry \<Rightarrow>
         (case computeIdempotencyFingerprint H (ar_request request) of
            Inl e \<Rightarrow> Replied (thrown (routing_message e))
          | Inr fingerprint \<Rightarrow>
              if fingerprint \<noteq> if_fingerprint entry
              then Replied (mpasHttpError 409 ''conflict'' ''A different request for this Action is already executing.'')
              else Waiting (if_owner entry) actionId))"

text \<open>The handler up to its first write: a reply, a join or a prepared dispatch.\<close>

definition actionHandler ::
    "('a) adapter_host_scheme \<Rightarrow> adapter_options \<Rightarrow> ledger_map \<Rightarrow> (string, inflight_dispatch) jsmap \<Rightarrow> submission \<Rightarrow> thread_status" where
  "actionHandler H options es inFlight submission =
    (case resolve_request H options submission of
       Inl r \<Rightarrow> Replied r
     | Inr request \<Rightarrow>
         (case check es (request_id request) (hash_value (ar_hash request)) of
            Already_Executing \<Rightarrow> joinDispatch H inFlight request
          | Reject_Check code message \<Rightarrow> Replied (rejection H (ao_adapterDid options) (sb_clock submission)
              (ar_package request) (ar_hash request) ''rejected'' code message)
          | Absent \<Rightarrow>
              (case authorize_request H options submission request of
                 Inl r \<Rightarrow> Replied r
               | Inr p \<Rightarrow> Prepared p)))"

definition dispatch_wait :: "adapter_options \<Rightarrow> execution_target \<Rightarrow> int" where
  "dispatch_wait options target = or_default
     (or_default 30000 (case target of Mcp_Stdio args timeout \<Rightarrow> timeout | Mcp_Http oauth timeout \<Rightarrow> timeout) + 5000)
     (ao_joinWaitMs options)"

definition set_status :: "nat \<Rightarrow> thread_status \<Rightarrow> 'j adapter \<Rightarrow> 'j adapter" where
  "set_status i status s = s\<lparr>ad_threads := (ad_threads s)[i := (ad_threads s ! i)\<lparr>th_status := status\<rparr>]\<rparr>"

text \<open>
  The check-and-write gate of a prepared thread. The fingerprint is computed after the
  ledger write; when it fails nothing is registered or transmitted.
\<close>

definition authorize_thread ::
    "('j \<Rightarrow> ledger_event \<Rightarrow> 'j) \<Rightarrow> ('a) adapter_host_scheme \<Rightarrow> adapter_options \<Rightarrow> (nat \<Rightarrow> int) \<Rightarrow> nat \<Rightarrow> prepared \<Rightarrow> 'j adapter \<Rightarrow> 'j adapter" where
  "authorize_thread app H options clock i p s =
    (let request = pr_accepted p in
     case authorizeDispatch app (clock 0) (ad_ledger s) (request_id request) (hash_value (ar_hash request)) (request_expiry request) of
       (l, Already_Executing) \<Rightarrow> set_status i (joinDispatch H (ad_inFlight s) request) s
     | (l, Reject_Check code message) \<Rightarrow> set_status i (Replied (rejection H (ao_adapterDid options) clock
         (ar_package request) (ar_hash request) ''rejected'' code message)) s
     | (l, Absent) \<Rightarrow>
         (case computeIdempotencyFingerprint H (ar_request request) of
            Inl e \<Rightarrow> set_status i (Replied (thrown (routing_message e))) (s\<lparr>ad_ledger := l\<rparr>)
          | Inr fingerprint \<Rightarrow>
              set_status i (Dispatching p (dispatchKey request)) (s\<lparr>ad_ledger := l,
                ad_inFlight := map_set (dispatchKey request) \<lparr>if_fingerprint = fingerprint, if_owner = i,
                  if_waitMs = dispatch_wait options (lc_target (ar_config request))\<rparr> (ad_inFlight s),
                ad_transmitted := ad_transmitted s @ [(i, p)]\<rparr>)))"

text \<open>\<open>Dispatch_Threw\<close>: the transmission or the closing of the session throws.\<close>

datatype dispatch_outcome = Dispatch_Returned dispatch_result | Dispatch_Threw string

definition dispatch_response ::
    "('a) adapter_host_scheme \<Rightarrow> adapter_options \<Rightarrow> (nat \<Rightarrow> int) \<Rightarrow> prepared \<Rightarrow> dispatch_result \<Rightarrow> string + (resolution \<times> jsval)" where
  "dispatch_response H options clock p r =
    (case classifyDispatch r of (result, executionResult, error) \<Rightarrow>
     and_then (receiptFor H (ao_adapterDid options) (clock 1) (ar_package (pr_accepted p)) (resolution_text result)) (\<lambda>receipt.
     Inr (result, actionResponse (ao_adapterDid options) (clock 2)
       ((plain_response (resolution_text result) (ar_hash (pr_accepted p)))\<lparr>ri_receipt := Some receipt,
         ri_executionResult := executionResult, ri_error := error,
         ri_context := map_option (\<lambda>(code, message). Obj (diagnosticContext code ''tools/call''
           (lc_target (ar_config (pr_accepted p))))) error\<rparr>))))"

definition complete_thread ::
    "('j \<Rightarrow> ledger_event \<Rightarrow> 'j) \<Rightarrow> ('a) adapter_host_scheme \<Rightarrow> adapter_options \<Rightarrow> (nat \<Rightarrow> int) \<Rightarrow> nat \<Rightarrow> prepared \<Rightarrow> string \<Rightarrow>
     dispatch_outcome \<Rightarrow> 'j adapter \<Rightarrow> 'j adapter" where
  "complete_thread app H options clock i p k outcome s =
    (let finished = s\<lparr>ad_inFlight := map_delete k (ad_inFlight s)\<rparr> in
     case (case outcome of Dispatch_Threw message \<Rightarrow> Inl message
           | Dispatch_Returned r \<Rightarrow>
               and_then (dispatch_response H options clock p r) (\<lambda>(result, response).
               and_then (resolve app (clock 3) (ad_ledger s) (request_id (pr_accepted p)) result (Some response)) (\<lambda>l.
               Inr (l, response)))) of
       Inl message \<Rightarrow> set_status i (Replied (thrown message)) finished
     | Inr (l, response) \<Rightarrow> set_status i (Replied (Action_Response response)) (finished\<lparr>ad_ledger := l\<rparr>))"

text \<open>A joined duplicate: the outcome, or still executing when the dispatch threw.\<close>

definition deliver_thread :: "nat \<Rightarrow> nat \<Rightarrow> string \<Rightarrow> 'j adapter \<Rightarrow> 'j adapter" where
  "deliver_thread i owner actionId s = (case th_status (ad_threads s ! owner) of
       Replied (Action_Response v) \<Rightarrow> set_status i (Replied (Action_Response v)) s
     | Replied (Http_Failure _ _ _ _ _) \<Rightarrow> set_status i (Replied (stillExecuting actionId)) s
     | _ \<Rightarrow> s)"

definition crash_status :: "thread_status \<Rightarrow> thread_status" where
  "crash_status status = (case status of Replied r \<Rightarrow> Replied r | _ \<Rightarrow> Crashed)"

definition crash_adapter ::
    "('j \<Rightarrow> ledger_event \<Rightarrow> 'j) \<Rightarrow> ('j \<Rightarrow> ledger_event list) \<Rightarrow> (nat \<Rightarrow> int) \<Rightarrow> 'j adapter \<Rightarrow> 'j adapter" where
  "crash_adapter app readAll clock s = s\<lparr>ad_ledger := newDispatchLedger app readAll clock (lg_journal (ad_ledger s)),
     ad_inFlight := [], ad_threads := map (\<lambda>t. t\<lparr>th_status := crash_status (th_status t)\<rparr>) (ad_threads s)\<rparr>"

datatype adapter_event =
    Submit submission
  | Authorize_Dispatch nat "nat \<Rightarrow> int"
  | Complete nat "nat \<Rightarrow> int" dispatch_outcome
  | Deliver nat
  | Give_Up nat
  | Crash "nat \<Rightarrow> int"

definition status_at :: "'j adapter \<Rightarrow> nat \<Rightarrow> thread_status option" where
  "status_at s i = (if i < length (ad_threads s) then Some (th_status (ad_threads s ! i)) else None)"

text \<open>An event of a thread that is not at that point has no effect.\<close>

fun adapter_step ::
    "('j \<Rightarrow> ledger_event \<Rightarrow> 'j) \<Rightarrow> ('j \<Rightarrow> ledger_event list) \<Rightarrow> ('a) adapter_host_scheme \<Rightarrow> adapter_options \<Rightarrow> 'j adapter \<Rightarrow>
     adapter_event \<Rightarrow> 'j adapter" where
  "adapter_step app readAll H options s (Submit submission) =
     s\<lparr>ad_threads := ad_threads s @ [\<lparr>th_submission = submission,
       th_status = actionHandler H options (lg_entries (ad_ledger s)) (ad_inFlight s) submission\<rparr>]\<rparr>"
| "adapter_step app readAll H options s (Authorize_Dispatch i clock) = (case status_at s i of
     Some (Prepared p) \<Rightarrow> authorize_thread app H options clock i p s | _ \<Rightarrow> s)"
| "adapter_step app readAll H options s (Complete i clock outcome) = (case status_at s i of
     Some (Dispatching p k) \<Rightarrow> complete_thread app H options clock i p k outcome s | _ \<Rightarrow> s)"
| "adapter_step app readAll H options s (Deliver i) = (case status_at s i of
     Some (Waiting owner actionId) \<Rightarrow> deliver_thread i owner actionId s | _ \<Rightarrow> s)"
| "adapter_step app readAll H options s (Give_Up i) = (case status_at s i of
     Some (Waiting owner actionId) \<Rightarrow> set_status i (Replied (stillExecuting actionId)) s | _ \<Rightarrow> s)"
| "adapter_step app readAll H options s (Crash clock) = crash_adapter app readAll clock s"

definition createAdapterApiServer ::
    "('j \<Rightarrow> ledger_event \<Rightarrow> 'j) \<Rightarrow> ('j \<Rightarrow> ledger_event list) \<Rightarrow> (nat \<Rightarrow> int) \<Rightarrow> 'j \<Rightarrow> 'j adapter" where
  "createAdapterApiServer app readAll clock journal = \<lparr>ad_ledger = newDispatchLedger app readAll clock journal,
     ad_inFlight = [], ad_threads = [], ad_transmitted = []\<rparr>"

definition run_adapter ::
    "('j \<Rightarrow> ledger_event \<Rightarrow> 'j) \<Rightarrow> ('j \<Rightarrow> ledger_event list) \<Rightarrow> ('a) adapter_host_scheme \<Rightarrow> adapter_options \<Rightarrow> 'j adapter \<Rightarrow>
     adapter_event list \<Rightarrow> 'j adapter" where
  "run_adapter app readAll H options s events = foldl (adapter_step app readAll H options) s events"

end
