(* ===== verification/AdapterExample.thy ===== *)
theory AdapterExample
  imports Adapter VerificationProperties
begin

text \<open>
  One submission that the adapter dispatches: the package of \<open>VerificationExample\<close>, sent to
  a deployment whose policy asks for the proposer only, on the in-memory journal.
\<close>

definition ex_loaded_config :: loaded_config where
  "ex_loaded_config = \<lparr>lc_applicationDid = ''did:web:app'', lc_credentialHandles = [''c''], lc_target = Mcp_Stdio None None,
     lc_policy = \<lparr>defaultRequirement = ProposerOnly, policies = None, signerGroups = Some [(''all'', [''did:web:p''])]\<rparr>,
     lc_signerKeys = [\<lparr>ts_did = ''did:web:p'', ts_publicJwk = Some ex_key\<rparr>], lc_denyPassThrough = True,
     lc_plugin = \<lparr>pl_profileId = ''did:web:profiles.oma3.org:mcp'', pl_profileFormat = None, pl_toolSurface = None,
       pl_operations = [(''pay'', Obj [(''executionPayloadSchema'', Obj [])])]\<rparr>\<rparr>"

definition ex_adapter_options :: adapter_options where
  "ex_adapter_options = \<lparr>ao_configs = [(''did:web:app'', ex_loaded_config)], ao_adapterDid = ''did:web:v'', ao_now = Some 1704067201000,
     ao_maxEnvelopeValidityMs = DEFAULT_MAX_ENVELOPE_VALIDITY_MS, ao_joinWaitMs = None\<rparr>"

definition ex_clock :: "nat \<Rightarrow> int" where
  "ex_clock = (\<lambda>n. 1704067201000)"

definition ex_submission :: submission where
  "ex_submission = \<lparr>sb_body = Obj [(''version'', Str ''1''), (''type'', Str ''ActionRequest''), (''actionPackage'', ex_package)],
     sb_clock = ex_clock, sb_getCredential = (\<lambda>h. Inr ''secret''), sb_prepareOAuth = None, sb_prepareTarget = None\<rparr>"

definition ex_request :: accepted_request where
  "ex_request = \<lparr>ar_request = Obj [(''version'', Str ''1''), (''type'', Str ''ActionRequest''), (''actionPackage'', ex_package)],
     ar_package = ex_package, ar_hash = \<lparr>hash_alg = ''sha-256'', hash_value = ''aGFzaA''\<rparr>, ar_config = ex_loaded_config\<rparr>"

definition ex_prepared :: prepared where
  "ex_prepared = \<lparr>pr_accepted = ex_request, pr_name = ''pay'', pr_arguments = Obj []\<rparr>"

lemma ex_unwrapped: "unwrapActionRequest ex_host (sb_body ex_submission) ''did:web:v'' = Inr (ar_request ex_request)"
  by code_simp

lemma ex_verification_config: "adapter_verification_config ex_adapter_options ex_loaded_config = ex_config"
  by (simp add: adapter_verification_config_def ex_adapter_options_def ex_loaded_config_def ex_config_def)

lemma verify_clock: "vc_now config = Some n \<Longrightarrow> verifyActionPackage H c pkg config = verifyActionPackage H 0 pkg config"
  by (simp add: verifyActionPackage_def or_default_def)

lemma ex_adapter_verified:
  obtains i app operation va v where
    "verifyActionPackage ex_host (ex_clock 2) ex_package ex_config = Verified i app operation va" "vas_approvals va = [v]"
  using ex_verified verify_clock [of ex_config 1704067201000 ex_host "ex_clock 2" ex_package] by (auto simp: ex_config_def)

lemma ex_parsed: "parseActionPackage ex_host ex_package = None"
  by (rule ex_adapter_verified; erule verifyActionPackage_Verified)

lemma ex_times:
  "\<exists>c e. envelope_structure_error ex_host ex_envelope = None \<and> parse_time ex_host (js_get ex_envelope ''createdAt'') = Some c \<and>
    parse_time ex_host (js_get ex_envelope ''expiresAt'') = Some e \<and> c < e \<and> c \<le> 1704067201000 \<and> 1704067201000 < e \<and>
    e - 1704067201000 \<le> DEFAULT_MAX_ENVELOPE_VALIDITY_MS"
proof -
  obtain i app operation va where v: "verifyActionPackage ex_host (ex_clock 2) ex_package ex_config = Verified i app operation va"
    by (rule ex_adapter_verified)
  have env: "actionEnvelope ex_package = ex_envelope" by (simp add: actionEnvelope_def ex_package_def)
  from v show ?thesis
  proof (rule verifyActionPackage_Verified)
    assume "validateActionEnvelope ex_host (actionEnvelope ex_package) \<lparr>eo_checkExpiry = True, eo_checkTime = True,
         eo_now = or_default (ex_clock 2) (vc_now ex_config), eo_tolerance = or_default 0 (vc_timestampToleranceMs ex_config)\<rparr> = None"
      and max: "\<not> exceedsMaxEnvelopeValidity ex_host (actionEnvelope ex_package)
         (or_default DEFAULT_MAX_ENVELOPE_VALIDITY_MS (vc_maxEnvelopeValidityMs ex_config)) (or_default (ex_clock 2) (vc_now ex_config))"
    then show ?thesis
      by (auto simp: env ex_config_def or_default_def exceedsMaxEnvelopeValidity_def elim!: validateActionEnvelope_None)
  qed
qed

lemma ex_structure: "validateActionEnvelope ex_host ex_envelope
    \<lparr>eo_checkExpiry = False, eo_checkTime = True, eo_now = 1704067201000, eo_tolerance = 0\<rparr> = None"
  using ex_times by (auto simp: validateActionEnvelope_def Let_def time_le_def time_lt_def)

lemma ex_timely: "check_timeliness ex_host ex_adapter_options ex_clock ex_request = Inr ()"
  using ex_times by (auto simp: check_timeliness_def Let_def ex_request_def ex_adapter_options_def ex_loaded_config_def
      actionEnvelope_def ex_package_def isActionEnvelopeExpired_def exceedsMaxEnvelopeValidity_def time_le_def or_default_def
      and_then_def require_def) (simp_all add: ex_envelope_def)

lemma ex_structured: "validateMcpPayloadStructure (executionPayload ex_package) = Inr (''pay'', Obj [])"
  by code_simp

lemma ex_gate: "checkProposerAuthorization (proposer_did ex_envelope) (policyFromLoadedConfig ex_loaded_config) = Allowed"
  by code_simp

lemma ex_plugin: "plugin_validation ex_host ex_request = Inr ''pay''"
  by (simp add: plugin_validation_def ex_request_def validatePayloadAgainstPlugin_def ex_package_def executionPayload_def
      measureJsonStructure_def maxPayloadDepth_def maxPayloadNodes_def maxPayloadBytes_def measurePayloadBytes_def utf8_length_def
      ex_loaded_config_def operation_schema_def compileOperationSchema_def maxOperationSchemaDepth_def
      maxOperationSchemaNodes_def ex_host_def json_quote_def quote_char_def Let_def)

lemma ex_policy:
  "vas_approvals va = [v] \<Longrightarrow> evaluatePolicy ex_package va (policyFromLoadedConfig ex_loaded_config) = Inr Satisfied"
  by (simp add: evaluatePolicy_def policyFromLoadedConfig_def ex_loaded_config_def policy_entries_for_def
      effective_requirement_def Let_def split: option.splits)

lemma ex_prepares: "prepare_submission ex_adapter_options ex_submission ex_request = Inr ()"
  by code_simp

lemma ex_fingerprint: "computeIdempotencyFingerprint ex_host (ar_request ex_request) = Inr ''aGFzaA''"
  by code_simp

lemma ex_resolved: "resolve_request ex_host ex_adapter_options ex_submission = Inr ex_request"
proof -
  have e: "computeJsonHash ex_host ex_envelope = ar_hash ex_request" "application_did ex_envelope = ''did:web:app''"
    by (simp_all add: computeJsonHash_def ex_host_def ex_request_def application_did_def ex_envelope_def)
  have r: "js_get (ar_request ex_request) ''actionPackage'' = ex_package" "actionEnvelope ex_package = ex_envelope"
    "js_get (ar_request ex_request) ''upstreamBinding'' = Undefined"
    by (simp_all add: ex_request_def actionEnvelope_def ex_package_def)
  have o: "ao_adapterDid ex_adapter_options = ''did:web:v''" "map_get (ao_configs ex_adapter_options) ''did:web:app'' = Some ex_loaded_config"
    "sb_clock ex_submission = (\<lambda>n. 1704067201000)"
    by (simp_all add: ex_adapter_options_def ex_submission_def ex_clock_def)
  have d: "upstream_digest_of (lc_target ex_loaded_config) = Inr None" "pl_toolSurface (lc_plugin ex_loaded_config) = None"
    by (simp_all add: ex_loaded_config_def upstream_digest_of_def upstreamDigestFromArgs_def or_default_def unique_def)
  have "\<lparr>ar_request = ar_request ex_request, ar_package = ex_package, ar_hash = ar_hash ex_request, ar_config = ex_loaded_config\<rparr> = ex_request"
    by (simp add: ex_request_def)
  with e r o d show ?thesis
    by (simp add: resolve_request_def Let_def ex_unwrapped ex_parsed ex_structure upstreamBindingMatches_def)
qed

lemma ex_authorized: "authorize_request ex_host ex_adapter_options ex_submission ex_request = Inr ex_prepared"
proof -
  obtain i app operation va v where
    v: "verifyActionPackage ex_host (ex_clock 2) ex_package ex_config = Verified i app operation va" "vas_approvals va = [v]"
    by (rule ex_adapter_verified)
  have r: "ar_package ex_request = ex_package" "ar_config ex_request = ex_loaded_config" "actionEnvelope ex_package = ex_envelope"
    "sb_clock ex_submission = ex_clock"
    by (simp_all add: ex_request_def actionEnvelope_def ex_package_def ex_submission_def)
  have "apply_policy ex_host ex_adapter_options ex_clock ex_request va = Inr ()"
    by (simp add: apply_policy_def Let_def ex_plugin r ex_policy [OF v(2)])
  with r v show ?thesis
    by (simp add: authorize_request_def Let_def ex_timely verify_submission_def ex_verification_config ex_structured ex_gate
        is_governed_def ex_plugin ex_prepares ex_prepared_def)
qed

text \<open>The run: the submission is dispatched, completes, and a duplicate is refused as a replay.\<close>

definition ex_adapter :: "adapter_event list \<Rightarrow> ledger_event list adapter" where
  "ex_adapter events = run_adapter memory_append memory_readAll ex_host ex_adapter_options
     (createAdapterApiServer memory_append memory_readAll ex_clock []) events"

lemma ex_submitted: "ad_threads (ex_adapter [Submit ex_submission]) = [\<lparr>th_submission = ex_submission, th_status = Prepared ex_prepared\<rparr>]"
  "ad_ledger (ex_adapter [Submit ex_submission]) = \<lparr>lg_journal = [], lg_entries = []\<rparr>"
  "ad_transmitted (ex_adapter [Submit ex_submission]) = []" "ad_inFlight (ex_adapter [Submit ex_submission]) = []"
  by (simp_all add: ex_adapter_def run_adapter_def createAdapterApiServer_def newDispatchLedger_def memory_readAll_def
      replay_def actionHandler_def ex_resolved ex_authorized check_def entryFor_def)

lemma ex_adapter_snoc: "ex_adapter (events @ [e]) =
    adapter_step memory_append memory_readAll ex_host ex_adapter_options (ex_adapter events) e"
  by (simp add: ex_adapter_def run_adapter_def)

lemma ex_dispatched:
  "ad_transmitted (ex_adapter [Submit ex_submission, Authorize_Dispatch 0 ex_clock]) = [(0, ex_prepared)]"
  "ad_threads (ex_adapter [Submit ex_submission, Authorize_Dispatch 0 ex_clock]) =
     [\<lparr>th_submission = ex_submission, th_status = Dispatching ex_prepared (dispatchKey ex_request)\<rparr>]"
proof -
  have r: "pr_accepted ex_prepared = ex_request" by (simp add: ex_prepared_def)
  have "ex_adapter [Submit ex_submission, Authorize_Dispatch 0 ex_clock] =
      adapter_step memory_append memory_readAll ex_host ex_adapter_options (ex_adapter [Submit ex_submission]) (Authorize_Dispatch 0 ex_clock)"
    using ex_adapter_snoc [of "[Submit ex_submission]"] by simp
  then show "ad_transmitted (ex_adapter [Submit ex_submission, Authorize_Dispatch 0 ex_clock]) = [(0, ex_prepared)]"
    "ad_threads (ex_adapter [Submit ex_submission, Authorize_Dispatch 0 ex_clock]) =
     [\<lparr>th_submission = ex_submission, th_status = Dispatching ex_prepared (dispatchKey ex_request)\<rparr>]"
    by (simp_all add: status_at_def ex_submitted authorize_thread_def authorizeDispatch_def check_def entryFor_def Let_def r
        ex_fingerprint set_status_def)
qed

end
