(* ===== verification/AdapterProperties.thy ===== *)
theory AdapterProperties
  imports AdapterExample PolicyProperties
begin

text \<open>
  The safety of the adapter over every interleaving of submissions, dispatches, joins and
  crashes, from the contract of the dispatch journal.

  \<^item> \<open>adapter_inv\<close> is the invariant; its parts speak of one thread (\<open>thread_ok\<close>) and of one
    transmission (\<open>transmission_ok\<close>). Every event changes the ledger by at most one ledger
    operation, so the facts about the ledger come from \<open>DispatchLedger\<close>.
  \<^item> \<open>transmission_authorized\<close> is what a transmitted action must satisfy.
\<close>

section \<open>The invariant\<close>

definition admitted ::
    "('a) adapter_host_scheme \<Rightarrow> adapter_options \<Rightarrow> submission \<Rightarrow> prepared \<Rightarrow> bool" where
  "admitted H options submission p \<longleftrightarrow> resolve_request H options submission = Inr (pr_accepted p) \<and>
     authorize_request H options submission (pr_accepted p) = Inr p"

abbreviation prepared_id :: "prepared \<Rightarrow> action_id" where
  "prepared_id p \<equiv> request_id (pr_accepted p)"

abbreviation prepared_hash :: "prepared \<Rightarrow> string" where
  "prepared_hash p \<equiv> hash_value (ar_hash (pr_accepted p))"

text \<open>The ledger entry of a dispatch in progress, and the recorded outcome of a finished one.\<close>

definition executing :: "ledger_map \<Rightarrow> prepared \<Rightarrow> bool" where
  "executing es p \<longleftrightarrow> (\<exists>e. map_get es (key (Pair_Id (prepared_id p))) = Some e \<and>
     le_status e = St_Executing \<and> le_hash e = prepared_hash p)"

definition recorded :: "ledger_map \<Rightarrow> prepared \<Rightarrow> jsval \<Rightarrow> bool" where
  "recorded es p v \<longleftrightarrow> (\<exists>r. recoveryFor es (prepared_id p) (prepared_hash p) = Some (r, Some v) \<and>
     js_get v ''result'' = Str (resolution_text r))"

definition same_request ::
    "('a) adapter_host_scheme \<Rightarrow> accepted_request \<Rightarrow> accepted_request \<Rightarrow> bool" where
  "same_request H a b \<longleftrightarrow> dispatchKey a = dispatchKey b \<and>
     (\<exists>f. computeIdempotencyFingerprint H (ar_request a) = Inr f \<and> computeIdempotencyFingerprint H (ar_request b) = Inr f)"

text \<open>A response that reports the outcome of an execution.\<close>

definition reports_outcome :: "jsval \<Rightarrow> bool" where
  "reports_outcome v \<longleftrightarrow> (\<exists>r. js_get v ''result'' = Str (resolution_text r))"

definition thread_ok ::
    "('a) adapter_host_scheme \<Rightarrow> adapter_options \<Rightarrow> ledger_map \<Rightarrow> (nat \<times> prepared) list \<Rightarrow> nat \<Rightarrow> thread \<Rightarrow> bool" where
  "thread_ok H options es tx i t \<longleftrightarrow> (case th_status t of
       Prepared p \<Rightarrow> i \<notin> fst ` set tx \<and> admitted H options (th_submission t) p
     | Dispatching p k \<Rightarrow> (i, p) \<in> set tx \<and> same_request H (pr_accepted p) (pr_accepted p) \<and> executing es p
     | Waiting owner actionId \<Rightarrow> i \<notin> fst ` set tx \<and> (\<exists>p request. (owner, p) \<in> set tx \<and>
         resolve_request H options (th_submission t) = Inr request \<and> same_request H request (pr_accepted p))
     | Replied r \<Rightarrow> (\<forall>v. r = Action_Response v \<longrightarrow>
         (\<forall>p. (i, p) \<in> set tx \<longrightarrow> recorded es p v) \<and>
         (reports_outcome v \<longrightarrow> (\<exists>owner p request. (owner, p) \<in> set tx \<and> recorded es p v \<and>
           resolve_request H options (th_submission t) = Inr request \<and> same_request H request (pr_accepted p))))
     | Crashed \<Rightarrow> True)"

definition journaled :: "ledger_event list \<Rightarrow> prepared \<Rightarrow> bool" where
  "journaled evs p \<longleftrightarrow> (\<exists>ev \<in> set evs. is_executing ev \<and> ev_id ev = Pair_Id (prepared_id p))"

definition transmission_ok ::
    "('a) adapter_host_scheme \<Rightarrow> adapter_options \<Rightarrow> ledger_map \<Rightarrow> ledger_event list \<Rightarrow> thread list \<Rightarrow> nat \<times> prepared \<Rightarrow> bool" where
  "transmission_ok H options es evs threads t \<longleftrightarrow> fst t < length threads \<and>
     admitted H options (th_submission (threads ! fst t)) (snd t) \<and>
     entryFor es (prepared_id (snd t)) \<noteq> None \<and> journaled evs (snd t)"

definition inflight_ok ::
    "('a) adapter_host_scheme \<Rightarrow> (nat \<times> prepared) list \<Rightarrow> (string, inflight_dispatch) jsmap \<Rightarrow> bool" where
  "inflight_ok H tx inFlight \<longleftrightarrow> (\<forall>k entry. map_get inFlight k = Some entry \<longrightarrow>
     (\<exists>p. (if_owner entry, p) \<in> set tx \<and> k = dispatchKey (pr_accepted p) \<and>
       computeIdempotencyFingerprint H (ar_request (pr_accepted p)) = Inr (if_fingerprint entry)))"

definition adapter_inv ::
    "('j ledger \<Rightarrow> bool) \<Rightarrow> ('j \<Rightarrow> ledger_event list) \<Rightarrow> ('a) adapter_host_scheme \<Rightarrow> adapter_options \<Rightarrow> 'j adapter \<Rightarrow> bool" where
  "adapter_inv ledger_ok readAll H options s \<longleftrightarrow> ledger_ok (ad_ledger s) \<and>
     (\<forall>i < length (ad_threads s). thread_ok H options (lg_entries (ad_ledger s)) (ad_transmitted s) i (ad_threads s ! i)) \<and>
     (\<forall>t \<in> set (ad_transmitted s). transmission_ok H options (lg_entries (ad_ledger s)) (readAll (lg_journal (ad_ledger s)))
        (ad_threads s) t) \<and>
     distinct (map fst (ad_transmitted s)) \<and> distinct (map (\<lambda>t. prepared_id (snd t)) (ad_transmitted s)) \<and>
     inflight_ok H (ad_transmitted s) (ad_inFlight s)"

section \<open>Monotonicity\<close>

lemma thread_ok_mono:
  assumes "thread_ok H options es tx i t" and "\<And>p v. recorded es p v \<Longrightarrow> recorded es' p v"
    and "set tx \<subseteq> set tx'" and "\<And>p. (i, p) \<in> set tx' \<Longrightarrow> (i, p) \<in> set tx"
    and "\<And>p k. th_status t = Dispatching p k \<Longrightarrow> executing es p \<Longrightarrow> executing es' p"
  shows "thread_ok H options es' tx' i t"
proof (cases "th_status t")
  case (Prepared p)
  with assms(1,4) show ?thesis by (force simp: thread_ok_def)
next
  case (Waiting owner actionId)
  with assms(1,3,4) show ?thesis by (force simp: thread_ok_def)
next
  case (Replied r)
  with assms(1-4) show ?thesis by (simp add: thread_ok_def) blast
qed (use assms in \<open>auto simp: thread_ok_def\<close>)

lemma inflight_ok_mono: "inflight_ok H tx inFlight \<Longrightarrow> set tx \<subseteq> set tx' \<Longrightarrow> inflight_ok H tx' inFlight"
  unfolding inflight_ok_def by blast

lemma inflight_ok_delete: "inflight_ok H tx inFlight \<Longrightarrow> inflight_ok H tx (map_delete k inFlight)"
  unfolding inflight_ok_def by (auto split: if_splits)

lemma inflight_ok_set:
  "inflight_ok H tx inFlight \<Longrightarrow> (if_owner entry, p) \<in> set tx \<Longrightarrow>
     computeIdempotencyFingerprint H (ar_request (pr_accepted p)) = Inr (if_fingerprint entry) \<Longrightarrow>
     inflight_ok H tx (map_set (dispatchKey (pr_accepted p)) entry inFlight)"
  unfolding inflight_ok_def by (metis map_get_set option.inject)

lemma executing_entry: "executing es p \<Longrightarrow> entryFor es (prepared_id p) \<noteq> None"
  by (auto simp: executing_def entryFor_def)

lemma executing_authorize:
  assumes "executing (lg_entries l) q"
  shows "executing (lg_entries (fst (authorizeDispatch app now l a h x))) q"
proof (cases "a = prepared_id q")
  case True
  with executing_entry [OF assms] have "check (lg_entries l) a h \<noteq> Absent" by (simp add: check_Absent_iff)
  with assms show ?thesis by (simp add: authorizeDispatch_def Let_def)
next
  case False
  with assms show ?thesis by (simp add: authorizeDispatch_def Let_def executing_def)
qed

lemma legacy_not_pair: "key (legacy_id a) \<noteq> key (Pair_Id b)"
  by (simp add: legacy_id_def del: key.simps)

lemma executing_resolve:
  assumes "executing (lg_entries l) q" and "a \<noteq> prepared_id q" and "resolve app now l a r p = Inr l'"
  shows "executing (lg_entries l') q"
proof (cases "entryFor (lg_entries l) a")
  case None
  with assms show ?thesis by (simp add: resolve_def)
next
  case (Some ke)
  obtain k e where ke: "ke = (k, e)" by (cases ke)
  have "k \<noteq> key (Pair_Id (prepared_id q))"
    using Some assms(2) legacy_not_pair by (auto simp: ke entryFor_def simp del: key.simps split: option.splits)
  with assms Some ke show ?thesis
    by (auto simp: resolve_def executing_def simp del: key.simps split: if_splits)
qed

text \<open>The entry of a dispatch in progress after its resolution.\<close>

lemma resolve_executing:
  assumes "executing (lg_entries l) p" and "resolve app now l (prepared_id p) r (Some v) = Inr l'"
  shows "recoveryFor (lg_entries l') (prepared_id p) (prepared_hash p) = Some (r, Some v)"
proof -
  from assms(1) obtain e where e: "map_get (lg_entries l) (key (Pair_Id (prepared_id p))) = Some e"
    "le_status e = St_Executing" "le_hash e = prepared_hash p" by (auto simp: executing_def)
  then show ?thesis using assms(2)
    by (auto simp: resolve_def entryFor_def recoveryFor_def simp del: key.simps split: if_splits)
qed

section \<open>Rejections report no outcome\<close>

definition no_outcome :: "reply \<Rightarrow> bool" where
  "no_outcome r \<longleftrightarrow> (\<forall>v. r = Action_Response v \<longrightarrow> \<not> reports_outcome v)"

lemma no_outcome_failure [simp]:
  "no_outcome (error_reply status message)" "no_outcome (mpasHttpError n code message)" "no_outcome (stillExecuting a)"
  by (simp_all add: no_outcome_def error_reply_def mpasHttpError_def stillExecuting_def Let_def)

lemma js_get_result [simp]: "js_get (actionResponse d now init) ''result'' = Str (ri_result init)"
  by (simp add: actionResponse_def spread_def split: option.splits)

lemma js_get_hash [simp]:
  "ri_hash init = Some h \<Longrightarrow> js_get (actionResponse d now init) ''actionEnvelopeHash'' = hash_json h"
  by (simp add: actionResponse_def spread_def)

lemma plain_response_sel [simp]: "ri_result (plain_response r h) = r" "ri_hash (plain_response r h) = Some h"
  by (simp_all add: plain_response_def)

definition outcome_text :: "string \<Rightarrow> bool" where
  "outcome_text s \<longleftrightarrow> s \<in> set [''executed'', ''failed'', ''indeterminate'']"

lemma reports_outcome_response [simp]: "reports_outcome (actionResponse d now init) \<longleftrightarrow> outcome_text (ri_result init)"
proof -
  have "(\<exists>r. s = resolution_text r) \<longleftrightarrow> outcome_text s" for s
    by (auto simp: outcome_text_def) (metis resolution_text.simps resolution.exhaust)+
  then show ?thesis by (simp add: reports_outcome_def)
qed

lemma no_outcome_rejection [simp]: "\<not> outcome_text result \<Longrightarrow> no_outcome (rejection H d clock pkg h result code message)"
  by (simp add: rejection_def no_outcome_def error_reply_def Let_def split: sum.splits)

lemma no_outcome_error [simp]: "\<not> outcome_text result \<Longrightarrow> no_outcome (error_response d clock h result code message)"
  by (simp add: error_response_def no_outcome_def)

lemma no_outcome_response [simp]:
  "\<not> outcome_text (ri_result init) \<Longrightarrow> no_outcome (Action_Response (actionResponse d now init))"
  by (simp add: no_outcome_def)

lemma outcome_text_other [simp]:
  "\<not> outcome_text ''rejected''" "\<not> outcome_text ''expired''" "\<not> outcome_text ''malformed''"
  "\<not> outcome_text ''notSupported''" "\<not> outcome_text ''additionalApprovalsRequired''"
  by (simp_all add: outcome_text_def)

lemma unwrap_no_outcome: "unwrapActionRequest H body d = Inl r \<Longrightarrow> no_outcome r"
  by (auto simp: unwrapActionRequest_def rethrow_def split: sum.splits)

lemma resolve_request_no_outcome: "resolve_request H options submission = Inl r \<Longrightarrow> no_outcome r"
  by (auto simp: resolve_request_def Let_def and_then_Inl_iff dest: unwrap_no_outcome
      split: option.splits prod.splits sum.splits)

lemma check_timeliness_no_outcome: "check_timeliness H options clock request = Inl r \<Longrightarrow> no_outcome r"
  by (auto simp: check_timeliness_def Let_def and_then_Inl_iff)

lemma verify_submission_no_outcome: "verify_submission H options clock request = Inl r \<Longrightarrow> no_outcome r"
  by (auto simp: verify_submission_def Let_def split: verification_result.splits if_splits)

lemma apply_policy_no_outcome: "apply_policy H options clock request va = Inl r \<Longrightarrow> no_outcome r"
  by (auto simp: apply_policy_def Let_def and_then_Inl_iff split: sum.splits prod.splits if_splits policy_result.splits)

lemma pass_through_no_outcome: "pass_through H options clock request = Inl r \<Longrightarrow> no_outcome r"
  by (auto simp: pass_through_def Let_def and_then_Inl_iff)

lemma prepare_submission_no_outcome: "prepare_submission options submission request = Inl r \<Longrightarrow> no_outcome r"
  by (auto simp: prepare_submission_def Let_def and_then_Inl_iff split: sum.splits prod.splits option.splits)

lemma authorize_request_no_outcome: "authorize_request H options submission request = Inl r \<Longrightarrow> no_outcome r"
  by (auto simp: authorize_request_def Let_def and_then_Inl_iff split: sum.splits prod.splits proposer_gate_result.splits if_splits
      dest: check_timeliness_no_outcome verify_submission_no_outcome apply_policy_no_outcome pass_through_no_outcome
        prepare_submission_no_outcome)

lemma authorize_request_accepted: "authorize_request H options submission request = Inr p \<Longrightarrow> pr_accepted p = request"
  by (auto simp: authorize_request_def Let_def)

section \<open>Joining\<close>

lemma joinDispatch_ok:
  assumes "inflight_ok H tx inFlight" and "resolve_request H options sub = Inr request"
    and "i \<notin> fst ` set tx"
  shows "thread_ok H options es tx i \<lparr>th_submission = sub, th_status = joinDispatch H inFlight request\<rparr>"
proof (cases "joinDispatch H inFlight request")
  case (Waiting owner a)
  then obtain entry where e: "map_get inFlight (dispatchKey request) = Some entry" "owner = if_owner entry"
    "computeIdempotencyFingerprint H (ar_request request) = Inr (if_fingerprint entry)"
    by (auto simp: joinDispatch_def Let_def split: option.splits sum.splits if_splits)
  with assms(1) obtain p where "(owner, p) \<in> set tx" "same_request H request (pr_accepted p)"
    by (auto simp: inflight_ok_def same_request_def)
  with Waiting assms(2,3) show ?thesis by (auto simp: thread_ok_def)
next
  case (Replied r)
  then have "no_outcome r" by (auto simp: joinDispatch_def Let_def split: option.splits sum.splits if_splits)
  with Replied assms(3) show ?thesis by (force simp: thread_ok_def no_outcome_def)
qed (auto simp: joinDispatch_def Let_def split: option.splits sum.splits if_splits)

lemma replied_ok:
  "no_outcome r \<Longrightarrow> i \<notin> fst ` set tx \<Longrightarrow> thread_ok H options es tx i \<lparr>th_submission = sub, th_status = Replied r\<rparr>"
  by (force simp: thread_ok_def no_outcome_def)

lemma actionHandler_ok:
  assumes "inflight_ok H tx inFlight" and "i \<notin> fst ` set tx"
  shows "thread_ok H options es tx i \<lparr>th_submission = sub, th_status = actionHandler H options es' inFlight sub\<rparr>"
proof (cases "resolve_request H options sub")
  case (Inl r)
  then show ?thesis using assms by (simp add: actionHandler_def replied_ok resolve_request_no_outcome)
next
  case (Inr request)
  show ?thesis
  proof (cases "check es' (request_id request) (hash_value (ar_hash request))")
    case Absent
    show ?thesis
    proof (cases "authorize_request H options sub request")
      case (Inl r)
      then show ?thesis using assms Inr Absent by (simp add: actionHandler_def replied_ok authorize_request_no_outcome)
    next
      case (Inr p)
      with \<open>resolve_request H options sub = Inr request\<close> Absent assms(2) show ?thesis
        by (auto simp: actionHandler_def thread_ok_def admitted_def dest: authorize_request_accepted)
    qed
  next
    case Already_Executing
    then show ?thesis using assms Inr by (simp add: actionHandler_def joinDispatch_ok)
  next
    case (Reject_Check code message)
    then show ?thesis using assms Inr by (simp add: actionHandler_def replied_ok)
  qed
qed

section \<open>Preservation\<close>

context dispatch_journal
begin

abbreviation adapter_ok :: "('a) adapter_host_scheme \<Rightarrow> adapter_options \<Rightarrow> 'j adapter \<Rightarrow> bool" where
  "adapter_ok H options s \<equiv> adapter_inv ledger_inv readAll H options s"

text \<open>What a ledger operation keeps.\<close>

lemma recorded_step:
  assumes "ledger_inv l" and "recorded (lg_entries l) p v"
  shows "recorded (lg_entries (ledger_step app readAll l c)) p v"
proof -
  obtain r where r: "recoveryFor (lg_entries l) (prepared_id p) (prepared_hash p) = Some (r, Some v)"
    "js_get v ''result'' = Str (resolution_text r)" using assms(2) by (auto simp: recorded_def)
  from run_recoveryFor [OF assms(1) r(1), of "[c]"] r(2) show ?thesis
    by (auto simp: recorded_def run_ledger_def)
qed

lemma transmission_ok_step:
  assumes "ledger_inv l" and "transmission_ok H options (lg_entries l) (readAll (lg_journal l)) threads t"
    and "length threads \<le> length threads'" and "\<And>j. j < length threads \<Longrightarrow> th_submission (threads' ! j) = th_submission (threads ! j)"
  shows "transmission_ok H options (lg_entries (ledger_step app readAll l c))
    (readAll (lg_journal (ledger_step app readAll l c))) threads' t"
proof -
  obtain evs where evs: "readAll (lg_journal (ledger_step app readAll l c)) = readAll (lg_journal l) @ evs"
    using step_journal [of l c] by blast
  from assms(2-4) entryFor_Some_le [OF step_entries_le [OF assms(1), of c]] show ?thesis
    by (auto simp: transmission_ok_def journaled_def evs)
qed

text \<open>
  One thread moves, with at most one ledger operation: what has to be shown of it.
\<close>

lemma adapter_ok_move:
  assumes inv: "adapter_ok H options s" and i: "i < length (ad_threads s)"
    and l: "l = ad_ledger s \<or> l = ledger_step app readAll (ad_ledger s) c"
    and tx: "tx = ad_transmitted s @ new" "set (map fst new) \<subseteq> {i}" "distinct (map fst tx)" "distinct (map (\<lambda>t. prepared_id (snd t)) tx)"
      "\<And>t. t \<in> set new \<Longrightarrow> transmission_ok H options (lg_entries l) (readAll (lg_journal l)) (ad_threads s) t"
    and t: "thread_ok H options (lg_entries l) tx i ((ad_threads s ! i)\<lparr>th_status := status\<rparr>)"
    and others: "\<And>j p k. j < length (ad_threads s) \<Longrightarrow> j \<noteq> i \<Longrightarrow> th_status (ad_threads s ! j) = Dispatching p k \<Longrightarrow>
      executing (lg_entries (ad_ledger s)) p \<Longrightarrow> executing (lg_entries l) p"
    and inFlight: "inflight_ok H tx inFlight"
  shows "adapter_ok H options (set_status i status (s\<lparr>ad_ledger := l, ad_inFlight := inFlight, ad_transmitted := tx\<rparr>))"
proof -
  have lok: "ledger_inv (ad_ledger s)" using inv by (simp add: adapter_inv_def)
  then have l_ok: "ledger_inv l" using l inv_step [OF lok, of c] by auto
  have recorded: "recorded (lg_entries l) p v" if "recorded (lg_entries (ad_ledger s)) p v" for p v
    using that l recorded_step [OF lok that, of c] by auto
  have threads: "thread_ok H options (lg_entries l) tx j (((ad_threads s)[i := (ad_threads s ! i)\<lparr>th_status := status\<rparr>]) ! j)"
    if j: "j < length (ad_threads s)" for j
  proof (cases "j = i")
    case False
    have "thread_ok H options (lg_entries l) tx j (ad_threads s ! j)"
    proof (rule thread_ok_mono [OF _ recorded])
      show "thread_ok H options (lg_entries (ad_ledger s)) (ad_transmitted s) j (ad_threads s ! j)"
        using inv j by (simp add: adapter_inv_def)
      show "(j, p) \<in> set (ad_transmitted s)" if "(j, p) \<in> set tx" for p using that False tx(1,2) by force
    qed (use tx(1) others [OF j False] in auto)
    with False show ?thesis by simp
  qed (use i t in simp)
  have sub: "th_submission (((ad_threads s)[i := (ad_threads s ! i)\<lparr>th_status := status\<rparr>]) ! j) = th_submission (ad_threads s ! j)"
    if "j < length (ad_threads s)" for j using that by (cases "j = i") simp_all
  have old: "transmission_ok H options (lg_entries l) (readAll (lg_journal l)) (ad_threads s) t" if "t \<in> set (ad_transmitted s)" for t
    using l
  proof
    assume "l = ad_ledger s" with inv that show ?thesis by (simp add: adapter_inv_def)
  next
    assume "l = ledger_step app readAll (ad_ledger s) c"
    with inv that show ?thesis using transmission_ok_step [OF lok, of H options "ad_threads s" t "ad_threads s" c]
      by (simp add: adapter_inv_def)
  qed
  have "transmission_ok H options (lg_entries l) (readAll (lg_journal l))
      ((ad_threads s)[i := (ad_threads s ! i)\<lparr>th_status := status\<rparr>]) t" if "t \<in> set tx" for t
    using that old [of t] tx(1) tx(5) [of t] sub by (auto simp: transmission_ok_def)
  with l_ok threads tx(3,4) inFlight show ?thesis
    by (simp add: adapter_inv_def set_status_def)
qed

lemma adapter_ok_status:
  assumes "adapter_ok H options s" and "i < length (ad_threads s)"
    and "thread_ok H options (lg_entries (ad_ledger s)) (ad_transmitted s) i ((ad_threads s ! i)\<lparr>th_status := status\<rparr>)"
    and "inflight_ok H (ad_transmitted s) inFlight"
  shows "adapter_ok H options (set_status i status (s\<lparr>ad_inFlight := inFlight\<rparr>))"
  using adapter_ok_move [OF assms(1,2), of "ad_ledger s" undefined "ad_transmitted s" "[]" status inFlight] assms
  by (simp add: adapter_inv_def)

lemma adapter_ok_thread:
  "adapter_ok H options s \<Longrightarrow> i < length (ad_threads s) \<Longrightarrow>
     thread_ok H options (lg_entries (ad_ledger s)) (ad_transmitted s) i (ad_threads s ! i)"
  by (simp add: adapter_inv_def)

lemma status_at_Some: "status_at s i = Some st \<longleftrightarrow> i < length (ad_threads s) \<and> th_status (ad_threads s ! i) = st"
  by (auto simp: status_at_def)

lemma adapter_ok_submit:
  assumes "adapter_ok H options s"
  shows "adapter_ok H options (adapter_step app readAll H options s (Submit sub))"
proof -
  let ?n = "length (ad_threads s)"
  have "?n \<notin> fst ` set (ad_transmitted s)" using assms by (force simp: adapter_inv_def transmission_ok_def)
  then have "thread_ok H options (lg_entries (ad_ledger s)) (ad_transmitted s) ?n
      \<lparr>th_submission = sub, th_status = actionHandler H options (lg_entries (ad_ledger s)) (ad_inFlight s) sub\<rparr>"
    using assms by (intro actionHandler_ok) (simp_all add: adapter_inv_def)
  with assms show ?thesis
    by (auto simp: adapter_inv_def transmission_ok_def nth_append less_Suc_eq)
qed

end

context dispatch_journal
begin

lemma authorizeDispatch_step:
  "authorizeDispatch app (clock 0) l a h x = (ledger_step app readAll l (clock, Authorize a h x), check (lg_entries l) a h)"
  by (simp add: authorizeDispatch_def Let_def)

lemma adapter_ok_authorize_absent:
  assumes inv: "adapter_ok H options s" and i: "i < length (ad_threads s)" and st: "th_status (ad_threads s ! i) = Prepared p"
    and absent: "check (lg_entries (ad_ledger s)) (prepared_id p) h = Absent"
    and l: "l = ledger_step app readAll (ad_ledger s) (clock, Authorize (prepared_id p) h x)" and h: "h = prepared_hash p"
    and f: "computeIdempotencyFingerprint H (ar_request (pr_accepted p)) = Inr f"
  shows "adapter_ok H options (set_status i (Dispatching p (dispatchKey (pr_accepted p))) (s\<lparr>ad_ledger := l,
    ad_inFlight := map_set (dispatchKey (pr_accepted p)) \<lparr>if_fingerprint = f, if_owner = i, if_waitMs = w\<rparr> (ad_inFlight s),
    ad_transmitted := ad_transmitted s @ [(i, p)]\<rparr>))"
proof (rule adapter_ok_move [OF inv i])
  let ?es = "lg_entries (ad_ledger s)"
  have es: "lg_entries l = map_set (key (Pair_Id (prepared_id p))) \<lparr>le_id = Pair_Id (prepared_id p), le_hash = h,
      le_status = St_Executing, le_resolution = None, le_response = None, le_expires = x\<rparr> ?es"
    and journal: "readAll (lg_journal l) = readAll (lg_journal (ad_ledger s)) @
      [Ev_Executing (Pair_Id (prepared_id p)) h x (iso_of_ms (clock 0))]"
    using absent by (simp_all add: l authorizeDispatch_def readAll_append del: key.simps)
  have executing: "executing (lg_entries l) p" by (simp add: executing_def es h del: key.simps)
  have p: "i \<notin> fst ` set (ad_transmitted s)" "admitted H options (th_submission (ad_threads s ! i)) p"
    using adapter_ok_thread [OF inv i] by (simp_all add: thread_ok_def st)
  have fresh: "prepared_id p \<notin> (\<lambda>t. prepared_id (snd t)) ` set (ad_transmitted s)"
    using inv absent by (auto simp: adapter_inv_def transmission_ok_def check_Absent_iff)
  show "l = ad_ledger s \<or> l = ledger_step app readAll (ad_ledger s) (clock, Authorize (prepared_id p) h x)" by (simp add: l)
  show "ad_transmitted s @ [(i, p)] = ad_transmitted s @ [(i, p)]" ..
  show "set (map fst [(i, p)]) \<subseteq> {i}" by simp
  show "distinct (map fst (ad_transmitted s @ [(i, p)]))" using inv p by (simp add: adapter_inv_def)
  show "distinct (map (\<lambda>t. prepared_id (snd t)) (ad_transmitted s @ [(i, p)]))"
    using inv fresh by (simp add: adapter_inv_def)
  show "transmission_ok H options (lg_entries l) (readAll (lg_journal l)) (ad_threads s) t" if "t \<in> set [(i, p)]" for t
    using that i p executing_entry [OF executing] by (simp add: transmission_ok_def journal journaled_def)
  show "thread_ok H options (lg_entries l) (ad_transmitted s @ [(i, p)]) i
      ((ad_threads s ! i)\<lparr>th_status := Dispatching p (dispatchKey (pr_accepted p))\<rparr>)"
    using executing f by (simp add: thread_ok_def same_request_def)
  show "executing (lg_entries l) q" if "executing ?es q" for q
    using executing_authorize [OF that, of app "clock 0" "prepared_id p" h x] by (simp add: l)
  have "inflight_ok H (ad_transmitted s) (ad_inFlight s)" using inv by (simp add: adapter_inv_def)
  then have "inflight_ok H (ad_transmitted s @ [(i, p)]) (ad_inFlight s)" by (rule inflight_ok_mono) auto
  then show "inflight_ok H (ad_transmitted s @ [(i, p)]) (map_set (dispatchKey (pr_accepted p))
      \<lparr>if_fingerprint = f, if_owner = i, if_waitMs = w\<rparr> (ad_inFlight s))"
    by (rule inflight_ok_set) (simp_all add: f)
qed

lemma adapter_ok_authorize:
  assumes inv: "adapter_ok H options s" and i: "i < length (ad_threads s)" and st: "th_status (ad_threads s ! i) = Prepared p"
  shows "adapter_ok H options (authorize_thread app H options clock i p s)"
proof -
  let ?request = "pr_accepted p" and ?inFlight = "ad_inFlight s"
  let ?c = "(clock, Authorize (prepared_id p) (prepared_hash p) (request_expiry ?request))"
  let ?l = "ledger_step app readAll (ad_ledger s) ?c"
  have p: "i \<notin> fst ` set (ad_transmitted s)" "admitted H options (th_submission (ad_threads s ! i)) p"
    using adapter_ok_thread [OF inv i] by (simp_all add: thread_ok_def st)
  have inFlight: "inflight_ok H (ad_transmitted s) ?inFlight" using inv by (simp add: adapter_inv_def)
  have same: "s\<lparr>ad_inFlight := ?inFlight\<rparr> = s" by simp
  consider (joins) "check (lg_entries (ad_ledger s)) (prepared_id p) (prepared_hash p) = Already_Executing"
    | (rejects) code message where "check (lg_entries (ad_ledger s)) (prepared_id p) (prepared_hash p) = Reject_Check code message"
    | (absent) "check (lg_entries (ad_ledger s)) (prepared_id p) (prepared_hash p) = Absent"
    by (cases "check (lg_entries (ad_ledger s)) (prepared_id p) (prepared_hash p)") auto
  then show ?thesis
  proof cases
    case joins
    have "thread_ok H options (lg_entries (ad_ledger s)) (ad_transmitted s) i
        ((ad_threads s ! i)\<lparr>th_status := joinDispatch H ?inFlight ?request\<rparr>)"
      using joinDispatch_ok [OF inFlight _ p(1), of options "th_submission (ad_threads s ! i)" ?request] p(2)
      by (cases "ad_threads s ! i") (simp add: admitted_def)
    from adapter_ok_status [OF inv i this inFlight] joins show ?thesis
      by (simp add: authorize_thread_def authorizeDispatch_step Let_def del: ledger_step.simps)
  next
    case rejects
    let ?r = "rejection H (ao_adapterDid options) clock (ar_package ?request) (ar_hash ?request) ''rejected'' code message"
    have "thread_ok H options (lg_entries (ad_ledger s)) (ad_transmitted s) i ((ad_threads s ! i)\<lparr>th_status := Replied ?r\<rparr>)"
      using replied_ok [OF _ p(1), of ?r] by (cases "ad_threads s ! i") simp
    from adapter_ok_status [OF inv i this inFlight] rejects show ?thesis
      by (simp add: authorize_thread_def authorizeDispatch_step Let_def del: ledger_step.simps)
  next
    case absent
    show ?thesis
    proof (cases "computeIdempotencyFingerprint H (ar_request ?request)")
      case (Inl e)
      have "thread_ok H options (lg_entries ?l) (ad_transmitted s) i
          ((ad_threads s ! i)\<lparr>th_status := Replied (thrown (routing_message e))\<rparr>)"
        using replied_ok [OF _ p(1), of "thrown (routing_message e)"] by (cases "ad_threads s ! i") simp
      then have "adapter_ok H options (set_status i (Replied (thrown (routing_message e)))
          (s\<lparr>ad_ledger := ?l, ad_inFlight := ?inFlight, ad_transmitted := ad_transmitted s\<rparr>))"
        using inv inFlight executing_authorize
        by (intro adapter_ok_move [OF inv i, where c = ?c and new = "[]"]) (simp_all add: adapter_inv_def)
      with absent Inl show ?thesis by (simp add: authorize_thread_def authorizeDispatch_step Let_def del: ledger_step.simps)
    next
      case (Inr f)
      from adapter_ok_authorize_absent [OF inv i st absent refl refl Inr] absent Inr show ?thesis
        by (simp add: authorize_thread_def authorizeDispatch_step Let_def del: ledger_step.simps)
    qed
  qed
qed

end

context dispatch_journal
begin

lemma dispatch_response_sel:
  assumes "dispatch_response H options clock p r = Inr (result, response)"
  shows "result = fst (classifyDispatch r)" "js_get response ''result'' = Str (resolution_text result)"
    "js_get response ''actionEnvelopeHash'' = hash_json (ar_hash (pr_accepted p))"
  using assms by (auto simp: dispatch_response_def split: prod.splits)

text \<open>The resolution of a dispatch in progress never throws.\<close>

lemma resolve_dispatching:
  assumes "executing (lg_entries l) p" and "js_get v ''result'' = Str (resolution_text r)"
    and "js_get v ''actionEnvelopeHash'' = hash_json (ar_hash (pr_accepted p))"
  shows "\<exists>l'. resolve app now l (prepared_id p) r (Some v) = Inr l'"
proof -
  obtain e where "entryFor (lg_entries l) (prepared_id p) = Some (key (Pair_Id (prepared_id p)), e)" "le_hash e = prepared_hash p"
    using assms(1) by (auto simp: executing_def entryFor_def simp del: key.simps)
  with assms(2,3) show ?thesis
    by (auto simp: resolve_def response_mismatch_def hash_json_def simp del: key.simps)
qed

lemma resolve_returned:
  assumes "executing (lg_entries (ad_ledger s)) p"
    and "receiptFor H (ao_adapterDid options) (clock 1) (ar_package (pr_accepted p))
      (resolution_text (fst (classifyDispatch r))) = Inr receipt"
  shows "\<exists>response l. dispatch_response H options clock p r = Inr (fst (classifyDispatch r), response) \<and>
    js_get response ''result'' = Str (resolution_text (fst (classifyDispatch r))) \<and>
    resolve app (clock 3) (ad_ledger s) (prepared_id p) (fst (classifyDispatch r)) (Some response) = Inr l \<and>
    recoveryFor (lg_entries l) (prepared_id p) (prepared_hash p) = Some (fst (classifyDispatch r), Some response)"
proof -
  obtain response where response: "dispatch_response H options clock p r = Inr (fst (classifyDispatch r), response)"
    using assms(2) by (cases "classifyDispatch r") (auto simp: dispatch_response_def)
  note sel = dispatch_response_sel [OF response]
  obtain l where l: "resolve app (clock 3) (ad_ledger s) (prepared_id p) (fst (classifyDispatch r)) (Some response) = Inr l"
    using resolve_dispatching [OF assms(1) sel(2,3)] by blast
  from resolve_executing [OF assms(1) l] response sel(2) l show ?thesis by blast
qed

lemma transmitted_once:
  assumes "adapter_ok H options s" and "(i, p) \<in> set (ad_transmitted s)"
  shows "(i, q) \<in> set (ad_transmitted s) \<Longrightarrow> q = p"
    and "(j, q) \<in> set (ad_transmitted s) \<Longrightarrow> j \<noteq> i \<Longrightarrow> prepared_id q \<noteq> prepared_id p"
proof -
  have d: "distinct (map fst (ad_transmitted s))" "distinct (map (\<lambda>t. prepared_id (snd t)) (ad_transmitted s))"
    using assms(1) by (simp_all add: adapter_inv_def)
  show "q = p" if "(i, q) \<in> set (ad_transmitted s)"
    by (rule eq_key_imp_eq_value [OF d(1) that assms(2)])
  show "prepared_id q \<noteq> prepared_id p" if "(j, q) \<in> set (ad_transmitted s)" "j \<noteq> i"
  proof
    assume "prepared_id q = prepared_id p"
    then have "(j, q) = (i, p)"
      using inj_onD [OF conjunct2 [OF d(2) [unfolded distinct_map]], of "(j, q)" "(i, p)"] assms(2) that(1) by simp
    with that(2) show False by simp
  qed
qed

lemma adapter_ok_complete:
  assumes inv: "adapter_ok H options s" and i: "i < length (ad_threads s)" and st: "th_status (ad_threads s ! i) = Dispatching p k"
  shows "adapter_ok H options (complete_thread app H options clock i p k outcome s)"
proof -
  let ?inFlight = "map_delete k (ad_inFlight s)"
  have p: "(i, p) \<in> set (ad_transmitted s)" "same_request H (pr_accepted p) (pr_accepted p)" "executing (lg_entries (ad_ledger s)) p"
    using adapter_ok_thread [OF inv i] by (simp_all add: thread_ok_def st)
  have admitted: "resolve_request H options (th_submission (ad_threads s ! i)) = Inr (pr_accepted p)"
    using inv p(1) by (auto simp: adapter_inv_def transmission_ok_def admitted_def)
  have inFlight: "inflight_ok H (ad_transmitted s) ?inFlight"
    using inv by (intro inflight_ok_delete) (simp add: adapter_inv_def)
  have once: "distinct (map fst (ad_transmitted s))" "distinct (map (\<lambda>t. prepared_id (snd t)) (ad_transmitted s))"
    using inv by (simp_all add: adapter_inv_def)
  have threw: "adapter_ok H options (set_status i (Replied (thrown message)) (s\<lparr>ad_inFlight := ?inFlight\<rparr>))" for message
    by (rule adapter_ok_status [OF inv i _ inFlight]) (simp add: thread_ok_def error_reply_def Let_def)
  show ?thesis
  proof (cases outcome)
    case (Dispatch_Threw message)
    with threw show ?thesis by (simp add: complete_thread_def Let_def)
  next
    case (Dispatch_Returned r)
    show ?thesis
    proof (cases "dispatch_response H options clock p r")
      case (Inl message)
      with Dispatch_Returned threw show ?thesis by (simp add: complete_thread_def Let_def)
    next
      case (Inr rv)
      obtain result response where rv: "rv = (result, response)" by (cases rv)
      note sel = dispatch_response_sel [OF Inr [unfolded rv]]
      obtain l where l: "resolve app (clock 3) (ad_ledger s) (prepared_id p) result (Some response) = Inr l"
        using resolve_dispatching [OF p(3) sel(2,3)] by blast
      let ?c = "((\<lambda>n. clock 3), Resolve (prepared_id p) result (Some response))"
      have step: "l = ledger_step app readAll (ad_ledger s) ?c" by (simp add: l)
      have recorded: "recorded (lg_entries l) p response"
        using resolve_executing [OF p(3) l] sel(2) by (simp add: recorded_def)
      have "adapter_ok H options (set_status i (Replied (Action_Response response))
          (s\<lparr>ad_ledger := l, ad_inFlight := ?inFlight, ad_transmitted := ad_transmitted s\<rparr>))"
      proof (rule adapter_ok_move [OF inv i disjI2 [OF step], where new = "[]"])
        show "thread_ok H options (lg_entries l) (ad_transmitted s) i
            ((ad_threads s ! i)\<lparr>th_status := Replied (Action_Response response)\<rparr>)"
        proof -
          have "recorded (lg_entries l) q response" if "(i, q) \<in> set (ad_transmitted s)" for q
            using recorded transmitted_once(1) [OF inv p(1) that] by simp
          with recorded p(1,2) admitted show ?thesis by (simp add: thread_ok_def) blast
        qed
        show "executing (lg_entries l) q" if "j < length (ad_threads s)" "j \<noteq> i" "th_status (ad_threads s ! j) = Dispatching q k'"
          "executing (lg_entries (ad_ledger s)) q" for j q k'
        proof (rule executing_resolve [OF that(4) _ l])
          have "(j, q) \<in> set (ad_transmitted s)" using adapter_ok_thread [OF inv that(1)] by (simp add: thread_ok_def that(3))
          from transmitted_once(2) [OF inv p(1) this that(2)] show "prepared_id p \<noteq> prepared_id q" by simp
        qed
      qed (use once inFlight in simp_all)
      moreover have swap: "s\<lparr>ad_inFlight := ?inFlight, ad_ledger := l\<rparr> = s\<lparr>ad_ledger := l, ad_inFlight := ?inFlight\<rparr>" by simp
      ultimately show ?thesis using Dispatch_Returned Inr rv l by (simp add: complete_thread_def Let_def swap)
    qed
  qed
qed

lemma adapter_ok_deliver:
  assumes inv: "adapter_ok H options s" and i: "i < length (ad_threads s)" and st: "th_status (ad_threads s ! i) = Waiting owner a"
  shows "adapter_ok H options (deliver_thread i owner a s)"
    and "adapter_ok H options (set_status i (Replied (stillExecuting a)) s)"
proof -
  have inFlight: "inflight_ok H (ad_transmitted s) (ad_inFlight s)" using inv by (simp add: adapter_inv_def)
  note move = adapter_ok_status [OF inv i _ inFlight]
  obtain p request where p: "i \<notin> fst ` set (ad_transmitted s)" "(owner, p) \<in> set (ad_transmitted s)"
    "resolve_request H options (th_submission (ad_threads s ! i)) = Inr request" "same_request H request (pr_accepted p)"
    using adapter_ok_thread [OF inv i] by (auto simp: thread_ok_def st)
  have owner: "owner < length (ad_threads s)" using inv p(2) by (auto simp: adapter_inv_def transmission_ok_def)
  show still: "adapter_ok H options (set_status i (Replied (stillExecuting a)) s)"
    using move [of "Replied (stillExecuting a)"] by (simp add: thread_ok_def stillExecuting_def)
  show "adapter_ok H options (deliver_thread i owner a s)"
  proof (cases "th_status (ad_threads s ! owner)")
    case (Replied r)
    show ?thesis
    proof (cases r)
      case (Action_Response v)
      have "recorded (lg_entries (ad_ledger s)) p v"
        using adapter_ok_thread [OF inv owner] p(2) by (simp add: thread_ok_def Replied Action_Response)
      with p have "thread_ok H options (lg_entries (ad_ledger s)) (ad_transmitted s) i
          ((ad_threads s ! i)\<lparr>th_status := Replied (Action_Response v)\<rparr>)"
        by (force simp: thread_ok_def)
      from move [OF this] show ?thesis by (simp add: deliver_thread_def Replied Action_Response)
    qed (use still in \<open>simp add: deliver_thread_def Replied\<close>)
  qed (use inv in \<open>simp_all add: deliver_thread_def\<close>)
qed

lemma adapter_ok_crash:
  assumes inv: "adapter_ok H options s"
  shows "adapter_ok H options (crash_adapter app readAll clock s)"
proof -
  let ?l = "ledger_step app readAll (ad_ledger s) (clock, Restart)"
  have lok: "ledger_inv (ad_ledger s)" using inv by (simp add: adapter_inv_def)
  have "thread_ok H options (lg_entries ?l) (ad_transmitted s) i ((ad_threads s ! i)\<lparr>th_status := crash_status (th_status (ad_threads s ! i))\<rparr>)"
    if i: "i < length (ad_threads s)" for i
  proof (cases "th_status (ad_threads s ! i)")
    case (Replied r)
    then have "(ad_threads s ! i)\<lparr>th_status := crash_status (th_status (ad_threads s ! i))\<rparr> = ad_threads s ! i"
      by (simp add: crash_status_def)
    with thread_ok_mono [OF adapter_ok_thread [OF inv i] recorded_step [OF lok, where c = "(clock, Restart)"]] Replied show ?thesis by simp
  qed (simp_all add: thread_ok_def crash_status_def)
  moreover have "transmission_ok H options (lg_entries ?l) (readAll (lg_journal ?l))
      (map (\<lambda>t. t\<lparr>th_status := crash_status (th_status t)\<rparr>) (ad_threads s)) t" if "t \<in> set (ad_transmitted s)" for t
    using inv that by (intro transmission_ok_step [OF lok, of _ _ "ad_threads s"]) (auto simp: adapter_inv_def)
  ultimately show ?thesis using inv inv_step [OF lok, of "(clock, Restart)"]
    by (simp add: adapter_inv_def crash_adapter_def inflight_ok_def)
qed

lemma adapter_ok_step:
  assumes "adapter_ok H options s"
  shows "adapter_ok H options (adapter_step app readAll H options s e)"
proof (cases e)
  case (Submit sub)
  then show ?thesis using adapter_ok_submit [OF assms] by simp
qed (use assms in \<open>auto simp: status_at_def adapter_ok_crash split: option.splits thread_status.splits
    intro: adapter_ok_authorize adapter_ok_complete adapter_ok_deliver\<close>)

text \<open>The events change the ledger by ledger operations only.\<close>

lemma set_status_ledger [simp]: "ad_ledger (set_status i st s) = ad_ledger s"
  by (simp add: set_status_def)

lemma complete_thread_ledger:
  "ad_ledger (complete_thread app H options clock i p k outcome s) = ad_ledger s \<or>
     (\<exists>c. ad_ledger (complete_thread app H options clock i p k outcome s) = ledger_step app readAll (ad_ledger s) c)"
proof (cases outcome)
  case (Dispatch_Returned r)
  show ?thesis
  proof (cases "dispatch_response H options clock p r")
    case (Inr rv)
    obtain result response where rv: "rv = (result, response)" by (cases rv)
    show ?thesis
    proof (cases "resolve app (clock 3) (ad_ledger s) (prepared_id p) result (Some response)")
      case (Inr l)
      have "l = ledger_step app readAll (ad_ledger s) ((\<lambda>n. clock 3), Resolve (prepared_id p) result (Some response))"
        by (simp add: Inr)
      then show ?thesis using Dispatch_Returned \<open>dispatch_response H options clock p r = Inr rv\<close> rv Inr
        by (auto simp: complete_thread_def Let_def simp del: ledger_step.simps)
    qed (use Dispatch_Returned Inr rv in \<open>simp add: complete_thread_def Let_def\<close>)
  qed (use Dispatch_Returned in \<open>simp add: complete_thread_def Let_def\<close>)
qed (simp add: complete_thread_def Let_def)

lemma authorize_thread_ledger:
  "ad_ledger (authorize_thread app H options clock i p s) = ad_ledger s \<or>
     (\<exists>c. ad_ledger (authorize_thread app H options clock i p s) = ledger_step app readAll (ad_ledger s) c)"
proof -
  let ?c = "(clock, Authorize (prepared_id p) (prepared_hash p) (request_expiry (pr_accepted p)))"
  have "ad_ledger (authorize_thread app H options clock i p s) \<in> {ad_ledger s, ledger_step app readAll (ad_ledger s) ?c}"
    by (auto simp: authorize_thread_def Let_def authorizeDispatch_step simp del: ledger_step.simps
        split: ledger_check.splits sum.splits)
  then show ?thesis by blast
qed

lemma adapter_step_ledger:
  "ad_ledger (adapter_step app readAll H options s e) = ad_ledger s \<or>
     (\<exists>c. ad_ledger (adapter_step app readAll H options s e) = ledger_step app readAll (ad_ledger s) c)"
proof (cases e)
  case (Crash clock)
  have "ad_ledger (adapter_step app readAll H options s e) = ledger_step app readAll (ad_ledger s) (clock, Restart)"
    by (simp add: Crash crash_adapter_def)
  then show ?thesis by blast
next
  case (Authorize_Dispatch i clock)
  show ?thesis
    using authorize_thread_ledger [of H options clock i _ s]
    by (simp add: Authorize_Dispatch del: ledger_step.simps split: option.splits thread_status.splits)
next
  case (Complete i clock outcome)
  show ?thesis
    using complete_thread_ledger [of H options clock i _ _ outcome s]
    by (simp add: Complete del: ledger_step.simps split: option.splits thread_status.splits)
qed (auto simp: deliver_thread_def split: option.splits thread_status.splits reply.splits)

lemma run_adapter_ledger:
  "\<exists>cs. ad_ledger (run_adapter app readAll H options s events) = run_ledger app readAll (ad_ledger s) cs"
proof (induction events arbitrary: s)
  case Nil
  have "ad_ledger (run_adapter app readAll H options s []) = run_ledger app readAll (ad_ledger s) []"
    by (simp add: run_adapter_def run_ledger_def)
  then show ?case by blast
next
  case (Cons e events)
  from Cons.IH [of "adapter_step app readAll H options s e"] obtain cs where
    cs: "ad_ledger (run_adapter app readAll H options s (e # events)) =
      run_ledger app readAll (ad_ledger (adapter_step app readAll H options s e)) cs"
    by (auto simp: run_adapter_def)
  from adapter_step_ledger [of H options s e] show ?case
  proof
    assume "\<exists>c. ad_ledger (adapter_step app readAll H options s e) = ledger_step app readAll (ad_ledger s) c"
    then obtain c where "ad_ledger (adapter_step app readAll H options s e) = ledger_step app readAll (ad_ledger s) c" ..
    with cs have "ad_ledger (run_adapter app readAll H options s (e # events)) = run_ledger app readAll (ad_ledger s) (c # cs)"
      by (simp add: run_ledger_def)
    then show ?thesis by blast
  qed (use cs in auto)
qed

lemma adapter_recovery_final:
  assumes "adapter_ok H options s" and "recoveryFor (lg_entries (ad_ledger s)) a h = Some (r, Some v)"
  shows "recoveryFor (lg_entries (ad_ledger (run_adapter app readAll H options s events))) a h = Some (r, Some v)"
proof -
  have "ledger_inv (ad_ledger s)" using assms(1) by (simp add: adapter_inv_def)
  from run_recoveryFor [OF this assms(2)] run_adapter_ledger [of H options s events] show ?thesis by auto
qed

lemma adapter_ok_new: "adapter_ok H options (createAdapterApiServer app readAll clock j)"
  by (simp add: adapter_inv_def createAdapterApiServer_def inv_new inflight_ok_def)

lemma adapter_ok_run: "adapter_ok H options s \<Longrightarrow> adapter_ok H options (run_adapter app readAll H options s events)"
  unfolding run_adapter_def by (induction events arbitrary: s) (simp_all add: adapter_ok_step)

end

section \<open>What an authorized transmission is\<close>

text \<open>
  An operation neither the plugin nor the policy names passes when the publisher attested it
  (or attested no tool surface at all) and the deployment does not deny pass-through.
\<close>

definition attested_operation :: "loaded_config \<Rightarrow> jsval \<Rightarrow> bool" where
  "attested_operation config pkg \<longleftrightarrow> (\<forall>hash names. pl_toolSurface (lc_plugin config) = Some (hash, names) \<longrightarrow>
     operationName pkg \<noteq> [] \<and> operationName pkg \<in> set names)"

definition transmission_authorized ::
    "('a) adapter_host_scheme \<Rightarrow> adapter_options \<Rightarrow> submission \<Rightarrow> prepared \<Rightarrow> bool" where
  "transmission_authorized H options sub p \<longleftrightarrow>
    (let request = pr_accepted p; pkg = ar_package request; config = ar_config request;
         policy = policyFromLoadedConfig config; envelope = actionEnvelope pkg
     in unwrapActionRequest H (sb_body sub) (ao_adapterDid options) = Inr (ar_request request) \<and>
        pkg = js_get (ar_request request) ''actionPackage'' \<and>
        map_get (ao_configs options) (application_did envelope) = Some config \<and>
        ar_hash request = computeJsonHash H envelope \<and>
        js_get (executionPayload pkg) ''name'' = Str (pr_name p) \<and>
        js_get (executionPayload pkg) ''arguments'' = pr_arguments p \<and>
        checkProposerAuthorization (proposer_did envelope) policy = Allowed \<and>
        (\<exists>i app operation va.
           verifyActionPackage H (sb_clock sub 2) pkg (adapter_verification_config options config) = Verified i app operation va \<and>
           (case plugin_validation H request of
              Inr known \<Rightarrow> policy_permits pkg (decisions_of (vas_approvals va)) policy
            | Inl (code, message, path) \<Rightarrow> code = UNKNOWN_OPERATION \<and>
                (if in_policy request then policy_permits pkg (decisions_of (vas_approvals va)) policy
                 else attested_operation config pkg \<and> \<not> lc_denyPassThrough config))))"

lemma structure_payload:
  "validateMcpPayloadStructure payload = Inr (name, arguments) \<Longrightarrow>
     js_get payload ''name'' = Str name \<and> js_get payload ''arguments'' = arguments"
  by (cases "js_get payload ''name''") (auto simp: validateMcpPayloadStructure_def Let_def split: if_splits)

lemma apply_policy_permits:
  "apply_policy H options clock request va = Inr u \<Longrightarrow>
     policy_permits (ar_package request) (decisions_of (vas_approvals va)) (policyFromLoadedConfig (ar_config request))"
  unfolding evaluatePolicy_Satisfied_iff [symmetric]
  by (auto simp: apply_policy_def Let_def split: sum.splits policy_result.splits)

lemma pass_through_allowed:
  "pass_through H options clock request = Inr u \<Longrightarrow>
     attested_operation (ar_config request) (ar_package request) \<and> \<not> lc_denyPassThrough (ar_config request)"
  by (auto simp: pass_through_def Let_def require_def attested_operation_def split: if_splits option.splits)

text \<open>What lets an action pass: the plugin and the policy, or the pass-through path.\<close>

lemma gate_passed:
  assumes "(if is_governed H request then apply_policy H options clock request va
    else pass_through H options clock request) = Inr u"
  shows "case plugin_validation H request of
      Inr known \<Rightarrow> policy_permits (ar_package request) (decisions_of (vas_approvals va)) (policyFromLoadedConfig (ar_config request))
    | Inl (code, message, path) \<Rightarrow> code = UNKNOWN_OPERATION \<and>
        (if in_policy request
         then policy_permits (ar_package request) (decisions_of (vas_approvals va)) (policyFromLoadedConfig (ar_config request))
         else attested_operation (ar_config request) (ar_package request) \<and> \<not> lc_denyPassThrough (ar_config request))"
proof (cases "is_governed H request")
  case True
  with assms have policy: "apply_policy H options clock request va = Inr u" by simp
  then show ?thesis using True apply_policy_permits [OF policy]
    by (auto simp: apply_policy_def is_governed_def Let_def split: sum.splits if_splits)
next
  case False
  with assms have "pass_through H options clock request = Inr u" by simp
  from pass_through_allowed [OF this] False show ?thesis
    by (auto simp: is_governed_def split: sum.splits)
qed

lemma verify_submission_verified:
  "verify_submission H options clock request = Inr va \<Longrightarrow> \<exists>i app operation.
     verifyActionPackage H (clock 2) (ar_package request) (adapter_verification_config options (ar_config request)) =
       Verified i app operation va"
  by (auto simp: verify_submission_def Let_def split: verification_result.splits if_splits)

lemma resolve_request_bound:
  assumes "resolve_request H options sub = Inr request"
  shows "unwrapActionRequest H (sb_body sub) (ao_adapterDid options) = Inr (ar_request request)"
    "ar_package request = js_get (ar_request request) ''actionPackage''"
    "map_get (ao_configs options) (application_did (actionEnvelope (ar_package request))) = Some (ar_config request)"
    "ar_hash request = computeJsonHash H (actionEnvelope (ar_package request))"
  using assms by (auto simp: resolve_request_def Let_def split: option.splits)

lemma admitted_authorized:
  assumes "admitted H options sub p"
  shows "transmission_authorized H options sub p"
proof -
  let ?request = "pr_accepted p"
  have r: "resolve_request H options sub = Inr ?request" "authorize_request H options sub ?request = Inr p"
    using assms by (simp_all add: admitted_def)
  from r(2) obtain va name arguments u where a: "verify_submission H options (sb_clock sub) ?request = Inr va"
    "validateMcpPayloadStructure (executionPayload (ar_package ?request)) = Inr (name, arguments)"
    "checkProposerAuthorization (proposer_did (actionEnvelope (ar_package ?request))) (policyFromLoadedConfig (ar_config ?request)) = Allowed"
    "(if is_governed H ?request then apply_policy H options (sb_clock sub) ?request va
      else pass_through H options (sb_clock sub) ?request) = Inr u"
    and p: "\<lparr>pr_accepted = ?request, pr_name = name, pr_arguments = arguments\<rparr> = p"
    by (auto simp: authorize_request_def Let_def and_then_Inr_iff split: sum.splits prod.splits proposer_gate_result.splits)
  from arg_cong [OF p, of pr_name] arg_cong [OF p, of pr_arguments]
  have n: "pr_name p = name" "pr_arguments p = arguments" by simp_all
  note c = resolve_request_bound [OF r(1)]
  from verify_submission_verified [OF a(1)] gate_passed [OF a(4)] show ?thesis
    using c a(3) structure_payload [OF a(2)] n
    unfolding transmission_authorized_def Let_def by (simp only: n) blast
qed

lemma adapter_inv_reached:
  assumes "dispatch_journal app readAll"
    and "s = run_adapter app readAll H options (createAdapterApiServer app readAll clock journal) events"
  shows "adapter_inv (dispatch_journal.ledger_inv readAll) readAll H options s"
  unfolding assms(2)
  by (rule dispatch_journal.adapter_ok_run [OF assms(1) dispatch_journal.adapter_ok_new [OF assms(1)]])

lemma resolution_text_inject: "resolution_text r = resolution_text q \<longleftrightarrow> r = q"
  by (cases r; cases q) simp_all

lemma recovered_replay:
  "recoveryFor es a h = Some rp \<Longrightarrow> check es a h' = Reject_Check ''REPLAY_DETECTED'' ''Action has already been dispatched.''"
  by (auto simp: recoveryFor_def check_def split: option.splits if_splits)

lemma complete_dispatching:
  assumes "dispatch_journal app readAll"
    and "s = run_adapter app readAll H options (createAdapterApiServer app readAll clock0 journal) events"
    and "i < length (ad_threads s)" and "th_status (ad_threads s ! i) = Dispatching p k"
    and "receiptFor H (ao_adapterDid options) (clock 1) (ar_package (pr_accepted p))
      (resolution_text (fst (classifyDispatch r))) = Inr receipt"
    and "s' = adapter_step app readAll H options s (Complete i clock (Dispatch_Returned r))"
  shows "\<exists>v. th_status (ad_threads s' ! i) = Replied (Action_Response v) \<and>
    js_get v ''result'' = Str (resolution_text (fst (classifyDispatch r))) \<and>
    recoveryFor (lg_entries (ad_ledger s')) (request_id (pr_accepted p)) (hash_value (ar_hash (pr_accepted p))) =
      Some (fst (classifyDispatch r), Some v) \<and>
    map_get (ad_inFlight s') k = None \<and>
    adapter_inv (dispatch_journal.ledger_inv readAll) readAll H options s'"
proof -
  have "thread_ok H options (lg_entries (ad_ledger s)) (ad_transmitted s) i (ad_threads s ! i)"
    using adapter_inv_reached [OF assms(1,2)] assms(3) unfolding adapter_inv_def by blast
  then have "executing (lg_entries (ad_ledger s)) p" by (simp add: thread_ok_def assms(4))
  from dispatch_journal.resolve_returned [where app = app and clock = clock, OF assms(1) this assms(5)] obtain v l where
    v: "dispatch_response H options clock p r = Inr (fst (classifyDispatch r), v)"
      "js_get v ''result'' = Str (resolution_text (fst (classifyDispatch r)))"
      "resolve app (clock 3) (ad_ledger s) (prepared_id p) (fst (classifyDispatch r)) (Some v) = Inr l"
      "recoveryFor (lg_entries l) (prepared_id p) (prepared_hash p) = Some (fst (classifyDispatch r), Some v)" by blast
  have "s' = set_status i (Replied (Action_Response v)) (s\<lparr>ad_inFlight := map_delete k (ad_inFlight s), ad_ledger := l\<rparr>)"
    using v(1,3) by (simp add: assms(6) status_at_def assms(3,4) complete_thread_def Let_def)
  moreover have "adapter_inv (dispatch_journal.ledger_inv readAll) readAll H options s'"
    unfolding assms(6)
    by (rule dispatch_journal.adapter_ok_step [OF assms(1) adapter_inv_reached [OF assms(1,2)]])
  ultimately show ?thesis using v(2,4) assms(3) by (simp add: set_status_def)
qed

text \<open>A recorded outcome refuses every later submission of its action id.\<close>

definition refused_as_replay ::
    "('j \<Rightarrow> ledger_event \<Rightarrow> 'j) \<Rightarrow> ('a) adapter_host_scheme \<Rightarrow> adapter_options \<Rightarrow> 'j adapter \<Rightarrow> action_id \<Rightarrow> bool" where
  "refused_as_replay app H options s a \<longleftrightarrow>
     (\<forall>now h x. authorizeDispatch app now (ad_ledger s) a h x =
        (ad_ledger s, Reject_Check ''REPLAY_DETECTED'' ''Action has already been dispatched.'')) \<and>
     (\<forall>sub request. resolve_request H options sub = Inr request \<and> request_id request = a \<longrightarrow>
        actionHandler H options (lg_entries (ad_ledger s)) (ad_inFlight s) sub =
          Replied (rejection H (ao_adapterDid options) (sb_clock sub) (ar_package request) (ar_hash request)
            ''rejected'' ''REPLAY_DETECTED'' ''Action has already been dispatched.''))"

lemma recovered_refused:
  "recoveryFor (lg_entries (ad_ledger s)) a h = Some rp \<Longrightarrow> refused_as_replay app H options s a"
  by (auto simp: refused_as_replay_def authorizeDispatch_def actionHandler_def recovered_replay Let_def)

section \<open>The properties\<close>

text \<open>
  C1. Whatever the interleaving of submissions, duplicates and crashes, the adapter sends
  a target only actions of a submission it authorized: the package is verified under the
  configuration of the application its envelope names, what is sent are the name and the
  arguments of its payload, and the proposer passed the gate. An operation of the plugin has
  a valid payload and the permission of the policy for the verified decisions; so has an
  operation that only the policy names; one that neither names is in the attested tool
  surface, if there is one, and the deployment does not deny pass-through. The dispatch is in
  the journal, and no two transmissions share an action id.
\<close>

theorem transmissions_authorized:
  assumes "dispatch_journal app readAll"
    and "s = run_adapter app readAll H options (createAdapterApiServer app readAll clock journal) events"
    and "(i, p) \<in> set (ad_transmitted s)"
  shows "i < length (ad_threads s) \<and> transmission_authorized H options (th_submission (ad_threads s ! i)) p \<and>
    (\<exists>ev \<in> set (readAll (lg_journal (ad_ledger s))). is_executing ev \<and> ev_id ev = Pair_Id (request_id (pr_accepted p))) \<and>
    distinct (map (\<lambda>t. request_id (pr_accepted (snd t))) (ad_transmitted s))"
proof -
  note inv = adapter_inv_reached [OF assms(1,2)]
  have "transmission_ok H options (lg_entries (ad_ledger s)) (readAll (lg_journal (ad_ledger s))) (ad_threads s) (i, p)"
    using inv assms(3) unfolding adapter_inv_def by blast
  with inv show ?thesis
    by (simp add: adapter_inv_def transmission_ok_def journaled_def admitted_authorized)
qed

theorem transmissions_authorized_witness:
  "transmission_authorized ex_host ex_adapter_options ex_submission ex_prepared"
proof -
  let ?s = "ex_adapter [Submit ex_submission, Authorize_Dispatch 0 ex_clock]"
  have "(0, ex_prepared) \<in> set (ad_transmitted ?s)" by (simp add: ex_dispatched)
  from transmissions_authorized [OF memory_contract ex_adapter_def this] show ?thesis
    by (simp add: ex_dispatched)
qed

text \<open>
  C2. A response that reports an outcome of an execution is always the outcome of a
  transmission that happened: the ledger has recorded this very response for that dispatch,
  and the request that got it is the dispatched one, under the same action id, envelope hash
  and fingerprint. So a duplicate that joins gets the outcome of its own request, and no
  rejection, expiry or crash is reported as an execution.
\<close>

theorem outcomes_are_recorded:
  assumes "dispatch_journal app readAll"
    and "s = run_adapter app readAll H options (createAdapterApiServer app readAll clock journal) events"
    and "i < length (ad_threads s)" and "th_status (ad_threads s ! i) = Replied (Action_Response v)"
    and "js_get v ''result'' = Str (resolution_text r)"
  shows "\<exists>owner p request. (owner, p) \<in> set (ad_transmitted s) \<and>
    recoveryFor (lg_entries (ad_ledger s)) (request_id (pr_accepted p)) (hash_value (ar_hash (pr_accepted p))) = Some (r, Some v) \<and>
    resolve_request H options (th_submission (ad_threads s ! i)) = Inr request \<and> same_request H request (pr_accepted p)"
proof -
  have "thread_ok H options (lg_entries (ad_ledger s)) (ad_transmitted s) i (ad_threads s ! i)"
    using adapter_inv_reached [OF assms(1,2)] assms(3) unfolding adapter_inv_def by blast
  moreover have "reports_outcome v" using assms(5) by (auto simp: reports_outcome_def)
  ultimately obtain owner p request where p: "(owner, p) \<in> set (ad_transmitted s)" "recorded (lg_entries (ad_ledger s)) p v"
    "resolve_request H options (th_submission (ad_threads s ! i)) = Inr request" "same_request H request (pr_accepted p)"
    using assms(4) by (auto simp: thread_ok_def)
  from p(2) assms(5) have "recoveryFor (lg_entries (ad_ledger s)) (prepared_id p) (prepared_hash p) = Some (r, Some v)"
    by (auto simp: recorded_def resolution_text_inject)
  with p show ?thesis by blast
qed

lemma ex_completed:
  obtains v where "th_status (ad_threads (ex_adapter [Submit ex_submission, Authorize_Dispatch 0 ex_clock,
      Complete 0 ex_clock (Dispatch_Returned (Dispatch_Ok (Obj [])))]) ! 0) = Replied (Action_Response v)"
    "js_get v ''result'' = Str (resolution_text Executed)"
    "length (ad_threads (ex_adapter [Submit ex_submission, Authorize_Dispatch 0 ex_clock,
      Complete 0 ex_clock (Dispatch_Returned (Dispatch_Ok (Obj [])))])) = 1"
proof -
  let ?s = "ex_adapter [Submit ex_submission, Authorize_Dispatch 0 ex_clock]"
  let ?e = "Complete 0 ex_clock (Dispatch_Returned (Dispatch_Ok (Obj [])))"
  have t: "0 < length (ad_threads ?s)" "th_status (ad_threads ?s ! 0) = Dispatching ex_prepared (dispatchKey ex_request)"
    by (simp_all add: ex_dispatched)
  have c: "fst (classifyDispatch (Dispatch_Ok (Obj []))) = Executed" by (simp add: classifyDispatch_def)
  obtain receipt where receipt: "receiptFor ex_host (ao_adapterDid ex_adapter_options) (ex_clock 1)
      (ar_package (pr_accepted ex_prepared)) (resolution_text (fst (classifyDispatch (Dispatch_Ok (Obj []))))) = Inr receipt"
    by (simp add: receiptFor_def ex_host_def)
  have step: "ex_adapter [Submit ex_submission, Authorize_Dispatch 0 ex_clock, ?e] =
      adapter_step memory_append memory_readAll ex_host ex_adapter_options ?s ?e"
    using ex_adapter_snoc [of "[Submit ex_submission, Authorize_Dispatch 0 ex_clock]" ?e] by simp
  from complete_dispatching [where clock = ex_clock and r = "Dispatch_Ok (Obj [])", OF memory_contract ex_adapter_def t receipt refl] obtain v where
    "th_status (ad_threads (adapter_step memory_append memory_readAll ex_host ex_adapter_options ?s ?e) ! 0) = Replied (Action_Response v)"
    "js_get v ''result'' = Str (resolution_text Executed)" unfolding c by blast
  moreover have "length (ad_threads (adapter_step memory_append memory_readAll ex_host ex_adapter_options ?s ?e)) = 1"
    by (simp add: status_at_def ex_dispatched complete_thread_def Let_def set_status_def split: sum.splits)
  ultimately show ?thesis by (intro that) (simp_all only: step)
qed

theorem outcomes_are_recorded_witness:
  "\<exists>owner p v. recoveryFor (lg_entries (ad_ledger (ex_adapter [Submit ex_submission, Authorize_Dispatch 0 ex_clock,
      Complete 0 ex_clock (Dispatch_Returned (Dispatch_Ok (Obj [])))]))) (request_id (pr_accepted p))
      (hash_value (ar_hash (pr_accepted p))) = Some (Executed, Some v) \<and>
    (owner, p) \<in> set (ad_transmitted (ex_adapter [Submit ex_submission, Authorize_Dispatch 0 ex_clock,
      Complete 0 ex_clock (Dispatch_Returned (Dispatch_Ok (Obj [])))]))"
proof (rule ex_completed)
  let ?s = "ex_adapter [Submit ex_submission, Authorize_Dispatch 0 ex_clock,
      Complete 0 ex_clock (Dispatch_Returned (Dispatch_Ok (Obj [])))]"
  fix v assume v: "th_status (ad_threads ?s ! 0) = Replied (Action_Response v)"
    "js_get v ''result'' = Str (resolution_text Executed)" "length (ad_threads ?s) = 1"
  have "0 < length (ad_threads ?s)" by (simp only: v(3))
  from outcomes_are_recorded [OF memory_contract ex_adapter_def this v(1,2)] show ?thesis by blast
qed

text \<open>
  C3. When a transmission returns and the receipt can be signed, the handler always
  answers: the classified outcome goes into the response and the ledger and the registration
  of the dispatch ends. From then on, after any further events, crashes and restarts included,
  the ledger keeps this outcome and this response, and the action id is refused as a replay,
  under any envelope hash, both when it is submitted and when a prepared submission asks for
  permission to transmit.
\<close>

theorem dispatch_completes:
  assumes "dispatch_journal app readAll"
    and "s = run_adapter app readAll H options (createAdapterApiServer app readAll clock0 journal) events"
    and "i < length (ad_threads s)" and "th_status (ad_threads s ! i) = Dispatching p k"
    and "receiptFor H (ao_adapterDid options) (clock 1) (ar_package (pr_accepted p))
      (resolution_text (fst (classifyDispatch r))) = Inr receipt"
    and "s' = adapter_step app readAll H options s (Complete i clock (Dispatch_Returned r))"
    and "s'' = run_adapter app readAll H options s' events'"
  shows "\<exists>v. th_status (ad_threads s' ! i) = Replied (Action_Response v) \<and>
    js_get v ''result'' = Str (resolution_text (fst (classifyDispatch r))) \<and>
    map_get (ad_inFlight s') k = None \<and>
    recoveryFor (lg_entries (ad_ledger s'')) (request_id (pr_accepted p)) (hash_value (ar_hash (pr_accepted p))) =
      Some (fst (classifyDispatch r), Some v) \<and>
    refused_as_replay app H options s'' (request_id (pr_accepted p))"
proof -
  obtain v where v: "th_status (ad_threads s' ! i) = Replied (Action_Response v)"
      "js_get v ''result'' = Str (resolution_text (fst (classifyDispatch r)))" "map_get (ad_inFlight s') k = None"
      "recoveryFor (lg_entries (ad_ledger s')) (prepared_id p) (prepared_hash p) = Some (fst (classifyDispatch r), Some v)"
      "adapter_inv (dispatch_journal.ledger_inv readAll) readAll H options s'"
    using complete_dispatching [OF assms(1-6)] by blast
  have "recoveryFor (lg_entries (ad_ledger s'')) (prepared_id p) (prepared_hash p) = Some (fst (classifyDispatch r), Some v)"
    unfolding assms(7) by (rule dispatch_journal.adapter_recovery_final [OF assms(1) v(5,4)])
  with v(1-3) recovered_refused show ?thesis by blast
qed

theorem dispatch_completes_witness:
  "refused_as_replay memory_append ex_host ex_adapter_options
    (ex_adapter [Submit ex_submission, Authorize_Dispatch 0 ex_clock,
       Complete 0 ex_clock (Dispatch_Returned (Dispatch_Ok (Obj []))), Submit ex_submission, Crash ex_clock])
    (request_id (pr_accepted ex_prepared))"
proof -
  let ?s = "ex_adapter [Submit ex_submission, Authorize_Dispatch 0 ex_clock]"
  have t: "0 < length (ad_threads ?s)" "th_status (ad_threads ?s ! 0) = Dispatching ex_prepared (dispatchKey ex_request)"
    by (simp_all add: ex_dispatched)
  obtain receipt where receipt: "receiptFor ex_host (ao_adapterDid ex_adapter_options) (ex_clock 1)
      (ar_package (pr_accepted ex_prepared)) (resolution_text (fst (classifyDispatch (Dispatch_Ok (Obj []))))) = Inr receipt"
    by (simp add: receiptFor_def ex_host_def)
  have run: "ex_adapter [Submit ex_submission, Authorize_Dispatch 0 ex_clock,
       Complete 0 ex_clock (Dispatch_Returned (Dispatch_Ok (Obj []))), Submit ex_submission, Crash ex_clock] =
      run_adapter memory_append memory_readAll ex_host ex_adapter_options
        (adapter_step memory_append memory_readAll ex_host ex_adapter_options ?s
          (Complete 0 ex_clock (Dispatch_Returned (Dispatch_Ok (Obj []))))) [Submit ex_submission, Crash ex_clock]"
    unfolding ex_adapter_def run_adapter_def by (simp only: foldl.simps)
  from dispatch_completes [where clock = ex_clock and r = "Dispatch_Ok (Obj [])",
      OF memory_contract ex_adapter_def t receipt refl run] show ?thesis by blast
qed

end
