(* ===== verification/WorkflowEngine.thy ===== *)
theory WorkflowEngine
  imports WorkflowStore RetryBackoff CoordinationRequests
begin

text \<open>
  The workflow engine of the proposer bridge, \<open>sdk/protocol/src/lib/workflow-engine.ts\<close>, as a
  state machine over a workflow store and the lanes of its Tasks.

  \<^item> An operation of a lane runs without interruption up to the remote call it awaits; the
    answer resumes it. \<open>lane_point\<close> says what a running operation awaits, and its result is
    \<open>Await\<close> with the next point, \<open>Finished\<close>, or \<open>Threw\<close>.
  \<^item> Remote answers, clock readings, random numbers and fresh identifiers are inputs of the
    steps. \<open>clock n\<close> is the reading of the \<open>n\<close>-th place of a step that reads a clock.
  \<^item> \<open>en_calls\<close> logs the remote calls and \<open>en_returned\<close> the responses of the action endpoint;
    the engine never reads them.
  \<^item> The compatibility adapters of the constructor and the callback \<open>onDeferred\<close> are left
    out. \<open>pollOnce\<close> and \<open>reconcile\<close> are sequences of the steps.
\<close>

section \<open>Configuration and remote errors\<close>

definition DEFAULT_SUBMISSION_TIMEOUT_MS :: int where
  "DEFAULT_SUBMISSION_TIMEOUT_MS = 45000"

definition DEFAULT_CLAIM_LEASE_MS :: int where
  "DEFAULT_CLAIM_LEASE_MS = 60000"

record engine_config =
  wc_upstreamBinding :: "jsval option"
  wc_proposerDid :: did
  wc_workerId :: string
  wc_claimLeaseMs :: int

text \<open>The constructor's check; \<open>None\<close> when it throws.\<close>

definition newEngineConfig :: "jsval option \<Rightarrow> did \<Rightarrow> string \<Rightarrow> int option \<Rightarrow> int option \<Rightarrow> engine_config option" where
  "newEngineConfig upstreamBinding proposerDid workerId submissionTimeoutMs claimLeaseMs =
    (let submissionTimeout = (case submissionTimeoutMs of Some n \<Rightarrow> n | None \<Rightarrow> DEFAULT_SUBMISSION_TIMEOUT_MS);
         claimLease = (case claimLeaseMs of Some n \<Rightarrow> n | None \<Rightarrow> DEFAULT_CLAIM_LEASE_MS)
     in if \<not> submissionTimeout < claimLease then None
        else Some \<lparr>wc_upstreamBinding = upstreamBinding, wc_proposerDid = proposerDid, wc_workerId = workerId,
          wc_claimLeaseMs = claimLease\<rparr>)"

datatype error_class = Mpas_Auth_Error | Coordination_Response_Error | Action_Relay_Response_Error | Routing_Validation_Error
  | Action_Endpoint_Client_Error | Adapter_Response_Error | Adapter_Request_Error | Other_Error

text \<open>A caught error: its class and the members that are read.\<close>

record remote_error =
  re_class :: error_class
  re_message :: string
  re_status :: "int option"
  re_retryable :: "bool option"
  re_retryAfterMs :: "jsnum option"

definition routing_failure :: "routing_error \<Rightarrow> remote_error" where
  "routing_failure e = \<lparr>re_class = (case e of Invalid_Url \<Rightarrow> Other_Error | _ \<Rightarrow> Routing_Validation_Error),
     re_message = routing_message e, re_status = None, re_retryable = None, re_retryAfterMs = None\<rparr>"

definition isPermanentRemoteFailure :: "remote_error \<Rightarrow> bool" where
  "isPermanentRemoteFailure e = (case re_class e of
       Mpas_Auth_Error \<Rightarrow> True
     | Coordination_Response_Error \<Rightarrow> True
     | Action_Relay_Response_Error \<Rightarrow> True
     | Routing_Validation_Error \<Rightarrow> True
     | Action_Endpoint_Client_Error \<Rightarrow> re_retryable e = Some False
     | Adapter_Response_Error \<Rightarrow> True
     | Adapter_Request_Error \<Rightarrow> re_retryable e \<noteq> Some True
     | Other_Error \<Rightarrow> False)"

definition permanentCoordinationFailure :: "remote_error \<Rightarrow> bool" where
  "permanentCoordinationFailure e \<longleftrightarrow> re_class e = Mpas_Auth_Error \<or> re_class e = Coordination_Response_Error"

definition coordinationFailureResolution :: "remote_error \<Rightarrow> string \<times> string" where
  "coordinationFailureResolution e =
    (if re_class e = Mpas_Auth_Error
     then (if re_status e = Some 401 then ''COORDINATION_AUTHENTICATION_FAILED'' else ''COORDINATION_AUTHORIZATION_FAILED'', re_message e)
     else (''COORDINATION_REQUEST_REJECTED'', re_message e))"

section \<open>The attempt log\<close>

datatype attempt_stage = Stage_Initial | Stage_Coordination | Stage_Completed

fun stage_text :: "attempt_stage \<Rightarrow> string" where
  "stage_text Stage_Initial = ''initial''"
| "stage_text Stage_Coordination = ''coordination''"
| "stage_text Stage_Completed = ''completed''"

datatype attempt_outcome = Responded | Pending_Outcome | Unreachable | Interrupted | Rejected_Outcome

fun outcome_name :: "attempt_outcome \<Rightarrow> string" where
  "outcome_name Responded = ''responded''"
| "outcome_name Pending_Outcome = ''pending''"
| "outcome_name Unreachable = ''unreachable''"
| "outcome_name Interrupted = ''interrupted''"
| "outcome_name Rejected_Outcome = ''rejected''"

definition ATTEMPT_OUTCOMES :: "string list" where
  "ATTEMPT_OUTCOMES = [''responded'', ''pending'', ''unreachable'', ''interrupted'', ''rejected'']"

definition lastAttempt :: "workflow_record \<Rightarrow> jsval option" where
  "lastAttempt r = List.find (\<lambda>v. is_record v \<and> js_get v ''outcome'' \<in> Str ` set ATTEMPT_OUTCOMES) (rev (w_adapterAttempts r))"

definition awaitingRetry :: "workflow_record \<Rightarrow> bool" where
  "awaitingRetry r = (case lastAttempt r of None \<Rightarrow> False
     | Some v \<Rightarrow> js_get v ''outcome'' = Str ''unreachable'' \<or> js_get v ''outcome'' = Str ''interrupted'')"

definition retryNotBefore :: "('a) host_scheme \<Rightarrow> workflow_record \<Rightarrow> int option" where
  "retryNotBefore H r = (case lastAttempt r of None \<Rightarrow> None
     | Some v \<Rightarrow>
         if js_get v ''outcome'' \<noteq> Str ''unreachable'' \<and> js_get v ''outcome'' \<noteq> Str ''pending'' then None
         else (case js_get v ''notBefore'' of Str t \<Rightarrow> date_parse (legacy_date H) t | _ \<Rightarrow> None))"

text \<open>\<open>previous.consecutive ?? 1\<close>, of an entry that \<open>recordAttempt\<close> wrote.\<close>

definition consecutive_of :: "jsval \<Rightarrow> int" where
  "consecutive_of v = (case js_get v ''consecutive'' of Num (Fin x) \<Rightarrow> \<lfloor>x\<rfloor> | _ \<Rightarrow> 1)"

text \<open>The delay is finite; a \<open>Date\<close> drops the fraction of a millisecond.\<close>

definition whole_ms :: "jsnum \<Rightarrow> int" where
  "whole_ms d = (case d of Fin x \<Rightarrow> \<lfloor>x\<rfloor> | _ \<Rightarrow> 0)"

definition attempt_entry ::
    "int \<Rightarrow> int \<Rightarrow> rat \<Rightarrow> jsval option \<Rightarrow> attempt_stage \<Rightarrow> attempt_outcome \<Rightarrow> remote_error option \<Rightarrow> jsval" where
  "attempt_entry now later random previous stage outcome error = Obj (
    [(''stage'', Str (stage_text stage)), (''outcome'', Str (outcome_name outcome)), (''at'', Str (iso_of_ms now))] @
    spread ''message'' (map_option (\<lambda>e. Str (re_message e)) error) @
    (if outcome = Unreachable \<or> outcome = Pending_Outcome
     then let consecutive = (case previous of
                  Some v \<Rightarrow> if js_get v ''outcome'' = Str (outcome_name outcome) then consecutive_of v + 1 else 1
                | None \<Rightarrow> 1);
              retryAfterMs = (if outcome = Unreachable
                then (case error of None \<Rightarrow> None
                  | Some e \<Rightarrow> retryAfterMsOf (Obj (spread ''retryAfterMs'' (map_option Num (re_retryAfterMs e)))))
                else None);
              delay = backoffDelayMs consecutive (if outcome = Unreachable then FAILURE_BACKOFF else PENDING_BACKOFF) random retryAfterMs
          in [(''consecutive'', Num (num_of_int consecutive))] @ spread ''retryAfterMs'' (map_option Num retryAfterMs) @
             [(''notBefore'', Str (iso_of_ms (later + whole_ms delay)))]
     else []))"

section \<open>Packages and requests\<close>

definition proposerDidOfPackage :: "jsval \<Rightarrow> string option" where
  "proposerDidOfPackage pkg = text_opt (js_get (js_get (js_get pkg ''actionEnvelope'') ''proposer'') ''did'')"

abbreviation proposerDidOf :: "workflow_record \<Rightarrow> string option" where
  "proposerDidOf r \<equiv> proposerDidOfPackage (w_actionPackage r)"

definition asActionResponse :: "jsval \<Rightarrow> jsval option" where
  "asActionResponse v = (if is_record v \<and> js_get v ''type'' = Str ''ActionResponse'' \<and> is_string (js_get v ''result'') then Some v else None)"

definition actionRequestFor :: "workflow_record \<Rightarrow> jsval \<Rightarrow> jsval option \<Rightarrow> jsval" where
  "actionRequestFor r pkg upstreamBinding = Obj ([(''version'', Str ''1''), (''type'', Str ''ActionRequest''),
     (''idempotencyKey'', Str (w_actionIdempotencyKey r)), (''actionPackage'', pkg)] @ spread ''upstreamBinding'' upstreamBinding)"

definition sameHash :: "jsval \<Rightarrow> jsval \<Rightarrow> bool" where
  "sameHash a b \<longleftrightarrow> js_get a ''alg'' = js_get b ''alg'' \<and> js_get a ''value'' = js_get b ''value''"

datatype submission_phase = Initial_Phase | Completed_Phase

fun phase_text :: "submission_phase \<Rightarrow> string" where
  "phase_text Initial_Phase = ''initial''"
| "phase_text Completed_Phase = ''completed''"

definition isSubmissionIdempotencyBinding :: "('a) host_scheme \<Rightarrow> jsval \<Rightarrow> bool" where
  "isSubmissionIdempotencyBinding H v \<longleftrightarrow>
    (js_get v ''stage'' = Str ''initial'' \<or> js_get v ''stage'' = Str ''completed'') \<and>
    js_get v ''outcome'' = Str ''idempotencyBound'' \<and>
    (case js_get v ''idempotencyKey'' of Str k \<Rightarrow> 0 < length k \<and> length k \<le> 128 | _ \<Rightarrow> False) \<and>
    (case js_get v ''requestFingerprint'' of Str f \<Rightarrow> 0 < length f | _ \<Rightarrow> False) \<and>
    (case js_get v ''at'' of Str t \<Rightarrow> date_parse (legacy_date H) t \<noteq> None | _ \<Rightarrow> False)"

definition phase_binding :: "('a) host_scheme \<Rightarrow> jsval list \<Rightarrow> submission_phase \<Rightarrow> string \<Rightarrow> jsval option" where
  "phase_binding H attempts phase k = List.find (\<lambda>v. js_get v ''stage'' = Str (phase_text phase) \<and> js_get v ''idempotencyKey'' = Str k)
     (filter (isSubmissionIdempotencyBinding H) attempts)"

definition binding_entry :: "int \<Rightarrow> submission_phase \<Rightarrow> string \<Rightarrow> string \<Rightarrow> jsval" where
  "binding_entry now phase k fingerprint = Obj [(''stage'', Str (phase_text phase)), (''outcome'', Str ''idempotencyBound''),
     (''idempotencyKey'', Str k), (''requestFingerprint'', Str fingerprint), (''at'', Str (iso_of_ms now))]"

section \<open>The state\<close>

datatype propose_result = Settled workflow_record jsval | Deferred workflow_record

text \<open>An operation of a lane; the update names the refresh that waits for it.\<close>

datatype lane_op = Propose_Op | Dispatch_Op bool | Update_Op nat jsval | Sweep_Op

datatype lane_point =
    Submitting submission_phase
  | Building workflow_record workflow_state jsval
  | Creating workflow_record
  | Cancelling

datatype lane_result = Proposed propose_result | Applied bool | Nothing

datatype lane_outcome = Await lane_point | Finished lane_result | Threw string

datatype remote_call =
    Submit_Call string submission_phase jsval
  | Create_Call string jsval "jsval option"
  | Cancel_Call string
  | Poll_Call

datatype refresh =
    Polling bool
  | Applying bool "jsval list" "string list" bool
  | Refreshed "string list"
  | Refresh_Failed

record engine =
  en_store :: memory_store
  en_stopped :: bool
  en_inFlightAborted :: bool
  en_queued :: "(string, lane_op list) jsmap"
  en_running :: "(string, lane_op \<times> lane_point) jsmap"
  en_advancing :: "string list"
  en_refreshes :: "refresh list"
  en_waiters :: "(string, nat list) jsmap"
  en_woken :: "(nat \<times> workflow_record option) list"
  en_results :: "(string \<times> (string + propose_result)) list"
  en_calls :: "remote_call list"
  en_returned :: "(string \<times> submission_phase \<times> jsval) list"

definition newEngine :: "memory_store \<Rightarrow> engine" where
  "newEngine store = \<lparr>en_store = store, en_stopped = False, en_inFlightAborted = False, en_queued = [], en_running = [],
     en_advancing = [], en_refreshes = [], en_waiters = [], en_woken = [], en_results = [], en_calls = [], en_returned = []\<rparr>"

definition with_store :: "(memory_store \<Rightarrow> memory_store) \<Rightarrow> engine \<Rightarrow> engine" where
  "with_store f e = e\<lparr>en_store := f (en_store e)\<rparr>"

definition log_call :: "remote_call \<Rightarrow> engine \<Rightarrow> engine" where
  "log_call call e = e\<lparr>en_calls := en_calls e @ [call]\<rparr>"

abbreviation find_record :: "engine \<Rightarrow> string \<Rightarrow> workflow_record option" where
  "find_record e taskId \<equiv> getWorkflow (en_store e) taskId"

text \<open>\<open>mustGet\<close>: what follows when the record is there.\<close>

definition mustGet :: "engine \<Rightarrow> string \<Rightarrow> (workflow_record \<Rightarrow> engine \<times> lane_outcome) \<Rightarrow> engine \<times> lane_outcome" where
  "mustGet e taskId f = (case find_record e taskId of
     None \<Rightarrow> (e, Threw (''Workflow not found for task '' @ taskId @ ''.'')) | Some r \<Rightarrow> f r)"

definition deferred :: "string \<Rightarrow> engine \<Rightarrow> engine \<times> lane_outcome" where
  "deferred taskId e = mustGet e taskId (\<lambda>r. (e, Finished (Proposed (Deferred r))))"

definition resultFromRecord :: "workflow_record \<Rightarrow> propose_result" where
  "resultFromRecord r = (if w_state r = Resolved_W
     then (case w_resolution r of
         Some (Resolution_Resolved actionResponse receipt) \<Rightarrow>
           (case asActionResponse actionResponse of Some v \<Rightarrow> Settled r v | None \<Rightarrow> Deferred r)
       | _ \<Rightarrow> Deferred r)
     else Deferred r)"

definition result_now :: "string \<Rightarrow> engine \<Rightarrow> engine \<times> lane_outcome" where
  "result_now taskId e = mustGet e taskId (\<lambda>r. (e, Finished (Proposed (resultFromRecord r))))"

section \<open>Shared steps\<close>

definition notify :: "workflow_record \<Rightarrow> engine \<Rightarrow> engine" where
  "notify r e = (if \<not> terminal (w_state r) then e
     else case map_get (en_waiters e) (w_taskId r) of None \<Rightarrow> e
       | Some waiters \<Rightarrow> e\<lparr>en_waiters := map_delete (w_taskId r) (en_waiters e),
           en_woken := en_woken e @ map (\<lambda>i. (i, Some r)) waiters\<rparr>)"

text \<open>
  \<open>resolveUnresolvable\<close> reads the record back to notify; it is called for a Task that is in
  the store, and the engine removes no record.
\<close>

definition notify_task :: "string \<Rightarrow> engine \<Rightarrow> engine" where
  "notify_task taskId e = (case find_record e taskId of None \<Rightarrow> e | Some r \<Rightarrow> notify r e)"

definition resolveUnresolvable :: "int \<Rightarrow> string \<Rightarrow> string \<Rightarrow> string \<Rightarrow> engine \<Rightarrow> engine" where
  "resolveUnresolvable now taskId errorCode errorMessage e =
     notify_task taskId (with_store (resolveWorkflow now taskId (Resolution_Unresolvable errorCode errorMessage)) e)"

definition settle :: "int \<Rightarrow> string \<Rightarrow> jsval \<Rightarrow> engine \<Rightarrow> engine \<times> lane_outcome" where
  "settle now taskId response e =
    (let e' = with_store (resolveWorkflow now taskId (Resolution_Resolved response
          (if js_get response ''executionReceipt'' = Undefined then None else Some (js_get response ''executionReceipt'')))) e
     in mustGet e' taskId (\<lambda>r. (notify r e', Finished (Proposed (Settled r response)))))"

definition recordAttempt ::
    "(nat \<Rightarrow> int) \<Rightarrow> rat \<Rightarrow> string \<Rightarrow> attempt_stage \<Rightarrow> attempt_outcome \<Rightarrow> remote_error option \<Rightarrow> engine \<Rightarrow> engine" where
  "recordAttempt clock random taskId stage outcome error e =
    (let previous = (case find_record e taskId of None \<Rightarrow> None | Some r \<Rightarrow> lastAttempt r)
     in with_store (saveAdapterAttempt (clock 12) taskId (attempt_entry (clock 10) (clock 11) random previous stage outcome error)) e)"

definition recordFailure ::
    "(nat \<Rightarrow> int) \<Rightarrow> rat \<Rightarrow> string \<Rightarrow> attempt_stage \<Rightarrow> remote_error \<Rightarrow> string \<Rightarrow> engine \<Rightarrow> engine" where
  "recordFailure clock random taskId stage error permanentCode e =
    (if isPermanentRemoteFailure error
     then resolveUnresolvable (clock 13) taskId permanentCode (re_message error)
       (recordAttempt clock random taskId stage Rejected_Outcome (Some error) e)
     else recordAttempt clock random taskId stage
       (if en_inFlightAborted e \<and> re_status error = None then Interrupted else Unreachable) (Some error) e)"

definition holdClaim :: "engine_config \<Rightarrow> (nat \<Rightarrow> int) \<Rightarrow> string \<Rightarrow> engine \<Rightarrow> engine \<times> bool" where
  "holdClaim config clock taskId e =
    (case claimWorkflow (clock 0) (clock 1) taskId (wc_workerId config) (wc_claimLeaseMs config) (en_store e) of
       (s, held) \<Rightarrow> (e\<lparr>en_store := s\<rparr>, held))"

definition not_before :: "('a) host_scheme \<Rightarrow> timestamp \<Rightarrow> int \<Rightarrow> bool" where
  "not_before H t now = (case date_parse (legacy_date H) t of None \<Rightarrow> False | Some x \<Rightarrow> now \<le> x)"

definition expire_claimed :: "engine_config \<Rightarrow> (nat \<Rightarrow> int) \<Rightarrow> string \<Rightarrow> engine \<Rightarrow> engine" where
  "expire_claimed config clock taskId e = (case holdClaim config clock taskId e of
       (e', held) \<Rightarrow> if held then resolveUnresolvable (clock 2) taskId ''ACTION_EXPIRED_BEFORE_RESOLUTION''
           ''The Action Envelope expired without a terminal Verifier response.'' e'
         else e')"

text \<open>\<open>Inl\<close> is the error of the fingerprint, \<open>Inr None\<close> a key already bound to other bytes.\<close>

definition submissionRequest ::
    "('a) host_scheme \<Rightarrow> engine_config \<Rightarrow> (nat \<Rightarrow> int) \<Rightarrow> workflow_record \<Rightarrow> jsval \<Rightarrow> submission_phase \<Rightarrow> engine \<Rightarrow>
     engine \<times> (remote_error + jsval option)" where
  "submissionRequest H config clock r pkg phase e =
    (let request = actionRequestFor r pkg (wc_upstreamBinding config) in
     case computeIdempotencyFingerprint H request of
       Inl error \<Rightarrow> (e, Inl (routing_failure error))
     | Inr fingerprint \<Rightarrow>
         (case phase_binding H (w_adapterAttempts r) phase (w_actionIdempotencyKey r) of
            Some v \<Rightarrow>
              (if js_get v ''requestFingerprint'' \<noteq> Str fingerprint
               then (resolveUnresolvable (clock 3) (w_taskId r) ''IDEMPOTENCY_REQUEST_CONFLICT''
                 (''The '' @ phase_text phase @ '' submission idempotency key is already bound to different request bytes.'') e, Inr None)
               else (e, Inr (Some request)))
          | None \<Rightarrow>
              (with_store (saveAdapterAttempt (clock 5) (w_taskId r)
                 (binding_entry (clock 4) phase (w_actionIdempotencyKey r) fingerprint)) e, Inr (Some request))))"

section \<open>Operations of a lane\<close>

definition submitToCoordination :: "engine_config \<Rightarrow> (nat \<Rightarrow> int) \<Rightarrow> workflow_record \<Rightarrow> engine \<Rightarrow> engine \<times> lane_outcome" where
  "submitToCoordination config clock r e =
    (if en_stopped e then result_now (w_taskId r) e
     else case holdClaim config clock (w_taskId r) e of (e', held) \<Rightarrow>
       if \<not> held then result_now (w_taskId r) e'
       else (log_call (Create_Call (w_taskId r) (w_actionPackage r) (w_authorizationRequirements r)) e', Await (Creating r)))"

text \<open>\<open>replaceAndSubmitToCoordination\<close> up to the construction of the replacement.\<close>

definition requestReplacement ::
    "(nat \<Rightarrow> int) \<Rightarrow> workflow_record \<Rightarrow> workflow_state \<Rightarrow> jsval \<Rightarrow> engine \<Rightarrow> engine \<times> lane_outcome" where
  "requestReplacement clock r fromState response e =
    (let verifierRequirements = js_get response ''authorizationRequirements'' in
     if js_get verifierRequirements ''result'' \<noteq> Str ''additionalApprovalsRequired''
     then deferred (w_taskId r) (resolveUnresolvable (clock 6) (w_taskId r) ''INVALID_VERIFIER_RESPONSE''
       ''The Verifier requested additional Approvals without usable Authorization Requirements.'' e)
     else (e, Await (Building r fromState verifierRequirements)))"

definition check_replacement :: "('a) host_scheme \<Rightarrow> workflow_record \<Rightarrow> jsval \<Rightarrow> jsval \<times> jsval \<Rightarrow> string + unit" where
  "check_replacement H r verifierRequirements replacement = (case replacement of (pkg, requirements) \<Rightarrow>
    (let envelope = js_get pkg ''actionEnvelope''; actionId = js_get (js_get envelope ''actionId'') ''value'';
         envelopeHash = hash_json (computeJsonHash H envelope)
     in and_then (require (actionId \<noteq> Str (w_actionId r)) ''A replacement Action must use a new Action ID.'') (\<lambda>_.
        and_then (require (actionId \<noteq> Str (w_taskId r)) ''Task ID and Action ID must be distinct.'') (\<lambda>_.
        and_then (require (sameHash (js_get (js_get pkg ''approvalBundle'') ''actionEnvelopeHash'') envelopeHash)
          ''The replacement Approval Bundle does not bind to its Action Envelope.'') (\<lambda>_.
        and_then (require (sameHash (js_get requirements ''actionEnvelopeHash'') envelopeHash)
          ''The replacement Authorization Requirements do not bind to the replacement Action Envelope.'') (\<lambda>_.
        require (js_get (js_get requirements ''verifier'') ''did'' = js_get (js_get verifierRequirements ''verifier'') ''did'')
          ''The replacement Authorization Requirements changed the intended Verifier.''))))))"

definition replacement_input ::
    "('a) host_scheme \<Rightarrow> workflow_state \<Rightarrow> string \<Rightarrow> jsval \<times> jsval \<Rightarrow> replace_action_input" where
  "replacement_input H fromState uuid replacement = (case replacement of (pkg, requirements) \<Rightarrow>
    (let envelope = js_get pkg ''actionEnvelope'' in
     \<lparr>rai_fromState = fromState, rai_actionId = text_of (js_get (js_get envelope ''actionId'') ''value''),
      rai_actionIdempotencyKey = uuid, rai_actionEnvelopeHash = hash_value (computeJsonHash H envelope),
      rai_actionPackage = pkg, rai_authorizationRequirements = requirements,
      rai_expiresAt = text_of (js_get envelope ''expiresAt'')\<rparr>))"

text \<open>
  The rest of \<open>replaceAndSubmitToCoordination\<close>: the constructed replacement, or the message
  of the error of its construction, and the fresh idempotency key.
\<close>

definition replacementBuilt ::
    "('a) host_scheme \<Rightarrow> engine_config \<Rightarrow> (nat \<Rightarrow> int) \<Rightarrow> workflow_record \<Rightarrow> workflow_state \<Rightarrow> jsval \<Rightarrow> string + jsval \<times> jsval \<Rightarrow>
     string \<Rightarrow> engine \<Rightarrow> engine \<times> lane_outcome" where
  "replacementBuilt H config clock r fromState verifierRequirements reply uuid e =
    (case and_then reply (\<lambda>replacement. and_then (check_replacement H r verifierRequirements replacement) (\<lambda>_.
        case replaceAction (clock 6) (w_taskId r) (replacement_input H fromState uuid replacement) (en_store e) of
          (s, Inl message) \<Rightarrow> Inl message | (s, Inr replaced) \<Rightarrow> Inr s)) of
       Inl message \<Rightarrow>
         (case find_record e (w_taskId r) of
            Some current \<Rightarrow> if terminal (w_state current) then deferred (w_taskId r) e
              else deferred (w_taskId r) (resolveUnresolvable (clock 7) (w_taskId r) ''ACTION_REPLACEMENT_FAILED'' message e)
          | None \<Rightarrow> deferred (w_taskId r) e)
     | Inr s \<Rightarrow> mustGet (e\<lparr>en_store := s\<rparr>) (w_taskId r) (\<lambda>replaced. submitToCoordination config clock replaced (e\<lparr>en_store := s\<rparr>)))"

text \<open>The answer of Coordination to the creation of the approval workflow.\<close>

definition creationAnswered ::
    "(nat \<Rightarrow> int) \<Rightarrow> rat \<Rightarrow> workflow_record \<Rightarrow> remote_error + jsval \<Rightarrow> engine \<Rightarrow> engine \<times> lane_outcome" where
  "creationAnswered clock random r reply e = (case reply of
       Inr actionRef \<Rightarrow>
         (let saved = with_store (saveCoordinationReference (clock 0) (w_taskId r) actionRef) e in
          mustGet saved (w_taskId r) (\<lambda>current.
            if w_state current = Cancelled_W
            then (log_call (Cancel_Call (w_actionId r)) saved, Await Cancelling)
            else deferred (w_taskId r)
              (with_store (\<lambda>s. fst (compareAndSetState (clock 1) (w_taskId r) Submitting_To_Coordination Awaiting_Approvals_W s))
                (recordAttempt clock random (w_taskId r) Stage_Coordination Responded None saved))))
     | Inl error \<Rightarrow>
         deferred (w_taskId r)
          (if permanentCoordinationFailure error
           then (case coordinationFailureResolution error of (errorCode, errorMessage) \<Rightarrow>
             resolveUnresolvable (clock 2) (w_taskId r) errorCode errorMessage
               (recordAttempt clock random (w_taskId r) Stage_Coordination Rejected_Outcome (Some error) e))
           else recordFailure clock random (w_taskId r) Stage_Coordination error ''COORDINATION_REQUEST_REJECTED'' e))"

definition submitInitial ::
    "('a) host_scheme \<Rightarrow> engine_config \<Rightarrow> (nat \<Rightarrow> int) \<Rightarrow> rat \<Rightarrow> workflow_record \<Rightarrow> engine \<Rightarrow> engine \<times> lane_outcome" where
  "submitInitial H config clock random r e =
    (let taskId = w_taskId r in
     case find_record e taskId of
       None \<Rightarrow> (e, Finished (Proposed (resultFromRecord r)))
     | Some current \<Rightarrow>
         if proposerDidOf current \<noteq> Some (wc_proposerDid config) \<or> terminal (w_state current) \<or> w_state current \<noteq> Created
         then (e, Finished (Proposed (resultFromRecord current)))
         else if en_stopped e then result_now taskId e
         else (case holdClaim config clock taskId e of (claimed, held) \<Rightarrow>
           if \<not> held then result_now taskId claimed
           else (case submissionRequest H config clock current (w_actionPackage current) Initial_Phase claimed of
               (e', Inl error) \<Rightarrow> deferred taskId (recordFailure clock random taskId Stage_Initial error ''ACTION_SUBMISSION_REJECTED'' e')
             | (e', Inr None) \<Rightarrow> deferred taskId e'
             | (e', Inr (Some request)) \<Rightarrow> (log_call (Submit_Call taskId Initial_Phase request) e', Await (Submitting Initial_Phase)))))"

definition initialAnswered ::
    "(nat \<Rightarrow> int) \<Rightarrow> rat \<Rightarrow> string \<Rightarrow> remote_error + jsval \<Rightarrow> engine \<Rightarrow> engine \<times> lane_outcome" where
  "initialAnswered clock random taskId reply e = (case reply of
       Inl error \<Rightarrow> deferred taskId (recordFailure clock random taskId Stage_Initial error ''ACTION_SUBMISSION_REJECTED'' e)
     | Inr response \<Rightarrow> mustGet e taskId (\<lambda>r.
         if terminal (w_state r) then deferred taskId e
         else if js_get response ''result'' = Str ''additionalApprovalsRequired''
         then (let e' = with_store (saveLastActionResponse (clock 0) taskId response)
                 (recordAttempt clock random taskId Stage_Initial Responded None e)
               in mustGet e' taskId (\<lambda>current. requestReplacement clock current Created response e'))
         else if js_get response ''result'' = Str ''pending''
         then deferred taskId (with_store (\<lambda>s. fst (compareAndSetState (clock 1) taskId Created Awaiting_Verifier_Result s))
           (with_store (saveLastActionResponse (clock 0) taskId response)
             (recordAttempt clock random taskId Stage_Initial Pending_Outcome None e)))
         else settle (clock 2) taskId response (recordAttempt clock random taskId Stage_Initial Responded None e)))"

definition completedFailed ::
    "(nat \<Rightarrow> int) \<Rightarrow> rat \<Rightarrow> string \<Rightarrow> remote_error \<Rightarrow> engine \<Rightarrow> engine" where
  "completedFailed clock random taskId error e =
     with_store (\<lambda>s. fst (compareAndSetState (clock 8) taskId Submitting_To_Verifier Ready_W s))
       (recordFailure clock random taskId Stage_Completed error ''ACTION_SUBMISSION_REJECTED'' e)"

definition submitCompleted ::
    "('a) host_scheme \<Rightarrow> engine_config \<Rightarrow> (nat \<Rightarrow> int) \<Rightarrow> rat \<Rightarrow> workflow_record \<Rightarrow> engine \<Rightarrow> engine \<times> lane_outcome" where
  "submitCompleted H config clock random r e =
    (let taskId = w_taskId r in
     case find_record e taskId of
       None \<Rightarrow> (e, Finished Nothing)
     | Some current \<Rightarrow>
         if proposerDidOf current \<noteq> Some (wc_proposerDid config) \<or> terminal (w_state current) then (e, Finished Nothing)
         else if en_stopped e then (e, Finished Nothing)
         else (case holdClaim config clock taskId e of (claimed, held) \<Rightarrow>
           if \<not> held then (claimed, Finished Nothing)
           else let pkg = (case w_completedPackage current of Some p \<Rightarrow> p | None \<Rightarrow> w_actionPackage current) in
           if proposerDidOfPackage pkg \<noteq> Some (wc_proposerDid config)
           then (resolveUnresolvable (clock 6) taskId ''PROPOSER_IDENTITY_MISMATCH''
             ''The completed Action Package is owned by another proposer.'' claimed, Finished Nothing)
           else (case (if w_state current = Ready_W
                  then compareAndSetState (clock 7) taskId Ready_W Submitting_To_Verifier (en_store claimed)
                  else (en_store claimed, True)) of
               (s, False) \<Rightarrow> (claimed\<lparr>en_store := s\<rparr>, Finished Nothing)
             | (s, True) \<Rightarrow> mustGet (claimed\<lparr>en_store := s\<rparr>) taskId (\<lambda>submitting.
                 case submissionRequest H config clock submitting pkg Completed_Phase (claimed\<lparr>en_store := s\<rparr>) of
                   (e', Inl error) \<Rightarrow> (completedFailed clock random taskId error e', Finished Nothing)
                 | (e', Inr None) \<Rightarrow> (e', Finished Nothing)
                 | (e', Inr (Some request)) \<Rightarrow>
                     (log_call (Submit_Call taskId Completed_Phase request) e', Await (Submitting Completed_Phase))))))"

definition REPLAY_CODES :: "string list" where
  "REPLAY_CODES = [''REPLAY_DETECTED'', ''ACTION_ID_HASH_MISMATCH'']"

definition is_replay :: "jsval \<Rightarrow> bool" where
  "is_replay response \<longleftrightarrow> js_get response ''result'' = Str ''rejected'' \<and>
     js_get (js_get response ''error'') ''code'' \<in> Str ` set REPLAY_CODES"

definition completedAnswered ::
    "(nat \<Rightarrow> int) \<Rightarrow> rat \<Rightarrow> string \<Rightarrow> remote_error + jsval \<Rightarrow> engine \<Rightarrow> engine \<times> lane_outcome" where
  "completedAnswered clock random taskId reply e = (case reply of
       Inl error \<Rightarrow> (completedFailed clock random taskId error e, Finished Nothing)
     | Inr response \<Rightarrow> mustGet e taskId (\<lambda>r.
         if terminal (w_state r) then (e, Finished Nothing)
         else let pending = (js_get response ''result'' = Str ''pending'');
                  e' = recordAttempt clock random taskId Stage_Completed (if pending then Pending_Outcome else Responded) None e
         in if pending
            then (with_store (\<lambda>s. fst (compareAndSetState (clock 1) taskId Submitting_To_Verifier Awaiting_Verifier_Result s))
              (with_store (saveLastActionResponse (clock 0) taskId response) e'), Finished Nothing)
            else if is_replay response
            then (resolveUnresolvable (clock 2) taskId ''RESULT_UNAVAILABLE''
              ''The Action was already dispatched and its result is not retrievable from the Verifier.'' e', Finished Nothing)
            else if js_get response ''result'' = Str ''additionalApprovalsRequired''
            then (let e'' = with_store (saveLastActionResponse (clock 0) taskId response) e'
                  in mustGet e'' taskId (\<lambda>current. requestReplacement clock current Submitting_To_Verifier response e''))
            else settle (clock 3) taskId response e'))"

definition applyUpdate :: "engine_config \<Rightarrow> (nat \<Rightarrow> int) \<Rightarrow> jsval \<Rightarrow> string \<Rightarrow> engine \<Rightarrow> engine \<times> lane_outcome" where
  "applyUpdate config clock update taskId e = (case find_record e taskId of
       None \<Rightarrow> (e, Finished (Applied False))
     | Some current \<Rightarrow>
         if terminal (w_state current) then (e, Finished (Applied False))
         else let state = js_get update ''state''; pkg = js_get update ''actionPackage'' in
         if state = Str ''readyForSubmission''
         then (if pkg = Undefined then (e, Finished (Applied False))
               else if proposerDidOfPackage pkg \<noteq> Some (wc_proposerDid config)
               then (resolveUnresolvable (clock 0) taskId ''PROPOSER_IDENTITY_MISMATCH''
                 ''Coordination returned an Action Package owned by another proposer.'' e, Finished (Applied False))
               else if w_state current \<noteq> Awaiting_Approvals_W then (e, Finished (Applied False))
               else (case compareAndSetState (clock 1) taskId Awaiting_Approvals_W Ready_W
                     (saveCompletedPackage (clock 0) taskId pkg (en_store e)) of
                   (s, ready) \<Rightarrow> (e\<lparr>en_store := s\<rparr>, Finished (Applied ready))))
         else if state = Str ''expired''
         then (resolveUnresolvable (clock 0) taskId ''ACTION_EXPIRED_BEFORE_RESOLUTION''
           ''The Action expired before Approvals completed.'' e, Finished (Applied False))
         else if state = Str ''rejected''
         then (resolveUnresolvable (clock 0) taskId ''COORDINATION_REJECTED''
           ''The coordination workflow was rejected before completion.'' e, Finished (Applied False))
         else if state = Str ''executed''
         then (resolveUnresolvable (clock 0) taskId ''RESULT_UNAVAILABLE''
           ''Coordination reports execution, but the authoritative Verifier result is unavailable.'' e, Finished (Applied False))
         else if state = Str ''cancelled''
         then (case cancelWorkflow (clock 0) taskId (en_store e) of (s, cancelled) \<Rightarrow>
           (if cancelled then notify_task taskId (e\<lparr>en_store := s\<rparr>) else e\<lparr>en_store := s\<rparr>, Finished (Applied False)))
         else (e, Finished (Applied False)))"

definition later :: "(nat \<Rightarrow> int) \<Rightarrow> nat \<Rightarrow> int" where
  "later clock n = clock (n + 20)"

definition dispatchClaimable ::
    "('a) host_scheme \<Rightarrow> engine_config \<Rightarrow> (nat \<Rightarrow> int) \<Rightarrow> rat \<Rightarrow> bool \<Rightarrow> string \<Rightarrow> engine \<Rightarrow> engine \<times> lane_outcome" where
  "dispatchClaimable H config clock random respectSchedule taskId e = (case find_record e taskId of
       None \<Rightarrow> (e, Finished Nothing)
     | Some current \<Rightarrow>
         if terminal (w_state current) \<or> proposerDidOf current \<noteq> Some (wc_proposerDid config) then (e, Finished Nothing)
         else if parsed_before H (w_expiresAt current) (clock 7) then (expire_claimed config clock taskId e, Finished Nothing)
         else if en_stopped e then (e, Finished Nothing)
         else if respectSchedule \<and> clock 8 < (case retryNotBefore H current of Some n \<Rightarrow> n | None \<Rightarrow> 0) then (e, Finished Nothing)
         else if w_state current = Awaiting_Approvals_W then (e, Finished Nothing)
         else (case holdClaim config clock taskId e of (e', held) \<Rightarrow>
           if \<not> held then (e', Finished Nothing)
           else mustGet e' taskId (\<lambda>claimed. case w_state claimed of
               Created \<Rightarrow> submitInitial H config (later clock) random claimed e'
             | Submitting_To_Coordination \<Rightarrow> submitToCoordination config (later clock) claimed e'
             | Ready_W \<Rightarrow> submitCompleted H config (later clock) random claimed e'
             | Submitting_To_Verifier \<Rightarrow> submitCompleted H config (later clock) random claimed e'
             | Awaiting_Verifier_Result \<Rightarrow> submitCompleted H config (later clock) random claimed e'
             | _ \<Rightarrow> (e', Finished Nothing))))"

definition sweepOne :: "('a) host_scheme \<Rightarrow> engine_config \<Rightarrow> (nat \<Rightarrow> int) \<Rightarrow> string \<Rightarrow> engine \<Rightarrow> engine \<times> lane_outcome" where
  "sweepOne H config clock taskId e = (case find_record e taskId of
       None \<Rightarrow> (e, Finished Nothing)
     | Some current \<Rightarrow>
         if terminal (w_state current) then (e, Finished Nothing)
         else if not_before H (w_expiresAt current) (clock 7) then (e, Finished Nothing)
         else (expire_claimed config clock taskId e, Finished Nothing))"

definition proposeInLane ::
    "('a) host_scheme \<Rightarrow> engine_config \<Rightarrow> (nat \<Rightarrow> int) \<Rightarrow> rat \<Rightarrow> string \<Rightarrow> engine \<Rightarrow> engine \<times> lane_outcome" where
  "proposeInLane H config clock random taskId e = mustGet e taskId (\<lambda>current.
     if w_state current \<noteq> Created then (e, Finished (Proposed (resultFromRecord current)))
     else if en_stopped e then (e, Finished (Proposed (Deferred current)))
     else (case holdClaim config clock taskId e of (e', held) \<Rightarrow>
       if \<not> held then deferred taskId e'
       else mustGet e' taskId (\<lambda>claimed. submitInitial H config (later clock) random claimed e')))"

fun start_op ::
    "('a) host_scheme \<Rightarrow> engine_config \<Rightarrow> (nat \<Rightarrow> int) \<Rightarrow> rat \<Rightarrow> string \<Rightarrow> lane_op \<Rightarrow> engine \<Rightarrow> engine \<times> lane_outcome" where
  "start_op H config clock random taskId Propose_Op e = proposeInLane H config clock random taskId e"
| "start_op H config clock random taskId (Dispatch_Op respectSchedule) e = dispatchClaimable H config clock random respectSchedule taskId e"
| "start_op H config clock random taskId (Update_Op i update) e = applyUpdate config clock update taskId e"
| "start_op H config clock random taskId Sweep_Op e = sweepOne H config clock taskId e"

section \<open>The lanes\<close>

definition queued :: "engine \<Rightarrow> string \<Rightarrow> lane_op list" where
  "queued e taskId = (case map_get (en_queued e) taskId of None \<Rightarrow> [] | Some ops \<Rightarrow> ops)"

definition dispatchOutbound :: "string \<Rightarrow> lane_op \<Rightarrow> engine \<Rightarrow> engine" where
  "dispatchOutbound taskId op e = e\<lparr>en_queued := map_set taskId (queued e taskId @ [op]) (en_queued e)\<rparr>"

definition lane_idle :: "engine \<Rightarrow> string \<Rightarrow> bool" where
  "lane_idle e taskId \<longleftrightarrow> map_get (en_running e) taskId = None \<and> queued e taskId = []"

text \<open>The end of an operation: its result, or the message it threw, reaches whoever waits for it.\<close>

definition conclude :: "string \<Rightarrow> lane_op \<Rightarrow> string + lane_result \<Rightarrow> engine \<Rightarrow> engine" where
  "conclude taskId op result e = (case op of
       Propose_Op \<Rightarrow> (case result of
           Inl message \<Rightarrow> e\<lparr>en_results := en_results e @ [(taskId, Inl message)]\<rparr>
         | Inr (Proposed p) \<Rightarrow> e\<lparr>en_results := en_results e @ [(taskId, Inr p)]\<rparr>
         | Inr _ \<Rightarrow> e)
     | Dispatch_Op respectSchedule \<Rightarrow> if respectSchedule then e\<lparr>en_advancing := removeAll taskId (en_advancing e)\<rparr> else e
     | Update_Op i update \<Rightarrow>
         if i < length (en_refreshes e)
         then e\<lparr>en_refreshes := (en_refreshes e)[i := (case en_refreshes e ! i of
             Applying advance updates ready waiting \<Rightarrow> (case result of
                 Inr (Applied newlyReady) \<Rightarrow> Applying advance updates (if newlyReady then ready @ [taskId] else ready) False
               | _ \<Rightarrow> Refresh_Failed)
           | x \<Rightarrow> x)]\<rparr>
         else e
     | Sweep_Op \<Rightarrow> e)"

definition resume :: "string \<Rightarrow> lane_op \<Rightarrow> engine \<times> lane_outcome \<Rightarrow> engine" where
  "resume taskId op step = (case step of (e, outcome) \<Rightarrow>
     (case outcome of
        Await p \<Rightarrow> e\<lparr>en_running := map_set taskId (op, p) (en_running e)\<rparr>
      | Finished result \<Rightarrow> conclude taskId op (Inr result) (e\<lparr>en_running := map_delete taskId (en_running e)\<rparr>)
      | Threw message \<Rightarrow> conclude taskId op (Inl message) (e\<lparr>en_running := map_delete taskId (en_running e)\<rparr>)))"

definition run_lane :: "('a) host_scheme \<Rightarrow> engine_config \<Rightarrow> (nat \<Rightarrow> int) \<Rightarrow> rat \<Rightarrow> string \<Rightarrow> engine \<Rightarrow> engine" where
  "run_lane H config clock random taskId e =
    (if map_get (en_running e) taskId \<noteq> None then e
     else case queued e taskId of
       [] \<Rightarrow> e
     | op # rest \<Rightarrow> resume taskId op (start_op H config clock random taskId op (e\<lparr>en_queued := map_set taskId rest (en_queued e)\<rparr>)))"

section \<open>Remote answers\<close>

text \<open>An answer that no running operation of the Task awaits has no effect.\<close>

definition endpoint_answered ::
    "(nat \<Rightarrow> int) \<Rightarrow> rat \<Rightarrow> string \<Rightarrow> remote_error + jsval \<Rightarrow> engine \<Rightarrow> engine" where
  "endpoint_answered clock random taskId reply e = (case map_get (en_running e) taskId of
       Some (op, Submitting phase) \<Rightarrow>
         (let e' = (case reply of Inr response \<Rightarrow> e\<lparr>en_returned := en_returned e @ [(taskId, phase, response)]\<rparr> | Inl _ \<Rightarrow> e)
          in resume taskId op (case phase of
               Initial_Phase \<Rightarrow> initialAnswered clock random taskId reply e'
             | Completed_Phase \<Rightarrow> completedAnswered clock random taskId reply e'))
     | _ \<Rightarrow> e)"

definition replacement_answered ::
    "('a) host_scheme \<Rightarrow> engine_config \<Rightarrow> (nat \<Rightarrow> int) \<Rightarrow> string \<Rightarrow> string + jsval \<times> jsval \<Rightarrow> string \<Rightarrow> engine \<Rightarrow> engine" where
  "replacement_answered H config clock taskId reply uuid e = (case map_get (en_running e) taskId of
       Some (op, Building r fromState requirements) \<Rightarrow>
         resume taskId op (replacementBuilt H config clock r fromState requirements reply uuid e)
     | _ \<Rightarrow> e)"

definition creation_answered ::
    "(nat \<Rightarrow> int) \<Rightarrow> rat \<Rightarrow> string \<Rightarrow> remote_error + jsval \<Rightarrow> engine \<Rightarrow> engine" where
  "creation_answered clock random taskId reply e = (case map_get (en_running e) taskId of
       Some (op, Creating r) \<Rightarrow> resume taskId op (creationAnswered clock random r reply e)
     | _ \<Rightarrow> e)"

definition cancellation_answered :: "string \<Rightarrow> engine \<Rightarrow> engine" where
  "cancellation_answered taskId e = (case map_get (en_running e) taskId of
       Some (op, Cancelling) \<Rightarrow> resume taskId op (deferred taskId e)
     | _ \<Rightarrow> e)"

section \<open>Operations outside the lanes\<close>

definition propose :: "engine_config \<Rightarrow> int \<Rightarrow> create_workflow_input \<Rightarrow> engine \<Rightarrow> engine" where
  "propose config now input e =
    (let threw = (\<lambda>message. e\<lparr>en_results := en_results e @ [(cwi_taskId input, Inl message)]\<rparr>) in
     if proposerDidOfPackage (cwi_actionPackage input) \<noteq> Some (wc_proposerDid config)
     then threw ''Action Package proposer DID does not match this bridge identity.''
     else if cwi_taskId input = cwi_actionId input then threw ''Task ID and Action ID must be distinct.''
     else (case createWorkflowRecord now input (en_store e) of
         (s, Inl message) \<Rightarrow> threw message
       | (s, Inr r) \<Rightarrow> dispatchOutbound (w_taskId r) Propose_Op (e\<lparr>en_store := s\<rparr>)))"

definition advanceTask :: "string \<Rightarrow> engine \<Rightarrow> engine" where
  "advanceTask taskId e =
    (if taskId \<in> set (en_advancing e) then e
     else dispatchOutbound taskId (Dispatch_Op True) (e\<lparr>en_advancing := taskId # en_advancing e\<rparr>))"

definition own_recoverable :: "engine_config \<Rightarrow> engine \<Rightarrow> workflow_record list" where
  "own_recoverable config e =
     filter (\<lambda>r. proposerDidOf r = Some (wc_proposerDid config)) (listRecoverableWorkflows (en_store e))"

definition advanceClaimable :: "engine_config \<Rightarrow> engine \<Rightarrow> engine" where
  "advanceClaimable config e = fold (\<lambda>r. dispatchOutbound (w_taskId r) (Dispatch_Op False))
     (filter (\<lambda>r. w_state r \<noteq> Awaiting_Approvals_W) (own_recoverable config e)) e"

definition sweepExpired :: "('a) host_scheme \<Rightarrow> engine_config \<Rightarrow> int \<Rightarrow> engine \<Rightarrow> engine" where
  "sweepExpired H config now e = fold (\<lambda>r. dispatchOutbound (w_taskId r) Sweep_Op)
     (filter (\<lambda>r. \<not> not_before H (w_expiresAt r) now) (own_recoverable config e)) e"

definition expireIfOverdue :: "('a) host_scheme \<Rightarrow> engine_config \<Rightarrow> (nat \<Rightarrow> int) \<Rightarrow> string \<Rightarrow> engine \<Rightarrow> engine" where
  "expireIfOverdue H config clock taskId e =
    (if \<not> lane_idle e taskId then e
     else case find_record e taskId of None \<Rightarrow> e
       | Some current \<Rightarrow>
           if terminal (w_state current) \<or> proposerDidOf current \<noteq> Some (wc_proposerDid config) then e
           else if not_before H (w_expiresAt current) (clock 7) then e
           else expire_claimed config clock taskId e)"

definition hasAwaitingApprovals :: "engine_config \<Rightarrow> engine \<Rightarrow> bool" where
  "hasAwaitingApprovals config e = list_ex (\<lambda>r. w_state r = Awaiting_Approvals_W) (own_recoverable config e)"

definition cancel_task :: "engine_config \<Rightarrow> int \<Rightarrow> string \<Rightarrow> engine \<Rightarrow> engine" where
  "cancel_task config now taskId e = (case find_record e taskId of None \<Rightarrow> e
     | Some r \<Rightarrow>
         if proposerDidOf r \<noteq> Some (wc_proposerDid config) \<or> terminal (w_state r) then e
         else (case cancelWorkflow now taskId (en_store e) of (s, cancelled) \<Rightarrow>
           if \<not> cancelled then e\<lparr>en_store := s\<rparr>
           else let e' = notify_task taskId (e\<lparr>en_store := s\<rparr>)
                in if w_coordinationRef r \<noteq> None then log_call (Cancel_Call (w_actionId r)) e' else e'))"

section \<open>Coordination polls\<close>

definition refreshCoordination :: "engine_config \<Rightarrow> bool \<Rightarrow> engine \<Rightarrow> engine" where
  "refreshCoordination config advanceReady e =
    (if en_stopped e \<or> \<not> hasAwaitingApprovals config e then e\<lparr>en_refreshes := en_refreshes e @ [Refreshed []]\<rparr>
     else log_call Poll_Call (e\<lparr>en_refreshes := en_refreshes e @ [Polling advanceReady]\<rparr>))"

definition poll_answered :: "engine_config \<Rightarrow> (nat \<Rightarrow> int) \<Rightarrow> nat \<Rightarrow> remote_error + jsval list \<Rightarrow> engine \<Rightarrow> engine" where
  "poll_answered config clock i reply e =
    (if i < length (en_refreshes e) then (case en_refreshes e ! i of
       Polling advance \<Rightarrow> (case reply of
           Inr updates \<Rightarrow> e\<lparr>en_refreshes := (en_refreshes e)[i := Applying advance updates [] False]\<rparr>
         | Inl error \<Rightarrow>
             if \<not> permanentCoordinationFailure error then e\<lparr>en_refreshes := (en_refreshes e)[i := Refresh_Failed]\<rparr>
             else (case coordinationFailureResolution error of (errorCode, errorMessage) \<Rightarrow>
               fold (\<lambda>r. resolveUnresolvable (clock 0) (w_taskId r) errorCode errorMessage)
                 (filter (\<lambda>r. w_state r = Awaiting_Approvals_W) (own_recoverable config e))
                 (e\<lparr>en_refreshes := (en_refreshes e)[i := Refreshed []]\<rparr>)))
     | _ \<Rightarrow> e) else e)"

text \<open>The loop over the updates: each waits for its lane before the next is applied.\<close>

definition refresh_next :: "engine_config \<Rightarrow> nat \<Rightarrow> engine \<Rightarrow> engine" where
  "refresh_next config i e =
    (if i < length (en_refreshes e) then (case en_refreshes e ! i of
       Applying advance (update # updates) ready False \<Rightarrow>
         (case getWorkflowByActionId (en_store e) (text_of (js_get (js_get (js_get update ''actionRef'') ''actionId'') ''value'')) of
            None \<Rightarrow> e\<lparr>en_refreshes := (en_refreshes e)[i := Applying advance updates ready False]\<rparr>
          | Some r \<Rightarrow>
              if proposerDidOf r \<noteq> Some (wc_proposerDid config) \<or> terminal (w_state r)
              then e\<lparr>en_refreshes := (en_refreshes e)[i := Applying advance updates ready False]\<rparr>
              else dispatchOutbound (w_taskId r) (Update_Op i update)
                (e\<lparr>en_refreshes := (en_refreshes e)[i := Applying advance updates ready True]\<rparr>))
     | Applying advance [] ready False \<Rightarrow>
         (let e' = e\<lparr>en_refreshes := (en_refreshes e)[i := Refreshed ready]\<rparr>
          in if advance then fold advanceTask ready e' else e')
     | _ \<Rightarrow> e) else e)"

section \<open>Observers\<close>

definition own_record :: "engine_config \<Rightarrow> engine \<Rightarrow> string \<Rightarrow> workflow_record option" where
  "own_record config e taskId = (case find_record e taskId of None \<Rightarrow> None
     | Some r \<Rightarrow> if proposerDidOf r = Some (wc_proposerDid config) then Some r else None)"

text \<open>A waiter has a number of its own; \<open>en_woken\<close> is what the waiters were resolved with.\<close>

definition waitForResult :: "engine_config \<Rightarrow> nat \<Rightarrow> string \<Rightarrow> int \<Rightarrow> engine \<Rightarrow> engine" where
  "waitForResult config i taskId timeoutMs e = (case own_record config e taskId of
       None \<Rightarrow> e\<lparr>en_woken := en_woken e @ [(i, None)]\<rparr>
     | Some r \<Rightarrow>
         if terminal (w_state r) \<or> timeoutMs \<le> 0 then e\<lparr>en_woken := en_woken e @ [(i, Some r)]\<rparr>
         else e\<lparr>en_waiters := map_set taskId
             ((case map_get (en_waiters e) taskId of None \<Rightarrow> [] | Some waiters \<Rightarrow> waiters) @ [i]) (en_waiters e)\<rparr>)"

definition wait_timeout :: "engine_config \<Rightarrow> nat \<Rightarrow> string \<Rightarrow> engine \<Rightarrow> engine" where
  "wait_timeout config i taskId e = (case map_get (en_waiters e) taskId of None \<Rightarrow> e
     | Some waiters \<Rightarrow> if i \<notin> set waiters then e
         else e\<lparr>en_waiters := map_set taskId (removeAll i waiters) (en_waiters e),
                en_woken := en_woken e @ [(i, own_record config e taskId)]\<rparr>)"

definition release_one :: "string \<times> nat list \<Rightarrow> engine \<Rightarrow> engine" where
  "release_one entry e = (case entry of (taskId, waiters) \<Rightarrow> (case find_record e taskId of None \<Rightarrow> e
     | Some r \<Rightarrow> e\<lparr>en_waiters := map_delete taskId (en_waiters e), en_woken := en_woken e @ map (\<lambda>i. (i, Some r)) waiters\<rparr>))"

definition releaseWaiters :: "engine \<Rightarrow> engine" where
  "releaseWaiters e = fold release_one (en_waiters e) e"

section \<open>The machine\<close>

text \<open>
  The process ends between two steps and a new engine opens the same durable store: the
  lanes, the waiters and the polls in progress are gone, the logs stay.
\<close>

definition restart_engine :: "engine \<Rightarrow> engine" where
  "restart_engine e = (newEngine (en_store e))\<lparr>en_woken := en_woken e, en_results := en_results e, en_calls := en_calls e,
     en_returned := en_returned e\<rparr>"

datatype engine_event =
    Propose_Event create_workflow_input
  | Run_Lane string
  | Endpoint_Answer string "remote_error + jsval"
  | Replacement_Answer string "string + jsval \<times> jsval" string
  | Creation_Answer string "remote_error + jsval"
  | Cancellation_Answer string
  | Advance_Task string
  | Advance_Claimable
  | Sweep_Expired
  | Expire_If_Overdue string
  | Cancel_Task string
  | Refresh_Coordination bool
  | Poll_Answer nat "remote_error + jsval list"
  | Refresh_Next nat
  | Wait_For_Result nat string int
  | Wait_Timeout nat string
  | Release_Waiters
  | Stop_Event
  | Mark_In_Flight_Aborted
  | Restart_Event

fun engine_step :: "('a) host_scheme \<Rightarrow> engine_config \<Rightarrow> engine \<Rightarrow> (nat \<Rightarrow> int) \<times> rat \<times> engine_event \<Rightarrow> engine" where
  "engine_step H config e (clock, random, Propose_Event input) = propose config (clock 0) input e"
| "engine_step H config e (clock, random, Run_Lane taskId) = run_lane H config clock random taskId e"
| "engine_step H config e (clock, random, Endpoint_Answer taskId reply) = endpoint_answered clock random taskId reply e"
| "engine_step H config e (clock, random, Replacement_Answer taskId reply uuid) = replacement_answered H config clock taskId reply uuid e"
| "engine_step H config e (clock, random, Creation_Answer taskId reply) = creation_answered clock random taskId reply e"
| "engine_step H config e (clock, random, Cancellation_Answer taskId) = cancellation_answered taskId e"
| "engine_step H config e (clock, random, Advance_Task taskId) = advanceTask taskId e"
| "engine_step H config e (clock, random, Advance_Claimable) = advanceClaimable config e"
| "engine_step H config e (clock, random, Sweep_Expired) = sweepExpired H config (clock 0) e"
| "engine_step H config e (clock, random, Expire_If_Overdue taskId) = expireIfOverdue H config clock taskId e"
| "engine_step H config e (clock, random, Cancel_Task taskId) = cancel_task config (clock 0) taskId e"
| "engine_step H config e (clock, random, Refresh_Coordination advanceReady) = refreshCoordination config advanceReady e"
| "engine_step H config e (clock, random, Poll_Answer i reply) = poll_answered config clock i reply e"
| "engine_step H config e (clock, random, Refresh_Next i) = refresh_next config i e"
| "engine_step H config e (clock, random, Wait_For_Result i taskId timeoutMs) = waitForResult config i taskId timeoutMs e"
| "engine_step H config e (clock, random, Wait_Timeout i taskId) = wait_timeout config i taskId e"
| "engine_step H config e (clock, random, Release_Waiters) = releaseWaiters e"
| "engine_step H config e (clock, random, Stop_Event) = e\<lparr>en_stopped := True\<rparr>"
| "engine_step H config e (clock, random, Mark_In_Flight_Aborted) = e\<lparr>en_inFlightAborted := True\<rparr>"
| "engine_step H config e (clock, random, Restart_Event) = restart_engine e"

definition run_engine :: "('a) host_scheme \<Rightarrow> engine_config \<Rightarrow> engine \<Rightarrow> ((nat \<Rightarrow> int) \<times> rat \<times> engine_event) list \<Rightarrow> engine" where
  "run_engine H config e events = foldl (engine_step H config) e events"

end
