(* ===== verification/EngineExample.thy ===== *)
theory EngineExample
  imports WorkflowEngine
begin

text \<open>
  A concrete run of the workflow engine, evaluated one step at a time, at which the properties
  of the engine are applied: a proposal is submitted, the submission fails, it is
  submitted again, and the action endpoint answers.
\<close>

definition ee_host :: host where
  "ee_host = \<lparr>jcs = (\<lambda>v. []), sha256 = (\<lambda>s. ''h''), legacy_date = (\<lambda>s. None), url_parse = (\<lambda>s. None)\<rparr>"

definition ee_config :: engine_config where
  "ee_config = \<lparr>wc_upstreamBinding = None, wc_proposerDid = ''did:web:p'', wc_workerId = ''w'', wc_claimLeaseMs = 60000\<rparr>"

definition ee_package :: jsval where
  "ee_package = Obj [(''actionEnvelope'', Obj [(''proposer'', Obj [(''did'', Str ''did:web:p'')])])]"

definition ee_input :: create_workflow_input where
  "ee_input = \<lparr>cwi_taskId = ''t'', cwi_actionId = ''a'', cwi_actionIdempotencyKey = ''k'', cwi_actionEnvelopeHash = ''h'',
     cwi_toolName = ''tool'', cwi_actionPackage = ee_package, cwi_expiresAt = iso_of_ms 0\<rparr>"

definition ee_request :: jsval where
  "ee_request = Obj [(''version'', Str ''1''), (''type'', Str ''ActionRequest''), (''idempotencyKey'', Str ''k''),
     (''actionPackage'', ee_package)]"

definition ee_response :: jsval where
  "ee_response = Obj [(''type'', Str ''ActionResponse''), (''result'', Str ''executed'')]"

definition ee_failure :: remote_error where
  "ee_failure = \<lparr>re_class = Other_Error, re_message = ''timeout'', re_status = None, re_retryable = None, re_retryAfterMs = None\<rparr>"

definition ee_clock :: "nat \<Rightarrow> int" where
  "ee_clock n = 0"

definition ee_events :: "((nat \<Rightarrow> int) \<times> rat \<times> engine_event) list" where
  "ee_events = map (\<lambda>ev. (ee_clock, 0, ev)) [Propose_Event ee_input, Run_Lane ''t'',
     Endpoint_Answer ''t'' (Inl ee_failure), Advance_Claimable, Run_Lane ''t'', Endpoint_Answer ''t'' (Inr ee_response)]"

definition ee_engine :: "nat \<Rightarrow> engine" where
  "ee_engine n = run_engine ee_host ee_config (newEngine newMemoryStore) (take n ee_events)"

lemma ee_record_config [simp]: "wc_upstreamBinding ee_config = None" "wc_proposerDid ee_config = ''did:web:p''"
  "wc_workerId ee_config = ''w''" "wc_claimLeaseMs ee_config = 60000"
  by (simp_all add: ee_config_def)

lemma ee_clock [simp]: "ee_clock n = 0" "later ee_clock = ee_clock"
  by (simp_all add: ee_clock_def later_def fun_eq_iff)

lemma ee_clock_range: "\<forall>(clock, random, ev) \<in> set (take n ee_events). \<forall>k. iso_range (clock k)"
proof -
  have "iso_range 0" by code_simp
  then show ?thesis by (auto simp: ee_events_def dest!: in_set_takeD)
qed

lemma ee_steps: "ee_engine 0 = newEngine newMemoryStore"
  "ee_engine 1 = engine_step ee_host ee_config (ee_engine 0) (ee_clock, 0, Propose_Event ee_input)"
  "ee_engine 2 = engine_step ee_host ee_config (ee_engine 1) (ee_clock, 0, Run_Lane ''t'')"
  "ee_engine 3 = engine_step ee_host ee_config (ee_engine 2) (ee_clock, 0, Endpoint_Answer ''t'' (Inl ee_failure))"
  "ee_engine 4 = engine_step ee_host ee_config (ee_engine 3) (ee_clock, 0, Advance_Claimable)"
  "ee_engine 5 = engine_step ee_host ee_config (ee_engine 4) (ee_clock, 0, Run_Lane ''t'')"
  "ee_engine 6 = engine_step ee_host ee_config (ee_engine 5) (ee_clock, 0, Endpoint_Answer ''t'' (Inr ee_response))"
  by (simp_all add: ee_engine_def ee_events_def run_engine_def)

definition ee_record :: workflow_record where
  "ee_record = \<lparr>w_taskId = ''t'', w_actionId = ''a'', w_actionIdempotencyKey = ''k'', w_actionEnvelopeHash = ''h'',
     w_toolName = ''tool'', w_state = Created, w_actionPackage = ee_package, w_authorizationRequirements = None,
     w_coordinationRef = None, w_completedPackage = None, w_adapterAttempts = [], w_lastActionResponse = None,
     w_expiresAt = iso_of_ms 0, w_createdAt = iso_of_ms 0, w_updatedAt = iso_of_ms 0, w_claimedBy = None, w_claimExpiresAt = None,
     w_resolvedAt = None, w_resolution = None\<rparr>"

lemma ee_record_simps [simp]: "w_taskId ee_record = ''t''" "w_actionId ee_record = ''a''" "w_actionIdempotencyKey ee_record = ''k''"
  "w_state ee_record = Created" "w_actionPackage ee_record = ee_package" "w_adapterAttempts ee_record = []" "w_claimedBy ee_record = None"
  "w_expiresAt ee_record = iso_of_ms 0" "w_resolution ee_record = None"
  by (simp_all add: ee_record_def)

lemma ee_owner [simp]: "proposerDidOfPackage ee_package = Some ''did:web:p''"
  by (simp add: proposerDidOfPackage_def ee_package_def)

definition ee_bound :: jsval where
  "ee_bound = binding_entry 0 Initial_Phase ''k'' ''h''"

definition ee_failed :: jsval where
  "ee_failed = attempt_entry 0 0 0 None Stage_Initial Unreachable (Some ee_failure)"

definition ee_responded :: jsval where
  "ee_responded = attempt_entry 0 0 0 (Some ee_failed) Stage_Initial Responded None"

text \<open>The record with an attempt log, claimed by the worker.\<close>

definition ee_claimed :: "jsval list \<Rightarrow> workflow_record" where
  "ee_claimed attempts = ee_record\<lparr>w_adapterAttempts := attempts, w_claimedBy := Some ''w'', w_claimExpiresAt := Some (iso_of_ms 60000)\<rparr>"

definition ee_store :: "workflow_record \<Rightarrow> int option \<Rightarrow> memory_store" where
  "ee_store r expires = \<lparr>ms_entries = [(''t'', \<lparr>me_record = r, me_claimExpiresMs = expires\<rparr>)], ms_actionTasks = [(''a'', ''t'')]\<rparr>"

lemma ee_store_get [simp]: "getWorkflow (ee_store r x) ''t'' = Some r"
  by (simp add: ee_store_def getWorkflow_def)

lemma ee_engine1: "ee_engine 1 = (newEngine (ee_store ee_record None))\<lparr>en_queued := [(''t'', [Propose_Op])]\<rparr>"
  unfolding ee_steps(1,2)
  by (simp add: newEngine_def newMemoryStore_def propose_def ee_input_def createWorkflowRecord_def Let_def
      dispatchOutbound_def queued_def ee_record_def ee_store_def)

lemma ee_actionRequest: "actionRequestFor ee_record ee_package None = ee_request"
  by (simp add: actionRequestFor_def ee_request_def spread_def)

lemma ee_fingerprint: "computeIdempotencyFingerprint ee_host ee_request = Inr ''h''"
proof -
  have "no_error (requireJsonValue (without_keys [''idempotencyKey'', ''audience''] ee_request) ''$'') = Inr ()" by code_simp
  then show ?thesis
    by (simp add: computeIdempotencyFingerprint_def computeJsonHash_def ee_host_def)
      (subst idempotencyProjection.simps, simp add: ee_request_def requireRecord_def)
qed

lemma ee_claims: "claimWorkflow 0 0 ''t'' ''w'' 60000 (ee_store ee_record None) = (ee_store (ee_claimed []) (Some 60000), True)"
    "claimWorkflow 0 0 ''t'' ''w'' 60000 (ee_store (ee_claimed xs) (Some 60000)) = (ee_store (ee_claimed xs) (Some 60000), True)"
  by (simp_all add: ee_store_def claimWorkflow_def put_record_def ee_claimed_def ee_record_def TERMINAL_WORKFLOW_STATES_def)

lemma ee_saves: "saveAdapterAttempt 0 ''t'' v (ee_store (ee_claimed xs) (Some 60000)) = ee_store (ee_claimed (xs @ [v])) (Some 60000)"
  by (simp add: ee_store_def saveAdapterAttempt_def mutate_def put_record_def ee_claimed_def ee_record_def)

lemma ee_claimed_simps [simp]: "w_taskId (ee_claimed xs) = ''t''" "w_actionIdempotencyKey (ee_claimed xs) = ''k''"
  "w_state (ee_claimed xs) = Created" "w_actionPackage (ee_claimed xs) = ee_package" "w_adapterAttempts (ee_claimed xs) = xs"
  "w_claimedBy (ee_claimed xs) = Some ''w''" "w_expiresAt (ee_claimed xs) = iso_of_ms 0" "w_resolution (ee_claimed xs) = None"
  by (simp_all add: ee_claimed_def)

lemma ee_requested [simp]: "actionRequestFor (ee_claimed xs) ee_package None = ee_request"
  by (simp add: actionRequestFor_def ee_request_def spread_def)

lemma ee_is_binding: "isSubmissionIdempotencyBinding ee_host ee_bound"
proof -
  have "iso_range 0" by code_simp
  from date_parse_iso [OF this] show ?thesis
    by (simp add: isSubmissionIdempotencyBinding_def ee_bound_def binding_entry_def)
qed

lemma ee_bindings: "phase_binding ee_host [] Initial_Phase ''k'' = None"
    "phase_binding ee_host (ee_bound # xs) Initial_Phase ''k'' = Some ee_bound"
  by (simp_all add: phase_binding_def ee_is_binding) (simp add: ee_bound_def binding_entry_def)

lemma ee_attempts: "lastAttempt (ee_claimed [ee_bound]) = None" "lastAttempt (ee_claimed [ee_bound, ee_failed]) = Some ee_failed"
  by (simp_all add: lastAttempt_def ee_bound_def binding_entry_def ATTEMPT_OUTCOMES_def ee_failed_def attempt_entry_def Let_def spread_def)

lemma ee_open: "\<not> parsed_before ee_host (iso_of_ms 0) 0"
proof -
  have "iso_range 0" by code_simp
  from date_parse_iso [OF this] show ?thesis by (simp add: parsed_before_def)
qed

lemma ee_submits: "submissionRequest ee_host ee_config ee_clock (ee_claimed []) ee_package Initial_Phase e =
    (with_store (saveAdapterAttempt 0 ''t'' ee_bound) e, Inr (Some ee_request))"
    "submissionRequest ee_host ee_config ee_clock (ee_claimed (ee_bound # xs)) ee_package Initial_Phase e = (e, Inr (Some ee_request))"
  by (simp_all add: submissionRequest_def ee_fingerprint ee_bindings Let_def)
    (simp_all add: ee_bound_def binding_entry_def)

lemma ee_engine2: "ee_engine 2 = (newEngine (ee_store (ee_claimed [ee_bound]) (Some 60000)))\<lparr>
    en_queued := [(''t'', [])], en_running := [(''t'', Propose_Op, Submitting Initial_Phase)],
    en_calls := [Submit_Call ''t'' Initial_Phase ee_request]\<rparr>"
  unfolding ee_steps(3) ee_engine1
  by (simp add: run_lane_def newEngine_def queued_def resume_def proposeInLane_def mustGet_def holdClaim_def ee_claims
      submitInitial_def ee_submits log_call_def with_store_def ee_saves Let_def TERMINAL_WORKFLOW_STATES_def)

lemma ee_engine3: "ee_engine 3 = (newEngine (ee_store (ee_claimed [ee_bound, ee_failed]) (Some 60000)))\<lparr>
    en_queued := [(''t'', [])], en_results := [(''t'', Inr (Deferred (ee_claimed [ee_bound, ee_failed])))],
    en_calls := [Submit_Call ''t'' Initial_Phase ee_request]\<rparr>"
  unfolding ee_steps(4) ee_engine2
  by (simp add: endpoint_answered_def newEngine_def resume_def initialAnswered_def recordFailure_def isPermanentRemoteFailure_def
      recordAttempt_def ee_attempts deferred_def mustGet_def conclude_def with_store_def ee_saves Let_def)
    (simp add: ee_failure_def ee_failed_def)

lemma ee_recoverable: "listRecoverableWorkflows (ee_store (ee_claimed xs) x) = [ee_claimed xs]"
  by (simp add: listRecoverableWorkflows_def ee_store_def TERMINAL_WORKFLOW_STATES_def)

lemma ee_engine4: "ee_engine 4 = (newEngine (ee_store (ee_claimed [ee_bound, ee_failed]) (Some 60000)))\<lparr>
    en_queued := [(''t'', [Dispatch_Op False])], en_results := [(''t'', Inr (Deferred (ee_claimed [ee_bound, ee_failed])))],
    en_calls := [Submit_Call ''t'' Initial_Phase ee_request]\<rparr>"
  unfolding ee_steps(5) ee_engine3
  by (simp add: advanceClaimable_def newEngine_def own_recoverable_def ee_recoverable dispatchOutbound_def queued_def)

lemma ee_engine5: "ee_engine 5 = (newEngine (ee_store (ee_claimed [ee_bound, ee_failed]) (Some 60000)))\<lparr>
    en_queued := [(''t'', [])], en_running := [(''t'', Dispatch_Op False, Submitting Initial_Phase)],
    en_results := [(''t'', Inr (Deferred (ee_claimed [ee_bound, ee_failed])))],
    en_calls := [Submit_Call ''t'' Initial_Phase ee_request, Submit_Call ''t'' Initial_Phase ee_request]\<rparr>"
  unfolding ee_steps(6) ee_engine4
  by (simp add: run_lane_def newEngine_def queued_def resume_def dispatchClaimable_def ee_open mustGet_def holdClaim_def ee_claims
      submitInitial_def ee_submits log_call_def Let_def TERMINAL_WORKFLOW_STATES_def)

lemma ee_resolves: "resolveWorkflow 0 ''t'' v (ee_store (ee_claimed xs) x) = ee_store (resolved (iso_of_ms 0) v (ee_claimed xs)) x"
  by (simp add: ee_store_def resolveWorkflow_def put_record_def TERMINAL_WORKFLOW_STATES_def)

lemma ee_engine6: "find_record (ee_engine 6) ''t'' =
    Some (resolved (iso_of_ms 0) (Resolution_Resolved ee_response None) (ee_claimed [ee_bound, ee_failed, ee_responded]))"
  unfolding ee_steps(7) ee_engine5
  by (simp add: endpoint_answered_def newEngine_def resume_def initialAnswered_def recordAttempt_def ee_attempts mustGet_def
      conclude_def with_store_def ee_saves Let_def settle_def notify_def ee_resolves ee_response_def ee_responded_def
      TERMINAL_WORKFLOW_STATES_def resolved_def)

end
