(* ===== verification/EngineProperties.thy ===== *)
theory EngineProperties
  imports EngineExample
begin

text \<open>
  The safety of the workflow engine over every interleaving of its lanes, the remote
  answers, cancellations, shutdowns and restarts.

  \<^item> \<open>grows\<close> is what every operation of the engine does to the store: no record goes, the
    attempt log of a record only gets longer, and an outcome is stored only when the action
    endpoint returned it.
  \<^item> \<open>stepped\<close> is what a step does to the engine: the store grows, and at most one remote call
    is added, of a permitted kind. The properties follow by induction over the run.
\<close>

section \<open>Growth of the store\<close>

definition genuine :: "(string \<Rightarrow> jsval \<Rightarrow> bool) \<Rightarrow> string \<Rightarrow> workflow_record \<Rightarrow> bool" where
  "genuine P t r \<longleftrightarrow> (\<forall>v receipt. w_resolution r = Some (Resolution_Resolved v receipt) \<longrightarrow> P t v)"

definition keeps :: "(string \<Rightarrow> jsval \<Rightarrow> bool) \<Rightarrow> string \<Rightarrow> workflow_record \<Rightarrow> workflow_record \<Rightarrow> bool" where
  "keeps P t r r' \<longleftrightarrow> w_taskId r' = w_taskId r \<and> (\<exists>xs. w_adapterAttempts r' = w_adapterAttempts r @ xs) \<and> (genuine P t r \<longrightarrow> genuine P t r')"

definition grows :: "(string \<Rightarrow> jsval \<Rightarrow> bool) \<Rightarrow> memory_store \<Rightarrow> memory_store \<Rightarrow> bool" where
  "grows P s s' \<longleftrightarrow> (\<forall>t. case getWorkflow s t of
       Some r \<Rightarrow> \<exists>r'. getWorkflow s' t = Some r' \<and> keeps P t r r'
     | None \<Rightarrow> \<forall>r'. getWorkflow s' t = Some r' \<longrightarrow> w_taskId r' = t \<and> genuine P t r')"

text \<open>Every record is filed under its task identifier.\<close>

definition filed :: "memory_store \<Rightarrow> bool" where
  "filed s \<longleftrightarrow> (\<forall>t r. getWorkflow s t = Some r \<longrightarrow> w_taskId r = t)"

lemma keeps_refl [simp]: "keeps P t r r"
  by (simp add: keeps_def)

lemma keeps_trans: "keeps P t a b \<Longrightarrow> keeps P t b c \<Longrightarrow> keeps P t a c"
  by (auto simp: keeps_def)

lemma keepsI: "w_taskId r' = w_taskId r \<Longrightarrow> w_resolution r' = w_resolution r \<Longrightarrow> w_adapterAttempts r' = w_adapterAttempts r @ xs \<Longrightarrow> keeps P t r r'"
  by (simp add: keeps_def genuine_def)

lemma keeps_resolved: "(\<And>v receipt. p = Resolution_Resolved v receipt \<Longrightarrow> P t v) \<Longrightarrow> keeps P t r (resolved time p r)"
  by (simp add: keeps_def genuine_def resolved_def)

lemma grows_refl [simp]: "grows P s s"
  by (auto simp: grows_def split: option.splits)

lemma grows_Some: "grows P s s' \<Longrightarrow> getWorkflow s t = Some r \<Longrightarrow> \<exists>r'. getWorkflow s' t = Some r' \<and> keeps P t r r'"
  by (auto simp: grows_def dest!: spec [of _ t])

lemma grows_None: "grows P s s' \<Longrightarrow> getWorkflow s t = None \<Longrightarrow> getWorkflow s' t = Some r' \<Longrightarrow> w_taskId r' = t \<and> genuine P t r'"
  by (auto simp: grows_def dest!: spec [of _ t])

lemma grows_trans:
  assumes ab: "grows P a b" and bc: "grows P b c"
  shows "grows P a c"
  unfolding grows_def
proof
  fix t
  show "case getWorkflow a t of Some r \<Rightarrow> \<exists>r'. getWorkflow c t = Some r' \<and> keeps P t r r'
     | None \<Rightarrow> \<forall>r'. getWorkflow c t = Some r' \<longrightarrow> w_taskId r' = t \<and> genuine P t r'"
  proof (cases "getWorkflow a t")
    case None
    have "w_taskId r' = t \<and> genuine P t r'" if r': "getWorkflow c t = Some r'" for r'
    proof (cases "getWorkflow b t")
      case (Some q)
      obtain r'' where "getWorkflow c t = Some r''" "keeps P t q r''" using grows_Some [OF bc Some] by blast
      with grows_None [OF ab None Some] r' show ?thesis by (simp add: keeps_def)
    qed (rule grows_None [OF bc _ r'])
    with None show ?thesis by simp
  next
    case (Some r)
    then show ?thesis using grows_Some [OF ab Some] grows_Some [OF bc] keeps_trans by fastforce
  qed
qed

lemma filed_grows: "filed s \<Longrightarrow> grows P s s' \<Longrightarrow> filed s'"
  unfolding filed_def
proof (intro allI impI)
  fix t r' assume "\<forall>t r. getWorkflow s t = Some r \<longrightarrow> w_taskId r = t" "grows P s s'" "getWorkflow s' t = Some r'"
  then show "w_taskId r' = t"
    using grows_None [of P s s' t r'] grows_Some [of P s s' t] by (cases "getWorkflow s t") (auto simp: keeps_def)
qed

text \<open>An operation that changes one record at most.\<close>

lemma grows_at:
  assumes "\<And>t'. getWorkflow s' t' = (if t' = t then map_option g (getWorkflow s t) else getWorkflow s t')"
    and "\<And>r. getWorkflow s t = Some r \<Longrightarrow> keeps P t r (g r)"
  shows "grows P s s'"
proof -
  have "case getWorkflow s t' of Some r \<Rightarrow> \<exists>r'. getWorkflow s' t' = Some r' \<and> keeps P t' r r'
     | None \<Rightarrow> \<forall>r'. getWorkflow s' t' = Some r' \<longrightarrow> w_taskId r' = t' \<and> genuine P t' r'" for t'
    by (cases "t' = t"; cases "getWorkflow s t") (simp_all add: assms split: option.splits)
  then show ?thesis by (simp add: grows_def)
qed

lemma grows_mutate: "(\<And>r. keeps P t r (f r)) \<Longrightarrow> grows P s (mutate now t f s)"
  by (rule grows_at [OF getWorkflow_mutate]) (simp add: keeps_def genuine_def)

lemma grows_saves:
  "grows P s (saveCoordinationReference now t v s)" "grows P s (saveCompletedPackage now t v s)"
  "grows P s (saveLastActionResponse now t v s)" "grows P s (saveAdapterAttempt now t v s)"
  unfolding saveCoordinationReference_def saveCompletedPackage_def saveLastActionResponse_def saveAdapterAttempt_def
  by (simp_all add: grows_mutate keepsI)

lemma grows_claim: "grows P s (fst (claimWorkflow now now' t w l s))"
proof (cases "snd (claimWorkflow now now' t w l s)")
  case True
  show ?thesis
    by (rule grows_at [where t = t]) (use True in \<open>auto simp: getWorkflow_claim intro: keepsI [where xs = "[]"]\<close>)
qed (simp add: memory_contract.claim_fails)

lemma grows_cas: "grows P s (fst (compareAndSetState now t a b s))"
proof (cases "snd (compareAndSetState now t a b s)")
  case True
  show ?thesis by (rule grows_at [OF memory_contract.cas_get [OF True]]) (simp add: keepsI)
qed (simp add: memory_contract.cas_fails)

lemma grows_resolve:
  "(\<And>v receipt. p = Resolution_Resolved v receipt \<Longrightarrow> P t v) \<Longrightarrow> grows P s (resolveWorkflow now t p s)"
  by (rule grows_at [OF memory_contract.resolve_get]) (simp add: keeps_resolved)

lemma grows_cancel: "grows P s (fst (cancelWorkflow now t s))"
  by (rule grows_at [OF memory_contract.cancel_get]) (auto intro: keeps_resolved)

lemma grows_replace: "grows P s (fst (replaceAction now t input s))"
proof (cases "map_get (ms_entries s) t")
  case (Some entry)
  then show ?thesis
    by (auto simp: replaceAction_def Let_def grows_def get_entry keeps_def genuine_def split: option.splits)
qed (simp add: replaceAction_def)

lemma grows_create: "grows P s (fst (createWorkflowRecord now input s))"
  by (auto simp: grows_def createWorkflowRecord_def getWorkflow_def Let_def genuine_def split: option.splits)

section \<open>What a step does\<close>

text \<open>A response of the action endpoint that is an outcome of the Action.\<close>

definition outcome_returned :: "(string \<times> submission_phase \<times> jsval) list \<Rightarrow> string \<Rightarrow> jsval \<Rightarrow> bool" where
  "outcome_returned returned t v \<longleftrightarrow> (\<exists>phase. (t, phase, v) \<in> set returned \<and>
     js_get v ''result'' \<noteq> Str ''pending'' \<and> js_get v ''result'' \<noteq> Str ''additionalApprovalsRequired'' \<and>
     (phase = Completed_Phase \<longrightarrow> \<not> is_replay v))"

definition valid_key :: "jsval \<Rightarrow> bool" where
  "valid_key request \<longleftrightarrow> (\<exists>k. js_get request ''idempotencyKey'' = Str k \<and> 0 < length k \<and> length k \<le> 128)"

text \<open>The first binding of the request's key in its phase is to the fingerprint of the request.\<close>

definition bound_to :: "('a) host_scheme \<Rightarrow> memory_store \<Rightarrow> string \<Rightarrow> submission_phase \<Rightarrow> jsval \<Rightarrow> bool" where
  "bound_to H s t phase request \<longleftrightarrow> (\<exists>r k v f. getWorkflow s t = Some r \<and> js_get request ''idempotencyKey'' = Str k \<and>
     phase_binding H (w_adapterAttempts r) phase k = Some v \<and> computeIdempotencyFingerprint H request = Inr f \<and>
     js_get v ''requestFingerprint'' = Str f)"

definition ready_for_call :: "engine_config \<Rightarrow> (nat \<Rightarrow> int) \<Rightarrow> engine \<Rightarrow> string \<Rightarrow> bool" where
  "ready_for_call config clock e t \<longleftrightarrow> \<not> en_stopped e \<and>
     (\<exists>n. memory_lease (en_store e) t = Some (wc_workerId config, clock n + wc_claimLeaseMs config)) \<and>
     (\<exists>r. find_record e t = Some r \<and> \<not> terminal (w_state r))"

fun call_ok :: "('a) host_scheme \<Rightarrow> engine_config \<Rightarrow> (nat \<Rightarrow> int) \<Rightarrow> engine \<Rightarrow> remote_call \<Rightarrow> bool" where
  "call_ok H config clock e (Submit_Call t phase request) \<longleftrightarrow> ready_for_call config clock e t \<and>
     ((\<forall>x. sha256 H x \<noteq> []) \<and> (\<forall>n. iso_range (clock n)) \<and> valid_key request \<longrightarrow> bound_to H (en_store e) t phase request)"
| "call_ok H config clock e (Create_Call t pkg requirements) \<longleftrightarrow> ready_for_call config clock e t"
| "call_ok H config clock e (Cancel_Call actionId) \<longleftrightarrow> True"
| "call_ok H config clock e Poll_Call \<longleftrightarrow> \<not> en_stopped e"

definition stepped :: "('a) host_scheme \<Rightarrow> engine_config \<Rightarrow> (nat \<Rightarrow> int) \<Rightarrow> engine \<Rightarrow> engine \<Rightarrow> bool" where
  "stepped H config clock e e' \<longleftrightarrow> grows (outcome_returned (en_returned e)) (en_store e) (en_store e') \<and>
     en_returned e' = en_returned e \<and> en_stopped e' = en_stopped e \<and>
     (en_calls e' = en_calls e \<or> (\<exists>call. en_calls e' = en_calls e @ [call] \<and> call_ok H config clock e' call))"

text \<open>A step without a call.\<close>

definition quiet :: "engine \<Rightarrow> engine \<Rightarrow> bool" where
  "quiet e e' \<longleftrightarrow> grows (outcome_returned (en_returned e)) (en_store e) (en_store e') \<and>
     en_returned e' = en_returned e \<and> en_stopped e' = en_stopped e \<and> en_calls e' = en_calls e"

lemma quiet_refl [simp]: "quiet e e"
  by (simp add: quiet_def)

lemma quiet_trans: "quiet a b \<Longrightarrow> quiet b c \<Longrightarrow> quiet a c"
  unfolding quiet_def by (auto intro: grows_trans)

lemma quiet_stepped: "quiet a b \<Longrightarrow> stepped H config clock b c \<Longrightarrow> stepped H config clock a c"
  unfolding quiet_def stepped_def by (auto intro: grows_trans)

lemma stepped_quiet [intro]: "quiet e e' \<Longrightarrow> stepped H config clock e e'"
  by (simp add: quiet_def stepped_def)

lemma stepped_call:
  "quiet e e' \<Longrightarrow> call_ok H config clock e' call \<Longrightarrow> stepped H config clock e (log_call call e')"
  by (cases call) (auto simp: quiet_def stepped_def log_call_def ready_for_call_def)

text \<open>The lanes, the waiters and the polls are no part of the relation.\<close>

definition same_core :: "engine \<Rightarrow> engine \<Rightarrow> bool" where
  "same_core e e' \<longleftrightarrow> en_store e' = en_store e \<and> en_returned e' = en_returned e \<and> en_stopped e' = en_stopped e \<and> en_calls e' = en_calls e"

lemma same_core_quiet: "same_core e e' \<Longrightarrow> quiet e e'"
  by (simp add: same_core_def quiet_def)

lemma same_core_trans: "same_core a b \<Longrightarrow> same_core b c \<Longrightarrow> same_core a c"
  by (simp add: same_core_def)

lemma stepped_core:
  assumes "stepped H config clock e a" "same_core a b"
  shows "stepped H config clock e b"
proof -
  have "call_ok H config clock b call = call_ok H config clock a call" for call
    using assms(2) by (cases call) (simp_all add: same_core_def ready_for_call_def)
  with assms show ?thesis by (simp add: stepped_def same_core_def)
qed

lemma same_core_notify [simp]: "same_core e (notify r e)" "same_core e (notify_task t e)"
  by (auto simp: notify_task_def notify_def same_core_def split: option.splits)

lemma same_core_conclude: "same_core e (conclude t op result e)"
  by (auto simp: conclude_def same_core_def split: lane_op.splits sum.splits lane_result.splits)

lemma same_core_resume: "same_core (fst x) (resume t op x)"
proof -
  have "same_core e (conclude t op result (e\<lparr>en_running := m\<rparr>))" for e result m
    using same_core_conclude [of "e\<lparr>en_running := m\<rparr>"] by (simp add: same_core_def)
  then show ?thesis by (auto simp: resume_def same_core_def split: prod.splits lane_outcome.splits)
qed

lemma same_core_outbound [simp]: "same_core e (dispatchOutbound t op e)"
  by (simp add: same_core_def dispatchOutbound_def)

lemma same_core_fold: "(\<And>x e. same_core e (f x e)) \<Longrightarrow> same_core e (fold f xs e)"
proof (induction xs arbitrary: e)
  case (Cons x xs)
  have "same_core (f x e) (fold f xs (f x e))" by (rule Cons.IH) (rule Cons.prems)
  with Cons.prems [of e x] show ?case using same_core_trans by simp
qed (simp add: same_core_def)

section \<open>Shared steps\<close>

text \<open>One rule for each way a function continues from a quiet prefix.\<close>

lemma quiet_store: "quiet e e' \<Longrightarrow> grows (outcome_returned (en_returned e)) (en_store e') s \<Longrightarrow> quiet e (e'\<lparr>en_store := s\<rparr>)"
  unfolding quiet_def by (auto intro: grows_trans)

lemma quiet_with_store: "quiet e e' \<Longrightarrow> (\<And>s. grows (outcome_returned (en_returned e)) s (f s)) \<Longrightarrow> quiet e (with_store f e')"
  unfolding with_store_def by (rule quiet_store)

lemma quiet_notify: "quiet e e' \<Longrightarrow> quiet e (notify r e')" "quiet e e' \<Longrightarrow> quiet e (notify_task t e')"
  by (erule quiet_trans, rule same_core_quiet, rule same_core_notify)+

lemma quiet_saves:
  "quiet e e' \<Longrightarrow> quiet e (with_store (saveCoordinationReference now t v) e')"
  "quiet e e' \<Longrightarrow> quiet e (with_store (saveLastActionResponse now t v) e')"
  "quiet e e' \<Longrightarrow> quiet e (with_store (saveAdapterAttempt now t v) e')"
  "quiet e e' \<Longrightarrow> quiet e (with_store (\<lambda>s. fst (compareAndSetState now t a b s)) e')"
  by (erule quiet_with_store; rule grows_saves grows_cas)+

lemma quiet_resolveUnresolvable: "quiet e e' \<Longrightarrow> quiet e (resolveUnresolvable now t code message e')"
  unfolding resolveUnresolvable_def by (intro quiet_notify quiet_with_store grows_resolve) simp_all

lemma quiet_recordAttempt: "quiet e e' \<Longrightarrow> quiet e (recordAttempt clock random t stage outcome error e')"
  unfolding recordAttempt_def Let_def by (intro quiet_saves)

lemma quiet_recordFailure: "quiet e e' \<Longrightarrow> quiet e (recordFailure clock random t stage error code e')"
  unfolding recordFailure_def by (simp add: quiet_resolveUnresolvable quiet_recordAttempt)

lemma quiet_settle:
  "quiet e e' \<Longrightarrow> outcome_returned (en_returned e) t response \<Longrightarrow> quiet e (fst (settle now t response e'))"
  unfolding settle_def Let_def mustGet_def
  by (auto split: option.splits intro!: quiet_notify quiet_with_store grows_resolve)

lemmas quiet_intros = quiet_saves quiet_resolveUnresolvable quiet_recordAttempt quiet_recordFailure quiet_notify

lemma holdClaim_quiet: "holdClaim config clock t e = (e', held) \<Longrightarrow> quiet e e'"
  using grows_claim [of "outcome_returned (en_returned e)" "en_store e" "clock 0" "clock 1" t "wc_workerId config" "wc_claimLeaseMs config"]
  by (auto simp: holdClaim_def split: prod.splits intro!: quiet_store)

lemma expire_claimed_quiet: "quiet e (expire_claimed config clock t e)"
  by (auto simp: expire_claimed_def split: prod.splits intro: quiet_intros dest: holdClaim_quiet)

lemma fst_mustGet [simp]: "fst (mustGet e t f) = (case find_record e t of None \<Rightarrow> e | Some r \<Rightarrow> fst (f r))"
  by (simp add: mustGet_def split: option.splits)

lemma fst_deferred [simp]: "fst (deferred t e) = e" "fst (result_now t e) = e"
  by (simp_all add: deferred_def result_now_def split: option.splits)

section \<open>Claims and calls\<close>

text \<open>A successful claim: the lease, and the record, which only changes its claim.\<close>

lemma holdClaim_held:
  assumes "holdClaim config clock t e = (e', True)"
  shows "memory_lease (en_store e') t = Some (wc_workerId config, clock 0 + wc_claimLeaseMs config)"
    and "en_stopped e' = en_stopped e"
    and "\<exists>r r'. find_record e t = Some r \<and> find_record e' t = Some r' \<and> \<not> terminal (w_state r') \<and>
      w_adapterAttempts r' = w_adapterAttempts r \<and> w_actionIdempotencyKey r' = w_actionIdempotencyKey r \<and> w_state r' = w_state r"
proof -
  let ?c = "claimWorkflow (clock 0) (clock 1) t (wc_workerId config) (wc_claimLeaseMs config) (en_store e)"
  have held: "snd ?c" and e': "e' = e\<lparr>en_store := fst ?c\<rparr>" using assms by (auto simp: holdClaim_def split: prod.splits)
  show "memory_lease (en_store e') t = Some (wc_workerId config, clock 0 + wc_claimLeaseMs config)"
    using memory_contract.claim_lease [OF held] by (simp add: e')
  show "en_stopped e' = en_stopped e" by (simp add: e')
  obtain r where "find_record e t = Some r" "\<not> terminal (w_state r)" using held by (auto simp: memory_contract.claim_iff)
  then show "\<exists>r r'. find_record e t = Some r \<and> find_record e' t = Some r' \<and> \<not> terminal (w_state r') \<and>
      w_adapterAttempts r' = w_adapterAttempts r \<and> w_actionIdempotencyKey r' = w_actionIdempotencyKey r \<and> w_state r' = w_state r"
    using held by (simp add: e' getWorkflow_claim)
qed

lemma holdClaim_ready: "holdClaim config clock t e = (e', True) \<Longrightarrow> \<not> en_stopped e \<Longrightarrow> ready_for_call config clock e' t"
  using holdClaim_held [of config clock t e e'] unfolding ready_for_call_def by metis

lemma ready_later: "ready_for_call config (later clock) e t \<Longrightarrow> ready_for_call config clock e t"
  by (auto simp: ready_for_call_def later_def)

lemma call_ok_later: "call_ok H config (later clock) e call \<Longrightarrow> call_ok H config clock e call"
  by (cases call) (auto simp: later_def intro: ready_later)

lemma stepped_later: "stepped H config (later clock) e e' \<Longrightarrow> stepped H config clock e e'"
  by (auto simp: stepped_def intro: call_ok_later)

lemma submitToCoordination_stepped: "stepped H config clock e (fst (submitToCoordination config clock r e))"
proof -
  have "stepped H config clock e (log_call (Create_Call (w_taskId r) pkg requirements) e')"
    if "holdClaim config clock (w_taskId r) e = (e', True)" "\<not> en_stopped e" for e' pkg requirements
    using that by (intro stepped_call holdClaim_quiet) (simp_all add: holdClaim_ready)
  then show ?thesis
    by (auto simp: submitToCoordination_def split: prod.splits dest: holdClaim_quiet)
qed

section \<open>The binding of a key\<close>

lemma find_append: "List.find p (xs @ ys) = (case List.find p xs of Some v \<Rightarrow> Some v | None \<Rightarrow> List.find p ys)"
  by (induction xs) simp_all

lemma phase_binding_append: "phase_binding H (xs @ ys) phase k =
    (case phase_binding H xs phase k of Some v \<Rightarrow> Some v | None \<Rightarrow> phase_binding H ys phase k)"
  by (simp add: phase_binding_def find_append split: option.splits)

lemma bound_to_grows: "bound_to H s t phase request \<Longrightarrow> grows P s s' \<Longrightarrow> bound_to H s' t phase request"
  unfolding bound_to_def by (auto dest!: grows_Some simp: keeps_def phase_binding_append)

lemma fingerprint_nonempty:
  "computeIdempotencyFingerprint H request = Inr f \<Longrightarrow> (\<And>x. sha256 H x \<noteq> []) \<Longrightarrow> f \<noteq> []"
  by (auto simp: computeIdempotencyFingerprint_def computeJsonHash_def)

lemma binding_entry_valid:
  assumes "iso_range now" "0 < length k" "length k \<le> 128" "f \<noteq> []"
  shows "phase_binding H [binding_entry now phase k f] phase k = Some (binding_entry now phase k f)"
proof -
  have "date_parse (legacy_date H) (iso_of_ms now) \<noteq> None" using assms(1) by (simp add: date_parse_iso)
  then have "isSubmissionIdempotencyBinding H (binding_entry now phase k f)"
    using assms(2-4) by (cases phase) (simp_all add: isSubmissionIdempotencyBinding_def binding_entry_def)
  then show ?thesis by (simp add: phase_binding_def) (simp add: binding_entry_def)
qed

lemma submissionRequest_sent:
  assumes sent: "submissionRequest H config clock r pkg phase e = (e', Inr (Some request))"
    and ready: "ready_for_call config clock e (w_taskId r)"
    and same: "find_record e (w_taskId r) = Some r0" "w_adapterAttempts r0 = w_adapterAttempts r"
  shows "quiet e e' \<and> call_ok H config clock e' (Submit_Call (w_taskId r) phase request)"
proof -
  let ?k = "w_actionIdempotencyKey r" and ?request = "actionRequestFor r pkg (wc_upstreamBinding config)"
  obtain f where f: "computeIdempotencyFingerprint H ?request = Inr f"
    using sent by (auto simp: submissionRequest_def Let_def split: sum.splits)
  have k: "js_get ?request ''idempotencyKey'' = Str ?k" by (simp add: actionRequestFor_def)
  show ?thesis
  proof (cases "phase_binding H (w_adapterAttempts r) phase ?k")
    case (Some v)
    with sent f have "e' = e" "request = ?request" "js_get v ''requestFingerprint'' = Str f"
      by (auto simp: submissionRequest_def Let_def split: if_splits)
    with ready same Some f k show ?thesis by (auto simp: bound_to_def)
  next
    case None
    let ?b = "binding_entry (clock 4) phase ?k f"
    from None sent f have e': "e' = with_store (saveAdapterAttempt (clock 5) (w_taskId r) ?b) e" "request = ?request"
      by (auto simp: submissionRequest_def Let_def)
    have "ready_for_call config clock e' (w_taskId r)"
      using ready by (auto simp: ready_for_call_def e' with_store_def saveAdapterAttempt_def memory_lease_mutate)
    moreover have "bound_to H (en_store e') (w_taskId r) phase request"
      if "\<forall>x. sha256 H x \<noteq> []" "\<forall>n. iso_range (clock n)" "valid_key request"
    proof -
      have "phase_binding H [?b] phase ?k = Some ?b"
        using that k e'(2) fingerprint_nonempty [OF f] by (intro binding_entry_valid) (auto simp: valid_key_def)
      with same None f k show ?thesis
        by (auto simp: bound_to_def e' with_store_def saveAdapterAttempt_def phase_binding_append) (simp add: binding_entry_def)
    qed
    moreover have "quiet e e'" unfolding e' by (intro quiet_intros) simp
    ultimately show ?thesis by simp
  qed
qed

lemma submissionRequest_quiet: "submissionRequest H config clock r pkg phase e = (e', x) \<Longrightarrow> quiet e e'"
  by (auto simp: submissionRequest_def Let_def split: sum.splits option.splits if_splits intro!: quiet_intros)

section \<open>The operations of a lane\<close>

lemma compareAndSetState_get: "getWorkflow (fst (compareAndSetState now t a b s)) t' =
    (if t' = t \<and> snd (compareAndSetState now t a b s)
     then map_option (\<lambda>r. r\<lparr>w_state := b, w_updatedAt := iso_of_ms now\<rparr>) (getWorkflow s t) else getWorkflow s t')"
  using memory_contract.cas_get [of now t a b s t'] memory_contract.cas_fails [of now t a b s]
  by (cases "snd (compareAndSetState now t a b s)") auto

lemma memory_lease_cas: "memory_lease (fst (compareAndSetState now t a b s)) t' = memory_lease s t'"
  by (auto simp: compareAndSetState_def memory_lease_put memory_lease_entry split: option.splits)

text \<open>A submission under a claim that was just taken.\<close>

lemma claimed_submission:
  assumes hc: "holdClaim config clock t e = (e1, True)" and running: "\<not> en_stopped e"
    and r0: "find_record e t = Some r0" and quiet: "quiet e e2"
    and r: "w_taskId r = t" "w_adapterAttempts r = w_adapterAttempts r0"
    and e2: "memory_lease (en_store e2) t = memory_lease (en_store e1) t"
      "\<exists>r2. find_record e2 t = Some r2 \<and> w_adapterAttempts r2 = w_adapterAttempts r0 \<and> \<not> terminal (w_state r2)"
    and sent: "submissionRequest H config clock r pkg phase e2 = (e3, Inr (Some request))"
  shows "stepped H config clock e (log_call (Submit_Call t phase request) e3)"
proof -
  obtain r2 where r2: "find_record e2 t = Some r2" "w_adapterAttempts r2 = w_adapterAttempts r0" "\<not> terminal (w_state r2)"
    using e2(2) by blast
  have "\<not> en_stopped e2" using running quiet by (simp add: quiet_def)
  then have "ready_for_call config clock e2 t"
    using holdClaim_held(1) [OF hc] e2(1) r2 by (auto simp: ready_for_call_def)
  from submissionRequest_sent [OF sent, of r2] this r r2 have "quiet e2 e3" "call_ok H config clock e3 (Submit_Call t phase request)"
    by simp_all
  with quiet_trans [OF quiet] show ?thesis by (intro stepped_call)
qed

lemma submitInitial_stepped:
  assumes filed: "filed (en_store e)"
  shows "stepped H config clock e (fst (submitInitial H config clock random r e))"
proof (cases "find_record e (w_taskId r)")
  case None
  then show ?thesis by (auto simp: submitInitial_def)
next
  case (Some current)
  have t: "w_taskId current = w_taskId r" using filed Some by (simp add: filed_def)
  obtain e1 held where hc: "holdClaim config clock (w_taskId r) e = (e1, held)" by (cases "holdClaim config clock (w_taskId r) e")
  obtain e2 x where sr: "submissionRequest H config clock current (w_actionPackage current) Initial_Phase e1 = (e2, x)"
    by (cases "submissionRequest H config clock current (w_actionPackage current) Initial_Phase e1")
  have q: "quiet e e1" "quiet e e2" using holdClaim_quiet [OF hc] submissionRequest_quiet [OF sr] quiet_trans by blast+
  have "stepped H config clock e (log_call (Submit_Call (w_taskId r) Initial_Phase request) e2)"
    if "held" "\<not> en_stopped e" "x = Inr (Some request)" for request
  proof (rule claimed_submission [OF _ that(2) Some q(1) t refl refl])
    show "holdClaim config clock (w_taskId r) e = (e1, True)" using hc that by simp
    from holdClaim_held(3) [OF this] Some show "\<exists>r2. find_record e1 (w_taskId r) = Some r2 \<and>
        w_adapterAttempts r2 = w_adapterAttempts current \<and> \<not> terminal (w_state r2)" by auto
    show "submissionRequest H config clock current (w_actionPackage current) Initial_Phase e1 = (e2, Inr (Some request))"
      using sr that by simp
  qed
  moreover have "stepped H config clock e (recordFailure clock random (w_taskId r) Stage_Initial error code e2)" for error code
    using q(2) by (intro stepped_quiet quiet_intros)
  ultimately show ?thesis using q Some hc sr
    by (auto simp: submitInitial_def Let_def split: sum.splits option.splits)
qed

lemma submitCompleted_stepped:
  assumes filed: "filed (en_store e)"
  shows "stepped H config clock e (fst (submitCompleted H config clock random r e))"
proof (cases "find_record e (w_taskId r)")
  case None
  then show ?thesis by (auto simp: submitCompleted_def)
next
  case (Some current)
  obtain e1 held where hc: "holdClaim config clock (w_taskId r) e = (e1, held)" by (cases "holdClaim config clock (w_taskId r) e")
  note q1 = holdClaim_quiet [OF hc]
  define cas where "cas = (if w_state current = Ready_W
    then compareAndSetState (clock 7) (w_taskId r) Ready_W Submitting_To_Verifier (en_store e1) else (en_store e1, True))"
  let ?e2 = "e1\<lparr>en_store := fst cas\<rparr>"
  have q2: "quiet e ?e2" by (rule quiet_store [OF q1]) (simp add: cas_def grows_cas)
  have sending: "stepped H config clock e (log_call (Submit_Call (w_taskId r) Completed_Phase request) e3)"
    if held: "held" and running: "\<not> en_stopped e" and r': "find_record ?e2 (w_taskId r) = Some r'"
      and sent: "submissionRequest H config clock r' pkg Completed_Phase ?e2 = (e3, Inr (Some request))" for request r' pkg e3
  proof -
    have hc': "holdClaim config clock (w_taskId r) e = (e1, True)" using hc held by simp
    obtain r1 where r1: "find_record e1 (w_taskId r) = Some r1" "w_adapterAttempts r1 = w_adapterAttempts current" "\<not> terminal (w_state r1)"
      using holdClaim_held(3) [OF hc'] Some by auto
    have same: "memory_lease (en_store ?e2) (w_taskId r) = memory_lease (en_store e1) (w_taskId r)"
      "w_adapterAttempts r' = w_adapterAttempts current" "\<not> terminal (w_state r')"
      using r' r1 by (auto simp: cas_def memory_lease_cas TERMINAL_WORKFLOW_STATES_def compareAndSetState_get split: if_splits)
    have "w_taskId r' = w_taskId r"
      using filed_grows [OF filed] q2 r' by (auto simp: quiet_def filed_def)
    from claimed_submission [OF hc' running Some q2 this same(2,1) _ sent] r' same show ?thesis by simp
  qed
  have failing: "stepped H config clock e (completedFailed clock random (w_taskId r) error e3)"
    if "submissionRequest H config clock r' pkg Completed_Phase ?e2 = (e3, x)" for r' pkg e3 x error
    unfolding completedFailed_def using quiet_trans [OF q2 submissionRequest_quiet [OF that]] by (intro stepped_quiet quiet_intros)
  have q3: "stepped H config clock e e3"
    if "submissionRequest H config clock r' pkg Completed_Phase ?e2 = (e3, x)" for r' pkg e3 x
    using quiet_trans [OF q2 submissionRequest_quiet [OF that]] by (rule stepped_quiet)
  have unresolvable: "stepped H config clock e (resolveUnresolvable now (w_taskId r) code message e1)" for now code message
    using q1 by (intro stepped_quiet quiet_intros)
  let ?pkg = "case w_completedPackage current of Some p \<Rightarrow> p | None \<Rightarrow> w_actionPackage current"
  show ?thesis
  proof (cases "proposerDidOf current \<noteq> Some (wc_proposerDid config) \<or> terminal (w_state current) \<or> en_stopped e \<or> \<not> held \<or>
      proposerDidOfPackage ?pkg \<noteq> Some (wc_proposerDid config)")
    case True
    then show ?thesis using q1 unresolvable by (auto simp: submitCompleted_def Let_def Some hc)
  next
    case False
    obtain s moved where cas: "cas = (s, moved)" by (cases cas)
    define e3 where "e3 r' = fst (submissionRequest H config clock r' ?pkg Completed_Phase ?e2)" for r'
    define x where "x r' = snd (submissionRequest H config clock r' ?pkg Completed_Phase ?e2)" for r'
    have sr: "submissionRequest H config clock r' ?pkg Completed_Phase ?e2 = (e3 r', x r')" for r'
      by (simp add: e3_def x_def)
    have sends: "stepped H config clock e (log_call (Submit_Call (w_taskId r) Completed_Phase request) (e3 r'))"
      if "find_record ?e2 (w_taskId r) = Some r'" "x r' = Inr (Some request)" for r' request
      using that False sr [of r'] by (intro sending [of r' ?pkg "e3 r'" request]) simp_all
    have "fst (submitCompleted H config clock random r e) = (if \<not> moved then ?e2 else
        (case find_record ?e2 (w_taskId r) of None \<Rightarrow> ?e2 | Some r' \<Rightarrow> (case x r' of
           Inl error \<Rightarrow> completedFailed clock random (w_taskId r) error (e3 r')
         | Inr None \<Rightarrow> e3 r'
         | Inr (Some request) \<Rightarrow> log_call (Submit_Call (w_taskId r) Completed_Phase request) (e3 r'))))"
      using False sr
      by (cases moved) (simp_all add: submitCompleted_def Let_def Some hc cas_def [symmetric] cas split: option.splits sum.splits)
    with stepped_quiet [OF q2, of H config clock] q3 [OF sr] failing [OF sr] sends show ?thesis
      by (simp split: option.splits sum.splits)
  qed
qed

lemma requestReplacement_quiet: "quiet e e' \<Longrightarrow> quiet e (fst (requestReplacement clock r fromState response e'))"
  by (auto simp: requestReplacement_def Let_def intro: quiet_intros)

lemma initialAnswered_quiet:
  assumes "\<And>response. reply = Inr response \<Longrightarrow> (t, Initial_Phase, response) \<in> set (en_returned e)"
  shows "quiet e (fst (initialAnswered clock random t reply e))"
proof (cases reply)
  case (Inl error)
  then show ?thesis by (auto simp: initialAnswered_def intro: quiet_intros)
next
  case (Inr response)
  have "outcome_returned (en_returned e) t response"
    if "js_get response ''result'' \<noteq> Str ''pending''" "js_get response ''result'' \<noteq> Str ''additionalApprovalsRequired''"
    using assms [OF Inr] that unfolding outcome_returned_def by blast
  then show ?thesis
    by (auto simp: initialAnswered_def Inr Let_def split: option.splits intro!: quiet_intros quiet_settle requestReplacement_quiet)
qed

lemma completedFailed_quiet: "quiet e e' \<Longrightarrow> quiet e (completedFailed clock random t error e')"
  unfolding completedFailed_def by (intro quiet_intros)

lemma completedAnswered_quiet:
  assumes "\<And>response. reply = Inr response \<Longrightarrow> (t, Completed_Phase, response) \<in> set (en_returned e)"
  shows "quiet e (fst (completedAnswered clock random t reply e))"
proof (cases reply)
  case (Inl error)
  then show ?thesis by (auto simp: completedAnswered_def intro: completedFailed_quiet)
next
  case (Inr response)
  have "outcome_returned (en_returned e) t response"
    if "js_get response ''result'' \<noteq> Str ''pending''" "js_get response ''result'' \<noteq> Str ''additionalApprovalsRequired''" "\<not> is_replay response"
    using assms [OF Inr] that unfolding outcome_returned_def by blast
  then show ?thesis
    by (auto simp: completedAnswered_def Inr Let_def split: option.splits intro!: quiet_intros quiet_settle requestReplacement_quiet)
qed

lemma replacementBuilt_stepped:
  "stepped H config clock e (fst (replacementBuilt H config clock r fromState requirements reply uuid e))"
proof (cases "and_then reply (\<lambda>replacement. and_then (check_replacement H r requirements replacement) (\<lambda>_.
        case replaceAction (clock 6) (w_taskId r) (replacement_input H fromState uuid replacement) (en_store e) of
          (s, Inl message) \<Rightarrow> Inl message | (s, Inr replaced) \<Rightarrow> Inr s))")
  case (Inl message)
  then show ?thesis
    by (auto simp: replacementBuilt_def split: option.splits intro!: stepped_quiet quiet_intros)
next
  case (Inr s)
  then have "\<exists>input. s = fst (replaceAction (clock 6) (w_taskId r) input (en_store e))"
  proof -
    obtain replacement where "(case replaceAction (clock 6) (w_taskId r) (replacement_input H fromState uuid replacement) (en_store e) of
        (s, Inl message) \<Rightarrow> Inl message | (s, Inr replaced) \<Rightarrow> Inr s) = Inr s"
      using Inr by auto
    then have "s = fst (replaceAction (clock 6) (w_taskId r) (replacement_input H fromState uuid replacement) (en_store e))"
      by (simp split: prod.splits sum.splits)
    then show ?thesis by blast
  qed
  then have q: "quiet e (e\<lparr>en_store := s\<rparr>)" by (auto intro: quiet_store grows_replace)
  from quiet_stepped [OF q submitToCoordination_stepped [of H config clock]] stepped_quiet [OF q, of H config clock] show ?thesis
    by (simp add: replacementBuilt_def Inr split: option.splits)
qed

lemma creationAnswered_stepped: "stepped H config clock e (fst (creationAnswered clock random r reply e))"
  by (auto simp: creationAnswered_def Let_def split: sum.splits option.splits prod.splits
      intro!: stepped_call quiet_intros stepped_quiet [OF quiet_saves(4)] stepped_quiet [OF quiet_resolveUnresolvable] stepped_quiet [OF quiet_recordFailure]
        stepped_quiet [OF quiet_saves(1)])

lemma ready_quiet:
  "compareAndSetState now t a b (saveCompletedPackage now' t pkg (en_store e)) = (s, ready) \<Longrightarrow> quiet e (e\<lparr>en_store := s\<rparr>)"
  using grows_trans [OF grows_saves(2) [of _ "en_store e" now' t pkg] grows_cas [of "outcome_returned (en_returned e)" _ now t a b]]
  by (intro quiet_store) simp_all

lemma cancel_quiet: "cancelWorkflow now t (en_store e) = (s, cancelled) \<Longrightarrow> quiet e (e\<lparr>en_store := s\<rparr>)"
  using grows_cancel [of "outcome_returned (en_returned e)" "en_store e" now t] by (intro quiet_store) simp_all

lemma applyUpdate_quiet: "quiet e (fst (applyUpdate config clock update t e))"
  by (auto simp: applyUpdate_def Let_def split: option.splits prod.splits intro!: quiet_intros dest: ready_quiet cancel_quiet)

lemma sweepOne_quiet: "quiet e (fst (sweepOne H config clock t e))"
  by (auto simp: sweepOne_def split: option.splits intro: expire_claimed_quiet)

lemma dispatchClaimable_stepped:
  assumes filed: "filed (en_store e)"
  shows "stepped H config clock e (fst (dispatchClaimable H config clock random respectSchedule t e))"
proof -
  obtain e1 held where hc: "holdClaim config clock t e = (e1, held)" by (cases "holdClaim config clock t e")
  note q1 = holdClaim_quiet [OF hc]
  have "filed (en_store e1)" using filed q1 by (auto simp: quiet_def intro: filed_grows)
  then have initial: "stepped H config clock e (fst (submitInitial H config (later clock) random r e1))"
    and completed: "stepped H config clock e (fst (submitCompleted H config (later clock) random r e1))" for r
    by - (rule quiet_stepped [OF q1 stepped_later], erule submitInitial_stepped submitCompleted_stepped)+
  have coordination: "stepped H config clock e (fst (submitToCoordination config (later clock) r e1))" for r
    by (rule quiet_stepped [OF q1 stepped_later [OF submitToCoordination_stepped]])
  note initial completed coordination
  moreover have "stepped H config clock e e1" "stepped H config clock e (expire_claimed config clock t e)" "stepped H config clock e e"
    using q1 expire_claimed_quiet by (intro stepped_quiet; simp)+
  ultimately show ?thesis
    by (simp add: dispatchClaimable_def hc split: option.splits workflow_state.splits)
qed

lemma proposeInLane_stepped:
  assumes filed: "filed (en_store e)"
  shows "stepped H config clock e (fst (proposeInLane H config clock random t e))"
proof -
  obtain e1 held where hc: "holdClaim config clock t e = (e1, held)" by (cases "holdClaim config clock t e")
  note q1 = holdClaim_quiet [OF hc]
  have "filed (en_store e1)" using filed q1 by (auto simp: quiet_def intro: filed_grows)
  from quiet_stepped [OF q1 stepped_later [OF submitInitial_stepped [OF this, of H config "later clock"]]] stepped_quiet [OF q1, of H config clock]
    stepped_quiet [OF quiet_refl [of e], of H config clock]
  show ?thesis by (simp add: proposeInLane_def hc split: option.splits)
qed

lemma start_op_stepped:
  "filed (en_store e) \<Longrightarrow> stepped H config clock e (fst (start_op H config clock random t op e))"
  by (cases op) (auto intro: proposeInLane_stepped dispatchClaimable_stepped stepped_quiet applyUpdate_quiet sweepOne_quiet)

section \<open>The steps of the machine\<close>

lemma resume_stepped: "stepped H config clock e (fst x) \<Longrightarrow> stepped H config clock e (resume t op x)"
  by (erule stepped_core) (rule same_core_resume)

lemma resume_quiet: "quiet e (fst x) \<Longrightarrow> quiet e (resume t op x)"
  using same_core_resume by (blast intro: quiet_trans same_core_quiet)

lemma run_lane_stepped:
  assumes "filed (en_store e)"
  shows "stepped H config clock e (run_lane H config clock random t e)"
proof -
  have "stepped H config clock e (resume t op (start_op H config clock random t op (e\<lparr>en_queued := m\<rparr>)))" for op m
  proof (rule quiet_stepped [OF same_core_quiet resume_stepped [OF start_op_stepped]])
    show "same_core e (e\<lparr>en_queued := m\<rparr>)" by (simp add: same_core_def)
  qed (use assms in simp)
  then show ?thesis by (auto simp: run_lane_def split: list.splits)
qed

lemma propose_quiet: "quiet e (propose config now input e)"
proof -
  have "quiet e (e\<lparr>en_store := s\<rparr>)" if "createWorkflowRecord now input (en_store e) = (s, x)" for s x
    using that grows_create [of "outcome_returned (en_returned e)" "en_store e" now input] by (intro quiet_store) simp_all
  moreover have "quiet e e' \<Longrightarrow> quiet e (dispatchOutbound t op e')" for e' t op
    by (simp add: dispatchOutbound_def quiet_def)
  moreover have "quiet e (e\<lparr>en_results := xs\<rparr>)" for xs by (simp add: quiet_def)
  ultimately show ?thesis by (simp add: propose_def Let_def split: prod.splits sum.splits)
qed

lemma same_core_advanceTask: "same_core e (advanceTask t e)"
  by (simp add: advanceTask_def same_core_def dispatchOutbound_def)

lemma expireIfOverdue_quiet: "quiet e (expireIfOverdue H config clock t e)"
  by (auto simp: expireIfOverdue_def split: option.splits intro: expire_claimed_quiet)

lemma cancel_task_stepped: "stepped H config clock e (cancel_task config now t e)"
  by (auto simp: cancel_task_def Let_def split: option.splits prod.splits intro!: stepped_call quiet_notify dest: cancel_quiet)

lemma refreshCoordination_stepped: "stepped H config clock e (refreshCoordination config advance e)"
proof -
  have "same_core e (e\<lparr>en_refreshes := xs\<rparr>)" for xs by (simp add: same_core_def)
  from same_core_quiet [OF this] show ?thesis
    by (auto simp: refreshCoordination_def intro!: stepped_call)
qed

lemma quiet_fold: "(\<And>x e. quiet e (f x e)) \<Longrightarrow> quiet e (fold f xs e)"
proof (induction xs arbitrary: e)
  case (Cons x xs)
  have "quiet (f x e) (fold f xs (f x e))" by (rule Cons.IH) (rule Cons.prems)
  with Cons.prems [of e x] show ?case using quiet_trans by simp
qed simp

lemma refreshes_quiet: "quiet e e' \<Longrightarrow> quiet e (e'\<lparr>en_refreshes := xs\<rparr>)"
  by (simp add: quiet_def)

lemma poll_answered_quiet: "quiet e (poll_answered config clock i reply e)"
proof -
  have "quiet e (fold (\<lambda>r. resolveUnresolvable now (w_taskId r) code message) rs (e\<lparr>en_refreshes := xs\<rparr>))" for now code message rs xs
    by (rule quiet_trans [OF refreshes_quiet [OF quiet_refl] quiet_fold]) (simp add: quiet_resolveUnresolvable)
  then show ?thesis
    by (auto simp: poll_answered_def split: refresh.splits sum.splits prod.splits intro: refreshes_quiet)
qed

lemma refresh_next_quiet: "quiet e (refresh_next config i e)"
proof -
  have "quiet e (dispatchOutbound t op (e\<lparr>en_refreshes := xs\<rparr>))" for t op xs
    by (simp add: dispatchOutbound_def quiet_def)
  moreover have "quiet e (fold advanceTask ready (e\<lparr>en_refreshes := xs\<rparr>))" for ready xs
    by (rule quiet_trans [OF refreshes_quiet [OF quiet_refl] same_core_quiet [OF same_core_fold]]) (rule same_core_advanceTask)
  ultimately show ?thesis
    by (auto simp: refresh_next_def Let_def split: refresh.splits list.splits option.splits bool.splits intro: refreshes_quiet)
qed

lemma waiters_quiet:
  "quiet e (waitForResult config i t timeout e)" "quiet e (wait_timeout config i t e)" "quiet e (releaseWaiters e)"
proof -
  show "quiet e (waitForResult config i t timeout e)" "quiet e (wait_timeout config i t e)"
    by (simp_all add: waitForResult_def wait_timeout_def quiet_def split: option.splits)
  show "quiet e (releaseWaiters e)"
    unfolding releaseWaiters_def by (rule quiet_fold) (simp add: release_one_def quiet_def split: prod.splits option.splits)
qed

text \<open>
  A step is a step of an engine that differs in its flags, in the lanes and in the responses
  just received.
\<close>

definition starts :: "engine_event \<Rightarrow> engine \<Rightarrow> engine \<Rightarrow> bool" where
  "starts ev e e' \<longleftrightarrow> en_store e' = en_store e \<and> en_calls e' = en_calls e \<and> set (en_returned e) \<subseteq> set (en_returned e') \<and>
     (\<forall>t phase v. (t, phase, v) \<in> set (en_returned e') \<longrightarrow> (t, phase, v) \<in> set (en_returned e) \<or> ev = Endpoint_Answer t (Inr v))"

lemma engine_step_stepped:
  assumes filed: "filed (en_store e)"
  shows "\<exists>e0. starts ev e e0 \<and> stepped H config clock e0 (engine_step H config e (clock, random, ev)) \<and>
    (en_stopped e \<longrightarrow> en_stopped e0 \<or> en_calls (engine_step H config e (clock, random, ev)) = en_calls e)"
proof -
  let ?e' = "engine_step H config e (clock, random, ev)"
  have plain: ?thesis if "stepped H config clock e ?e'"
    using that by (intro exI [of _ e]) (simp add: starts_def)
  have quiet: ?thesis if "quiet e ?e'" using that by (intro plain stepped_quiet)
  show ?thesis
  proof (cases ev)
    case (Endpoint_Answer t reply)
    define e0 where "e0 = (case reply of Inr response \<Rightarrow> (case map_get (en_running e) t of
        Some (op, Submitting phase) \<Rightarrow> e\<lparr>en_returned := en_returned e @ [(t, phase, response)]\<rparr> | _ \<Rightarrow> e) | Inl _ \<Rightarrow> e)"
    have "quiet e0 ?e'"
      by (auto simp: Endpoint_Answer endpoint_answered_def e0_def Let_def split: option.splits prod.splits lane_point.splits sum.splits
          submission_phase.splits intro!: resume_quiet initialAnswered_quiet completedAnswered_quiet)
    moreover have "starts ev e e0" "en_stopped e0 = en_stopped e"
      by (auto simp: e0_def starts_def Endpoint_Answer split: option.splits prod.splits lane_point.splits sum.splits)
    ultimately show ?thesis by (intro exI [of _ e0]) (simp add: stepped_quiet)
  next
    case Stop_Event
    show ?thesis by (rule exI [of _ "e\<lparr>en_stopped := True\<rparr>"]) (simp add: Stop_Event starts_def stepped_quiet)
  next
    case Restart_Event
    show ?thesis
      by (rule exI [of _ "restart_engine e"]) (simp add: Restart_Event starts_def stepped_quiet restart_engine_def newEngine_def)
  next
    case (Propose_Event input) then show ?thesis using propose_quiet by (intro quiet) simp
  next
    case (Run_Lane t) then show ?thesis using run_lane_stepped [OF filed] by (intro plain) simp
  next
    case (Replacement_Answer t reply uuid)
    then show ?thesis
      by (intro plain) (auto simp: replacement_answered_def split: option.splits lane_point.splits intro!: resume_stepped replacementBuilt_stepped)
  next
    case (Creation_Answer t reply)
    then show ?thesis
      by (intro plain) (auto simp: creation_answered_def split: option.splits lane_point.splits intro!: resume_stepped creationAnswered_stepped)
  next
    case (Cancellation_Answer t)
    then show ?thesis
      by (intro quiet) (auto simp: cancellation_answered_def split: option.splits lane_point.splits intro!: resume_quiet)
  next
    case (Advance_Task t) then show ?thesis using same_core_advanceTask by (intro quiet same_core_quiet) simp
  next
    case Advance_Claimable
    then show ?thesis by (intro quiet same_core_quiet) (simp add: advanceClaimable_def same_core_fold)
  next
    case Sweep_Expired
    then show ?thesis by (intro quiet same_core_quiet) (simp add: sweepExpired_def same_core_fold)
  next
    case (Expire_If_Overdue t) then show ?thesis using expireIfOverdue_quiet by (intro quiet) simp
  next
    case (Cancel_Task t) then show ?thesis using cancel_task_stepped by (intro plain) simp
  next
    case (Refresh_Coordination advance) then show ?thesis using refreshCoordination_stepped by (intro plain) simp
  next
    case (Poll_Answer i reply) then show ?thesis using poll_answered_quiet by (intro quiet) simp
  next
    case (Refresh_Next i) then show ?thesis using refresh_next_quiet by (intro quiet) simp
  next
    case (Wait_For_Result i t timeout) then show ?thesis using waiters_quiet by (intro quiet) simp
  next
    case (Wait_Timeout i t) then show ?thesis using waiters_quiet by (intro quiet) simp
  next
    case Release_Waiters then show ?thesis using waiters_quiet by (intro quiet) simp
  next
    case Mark_In_Flight_Aborted then show ?thesis by (intro quiet) (simp add: quiet_def)
  qed
qed

section \<open>The invariant\<close>

definition engine_inv :: "engine \<Rightarrow> bool" where
  "engine_inv e \<longleftrightarrow> filed (en_store e) \<and>
     (\<forall>t r. find_record e t = Some r \<longrightarrow> genuine (outcome_returned (en_returned e)) t r)"

definition keys_inv :: "('a) host_scheme \<Rightarrow> engine \<Rightarrow> bool" where
  "keys_inv H e \<longleftrightarrow> (\<forall>t phase request. Submit_Call t phase request \<in> set (en_calls e) \<longrightarrow> valid_key request \<longrightarrow>
     bound_to H (en_store e) t phase request)"

lemma genuine_mono: "genuine P t r \<Longrightarrow> (\<And>v. P t v \<Longrightarrow> Q t v) \<Longrightarrow> genuine Q t r"
  by (auto simp: genuine_def)

lemma outcome_returned_mono: "outcome_returned xs t v \<Longrightarrow> set xs \<subseteq> set ys \<Longrightarrow> outcome_returned ys t v"
  unfolding outcome_returned_def by blast

lemma engine_inv_step:
  assumes inv: "engine_inv e"
  shows "engine_inv (engine_step H config e (clock, random, ev))"
proof -
  let ?e' = "engine_step H config e (clock, random, ev)"
  obtain e0 where e0: "starts ev e e0" "stepped H config clock e0 ?e'"
    using engine_step_stepped [of e ev H config clock random] inv by (auto simp: engine_inv_def)
  let ?P = "outcome_returned (en_returned e0)"
  have g: "grows ?P (en_store e) (en_store ?e')" "en_returned ?e' = en_returned e0"
    using e0 by (simp_all add: starts_def stepped_def)
  have "genuine ?P t r'" if r': "find_record ?e' t = Some r'" for t r'
  proof (cases "find_record e t")
    case (Some r)
    have "genuine ?P t r"
      using inv Some e0(1) by (auto simp: engine_inv_def starts_def intro: genuine_mono outcome_returned_mono)
    with grows_Some [OF g(1) Some] r' show ?thesis by (auto simp: keeps_def)
  qed (use grows_None [OF g(1) _ r'] in blast)
  moreover have "filed (en_store ?e')" using filed_grows [OF _ g(1)] inv by (simp add: engine_inv_def)
  ultimately show ?thesis by (simp add: engine_inv_def g(2))
qed

lemma engine_inv_run: "engine_inv e \<Longrightarrow> engine_inv (run_engine H config e events)"
  unfolding run_engine_def
proof (induction events arbitrary: e)
  case (Cons ev events)
  obtain clock random x where ev: "ev = (clock, random, x)" by (cases ev)
  from engine_inv_step [OF Cons.prems] have "engine_inv (engine_step H config e ev)" by (simp add: ev)
  from Cons.IH [OF this] show ?case by simp
qed simp

lemma engine_inv_new: "engine_inv (newEngine newMemoryStore)"
  by (simp add: engine_inv_def newEngine_def newMemoryStore_def getWorkflow_def filed_def)

lemma keys_inv_step:
  assumes "engine_inv e" and inv: "keys_inv H e" and "\<And>x. sha256 H x \<noteq> []" and "\<And>n. iso_range (clock n)"
  shows "keys_inv H (engine_step H config e (clock, random, ev))"
proof -
  let ?e' = "engine_step H config e (clock, random, ev)"
  obtain e0 where e0: "starts ev e e0" "stepped H config clock e0 ?e'"
    using engine_step_stepped [of e ev H config clock random] assms(1) by (auto simp: engine_inv_def)
  have g: "grows (outcome_returned (en_returned e0)) (en_store e) (en_store ?e')"
    and calls: "en_calls ?e' = en_calls e \<or> (\<exists>call. en_calls ?e' = en_calls e @ [call] \<and> call_ok H config clock ?e' call)"
    using e0 by (simp_all add: starts_def stepped_def)
  show ?thesis
    unfolding keys_inv_def
  proof (intro allI impI)
    fix t phase request assume sent: "Submit_Call t phase request \<in> set (en_calls ?e')" and k: "valid_key request"
    then consider "Submit_Call t phase request \<in> set (en_calls e)" | "call_ok H config clock ?e' (Submit_Call t phase request)"
      using calls by fastforce
    then show "bound_to H (en_store ?e') t phase request"
    proof cases
      case 1
      with inv k g show ?thesis by (blast intro: bound_to_grows dest: inv [unfolded keys_inv_def, rule_format])
    next
      case 2
      with assms(3,4) k show ?thesis by simp
    qed
  qed
qed

lemma keys_inv_run:
  assumes "\<And>x. sha256 H x \<noteq> []"
  shows "engine_inv e \<Longrightarrow> keys_inv H e \<Longrightarrow> (\<forall>(clock, random, ev) \<in> set events. \<forall>n. iso_range (clock n)) \<Longrightarrow>
    keys_inv H (run_engine H config e events)"
  unfolding run_engine_def
proof (induction events arbitrary: e)
  case (Cons ev events)
  obtain clock random x where ev: "ev = (clock, random, x)" by (cases ev)
  with Cons.prems have "keys_inv H (engine_step H config e ev)" "engine_inv (engine_step H config e ev)"
    using keys_inv_step [of e H clock config random x] assms engine_inv_step by auto
  with Cons.IH Cons.prems(3) show ?case by simp
qed simp

lemma bound_to_same:
  assumes "bound_to H s t phase a" "bound_to H s t phase b" "js_get a ''idempotencyKey'' = js_get b ''idempotencyKey''"
  shows "\<exists>f. computeIdempotencyFingerprint H a = Inr f \<and> computeIdempotencyFingerprint H b = Inr f"
  using assms by (auto simp: bound_to_def)

text \<open>The responses received are answers of the run.\<close>

lemma returned_run:
  assumes "engine_inv e" and "(t, phase, v) \<in> set (en_returned (run_engine H config e events))"
  shows "(t, phase, v) \<in> set (en_returned e) \<or> (\<exists>clock random. (clock, random, Endpoint_Answer t (Inr v)) \<in> set events)"
  using assms unfolding run_engine_def
proof (induction events arbitrary: e)
  case (Cons event events)
  obtain clock random ev where event: "event = (clock, random, ev)" by (cases event)
  let ?e' = "engine_step H config e event"
  have "engine_inv ?e'" using Cons.prems(1) engine_inv_step by (simp add: event)
  with Cons.IH [of ?e'] Cons.prems(2) have "(t, phase, v) \<in> set (en_returned ?e') \<or>
      (\<exists>clock random. (clock, random, Endpoint_Answer t (Inr v)) \<in> set events)" by simp
  moreover have "(t, phase, v) \<in> set (en_returned e) \<or> ev = Endpoint_Answer t (Inr v)" if sent: "(t, phase, v) \<in> set (en_returned ?e')"
  proof -
    obtain e0 where e0: "starts ev e e0" "stepped H config clock e0 ?e'"
      using engine_step_stepped [of e ev H config clock random] Cons.prems(1) by (auto simp: engine_inv_def event)
    then have "(t, phase, v) \<in> set (en_returned e0)" using sent by (simp add: stepped_def)
    with e0(1) show ?thesis unfolding starts_def by blast
  qed
  ultimately show ?case by (auto simp: event)
qed simp

section \<open>The properties\<close>

text \<open>
  C4. No outcome is fabricated: in every run, restarts included, a workflow is resolved
  only with a response that the action endpoint gave to a submission of that Task, and the
  response is neither pending nor a request for approvals. When it answers a completed
  submission it is no replay rejection either, whose outcome is reported as unavailable; for an
  initial submission the theorem does not exclude one.
\<close>

theorem outcomes_are_returned:
  assumes "e = run_engine H config (newEngine newMemoryStore) events"
    and "find_record e t = Some r" and "w_resolution r = Some (Resolution_Resolved v receipt)"
  shows "\<exists>phase clock random. (t, phase, v) \<in> set (en_returned e) \<and> (clock, random, Endpoint_Answer t (Inr v)) \<in> set events \<and>
    js_get v ''result'' \<noteq> Str ''pending'' \<and> js_get v ''result'' \<noteq> Str ''additionalApprovalsRequired'' \<and>
    (phase = Completed_Phase \<longrightarrow> \<not> is_replay v)"
proof -
  have "outcome_returned (en_returned e) t v"
    using engine_inv_run [OF engine_inv_new, of H config events] assms by (auto simp: engine_inv_def genuine_def)
  then obtain phase where phase: "(t, phase, v) \<in> set (en_returned e)" "js_get v ''result'' \<noteq> Str ''pending''"
    "js_get v ''result'' \<noteq> Str ''additionalApprovalsRequired''" "phase = Completed_Phase \<longrightarrow> \<not> is_replay v"
    by (auto simp: outcome_returned_def)
  with returned_run [OF engine_inv_new, of t phase v H config events] assms(1) show ?thesis
    by (auto simp: newEngine_def)
qed

theorem outcomes_are_returned_witness:
  "\<exists>phase clock random. (''t'', phase, ee_response) \<in> set (en_returned (ee_engine 6)) \<and>
     (clock, random, Endpoint_Answer ''t'' (Inr ee_response)) \<in> set (take 6 ee_events) \<and>
     js_get ee_response ''result'' \<noteq> Str ''pending'' \<and> js_get ee_response ''result'' \<noteq> Str ''additionalApprovalsRequired'' \<and>
     (phase = Completed_Phase \<longrightarrow> \<not> is_replay ee_response)"
  by (rule outcomes_are_returned [OF ee_engine_def ee_engine6, of ee_response None]) (simp add: resolved_def)

text \<open>
  C5. An idempotency key never covers two requests: in every run, restarts included, all
  submissions of one phase of a Task under one key are equivalent requests, with one fingerprint.
\<close>

theorem one_request_per_key:
  assumes "\<And>x. sha256 H x \<noteq> []" and "\<forall>(clock, random, ev) \<in> set events. \<forall>n. iso_range (clock n)"
    and "e = run_engine H config (newEngine newMemoryStore) events"
    and "Submit_Call t phase a \<in> set (en_calls e)" and "Submit_Call t phase b \<in> set (en_calls e)"
    and "valid_key a" and "js_get a ''idempotencyKey'' = js_get b ''idempotencyKey''"
  shows "\<exists>f. computeIdempotencyFingerprint H a = Inr f \<and> computeIdempotencyFingerprint H b = Inr f"
proof -
  have "keys_inv H (newEngine newMemoryStore)" by (simp add: keys_inv_def newEngine_def)
  from keys_inv_run [OF assms(1) engine_inv_new this assms(2)] have "keys_inv H e" by (simp add: assms(3))
  moreover have "valid_key b" using assms(6,7) by (simp add: valid_key_def)
  ultimately have "bound_to H (en_store e) t phase a" "bound_to H (en_store e) t phase b"
    using assms(4-6) by (simp_all add: keys_inv_def)
  then show ?thesis using assms(7) by (rule bound_to_same)
qed

theorem one_request_per_key_witness:
  "\<exists>f. computeIdempotencyFingerprint ee_host ee_request = Inr f \<and> computeIdempotencyFingerprint ee_host ee_request = Inr f"
proof (rule one_request_per_key [OF _ ee_clock_range ee_engine_def])
  show "Submit_Call ''t'' Initial_Phase ee_request \<in> set (en_calls (ee_engine 5))"
    "Submit_Call ''t'' Initial_Phase ee_request \<in> set (en_calls (ee_engine 5))"
    by (simp_all add: ee_engine5)
qed (simp_all add: ee_host_def valid_key_def ee_request_def)

text \<open>
  Each step makes at most one remote call. After a shutdown has begun only cancellations
  are sent until a restart; a submission or the creation of an approval workflow is sent
  only for a live workflow, under the claim of this worker whose lease starts in this step.
\<close>

theorem calls_are_guarded:
  assumes "e = run_engine H config (newEngine newMemoryStore) events"
    and "e' = engine_step H config e (clock, random, ev)" and "en_calls e' \<noteq> en_calls e"
  shows "\<exists>call. en_calls e' = en_calls e @ [call] \<and>
    ((\<exists>actionId. call = Cancel_Call actionId) \<or>
     \<not> en_stopped e \<and> (\<forall>t phase request pkg requirements.
       call = Submit_Call t phase request \<or> call = Create_Call t pkg requirements \<longrightarrow>
       (\<exists>n r. memory_lease (en_store e') t = Some (wc_workerId config, clock n + wc_claimLeaseMs config) \<and>
         find_record e' t = Some r \<and> \<not> terminal (w_state r))))"
proof -
  have "filed (en_store e)" using engine_inv_run [OF engine_inv_new, of H config events] by (simp add: engine_inv_def assms(1))
  from engine_step_stepped [OF this, of ev H config clock random] obtain e0 where
    e0: "starts ev e e0" "stepped H config clock e0 e'" "en_stopped e \<longrightarrow> en_stopped e0"
    using assms(2,3) by auto
  then have "en_calls e' = en_calls e \<or> (\<exists>call. en_calls e' = en_calls e @ [call] \<and> call_ok H config clock e' call)"
    by (simp add: starts_def stepped_def)
  with assms(3) obtain call where call: "en_calls e' = en_calls e @ [call]" "call_ok H config clock e' call" by blast
  have "en_stopped e \<longrightarrow> en_stopped e'" using e0 by (simp add: stepped_def)
  with call show ?thesis by (cases call) (auto simp: ready_for_call_def)
qed

theorem calls_are_guarded_witness:
  "\<exists>call. en_calls (ee_engine 2) = en_calls (ee_engine 1) @ [call] \<and>
    ((\<exists>actionId. call = Cancel_Call actionId) \<or>
     \<not> en_stopped (ee_engine 1) \<and> (\<forall>t phase request pkg requirements.
       call = Submit_Call t phase request \<or> call = Create_Call t pkg requirements \<longrightarrow>
       (\<exists>n r. memory_lease (en_store (ee_engine 2)) t = Some (wc_workerId ee_config, ee_clock n + wc_claimLeaseMs ee_config) \<and>
         find_record (ee_engine 2) t = Some r \<and> \<not> terminal (w_state r))))"
proof (rule calls_are_guarded [OF ee_engine_def ee_steps(3)])
  show "en_calls (ee_engine 2) \<noteq> en_calls (ee_engine 1)" unfolding ee_engine1 ee_engine2 by (simp add: newEngine_def)
qed

end
