(* ===== verification/HttpAuth.thy ===== *)
theory HttpAuth
  imports SignatureSuites
begin

text \<open>
  Authentication of HTTP requests: \<open>sdk/protocol/src/lib/rfc9421.ts\<close>, the profile of HTTP
  message signatures (RFC 9421), the signer identities of \<open>signer.ts\<close>, and the store of used
  nonces. Byte buffers are strings of bytes. The libraries are fields of \<open>http_host\<close>:

  \<^item> \<open>parse_dictionary\<close>, \<open>serialize_item\<close>, \<open>serialize_inner\<close>, \<open>serialize_digest\<close>: structured
    fields; \<open>None\<close> when they throw. \<open>serialize_digest\<close> writes the dictionary of one byte sequence;
  \<^item> \<open>request_url\<close>: \<open>new URL(path, base)\<close>; \<open>create_base\<close> and \<open>format_base\<close>: the signature base;
  \<^item> \<open>sha256_bytes\<close>, \<open>utf8_bytes\<close>, and \<open>verify_signature\<close>: \<open>createPublicKey\<close> with \<open>verify\<close>, false when
    they throw; \<open>header_number\<close>: the text of a number; \<open>url_members\<close>: a parsed URL;
  \<^item> \<open>sign_message\<close>: the headers that \<open>httpbis.signMessage\<close> makes with a given signing function.
\<close>

section \<open>Types\<close>

text \<open>Bare items of structured fields; \<open>SF_Other\<close> is one of the types that the code never reads.\<close>

datatype sf_bare = SF_String string | SF_Number jsnum | SF_Bytes string | SF_Other string

type_synonym sf_params = "(string, sf_bare) jsmap"

datatype sf_member = SF_Item sf_bare sf_params | SF_Inner "(sf_bare \<times> sf_params) list" sf_params

datatype header_value = Header_Text string | Header_List "string list" | Header_Number rat | Header_Undefined

record base_request =
  br_method :: string
  br_url :: string
  br_headers :: "(string \<times> header_value) list"

record url_record =
  url_protocol :: string
  url_username :: string
  url_password :: string
  url_hostname :: string
  url_pathname :: string
  url_search :: string
  url_hash :: string
  url_origin :: string

text \<open>The parameters that a signature is made with; times are milliseconds.\<close>

record signature_parameters =
  sp_created :: int
  sp_expires :: int
  sp_keyid :: did
  sp_nonce :: string
  sp_tag :: string
  sp_alg :: string

record http_host = crypto_host +
  parse_dictionary :: "string \<Rightarrow> (string, sf_member) jsmap option"
  serialize_item :: "sf_bare \<Rightarrow> sf_params \<Rightarrow> string"
  serialize_inner :: "(sf_bare \<times> sf_params) list \<Rightarrow> sf_params \<Rightarrow> string option"
  serialize_digest :: "string \<Rightarrow> string"
  request_url :: "string \<Rightarrow> string option"
  create_base :: "string list \<Rightarrow> base_request \<Rightarrow> (string \<times> string list) list option"
  format_base :: "(string \<times> string list) list \<Rightarrow> string"
  sha256_bytes :: "string \<Rightarrow> string"
  utf8_bytes :: "string \<Rightarrow> string"
  verify_signature :: "signature_suite \<Rightarrow> jsval \<Rightarrow> string \<Rightarrow> string \<Rightarrow> bool"
  header_number :: "rat \<Rightarrow> string"
  url_members :: "string \<Rightarrow> url_record option"
  sign_message :: "string \<Rightarrow> string list \<Rightarrow> signature_parameters \<Rightarrow> (string \<Rightarrow> string option) \<Rightarrow> base_request \<Rightarrow>
    (string \<times> header_value) list option"

section \<open>Constants and results\<close>

definition MPAS_SIGNATURE_TAG :: string where
  "MPAS_SIGNATURE_TAG = ''mpas-v1''"

definition MPAS_SIGNATURE_LABEL :: string where
  "MPAS_SIGNATURE_LABEL = ''mpas''"

definition MPAS_COVERED_COMPONENTS :: "string list" where
  "MPAS_COVERED_COMPONENTS = [''@method'', ''@path'', ''content-digest'']"

definition MPAS_MAX_SIGNATURE_LIFETIME_SECONDS :: int where
  "MPAS_MAX_SIGNATURE_LIFETIME_SECONDS = 60"

fun httpSignatureAlgorithm :: "signature_suite \<Rightarrow> string" where
  "httpSignatureAlgorithm Ed25519 = ''ed25519''"
| "httpSignatureAlgorithm P256 = ''ecdsa-p256-sha256''"

record auth_success =
  au_did :: did
  au_nonce :: string
  au_createdAt :: int
  au_expiresAt :: int
  au_label :: string

datatype auth_reason = Headers_Absent | Headers_Incomplete | Structured_Field_Malformed | Candidate_Selection_Failed
  | Signature_Member_Missing | Covered_Components_Invalid | Parameters_Invalid | Key_Invalid | Freshness_Invalid
  | Signature_Unverifiable | Content_Digest_Invalid | Content_Digest_Mismatch | Audience_Invalid

datatype auth_code = Authentication_Required | Signature_Invalid | Artifact_Hash_Mismatch

datatype auth_error = Auth_Throws string | Auth_Failure nat auth_code auth_reason

definition authFailure :: "auth_reason \<Rightarrow> auth_code \<Rightarrow> auth_error" where
  "authFailure reason code = Auth_Failure 401 code reason"

abbreviation auth_invalid :: "auth_reason \<Rightarrow> auth_error" where
  "auth_invalid reason \<equiv> authFailure reason Signature_Invalid"

record verify_options =
  vo_method :: string
  vo_path :: string
  vo_headers :: "(string \<times> header_value) list"
  vo_body :: string
  vo_audiences :: "string list"
  vo_now :: "int option"
  vo_clockSkewSeconds :: "jsnum option"
  vo_maxLifetimeSeconds :: "jsnum option"

section \<open>Headers and fields\<close>

definition headerValue :: "('a) http_host_scheme \<Rightarrow> (string \<times> header_value) list \<Rightarrow> string \<Rightarrow> string option" where
  "headerValue H headers expectedName = (case List.find (\<lambda>(name, v). map lower name = expectedName) headers of
       None \<Rightarrow> None
     | Some (name, v) \<Rightarrow> (case v of
           Header_Undefined \<Rightarrow> None
         | Header_Text s \<Rightarrow> Some s
         | Header_List ss \<Rightarrow> Some (case ss of [] \<Rightarrow> [] | s # rest \<Rightarrow> s @ concat (map (\<lambda>t. '', '' @ t) rest))
         | Header_Number r \<Rightarrow> Some (header_number H r)))"

definition normalizedSignatureHeaders :: "('a) http_host_scheme \<Rightarrow> (string \<times> header_value) list \<Rightarrow> (string \<times> header_value) list" where
  "normalizedSignatureHeaders H headers =
    map (\<lambda>(name, v). (name, case v of Header_Number r \<Rightarrow> Header_Text (header_number H r) | w \<Rightarrow> w))
      (filter (\<lambda>(name, v). v \<noteq> Header_Undefined) headers)"

definition signatureRequest :: "('a) http_host_scheme \<Rightarrow> string \<Rightarrow> string \<Rightarrow> (string \<times> header_value) list \<Rightarrow> base_request option" where
  "signatureRequest H method path headers = (case request_url H path of None \<Rightarrow> None
     | Some url \<Rightarrow> Some \<lparr>br_method = method, br_url = url, br_headers = headers\<rparr>)"

definition covered_name :: "sf_bare \<times> sf_params \<Rightarrow> string option" where
  "covered_name item = (case item of (SF_String name, []) \<Rightarrow> Some name | _ \<Rightarrow> None)"

definition coveredFields :: "('a) http_host_scheme \<Rightarrow> (sf_bare \<times> sf_params) list \<Rightarrow> (string list \<times> string list) option" where
  "coveredFields H items =
    (if list_all (\<lambda>item. covered_name item \<noteq> None) items
     then Some (map (\<lambda>item. the (covered_name item)) items, map (\<lambda>(v, params). serialize_item H v params) items) else None)"

text \<open>\<open>Number.isSafeInteger\<close>.\<close>

definition safe_integer :: "sf_bare \<Rightarrow> int option" where
  "safe_integer v = (case v of
       SF_Number (Fin q) \<Rightarrow> if snd (quotient_of q) = 1 \<and> \<bar>q\<bar> < 2 ^ 53 then Some \<lfloor>q\<rfloor> else None
     | _ \<Rightarrow> None)"

section \<open>Digest and audience\<close>

definition createContentDigest :: "('a) http_host_scheme \<Rightarrow> string \<Rightarrow> string" where
  "createContentDigest H body = serialize_digest H (sha256_bytes H body)"

datatype digest_result = Digest_Valid | Digest_Invalid | Digest_Mismatch

definition verifyContentDigest :: "('a) http_host_scheme \<Rightarrow> (string \<times> header_value) list \<Rightarrow> string \<Rightarrow> digest_result" where
  "verifyContentDigest H headers body = (case headerValue H headers ''content-digest'' of
       None \<Rightarrow> Digest_Invalid
     | Some v \<Rightarrow> (case parse_dictionary H v of
           None \<Rightarrow> Digest_Invalid
         | Some dictionary \<Rightarrow>
             if length dictionary \<noteq> 1 then Digest_Invalid
             else (case map_get dictionary ''sha-256'' of
                 Some (SF_Item (SF_Bytes actual) []) \<Rightarrow>
                   if actual = sha256_bytes H body then Digest_Valid else Digest_Mismatch
               | _ \<Rightarrow> Digest_Invalid)))"

definition validAudience :: "('a) http_host_scheme \<Rightarrow> string \<Rightarrow> string list \<Rightarrow> bool" where
  "validAudience H body audiences = (case parse_strict H (utf8_text H body) of
       None \<Rightarrow> False
     | Some parsed \<Rightarrow> is_record parsed \<and>
         (case js_get parsed ''audience'' of Str audience \<Rightarrow> audience \<in> set audiences | _ \<Rightarrow> False))"

definition isValidMpasAudienceOrigin :: "('a) http_host_scheme \<Rightarrow> string \<Rightarrow> bool" where
  "isValidMpasAudienceOrigin H value = (case url_members H value of
       None \<Rightarrow> False
     | Some url \<Rightarrow> (url_protocol url = ''http:'' \<or> url_protocol url = ''https:'') \<and> url_username url = [] \<and>
         url_password url = [] \<and> url_pathname url = ''/'' \<and> url_search url = [] \<and> url_hash url = [] \<and> url_origin url = value)"

definition deriveMpasAudience :: "('a) http_host_scheme \<Rightarrow> string \<Rightarrow> string option" where
  "deriveMpasAudience H serviceUrl = (case url_members H serviceUrl of
       None \<Rightarrow> None
     | Some url \<Rightarrow> if url_protocol url \<noteq> ''http:'' \<and> url_protocol url \<noteq> ''https:'' then None else Some (url_origin url))"

section \<open>Verification\<close>

definition validVerificationPolicy :: "jsnum \<Rightarrow> jsnum \<Rightarrow> bool" where
  "validVerificationPolicy maxLifetimeSeconds clockSkewSeconds \<longleftrightarrow>
     num_is_integer maxLifetimeSeconds \<and> num_lt (Fin 0) maxLifetimeSeconds \<and>
     num_le maxLifetimeSeconds (num_of_int MPAS_MAX_SIGNATURE_LIFETIME_SECONDS) \<and>
     num_is_integer clockSkewSeconds \<and> num_le (Fin 0) clockSkewSeconds"

text \<open>An integer number, as an integer.\<close>

definition int_of_num :: "jsnum \<Rightarrow> int" where
  "int_of_num x = (case x of Fin q \<Rightarrow> \<lfloor>q\<rfloor> | _ \<Rightarrow> 0)"

text \<open>\<open>None\<close> when the signature is not fresh; all numbers are integers.\<close>

definition is_fresh :: "int \<Rightarrow> int \<Rightarrow> int \<Rightarrow> int \<Rightarrow> int \<Rightarrow> bool" where
  "is_fresh created expires maxLifetimeSeconds nowSeconds clockSkewSeconds \<longleftrightarrow>
     \<not> (expires \<le> created \<or> maxLifetimeSeconds < expires - created \<or> nowSeconds + clockSkewSeconds < created \<or> expires < nowSeconds)"

record signature_input =
  si_created :: int
  si_expires :: int
  si_keyid :: did
  si_nonce :: string
  si_alg :: "string option"

definition input_parameters :: "sf_params \<Rightarrow> signature_input option" where
  "input_parameters params =
    (case (map_get params ''created'', map_get params ''expires'', map_get params ''keyid'', map_get params ''nonce'') of
       (Some created, Some expires, Some (SF_String keyid), Some (SF_String nonce)) \<Rightarrow>
         (case (safe_integer created, safe_integer expires) of
            (Some c, Some e) \<Rightarrow>
              if map_get params ''tag'' \<noteq> Some (SF_String MPAS_SIGNATURE_TAG) then None
              else (case map_get params ''alg'' of
                  None \<Rightarrow> Some \<lparr>si_created = c, si_expires = e, si_keyid = keyid, si_nonce = nonce, si_alg = None\<rparr>
                | Some (SF_String alg) \<Rightarrow> Some \<lparr>si_created = c, si_expires = e, si_keyid = keyid, si_nonce = nonce, si_alg = Some alg\<rparr>
                | Some _ \<Rightarrow> None)
          | _ \<Rightarrow> None)
     | _ \<Rightarrow> None)"

definition signatureBase ::
    "('a) http_host_scheme \<Rightarrow> verify_options \<Rightarrow> string list \<Rightarrow> (sf_bare \<times> sf_params) list \<Rightarrow> sf_params \<Rightarrow> string option" where
  "signatureBase H options serialized items params =
    (case signatureRequest H (vo_method options) (vo_path options) (normalizedSignatureHeaders H (vo_headers options)) of
       None \<Rightarrow> None
     | Some request \<Rightarrow> (case (create_base H serialized request, serialize_inner H items params) of
           (Some base, Some text) \<Rightarrow> Some (format_base H (base @ [(''\"@signature-params\"'', [text])]))
         | _ \<Rightarrow> None))"

definition verifySuiteBytes :: "('a) http_host_scheme \<Rightarrow> jsval \<Rightarrow> string \<Rightarrow> string \<Rightarrow> bool" where
  "verifySuiteBytes H jwk input signature = (case validatePublicJwk H jwk (Some Verify_Op) of
       None \<Rightarrow> False
     | Some suite \<Rightarrow> validateSignatureEncoding suite signature \<and> verify_signature H suite jwk input signature)"

definition select_candidate ::
    "(string, sf_member) jsmap \<Rightarrow> (string \<times> (sf_bare \<times> sf_params) list \<times> sf_params) option" where
  "select_candidate inputs =
    (case filter (\<lambda>(label, v). case v of SF_Inner items params \<Rightarrow> map_get params ''tag'' = Some (SF_String MPAS_SIGNATURE_TAG)
        | SF_Item _ _ \<Rightarrow> False) inputs of
       [(label, SF_Inner items params)] \<Rightarrow> Some (label, items, params)
     | _ \<Rightarrow> None)"

definition verification_key :: "('a) http_host_scheme \<Rightarrow> signature_input \<Rightarrow> auth_error + jsval" where
  "verification_key H input = (case didJwkToJwk H (si_keyid input) of
       None \<Rightarrow> Inl (auth_invalid Key_Invalid)
     | Some publicKey \<Rightarrow> (case validatePublicJwk H publicKey (Some Verify_Op) of
           None \<Rightarrow> Inl (auth_invalid Key_Invalid)
         | Some suite \<Rightarrow>
             if (case si_alg input of None \<Rightarrow> ''ed25519'' | Some alg \<Rightarrow> alg) \<noteq> httpSignatureAlgorithm suite
             then Inl (auth_invalid Parameters_Invalid) else Inr publicKey))"

definition verifyMpasRfc9421 :: "('a) http_host_scheme \<Rightarrow> int \<Rightarrow> verify_options \<Rightarrow> auth_error + auth_success" where
  "verifyMpasRfc9421 H clock options =
    (let headers = vo_headers options in
     and_then (case (headerValue H headers ''signature-input'', headerValue H headers ''signature'') of
         (None, None) \<Rightarrow> Inl (authFailure Headers_Absent Authentication_Required)
       | (Some a, Some b) \<Rightarrow> Inr (a, b)
       | _ \<Rightarrow> Inl (auth_invalid Headers_Incomplete)) (\<lambda>(inputHeader, signatureHeader).
     and_then (case (parse_dictionary H inputHeader, parse_dictionary H signatureHeader) of
         (Some a, Some b) \<Rightarrow> Inr (a, b)
       | _ \<Rightarrow> Inl (auth_invalid Structured_Field_Malformed)) (\<lambda>(signatureInputs, signatures).
     and_then (case select_candidate signatureInputs of
         None \<Rightarrow> Inl (auth_invalid Candidate_Selection_Failed) | Some c \<Rightarrow> Inr c) (\<lambda>(label, items, params).
     and_then (case map_get signatures label of
         Some (SF_Item (SF_Bytes signature) []) \<Rightarrow> Inr signature
       | _ \<Rightarrow> Inl (auth_invalid Signature_Member_Missing)) (\<lambda>signature.
     and_then (case coveredFields H items of
         Some (names, serialized) \<Rightarrow> if names = MPAS_COVERED_COMPONENTS then Inr serialized
           else Inl (auth_invalid Covered_Components_Invalid)
       | None \<Rightarrow> Inl (auth_invalid Covered_Components_Invalid)) (\<lambda>serialized.
     and_then (case input_parameters params of
         None \<Rightarrow> Inl (auth_invalid Parameters_Invalid) | Some input \<Rightarrow> Inr input) (\<lambda>input.
     let maxLifetime = (case vo_maxLifetimeSeconds options of None \<Rightarrow> num_of_int MPAS_MAX_SIGNATURE_LIFETIME_SECONDS | Some n \<Rightarrow> n);
         clockSkew = (case vo_clockSkewSeconds options of None \<Rightarrow> Fin 30 | Some n \<Rightarrow> n);
         nowSeconds = (case vo_now options of None \<Rightarrow> clock | Some t \<Rightarrow> t) div 1000 in
     and_then (require (validVerificationPolicy maxLifetime clockSkew) (Auth_Throws ''Invalid RFC 9421 verification policy.'')) (\<lambda>_.
     and_then (require (is_fresh (si_created input) (si_expires input) (int_of_num maxLifetime) nowSeconds (int_of_num clockSkew))
       (auth_invalid Freshness_Invalid)) (\<lambda>_.
     and_then (verification_key H input) (\<lambda>publicKey.
     and_then (case signatureBase H options serialized items params of
         None \<Rightarrow> Inl (auth_invalid Signature_Unverifiable) | Some base \<Rightarrow> Inr base) (\<lambda>base.
     and_then (require (verifySuiteBytes H publicKey (utf8_bytes H base) signature) (auth_invalid Signature_Unverifiable)) (\<lambda>_.
     and_then (case verifyContentDigest H headers (vo_body options) of
         Digest_Valid \<Rightarrow> Inr ()
       | Digest_Invalid \<Rightarrow> Inl (auth_invalid Content_Digest_Invalid)
       | Digest_Mismatch \<Rightarrow> Inl (Auth_Failure 400 Artifact_Hash_Mismatch Content_Digest_Mismatch)) (\<lambda>_.
     and_then (require (validAudience H (vo_body options) (vo_audiences options)) (auth_invalid Audience_Invalid)) (\<lambda>_.
     Inr \<lparr>au_did = si_keyid input, au_nonce = si_nonce input, au_createdAt = si_created input * 1000,
       au_expiresAt = si_expires input * 1000, au_label = label\<rparr>))))))))))))))"

section \<open>Used nonces\<close>

text \<open>\<open>InMemoryNonceStore\<close>: the claims, each with its expiry in milliseconds.\<close>

type_synonym nonce_store = "(string, int) jsmap"

definition claim_key :: "did \<Rightarrow> string \<Rightarrow> string" where
  "claim_key keyid nonce = show_nat (length keyid) @ '':'' @ keyid @ nonce"

definition claim_nonce :: "int \<Rightarrow> did \<Rightarrow> string \<Rightarrow> int \<Rightarrow> nonce_store \<Rightarrow> nonce_store \<times> bool" where
  "claim_nonce now keyid nonce expiresAt claims =
    (let kept = filter (\<lambda>(storedKey, storedExpiry). \<not> storedExpiry < now) claims;
         claimKey = claim_key keyid nonce in
     case map_get kept claimKey of
       Some existingExpiry \<Rightarrow> if now \<le> existingExpiry then (kept, False)
         else (map_set claimKey expiresAt (map_delete claimKey kept), True)
     | None \<Rightarrow> (map_set claimKey expiresAt kept, True))"

section \<open>Signing\<close>

text \<open>A signer as the caller supplies it; \<open>hs_signBytes\<close> is \<open>None\<close> when it throws.\<close>

record http_signer =
  hs_did :: did
  hs_kid :: "string option"
  hs_publicKey :: "jsval option"
  hs_algorithm :: "string option"
  hs_signBytes :: "string \<Rightarrow> string option"

record raw_signer =
  rs_did :: did
  rs_kid :: string
  rs_publicKey :: jsval
  rs_algorithm :: string
  rs_signBytes :: "string \<Rightarrow> string option"

definition validateSignerIdentity :: "('a) http_host_scheme \<Rightarrow> raw_signer \<Rightarrow> signature_suite option" where
  "validateSignerIdentity H signer = (case validatePublicJwk H (rs_publicKey signer) None of
       None \<Rightarrow> None
     | Some suite \<Rightarrow>
         if rs_algorithm signer \<noteq> jwsAlgorithm suite then None
         else if \<not> starts_with ''did:'' (rs_did signer) \<or> rs_kid signer = [] then None
         else if isDidJwk (rs_did signer) \<and>
           ((case didJwkToJwk H (rs_did signer) of None \<Rightarrow> None | Some key \<Rightarrow> samePublicKey H key (rs_publicKey signer)) \<noteq> Some True \<or>
            rs_kid signer \<noteq> didJwkToKid (rs_did signer)) then None
         else Some suite)"

definition resolveHttpSigner :: "('a) http_host_scheme \<Rightarrow> http_signer \<Rightarrow> raw_signer option" where
  "resolveHttpSigner H signer = (case didJwkToJwk H (hs_did signer) of
       None \<Rightarrow> None
     | Some publicKey \<Rightarrow> (case validatePublicJwk H publicKey (Some Verify_Op) of
           None \<Rightarrow> None
         | Some suite \<Rightarrow>
             (let resolved = \<lparr>rs_did = hs_did signer,
                 rs_kid = (case hs_kid signer of Some k \<Rightarrow> k | None \<Rightarrow> didJwkToKid (hs_did signer)),
                 rs_publicKey = (case hs_publicKey signer of Some k \<Rightarrow> k | None \<Rightarrow> publicKey),
                 rs_algorithm = (case hs_algorithm signer of Some a \<Rightarrow> a | None \<Rightarrow> jwsAlgorithm suite),
                 rs_signBytes = hs_signBytes signer\<rparr>
              in case validateSignerIdentity H resolved of None \<Rightarrow> None | Some _ \<Rightarrow> Some resolved)))"

definition verifying_key :: "jsval \<Rightarrow> jsval" where
  "verifying_key jwk = Obj (map_set ''key_ops'' (Arr [Str ''verify'']) (entries jwk))"

definition signMpasBytes :: "('a) http_host_scheme \<Rightarrow> raw_signer \<Rightarrow> string \<Rightarrow> string option" where
  "signMpasBytes H signer payload = (case validateSignerIdentity H signer of
       None \<Rightarrow> None
     | Some _ \<Rightarrow> (case rs_signBytes signer payload of
           None \<Rightarrow> None
         | Some signature \<Rightarrow>
             if verifySuiteBytes H (verifying_key (rs_publicKey signer)) payload signature then Some signature else None))"

record sign_options =
  so_method :: string
  so_path :: string
  so_body :: string
  so_signer :: http_signer
  so_created :: "int option"
  so_expires :: "int option"
  so_lifetimeSeconds :: "jsnum option"
  so_nonce :: "string option"
  so_label :: "string option"

definition validateLifetime :: "jsnum \<Rightarrow> bool" where
  "validateLifetime n \<longleftrightarrow> num_is_integer n \<and> num_lt (Fin 0) n \<and> num_le n (num_of_int MPAS_MAX_SIGNATURE_LIFETIME_SECONDS)"

text \<open>The checks before the signature: the resolved signer and the parameters; dates are valid.\<close>

definition sign_parameters ::
    "('a) http_host_scheme \<Rightarrow> int \<Rightarrow> string \<Rightarrow> sign_options \<Rightarrow> (raw_signer \<times> signature_parameters) option" where
  "sign_parameters H clock random options = (case resolveHttpSigner H (so_signer options) of
       None \<Rightarrow> None
     | Some signer \<Rightarrow> (case validatePublicJwk H (rs_publicKey signer) None of
           None \<Rightarrow> None
         | Some suite \<Rightarrow>
             (let created = (case so_created options of Some t \<Rightarrow> t | None \<Rightarrow> clock);
                  lifetime = (case so_lifetimeSeconds options of Some n \<Rightarrow> n
                    | None \<Rightarrow> num_of_int MPAS_MAX_SIGNATURE_LIFETIME_SECONDS)
              in if \<not> validateLifetime lifetime then None
                 else let lifetimeSeconds = int_of_num lifetime;
                          expires = (case so_expires options of Some t \<Rightarrow> t | None \<Rightarrow> created + lifetimeSeconds * 1000)
                      in if expires div 1000 \<le> created div 1000 \<or> lifetimeSeconds < expires div 1000 - created div 1000 then None
                         else Some (signer, \<lparr>sp_created = created, sp_expires = expires, sp_keyid = hs_did (so_signer options),
                           sp_nonce = (case so_nonce options of Some n \<Rightarrow> n | None \<Rightarrow> random),
                           sp_tag = MPAS_SIGNATURE_TAG, sp_alg = httpSignatureAlgorithm suite\<rparr>))))"

definition requiredStringHeader :: "(string \<times> header_value) list \<Rightarrow> string \<Rightarrow> string option" where
  "requiredStringHeader headers name = (case List.find (\<lambda>(header, v). map lower header = name) headers of
       Some (header, Header_Text s) \<Rightarrow> Some s
     | Some (header, Header_List ss) \<Rightarrow> Some (case ss of [] \<Rightarrow> [] | s # rest \<Rightarrow> s @ concat (map (\<lambda>t. '', '' @ t) rest))
     | _ \<Rightarrow> None)"

definition signMpasRfc9421 :: "('a) http_host_scheme \<Rightarrow> int \<Rightarrow> string \<Rightarrow> sign_options \<Rightarrow> (string \<times> string) list option" where
  "signMpasRfc9421 H clock random options = (case sign_parameters H clock random options of
       None \<Rightarrow> None
     | Some (signer, params) \<Rightarrow>
         (let contentDigest = createContentDigest H (so_body options);
              label = (case so_label options of Some l \<Rightarrow> l | None \<Rightarrow> MPAS_SIGNATURE_LABEL)
          in case signatureRequest H (so_method options) (so_path options) [(''content-digest'', Header_Text contentDigest)] of
               None \<Rightarrow> None
             | Some request \<Rightarrow> (case sign_message H label MPAS_COVERED_COMPONENTS params (signMpasBytes H signer) request of
                   None \<Rightarrow> None
                 | Some headers \<Rightarrow> (case (requiredStringHeader headers ''signature-input'', requiredStringHeader headers ''signature'') of
                       (Some input, Some signature) \<Rightarrow>
                         Some [(''Content-Digest'', contentDigest), (''Signature-Input'', input), (''Signature'', signature)]
                     | _ \<Rightarrow> None))))"

section \<open>What verification guarantees\<close>

lemma claim_key_inject [simp]: "claim_key k n = claim_key k' n' \<longleftrightarrow> k = k' \<and> n = n'"
proof
  assume eq: "claim_key k n = claim_key k' n'"
  have digits: "takeWhile is_digit (claim_key a b) = show_nat (length a)" for a b
  proof -
    have "\<not> is_digit (CHR '':'')" by code_simp
    moreover have "\<forall>c \<in> set (show_nat (length a)). is_digit c" using show_nat_digits by (simp add: list_all_iff)
    ultimately show ?thesis by (simp add: claim_key_def takeWhile_append2)
  qed
  have "length k = length k'" using digits [of k n] digits [of k' n'] eq by (simp add: show_nat_inject)
  then show "k = k' \<and> n = n'" using eq by (simp add: claim_key_def)
qed simp

lemma map_get_filter: "map_get m k = Some x \<Longrightarrow> P (k, x) \<Longrightarrow> map_get (filter P m) k = Some x"
  by (induction m) (auto split: if_splits)

text \<open>A claim that has not expired stays, and refuses its nonce.\<close>

lemma claim_nonce_kept:
  assumes "map_get claims (claim_key k n) = Some x" and "now \<le> x"
  shows "map_get (fst (claim_nonce now k' n' x' claims)) (claim_key k n) = Some x"
    and "snd (claim_nonce now k n x' claims) = False"
proof -
  have kept: "map_get (filter (\<lambda>(storedKey, storedExpiry). \<not> storedExpiry < now) claims) (claim_key k n) = Some x"
    by (rule map_get_filter [OF assms(1)]) (use assms(2) in simp)
  with assms(2) show "snd (claim_nonce now k n x' claims) = False" by (simp add: claim_nonce_def)
  show "map_get (fst (claim_nonce now k' n' x' claims)) (claim_key k n) = Some x"
    using kept assms(2) by (auto simp: claim_nonce_def Let_def split: option.splits)
qed

lemma claim_nonce_stored:
  "snd (claim_nonce now k n x claims) \<Longrightarrow> map_get (fst (claim_nonce now k n x claims)) (claim_key k n) = Some x"
  by (auto simp: claim_nonce_def Let_def split: option.splits if_splits)

lemma input_parameters_Some:
  "input_parameters params = Some input \<Longrightarrow> map_get params ''keyid'' = Some (SF_String (si_keyid input)) \<and>
     map_get params ''nonce'' = Some (SF_String (si_nonce input)) \<and>
     (\<exists>c. map_get params ''created'' = Some c \<and> safe_integer c = Some (si_created input)) \<and>
     (\<exists>x. map_get params ''expires'' = Some x \<and> safe_integer x = Some (si_expires input))"
  by (auto simp: input_parameters_def split: option.splits sf_bare.splits if_splits)

lemma coveredFields_Some:
  "coveredFields H items = Some (names, serialized) \<Longrightarrow> items = map (\<lambda>name. (SF_String name, [])) names"
proof (induction items arbitrary: names serialized)
  case (Cons item items)
  then show ?case
    by (auto simp: coveredFields_def covered_name_def split: if_splits sf_bare.splits list.splits prod.splits)
qed (simp add: coveredFields_def)

lemma verification_key_Inr:
  "verification_key H input = Inr jwk \<Longrightarrow> didJwkToJwk H (si_keyid input) = Some jwk"
  by (auto simp: verification_key_def split: option.splits if_splits)

text \<open>The signature inputs that carry the profile's tag.\<close>

definition mpas_tagged :: "string \<times> sf_member \<Rightarrow> bool" where
  "mpas_tagged m \<longleftrightarrow> (case snd m of SF_Inner items params \<Rightarrow> map_get params ''tag'' = Some (SF_String ''mpas-v1'')
     | SF_Item _ _ \<Rightarrow> False)"

lemma select_candidate_Some:
  assumes "select_candidate inputs = Some (label, items, params)"
  shows "filter mpas_tagged inputs = [(label, SF_Inner items params)]"
proof -
  have "mpas_tagged = (\<lambda>(label, v). case v of SF_Inner items params \<Rightarrow> map_get params ''tag'' = Some (SF_String MPAS_SIGNATURE_TAG)
        | SF_Item _ _ \<Rightarrow> False)"
    by (rule ext) (auto simp: mpas_tagged_def MPAS_SIGNATURE_TAG_def split: sf_member.splits)
  then show ?thesis
    using assms by (auto simp: select_candidate_def split: list.splits prod.splits sf_member.splits)
qed

definition max_lifetime_of :: "verify_options \<Rightarrow> int" where
  "max_lifetime_of options = int_of_num (case vo_maxLifetimeSeconds options of
     None \<Rightarrow> num_of_int MPAS_MAX_SIGNATURE_LIFETIME_SECONDS | Some n \<Rightarrow> n)"

definition clock_skew_of :: "verify_options \<Rightarrow> int" where
  "clock_skew_of options = int_of_num (case vo_clockSkewSeconds options of None \<Rightarrow> Fin 30 | Some n \<Rightarrow> n)"

definition verification_time :: "int \<Rightarrow> verify_options \<Rightarrow> int" where
  "verification_time clock options = (case vo_now options of None \<Rightarrow> clock | Some t \<Rightarrow> t)"

lemma policy_lifetime:
  assumes "validVerificationPolicy n skew" shows "0 < int_of_num n \<and> int_of_num n \<le> 60"
proof -
  obtain k where "n = Fin (of_int k)" using assms by (auto simp: validVerificationPolicy_def num_is_integer_iff)
  with assms show ?thesis
    by (simp add: validVerificationPolicy_def int_of_num_def num_of_int_def MPAS_MAX_SIGNATURE_LIFETIME_SECONDS_def)
qed

text \<open>
  C9. A verified request is authentic: exactly one of its signature inputs carries the
  profile's tag, that signature covers exactly the method, the path and the content digest, it
  verifies under the key of the identity that is reported, the digest is that of the body,
  the body names one of the audiences, and the time is within a lifetime of at most a
  minute.
\<close>

theorem verified_request_is_authentic:
  assumes "verifyMpasRfc9421 H clock options = Inr a"
  shows "(\<exists>inputHeader signatureHeader inputs signatures params serialized signature base jwk.
      headerValue H (vo_headers options) ''signature-input'' = Some inputHeader \<and> parse_dictionary H inputHeader = Some inputs \<and>
      headerValue H (vo_headers options) ''signature'' = Some signatureHeader \<and> parse_dictionary H signatureHeader = Some signatures \<and>
      filter mpas_tagged inputs = [(au_label a, SF_Inner (map (\<lambda>name. (SF_String name, [])) [''@method'', ''@path'', ''content-digest'']) params)] \<and>
      map_get params ''keyid'' = Some (SF_String (au_did a)) \<and> map_get params ''nonce'' = Some (SF_String (au_nonce a)) \<and>
      map_get signatures (au_label a) = Some (SF_Item (SF_Bytes signature) []) \<and>
      signatureBase H options serialized (map (\<lambda>name. (SF_String name, [])) [''@method'', ''@path'', ''content-digest'']) params = Some base \<and>
      didJwkToJwk H (au_did a) = Some jwk \<and> verifySuiteBytes H jwk (utf8_bytes H base) signature) \<and>
    verifyContentDigest H (vo_headers options) (vo_body options) = Digest_Valid \<and>
    validAudience H (vo_body options) (vo_audiences options) \<and>
    au_createdAt a \<le> 1000 * (verification_time clock options div 1000 + clock_skew_of options) \<and>
    1000 * (verification_time clock options div 1000) \<le> au_expiresAt a \<and>
    au_createdAt a < au_expiresAt a \<and> au_expiresAt a - au_createdAt a \<le> 1000 * max_lifetime_of options \<and> max_lifetime_of options \<le> 60"
proof -
  obtain ih sh inputs signatures label items params signature serialized input jwk base where
    v: "headerValue H (vo_headers options) ''signature-input'' = Some ih" "headerValue H (vo_headers options) ''signature'' = Some sh"
      "parse_dictionary H ih = Some inputs" "parse_dictionary H sh = Some signatures"
      "select_candidate inputs = Some (label, items, params)" "map_get signatures label = Some (SF_Item (SF_Bytes signature) [])"
      "coveredFields H items = Some (MPAS_COVERED_COMPONENTS, serialized)" "input_parameters params = Some input"
      "verification_key H input = Inr jwk" "signatureBase H options serialized items params = Some base"
      "verifySuiteBytes H jwk (utf8_bytes H base) signature" "verifyContentDigest H (vo_headers options) (vo_body options) = Digest_Valid"
      "validAudience H (vo_body options) (vo_audiences options)"
      "validVerificationPolicy (case vo_maxLifetimeSeconds options of None \<Rightarrow> num_of_int MPAS_MAX_SIGNATURE_LIFETIME_SECONDS | Some n \<Rightarrow> n)
         (case vo_clockSkewSeconds options of None \<Rightarrow> Fin 30 | Some n \<Rightarrow> n)"
      "is_fresh (si_created input) (si_expires input) (max_lifetime_of options) (verification_time clock options div 1000) (clock_skew_of options)"
    and a: "a = \<lparr>au_did = si_keyid input, au_nonce = si_nonce input, au_createdAt = si_created input * 1000,
       au_expiresAt = si_expires input * 1000, au_label = label\<rparr>"
    using assms
    by (auto simp: verifyMpasRfc9421_def Let_def max_lifetime_of_def [symmetric] clock_skew_of_def [symmetric] verification_time_def [symmetric]
        split: option.splits sf_member.splits sf_bare.splits list.splits digest_result.splits if_splits)
  have "max_lifetime_of options \<le> 60" using policy_lifetime [OF v(14)] by (simp add: max_lifetime_of_def)
  with v a show ?thesis
    using select_candidate_Some [OF v(5)] coveredFields_Some [OF v(7)] input_parameters_Some [OF v(8)] verification_key_Inr [OF v(9)]
    unfolding MPAS_COVERED_COMPONENTS_def [symmetric] by (auto simp: is_fresh_def)
qed

section \<open>A verified request\<close>

text \<open>A toy host: fixed dictionaries and texts, every signature accepted.\<close>

definition ha_key_text :: string where
  "ha_key_text = ''{\"kty\":\"OKP\",\"crv\":\"Ed25519\",\"x\":\"'' @ replicate 43 (CHR ''A'') @ ''\",\"audience\":\"https://s\"}''"

definition ha_key :: jsval where
  "ha_key = Obj [(''kty'', Str ''OKP''), (''crv'', Str ''Ed25519''), (''x'', Str (replicate 43 (CHR ''A''))), (''audience'', Str ''https://s'')]"

definition ha_params :: sf_params where
  "ha_params = [(''created'', SF_Number (Fin 1)), (''expires'', SF_Number (Fin 5)), (''keyid'', SF_String ''did:jwk:AAAA''),
     (''nonce'', SF_String ''n''), (''tag'', SF_String ''mpas-v1''), (''alg'', SF_String ''ed25519'')]"

definition ha_dictionary :: "string \<Rightarrow> (string, sf_member) jsmap option" where
  "ha_dictionary s = (if s = ''i'' then Some [(''mpas'', SF_Inner (map (\<lambda>name. (SF_String name, [])) MPAS_COVERED_COMPONENTS) ha_params)]
     else if s = ''s'' then Some [(''mpas'', SF_Item (SF_Bytes (replicate 64 (CHR ''A''))) [])]
     else if s = ''d'' then Some [(''sha-256'', SF_Item (SF_Bytes ''h'') [])] else None)"

definition ha_host :: http_host where
  "ha_host = \<lparr>jcs = (\<lambda>v. []), sha256 = (\<lambda>s. ''h''), legacy_date = (\<lambda>s. None), url_parse = (\<lambda>s. None),
     utf8_text = (\<lambda>bs. ha_key_text), wide_unit = (\<lambda>n. []), p256_point = (\<lambda>x y. False),
     compact_verify = (\<lambda>alg key jws. None), parse_dictionary = ha_dictionary, serialize_item = (\<lambda>v ps. []),
     serialize_inner = (\<lambda>items ps. Some []), serialize_digest = (\<lambda>bs. ''d''), request_url = (\<lambda>path. Some path),
     create_base = (\<lambda>fields r. Some []), format_base = (\<lambda>base. []), sha256_bytes = (\<lambda>bs. ''h''), utf8_bytes = (\<lambda>s. s),
     verify_signature = (\<lambda>suite key bs sig. True), header_number = (\<lambda>r. []), url_members = (\<lambda>s. None),
     sign_message = (\<lambda>label fields params sign r. None)\<rparr>"

definition ha_options :: verify_options where
  "ha_options = \<lparr>vo_method = ''POST'', vo_path = ''/p'',
     vo_headers = [(''signature-input'', Header_Text ''i''), (''signature'', Header_Text ''s''), (''content-digest'', Header_Text ''d'')],
     vo_body = ''b'', vo_audiences = [''https://s''], vo_now = Some 2000, vo_clockSkewSeconds = None, vo_maxLifetimeSeconds = None\<rparr>"

lemma ha_parsed: "parse_strict ha_host ha_key_text = Some ha_key"
  by code_simp

lemma ha_public: "validatePublicJwk ha_host ha_key (Some Verify_Op) = Some Ed25519"
  by code_simp

lemma ha_did: "didJwkToJwk ha_host ''did:jwk:AAAA'' = Some ha_key"
proof -
  have d: "decodeBase64url ''AAAA'' False \<noteq> None" by code_simp
  have t: "utf8_text ha_host bs = ha_key_text" for bs by (simp add: ha_host_def)
  have r: "is_record ha_key" by (simp add: ha_key_def)
  from d r show ?thesis
    by (auto simp: didJwkToJwk_def isDidJwk_def starts_with_def t ha_parsed ha_public)
qed

lemma ha_verified: "verifyMpasRfc9421 ha_host 0 ha_options =
    Inr \<lparr>au_did = ''did:jwk:AAAA'', au_nonce = ''n'', au_createdAt = 1000, au_expiresAt = 5000, au_label = ''mpas''\<rparr>"
proof -
  have h: "headerValue ha_host (vo_headers ha_options) ''signature-input'' = Some ''i''"
    "headerValue ha_host (vo_headers ha_options) ''signature'' = Some ''s''"
    "headerValue ha_host (vo_headers ha_options) ''content-digest'' = Some ''d''" by code_simp+
  have p: "parse_dictionary ha_host = ha_dictionary" "sha256_bytes ha_host b = ''h''" "utf8_text ha_host b = ha_key_text" for b
    by (simp_all add: ha_host_def)
  have c: "select_candidate [(''mpas'', SF_Inner (map (\<lambda>name. (SF_String name, [])) MPAS_COVERED_COMPONENTS) ha_params)] =
      Some (''mpas'', map (\<lambda>name. (SF_String name, [])) MPAS_COVERED_COMPONENTS, ha_params)"
    by (simp add: select_candidate_def ha_params_def MPAS_SIGNATURE_TAG_def)
  have f: "coveredFields ha_host (map (\<lambda>name. (SF_String name, [])) MPAS_COVERED_COMPONENTS) = Some (MPAS_COVERED_COMPONENTS, [[], [], []])"
    by (simp add: coveredFields_def covered_name_def ha_host_def MPAS_COVERED_COMPONENTS_def)
  have i: "input_parameters ha_params = Some \<lparr>si_created = 1, si_expires = 5, si_keyid = ''did:jwk:AAAA'', si_nonce = ''n'', si_alg = Some ''ed25519''\<rparr>"
    by code_simp
  have policy: "validVerificationPolicy (num_of_int MPAS_MAX_SIGNATURE_LIFETIME_SECONDS) (Fin 30)" by code_simp
  have k: "verification_key ha_host \<lparr>si_created = 1, si_expires = 5, si_keyid = ''did:jwk:AAAA'', si_nonce = ''n'', si_alg = Some ''ed25519''\<rparr> = Inr ha_key"
    by (simp add: verification_key_def ha_did ha_public)
  have b: "signatureBase ha_host ha_options ss items ps = Some []" for ss items ps
    by (simp add: signatureBase_def signatureRequest_def ha_host_def)
  have "verifySuiteBytes ha_host ha_key m (replicate 64 (CHR ''A''))" for m
    by (simp add: verifySuiteBytes_def ha_public validateSignatureEncoding_def) (simp add: ha_host_def)
  moreover have "int_of_num (num_of_int MPAS_MAX_SIGNATURE_LIFETIME_SECONDS) = 60" "int_of_num (Fin 30) = 30" by code_simp+
  moreover have "vo_maxLifetimeSeconds ha_options = None" "vo_clockSkewSeconds ha_options = None" "vo_now ha_options = Some 2000"
    "vo_audiences ha_options = [''https://s'']" by (simp_all add: ha_options_def)
  moreover have "is_record ha_key" "js_get ha_key ''audience'' = Str ''https://s''" by (simp_all add: ha_key_def)
  ultimately show ?thesis using h p c f i k b policy
    by (simp add: verifyMpasRfc9421_def Let_def ha_dictionary_def verifyContentDigest_def validAudience_def ha_parsed is_fresh_def)
qed

theorem verified_request_is_authentic_witness:
  "verifyContentDigest ha_host (vo_headers ha_options) (vo_body ha_options) = Digest_Valid \<and>
   validAudience ha_host (vo_body ha_options) (vo_audiences ha_options)"
  using verified_request_is_authentic [OF ha_verified] by blast

section \<open>Nonces are used once\<close>

fun run_claims :: "nonce_store \<Rightarrow> (int \<times> did \<times> string \<times> int) list \<Rightarrow> bool list" where
  "run_claims claims [] = []"
| "run_claims claims ((now, keyid, nonce, expiresAt) # cs) =
    (case claim_nonce now keyid nonce expiresAt claims of (claims', claimed) \<Rightarrow> claimed # run_claims claims' cs)"

lemma run_claims_refused:
  assumes "map_get claims (claim_key k n) = Some x" and "j < length cs" and "cs ! j = (t, k, n, x')"
    and "\<forall>i \<le> j. fst (cs ! i) \<le> x"
  shows "\<not> run_claims claims cs ! j"
  using assms
proof (induction cs arbitrary: claims j)
  case (Cons c cs)
  obtain now k' n' y where c: "c = (now, k', n', y)" by (cases c) auto
  have "now \<le> x" using Cons.prems(4) c by force
  note kept = claim_nonce_kept [OF Cons.prems(1) this]
  show ?case
  proof (cases j)
    case 0
    with Cons.prems(3) c have "c = (t, k, n, x')" by simp
    with kept(2) c 0 show ?thesis by (simp split: prod.split) (metis snd_conv)
  next
    case (Suc m)
    have "\<not> run_claims (fst (claim_nonce now k' n' y claims)) cs ! m"
      using Cons.prems(2-4) Suc by (intro Cons.IH [OF kept(1)]) force+
    with Suc c show ?thesis by (simp add: split_def)
  qed
qed simp

text \<open>
  A nonce is used once: while the clock does not go back, a second claim of the same
  nonce by the same identity can succeed only after the expiry stored with the first. For a
  request that is authenticated again this leaves the fraction of a second after its expiry
  in which the whole-second freshness test still accepts it.
\<close>

theorem nonce_single_use:
  assumes "sorted (map fst cs)" and "i < j" and "j < length cs"
    and "cs ! i = (t1, k, n, x1)" and "cs ! j = (t2, k, n, x2)"
    and "run_claims claims cs ! i" and "run_claims claims cs ! j"
  shows "x1 < t2 \<and> (x1 = 1000 * expires \<and> is_fresh created expires lifetime (t2 div 1000) skew \<longrightarrow>
    t2 div 1000 = expires \<and> 0 < t2 mod 1000)"
proof -
  have "x1 < t2"
    using assms
  proof (induction cs arbitrary: claims i j)
    case (Cons c cs)
    obtain now k' n' y where c: "c = (now, k', n', y)" by (cases c) auto
    let ?claims = "fst (claim_nonce now k' n' y claims)"
    obtain m where m: "j = Suc m" "m < length cs" using Cons.prems(2,3) by (cases j) auto
    have later: "run_claims ?claims cs ! m" using Cons.prems(7) c m by (simp add: split_def)
    show ?case
    proof (cases i)
      case 0
      with Cons.prems(4,6) c have first: "k' = k" "n' = n" "y = x1" "snd (claim_nonce now k n x1 claims)"
        by (auto simp: split_def)
      have stored: "map_get ?claims (claim_key k n) = Some x1" using claim_nonce_stored [OF first(4)] first by simp
      have at_j: "cs ! m = (t2, k, n, x2)" using Cons.prems(5) m by simp
      have le: "fst (cs ! q) \<le> t2" if "q \<le> m" for q
        using sorted_nth_mono [of "map fst cs" q m] Cons.prems(1) m(2) that at_j by simp
      have "\<not> (\<forall>q \<le> m. fst (cs ! q) \<le> x1)" using run_claims_refused [OF stored m(2) at_j] later by blast
      then obtain q where "q \<le> m" "x1 < fst (cs ! q)" by force
      with le show ?thesis by fastforce
    next
      case (Suc i')
      with Cons.prems m c have "run_claims ?claims cs ! i'" by (simp add: split_def)
      with Cons.IH [of i' m ?claims] Cons.prems Suc m later show ?thesis by simp
    qed
  qed simp
  moreover have "t2 div 1000 = expires \<and> 0 < t2 mod 1000" if "x1 = 1000 * expires" "t2 div 1000 \<le> expires"
  proof -
    have "1000 * expires div 1000 \<le> t2 div 1000" using that(1) \<open>x1 < t2\<close> by (intro zdiv_mono1) simp_all
    with that(2) have "t2 div 1000 = expires" by simp
    with minus_mult_div_eq_mod [of t2 1000] that(1) \<open>x1 < t2\<close> show ?thesis by simp
  qed
  ultimately show ?thesis by (auto simp: is_fresh_def)
qed

theorem nonce_single_use_witness:
  "(5000 :: int) < 5001 \<and> (5000 = 1000 * (5 :: int) \<and> is_fresh 0 5 60 (5001 div 1000) 30 \<longrightarrow> 5001 div 1000 = (5 :: int) \<and> 0 < (5001 :: int) mod 1000)"
  by (rule nonce_single_use [where cs = "[(1000, ''k'', ''n'', 5000), (5001, ''k'', ''n'', 5000)]" and i = 0 and j = 1 and claims = "[]"])
    (simp_all add: claim_nonce_def)

text \<open>The replay that the last fraction of a second admits.\<close>

lemma replay_in_last_second:
  "run_claims [] [(1000, ''k'', ''n'', 5000), (5001, ''k'', ''n'', 5000), (5002, ''k'', ''n'', 5000)] = [True, True, True]"
  "is_fresh 1 5 60 (5001 div 1000) 30" "is_fresh 1 5 60 (5002 div 1000) 30"
  by (simp_all add: claim_nonce_def is_fresh_def)

end
