(* ===== verification/NotificationHub.thy ===== *)
theory NotificationHub
  imports HttpAuth
begin

text \<open>
  The notification hub of the coordination service, \<open>cli/src/coordination/notifications.ts\<close>:
  tickets for web socket connections and the connections of each identity. A socket is a
  number. The sets of sockets are in a heap, because the handler of a closed socket keeps
  the set that the socket was bound to while the map may hold another one by then.
  \<open>hub_open\<close> are the sockets whose \<open>readyState\<close> is open and \<open>hub_sent\<close> the sockets that were sent
  a frame, in order. The random ticket and the clock readings are arguments.
\<close>

record ticket_record =
  tk_did :: did
  tk_expiresAt :: int
  tk_consumed :: bool

record hub =
  hub_tickets :: "(string, ticket_record) jsmap"
  hub_sets :: "nat list list"
  hub_connections :: "(did, nat) jsmap"
  hub_open :: "nat list"
  hub_sent :: "nat list"

definition newHub :: hub where
  "newHub = \<lparr>hub_tickets = [], hub_sets = [], hub_connections = [], hub_open = [], hub_sent = []\<rparr>"

definition hashTicket :: "('a) host_scheme \<Rightarrow> string \<Rightarrow> string" where
  "hashTicket H ticket = sha256 H ticket"

definition MAX_TICKET_LIFETIME_MS :: int where
  "MAX_TICKET_LIFETIME_MS = 5 * 60000"

text \<open>\<open>issue\<close>: the new hub and the expiry of the ticket.\<close>

definition issue :: "('a) host_scheme \<Rightarrow> (nat \<Rightarrow> int) \<Rightarrow> did \<Rightarrow> int \<Rightarrow> string \<Rightarrow> hub \<Rightarrow> hub \<times> int" where
  "issue H clock did lifetimeMs ticket h =
    (let kept = filter (\<lambda>(k, r). \<not> (tk_expiresAt r \<le> clock 0 \<or> tk_consumed r)) (hub_tickets h);
         expiresAt = clock 1 + min lifetimeMs MAX_TICKET_LIFETIME_MS
     in (h\<lparr>hub_tickets := map_set (hashTicket H ticket) \<lparr>tk_did = did, tk_expiresAt = expiresAt, tk_consumed = False\<rparr> kept\<rparr>, expiresAt))"

definition sockets_of :: "hub \<Rightarrow> did \<Rightarrow> nat list" where
  "sockets_of h did = (case map_get (hub_connections h) did of None \<Rightarrow> [] | Some address \<Rightarrow> hub_sets h ! address)"

definition notify_sockets :: "did list \<Rightarrow> hub \<Rightarrow> hub" where
  "notify_sockets dids h = h\<lparr>hub_sent := hub_sent h @
     filter (\<lambda>socket. socket \<in> set (hub_open h)) (concat (map (sockets_of h) (unique dids)))\<rparr>"

text \<open>The token of \<open>/^Bearer ([A-Za-z0-9_-]+)$/\<close>.\<close>

definition bearer_token :: "string option \<Rightarrow> string option" where
  "bearer_token authorization = (case authorization of None \<Rightarrow> None
     | Some v \<Rightarrow> if starts_with ''Bearer '' v \<and> drop 7 v \<noteq> [] \<and> list_all b64_alphabet (drop 7 v) then Some (drop 7 v) else None)"

text \<open>\<open>handleUpgrade\<close> up to the binding of the socket: the identity that the ticket is for, or \<open>None\<close> for a refusal.\<close>

definition handleUpgrade :: "('a) host_scheme \<Rightarrow> int \<Rightarrow> string option \<Rightarrow> hub \<Rightarrow> hub \<times> did option" where
  "handleUpgrade H now authorization h = (case bearer_token authorization of
       None \<Rightarrow> (h, None)
     | Some token \<Rightarrow> (case map_get (hub_tickets h) (hashTicket H token) of
           None \<Rightarrow> (h, None)
         | Some r \<Rightarrow> if tk_consumed r \<or> tk_expiresAt r \<le> now then (h, None)
             else (h\<lparr>hub_tickets := map_delete (hashTicket H token) (hub_tickets h)\<rparr>, Some (tk_did r))))"

text \<open>\<open>bind\<close>, before it asks for outstanding work: the new hub and the set of the socket.\<close>

definition bind_socket :: "did \<Rightarrow> nat \<Rightarrow> hub \<Rightarrow> hub \<times> nat" where
  "bind_socket did socket h =
    (let (sets, address) = (case map_get (hub_connections h) did of
           Some a \<Rightarrow> ((hub_sets h)[a := (if socket \<in> set (hub_sets h ! a) then hub_sets h ! a else hub_sets h ! a @ [socket])], a)
         | None \<Rightarrow> (hub_sets h @ [[socket]], length (hub_sets h)))
     in (h\<lparr>hub_sets := sets, hub_connections := map_set did address (hub_connections h),
           hub_open := socket # removeAll socket (hub_open h)\<rparr>, address))"

text \<open>The handler of \<open>close\<close> and \<open>error\<close> of a socket that was bound for \<open>did\<close> to the set at \<open>address\<close>.\<close>

definition remove_socket :: "did \<Rightarrow> nat \<Rightarrow> nat \<Rightarrow> hub \<Rightarrow> hub" where
  "remove_socket did address socket h =
    (let sockets = removeAll socket (hub_sets h ! address)
     in h\<lparr>hub_sets := (hub_sets h)[address := sockets],
          hub_connections := (if sockets = [] then map_delete did (hub_connections h) else hub_connections h),
          hub_open := removeAll socket (hub_open h)\<rparr>)"

text \<open>\<open>close\<close>: every bound socket is closed.\<close>

definition close_hub :: "hub \<Rightarrow> hub" where
  "close_hub h = h\<lparr>hub_open := filter (\<lambda>socket. \<not> list_ex (\<lambda>(did, address). socket \<in> set (hub_sets h ! address)) (hub_connections h))
     (hub_open h)\<rparr>"

text \<open>
  Both events of a failing socket call the handler. When a new socket of the identity is
  bound between them, the second call sees the old set, which is empty, and drops the
  new set: the new socket stays open and is never notified.
\<close>

lemma reconnected_socket_is_dropped:
  fixes d :: did
  defines "h1 \<equiv> fst (bind_socket d 1 newHub)"
  defines "h2 \<equiv> remove_socket d 0 1 h1"
  defines "h3 \<equiv> fst (bind_socket d 2 h2)"
  shows "hub_open (remove_socket d 0 1 h3) = [2]" "hub_sent (notify_sockets [d] h3) = [2]"
    "hub_sent (notify_sockets [d] (remove_socket d 0 1 h3)) = []"
  by (simp_all add: h1_def h2_def h3_def newHub_def bind_socket_def remove_socket_def notify_sockets_def sockets_of_def unique_def)

end
