(* ===== verification/CoordinationServer.thy ===== *)
theory CoordinationServer
  imports NotificationHub CoordinationProperties
begin

text \<open>
  The HTTP service around the coordination store, \<open>cli/src/coordination/coordination-api-server.ts\<close>,
  with \<open>runIdempotent\<close> of \<open>store.ts\<close>, as a state machine of concurrent requests. A handler runs
  between its awaits without interruption; its stretches are the steps \<open>Arrive\<close> (the body
  parser and the authentication), \<open>Handle\<close> (the checks and the claim of the nonce), \<open>Run\<close> (up to
  the scheduled operation), \<open>Execute\<close> (the operation) and \<open>Finish\<close> (the reply). A handler that
  awaits nothing between two of them may here be interrupted there, which only adds runs.

  \<^item> The nonce store is the one in memory; the requests to the health endpoint and the trace
    events change nothing and are left out.
  \<^item> An Approval whose decision is none of the four of its type is outside the type of the store's
    operation; its request stays unanswered.
  \<^item> \<open>sv_log\<close> records the store operations and \<open>sv_executed\<close> who had them executed; the service
    never reads them.
\<close>

record server_host = http_host +
  decode_part :: "string \<Rightarrow> jsval option"
  websocket_text :: "string \<Rightarrow> string \<Rightarrow> string"

definition store_host :: "('a) server_host_scheme \<Rightarrow> coordination_host" where
  "store_host H = \<lparr>jcs = jcs H, sha256 = sha256 H, legacy_date = legacy_date H, url_parse = url_parse H, decode_json = decode_part H\<rparr>"

section \<open>Options\<close>

record server_options =
  sv_enforcement :: bool
  sv_audiences :: "string list"
  sv_clockSkewSeconds :: jsnum
  sv_signatureLifetimeSeconds :: jsnum
  sv_designatedVerifierDid :: "did option"
  sv_authorizedRecipients :: "did list"
  sv_notificationOrigin :: "string option"

definition resolveAuthOptions ::
    "('a) http_host_scheme \<Rightarrow> bool option \<Rightarrow> string list option \<Rightarrow> jsnum option \<Rightarrow> jsnum option \<Rightarrow>
     string + bool \<times> string list \<times> jsnum \<times> jsnum" where
  "resolveAuthOptions H enforcement_option audiences_option skew_option lifetime_option =
    (let enforcement = (case enforcement_option of Some b \<Rightarrow> b | None \<Rightarrow> False);
         audiences = (case audiences_option of Some xs \<Rightarrow> xs | None \<Rightarrow> []);
         skew = (case skew_option of Some n \<Rightarrow> n | None \<Rightarrow> Fin 30);
         lifetime = (case lifetime_option of Some n \<Rightarrow> n | None \<Rightarrow> num_of_int MPAS_MAX_SIGNATURE_LIFETIME_SECONDS)
     in if \<not> num_is_integer skew \<or> num_lt skew (Fin 0)
        then Inl ''Coordination authentication clockSkewSeconds must be a non-negative integer.''
        else if \<not> num_is_integer lifetime \<or> num_le lifetime (Fin 0) \<or> num_lt (num_of_int MPAS_MAX_SIGNATURE_LIFETIME_SECONDS) lifetime
        then Inl ''Coordination authentication signatureLifetimeSeconds must be from 1 to 60.''
        else if enforcement \<and> (audiences = [] \<or> list_ex (\<lambda>v. \<not> isValidMpasAudienceOrigin H v) audiences)
        then Inl ''Coordination authentication enforcement requires a non-empty set of valid canonical audience origins.''
        else Inr (enforcement, unique audiences, skew, lifetime))"

definition createServerOptions ::
    "('a) http_host_scheme \<Rightarrow> bool option \<Rightarrow> string list option \<Rightarrow> jsnum option \<Rightarrow> jsnum option \<Rightarrow> did option \<Rightarrow> did list option \<Rightarrow>
     string option \<Rightarrow> jsnum option \<Rightarrow> string + server_options" where
  "createServerOptions H enforcement audiences skew lifetime verifier recipients origin waitMs =
    and_then (resolveAuthOptions H enforcement audiences skew lifetime) (\<lambda>(enf, auds, sk, life).
    and_then (require (case waitMs of None \<Rightarrow> True | Some n \<Rightarrow> n \<noteq> PosInf \<and> num_lt (Fin 0) n)
      ''relayResponseWaitMs must be a positive number.'') (\<lambda>_.
    Inr \<lparr>sv_enforcement = enf, sv_audiences = auds, sv_clockSkewSeconds = sk, sv_signatureLifetimeSeconds = life,
      sv_designatedVerifierDid = verifier,
      sv_authorizedRecipients = unique ((case recipients of Some xs \<Rightarrow> xs | None \<Rightarrow> []) @
        (case verifier of Some v \<Rightarrow> if v = [] then [] else [v] | None \<Rightarrow> [])),
      sv_notificationOrigin = origin\<rparr>))"

section \<open>Requests and replies\<close>

datatype endpoint = Relay_Action | Relay_Delivery | Relay_Poll | Relay_Session | Coordination_Session
  | Workflow_Endpoint | Coordination_Poll | Approval_Endpoint | Cancel_Endpoint

text \<open>A body of one of the two JSON content types, or the value that another parser produced.\<close>

datatype request_content = Json_Content string | Other_Content jsval

record server_request =
  rq_endpoint :: endpoint
  rq_method :: string
  rq_url :: string
  rq_headers :: "(string \<times> header_value) list"
  rq_content :: request_content

datatype server_reply =
    Http_Error nat string string bool
  | Framework_Error nat string
  | Workflow_Reply nat workflow_response
  | Decision_Reply workflow_response
  | Relayed_Reply jsval
  | Delivered_Reply timestamp
  | Deliveries_Reply "delivery_envelope list" "string option"
  | Work_Reply "approval_request list" "action_update list"
  | Session_Reply string string string

definition replySignatureInvalid :: server_reply where
  "replySignatureInvalid = Http_Error 401 ''signature_invalid'' ''Signature verification failed.'' False"

definition replyPermissionDenied :: server_reply where
  "replyPermissionDenied = Http_Error 403 ''permission_denied'' ''The authenticated identity is not permitted for this request.'' False"

definition replyStoreError :: "service_error \<Rightarrow> server_reply" where
  "replyStoreError e = (case e of
       Service_Error status code message \<Rightarrow> Http_Error status code message (code = ''timeout'')
     | Plain_Error message \<Rightarrow> Framework_Error 500 message
     | Routing_Failure r \<Rightarrow> Framework_Error 500 (routing_message r))"

definition relay_timeout_error :: service_error where
  "relay_timeout_error = Service_Error 503 ''timeout'' ''The designated Verifier did not respond within this relay wait.''"

fun auth_code_text :: "auth_code \<Rightarrow> string" where
  "auth_code_text Authentication_Required = ''authentication_required''"
| "auth_code_text Signature_Invalid = ''signature_invalid''"
| "auth_code_text Artifact_Hash_Mismatch = ''artifact_hash_mismatch''"

fun auth_message :: "auth_code \<Rightarrow> string" where
  "auth_message Authentication_Required = ''Authentication is required.''"
| "auth_message Artifact_Hash_Mismatch = ''Request body digest does not match.''"
| "auth_message Signature_Invalid = ''Signature verification failed.''"

text \<open>The parsed body and the raw body that is kept for the digest.\<close>

definition parse_content :: "('a) http_host_scheme \<Rightarrow> request_content \<Rightarrow> server_reply + jsval \<times> string" where
  "parse_content H content = (case content of
       Json_Content text \<Rightarrow>
         (if text = [] then Inr (Undefined, utf8_bytes H text)
          else (case parse_strict H text of None \<Rightarrow> Inl (Framework_Error 400 ''Malformed JSON.'') | Some v \<Rightarrow> Inr (v, utf8_bytes H text)))
     | Other_Content v \<Rightarrow> Inr (v, []))"

datatype caller = Auth_Disabled | Authenticated_As auth_success

definition verify_request :: "server_options \<Rightarrow> int \<Rightarrow> server_request \<Rightarrow> string \<Rightarrow> verify_options" where
  "verify_request options now request body = \<lparr>vo_method = rq_method request, vo_path = rq_url request, vo_headers = rq_headers request,
     vo_body = body, vo_audiences = sv_audiences options, vo_now = Some now,
     vo_clockSkewSeconds = Some (sv_clockSkewSeconds options), vo_maxLifetimeSeconds = Some (sv_signatureLifetimeSeconds options)\<rparr>"

definition authenticateRequest ::
    "('a) http_host_scheme \<Rightarrow> server_options \<Rightarrow> int \<Rightarrow> server_request \<Rightarrow> string \<Rightarrow> server_reply + caller" where
  "authenticateRequest H options now request body =
    (if \<not> sv_enforcement options then Inr Auth_Disabled
     else case verifyMpasRfc9421 H now (verify_request options now request body) of
       Inl (Auth_Throws message) \<Rightarrow> Inl (Framework_Error 500 message)
     | Inl (Auth_Failure status code reason) \<Rightarrow> Inl (Http_Error status (auth_code_text code) (auth_message code) False)
     | Inr a \<Rightarrow> Inr (Authenticated_As a))"

text \<open>\<open>authenticated !== AUTH_DISABLED && authenticated.did !== v\<close>.\<close>

fun differs :: "caller \<Rightarrow> jsval \<Rightarrow> bool" where
  "differs Auth_Disabled v = False"
| "differs (Authenticated_As a) v = (Str (au_did a) \<noteq> v)"

section \<open>Operations\<close>

text \<open>What a request asks for once its checks have passed; \<open>Session_Op True\<close> is a relay session.\<close>

datatype server_op =
    Relay_Op delivery_envelope did
  | Create_Op jsval
  | Approve_Op approval_submission did
  | Cancel_Op string did
  | Delivery_Op delivery_envelope
  | Session_Op bool did

datatype op_result = Workflow_Result workflow_response | Relayed_Result nat

text \<open>The identity that an operation acts for.\<close>

fun principal :: "server_op \<Rightarrow> jsval" where
  "principal (Relay_Op envelope v) = Str (de_sender envelope)"
| "principal (Create_Op body) = js_get (js_get (actionEnvelope (js_get body ''actionPackage'')) ''proposer'') ''did''"
| "principal (Approve_Op submission signer) = Str signer"
| "principal (Cancel_Op actionId did) = Str did"
| "principal (Delivery_Op envelope) = Str (de_sender envelope)"
| "principal (Session_Op relay did) = Str did"

datatype preparation =
    Refused server_reply
  | Answered "coordination_cmd option" server_reply
  | Prepared_Op server_op "string option"
  | Untyped

definition submission_of :: "jsval \<Rightarrow> approval_submission option" where
  "submission_of body = (case decision_of (js_get (js_get body ''approval'') ''decision'') of
       None \<Rightarrow> None
     | Some d \<Rightarrow> Some \<lparr>sub_actionEnvelopeHash = hash_of (js_get body ''actionEnvelopeHash''), sub_approval = js_get body ''approval'',
         sub_decision = d\<rparr>)"

definition idempotency_header :: "server_request \<Rightarrow> jsval" where
  "idempotency_header request = (case map_of (rq_headers request) ''idempotency-key'' of
       Some (Header_Text t) \<Rightarrow> Str t | _ \<Rightarrow> Undefined)"

text \<open>A refusal carries the error of the checks; the checks are those before the nonce is claimed.\<close>

definition refuse_or :: "service_error + 'b \<Rightarrow> ('b \<Rightarrow> preparation) \<Rightarrow> preparation" where
  "refuse_or r f = (case r of Inl e \<Rightarrow> Refused (replyStoreError e) | Inr x \<Rightarrow> f x)"

definition prepare_relay ::
    "('a) server_host_scheme \<Rightarrow> server_options \<Rightarrow> int \<Rightarrow> coordination_store \<Rightarrow> server_request \<Rightarrow> caller \<Rightarrow> jsval \<Rightarrow> preparation" where
  "prepare_relay H options clock store request caller value =
    (case sv_designatedVerifierDid options of
       None \<Rightarrow> Refused (Http_Error 503 ''policy_unavailable'' ''No designated Verifier DID is configured.'' False)
     | Some verifier \<Rightarrow>
         if verifier = [] then Refused (Http_Error 503 ''policy_unavailable'' ''No designated Verifier DID is configured.'' False)
         else refuse_or (validateRelayedActionRequest (store_host H) clock value verifier) (\<lambda>body.
           if differs caller (Str (de_sender body)) then Refused replyPermissionDenied
           else if list_ex (\<lambda>did. did \<notin> set (sv_authorizedRecipients options)) (de_recipients body) then Refused replyPermissionDenied
           else refuse_or (effectiveIdempotencyKey (js_get (de_payload body) ''idempotencyKey'') (idempotency_header request)) (\<lambda>k.
             refuse_or (validateRelayedAction (store_host H) store body verifier) (\<lambda>_. Prepared_Op (Relay_Op body verifier) k))))"

definition prepare_delivery ::
    "('a) server_host_scheme \<Rightarrow> server_options \<Rightarrow> int \<Rightarrow> coordination_store \<Rightarrow> caller \<Rightarrow> jsval \<Rightarrow> preparation" where
  "prepare_delivery H options clock store caller value =
    refuse_or (validateResponseDelivery_request (store_host H) clock value) (\<lambda>body.
      if differs caller (Str (de_sender body)) \<or> differs caller (js_get (js_get (de_payload body) ''verifier'') ''did'')
      then Refused replyPermissionDenied
      else refuse_or (validateResponseDelivery (store_host H) store clock body (sv_authorizedRecipients options))
        (\<lambda>_. Prepared_Op (Delivery_Op body) None))"

definition prepare_session :: "(jsval \<Rightarrow> service_error + jsval) \<Rightarrow> bool \<Rightarrow> caller \<Rightarrow> jsval \<Rightarrow> preparation" where
  "prepare_session validate relay caller value = refuse_or (validate value) (\<lambda>body.
     if differs caller (js_get body ''did'') then Refused replyPermissionDenied
     else Prepared_Op (Session_Op relay (text_of (js_get body ''did''))) None)"

definition prepare_create ::
    "('a) server_host_scheme \<Rightarrow> int \<Rightarrow> coordination_store \<Rightarrow> server_request \<Rightarrow> caller \<Rightarrow> jsval \<Rightarrow> preparation" where
  "prepare_create H clock store request caller value =
    refuse_or (validateCoordinationActionRequest value) (\<lambda>body.
    refuse_or (effectiveIdempotencyKey (js_get body ''idempotencyKey'') (idempotency_header request)) (\<lambda>k.
      if differs caller (principal (Create_Op body)) then Refused replyPermissionDenied
      else refuse_or (validateCreateWorkflow (store_host H) store clock (js_get body ''actionPackage'') (js_get body ''authorizationRequirements''))
        (\<lambda>_. Prepared_Op (Create_Op body) k)))"

definition prepare_approval ::
    "('a) server_host_scheme \<Rightarrow> int \<Rightarrow> coordination_store \<Rightarrow> server_request \<Rightarrow> caller \<Rightarrow> jsval \<Rightarrow> preparation" where
  "prepare_approval H clock store request caller value =
    refuse_or (validateApprovalSubmission value) (\<lambda>body.
    refuse_or (effectiveIdempotencyKey (js_get body ''idempotencyKey'') (idempotency_header request)) (\<lambda>k.
      let h = text_of (js_get (js_get body ''actionEnvelopeHash'') ''value'');
          signerDid = decodeApprovalSignerDid (store_host H) (js_get body ''approval'') in
      if caller \<noteq> Auth_Disabled \<and> (\<not> truthy signerDid \<or> differs caller signerDid) then Refused replyPermissionDenied
      else if caller \<noteq> Auth_Disabled \<and> (\<not> hasActionEnvelopeHash store h \<or> \<not> isEligibleSigner store h (text_of signerDid))
      then Refused replyPermissionDenied
      else (case submission_of body of
          None \<Rightarrow> Untyped
        | Some submission \<Rightarrow> refuse_or (validateSubmitApproval (store_host H) store clock submission)
            (\<lambda>_. Prepared_Op (Approve_Op submission (text_of signerDid)) k))))"

definition prepare_cancel ::
    "('a) server_host_scheme \<Rightarrow> int \<Rightarrow> coordination_store \<Rightarrow> server_request \<Rightarrow> caller \<Rightarrow> jsval \<Rightarrow> preparation" where
  "prepare_cancel H clock store request caller value =
    refuse_or (validateCancelRequest value) (\<lambda>body.
    refuse_or (effectiveIdempotencyKey (js_get body ''idempotencyKey'') (idempotency_header request)) (\<lambda>k.
      let actionId = text_of (js_get (js_get body ''actionId'') ''value''); proposer = text_of (js_get body ''proposerDid'') in
      if caller \<noteq> Auth_Disabled \<and> (differs caller (js_get body ''proposerDid'') \<or>
          (case proposerForAction store actionId of None \<Rightarrow> True | Some stored \<Rightarrow> differs caller (Str stored)))
      then Refused replyPermissionDenied
      else refuse_or (validateCancelAction (store_host H) store clock actionId proposer)
        (\<lambda>_. Prepared_Op (Cancel_Op actionId proposer) k)))"

definition prepare_relay_poll :: "('a) server_host_scheme \<Rightarrow> int \<Rightarrow> coordination_store \<Rightarrow> caller \<Rightarrow> jsval \<Rightarrow> preparation" where
  "prepare_relay_poll H clock store caller value = refuse_or (validateRelayPollRequest value) (\<lambda>body.
     if differs caller (js_get body ''did'') then Refused replyPermissionDenied
     else refuse_or (pollDeliveries (store_host H) store clock (text_of (js_get body ''did'')) (text_opt (js_get body ''cursor'')))
       (\<lambda>(envelopes, cursor). Answered None (Deliveries_Reply envelopes cursor)))"

definition prepare_poll :: "('a) server_host_scheme \<Rightarrow> int \<Rightarrow> coordination_store \<Rightarrow> caller \<Rightarrow> jsval \<Rightarrow> preparation" where
  "prepare_poll H clock store caller value = refuse_or (validatePollRequest value) (\<lambda>body.
     if differs caller (js_get body ''did'') then Refused replyPermissionDenied
     else (let did = text_of (js_get body ''did'') in
       case poll (store_host H) store clock did of (s, requests, updates) \<Rightarrow> Answered (Some (Poll did)) (Work_Reply requests updates)))"

text \<open>The handler of an endpoint up to the claim of the nonce, or to its answer when it claims none.\<close>

definition prepare ::
    "('a) server_host_scheme \<Rightarrow> server_options \<Rightarrow> int \<Rightarrow> coordination_store \<Rightarrow> server_request \<Rightarrow> caller \<Rightarrow> jsval \<Rightarrow> preparation" where
  "prepare H options clock store request caller value = (case rq_endpoint request of
       Relay_Action \<Rightarrow> prepare_relay H options clock store request caller value
     | Relay_Delivery \<Rightarrow> prepare_delivery H options clock store caller value
     | Relay_Poll \<Rightarrow> prepare_relay_poll H clock store caller value
     | Relay_Session \<Rightarrow> prepare_session validateRelaySessionRequest True caller value
     | Coordination_Session \<Rightarrow> prepare_session validateSessionRequest False caller value
     | Workflow_Endpoint \<Rightarrow> prepare_create H clock store request caller value
     | Coordination_Poll \<Rightarrow> prepare_poll H clock store caller value
     | Approval_Endpoint \<Rightarrow> prepare_approval H clock store request caller value
     | Cancel_Endpoint \<Rightarrow> prepare_cancel H clock store request caller value)"

section \<open>The idempotency cache\<close>

definition IDEMPOTENCY_CACHE_TTL_MS :: int where
  "IDEMPOTENCY_CACHE_TTL_MS = 15 * 60000"

text \<open>A cached promise is the thread that runs the operation.\<close>

record idempotency_entry =
  ie_fingerprint :: string
  ie_owner :: nat
  ie_expiresAt :: int

definition idempotency_scope :: "string \<Rightarrow> did \<Rightarrow> string \<Rightarrow> string" where
  "idempotency_scope service did k = service @ [CHR 0x00] @ did @ [CHR 0x00] @ k"

datatype idempotent_run =
    Run_Throws service_error
  | Run_Joined nat
  | Run_Scheduled "string option"

text \<open>\<open>runIdempotent\<close> up to the scheduled operation, for the thread \<open>i\<close>.\<close>

definition runIdempotent ::
    "('a) host_scheme \<Rightarrow> int \<Rightarrow> string \<Rightarrow> did \<Rightarrow> string option \<Rightarrow> jsval \<Rightarrow> nat \<Rightarrow> (string, idempotency_entry) jsmap \<Rightarrow>
     (string, idempotency_entry) jsmap \<times> idempotent_run" where
  "runIdempotent H now service did k request i cache =
    (case k of None \<Rightarrow> (cache, Run_Scheduled None)
     | Some key_text \<Rightarrow>
         if key_text = [] then (cache, Run_Scheduled None)
         else let kept = filter (\<lambda>(cachedScope, entry). \<not> ie_expiresAt entry \<le> now) cache;
                  scope = idempotency_scope service did key_text
              in case computeIdempotencyFingerprint H request of
                   Inl e \<Rightarrow> (kept, Run_Throws (Routing_Failure e))
                 | Inr fingerprint \<Rightarrow> (case map_get kept scope of
                       Some entry \<Rightarrow>
                         if ie_fingerprint entry \<noteq> fingerprint
                         then (kept, Run_Throws (Service_Error 409 ''idempotency_conflict'' ''Idempotency key was reused with a different request.''))
                         else (kept, Run_Joined (ie_owner entry))
                     | None \<Rightarrow> (map_set scope \<lparr>ie_fingerprint = fingerprint, ie_owner = i, ie_expiresAt = now + IDEMPOTENCY_CACHE_TTL_MS\<rparr> kept,
                         Run_Scheduled (Some scope))))"

section \<open>The state\<close>

datatype thread_state =
    Entered caller jsval
  | Claimed caller server_op "string option" jsval
  | Scheduled server_op "string option"
  | Waiting_On nat server_op
  | Replied_With server_reply
  | Unanswered

record server_thread =
  st_request :: server_request
  st_caller :: "caller option"
  st_claimedAt :: "int option"
  st_state :: thread_state

record coordination_server =
  sr_store :: coordination_store
  sr_idempotency :: "(string, idempotency_entry) jsmap"
  sr_nonces :: nonce_store
  sr_coordinationHub :: hub
  sr_relayHub :: hub
  sr_threads :: "server_thread list"
  sr_outcomes :: "(nat, service_error + op_result) jsmap"
  sr_rejected :: "string list"
  sr_bindings :: "(bool \<times> did \<times> nat \<times> nat) list"
  sv_log :: "(int \<times> coordination_cmd) list"
  sv_executed :: "(nat \<times> server_op) list"

definition newServer :: "int option \<Rightarrow> coordination_server" where
  "newServer fixedNow = \<lparr>sr_store = newCoordinationStore fixedNow, sr_idempotency = [], sr_nonces = [], sr_coordinationHub = newHub,
     sr_relayHub = newHub, sr_threads = [], sr_outcomes = [], sr_rejected = [], sr_bindings = [], sv_log = [], sv_executed = []\<rparr>"

definition state_of :: "coordination_server \<Rightarrow> nat \<Rightarrow> thread_state" where
  "state_of s i = (if i < length (sr_threads s) then st_state (sr_threads s ! i) else Unanswered)"

definition set_state :: "nat \<Rightarrow> thread_state \<Rightarrow> coordination_server \<Rightarrow> coordination_server" where
  "set_state i x s = s\<lparr>sr_threads := (sr_threads s)[i := (sr_threads s ! i)\<lparr>st_state := x\<rparr>]\<rparr>"

definition log_command :: "int \<Rightarrow> coordination_cmd \<Rightarrow> coordination_server \<Rightarrow> coordination_server" where
  "log_command clock cmd s = s\<lparr>sv_log := sv_log s @ [(clock, cmd)]\<rparr>"

definition hub_notify :: "bool \<Rightarrow> did list \<Rightarrow> coordination_server \<Rightarrow> coordination_server" where
  "hub_notify relay dids s = (if relay then s\<lparr>sr_relayHub := notify_sockets dids (sr_relayHub s)\<rparr>
     else s\<lparr>sr_coordinationHub := notify_sockets dids (sr_coordinationHub s)\<rparr>)"

section \<open>The steps of a request\<close>

definition arrive :: "('a) http_host_scheme \<Rightarrow> server_options \<Rightarrow> int \<Rightarrow> server_request \<Rightarrow> coordination_server \<Rightarrow> coordination_server" where
  "arrive H options now request s =
    (let (caller, x) = (case parse_content H (rq_content request) of
           Inl r \<Rightarrow> (None, Replied_With r)
         | Inr (value, raw) \<Rightarrow> (case authenticateRequest H options now request raw of
               Inl r \<Rightarrow> (None, Replied_With r)
             | Inr c \<Rightarrow> (Some c, Entered c value)))
     in s\<lparr>sr_threads := sr_threads s @ [\<lparr>st_request = request, st_caller = caller, st_claimedAt = None, st_state = x\<rparr>]\<rparr>)"

text \<open>\<open>claimNonce\<close> of an authenticated caller.\<close>

definition claim_caller :: "int \<Rightarrow> nat \<Rightarrow> caller \<Rightarrow> coordination_server \<Rightarrow> coordination_server \<times> bool" where
  "claim_caller now i caller s = (case caller of
       Auth_Disabled \<Rightarrow> (s, True)
     | Authenticated_As a \<Rightarrow> (case claim_nonce now (au_did a) (au_nonce a) (au_expiresAt a) (sr_nonces s) of
           (nonces, claimed) \<Rightarrow> (s\<lparr>sr_nonces := nonces,
              sr_threads := (if claimed then (sr_threads s)[i := (sr_threads s ! i)\<lparr>st_claimedAt := Some now\<rparr>] else sr_threads s)\<rparr>, claimed)))"

definition handle ::
    "('a) server_host_scheme \<Rightarrow> server_options \<Rightarrow> (nat \<Rightarrow> int) \<Rightarrow> nat \<Rightarrow> coordination_server \<Rightarrow> coordination_server" where
  "handle H options clock i s = (case state_of s i of
       Entered caller value \<Rightarrow>
         (case prepare H options (clock 0) (sr_store s) (st_request (sr_threads s ! i)) caller value of
            Refused r \<Rightarrow> set_state i (Replied_With r) s
          | Untyped \<Rightarrow> set_state i Unanswered s
          | Answered cmd r \<Rightarrow> set_state i (Replied_With r) (case cmd of None \<Rightarrow> s
              | Some c \<Rightarrow> log_command (clock 0) c (s\<lparr>sr_store := coordination_step (store_host H) (sr_store s) (clock 0, c)\<rparr>))
          | Prepared_Op op k \<Rightarrow> (case claim_caller (clock 1) i caller s of
                (s', False) \<Rightarrow> set_state i (Replied_With replySignatureInvalid) s'
              | (s', True) \<Rightarrow> set_state i (Claimed caller op k value) s'))
     | _ \<Rightarrow> s)"

definition notificationWebSocketUrl :: "('a) server_host_scheme \<Rightarrow> string \<Rightarrow> string \<Rightarrow> service_error + string" where
  "notificationWebSocketUrl H origin path = (case url_members H origin of
       None \<Rightarrow> Inl (Service_Error 500 ''policy_unavailable'' ''Notification origin is not a valid URL.'')
     | Some url \<Rightarrow>
         if url_origin url \<noteq> origin \<or> (url_protocol url \<noteq> ''https:'' \<and> url_protocol url \<noteq> ''http:'')
         then Inl (Service_Error 500 ''policy_unavailable'' ''Notification origin must be a canonical HTTP(S) origin.'')
         else if url_protocol url \<noteq> ''https:'' \<and> \<not> (url_hostname url = ''localhost'' \<or> url_hostname url = ''127.0.0.1'' \<or> url_hostname url = ''[::1]'')
         then Inl (Service_Error 500 ''policy_unavailable'' ''Notification origin must use HTTPS outside local development.'')
         else Inr (websocket_text H (if url_protocol url = ''https:'' then ''wss:'' else ''ws:'') path))"

definition open_session ::
    "('a) server_host_scheme \<Rightarrow> server_options \<Rightarrow> (nat \<Rightarrow> int) \<Rightarrow> string \<Rightarrow> bool \<Rightarrow> did \<Rightarrow> coordination_server \<Rightarrow> coordination_server \<times> server_reply" where
  "open_session H options clock ticket relay did s =
    (let origin = (case sv_notificationOrigin options of Some t \<Rightarrow> t | None \<Rightarrow>
           (case sv_audiences options of a # rest \<Rightarrow> a | [] \<Rightarrow> ''http://127.0.0.1''));
         path = (if relay then ''/mpas/v1/relay/ws'' else ''/mpas/v1/coordination/ws'')
     in case notificationWebSocketUrl H origin path of
          Inl e \<Rightarrow> (s, replyStoreError e)
        | Inr url \<Rightarrow> (case issue H clock did MAX_TICKET_LIFETIME_MS ticket (if relay then sr_relayHub s else sr_coordinationHub s) of
              (h, expiresAt) \<Rightarrow> (if relay then s\<lparr>sr_relayHub := h\<rparr> else s\<lparr>sr_coordinationHub := h\<rparr>,
                Session_Reply url ticket (iso_of_ms expiresAt))))"

fun op_service :: "server_op \<Rightarrow> string" where
  "op_service (Relay_Op envelope v) = ''relay''"
| "op_service _ = ''coordination''"

definition op_request :: "server_op \<Rightarrow> jsval \<Rightarrow> jsval" where
  "op_request op value = (case op of Relay_Op envelope v \<Rightarrow> envelope_json envelope | _ \<Rightarrow> value)"

text \<open>From the claimed nonce to the scheduled operation; the operations without a key run here.\<close>

definition run_op ::
    "('a) server_host_scheme \<Rightarrow> server_options \<Rightarrow> (nat \<Rightarrow> int) \<Rightarrow> string \<Rightarrow> nat \<Rightarrow> coordination_server \<Rightarrow> coordination_server" where
  "run_op H options clock ticket i s = (case state_of s i of
       Claimed caller op k value \<Rightarrow> (case op of
           Delivery_Op body \<Rightarrow>
             (case submitResponseDelivery (store_host H) (sr_store s) (clock 0) body (sv_authorizedRecipients options) of
                (store, result) \<Rightarrow>
                  (let s' = s\<lparr>sr_store := store, sv_executed := sv_executed s @ [(i, op)]\<rparr>;
                       s'' = log_command (clock 0) (Submit_Response body (sv_authorizedRecipients options)) s'
                   in case result of
                        Inl e \<Rightarrow> set_state i (Replied_With (replyStoreError e)) s''
                      | Inr deliveredAt \<Rightarrow> hub_notify True (de_recipients body) (set_state i (Replied_With (Delivered_Reply deliveredAt)) s'')))
         | Session_Op relay did \<Rightarrow> (case open_session H options clock ticket relay did s of
               (s', r) \<Rightarrow> set_state i (Replied_With r) (s'\<lparr>sv_executed := sv_executed s @ [(i, op)]\<rparr>))
         | _ \<Rightarrow> (case runIdempotent H (store_now (sr_store s) (clock 0)) (op_service op) (text_of (principal op)) k
               (op_request op value) i (sr_idempotency s) of
               (cache, Run_Throws e) \<Rightarrow> set_state i (Replied_With (replyStoreError e)) (s\<lparr>sr_idempotency := cache\<rparr>)
             | (cache, Run_Joined owner) \<Rightarrow> set_state i (Waiting_On owner op) (s\<lparr>sr_idempotency := cache\<rparr>)
             | (cache, Run_Scheduled scope) \<Rightarrow> set_state i (Scheduled op scope) (s\<lparr>sr_idempotency := cache\<rparr>)))
     | _ \<Rightarrow> s)"

definition op_command :: "server_op \<Rightarrow> coordination_cmd option" where
  "op_command op = (case op of
       Relay_Op envelope verifier \<Rightarrow> Some (Begin_Relayed envelope verifier)
     | Create_Op body \<Rightarrow> Some (Create_Workflow (js_get body ''actionPackage'') (js_get body ''authorizationRequirements''))
     | Approve_Op submission signer \<Rightarrow> Some (Submit_Approval submission)
     | Cancel_Op actionId did \<Rightarrow> Some (Cancel_Action actionId did)
     | _ \<Rightarrow> None)"

text \<open>The scheduled operation: the store, its outcome, and whom a new relayed action notifies.\<close>

definition perform ::
    "('a) server_host_scheme \<Rightarrow> int \<Rightarrow> server_op \<Rightarrow> coordination_store \<Rightarrow> coordination_store \<times> (service_error + op_result) \<times> did list" where
  "perform H clock op store = (case op of
       Relay_Op envelope verifier \<Rightarrow> (case beginRelayedAction (store_host H) store clock envelope verifier of
           (store', Inl e) \<Rightarrow> (store', Inl e, [])
         | (store', Inr (created, r)) \<Rightarrow> (store', Inr (Relayed_Result r), if created then de_recipients envelope else []))
     | Create_Op body \<Rightarrow> (case createWorkflow (store_host H) store clock (js_get body ''actionPackage'') (js_get body ''authorizationRequirements'') of
           (store', Inl e) \<Rightarrow> (store', Inl e, []) | (store', Inr r) \<Rightarrow> (store', Inr (Workflow_Result r), []))
     | Approve_Op submission signer \<Rightarrow> (case submitApproval (store_host H) store clock submission of
           (store', Inl e) \<Rightarrow> (store', Inl e, []) | (store', Inr r) \<Rightarrow> (store', Inr (Workflow_Result r), []))
     | Cancel_Op actionId did \<Rightarrow> (case cancelAction (store_host H) store clock actionId did of
           (store', Inl e) \<Rightarrow> (store', Inl e, []) | (store', Inr r) \<Rightarrow> (store', Inr (Workflow_Result r), []))
     | _ \<Rightarrow> (store, Inl (Plain_Error []), []))"

definition execute :: "('a) server_host_scheme \<Rightarrow> int \<Rightarrow> nat \<Rightarrow> coordination_server \<Rightarrow> coordination_server" where
  "execute H clock i s = (case state_of s i of
       Scheduled op scope \<Rightarrow> (case op_command op of
           None \<Rightarrow> s
         | Some cmd \<Rightarrow> (case perform H clock op (sr_store s) of (store, outcome, notified) \<Rightarrow>
             hub_notify True notified (log_command clock cmd (set_state i (Waiting_On i op)
               (s\<lparr>sr_store := store, sr_outcomes := map_set i outcome (sr_outcomes s), sv_executed := sv_executed s @ [(i, op)],
                  sr_rejected := sr_rejected s @ (case (outcome, scope) of (Inl e, Some sc) \<Rightarrow> [sc] | _ \<Rightarrow> [])\<rparr>)))))
     | _ \<Rightarrow> s)"

text \<open>\<open>result.catch(() => this.idempotency.delete(scope))\<close>.\<close>

definition forget_rejected :: "coordination_server \<Rightarrow> coordination_server" where
  "forget_rejected s = (case sr_rejected s of [] \<Rightarrow> s
     | scope # rest \<Rightarrow> s\<lparr>sr_idempotency := map_delete scope (sr_idempotency s), sr_rejected := rest\<rparr>)"

definition coordinationRecipients :: "jsval \<Rightarrow> did list" where
  "coordinationRecipients body = (let r = approvalRequirements_of (js_get body ''authorizationRequirements'') in
     unique ([proposer_did (actionEnvelope (js_get body ''actionPackage''))] @
       concat (map at_eligibleSigners (opt_list (ar_anyOf r))) @ concat (map at_eligibleSigners (opt_list (ar_allOf r))) @
       map os_signer (opt_list (ar_overrideSigners r))))"

text \<open>The end of a handler, once the promise that it awaits is settled.\<close>

definition finish :: "nat \<Rightarrow> coordination_server \<Rightarrow> coordination_server" where
  "finish i s = (case state_of s i of
       Waiting_On owner op \<Rightarrow> (case map_get (sr_outcomes s) owner of
           None \<Rightarrow> s
         | Some (Inl e) \<Rightarrow> set_state i (Replied_With (replyStoreError e)) s
         | Some (Inr (Relayed_Result r)) \<Rightarrow> (case ra_response (cs_relayed (sr_store s) ! r) of
               None \<Rightarrow> s | Some v \<Rightarrow> set_state i (Replied_With (Relayed_Reply v)) s)
         | Some (Inr (Workflow_Result w)) \<Rightarrow> (case op of
               Create_Op body \<Rightarrow> hub_notify False (if wr_created w then coordinationRecipients body else [])
                 (set_state i (Replied_With (Workflow_Reply (if wr_created w then 201 else 200) w)) s)
             | Approve_Op submission signer \<Rightarrow>
                 hub_notify False (participantsForActionHash (sr_store s) (hash_value (sub_actionEnvelopeHash submission)))
                   (set_state i (Replied_With (Decision_Reply w)) s)
             | Cancel_Op actionId did \<Rightarrow> hub_notify False [did] (set_state i (Replied_With (Decision_Reply w)) s)
             | _ \<Rightarrow> s))
     | _ \<Rightarrow> s)"

text \<open>The timer of \<open>waitForRelayedResponse\<close>.\<close>

definition relay_timeout :: "nat \<Rightarrow> coordination_server \<Rightarrow> coordination_server" where
  "relay_timeout i s = (case state_of s i of
       Waiting_On owner (Relay_Op envelope v) \<Rightarrow> set_state i (Replied_With (replyStoreError relay_timeout_error)) s
     | _ \<Rightarrow> s)"

section \<open>Sockets\<close>

definition upgrade ::
    "('a) server_host_scheme \<Rightarrow> (nat \<Rightarrow> int) \<Rightarrow> bool \<Rightarrow> string option \<Rightarrow> nat \<Rightarrow> coordination_server \<Rightarrow> coordination_server" where
  "upgrade H clock relay authorization socket s =
    (case handleUpgrade H (clock 0) authorization (if relay then sr_relayHub s else sr_coordinationHub s) of
       (h, None) \<Rightarrow> (if relay then s\<lparr>sr_relayHub := h\<rparr> else s\<lparr>sr_coordinationHub := h\<rparr>)
     | (h, Some did) \<Rightarrow> (case bind_socket did socket h of (h', address) \<Rightarrow>
         (let s' = (if relay then s\<lparr>sr_relayHub := h'\<rparr> else s\<lparr>sr_coordinationHub := h'\<rparr>)
                \<lparr>sr_bindings := sr_bindings s @ [(relay, did, address, socket)]\<rparr>
          in if relay
             then (if hasOutstandingRelayWork (store_host H) (sr_store s) (clock 1) did then hub_notify True [did] s' else s')
             else (case hasOutstandingCoordinationWork (store_host H) (sr_store s) (clock 1) did of (store, outstanding) \<Rightarrow>
               let s'' = log_command (clock 1) (Outstanding did) (s'\<lparr>sr_store := store\<rparr>)
               in if outstanding then hub_notify False [did] s'' else s''))))"

text \<open>A \<open>close\<close> or \<open>error\<close> event of the \<open>n\<close>-th bound socket.\<close>

definition socket_event :: "nat \<Rightarrow> coordination_server \<Rightarrow> coordination_server" where
  "socket_event n s = (if n < length (sr_bindings s) then (case sr_bindings s ! n of (relay, did, address, socket) \<Rightarrow>
       if relay then s\<lparr>sr_relayHub := remove_socket did address socket (sr_relayHub s)\<rparr>
       else s\<lparr>sr_coordinationHub := remove_socket did address socket (sr_coordinationHub s)\<rparr>) else s)"

section \<open>The machine\<close>

datatype server_event =
    Arrive server_request
  | Handle nat
  | Run nat string
  | Execute nat
  | Forget_Rejected
  | Finish nat
  | Relay_Timeout nat
  | Upgrade bool "string option" nat
  | Socket_Event nat
  | Close_Server

fun server_step ::
    "('a) server_host_scheme \<Rightarrow> server_options \<Rightarrow> coordination_server \<Rightarrow> (nat \<Rightarrow> int) \<times> server_event \<Rightarrow> coordination_server" where
  "server_step H options s (clock, Arrive request) = arrive H options (clock 0) request s"
| "server_step H options s (clock, Handle i) = handle H options clock i s"
| "server_step H options s (clock, Run i ticket) = run_op H options clock ticket i s"
| "server_step H options s (clock, Execute i) = execute H (clock 0) i s"
| "server_step H options s (clock, Forget_Rejected) = forget_rejected s"
| "server_step H options s (clock, Finish i) = finish i s"
| "server_step H options s (clock, Relay_Timeout i) = relay_timeout i s"
| "server_step H options s (clock, Upgrade relay authorization socket) = upgrade H clock relay authorization socket s"
| "server_step H options s (clock, Socket_Event n) = socket_event n s"
| "server_step H options s (clock, Close_Server) =
    s\<lparr>sr_coordinationHub := close_hub (sr_coordinationHub s), sr_relayHub := close_hub (sr_relayHub s)\<rparr>"

definition run_server ::
    "('a) server_host_scheme \<Rightarrow> server_options \<Rightarrow> coordination_server \<Rightarrow> ((nat \<Rightarrow> int) \<times> server_event) list \<Rightarrow> coordination_server" where
  "run_server H options s events = foldl (server_step H options) s events"

end
