(* ===== verification/ServerInvariants.thy ===== *)
theory ServerInvariants
  imports CoordinationServer
begin

text \<open>
  The invariants of the coordination service over every interleaving of requests: which
  decisions enter its store, that operations act for the identity that signed their request,
  that the store is a run of the coordination store, and the claims of the nonces.
\<close>

section \<open>Where the stored decisions come from\<close>

definition store_entries :: "coordination_store \<Rightarrow> stored_approval set" where
  "store_entries s = (\<Union>a \<in> set (cs_actions s). set (sa_approvals a))"

lemma store_entries_fields [simp]:
  "store_entries (cs_actionsById_update f s) = store_entries s" "store_entries (cs_actionsByEnvelopeHash_update f s) = store_entries s"
  "store_entries (cs_relayed_update g s) = store_entries s" "store_entries (cs_relayedActionsById_update f s) = store_entries s"
  "store_entries (cs_relayedActionsByEnvelopeHash_update f s) = store_entries s" "store_entries (cs_deliveries_update h s) = store_entries s"
  "store_entries (cs_routingAuditEntries_update k s) = store_entries s" "store_entries (cs_nextDeliverySequence_update m s) = store_entries s"
  by (simp_all add: store_entries_def)

lemma store_entries_append:
  "sa_approvals a = [] \<Longrightarrow> store_entries (s\<lparr>cs_actions := cs_actions s @ [a]\<rparr>) = store_entries s"
  by (simp add: store_entries_def)

lemma store_entries_set_action:
  "(r < length (cs_actions s) \<Longrightarrow> set (sa_approvals a) \<subseteq> X) \<Longrightarrow> store_entries (set_action r a s) \<subseteq> store_entries s \<union> X"
  unfolding store_entries_def set_action_def
  by (cases "r < length (cs_actions s)") (auto simp: list_update_beyond dest!: set_update_subset_insert [THEN subsetD])

lemma entry_at: "r < length (cs_actions s) \<Longrightarrow> set (sa_approvals (action_at s r)) \<subseteq> store_entries s"
  unfolding store_entries_def by (meson UN_upper nth_mem)

lemma expire_approvals [simp]: "sa_approvals (expireIfNeeded H a now) = sa_approvals a"
  by (simp add: expireIfNeeded_def)

lemma store_entries_expire: "store_entries (set_action r (expireIfNeeded H (action_at s r) now) s) \<subseteq> store_entries s"
  using store_entries_set_action [of r s "expireIfNeeded H (action_at s r) now" "store_entries s"] entry_at [of r s] by simp

lemma settle_approvals [simp]: "sa_approvals (fst (settle_workflow clock a)) = sa_approvals a"
  by (simp add: settle_workflow_def split: sum.split)

lemma store_entries_poll: "store_entries (fst (poll_loop H clock did rs s)) \<subseteq> store_entries s"
proof (induction rs arbitrary: s)
  case (Cons r rs)
  let ?s = "set_action r (expireIfNeeded H (action_at s r) (store_now s clock)) s"
  have "fst (poll_loop H clock did (r # rs) s) = fst (poll_loop H clock did rs ?s)"
    by (simp add: Let_def split: prod.split)
  with Cons.IH [of ?s] store_entries_expire [of r H s "store_now s clock"] show ?case by simp
qed simp

lemma store_entries_outstanding: "store_entries (fst (outstanding_loop H clock did rs s)) \<subseteq> store_entries s"
proof (induction rs arbitrary: s)
  case (Cons r rs)
  let ?s = "set_action r (expireIfNeeded H (action_at s r) (store_now s clock)) s"
  from Cons.IH [of ?s] store_entries_expire [of r H s "store_now s clock"] show ?case
    by (auto simp: Let_def)
qed simp

lemma store_entries_deliver [simp]: "store_entries (storeEnvelope_loop envelope rs s) = store_entries s"
  by (induction rs arbitrary: s) simp_all

definition submitted_entry :: "('a) coordination_host_scheme \<Rightarrow> approval_submission \<Rightarrow> stored_approval \<Rightarrow> bool" where
  "submitted_entry H submission entry \<longleftrightarrow> sap_approval entry = sub_approval submission \<and> sap_decision entry = sub_decision submission \<and>
     sap_signerDid entry = text_of (decodeApprovalSignerDid H (sub_approval submission))"

lemma store_entries_submit:
  "store_entries (fst (submitApproval H s clock request)) \<subseteq> store_entries s \<union> {entry. submitted_entry H request entry}"
proof (cases "approvalPreflight H s clock request")
  case (Inl e)
  then show ?thesis by (simp add: submitApproval_def)
next
  case (Inr p)
  obtain r signer duplicate where p: "p = (r, signer, duplicate)" by (cases p)
  have "signer = text_of (decodeApprovalSignerDid H (sub_approval request))"
    using Inr p by (auto simp: approvalPreflight_def decodeApprovalSignerDid_def Let_def split: option.splits if_splits)
  then show ?thesis
    unfolding submitApproval_state [OF Inr [unfolded p]]
    by (intro order_trans [OF store_entries_set_action [where X = "store_entries s \<union> {entry. submitted_entry H request entry}"]])
      (auto simp: with_approval_def submitted_entry_def dest: entry_at [THEN subsetD])
qed

lemma store_entries_step:
  "store_entries (coordination_step H s (clock, cmd)) \<subseteq> store_entries s \<union>
     {entry. \<exists>submission. cmd = Submit_Approval submission \<and> submitted_entry H submission entry}"
proof (cases cmd)
  case (Create_Workflow pkg requirements)
  have "store_entries (fst (createWorkflow H s clock pkg requirements)) \<subseteq> store_entries s"
    by (auto simp: createWorkflow_def Let_def store_entries_append dest: store_entries_expire [THEN subsetD] split: sum.splits option.splits)
  with Create_Workflow show ?thesis by auto
next
  case (Submit_Approval request)
  with store_entries_submit [of H s clock request] show ?thesis by auto
next
  case (Cancel_Action actionId did)
  have "store_entries (fst (cancelAction H s clock actionId did)) \<subseteq> store_entries s"
  proof (cases "and_then (validateCancelAction H s clock actionId did) (\<lambda>_. case map_get (cs_actionsById s) actionId of
        None \<Rightarrow> Inl (Service_Error 404 ''ACTION_NOT_FOUND'' ''Pending action was not found.'') | Some r \<Rightarrow> Inr r)")
    case (Inr r)
    let ?a = "(action_at s r)\<lparr>sa_state := Cancelled_State, sa_cancelledAt := Some (iso_of_ms clock), sa_updatedAt := iso_of_ms clock\<rparr>"
    have "store_entries (set_action r ?a s) \<subseteq> store_entries s"
      using store_entries_set_action [of r s ?a "store_entries s"] entry_at [of r s] by simp
    with Inr show ?thesis by (simp add: cancelAction_def Let_def)
  qed (simp add: cancelAction_def)
  with Cancel_Action show ?thesis by auto
next
  case (Poll did)
  with store_entries_poll show ?thesis by (simp add: poll_def le_supI1)
next
  case (Outstanding did)
  with store_entries_outstanding show ?thesis by (simp add: hasOutstandingCoordinationWork_def le_supI1)
next
  case (Begin_Relayed envelope verifier)
  have "store_entries (fst (beginRelayedAction H s clock envelope verifier)) = store_entries s"
    by (simp add: beginRelayedAction_def Let_def recordRoutingAudit_def storeEnvelope_def split: sum.split option.split)
  with Begin_Relayed show ?thesis by simp
next
  case (Submit_Response envelope recipients)
  have "store_entries (fst (submitResponseDelivery H s clock envelope recipients)) = store_entries s"
    by (simp add: submitResponseDelivery_def Let_def recordRoutingAudit_def storeEnvelope_def split: sum.split)
  with Submit_Response show ?thesis by simp
qed

lemma store_entries_run:
  "store_entries (run_coordination H s cmds) \<subseteq> store_entries s \<union>
     {entry. \<exists>clock submission. (clock, Submit_Approval submission) \<in> set cmds \<and> submitted_entry H submission entry}"
  unfolding run_coordination_def
proof (induction cmds arbitrary: s)
  case (Cons c cmds)
  obtain clock cmd where c: "c = (clock, cmd)" by (cases c)
  show ?case
  proof
    fix entry assume "entry \<in> store_entries (foldl (coordination_step H) s (c # cmds))"
    then have "entry \<in> store_entries (coordination_step H s (clock, cmd)) \<or>
        (\<exists>clock submission. (clock, Submit_Approval submission) \<in> set cmds \<and> submitted_entry H submission entry)"
      using Cons.IH [of "coordination_step H s c"] c by auto
    with store_entries_step [of H s clock cmd] c
    show "entry \<in> store_entries s \<union> {entry. \<exists>clock submission. (clock, Submit_Approval submission) \<in> set (c # cmds) \<and>
        submitted_entry H submission entry}" by auto
  qed
qed simp

section \<open>The operations are authorised\<close>

fun authorised :: "caller \<Rightarrow> server_op \<Rightarrow> bool" where
  "authorised Auth_Disabled op = True"
| "authorised (Authenticated_As a) op = (principal op = Str (au_did a))"

text \<open>A submission is in the body of its request, and its signer is the one that its payload names.\<close>

fun op_ok :: "('a) server_host_scheme \<Rightarrow> server_request \<Rightarrow> server_op \<Rightarrow> bool" where
  "op_ok H request (Approve_Op submission signer) =
    (signer = text_of (decodeApprovalSignerDid (store_host H) (sub_approval submission)) \<and>
     (\<exists>body raw. parse_content H (rq_content request) = Inr (body, raw) \<and> submission_of body = Some submission))"
| "op_ok H request op = True"

lemma refuse_or_Prepared: "refuse_or r f = Prepared_Op op k \<longleftrightarrow> (\<exists>x. r = Inr x \<and> f x = Prepared_Op op k)"
  by (cases r) (simp_all add: refuse_or_def)

lemma differs_not: "\<not> differs c v \<Longrightarrow> c = Auth_Disabled \<or> (\<exists>a. c = Authenticated_As a \<and> v = Str (au_did a))"
  by (cases c) auto

lemma submission_body: "validateApprovalSubmission value = Inr body \<Longrightarrow> body = value"
  by (auto simp: validateApprovalSubmission_def requireBody_def split: if_splits)

lemma submission_of_approval: "submission_of body = Some submission \<Longrightarrow> sub_approval submission = js_get body ''approval''"
  by (auto simp: submission_of_def split: option.splits)

lemma prepare_approval_authorised:
  assumes "prepare_approval H clock store request c value = Prepared_Op op k" "parse_content H (rq_content request) = Inr (value, raw)"
  shows "authorised c op \<and> op_ok H request op"
proof -
  obtain submission where s: "validateApprovalSubmission value = Inr value" "submission_of value = Some submission"
    and op: "op = Approve_Op submission (text_of (decodeApprovalSignerDid (store_host H) (js_get value ''approval'')))"
    and c: "c \<noteq> Auth_Disabled \<Longrightarrow> \<not> differs c (decodeApprovalSignerDid (store_host H) (js_get value ''approval''))"
    using assms(1)
    by (auto simp: prepare_approval_def refuse_or_Prepared Let_def dest!: submission_body split: option.splits if_splits)
  have "authorised c op"
  proof (cases c)
    case (Authenticated_As a)
    with c have "decodeApprovalSignerDid (store_host H) (js_get value ''approval'') = Str (au_did a)" by simp
    with Authenticated_As show ?thesis by (simp add: op)
  qed simp
  with op s assms(2) show ?thesis by (simp add: submission_of_approval)
qed

lemma prepare_authorised:
  assumes "prepare H options clock store request c value = Prepared_Op op k"
    and "parse_content H (rq_content request) = Inr (value, raw)"
  shows "authorised c op \<and> op_ok H request op"
proof (cases "rq_endpoint request = Approval_Endpoint")
  case True
  with assms prepare_approval_authorised show ?thesis by (simp add: prepare_def)
next
  case False
  with assms(1) show ?thesis
    by (auto simp: prepare_def prepare_relay_def prepare_delivery_def prepare_session_def prepare_create_def
        prepare_cancel_def prepare_poll_def prepare_relay_poll_def refuse_or_Prepared Let_def dest!: differs_not
        split: endpoint.splits option.splits if_splits prod.splits)
qed

text \<open>A thread that has passed the checks for an operation.\<close>

definition cleared :: "('a) server_host_scheme \<Rightarrow> server_thread \<Rightarrow> server_op \<Rightarrow> bool" where
  "cleared H thr op \<longleftrightarrow> (\<exists>c. st_caller thr = Some c \<and> authorised c op \<and> op_ok H (st_request thr) op \<and> (c \<noteq> Auth_Disabled \<longrightarrow> st_claimedAt thr \<noteq> None))"

fun caller_ok :: "('a) server_host_scheme \<Rightarrow> server_options \<Rightarrow> server_request \<Rightarrow> caller \<Rightarrow> bool" where
  "caller_ok H options request Auth_Disabled = (\<not> sv_enforcement options)"
| "caller_ok H options request (Authenticated_As a) = (\<exists>now value raw. parse_content H (rq_content request) = Inr (value, raw) \<and>
     verifyMpasRfc9421 H now (verify_request options now request raw) = Inr a)"

definition caller_verified :: "('a) server_host_scheme \<Rightarrow> server_options \<Rightarrow> server_thread \<Rightarrow> bool" where
  "caller_verified H options thr \<longleftrightarrow> (\<forall>c. st_caller thr = Some c \<longrightarrow> caller_ok H options (st_request thr) c)"

definition thread_ok :: "('a) server_host_scheme \<Rightarrow> server_options \<Rightarrow> server_thread \<Rightarrow> bool" where
  "thread_ok H options thr \<longleftrightarrow> caller_verified H options thr \<and> (case st_state thr of
       Entered c v \<Rightarrow> st_caller thr = Some c \<and> st_claimedAt thr = None \<and> (\<exists>raw. parse_content H (rq_content (st_request thr)) = Inr (v, raw))
     | Claimed c op k v \<Rightarrow> cleared H thr op
     | Scheduled op scope \<Rightarrow> cleared H thr op
     | _ \<Rightarrow> True)"

definition done_state :: "thread_state \<Rightarrow> bool" where
  "done_state x = (case x of Waiting_On owner op \<Rightarrow> True | Replied_With r \<Rightarrow> True | _ \<Rightarrow> False)"

definition server_inv :: "('a) server_host_scheme \<Rightarrow> server_options \<Rightarrow> coordination_server \<Rightarrow> bool" where
  "server_inv H options s \<longleftrightarrow> list_all (thread_ok H options) (sr_threads s) \<and> distinct (map fst (sv_executed s)) \<and>
     (\<forall>(i, op) \<in> set (sv_executed s). i < length (sr_threads s) \<and> cleared H (sr_threads s ! i) op \<and>
       done_state (st_state (sr_threads s ! i)))"

text \<open>
  A step changes one thread, to one with the same request, and executes at most the
  operation that the thread was cleared for.
\<close>

definition thread_step :: "nat \<Rightarrow> server_thread \<Rightarrow> server_op list \<Rightarrow> coordination_server \<Rightarrow> coordination_server \<Rightarrow> bool" where
  "thread_step i thr ops s s' \<longleftrightarrow> i < length (sr_threads s) \<and> sr_threads s' = (sr_threads s)[i := thr] \<and>
     sv_executed s' = sv_executed s @ map (Pair i) ops \<and> st_request thr = st_request (sr_threads s ! i) \<and>
     st_caller thr = st_caller (sr_threads s ! i) \<and>
     (st_claimedAt thr = st_claimedAt (sr_threads s ! i) \<or> st_claimedAt (sr_threads s ! i) = None)"

lemma cleared_same:
  "cleared H thr op \<Longrightarrow> st_request thr' = st_request thr \<Longrightarrow> st_caller thr' = st_caller thr \<Longrightarrow> st_claimedAt thr' = st_claimedAt thr \<or> st_claimedAt thr = None \<Longrightarrow> cleared H thr' op"
  by (auto simp: cleared_def)

lemma server_inv_step:
  assumes inv: "server_inv H options s" and step: "thread_step i thr ops s s'" and ok: "thread_ok H options thr"
    and old: "done_state (st_state (sr_threads s ! i)) \<Longrightarrow> done_state (st_state thr) \<and> ops = []"
    and new: "ops \<noteq> [] \<Longrightarrow> (\<exists>op. ops = [op] \<and> cleared H thr op) \<and> done_state (st_state thr)"
  shows "server_inv H options s'"
proof -
  have i: "i < length (sr_threads s)" and threads: "sr_threads s' = (sr_threads s)[i := thr]"
    and executed: "sv_executed s' = sv_executed s @ map (Pair i) ops"
    using step by (simp_all add: thread_step_def)
  have kept: "cleared H thr op" if "cleared H (sr_threads s ! i) op" for op
    using that by (rule cleared_same) (use step in \<open>simp_all add: thread_step_def\<close>)
  have "list_all (thread_ok H options) (sr_threads s')"
    using inv ok by (auto simp: server_inv_def threads list_all_iff dest!: set_update_subset_insert [THEN subsetD])
  moreover have "distinct (map fst (sv_executed s'))"
  proof (cases "ops = []")
    case False
    with old have "\<not> done_state (st_state (sr_threads s ! i))" by blast
    then have "i \<notin> fst ` set (sv_executed s)" using inv by (auto simp: server_inv_def)
    with False new inv show ?thesis by (auto simp: executed server_inv_def)
  qed (use inv in \<open>simp add: executed server_inv_def\<close>)
  moreover have "j < length (sr_threads s') \<and> cleared H (sr_threads s' ! j) op \<and> done_state (st_state (sr_threads s' ! j))"
    if "(j, op) \<in> set (sv_executed s')" for j op
  proof (cases "(j, op) \<in> set (sv_executed s)")
    case True
    with inv have "j < length (sr_threads s)" "cleared H (sr_threads s ! j) op" "done_state (st_state (sr_threads s ! j))"
      by (auto simp: server_inv_def)
    with kept old i show ?thesis by (cases "j = i") (auto simp: threads)
  next
    case False
    with that executed have "j = i" "op \<in> set ops" by auto
    with new i show ?thesis by (cases ops) (auto simp: threads)
  qed
  ultimately show ?thesis by (auto simp: server_inv_def)
qed

lemma server_inv_same: "server_inv H options s \<Longrightarrow> sr_threads s' = sr_threads s \<Longrightarrow> sv_executed s' = sv_executed s \<Longrightarrow> server_inv H options s'"
  by (simp add: server_inv_def)

lemma state_ofD: "state_of s i = x \<Longrightarrow> x \<noteq> Unanswered \<Longrightarrow> i < length (sr_threads s) \<and> st_state (sr_threads s ! i) = x"
  by (auto simp: state_of_def split: if_splits)

lemma set_state_sel [simp]:
  "sr_threads (set_state i x s) = (sr_threads s)[i := (sr_threads s ! i)\<lparr>st_state := x\<rparr>]" "sv_executed (set_state i x s) = sv_executed s"
  "sr_store (set_state i x s) = sr_store s" "sv_log (set_state i x s) = sv_log s" "sr_nonces (set_state i x s) = sr_nonces s"
  "sr_bindings (set_state i x s) = sr_bindings s" "sr_relayHub (set_state i x s) = sr_relayHub s"
  "sr_coordinationHub (set_state i x s) = sr_coordinationHub s"
  by (simp_all add: set_state_def)

lemma hub_notify_sel [simp]:
  "sr_threads (hub_notify b dids s) = sr_threads s" "sv_executed (hub_notify b dids s) = sv_executed s"
  "sr_store (hub_notify b dids s) = sr_store s" "sv_log (hub_notify b dids s) = sv_log s" "sr_nonces (hub_notify b dids s) = sr_nonces s"
  "sr_bindings (hub_notify b dids s) = sr_bindings s"
  "hub_tickets (sr_relayHub (hub_notify b dids s)) = hub_tickets (sr_relayHub s)"
  "hub_tickets (sr_coordinationHub (hub_notify b dids s)) = hub_tickets (sr_coordinationHub s)"
  by (simp_all add: hub_notify_def notify_sockets_def)

lemma log_command_sel [simp]:
  "sr_threads (log_command clock c s) = sr_threads s" "sv_executed (log_command clock c s) = sv_executed s"
  "sr_store (log_command clock c s) = sr_store s" "sv_log (log_command clock c s) = sv_log s @ [(clock, c)]"
  "sr_nonces (log_command clock c s) = sr_nonces s" "sr_bindings (log_command clock c s) = sr_bindings s"
  "sr_relayHub (log_command clock c s) = sr_relayHub s" "sr_coordinationHub (log_command clock c s) = sr_coordinationHub s"
  by (simp_all add: log_command_def)

lemma thread_ok_state:
  "thread_ok H options thr \<Longrightarrow> done_state x \<or> x = Unanswered \<Longrightarrow> thread_ok H options (thr\<lparr>st_state := x\<rparr>)"
  by (auto simp: thread_ok_def caller_verified_def done_state_def split: thread_state.splits)

text \<open>A thread is done, or ends without an operation.\<close>

lemma inv_set_done:
  assumes inv: "server_inv H options s" and i: "i < length (sr_threads s)" and "sr_threads s0 = sr_threads s"
    and executed: "sv_executed s0 = sv_executed s @ map (Pair i) ops" and "done_state x \<or> x = Unanswered \<and> \<not> done_state (st_state (sr_threads s ! i))"
    and new: "ops = [] \<or> done_state x \<and> \<not> done_state (st_state (sr_threads s ! i)) \<and> (\<exists>op. ops = [op] \<and> cleared H (sr_threads s ! i) op)"
  shows "server_inv H options (set_state i x s0)"
proof (rule server_inv_step [OF inv])
  let ?thr = "(sr_threads s ! i)\<lparr>st_state := x\<rparr>"
  show "thread_step i ?thr ops s (set_state i x s0)" using assms by (simp add: thread_step_def)
  have "thread_ok H options (sr_threads s ! i)" using inv i by (simp add: server_inv_def list_all_length)
  then show "thread_ok H options ?thr" using assms(5) by (intro thread_ok_state) auto
  show "ops \<noteq> [] \<Longrightarrow> (\<exists>op. ops = [op] \<and> cleared H ?thr op) \<and> done_state (st_state ?thr)" using new by (auto simp: cleared_def)
qed (use assms(5) new in auto)

lemma inv_set_reply:
  assumes "server_inv H options s" "i < length (sr_threads s)" "done_state x \<or> x = Unanswered \<and> \<not> done_state (st_state (sr_threads s ! i))"
    "sr_threads s0 = sr_threads s" "sv_executed s0 = sv_executed s"
  shows "server_inv H options (set_state i x s0)"
  using inv_set_done [OF assms(1,2,4), of "[]" x] assms(3,5) by simp

lemma claim_caller_sel:
  assumes "claim_caller now i c s = (s', claimed)"
  shows "sv_executed s' = sv_executed s" "sr_store s' = sr_store s" "sv_log s' = sv_log s" "sr_bindings s' = sr_bindings s"
    "sr_relayHub s' = sr_relayHub s" "sr_coordinationHub s' = sr_coordinationHub s"
    "sr_threads s' = (if claimed \<and> c \<noteq> Auth_Disabled then (sr_threads s)[i := (sr_threads s ! i)\<lparr>st_claimedAt := Some now\<rparr>] else sr_threads s)"
  using assms by (auto simp: claim_caller_def split: caller.splits prod.splits)

lemma inv_handle:
  assumes inv: "server_inv H options s"
  shows "server_inv H options (handle H options clock i s)"
proof (cases "state_of s i")
  case (Entered c v)
  then have i: "i < length (sr_threads s)" "st_state (sr_threads s ! i) = Entered c v" using state_ofD [of s i "Entered c v"] by auto
  have ok: "thread_ok H options (sr_threads s ! i)" using inv i by (simp add: server_inv_def list_all_length)
  then have caller: "st_caller (sr_threads s ! i) = Some c" "st_claimedAt (sr_threads s ! i) = None"
    "\<exists>raw. parse_content H (rq_content (st_request (sr_threads s ! i))) = Inr (v, raw)" by (simp_all add: thread_ok_def i(2))
  show ?thesis
  proof (cases "prepare H options (clock 0) (sr_store s) (st_request (sr_threads s ! i)) c v")
    case (Refused r)
    have "server_inv H options (set_state i (Replied_With r) s)"
      by (rule inv_set_reply [OF inv i(1)]) (simp_all add: done_state_def)
    with Refused Entered show ?thesis by (simp add: handle_def)
  next
    case (Answered cmd r)
    have "server_inv H options (set_state i (Replied_With r) (case cmd of None \<Rightarrow> s | Some d \<Rightarrow> log_command (clock 0) d
        (s\<lparr>sr_store := coordination_step (store_host H) (sr_store s) (clock 0, d)\<rparr>)))"
      by (rule inv_set_reply [OF inv i(1)]) (simp_all add: done_state_def split: option.split)
    with Answered Entered show ?thesis by (simp add: handle_def)
  next
    case (Prepared_Op op k)
    obtain s' claimed where claim: "claim_caller (clock 1) i c s = (s', claimed)" by fastforce
    note sel = claim_caller_sel [OF claim]
    show ?thesis
    proof (cases claimed)
      case False
      with sel have "server_inv H options (set_state i (Replied_With replySignatureInvalid) s')"
        by (intro inv_set_reply [OF inv i(1)]) (simp_all add: done_state_def)
      with False Prepared_Op Entered claim show ?thesis by (simp add: handle_def)
    next
      case True
      let ?thr = "(sr_threads s' ! i)\<lparr>st_state := Claimed c op k v\<rparr>"
      have thr: "?thr = (sr_threads s ! i)\<lparr>st_claimedAt := (if c \<noteq> Auth_Disabled then Some (clock 1) else None), st_state := Claimed c op k v\<rparr>"
        using True i caller(2) by (cases "sr_threads s ! i") (simp add: sel(7))
      have "server_inv H options (set_state i (Claimed c op k v) s')"
      proof (rule server_inv_step [OF inv])
        show "thread_step i ?thr [] s (set_state i (Claimed c op k v) s')"
          using True i caller(2) by (simp add: thread_step_def sel)
        show "thread_ok H options ?thr"
          unfolding thr using ok caller(1,2) prepare_authorised [OF Prepared_Op] caller(3) by (auto simp: thread_ok_def caller_verified_def cleared_def)
      qed (simp_all add: i(2) done_state_def)
      with True Prepared_Op Entered claim show ?thesis by (simp add: handle_def)
    qed
  next
    case Untyped
    have "server_inv H options (set_state i Unanswered s)"
      by (rule inv_set_reply [OF inv i(1)]) (simp_all add: done_state_def i(2))
    with Untyped Entered show ?thesis by (simp add: handle_def)
  qed
qed (simp_all add: handle_def inv)

lemma open_session_sel:
  assumes "open_session H options clock ticket relay did s = (s', r)"
  shows "sr_threads s' = sr_threads s" "sv_executed s' = sv_executed s" "sr_store s' = sr_store s" "sv_log s' = sv_log s"
    "sr_nonces s' = sr_nonces s" "sr_bindings s' = sr_bindings s"
  using assms by (auto simp: open_session_def Let_def split: sum.splits prod.splits if_splits)

lemma run_op_keyed:
  assumes "state_of s i = Claimed c op k v" and "op_command op \<noteq> None"
  shows "\<exists>x cache. run_op H options clock ticket i s = set_state i x (s\<lparr>sr_idempotency := cache\<rparr>) \<and>
    (done_state x \<or> (\<exists>scope. x = Scheduled op scope))"
proof -
  obtain cache x where r: "runIdempotent H (store_now (sr_store s) (clock 0)) (op_service op) (text_of (principal op)) k
      (op_request op v) i (sr_idempotency s) = (cache, x)" by fastforce
  have "run_op H options clock ticket i s = (case x of
      Run_Throws e \<Rightarrow> set_state i (Replied_With (replyStoreError e)) (s\<lparr>sr_idempotency := cache\<rparr>)
    | Run_Joined owner \<Rightarrow> set_state i (Waiting_On owner op) (s\<lparr>sr_idempotency := cache\<rparr>)
    | Run_Scheduled scope \<Rightarrow> set_state i (Scheduled op scope) (s\<lparr>sr_idempotency := cache\<rparr>))"
    using assms r by (cases op) (simp_all add: run_op_def op_command_def split: idempotent_run.split)
  then show ?thesis by (cases x) (auto simp: done_state_def)
qed

text \<open>What running the operation of a claimed thread does.\<close>

lemma run_op_cases:
  assumes "state_of s i = Claimed c op k v"
  obtains (delivery) body deliveredAt s' where "op = Delivery_Op body" "run_op H options clock ticket i s = s'"
      "sr_threads s' = (sr_threads s)[i := (sr_threads s ! i)\<lparr>st_state := Replied_With deliveredAt\<rparr>]"
      "sv_executed s' = sv_executed s @ [(i, op)]"
      "sv_log s' = sv_log s @ [(clock 0, Submit_Response body (sv_authorizedRecipients options))]"
      "sr_store s' = coordination_step (store_host H) (sr_store s) (clock 0, Submit_Response body (sv_authorizedRecipients options))"
      "sr_nonces s' = sr_nonces s"
  | (session) relay did s' r where "op = Session_Op relay did" "open_session H options clock ticket relay did s = (s', r)"
      "run_op H options clock ticket i s = set_state i (Replied_With r) (s'\<lparr>sv_executed := sv_executed s @ [(i, op)]\<rparr>)"
  | (idempotent) x cache where "run_op H options clock ticket i s = set_state i x (s\<lparr>sr_idempotency := cache\<rparr>)"
      "done_state x \<or> (\<exists>scope. x = Scheduled op scope)"
proof (cases op)
  case (Delivery_Op body)
  obtain store result where r: "submitResponseDelivery (store_host H) (sr_store s) (clock 0) body (sv_authorizedRecipients options) = (store, result)"
    by fastforce
  show ?thesis
  proof (cases result)
    case (Inl e)
    show ?thesis by (rule delivery [OF Delivery_Op refl, of "replyStoreError e"])
      (simp_all add: run_op_def assms Delivery_Op r Inl Let_def)
  next
    case (Inr t)
    show ?thesis by (rule delivery [OF Delivery_Op refl, of "Delivered_Reply t"])
      (simp_all add: run_op_def assms Delivery_Op r Inr Let_def)
  qed
next
  case (Session_Op relay did)
  obtain s' r where o: "open_session H options clock ticket relay did s = (s', r)" by fastforce
  show ?thesis by (rule session [OF Session_Op o]) (simp add: run_op_def assms Session_Op o)
next
  case (Relay_Op envelope v)
  with run_op_keyed [OF assms, of H options clock ticket] idempotent show ?thesis by (auto simp: op_command_def)
next
  case (Create_Op body)
  with run_op_keyed [OF assms, of H options clock ticket] idempotent show ?thesis by (auto simp: op_command_def)
next
  case (Approve_Op submission signer)
  with run_op_keyed [OF assms, of H options clock ticket] idempotent show ?thesis by (auto simp: op_command_def)
next
  case (Cancel_Op actionId did)
  with run_op_keyed [OF assms, of H options clock ticket] idempotent show ?thesis by (auto simp: op_command_def)
qed

lemma inv_run_op:
  assumes inv: "server_inv H options s"
  shows "server_inv H options (run_op H options clock ticket i s)"
proof (cases "state_of s i")
  case (Claimed c op k v)
  then have i: "i < length (sr_threads s)" "st_state (sr_threads s ! i) = Claimed c op k v"
    using state_ofD [of s i "Claimed c op k v"] by auto
  have ok: "thread_ok H options (sr_threads s ! i)" using inv i by (simp add: server_inv_def list_all_length)
  then have clear: "cleared H (sr_threads s ! i) op" by (simp add: thread_ok_def i(2))
  show ?thesis
  proof (cases rule: run_op_cases [OF Claimed, of H options clock ticket, case_names delivery session idempotent])
    case (delivery body r s')
    have "server_inv H options (set_state i (Replied_With r) (s\<lparr>sv_executed := sv_executed s @ [(i, op)]\<rparr>))"
      by (rule inv_set_done [OF inv i(1), of _ "[op]"]) (use clear i(2) in \<open>auto simp: done_state_def\<close>)
    from server_inv_same [OF this, of s'] delivery show ?thesis by simp
  next
    case (session relay did s' r)
    show ?thesis unfolding session(3)
      by (rule inv_set_done [OF inv i(1), of _ "[op]"]) (use clear i(2) open_session_sel [OF session(2)] in \<open>auto simp: done_state_def\<close>)
  next
    case (idempotent x cache)
    show ?thesis unfolding idempotent(1)
    proof (rule server_inv_step [OF inv])
      show "thread_step i ((sr_threads s ! i)\<lparr>st_state := x\<rparr>) [] s (set_state i x (s\<lparr>sr_idempotency := cache\<rparr>))"
        using i by (simp add: thread_step_def)
      show "thread_ok H options ((sr_threads s ! i)\<lparr>st_state := x\<rparr>)"
        using idempotent(2) ok clear by (auto simp: thread_ok_def caller_verified_def cleared_def done_state_def split: thread_state.splits)
    qed (simp_all add: i(2) done_state_def)
  qed
qed (simp_all add: run_op_def inv)

lemma inv_execute:
  assumes inv: "server_inv H options s"
  shows "server_inv H options (execute H clock i s)"
proof (cases "state_of s i")
  case (Scheduled op scope)
  then have i: "i < length (sr_threads s)" "st_state (sr_threads s ! i) = Scheduled op scope"
    using state_ofD [of s i "Scheduled op scope"] by auto
  have "thread_ok H options (sr_threads s ! i)" using inv i by (simp add: server_inv_def list_all_length)
  then have clear: "cleared H (sr_threads s ! i) op" by (simp add: thread_ok_def i(2))
  show ?thesis
  proof (cases "op_command op")
    case (Some cmd)
    obtain store outcome notified where p: "perform H clock op (sr_store s) = (store, outcome, notified)" by (metis prod_cases3)
    let ?s0 = "s\<lparr>sr_store := store, sr_outcomes := map_set i outcome (sr_outcomes s), sv_executed := sv_executed s @ [(i, op)],
      sr_rejected := sr_rejected s @ (case (outcome, scope) of (Inl e, Some sc) \<Rightarrow> [sc] | _ \<Rightarrow> [])\<rparr>"
    have "server_inv H options (set_state i (Waiting_On i op) ?s0)"
      by (rule inv_set_done [OF inv i(1), of _ "[op]"]) (use clear i(2) in \<open>auto simp: done_state_def\<close>)
    from server_inv_same [OF this] Scheduled Some p show ?thesis by (simp add: execute_def)
  qed (simp add: execute_def Scheduled inv)
qed (simp_all add: execute_def inv)

lemma inv_arrive:
  assumes inv: "server_inv H options s"
  shows "server_inv H options (arrive H options now request s)"
proof -
  obtain c x where cx: "(case parse_content H (rq_content request) of Inl r \<Rightarrow> (None, Replied_With r)
         | Inr (value, raw) \<Rightarrow> (case authenticateRequest H options now request raw of
               Inl r \<Rightarrow> (None, Replied_With r) | Inr c \<Rightarrow> (Some c, Entered c value))) = (c, x)" by fastforce
  let ?thr = "\<lparr>st_request = request, st_caller = c, st_claimedAt = None, st_state = x\<rparr>"
  have "thread_ok H options ?thr"
    using cx by (auto simp: thread_ok_def caller_verified_def authenticateRequest_def split: sum.splits prod.splits if_splits auth_error.splits)
  with inv have "server_inv H options (s\<lparr>sr_threads := sr_threads s @ [?thr]\<rparr>)"
    by (auto simp: server_inv_def nth_append)
  with cx show ?thesis by (simp add: arrive_def)
qed

lemma inv_hub_notify [simp]: "server_inv H options (hub_notify b dids s) = server_inv H options s"
  by (simp add: server_inv_def)

lemma inv_finish: "server_inv H options s \<Longrightarrow> server_inv H options (finish i s)"
  using state_ofD [of s i]
  by (auto simp: finish_def done_state_def split: thread_state.split option.split sum.split op_result.split server_op.split
      intro!: inv_set_reply)

lemma upgrade_sel [simp]: "sr_threads (upgrade H clock relay a socket s) = sr_threads s" "sv_executed (upgrade H clock relay a socket s) = sv_executed s"
  by (auto simp: upgrade_def Let_def split: prod.splits option.splits)

lemma inv_server_step: "server_inv H options s \<Longrightarrow> server_inv H options (server_step H options s (clock, ev))"
proof (cases ev)
  case (Relay_Timeout i)
  assume inv: "server_inv H options s"
  show ?thesis unfolding Relay_Timeout server_step.simps relay_timeout_def
    using state_ofD [of s i]
    by (auto simp: inv done_state_def split: thread_state.split server_op.split intro!: inv_set_reply [OF inv])
qed (auto simp: inv_arrive inv_handle inv_run_op inv_execute inv_finish socket_event_def forget_rejected_def
    intro: server_inv_same split: list.split prod.split)

lemma inv_run_server: "server_inv H options s \<Longrightarrow> server_inv H options (run_server H options s events)"
  unfolding run_server_def
proof (induction events arbitrary: s)
  case (Cons ev events)
  obtain clock x where "ev = (clock, x)" by (cases ev)
  with Cons inv_server_step [OF Cons.prems, of clock x] show ?case by simp
qed simp

lemma inv_newServer: "server_inv H options (newServer t)"
  by (simp add: server_inv_def newServer_def)

lemma reachable_server: "server_inv H options (run_server H options (newServer t) events)"
  by (rule inv_run_server [OF inv_newServer])

section \<open>The store is a run of the coordination store\<close>

text \<open>What is logged: a read of the service's own, or an operation that a request had executed.\<close>

fun read_command :: "coordination_cmd \<Rightarrow> bool" where
  "read_command (Poll did) = True"
| "read_command (Outstanding did) = True"
| "read_command _ = False"

definition command_of :: "server_options \<Rightarrow> server_op \<Rightarrow> coordination_cmd option" where
  "command_of options op = (case op of Delivery_Op body \<Rightarrow> Some (Submit_Response body (sv_authorizedRecipients options)) | _ \<Rightarrow> op_command op)"

definition log_ok :: "('a) server_host_scheme \<Rightarrow> server_options \<Rightarrow> int option \<Rightarrow> coordination_server \<Rightarrow> bool" where
  "log_ok H options t s \<longleftrightarrow> sr_store s = run_coordination (store_host H) (newCoordinationStore t) (sv_log s) \<and>
     filter (\<lambda>c. \<not> read_command c) (map snd (sv_log s)) = List.map_filter (\<lambda>(i, op). command_of options op) (sv_executed s)"

lemma command_of_changes [dest]: "command_of options op = Some c \<Longrightarrow> \<not> read_command c"
  by (cases op) (auto simp: command_of_def op_command_def)

lemma run_coordination_append: "run_coordination H s (cs @ [c]) = coordination_step H (run_coordination H s cs) c"
  by (simp add: run_coordination_def)

lemma log_ok_same:
  "log_ok H options t s \<Longrightarrow> sr_store s' = sr_store s \<Longrightarrow> sv_log s' = sv_log s \<Longrightarrow> sv_executed s' = sv_executed s \<Longrightarrow> log_ok H options t s'"
  by (simp add: log_ok_def)

lemma log_ok_logged:
  assumes "log_ok H options t s" "sr_store s' = coordination_step (store_host H) (sr_store s) (clock, c)" "sv_log s' = sv_log s @ [(clock, c)]"
    "sv_executed s' = sv_executed s @ ops" "read_command c \<and> ops = [] \<or> (\<exists>i op. ops = [(i, op)] \<and> command_of options op = Some c)"
  shows "log_ok H options t s'"
  using assms by (auto simp: log_ok_def run_coordination_append List.map_filter_def)

lemma log_ok_executed:
  "log_ok H options t s \<Longrightarrow> sr_store s' = sr_store s \<Longrightarrow> sv_log s' = sv_log s \<Longrightarrow> sv_executed s' = sv_executed s @ [(i, op)] \<Longrightarrow>
     command_of options op = None \<Longrightarrow> log_ok H options t s'"
  by (auto simp: log_ok_def List.map_filter_def)

lemma perform_store:
  "op_command op = Some c \<Longrightarrow> fst (perform H clock op store) = coordination_step (store_host H) store (clock, c)"
  by (cases op) (auto simp: op_command_def perform_def split: prod.split sum.split)

lemma prepare_answered:
  assumes "prepare H options clock store request c value = Answered cmd r"
  shows "cmd = None \<or> (\<exists>did. cmd = Some (Poll did))"
  using assms
  by (auto simp: prepare_def prepare_relay_def prepare_delivery_def prepare_session_def prepare_create_def prepare_approval_def
      prepare_cancel_def prepare_poll_def prepare_relay_poll_def refuse_or_def Let_def split: endpoint.splits option.splits if_splits prod.splits sum.splits)

lemma finish_sel [simp]: "sr_store (finish i s) = sr_store s" "sv_log (finish i s) = sv_log s" "sv_executed (finish i s) = sv_executed s"
    "sr_nonces (finish i s) = sr_nonces s"
  by (auto simp: finish_def split: thread_state.split option.split sum.split op_result.split server_op.split)

lemma log_ok_handle: "log_ok H options t s \<Longrightarrow> log_ok H options t (handle H options clock i s)"
proof (cases "state_of s i")
  case (Entered c v)
  assume ok: "log_ok H options t s"
  show ?thesis
  proof (cases "prepare H options (clock 0) (sr_store s) (st_request (sr_threads s ! i)) c v")
    case (Answered cmd r)
    show ?thesis
    proof (cases cmd)
      case None
      with Entered Answered show ?thesis by (auto simp: handle_def intro: log_ok_same [OF ok])
    next
      case (Some d)
      with prepare_answered [OF Answered] have "read_command d" by auto
      with Entered Answered Some show ?thesis
        by (auto simp: handle_def intro: log_ok_logged [OF ok, where ops = "[]" and c = d and clock = "clock 0"])
    qed
  next
    case (Prepared_Op op k)
    obtain s' claimed where claim: "claim_caller (clock 1) i c s = (s', claimed)" by fastforce
    with Entered Prepared_Op claim_caller_sel [OF claim] show ?thesis
      by (cases claimed) (auto simp: handle_def intro: log_ok_same [OF ok])
  qed (use Entered in \<open>auto simp: handle_def intro: log_ok_same [OF ok]\<close>)
qed (simp_all add: handle_def)

lemma log_ok_run_op: "log_ok H options t s \<Longrightarrow> log_ok H options t (run_op H options clock ticket i s)"
proof (cases "state_of s i")
  case (Claimed c op k v)
  assume ok: "log_ok H options t s"
  show ?thesis
  proof (cases rule: run_op_cases [OF Claimed, of H options clock ticket, case_names delivery session idempotent])
    case (delivery body r s')
    show ?thesis unfolding delivery(2)
      by (rule log_ok_logged [OF ok delivery(6,5,4)]) (simp add: command_of_def delivery(1))
  next
    case (session relay did s' r)
    show ?thesis unfolding session(3)
      by (rule log_ok_executed [OF ok, where i = i and op = op])
        (use open_session_sel [OF session(2)] in \<open>simp_all add: session(1) command_of_def op_command_def\<close>)
  next
    case (idempotent x cache)
    show ?thesis unfolding idempotent(1) by (rule log_ok_same [OF ok]) simp_all
  qed
qed (simp_all add: run_op_def)

lemma log_ok_execute: "log_ok H options t s \<Longrightarrow> log_ok H options t (execute H clock i s)"
proof (cases "state_of s i")
  case (Scheduled op scope)
  assume ok: "log_ok H options t s"
  show ?thesis
  proof (cases "op_command op")
    case (Some c)
    obtain store outcome notified where p: "perform H clock op (sr_store s) = (store, outcome, notified)" by (metis prod_cases3)
    have "store = coordination_step (store_host H) (sr_store s) (clock, c)" using perform_store [OF Some, of H clock "sr_store s"] p by simp
    moreover have "command_of options op = Some c" using Some by (cases op) (simp_all add: command_of_def op_command_def)
    ultimately show ?thesis
      by (intro log_ok_logged [OF ok, where ops = "[(i, op)]" and c = c and clock = clock]) (simp_all add: execute_def Scheduled Some p)
  qed (use ok in \<open>simp add: execute_def Scheduled\<close>)
qed (simp_all add: execute_def)

lemma log_ok_upgrade: "log_ok H options t s \<Longrightarrow> log_ok H options t (upgrade H clock relay a socket s)"
proof -
  assume ok: "log_ok H options t s"
  obtain h d where h: "handleUpgrade H (clock 0) a (if relay then sr_relayHub s else sr_coordinationHub s) = (h, d)" by fastforce
  show ?thesis
  proof (cases "d = None \<or> relay")
    case True
    with h show ?thesis
      by (cases d) (auto simp: upgrade_def Let_def intro: log_ok_same [OF ok] split: prod.split)
  next
    case False
    then obtain did where d: "d = Some did" "\<not> relay" by auto
    obtain store o' where out: "hasOutstandingCoordinationWork (store_host H) (sr_store s) (clock 1) did = (store, o')" by fastforce
    then have "store = coordination_step (store_host H) (sr_store s) (clock 1, Outstanding did)" by simp
    with h d out show ?thesis
      by (intro log_ok_logged [OF ok, where ops = "[]" and c = "Outstanding did" and clock = "clock 1"])
        (simp_all add: upgrade_def Let_def split: prod.split)
  qed
qed

lemma log_ok_step: "log_ok H options t s \<Longrightarrow> log_ok H options t (server_step H options s (clock, ev))"
proof (cases ev)
  case (Relay_Timeout i)
  assume ok: "log_ok H options t s"
  show ?thesis unfolding Relay_Timeout server_step.simps relay_timeout_def
    by (auto simp: ok split: thread_state.split server_op.split intro: log_ok_same [OF ok])
qed (auto simp: log_ok_handle log_ok_run_op log_ok_execute log_ok_upgrade socket_event_def forget_rejected_def arrive_def Let_def
    intro: log_ok_same split: list.split prod.split)

lemma log_ok_run: "log_ok H options t s \<Longrightarrow> log_ok H options t (run_server H options s events)"
  unfolding run_server_def
proof (induction events arbitrary: s)
  case (Cons ev events)
  obtain clock x where "ev = (clock, x)" by (cases ev)
  with Cons log_ok_step [OF Cons.prems, of clock x] show ?case by simp
qed simp

lemma reachable_log: "log_ok H options t (run_server H options (newServer t) events)"
  by (rule log_ok_run) (simp add: log_ok_def newServer_def run_coordination_def List.map_filter_def)

section \<open>Nonces\<close>

text \<open>Who has claimed what, and when, of every thread.\<close>

definition claim_of :: "server_thread \<Rightarrow> (auth_success \<times> int) option" where
  "claim_of thr = (case (st_caller thr, st_claimedAt thr) of (Some (Authenticated_As a), Some t) \<Rightarrow> Some (a, t) | _ \<Rightarrow> None)"

definition claims :: "coordination_server \<Rightarrow> (auth_success \<times> int) option list" where
  "claims s = map claim_of (sr_threads s)"

definition auth_key :: "auth_success \<Rightarrow> string" where
  "auth_key a = claim_key (au_did a) (au_nonce a)"

text \<open>Every claim is still stored or expired; of two claims of one nonce the later one is after the expiry of the other.\<close>

definition nonces_ok :: "int \<Rightarrow> (auth_success \<times> int) option list \<Rightarrow> nonce_store \<Rightarrow> bool" where
  "nonces_ok lo cs nonces \<longleftrightarrow>
     (\<forall>i a t. i < length cs \<longrightarrow> cs ! i = Some (a, t) \<longrightarrow> t \<le> lo \<and> (map_get nonces (auth_key a) = Some (au_expiresAt a) \<or> au_expiresAt a < lo)) \<and>
     (\<forall>i j a b t u. i < length cs \<longrightarrow> j < length cs \<longrightarrow> i \<noteq> j \<longrightarrow> cs ! i = Some (a, t) \<longrightarrow> cs ! j = Some (b, u) \<longrightarrow>
        auth_key a = auth_key b \<longrightarrow> au_expiresAt a < u \<or> au_expiresAt b < t)"

lemma nonces_ok_later: "nonces_ok lo cs nonces \<Longrightarrow> lo \<le> lo' \<Longrightarrow> nonces_ok lo' cs nonces"
  unfolding nonces_ok_def by (meson order_trans order_less_le_trans)

lemma nonces_ok_new: "nonces_ok lo cs nonces \<Longrightarrow> nonces_ok lo (cs @ [None]) nonces"
  by (simp add: nonces_ok_def nth_append less_Suc_eq)

lemma nonces_ok_pruned:
  assumes "nonces_ok lo cs nonces" "lo \<le> now"
  shows "nonces_ok now cs (fst (claim_nonce now k n x nonces))"
proof -
  have "map_get (fst (claim_nonce now k n x nonces)) (auth_key a) = Some (au_expiresAt a) \<or> au_expiresAt a < now"
    if "i < length cs" "cs ! i = Some (a, t)" for i a t
  proof (cases "au_expiresAt a < now")
    case False
    with assms that have "map_get nonces (auth_key a) = Some (au_expiresAt a)" by (force simp: nonces_ok_def)
    with False show ?thesis using claim_nonce_kept(1) by (simp add: auth_key_def)
  qed simp
  moreover have "t \<le> now" if "i < length cs" "cs ! i = Some (a, t)" for i a t
    using assms that by (force simp: nonces_ok_def)
  ultimately show ?thesis using assms(1) by (simp add: nonces_ok_def)
qed

lemma nonces_ok_claimed:
  assumes ok: "nonces_ok lo cs nonces" and "lo \<le> now" and i: "i < length cs" "cs ! i = None"
    and claimed: "snd (claim_nonce now (au_did a) (au_nonce a) (au_expiresAt a) nonces)"
  shows "nonces_ok now (cs[i := Some (a, now)]) (fst (claim_nonce now (au_did a) (au_nonce a) (au_expiresAt a) nonces))"
proof -
  let ?N = "fst (claim_nonce now (au_did a) (au_nonce a) (au_expiresAt a) nonces)"
  have pruned: "nonces_ok now cs ?N" by (rule nonces_ok_pruned [OF ok \<open>lo \<le> now\<close>])
  have stored: "map_get ?N (auth_key a) = Some (au_expiresAt a)" using claim_nonce_stored [OF claimed] by (simp add: auth_key_def)
  have expired: "au_expiresAt b < now" if "j < length cs" "cs ! j = Some (b, t)" "auth_key b = auth_key a" for j b t
  proof (rule ccontr)
    assume "\<not> au_expiresAt b < now"
    with ok that \<open>lo \<le> now\<close> have "map_get nonces (auth_key b) = Some (au_expiresAt b)" by (force simp: nonces_ok_def)
    with claimed claim_nonce_kept(2) [of nonces "au_did a" "au_nonce a" "au_expiresAt b" now] \<open>\<not> au_expiresAt b < now\<close> that(3)
    show False by (simp add: auth_key_def)
  qed
  show ?thesis unfolding nonces_ok_def
  proof (intro conjI allI impI)
    fix j b t assume j: "j < length (cs[i := Some (a, now)])" "cs[i := Some (a, now)] ! j = Some (b, t)"
    show "t \<le> now" using pruned j i by (cases "j = i") (auto simp: nonces_ok_def)
    show "map_get ?N (auth_key b) = Some (au_expiresAt b) \<or> au_expiresAt b < now"
      using pruned j i stored by (cases "j = i") (auto simp: nonces_ok_def)
  next
    fix j l b c t u
    assume jl: "j < length (cs[i := Some (a, now)])" "l < length (cs[i := Some (a, now)])" "j \<noteq> l"
      "cs[i := Some (a, now)] ! j = Some (b, t)" "cs[i := Some (a, now)] ! l = Some (c, u)" "auth_key b = auth_key c"
    show "au_expiresAt b < u \<or> au_expiresAt c < t"
    proof (cases "j = i")
      case True
      with jl i have "b = a" "t = now" "cs ! l = Some (c, u)" by auto
      with expired [of l c u] jl show ?thesis by simp
    next
      case False
      with jl have j: "cs ! j = Some (b, t)" by simp
      show ?thesis
      proof (cases "l = i")
        case True
        with jl i have "c = a" "u = now" by auto
        with expired [of j b t] jl j show ?thesis by simp
      next
        case False
        with jl j ok show ?thesis unfolding nonces_ok_def by (metis length_list_update nth_list_update_neq)
      qed
    qed
  qed
qed

lemma claim_of_state [simp]: "claim_of (thr\<lparr>st_state := x\<rparr>) = claim_of thr"
  by (simp add: claim_of_def)

lemma claims_set_state [simp]: "claims (set_state i x s) = claims s"
  by (simp add: claims_def map_update) (metis list_update_id map_update nth_map list_update_beyond not_le length_map)

lemma claims_same: "sr_threads s' = sr_threads s \<Longrightarrow> claims s' = claims s"
  by (simp add: claims_def)

lemma claims_fields [simp]:
  "claims (sr_store_update a s) = claims s" "claims (sr_idempotency_update b s) = claims s" "claims (sr_nonces_update c s) = claims s"
  "claims (sr_coordinationHub_update d s) = claims s" "claims (sr_relayHub_update d s) = claims s" "claims (sr_outcomes_update e s) = claims s"
  "claims (sr_rejected_update f s) = claims s" "claims (sr_bindings_update g s) = claims s" "claims (sv_log_update h s) = claims s"
  "claims (sv_executed_update k s) = claims s" "claims (log_command clock cmd s) = claims s" "claims (hub_notify relay dids s) = claims s"
  by (simp_all add: claims_def)

lemma claims_finish [simp]: "claims (finish i s) = claims s"
  by (auto simp: finish_def split: thread_state.split option.split sum.split op_result.split server_op.split)

lemma upgrade_nonces [simp]: "sr_nonces (upgrade H clock relay a socket s) = sr_nonces s"
  by (auto simp: upgrade_def Let_def split: prod.splits option.splits)

definition claims_ok :: "int \<Rightarrow> coordination_server \<Rightarrow> bool" where
  "claims_ok lo s \<longleftrightarrow> nonces_ok lo (claims s) (sr_nonces s)"

lemma claims_ok_same:
  "claims_ok lo s \<Longrightarrow> claims s' = claims s \<Longrightarrow> sr_nonces s' = sr_nonces s \<Longrightarrow> lo \<le> lo' \<Longrightarrow> claims_ok lo' s'"
  by (simp add: claims_ok_def nonces_ok_later)

lemma claims_ok_handle:
  assumes ok: "claims_ok lo s" and inv: "server_inv H options s" and clock: "lo \<le> clock 1"
  shows "claims_ok (clock 1) (handle H options clock i s)"
proof (cases "state_of s i")
  case (Entered c v)
  then have i: "i < length (sr_threads s)" "st_state (sr_threads s ! i) = Entered c v" using state_ofD [of s i "Entered c v"] by auto
  have "thread_ok H options (sr_threads s ! i)" using inv i by (simp add: server_inv_def list_all_length)
  then have caller: "st_caller (sr_threads s ! i) = Some c" "st_claimedAt (sr_threads s ! i) = None" by (simp_all add: thread_ok_def i(2))
  show ?thesis
  proof (cases "prepare H options (clock 0) (sr_store s) (st_request (sr_threads s ! i)) c v")
    case (Answered cmd r)
    with Entered clock show ?thesis by (cases cmd) (auto simp: handle_def intro: claims_ok_same [OF ok])
  next
    case (Prepared_Op op k)
    obtain s' claimed where claim: "claim_caller (clock 1) i c s = (s', claimed)" by fastforce
    have "claims_ok (clock 1) s'"
    proof (cases c)
      case Auth_Disabled
      with claim clock show ?thesis by (auto simp: claim_caller_def intro: claims_ok_same [OF ok])
    next
      case (Authenticated_As a)
      obtain nonces where n: "claim_nonce (clock 1) (au_did a) (au_nonce a) (au_expiresAt a) (sr_nonces s) = (nonces, claimed)"
        using claim Authenticated_As by (auto simp: claim_caller_def split: prod.splits)
      have ok': "nonces_ok lo (claims s) (sr_nonces s)" using ok by (simp add: claims_ok_def)
      show ?thesis
      proof (cases claimed)
        case True
        have free: "i < length (claims s)" "claims s ! i = None" using i(1) caller by (simp_all add: claims_def claim_of_def split: caller.split)
        have "claims s' = (claims s)[i := Some (a, clock 1)]" "sr_nonces s' = nonces"
          using claim Authenticated_As n True i(1) caller by (auto simp: claim_caller_def claims_def map_update claim_of_def)
        with nonces_ok_claimed [OF ok' clock free, of a] n True show ?thesis by (simp add: claims_ok_def)
      next
        case False
        have "claims s' = claims s" "sr_nonces s' = nonces"
          using claim Authenticated_As n False by (auto simp: claim_caller_def claims_def)
        with nonces_ok_pruned [OF ok' clock, of "au_did a" "au_nonce a" "au_expiresAt a"] n show ?thesis by (simp add: claims_ok_def)
      qed
    qed
    with Entered Prepared_Op claim show ?thesis by (cases claimed) (auto simp: handle_def intro: claims_ok_same)
  qed (use Entered clock in \<open>auto simp: handle_def intro: claims_ok_same [OF ok]\<close>)
qed (use clock in \<open>auto simp: handle_def intro: claims_ok_same [OF ok]\<close>)

lemma claims_run_op: "claims (run_op H options clock ticket i s) = claims s \<and> sr_nonces (run_op H options clock ticket i s) = sr_nonces s"
proof (cases "state_of s i")
  case (Claimed c op k v)
  show ?thesis
  proof (cases rule: run_op_cases [OF Claimed, of H options clock ticket, case_names delivery session idempotent])
    case (delivery body r s')
    have "claims s' = claims (set_state i (Replied_With r) s)" by (rule claims_same) (simp add: delivery(3))
    with delivery show ?thesis by simp
  next
    case (session relay did s' r)
    have "claims s' = claims s" by (rule claims_same) (rule open_session_sel [OF session(2)])
    with session open_session_sel(5) [OF session(2)] show ?thesis by simp
  next
    case (idempotent x cache)
    then show ?thesis by simp
  qed
qed (simp_all add: run_op_def)

lemma claims_execute: "claims (execute H clock i s) = claims s \<and> sr_nonces (execute H clock i s) = sr_nonces s"
  by (auto simp: execute_def split: thread_state.split option.split prod.split)

lemma claims_ok_step:
  assumes ok: "claims_ok lo s" and inv: "server_inv H options s" and clock: "lo \<le> clock 0" "clock 0 \<le> clock 1"
  shows "claims_ok (clock 1) (server_step H options s (clock, ev))"
proof (cases ev)
  case (Arrive request)
  have "claims (arrive H options (clock 0) request s) = claims s @ [None]"
    "sr_nonces (arrive H options (clock 0) request s) = sr_nonces s"
    by (auto simp: arrive_def Let_def claims_def claim_of_def split: prod.split option.split caller.split)
  with ok clock Arrive show ?thesis by (auto simp: claims_ok_def intro: nonces_ok_later nonces_ok_new)
next
  case (Handle i)
  with claims_ok_handle [OF ok inv, of clock i] clock show ?thesis by simp
next
  case (Relay_Timeout i)
  then show ?thesis unfolding Relay_Timeout server_step.simps relay_timeout_def
    using clock by (auto split: thread_state.split server_op.split intro!: claims_ok_same [OF ok])
next
  case (Upgrade relay a socket)
  then show ?thesis using clock claims_same [OF upgrade_sel(1)] by (auto intro!: claims_ok_same [OF ok])
qed (use clock in \<open>auto simp: claims_run_op claims_execute socket_event_def forget_rejected_def intro!: claims_ok_same [OF ok] split: list.split prod.split\<close>)

text \<open>A clock that does not go back, from step to step and within one.\<close>

fun clocks_from :: "int \<Rightarrow> ((nat \<Rightarrow> int) \<times> server_event) list \<Rightarrow> bool" where
  "clocks_from lo [] = True"
| "clocks_from lo ((clock, ev) # evs) = (lo \<le> clock 0 \<and> clock 0 \<le> clock 1 \<and> clocks_from (clock 1) evs)"

lemma claims_ok_run:
  "claims_ok lo s \<Longrightarrow> server_inv H options s \<Longrightarrow> clocks_from lo events \<Longrightarrow> \<exists>hi. claims_ok hi (run_server H options s events)"
  unfolding run_server_def
proof (induction events arbitrary: lo s)
  case (Cons ev events)
  obtain clock x where ev: "ev = (clock, x)" by (cases ev)
  have "claims_ok (clock 1) (server_step H options s (clock, x))" using Cons.prems ev by (intro claims_ok_step) auto
  from Cons.IH [OF this inv_server_step [OF Cons.prems(2)]] Cons.prems(3) ev show ?case by simp
qed auto

lemma reachable_claims: "clocks_from lo events \<Longrightarrow> \<exists>hi. claims_ok hi (run_server H options (newServer t) events)"
  by (rule claims_ok_run [OF _ inv_newServer]) (simp_all add: claims_ok_def nonces_ok_def newServer_def claims_def)

end
