(* ===== verification/ServerExample.thy ===== *)
theory ServerExample
  imports ServerInvariants
begin

text \<open>
  A run of the coordination service: a proposer creates a workflow and a signer approves it,
  both authenticated, and a session that is asked for twice with one nonce. The host is a toy: fixed texts, and
  every signature is accepted.
\<close>

definition sx_params :: "did \<Rightarrow> sf_params" where
  "sx_params did = [(''created'', SF_Number (Fin 1)), (''expires'', SF_Number (Fin 5)), (''keyid'', SF_String did),
     (''nonce'', SF_String ''n''), (''tag'', SF_String ''mpas-v1''), (''alg'', SF_String ''ed25519'')]"

definition sx_dictionary :: "string \<Rightarrow> (string, sf_member) jsmap option" where
  "sx_dictionary s = (if s = ''s'' then Some [(''mpas'', SF_Item (SF_Bytes (replicate 64 (CHR ''A''))) [])]
     else if s = ''d'' then Some [(''sha-256'', SF_Item (SF_Bytes ''h'') [])]
     else Some [(''mpas'', SF_Inner (map (\<lambda>name. (SF_String name, [])) MPAS_COVERED_COMPONENTS) (sx_params s))])"

definition sx_proposer :: did where
  "sx_proposer = ''did:jwk:AAAA''"

definition sx_signer :: did where
  "sx_signer = ''did:jwk:BBBB''"

definition sx_host :: server_host where
  "sx_host = \<lparr>jcs = (\<lambda>v. ''c''), sha256 = (\<lambda>s. ''h''), legacy_date = (\<lambda>s. None), url_parse = (\<lambda>s. None),
     utf8_text = (\<lambda>bs. ha_key_text), wide_unit = (\<lambda>n. []), p256_point = (\<lambda>x y. False),
     compact_verify = (\<lambda>alg key jws. None), parse_dictionary = sx_dictionary, serialize_item = (\<lambda>v ps. []),
     serialize_inner = (\<lambda>items ps. Some []), serialize_digest = (\<lambda>bs. ''d''), request_url = (\<lambda>path. Some path),
     create_base = (\<lambda>fields r. Some []), format_base = (\<lambda>base. []), sha256_bytes = (\<lambda>bs. ''h''), utf8_bytes = (\<lambda>s. s),
     verify_signature = (\<lambda>suite key bs sig. True), header_number = (\<lambda>r. []),
     url_members = (\<lambda>s. Some \<lparr>url_protocol = ''https:'', url_username = [], url_password = [], url_hostname = ''s'', url_pathname = ''/'',
       url_search = [], url_hash = [], url_origin = s\<rparr>),
     sign_message = (\<lambda>label fields params sign r. None),
     decode_part = (\<lambda>s. Some (Obj [(''actionEnvelopeHash'', hash_json \<lparr>hash_alg = ''sha-256'', hash_value = ''h''\<rparr>),
       (''signerDid'', Str ''did:jwk:BBBB''), (''decision'', Str ''approve'')])),
     websocket_text = (\<lambda>protocol path. path)\<rparr>"

definition sx_options :: server_options where
  "sx_options = \<lparr>sv_enforcement = True, sv_audiences = [''https://s''], sv_clockSkewSeconds = Fin 30, sv_signatureLifetimeSeconds = Fin 60,
     sv_designatedVerifierDid = None, sv_authorizedRecipients = [], sv_notificationOrigin = None\<rparr>"

definition sx_request :: "endpoint \<Rightarrow> did \<Rightarrow> jsval \<Rightarrow> server_request" where
  "sx_request e did body = \<lparr>rq_endpoint = e, rq_method = ''POST'', rq_url = ''/p'',
     rq_headers = [(''signature-input'', Header_Text did), (''signature'', Header_Text ''s''), (''content-digest'', Header_Text ''d'')],
     rq_content = Other_Content body\<rparr>"

definition sx_auth :: "did \<Rightarrow> auth_success" where
  "sx_auth did = \<lparr>au_did = did, au_nonce = ''n'', au_createdAt = 1000, au_expiresAt = 5000, au_label = ''mpas''\<rparr>"

section \<open>Authentication\<close>

lemma sx_parsed: "parse_strict sx_host ha_key_text = Some ha_key"
  by code_simp

lemma sx_public: "validatePublicJwk sx_host ha_key (Some Verify_Op) = Some Ed25519"
  by code_simp

lemma sx_did:
  assumes "did = sx_proposer \<or> did = sx_signer"
  shows "didJwkToJwk sx_host did = Some ha_key"
proof -
  have d: "decodeBase64url ''AAAA'' False \<noteq> None" "decodeBase64url ''BBBB'' False \<noteq> None" by code_simp+
  have t: "utf8_text sx_host bs = ha_key_text" for bs by (simp add: sx_host_def)
  have r: "is_record ha_key" by (simp add: ha_key_def)
  from assms d r show ?thesis
    by (auto simp: didJwkToJwk_def isDidJwk_def starts_with_def t sx_parsed sx_public sx_proposer_def sx_signer_def)
qed

lemma sx_verified:
  assumes did: "did = sx_proposer \<or> did = sx_signer" and now: "2000 \<le> now" "now < 6000"
  shows "verifyMpasRfc9421 sx_host clock (verify_request sx_options now (sx_request e did body) []) = Inr (sx_auth did)"
proof -
  let ?o = "verify_request sx_options now (sx_request e did body) []"
  have h: "headerValue sx_host (vo_headers ?o) ''signature-input'' = Some did"
    "headerValue sx_host (vo_headers ?o) ''signature'' = Some ''s''"
    "headerValue sx_host (vo_headers ?o) ''content-digest'' = Some ''d''"
    by (simp_all add: headerValue_def verify_request_def sx_request_def lower_def)
  have p: "parse_dictionary sx_host = sx_dictionary" "sha256_bytes sx_host b = ''h''" "utf8_text sx_host b = ha_key_text" for b
    by (simp_all add: sx_host_def)
  have s: "did \<noteq> ''s''" "did \<noteq> ''d''" using did by (auto simp: sx_proposer_def sx_signer_def)
  have c: "select_candidate [(''mpas'', SF_Inner (map (\<lambda>name. (SF_String name, [])) MPAS_COVERED_COMPONENTS) (sx_params did))] =
      Some (''mpas'', map (\<lambda>name. (SF_String name, [])) MPAS_COVERED_COMPONENTS, sx_params did)"
    by (simp add: select_candidate_def sx_params_def MPAS_SIGNATURE_TAG_def)
  have f: "coveredFields sx_host (map (\<lambda>name. (SF_String name, [])) MPAS_COVERED_COMPONENTS) = Some (MPAS_COVERED_COMPONENTS, [[], [], []])"
    by (simp add: coveredFields_def covered_name_def sx_host_def MPAS_COVERED_COMPONENTS_def)
  have i: "input_parameters (sx_params did) = Some \<lparr>si_created = 1, si_expires = 5, si_keyid = did, si_nonce = ''n'', si_alg = Some ''ed25519''\<rparr>"
  proof -
    have n: "safe_integer (SF_Number (Fin 1)) = Some 1" "safe_integer (SF_Number (Fin 5)) = Some 5" by code_simp+
    show ?thesis by (simp add: input_parameters_def sx_params_def n MPAS_SIGNATURE_TAG_def)
  qed
  have policy: "validVerificationPolicy (Fin 60) (Fin 30)" by code_simp
  have k: "verification_key sx_host \<lparr>si_created = 1, si_expires = 5, si_keyid = did, si_nonce = ''n'', si_alg = Some ''ed25519''\<rparr> = Inr ha_key"
    by (simp add: verification_key_def sx_did [OF did] sx_public)
  have b: "signatureBase sx_host ?o ss items ps = Some []" for ss items ps
    by (simp add: signatureBase_def signatureRequest_def sx_host_def)
  have "verifySuiteBytes sx_host ha_key m (replicate 64 (CHR ''A''))" for m
    by (simp add: verifySuiteBytes_def sx_public validateSignatureEncoding_def) (simp add: sx_host_def)
  moreover have "int_of_num (Fin 60) = 60" "int_of_num (Fin 30) = 30" by code_simp+
  moreover have "vo_maxLifetimeSeconds ?o = Some (Fin 60)" "vo_clockSkewSeconds ?o = Some (Fin 30)" "vo_now ?o = Some now"
    "vo_audiences ?o = [''https://s'']" by (simp_all add: verify_request_def sx_options_def)
  moreover have "is_record ha_key" "js_get ha_key ''audience'' = Str ''https://s''" by (simp_all add: ha_key_def)
  moreover have "is_fresh 1 5 60 (now div 1000) 30"
    using zdiv_mono1 [OF now(1), of 1000] zdiv_mono1 [of now 5999 1000] now(2) by (simp add: is_fresh_def)
  ultimately show ?thesis using h p c f i k b policy s
    by (simp add: verifyMpasRfc9421_def Let_def sx_dictionary_def verifyContentDigest_def validAudience_def sx_parsed sx_auth_def)
qed

definition sx_thread :: "endpoint \<Rightarrow> did \<Rightarrow> jsval \<Rightarrow> int option \<Rightarrow> thread_state \<Rightarrow> server_thread" where
  "sx_thread e did body claimed x = \<lparr>st_request = sx_request e did body, st_caller = Some (Authenticated_As (sx_auth did)),
     st_claimedAt = claimed, st_state = x\<rparr>"

lemma sx_arrive:
  assumes "did = sx_proposer \<or> did = sx_signer" "2000 \<le> now" "now < 6000"
  shows "arrive sx_host sx_options now (sx_request e did body) s =
    s\<lparr>sr_threads := sr_threads s @ [sx_thread e did body None (Entered (Authenticated_As (sx_auth did)) body)]\<rparr>"
proof -
  have "parse_content sx_host (rq_content (sx_request e did body)) = Inr (body, [])"
    by (simp add: parse_content_def sx_request_def)
  moreover have "authenticateRequest sx_host sx_options now (sx_request e did body) [] = Inr (Authenticated_As (sx_auth did))"
    using sx_verified [OF assms] by (simp add: authenticateRequest_def) (simp add: sx_options_def)
  ultimately show ?thesis by (simp add: arrive_def sx_thread_def)
qed

section \<open>A workflow and its approval\<close>

definition sx_package :: jsval where
  "sx_package = Obj [(''type'', Str ''ActionPackage''), (''executionPayload'', Null),
     (''actionEnvelope'', Obj [(''actionId'', Obj [(''value'', Str ''1'')]), (''proposer'', Obj [(''did'', Str sx_proposer)]),
       (''executionPayloadHash'', hash_json coord_hash), (''expiresAt'', Str ''later'')]),
     (''approvalBundle'', Obj [(''actionEnvelopeHash'', hash_json coord_hash), (''approvals'', Arr [])])]"

definition sx_requirements :: jsval where
  "sx_requirements = Obj [(''type'', Str ''AuthorizationRequirements''), (''actionEnvelopeHash'', hash_json coord_hash),
     (''verifier'', Obj [(''did'', Str ''did:web:v'')]), (''result'', Str ''additionalApprovalsRequired''),
     (''approvalRequirements'', Obj [(''anyOf'', Arr [Obj [(''type'', Str ''threshold''), (''threshold'', Num (Fin 1)),
        (''eligibleSigners'', Arr [Str sx_signer])]])])]"

definition sx_create :: jsval where
  "sx_create = Obj [(''version'', Str ''1''), (''type'', Str ''CoordinationActionRequest''), (''actionPackage'', sx_package),
     (''authorizationRequirements'', sx_requirements)]"

definition sx_approval :: jsval where
  "sx_approval = Obj [(''type'', Str ''Approval''), (''decision'', Str ''approve''), (''actionEnvelopeHash'', hash_json coord_hash),
     (''signature'', Obj [(''value'', Str ''a.b.c'')])]"

definition sx_approve :: jsval where
  "sx_approve = Obj [(''version'', Str ''1''), (''type'', Str ''CoordinationApprovalSubmission''),
     (''actionEnvelopeHash'', hash_json coord_hash), (''approval'', sx_approval)]"

definition sx_submission :: approval_submission where
  "sx_submission = \<lparr>sub_actionEnvelopeHash = coord_hash, sub_approval = sx_approval, sub_decision = Approve\<rparr>"

definition sx_time :: timestamp where
  "sx_time = ''1970-01-01T00:00:02.000Z''"

definition sx_workflow :: "coordination_state \<Rightarrow> stored_approval list \<Rightarrow> stored_action" where
  "sx_workflow state approvals = \<lparr>sa_actionPackage = sx_package, sa_authorizationRequirements = sx_requirements,
     sa_actionRef = coord_ref, sa_state = state, sa_approvals = approvals, sa_createdAt = sx_time, sa_updatedAt = sx_time,
     sa_cancelledAt = None, sa_rejectedAt = None\<rparr>"

definition sx_entry :: stored_approval where
  "sx_entry = \<lparr>sap_approval = sx_approval, sap_signerDid = sx_signer, sap_decision = Approve\<rparr>"

definition sx_store1 :: coordination_store where
  "sx_store1 = (newCoordinationStore None)\<lparr>cs_actions := [sx_workflow Awaiting_Approvals []],
     cs_actionsById := [(''1'', 0)], cs_actionsByEnvelopeHash := [(''h'', 0)]\<rparr>"

definition sx_store2 :: coordination_store where
  "sx_store2 = sx_store1\<lparr>cs_actions := [sx_workflow Ready_For_Submission [sx_entry]]\<rparr>"

lemma sx_store_step1:
  "coordination_step (store_host sx_host) (newCoordinationStore None) (2000, Create_Workflow sx_package sx_requirements) = sx_store1"
  by code_simp

lemma sx_store_step2: "coordination_step (store_host sx_host) sx_store1 (2000, Submit_Approval sx_submission) = sx_store2"
  by code_simp

lemma sx_prepared_create:
  "prepare sx_host sx_options 2000 (newCoordinationStore None) (sx_request Workflow_Endpoint sx_proposer sx_create)
     (Authenticated_As (sx_auth sx_proposer)) sx_create = Prepared_Op (Create_Op sx_create) None"
  by code_simp

lemma sx_prepared_approve:
  "prepare sx_host sx_options 2000 sx_store1 (sx_request Approval_Endpoint sx_signer sx_approve)
     (Authenticated_As (sx_auth sx_signer)) sx_approve = Prepared_Op (Approve_Op sx_submission sx_signer) None"
  by code_simp

definition sx_clock :: "int \<Rightarrow> nat \<Rightarrow> int" where
  "sx_clock now = (\<lambda>n. now)"

definition sx_events :: "((nat \<Rightarrow> int) \<times> server_event) list" where
  "sx_events = map (Pair (sx_clock 2000)) [Arrive (sx_request Workflow_Endpoint sx_proposer sx_create), Handle 0, Run 0 [], Execute 0,
     Arrive (sx_request Approval_Endpoint sx_signer sx_approve), Handle 1, Run 1 [], Execute 1]"

text \<open>A thread passes its checks and claims its nonce; then its operation, without a key, is scheduled.\<close>

lemma sx_handle:
  assumes "i < length (sr_threads s)" "sr_threads s ! i = sx_thread e did body None (Entered (Authenticated_As (sx_auth did)) body)"
    and "prepare sx_host sx_options now (sr_store s) (sx_request e did body) (Authenticated_As (sx_auth did)) body = Prepared_Op op None"
    and "claim_nonce now did ''n'' 5000 (sr_nonces s) = (nonces, True)"
  shows "handle sx_host sx_options (sx_clock now) i s =
    s\<lparr>sr_nonces := nonces, sr_threads := (sr_threads s)[i := sx_thread e did body (Some now) (Claimed (Authenticated_As (sx_auth did)) op None body)]\<rparr>"
  using assms
  by (simp add: handle_def state_of_def sx_thread_def sx_clock_def claim_caller_def sx_auth_def set_state_def)

lemma sx_run_keyed:
  assumes "i < length (sr_threads s)" "sr_threads s ! i = sx_thread e did body (Some now) (Claimed c op None body)" "op_command op \<noteq> None"
  shows "run_op sx_host sx_options clock [] i s =
    s\<lparr>sr_threads := (sr_threads s)[i := sx_thread e did body (Some now) (Scheduled op None)]\<rparr>"
  using assms
  by (cases op) (simp_all add: run_op_def state_of_def sx_thread_def runIdempotent_def set_state_def op_command_def)

lemma sx_execute:
  assumes "i < length (sr_threads s)" "sr_threads s ! i = sx_thread e did body (Some now) (Scheduled op None)" "op_command op = Some cmd"
    and "\<And>envelope v. op \<noteq> Relay_Op envelope v"
  shows "sr_store (execute sx_host now i s) = coordination_step (store_host sx_host) (sr_store s) (now, cmd)"
    and "sv_executed (execute sx_host now i s) = sv_executed s @ [(i, op)]"
    and "sr_nonces (execute sx_host now i s) = sr_nonces s"
    and "sr_threads (execute sx_host now i s) = (sr_threads s)[i := sx_thread e did body (Some now) (Waiting_On i op)]"
proof -
  obtain store outcome notified where p: "perform sx_host now op (sr_store s) = (store, outcome, notified)" by (metis prod_cases3)
  then have "store = coordination_step (store_host sx_host) (sr_store s) (now, cmd)"
    using perform_store [OF assms(3), of sx_host now "sr_store s"] by simp
  with assms p
  show "sr_store (execute sx_host now i s) = coordination_step (store_host sx_host) (sr_store s) (now, cmd)"
    and "sv_executed (execute sx_host now i s) = sv_executed s @ [(i, op)]"
    and "sr_nonces (execute sx_host now i s) = sr_nonces s"
    and "sr_threads (execute sx_host now i s) = (sr_threads s)[i := sx_thread e did body (Some now) (Waiting_On i op)]"
    by (simp_all add: execute_def state_of_def sx_thread_def)
qed

lemma sx_commands:
  "op_command (Create_Op sx_create) = Some (Create_Workflow sx_package sx_requirements)"
  "op_command (Approve_Op sx_submission sx_signer) = Some (Submit_Approval sx_submission)"
  by (simp_all add: op_command_def sx_create_def)

lemma sx_claims:
  "claim_nonce 2000 sx_proposer ''n'' 5000 [] = ([(claim_key sx_proposer ''n'', 5000)], True)"
  "claim_nonce 2000 sx_signer ''n'' 5000 [(claim_key sx_proposer ''n'', 5000)] =
     ([(claim_key sx_proposer ''n'', 5000), (claim_key sx_signer ''n'', 5000)], True)"
  by (simp_all add: claim_nonce_def sx_proposer_def sx_signer_def)

lemma sx_events_step: "run_server H options s (ev # evs) = run_server H options (server_step H options s ev) evs"
  by (simp add: run_server_def)

lemma sx_run: "sr_store (run_server sx_host sx_options (newServer None) sx_events) = sx_store2"
proof -
  let ?p = "Authenticated_As (sx_auth sx_proposer)" and ?a = "Authenticated_As (sx_auth sx_signer)"
  let ?step = "\<lambda>s ev. server_step sx_host sx_options s (sx_clock 2000, ev)"
  define s1 where "s1 = ?step (newServer None) (Arrive (sx_request Workflow_Endpoint sx_proposer sx_create))"
  define s2 where "s2 = ?step s1 (Handle 0)"
  define s3 where "s3 = ?step s2 (Run 0 [])"
  define s4 where "s4 = ?step s3 (Execute 0)"
  define s5 where "s5 = ?step s4 (Arrive (sx_request Approval_Endpoint sx_signer sx_approve))"
  define s6 where "s6 = ?step s5 (Handle 1)"
  define s7 where "s7 = ?step s6 (Run 1 [])"
  define s8 where "s8 = ?step s7 (Execute 1)"
  have run: "run_server sx_host sx_options (newServer None) sx_events = s8"
    by (simp add: sx_events_def run_server_def s1_def s2_def s3_def s4_def s5_def s6_def s7_def s8_def del: server_step.simps)
  have clock: "sx_clock t n = t" for t n by (simp add: sx_clock_def)
  have s1: "sr_threads s1 = [sx_thread Workflow_Endpoint sx_proposer sx_create None (Entered ?p sx_create)]" "sr_nonces s1 = []"
    "sr_store s1 = newCoordinationStore None"
    by (simp_all add: s1_def clock sx_arrive newServer_def)
  have s2: "sr_threads s2 = [sx_thread Workflow_Endpoint sx_proposer sx_create (Some 2000) (Claimed ?p (Create_Op sx_create) None sx_create)]"
    "sr_nonces s2 = [(claim_key sx_proposer ''n'', 5000)]" "sr_store s2 = newCoordinationStore None"
    using sx_handle [of 0 s1 Workflow_Endpoint sx_proposer sx_create 2000 "Create_Op sx_create"] s1 sx_claims(1) sx_prepared_create
    by (simp_all add: s2_def)
  have s3: "sr_threads s3 = [sx_thread Workflow_Endpoint sx_proposer sx_create (Some 2000) (Scheduled (Create_Op sx_create) None)]"
    "sr_nonces s3 = sr_nonces s2" "sr_store s3 = sr_store s2"
    using sx_run_keyed [of 0 s2 Workflow_Endpoint sx_proposer sx_create 2000 ?p "Create_Op sx_create"] s2(1) sx_commands(1)
    by (simp_all add: s3_def)
  have s4: "length (sr_threads s4) = 1" "sr_nonces s4 = sr_nonces s3" "sr_store s4 = sx_store1"
    using sx_execute [of 0 s3 Workflow_Endpoint sx_proposer sx_create 2000 "Create_Op sx_create", OF _ _ sx_commands(1)] s3(1,3) s2(3)
    by (simp_all add: s4_def clock sx_store_step1 del: coordination_step.simps)
  have s5: "length (sr_threads s5) = 2" "sr_threads s5 ! 1 = sx_thread Approval_Endpoint sx_signer sx_approve None (Entered ?a sx_approve)"
    "sr_nonces s5 = sr_nonces s4" "sr_store s5 = sr_store s4"
    using s4(1) by (simp_all add: s5_def clock sx_arrive nth_append)
  have s6: "length (sr_threads s6) = 2"
    "sr_threads s6 ! 1 = sx_thread Approval_Endpoint sx_signer sx_approve (Some 2000) (Claimed ?a (Approve_Op sx_submission sx_signer) None sx_approve)"
    "sr_store s6 = sx_store1"
    using sx_handle [of 1 s5 Approval_Endpoint sx_signer sx_approve 2000 "Approve_Op sx_submission sx_signer"] s5 s4 s3(2) s2(2)
      sx_claims(2) sx_prepared_approve
    by (simp_all add: s6_def)
  have s7: "length (sr_threads s7) = 2"
    "sr_threads s7 ! 1 = sx_thread Approval_Endpoint sx_signer sx_approve (Some 2000) (Scheduled (Approve_Op sx_submission sx_signer) None)"
    "sr_store s7 = sx_store1"
    using sx_run_keyed [of 1 s6 Approval_Endpoint sx_signer sx_approve 2000 ?a "Approve_Op sx_submission sx_signer"] s6 sx_commands(2)
    by (simp_all add: s7_def)
  have "sr_store s8 = sx_store2"
    using sx_execute(1) [of 1 s7 Approval_Endpoint sx_signer sx_approve 2000 "Approve_Op sx_submission sx_signer", OF _ _ sx_commands(2)] s7
    by (simp add: s8_def clock sx_store_step2 del: coordination_step.simps)
  with run show ?thesis by simp
qed

section \<open>A nonce that is used twice\<close>

definition sx_session :: jsval where
  "sx_session = Obj [(''version'', Str ''1''), (''type'', Str ''CoordinationSessionRequest''), (''did'', Str sx_proposer)]"

definition sx_session_request :: server_request where
  "sx_session_request = sx_request Coordination_Session sx_proposer sx_session"

definition sx_sessions :: "((nat \<Rightarrow> int) \<times> server_event) list" where
  "sx_sessions = [(sx_clock 2000, Arrive sx_session_request), (sx_clock 2000, Handle 0), (sx_clock 2000, Run 0 ''t''),
     (sx_clock 5001, Arrive sx_session_request), (sx_clock 5001, Handle 1), (sx_clock 5001, Run 1 ''u'')]"

lemma sx_prepared_session:
  "prepare sx_host sx_options now store sx_session_request (Authenticated_As (sx_auth sx_proposer)) sx_session =
     Prepared_Op (Session_Op False sx_proposer) None"
  by (simp add: prepare_def sx_session_request_def sx_request_def prepare_session_def validateSessionRequest_def
      validate_did_request_def requireBody_def requireVersionType_def refuse_or_def sx_session_def did_prefixed.simps
      sx_proposer_def starts_with_def sx_auth_def require_def)

lemma sx_run_session:
  assumes "i < length (sr_threads s)" "sr_threads s ! i = sx_thread e did body (Some now) (Claimed c (Session_Op False d) None body)"
  shows "\<exists>r. sr_threads (run_op sx_host sx_options clock ticket i s) =
      (sr_threads s)[i := sx_thread e did body (Some now) (Replied_With r)]"
    and "sv_executed (run_op sx_host sx_options clock ticket i s) = sv_executed s @ [(i, Session_Op False d)]"
    and "sr_nonces (run_op sx_host sx_options clock ticket i s) = sr_nonces s"
proof -
  obtain s' r where o: "open_session sx_host sx_options clock ticket False d s = (s', r)" by fastforce
  note sel = open_session_sel [OF o]
  have eq: "run_op sx_host sx_options clock ticket i s = set_state i (Replied_With r) (s'\<lparr>sv_executed := sv_executed s @ [(i, Session_Op False d)]\<rparr>)"
    using assms o by (simp add: run_op_def state_of_def sx_thread_def)
  show "\<exists>r. sr_threads (run_op sx_host sx_options clock ticket i s) = (sr_threads s)[i := sx_thread e did body (Some now) (Replied_With r)]"
    using assms by (intro exI [of _ r]) (simp add: eq sel sx_thread_def)
  show "sv_executed (run_op sx_host sx_options clock ticket i s) = sv_executed s @ [(i, Session_Op False d)]"
    "sr_nonces (run_op sx_host sx_options clock ticket i s) = sr_nonces s" by (simp_all add: eq sel)
qed

lemma sx_sessions_run:
  "\<exists>r r'. sr_threads (run_server sx_host sx_options (newServer None) sx_sessions) =
      [sx_thread Coordination_Session sx_proposer sx_session (Some 2000) (Replied_With r),
       sx_thread Coordination_Session sx_proposer sx_session (Some 5001) (Replied_With r')]"
  "sv_executed (run_server sx_host sx_options (newServer None) sx_sessions) = [(0, Session_Op False sx_proposer), (1, Session_Op False sx_proposer)]"
proof -
  let ?c = "Authenticated_As (sx_auth sx_proposer)" and ?op = "Session_Op False sx_proposer"
  let ?thr = "sx_thread Coordination_Session sx_proposer sx_session"
  let ?step = "server_step sx_host sx_options"
  define s1 where "s1 = ?step (newServer None) (sx_clock 2000, Arrive sx_session_request)"
  define s2 where "s2 = ?step s1 (sx_clock 2000, Handle 0)"
  define s3 where "s3 = ?step s2 (sx_clock 2000, Run 0 ''t'')"
  define s4 where "s4 = ?step s3 (sx_clock 5001, Arrive sx_session_request)"
  define s5 where "s5 = ?step s4 (sx_clock 5001, Handle 1)"
  define s6 where "s6 = ?step s5 (sx_clock 5001, Run 1 ''u'')"
  have run: "run_server sx_host sx_options (newServer None) sx_sessions = s6"
    by (simp add: sx_sessions_def run_server_def s1_def s2_def s3_def s4_def s5_def s6_def del: server_step.simps)
  have clock: "sx_clock t n = t" for t n by (simp add: sx_clock_def)
  note prepared = sx_prepared_session [unfolded sx_session_request_def]
  have s1: "sr_threads s1 = [?thr None (Entered ?c sx_session)]" "sr_nonces s1 = []" "sv_executed s1 = []"
    by (simp_all add: s1_def clock sx_session_request_def sx_arrive newServer_def)
  have s2: "sr_threads s2 = [?thr (Some 2000) (Claimed ?c ?op None sx_session)]"
    "sr_nonces s2 = [(claim_key sx_proposer ''n'', 5000)]" "sv_executed s2 = []"
    using sx_handle [of 0 s1 Coordination_Session sx_proposer sx_session 2000 ?op] s1 sx_claims(1) prepared
    by (simp_all add: s2_def)
  obtain r where s3: "sr_threads s3 = [?thr (Some 2000) (Replied_With r)]" "sr_nonces s3 = sr_nonces s2" "sv_executed s3 = [(0, ?op)]"
    using sx_run_session [of 0 s2 Coordination_Session sx_proposer sx_session 2000 ?c sx_proposer "sx_clock 2000" "''t''"] s2
    by (auto simp: s3_def)
  have s4: "sr_threads s4 = [?thr (Some 2000) (Replied_With r), ?thr None (Entered ?c sx_session)]" "sr_nonces s4 = sr_nonces s3"
    "sv_executed s4 = sv_executed s3"
    using s3(1) by (simp_all add: s4_def clock sx_session_request_def sx_arrive)
  have claim: "claim_nonce 5001 sx_proposer ''n'' 5000 [(claim_key sx_proposer ''n'', 5000)] = ([(claim_key sx_proposer ''n'', 5000)], True)"
    by (simp add: claim_nonce_def)
  have s5: "sr_threads s5 = [?thr (Some 2000) (Replied_With r), ?thr (Some 5001) (Claimed ?c ?op None sx_session)]"
    "sv_executed s5 = sv_executed s4"
    using sx_handle [of 1 s4 Coordination_Session sx_proposer sx_session 5001 ?op] s4(1,2) s3(2) s2(2) claim prepared
    by (simp_all add: s5_def)
  obtain r' where s6: "sr_threads s6 = [?thr (Some 2000) (Replied_With r), ?thr (Some 5001) (Replied_With r')]"
    "sv_executed s6 = sv_executed s5 @ [(1, ?op)]"
    using sx_run_session [of 1 s5 Coordination_Session sx_proposer sx_session 5001 ?c sx_proposer "sx_clock 5001" "''u''"] s5
    by (auto simp: s6_def)
  show "\<exists>r r'. sr_threads (run_server sx_host sx_options (newServer None) sx_sessions) =
      [?thr (Some 2000) (Replied_With r), ?thr (Some 5001) (Replied_With r')]" using run s6(1) by auto
  show "sv_executed (run_server sx_host sx_options (newServer None) sx_sessions) = [(0, ?op), (1, ?op)]"
    using run s6(2) s5(2) s4(3) s3(3) by simp
qed

end
