(* ===== verification/ServerProperties.thy ===== *)
theory ServerProperties
  imports ServerExample
begin

text \<open>
  What the coordination service guarantees over every interleaving of requests: its store is
  a run of the coordination store, stored decisions are those of authenticated signers, and
  a request that is replayed while its nonce is remembered has no effect.
\<close>

section \<open>Properties\<close>

text \<open>
  C8. Whatever requests are served and however they interleave, the service's store is the
  coordination store after the commands it logs; those that change anything are, in order,
  the operations that the service has executed, and no request has more than one executed.
\<close>

theorem server_store_is_a_run:
  "(let s = run_server H options (newServer t) events in
     sr_store s = run_coordination (store_host H) (newCoordinationStore t) (sv_log s) \<and>
     filter (\<lambda>c. \<not> read_command c) (map snd (sv_log s)) = List.map_filter (\<lambda>(i, op). command_of options op) (sv_executed s) \<and>
     distinct (map fst (sv_executed s)))"
  using reachable_log [of H options t events] reachable_server [of H options t events]
  by (simp add: log_ok_def server_inv_def Let_def)

text \<open>
  C6. With enforcement, every decision stored with a workflow was in the body of a request
  whose signature verified as that of the signer to whom it is attributed, and the request's
  nonce was claimed.
\<close>

theorem stored_decisions_are_authenticated:
  assumes "sv_enforcement options" and "entry \<in> store_entries (sr_store s)" and s: "s = run_server H options (newServer t) events"
  shows "\<exists>thr \<in> set (sr_threads s). \<exists>now body raw submission a.
    parse_content H (rq_content (st_request thr)) = Inr (body, raw) \<and>
    verifyMpasRfc9421 H now (verify_request options now (st_request thr) raw) = Inr a \<and> st_claimedAt thr \<noteq> None \<and>
    submission_of body = Some submission \<and> sap_approval entry = sub_approval submission \<and>
    sap_decision entry = sub_decision submission \<and> sap_signerDid entry = au_did a"
proof -
  have inv: "server_inv H options s" unfolding s by (rule reachable_server)
  have log: "log_ok H options t s" unfolding s by (rule reachable_log)
  have "store_entries (newCoordinationStore t) = {}" by (simp add: store_entries_def newCoordinationStore_def)
  with log assms(2) store_entries_run [of "store_host H" "newCoordinationStore t" "sv_log s"]
  obtain clock submission where sub: "(clock, Submit_Approval submission) \<in> set (sv_log s)" "submitted_entry (store_host H) submission entry"
    by (auto simp: log_ok_def)
  then have "Submit_Approval submission \<in> set (filter (\<lambda>c. \<not> read_command c) (map snd (sv_log s)))" by force
  with log have "Submit_Approval submission \<in> set (List.map_filter (\<lambda>(i, op). command_of options op) (sv_executed s))"
    by (simp only: log_ok_def)
  then obtain i op where op: "(i, op) \<in> set (sv_executed s)" "command_of options op = Some (Submit_Approval submission)"
    by (auto simp: List.map_filter_def)
  then obtain signer where approve: "op = Approve_Op submission signer"
    by (cases op) (auto simp: command_of_def op_command_def)
  let ?thr = "sr_threads s ! i"
  have i: "i < length (sr_threads s)" and "cleared H ?thr op" using inv op(1) by (auto simp: server_inv_def)
  then obtain c body raw where c: "st_caller ?thr = Some c" "authorised c op" "c \<noteq> Auth_Disabled \<longrightarrow> st_claimedAt ?thr \<noteq> None"
    and b: "parse_content H (rq_content (st_request ?thr)) = Inr (body, raw)" "submission_of body = Some submission"
    and signer: "signer = text_of (decodeApprovalSignerDid (store_host H) (sub_approval submission))"
    by (auto simp: cleared_def approve)
  have "thread_ok H options ?thr" using inv i by (simp add: server_inv_def list_all_length)
  then have "caller_ok H options (st_request ?thr) c" using c(1) by (simp add: thread_ok_def caller_verified_def)
  with assms(1) obtain a now where a: "c = Authenticated_As a"
    "verifyMpasRfc9421 H now (verify_request options now (st_request ?thr) raw) = Inr a"
    using b(1) by (cases c) auto
  with c(2) sub(2) signer have "sap_signerDid entry = au_did a" by (simp add: approve submitted_entry_def)
  with a b c(3) sub(2) have "parse_content H (rq_content (st_request ?thr)) = Inr (body, raw) \<and>
    verifyMpasRfc9421 H now (verify_request options now (st_request ?thr) raw) = Inr a \<and> st_claimedAt ?thr \<noteq> None \<and>
    submission_of body = Some submission \<and> sap_approval entry = sub_approval submission \<and>
    sap_decision entry = sub_decision submission \<and> sap_signerDid entry = au_did a"
    by (simp add: submitted_entry_def)
  then show ?thesis using nth_mem [OF i] by blast
qed

theorem stored_decisions_are_authenticated_witness:
  "sx_entry \<in> store_entries sx_store2 \<and> (\<exists>thr \<in> set (sr_threads (run_server sx_host sx_options (newServer None) sx_events)).
     \<exists>now raw body a. verifyMpasRfc9421 sx_host now (verify_request sx_options now (st_request thr) raw) = Inr a \<and>
       parse_content sx_host (rq_content (st_request thr)) = Inr (body, raw) \<and> au_did a = sx_signer)"
proof
  show entry: "sx_entry \<in> store_entries sx_store2"
    by (simp add: store_entries_def sx_store2_def sx_workflow_def)
  have "sv_enforcement sx_options" by (simp add: sx_options_def)
  moreover have "sap_signerDid sx_entry = sx_signer" by (simp add: sx_entry_def)
  ultimately show "\<exists>thr \<in> set (sr_threads (run_server sx_host sx_options (newServer None) sx_events)).
     \<exists>now raw body a. verifyMpasRfc9421 sx_host now (verify_request sx_options now (st_request thr) raw) = Inr a \<and>
       parse_content sx_host (rq_content (st_request thr)) = Inr (body, raw) \<and> au_did a = sx_signer"
    using stored_decisions_are_authenticated [OF _ entry [folded sx_run] refl] by metis
qed

text \<open>
  C7. While the clock does not go back, two requests with the same identity and nonce whose
  operations were both executed are apart: one claimed the nonce after the other had expired.
\<close>

theorem executed_once_per_nonce:
  assumes "clocks_from lo events" and s: "s = run_server H options (newServer t) events"
    and "(i, op) \<in> set (sv_executed s)" "(j, op') \<in> set (sv_executed s)" "i \<noteq> j"
    and callers: "st_caller (sr_threads s ! i) = Some (Authenticated_As a)" "st_caller (sr_threads s ! j) = Some (Authenticated_As b)"
    and same: "au_did a = au_did b" "au_nonce a = au_nonce b"
  shows "\<exists>t u. st_claimedAt (sr_threads s ! i) = Some t \<and> st_claimedAt (sr_threads s ! j) = Some u \<and> (au_expiresAt a < u \<or> au_expiresAt b < t)"
proof -
  have inv: "server_inv H options s" unfolding s by (rule reachable_server)
  obtain hi where "claims_ok hi s" using reachable_claims [OF assms(1)] unfolding s by blast
  moreover have "i < length (sr_threads s)" "j < length (sr_threads s)" using inv assms(3,4) by (auto simp: server_inv_def)
  moreover obtain t u where "st_claimedAt (sr_threads s ! i) = Some t" "st_claimedAt (sr_threads s ! j) = Some u"
    using inv assms(3,4) callers by (force simp: server_inv_def cleared_def)
  ultimately show ?thesis
    using assms(5) callers same by (auto simp: claims_ok_def nonces_ok_def claims_def claim_of_def auth_key_def)
qed

theorem executed_once_per_nonce_witness:
  "\<exists>t u. st_claimedAt (sr_threads (run_server sx_host sx_options (newServer None) sx_sessions) ! 0) = Some t \<and>
     st_claimedAt (sr_threads (run_server sx_host sx_options (newServer None) sx_sessions) ! 1) = Some u \<and> (5000 < u \<or> 5000 < t)"
proof -
  let ?s = "run_server sx_host sx_options (newServer None) sx_sessions"
  have executed: "sv_executed ?s = [(0, Session_Op False sx_proposer), (1, Session_Op False sx_proposer)]" by (rule sx_sessions_run(2))
  have callers: "st_caller (sr_threads ?s ! 0) = Some (Authenticated_As (sx_auth sx_proposer))"
    "st_caller (sr_threads ?s ! 1) = Some (Authenticated_As (sx_auth sx_proposer))"
    using sx_sessions_run(1) by (auto simp: sx_thread_def)
  have clocks: "clocks_from 0 sx_sessions" by (simp add: sx_sessions_def sx_clock_def)
  have expiry: "au_expiresAt (sx_auth sx_proposer) = 5000" by (simp add: sx_auth_def)
  show ?thesis
    using executed_once_per_nonce [OF clocks refl _ _ _ callers refl refl, of "Session_Op False sx_proposer" "Session_Op False sx_proposer"]
    unfolding executed expiry by simp
qed

end
