(* ===== verification/SqliteStore.thy ===== *)
theory SqliteStore
  imports WorkflowStore
begin

text \<open>
  The durable workflow store of the bridge, \<open>cli/src/bridge/sqlite-workflow-store.ts\<close>, over tables as
  lists of rows, and its refinement of the in-memory reference store.

  \<^item> A JSON column holds the value that \<open>JSON.parse\<close> gives back for the text that \<open>JSON.stringify\<close>
    wrote: \<open>json_column\<close>, which is \<open>None\<close> where \<open>JSON.stringify\<close> throws.
  \<^item> The constraints of the schema are checks of the statements: primary keys, the unique index of
    the current Action ID and the foreign key of an alias. A failed transaction is rolled back.
  \<^item> The order of rows with one creation time is not specified: \<open>scan\<close> is the order in
    which the query reads the table.
\<close>

section \<open>JSON columns\<close>

definition null_if_undefined :: "jsval \<Rightarrow> jsval" where
  "null_if_undefined v = (if v = Undefined then Null else v)"

text \<open>\<open>JSON.parse(JSON.stringify(v))\<close>, with \<open>Undefined\<close> for a value that is not written.\<close>

fun json_value :: "jsval \<Rightarrow> jsval option" where
  "json_value Undefined = Some Undefined"
| "json_value Null = Some Null"
| "json_value (Bool b) = Some (Bool b)"
| "json_value (Num n) = Some (case n of Fin q \<Rightarrow> Num (Fin q) | _ \<Rightarrow> Null)"
| "json_value (BigI i) = None"
| "json_value (Str s) = Some (Str s)"
| "json_value (Arr xs) = map_option (\<lambda>ys. Arr (map null_if_undefined ys)) (those (map json_value xs))"
| "json_value (Obj kvs) = map_option (\<lambda>ys. Obj (filter (\<lambda>(k, v). v \<noteq> Undefined) ys))
     (those (map (\<lambda>(k, v). map_option (Pair k) (json_value v)) kvs))"

text \<open>\<open>toJson\<close> and \<open>fromJson\<close>: \<open>undefined\<close> and \<open>null\<close> are both written as \<open>null\<close>.\<close>

definition json_column :: "jsval \<Rightarrow> jsval option" where
  "json_column v = json_value (null_if_undefined v)"

fun json_resolution :: "workflow_resolution \<Rightarrow> workflow_resolution option" where
  "json_resolution (Resolution_Resolved response receipt) =
    (case (json_value response, case receipt of None \<Rightarrow> Some Undefined | Some v \<Rightarrow> json_value v) of
       (Some r, Some q) \<Rightarrow> Some (Resolution_Resolved r (if q = Undefined then None else Some q))
     | _ \<Rightarrow> None)"
| "json_resolution (Resolution_Unresolvable code message) = Some (Resolution_Unresolvable code message)"
| "json_resolution (Resolution_Cancelled t) = Some (Resolution_Cancelled t)"

section \<open>Tables\<close>

record sql_row =
  row_action_id :: string
  row_current_action_id :: string
  row_action_idempotency_key :: string
  row_envelope_hash :: string
  row_tool_name :: string
  row_state :: workflow_state
  row_action_package :: jsval
  row_authorization_requirements :: "jsval option"
  row_coordination_ref :: "jsval option"
  row_completed_package :: "jsval option"
  row_adapter_attempts :: "jsval list"
  row_last_action_response :: "jsval option"
  row_expires_at :: timestamp
  row_created_at :: timestamp
  row_updated_at :: timestamp
  row_claimed_by :: "string option"
  row_claim_expires_ms :: "int option"
  row_resolved_at :: "timestamp option"
  row_resolution :: "workflow_resolution option"

record sql_store =
  sq_user_version :: int
  sq_workflows :: "sql_row list"
  sq_aliases :: "(string \<times> string) list"

datatype sql_error = Sql_Error string | Unique_Violation | Foreign_Key_Violation | Json_Throws

definition SCHEMA_VERSION :: int where
  "SCHEMA_VERSION = 3"

definition newSqlStore :: sql_store where
  "newSqlStore = \<lparr>sq_user_version = SCHEMA_VERSION, sq_workflows = [], sq_aliases = []\<rparr>"

definition rowToRecord :: "sql_row \<Rightarrow> workflow_record" where
  "rowToRecord r = \<lparr>w_taskId = row_action_id r, w_actionId = row_current_action_id r,
     w_actionIdempotencyKey = row_action_idempotency_key r, w_actionEnvelopeHash = row_envelope_hash r,
     w_toolName = row_tool_name r, w_state = row_state r, w_actionPackage = row_action_package r,
     w_authorizationRequirements = row_authorization_requirements r, w_coordinationRef = row_coordination_ref r,
     w_completedPackage = row_completed_package r, w_adapterAttempts = row_adapter_attempts r,
     w_lastActionResponse = row_last_action_response r, w_expiresAt = row_expires_at r, w_createdAt = row_created_at r,
     w_updatedAt = row_updated_at r, w_claimedBy = row_claimed_by r,
     w_claimExpiresAt = map_option iso_of_ms (row_claim_expires_ms r), w_resolvedAt = row_resolved_at r,
     w_resolution = row_resolution r\<rparr>"

section \<open>Statements\<close>

definition insert_workflow :: "sql_row \<Rightarrow> sql_store \<Rightarrow> sql_error + sql_store" where
  "insert_workflow r db =
    (if list_ex (\<lambda>x. row_action_id x = row_action_id r \<or> row_current_action_id x = row_current_action_id r) (sq_workflows db)
     then Inl Unique_Violation else Inr (db\<lparr>sq_workflows := sq_workflows db @ [r]\<rparr>))"

definition insert_alias :: "string \<Rightarrow> string \<Rightarrow> sql_store \<Rightarrow> sql_error + sql_store" where
  "insert_alias actionId taskId db =
    (if list_ex (\<lambda>(a, t). a = actionId) (sq_aliases db) then Inl Unique_Violation
     else if \<not> list_ex (\<lambda>x. row_action_id x = taskId) (sq_workflows db) then Inl Foreign_Key_Violation
     else Inr (db\<lparr>sq_aliases := sq_aliases db @ [(actionId, taskId)]\<rparr>))"

text \<open>An \<open>UPDATE\<close> of the rows with a task id and a condition: the tables and the number of changes.\<close>

definition update_workflows :: "string \<Rightarrow> (sql_row \<Rightarrow> bool) \<Rightarrow> (sql_row \<Rightarrow> sql_row) \<Rightarrow> sql_store \<Rightarrow> sql_store \<times> nat" where
  "update_workflows taskId cond f db =
    (db\<lparr>sq_workflows := map (\<lambda>r. if row_action_id r = taskId \<and> cond r then f r else r) (sq_workflows db)\<rparr>,
     length (filter (\<lambda>r. row_action_id r = taskId \<and> cond r) (sq_workflows db)))"

section \<open>Operations\<close>

definition sqlGetWorkflow :: "sql_store \<Rightarrow> string \<Rightarrow> workflow_record option" where
  "sqlGetWorkflow db taskId = map_option rowToRecord (List.find (\<lambda>r. row_action_id r = taskId) (sq_workflows db))"

definition sqlGetWorkflowByActionId :: "sql_store \<Rightarrow> string \<Rightarrow> workflow_record option" where
  "sqlGetWorkflowByActionId db actionId = (case List.find (\<lambda>(a, t). a = actionId) (sq_aliases db) of
     None \<Rightarrow> None | Some (a, taskId) \<Rightarrow> sqlGetWorkflow db taskId)"

definition sqlMustGet :: "sql_store \<Rightarrow> string \<Rightarrow> sql_error + workflow_record" where
  "sqlMustGet db taskId = (case sqlGetWorkflow db taskId of
     None \<Rightarrow> Inl (Sql_Error (''Workflow not found for task '' @ taskId @ ''.'')) | Some r \<Rightarrow> Inr r)"

definition sqlCreateWorkflow :: "int \<Rightarrow> create_workflow_input \<Rightarrow> sql_store \<Rightarrow> sql_store \<times> (sql_error + workflow_record)" where
  "sqlCreateWorkflow now input db =
    (if cwi_taskId input = cwi_actionId input then (db, Inl (Sql_Error ''Task ID and Action ID must be distinct.''))
     else let time = iso_of_ms now in
       case and_then (case json_column (cwi_actionPackage input) of None \<Rightarrow> Inl Json_Throws | Some v \<Rightarrow> Inr v) (\<lambda>v.
         and_then (insert_workflow \<lparr>row_action_id = cwi_taskId input, row_current_action_id = cwi_actionId input,
           row_action_idempotency_key = cwi_actionIdempotencyKey input, row_envelope_hash = cwi_actionEnvelopeHash input,
           row_tool_name = cwi_toolName input, row_state = Created, row_action_package = v, row_authorization_requirements = None,
           row_coordination_ref = None, row_completed_package = None, row_adapter_attempts = [], row_last_action_response = None,
           row_expires_at = cwi_expiresAt input, row_created_at = time, row_updated_at = time, row_claimed_by = None,
           row_claim_expires_ms = None, row_resolved_at = None, row_resolution = None\<rparr> db)
         (insert_alias (cwi_actionId input) (cwi_taskId input))) of
         Inl Unique_Violation \<Rightarrow> (db, Inl (Sql_Error (''Workflow already exists for task '' @ cwi_taskId input @ '' or action '' @ cwi_actionId input @ ''.'')))
       | Inl e \<Rightarrow> (db, Inl e)
       | Inr db' \<Rightarrow> (db', sqlMustGet db' (cwi_taskId input)))"

definition sqlReplaceAction :: "int \<Rightarrow> string \<Rightarrow> replace_action_input \<Rightarrow> sql_store \<Rightarrow> sql_store \<times> (sql_error + workflow_record)" where
  "sqlReplaceAction now taskId input db =
    (if taskId = rai_actionId input then (db, Inl (Sql_Error ''Task ID and Action ID must be distinct.''))
     else case and_then (insert_alias (rai_actionId input) taskId db) (\<lambda>db1.
         case (json_column (rai_actionPackage input), json_column (rai_authorizationRequirements input)) of
           (Some pkg, Some requirements) \<Rightarrow>
             (case update_workflows taskId (\<lambda>r. row_state r = rai_fromState input)
               (\<lambda>r. r\<lparr>row_current_action_id := rai_actionId input, row_action_idempotency_key := rai_actionIdempotencyKey input,
                 row_envelope_hash := rai_actionEnvelopeHash input, row_action_package := pkg,
                 row_authorization_requirements := Some requirements, row_coordination_ref := None, row_completed_package := None,
                 row_expires_at := rai_expiresAt input, row_state := Submitting_To_Coordination, row_updated_at := iso_of_ms now\<rparr>) db1 of
               (db2, changes) \<Rightarrow> if changes \<noteq> 1
                 then Inl (Sql_Error (''Workflow '' @ taskId @ '' is not in replacement state '' @ state_text (rai_fromState input) @ ''.''))
                 else Inr db2)
         | _ \<Rightarrow> Inl Json_Throws) of
       Inl e \<Rightarrow> (db, Inl e)
     | Inr db' \<Rightarrow> (db', sqlMustGet db' taskId))"

definition sqlCompareAndSetState :: "int \<Rightarrow> string \<Rightarrow> workflow_state \<Rightarrow> workflow_state \<Rightarrow> sql_store \<Rightarrow> sql_store \<times> bool" where
  "sqlCompareAndSetState now taskId from_state to_state db =
    (if terminal from_state \<or> terminal to_state then (db, False)
     else case update_workflows taskId (\<lambda>r. row_state r = from_state)
         (\<lambda>r. r\<lparr>row_state := to_state, row_updated_at := iso_of_ms now\<rparr>) db of (db', changes) \<Rightarrow> (db', changes = 1))"

definition sqlClaimWorkflow :: "int \<Rightarrow> int \<Rightarrow> string \<Rightarrow> string \<Rightarrow> int \<Rightarrow> sql_store \<Rightarrow> sql_store \<times> bool" where
  "sqlClaimWorkflow nowMs later taskId workerId leaseMs db =
    (case update_workflows taskId (\<lambda>r. \<not> terminal (row_state r) \<and> (row_claimed_by r = None \<or> row_claimed_by r = Some workerId \<or>
          (case row_claim_expires_ms r of None \<Rightarrow> False | Some t \<Rightarrow> t \<le> nowMs)))
        (\<lambda>r. r\<lparr>row_claimed_by := Some workerId, row_claim_expires_ms := Some (nowMs + leaseMs), row_updated_at := iso_of_ms later\<rparr>) db of
       (db', changes) \<Rightarrow> (db', changes = 1))"

text \<open>\<open>setColumn\<close>; the assignment writes the value it is given.\<close>

definition setColumn :: "int \<Rightarrow> string \<Rightarrow> (jsval \<Rightarrow> sql_row \<Rightarrow> sql_row) \<Rightarrow> jsval \<Rightarrow> sql_store \<Rightarrow> sql_store \<times> (sql_error + unit)" where
  "setColumn now taskId assign v db = (case json_column v of
     None \<Rightarrow> (db, Inl Json_Throws)
   | Some w \<Rightarrow> (fst (update_workflows taskId (\<lambda>r. True) (\<lambda>r. (assign w r)\<lparr>row_updated_at := iso_of_ms now\<rparr>) db), Inr ()))"

definition sqlSaveCoordinationReference :: "int \<Rightarrow> string \<Rightarrow> jsval \<Rightarrow> sql_store \<Rightarrow> sql_store \<times> (sql_error + unit)" where
  "sqlSaveCoordinationReference now taskId = setColumn now taskId (\<lambda>w. row_coordination_ref_update (\<lambda>_. Some w))"

definition sqlSaveCompletedPackage :: "int \<Rightarrow> string \<Rightarrow> jsval \<Rightarrow> sql_store \<Rightarrow> sql_store \<times> (sql_error + unit)" where
  "sqlSaveCompletedPackage now taskId = setColumn now taskId (\<lambda>w. row_completed_package_update (\<lambda>_. Some w))"

definition sqlSaveAuthorizationRequirements :: "int \<Rightarrow> string \<Rightarrow> jsval \<Rightarrow> sql_store \<Rightarrow> sql_store \<times> (sql_error + unit)" where
  "sqlSaveAuthorizationRequirements now taskId = setColumn now taskId (\<lambda>w. row_authorization_requirements_update (\<lambda>_. Some w))"

definition sqlSaveLastActionResponse :: "int \<Rightarrow> string \<Rightarrow> jsval \<Rightarrow> sql_store \<Rightarrow> sql_store \<times> (sql_error + unit)" where
  "sqlSaveLastActionResponse now taskId = setColumn now taskId (\<lambda>w. row_last_action_response_update (\<lambda>_. Some w))"

definition sqlSaveAdapterAttempt :: "int \<Rightarrow> string \<Rightarrow> jsval \<Rightarrow> sql_store \<Rightarrow> sql_store \<times> (sql_error + unit)" where
  "sqlSaveAdapterAttempt now taskId = setColumn now taskId (\<lambda>w. row_adapter_attempts_update (\<lambda>xs. xs @ [w]))"

definition resolve_row :: "timestamp \<Rightarrow> workflow_resolution \<Rightarrow> sql_row \<Rightarrow> sql_row" where
  "resolve_row time p r = r\<lparr>row_state := resolution_state p, row_resolution := Some p, row_resolved_at := Some time, row_updated_at := time\<rparr>"

definition sqlResolveWorkflow :: "int \<Rightarrow> string \<Rightarrow> workflow_resolution \<Rightarrow> sql_store \<Rightarrow> sql_store \<times> (sql_error + unit)" where
  "sqlResolveWorkflow now taskId resolution db = (case json_resolution resolution of
     None \<Rightarrow> (db, Inl Json_Throws)
   | Some p \<Rightarrow> (fst (update_workflows taskId (\<lambda>r. \<not> terminal (row_state r)) (resolve_row (iso_of_ms now) p) db), Inr ()))"

definition sqlCancelWorkflow :: "int \<Rightarrow> string \<Rightarrow> sql_store \<Rightarrow> sql_store \<times> bool" where
  "sqlCancelWorkflow now taskId db =
    (case update_workflows taskId (\<lambda>r. \<not> terminal (row_state r))
        (resolve_row (iso_of_ms now) (Resolution_Cancelled (iso_of_ms now))) db of (db', changes) \<Rightarrow> (db', changes = 1))"

definition sqlListRecoverableWorkflows :: "(sql_row list \<Rightarrow> sql_row list) \<Rightarrow> sql_store \<Rightarrow> workflow_record list" where
  "sqlListRecoverableWorkflows scan db =
     foldr insert_created (map rowToRecord (filter (\<lambda>r. \<not> terminal (row_state r)) (scan (sq_workflows db)))) []"

definition sql_overdue :: "('a) host_scheme \<Rightarrow> int \<Rightarrow> int \<Rightarrow> sql_row \<Rightarrow> bool" where
  "sql_overdue H nowMs retentionMs r = (case (date_parse (legacy_date H) (row_expires_at r),
       case row_resolved_at r of None \<Rightarrow> None | Some t \<Rightarrow> date_parse (legacy_date H) t) of
     (Some e, Some d) \<Rightarrow> max e (d + retentionMs) < nowMs | _ \<Rightarrow> False)"

fun sql_purge_loop :: "('a) host_scheme \<Rightarrow> int \<Rightarrow> int \<Rightarrow> sql_row list \<Rightarrow> sql_store \<times> nat \<Rightarrow> sql_store \<times> nat" where
  "sql_purge_loop H nowMs retentionMs [] (db, purged) = (db, purged)"
| "sql_purge_loop H nowMs retentionMs (row # rest) (db, purged) =
     (if sql_overdue H nowMs retentionMs row
      then sql_purge_loop H nowMs retentionMs rest
        (db\<lparr>sq_aliases := filter (\<lambda>(a, t). t \<noteq> row_action_id row) (sq_aliases db),
            sq_workflows := filter (\<lambda>r. row_action_id r \<noteq> row_action_id row) (sq_workflows db)\<rparr>,
         purged + length (filter (\<lambda>r. row_action_id r = row_action_id row) (sq_workflows db)))
      else sql_purge_loop H nowMs retentionMs rest (db, purged))"

definition sqlPurgeExpiredResults :: "('a) host_scheme \<Rightarrow> int \<Rightarrow> int \<Rightarrow> sql_store \<Rightarrow> sql_store \<times> nat" where
  "sqlPurgeExpiredResults H nowMs retentionMs db =
     sql_purge_loop H nowMs retentionMs (filter (\<lambda>r. terminal (row_state r)) (sq_workflows db)) (db, 0)"

section \<open>Opening a database\<close>

fun join_ids :: "string list \<Rightarrow> string" where
  "join_ids [] = []"
| "join_ids [x] = x"
| "join_ids (x # y # xs) = x @ '', '' @ join_ids (y # xs)"

text \<open>\<open>migrate\<close>; of a legacy table only the ids and states are read.\<close>

definition openSqlStore :: "bool \<Rightarrow> sql_store \<Rightarrow> string + sql_store" where
  "openSqlStore allowReset db =
    (if SCHEMA_VERSION < sq_user_version db
     then Inl (''Workflow store schema version '' @ show_nat (nat (sq_user_version db)) @ '' is newer than supported version '' @
       show_nat (nat SCHEMA_VERSION) @ ''; refusing to open.'')
     else if sq_user_version db = SCHEMA_VERSION then Inr db
     else if 1 \<le> sq_user_version db then
       (let active = filter (\<lambda>r. \<not> terminal (row_state r)) (sq_workflows db) in
        if active \<noteq> [] \<and> \<not> allowReset
        then Inl (''Legacy workflow store (schema v'' @ show_nat (nat (sq_user_version db)) @ '') contains '' @ show_nat (length active) @
          '' active workflow(s) that will be discarded: '' @ join_ids (map row_action_id active) @
          ''. Cancel them via the Coordination Service before upgrading, or set MPAS_ALLOW_LEGACY_WORKFLOW_RESET=1 to accept the loss.'')
        else Inr newSqlStore)
     else Inr (db\<lparr>sq_user_version := SCHEMA_VERSION\<rparr>))"


section \<open>Commands\<close>

fun sql_step :: "('a) host_scheme \<Rightarrow> sql_store \<Rightarrow> int \<times> store_cmd \<Rightarrow> sql_store" where
  "sql_step H db (now, Create_Cmd input) = fst (sqlCreateWorkflow now input db)"
| "sql_step H db (now, Replace_Cmd t input) = fst (sqlReplaceAction now t input db)"
| "sql_step H db (now, Cas_Cmd t a b) = fst (sqlCompareAndSetState now t a b db)"
| "sql_step H db (now, Claim_Cmd t w l) = fst (sqlClaimWorkflow now now t w l db)"
| "sql_step H db (now, Save_Coordination_Cmd t v) = fst (sqlSaveCoordinationReference now t v db)"
| "sql_step H db (now, Save_Completed_Cmd t v) = fst (sqlSaveCompletedPackage now t v db)"
| "sql_step H db (now, Save_Requirements_Cmd t v) = fst (sqlSaveAuthorizationRequirements now t v db)"
| "sql_step H db (now, Save_Response_Cmd t v) = fst (sqlSaveLastActionResponse now t v db)"
| "sql_step H db (now, Save_Attempt_Cmd t v) = fst (sqlSaveAdapterAttempt now t v db)"
| "sql_step H db (now, Resolve_Cmd t p) = fst (sqlResolveWorkflow now t p db)"
| "sql_step H db (now, Cancel_Cmd t) = fst (sqlCancelWorkflow now t db)"
| "sql_step H db (now, Purge_Cmd retention) = fst (sqlPurgeExpiredResults H now retention db)"

definition run_sql :: "('a) host_scheme \<Rightarrow> sql_store \<Rightarrow> (int \<times> store_cmd) list \<Rightarrow> sql_store" where
  "run_sql H db cs = foldl (sql_step H) db cs"

text \<open>The command with its values as they are read back; \<open>None\<close> for one that throws before it is run.\<close>

fun json_cmd :: "store_cmd \<Rightarrow> store_cmd option" where
  "json_cmd (Create_Cmd input) = map_option (\<lambda>v. Create_Cmd (input\<lparr>cwi_actionPackage := v\<rparr>)) (json_column (cwi_actionPackage input))"
| "json_cmd (Replace_Cmd t input) =
    (case (json_column (rai_actionPackage input), json_column (rai_authorizationRequirements input)) of
       (Some v, Some w) \<Rightarrow> Some (Replace_Cmd t (input\<lparr>rai_actionPackage := v, rai_authorizationRequirements := w\<rparr>))
     | _ \<Rightarrow> None)"
| "json_cmd (Save_Coordination_Cmd t v) = map_option (Save_Coordination_Cmd t) (json_column v)"
| "json_cmd (Save_Completed_Cmd t v) = map_option (Save_Completed_Cmd t) (json_column v)"
| "json_cmd (Save_Requirements_Cmd t v) = map_option (Save_Requirements_Cmd t) (json_column v)"
| "json_cmd (Save_Response_Cmd t v) = map_option (Save_Response_Cmd t) (json_column v)"
| "json_cmd (Save_Attempt_Cmd t v) = map_option (Save_Attempt_Cmd t) (json_column v)"
| "json_cmd (Resolve_Cmd t p) = map_option (Resolve_Cmd t) (json_resolution p)"
| "json_cmd c = Some c"

definition json_cmds :: "(int \<times> store_cmd) list \<Rightarrow> (int \<times> store_cmd) list" where
  "json_cmds = List.map_filter (\<lambda>(now, c). map_option (Pair now) (json_cmd c))"

section \<open>The abstraction\<close>

definition abs_row :: "sql_row \<Rightarrow> string \<times> memory_entry" where
  "abs_row r = (row_action_id r, \<lparr>me_record = rowToRecord r, me_claimExpiresMs = row_claim_expires_ms r\<rparr>)"

definition abs_store :: "sql_store \<Rightarrow> memory_store" where
  "abs_store db = \<lparr>ms_entries = map abs_row (sq_workflows db), ms_actionTasks = sq_aliases db\<rparr>"

definition sql_ok :: "sql_store \<Rightarrow> bool" where
  "sql_ok db \<longleftrightarrow> store_inv (abs_store db) \<and> list_all (\<lambda>r. row_claimed_by r \<noteq> None \<longrightarrow> row_claim_expires_ms r \<noteq> None) (sq_workflows db)"

lemma abs_store_sel [simp]: "ms_entries (abs_store db) = map abs_row (sq_workflows db)" "ms_actionTasks (abs_store db) = sq_aliases db"
  by (simp_all add: abs_store_def)

lemma rowToRecord_sel [simp]:
  "w_taskId (rowToRecord r) = row_action_id r" "w_actionId (rowToRecord r) = row_current_action_id r"
  "w_state (rowToRecord r) = row_state r" "w_claimedBy (rowToRecord r) = row_claimed_by r"
  "w_expiresAt (rowToRecord r) = row_expires_at r" "w_resolvedAt (rowToRecord r) = row_resolved_at r"
  by (simp_all add: rowToRecord_def)

lemma sql_ok_distinct: "sql_ok db \<Longrightarrow> distinct (map row_action_id (sq_workflows db))"
  by (simp add: sql_ok_def store_inv_def comp_def abs_row_def)

lemma map_get_rows: "map_get (map abs_row rs) t = map_option (\<lambda>r. snd (abs_row r)) (List.find (\<lambda>r. row_action_id r = t) rs)"
  by (induction rs) (simp_all add: abs_row_def)

lemma get_abs: "getWorkflow (abs_store db) t = sqlGetWorkflow db t"
  by (simp add: getWorkflow_def sqlGetWorkflow_def map_get_rows abs_row_def option.map_comp comp_def)

lemma find_alias: "List.find (\<lambda>(a, t). a = k) m = map_option (Pair k) (map_get m k)"
  by (induction m) auto

lemma getByActionId_abs: "getWorkflowByActionId (abs_store db) a = sqlGetWorkflowByActionId db a"
  by (simp add: getWorkflowByActionId_def sqlGetWorkflowByActionId_def find_alias get_abs split: option.split)

lemma find_row: "List.find (\<lambda>r. row_action_id r = t) rs = Some r \<Longrightarrow> r \<in> set rs \<and> row_action_id r = t"
  by (induction rs) (auto split: if_splits)

lemma find_no_row: "List.find (\<lambda>r. row_action_id r = t) rs = None \<longleftrightarrow> (\<forall>r \<in> set rs. row_action_id r \<noteq> t)"
  by (induction rs) auto

lemma map_if_absent: "\<forall>r \<in> set rs. row_action_id r \<noteq> t \<Longrightarrow> map (\<lambda>x. if row_action_id x = t \<and> c x then f x else x) rs = rs"
  by (auto intro: map_idI)

lemma update_absent:
  "List.find (\<lambda>r. row_action_id r = t) (sq_workflows db) = None \<Longrightarrow> update_workflows t c f db = (db, 0)"
  by (auto simp: update_workflows_def find_no_row map_if_absent filter_empty_conv)

lemma distinct_head: "distinct (map g (x # rs)) \<Longrightarrow> \<forall>r \<in> set rs. g r \<noteq> g x"
  by (simp, metis imageI)

lemma count_id: "distinct (map row_action_id rs) \<Longrightarrow>
   length (filter (\<lambda>x. row_action_id x = t) rs) = (if List.find (\<lambda>x. row_action_id x = t) rs = None then 0 else 1)"
proof (induction rs)
  case (Cons x rs)
  with distinct_head [OF Cons.prems] show ?case by (auto simp: filter_empty_conv find_no_row)
qed simp

text \<open>An update reaches the row with the task id, if that meets the condition.\<close>

lemma map_set_rows:
  assumes "distinct (map row_action_id rs)" "List.find (\<lambda>r. row_action_id r = t) rs = Some r" "row_action_id (f r) = t"
  shows "map abs_row (map (\<lambda>x. if row_action_id x = t then f x else x) rs) = map_set t (snd (abs_row (f r))) (map abs_row rs)"
  using assms
proof (induction rs)
  case (Cons x rs)
  show ?case
  proof (cases "row_action_id x = t")
    case True
    with distinct_head [OF Cons.prems(1)] have "\<forall>r \<in> set rs. row_action_id r \<noteq> t" by simp
    then have "map (\<lambda>x. if row_action_id x = t then f x else x) rs = rs" using map_if_absent [of rs t "\<lambda>_. True" f] by simp
    with True Cons.prems show ?thesis by (simp add: abs_row_def)
  next
    case False
    with Cons show ?thesis by (simp add: abs_row_def)
  qed
qed simp

lemma update_row:
  assumes "sql_ok db" and find: "List.find (\<lambda>r. row_action_id r = t) (sq_workflows db) = Some r"
  shows "\<not> c r \<Longrightarrow> update_workflows t c f db = (db, 0)"
    and "c r \<Longrightarrow> row_action_id (f r) = t \<Longrightarrow> snd (update_workflows t c f db) = 1 \<and>
      abs_store (fst (update_workflows t c f db)) = (abs_store db)\<lparr>ms_entries := map_set t (snd (abs_row (f r))) (ms_entries (abs_store db))\<rparr> \<and>
      sq_aliases (fst (update_workflows t c f db)) = sq_aliases db \<and>
      sq_workflows (fst (update_workflows t c f db)) = map (\<lambda>x. if row_action_id x = t then f x else x) (sq_workflows db)"
proof -
  have d: "distinct (map row_action_id (sq_workflows db))" by (rule sql_ok_distinct [OF assms(1)])
  have one: "x \<in> set (sq_workflows db) \<Longrightarrow> row_action_id x = t \<Longrightarrow> x = r" for x
    using d find_row [OF find] by (auto simp: distinct_map dest: inj_onD)
  have count: "length (filter (\<lambda>x. row_action_id x = t) (sq_workflows db)) = 1" using count_id [OF d, of t] find by simp
  show "update_workflows t c f db = (db, 0)" if "\<not> c r"
  proof -
    have none: "\<not> (row_action_id x = t \<and> c x)" if "x \<in> set (sq_workflows db)" for x using one that \<open>\<not> c r\<close> by blast
    then have "map (\<lambda>x. if row_action_id x = t \<and> c x then f x else x) (sq_workflows db) = sq_workflows db"
      by (intro map_idI) auto
    with none show ?thesis by (simp add: update_workflows_def filter_empty_conv)
  qed
  assume c: "c r" and id: "row_action_id (f r) = t"
  have cond: "(row_action_id x = t \<and> c x) = (row_action_id x = t)" if "x \<in> set (sq_workflows db)" for x
    using one that c by auto
  have rows: "map (\<lambda>x. if row_action_id x = t \<and> c x then f x else x) (sq_workflows db) = map (\<lambda>x. if row_action_id x = t then f x else x) (sq_workflows db)"
    by (rule map_cong) (auto simp: cond)
  have "filter (\<lambda>x. row_action_id x = t \<and> c x) (sq_workflows db) = filter (\<lambda>x. row_action_id x = t) (sq_workflows db)"
    by (rule filter_cong) (auto simp: cond)
  with count rows have upd: "update_workflows t c f db = (db\<lparr>sq_workflows := map (\<lambda>x. if row_action_id x = t then f x else x) (sq_workflows db)\<rparr>, 1)"
    unfolding update_workflows_def by (simp only:)
  show "snd (update_workflows t c f db) = 1 \<and>
      abs_store (fst (update_workflows t c f db)) = (abs_store db)\<lparr>ms_entries := map_set t (snd (abs_row (f r))) (ms_entries (abs_store db))\<rparr> \<and>
      sq_aliases (fst (update_workflows t c f db)) = sq_aliases db \<and>
      sq_workflows (fst (update_workflows t c f db)) = map (\<lambda>x. if row_action_id x = t then f x else x) (sq_workflows db)"
    using map_set_rows [where f = f, OF d find id] by (simp add: upd abs_store_def del: map_map)
qed

section \<open>Each operation is that of the reference store\<close>

lemma find_exists: "list_ex (\<lambda>x. row_action_id x = t) rs \<longleftrightarrow> List.find (\<lambda>x. row_action_id x = t) rs \<noteq> None"
  by (simp add: list_ex_iff find_no_row)

lemma alias_exists: "list_ex (\<lambda>(a, t). a = k) m \<longleftrightarrow> map_get m k \<noteq> None"
  by (induction m) auto

text \<open>The unique index of the current Action ID never refuses more than the aliases do.\<close>

lemma current_alias: "sql_ok db \<Longrightarrow> r \<in> set (sq_workflows db) \<Longrightarrow> map_get (sq_aliases db) (row_current_action_id r) = Some (row_action_id r)"
proof -
  assume ok: "sql_ok db" and r: "r \<in> set (sq_workflows db)"
  have "List.find (\<lambda>x. row_action_id x = row_action_id r) (sq_workflows db) = Some r"
  proof (cases "List.find (\<lambda>x. row_action_id x = row_action_id r) (sq_workflows db)")
    case None
    with r show ?thesis by (auto simp: find_no_row)
  next
    case (Some x)
    then have "x \<in> set (sq_workflows db)" "row_action_id x = row_action_id r" using find_row by auto
    with r sql_ok_distinct [OF ok] have "x = r" by (auto simp: distinct_map dest: inj_onD)
    with Some show ?thesis by simp
  qed
  then have "getWorkflow (abs_store db) (row_action_id r) = Some (rowToRecord r)" by (simp add: get_abs sqlGetWorkflow_def)
  then have "record_ok (abs_store db) (row_action_id r) (rowToRecord r)" using ok unfolding sql_ok_def by (meson store_inv_record)
  then show ?thesis by (simp add: record_ok_def)
qed

lemma put_record_abs: "put_record t e r s = s\<lparr>ms_entries := map_set t (e\<lparr>me_record := r\<rparr>) (ms_entries s)\<rparr>"
  by (simp add: put_record_def)

text \<open>A simulated update: the tables keep the claims well formed, and the abstraction is the reference store's.\<close>

definition claims_wf :: "sql_store \<Rightarrow> bool" where
  "claims_wf db \<longleftrightarrow> list_all (\<lambda>r. row_claimed_by r \<noteq> None \<longrightarrow> row_claim_expires_ms r \<noteq> None) (sq_workflows db)"

lemma sql_ok_wf: "sql_ok db \<longleftrightarrow> store_inv (abs_store db) \<and> claims_wf db"
  by (simp add: sql_ok_def claims_wf_def)

lemma update_sim:
  assumes ok: "sql_ok db" and keep: "\<And>r. row_action_id (f r) = row_action_id r"
    and claims: "\<And>r. row_claimed_by (f r) = row_claimed_by r \<and> row_claim_expires_ms (f r) = row_claim_expires_ms r \<or> row_claim_expires_ms (f r) \<noteq> None"
  shows "claims_wf (fst (update_workflows t c f db))"
    and "abs_store (fst (update_workflows t c f db)) = (case List.find (\<lambda>r. row_action_id r = t) (sq_workflows db) of None \<Rightarrow> abs_store db
      | Some r \<Rightarrow> if c r then (abs_store db)\<lparr>ms_entries := map_set t (snd (abs_row (f r))) (ms_entries (abs_store db))\<rparr> else abs_store db)"
    and "snd (update_workflows t c f db) = (case List.find (\<lambda>r. row_action_id r = t) (sq_workflows db) of None \<Rightarrow> 0 | Some r \<Rightarrow> if c r then 1 else 0)"
proof -
  have wf: "claims_wf db" using ok by (simp add: sql_ok_wf)
  show "claims_wf (fst (update_workflows t c f db))"
  proof -
    let ?P = "\<lambda>r. row_claimed_by r \<noteq> None \<longrightarrow> row_claim_expires_ms r \<noteq> None"
    have "?P (if row_action_id r = t \<and> c r then f r else r)" if "?P r" for r
      using that claims [of r] by auto
    then have "list_all (?P \<circ> (\<lambda>r. if row_action_id r = t \<and> c r then f r else r)) (sq_workflows db)"
      using wf unfolding claims_wf_def comp_def by (rule list.pred_mono_strong [rotated])
    then show ?thesis by (simp add: claims_wf_def update_workflows_def list.pred_map)
  qed
  have "row_action_id (f r) = t" if "List.find (\<lambda>r. row_action_id r = t) (sq_workflows db) = Some r" for r
    using keep find_row [OF that] by simp
  then show "abs_store (fst (update_workflows t c f db)) = (case List.find (\<lambda>r. row_action_id r = t) (sq_workflows db) of None \<Rightarrow> abs_store db
      | Some r \<Rightarrow> if c r then (abs_store db)\<lparr>ms_entries := map_set t (snd (abs_row (f r))) (ms_entries (abs_store db))\<rparr> else abs_store db)"
    "snd (update_workflows t c f db) = (case List.find (\<lambda>r. row_action_id r = t) (sq_workflows db) of None \<Rightarrow> 0 | Some r \<Rightarrow> if c r then 1 else 0)"
    using update_absent [of t db c f] update_row [OF ok, of t _ c f] by (auto split: option.split)
qed

definition simulates :: "sql_store \<Rightarrow> memory_store \<Rightarrow> bool" where
  "simulates db s \<longleftrightarrow> abs_store db = s \<and> claims_wf db"

lemma simulates_same: "sql_ok db \<Longrightarrow> simulates db (abs_store db)"
  by (simp add: simulates_def sql_ok_wf)

text \<open>An update as a change of an entry of the reference store; the entry as it is read from the row.\<close>

lemma update_simulates:
  assumes "sql_ok db" "\<And>r. row_action_id (f r) = row_action_id r"
    "\<And>r. row_claimed_by (f r) = row_claimed_by r \<and> row_claim_expires_ms (f r) = row_claim_expires_ms r \<or> row_claim_expires_ms (f r) \<noteq> None"
  shows "simulates (fst (update_workflows t c f db)) (case List.find (\<lambda>r. row_action_id r = t) (sq_workflows db) of None \<Rightarrow> abs_store db
      | Some r \<Rightarrow> if c r then put_record t (snd (abs_row (f r))) (rowToRecord (f r)) (abs_store db) else abs_store db)"
    and "snd (update_workflows t c f db) = 1 \<longleftrightarrow> (case List.find (\<lambda>r. row_action_id r = t) (sq_workflows db) of None \<Rightarrow> False | Some r \<Rightarrow> c r)"
  using update_sim [OF assms, of t c]
  by (auto simp: simulates_def put_record_abs abs_row_def split: option.split)

lemma memory_entry: "map_get (ms_entries (abs_store db)) t =
    (case List.find (\<lambda>r. row_action_id r = t) (sq_workflows db) of None \<Rightarrow> None | Some r \<Rightarrow> Some (snd (abs_row r)))"
  by (simp add: map_get_rows split: option.split)

lemma abs_row_entry [simp]: "me_record (snd (abs_row r)) = rowToRecord r" "me_claimExpiresMs (snd (abs_row r)) = row_claim_expires_ms r"
  by (simp_all add: abs_row_def)

lemma put_record_form: "put_record t e r s = s\<lparr>ms_entries := map_set t \<lparr>me_record = r, me_claimExpiresMs = me_claimExpiresMs e\<rparr> (ms_entries s)\<rparr>"
  by (cases e) (simp add: put_record_def)

lemma simulates_eq: "simulates db s \<Longrightarrow> s = s' \<Longrightarrow> simulates db s'"
  by simp

lemma sim_cas:
  assumes "sql_ok db"
  shows "simulates (fst (sqlCompareAndSetState now t a b db)) (fst (compareAndSetState now t a b (abs_store db)))"
    and "snd (sqlCompareAndSetState now t a b db) = snd (compareAndSetState now t a b (abs_store db))"
proof -
  let ?f = "\<lambda>r. r\<lparr>row_state := b, row_updated_at := iso_of_ms now\<rparr>" and ?c = "\<lambda>r. row_state r = a"
  have f: "rowToRecord (?f r) = (rowToRecord r)\<lparr>w_state := b, w_updatedAt := iso_of_ms now\<rparr>" for r
    by (simp add: rowToRecord_def)
  note u = update_simulates [OF assms, of ?f t ?c, simplified]
  show "simulates (fst (sqlCompareAndSetState now t a b db)) (fst (compareAndSetState now t a b (abs_store db)))"
    using u(1) simulates_same [OF assms]
    by (auto simp: sqlCompareAndSetState_def compareAndSetState_def map_get_rows split_def f put_record_form split: option.splits
      elim!: simulates_eq)
  show "snd (sqlCompareAndSetState now t a b db) = snd (compareAndSetState now t a b (abs_store db))"
    using u(2) by (auto simp: sqlCompareAndSetState_def compareAndSetState_def map_get_rows split_def split: option.splits)
qed

lemma sim_claim:
  assumes "sql_ok db"
  shows "simulates (fst (sqlClaimWorkflow now later t w l db)) (fst (claimWorkflow now later t w l (abs_store db)))"
    and "snd (sqlClaimWorkflow now later t w l db) = snd (claimWorkflow now later t w l (abs_store db))"
proof -
  let ?f = "\<lambda>r. r\<lparr>row_claimed_by := Some w, row_claim_expires_ms := Some (now + l), row_updated_at := iso_of_ms later\<rparr>"
    and ?c = "\<lambda>r. \<not> terminal (row_state r) \<and> (row_claimed_by r = None \<or> row_claimed_by r = Some w \<or>
      (case row_claim_expires_ms r of None \<Rightarrow> False | Some t \<Rightarrow> t \<le> now))"
  have f: "rowToRecord (?f r) = (rowToRecord r)\<lparr>w_claimedBy := Some w, w_claimExpiresAt := Some (iso_of_ms (now + l)), w_updatedAt := iso_of_ms later\<rparr>" for r
    by (simp add: rowToRecord_def)
  have held: "r \<in> set (sq_workflows db) \<Longrightarrow> row_claimed_by r \<noteq> None \<Longrightarrow> row_claim_expires_ms r \<noteq> None" for r
    using assms by (simp add: sql_ok_def list_all_iff)
  have c: "?c r \<longleftrightarrow> \<not> terminal (row_state r) \<and> \<not> (row_claimed_by r \<noteq> None \<and> row_claimed_by r \<noteq> Some w \<and>
      now < (case row_claim_expires_ms r of None \<Rightarrow> 0 | Some t \<Rightarrow> t))" if "List.find (\<lambda>r. row_action_id r = t) (sq_workflows db) = Some r" for r
    using held [of r] find_row [OF that] by (cases "row_claimed_by r") (auto split: option.split)
  have claims: "row_claimed_by (?f r) = row_claimed_by r \<and> row_claim_expires_ms (?f r) = row_claim_expires_ms r \<or> row_claim_expires_ms (?f r) \<noteq> None" for r
    by simp
  have id: "row_action_id (?f r) = row_action_id r" for r by simp
  note u = update_simulates [OF assms, of ?f, OF id claims, of t ?c]
  show "simulates (fst (sqlClaimWorkflow now later t w l db)) (fst (claimWorkflow now later t w l (abs_store db)))"
  proof (cases "List.find (\<lambda>r. row_action_id r = t) (sq_workflows db)")
    case None
    with u(1) show ?thesis by (simp add: sqlClaimWorkflow_def claimWorkflow_def map_get_rows split_def)
  next
    case (Some r)
    show ?thesis
    proof (cases "?c r")
      case True
      with u(1) Some have "simulates (fst (update_workflows t ?c ?f db)) (put_record t (snd (abs_row (?f r))) (rowToRecord (?f r)) (abs_store db))"
        by simp
      with True Some c [OF Some] show ?thesis
        unfolding f sqlClaimWorkflow_def claimWorkflow_def split_def Let_def
        by (auto simp: map_get_rows put_record_form elim!: simulates_eq)
    next
      case False
      with u(1) Some have "simulates (fst (update_workflows t ?c ?f db)) (abs_store db)" by simp
      with False Some c [OF Some] show ?thesis
        unfolding sqlClaimWorkflow_def claimWorkflow_def split_def Let_def by (auto simp: map_get_rows)
    qed
  qed
  show "snd (sqlClaimWorkflow now later t w l db) = snd (claimWorkflow now later t w l (abs_store db))"
  proof (cases "List.find (\<lambda>r. row_action_id r = t) (sq_workflows db)")
    case None
    with u(2) show ?thesis by (simp add: sqlClaimWorkflow_def claimWorkflow_def map_get_rows split_def)
  next
    case (Some r)
    with u(2) have "snd (update_workflows t ?c ?f db) = 1 \<longleftrightarrow> ?c r" by simp
    with Some c [OF Some] show ?thesis
      unfolding sqlClaimWorkflow_def claimWorkflow_def split_def Let_def by (auto simp: map_get_rows)
  qed
qed

lemma sim_column:
  assumes ok: "sql_ok db" and f: "\<And>r. rowToRecord (assign w r) = g (rowToRecord r)"
    and same: "\<And>r. row_action_id (assign w r) = row_action_id r \<and> row_claimed_by (assign w r) = row_claimed_by r \<and>
      row_claim_expires_ms (assign w r) = row_claim_expires_ms r"
    and v: "json_column v = Some w"
  shows "simulates (fst (setColumn now t assign v db)) (mutate now t g (abs_store db))"
proof -
  let ?f = "\<lambda>r. (assign w r)\<lparr>row_updated_at := iso_of_ms now\<rparr>"
  have rec: "rowToRecord (?f r) = (g (rowToRecord r))\<lparr>w_updatedAt := iso_of_ms now\<rparr>" for r
  proof -
    have "rowToRecord (x\<lparr>row_updated_at := u\<rparr>) = (rowToRecord x)\<lparr>w_updatedAt := u\<rparr>" for x u by (simp add: rowToRecord_def)
    with f show ?thesis by simp
  qed
  have sim: "simulates (fst (update_workflows t (\<lambda>r. True) ?f db)) (case List.find (\<lambda>r. row_action_id r = t) (sq_workflows db) of
      None \<Rightarrow> abs_store db | Some r \<Rightarrow> if True then put_record t (snd (abs_row (?f r))) (rowToRecord (?f r)) (abs_store db) else abs_store db)"
    by (rule update_simulates(1) [OF ok]) (simp_all add: same)
  show ?thesis
  proof (cases "List.find (\<lambda>r. row_action_id r = t) (sq_workflows db)")
    case None
    with sim v show ?thesis by (simp add: setColumn_def mutate_def map_get_rows)
  next
    case (Some r)
    with sim v show ?thesis unfolding rec by (simp add: setColumn_def mutate_def map_get_rows put_record_form same)
  qed
qed

lemma sim_column_throws: "sql_ok db \<Longrightarrow> json_column v = None \<Longrightarrow> simulates (fst (setColumn now t assign v db)) (abs_store db)"
  by (simp add: setColumn_def simulates_same)

lemma resolve_row_record: "rowToRecord (resolve_row time p r) = resolved time p (rowToRecord r)"
  by (simp add: resolve_row_def resolved_def rowToRecord_def)

lemma resolve_row_sel [simp]:
  "row_action_id (resolve_row time p r) = row_action_id r" "row_claimed_by (resolve_row time p r) = row_claimed_by r"
  "row_claim_expires_ms (resolve_row time p r) = row_claim_expires_ms r"
  by (simp_all add: resolve_row_def)

lemma resolve_update:
  assumes ok: "sql_ok db"
  shows "simulates (fst (update_workflows t (\<lambda>r. \<not> terminal (row_state r)) (resolve_row (iso_of_ms now) p) db)) (resolveWorkflow now t p (abs_store db))"
    and "snd (update_workflows t (\<lambda>r. \<not> terminal (row_state r)) (resolve_row (iso_of_ms now) p) db) = 1 \<longleftrightarrow>
      (\<exists>r. List.find (\<lambda>r. row_action_id r = t) (sq_workflows db) = Some r \<and> \<not> terminal (row_state r))"
proof -
  let ?c = "\<lambda>r. \<not> terminal (row_state r)"
  have sim: "simulates (fst (update_workflows t ?c (resolve_row (iso_of_ms now) p) db)) (case List.find (\<lambda>r. row_action_id r = t) (sq_workflows db) of
      None \<Rightarrow> abs_store db | Some r \<Rightarrow> if ?c r then put_record t (snd (abs_row (resolve_row (iso_of_ms now) p r)))
        (rowToRecord (resolve_row (iso_of_ms now) p r)) (abs_store db) else abs_store db)"
    by (rule update_simulates(1) [OF ok]) simp_all
  then show "simulates (fst (update_workflows t ?c (resolve_row (iso_of_ms now) p) db)) (resolveWorkflow now t p (abs_store db))"
    by (auto simp: resolveWorkflow_def map_get_rows put_record_form resolve_row_record split: option.splits if_splits)
  have "snd (update_workflows t ?c (resolve_row (iso_of_ms now) p) db) = 1 \<longleftrightarrow>
      (case List.find (\<lambda>r. row_action_id r = t) (sq_workflows db) of None \<Rightarrow> False | Some r \<Rightarrow> ?c r)"
    by (rule update_simulates(2) [OF ok]) simp_all
  then show "snd (update_workflows t ?c (resolve_row (iso_of_ms now) p) db) = 1 \<longleftrightarrow>
      (\<exists>r. List.find (\<lambda>r. row_action_id r = t) (sq_workflows db) = Some r \<and> \<not> terminal (row_state r))"
    by (simp split: option.split)
qed

lemma sim_cancel:
  assumes "sql_ok db"
  shows "simulates (fst (sqlCancelWorkflow now t db)) (fst (cancelWorkflow now t (abs_store db)))"
    and "snd (sqlCancelWorkflow now t db) = snd (cancelWorkflow now t (abs_store db))"
proof -
  have "fst (cancelWorkflow now t s) = resolveWorkflow now t (Resolution_Cancelled (iso_of_ms now)) s" for s
    by (simp add: cancelWorkflow_def resolveWorkflow_def split: option.split)
  with resolve_update [OF assms, of t now "Resolution_Cancelled (iso_of_ms now)"]
  show "simulates (fst (sqlCancelWorkflow now t db)) (fst (cancelWorkflow now t (abs_store db)))"
    by (simp add: sqlCancelWorkflow_def split_def)
  show "snd (sqlCancelWorkflow now t db) = snd (cancelWorkflow now t (abs_store db))"
    using resolve_update(2) [OF assms, of t now "Resolution_Cancelled (iso_of_ms now)"]
    by (simp add: sqlCancelWorkflow_def cancelWorkflow_def split_def map_get_rows split: option.split)
qed

lemma abs_get_none: "map_get (ms_entries (abs_store db)) t = None \<longleftrightarrow> List.find (\<lambda>r. row_action_id r = t) (sq_workflows db) = None"
  by (simp add: map_get_rows)

lemma insert_workflow_Inr:
  assumes "sql_ok db" "List.find (\<lambda>r. row_action_id r = row_action_id r0) (sq_workflows db) = None"
    "map_get (sq_aliases db) (row_current_action_id r0) = None"
  shows "insert_workflow r0 db = Inr (db\<lparr>sq_workflows := sq_workflows db @ [r0]\<rparr>)"
proof -
  have "row_current_action_id x \<noteq> row_current_action_id r0" if "x \<in> set (sq_workflows db)" for x
    using current_alias [OF assms(1) that] assms(3) by auto
  with assms(2) show ?thesis by (auto simp: insert_workflow_def list_ex_iff find_no_row)
qed

lemma insert_workflow_cases:
  "insert_workflow r0 db = Inl e \<Longrightarrow> e = Unique_Violation" "insert_workflow r0 db = Inr db' \<Longrightarrow> db' = db\<lparr>sq_workflows := sq_workflows db @ [r0]\<rparr>"
  by (auto simp: insert_workflow_def split: if_splits)

lemma map_get_append_none: "map_get m k = None \<Longrightarrow> m @ [(k, v)] = map_set k v m"
  by (simp add: map_set_fresh)

lemma sim_create:
  assumes ok: "sql_ok db" and v: "json_column (cwi_actionPackage input) = Some v"
  shows "simulates (fst (sqlCreateWorkflow now input db)) (fst (createWorkflowRecord now (input\<lparr>cwi_actionPackage := v\<rparr>) (abs_store db)))"
    and "snd (sqlCreateWorkflow now input db) = Inr r \<longleftrightarrow> snd (createWorkflowRecord now (input\<lparr>cwi_actionPackage := v\<rparr>) (abs_store db)) = Inr r"
proof -
  let ?t = "cwi_taskId input" and ?a = "cwi_actionId input"
  define r0 where "r0 = \<lparr>row_action_id = cwi_taskId input, row_current_action_id = cwi_actionId input,
           row_action_idempotency_key = cwi_actionIdempotencyKey input, row_envelope_hash = cwi_actionEnvelopeHash input,
           row_tool_name = cwi_toolName input, row_state = Created, row_action_package = v, row_authorization_requirements = None,
           row_coordination_ref = None, row_completed_package = None, row_adapter_attempts = [], row_last_action_response = None,
           row_expires_at = cwi_expiresAt input, row_created_at = iso_of_ms now, row_updated_at = iso_of_ms now, row_claimed_by = None,
           row_claim_expires_ms = None, row_resolved_at = None, row_resolution = None\<rparr>"
  have id: "row_action_id r0 = ?t" "row_current_action_id r0 = ?a" "row_claimed_by r0 = None" by (simp_all add: r0_def)
  have eq: "sqlCreateWorkflow now input db = (if ?t = ?a then (db, Inl (Sql_Error ''Task ID and Action ID must be distinct.''))
     else case and_then (insert_workflow r0 db) (insert_alias ?a ?t) of
         Inl Unique_Violation \<Rightarrow> (db, Inl (Sql_Error (''Workflow already exists for task '' @ ?t @ '' or action '' @ ?a @ ''.'')))
       | Inl e \<Rightarrow> (db, Inl e)
       | Inr db' \<Rightarrow> (db', sqlMustGet db' ?t))"
    using v unfolding sqlCreateWorkflow_def Let_def r0_def by simp
  consider (bad) "?t = ?a \<or> List.find (\<lambda>r. row_action_id r = ?t) (sq_workflows db) \<noteq> None \<or> map_get (sq_aliases db) ?a \<noteq> None"
    | (good) "?t \<noteq> ?a" "List.find (\<lambda>r. row_action_id r = ?t) (sq_workflows db) = None" "map_get (sq_aliases db) ?a = None" by blast
  then have "simulates (fst (sqlCreateWorkflow now input db)) (fst (createWorkflowRecord now (input\<lparr>cwi_actionPackage := v\<rparr>) (abs_store db))) \<and>
    (snd (sqlCreateWorkflow now input db) = Inr r \<longleftrightarrow> snd (createWorkflowRecord now (input\<lparr>cwi_actionPackage := v\<rparr>) (abs_store db)) = Inr r)"
  proof cases
    case bad
    have "\<exists>e. sqlCreateWorkflow now input db = (db, Inl e)"
    proof (cases "?t = ?a")
      case False
      have "and_then (insert_workflow r0 db) (insert_alias ?a ?t) = Inl Unique_Violation"
      proof (cases "insert_workflow r0 db")
        case (Inr db')
        with bad False have "map_get (sq_aliases db) ?a \<noteq> None"
          using id by (auto simp: insert_workflow_def find_no_row list_ex_iff split: if_splits)
        with Inr insert_workflow_cases(2) [OF Inr] show ?thesis by (simp add: insert_alias_def alias_exists)
      qed (use insert_workflow_cases(1) in auto)
      then show ?thesis using False by (simp add: eq)
    qed (simp add: eq)
    moreover have "\<exists>e. createWorkflowRecord now (input\<lparr>cwi_actionPackage := v\<rparr>) (abs_store db) = (abs_store db, Inl e)"
      using bad by (auto simp: createWorkflowRecord_def map_get_rows)
    ultimately show ?thesis using simulates_same [OF ok] by auto
  next
    case good
    let ?db = "db\<lparr>sq_workflows := sq_workflows db @ [r0], sq_aliases := sq_aliases db @ [(?a, ?t)]\<rparr>"
    have "insert_workflow r0 db = Inr (db\<lparr>sq_workflows := sq_workflows db @ [r0]\<rparr>)"
      by (rule insert_workflow_Inr [OF ok]) (use good id in simp_all)
    then have s: "sqlCreateWorkflow now input db = (?db, sqlMustGet ?db ?t)"
      using good id by (simp add: eq insert_alias_def alias_exists)
    have find_append: "List.find P (xs @ [x]) = (case List.find P xs of Some y \<Rightarrow> Some y | None \<Rightarrow> if P x then Some x else None)" for P x and xs :: "sql_row list"
      by (induction xs) auto
    have get: "sqlMustGet ?db ?t = Inr (rowToRecord r0)"
      using good id by (simp add: sqlMustGet_def sqlGetWorkflow_def find_append)
    have mem: "createWorkflowRecord now (input\<lparr>cwi_actionPackage := v\<rparr>) (abs_store db) =
        ((abs_store db)\<lparr>ms_entries := map_set ?t \<lparr>me_record = rowToRecord r0, me_claimExpiresMs = None\<rparr> (map abs_row (sq_workflows db)),
          ms_actionTasks := map_set ?a ?t (sq_aliases db)\<rparr>, Inr (rowToRecord r0))"
      using good by (simp add: createWorkflowRecord_def map_get_rows Let_def r0_def rowToRecord_def)
    have "abs_row r0 = (?t, \<lparr>me_record = rowToRecord r0, me_claimExpiresMs = None\<rparr>)" by (simp add: abs_row_def r0_def)
    moreover have "map_get (map abs_row (sq_workflows db)) ?t = None" using good by (simp add: map_get_rows)
    ultimately have "abs_store ?db = fst (createWorkflowRecord now (input\<lparr>cwi_actionPackage := v\<rparr>) (abs_store db))"
      unfolding mem using good by (simp add: abs_store_def map_set_fresh)
    moreover have "claims_wf ?db" using ok id by (simp add: sql_ok_wf claims_wf_def)
    ultimately show ?thesis unfolding s mem get by (simp add: simulates_def)
  qed
  then show "simulates (fst (sqlCreateWorkflow now input db)) (fst (createWorkflowRecord now (input\<lparr>cwi_actionPackage := v\<rparr>) (abs_store db)))"
    "snd (sqlCreateWorkflow now input db) = Inr r \<longleftrightarrow> snd (createWorkflowRecord now (input\<lparr>cwi_actionPackage := v\<rparr>) (abs_store db)) = Inr r"
    by auto
qed

lemma update_aliases: "update_workflows t c f (db\<lparr>sq_aliases := m\<rparr>) =
    ((fst (update_workflows t c f db))\<lparr>sq_aliases := m\<rparr>, snd (update_workflows t c f db))"
  by (simp add: update_workflows_def)

lemma get_aliases: "sqlGetWorkflow (db\<lparr>sq_aliases := m\<rparr>) t = sqlGetWorkflow db t"
  by (simp add: sqlGetWorkflow_def)

lemma sim_replace:
  assumes ok: "sql_ok db" and v: "json_column (rai_actionPackage input) = Some v" "json_column (rai_authorizationRequirements input) = Some w"
  defines "input' \<equiv> input\<lparr>rai_actionPackage := v, rai_authorizationRequirements := w\<rparr>"
  shows "simulates (fst (sqlReplaceAction now t input db)) (fst (replaceAction now t input' (abs_store db))) \<and>
    (snd (sqlReplaceAction now t input db) = Inr q \<longleftrightarrow> snd (replaceAction now t input' (abs_store db)) = Inr q)"
proof -
  let ?a = "rai_actionId input" and ?c = "\<lambda>r. row_state r = rai_fromState input"
  define f where "f = (\<lambda>r :: sql_row. r\<lparr>row_current_action_id := rai_actionId input, row_action_idempotency_key := rai_actionIdempotencyKey input,
     row_envelope_hash := rai_actionEnvelopeHash input, row_action_package := v, row_authorization_requirements := Some w,
     row_coordination_ref := None, row_completed_package := None, row_expires_at := rai_expiresAt input,
     row_state := Submitting_To_Coordination, row_updated_at := iso_of_ms now\<rparr>)"
  have sel: "row_action_id (f r) = row_action_id r" "row_claimed_by (f r) = row_claimed_by r" "row_claim_expires_ms (f r) = row_claim_expires_ms r" for r
    by (simp_all add: f_def)
  have eq: "sqlReplaceAction now t input db = (if t = ?a then (db, Inl (Sql_Error ''Task ID and Action ID must be distinct.''))
     else case and_then (insert_alias ?a t db) (\<lambda>db1. case update_workflows t ?c f db1 of (db2, changes) \<Rightarrow> if changes \<noteq> 1
         then Inl (Sql_Error (''Workflow '' @ t @ '' is not in replacement state '' @ state_text (rai_fromState input) @ ''.'')) else Inr db2) of
       Inl e \<Rightarrow> (db, Inl e) | Inr db' \<Rightarrow> (db', sqlMustGet db' t))"
    using v unfolding sqlReplaceAction_def f_def by simp
  have u: "simulates (fst (update_workflows t ?c f db)) (case List.find (\<lambda>r. row_action_id r = t) (sq_workflows db) of None \<Rightarrow> abs_store db
      | Some r \<Rightarrow> if ?c r then put_record t (snd (abs_row (f r))) (rowToRecord (f r)) (abs_store db) else abs_store db)"
    "snd (update_workflows t ?c f db) = 1 \<longleftrightarrow> (case List.find (\<lambda>r. row_action_id r = t) (sq_workflows db) of None \<Rightarrow> False | Some r \<Rightarrow> ?c r)"
    by (rule update_simulates [OF ok]; simp add: sel)+
  consider (bad) "t = ?a \<or> map_get (sq_aliases db) ?a \<noteq> None \<or> List.find (\<lambda>r. row_action_id r = t) (sq_workflows db) = None"
    | (state) r where "t \<noteq> ?a" "map_get (sq_aliases db) ?a = None" "List.find (\<lambda>r. row_action_id r = t) (sq_workflows db) = Some r" "\<not> ?c r"
    | (good) r where "t \<noteq> ?a" "map_get (sq_aliases db) ?a = None" "List.find (\<lambda>r. row_action_id r = t) (sq_workflows db) = Some r" "?c r" by blast
  then show ?thesis
  proof cases
    case bad
    have "\<exists>e. sqlReplaceAction now t input db = (db, Inl e)"
      using bad by (auto simp: eq insert_alias_def alias_exists find_exists and_then_def)
    moreover have "\<exists>e. replaceAction now t input' (abs_store db) = (abs_store db, Inl e)"
      using bad by (auto simp: replaceAction_def input'_def map_get_rows split: option.split)
    ultimately show ?thesis using simulates_same [OF ok] by auto
  next
    case state
    then have "snd (update_workflows t ?c f db) \<noteq> 1" using u(2) by simp
    with state have "\<exists>e. sqlReplaceAction now t input db = (db, Inl e)"
      by (simp add: eq insert_alias_def alias_exists find_exists update_aliases split_beta)
    moreover have "\<exists>e. replaceAction now t input' (abs_store db) = (abs_store db, Inl e)"
      using state by (auto simp: replaceAction_def input'_def map_get_rows)
    ultimately show ?thesis using simulates_same [OF ok] by auto
  next
    case good
    let ?db = "(fst (update_workflows t ?c f db))\<lparr>sq_aliases := sq_aliases db @ [(?a, t)]\<rparr>"
    have "snd (update_workflows t ?c f db) = 1" using good u(2) by simp
    moreover have "insert_alias ?a t db = Inr (db\<lparr>sq_aliases := sq_aliases db @ [(?a, t)]\<rparr>)"
      using good by (simp add: insert_alias_def alias_exists find_exists)
    ultimately have s: "sqlReplaceAction now t input db = (?db, sqlMustGet ?db t)"
      using good by (simp add: eq update_aliases split_def)
    have sim: "simulates (fst (update_workflows t ?c f db)) (put_record t (snd (abs_row (f r))) (rowToRecord (f r)) (abs_store db))"
      using u(1) good by simp
    have mem: "replaceAction now t input' (abs_store db) = (put_record t (snd (abs_row (f r))) (rowToRecord (f r))
        ((abs_store db)\<lparr>ms_actionTasks := map_set ?a t (sq_aliases db)\<rparr>), Inr (rowToRecord (f r)))"
      using good by (simp add: replaceAction_def input'_def map_get_rows Let_def put_record_form sel f_def rowToRecord_def)
    have "sqlGetWorkflow (fst (update_workflows t ?c f db)) t = Some (rowToRecord (f r))"
      using sim unfolding simulates_def by (metis get_abs getWorkflow_put)
    then have get: "sqlMustGet ?db t = Inr (rowToRecord (f r))" by (simp add: sqlMustGet_def get_aliases)
    have aliases: "abs_store (x\<lparr>sq_aliases := m\<rparr>) = (abs_store x)\<lparr>ms_actionTasks := m\<rparr>" for x m by (simp add: abs_store_def)
    from sim good have "simulates ?db (put_record t (snd (abs_row (f r))) (rowToRecord (f r)) ((abs_store db)\<lparr>ms_actionTasks := map_set ?a t (sq_aliases db)\<rparr>))"
      by (simp add: simulates_def put_record_form map_set_fresh claims_wf_def aliases)
    then show ?thesis unfolding s mem get by simp
  qed
qed

section \<open>The purge\<close>

lemma overdue_row: "overdue H now ret (rowToRecord r) \<longleftrightarrow> terminal (row_state r) \<and> sql_overdue H now ret r"
  by (auto simp: overdue_def sql_overdue_def split: option.split)

lemma purge_sim:
  assumes "set rs \<subseteq> set (sq_workflows db)" "distinct (map row_action_id rs)" "distinct (map row_action_id (sq_workflows db))" "claims_wf db"
  shows "let (db', n) = sql_purge_loop H now ret (filter (\<lambda>r. terminal (row_state r)) rs) (db, k) in
    (abs_store db', n) = purge_loop H now ret (map abs_row rs) (abs_store db, k) \<and> claims_wf db'"
  using assms
proof (induction rs arbitrary: db k)
  case (Cons r rs)
  show ?case
  proof (cases "overdue H now ret (rowToRecord r)")
    case True
    then have o: "terminal (row_state r)" "sql_overdue H now ret r" by (simp_all add: overdue_row)
    let ?db = "db\<lparr>sq_aliases := filter (\<lambda>(a, t). t \<noteq> row_action_id r) (sq_aliases db),
      sq_workflows := filter (\<lambda>x. row_action_id x \<noteq> row_action_id r) (sq_workflows db)\<rparr>"
    have "List.find (\<lambda>x. row_action_id x = row_action_id r) (sq_workflows db) \<noteq> None" using Cons.prems(1) by (auto simp: find_no_row)
    with count_id [OF Cons.prems(3), of "row_action_id r"]
    have one: "length (filter (\<lambda>x. row_action_id x = row_action_id r) (sq_workflows db)) = 1" by simp
    have "map_delete t (map abs_row xs) = map abs_row (filter (\<lambda>x. row_action_id x \<noteq> t) xs)" for t xs
      by (induction xs) (auto simp: abs_row_def)
    then have abs: "abs_store ?db = (abs_store db)\<lparr>ms_entries := map_delete (row_action_id r) (ms_entries (abs_store db)),
        ms_actionTasks := filter (\<lambda>(a, t). t \<noteq> row_action_id r) (ms_actionTasks (abs_store db))\<rparr>"
      by (simp add: abs_store_def)
    have prems: "set rs \<subseteq> set (sq_workflows ?db)" "distinct (map row_action_id rs)" "distinct (map row_action_id (sq_workflows ?db))" "claims_wf ?db"
      using Cons.prems distinct_head [OF Cons.prems(2)] by (auto simp: distinct_map_filter claims_wf_def list_all_iff)
    from Cons.IH [OF prems, of "k + 1"] o one True show ?thesis
      by (simp add: abs [symmetric] abs_row_def [of r] del: abs_store_sel)
  next
    case False
    with Cons.IH [of db k] Cons.prems show ?thesis
      by (auto simp: overdue_row abs_row_def [of r])
  qed
qed (simp add: Let_def)

section \<open>The refinement\<close>

lemma sim_step:
  assumes ok: "sql_ok db"
  shows "simulates (sql_step H db (now, cmd)) (case json_cmd cmd of None \<Rightarrow> abs_store db | Some c \<Rightarrow> store_step H (abs_store db) (now, c))"
proof -
  note same = simulates_same [OF ok]
  note columns = sqlSaveCoordinationReference_def sqlSaveCompletedPackage_def sqlSaveAuthorizationRequirements_def
    sqlSaveLastActionResponse_def sqlSaveAdapterAttempt_def saveCoordinationReference_def saveCompletedPackage_def
    saveAuthorizationRequirements_def saveLastActionResponse_def saveAdapterAttempt_def
  have column: "simulates (fst (setColumn now t assign v db)) (case json_column v of None \<Rightarrow> abs_store db | Some w \<Rightarrow> mutate now t (g w) (abs_store db))"
    if "\<And>w r. rowToRecord (assign w r) = g w (rowToRecord r)"
      "\<And>w r. row_action_id (assign w r) = row_action_id r \<and> row_claimed_by (assign w r) = row_claimed_by r \<and>
        row_claim_expires_ms (assign w r) = row_claim_expires_ms r" for t assign v and g :: "jsval \<Rightarrow> workflow_record \<Rightarrow> workflow_record"
    using sim_column [OF ok, of assign _ "g _"] sim_column_throws [OF ok] that by (simp split: option.split)
  show ?thesis
  proof (cases cmd)
    case (Create_Cmd input)
    show ?thesis
    proof (cases "json_column (cwi_actionPackage input)")
      case None
      have "fst (sqlCreateWorkflow now input db) = db" by (simp add: sqlCreateWorkflow_def None and_then_def Let_def)
      with None same Create_Cmd show ?thesis by simp
    qed (use Create_Cmd sim_create(1) [OF ok] in simp)
  next
    case (Replace_Cmd t input)
    show ?thesis
    proof (cases "json_column (rai_actionPackage input) = None \<or> json_column (rai_authorizationRequirements input) = None")
      case True
      then have "fst (sqlReplaceAction now t input db) = db"
        by (auto simp: sqlReplaceAction_def and_then_def insert_alias_def split: option.split)
      with True same Replace_Cmd show ?thesis by (auto split: option.split)
    next
      case False
      then obtain v w where "json_column (rai_actionPackage input) = Some v" "json_column (rai_authorizationRequirements input) = Some w" by auto
      with Replace_Cmd sim_replace [OF ok this, of now t] show ?thesis by simp
    qed
  next
    case (Purge_Cmd ret)
    have "set (sq_workflows db) \<subseteq> set (sq_workflows db)" "claims_wf db" using ok by (simp_all add: sql_ok_wf)
    from purge_sim [OF this(1) sql_ok_distinct [OF ok] sql_ok_distinct [OF ok] this(2), of H now ret 0] Purge_Cmd show ?thesis
      by (auto simp: simulates_def sqlPurgeExpiredResults_def purgeExpiredResults_def Let_def split: prod.splits) (metis fst_conv)
  next
    case (Resolve_Cmd t p)
    show ?thesis
    proof (cases "json_resolution p")
      case None
      with Resolve_Cmd same show ?thesis by (simp add: sqlResolveWorkflow_def)
    next
      case (Some q)
      with Resolve_Cmd resolve_update(1) [OF ok, of t now q] show ?thesis by (simp add: sqlResolveWorkflow_def)
    qed
  next
    case (Save_Coordination_Cmd t v)
    then show ?thesis using column [of "\<lambda>w. row_coordination_ref_update (\<lambda>_. Some w)" "\<lambda>w. w_coordinationRef_update (\<lambda>_. Some w)" t v]
      by (simp add: columns rowToRecord_def split: option.splits)
  next
    case (Save_Completed_Cmd t v)
    then show ?thesis using column [of "\<lambda>w. row_completed_package_update (\<lambda>_. Some w)" "\<lambda>w. w_completedPackage_update (\<lambda>_. Some w)" t v]
      by (simp add: columns rowToRecord_def split: option.splits)
  next
    case (Save_Requirements_Cmd t v)
    then show ?thesis
      using column [of "\<lambda>w. row_authorization_requirements_update (\<lambda>_. Some w)" "\<lambda>w. w_authorizationRequirements_update (\<lambda>_. Some w)" t v]
      by (simp add: columns rowToRecord_def split: option.splits)
  next
    case (Save_Response_Cmd t v)
    then show ?thesis using column [of "\<lambda>w. row_last_action_response_update (\<lambda>_. Some w)" "\<lambda>w. w_lastActionResponse_update (\<lambda>_. Some w)" t v]
      by (simp add: columns rowToRecord_def split: option.splits)
  next
    case (Save_Attempt_Cmd t v)
    then show ?thesis using column [of "\<lambda>w. row_adapter_attempts_update (\<lambda>xs. xs @ [w])" "\<lambda>w. w_adapterAttempts_update (\<lambda>xs. xs @ [w])" t v]
      by (simp add: columns rowToRecord_def split: option.splits)
  qed (use sim_cas(1) [OF ok] sim_claim(1) [OF ok] sim_cancel(1) [OF ok] in simp_all)
qed

lemma json_cmd_typed: "json_cmd cmd = Some c \<Longrightarrow> cmd_typed cmd \<Longrightarrow> cmd_typed c"
  by (cases cmd) (auto split: option.splits)

lemma sql_ok_step:
  assumes ok: "sql_ok db" and typed: "cmd_typed (snd c)"
  shows "sql_ok (sql_step H db c)"
proof -
  obtain now cmd where c: "c = (now, cmd)" by (cases c)
  have inv: "store_inv (abs_store db)" using ok by (simp add: sql_ok_wf)
  with sim_step [OF ok, of H now cmd] show ?thesis
    using typed by (auto simp: c simulates_def sql_ok_wf store_inv_step json_cmd_typed split: option.splits)
qed

lemma sql_ok_new: "sql_ok newSqlStore"
  using store_inv_new by (simp add: sql_ok_def newSqlStore_def abs_store_def newMemoryStore_def)

lemma run_sim:
  "sql_ok db \<Longrightarrow> list_all (\<lambda>c. cmd_typed (snd c)) cs \<Longrightarrow> sql_ok (run_sql H db cs) \<and> abs_store (run_sql H db cs) = run_store H (abs_store db) (json_cmds cs)"
proof (induction cs arbitrary: db)
  case (Cons c cs)
  obtain now cmd where c: "c = (now, cmd)" by (cases c)
  have ok: "sql_ok (sql_step H db c)" by (rule sql_ok_step [OF Cons.prems(1)]) (use Cons.prems(2) in simp)
  from sim_step [OF Cons.prems(1), of H now cmd] have "abs_store (sql_step H db c) = (case json_cmd cmd of None \<Rightarrow> abs_store db
      | Some d \<Rightarrow> store_step H (abs_store db) (now, d))" by (simp add: c simulates_def)
  with Cons.IH [OF ok] Cons.prems(2) show ?case
    by (simp add: run_sql_def run_store_def json_cmds_def List.map_filter_def c split: option.split)
qed (simp add: run_sql_def run_store_def json_cmds_def List.map_filter_def)

text \<open>
  C10. Through any typed operations the SQLite store holds what the reference store holds after the same
  operations with their values as JSON gives them back, without those whose values JSON
  cannot write: every workflow is found the same under its task id and under each of
  its Action IDs.
\<close>

theorem sqlite_refines_memory:
  assumes "list_all (\<lambda>c. cmd_typed (snd c)) cs"
  shows "(let db = run_sql H newSqlStore cs; s = run_store H newMemoryStore (json_cmds cs) in
     abs_store db = s \<and> sqlGetWorkflow db t = getWorkflow s t \<and> sqlGetWorkflowByActionId db a = getWorkflowByActionId s a)"
proof -
  have "abs_store newSqlStore = newMemoryStore" by (simp add: newSqlStore_def abs_store_def newMemoryStore_def)
  with run_sim [OF sql_ok_new assms, of H] show ?thesis
    by (simp add: Let_def get_abs [symmetric] getByActionId_abs [symmetric])
qed

theorem sqlite_refines_memory_witness:
  "sqlGetWorkflow (run_sql store_host newSqlStore [(0, Create_Cmd example_input), (0, Cancel_Cmd ''t'')]) ''t'' = getWorkflow example_done ''t''"
proof -
  have "json_cmds [(0, Create_Cmd example_input), (0, Cancel_Cmd ''t'')] = [(0, Create_Cmd example_input), (0, Cancel_Cmd ''t'')]"
    by (simp add: json_cmds_def List.map_filter_def example_input_def json_column_def null_if_undefined_def)
  with sqlite_refines_memory [of "[(0, Create_Cmd example_input), (0, Cancel_Cmd ''t'')]" store_host "''t''" "''a''"] show ?thesis
    by (simp add: Let_def example_done_def)
qed

text \<open>The answers of the operations agree as well, in every reachable database.\<close>

lemma sqlite_answers:
  fixes H :: "('a) host_scheme" and cs :: "(int \<times> store_cmd) list"
  assumes "list_all (\<lambda>c. cmd_typed (snd c)) cs"
  defines "db \<equiv> run_sql H newSqlStore cs"
  shows "snd (sqlCompareAndSetState now t a b db) = snd (compareAndSetState now t a b (abs_store db))"
    and "snd (sqlClaimWorkflow now later t w l db) = snd (claimWorkflow now later t w l (abs_store db))"
    and "snd (sqlCancelWorkflow now t db) = snd (cancelWorkflow now t (abs_store db))"
    and "snd (sqlPurgeExpiredResults H now ret db) = snd (purgeExpiredResults H now ret (abs_store db))"
proof -
  have ok: "sql_ok db" unfolding db_def using run_sim [OF sql_ok_new assms(1)] by blast
  show "snd (sqlCompareAndSetState now t a b db) = snd (compareAndSetState now t a b (abs_store db))" by (rule sim_cas [OF ok])
  show "snd (sqlClaimWorkflow now later t w l db) = snd (claimWorkflow now later t w l (abs_store db))" by (rule sim_claim [OF ok])
  show "snd (sqlCancelWorkflow now t db) = snd (cancelWorkflow now t (abs_store db))" by (rule sim_cancel [OF ok])
  have "set (sq_workflows db) \<subseteq> set (sq_workflows db)" "claims_wf db" using ok by (simp_all add: sql_ok_wf)
  from purge_sim [OF this(1) sql_ok_distinct [OF ok] sql_ok_distinct [OF ok] this(2), of H now ret 0]
  show "snd (sqlPurgeExpiredResults H now ret db) = snd (purgeExpiredResults H now ret (abs_store db))"
    by (auto simp: sqlPurgeExpiredResults_def purgeExpiredResults_def split: prod.splits) (metis snd_conv)
qed

end
