(* ===== verification/RelayWorker.thy ===== *)
theory RelayWorker
  imports CoordinationRequests
begin

text \<open>
  The relay worker of the verifier, \<open>cli/src/adapter/verifier-relay-worker.ts\<close>: it polls the
  deliveries of its identity, has each action processed once, keeps the response in a file
  and submits it, and moves its cursor when a page is done. The worker is a machine: one lane
  drains pages, one keeps the connection for notifications, and the steps end at the awaits.

  \<^item> Clock readings and the answers of the relay, of the verifier and of the file system are
    inputs of the steps. A save writes the whole state or nothing, by the rename of a temporary
    file; a crash loses everything but the file.
  \<^item> \<open>vw_file\<close> is the state that the last save wrote; a start reads it back from its JSON value,
    and a state that is refused leaves no worker, only a stopped one. The events for
    \<open>onEvent\<close> only observe and are left out.
  \<^item> \<open>vw_log\<close> records what happened; the worker never reads it.
\<close>

section \<open>State\<close>

datatype relay_error = Mpas_Auth_Error string | Relay_Response_Error string | Relay_Unavailable_Error string | Other_Failure string

fun isPermanentError :: "relay_error \<Rightarrow> bool" where
  "isPermanentError (Mpas_Auth_Error _) = True"
| "isPermanentError (Relay_Response_Error _) = True"
| "isPermanentError _ = False"

record cached_response =
  cr_envelope :: delivery_envelope
  cr_delivered :: bool

record relay_state =
  rs_relayUrl :: string
  rs_verifierDid :: did
  rs_cursor :: "string option"
  rs_responses :: "(string, cached_response) jsmap"

record worker_config =
  vc_relayUrl :: string
  vc_verifierDid :: did
  vc_reconnectInitialMs :: rat
  vc_reconnectMaxMs :: rat

definition normalizeUrl :: "string \<Rightarrow> string" where
  "normalizeUrl s = rev (dropWhile (\<lambda>c. c = CHR ''/'') (rev s))"

definition positiveInterval :: "jsnum \<Rightarrow> string \<Rightarrow> string + rat" where
  "positiveInterval n name = (case n of
       Fin q \<Rightarrow> if q \<le> 0 then Inl (name @ '' must be a positive number.'') else Inr q
     | _ \<Rightarrow> Inl (name @ '' must be a positive number.''))"

definition num_or :: "jsnum option \<Rightarrow> rat \<Rightarrow> jsnum" where
  "num_or n d = (case n of None \<Rightarrow> Fin d | Some x \<Rightarrow> x)"

definition createWorkerConfig :: "string \<Rightarrow> did \<Rightarrow> jsnum option \<Rightarrow> jsnum option \<Rightarrow> jsnum option \<Rightarrow> string + worker_config" where
  "createWorkerConfig relayUrl verifierDid fallbackMs initialMs maxMs =
    and_then (positiveInterval (num_or fallbackMs 30000) ''fallbackPollIntervalMs'') (\<lambda>_.
    and_then (positiveInterval (num_or initialMs 1000) ''reconnectInitialMs'') (\<lambda>initial.
    and_then (positiveInterval (num_or maxMs 30000) ''reconnectMaxMs'') (\<lambda>maximum.
    and_then (require (\<not> maximum < initial) ''reconnectMaxMs must be greater than or equal to reconnectInitialMs.'') (\<lambda>_.
    Inr \<lparr>vc_relayUrl = normalizeUrl relayUrl, vc_verifierDid = verifierDid, vc_reconnectInitialMs = initial,
      vc_reconnectMaxMs = maximum\<rparr>))))"

definition newState :: "worker_config \<Rightarrow> relay_state" where
  "newState cfg = \<lparr>rs_relayUrl = normalizeUrl (vc_relayUrl cfg), rs_verifierDid = vc_verifierDid cfg, rs_cursor = None, rs_responses = []\<rparr>"

section \<open>The state file\<close>

definition cached_json :: "cached_response \<Rightarrow> jsval" where
  "cached_json c = Obj [(''envelope'', envelope_json (cr_envelope c)), (''delivered'', Bool (cr_delivered c))]"

text \<open>The value that is written; the cursor is where the object has it, before or after the responses.\<close>

definition state_json :: "relay_state \<Rightarrow> jsval" where
  "state_json s = Obj ([(''version'', Str ''1''), (''type'', Str ''MpasVerifierRelayState''), (''relayUrl'', Str (rs_relayUrl s)),
     (''verifierDid'', Str (rs_verifierDid s))] @ spread ''cursor'' (map_option Str (rs_cursor s)) @
     [(''responses'', Obj (map (\<lambda>(k, c). (k, cached_json c)) (rs_responses s)))])"

definition parse_cached :: "('a) host_scheme \<Rightarrow> did \<Rightarrow> string \<times> jsval \<Rightarrow> string + string \<times> cached_response" where
  "parse_cached H verifierDid entry = (case entry of (fingerprint, v) \<Rightarrow>
     if fingerprint = [] \<or> \<not> is_record v \<or> (\<forall>b. js_get v ''delivered'' \<noteq> Bool b)
     then Inl ''Verifier relay response cache entry is invalid.''
     else case parseActionResponseEnvelope H (js_get v ''envelope'') of
         Inl e \<Rightarrow> Inl (routing_message e)
       | Inr envelope \<Rightarrow>
           if de_sender envelope \<noteq> verifierDid then Inl ''Cached Verifier response sender is invalid.''
           else Inr (fingerprint, \<lparr>cr_envelope = envelope, cr_delivered = (js_get v ''delivered'' = Bool True)\<rparr>))"

definition parseState :: "('a) host_scheme \<Rightarrow> worker_config \<Rightarrow> jsval \<Rightarrow> string + relay_state" where
  "parseState H cfg value =
    and_then (require (is_record value \<and> js_get value ''version'' = Str ''1'' \<and>
        (js_get value ''type'' = Str ''MpasVerifierRelayState'' \<or> js_get value ''type'' = Str ''MpasVerifierCoordinationState''))
      ''Verifier relay state is invalid.'') (\<lambda>_.
    let relayUrl = normalizeUrl (vc_relayUrl cfg);
        storedRelayUrl = (if js_get value ''type'' = Str ''MpasVerifierCoordinationState'' then js_get value ''coordinationUrl''
          else js_get value ''relayUrl'')
    in and_then (require (storedRelayUrl = Str relayUrl \<and> js_get value ''verifierDid'' = Str (vc_verifierDid cfg))
        ''Verifier relay state identity does not match.'') (\<lambda>_.
    and_then (require (js_get value ''cursor'' = Undefined \<or> is_string (js_get value ''cursor'')) ''Verifier relay cursor is invalid.'') (\<lambda>_.
    and_then (require (is_record (js_get value ''responses'')) ''Verifier relay response cache is invalid.'') (\<lambda>_.
    and_then (map_indexed (\<lambda>_. parse_cached H (vc_verifierDid cfg)) 0 (entries (js_get value ''responses''))) (\<lambda>responses.
    Inr \<lparr>rs_relayUrl = relayUrl, rs_verifierDid = vc_verifierDid cfg, rs_cursor = text_opt (js_get value ''cursor''),
      rs_responses = responses\<rparr>)))))"

section \<open>The worker\<close>

datatype worker_status = Worker_Idle | Worker_Connecting | Worker_Connected | Worker_Retrying | Worker_Fatal | Worker_Stopped

record relay_page =
  pg_deliveries :: "delivery_envelope list"
  pg_nextCursor :: "string option"

text \<open>Who asked for a poll: the connection loop, the timer, a notification or a caller.\<close>

datatype poll_origin = From_Loop | From_Timer | From_Notification | From_Caller

text \<open>Where the drain waits; each point within a page carries the page, the cursor of its poll and what is left.\<close>

datatype drain_point =
    No_Drain
  | Polling "string option"
  | Acting relay_page "string option" delivery_envelope string "delivery_envelope list"
  | Saving_Response relay_page "string option" string "delivery_envelope list"
  | Submitting relay_page "string option" string "delivery_envelope list"
  | Saving_Delivered relay_page "string option" "delivery_envelope list"
  | Saving_Page

datatype loop_point = Not_Started | Loop_Connecting | Loop_Polling | Loop_Waiting | Loop_Delay | Loop_Ended

datatype worker_note =
    Processed string
  | Submitted string delivery_envelope
  | Accepted string
  | Expired_Delivery delivery_envelope int
  | Advanced relay_page

record relay_worker =
  vw_state :: relay_state
  vw_file :: "relay_state option"
  vw_status :: worker_status
  vw_drain :: drain_point
  vw_origin :: poll_origin
  vw_queue :: "poll_origin list"
  vw_loop :: loop_point
  vw_reconnectMs :: rat
  vw_timer :: bool
  vw_aborted :: bool
  vw_fatal :: "relay_error option"
  vw_log :: "worker_note list"

definition freshWorker :: "worker_config \<Rightarrow> relay_state \<Rightarrow> relay_state option \<Rightarrow> worker_note list \<Rightarrow> relay_worker" where
  "freshWorker cfg s file notes = \<lparr>vw_state = s, vw_file = file, vw_status = Worker_Idle, vw_drain = No_Drain,
     vw_origin = From_Caller, vw_queue = [], vw_loop = Not_Started, vw_reconnectMs = vc_reconnectInitialMs cfg,
     vw_timer = False, vw_aborted = False, vw_fatal = None, vw_log = notes\<rparr>"

definition loadState :: "('a) host_scheme \<Rightarrow> worker_config \<Rightarrow> relay_state option \<Rightarrow> string + relay_state" where
  "loadState H cfg file = (case file of None \<Rightarrow> Inr (newState cfg) | Some s \<Rightarrow> parseState H cfg (state_json s))"

definition startWorker :: "('a) host_scheme \<Rightarrow> worker_config \<Rightarrow> relay_state option \<Rightarrow> worker_note list \<Rightarrow> relay_worker" where
  "startWorker H cfg file notes = (case loadState H cfg file of
       Inl e \<Rightarrow> (freshWorker cfg (newState cfg) file notes)\<lparr>vw_status := Worker_Stopped, vw_loop := Loop_Ended, vw_aborted := True\<rparr>
     | Inr s \<Rightarrow> freshWorker cfg s file notes)"

definition note_event :: "worker_note \<Rightarrow> relay_worker \<Rightarrow> relay_worker" where
  "note_event n w = w\<lparr>vw_log := vw_log w @ [n]\<rparr>"

section \<open>The connection loop\<close>

definition enterFatal :: "relay_error \<Rightarrow> relay_worker \<Rightarrow> relay_worker" where
  "enterFatal e w = (if vw_fatal w \<noteq> None then w else w\<lparr>vw_fatal := Some e, vw_status := Worker_Fatal, vw_timer := False\<rparr>)"

definition recordPollError :: "relay_error \<Rightarrow> relay_worker \<Rightarrow> relay_worker" where
  "recordPollError e w = (if isPermanentError e then enterFatal e w else w)"

definition loop_head :: "relay_worker \<Rightarrow> relay_worker" where
  "loop_head w = (if vw_aborted w \<or> vw_fatal w \<noteq> None then w\<lparr>vw_loop := Loop_Ended\<rparr>
     else w\<lparr>vw_status := Worker_Connecting, vw_loop := Loop_Connecting\<rparr>)"

text \<open>The end of an iteration: to the delay before the next.\<close>

definition loop_retry :: "relay_worker \<Rightarrow> relay_worker" where
  "loop_retry w = (if vw_aborted w \<or> vw_fatal w \<noteq> None then w\<lparr>vw_loop := Loop_Ended\<rparr>
     else w\<lparr>vw_status := Worker_Retrying, vw_loop := Loop_Delay\<rparr>)"

definition loop_catch :: "relay_error \<Rightarrow> relay_worker \<Rightarrow> relay_worker" where
  "loop_catch e w = (if vw_aborted w then w\<lparr>vw_loop := Loop_Ended\<rparr>
     else let w' = (if isPermanentError e then enterFatal e w else w) in
       if vw_fatal w' \<noteq> None then w'\<lparr>vw_loop := Loop_Ended\<rparr> else loop_retry w')"

text \<open>The connection is open; \<open>ready\<close> when the socket's state is already open.\<close>

definition connected :: "worker_config \<Rightarrow> bool \<Rightarrow> relay_worker \<Rightarrow> relay_worker" where
  "connected cfg ready w = w\<lparr>vw_status := Worker_Connected,
     vw_reconnectMs := (if ready then vc_reconnectInitialMs cfg else vw_reconnectMs w),
     vw_queue := vw_queue w @ [From_Loop], vw_loop := Loop_Polling\<rparr>"

definition socket_ended :: "relay_error option \<Rightarrow> relay_worker \<Rightarrow> relay_worker" where
  "socket_ended err w = (case err of
       Some e \<Rightarrow> loop_catch e w
     | None \<Rightarrow> if vw_aborted w then w\<lparr>vw_loop := Loop_Ended\<rparr>
         else (case vw_fatal w of Some e \<Rightarrow> loop_catch e w | None \<Rightarrow> loop_retry w))"

definition delay_over :: "worker_config \<Rightarrow> relay_worker \<Rightarrow> relay_worker" where
  "delay_over cfg w = loop_head (w\<lparr>vw_reconnectMs := min (vw_reconnectMs w * 2) (vc_reconnectMaxMs cfg)\<rparr>)"

section \<open>The drain\<close>

definition drain_done :: "relay_worker \<Rightarrow> relay_worker" where
  "drain_done w = (let w' = w\<lparr>vw_drain := No_Drain\<rparr> in
     if vw_origin w = From_Loop then w'\<lparr>vw_loop := Loop_Waiting\<rparr> else w')"

definition drain_fails :: "relay_error \<Rightarrow> relay_worker \<Rightarrow> relay_worker" where
  "drain_fails e w = (let w' = w\<lparr>vw_drain := No_Drain\<rparr> in
     if vw_origin w = From_Caller then w'
     else if vw_origin w = From_Loop then loop_catch e (recordPollError e w')
     else recordPollError e w')"

definition start_drain :: "relay_worker \<Rightarrow> relay_worker" where
  "start_drain w = (if vw_aborted w then drain_done w else w\<lparr>vw_drain := Polling (rs_cursor (vw_state w))\<rparr>)"

text \<open>The checks of \<open>processDelivery\<close>: \<open>None\<close> for an expired delivery, else the envelope and its fingerprint.\<close>

definition check_delivery ::
    "('a) host_scheme \<Rightarrow> worker_config \<Rightarrow> int \<Rightarrow> delivery_envelope \<Rightarrow> relay_error + (delivery_envelope \<times> string) option" where
  "check_delivery H cfg now delivery =
    (if \<not> (is_record (de_payload delivery) \<and> js_get (de_payload delivery) ''type'' = Str ''ActionRequest'')
     then Inl (Relay_Response_Error ''Verifier received unsupported delivery payload type.'')
     else case parseActionRequestEnvelope H (envelope_json delivery) of
         Inl e \<Rightarrow> Inl (Relay_Response_Error ''Action Relay returned an invalid Action request envelope.'')
       | Inr envelope \<Rightarrow>
           if vc_verifierDid cfg \<notin> set (de_recipients envelope)
           then Inl (Relay_Response_Error ''Polled Action request does not address this Verifier DID.'')
           else if isDeliveryEnvelopeExpired H envelope now then Inr None
           else (case computeIdempotencyFingerprint H (envelope_json envelope) of
               Inl e \<Rightarrow> Inl (Other_Failure (routing_message e))
             | Inr fingerprint \<Rightarrow> Inr (Some (envelope, fingerprint))))"

definition put_response :: "string \<Rightarrow> cached_response \<Rightarrow> relay_worker \<Rightarrow> relay_worker" where
  "put_response k c w = w\<lparr>vw_state := (vw_state w)\<lparr>rs_responses := map_set k c (rs_responses (vw_state w))\<rparr>\<rparr>"

text \<open>The end of a page.\<close>

definition page_end :: "relay_page \<Rightarrow> string option \<Rightarrow> relay_worker \<Rightarrow> relay_worker" where
  "page_end page cursor w =
    (if pg_deliveries page = [] then drain_done w
     else case pg_nextCursor page of
         None \<Rightarrow> drain_fails (Relay_Response_Error ''Action Relay returned deliveries without an advancing cursor.'') w
       | Some c \<Rightarrow>
           if c = [] \<or> cursor = Some c
           then drain_fails (Relay_Response_Error ''Action Relay returned deliveries without an advancing cursor.'') w
           else note_event (Advanced page) (w\<lparr>vw_state := (vw_state w)\<lparr>rs_cursor := Some c,
               rs_responses := filter (\<lambda>(k, r). \<not> cr_delivered r) (rs_responses (vw_state w))\<rparr>, vw_drain := Saving_Page\<rparr>))"

text \<open>From one delivery to the next await, or to the end of the page; \<open>now\<close> is read for each delivery.\<close>

fun continue_page ::
    "('a) host_scheme \<Rightarrow> worker_config \<Rightarrow> (nat \<Rightarrow> int) \<Rightarrow> relay_page \<Rightarrow> string option \<Rightarrow> delivery_envelope list \<Rightarrow> relay_worker \<Rightarrow> relay_worker" where
  "continue_page H cfg clock page cursor [] w = page_end page cursor w"
| "continue_page H cfg clock page cursor (delivery # rest) w =
    (case check_delivery H cfg (clock (length rest)) delivery of
       Inl e \<Rightarrow> drain_fails e w
     | Inr None \<Rightarrow> continue_page H cfg clock page cursor rest (note_event (Expired_Delivery delivery (clock (length rest))) w)
     | Inr (Some (envelope, fingerprint)) \<Rightarrow> (case map_get (rs_responses (vw_state w)) fingerprint of
           None \<Rightarrow> note_event (Processed fingerprint) (w\<lparr>vw_drain := Acting page cursor envelope fingerprint rest\<rparr>)
         | Some cached \<Rightarrow> if cr_delivered cached then continue_page H cfg clock page cursor rest w
             else note_event (Submitted fingerprint (cr_envelope cached)) (w\<lparr>vw_drain := Submitting page cursor fingerprint rest\<rparr>)))"

text \<open>The checks of the verifier's response, and the envelope that answers the request.\<close>

definition check_response ::
    "('a) host_scheme \<Rightarrow> worker_config \<Rightarrow> int \<Rightarrow> delivery_envelope \<Rightarrow> jsval \<Rightarrow> relay_error + delivery_envelope" where
  "check_response H cfg now envelope response =
    (if js_get response ''result'' = Str ''pending''
     then Inl (Relay_Unavailable_Error ''Verifier is still processing the delivered Action; retrying without advancing the cursor.'')
     else let expected = computeJsonHash H (js_get (js_get (de_payload envelope) ''actionPackage'') ''actionEnvelope'') in
       if js_get (js_get response ''verifier'') ''did'' \<noteq> Str (vc_verifierDid cfg)
       then Inl (Relay_Response_Error ''Verifier response DID does not match the configured Verifier DID.'')
       else if js_get (js_get response ''actionEnvelopeHash'') ''alg'' \<noteq> Str (hash_alg expected) \<or>
         js_get (js_get response ''actionEnvelopeHash'') ''value'' \<noteq> Str (hash_value expected)
       then Inl (Relay_Response_Error ''Verifier response does not match the delivered Action Envelope hash.'')
       else (case buildDeliveryEnvelope H now (vc_verifierDid cfg) [de_sender envelope] response None None None of
           Inl e \<Rightarrow> Inl (Other_Failure (routing_message e)) | Inr r \<Rightarrow> Inr r))"

definition action_answered :: "('a) host_scheme \<Rightarrow> worker_config \<Rightarrow> (nat \<Rightarrow> int) \<Rightarrow> relay_error + jsval \<Rightarrow> relay_worker \<Rightarrow> relay_worker" where
  "action_answered H cfg clock result w = (case vw_drain w of
       Acting page cursor envelope fingerprint rest \<Rightarrow> (case and_then result (check_response H cfg (clock 0) envelope) of
           Inl e \<Rightarrow> drain_fails e w
         | Inr response \<Rightarrow> put_response fingerprint \<lparr>cr_envelope = response, cr_delivered = False\<rparr>
             (w\<lparr>vw_drain := Saving_Response page cursor fingerprint rest\<rparr>))
     | _ \<Rightarrow> w)"

definition save_error :: relay_error where
  "save_error = Relay_Response_Error ''Unable to persist Verifier relay state.''"

text \<open>A save that has succeeded or failed, and what follows it.\<close>

definition saved :: "('a) host_scheme \<Rightarrow> worker_config \<Rightarrow> (nat \<Rightarrow> int) \<Rightarrow> bool \<Rightarrow> relay_worker \<Rightarrow> relay_worker" where
  "saved H cfg clock ok w =
    (let w' = w\<lparr>vw_file := Some (vw_state w)\<rparr> in case vw_drain w of
       Saving_Response page cursor fingerprint rest \<Rightarrow>
         if \<not> ok then drain_fails save_error w
         else (case map_get (rs_responses (vw_state w)) fingerprint of
             None \<Rightarrow> w'
           | Some cached \<Rightarrow> note_event (Submitted fingerprint (cr_envelope cached)) (w'\<lparr>vw_drain := Submitting page cursor fingerprint rest\<rparr>))
     | Saving_Delivered page cursor rest \<Rightarrow>
         if \<not> ok then drain_fails save_error w else continue_page H cfg clock page cursor rest w'
     | Saving_Page \<Rightarrow> if \<not> ok then drain_fails save_error w else start_drain w'
     | _ \<Rightarrow> w)"

definition submit_answered :: "relay_error + jsval \<Rightarrow> relay_worker \<Rightarrow> relay_worker" where
  "submit_answered result w = (case vw_drain w of
       Submitting page cursor fingerprint rest \<Rightarrow> (case result of
           Inl e \<Rightarrow> drain_fails e w
         | Inr response \<Rightarrow>
             if js_get response ''accepted'' \<noteq> Bool True
             then drain_fails (Relay_Response_Error ''Action Relay did not accept the Verifier response delivery.'') w
             else (case map_get (rs_responses (vw_state w)) fingerprint of
                 None \<Rightarrow> w
               | Some cached \<Rightarrow> note_event (Accepted fingerprint) (put_response fingerprint (cached\<lparr>cr_delivered := True\<rparr>)
                   (w\<lparr>vw_drain := Saving_Delivered page cursor rest\<rparr>))))
     | _ \<Rightarrow> w)"

section \<open>The machine\<close>

datatype worker_event =
    W_Start
  | W_Poll poll_origin
  | W_Turn
  | W_Page "relay_error + relay_page"
  | W_Action "relay_error + jsval"
  | W_Saved bool
  | W_Submitted "relay_error + jsval"
  | W_Connected "relay_error + bool"
  | W_Socket_Ended "relay_error option"
  | W_Delay_Over
  | W_Stop
  | W_Stopped
  | W_Restart

fun worker_step :: "('a) host_scheme \<Rightarrow> worker_config \<Rightarrow> relay_worker \<Rightarrow> (nat \<Rightarrow> int) \<times> worker_event \<Rightarrow> relay_worker" where
  "worker_step H cfg w (clock, W_Start) = (if vw_loop w \<noteq> Not_Started then w else loop_head (w\<lparr>vw_status := Worker_Connecting, vw_timer := True\<rparr>))"
| "worker_step H cfg w (clock, W_Poll origin) =
    (if origin = From_Loop \<or> origin = From_Timer \<and> (\<not> vw_timer w \<or> vw_status w = Worker_Fatal \<or> vw_status w = Worker_Stopped) then w
     else w\<lparr>vw_queue := vw_queue w @ [origin]\<rparr>)"
| "worker_step H cfg w (clock, W_Turn) = (case (vw_drain w, vw_queue w) of
       (No_Drain, origin # rest) \<Rightarrow> start_drain (w\<lparr>vw_origin := origin, vw_queue := rest\<rparr>)
     | _ \<Rightarrow> w)"
| "worker_step H cfg w (clock, W_Page result) = (case vw_drain w of
       Polling cursor \<Rightarrow> (case result of
           Inl e \<Rightarrow> drain_fails e w
         | Inr page \<Rightarrow> continue_page H cfg clock page cursor (pg_deliveries page) w)
     | _ \<Rightarrow> w)"
| "worker_step H cfg w (clock, W_Action result) = action_answered H cfg clock result w"
| "worker_step H cfg w (clock, W_Saved ok) = saved H cfg clock ok w"
| "worker_step H cfg w (clock, W_Submitted result) = submit_answered result w"
| "worker_step H cfg w (clock, W_Connected result) = (if vw_loop w \<noteq> Loop_Connecting then w
     else case result of Inl e \<Rightarrow> loop_catch e w | Inr ready \<Rightarrow> connected cfg ready w)"
| "worker_step H cfg w (clock, W_Socket_Ended err) = (if vw_loop w \<noteq> Loop_Waiting then w else socket_ended err w)"
| "worker_step H cfg w (clock, W_Delay_Over) = (if vw_loop w \<noteq> Loop_Delay then w else delay_over cfg w)"
| "worker_step H cfg w (clock, W_Stop) = (if vw_status w = Worker_Stopped then w else w\<lparr>vw_aborted := True, vw_timer := False\<rparr>)"
| "worker_step H cfg w (clock, W_Stopped) =
    (if vw_aborted w \<and> vw_loop w \<in> {Not_Started, Loop_Ended} \<and> vw_drain w = No_Drain \<and> vw_queue w = []
     then w\<lparr>vw_status := Worker_Stopped\<rparr> else w)"
| "worker_step H cfg w (clock, W_Restart) = startWorker H cfg (vw_file w) (vw_log w)"

definition run_worker :: "('a) host_scheme \<Rightarrow> worker_config \<Rightarrow> relay_worker \<Rightarrow> ((nat \<Rightarrow> int) \<times> worker_event) list \<Rightarrow> relay_worker" where
  "run_worker H cfg w events = foldl (worker_step H cfg) w events"

definition newWorker :: "worker_config \<Rightarrow> relay_worker" where
  "newWorker cfg = freshWorker cfg (newState cfg) None []"

end
