(* ===== verification/RelayExample.thy ===== *)
theory RelayExample
  imports RelayWorker
begin

text \<open>
  A run of the relay worker: a delivery is processed and its response saved, the first
  submission fails, the worker starts again from its file, submits again and is accepted.
\<close>

definition rx_host :: host where
  "rx_host = routing_host\<lparr>sha256 := (\<lambda>s. ''h'')\<rparr>"

definition rx_config :: worker_config where
  "rx_config = \<lparr>vc_relayUrl = ''https://r'', vc_verifierDid = ''did:web:a'', vc_reconnectInitialMs = 1000, vc_reconnectMaxMs = 30000\<rparr>"

definition rx_request :: jsval where
  "rx_request = Obj [(''version'', Str ''1''), (''type'', Str ''ActionRequest''),
     (''actionPackage'', Obj [(''version'', Str ''1''), (''type'', Str ''ActionPackage'')])]"

definition rx_delivery :: delivery_envelope where
  "rx_delivery = \<lparr>de_sender = ''did:web:p'', de_recipients = [''did:web:a''], de_createdAt = iso_of_ms 0,
     de_payload = rx_request, de_expiresAt = None, de_audience = None\<rparr>"

definition rx_answer :: jsval where
  "rx_answer = Obj [(''version'', Str ''1''), (''type'', Str ''ActionResponse''), (''result'', Str ''executed''),
     (''verifier'', Obj [(''did'', Str ''did:web:a'')]),
     (''actionEnvelopeHash'', Obj [(''alg'', Str ''sha-256''), (''value'', Str ''h'')])]"

definition rx_response :: delivery_envelope where
  "rx_response = \<lparr>de_sender = ''did:web:a'', de_recipients = [''did:web:p''], de_createdAt = iso_of_ms 0,
     de_payload = rx_answer, de_expiresAt = None, de_audience = None\<rparr>"

definition rx_page :: relay_page where
  "rx_page = \<lparr>pg_deliveries = [rx_delivery], pg_nextCursor = Some ''c''\<rparr>"

definition rx_clock :: "nat \<Rightarrow> int" where
  "rx_clock i = 0"

text \<open>The events up to the second submission, and the rest.\<close>

definition rx_first :: "((nat \<Rightarrow> int) \<times> worker_event) list" where
  "rx_first = map (Pair rx_clock)
     [W_Poll From_Caller, W_Turn, W_Page (Inr rx_page), W_Action (Inr rx_answer), W_Saved True,
      W_Submitted (Inl (Relay_Unavailable_Error ''down'')), W_Restart,
      W_Poll From_Caller, W_Turn, W_Page (Inr rx_page)]"

definition rx_events :: "((nat \<Rightarrow> int) \<times> worker_event) list" where
  "rx_events = rx_first @ map (Pair rx_clock) [W_Submitted (Inr (Obj [(''accepted'', Bool True)])), W_Saved True, W_Saved True]"

section \<open>The checks\<close>

lemma rx_times: "iso_ms_form (iso_of_ms 0)" "date_parse f (iso_of_ms 0) = Some 0"
proof -
  have "iso_range 0" by code_simp
  then show "iso_ms_form (iso_of_ms 0)" "date_parse f (iso_of_ms 0) = Some 0" by (rule iso_of_ms_form, rule date_parse_iso)
qed

lemma rx_json: "requireJsonValue rx_request p = None" "requireJsonValue rx_answer p = None"
  by (simp_all add: requireJsonValue.simps rx_request_def rx_answer_def)

lemma rx_parsed:
  "parseDeliveryEnvelope rx_host (envelope_json rx_delivery) = Inr rx_delivery"
  "parseDeliveryEnvelope rx_host (envelope_json rx_response) = Inr rx_response"
  by (simp_all add: parseDeliveryEnvelope_Inr rx_delivery_def rx_response_def example_dids rx_times rx_json)

lemma rx_request_parsed: "parseActionRequestEnvelope rx_host (envelope_json rx_delivery) = Inr rx_delivery"
proof -
  have "parseActionRequest rx_host rx_request = Inr rx_request"
    by (simp add: parseActionRequest_def requireRecord_def requireLiteral_def require_def rx_request_def if_defined_def
        validateOptionalIdempotencyKey_def spread_def)
  then show ?thesis by (simp add: parseActionRequestEnvelope_def rx_parsed) (simp add: rx_delivery_def)
qed

lemma rx_response_parsed: "parseActionResponseEnvelope rx_host (envelope_json rx_response) = Inr rx_response"
proof -
  have "parseActionResponseAt rx_answer p = Inr rx_answer" for p
    by (simp add: parseActionResponseAt_def requireRecord_def requireLiteral_def require_def rx_answer_def ACTION_RESPONSE_RESULTS_def)
  then show ?thesis by (simp add: parseActionResponseEnvelope_def rx_parsed) (simp add: rx_response_def)
qed

lemma rx_fingerprint: "computeIdempotencyFingerprint rx_host (envelope_json rx_delivery) = Inr ''h''"
proof -
  have "idempotencyProjection rx_host rx_request p = Inr rx_request" for p
    by (subst idempotencyProjection.simps)
      (simp add: requireRecord_def rx_request_def without_keys_def no_error_def requireJsonValue.simps)
  then show ?thesis
    by (simp add: computeIdempotencyFingerprint_def projection_envelope [OF rx_parsed(1)] computeJsonHash_def)
      (simp add: rx_delivery_def rx_host_def)
qed

lemma rx_check: "check_delivery rx_host rx_config t rx_delivery = Inr (Some (rx_delivery, ''h''))"
proof -
  have "is_record (de_payload rx_delivery)" "js_get (de_payload rx_delivery) ''type'' = Str ''ActionRequest''"
    "de_recipients rx_delivery = [''did:web:a'']" "de_expiresAt rx_delivery = None"
    by (simp_all add: rx_delivery_def rx_request_def)
  then show ?thesis
    by (simp add: check_delivery_def rx_request_parsed rx_fingerprint isDeliveryEnvelopeExpired_def rx_config_def)
qed

lemma rx_built: "check_response rx_host rx_config 0 rx_delivery rx_answer = Inr rx_response"
proof -
  have "buildDeliveryEnvelope rx_host 0 ''did:web:a'' [''did:web:p''] rx_answer None None None = Inr rx_response"
    using rx_parsed(2) by (simp add: buildDeliveryEnvelope_def rx_response_def)
  then show ?thesis
    by (simp add: check_response_def rx_config_def computeJsonHash_def rx_host_def rx_delivery_def Let_def)
      (simp add: rx_answer_def)
qed

section \<open>The run\<close>

lemma rx_sels [simp]:
  "pg_deliveries rx_page = [rx_delivery]" "pg_nextCursor rx_page = Some ''c''" "rx_clock i = 0"
  "de_sender rx_delivery = ''did:web:p''"
  by (simp_all add: rx_page_def rx_clock_def rx_delivery_def)

definition rx_state :: "string option \<Rightarrow> (string, cached_response) jsmap \<Rightarrow> relay_state" where
  "rx_state c rs = \<lparr>rs_relayUrl = ''https://r'', rs_verifierDid = ''did:web:a'', rs_cursor = c, rs_responses = rs\<rparr>"

definition rx_cached :: "bool \<Rightarrow> (string, cached_response) jsmap" where
  "rx_cached b = [(''h'', \<lparr>cr_envelope = rx_response, cr_delivered = b\<rparr>)]"

definition rx_worker :: "drain_point \<Rightarrow> relay_state \<Rightarrow> relay_state option \<Rightarrow> worker_note list \<Rightarrow> relay_worker" where
  "rx_worker d s file ns = (freshWorker rx_config s file ns)\<lparr>vw_drain := d\<rparr>"

lemma rx_cursor: "rs_cursor (rx_state c rs) = c"
  by (simp add: rx_state_def)

lemma rx_url: "normalizeUrl ''https://r'' = ''https://r''"
  by (simp add: normalizeUrl_def)

lemma rx_new: "newWorker rx_config = rx_worker No_Drain (rx_state None []) None []"
  by (simp add: newWorker_def rx_worker_def rx_state_def newState_def rx_url rx_config_def freshWorker_def)

lemma rx_loaded: "loadState rx_host rx_config (Some (rx_state None (rx_cached False))) = Inr (rx_state None (rx_cached False))"
proof -
  let ?v = "state_json (rx_state None (rx_cached False))"
  have g: "is_record ?v" "js_get ?v ''version'' = Str ''1''" "js_get ?v ''type'' = Str ''MpasVerifierRelayState''"
    "js_get ?v ''relayUrl'' = Str ''https://r''" "js_get ?v ''verifierDid'' = Str ''did:web:a''" "js_get ?v ''cursor'' = Undefined"
    "js_get ?v ''responses'' = Obj [(''h'', cached_json \<lparr>cr_envelope = rx_response, cr_delivered = False\<rparr>)]"
    by (simp_all add: state_json_def rx_state_def spread_def rx_cached_def)
  have "parse_cached rx_host ''did:web:a'' (''h'', cached_json \<lparr>cr_envelope = rx_response, cr_delivered = False\<rparr>) =
      Inr (''h'', \<lparr>cr_envelope = rx_response, cr_delivered = False\<rparr>)"
    by (simp add: parse_cached_def cached_json_def rx_response_parsed) (auto simp: rx_response_def intro: exI [of Not False])
  then show ?thesis
    by (simp add: loadState_def parseState_def g rx_url rx_config_def require_def Let_def) (simp add: rx_state_def rx_cached_def)
qed

definition rx_log :: "worker_note list" where
  "rx_log = [Processed ''h'', Submitted ''h'' rx_response, Submitted ''h'' rx_response, Accepted ''h'', Advanced rx_page]"

lemma rx_steps:
  "worker_step rx_host rx_config (rx_worker No_Drain s f ns) (rx_clock, W_Poll From_Caller) =
     (rx_worker No_Drain s f ns)\<lparr>vw_queue := [From_Caller]\<rparr>"
  "worker_step rx_host rx_config ((rx_worker No_Drain s f ns)\<lparr>vw_queue := [From_Caller]\<rparr>) (rx_clock, W_Turn) =
     rx_worker (Polling (rs_cursor s)) s f ns"
  "worker_step rx_host rx_config (rx_worker (Polling c) (rx_state c []) f ns) (rx_clock, W_Page (Inr rx_page)) =
     rx_worker (Acting rx_page c rx_delivery ''h'' []) (rx_state c []) f (ns @ [Processed ''h''])"
  "worker_step rx_host rx_config (rx_worker (Polling c) (rx_state c (rx_cached False)) f ns) (rx_clock, W_Page (Inr rx_page)) =
     rx_worker (Submitting rx_page c ''h'' []) (rx_state c (rx_cached False)) f (ns @ [Submitted ''h'' rx_response])"
  "worker_step rx_host rx_config (rx_worker (Acting rx_page c rx_delivery ''h'' []) (rx_state c []) f ns) (rx_clock, W_Action (Inr rx_answer)) =
     rx_worker (Saving_Response rx_page c ''h'' []) (rx_state c (rx_cached False)) f ns"
  "worker_step rx_host rx_config (rx_worker (Saving_Response rx_page c ''h'' []) (rx_state c (rx_cached False)) f ns) (rx_clock, W_Saved True) =
     rx_worker (Submitting rx_page c ''h'' []) (rx_state c (rx_cached False)) (Some (rx_state c (rx_cached False))) (ns @ [Submitted ''h'' rx_response])"
  "worker_step rx_host rx_config (rx_worker (Submitting rx_page c ''h'' []) s f ns) (rx_clock, W_Submitted (Inl e)) =
     rx_worker No_Drain s f ns"
  "worker_step rx_host rx_config (rx_worker (Submitting rx_page c ''h'' []) (rx_state c (rx_cached False)) f ns)
      (rx_clock, W_Submitted (Inr (Obj [(''accepted'', Bool True)]))) =
     rx_worker (Saving_Delivered rx_page c []) (rx_state c (rx_cached True)) f (ns @ [Accepted ''h''])"
  "worker_step rx_host rx_config (rx_worker (Saving_Delivered rx_page None []) (rx_state None (rx_cached True)) f ns) (rx_clock, W_Saved True) =
     rx_worker Saving_Page (rx_state (Some ''c'') []) (Some (rx_state None (rx_cached True))) (ns @ [Advanced rx_page])"
  "worker_step rx_host rx_config (rx_worker Saving_Page s f ns) (rx_clock, W_Saved True) =
     rx_worker (Polling (rs_cursor s)) s (Some s) ns"
  "worker_step rx_host rx_config (rx_worker No_Drain s (Some (rx_state None (rx_cached False))) ns) (rx_clock, W_Restart) =
     rx_worker No_Drain (rx_state None (rx_cached False)) (Some (rx_state None (rx_cached False))) ns"
  by (simp_all add: rx_worker_def freshWorker_def start_drain_def rx_check rx_state_def rx_cached_def note_event_def
      action_answered_def rx_built put_response_def saved_def Let_def drain_fails_def submit_answered_def page_end_def
      startWorker_def rx_loaded [unfolded rx_state_def rx_cached_def])

lemma rx_run_first:
  "run_worker rx_host rx_config (newWorker rx_config) rx_first =
    rx_worker (Submitting rx_page None ''h'' []) (rx_state None (rx_cached False)) (Some (rx_state None (rx_cached False)))
      [Processed ''h'', Submitted ''h'' rx_response, Submitted ''h'' rx_response]"
  unfolding run_worker_def rx_first_def rx_new
  by (simp add: rx_steps rx_cursor del: worker_step.simps)

lemma rx_run:
  "run_worker rx_host rx_config (newWorker rx_config) rx_events =
    rx_worker (Polling (Some ''c'')) (rx_state (Some ''c'') []) (Some (rx_state (Some ''c'') [])) rx_log"
  using rx_run_first unfolding run_worker_def rx_events_def foldl_append
  by (simp add: rx_steps rx_cursor rx_log_def del: worker_step.simps)

end
