(* ===== verification/RelayProperties.thy ===== *)
theory RelayProperties
  imports RelayWorker RelayExample
begin

text \<open>
  What the relay worker promises: the file gives back the state that was saved, no delivery
  is passed over, a retry sends the response that was sent before, and the delay between
  connections stays within its bounds.
\<close>

section \<open>The state file\<close>

lemma normalizeUrl_idem [simp]: "normalizeUrl (normalizeUrl s) = normalizeUrl s"
  by (simp add: normalizeUrl_def)

lemma js_get_state_json [simp]:
  "js_get (state_json s) ''version'' = Str ''1''" "js_get (state_json s) ''type'' = Str ''MpasVerifierRelayState''"
  "js_get (state_json s) ''relayUrl'' = Str (rs_relayUrl s)" "js_get (state_json s) ''verifierDid'' = Str (rs_verifierDid s)"
  "js_get (state_json s) ''cursor'' = (case rs_cursor s of None \<Rightarrow> Undefined | Some c \<Rightarrow> Str c)"
  "js_get (state_json s) ''responses'' = Obj (map (\<lambda>(k, c). (k, cached_json c)) (rs_responses s))"
  by (simp_all add: state_json_def spread_def split: option.splits)

lemma is_record_state_json [simp]: "is_record (state_json s)"
  by (simp add: state_json_def)

lemma js_get_cached_json [simp]:
  "js_get (cached_json c) ''envelope'' = envelope_json (cr_envelope c)" "js_get (cached_json c) ''delivered'' = Bool (cr_delivered c)"
  "is_record (cached_json c)"
  by (simp_all add: cached_json_def)

text \<open>An envelope that is read back from its JSON value is the same envelope.\<close>

lemma parsed_envelope_same: "parseDeliveryEnvelope H (envelope_json e) = Inr f \<Longrightarrow> f = e"
  by (cases e, cases f) (auto simp: parseDeliveryEnvelope_Inr inj_map_eq_map inj_def split: option.splits)

lemma parsed_response_same: "parseActionResponseAt v p = Inr w \<Longrightarrow> w = v"
  by (auto simp: parseActionResponseAt_def split: if_splits)

definition response_envelope :: "('a) host_scheme \<Rightarrow> delivery_envelope \<Rightarrow> bool" where
  "response_envelope H e \<longleftrightarrow> parseActionResponseEnvelope H (envelope_json e) = Inr e"

lemma parseActionResponseEnvelope_json:
  "parseActionResponseEnvelope H (envelope_json e) = Inr f \<longleftrightarrow> f = e \<and> response_envelope H e"
proof -
  have "parseActionResponseEnvelope H (envelope_json e) = Inr f \<Longrightarrow> f = e"
    by (auto simp: parseActionResponseEnvelope_def dest!: parsed_envelope_same parsed_response_same)
  then show ?thesis by (auto simp: response_envelope_def)
qed

definition entry_ok :: "('a) host_scheme \<Rightarrow> did \<Rightarrow> string \<times> cached_response \<Rightarrow> bool" where
  "entry_ok H verifier entry \<longleftrightarrow> fst entry \<noteq> [] \<and> response_envelope H (cr_envelope (snd entry)) \<and>
     de_sender (cr_envelope (snd entry)) = verifier"

lemma parse_cached_json:
  "parse_cached H verifier (k, cached_json c) = Inr r \<longleftrightarrow> r = (k, c) \<and> entry_ok H verifier (k, c)"
proof (cases "parseActionResponseEnvelope H (envelope_json (cr_envelope c))")
  case (Inl e)
  then have "\<not> response_envelope H (cr_envelope c)" by (simp add: response_envelope_def)
  with Inl show ?thesis by (simp add: parse_cached_def entry_ok_def)
next
  case (Inr f)
  then have "f = cr_envelope c \<and> response_envelope H (cr_envelope c)" using parseActionResponseEnvelope_json by blast
  with Inr show ?thesis by (cases c) (auto simp: parse_cached_def entry_ok_def)
qed

lemma map_indexed_inverse:
  assumes "\<And>x y. f (g x) = Inr y \<longleftrightarrow> y = x \<and> P x"
  shows "map_indexed (\<lambda>_. f) n (map g xs) = Inr ys \<longleftrightarrow> ys = xs \<and> list_all P xs"
  by (induction xs arbitrary: n ys) (auto simp: assms)

text \<open>The states that the worker of a configuration may hold.\<close>

definition state_ok :: "('a) host_scheme \<Rightarrow> worker_config \<Rightarrow> relay_state \<Rightarrow> bool" where
  "state_ok H cfg s \<longleftrightarrow> rs_relayUrl s = normalizeUrl (vc_relayUrl cfg) \<and> rs_verifierDid s = vc_verifierDid cfg \<and>
     list_all (entry_ok H (vc_verifierDid cfg)) (rs_responses s)"

lemma parseState_json: "parseState H cfg (state_json s) = Inr t \<longleftrightarrow> t = s \<and> state_ok H cfg s"
proof -
  define responses where "responses = map_indexed (\<lambda>_. parse_cached H (vc_verifierDid cfg)) 0
    (map (\<lambda>(k, c). (k, cached_json c)) (rs_responses s))"
  have m: "responses = Inr rs \<longleftrightarrow> rs = rs_responses s \<and> list_all (entry_ok H (vc_verifierDid cfg)) (rs_responses s)" for rs
    unfolding responses_def by (rule map_indexed_inverse) (auto simp: parse_cached_json)
  have c: "text_opt (case rs_cursor s of None \<Rightarrow> Undefined | Some c \<Rightarrow> Str c) = rs_cursor s"
    by (simp split: option.splits)
  have "parseState H cfg (state_json s) = Inr t \<longleftrightarrow> rs_relayUrl s = normalizeUrl (vc_relayUrl cfg) \<and>
      rs_verifierDid s = vc_verifierDid cfg \<and> (\<exists>rs. responses = Inr rs \<and>
        t = \<lparr>rs_relayUrl = normalizeUrl (vc_relayUrl cfg), rs_verifierDid = vc_verifierDid cfg, rs_cursor = rs_cursor s, rs_responses = rs\<rparr>)"
    by (auto simp: parseState_def Let_def c responses_def [symmetric] split: option.splits)
  then show ?thesis by (cases s) (auto simp: m state_ok_def)
qed

lemma loaded:
  "loadState H cfg file = Inr s \<longleftrightarrow> (case file of None \<Rightarrow> s = newState cfg | Some t \<Rightarrow> s = t \<and> state_ok H cfg t)"
  by (auto simp: loadState_def parseState_json split: option.splits)

section \<open>Runs\<close>

lemma run_worker_Nil [simp]: "run_worker H cfg w [] = w"
  by (simp add: run_worker_def)

lemma run_worker_snoc: "run_worker H cfg w (es @ [e]) = worker_step H cfg (run_worker H cfg w es) e"
  by (simp add: run_worker_def)

lemma run_worker_Cons: "run_worker H cfg w (e # es) = run_worker H cfg (worker_step H cfg w e) es"
  by (simp add: run_worker_def)

text \<open>An invariant of the steps is an invariant of the runs; \<open>P\<close> limits the events.\<close>

lemma run_worker_invariant [consumes 1, case_names start step]:
  assumes "list_all P events" "I (newWorker cfg)" "\<And>w e. I w \<Longrightarrow> P e \<Longrightarrow> I (worker_step H cfg w e)"
  shows "I (run_worker H cfg (newWorker cfg) events)"
  using assms(1) by (induction events rule: rev_induct) (simp_all add: run_worker_snoc assms(2,3))

section \<open>No delivery is passed over\<close>

text \<open>
  A delivery is settled: it had expired when it was looked at, or the relay has accepted a
  response that was submitted for its fingerprint.
\<close>

definition settled :: "('a) host_scheme \<Rightarrow> worker_config \<Rightarrow> worker_note list \<Rightarrow> delivery_envelope \<Rightarrow> bool" where
  "settled H cfg ns d \<longleftrightarrow>
     (\<exists>now. Expired_Delivery d now \<in> set ns \<and> check_delivery H cfg now d = Inr None) \<or>
     (\<exists>now envelope fingerprint response. check_delivery H cfg now d = Inr (Some (envelope, fingerprint)) \<and>
        Submitted fingerprint response \<in> set ns \<and> Accepted fingerprint \<in> set ns)"

lemma settled_accepted:
  "check_delivery H cfg now d = Inr (Some (envelope, k)) \<Longrightarrow> Submitted k r \<in> set ns \<Longrightarrow> Accepted k \<in> set ns \<Longrightarrow>
    settled H cfg ns d"
  unfolding settled_def by blast

lemma settled_expired: "check_delivery H cfg now d = Inr None \<Longrightarrow> Expired_Delivery d now \<in> set ns \<Longrightarrow> settled H cfg ns d"
  unfolding settled_def by blast

lemma settled_mono: "settled H cfg ns d \<Longrightarrow> set ns \<subseteq> set ns' \<Longrightarrow> settled H cfg ns' d"
  unfolding settled_def by blast

definition answered_in :: "worker_note list \<Rightarrow> relay_state \<Rightarrow> bool" where
  "answered_in ns s \<longleftrightarrow> (\<forall>k c. (k, c) \<in> set (rs_responses s) \<longrightarrow> cr_delivered c \<longrightarrow>
     (\<exists>r. Submitted k r \<in> set ns) \<and> Accepted k \<in> set ns) \<and>
     (\<forall>c. rs_cursor s = Some c \<longrightarrow> (\<exists>page. Advanced page \<in> set ns \<and> pg_nextCursor page = Some c))"

definition before_ok ::
    "('a) host_scheme \<Rightarrow> worker_config \<Rightarrow> worker_note list \<Rightarrow> relay_page \<Rightarrow> delivery_envelope list \<Rightarrow> bool" where
  "before_ok H cfg ns page todo \<longleftrightarrow> (\<exists>finished. pg_deliveries page = finished @ todo \<and> list_all (settled H cfg ns) finished)"

definition within_ok ::
    "('a) host_scheme \<Rightarrow> worker_config \<Rightarrow> worker_note list \<Rightarrow> relay_page \<Rightarrow> string \<Rightarrow> delivery_envelope list \<Rightarrow> bool" where
  "within_ok H cfg ns page fingerprint rest \<longleftrightarrow>
     (\<exists>d now envelope. before_ok H cfg ns page (d # rest) \<and> check_delivery H cfg now d = Inr (Some (envelope, fingerprint)))"

fun point_ok :: "('a) host_scheme \<Rightarrow> worker_config \<Rightarrow> worker_note list \<Rightarrow> drain_point \<Rightarrow> bool" where
  "point_ok H cfg ns (Acting page c envelope fingerprint rest) = within_ok H cfg ns page fingerprint rest"
| "point_ok H cfg ns (Saving_Response page c fingerprint rest) = within_ok H cfg ns page fingerprint rest"
| "point_ok H cfg ns (Submitting page c fingerprint rest) =
    (within_ok H cfg ns page fingerprint rest \<and> (\<exists>r. Submitted fingerprint r \<in> set ns))"
| "point_ok H cfg ns (Saving_Delivered page c rest) = before_ok H cfg ns page rest"
| "point_ok H cfg ns p = True"

definition pages_ok :: "('a) host_scheme \<Rightarrow> worker_config \<Rightarrow> worker_note list \<Rightarrow> bool" where
  "pages_ok H cfg ns \<longleftrightarrow> (\<forall>page. Advanced page \<in> set ns \<longrightarrow> list_all (settled H cfg ns) (pg_deliveries page))"

definition base_ok :: "('a) host_scheme \<Rightarrow> worker_config \<Rightarrow> relay_worker \<Rightarrow> bool" where
  "base_ok H cfg w \<longleftrightarrow> answered_in (vw_log w) (vw_state w) \<and> (\<forall>s. vw_file w = Some s \<longrightarrow> answered_in (vw_log w) s) \<and>
     pages_ok H cfg (vw_log w)"

definition worker_ok :: "('a) host_scheme \<Rightarrow> worker_config \<Rightarrow> relay_worker \<Rightarrow> bool" where
  "worker_ok H cfg w \<longleftrightarrow> base_ok H cfg w \<and> point_ok H cfg (vw_log w) (vw_drain w)"

text \<open>The part of the state that the invariant reads.\<close>

definition core where
  "core w = (vw_state w, vw_file w, vw_log w)"

lemma base_ok_core: "core w' = core w \<Longrightarrow> base_ok H cfg w \<Longrightarrow> base_ok H cfg w'"
  by (simp add: base_ok_def core_def)

lemma worker_ok_core:
  "core w' = core w \<Longrightarrow> point_ok H cfg (vw_log w) (vw_drain w') \<Longrightarrow> base_ok H cfg w \<Longrightarrow> worker_ok H cfg w'"
  by (simp add: worker_ok_def base_ok_def core_def)

lemma worker_ok_silent: "core w' = core w \<Longrightarrow> vw_drain w' = vw_drain w \<Longrightarrow> worker_ok H cfg w \<Longrightarrow> worker_ok H cfg w'"
  by (simp add: worker_ok_def base_ok_def core_def)

lemma core_updates [simp]:
  "core (w\<lparr>vw_loop := l\<rparr>) = core w" "core (w\<lparr>vw_reconnectMs := t\<rparr>) = core w"
  "core (w\<lparr>vw_status := st\<rparr>) = core w" "core (w\<lparr>vw_timer := b\<rparr>) = core w" "core (w\<lparr>vw_queue := q\<rparr>) = core w"
  "core (w\<lparr>vw_aborted := b\<rparr>) = core w" "core (w\<lparr>vw_drain := d\<rparr>) = core w" "core (w\<lparr>vw_origin := a\<rparr>) = core w"
  by (simp_all add: core_def)

lemma core_simps [simp]:
  "core (enterFatal e w) = core w" "core (recordPollError e w) = core w" "core (loop_head w) = core w"
  "core (loop_retry w) = core w" "core (loop_catch e w) = core w" "core (connected cfg b w) = core w"
  "core (socket_ended err w) = core w" "core (delay_over cfg w) = core w" "core (drain_done w) = core w"
  "core (drain_fails e w) = core w" "core (start_drain w) = core w"
  by (simp_all add: core_def enterFatal_def recordPollError_def loop_head_def loop_retry_def loop_catch_def connected_def
      socket_ended_def delay_over_def drain_done_def drain_fails_def start_drain_def Let_def split: option.splits)

lemma drain_of_loop [simp]:
  "vw_drain (enterFatal e w) = vw_drain w" "vw_drain (recordPollError e w) = vw_drain w" "vw_drain (loop_head w) = vw_drain w"
  "vw_drain (loop_retry w) = vw_drain w" "vw_drain (loop_catch e w) = vw_drain w" "vw_drain (connected cfg b w) = vw_drain w"
  "vw_drain (socket_ended err w) = vw_drain w" "vw_drain (delay_over cfg w) = vw_drain w"
  by (simp_all add: enterFatal_def recordPollError_def loop_head_def loop_retry_def loop_catch_def connected_def
      socket_ended_def delay_over_def Let_def split: option.splits)

lemma drain_after [simp]:
  "vw_drain (drain_done w) = No_Drain" "vw_drain (drain_fails e w) = No_Drain"
  by (simp_all add: drain_done_def drain_fails_def Let_def)

lemma drain_start: "vw_drain (start_drain w) = No_Drain \<or> (\<exists>c. vw_drain (start_drain w) = Polling c)"
  by (simp add: start_drain_def)

lemma answered_mono: "answered_in ns s \<Longrightarrow> set ns \<subseteq> set ns' \<Longrightarrow> answered_in ns' s"
  unfolding answered_in_def by (meson subsetD)

lemma before_mono: "before_ok H cfg ns page todo \<Longrightarrow> set ns \<subseteq> set ns' \<Longrightarrow> before_ok H cfg ns' page todo"
  unfolding before_ok_def by (metis list.pred_mono_strong settled_mono)

lemma within_mono: "within_ok H cfg ns page k rest \<Longrightarrow> set ns \<subseteq> set ns' \<Longrightarrow> within_ok H cfg ns' page k rest"
  unfolding within_ok_def by (metis before_mono)

lemma within_settled:
  assumes "within_ok H cfg ns page k rest" "Submitted k r \<in> set ns" "Accepted k \<in> set ns"
  shows "before_ok H cfg ns page rest"
proof -
  from assms(1) obtain d now envelope finished where
    "pg_deliveries page = finished @ d # rest" "list_all (settled H cfg ns) finished"
    "check_delivery H cfg now d = Inr (Some (envelope, k))"
    by (auto simp: within_ok_def before_ok_def)
  with assms(2,3) show ?thesis
    unfolding before_ok_def by (intro exI [of _ "finished @ [d]"]) (simp add: settled_accepted)
qed

lemma pages_note: "pages_ok H cfg ns \<Longrightarrow> (\<And>page. n \<noteq> Advanced page) \<Longrightarrow> pages_ok H cfg (ns @ [n])"
  unfolding pages_ok_def list_all_iff by (auto intro: settled_mono [of H cfg ns])

lemma note_event_sel [simp]:
  "vw_log (note_event n w) = vw_log w @ [n]" "vw_drain (note_event n w) = vw_drain w"
  "vw_state (note_event n w) = vw_state w" "vw_file (note_event n w) = vw_file w"
  by (simp_all add: note_event_def)


lemma base_ok_note: "base_ok H cfg w \<Longrightarrow> (\<And>page. n \<noteq> Advanced page) \<Longrightarrow> base_ok H cfg (note_event n w)"
  unfolding base_ok_def by (auto simp: pages_note intro: answered_mono [of "vw_log w"])

lemma worker_ok_fails: "base_ok H cfg w \<Longrightarrow> worker_ok H cfg (drain_fails e w)" and
  worker_ok_done: "base_ok H cfg w \<Longrightarrow> worker_ok H cfg (drain_done w)" and
  worker_ok_start: "base_ok H cfg w \<Longrightarrow> worker_ok H cfg (start_drain w)"
  using drain_start [of w] by (auto intro!: worker_ok_core [of _ w])

lemma worker_ok_page_end:
  assumes "base_ok H cfg w" "before_ok H cfg (vw_log w) page []"
  shows "worker_ok H cfg (page_end page cursor w)"
proof -
  have s: "list_all (settled H cfg (vw_log w)) (pg_deliveries page)"
    using assms(2) by (auto simp: before_ok_def)
  let ?ns = "vw_log w @ [Advanced page]"
  have p: "pages_ok H cfg ?ns"
    using assms(1) s unfolding pages_ok_def base_ok_def list_all_iff by (auto intro: settled_mono [of H cfg "vw_log w"])
  have a: "answered_in ?ns t" if "answered_in (vw_log w) t" for t
    using that by (rule answered_mono) auto
  have c: "answered_in ?ns ((vw_state w)\<lparr>rs_cursor := Some c, rs_responses := filter (\<lambda>(k, r). \<not> cr_delivered r) (rs_responses (vw_state w))\<rparr>)"
    if "pg_nextCursor page = Some c" for c
    using that by (auto simp: answered_in_def)
  have b: "answered_in (vw_log w) (vw_state w)" "vw_file w = Some s \<Longrightarrow> answered_in (vw_log w) s" for s
    using assms(1) by (simp_all add: base_ok_def)
  have advanced: "worker_ok H cfg (note_event (Advanced page) (w\<lparr>vw_state := (vw_state w)\<lparr>rs_cursor := Some c,
      rs_responses := filter (\<lambda>(k, r). \<not> cr_delivered r) (rs_responses (vw_state w))\<rparr>, vw_drain := Saving_Page\<rparr>))"
    if "pg_nextCursor page = Some c" for c
    using p c [OF that] a [OF b(2)] by (simp add: worker_ok_def base_ok_def)
  show ?thesis
    unfolding page_end_def using assms(1) by (auto simp: worker_ok_fails worker_ok_done advanced split: option.split)
qed

lemma worker_ok_continue:
  "base_ok H cfg w \<Longrightarrow> before_ok H cfg (vw_log w) page todo \<Longrightarrow> worker_ok H cfg (continue_page H cfg clock page cursor todo w)"
proof (induction todo arbitrary: w)
  case Nil
  then show ?case by (simp add: worker_ok_page_end)
next
  case (Cons d rest)
  let ?now = "clock (length rest)"
  have next_ok: "before_ok H cfg ns page rest" if "settled H cfg ns d" "set (vw_log w) \<subseteq> set ns" for ns
  proof -
    from before_mono [OF Cons.prems(2) that(2)] obtain finished
      where "pg_deliveries page = finished @ d # rest" "list_all (settled H cfg ns) finished" by (auto simp: before_ok_def)
    with that(1) show ?thesis unfolding before_ok_def by (intro exI [of _ "finished @ [d]"]) simp
  qed
  consider (error) e where "check_delivery H cfg ?now d = Inl e" | (expired) "check_delivery H cfg ?now d = Inr None"
    | (live) envelope k where "check_delivery H cfg ?now d = Inr (Some (envelope, k))"
    by (cases "check_delivery H cfg ?now d") (auto simp: not_None_eq elim: option.exhaust)
  then show ?case
  proof cases
    case error
    with Cons.prems(1) show ?thesis by (simp add: worker_ok_fails)
  next
    case expired
    let ?w = "note_event (Expired_Delivery d ?now) w"
    have "base_ok H cfg ?w" using Cons.prems(1) by (simp add: base_ok_note)
    moreover have "before_ok H cfg (vw_log ?w) page rest"
      by (rule next_ok) (auto intro: settled_expired [OF expired])
    ultimately have "worker_ok H cfg (continue_page H cfg clock page cursor rest ?w)" by (rule Cons.IH)
    with expired show ?thesis by simp
  next
    case live
    have within: "within_ok H cfg (vw_log w) page k rest" using Cons.prems(2) live by (auto simp: within_ok_def)
    have note_within: "within_ok H cfg (vw_log w @ [n]) page k rest" for n by (rule within_mono [OF within]) auto
    show ?thesis
    proof (cases "map_get (rs_responses (vw_state w)) k")
      case None
      have "base_ok H cfg (note_event (Processed k) (w\<lparr>vw_drain := Acting page cursor envelope k rest\<rparr>))"
        using Cons.prems(1) by (intro base_ok_note) (simp_all add: base_ok_def)
      with live None note_within show ?thesis by (simp add: worker_ok_def)
    next
      case (Some c)
      show ?thesis
      proof (cases "cr_delivered c")
        case True
        then obtain r where "Submitted k r \<in> set (vw_log w)" "Accepted k \<in> set (vw_log w)"
          using Cons.prems(1) map_of_SomeD [OF Some] unfolding base_ok_def answered_in_def by blast
        then have "settled H cfg (vw_log w) d" using settled_accepted [OF live] by blast
        then have "worker_ok H cfg (continue_page H cfg clock page cursor rest w)"
          using Cons.IH [OF Cons.prems(1)] next_ok by blast
        with live Some True show ?thesis by simp
      next
        case False
        have "base_ok H cfg (note_event (Submitted k (cr_envelope c)) (w\<lparr>vw_drain := Submitting page cursor k rest\<rparr>))"
          using Cons.prems(1) by (intro base_ok_note) (simp_all add: base_ok_def)
        with live Some False note_within show ?thesis by (auto simp: worker_ok_def)
      qed
    qed
  qed
qed

lemma answered_put:
  assumes "answered_in ns s" "cr_delivered c \<Longrightarrow> (\<exists>r. Submitted k r \<in> set ns) \<and> Accepted k \<in> set ns"
  shows "answered_in ns (s\<lparr>rs_responses := map_set k c (rs_responses s)\<rparr>)"
proof -
  have "set (map_set k c m) \<subseteq> insert (k, c) (set m)" for m :: "(string, cached_response) jsmap"
    by (induction m) auto
  with assms show ?thesis unfolding answered_in_def by fastforce
qed

lemma worker_ok_answered:
  assumes "worker_ok H cfg w"
  shows "worker_ok H cfg (action_answered H cfg clock result w)"
proof (cases "vw_drain w")
  case (Acting page cursor envelope k rest)
  show ?thesis
  proof (cases "and_then result (check_response H cfg (clock 0) envelope)")
    case (Inl e)
    then show ?thesis using assms Acting by (simp add: action_answered_def worker_ok_def [of H cfg w] worker_ok_fails)
  next
    case (Inr response)
    let ?c = "\<lparr>cr_envelope = response, cr_delivered = False\<rparr>"
    from assms have "answered_in (vw_log w) ((vw_state w)\<lparr>rs_responses := map_set k ?c (rs_responses (vw_state w))\<rparr>)"
      by (intro answered_put) (simp_all add: worker_ok_def base_ok_def)
    with assms Acting have "worker_ok H cfg (put_response k ?c (w\<lparr>vw_drain := Saving_Response page cursor k rest\<rparr>))"
      by (simp add: put_response_def worker_ok_def base_ok_def)
    moreover have "action_answered H cfg clock result w = put_response k ?c (w\<lparr>vw_drain := Saving_Response page cursor k rest\<rparr>)"
      unfolding action_answered_def Acting drain_point.case Inr sum.case ..
    ultimately show ?thesis by simp
  qed
qed (simp_all add: action_answered_def assms)

lemma worker_ok_submitted:
  assumes "worker_ok H cfg w"
  shows "worker_ok H cfg (submit_answered result w)"
proof (cases "vw_drain w")
  case (Submitting page cursor k rest)
  have fails: "worker_ok H cfg (drain_fails e w)" for e
    using assms by (simp add: worker_ok_def [of H cfg w] worker_ok_fails)
  from assms Submitting obtain r where within: "within_ok H cfg (vw_log w) page k rest" and r: "Submitted k r \<in> set (vw_log w)"
    by (auto simp: worker_ok_def)
  let ?ns = "vw_log w @ [Accepted k]"
  have before: "before_ok H cfg ?ns page rest"
    by (rule within_settled [OF within_mono [OF within]]) (use r in auto)
  have "worker_ok H cfg (note_event (Accepted k) (put_response k (c\<lparr>cr_delivered := True\<rparr>)
      (w\<lparr>vw_drain := Saving_Delivered page cursor rest\<rparr>)))" for c
  proof -
    have base: "base_ok H cfg (note_event (Accepted k) w)" using assms by (simp add: worker_ok_def base_ok_note)
    have "answered_in ?ns ((vw_state w)\<lparr>rs_responses := map_set k (c\<lparr>cr_delivered := True\<rparr>) (rs_responses (vw_state w))\<rparr>)"
      by (rule answered_put) (use base r in \<open>auto simp: base_ok_def\<close>)
    with base before show ?thesis by (simp add: worker_ok_def base_ok_def put_response_def)
  qed
  with Submitting assms fails show ?thesis
    by (simp add: submit_answered_def split: sum.splits option.splits)
qed (simp_all add: submit_answered_def assms)

lemma base_ok_saved: "base_ok H cfg w \<Longrightarrow> base_ok H cfg (w\<lparr>vw_file := Some (vw_state w)\<rparr>)"
  by (simp add: base_ok_def)

lemma worker_ok_saved:
  assumes "worker_ok H cfg w"
  shows "worker_ok H cfg (saved H cfg clock ok w)"
proof -
  let ?w = "w\<lparr>vw_file := Some (vw_state w)\<rparr>"
  have base: "base_ok H cfg w" "base_ok H cfg ?w" using assms by (simp_all add: worker_ok_def base_ok_saved)
  show ?thesis
  proof (cases "vw_drain w")
    case (Saving_Response page cursor k rest)
    have within: "within_ok H cfg (vw_log w @ [n]) page k rest" for n
      by (rule within_mono [where ns = "vw_log w"]) (use assms Saving_Response in \<open>auto simp: worker_ok_def\<close>)
    have "base_ok H cfg (note_event (Submitted k r) (?w\<lparr>vw_drain := Submitting page cursor k rest\<rparr>))" for r
      using base(2) by (intro base_ok_note) (simp_all add: base_ok_def)
    with within have "worker_ok H cfg (note_event (Submitted k r) (?w\<lparr>vw_drain := Submitting page cursor k rest\<rparr>))" for r
      by (auto simp: worker_ok_def)
    moreover have "worker_ok H cfg ?w" using assms base(2) by (simp add: worker_ok_def)
    ultimately show ?thesis
      using Saving_Response base by (simp add: saved_def Let_def worker_ok_fails split: option.splits)
  next
    case (Saving_Delivered page cursor rest)
    have "before_ok H cfg (vw_log ?w) page rest" using assms Saving_Delivered by (simp add: worker_ok_def)
    with Saving_Delivered base show ?thesis by (simp add: saved_def Let_def worker_ok_fails worker_ok_continue)
  next
    case Saving_Page
    with base show ?thesis by (simp add: saved_def Let_def worker_ok_fails worker_ok_start)
  qed (simp_all add: saved_def Let_def assms)
qed

lemma answered_new: "answered_in ns (newState cfg)"
  by (simp add: answered_in_def newState_def)

lemma answered_loaded:
  assumes "\<And>s. file = Some s \<Longrightarrow> answered_in ns s" "loadState H cfg file = Inr s"
  shows "answered_in ns s"
  using assms by (auto simp: loaded answered_new split: option.splits)

lemma worker_ok_restart:
  assumes "base_ok H cfg w"
  shows "worker_ok H cfg (startWorker H cfg (vw_file w) (vw_log w))"
  using assms answered_loaded [of "vw_file w" "vw_log w" H cfg]
  by (auto simp: startWorker_def worker_ok_def base_ok_def freshWorker_def answered_new split: sum.splits)

lemma worker_ok_step: "worker_ok H cfg w \<Longrightarrow> worker_ok H cfg (worker_step H cfg w e)"
proof (induction H cfg w e rule: worker_step.induct)
  case (4 H cfg w clock result)
  then have base: "base_ok H cfg w" by (simp add: worker_ok_def)
  have "before_ok H cfg ns page (pg_deliveries page)" for ns page by (simp add: before_ok_def)
  with base have "worker_ok H cfg (continue_page H cfg clock page cursor (pg_deliveries page) w)" for page cursor
    by (simp add: worker_ok_continue)
  with 4 base show ?case by (simp add: worker_ok_fails split: drain_point.splits sum.splits)
next
  case (3 H cfg w clock)
  then have "base_ok H cfg (w\<lparr>vw_origin := origin, vw_queue := rest\<rparr>)" for origin rest
    by (simp add: worker_ok_def base_ok_def)
  with 3 show ?case by (simp add: worker_ok_start split: drain_point.splits list.splits)
next
  case 5 then show ?case by (simp add: worker_ok_answered)
next
  case 6 then show ?case by (simp add: worker_ok_saved)
next
  case 7 then show ?case by (simp add: worker_ok_submitted)
next
  case (13 H cfg w clock)
  then have "base_ok H cfg w" by (simp add: worker_ok_def)
  then show ?case by (simp add: worker_ok_restart)
qed (auto intro: worker_ok_silent split: sum.splits)

lemma worker_ok_run: "worker_ok H cfg (run_worker H cfg (newWorker cfg) events)"
proof -
  have "list_all (\<lambda>_. True) events" by (simp add: list_all_iff)
  then show ?thesis
  proof (induction rule: run_worker_invariant)
    case start
    show ?case by (simp add: worker_ok_def base_ok_def newWorker_def freshWorker_def answered_new pages_ok_def)
  next
    case (step w e)
    then show ?case by (simp add: worker_ok_step)
  qed
qed

text \<open>
  What the notes of the log stand for, in terms of the events of the run alone: the relay
  answered a submission for this fingerprint with \<open>accepted: true\<close>, the page was received from
  the relay, and the delivery's \<open>expiresAt\<close> lies at or before a clock reading of the run.
\<close>

definition accepted_in ::
    "('a) host_scheme \<Rightarrow> worker_config \<Rightarrow> ((nat \<Rightarrow> int) \<times> worker_event) list \<Rightarrow> string \<Rightarrow> bool" where
  "accepted_in H cfg events k \<longleftrightarrow> (\<exists>before clock answer after page cursor rest cached.
     events = before @ (clock, W_Submitted (Inr answer)) # after \<and> js_get answer ''accepted'' = Bool True \<and>
     vw_drain (run_worker H cfg (newWorker cfg) before) = Submitting page cursor k rest \<and>
     map_get (rs_responses (vw_state (run_worker H cfg (newWorker cfg) before))) k = Some cached)"

definition received :: "((nat \<Rightarrow> int) \<times> worker_event) list \<Rightarrow> relay_page \<Rightarrow> bool" where
  "received events page \<longleftrightarrow> (\<exists>clock. (clock, W_Page (Inr page)) \<in> set events)"

definition expired_during :: "('a) host_scheme \<Rightarrow> ((nat \<Rightarrow> int) \<times> worker_event) list \<Rightarrow> delivery_envelope \<Rightarrow> bool" where
  "expired_during H events d \<longleftrightarrow> (\<exists>clock e i expires t. (clock, e) \<in> set events \<and> de_expiresAt d = Some expires \<and>
     date_parse (legacy_date H) expires = Some t \<and> t \<le> clock i)"

definition delivery_settled ::
    "('a) host_scheme \<Rightarrow> worker_config \<Rightarrow> ((nat \<Rightarrow> int) \<times> worker_event) list \<Rightarrow> delivery_envelope \<Rightarrow> bool" where
  "delivery_settled H cfg events d \<longleftrightarrow> vc_verifierDid cfg \<in> set (de_recipients d) \<and>
     (expired_during H events d \<or>
      (\<exists>envelope k. parseActionRequestEnvelope H (envelope_json d) = Inr envelope \<and>
        computeIdempotencyFingerprint H (envelope_json envelope) = Inr k \<and> accepted_in H cfg events k))"

fun drain_page :: "drain_point \<Rightarrow> relay_page option" where
  "drain_page (Acting page c e k rest) = Some page"
| "drain_page (Saving_Response page c k rest) = Some page"
| "drain_page (Submitting page c k rest) = Some page"
| "drain_page (Saving_Delivered page c rest) = Some page"
| "drain_page p = None"

lemma core_log: "core w' = core w \<Longrightarrow> vw_log w' = vw_log w"
  by (simp add: core_def)

lemma drain_page_start [simp]: "drain_page (vw_drain (start_drain w)) = None"
  using drain_start [of w] by auto

lemma log_loop [simp]:
  "vw_log (loop_head w) = vw_log w" "vw_log (loop_catch e w) = vw_log w" "vw_log (connected cfg b w) = vw_log w"
  "vw_log (socket_ended err w) = vw_log w" "vw_log (delay_over cfg w) = vw_log w" "vw_log (drain_done w) = vw_log w"
  "vw_log (drain_fails e w) = vw_log w" "vw_log (start_drain w) = vw_log w" "vw_log (put_response k c w) = vw_log w"
  by ((rule core_log, simp)+, simp add: put_response_def)

lemma start_log [simp]: "vw_log (startWorker H cfg file ns) = ns" "drain_page (vw_drain (startWorker H cfg file ns)) = None"
  by (simp_all add: startWorker_def freshWorker_def split: sum.splits)

lemma put_drain [simp]: "vw_drain (put_response k c w) = vw_drain w"
  by (simp add: put_response_def)

text \<open>The notes a page adds, and the page it stays at.\<close>

fun page_note :: "('a) host_scheme \<Rightarrow> worker_config \<Rightarrow> (nat \<Rightarrow> int) \<Rightarrow> relay_page \<Rightarrow> worker_note \<Rightarrow> bool" where
  "page_note H cfg clock page (Accepted k) = False"
| "page_note H cfg clock page (Expired_Delivery d now) = ((\<exists>i. now = clock i) \<and> check_delivery H cfg now d = Inr None)"
| "page_note H cfg clock page (Advanced p) = (p = page)"
| "page_note H cfg clock page n = True"

lemma page_end_notes:
  "n \<in> set (vw_log (page_end page cursor w)) \<Longrightarrow> n \<in> set (vw_log w) \<or> page_note H cfg clock page n"
  "drain_page (vw_drain (page_end page cursor w)) = None"
  by (auto simp: page_end_def split: option.splits if_splits)

lemma continue_page_notes:
  "(n \<in> set (vw_log (continue_page H cfg clock page cursor todo w)) \<longrightarrow> n \<in> set (vw_log w) \<or> page_note H cfg clock page n) \<and>
     drain_page (vw_drain (continue_page H cfg clock page cursor todo w)) \<in> {None, Some page}"
proof (induction todo arbitrary: w)
  case Nil
  show ?case using page_end_notes(1) [of n page cursor w H cfg clock] page_end_notes(2) by simp
next
  case (Cons d rest)
  show ?case
    using Cons.IH [of "note_event (Expired_Delivery d (clock (length rest))) w"] Cons.IH [of w]
    by (auto split: sum.splits option.splits)
qed

fun step_note :: "('a) host_scheme \<Rightarrow> worker_config \<Rightarrow> relay_worker \<Rightarrow> (nat \<Rightarrow> int) \<times> worker_event \<Rightarrow> worker_note \<Rightarrow> bool" where
  "step_note H cfg w (clock, e) (Accepted k) = (\<exists>answer page cursor rest cached. e = W_Submitted (Inr answer) \<and>
     js_get answer ''accepted'' = Bool True \<and> vw_drain w = Submitting page cursor k rest \<and>
     map_get (rs_responses (vw_state w)) k = Some cached)"
| "step_note H cfg w (clock, e) (Expired_Delivery d now) = ((\<exists>i. now = clock i) \<and> check_delivery H cfg now d = Inr None)"
| "step_note H cfg w (clock, e) (Advanced page) = (drain_page (vw_drain w) = Some page \<or> e = W_Page (Inr page))"
| "step_note H cfg w (clock, e) n = True"

lemma step_page_note:
  "page_note H cfg clock page n \<Longrightarrow> drain_page (vw_drain w) = Some page \<or> e = W_Page (Inr page) \<Longrightarrow> step_note H cfg w (clock, e) n"
  by (cases n) auto

definition step_noted ::
    "('a) host_scheme \<Rightarrow> worker_config \<Rightarrow> relay_worker \<Rightarrow> (nat \<Rightarrow> int) \<times> worker_event \<Rightarrow> relay_worker \<Rightarrow> bool" where
  "step_noted H cfg w e w' \<longleftrightarrow> (\<forall>n \<in> set (vw_log w'). n \<in> set (vw_log w) \<or> step_note H cfg w e n) \<and>
     (\<forall>page. drain_page (vw_drain w') = Some page \<longrightarrow> drain_page (vw_drain w) = Some page \<or> snd e = W_Page (Inr page))"

lemma step_noted_silent:
  "vw_log w' = vw_log w \<Longrightarrow> drain_page (vw_drain w') \<in> {None, drain_page (vw_drain w)} \<Longrightarrow> step_noted H cfg w e w'"
  by (auto simp: step_noted_def)

lemma step_noted_continue:
  assumes "drain_page (vw_drain w) = Some page \<or> e = W_Page (Inr page)" "vw_log v = vw_log w"
  shows "step_noted H cfg w (clock, e) (continue_page H cfg clock page cursor todo v)"
  using continue_page_notes [of _ H cfg clock page cursor todo v] assms
  by (fastforce simp: step_noted_def intro: step_page_note)

lemma step_noted_saved: "step_noted H cfg w (clock, W_Saved ok) (saved H cfg clock ok w)"
proof (cases "vw_drain w")
  case (Saving_Response page cursor k rest)
  then show ?thesis by (auto simp: saved_def step_noted_def Let_def split: option.splits)
next
  case (Saving_Delivered page cursor rest)
  have "step_noted H cfg w (clock, W_Saved ok) (continue_page H cfg clock page cursor rest (w\<lparr>vw_file := Some (vw_state w)\<rparr>))"
    by (rule step_noted_continue) (simp_all add: Saving_Delivered)
  then show ?thesis by (auto simp: Saving_Delivered saved_def Let_def intro: step_noted_silent)
qed (auto simp: saved_def Let_def intro!: step_noted_silent)

lemma step_noted_step: "step_noted H cfg w e (worker_step H cfg w e)"
proof (induction H cfg w e rule: worker_step.induct)
  case (4 H cfg w clock result)
  then show ?case by (auto intro!: step_noted_silent step_noted_continue split: drain_point.split sum.split)
next
  case (5 H cfg w clock result)
  then show ?case by (auto simp: action_answered_def intro!: step_noted_silent simp del: and_then_Inr_iff split: drain_point.split sum.split)
next
  case (6 H cfg w clock ok)
  then show ?case by (simp add: step_noted_saved)
next
  case (7 H cfg w clock result)
  then show ?case
    by (auto simp: submit_answered_def step_noted_def split: drain_point.splits sum.splits option.splits if_splits)
qed (auto intro!: step_noted_silent split: drain_point.split sum.split list.split)

fun run_note :: "('a) host_scheme \<Rightarrow> worker_config \<Rightarrow> ((nat \<Rightarrow> int) \<times> worker_event) list \<Rightarrow> worker_note \<Rightarrow> bool" where
  "run_note H cfg events (Accepted k) = accepted_in H cfg events k"
| "run_note H cfg events (Expired_Delivery d now) = ((\<exists>clock e i. (clock, e) \<in> set events \<and> now = clock i) \<and>
     check_delivery H cfg now d = Inr None)"
| "run_note H cfg events (Advanced page) = received events page"
| "run_note H cfg events n = True"

lemma accepted_in_more: "accepted_in H cfg events k \<Longrightarrow> accepted_in H cfg (events @ [e]) k"
  unfolding accepted_in_def by (metis append.assoc append_Cons)

lemma run_note_more: "run_note H cfg events n \<Longrightarrow> run_note H cfg (events @ [e]) n"
  by (cases n) (auto simp: received_def intro: accepted_in_more)

lemma run_notes:
  "(\<forall>n \<in> set (vw_log (run_worker H cfg (newWorker cfg) events)). run_note H cfg events n) \<and>
     (\<forall>page. drain_page (vw_drain (run_worker H cfg (newWorker cfg) events)) = Some page \<longrightarrow> received events page)"
proof (induction events rule: rev_induct)
  case Nil
  show ?case by (simp add: newWorker_def freshWorker_def)
next
  case (snoc e events)
  let ?w = "run_worker H cfg (newWorker cfg) events"
  note step = step_noted_step [of H cfg ?w e, unfolded step_noted_def]
  have page: "received (events @ [e]) page" if "drain_page (vw_drain ?w) = Some page \<or> snd e = W_Page (Inr page)" for page
    using that snoc by (cases e) (auto simp: received_def)
  have "run_note H cfg (events @ [e]) n" if "step_note H cfg ?w e n" for n
  proof (cases n)
    case (Accepted k)
    with that obtain clock answer page cursor rest cached where "e = (clock, W_Submitted (Inr answer))"
      "js_get answer ''accepted'' = Bool True" "vw_drain ?w = Submitting page cursor k rest"
      "map_get (rs_responses (vw_state ?w)) k = Some cached" by (cases e) auto
    then have "accepted_in H cfg (events @ [e]) k" unfolding accepted_in_def by blast
    with Accepted show ?thesis by simp
  next
    case (Expired_Delivery d now)
    with that show ?thesis by (cases e) auto
  next
    case (Advanced p)
    with that page show ?thesis by (cases e) auto
  qed simp_all
  with step page snoc.IH run_note_more show ?case
    unfolding run_worker_snoc by (meson append_is_Nil_conv)
qed

text \<open>The parsed request differs from the delivery in its payload only.\<close>

lemma parsed_request:
  assumes "parseActionRequestEnvelope H (envelope_json d) = Inr e"
  shows "de_recipients e = de_recipients d \<and> de_expiresAt e = de_expiresAt d"
  using assms by (auto simp: parseActionRequestEnvelope_def dest!: parsed_envelope_same)

lemma check_delivery_live:
  assumes "check_delivery H cfg now d = Inr (Some (envelope, k))"
  shows "vc_verifierDid cfg \<in> set (de_recipients d) \<and> parseActionRequestEnvelope H (envelope_json d) = Inr envelope \<and>
    computeIdempotencyFingerprint H (envelope_json envelope) = Inr k"
proof -
  from assms have e: "parseActionRequestEnvelope H (envelope_json d) = Inr envelope" "vc_verifierDid cfg \<in> set (de_recipients envelope)"
      "computeIdempotencyFingerprint H (envelope_json envelope) = Inr k"
    by (auto simp: check_delivery_def split: if_splits sum.splits)
  with parsed_request [OF e(1)] show ?thesis by simp
qed

lemma check_delivery_expired:
  assumes "check_delivery H cfg now d = Inr None"
  shows "vc_verifierDid cfg \<in> set (de_recipients d) \<and>
    (\<exists>expires t. de_expiresAt d = Some expires \<and> date_parse (legacy_date H) expires = Some t \<and> t \<le> now)"
proof -
  from assms obtain e where e: "parseActionRequestEnvelope H (envelope_json d) = Inr e" "vc_verifierDid cfg \<in> set (de_recipients e)"
      "isDeliveryEnvelopeExpired H e now"
    by (auto simp: check_delivery_def split: if_splits sum.splits)
  with parsed_request [OF e(1)] show ?thesis
    by (auto simp: isDeliveryEnvelopeExpired_def parsed_le_def split: option.splits)
qed

lemma settled_delivery:
  assumes "settled H cfg (vw_log (run_worker H cfg (newWorker cfg) events)) d"
  shows "delivery_settled H cfg events d"
proof -
  let ?ns = "vw_log (run_worker H cfg (newWorker cfg) events)"
  have meant: "n \<in> set ?ns \<Longrightarrow> run_note H cfg events n" for n using run_notes by blast
  from assms consider (expired) now where "Expired_Delivery d now \<in> set ?ns" "check_delivery H cfg now d = Inr None"
    | (accepted) now envelope k where "check_delivery H cfg now d = Inr (Some (envelope, k))" "Accepted k \<in> set ?ns"
    unfolding settled_def by blast
  then show ?thesis
  proof cases
    case expired
    from meant [OF expired(1)] obtain clock e i where "(clock, e) \<in> set events" "now = clock i" by auto
    with check_delivery_expired [OF expired(2)] show ?thesis
      unfolding delivery_settled_def expired_during_def by blast
  next
    case accepted
    from meant [OF accepted(2)] check_delivery_live [OF accepted(1)] show ?thesis by (auto simp: delivery_settled_def)
  qed
qed

text \<open>
  C11. No delivery is passed over: in every run of the worker, whatever the relay, the verifier
  and the file system answer and wherever it stops and starts again, each page that the cursor
  has moved past was received from the relay, and each of its deliveries is addressed to the
  verifier and either its \<open>expiresAt\<close> lay at or before a time the clock showed in the run, or
  the relay answered \<open>accepted: true\<close> to a submission of a response for the fingerprint of
  the delivery; and the cursor in memory and the one in the file are the cursors of such pages.
\<close>

theorem no_delivery_passed_over:
  assumes "w = run_worker H cfg (newWorker cfg) events"
  shows "(Advanced page \<in> set (vw_log w) \<longrightarrow>
      received events page \<and> (\<forall>d \<in> set (pg_deliveries page). delivery_settled H cfg events d)) \<and>
    (rs_cursor (vw_state w) = Some c \<or> (\<exists>s. vw_file w = Some s \<and> rs_cursor s = Some c) \<longrightarrow>
      (\<exists>page. Advanced page \<in> set (vw_log w) \<and> pg_nextCursor page = Some c))"
proof -
  have base: "base_ok H cfg w" using worker_ok_run [of H cfg events] by (simp add: assms worker_ok_def)
  have "received events page" if "Advanced page \<in> set (vw_log w)"
    using that run_notes [of H cfg events] unfolding assms by (metis run_note.simps(3))
  moreover have "delivery_settled H cfg events d" if "Advanced page \<in> set (vw_log w)" "d \<in> set (pg_deliveries page)" for d
    using base that settled_delivery [of H cfg events d] by (auto simp: base_ok_def pages_ok_def list_all_iff assms)
  ultimately show ?thesis using base by (auto simp: base_ok_def answered_in_def)
qed

section \<open>A retry sends the same response\<close>

text \<open>The response that was submitted for a fingerprint and has not been accepted yet.\<close>

fun pending_step :: "string \<Rightarrow> delivery_envelope option \<Rightarrow> worker_note \<Rightarrow> delivery_envelope option" where
  "pending_step k p (Submitted j r) = (if j = k then Some r else p)"
| "pending_step k p (Accepted j) = (if j = k then None else p)"
| "pending_step k p _ = p"

definition pending_response :: "worker_note list \<Rightarrow> string \<Rightarrow> delivery_envelope option" where
  "pending_response ns k = foldl (pending_step k) None ns"

lemma pending_snoc [simp]: "pending_response (ns @ [n]) k = pending_step k (pending_response ns k) n"
  by (simp add: pending_response_def)

definition held :: "relay_state \<Rightarrow> string \<Rightarrow> cached_response option" where
  "held s k = map_get (rs_responses s) k"

definition undelivered :: "delivery_envelope \<Rightarrow> cached_response" where
  "undelivered r = \<lparr>cr_envelope = r, cr_delivered = False\<rparr>"

text \<open>Each response in the log is the pending one, where there is one.\<close>

definition resend_ok :: "worker_note list \<Rightarrow> bool" where
  "resend_ok ns \<longleftrightarrow> (\<forall>xs k r ys. ns = xs @ Submitted k r # ys \<longrightarrow> pending_response xs k = None \<or> pending_response xs k = Some r)"

lemma resend_ok_snoc:
  "resend_ok ns \<Longrightarrow> (\<And>k r. n = Submitted k r \<Longrightarrow> pending_response ns k = None \<or> pending_response ns k = Some r) \<Longrightarrow>
    resend_ok (ns @ [n])"
  unfolding resend_ok_def by (metis append_butlast_last_id butlast.simps(2) butlast_append last_ConsL last_appendR last_snoc butlast_snoc list.distinct(1))

lemma resend_same:
  assumes "resend_ok (xs @ Submitted k r # ys)" "Accepted k \<notin> set ys"
  shows "pending_response (xs @ Submitted k r # ys) k = Some r"
  using assms
proof (induction ys rule: rev_induct)
  case Nil
  show ?case by (simp flip: append_Cons append_assoc)
next
  case (snoc n ys)
  have "resend_ok (xs @ Submitted k r # ys)"
    using snoc.prems(1) unfolding resend_ok_def by (metis append.assoc append_Cons)
  with snoc have "pending_response (xs @ Submitted k r # ys) k = Some r" by simp
  moreover have "pending_response ((xs @ Submitted k r # ys) @ [n]) k =
      pending_step k (pending_response (xs @ Submitted k r # ys) k) n" by (rule pending_snoc)
  moreover have "n = Submitted j q \<Longrightarrow> j = k \<Longrightarrow> q = r" for j q
    using snoc.prems(1) calculation(1) unfolding resend_ok_def
    by (metis append.assoc append_Cons option.distinct(1) option.inject)
  ultimately show ?case using snoc.prems(2) by (cases n) auto
qed

text \<open>The fingerprint whose response is being saved for the first time.\<close>

fun saving :: "drain_point \<Rightarrow> string option" where
  "saving (Saving_Response page c k rest) = Some k"
| "saving _ = None"

fun acting :: "drain_point \<Rightarrow> string option" where
  "acting (Acting page c envelope k rest) = Some k"
| "acting _ = None"

fun submitting :: "drain_point \<Rightarrow> string option" where
  "submitting (Submitting page c k rest) = Some k"
| "submitting _ = None"

definition kept_base :: "relay_worker \<Rightarrow> bool" where
  "kept_base w \<longleftrightarrow> map_wf (rs_responses (vw_state w)) \<and> (\<forall>s. vw_file w = Some s \<longrightarrow> map_wf (rs_responses s)) \<and>
     (\<forall>k r. pending_response (vw_log w) k = Some r \<longrightarrow>
        held (vw_state w) k = Some (undelivered r) \<and> (\<exists>s. vw_file w = Some s \<and> held s k = Some (undelivered r))) \<and>
     (\<forall>k c. held (vw_state w) k = Some c \<longrightarrow> \<not> cr_delivered c \<longrightarrow> (\<exists>s. vw_file w = Some s \<and> held s k = Some c)) \<and>
     resend_ok (vw_log w)"

text \<open>A worker without memory: a stopped one whose state was refused.\<close>

definition idle_for_good :: "relay_worker \<Rightarrow> bool" where
  "idle_for_good w \<longleftrightarrow> vw_aborted w \<and> vw_drain w = No_Drain"

definition kept :: "relay_worker \<Rightarrow> bool" where
  "kept w \<longleftrightarrow> map_wf (rs_responses (vw_state w)) \<and> (\<forall>s. vw_file w = Some s \<longrightarrow> map_wf (rs_responses s)) \<and>
     (\<forall>k r. pending_response (vw_log w) k = Some r \<longrightarrow>
        (idle_for_good w \<or> held (vw_state w) k = Some (undelivered r)) \<and>
        (\<exists>s. vw_file w = Some s \<and> held s k = Some (undelivered r))) \<and>
     (\<forall>k c. held (vw_state w) k = Some c \<longrightarrow> \<not> cr_delivered c \<longrightarrow> saving (vw_drain w) \<noteq> Some k \<longrightarrow>
        (\<exists>s. vw_file w = Some s \<and> held s k = Some c)) \<and>
     (\<forall>k. saving (vw_drain w) = Some k \<longrightarrow> pending_response (vw_log w) k = None \<and>
        (\<forall>c. held (vw_state w) k = Some c \<longrightarrow> \<not> cr_delivered c)) \<and>
     (\<forall>k. acting (vw_drain w) = Some k \<longrightarrow> held (vw_state w) k = None) \<and>
     resend_ok (vw_log w)"

lemma kept_base_core: "core w' = core w \<Longrightarrow> kept_base w \<Longrightarrow> kept_base w'"
  by (simp add: kept_base_def core_def)

lemma kept_from_base:
  "kept_base w \<Longrightarrow> core w' = core w \<Longrightarrow> saving (vw_drain w') = None \<Longrightarrow> acting (vw_drain w') = None \<Longrightarrow> kept w'"
  by (simp add: kept_base_def kept_def core_def)

lemma kept_to_base: "kept w \<Longrightarrow> \<not> idle_for_good w \<Longrightarrow> saving (vw_drain w) = None \<Longrightarrow> kept_base w"
  by (simp add: kept_base_def kept_def)

lemma kept_silent:
  "core w' = core w \<Longrightarrow> vw_drain w' = vw_drain w \<Longrightarrow> (vw_aborted w \<Longrightarrow> vw_aborted w') \<Longrightarrow> kept w \<Longrightarrow> kept w'"
  unfolding kept_def core_def idle_for_good_def by auto

lemma kept_fails: "kept_base w \<Longrightarrow> kept (drain_fails e w)" and kept_done: "kept_base w \<Longrightarrow> kept (drain_done w)"
  by (rule kept_from_base; simp)+

lemma kept_start: "kept_base w \<Longrightarrow> kept (start_drain w)"
  using drain_start [of w] by (auto elim!: kept_from_base)

lemma kept_note:
  "kept_base w \<Longrightarrow> (\<And>k r. n \<noteq> Submitted k r) \<Longrightarrow> (\<And>k. n \<noteq> Accepted k) \<Longrightarrow> kept_base (note_event n w)"
  unfolding kept_base_def by (cases n) (auto intro!: resend_ok_snoc)

lemma held_filter:
  "map_wf (rs_responses s) \<Longrightarrow>
    held (s\<lparr>rs_cursor := c, rs_responses := filter (\<lambda>(k, r). \<not> cr_delivered r) (rs_responses s)\<rparr>) k = Some r \<longleftrightarrow>
      held s k = Some r \<and> \<not> cr_delivered r"
  by (auto simp: held_def map_of_eq_Some_iff distinct_map_filter)

lemma kept_page_end:
  assumes "kept_base w"
  shows "kept (page_end page cursor w)"
proof -
  have "kept (note_event (Advanced page) (w\<lparr>vw_state := (vw_state w)\<lparr>rs_cursor := Some c,
      rs_responses := filter (\<lambda>(k, r). \<not> cr_delivered r) (rs_responses (vw_state w))\<rparr>, vw_drain := Saving_Page\<rparr>))" for c
    using assms unfolding kept_base_def kept_def
    by (auto simp: held_filter distinct_map_filter undelivered_def intro!: resend_ok_snoc)
  then show ?thesis
    unfolding page_end_def using assms by (auto simp: kept_fails kept_done split: option.split)
qed

lemma kept_submits:
  assumes "kept_base w" "held (vw_state w) k = Some c" "\<not> cr_delivered c"
  shows "kept (note_event (Submitted k (cr_envelope c)) (w\<lparr>vw_drain := Submitting page cursor k rest\<rparr>))"
proof -
  have c: "c = undelivered (cr_envelope c)" using assms(3) by (cases c) (simp add: undelivered_def)
  then have "pending_response (vw_log w) k = None \<or> pending_response (vw_log w) k = Some (cr_envelope c)"
    using assms(1,2) by (cases "pending_response (vw_log w) k") (auto simp: kept_base_def undelivered_def)
  then have "resend_ok (vw_log w @ [Submitted k (cr_envelope c)])"
    using assms(1) by (intro resend_ok_snoc) (auto simp: kept_base_def)
  moreover have "\<exists>s. vw_file w = Some s \<and> held s k = Some c" using assms by (simp add: kept_base_def)
  ultimately show ?thesis
    using assms c by (auto simp: kept_base_def kept_def)
qed

lemma kept_continue: "kept_base w \<Longrightarrow> kept (continue_page H cfg clock page cursor todo w)"
proof (induction todo arbitrary: w)
  case Nil
  then show ?case by (simp add: kept_page_end)
next
  case (Cons d rest)
  have acts: "kept (note_event (Processed k) (w\<lparr>vw_drain := Acting page cursor envelope k rest\<rparr>))"
    if "held (vw_state w) k = None" for k envelope
    using Cons.prems that by (auto simp: kept_base_def kept_def intro!: resend_ok_snoc)
  have submits: "kept (note_event (Submitted k (cr_envelope c)) (w\<lparr>vw_drain := Submitting page cursor k rest\<rparr>))"
    if "held (vw_state w) k = Some c" "\<not> cr_delivered c" for k c
    using kept_submits [OF Cons.prems that] .
  have "kept (continue_page H cfg clock page cursor rest (note_event (Expired_Delivery d (clock (length rest))) w))"
    by (rule Cons.IH [OF kept_note [OF Cons.prems]]) simp_all
  with acts submits Cons.IH [OF Cons.prems] Cons.prems show ?case
    by (auto simp: kept_fails held_def split: sum.split option.split)
qed

lemma kept_answered:
  assumes "kept w"
  shows "kept (action_answered H cfg clock result w)"
proof (cases "vw_drain w")
  case (Acting page cursor envelope k rest)
  then have base: "kept_base w" and none: "held (vw_state w) k = None"
    using assms kept_to_base [OF assms] by (simp_all add: idle_for_good_def kept_def [of w])
  then have "pending_response (vw_log w) k = None"
    by (cases "pending_response (vw_log w) k") (auto simp: kept_base_def)
  then have "kept (put_response k (undelivered r) (w\<lparr>vw_drain := Saving_Response page cursor k rest\<rparr>))" for r
    using base none by (auto simp: kept_base_def kept_def put_response_def held_def undelivered_def)
  moreover have "action_answered H cfg clock result w = (case and_then result (check_response H cfg (clock 0) envelope) of
      Inl e \<Rightarrow> drain_fails e w | Inr r \<Rightarrow> put_response k (undelivered r) (w\<lparr>vw_drain := Saving_Response page cursor k rest\<rparr>))"
    unfolding action_answered_def Acting undelivered_def drain_point.case ..
  ultimately show ?thesis using base by (simp add: kept_fails split: sum.split)
qed (simp_all add: action_answered_def assms)

lemma kept_submit_answered:
  assumes "kept w"
  shows "kept (submit_answered result w)"
proof (cases "vw_drain w")
  case (Submitting page cursor k rest)
  then have base: "kept_base w" using kept_to_base [OF assms] by (simp add: idle_for_good_def)
  have "kept (note_event (Accepted k) (put_response k (c\<lparr>cr_delivered := True\<rparr>) (w\<lparr>vw_drain := Saving_Delivered page cursor rest\<rparr>)))" for c
    using base by (auto simp: kept_base_def kept_def put_response_def held_def intro!: resend_ok_snoc)
  with Submitting assms base show ?thesis
    by (simp add: submit_answered_def kept_fails split: sum.splits option.splits)
qed (simp_all add: submit_answered_def assms)

lemma kept_saved:
  assumes "kept w"
  shows "kept (saved H cfg clock True w)"
proof -
  let ?w = "w\<lparr>vw_file := Some (vw_state w)\<rparr>"
  have base: "kept_base ?w" if "vw_drain w \<noteq> No_Drain"
    using assms that unfolding kept_def kept_base_def idle_for_good_def by auto
  show ?thesis
  proof (cases "vw_drain w")
    case (Saving_Response page cursor k rest)
    then have none: "pending_response (vw_log w) k = None" using assms by (simp add: kept_def)
    have fresh: "\<not> cr_delivered c" if "held (vw_state w) k = Some c" for c
      using assms Saving_Response that by (simp add: kept_def)
    then have "kept (note_event (Submitted k (cr_envelope c)) (?w\<lparr>vw_drain := Submitting page cursor k rest\<rparr>))"
      if "held (vw_state w) k = Some c" for c
      using that kept_submits [OF base] Saving_Response by simp
    moreover have "kept ?w" using base fresh Saving_Response none by (simp add: kept_base_def kept_def)
    ultimately show ?thesis
      using Saving_Response by (simp add: saved_def Let_def held_def split: option.split)
  next
    case (Saving_Delivered page cursor rest)
    with base show ?thesis by (simp add: saved_def Let_def kept_continue)
  next
    case Saving_Page
    with base show ?thesis by (simp add: saved_def Let_def kept_start)
  qed (simp_all add: saved_def Let_def assms)
qed

lemma loop_unaborted [simp]:
  "vw_aborted (enterFatal e w) = vw_aborted w" "vw_aborted (recordPollError e w) = vw_aborted w"
  "vw_aborted (loop_head w) = vw_aborted w" "vw_aborted (loop_retry w) = vw_aborted w" "vw_aborted (loop_catch e w) = vw_aborted w"
  "vw_aborted (connected cfg b w) = vw_aborted w" "vw_aborted (socket_ended err w) = vw_aborted w"
  "vw_aborted (delay_over cfg w) = vw_aborted w" "vw_aborted (drain_done w) = vw_aborted w"
  by (simp_all add: drain_done_def enterFatal_def recordPollError_def loop_head_def loop_retry_def loop_catch_def connected_def
      socket_ended_def delay_over_def Let_def split: option.splits)

lemma kept_fresh:
  assumes "kept w"
  shows "kept ((freshWorker cfg (newState cfg) (vw_file w) (vw_log w))\<lparr>vw_status := Worker_Stopped, vw_loop := Loop_Ended, vw_aborted := True\<rparr>)"
proof -
  have "held (newState cfg) k = None" "map_wf (rs_responses (newState cfg))" for k by (simp_all add: newState_def held_def)
  with assms show ?thesis unfolding kept_def freshWorker_def idle_for_good_def by simp
qed

lemma kept_loaded:
  assumes "kept w" "vw_file w = Some s"
  shows "kept (freshWorker cfg s (Some s) (vw_log w))"
  using assms unfolding kept_def freshWorker_def idle_for_good_def by simp

lemma kept_unsaved:
  assumes "kept w" "vw_file w = None"
  shows "kept (freshWorker cfg (newState cfg) None (vw_log w))"
proof -
  have "held (newState cfg) k = None" "map_wf (rs_responses (newState cfg))" for k by (simp_all add: newState_def held_def)
  with assms show ?thesis unfolding kept_def freshWorker_def idle_for_good_def by simp
qed

lemma kept_restart:
  assumes "kept w"
  shows "kept (startWorker H cfg (vw_file w) (vw_log w))"
proof (cases "loadState H cfg (vw_file w)")
  case (Inl e)
  with kept_fresh [OF assms] show ?thesis by (simp add: startWorker_def)
next
  case (Inr s)
  then have "startWorker H cfg (vw_file w) (vw_log w) = freshWorker cfg s (vw_file w) (vw_log w)" by (simp add: startWorker_def)
  moreover from Inr have "case vw_file w of None \<Rightarrow> s = newState cfg | Some t \<Rightarrow> s = t" by (auto simp: loaded split: option.splits)
  ultimately show ?thesis using kept_loaded [OF assms] kept_unsaved [OF assms] by (cases "vw_file w") simp_all
qed

lemma kept_step:
  assumes "kept w" "snd e \<noteq> W_Saved False"
  shows "kept (worker_step H cfg w e)"
  using assms
proof (induction H cfg w e rule: worker_step.induct)
  case (4 H cfg w clock result)
  have "kept (continue_page H cfg clock page c (pg_deliveries page) w)" "kept (drain_fails e w)" if "vw_drain w = Polling c" for page c e
    using kept_to_base [OF 4(1)] that by (simp_all add: kept_continue kept_fails idle_for_good_def)
  with 4 show ?case by (simp split: drain_point.splits sum.splits)
next
  case (3 H cfg w clock)
  have "kept (start_drain (w\<lparr>vw_origin := a, vw_queue := q\<rparr>))" if "vw_drain w = No_Drain" for a q
  proof (cases "vw_aborted w")
    case True
    then have d: "start_drain (w\<lparr>vw_origin := a, vw_queue := q\<rparr>) = drain_done (w\<lparr>vw_origin := a, vw_queue := q\<rparr>)"
      by (simp add: start_drain_def)
    show ?thesis unfolding d by (rule kept_silent [OF _ _ _ 3(1)]) (simp_all add: that)
  next
    case False
    with kept_to_base [OF 3(1)] that have "kept_base w" by (simp add: idle_for_good_def)
    then show ?thesis by (intro kept_start) (simp add: kept_base_def)
  qed
  with 3 show ?case by (simp split: drain_point.splits list.splits)
next
  case 5 then show ?case by (simp add: kept_answered)
next
  case (6 H cfg w clock ok) then show ?case by (cases ok) (simp_all add: kept_saved)
next
  case 7 then show ?case by (simp add: kept_submit_answered)
next
  case 13 then show ?case by (simp add: kept_restart)
qed (auto intro: kept_silent split: sum.splits)

text \<open>
  C12. A retry sends the same response: in a run whose saves succeed, two responses submitted
  for one fingerprint are the same, over failed submissions, lost connections and restarts,
  unless the relay has accepted one in between; and the response that was submitted last is
  in the file until the relay accepts it.
\<close>

theorem retry_sends_the_same_response:
  assumes "list_all (\<lambda>e. snd e \<noteq> W_Saved False) events"
    and "vw_log (run_worker H cfg (newWorker cfg) events) = xs @ Submitted k r # ys"
    and "Accepted k \<notin> set ys"
  shows "(\<forall>r'. Submitted k r' \<in> set ys \<longrightarrow> r' = r) \<and>
    (\<exists>s. vw_file (run_worker H cfg (newWorker cfg) events) = Some s \<and> map_get (rs_responses s) k = Some \<lparr>cr_envelope = r, cr_delivered = False\<rparr>)"
proof -
  have kept: "kept (run_worker H cfg (newWorker cfg) events)"
    using assms(1)
  proof (induction rule: run_worker_invariant)
    case start
    show ?case by (simp add: kept_def newWorker_def freshWorker_def newState_def pending_response_def resend_ok_def held_def)
  next
    case (step w e)
    then show ?case by (simp add: kept_step)
  qed
  then have ok: "resend_ok (xs @ Submitted k r # ys)" by (simp add: kept_def assms(2))
  have "r' = r" if "Submitted k r' \<in> set ys" for r'
  proof -
    from that obtain us vs where ys: "ys = us @ Submitted k r' # vs" by (auto dest: split_list)
    have "resend_ok (xs @ Submitted k r # us)"
      using ok unfolding resend_ok_def ys by (metis append.assoc append_Cons)
    then have "pending_response (xs @ Submitted k r # us) k = Some r" by (rule resend_same) (use assms(3) ys in auto)
    then show ?thesis using ok unfolding resend_ok_def ys by (metis append.assoc append_Cons option.distinct(1) option.inject)
  qed
  moreover have "pending_response (xs @ Submitted k r # ys) k = Some r" by (rule resend_same [OF ok assms(3)])
  ultimately show ?thesis using kept by (auto simp: kept_def assms(2) held_def undelivered_def)
qed

section \<open>A restart reads the state back\<close>

definition files_ok :: "('a) host_scheme \<Rightarrow> worker_config \<Rightarrow> relay_worker \<Rightarrow> bool" where
  "files_ok H cfg w \<longleftrightarrow> state_ok H cfg (vw_state w) \<and> (\<forall>s. vw_file w = Some s \<longrightarrow> state_ok H cfg s)"

definition named :: "relay_worker \<Rightarrow> bool" where
  "named w \<longleftrightarrow> acting (vw_drain w) \<noteq> Some []"

lemma files_ok_core: "core w' = core w \<Longrightarrow> files_ok H cfg w \<Longrightarrow> files_ok H cfg w'"
  by (simp add: files_ok_def core_def)

lemma state_ok_new: "state_ok H cfg (newState cfg)"
  by (simp add: state_ok_def newState_def)

lemma files_ok_note [simp]: "files_ok H cfg (note_event n w) = files_ok H cfg w"
  by (simp add: files_ok_def)

lemma drain_put: "vw_drain (put_response k c w) = vw_drain w"
  by (simp add: put_response_def)

lemma files_ok_put:
  assumes "files_ok H cfg w" "entry_ok H (vc_verifierDid cfg) (k, c)"
  shows "files_ok H cfg (put_response k c w)"
proof -
  have "set (map_set k c m) \<subseteq> insert (k, c) (set m)" for m :: "(string, cached_response) jsmap"
    by (induction m) auto
  with assms show ?thesis unfolding files_ok_def state_ok_def put_response_def list_all_iff by fastforce
qed

lemma files_ok_fails [simp]: "files_ok H cfg (drain_fails e w) = files_ok H cfg w"
  and files_ok_done [simp]: "files_ok H cfg (drain_done w) = files_ok H cfg w"
  and files_ok_start [simp]: "files_ok H cfg (start_drain w) = files_ok H cfg w"
  and files_ok_drain [simp]: "files_ok H cfg (w\<lparr>vw_drain := d\<rparr>) = files_ok H cfg w"
  by (metis files_ok_core core_simps(10), metis files_ok_core core_simps(9), metis files_ok_core core_simps(11))
    (simp add: files_ok_def)

lemma files_ok_page_end: "files_ok H cfg w \<Longrightarrow> files_ok H cfg (page_end page cursor w)"
proof -
  assume a: "files_ok H cfg w"
  then have "files_ok H cfg (w\<lparr>vw_state := (vw_state w)\<lparr>rs_cursor := c,
      rs_responses := filter (\<lambda>(k, r). \<not> cr_delivered r) (rs_responses (vw_state w))\<rparr>, vw_drain := d\<rparr>)" for c d
    by (auto simp: files_ok_def state_ok_def list_all_iff)
  with a show ?thesis unfolding page_end_def by (simp split: option.split)
qed

lemma acting_page_end: "acting (vw_drain (page_end page cursor w)) = None"
  by (simp add: page_end_def split: option.split)

text \<open>A host whose digests are not empty gives every request a fingerprint.\<close>

lemma check_delivery_named:
  assumes "\<And>s. sha256 H s \<noteq> []" "check_delivery H cfg now d = Inr (Some (envelope, k))"
  shows "k \<noteq> []"
proof -
  have "computeIdempotencyFingerprint H v = Inr k \<Longrightarrow> k \<noteq> []" for v
    using assms(1) by (auto simp: computeIdempotencyFingerprint_def computeJsonHash_def)
  with assms(2) show ?thesis by (auto simp: check_delivery_def split: if_splits sum.splits)
qed

lemma files_ok_continue:
  assumes "\<And>s. sha256 H s \<noteq> []"
  shows "files_ok H cfg w \<Longrightarrow> files_ok H cfg (continue_page H cfg clock page cursor todo w) \<and>
    named (continue_page H cfg clock page cursor todo w)"
proof (induction todo arbitrary: w)
  case Nil
  then show ?case by (simp add: files_ok_page_end acting_page_end named_def)
next
  case (Cons d rest)
  have n: "k \<noteq> []" if "check_delivery H cfg (clock (length rest)) d = Inr (Some (envelope, k))" for envelope k
    using check_delivery_named [OF assms that] by simp
  show ?case
    using Cons.prems Cons.IH n by (auto simp: named_def split: sum.splits option.splits)
qed

lemma check_response_entry:
  assumes "check_response H cfg now envelope r = Inr e" "\<exists>v. parseActionResponseAt r ''$.payload'' = Inr v" "k \<noteq> []"
  shows "entry_ok H (vc_verifierDid cfg) (k, \<lparr>cr_envelope = e, cr_delivered = b\<rparr>)"
proof -
  from assms(1) have b: "buildDeliveryEnvelope H now (vc_verifierDid cfg) [de_sender envelope] r None None None = Inr e"
    by (auto simp: check_response_def Let_def split: if_splits sum.splits)
  then have p: "parseDeliveryEnvelope H (envelope_json e) = Inr e" and e: "de_sender e = vc_verifierDid cfg" "de_payload e = r"
    by (auto simp: buildDeliveryEnvelope_def dest: parsed_envelope_same)
  from assms(2) have "parseActionResponseAt r ''$.payload'' = Inr r" by (auto dest: parsed_response_same)
  then have "parseActionResponseEnvelope H (envelope_json e) = Inr e"
    by (cases e) (use p e in \<open>auto simp: parseActionResponseEnvelope_def\<close>)
  with e assms(3) show ?thesis by (simp add: entry_ok_def response_envelope_def)
qed

text \<open>An answer of the verifier that is an action response.\<close>

fun answers_well :: "(nat \<Rightarrow> int) \<times> worker_event \<Rightarrow> bool" where
  "answers_well (clock, W_Action (Inr r)) = (case parseActionResponseAt r ''$.payload'' of Inl e \<Rightarrow> False | Inr v \<Rightarrow> True)"
| "answers_well e = True"

lemma files_ok_answered:
  assumes "files_ok H cfg w" "named w" "answers_well (clock, W_Action result)"
  shows "files_ok H cfg (action_answered H cfg clock result w) \<and> named (action_answered H cfg clock result w)"
proof (cases "vw_drain w")
  case (Acting page cursor envelope k rest)
  have "entry_ok H (vc_verifierDid cfg) (k, \<lparr>cr_envelope = e, cr_delivered = False\<rparr>)"
    if "and_then result (check_response H cfg (clock 0) envelope) = Inr e" for e
    using that assms(2,3) Acting
    by (auto simp: named_def split: sum.splits intro!: check_response_entry)
  then show ?thesis
    using Acting assms(1) files_ok_put [of H cfg "w\<lparr>vw_drain := d\<rparr>" for d]
    by (auto simp: action_answered_def named_def drain_put simp del: and_then_Inr_iff split: sum.split)
qed (use assms in \<open>simp_all add: action_answered_def\<close>)

lemma files_ok_saved:
  assumes "\<And>s. sha256 H s \<noteq> []" "files_ok H cfg w" "named w"
  shows "files_ok H cfg (saved H cfg clock ok w) \<and> named (saved H cfg clock ok w)"
proof -
  have f: "files_ok H cfg (w\<lparr>vw_file := Some (vw_state w)\<rparr>)" using assms(2) by (simp add: files_ok_def)
  have "acting (vw_drain (start_drain v)) = None" for v using drain_start [of v] by auto
  with f assms(2,3) files_ok_continue [OF assms(1) f] show ?thesis
    unfolding saved_def Let_def by (cases "vw_drain w") (auto simp: named_def split: option.split)
qed

lemma files_ok_submitted:
  assumes "files_ok H cfg w" "named w"
  shows "files_ok H cfg (submit_answered result w) \<and> named (submit_answered result w)"
proof (cases "vw_drain w")
  case (Submitting page cursor k rest)
  have "entry_ok H (vc_verifierDid cfg) (k, c\<lparr>cr_delivered := True\<rparr>)" if "map_get (rs_responses (vw_state w)) k = Some c" for c
    using assms(1) map_of_SomeD [OF that] by (auto simp: files_ok_def state_ok_def list_all_iff entry_ok_def)
  with Submitting assms show ?thesis
    by (auto simp: submit_answered_def named_def drain_put intro: files_ok_put split: sum.splits option.splits)
qed (use assms in \<open>simp_all add: submit_answered_def\<close>)

lemma files_ok_step:
  assumes "\<And>s. sha256 H s \<noteq> []" "files_ok H cfg w \<and> named w" "answers_well e"
  shows "files_ok H cfg (worker_step H cfg w e) \<and> named (worker_step H cfg w e)"
  using assms
proof (induction H cfg w e rule: worker_step.induct)
  case (4 H cfg w clock result)
  then show ?case
    using files_ok_continue [OF 4(1)] by (auto simp: named_def split: drain_point.splits sum.splits)
next
  case (3 H cfg w clock)
  have "acting (vw_drain (start_drain v)) = None" for v using drain_start [of v] by auto
  moreover have "files_ok H cfg (w\<lparr>vw_origin := a, vw_queue := q\<rparr>)" for a q using 3(2) by (simp add: files_ok_def)
  ultimately show ?case using 3(2) by (auto simp: named_def split: drain_point.splits list.splits)
next
  case (5 H cfg w clock result) then show ?case using files_ok_answered [of H cfg w clock result] by simp
next
  case (6 H cfg w clock ok) then show ?case using files_ok_saved [OF 6(1), of cfg w clock ok] by simp
next
  case (7 H cfg w clock result) then show ?case using files_ok_submitted [of H cfg w result] by simp
next
  case (13 H cfg w clock)
  from 13(2) have l: "loadState H cfg (vw_file w) = Inr (case vw_file w of None \<Rightarrow> newState cfg | Some s \<Rightarrow> s)"
    by (auto simp: loaded files_ok_def split: option.splits)
  from 13(2) show ?case
    by (auto simp: startWorker_def l files_ok_def named_def freshWorker_def state_ok_new split: option.splits)
qed (auto simp: named_def intro: files_ok_core split: sum.splits)

text \<open>
  A restart reads the state back: with a host whose digests are not empty and a verifier
  whose answers are action responses, the file of every run is one that the worker accepts,
  and what it reads is the state that was saved; a start before the first save begins with
  no cursor and no responses.
\<close>

theorem restart_reads_the_state:
  assumes "\<And>s. sha256 H s \<noteq> []" "list_all answers_well events"
  shows "loadState H cfg (vw_file (run_worker H cfg (newWorker cfg) events)) =
    Inr (case vw_file (run_worker H cfg (newWorker cfg) events) of None \<Rightarrow> newState cfg | Some s \<Rightarrow> s)"
proof -
  let ?I = "\<lambda>w. files_ok H cfg w \<and> named w"
  have "?I (run_worker H cfg (newWorker cfg) events)"
    using assms(2)
  proof (induction rule: run_worker_invariant)
    case start
    show ?case by (simp add: files_ok_def named_def newWorker_def freshWorker_def state_ok_new)
  next
    case (step w e)
    then show ?case by (rule files_ok_step [OF assms(1)])
  qed
  then show ?thesis by (auto simp: loaded files_ok_def split: option.splits)
qed

section \<open>The delay between connections\<close>

lemma reconnect_loop [simp]:
  "vw_reconnectMs (enterFatal e w) = vw_reconnectMs w" "vw_reconnectMs (recordPollError e w) = vw_reconnectMs w"
  "vw_reconnectMs (loop_head w) = vw_reconnectMs w" "vw_reconnectMs (loop_retry w) = vw_reconnectMs w"
  "vw_reconnectMs (loop_catch e w) = vw_reconnectMs w" "vw_reconnectMs (socket_ended err w) = vw_reconnectMs w"
  "vw_reconnectMs (drain_done w) = vw_reconnectMs w" "vw_reconnectMs (drain_fails e w) = vw_reconnectMs w"
  "vw_reconnectMs (start_drain w) = vw_reconnectMs w" "vw_reconnectMs (note_event n w) = vw_reconnectMs w"
  "vw_reconnectMs (put_response k c w) = vw_reconnectMs w"
  by (simp_all add: enterFatal_def recordPollError_def loop_head_def loop_retry_def loop_catch_def socket_ended_def
      drain_done_def drain_fails_def start_drain_def note_event_def put_response_def Let_def split: option.splits)

lemma reconnect_page [simp]:
  "vw_reconnectMs (page_end page cursor w) = vw_reconnectMs w"
  "vw_reconnectMs (continue_page H cfg clock page cursor todo w) = vw_reconnectMs w"
proof -
  show p: "vw_reconnectMs (page_end page cursor w) = vw_reconnectMs w" for w
    by (simp add: page_end_def split: option.split)
  show "vw_reconnectMs (continue_page H cfg clock page cursor todo w) = vw_reconnectMs w"
    by (induction todo arbitrary: w) (auto simp: p split: sum.splits option.splits)
qed

lemma reconnect_step:
  assumes "vc_reconnectInitialMs cfg \<le> vw_reconnectMs w \<and> vw_reconnectMs w \<le> vc_reconnectMaxMs cfg"
    and "0 < vc_reconnectInitialMs cfg" "vc_reconnectInitialMs cfg \<le> vc_reconnectMaxMs cfg"
  shows "vc_reconnectInitialMs cfg \<le> vw_reconnectMs (worker_step H cfg w e) \<and>
    vw_reconnectMs (worker_step H cfg w e) \<le> vc_reconnectMaxMs cfg"
  using assms
proof (induction H cfg w e rule: worker_step.induct)
  case 5 then show ?case by (simp add: action_answered_def split: drain_point.splits sum.splits del: and_then_Inr_iff)
next
  case 6 then show ?case by (simp add: saved_def Let_def split: drain_point.splits option.splits)
next
  case 7 then show ?case by (simp add: submit_answered_def split: drain_point.splits sum.splits option.splits)
next
  case 8 then show ?case by (simp add: connected_def split: sum.splits)
next
  case 10 then show ?case by (simp add: delay_over_def)
next
  case 13 then show ?case by (simp add: startWorker_def freshWorker_def split: sum.splits)
qed (auto split: drain_point.splits sum.splits list.splits)

text \<open>
  The delay between connections stays within its bounds: for a configuration that the
  constructor accepts, every delay of every run is at least the first and at most the
  largest one, and each delay is followed by the smaller of its double and the largest.
\<close>

theorem reconnect_delay_bounded:
  assumes "createWorkerConfig relayUrl verifierDid fallback initial maximum = Inr cfg"
  shows "0 < vc_reconnectInitialMs cfg \<and>
    vc_reconnectInitialMs cfg \<le> vw_reconnectMs (run_worker H cfg (newWorker cfg) events) \<and>
    vw_reconnectMs (run_worker H cfg (newWorker cfg) events) \<le> vc_reconnectMaxMs cfg \<and>
    vw_reconnectMs (delay_over cfg w) = min (2 * vw_reconnectMs w) (vc_reconnectMaxMs cfg)"
proof -
  from assms have c: "0 < vc_reconnectInitialMs cfg" "vc_reconnectInitialMs cfg \<le> vc_reconnectMaxMs cfg"
    by (auto simp: createWorkerConfig_def positiveInterval_def split: if_splits jsnum.splits)
  have "list_all (\<lambda>_. True) events" by (simp add: list_all_iff)
  then have "vc_reconnectInitialMs cfg \<le> vw_reconnectMs (run_worker H cfg (newWorker cfg) events) \<and>
      vw_reconnectMs (run_worker H cfg (newWorker cfg) events) \<le> vc_reconnectMaxMs cfg"
  proof (induction rule: run_worker_invariant)
    case start
    show ?case using c by (simp add: newWorker_def freshWorker_def)
  next
    case (step w e)
    then show ?case using c by (intro reconnect_step)
  qed
  moreover have "vw_reconnectMs (delay_over cfg w) = min (2 * vw_reconnectMs w) (vc_reconnectMaxMs cfg)"
    by (simp add: delay_over_def loop_head_def mult.commute)
  ultimately show ?thesis using c by blast
qed

section \<open>A fatal error while connecting\<close>

definition fatal_events :: "(nat \<Rightarrow> int) \<Rightarrow> relay_error \<Rightarrow> bool \<Rightarrow> ((nat \<Rightarrow> int) \<times> worker_event) list" where
  "fatal_events clock err ready = map (Pair clock)
     [W_Start, W_Poll From_Timer, W_Turn, W_Page (Inl err), W_Connected (Inr ready), W_Turn,
      W_Page (Inr \<lparr>pg_deliveries = [], pg_nextCursor = None\<rparr>), W_Socket_Ended None]"

text \<open>
  C13. A fatal error that a poll meets while the worker connects is covered up: the connection
  sets the status back to connected, the worker polls once more, and when the socket ends
  the loop stops for good with the timer cleared, the error kept and the status connected.
\<close>

theorem fatal_error_covered_up:
  assumes "isPermanentError err"
  shows "(let w = run_worker H cfg (newWorker cfg) (fatal_events clock err ready) in
    vw_fatal w = Some err \<and> vw_loop w = Loop_Ended \<and> \<not> vw_timer w \<and> \<not> vw_aborted w \<and> vw_status w = Worker_Connected)"
proof -
  have new: "newWorker cfg = freshWorker cfg (newState cfg) None []" by (simp add: newWorker_def)
  have "rs_cursor (newState cfg) = None" by (simp add: newState_def)
  with assms show ?thesis
    by (simp add: new run_worker_def fatal_events_def freshWorker_def loop_head_def start_drain_def drain_fails_def
        recordPollError_def enterFatal_def connected_def page_end_def drain_done_def socket_ended_def loop_catch_def Let_def)
qed

section \<open>The example run\<close>

lemma rx_advanced: "Advanced rx_page \<in> set rx_log"
  by (simp add: rx_log_def)

theorem no_delivery_passed_over_witness: "received rx_events rx_page \<and> delivery_settled rx_host rx_config rx_events rx_delivery"
  using no_delivery_passed_over [OF rx_run [symmetric], of rx_page] by (simp add: rx_worker_def freshWorker_def rx_advanced)

lemma rx_saves: "list_all (\<lambda>e. snd e \<noteq> W_Saved False) rx_first"
  by (simp add: rx_first_def)

lemma rx_first_log:
  "vw_log (run_worker rx_host rx_config (newWorker rx_config) rx_first) =
    [Processed ''h''] @ Submitted ''h'' rx_response # [Submitted ''h'' rx_response]"
  "vw_file (run_worker rx_host rx_config (newWorker rx_config) rx_first) = Some (rx_state None (rx_cached False))"
  by (simp_all add: rx_run_first rx_worker_def freshWorker_def)

theorem retry_sends_the_same_response_witness:
  "map_get (rs_responses (rx_state None (rx_cached False))) ''h'' = Some \<lparr>cr_envelope = rx_response, cr_delivered = False\<rparr>"
  using retry_sends_the_same_response [OF rx_saves rx_first_log(1)] by (simp add: rx_first_log(2))

theorem restart_reads_the_state_witness:
  "loadState rx_host rx_config (Some (rx_state None (rx_cached False))) = Inr (rx_state None (rx_cached False))"
proof -
  have "parseActionResponseAt rx_answer p = Inr rx_answer" for p
    by (simp add: parseActionResponseAt_def requireRecord_def requireLiteral_def require_def rx_answer_def ACTION_RESPONSE_RESULTS_def)
  then have "list_all answers_well rx_first" by (simp add: rx_first_def)
  from restart_reads_the_state [OF _ this, of rx_host rx_config] show ?thesis
    by (simp add: rx_first_log(2)) (simp add: rx_host_def)
qed

theorem reconnect_delay_bounded_witness:
  "1000 \<le> vw_reconnectMs (run_worker rx_host rx_config (newWorker rx_config) rx_events)"
proof -
  have "createWorkerConfig ''https://r/'' ''did:web:a'' None None None = Inr rx_config"
    by (simp add: createWorkerConfig_def positiveInterval_def num_or_def require_def normalizeUrl_def rx_config_def)
  from reconnect_delay_bounded [OF this, of rx_host rx_events] show ?thesis by (simp add: rx_config_def)
qed

theorem fatal_error_covered_up_witness:
  "vw_status (run_worker rx_host rx_config (newWorker rx_config) (fatal_events rx_clock (Mpas_Auth_Error ''e'') True)) = Worker_Connected"
  using fatal_error_covered_up [of "Mpas_Auth_Error ''e''" rx_host rx_config rx_clock True] by (simp add: Let_def)

end
