(* ===== verification/HardenedFetch.thy ===== *)
theory HardenedFetch
  imports CoordinationRequests
begin

text \<open>
  Outbound requests of the adapter: \<open>cli/src/adapter/hardened-fetch.ts\<close> (which failures may be
  sent again), \<open>cli/src/adapter/oauth-fetch-policy.ts\<close> (what an OAuth exchange may do) and
  \<open>cli/src/adapter/oauth-scope-guard.ts\<close> (scope challenges).

  \<^item> The outcome of an attempt is an input, with what the \<open>catch\<close> reads: whether the caller has
    aborted, the deadline has passed or the attempt's own timer has fired. A function of a
    request gives the transports it was sent through and its result.
  \<^item> A caught value is a JavaScript value; an error of these modules is a constructor. Reading a
    body fails or gives its text; \<open>JSON.parse\<close> is a function of the host.
\<close>

section \<open>Requests, responses, errors\<close>

record web_url =
  wu_href :: string
  wu_protocol :: string
  wu_hostname :: string
  wu_host :: string

record web_host = host +
  web_url :: "string \<Rightarrow> web_url option"
  json_parse :: "string \<Rightarrow> jsval option"
  challenge_params :: "string option \<Rightarrow> string option \<times> string option"

datatype request_body = No_Body | Text_Body string | Params_Body "(string \<times> string) list" | Buffer_Body string | View_Body string | Stream_Body

record web_request =
  wr_input :: string
  wr_method :: "string option"
  wr_authorization :: "string option"
  wr_body :: request_body
  wr_redirect :: "string option"

record web_response =
  ws_status :: int
  ws_header :: "string \<Rightarrow> string option"
  ws_body :: "string option"

datatype fetch_error =
    Thrown jsval
  | Hardened_Fetch_Error string fetch_error
  | Fetch_Policy_Error string "fetch_error option"

section \<open>Connect failures\<close>

definition CONNECT_FAILURE_CODES :: "string list" where
  "CONNECT_FAILURE_CODES = [''UND_ERR_CONNECT_TIMEOUT'', ''ECONNREFUSED'', ''EHOSTUNREACH'', ''ENETUNREACH'', ''ENETDOWN'']"

fun first_some :: "('a \<Rightarrow> 'b option) \<Rightarrow> 'a list \<Rightarrow> 'b option" where
  "first_some f [] = None"
| "first_some f (x # xs) = (case f x of None \<Rightarrow> first_some f xs | Some y \<Rightarrow> Some y)"

text \<open>\<open>connectFailureCode(error, depth)\<close> looks \<open>5 - depth\<close> levels deep.\<close>

primrec code_within :: "nat \<Rightarrow> jsval \<Rightarrow> string option" where
  "code_within 0 e = None"
| "code_within (Suc n) e =
    (if \<not> (is_record e \<or> is_array e) then None
     else if js_get e ''code'' \<in> Str ` set CONNECT_FAILURE_CODES then Some (text_of (js_get e ''code''))
     else case first_some (code_within n) (elements (js_get e ''errors'')) of
         Some c \<Rightarrow> Some c
       | None \<Rightarrow> code_within n (js_get e ''cause''))"

fun error_code_within :: "nat \<Rightarrow> fetch_error \<Rightarrow> string option" where
  "error_code_within n (Thrown v) = code_within n v"
| "error_code_within 0 e = None"
| "error_code_within (Suc n) (Hardened_Fetch_Error m c) = error_code_within n c"
| "error_code_within (Suc n) (Fetch_Policy_Error m (Some c)) = error_code_within n c"
| "error_code_within (Suc n) (Fetch_Policy_Error m None) = None"

definition connectFailureCode :: "fetch_error \<Rightarrow> string option" where
  "connectFailureCode e = error_code_within 5 e"

section \<open>Sending with one retry\<close>

record fetch_options =
  fo_injected :: bool
  fo_label :: string
  fo_attemptTimeout :: bool
  fo_deadline :: bool

record attempt =
  at_result :: "fetch_error + web_response"
  at_callerAborted :: bool
  at_deadlineExpired :: bool
  at_timerFired :: bool

datatype transport = Default_Dispatcher | Ipv4_Dispatcher | Caller_Transport

definition isReplayableBody :: "request_body \<Rightarrow> bool" where
  "isReplayableBody body \<longleftrightarrow> body \<noteq> Stream_Body"

definition upper :: "char \<Rightarrow> char" where
  "upper c = (let n = (of_char c :: nat) in if 97 \<le> n \<and> n \<le> 122 then char_of (n - 32) else c)"

definition isRetryable :: "string option \<Rightarrow> bool \<Rightarrow> request_body \<Rightarrow> string \<Rightarrow> bool" where
  "isRetryable failureCode timedOut body meth =
    (if \<not> isReplayableBody body then False
     else if failureCode \<noteq> None then True
     else timedOut \<and> map upper meth \<in> {''GET'', ''HEAD''})"

definition transportFailure :: "string \<Rightarrow> fetch_error \<Rightarrow> string option \<Rightarrow> bool \<Rightarrow> web_url \<Rightarrow> fetch_error" where
  "transportFailure label error failureCode timedOut url = (case failureCode of
       Some code \<Rightarrow> Hardened_Fetch_Error (label @ '' could not connect to '' @ wu_host url @ '' ('' @ code @ '')'') error
     | None \<Rightarrow> if timedOut then Hardened_Fetch_Error (label @ '' timed out'') error else error)"

definition budgetExhausted :: "string \<Rightarrow> web_url \<Rightarrow> fetch_error \<Rightarrow> fetch_error" where
  "budgetExhausted label url error = Hardened_Fetch_Error (label @ '' to '' @ wu_host url @ '' exceeded its overall budget'') error"

definition attempt_timed_out :: "fetch_options \<Rightarrow> attempt \<Rightarrow> bool" where
  "attempt_timed_out options a \<longleftrightarrow> fo_attemptTimeout options \<and> at_timerFired a"

definition deadline_passed :: "fetch_options \<Rightarrow> attempt \<Rightarrow> bool" where
  "deadline_passed options a \<longleftrightarrow> fo_deadline options \<and> at_deadlineExpired a"

definition invalid_url :: fetch_error where
  "invalid_url = Thrown (Obj [(''name'', Str ''TypeError''), (''code'', Str ''ERR_INVALID_URL'')])"

definition hardenedFetch ::
    "('a) web_host_scheme \<Rightarrow> fetch_options \<Rightarrow> web_request \<Rightarrow> attempt \<Rightarrow> attempt \<Rightarrow> transport list \<times> (fetch_error + web_response)" where
  "hardenedFetch H options request first retry = (case web_url H (wr_input request) of
     None \<Rightarrow> ([], Inl invalid_url)
   | Some url \<Rightarrow>
      (let via = (\<lambda>t. if fo_injected options then Caller_Transport else t) in case at_result first of
         Inr response \<Rightarrow> ([via Default_Dispatcher], Inr response)
       | Inl error \<Rightarrow>
           if at_callerAborted first then ([via Default_Dispatcher], Inl error)
           else if deadline_passed options first then ([via Default_Dispatcher], Inl (budgetExhausted (fo_label options) url error))
           else (let failureCode = connectFailureCode error in
             if fo_injected options \<or> \<not> isRetryable failureCode (attempt_timed_out options first) (wr_body request)
               (case wr_method request of None \<Rightarrow> ''GET'' | Some m \<Rightarrow> m)
             then ([via Default_Dispatcher], Inl (transportFailure (fo_label options) error failureCode (attempt_timed_out options first) url))
             else ([via Default_Dispatcher, Ipv4_Dispatcher], case at_result retry of
                 Inr response \<Rightarrow> Inr response
               | Inl retryError \<Rightarrow>
                   if at_callerAborted retry then Inl retryError
                   else if deadline_passed options retry then Inl (budgetExhausted (fo_label options) url retryError)
                   else Inl (transportFailure (fo_label options) retryError (connectFailureCode retryError) (attempt_timed_out options retry) url)))))"

section \<open>The policy of OAuth requests\<close>

record policy_options =
  po_allowHttpLoopback :: bool
  po_bearerResource :: "string option"
  po_injected :: bool
  po_deadline :: bool
  po_maxJsonBytes :: nat

definition LOOPBACK_HOSTNAMES :: "string list" where
  "LOOPBACK_HOSTNAMES = [''127.0.0.1'', ''[::1]'', ''localhost'']"

definition isAllowedUrl :: "web_url \<Rightarrow> bool \<Rightarrow> bool" where
  "isAllowedUrl url allowHttpLoopback \<longleftrightarrow> wu_protocol url = ''https:'' \<or>
     allowHttpLoopback \<and> wu_protocol url = ''http:'' \<and> wu_hostname url \<in> set LOOPBACK_HOSTNAMES"

definition assertBearerTarget :: "('a) web_host_scheme \<Rightarrow> web_request \<Rightarrow> web_url \<Rightarrow> string option \<Rightarrow> fetch_error + unit" where
  "assertBearerTarget H request requestUrl resourceUrl = (case wr_authorization request of
       None \<Rightarrow> Inr ()
     | Some authorization \<Rightarrow>
         if \<not> starts_with ''bearer '' (map lower authorization) then Inr ()
         else case resourceUrl of
             None \<Rightarrow> Inl (Fetch_Policy_Error ''Bearer authorization is restricted to the exact MCP resource URL'' None)
           | Some resource \<Rightarrow> (case web_url H resource of
               None \<Rightarrow> Inl invalid_url
             | Some r \<Rightarrow> if wu_href requestUrl \<noteq> wu_href r
                 then Inl (Fetch_Policy_Error ''Bearer authorization is restricted to the exact MCP resource URL'' None) else Inr ()))"

fun occurs_in :: "string \<Rightarrow> string \<Rightarrow> bool" where
  "occurs_in p [] = (p = [])"
| "occurs_in p (c # s) = (starts_with p (c # s) \<or> occurs_in p s)"

text \<open>The length of the text is that of the body's bytes; a body that cannot be read throws what the stream threw.\<close>

definition assertBoundedJsonResponse :: "web_response \<Rightarrow> nat \<Rightarrow> fetch_error + unit" where
  "assertBoundedJsonResponse response maxBytes =
    (if \<not> occurs_in ''json'' (map lower (case ws_header response ''content-type'' of None \<Rightarrow> [] | Some t \<Rightarrow> t)) then Inr ()
     else if (case ws_header response ''content-length'' of None \<Rightarrow> False
         | Some t \<Rightarrow> (case js_number_of_string t of Fin q \<Rightarrow> of_nat maxBytes < q | _ \<Rightarrow> False))
     then Inl (Fetch_Policy_Error ''OAuth JSON response exceeds the size limit'' None)
     else case ws_body response of
         None \<Rightarrow> Inl (Thrown (Obj [(''name'', Str ''TypeError'')]))
       | Some text \<Rightarrow> if maxBytes < length text then Inl (Fetch_Policy_Error ''OAuth JSON response exceeds the size limit'' None) else Inr ())"

definition policyFetch ::
    "('a) web_host_scheme \<Rightarrow> policy_options \<Rightarrow> web_request \<Rightarrow> attempt \<Rightarrow> attempt \<Rightarrow> transport list \<times> (fetch_error + web_response)" where
  "policyFetch H options request first retry = (case web_url H (wr_input request) of
     None \<Rightarrow> ([], Inl invalid_url)
   | Some url \<Rightarrow>
       if \<not> isAllowedUrl url (po_allowHttpLoopback options) then ([], Inl (Fetch_Policy_Error ''OAuth requests require HTTPS'' None))
       else case assertBearerTarget H request url (po_bearerResource options) of
           Inl e \<Rightarrow> ([], Inl e)
         | Inr _ \<Rightarrow>
            (case hardenedFetch H \<lparr>fo_injected = po_injected options, fo_label = ''OAuth request'', fo_attemptTimeout = True,
                fo_deadline = po_deadline options\<rparr> (request\<lparr>wr_redirect := Some ''manual''\<rparr>) first retry of
               (sends, Inl (Hardened_Fetch_Error m c)) \<Rightarrow> (sends, Inl (Fetch_Policy_Error m (Some (Hardened_Fetch_Error m c))))
             | (sends, Inl e) \<Rightarrow> (sends, Inl e)
             | (sends, Inr response) \<Rightarrow>
                 if 300 \<le> ws_status response \<and> ws_status response < 400
                 then (sends, Inl (Fetch_Policy_Error ''OAuth requests must not follow redirects'' None))
                 else (case assertBoundedJsonResponse response (po_maxJsonBytes options) of
                     Inl e \<Rightarrow> (sends, Inl e) | Inr _ \<Rightarrow> (sends, Inr response))))"

end
