(* ===== verification/OAuthErrors.thy ===== *)
theory OAuthErrors
  imports HardenedFetch
begin

text \<open>
  What the adapter concludes from OAuth failures: the errors of
  \<open>cli/src/adapter/oauth-errors.ts\<close>, the scope guard \<open>cli/src/adapter/oauth-scope-guard.ts\<close>, and from
  \<open>cli/src/adapter/oauth-operator.ts\<close> the reasons of errors and the classification of token
  responses and of login failures. Diagnostics only describe an error and are left out, as is its cause.
\<close>

section \<open>Errors and reasons\<close>

record operator_error =
  oe_code :: string
  oe_message :: string
  oe_operatorCommand :: "string option"
  oe_retryAfterSeconds :: "int option"
  oe_ambiguous :: bool

definition operatorError :: "string \<Rightarrow> string \<Rightarrow> operator_error" where
  "operatorError code message = \<lparr>oe_code = code, oe_message = message, oe_operatorCommand = None, oe_retryAfterSeconds = None, oe_ambiguous = False\<rparr>"

definition OAUTH_REASON_BY_CODE :: "(string \<times> string) list" where
  "OAUTH_REASON_BY_CODE =
    [(''OAUTH_LOGIN_REQUIRED'', ''oauth_login_required''), (''OAUTH_SESSION_NOT_FOUND'', ''oauth_login_required''),
     (''OAUTH_REAUTHORIZATION_REQUIRED'', ''oauth_reauthorization_required''), (''OAUTH_INVALID_GRANT'', ''oauth_reauthorization_required''),
     (''OAUTH_AUTHENTICATION_FAILED'', ''oauth_reauthorization_required''),
     (''OAUTH_SESSION_BINDING_MISMATCH'', ''oauth_reauthorization_required''),
     (''OAUTH_INSUFFICIENT_SCOPE'', ''oauth_insufficient_scope''), (''OAUTH_SCOPE_CHANGE_REQUIRED'', ''oauth_insufficient_scope''),
     (''OAUTH_ACCESS_DENIED'', ''oauth_access_denied''), (''OAUTH_AUTHORIZATION_DENIED'', ''oauth_authorization_denied''),
     (''OAUTH_DISCOVERY_FAILED'', ''oauth_discovery_failed''), (''OAUTH_SCOPE_NOT_SUPPORTED'', ''oauth_discovery_failed''),
     (''OAUTH_CLIENT_REGISTRATION_FAILED'', ''oauth_client_registration_failed''),
     (''OAUTH_CLIENT_AUTHENTICATION_FAILED'', ''oauth_client_authentication_failed''),
     (''OAUTH_TEMPORARILY_UNAVAILABLE'', ''oauth_temporarily_unavailable''), (''OAUTH_RATE_LIMITED'', ''oauth_rate_limited''),
     (''OAUTH_TOKEN_REFRESH_FAILED'', ''oauth_token_refresh_failed'')]"

definition OAUTH_REASON_CODES :: "string list" where
  "OAUTH_REASON_CODES = map snd OAUTH_REASON_BY_CODE"

definition oauthReasonForCode :: "string \<Rightarrow> string option" where
  "oauthReasonForCode code =
    (if code = [] then None else case map_of OAUTH_REASON_BY_CODE code of
         Some r \<Rightarrow> Some r
       | None \<Rightarrow> if code \<in> set OAUTH_REASON_CODES then Some code else None)"

definition NO_LOGIN_ADVICE :: "string list" where
  "NO_LOGIN_ADVICE = [''oauth_access_denied'', ''oauth_authorization_denied'', ''oauth_temporarily_unavailable'', ''oauth_rate_limited'',
     ''oauth_client_authentication_failed'', ''oauth_client_registration_failed'', ''oauth_discovery_failed'']"

definition error_code_char :: "char \<Rightarrow> bool" where
  "error_code_char c \<longleftrightarrow> lower_or_digit (lower c) \<or> c \<in> set ''_.:-''"

definition sanitizeOAuthErrorCode :: "jsval \<Rightarrow> string option" where
  "sanitizeOAuthErrorCode v = (case v of
       Str s \<Rightarrow> if s \<noteq> [] \<and> length s \<le> 64 \<and> list_all error_code_char s then Some s else None
     | _ \<Rightarrow> None)"

definition parseRetryAfterSeconds :: "('a) web_host_scheme \<Rightarrow> string option \<Rightarrow> int \<Rightarrow> int option" where
  "parseRetryAfterSeconds H v now = (case v of
       None \<Rightarrow> None
     | Some s \<Rightarrow> if s = [] then None
         else let trimmed = trim s in
           if trimmed \<noteq> [] \<and> length trimmed \<le> 10 \<and> list_all is_digit trimmed
           then Some (min (max (int (nat_of_digits trimmed)) 1) 3600)
           else (case date_parse (legacy_date H) trimmed of
               None \<Rightarrow> None
             | Some d \<Rightarrow> Some (min (max (- ((now - d) div 1000)) 1) 3600)))"

section \<open>The scope guard\<close>

record scope_challenge =
  sc_requestedScopes :: "string list"
  sc_grantedScopes :: "string list"
  sc_configuredScopes :: "string list"

datatype guard_error = Scope_Change_Required scope_challenge | Denied operator_error

definition scope_words :: "string option \<Rightarrow> string list" where
  "scope_words s = (case s of None \<Rightarrow> [] | Some t \<Rightarrow> filter (\<lambda>w. w \<noteq> []) (split_on (CHR '' '') t))"

text \<open>\<open>/^\s*bearer\b/i\<close>.\<close>

definition hasBearerChallenge :: "web_response \<Rightarrow> bool" where
  "hasBearerChallenge response =
    (let s = map lower (dropWhile is_space (case ws_header response ''www-authenticate'' of None \<Rightarrow> [] | Some t \<Rightarrow> t)) in
     starts_with ''bearer'' s \<and> (case drop 6 s of [] \<Rightarrow> True | c # _ \<Rightarrow> \<not> (lower_or_digit c \<or> c = CHR ''_'')))"

definition denial_code :: "('a) web_host_scheme \<Rightarrow> web_response \<Rightarrow> string option" where
  "denial_code H response =
    (if \<not> occurs_in ''json'' (map lower (case ws_header response ''content-type'' of None \<Rightarrow> [] | Some t \<Rightarrow> t)) then None
     else case ws_body response of
         None \<Rightarrow> None
       | Some text \<Rightarrow> if text = [] \<or> 16384 < length text then None
           else (case json_parse H text of None \<Rightarrow> None | Some v \<Rightarrow> sanitizeOAuthErrorCode (js_get v ''error'')))"

text \<open>The error, and whether \<open>onAccessDenied\<close> is called.\<close>

definition resourceDenial :: "('a) web_host_scheme \<Rightarrow> web_response \<Rightarrow> operator_error \<times> bool" where
  "resourceDenial H response =
    (if denial_code H response = Some ''account_not_allowed''
     then (operatorError ''OAUTH_ACCESS_DENIED'' ''The MCP server denied access for this account, organization or adapter. Restore service access through an owner or admin; logging in again will not help.'', True)
     else (operatorError ''OAUTH_RESOURCE_FORBIDDEN'' ''The MCP server refused the request (HTTP 403). No login or scope change was attempted.'', False))"

definition bounded :: "string list \<Rightarrow> string list" where
  "bounded values = map (take 128) (take 64 values)"

definition allowed_scopes :: "string list \<Rightarrow> string list option \<Rightarrow> string list \<Rightarrow> string list" where
  "allowed_scopes configured baseline granted =
    (if configured \<noteq> [] then configured else case baseline of None \<Rightarrow> granted | Some b \<Rightarrow> b)"

text \<open>The guard, for the scope of the stored tokens and the baseline of the session.\<close>

definition guardOAuthScopes ::
    "('a) web_host_scheme \<Rightarrow> string list \<Rightarrow> string list option \<Rightarrow> string option \<Rightarrow> web_response \<Rightarrow> guard_error + web_response" where
  "guardOAuthScopes H configuredScopes baseline tokenScope response =
    (if ws_status response \<noteq> 401 \<and> ws_status response \<noteq> 403 then Inr response
     else if ws_status response = 403 \<and> \<not> hasBearerChallenge response then Inl (Denied (fst (resourceDenial H response)))
     else case challenge_params H (ws_header response ''www-authenticate'') of (error, scope) \<Rightarrow>
       (let requested = scope_words scope; granted = scope_words tokenScope;
            allowed = allowed_scopes configuredScopes baseline granted in
        if error \<noteq> Some ''insufficient_scope'' \<and> list_all (\<lambda>s. s \<in> set allowed) requested then Inr response
        else Inl (Scope_Change_Required \<lparr>sc_requestedScopes = bounded requested, sc_grantedScopes = bounded granted,
          sc_configuredScopes = bounded configuredScopes\<rparr>)))"

section \<open>Token requests\<close>

datatype grant_type = Authorization_Code | Refresh_Token | Revocation

definition tokenGrantType :: "web_request \<Rightarrow> grant_type option" where
  "tokenGrantType request = (case (wr_method request, wr_body request) of
       (Some m, Params_Body ps) \<Rightarrow>
         if map upper m \<noteq> ''POST'' then None
         else (case map_of ps ''grant_type'' of
             Some g \<Rightarrow> if g = ''authorization_code'' then Some Authorization_Code
               else if g = ''refresh_token'' then Some Refresh_Token else None
           | None \<Rightarrow> None)
     | _ \<Rightarrow> None)"

primrec dns_within :: "nat \<Rightarrow> jsval \<Rightarrow> bool" where
  "dns_within 0 e = False"
| "dns_within (Suc n) e = ((is_record e \<or> is_array e) \<and>
     (js_get e ''code'' \<in> {Str ''ENOTFOUND'', Str ''EAI_AGAIN''} \<or> dns_within n (js_get e ''cause'')))"

fun error_dns_within :: "nat \<Rightarrow> fetch_error \<Rightarrow> bool" where
  "error_dns_within n (Thrown v) = dns_within n v"
| "error_dns_within 0 e = False"
| "error_dns_within (Suc n) (Hardened_Fetch_Error m c) = error_dns_within n c"
| "error_dns_within (Suc n) (Fetch_Policy_Error m (Some c)) = error_dns_within n c"
| "error_dns_within (Suc n) (Fetch_Policy_Error m None) = False"

definition isDnsFailure :: "fetch_error \<Rightarrow> bool" where
  "isDnsFailure e = error_dns_within 5 e"

definition tokenTransportFailure :: "fetch_error \<Rightarrow> grant_type \<Rightarrow> operator_error" where
  "tokenTransportFailure error grantType =
    (if connectFailureCode error \<noteq> None \<or> isDnsFailure error
     then operatorError ''OAUTH_TEMPORARILY_UNAVAILABLE'' ''The token endpoint could not be reached; the request was not processed''
     else if grantType = Refresh_Token
     then (operatorError ''OAUTH_TOKEN_REFRESH_FAILED'' ''The refresh request may have been processed without a usable response'')\<lparr>oe_ambiguous := True\<rparr>
     else operatorError ''OAUTH_TEMPORARILY_UNAVAILABLE'' ''The authorization code exchange did not complete; run login again'')"

definition response_error :: "('a) web_host_scheme \<Rightarrow> web_response \<Rightarrow> string option" where
  "response_error H response = (case ws_body response of
       None \<Rightarrow> None
     | Some text \<Rightarrow> if 16384 < length text then None
         else (case json_parse H text of
             None \<Rightarrow> None
           | Some v \<Rightarrow> if is_record v then sanitizeOAuthErrorCode (js_get v ''error'') else None))"

definition tokenErrorFromResponse :: "('a) web_host_scheme \<Rightarrow> int \<Rightarrow> web_response \<Rightarrow> grant_type \<Rightarrow> operator_error" where
  "tokenErrorFromResponse H now response phase =
    (let status = ws_status response; error = response_error H response in
     if error = Some ''invalid_client''
     then operatorError ''OAUTH_CLIENT_AUTHENTICATION_FAILED'' ''The authorization server rejected the client authentication (invalid_client). This is a client configuration or enrollment problem, not an invalid user grant.''
     else if status = 429
     then (operatorError ''OAUTH_RATE_LIMITED'' ''The token endpoint is rate limited'')
       \<lparr>oe_retryAfterSeconds := parseRetryAfterSeconds H (ws_header response ''retry-after'') now\<rparr>
     else if 500 \<le> status
     then (if phase = Refresh_Token
       then (operatorError ''OAUTH_TOKEN_REFRESH_FAILED'' ''The token endpoint failed after the refresh request was sent'')\<lparr>oe_ambiguous := True\<rparr>
       else operatorError ''OAUTH_TEMPORARILY_UNAVAILABLE'' ''The token endpoint is temporarily unavailable'')
     else if error = Some ''invalid_grant''
     then operatorError ''OAUTH_INVALID_GRANT'' ''The authorization grant is invalid, expired or revoked''
     else if error = Some ''invalid_scope''
     then operatorError ''OAUTH_INSUFFICIENT_SCOPE'' ''The authorization server rejected the requested scopes (invalid_scope)''
     else if error = Some ''temporarily_unavailable''
     then operatorError ''OAUTH_TEMPORARILY_UNAVAILABLE'' ''The token endpoint is temporarily unavailable''
     else operatorError ''OAUTH_UNKNOWN_ERROR'' ''The token endpoint returned an unrecognized error. No recovery was attempted.'')"

definition MAX_TOKEN_RESPONSE_BYTES :: nat where
  "MAX_TOKEN_RESPONSE_BYTES = 65536"

definition usableRefreshResponse :: "('a) web_host_scheme \<Rightarrow> web_response \<Rightarrow> web_response option" where
  "usableRefreshResponse H response = (case ws_body response of
       None \<Rightarrow> None
     | Some text \<Rightarrow> if MAX_TOKEN_RESPONSE_BYTES < length text then None
         else (case json_parse H text of
             None \<Rightarrow> None
           | Some v \<Rightarrow>
               if is_record v \<and> is_string (js_get v ''access_token'') \<and> js_get v ''access_token'' \<noteq> Str [] \<and>
                 is_string (js_get v ''token_type'') \<and> map lower (text_of (js_get v ''token_type'')) = ''bearer'' \<and>
                 (js_get v ''refresh_token'' = Undefined \<or> is_string (js_get v ''refresh_token'')) \<and>
                 (js_get v ''scope'' = Undefined \<or> is_string (js_get v ''scope'')) \<and>
                 (case js_get v ''expires_in'' of
                     Undefined \<Rightarrow> True
                   | Num (Fin q) \<Rightarrow> True
                   | Str s \<Rightarrow> s \<noteq> [] \<and> length s \<le> 10 \<and> list_all is_digit s
                   | _ \<Rightarrow> False)
               then Some \<lparr>ws_status = ws_status response, ws_header = (\<lambda>k. if k = ''content-type''
                   then Some (case ws_header response k of None \<Rightarrow> ''application/json'' | Some t \<Rightarrow> t) else None), ws_body = Some text\<rparr>
               else None))"

text \<open>
  \<open>observeTokenRequests\<close> after the request has been sent: the response for the SDK, or the
  failure that is thrown and reported to \<open>onFailure\<close>.
\<close>

definition observed_response ::
    "('a) web_host_scheme \<Rightarrow> int \<Rightarrow> grant_type \<Rightarrow> fetch_error + web_response \<Rightarrow> operator_error + web_response" where
  "observed_response H now grantType outcome = (case outcome of
       Inl error \<Rightarrow> Inl (tokenTransportFailure error grantType)
     | Inr response \<Rightarrow>
         if 200 \<le> ws_status response \<and> ws_status response \<le> 299
         then (if grantType \<noteq> Refresh_Token then Inr response
           else case usableRefreshResponse H response of
               Some usable \<Rightarrow> Inr usable
             | None \<Rightarrow> Inl ((operatorError ''OAUTH_TOKEN_REFRESH_FAILED'' ''The refresh response could not be used'')\<lparr>oe_ambiguous := True\<rparr>))
         else Inl (tokenErrorFromResponse H now response grantType))"

section \<open>Login failures\<close>

record request_failure =
  rf_status :: "int option"
  rf_transport :: bool
  rf_retryAfterSeconds :: "int option"

record request_evidence =
  re_phase :: string
  re_failures :: "request_failure list"

definition begin_phase :: "string \<Rightarrow> request_evidence \<Rightarrow> request_evidence" where
  "begin_phase phase e = \<lparr>re_phase = phase, re_failures = []\<rparr>"

text \<open>\<open>isTransportFailure\<close>; a thrown value carries its name.\<close>

fun isTransportFailure :: "fetch_error \<Rightarrow> bool" where
  "isTransportFailure (Hardened_Fetch_Error m c) = True"
| "isTransportFailure (Fetch_Policy_Error m (Some (Hardened_Fetch_Error n c))) = True"
| "isTransportFailure (Fetch_Policy_Error m c) = False"
| "isTransportFailure (Thrown v) = (connectFailureCode (Thrown v) \<noteq> None \<or> isDnsFailure (Thrown v) \<or>
     js_get v ''name'' \<in> {Str ''TypeError'', Str ''TimeoutError'', Str ''AbortError''})"

definition observe_request :: "('a) web_host_scheme \<Rightarrow> int \<Rightarrow> fetch_error + web_response \<Rightarrow> request_evidence \<Rightarrow> request_evidence" where
  "observe_request H now outcome e = (case outcome of
       Inr response \<Rightarrow>
         if ws_status response = 429 \<or> 500 \<le> ws_status response
         then e\<lparr>re_failures := re_failures e @ [\<lparr>rf_status = Some (ws_status response), rf_transport = False,
           rf_retryAfterSeconds = parseRetryAfterSeconds H (ws_header response ''retry-after'') now\<rparr>]\<rparr>
         else e
     | Inl error \<Rightarrow>
         if isTransportFailure error
         then e\<lparr>re_failures := re_failures e @ [\<lparr>rf_status = None, rf_transport = True, rf_retryAfterSeconds = None\<rparr>]\<rparr>
         else e)"

definition temporaryFailure :: "request_evidence \<Rightarrow> operator_error option" where
  "temporaryFailure e = (case List.find (\<lambda>f. rf_status f = Some 429) (re_failures e) of
       Some limited \<Rightarrow> Some ((operatorError ''OAUTH_RATE_LIMITED'' (''An OAuth '' @ re_phase e @ '' endpoint is rate limited''))
         \<lparr>oe_retryAfterSeconds := rf_retryAfterSeconds limited\<rparr>)
     | None \<Rightarrow> (case List.find (\<lambda>f. rf_transport f \<or> (case rf_status f of None \<Rightarrow> False | Some s \<Rightarrow> 500 \<le> s)) (re_failures e) of
           Some unavailable \<Rightarrow> Some (operatorError ''OAUTH_TEMPORARILY_UNAVAILABLE'' (''An OAuth '' @ re_phase e @ '' endpoint is temporarily unavailable''))
         | None \<Rightarrow> None))"

datatype login_error =
    Login_Operator_Error operator_error
  | Login_Scope_Or_Reauthorization string
  | Login_Issuer_Or_Pkce string
  | Login_Error string

definition classifyLoginFailure :: "login_error \<Rightarrow> request_evidence \<Rightarrow> login_error" where
  "classifyLoginFailure error evidence = (case error of
       Login_Operator_Error e \<Rightarrow>
         if oe_code e = ''OAUTH_DISCOVERY_FAILED'' \<or> oe_code e = ''OAUTH_CLIENT_REGISTRATION_FAILED''
         then (case temporaryFailure evidence of Some t \<Rightarrow> Login_Operator_Error t | None \<Rightarrow> error)
         else error
     | Login_Scope_Or_Reauthorization m \<Rightarrow> error
     | Login_Issuer_Or_Pkce m \<Rightarrow> (case temporaryFailure evidence of
           Some t \<Rightarrow> Login_Operator_Error t
         | None \<Rightarrow> Login_Operator_Error (operatorError ''OAUTH_DISCOVERY_FAILED'' m))
     | Login_Error m \<Rightarrow> (case temporaryFailure evidence of
           Some t \<Rightarrow> Login_Operator_Error t
         | None \<Rightarrow> if re_phase evidence = ''discovery'' then Login_Operator_Error (operatorError ''OAUTH_DISCOVERY_FAILED'' m) else error))"

end
