(* ===== verification/OAuthSession.thy ===== *)
theory OAuthSession
  imports OAuthErrors JsonText
begin

text \<open>
  The stored OAuth session of \<open>cli/src/adapter/oauth-operator.ts\<close>: its record, when its tokens are
  due, what binds it to a deployment, the scopes of a login, and the checks that only read it.

  \<^item> A field that may be absent is an option. The lifetime of a token is a number of seconds; sums of
    times and lifetimes are exact, as doubles are below \<open>2^53\<close>.
  \<^item> An expectation carries the names of its own properties next to their values, since a session
    without a binding is compared by them.
\<close>

section \<open>Records\<close>

record oauth_tokens =
  tk_access :: string
  tk_refresh :: "string option"
  tk_expires_in :: "rat option"
  tk_scope :: "string option"

datatype client_mode = Static_Mode | Cimd_Mode | Dynamic_Mode

datatype client_configuration =
    Auto_Client "string option" "string option" "string option"
  | Static_Client string "string option"
  | Cimd_Client string
  | Dynamic_Client

record sharing_policy =
  sp_applicationDids :: "string list"
  sp_operatorPrincipals :: "string list"

record client_authentication =
  ca_method :: string
  ca_keyDid :: string
  ca_algorithm :: string

record oauth_binding =
  ob_applicationDid :: string
  ob_resourceUrl :: string
  ob_issuer :: string
  ob_clientMode :: client_mode
  ob_clientId :: string
  ob_clientConfiguration :: string
  ob_scopeConfiguration :: "string option"
  ob_requestedScopes :: "string list"
  ob_redirectUrl :: string
  ob_clientAuthentication :: "client_authentication option"

record refresh_state =
  rf_uncertain :: bool
  rf_at :: timestamp
  rf_retryAfter :: "timestamp option"

record oauth_session =
  os_session :: string
  os_credentialHandle :: string
  os_applicationDid :: string
  os_resourceUrl :: string
  os_owner :: "string option"
  os_sharing :: "sharing_policy option"
  os_binding :: "oauth_binding option"
  os_reauthorizationRequired :: bool
  os_reauthorizationReason :: "string option"
  os_clientInformation :: "jsval option"
  os_tokens :: "oauth_tokens option"
  os_discovery :: "jsval option"
  os_tokensSavedAt :: "timestamp option"
  os_refreshJitterMs :: "int option"
  os_refreshState :: "refresh_state option"
  os_accessDenied :: "timestamp option"

section \<open>Token times\<close>

definition saved_time :: "('a) web_host_scheme \<Rightarrow> timestamp option \<Rightarrow> int option" where
  "saved_time H savedAt = (case savedAt of None \<Rightarrow> None | Some t \<Rightarrow> if t = [] then None else date_parse (legacy_date H) t)"

definition isAccessTokenExpired :: "('a) web_host_scheme \<Rightarrow> oauth_tokens option \<Rightarrow> timestamp option \<Rightarrow> int \<Rightarrow> bool" where
  "isAccessTokenExpired H tokens savedAt now =
    (case (tokens, saved_time H savedAt) of
       (Some t, Some s) \<Rightarrow> (case tk_expires_in t of None \<Rightarrow> False | Some e \<Rightarrow> of_int s + e * 1000 \<le> of_int now)
     | _ \<Rightarrow> False)"

definition MAX_OAUTH_REFRESH_SAFETY_WINDOW_MS :: int where
  "MAX_OAUTH_REFRESH_SAFETY_WINDOW_MS = 300000"

definition MAX_OAUTH_REFRESH_JITTER_MS :: int where
  "MAX_OAUTH_REFRESH_JITTER_MS = 60000"

definition isAccessTokenRefreshDue :: "('a) web_host_scheme \<Rightarrow> oauth_tokens option \<Rightarrow> timestamp option \<Rightarrow> int \<Rightarrow> int \<Rightarrow> int \<Rightarrow> bool" where
  "isAccessTokenRefreshDue H tokens savedAt now safetyWindowMs jitterMs =
    (case (tokens, saved_time H savedAt) of
       (Some t, Some s) \<Rightarrow> (case tk_expires_in t of
           None \<Rightarrow> False
         | Some e \<Rightarrow> of_int s + e * 1000 - of_int (min (max safetyWindowMs 0) MAX_OAUTH_REFRESH_SAFETY_WINDOW_MS) -
             of_int (min (max jitterMs 0) MAX_OAUTH_REFRESH_JITTER_MS) \<le> of_int now)
     | _ \<Rightarrow> False)"

definition boundedJitter :: "int \<Rightarrow> int \<Rightarrow> int" where
  "boundedJitter random maximum =
    (let b = min (max maximum 0) MAX_OAUTH_REFRESH_JITTER_MS in if b = 0 then 0 else random mod (b + 1))"

record refresh_policy =
  rp_safetyWindowMs :: int
  rp_jitterMaxMs :: int

definition policy_number :: "jsnum option \<Rightarrow> int \<Rightarrow> int \<Rightarrow> int option" where
  "policy_number v fallback limit = (case v of
       None \<Rightarrow> Some fallback
     | Some (Fin q) \<Rightarrow> if q = of_int \<lfloor>q\<rfloor> \<and> 0 \<le> q \<and> q \<le> of_int limit then Some \<lfloor>q\<rfloor> else None
     | Some _ \<Rightarrow> None)"

definition normalizeRefreshPolicy :: "jsnum option \<times> jsnum option \<Rightarrow> string + refresh_policy" where
  "normalizeRefreshPolicy v =
    (case policy_number (fst v) 60000 MAX_OAUTH_REFRESH_SAFETY_WINDOW_MS of
       None \<Rightarrow> Inl ''OAuth refresh safetyWindowMs must be an integer from 0 to 300000''
     | Some safety \<Rightarrow> (case policy_number (snd v) 30000 MAX_OAUTH_REFRESH_JITTER_MS of
           None \<Rightarrow> Inl ''OAuth refresh jitterMaxMs must be an integer from 0 to 60000''
         | Some jitter \<Rightarrow> Inr \<lparr>rp_safetyWindowMs = safety, rp_jitterMaxMs = jitter\<rparr>))"

definition shouldRefreshAccessToken :: "('a) web_host_scheme \<Rightarrow> oauth_session \<Rightarrow> refresh_policy \<Rightarrow> int \<Rightarrow> bool" where
  "shouldRefreshAccessToken H s refresh now = isAccessTokenRefreshDue H (os_tokens s) (os_tokensSavedAt s) now (rp_safetyWindowMs refresh)
     (case os_refreshJitterMs s of None \<Rightarrow> 0 | Some j \<Rightarrow> j)"

section \<open>Canonical texts\<close>

definition json_member :: "string \<Rightarrow> string \<Rightarrow> string" where
  "json_member k v = json_quote k @ CHR '':'' # v"

definition json_object_text :: "string list \<Rightarrow> string" where
  "json_object_text ms = CHR ''{'' # json_join ms @ ''}''"

definition optional_member :: "string \<Rightarrow> string option \<Rightarrow> string list" where
  "optional_member k v = (case v of None \<Rightarrow> [] | Some s \<Rightarrow> [json_member k (json_quote s)])"

definition canonicalClientConfiguration :: "client_configuration \<Rightarrow> string" where
  "canonicalClientConfiguration client = json_object_text (case client of
       Auto_Client clientId clientSecret document \<Rightarrow> json_member ''type'' (json_quote ''auto'') # optional_member ''clientId'' clientId @
         optional_member ''clientSecret'' clientSecret @ optional_member ''clientIdMetadataDocument'' document
     | Static_Client clientId clientSecret \<Rightarrow> [json_member ''type'' (json_quote ''static''), json_member ''clientId'' (json_quote clientId)] @
         optional_member ''clientSecret'' clientSecret
     | Cimd_Client document \<Rightarrow> [json_member ''type'' (json_quote ''cimd''), json_member ''clientIdMetadataDocument'' (json_quote document)]
     | Dynamic_Client \<Rightarrow> [json_member ''type'' (json_quote ''dynamic'')])"

definition canonicalScopes :: "string list \<Rightarrow> string list" where
  "canonicalScopes scopes = sort (unique (filter (\<lambda>s. s \<noteq> []) scopes))"

definition DEFAULT_OAUTH_REFRESH_SCOPE :: string where
  "DEFAULT_OAUTH_REFRESH_SCOPE = ''offline_access''"

definition preferred_refresh_scope :: "string option \<Rightarrow> string" where
  "preferred_refresh_scope s = (case s of None \<Rightarrow> DEFAULT_OAUTH_REFRESH_SCOPE
     | Some t \<Rightarrow> if trim t = [] then DEFAULT_OAUTH_REFRESH_SCOPE else trim t)"

definition canonicalScopeConfiguration :: "string list option \<Rightarrow> string option \<Rightarrow> string" where
  "canonicalScopeConfiguration scopes refreshScope = json_object_text
     [json_member ''scopes'' (json_array_text (map json_quote (canonicalScopes (case scopes of None \<Rightarrow> [] | Some xs \<Rightarrow> xs)))),
      json_member ''refreshScope'' (json_quote (preferred_refresh_scope refreshScope))]"

definition canonicalResourceUrl :: "('a) web_host_scheme \<Rightarrow> string \<Rightarrow> string + string" where
  "canonicalResourceUrl H s = (case web_url H s of None \<Rightarrow> Inl ''Invalid URL'' | Some u \<Rightarrow> Inr (wu_href u))"

section \<open>Owners and sharing\<close>

record partial_sharing =
  ps_applicationDids :: "string list option"
  ps_operatorPrincipals :: "string list option"

definition normalizeSharingPolicy :: "string \<Rightarrow> partial_sharing option \<Rightarrow> string \<Rightarrow> string + sharing_policy" where
  "normalizeSharingPolicy applicationDid sharing owner =
    (let dids = (case sharing of None \<Rightarrow> [applicationDid] | Some p \<Rightarrow> (case ps_applicationDids p of None \<Rightarrow> [applicationDid] | Some xs \<Rightarrow> xs));
         principals = (case sharing of None \<Rightarrow> [owner] | Some p \<Rightarrow> (case ps_operatorPrincipals p of None \<Rightarrow> [owner] | Some xs \<Rightarrow> xs)) in
     if applicationDid \<notin> set dids then Inl ''OAuth sharing policy must authorize the selected Application DID''
     else if owner \<notin> set principals then Inl ''OAuth sharing policy must authorize the session owner''
     else Inr \<lparr>sp_applicationDids = unique dids, sp_operatorPrincipals = unique principals\<rparr>)"

definition assertOperatorAccess :: "string \<Rightarrow> string \<Rightarrow> string \<Rightarrow> sharing_policy \<Rightarrow> string + unit" where
  "assertOperatorAccess operator applicationDid owner sharing =
    (if applicationDid \<notin> set (sp_applicationDids sharing) \<or> operator \<noteq> owner \<and> operator \<notin> set (sp_operatorPrincipals sharing)
     then Inl ''OAuth session access denied by owner sharing policy'' else Inr ())"

definition equalSets :: "string list \<Rightarrow> string list \<Rightarrow> bool" where
  "equalSets left right \<longleftrightarrow> length left = length right \<and> list_all (\<lambda>v. v \<in> set right) left"

definition equalSharingPolicy :: "sharing_policy \<Rightarrow> sharing_policy \<Rightarrow> bool" where
  "equalSharingPolicy left right \<longleftrightarrow> equalSets (sp_applicationDids left) (sp_applicationDids right) \<and>
     equalSets (sp_operatorPrincipals left) (sp_operatorPrincipals right)"

section \<open>Binding to a deployment\<close>

record expectation =
  ex_keys :: "string list"
  ex_scopes :: "string list option"
  ex_refreshScope :: "string option"
  ex_issuer :: "string option"
  ex_client :: "client_configuration option"
  ex_owner :: "string option"
  ex_sharing :: "partial_sharing option"
  ex_refresh :: "jsnum option \<times> jsnum option"

definition NON_BINDING_EXPECTATIONS :: "string list" where
  "NON_BINDING_EXPECTATIONS = [''auditPath'', ''refresh'', ''signingKey'', ''fetch'']"

definition given :: "string option \<Rightarrow> bool" where
  "given s \<longleftrightarrow> s \<noteq> None \<and> s \<noteq> Some []"

definition sessionMatchesExpectation :: "('a) web_host_scheme \<Rightarrow> oauth_session \<Rightarrow> expectation \<Rightarrow> string + bool" where
  "sessionMatchesExpectation H s expected = (case os_binding s of
       None \<Rightarrow> Inr (filter (\<lambda>k. k \<notin> set NON_BINDING_EXPECTATIONS) (ex_keys expected) = [])
     | Some b \<Rightarrow>
         let configured = (ex_issuer expected \<noteq> None \<or> ex_client expected \<noteq> None \<or> ex_scopes expected \<noteq> None \<or>
               ex_refreshScope expected \<noteq> None \<or> ex_owner expected \<noteq> None \<or> ex_sharing expected \<noteq> None);
             owned = (given (os_owner s) \<and> os_sharing s \<noteq> None) in
         if configured \<and> \<not> owned then Inr False
         else if given (ex_owner expected) \<and> os_owner s \<noteq> ex_owner expected then Inr False
         else and_then
           (case (ex_sharing expected, os_owner s, os_sharing s) of
              (Some p, Some owner, Some sharing) \<Rightarrow>
                if owner = [] then Inr True
                else and_then (normalizeSharingPolicy (os_applicationDid s) (Some p)
                  (case ex_owner expected of None \<Rightarrow> owner | Some x \<Rightarrow> x))
                  (\<lambda>q. Inr (equalSharingPolicy sharing q))
            | _ \<Rightarrow> Inr True)
           (\<lambda>same.
             if \<not> same then Inr False
             else if given (ex_issuer expected) \<and> Some (ob_issuer b) \<noteq> ex_issuer expected then Inr False
             else if (case ex_client expected of None \<Rightarrow> False | Some c \<Rightarrow> ob_clientConfiguration b \<noteq> canonicalClientConfiguration c) then Inr False
             else if (ex_scopes expected \<noteq> None \<or> given (ex_refreshScope expected)) \<and>
               ob_scopeConfiguration b \<noteq> Some (canonicalScopeConfiguration (ex_scopes expected) (ex_refreshScope expected)) then Inr False
             else if ob_applicationDid b \<noteq> os_applicationDid s then Inr False
             else and_then (canonicalResourceUrl H (os_resourceUrl s)) (\<lambda>u. Inr (ob_resourceUrl b = u))))"

record session_request =
  sr_session :: string
  sr_credentialHandle :: string
  sr_applicationDid :: string
  sr_resourceUrl :: string

text \<open>\<open>readBoundOAuthSession\<close> on what the file holds.\<close>

definition bound_session :: "session_request \<Rightarrow> oauth_session option \<Rightarrow> oauth_session option" where
  "bound_session r file = (case file of
       None \<Rightarrow> None
     | Some s \<Rightarrow> if os_tokens s = None \<or> os_session s \<noteq> sr_session r \<or> os_credentialHandle s \<noteq> sr_credentialHandle r \<or>
         os_applicationDid s \<noteq> sr_applicationDid r \<or> os_resourceUrl s \<noteq> sr_resourceUrl r then None else Some s)"

definition sessionMatchesRequest :: "('a) web_host_scheme \<Rightarrow> oauth_session \<Rightarrow> session_request \<Rightarrow> expectation \<Rightarrow> string + bool" where
  "sessionMatchesRequest H s r expected =
    (if os_session s \<noteq> sr_session r \<or> os_credentialHandle s \<noteq> sr_credentialHandle r \<or> os_applicationDid s \<noteq> sr_applicationDid r then Inr False
     else and_then (canonicalResourceUrl H (os_resourceUrl s)) (\<lambda>a. and_then (canonicalResourceUrl H (sr_resourceUrl r)) (\<lambda>b.
       if a \<noteq> b then Inr False else sessionMatchesExpectation H s expected)))"

section \<open>Scopes of a login\<close>

definition join_comma :: "string list \<Rightarrow> string" where
  "join_comma xs = concat (map (\<lambda>(i, x). (if i = 0 then [] else '', '') @ x) (enumerate 0 xs))"

definition formatSupportedScopes :: "string list \<Rightarrow> string" where
  "formatSupportedScopes supported = (if supported = [] then ''(none advertised)'' else join_comma supported)"

definition selectRefreshScope :: "string \<Rightarrow> string list \<Rightarrow> string option \<times> bool" where
  "selectRefreshScope preferred supported =
    (if preferred \<in> set supported then (Some preferred, False)
     else if preferred \<noteq> DEFAULT_OAUTH_REFRESH_SCOPE \<and> DEFAULT_OAUTH_REFRESH_SCOPE \<in> set supported
     then (Some DEFAULT_OAUTH_REFRESH_SCOPE, True)
     else (None, True))"

record scope_input =
  si_configured :: "string list option"
  si_refreshScope :: "string option"
  si_supported :: "string list"
  si_resource :: "string list option"
  si_authorizationServer :: "string list option"
  si_challenge :: "string list option"
  si_previousGranted :: "string list option"

definition list_or_none :: "string list option \<Rightarrow> string list" where
  "list_or_none xs = (case xs of None \<Rightarrow> [] | Some ys \<Rightarrow> ys)"

definition add_new :: "string list \<Rightarrow> string list \<Rightarrow> string list" where
  "add_new extra scopes = foldl (\<lambda>acc s. if s \<in> set acc then acc else acc @ [s]) scopes extra"

text \<open>The refused scope with its message, or the scopes and whether there is a warning.\<close>

definition resolveRequestedOAuthScopes :: "scope_input \<Rightarrow> (string \<times> string) + (string list \<times> bool)" where
  "resolveRequestedOAuthScopes i =
    (case List.find (\<lambda>s. s \<notin> set (si_supported i)) (list_or_none (si_configured i)) of
       Some s \<Rightarrow> Inl (s, ''Requested scope '' @ CHR 0x22 # s @ CHR 0x22 # '' is not supported; supported: '' @ formatSupportedScopes (si_supported i) @ ''.'')
     | None \<Rightarrow>
        (let baseline = (case si_configured i of
               Some c \<Rightarrow> c
             | None \<Rightarrow> if list_or_none (si_challenge i) \<noteq> [] then list_or_none (si_challenge i) else list_or_none (si_resource i));
             scopes = add_new (list_or_none (si_previousGranted i)) baseline in
         case selectRefreshScope (preferred_refresh_scope (si_refreshScope i))
             (case si_authorizationServer i of None \<Rightarrow> si_supported i | Some xs \<Rightarrow> xs) of
           (selected, warn) \<Rightarrow> Inr ((case selected of None \<Rightarrow> scopes | Some r \<Rightarrow> if r = [] \<or> r \<in> set scopes then scopes else scopes @ [r]), warn)))"

text \<open>\<open>split(/\s+/).filter(Boolean)\<close>.\<close>

definition space_words :: "string \<Rightarrow> string list" where
  "space_words s = filter (\<lambda>w. w \<noteq> []) (split_on (CHR '' '') (map (\<lambda>c. if is_space c then CHR '' '' else c) s))"

definition reauthorizationScopes :: "('a) web_host_scheme \<Rightarrow> oauth_session option \<Rightarrow> session_request \<Rightarrow> string list option \<Rightarrow> string + string list" where
  "reauthorizationScopes H previous r scopes = (case previous of
       None \<Rightarrow> Inr []
     | Some s \<Rightarrow> (case os_tokens s of
           None \<Rightarrow> Inr []
         | Some t \<Rightarrow>
             if os_applicationDid s \<noteq> sr_applicationDid r then Inr []
             else and_then (canonicalResourceUrl H (os_resourceUrl s)) (\<lambda>a. and_then (canonicalResourceUrl H (sr_resourceUrl r)) (\<lambda>b.
               if a \<noteq> b then Inr []
               else let granted = (case tk_scope t of
                     Some g \<Rightarrow> space_words g
                   | None \<Rightarrow> (case os_binding s of None \<Rightarrow> [] | Some x \<Rightarrow> ob_requestedScopes x)) in
                 Inr (case scopes of None \<Rightarrow> granted | Some c \<Rightarrow> filter (\<lambda>x. x \<in> set c) granted)))))"

section \<open>The condition of a session\<close>

datatype session_condition =
    Authorized_Session
  | Refresh_Due
  | Login_Required
  | Reauthorization_Needed
  | Refresh_Uncertain
  | Rate_Limited timestamp
  | Access_Denied_Session

definition sessionCondition :: "('a) web_host_scheme \<Rightarrow> oauth_session \<Rightarrow> bool \<Rightarrow> int \<Rightarrow> session_condition" where
  "sessionCondition H s expiredWithoutRefresh now =
    (if os_accessDenied s \<noteq> None then Access_Denied_Session
     else if os_reauthorizationRequired s then Reauthorization_Needed
     else case os_refreshState s of
         Some r \<Rightarrow>
           if rf_uncertain r then Refresh_Uncertain
           else if expiredWithoutRefresh then Login_Required
           else (case rf_retryAfter r of
               Some t \<Rightarrow> (case date_parse (legacy_date H) t of
                   Some d \<Rightarrow> if t \<noteq> [] \<and> now < d then Rate_Limited t else Authorized_Session
                 | None \<Rightarrow> Authorized_Session)
             | None \<Rightarrow> Authorized_Session)
       | None \<Rightarrow> if expiredWithoutRefresh then Login_Required else Authorized_Session)"

datatype file_reading = Missing_File | Insecure_File | Malformed_File | Read_File oauth_session

definition validateManagedOAuthSession ::
    "('a) web_host_scheme \<Rightarrow> session_request \<Rightarrow> expectation \<Rightarrow> string \<Rightarrow> file_reading \<Rightarrow> int \<Rightarrow> string + bool \<times> string \<times> string option" where
  "validateManagedOAuthSession H r expected operator file now = (case file of
       Missing_File \<Rightarrow> Inr (False, ''missing'', Some ''OAUTH_SESSION_NOT_FOUND'')
     | Insecure_File \<Rightarrow> Inr (False, ''insecure_permissions'', Some ''OAUTH_SESSION_INSECURE_PERMISSIONS'')
     | Malformed_File \<Rightarrow> Inr (False, ''malformed'', Some ''OAUTH_SESSION_MALFORMED'')
     | Read_File s \<Rightarrow>
         if (case (os_owner s, os_sharing s) of
               (Some owner, Some sharing) \<Rightarrow> owner = [] \<or> assertOperatorAccess operator (sr_applicationDid r) owner sharing \<noteq> Inr ()
             | _ \<Rightarrow> True)
         then Inr (False, ''access_denied'', Some ''OAUTH_SESSION_ACCESS_DENIED'')
         else and_then (sessionMatchesRequest H s r expected) (\<lambda>same.
           if \<not> same then Inr (False, ''misbound'', Some ''OAUTH_SESSION_BINDING_MISMATCH'')
           else if os_reauthorizationRequired s \<or> os_tokens s = None
           then Inr (False, ''reauthorization_required'', Some ''OAUTH_REAUTHORIZATION_REQUIRED'')
           else if (case os_refreshState s of None \<Rightarrow> False | Some x \<Rightarrow> rf_uncertain x)
           then Inr (False, ''refresh_uncertain'', Some ''OAUTH_TOKEN_REFRESH_FAILED'')
           else and_then (normalizeRefreshPolicy (ex_refresh expected)) (\<lambda>policy.
             if \<not> shouldRefreshAccessToken H s policy now then Inr (True, ''authorized'', None)
             else if (case os_tokens s of None \<Rightarrow> False | Some t \<Rightarrow> tk_refresh t \<noteq> None) then Inr (True, ''refresh_due'', None)
             else if isAccessTokenExpired H (os_tokens s) (os_tokensSavedAt s) now
             then Inr (False, ''login_required'', Some ''OAUTH_LOGIN_REQUIRED'')
             else Inr (True, ''authorized'', None))))"

end
