(* ===== verification/OAuthRefresh.thy ===== *)
theory OAuthRefresh
  imports OAuthSession
begin

text \<open>
  The refresh of OAuth tokens, \<open>prepareOAuthForDispatch\<close> and what it calls in
  \<open>cli/src/adapter/oauth-operator.ts\<close>, with the provider that a dispatch hands to the MCP SDK: a machine over one
  session file, the callers that prepare a dispatch, the one refresh transaction of the
  process and the providers of running dispatches.

  \<^item> The steps end at the awaits: reads and writes of the file, the requests, the document of the
    client. Whether a write succeeds, the answers and the clock are inputs. A crash keeps the file.
  \<^item> What the SDK does between a usable response and the tokens it returns is an input, as is
    whether it fails before it sends. It sends one request per refresh.
  \<^item> An operator's logins and logouts run in another process and share only the file: a login reads
    it (\<open>O_Login_Reads\<close>), writes its own session over it, without tokens until its code is
    exchanged (\<open>O_Login_Writes\<close>), and when it fails puts back what it read (\<open>O_Login_Restores\<close>).
  \<^item> \<open>ow_log\<close> records what happened; the code never reads it.
\<close>

section \<open>Failures\<close>

datatype oauth_failure =
    Operator_Failure operator_error
  | Reauthorization_Failure string string
  | Scope_Failure string
  | Invalid_Grant_Failure
  | Unauthorized_Failure
  | Plain_Failure string

record prepare_error =
  pe_code :: string
  pe_message :: string
  pe_reason :: "string option"
  pe_operatorCommand :: "string option"
  pe_retryAfterSeconds :: "int option"

definition prepareError :: "string \<Rightarrow> string \<Rightarrow> string option \<Rightarrow> int option \<Rightarrow> prepare_error" where
  "prepareError code message operatorCommand retryAfterSeconds =
    (let reason = oauthReasonForCode code;
         advise = (operatorCommand \<noteq> None \<and> (case reason of None \<Rightarrow> False | Some r \<Rightarrow> r \<notin> set NO_LOGIN_ADVICE)) in
     \<lparr>pe_code = code,
      pe_message = (case operatorCommand of
          Some c \<Rightarrow> if advise \<and> \<not> occurs_in c message then message @ '' Run '' @ c @ ''.'' else message
        | None \<Rightarrow> message),
      pe_reason = reason, pe_operatorCommand = (if advise then operatorCommand else None), pe_retryAfterSeconds = retryAfterSeconds\<rparr>)"

definition classifyOAuthPrepareError :: "oauth_failure \<Rightarrow> string \<Rightarrow> prepare_error" where
  "classifyOAuthPrepareError error operatorCommand = (case error of
       Operator_Failure e \<Rightarrow> prepareError (oe_code e) (oe_message e)
         (Some (case oe_operatorCommand e of None \<Rightarrow> operatorCommand | Some c \<Rightarrow> c)) (oe_retryAfterSeconds e)
     | Scope_Failure m \<Rightarrow> \<lparr>pe_code = ''OAUTH_SCOPE_CHANGE_REQUIRED'', pe_message = m, pe_reason = Some ''oauth_insufficient_scope'',
         pe_operatorCommand = Some operatorCommand, pe_retryAfterSeconds = None\<rparr>
     | Reauthorization_Failure c m \<Rightarrow> prepareError ''OAUTH_REAUTHORIZATION_REQUIRED'' m (Some c) None
     | Invalid_Grant_Failure \<Rightarrow> prepareError ''OAUTH_INVALID_GRANT''
         (''OAuth refresh grant is invalid or revoked. Run '' @ operatorCommand @ ''.'') (Some operatorCommand) None
     | Unauthorized_Failure \<Rightarrow> prepareError ''OAUTH_AUTHENTICATION_FAILED''
         (''OAuth authentication failed after a reachable target rejected the credentials. Run '' @ operatorCommand @ ''.'') (Some operatorCommand) None
     | Plain_Failure m \<Rightarrow> \<lparr>pe_code = ''TARGET_UNAVAILABLE'',
         pe_message = ''MCP HTTP target could not be connected and initialized: '' @ m,
         pe_reason = None, pe_operatorCommand = None, pe_retryAfterSeconds = None\<rparr>)"

definition refreshUncertainMessage :: "string \<Rightarrow> string" where
  "refreshUncertainMessage operatorCommand = ''OAuth token refresh may have rotated the grant without a usable response. '' @
     ''The adapter will not resend the previous refresh token. Run '' @ operatorCommand @ ''.''"

definition withOperatorCommand :: "operator_error \<Rightarrow> string \<Rightarrow> operator_error" where
  "withOperatorCommand failure operatorCommand =
    (if given (oe_operatorCommand failure) then failure
     else case oauthReasonForCode (oe_code failure) of
         None \<Rightarrow> failure
       | Some reason \<Rightarrow>
           if reason \<in> set NO_LOGIN_ADVICE then failure
           else failure\<lparr>oe_message := (if oe_code failure = ''OAUTH_INVALID_GRANT''
               then ''OAuth refresh grant is invalid or revoked. Run '' @ operatorCommand @ ''.''
               else if oe_ambiguous failure then refreshUncertainMessage operatorCommand else oe_message failure),
             oe_operatorCommand := Some operatorCommand\<rparr>)"

section \<open>Changes of a session\<close>

definition mark_uncertain :: "int \<Rightarrow> oauth_session \<Rightarrow> oauth_session" where
  "mark_uncertain now s = s\<lparr>os_refreshState := Some \<lparr>rf_uncertain = True, rf_at = iso_of_ms now, rf_retryAfter = None\<rparr>\<rparr>"

definition mark_reauthorization :: "string \<Rightarrow> oauth_session \<Rightarrow> oauth_session" where
  "mark_reauthorization reason s = s\<lparr>os_reauthorizationRequired := True, os_reauthorizationReason := Some reason\<rparr>"

definition is_uncertain :: "oauth_session \<Rightarrow> bool" where
  "is_uncertain s \<longleftrightarrow> (case os_refreshState s of None \<Rightarrow> False | Some r \<Rightarrow> rf_uncertain r)"

definition next_tokens :: "oauth_tokens option \<Rightarrow> oauth_tokens \<Rightarrow> oauth_tokens" where
  "next_tokens previous t =
    t\<lparr>tk_refresh := (case tk_refresh t of Some r \<Rightarrow> Some r
        | None \<Rightarrow> (case previous of None \<Rightarrow> None | Some p \<Rightarrow> if given (tk_refresh p) then tk_refresh p else None)),
      tk_scope := (case tk_scope t of Some x \<Rightarrow> Some x | None \<Rightarrow> (case previous of None \<Rightarrow> None | Some p \<Rightarrow> tk_scope p))\<rparr>"

definition saveTokens :: "int \<Rightarrow> int \<Rightarrow> int \<Rightarrow> oauth_tokens \<Rightarrow> oauth_session \<Rightarrow> oauth_session" where
  "saveTokens now random jitterMax t s = s\<lparr>os_tokens := Some (next_tokens (os_tokens s) t), os_tokensSavedAt := Some (iso_of_ms now),
     os_refreshJitterMs := Some (boundedJitter random jitterMax), os_reauthorizationRequired := False,
     os_reauthorizationReason := None, os_refreshState := None\<rparr>"

text \<open>\<open>persistTokenFailure\<close>: the session in memory, and whether it is written.\<close>

definition persistTokenFailure :: "int \<Rightarrow> operator_error \<Rightarrow> oauth_session \<Rightarrow> oauth_session \<times> bool" where
  "persistTokenFailure now failure s =
    (if oe_ambiguous failure then (mark_uncertain now s, True)
     else let cleared = is_uncertain s; s' = (if cleared then s\<lparr>os_refreshState := None\<rparr> else s) in
       if oe_code failure = ''OAUTH_INVALID_GRANT'' then (mark_reauthorization ''invalid_grant'' s', True)
       else if oe_code failure = ''OAUTH_RATE_LIMITED''
       then (s'\<lparr>os_refreshState := Some \<lparr>rf_uncertain = False, rf_at = iso_of_ms now,
           rf_retryAfter = Some (iso_of_ms (now + (case oe_retryAfterSeconds failure of None \<Rightarrow> 60 | Some x \<Rightarrow> x) * 1000))\<rparr>\<rparr>, True)
       else (s', cleared))"

section \<open>The state\<close>

datatype oauth_note = Sent_Refresh string | Definite_Failure | Tokens_Saved | New_Grant

fun sent_count :: "oauth_note list \<Rightarrow> nat" where
  "sent_count [] = 0"
| "sent_count (Sent_Refresh t # ns) = Suc (sent_count ns)"
| "sent_count (n # ns) = sent_count ns"

datatype transaction_point =
    T_Loading
  | T_Document oauth_session
  | T_Reauthorizing oauth_session oauth_failure
  | T_Marking oauth_session
  | T_Sent oauth_session
  | T_Saving oauth_session oauth_tokens
  | T_Auditing oauth_session
  | T_Failing oauth_session operator_error

record transaction =
  tr_request :: session_request
  tr_expected :: expectation
  tr_command :: string
  tr_point :: transaction_point

datatype prepare_result = Refused prepare_error | Prepared nat | Threw string

datatype caller_status =
    Caller_Waiting
  | Caller_Reading
  | Caller_Marking oauth_session
  | Caller_Joining
  | Caller_Rereading
  | Caller_Done prepare_result

record prepare_caller =
  cl_request :: session_request
  cl_expected :: expectation
  cl_command :: string
  cl_status :: caller_status

record provider =
  pv_session :: oauth_session
  pv_command :: string
  pv_tokenFailure :: "operator_error option"
  pv_awaitingSave :: bool
  pv_sent :: bool

text \<open>
  \<open>ow_logins\<close> holds what each login read, with the number of refresh requests sent before,
  which only the statements read.
\<close>

record oauth_world =
  ow_file :: "oauth_session option"
  ow_logins :: "(oauth_session option \<times> nat) list"
  ow_transaction :: "transaction option"
  ow_callers :: "prepare_caller list"
  ow_providers :: "provider list"
  ow_log :: "oauth_note list"

definition note_oauth :: "oauth_note \<Rightarrow> oauth_world \<Rightarrow> oauth_world" where
  "note_oauth n w = w\<lparr>ow_log := ow_log w @ [n]\<rparr>"

definition write_file :: "bool \<Rightarrow> oauth_session \<Rightarrow> oauth_world \<Rightarrow> oauth_world" where
  "write_file ok s w = (if ok then w\<lparr>ow_file := Some s\<rparr> else w)"

definition set_caller :: "nat \<Rightarrow> caller_status \<Rightarrow> oauth_world \<Rightarrow> oauth_world" where
  "set_caller i status w = w\<lparr>ow_callers := (ow_callers w)[i := (ow_callers w ! i)\<lparr>cl_status := status\<rparr>]\<rparr>"

definition set_point :: "transaction_point \<Rightarrow> transaction \<Rightarrow> oauth_world \<Rightarrow> oauth_world" where
  "set_point p t w = w\<lparr>ow_transaction := Some (t\<lparr>tr_point := p\<rparr>)\<rparr>"

text \<open>The end of a transaction: those that joined it go on, those that waited on entry read the file.\<close>

definition end_transaction :: "oauth_failure option \<Rightarrow> oauth_world \<Rightarrow> oauth_world" where
  "end_transaction failure w = w\<lparr>ow_transaction := None, ow_callers := map (\<lambda>c. c\<lparr>cl_status := (case cl_status c of
       Caller_Waiting \<Rightarrow> Caller_Reading
     | Caller_Joining \<Rightarrow> (case failure of
           None \<Rightarrow> Caller_Rereading
         | Some e \<Rightarrow> Caller_Done (Refused (classifyOAuthPrepareError e (cl_command c))))
     | st \<Rightarrow> st)\<rparr>) (ow_callers w)\<rparr>"

section \<open>Preparing a dispatch\<close>

definition refuse :: "prepare_caller \<Rightarrow> string \<Rightarrow> string \<Rightarrow> int option \<Rightarrow> caller_status" where
  "refuse c code message retryAfter = Caller_Done (Refused (prepareError code message (Some (cl_command c)) retryAfter))"

definition enter_caller :: "session_request \<Rightarrow> expectation \<Rightarrow> string \<Rightarrow> oauth_world \<Rightarrow> oauth_world" where
  "enter_caller r expected operatorCommand w = w\<lparr>ow_callers := ow_callers w @ [\<lparr>cl_request = r, cl_expected = expected, cl_command = operatorCommand,
     cl_status = (if ow_transaction w \<noteq> None then Caller_Waiting else Caller_Reading)\<rparr>]\<rparr>"

definition join_or_start :: "nat \<Rightarrow> prepare_caller \<Rightarrow> oauth_world \<Rightarrow> oauth_world" where
  "join_or_start i c w = set_caller i Caller_Joining (case ow_transaction w of
       Some t \<Rightarrow> w
     | None \<Rightarrow> w\<lparr>ow_transaction := Some \<lparr>tr_request = cl_request c, tr_expected = cl_expected c, tr_command = cl_command c, tr_point = T_Loading\<rparr>\<rparr>)"

text \<open>After the file has been read: up to the next await.\<close>

definition caller_read :: "('a) web_host_scheme \<Rightarrow> int \<Rightarrow> nat \<Rightarrow> prepare_caller \<Rightarrow> oauth_world \<Rightarrow> oauth_world" where
  "caller_read H now i c w = (case bound_session (cl_request c) (ow_file w) of
     None \<Rightarrow> set_caller i (refuse c ''OAUTH_LOGIN_REQUIRED'' (''OAuth login required. Run '' @ cl_command c @ ''.'') None) w
   | Some s \<Rightarrow>
       if os_reauthorizationRequired s
       then set_caller i (refuse c ''OAUTH_REAUTHORIZATION_REQUIRED'' (''OAuth reauthorization required. Run '' @ cl_command c @ ''.'') None) w
       else if is_uncertain s then set_caller i (refuse c ''OAUTH_TOKEN_REFRESH_FAILED'' (refreshUncertainMessage (cl_command c)) None) w
       else case sessionMatchesExpectation H s (cl_expected c) of
           Inl e \<Rightarrow> set_caller i (Caller_Done (Threw e)) w
         | Inr False \<Rightarrow> set_caller i (Caller_Marking (mark_reauthorization ''binding_mismatch'' s)) w
         | Inr True \<Rightarrow> (case normalizeRefreshPolicy (ex_refresh (cl_expected c)) of
               Inl e \<Rightarrow> set_caller i (Caller_Done (Threw e)) w
             | Inr policy \<Rightarrow>
                 if \<not> shouldRefreshAccessToken H s policy now then set_caller i Caller_Rereading w
                 else if (case os_tokens s of None \<Rightarrow> True | Some t \<Rightarrow> tk_refresh t = None)
                 then (if isAccessTokenExpired H (os_tokens s) (os_tokensSavedAt s) now
                   then set_caller i (refuse c ''OAUTH_LOGIN_REQUIRED''
                     (''OAuth access token expired and the server issued no refresh token. Run '' @ cl_command c @ ''.'') None) w
                   else set_caller i Caller_Rereading w)
                 else (case (case os_refreshState s of None \<Rightarrow> None | Some r \<Rightarrow> (case rf_retryAfter r of None \<Rightarrow> None | Some t \<Rightarrow> date_parse (legacy_date H) t)) of
                     None \<Rightarrow> join_or_start i c w
                   | Some until \<Rightarrow>
                       if now < until
                       then set_caller i (refuse c ''OAUTH_RATE_LIMITED''
                         ''OAuth token refresh is rate limited; the adapter will retry after the server's Retry-After.''
                         (Some (- ((now - until) div 1000)))) w
                       else join_or_start i c w)))"

definition caller_marked :: "bool \<Rightarrow> nat \<Rightarrow> prepare_caller \<Rightarrow> oauth_session \<Rightarrow> oauth_world \<Rightarrow> oauth_world" where
  "caller_marked ok i c s w = set_caller i
     (if ok then refuse c ''OAUTH_REAUTHORIZATION_REQUIRED'' (''OAuth session binding changed. Run '' @ cl_command c @ ''.'') None
      else Caller_Done (Threw ''The session file could not be written.'')) (write_file ok s w)"

definition caller_reread :: "nat \<Rightarrow> prepare_caller \<Rightarrow> oauth_world \<Rightarrow> oauth_world" where
  "caller_reread i c w = (case bound_session (cl_request c) (ow_file w) of
     None \<Rightarrow> set_caller i (refuse c ''OAUTH_REAUTHORIZATION_REQUIRED'' (''OAuth reauthorization required. Run '' @ cl_command c @ ''.'') None) w
   | Some s \<Rightarrow>
       if os_reauthorizationRequired s
       then set_caller i (refuse c ''OAUTH_REAUTHORIZATION_REQUIRED'' (''OAuth reauthorization required. Run '' @ cl_command c @ ''.'') None) w
       else set_caller i (Caller_Done (Prepared (length (ow_providers w))))
         (w\<lparr>ow_providers := ow_providers w @ [\<lparr>pv_session = s, pv_command = cl_command c, pv_tokenFailure = None,
           pv_awaitingSave = False, pv_sent = False\<rparr>]\<rparr>))"

section \<open>The transaction\<close>

definition transaction_loaded :: "('a) web_host_scheme \<Rightarrow> int \<Rightarrow> transaction \<Rightarrow> oauth_world \<Rightarrow> oauth_world" where
  "transaction_loaded H now t w =
    (let operatorCommand = tr_command t;
         reauthorize = Reauthorization_Failure operatorCommand (''OAuth reauthorization required. Run '' @ operatorCommand @ ''.'') in
     case bound_session (tr_request t) (ow_file w) of
       None \<Rightarrow> end_transaction (Some reauthorize) w
     | Some s \<Rightarrow>
         if os_reauthorizationRequired s then end_transaction (Some reauthorize) w
         else if is_uncertain s
         then end_transaction (Some (Operator_Failure ((operatorError ''OAUTH_TOKEN_REFRESH_FAILED'' (refreshUncertainMessage operatorCommand))
           \<lparr>oe_operatorCommand := Some operatorCommand\<rparr>))) w
         else case normalizeRefreshPolicy (ex_refresh (tr_expected t)) of
             Inl e \<Rightarrow> end_transaction (Some (Plain_Failure e)) w
           | Inr policy \<Rightarrow>
               if \<not> shouldRefreshAccessToken H s policy now then end_transaction None w
               else if (case os_tokens s of None \<Rightarrow> True | Some x \<Rightarrow> tk_refresh x = None)
               then end_transaction (Some (Operator_Failure ((operatorError ''OAUTH_LOGIN_REQUIRED''
                 (''OAuth access token expired and the server issued no refresh token. Run '' @ operatorCommand @ ''.''))
                 \<lparr>oe_operatorCommand := Some operatorCommand\<rparr>))) w
               else if os_discovery s = None \<or> os_clientInformation s = None
               then set_point (T_Reauthorizing (mark_reauthorization ''grant_unusable'' s) reauthorize) t w
               else if (case os_binding s of None \<Rightarrow> False | Some b \<Rightarrow> ob_clientMode b = Cimd_Mode) then set_point (T_Document s) t w
               else set_point (T_Marking s) t w)"

text \<open>
  \<open>assertClientDocumentUnchanged\<close>: the validated document or why there is none, and what
  \<open>selectClientAuthentication\<close> answers for it.
\<close>

definition document_checked ::
    "oauth_failure + jsval \<Rightarrow> oauth_failure + client_authentication option \<Rightarrow> transaction \<Rightarrow> oauth_session \<Rightarrow> oauth_world \<Rightarrow> oauth_world" where
  "document_checked document current t s w =
    (let changed = (\<lambda>m. set_point (T_Reauthorizing (mark_reauthorization ''binding_mismatch'' s)
           (Reauthorization_Failure (tr_command t) (m @ '' Run '' @ tr_command t @ ''.''))) t w);
         bound = (case os_binding s of None \<Rightarrow> None | Some b \<Rightarrow> ob_clientAuthentication b) in
     case document of
       Inl e \<Rightarrow> (case e of
           Operator_Failure x \<Rightarrow>
             if oe_code x = ''OAUTH_TEMPORARILY_UNAVAILABLE'' \<or> oe_code x = ''OAUTH_RATE_LIMITED'' then end_transaction (Some e) w
             else changed ''The OAuth client document no longer matches this session.''
         | _ \<Rightarrow> changed ''The OAuth client document no longer matches this session.'')
     | Inr v \<Rightarrow>
         if (case js_get v ''token_endpoint_auth_method'' of Undefined \<Rightarrow> Str ''none'' | Null \<Rightarrow> Str ''none'' | x \<Rightarrow> x) \<noteq>
           Str (case bound of None \<Rightarrow> ''none'' | Some a \<Rightarrow> ca_method a)
         then changed ''The OAuth client document's authentication method changed since login.''
         else case bound of
             None \<Rightarrow> set_point (T_Marking s) t w
           | Some a \<Rightarrow> (case current of
               Inl e \<Rightarrow> end_transaction (Some e) w
             | Inr k \<Rightarrow>
                 if (case k of None \<Rightarrow> False | Some x \<Rightarrow> ca_keyDid x = ca_keyDid a \<and> ca_algorithm x = ca_algorithm a)
                 then set_point (T_Marking s) t w
                 else changed ''The OAuth client key changed since login.''))"

definition unsent_failure :: operator_error where
  "unsent_failure = operatorError ''OAUTH_UNKNOWN_ERROR'' ''The refresh state could not be recorded, so the refresh request was not sent''"

definition unanswered_failure :: operator_error where
  "unanswered_failure = operatorError ''OAUTH_UNKNOWN_ERROR'' ''OAuth token refresh failed before a response was received''"

definition unusable_failure :: operator_error where
  "unusable_failure = (operatorError ''OAUTH_TOKEN_REFRESH_FAILED'' ''The refresh response could not be used'')\<lparr>oe_ambiguous := True\<rparr>"

definition refresh_token_of :: "oauth_session \<Rightarrow> string" where
  "refresh_token_of s = (case os_tokens s of None \<Rightarrow> [] | Some t \<Rightarrow> (case tk_refresh t of None \<Rightarrow> [] | Some r \<Rightarrow> r))"

text \<open>The marker is written before the request is sent; a failed write sends nothing.\<close>

definition transaction_marked :: "int \<Rightarrow> bool \<Rightarrow> transaction \<Rightarrow> oauth_session \<Rightarrow> oauth_world \<Rightarrow> oauth_world" where
  "transaction_marked now ok t s w = (let s' = mark_uncertain now s in
     if ok then note_oauth (Sent_Refresh (refresh_token_of s')) (set_point (T_Sent s') t (write_file True s' w))
     else set_point (T_Failing s' unsent_failure) t w)"

definition note_failure :: "operator_error \<Rightarrow> oauth_world \<Rightarrow> oauth_world" where
  "note_failure e w = (if oe_ambiguous e then w else note_oauth Definite_Failure w)"

text \<open>The answer to the request, and the tokens that the SDK reads from a usable response.\<close>

definition transaction_answered ::
    "('a) web_host_scheme \<Rightarrow> int \<Rightarrow> fetch_error + web_response \<Rightarrow> oauth_tokens option \<Rightarrow> transaction \<Rightarrow> oauth_session \<Rightarrow> oauth_world \<Rightarrow> oauth_world" where
  "transaction_answered H now outcome tokens t s w = (case observed_response H now Refresh_Token outcome of
       Inl failure \<Rightarrow> set_point (T_Failing s failure) t (note_failure failure w)
     | Inr response \<Rightarrow> (case tokens of
           None \<Rightarrow> set_point (T_Failing s unusable_failure) t w
         | Some x \<Rightarrow> set_point (T_Saving s x) t w))"

definition transaction_saved :: "int \<Rightarrow> int \<Rightarrow> bool \<Rightarrow> transaction \<Rightarrow> oauth_session \<Rightarrow> oauth_tokens \<Rightarrow> oauth_world \<Rightarrow> oauth_world" where
  "transaction_saved now random ok t s x w =
    (let jitterMax = (if os_binding s = None then 0
           else case normalizeRefreshPolicy (ex_refresh (tr_expected t)) of Inl _ \<Rightarrow> 0 | Inr p \<Rightarrow> rp_jitterMaxMs p);
         s' = saveTokens now random jitterMax x s in
     if ok then note_oauth Tokens_Saved (set_point (T_Auditing s') t (write_file True s' w))
     else set_point (T_Failing s' unusable_failure) t w)"

definition transaction_audited :: "bool \<Rightarrow> transaction \<Rightarrow> oauth_session \<Rightarrow> oauth_world \<Rightarrow> oauth_world" where
  "transaction_audited ok t s w = (if ok then end_transaction None w else set_point (T_Failing s unusable_failure) t w)"

definition transaction_failed :: "int \<Rightarrow> bool \<Rightarrow> transaction \<Rightarrow> oauth_session \<Rightarrow> operator_error \<Rightarrow> oauth_world \<Rightarrow> oauth_world" where
  "transaction_failed now ok t s failure w = (case persistTokenFailure now failure s of
     (s', written) \<Rightarrow> end_transaction (Some (Operator_Failure (withOperatorCommand failure (tr_command t)))) (write_file (ok \<and> written) s' w))"

section \<open>Providers\<close>

definition set_provider :: "nat \<Rightarrow> provider \<Rightarrow> oauth_world \<Rightarrow> oauth_world" where
  "set_provider i p w = w\<lparr>ow_providers := (ow_providers w)[i := p]\<rparr>"

text \<open>The SDK refreshes after a 401, through \<open>wrapFetch\<close>.\<close>

definition provider_refreshes :: "int \<Rightarrow> bool \<Rightarrow> nat \<Rightarrow> provider \<Rightarrow> oauth_world \<Rightarrow> oauth_world" where
  "provider_refreshes now ok i p w = (let s' = mark_uncertain now (pv_session p) in
     if (case os_tokens s' of None \<Rightarrow> True | Some t \<Rightarrow> tk_refresh t = None) then w
     else if ok then note_oauth (Sent_Refresh (refresh_token_of s'))
       (set_provider i (p\<lparr>pv_session := s', pv_sent := True\<rparr>) (write_file True s' w))
     else set_provider i (p\<lparr>pv_session := s', pv_tokenFailure := Some unsent_failure\<rparr>) w)"

text \<open>
  The answer passes \<open>guardOAuthScopes\<close> before \<open>wrapFetch\<close> reads it, with the scopes configured for the
  target. A denial that the guard throws is not reported to \<open>onFailure\<close>; \<open>recorded\<close> says
  whether \<open>recordAccessDenied\<close> could write the file.
\<close>

definition token_failed :: "operator_error \<Rightarrow> bool \<Rightarrow> nat \<Rightarrow> provider \<Rightarrow> oauth_world \<Rightarrow> oauth_world" where
  "token_failed failure succeeded i p w = set_provider i (p\<lparr>pv_tokenFailure := Some failure, pv_sent := False,
     pv_awaitingSave := pv_awaitingSave p \<or> succeeded\<rparr>) (note_failure failure w)"

definition record_denied :: "int \<Rightarrow> oauth_session \<Rightarrow> oauth_session" where
  "record_denied now s = s\<lparr>os_accessDenied := Some (iso_of_ms now)\<rparr>"

definition provider_denied :: "int \<Rightarrow> bool \<Rightarrow> nat \<Rightarrow> provider \<Rightarrow> oauth_world \<Rightarrow> oauth_world" where
  "provider_denied now ok i p w = (let s' = record_denied now (pv_session p) in
     set_provider i (p\<lparr>pv_session := s'\<rparr>) (write_file ok s' w))"

definition lost_answer :: operator_error where
  "lost_answer = tokenTransportFailure (Thrown (Obj [])) Refresh_Token"

definition provider_answered ::
    "('a) web_host_scheme \<Rightarrow> int \<Rightarrow> string list \<Rightarrow> bool \<Rightarrow> fetch_error + web_response \<Rightarrow> nat \<Rightarrow> provider \<Rightarrow> oauth_world \<Rightarrow> oauth_world" where
  "provider_answered H now configured recorded outcome i p w = (case outcome of
       Inl e \<Rightarrow> token_failed (tokenTransportFailure e Refresh_Token) False i p w
     | Inr response \<Rightarrow> (case guardOAuthScopes H configured
           (map_option ob_requestedScopes (os_binding (pv_session p)))
           (case os_tokens (pv_session p) of None \<Rightarrow> None | Some t \<Rightarrow> tk_scope t) response of
         Inl (Scope_Change_Required c) \<Rightarrow> token_failed lost_answer False i p w
       | Inl (Denied e) \<Rightarrow>
           (let p' = p\<lparr>pv_sent := False\<rparr> in
            if \<not> snd (resourceDenial H response) then set_provider i p' w
            else if recorded then provider_denied now True i p' w
            else token_failed lost_answer False i (p\<lparr>pv_session := record_denied now (pv_session p)\<rparr>) w)
       | Inr passed \<Rightarrow> (case observed_response H now Refresh_Token (Inr passed) of
             Inl failure \<Rightarrow> token_failed failure (200 \<le> ws_status passed \<and> ws_status passed < 300) i p w
           | Inr usable \<Rightarrow> set_provider i (p\<lparr>pv_awaitingSave := True, pv_sent := False\<rparr>) w)))"

definition provider_saves :: "int \<Rightarrow> int \<Rightarrow> bool \<Rightarrow> oauth_tokens \<Rightarrow> nat \<Rightarrow> provider \<Rightarrow> oauth_world \<Rightarrow> oauth_world" where
  "provider_saves now random ok x i p w = (let s' = saveTokens now random 0 x (pv_session p) in
     if ok then note_oauth Tokens_Saved (set_provider i (p\<lparr>pv_session := s', pv_awaitingSave := False\<rparr>) (write_file True s' w))
     else set_provider i (p\<lparr>pv_session := s'\<rparr>) w)"

text \<open>\<open>dispatchCannotAuthorize\<close>: the SDK has given the refresh up and asks for consent.\<close>

definition settled_failure :: "provider \<Rightarrow> operator_error option" where
  "settled_failure p = (case pv_tokenFailure p of
       Some e \<Rightarrow> Some e | None \<Rightarrow> if pv_awaitingSave p then Some unusable_failure else None)"

definition provider_settles :: "int \<Rightarrow> bool \<Rightarrow> nat \<Rightarrow> provider \<Rightarrow> oauth_world \<Rightarrow> oauth_world" where
  "provider_settles now ok i p w = (case settled_failure p of
       None \<Rightarrow> w
     | Some failure \<Rightarrow> (case persistTokenFailure now failure (pv_session p) of
         (s', written) \<Rightarrow> set_provider i (p\<lparr>pv_session := s'\<rparr>) (write_file (ok \<and> written) s' w)))"

definition dispatchCannotAuthorize :: "provider \<Rightarrow> oauth_failure" where
  "dispatchCannotAuthorize p = (case settled_failure p of
       Some failure \<Rightarrow> Operator_Failure (withOperatorCommand failure (pv_command p))
     | None \<Rightarrow> Reauthorization_Failure (pv_command p)
         (''OAuth reauthorization required. The Credential Adapter cannot start a browser during dispatch. Run '' @ pv_command p @ ''.''))"

section \<open>The machine\<close>

datatype oauth_event =
    P_Enter session_request expectation string
  | P_Read nat
  | P_Marked nat bool
  | P_Reread nat
  | R_Loaded
  | R_Document "oauth_failure + jsval" "oauth_failure + client_authentication option"
  | R_Reauthorized bool
  | R_Unsent "operator_error option"
  | R_Marked bool
  | R_Answered "fetch_error + web_response" "oauth_tokens option"
  | R_Saved int bool
  | R_Audited bool
  | R_Failed bool
  | V_Refresh nat bool
  | V_Answered nat "string list" bool "fetch_error + web_response"
  | V_Saved nat oauth_tokens int bool
  | V_Settled nat bool
  | V_Denied nat bool
  | O_Login_Reads
  | O_Login_Writes oauth_session
  | O_Login_Restores nat
  | O_Logout
  | O_Crash

definition with_caller :: "nat \<Rightarrow> (prepare_caller \<Rightarrow> oauth_world \<Rightarrow> oauth_world) \<Rightarrow> oauth_world \<Rightarrow> oauth_world" where
  "with_caller i f w = (if i < length (ow_callers w) then f (ow_callers w ! i) w else w)"

definition with_provider :: "nat \<Rightarrow> (provider \<Rightarrow> oauth_world \<Rightarrow> oauth_world) \<Rightarrow> oauth_world \<Rightarrow> oauth_world" where
  "with_provider i f w = (if i < length (ow_providers w) then f (ow_providers w ! i) w else w)"

definition with_transaction :: "(transaction \<Rightarrow> transaction_point \<Rightarrow> oauth_world \<Rightarrow> oauth_world) \<Rightarrow> oauth_world \<Rightarrow> oauth_world" where
  "with_transaction f w = (case ow_transaction w of None \<Rightarrow> w | Some t \<Rightarrow> f t (tr_point t) w)"

fun oauth_step :: "('a) web_host_scheme \<Rightarrow> oauth_world \<Rightarrow> int \<times> oauth_event \<Rightarrow> oauth_world" where
  "oauth_step H w (now, P_Enter r e c) = enter_caller r e c w"
| "oauth_step H w (now, P_Read i) = with_caller i (\<lambda>c w. if cl_status c = Caller_Reading then caller_read H now i c w else w) w"
| "oauth_step H w (now, P_Marked i ok) = with_caller i (\<lambda>c w. case cl_status c of Caller_Marking s \<Rightarrow> caller_marked ok i c s w | _ \<Rightarrow> w) w"
| "oauth_step H w (now, P_Reread i) = with_caller i (\<lambda>c w. if cl_status c = Caller_Rereading then caller_reread i c w else w) w"
| "oauth_step H w (now, R_Loaded) = with_transaction (\<lambda>t p w. if p = T_Loading then transaction_loaded H now t w else w) w"
| "oauth_step H w (now, R_Document d k) = with_transaction (\<lambda>t p w. case p of T_Document s \<Rightarrow> document_checked d k t s w | _ \<Rightarrow> w) w"
| "oauth_step H w (now, R_Reauthorized ok) = with_transaction (\<lambda>t p w. case p of
     T_Reauthorizing s e \<Rightarrow> end_transaction (Some (if ok then e else Plain_Failure ''The session file could not be written.'')) (write_file ok s w) | _ \<Rightarrow> w) w"
| "oauth_step H w (now, R_Unsent e) = with_transaction (\<lambda>t p w. case p of
     T_Marking s \<Rightarrow> set_point (T_Failing s (case e of None \<Rightarrow> unanswered_failure | Some x \<Rightarrow> x)) t w | _ \<Rightarrow> w) w"
| "oauth_step H w (now, R_Marked ok) = with_transaction (\<lambda>t p w. case p of T_Marking s \<Rightarrow> transaction_marked now ok t s w | _ \<Rightarrow> w) w"
| "oauth_step H w (now, R_Answered outcome tokens) = with_transaction (\<lambda>t p w. case p of T_Sent s \<Rightarrow> transaction_answered H now outcome tokens t s w | _ \<Rightarrow> w) w"
| "oauth_step H w (now, R_Saved random ok) = with_transaction (\<lambda>t p w. case p of T_Saving s x \<Rightarrow> transaction_saved now random ok t s x w | _ \<Rightarrow> w) w"
| "oauth_step H w (now, R_Audited ok) = with_transaction (\<lambda>t p w. case p of T_Auditing s \<Rightarrow> transaction_audited ok t s w | _ \<Rightarrow> w) w"
| "oauth_step H w (now, R_Failed ok) = with_transaction (\<lambda>t p w. case p of T_Failing s e \<Rightarrow> transaction_failed now ok t s e w | _ \<Rightarrow> w) w"
| "oauth_step H w (now, V_Refresh i ok) = with_provider i (\<lambda>p w. if pv_sent p then w else provider_refreshes now ok i p w) w"
| "oauth_step H w (now, V_Answered i configured recorded outcome) = with_provider i
     (\<lambda>p w. if pv_sent p then provider_answered H now configured recorded outcome i p w else w) w"
| "oauth_step H w (now, V_Saved i x random ok) = with_provider i (\<lambda>p w. if pv_awaitingSave p then provider_saves now random ok x i p w else w) w"
| "oauth_step H w (now, V_Settled i ok) = with_provider i (\<lambda>p w. provider_settles now ok i p w) w"
| "oauth_step H w (now, V_Denied i ok) = with_provider i (\<lambda>p w. provider_denied now ok i p w) w"
| "oauth_step H w (now, O_Login_Reads) = w\<lparr>ow_logins := ow_logins w @ [(ow_file w, sent_count (ow_log w))]\<rparr>"
| "oauth_step H w (now, O_Login_Writes s) =
     (if os_tokens s = None then w\<lparr>ow_file := Some s\<rparr> else note_oauth New_Grant (w\<lparr>ow_file := Some s\<rparr>))"
| "oauth_step H w (now, O_Login_Restores i) = (if i < length (ow_logins w) then w\<lparr>ow_file := fst (ow_logins w ! i)\<rparr> else w)"
| "oauth_step H w (now, O_Logout) = w\<lparr>ow_file := None\<rparr>"
| "oauth_step H w (now, O_Crash) = w\<lparr>ow_transaction := None, ow_callers := [], ow_providers := []\<rparr>"

definition run_oauth :: "('a) web_host_scheme \<Rightarrow> oauth_world \<Rightarrow> (int \<times> oauth_event) list \<Rightarrow> oauth_world" where
  "run_oauth H w events = foldl (oauth_step H) w events"

definition newWorld :: "oauth_session option \<Rightarrow> oauth_world" where
  "newWorld file = \<lparr>ow_file = file, ow_logins = [], ow_transaction = None, ow_callers = [], ow_providers = [], ow_log = []\<rparr>"

end
