(* ===== verification/OAuthExample.thy ===== *)
theory OAuthExample
  imports OAuthRefresh
begin

text \<open>A host, a stored session and two runs for the properties of the OAuth parts.\<close>

definition ox_host :: web_host where
  "ox_host = \<lparr>jcs = (\<lambda>v. []), sha256 = (\<lambda>s. s), legacy_date = (\<lambda>s. None), url_parse = (\<lambda>s. None),
     web_url = (\<lambda>s. if s = ''https://t/'' then Some \<lparr>wu_href = ''https://t/'', wu_protocol = ''https:'', wu_hostname = ''t'', wu_host = ''t''\<rparr> else None),
     json_parse = (\<lambda>s. if s = ''g'' then Some (Obj [(''error'', Str ''invalid_grant'')])
       else if s = ''t'' then Some (Obj [(''access_token'', Str ''a''), (''token_type'', Str ''Bearer'')]) else None),
     challenge_params = (\<lambda>h. (None, Some ''a''))\<rparr>"

definition ox_tokens :: oauth_tokens where
  "ox_tokens = \<lparr>tk_access = ''a'', tk_refresh = Some ''r'', tk_expires_in = Some 0, tk_scope = None\<rparr>"

text \<open>The session, with the time at which its tokens were saved.\<close>

definition ox_session :: "timestamp option \<Rightarrow> oauth_session" where
  "ox_session saved = \<lparr>os_session = ''s'', os_credentialHandle = ''h'', os_applicationDid = ''did:web:app'', os_resourceUrl = ''https://t/'',
     os_owner = None, os_sharing = None, os_binding = None, os_reauthorizationRequired = False, os_reauthorizationReason = None,
     os_clientInformation = Some Null, os_tokens = Some ox_tokens, os_discovery = Some Null, os_tokensSavedAt = saved,
     os_refreshJitterMs = None, os_refreshState = None, os_accessDenied = None\<rparr>"

definition ox_request :: session_request where
  "ox_request = \<lparr>sr_session = ''s'', sr_credentialHandle = ''h'', sr_applicationDid = ''did:web:app'', sr_resourceUrl = ''https://t/''\<rparr>"

definition ox_expected :: expectation where
  "ox_expected = \<lparr>ex_keys = [], ex_scopes = None, ex_refreshScope = None, ex_issuer = None, ex_client = None, ex_owner = None,
     ex_sharing = None, ex_refresh = (None, None)\<rparr>"

lemma ox_time: "date_parse f (iso_of_ms 0) = Some 0" "iso_of_ms 0 \<noteq> []"
proof -
  have r: "iso_range 0" by code_simp
  then show "date_parse f (iso_of_ms 0) = Some 0" by (rule date_parse_iso)
  from iso_of_ms_form [OF r] show "iso_of_ms 0 \<noteq> []" by (auto simp: iso_ms_form_def)
qed

lemma ox_policy: "normalizeRefreshPolicy (None, None) = Inr \<lparr>rp_safetyWindowMs = 60000, rp_jitterMaxMs = 30000\<rparr>"
  by (simp add: normalizeRefreshPolicy_def policy_number_def)

lemma ox_due: "shouldRefreshAccessToken ox_host (ox_session (Some (iso_of_ms 0))) \<lparr>rp_safetyWindowMs = 60000, rp_jitterMaxMs = 30000\<rparr> 0"
    "\<not> shouldRefreshAccessToken ox_host (ox_session None) p 0"
  by (simp_all add: shouldRefreshAccessToken_def isAccessTokenRefreshDue_def saved_time_def ox_session_def ox_tokens_def ox_host_def ox_time
      MAX_OAUTH_REFRESH_SAFETY_WINDOW_MS_def MAX_OAUTH_REFRESH_JITTER_MS_def)

lemma ox_bound: "bound_session ox_request (Some (ox_session t)) = Some (ox_session t)"
    "sessionMatchesExpectation H (ox_session t) ox_expected = Inr True"
    "\<not> os_reauthorizationRequired (ox_session t)" "\<not> is_uncertain (ox_session t)" "ex_refresh ox_expected = (None, None)"
  by (simp_all add: bound_session_def ox_request_def ox_session_def sessionMatchesExpectation_def ox_expected_def is_uncertain_def)

section \<open>A refresh whose answer is lost\<close>

definition ox_lost :: "(int \<times> oauth_event) list" where
  "ox_lost = map (Pair 0) [P_Enter ox_request ox_expected ''login'', P_Read 0, R_Loaded, R_Marked True, O_Crash]"

lemma ox_lost_run: "run_oauth ox_host (newWorld (Some (ox_session (Some (iso_of_ms 0))))) ox_lost =
    (newWorld (Some (mark_uncertain 0 (ox_session (Some (iso_of_ms 0))))))\<lparr>ow_log := [Sent_Refresh ''r'']\<rparr>"
proof -
  let ?s = "ox_session (Some (iso_of_ms 0))"
  have f: "os_refreshState ?s = None" "os_tokens ?s = Some ox_tokens" "os_binding ?s = None" "os_discovery ?s = Some Null"
    "os_clientInformation ?s = Some Null" "tk_refresh ox_tokens = Some ''r''" "refresh_token_of (mark_uncertain 0 ?s) = ''r''"
    by (simp_all add: ox_session_def ox_tokens_def refresh_token_of_def mark_uncertain_def)
  show ?thesis
    by (simp add: run_oauth_def ox_lost_def newWorld_def enter_caller_def with_caller_def caller_read_def ox_bound ox_policy ox_due f
        join_or_start_def set_caller_def with_transaction_def transaction_loaded_def set_point_def transaction_marked_def note_oauth_def
        write_file_def Let_def)
qed

text \<open>The same from any world in which nothing is going on, and around a login that fails.\<close>

lemma ox_lost_from:
  assumes "ow_file w = Some (ox_session (Some (iso_of_ms 0)))" "ow_transaction w = None" "ow_callers w = []"
  shows "run_oauth ox_host w ox_lost = w\<lparr>ow_file := Some (mark_uncertain 0 (ox_session (Some (iso_of_ms 0)))),
    ow_providers := [], ow_log := ow_log w @ [Sent_Refresh ''r'']\<rparr>"
proof -
  let ?s = "ox_session (Some (iso_of_ms 0))"
  have f: "os_refreshState ?s = None" "os_tokens ?s = Some ox_tokens" "os_binding ?s = None" "os_discovery ?s = Some Null"
    "os_clientInformation ?s = Some Null" "tk_refresh ox_tokens = Some ''r''" "refresh_token_of (mark_uncertain 0 ?s) = ''r''"
    by (simp_all add: ox_session_def ox_tokens_def refresh_token_of_def mark_uncertain_def)
  show ?thesis
    using assms
    by (cases w) (simp add: run_oauth_def ox_lost_def enter_caller_def with_caller_def caller_read_def ox_bound ox_policy ox_due f
        join_or_start_def set_caller_def with_transaction_def transaction_loaded_def set_point_def transaction_marked_def note_oauth_def
        write_file_def Let_def)
qed

definition ox_lost_login :: "(int \<times> oauth_event) list" where
  "ox_lost_login = ox_lost @ map (Pair 0) [O_Login_Reads,
     O_Login_Writes ((ox_session None)\<lparr>os_tokens := None\<rparr>), O_Login_Restores 0]"

lemma ox_lost_login_run:
  "run_oauth ox_host (newWorld (Some (ox_session (Some (iso_of_ms 0))))) ox_lost_login =
    (newWorld (Some (mark_uncertain 0 (ox_session (Some (iso_of_ms 0))))))
      \<lparr>ow_log := [Sent_Refresh ''r''], ow_logins := [(Some (mark_uncertain 0 (ox_session (Some (iso_of_ms 0)))), 1)]\<rparr>"
  using ox_lost_run by (simp add: ox_lost_login_def run_oauth_def newWorld_def)

lemma ox_login_resends:
  "ow_log (run_oauth ox_host (newWorld (Some (ox_session (Some (iso_of_ms 0)))))
     ((0, O_Login_Reads) # ox_lost @ [(0, O_Login_Restores 0)] @ ox_lost)) = [Sent_Refresh ''r'', Sent_Refresh ''r'']"
proof -
  let ?s = "ox_session (Some (iso_of_ms 0))"
  define w where "w = (newWorld (Some ?s))\<lparr>ow_logins := [(Some ?s, 0)]\<rparr>"
  have w: "ow_file w = Some ?s" "ow_transaction w = None" "ow_callers w = []" "ow_log w = []" "ow_logins w = [(Some ?s, 0)]"
    by (simp_all add: w_def newWorld_def)
  define v where "v = oauth_step ox_host (run_oauth ox_host w ox_lost) (0, O_Login_Restores 0)"
  have v: "ow_file v = Some ?s" "ow_transaction v = None" "ow_callers v = []" "ow_log v = [Sent_Refresh ''r'']"
    by (simp_all add: v_def ox_lost_from [OF w(1-3)] w)
  have "oauth_step ox_host (newWorld (Some ?s)) (0, O_Login_Reads) = w" by (simp add: w_def newWorld_def)
  then have "run_oauth ox_host (newWorld (Some ?s)) ((0, O_Login_Reads) # ox_lost @ [(0, O_Login_Restores 0)] @ ox_lost) =
      run_oauth ox_host v ox_lost"
    by (simp only: run_oauth_def foldl.simps foldl_append v_def)
  then show ?thesis by (simp add: ox_lost_from [OF v(1-3)] v)
qed

section \<open>Two dispatches at once\<close>

definition ox_provider :: "provider" where
  "ox_provider = \<lparr>pv_session = ox_session None, pv_command = ''login'', pv_tokenFailure = None, pv_awaitingSave = False, pv_sent = False\<rparr>"

definition ox_two :: "(int \<times> oauth_event) list" where
  "ox_two = map (Pair 0) [P_Enter ox_request ox_expected ''login'', P_Read 0, P_Reread 0,
     P_Enter ox_request ox_expected ''login'', P_Read 1, P_Reread 1]"

lemma ox_two_run:
  "ow_providers (run_oauth ox_host (newWorld (Some (ox_session None))) ox_two) = [ox_provider, ox_provider]"
  "ow_log (run_oauth ox_host (newWorld (Some (ox_session None))) ox_two) = []"
  by (simp_all add: run_oauth_def ox_two_def newWorld_def enter_caller_def with_caller_def caller_read_def ox_bound ox_policy ox_due
      caller_reread_def set_caller_def ox_provider_def)

definition ox_answer :: "int \<Rightarrow> string \<Rightarrow> web_response" where
  "ox_answer status body = \<lparr>ws_status = status, ws_header = (\<lambda>k. None), ws_body = Some body\<rparr>"

lemma ox_words: "map lower ''Bearer'' = ''bearer''" "sanitizeOAuthErrorCode (Str ''invalid_grant'') = Some ''invalid_grant''"
  by code_simp+

lemma ox_texts: "json_parse ox_host ''g'' = Some (Obj [(''error'', Str ''invalid_grant'')])"
    "json_parse ox_host ''t'' = Some (Obj [(''access_token'', Str ''a''), (''token_type'', Str ''Bearer'')])"
  by (simp_all add: ox_host_def)

lemma ox_answers:
  "observed_response ox_host 0 Refresh_Token (Inr (ox_answer 400 ''g'')) =
     Inl (operatorError ''OAUTH_INVALID_GRANT'' ''The authorization grant is invalid, expired or revoked'')"
  "\<exists>r. observed_response ox_host 0 Refresh_Token (Inr (ox_answer 200 ''t'')) = Inr r"
proof -
  have "response_error ox_host (ox_answer 400 ''g'') = Some ''invalid_grant''"
    by (simp add: response_error_def ox_answer_def ox_texts ox_words)
  then show "observed_response ox_host 0 Refresh_Token (Inr (ox_answer 400 ''g'')) =
      Inl (operatorError ''OAUTH_INVALID_GRANT'' ''The authorization grant is invalid, expired or revoked'')"
    by (simp add: observed_response_def tokenErrorFromResponse_def ox_answer_def)
  have "usableRefreshResponse ox_host (ox_answer 200 ''t'') \<noteq> None"
    by (simp add: usableRefreshResponse_def ox_answer_def ox_texts ox_words MAX_TOKEN_RESPONSE_BYTES_def del: list.map)
  then show "\<exists>r. observed_response ox_host 0 Refresh_Token (Inr (ox_answer 200 ''t'')) = Inr r"
    by (auto simp: observed_response_def ox_answer_def)
qed

section \<open>A request that is sent twice\<close>

definition ox_policy_options :: policy_options where
  "ox_policy_options = \<lparr>po_allowHttpLoopback = False, po_bearerResource = Some ''https://t/'', po_injected = False, po_deadline = False, po_maxJsonBytes = 1000\<rparr>"

definition ox_post :: web_request where
  "ox_post = \<lparr>wr_input = ''https://t/'', wr_method = Some ''POST'', wr_authorization = Some ''Bearer a'',
     wr_body = Params_Body [(''grant_type'', ''refresh_token'')], wr_redirect = None\<rparr>"

definition ox_refused :: attempt where
  "ox_refused = \<lparr>at_result = Inl (Thrown (Obj [(''cause'', Obj [(''code'', Str ''ECONNREFUSED'')])])), at_callerAborted = False,
     at_deadlineExpired = False, at_timerFired = False\<rparr>"

definition ox_accepted :: attempt where
  "ox_accepted = \<lparr>at_result = Inr (ox_answer 200 ''t''), at_callerAborted = False, at_deadlineExpired = False, at_timerFired = False\<rparr>"

lemma ox_refused_code: "connectFailureCode (Thrown (Obj [(''cause'', Obj [(''code'', Str ''ECONNREFUSED'')])])) = Some ''ECONNREFUSED''"
  by code_simp

lemma ox_bearer_target: "wr_authorization ox_post = Some ''Bearer a''" "map lower ''Bearer a'' = ''bearer a''"
  by (simp add: ox_post_def) code_simp

lemma ox_retried:
  "policyFetch ox_host ox_policy_options ox_post ox_refused ox_accepted = ([Default_Dispatcher, Ipv4_Dispatcher], at_result ox_accepted)"
proof -
  let ?u = "\<lparr>wu_href = ''https://t/'', wu_protocol = ''https:'', wu_hostname = ''t'', wu_host = ''t''\<rparr>"
  have u: "web_url ox_host ''https://t/'' = Some ?u" by (simp add: ox_host_def)
  have b: "assertBearerTarget ox_host ox_post ?u (Some ''https://t/'') = Inr ()"
    using ox_bearer_target by (simp add: assertBearerTarget_def u)
  have j: "assertBoundedJsonResponse (ox_answer 200 ''t'') n = Inr ()" for n
    by (simp add: assertBoundedJsonResponse_def ox_answer_def)
  have h: "hardenedFetch ox_host \<lparr>fo_injected = False, fo_label = ''OAuth request'', fo_attemptTimeout = True, fo_deadline = False\<rparr>
      (ox_post\<lparr>wr_redirect := Some ''manual''\<rparr>) ox_refused ox_accepted = ([Default_Dispatcher, Ipv4_Dispatcher], Inr (ox_answer 200 ''t''))"
    by (simp add: hardenedFetch_def ox_post_def u ox_refused_def ox_accepted_def ox_refused_code deadline_passed_def isRetryable_def isReplayableBody_def)
  have i: "wr_input ox_post = ''https://t/''" by (simp add: ox_post_def)
  show ?thesis
    by (simp add: policyFetch_def ox_policy_options_def i u b j h isAllowedUrl_def) (simp add: ox_accepted_def ox_answer_def)
qed

section \<open>Scopes\<close>

definition ox_scope_inputs :: scope_input where
  "ox_scope_inputs = \<lparr>si_configured = Some [''a''], si_refreshScope = None, si_supported = [''a'', ''b''], si_resource = Some [''b''],
     si_authorizationServer = Some [''offline_access''], si_challenge = None, si_previousGranted = None\<rparr>"

lemma ox_scopes:
  "resolveRequestedOAuthScopes ox_scope_inputs = Inr ([''a'', ''offline_access''], False)"
  "guardOAuthScopes ox_host [''a''] None None (ox_answer 401 []) = Inr (ox_answer 401 [])"
  "challenge_params ox_host (ws_header (ox_answer 401 []) ''www-authenticate'') = (None, Some ''a'')"
proof -
  show "resolveRequestedOAuthScopes ox_scope_inputs = Inr ([''a'', ''offline_access''], False)" by code_simp
  show c: "challenge_params ox_host (ws_header (ox_answer 401 []) ''www-authenticate'') = (None, Some ''a'')" by (simp add: ox_host_def)
  have "scope_words (Some ''a'') = [''a'']" by code_simp
  with c show "guardOAuthScopes ox_host [''a''] None None (ox_answer 401 []) = Inr (ox_answer 401 [])"
    by (simp add: guardOAuthScopes_def allowed_scopes_def ox_answer_def)
qed

end
