(* ===== verification/OAuthProperties.thy ===== *)
theory OAuthProperties
  imports OAuthExample
begin

text \<open>
  What the OAuth parts promise: what a request may do and how often it is sent, scopes that only the
  deployment or the recorded baseline widens, and a refresh token that is not sent again while the
  outcome of the last request with it is unknown.
\<close>

section \<open>Requests\<close>

text \<open>A code that an error carries: in itself, in one of its \<open>errors\<close> or in its causes.\<close>

inductive carries_code :: "jsval \<Rightarrow> string \<Rightarrow> bool" where
  own: "js_get v ''code'' = Str c \<Longrightarrow> carries_code v c"
| part: "x \<in> set (elements (js_get v ''errors'')) \<Longrightarrow> carries_code x c \<Longrightarrow> carries_code v c"
| cause: "carries_code (js_get v ''cause'') c \<Longrightarrow> carries_code v c"

fun failed_with :: "fetch_error \<Rightarrow> string \<Rightarrow> bool" where
  "failed_with (Thrown v) c = carries_code v c"
| "failed_with (Hardened_Fetch_Error m e) c = failed_with e c"
| "failed_with (Fetch_Policy_Error m e) c = (case e of None \<Rightarrow> False | Some x \<Rightarrow> failed_with x c)"

lemma first_some_Some: "first_some f xs = Some y \<Longrightarrow> \<exists>x \<in> set xs. f x = Some y"
  by (induction xs) (auto split: option.splits)

lemma code_within_carries: "code_within n v = Some c \<Longrightarrow> carries_code v c \<and> c \<in> set CONNECT_FAILURE_CODES"
proof (induction n arbitrary: v)
  case (Suc n)
  show ?case
  proof (cases "js_get v ''code'' \<in> Str ` set CONNECT_FAILURE_CODES")
    case True
    with Suc.prems show ?thesis by (auto split: if_splits intro: carries_code.own)
  next
    case False
    note here = this
    show ?thesis
    proof (cases "first_some (code_within n) (elements (js_get v ''errors''))")
      case None
      with here Suc.prems have "code_within n (js_get v ''cause'') = Some c" by (simp split: if_splits)
      from Suc.IH [OF this] show ?thesis by (blast intro: carries_code.cause)
    next
      case (Some d)
      with here Suc.prems have "d = c" by (simp split: if_splits)
      with first_some_Some [OF Some] Suc.IH show ?thesis by (blast intro: carries_code.part)
    qed
  qed
qed simp

lemma connect_failure:
  assumes "connectFailureCode e = Some c"
  shows "failed_with e c \<and> c \<in> set CONNECT_FAILURE_CODES"
proof -
  have "error_code_within n e = Some c \<Longrightarrow> failed_with e c \<and> c \<in> set CONNECT_FAILURE_CODES" for n
    by (induction n e rule: error_code_within.induct) (auto dest: code_within_carries)
  with assms show ?thesis by (simp add: connectFailureCode_def)
qed

lemma hardened_sends:
  assumes "hardenedFetch H options request first retry = (sends, result)"
  shows "length sends \<le> 2 \<and> (length sends = 2 \<longrightarrow> \<not> fo_injected options \<and> \<not> at_callerAborted first \<and> isReplayableBody (wr_body request) \<and>
    (\<exists>e. at_result first = Inl e \<and> ((\<exists>c \<in> set CONNECT_FAILURE_CODES. failed_with e c) \<or>
      at_timerFired first \<and> map upper (case wr_method request of None \<Rightarrow> ''GET'' | Some m \<Rightarrow> m) \<in> {''GET'', ''HEAD''})))"
proof -
  have "length sends \<le> 2 \<and> (length sends = 2 \<longrightarrow> \<not> fo_injected options \<and> \<not> at_callerAborted first \<and> isReplayableBody (wr_body request) \<and>
    (\<exists>e. at_result first = Inl e \<and> (connectFailureCode e \<noteq> None \<or>
      at_timerFired first \<and> map upper (case wr_method request of None \<Rightarrow> ''GET'' | Some m \<Rightarrow> m) \<in> {''GET'', ''HEAD''})))"
    using assms
    by (auto simp: hardenedFetch_def Let_def isRetryable_def attempt_timed_out_def split: option.splits sum.splits if_splits)
  then show ?thesis using connect_failure by fastforce
qed

lemma bearer_target:
  assumes "assertBearerTarget H request url resource = Inr u" "wr_authorization request = Some token"
    "starts_with ''bearer '' (map lower token)"
  shows "\<exists>s r. resource = Some s \<and> web_url H s = Some r \<and> wu_href url = wu_href r"
  using assms by (auto simp: assertBearerTarget_def split: option.splits if_splits)

lemma policy_sent:
  assumes "policyFetch H options request first retry = (sends, result)" "sends \<noteq> []"
  obtains url out where "web_url H (wr_input request) = Some url" "isAllowedUrl url (po_allowHttpLoopback options)"
    "assertBearerTarget H request url (po_bearerResource options) = Inr ()"
    "hardenedFetch H \<lparr>fo_injected = po_injected options, fo_label = ''OAuth request'', fo_attemptTimeout = True,
       fo_deadline = po_deadline options\<rparr> (request\<lparr>wr_redirect := Some ''manual''\<rparr>) first retry = (sends, out)"
    "\<forall>response. result = Inr response \<longrightarrow> \<not> (300 \<le> ws_status response \<and> ws_status response < 400)"
proof -
  from assms obtain url where u: "web_url H (wr_input request) = Some url" by (auto simp: policyFetch_def split: option.splits)
  from assms u have a: "isAllowedUrl url (po_allowHttpLoopback options)" by (auto simp: policyFetch_def split: if_splits)
  from assms u a have b: "assertBearerTarget H request url (po_bearerResource options) = Inr ()"
    by (auto simp: policyFetch_def split: sum.splits)
  obtain x out where h: "hardenedFetch H \<lparr>fo_injected = po_injected options, fo_label = ''OAuth request'', fo_attemptTimeout = True,
       fo_deadline = po_deadline options\<rparr> (request\<lparr>wr_redirect := Some ''manual''\<rparr>) first retry = (x, out)" (is "?h = _")
    by (cases ?h)
  from assms(1) u a b h have "x = sends"
    by (cases out) (auto simp: policyFetch_def split: fetch_error.splits if_splits sum.splits)
  moreover from assms(1) u a b h have "\<forall>response. result = Inr response \<longrightarrow> \<not> (300 \<le> ws_status response \<and> ws_status response < 400)"
    by (cases out) (auto simp: policyFetch_def split: fetch_error.splits if_splits sum.splits)
  ultimately show ?thesis using that u a b h by blast
qed

text \<open>
  C17. An OAuth request is sent only over HTTPS, or to a loopback name where that is allowed, and with a
  bearer token only to the resource of the session; it is sent at most twice, and the second time
  only over the adapter's own transport, with a body that can be replayed, while the caller has
  not aborted, and after a failure that carries one of five codes of a connection that was
  never made or, for GET and HEAD only, after a time out; and no redirect is returned.
\<close>

theorem oauth_requests_restricted:
  assumes "policyFetch H options request first retry = (sends, result)" "sends \<noteq> []"
  shows "(\<exists>url. web_url H (wr_input request) = Some url \<and>
      (wu_protocol url = ''https:'' \<or> po_allowHttpLoopback options \<and> wu_hostname url \<in> set LOOPBACK_HOSTNAMES) \<and>
      (\<forall>token. wr_authorization request = Some token \<longrightarrow> starts_with ''bearer '' (map lower token) \<longrightarrow>
        (\<exists>resource r. po_bearerResource options = Some resource \<and> web_url H resource = Some r \<and> wu_href url = wu_href r))) \<and>
    length sends \<le> 2 \<and>
    (length sends = 2 \<longrightarrow> \<not> po_injected options \<and> \<not> at_callerAborted first \<and> isReplayableBody (wr_body request) \<and>
      (\<exists>e. at_result first = Inl e \<and>
        ((\<exists>c. c \<in> {''UND_ERR_CONNECT_TIMEOUT'', ''ECONNREFUSED'', ''EHOSTUNREACH'', ''ENETUNREACH'', ''ENETDOWN''} \<and> failed_with e c) \<or>
         at_timerFired first \<and> map upper (case wr_method request of None \<Rightarrow> ''GET'' | Some m \<Rightarrow> m) \<in> {''GET'', ''HEAD''}))) \<and>
    (\<forall>response. result = Inr response \<longrightarrow> \<not> (300 \<le> ws_status response \<and> ws_status response < 400))"
proof -
  from policy_sent [OF assms] obtain url out where u: "web_url H (wr_input request) = Some url"
    and a: "isAllowedUrl url (po_allowHttpLoopback options)" and b: "assertBearerTarget H request url (po_bearerResource options) = Inr ()"
    and h: "hardenedFetch H \<lparr>fo_injected = po_injected options, fo_label = ''OAuth request'', fo_attemptTimeout = True,
       fo_deadline = po_deadline options\<rparr> (request\<lparr>wr_redirect := Some ''manual''\<rparr>) first retry = (sends, out)"
    and r: "\<forall>response. result = Inr response \<longrightarrow> \<not> (300 \<le> ws_status response \<and> ws_status response < 400)" .
  have codes: "set CONNECT_FAILURE_CODES = {''UND_ERR_CONNECT_TIMEOUT'', ''ECONNREFUSED'', ''EHOSTUNREACH'', ''ENETUNREACH'', ''ENETDOWN''}"
    by (simp only: CONNECT_FAILURE_CODES_def list.set)
  have url: "\<exists>url. web_url H (wr_input request) = Some url \<and>
      (wu_protocol url = ''https:'' \<or> po_allowHttpLoopback options \<and> wu_hostname url \<in> set LOOPBACK_HOSTNAMES) \<and>
      (\<forall>token. wr_authorization request = Some token \<longrightarrow> starts_with ''bearer '' (map lower token) \<longrightarrow>
        (\<exists>resource r. po_bearerResource options = Some resource \<and> web_url H resource = Some r \<and> wu_href url = wu_href r))"
    using u a bearer_target [OF b] by (auto simp: isAllowedUrl_def)
  have same: "wr_body (request\<lparr>wr_redirect := m\<rparr>) = wr_body request" "wr_method (request\<lparr>wr_redirect := m\<rparr>) = wr_method request" for m
    by simp_all
  note sends = hardened_sends [OF h, unfolded codes Bex_def fetch_options.simps]
  then have once: "length sends \<le> 2" by blast
  have twice: "length sends = 2 \<longrightarrow> \<not> po_injected options \<and> \<not> at_callerAborted first \<and> isReplayableBody (wr_body request) \<and>
      (\<exists>e. at_result first = Inl e \<and>
        ((\<exists>c. c \<in> {''UND_ERR_CONNECT_TIMEOUT'', ''ECONNREFUSED'', ''EHOSTUNREACH'', ''ENETUNREACH'', ''ENETDOWN''} \<and> failed_with e c) \<or>
         at_timerFired first \<and> map upper (case wr_method request of None \<Rightarrow> ''GET'' | Some m \<Rightarrow> m) \<in> {''GET'', ''HEAD''}))"
    using sends unfolding same by blast
  show ?thesis by (intro conjI url once twice r)
qed

section \<open>Scopes\<close>

lemma in_add_new: "set (add_new extra scopes) = set extra \<union> set scopes"
  unfolding add_new_def by (induction extra arbitrary: scopes) auto

text \<open>
  The refresh scope: the preferred one where it is advertised, else the default where it is, else none.
\<close>

definition refresh_scope_of :: "scope_input \<Rightarrow> string set" where
  "refresh_scope_of i = (let advertised = set (case si_authorizationServer i of None \<Rightarrow> si_supported i | Some xs \<Rightarrow> xs);
       preferred = (case si_refreshScope i of None \<Rightarrow> ''offline_access''
         | Some r \<Rightarrow> if trim r = [] then ''offline_access'' else trim r) in
     (if preferred \<in> advertised then {preferred} else if ''offline_access'' \<in> advertised then {''offline_access''} else {}) - {[]})"

text \<open>
  C16. The scopes of a login are exactly these: the configured ones, all of them advertised, or
  without configured ones those of the challenge, or without those the resource's, never merged;
  all scopes granted before; and at most one refresh scope that the authorization server
  advertises. And a response that asks for more than the configured scopes, or without them
  the recorded baseline, does not reach the SDK.
\<close>

theorem scopes_not_widened:
  assumes "resolveRequestedOAuthScopes i = Inr (scopes, warn)"
    and "guardOAuthScopes H configured baseline tokenScope response = Inr passed"
    and "challenge_params H (ws_header response ''www-authenticate'') = (error, scope)"
  shows "(case si_configured i of Some c \<Rightarrow> set c \<subseteq> set (si_supported i) | None \<Rightarrow> True) \<and>
    set scopes =
      set (case (si_configured i, si_challenge i, si_resource i) of
          (Some c, _, _) \<Rightarrow> c
        | (None, Some (x # xs), _) \<Rightarrow> x # xs
        | (None, _, Some ys) \<Rightarrow> ys
        | (None, _, None) \<Rightarrow> []) \<union>
      set (case si_previousGranted i of None \<Rightarrow> [] | Some g \<Rightarrow> g) \<union> refresh_scope_of i \<and>
    passed = response \<and>
    (ws_status response = 401 \<or> ws_status response = 403 \<longrightarrow> error \<noteq> Some ''insufficient_scope'' \<and>
      set (scope_words scope) \<subseteq> set (if configured \<noteq> [] then configured else
        case baseline of None \<Rightarrow> scope_words tokenScope | Some b \<Rightarrow> b))"
proof -
  have c: "case si_configured i of Some c \<Rightarrow> set c \<subseteq> set (si_supported i) | None \<Rightarrow> True"
    using assms(1) by (auto simp: resolveRequestedOAuthScopes_def find_None_iff list_or_none_def split: option.splits)
  define base where "base = (case (si_configured i, si_challenge i, si_resource i) of
          (Some c, _, _) \<Rightarrow> c
        | (None, Some (x # xs), _) \<Rightarrow> x # xs
        | (None, _, Some ys) \<Rightarrow> ys
        | (None, _, None) \<Rightarrow> [])"
  have b: "(case si_configured i of Some c \<Rightarrow> c
      | None \<Rightarrow> if list_or_none (si_challenge i) \<noteq> [] then list_or_none (si_challenge i) else list_or_none (si_resource i)) = base"
    by (auto simp: base_def list_or_none_def split: option.split list.split)
  have s: "set scopes = set base \<union> set (list_or_none (si_previousGranted i)) \<union> refresh_scope_of i"
    using assms(1) unfolding resolveRequestedOAuthScopes_def b
    by (auto simp: Let_def in_add_new selectRefreshScope_def refresh_scope_of_def preferred_refresh_scope_def
        DEFAULT_OAUTH_REFRESH_SCOPE_def split: option.splits if_splits prod.splits)
  have "passed = response \<and> (ws_status response = 401 \<or> ws_status response = 403 \<longrightarrow> error \<noteq> Some ''insufficient_scope'' \<and>
      set (scope_words scope) \<subseteq> set (if configured \<noteq> [] then configured else case baseline of None \<Rightarrow> scope_words tokenScope | Some b \<Rightarrow> b))"
    using assms(2,3) by (auto simp: guardOAuthScopes_def allowed_scopes_def Let_def list_all_iff split: if_splits option.splits)
  with c s show ?thesis unfolding base_def list_or_none_def by blast
qed

section \<open>Refresh tokens\<close>

definition open_refresh :: "oauth_note list \<Rightarrow> bool" where
  "open_refresh ns \<longleftrightarrow> (\<exists>t. ns \<noteq> [] \<and> last ns = Sent_Refresh t)"

definition resolved_between :: "oauth_note list \<Rightarrow> bool" where
  "resolved_between ns \<longleftrightarrow> (\<forall>xs a b ys. ns \<noteq> xs @ Sent_Refresh a # Sent_Refresh b # ys)"

lemma open_refresh_simps [simp]:
  "\<not> open_refresh []" "open_refresh (ns @ [Sent_Refresh t])" "\<not> open_refresh (ns @ [Definite_Failure])"
  "\<not> open_refresh (ns @ [Tokens_Saved])" "\<not> open_refresh (ns @ [New_Grant])"
  by (simp_all add: open_refresh_def)

lemma sent_count_append [simp]: "sent_count (ns @ ms) = sent_count ns + sent_count ms"
  by (induction ns rule: sent_count.induct) simp_all

lemma resolved_snoc:
  assumes "resolved_between ns" "\<And>t. n = Sent_Refresh t \<Longrightarrow> \<not> open_refresh ns"
  shows "resolved_between (ns @ [n])"
  unfolding resolved_between_def
proof (intro allI notI)
  fix xs a b ys assume e: "ns @ [n] = xs @ Sent_Refresh a # Sent_Refresh b # ys"
  show False
  proof (cases ys rule: rev_cases)
    case Nil
    then have "ns = xs @ [Sent_Refresh a]" "n = Sent_Refresh b" using e by (simp_all add: append_eq_append_conv2 Cons_eq_append_conv)
    then show False using assms(2) by simp
  next
    case (snoc zs z)
    then have "ns = xs @ Sent_Refresh a # Sent_Refresh b # zs" using e by simp
    then show False using assms(1) by (auto simp: resolved_between_def)
  qed
qed

definition sendable :: "oauth_session option \<Rightarrow> bool" where
  "sendable file \<longleftrightarrow> (\<exists>s. file = Some s \<and> os_tokens s \<noteq> None \<and> \<not> os_reauthorizationRequired s \<and> \<not> is_uncertain s)"

text \<open>A file that a login read: no request of unknown outcome had been sent before.\<close>

definition logins_safe :: "oauth_note list \<Rightarrow> (oauth_session option \<times> nat) list \<Rightarrow> bool" where
  "logins_safe ns ls \<longleftrightarrow> (\<forall>(file, n) \<in> set ls. n \<le> sent_count ns \<and>
     (n = sent_count ns \<longrightarrow> open_refresh ns \<longrightarrow> \<not> sendable file))"

fun point_safe :: "oauth_note list \<Rightarrow> transaction_point \<Rightarrow> bool" where
  "point_safe ns (T_Document s) = (\<not> open_refresh ns)"
| "point_safe ns (T_Marking s) = (\<not> open_refresh ns)"
| "point_safe ns (T_Reauthorizing s e) = os_reauthorizationRequired s"
| "point_safe ns (T_Auditing s) = (\<not> open_refresh ns)"
| "point_safe ns (T_Failing s e) = (oe_ambiguous e \<or> \<not> open_refresh ns)"
| "point_safe ns p = True"

definition caller_safe :: "prepare_caller \<Rightarrow> bool" where
  "caller_safe c \<longleftrightarrow> (case cl_status c of Caller_Marking s \<Rightarrow> os_reauthorizationRequired s | _ \<Rightarrow> True)"

definition oauth_safe :: "oauth_world \<Rightarrow> bool" where
  "oauth_safe w \<longleftrightarrow> resolved_between (ow_log w) \<and> (open_refresh (ow_log w) \<longrightarrow> \<not> sendable (ow_file w)) \<and>
     (\<forall>t. ow_transaction w = Some t \<longrightarrow> point_safe (ow_log w) (tr_point t)) \<and> list_all caller_safe (ow_callers w) \<and>
     logins_safe (ow_log w) (ow_logins w)"

fun transport_event :: "oauth_event \<Rightarrow> bool" where
  "transport_event (V_Refresh i ok) = True"
| "transport_event (V_Answered i c b r) = True"
| "transport_event (V_Saved i x random ok) = True"
| "transport_event (V_Settled i ok) = True"
| "transport_event (V_Denied i ok) = True"
| "transport_event e = False"

lemma logins_safe_note: "logins_safe ns ls \<Longrightarrow> logins_safe (ns @ [n]) ls"
  by (cases n) (auto simp: logins_safe_def)

lemma set_caller_sel [simp]:
  "ow_file (set_caller i st w) = ow_file w" "ow_transaction (set_caller i st w) = ow_transaction w"
  "ow_log (set_caller i st w) = ow_log w" "ow_providers (set_caller i st w) = ow_providers w"
  "ow_logins (set_caller i st w) = ow_logins w"
  by (simp_all add: set_caller_def)

lemma list_all_update: "list_all P xs \<Longrightarrow> P x \<Longrightarrow> list_all P (xs[i := x])"
  unfolding list_all_iff using set_update_subset_insert [of xs i x] by blast

lemma safe_set_caller: "oauth_safe w \<Longrightarrow> (\<And>s. st = Caller_Marking s \<Longrightarrow> os_reauthorizationRequired s) \<Longrightarrow> oauth_safe (set_caller i st w)"
  unfolding oauth_safe_def set_caller_def
  by (auto simp: caller_safe_def split: caller_status.splits intro!: list_all_update)

lemma safe_end: "oauth_safe w \<Longrightarrow> oauth_safe (end_transaction f w)"
  unfolding oauth_safe_def end_transaction_def
  by (auto simp: list_all_iff caller_safe_def split: caller_status.splits option.splits)

lemma safe_set_point: "oauth_safe w \<Longrightarrow> point_safe (ow_log w) p \<Longrightarrow> oauth_safe (set_point p t w)"
  by (simp add: oauth_safe_def set_point_def)

lemma safe_write:
  "oauth_safe w \<Longrightarrow> (open_refresh (ow_log w) \<Longrightarrow> ok \<Longrightarrow> \<not> sendable (Some s)) \<Longrightarrow> oauth_safe (write_file ok s w)"
  by (simp add: oauth_safe_def write_file_def)

lemma sel_write [simp]:
  "ow_log (write_file ok s w) = ow_log w" "ow_logins (write_file ok s w) = ow_logins w" "ow_transaction (write_file ok s w) = ow_transaction w" "ow_callers (write_file ok s w) = ow_callers w"
  by (simp_all add: write_file_def)

lemma not_sendable [simp]:
  "\<not> sendable (Some (mark_uncertain now s))" "os_reauthorizationRequired s \<Longrightarrow> \<not> sendable (Some s)"
  "os_reauthorizationRequired (mark_reauthorization r s)"
  by (simp_all add: sendable_def mark_uncertain_def is_uncertain_def mark_reauthorization_def)

lemma safe_caller_read:
  assumes "oauth_safe w"
  shows "oauth_safe (caller_read H now i c w)"
proof -
  have start: "oauth_safe (join_or_start i c w)"
    unfolding join_or_start_def using assms
    by (intro safe_set_caller) (auto simp: oauth_safe_def split: option.splits)
  have fin: "oauth_safe (set_caller i (Caller_Done r) w)" "oauth_safe (set_caller i Caller_Rereading w)"
    "oauth_safe (set_caller i (refuse c code m ra) w)" "oauth_safe (set_caller i (Caller_Marking (mark_reauthorization reason s)) w)"
    for r code m ra reason s
    using assms by (auto intro!: safe_set_caller simp: refuse_def)
  show ?thesis
    unfolding caller_read_def by (simp add: start fin split: option.split sum.split bool.split)
qed

lemma safe_caller_marked:
  assumes "oauth_safe w" "os_reauthorizationRequired s"
  shows "oauth_safe (caller_marked ok i c s w)"
  unfolding caller_marked_def by (intro safe_set_caller safe_write assms(1)) (auto simp: assms(2) refuse_def split: if_splits)

lemma safe_caller_reread:
  assumes "oauth_safe w"
  shows "oauth_safe (caller_reread i c w)"
proof -
  have p: "oauth_safe (w\<lparr>ow_providers := ps\<rparr>)" for ps using assms by (simp add: oauth_safe_def)
  show ?thesis unfolding caller_reread_def
    by (auto intro!: safe_set_caller p assms simp: refuse_def split: option.split)
qed

lemma safe_loaded:
  assumes "oauth_safe w"
  shows "oauth_safe (transaction_loaded H now t w)"
proof -
  have closed: "\<not> open_refresh (ow_log w)" if "ow_file w = Some s" "os_tokens s \<noteq> None" "\<not> os_reauthorizationRequired s" "\<not> is_uncertain s" for s
    using assms that by (auto simp: oauth_safe_def sendable_def)
  show ?thesis
    unfolding transaction_loaded_def Let_def
    by (auto intro!: safe_end safe_set_point assms dest: closed simp: bound_session_def split: option.splits if_splits sum.split)
qed

lemma safe_document:
  assumes "oauth_safe w" "\<not> open_refresh (ow_log w)"
  shows "oauth_safe (document_checked d k t s w)"
  unfolding document_checked_def Let_def
  by (auto intro!: safe_end safe_set_point assms split: sum.split oauth_failure.split option.split)

lemma safe_note: "oauth_safe w \<Longrightarrow> (\<And>t. n \<noteq> Sent_Refresh t) \<Longrightarrow> oauth_safe (note_oauth n w)"
proof -
  assume w: "oauth_safe w" and n: "\<And>t. n \<noteq> Sent_Refresh t"
  have o: "\<not> open_refresh (ow_log w @ [n])" using n [of "case n of Sent_Refresh t \<Rightarrow> t | _ \<Rightarrow> []"] by (cases n) simp_all
  then have "point_safe (ow_log w) p \<Longrightarrow> point_safe (ow_log w @ [n]) p" for p by (cases p) simp_all
  moreover have "resolved_between (ow_log w @ [n])"
    by (rule resolved_snoc) (use w n in \<open>simp_all add: oauth_safe_def\<close>)
  ultimately show "oauth_safe (note_oauth n w)" using w o by (simp add: oauth_safe_def note_oauth_def logins_safe_note)
qed

lemma safe_marked:
  assumes "oauth_safe w" "\<not> open_refresh (ow_log w)"
  shows "oauth_safe (transaction_marked now ok t s w)"
proof (cases ok)
  case True
  have "resolved_between (ow_log w @ [Sent_Refresh r])" for r
    using assms by (intro resolved_snoc) (simp_all add: oauth_safe_def)
  with True assms show ?thesis
    by (simp add: transaction_marked_def Let_def oauth_safe_def note_oauth_def set_point_def write_file_def logins_safe_note)
next
  case False
  with assms show ?thesis by (simp add: transaction_marked_def Let_def safe_set_point)
qed

lemma safe_answered:
  assumes "oauth_safe w"
  shows "oauth_safe (transaction_answered H now outcome tokens t s w)"
proof -
  have "oauth_safe (note_failure e w)" "oe_ambiguous e \<or> \<not> open_refresh (ow_log (note_failure e w))" for e
    using assms by (auto simp: note_failure_def intro: safe_note) (simp add: note_oauth_def)
  moreover have "oe_ambiguous unusable_failure" by (simp add: unusable_failure_def)
  ultimately show ?thesis
    unfolding transaction_answered_def by (auto intro!: safe_set_point assms split: sum.split option.split)
qed

lemma safe_saved:
  assumes "oauth_safe w"
  shows "oauth_safe (transaction_saved now random ok t s x w)"
proof -
  have "oe_ambiguous unusable_failure" by (simp add: unusable_failure_def)
  moreover have "oauth_safe (note_oauth Tokens_Saved (set_point (T_Auditing s') t (write_file True s' w)))" for s'
    using assms by (auto simp: oauth_safe_def note_oauth_def set_point_def write_file_def intro!: resolved_snoc logins_safe_note)
  ultimately show ?thesis
    using assms by (simp add: transaction_saved_def Let_def safe_set_point)
qed

lemma safe_failed:
  assumes "oauth_safe w" "oe_ambiguous e \<or> \<not> open_refresh (ow_log w)"
  shows "oauth_safe (transaction_failed now ok t s e w)"
proof -
  obtain s' b where p: "persistTokenFailure now e s = (s', b)" by (cases "persistTokenFailure now e s")
  then have "oe_ambiguous e \<Longrightarrow> s' = mark_uncertain now s" by (simp add: persistTokenFailure_def)
  with assms(2) have "open_refresh (ow_log w) \<Longrightarrow> \<not> sendable (Some s')" by auto
  with assms(1) p show ?thesis by (simp add: transaction_failed_def safe_end safe_write)
qed

text \<open>A login that fails puts back a file after which no request has been sent.\<close>

fun restores_current :: "oauth_world \<Rightarrow> oauth_event \<Rightarrow> bool" where
  "restores_current w (O_Login_Restores i) \<longleftrightarrow> i < length (ow_logins w) \<longrightarrow> snd (ow_logins w ! i) = sent_count (ow_log w)"
| "restores_current w e \<longleftrightarrow> True"

fun logins_undisturbed :: "('a) web_host_scheme \<Rightarrow> oauth_world \<Rightarrow> (int \<times> oauth_event) list \<Rightarrow> bool" where
  "logins_undisturbed H w [] \<longleftrightarrow> True"
| "logins_undisturbed H w (e # es) \<longleftrightarrow> restores_current w (snd e) \<and> logins_undisturbed H (oauth_step H w e) es"

lemma safe_restored:
  assumes "oauth_safe w" "i < length (ow_logins w)" "snd (ow_logins w ! i) = sent_count (ow_log w)"
  shows "oauth_safe (w\<lparr>ow_file := fst (ow_logins w ! i)\<rparr>)"
proof -
  have "ow_logins w ! i \<in> set (ow_logins w)" using assms(2) by simp
  then have "open_refresh (ow_log w) \<Longrightarrow> \<not> sendable (fst (ow_logins w ! i))"
    using assms(1,3) by (auto simp: oauth_safe_def logins_safe_def)
  with assms(1) show ?thesis by (simp add: oauth_safe_def)
qed

lemma safe_read: "oauth_safe w \<Longrightarrow> oauth_safe (w\<lparr>ow_logins := ow_logins w @ [(ow_file w, sent_count (ow_log w))]\<rparr>)"
  by (auto simp: oauth_safe_def logins_safe_def)

lemma safe_grant:
  assumes "oauth_safe w"
  shows "oauth_safe (note_oauth New_Grant (w\<lparr>ow_file := f\<rparr>))"
proof -
  have "point_safe (ow_log w @ [New_Grant]) p" if "point_safe (ow_log w) p" for p
    using that by (cases p) simp_all
  with assms show ?thesis by (auto simp: note_oauth_def oauth_safe_def logins_safe_note intro!: resolved_snoc)
qed

lemma safe_step:
  assumes "oauth_safe w" "\<not> transport_event (snd e)" "restores_current w (snd e)"
  shows "oauth_safe (oauth_step H w e)"
  using assms
proof (induction H w e rule: oauth_step.induct)
  case (1 H w now r e c)
  then show ?case by (simp add: enter_caller_def oauth_safe_def caller_safe_def)
next
  case 2 then show ?case by (simp add: with_caller_def safe_caller_read)
next
  case (3 H w now i ok)
  have "os_reauthorizationRequired s" if "i < length (ow_callers w)" "cl_status (ow_callers w ! i) = Caller_Marking s" for s
    using 3(1) that by (auto simp: oauth_safe_def list_all_length caller_safe_def split: caller_status.splits)
  with 3 show ?case by (auto simp: with_caller_def safe_caller_marked split: caller_status.split)
next
  case 4 then show ?case by (simp add: with_caller_def safe_caller_reread)
next
  case 5 then show ?case by (simp add: with_transaction_def safe_loaded split: option.split)
next
  case (6 H w now d k)
  have "\<not> open_refresh (ow_log w)" if "ow_transaction w = Some t" "tr_point t = T_Document s" for t s
    using 6(1) that by (fastforce simp: oauth_safe_def)
  with 6 show ?case by (auto simp: with_transaction_def safe_document split: option.split transaction_point.split)
next
  case (7 H w now ok)
  have "os_reauthorizationRequired s" if "ow_transaction w = Some t" "tr_point t = T_Reauthorizing s e" for t s e
    using 7(1) that by (fastforce simp: oauth_safe_def)
  with 7 show ?case by (auto simp: with_transaction_def intro!: safe_end safe_write split: option.split transaction_point.split)
next
  case (8 H w now e)
  have "\<not> open_refresh (ow_log w)" if "ow_transaction w = Some t" "tr_point t = T_Marking s" for t s
    using 8(1) that by (fastforce simp: oauth_safe_def)
  with 8 show ?case by (auto simp: with_transaction_def intro!: safe_set_point split: option.split transaction_point.split)
next
  case (9 H w now ok)
  have "\<not> open_refresh (ow_log w)" if "ow_transaction w = Some t" "tr_point t = T_Marking s" for t s
    using 9(1) that by (fastforce simp: oauth_safe_def)
  with 9 show ?case by (auto simp: with_transaction_def intro!: safe_marked split: option.split transaction_point.split)
next
  case 10 then show ?case by (auto simp: with_transaction_def safe_answered split: option.split transaction_point.split)
next
  case 11 then show ?case by (auto simp: with_transaction_def safe_saved split: option.split transaction_point.split)
next
  case (12 H w now ok)
  have "\<not> open_refresh (ow_log w)" if "ow_transaction w = Some t" "tr_point t = T_Auditing s" for t s
    using 12(1) that by (fastforce simp: oauth_safe_def)
  with 12 show ?case
    by (auto simp: with_transaction_def transaction_audited_def intro!: safe_end safe_set_point split: option.split transaction_point.split)
next
  case (13 H w now ok)
  have "oe_ambiguous e \<or> \<not> open_refresh (ow_log w)" if "ow_transaction w = Some t" "tr_point t = T_Failing s e" for t s e
    using 13(1) that by (fastforce simp: oauth_safe_def)
  with 13 show ?case by (auto simp: with_transaction_def intro!: safe_failed split: option.split transaction_point.split)
next
  case 19 then show ?case by (simp add: safe_read)
next
  case (20 H w now s)
  have "oauth_safe (w\<lparr>ow_file := Some s\<rparr>)" if "os_tokens s = None"
    using 20(1) that by (simp add: oauth_safe_def sendable_def)
  with 20 show ?case by (simp add: safe_grant)
next
  case 21 then show ?case by (simp add: safe_restored)
next
  case 22 then show ?case by (simp add: oauth_safe_def sendable_def)
next
  case 23 then show ?case by (simp add: oauth_safe_def)
qed simp_all

lemma safe_run:
  "oauth_safe w \<Longrightarrow> list_all (\<lambda>e. \<not> transport_event (snd e)) events \<Longrightarrow> logins_undisturbed H w events \<Longrightarrow>
    oauth_safe (run_oauth H w events)"
  by (induction events arbitrary: w) (simp_all add: run_oauth_def safe_step)

text \<open>
  C14. A refresh token is not sent again on an unknown outcome: over any interleaving of
  preparations, failing writes, lost answers, crashes, logins and logouts, two requests with a
  refresh token have between them a definite failure of the first, saved tokens of a refresh
  or a session with tokens that a login wrote; and while the outcome of the last request is
  unknown the file has no tokens or refuses every preparation. This holds for runs in which
  no transport refreshes by itself, and in which no request is sent between a failed login's
  reading of the file and its putting it back.
\<close>

theorem refresh_token_not_resent:
  assumes "list_all (\<lambda>e. \<not> transport_event (snd e)) events"
    and "logins_undisturbed H (newWorld file) events"
    and "w = run_oauth H (newWorld file) events"
  shows "ow_log w \<noteq> xs @ Sent_Refresh a # Sent_Refresh b # ys \<and>
    (\<forall>t s. ow_log w = ys @ [Sent_Refresh t] \<longrightarrow> ow_file w = Some s \<longrightarrow>
       os_tokens s = None \<or> os_reauthorizationRequired s \<or> is_uncertain s)"
proof -
  have "oauth_safe (newWorld file)"
    by (simp add: newWorld_def oauth_safe_def resolved_between_def logins_safe_def)
  from safe_run [OF this assms(1,2)] have "oauth_safe w" by (simp only: assms(3))
  then show ?thesis by (auto simp: oauth_safe_def resolved_between_def sendable_def)
qed

section \<open>Transports that refresh by themselves\<close>

definition resending :: "int \<Rightarrow> nat \<Rightarrow> nat \<Rightarrow> oauth_tokens \<Rightarrow> int \<Rightarrow> web_response \<Rightarrow> web_response \<Rightarrow> (int \<times> oauth_event) list" where
  "resending now i j x random accepted rejected = map (Pair now) [V_Refresh i True, V_Refresh j True, V_Answered i [] True (Inr accepted),
     V_Saved i x random True, V_Answered j [] True (Inr rejected), V_Settled j True]"

text \<open>
  C15. Two dispatches whose transports both refresh send the same refresh token twice: the second
  request goes out although the outcome of the first is unknown, and when the server then answers
  \<open>invalid_grant\<close> to it, settling that failure puts the old tokens back over those just saved and
  asks for a new login.
\<close>

theorem concurrent_transports_resend:
  assumes "i < length (ow_providers w)" "j < length (ow_providers w)" "i \<noteq> j"
    and "\<not> pv_sent (ow_providers w ! i)" "\<not> pv_sent (ow_providers w ! j)"
    and "os_tokens (pv_session (ow_providers w ! i)) = Some t" "os_tokens (pv_session (ow_providers w ! j)) = Some t" "tk_refresh t = Some r"
    and "observed_response H now Refresh_Token (Inr accepted) = Inr usable" "ws_status accepted \<notin> {401, 403}"
    and "observed_response H now Refresh_Token (Inr rejected) = Inl failure" "ws_status rejected \<notin> {401, 403}"
      "oe_code failure = ''OAUTH_INVALID_GRANT''" "\<not> oe_ambiguous failure"
    and "w' = run_oauth H w (resending now i j x random accepted rejected)"
  shows "ow_log w' = ow_log w @ [Sent_Refresh r, Sent_Refresh r, Tokens_Saved, Definite_Failure] \<and>
    (\<exists>s. ow_file w' = Some s \<and> os_tokens s = Some t \<and> os_reauthorizationRequired s)"
proof -
  have m: "refresh_token_of (mark_uncertain now s) = r" "os_tokens (mark_uncertain now s) = Some t" if "os_tokens s = Some t" for s
    using that assms(8) by (simp_all add: refresh_token_of_def mark_uncertain_def)
  have g: "guardOAuthScopes H [] b s response = Inr response" if "ws_status response \<notin> {401, 403}" for b s response
    using that by (simp add: guardOAuthScopes_def)
  show ?thesis
    unfolding assms(15)
    using assms(1-14)
    by (simp add: run_oauth_def resending_def with_provider_def provider_refreshes_def m Let_def note_oauth_def set_provider_def write_file_def
        provider_answered_def g [OF assms(10)] g [OF assms(12)] token_failed_def provider_saves_def provider_settles_def settled_failure_def note_failure_def persistTokenFailure_def
        mark_reauthorization_def nth_list_update)
qed

section \<open>Witnesses\<close>

lemma concurrent_transports_resend_witness:
  "\<exists>w' usable. observed_response ox_host 0 Refresh_Token (Inr (ox_answer 200 ''t'')) = Inr usable \<and>
     w' = run_oauth ox_host (run_oauth ox_host (newWorld (Some (ox_session None))) ox_two)
       (resending 0 0 1 ox_tokens 0 (ox_answer 200 ''t'') (ox_answer 400 ''g'')) \<and>
     ow_log w' = [Sent_Refresh ''r'', Sent_Refresh ''r'', Tokens_Saved, Definite_Failure]"
proof -
  obtain usable where u: "observed_response ox_host 0 Refresh_Token (Inr (ox_answer 200 ''t'')) = Inr usable"
    using ox_answers(2) by blast
  let ?w = "run_oauth ox_host (newWorld (Some (ox_session None))) ox_two"
  have p: "\<not> pv_sent ox_provider" "os_tokens (pv_session ox_provider) = Some ox_tokens" "tk_refresh ox_tokens = Some ''r''"
    by (simp_all add: ox_provider_def ox_session_def ox_tokens_def)
  from concurrent_transports_resend [of 0 ?w 1 ox_tokens "''r''", OF _ _ _ _ _ _ _ _ u _ ox_answers(1) _ _ _ refl, of ox_tokens 0] p u
  show ?thesis by (simp add: ox_two_run operatorError_def ox_answer_def)
qed

lemma undisturbed_append:
  "logins_undisturbed H w (xs @ ys) \<longleftrightarrow> logins_undisturbed H w xs \<and> logins_undisturbed H (run_oauth H w xs) ys"
  by (induction xs arbitrary: w) (simp_all add: run_oauth_def)

lemma ox_undisturbed: "logins_undisturbed ox_host (newWorld (Some (ox_session (Some (iso_of_ms 0))))) ox_lost_login"
proof -
  have "logins_undisturbed ox_host w ox_lost" for w by (simp add: ox_lost_def)
  then show ?thesis
    unfolding ox_lost_login_def undisturbed_append ox_lost_run by (simp add: newWorld_def)
qed

theorem refresh_token_not_resent_witness:
  "ow_log (run_oauth ox_host (newWorld (Some (ox_session (Some (iso_of_ms 0))))) ox_lost_login) \<noteq>
      [] @ Sent_Refresh ''r'' # Sent_Refresh ''r'' # [] \<and>
    is_uncertain (mark_uncertain 0 (ox_session (Some (iso_of_ms 0))))"
proof -
  have t: "list_all (\<lambda>e. \<not> transport_event (snd e)) ox_lost_login" by (simp add: ox_lost_login_def ox_lost_def)
  have "logins_undisturbed ox_host (newWorld (Some (ox_session (Some (iso_of_ms 0))))) ox_lost_login"
    by (rule ox_undisturbed)
  from refresh_token_not_resent [OF t this refl, of "[]" "''r''" "''r''" "[]"] ox_lost_login_run
  show ?thesis by (simp add: mark_uncertain_def ox_session_def is_uncertain_def)
qed

text \<open>
  Without the last premise it fails: a login reads the file, a preparation marks it and sends
  the refresh token, the answer is lost, and the failed login puts back the file without the
  mark, so the next preparation sends the token again.
\<close>

lemma failed_login_resends:
  "ow_log (run_oauth ox_host (newWorld (Some (ox_session (Some (iso_of_ms 0)))))
     ((0, O_Login_Reads) # ox_lost @ [(0, O_Login_Restores 0)] @ ox_lost)) = [Sent_Refresh ''r'', Sent_Refresh ''r'']"
  by (rule ox_login_resends)

lemma oauth_requests_restricted_witness:
  "\<exists>sends result. policyFetch ox_host ox_policy_options ox_post ox_refused ox_accepted = (sends, result) \<and> length sends = 2 \<and>
     isReplayableBody (wr_body ox_post)"
proof -
  have r: "policyFetch ox_host ox_policy_options ox_post ox_refused ox_accepted = ([Default_Dispatcher, Ipv4_Dispatcher], at_result ox_accepted)"
    by (rule ox_retried)
  from oauth_requests_restricted [OF r] r show ?thesis by simp
qed

theorem scopes_not_widened_witness:
  "set [''a'', ''offline_access''] = {''a''} \<union> refresh_scope_of ox_scope_inputs"
  using scopes_not_widened [OF ox_scopes] by (simp add: ox_scope_inputs_def)

end
