(* ===== verification/ConfigLoader.thy ===== *)
theory ConfigLoader
  imports PluginLoader PolicyEngine
begin

text \<open>
  The deployment configurations of the adapter, \<open>cli/src/adapter/config-loader.ts\<close>.

  \<^item> Ajv checks the schema: what the code reads of an accepted file has the types of
    \<open>DeploymentConfig\<close>. Its error texts, and the text that a message appends from a nested error,
    are left out.
  \<^item> \<open>JSON.parse\<close>, URLs, paths and the content identifier of an artifact are fields of
    \<open>config_host\<close>; the files and the operator's answer are functions.
  \<^item> A \<open>TypeError\<close> that leaves the loader is a value of its own.
\<close>

section \<open>The host and conversions\<close>

record config_host = adapter_host +
  parse_json :: "string \<Rightarrow> jsval option"
  web_address :: "string \<Rightarrow> (string \<times> string) option"
  artifact_cid :: "string \<Rightarrow> string"
  join_path :: "string \<Rightarrow> string \<Rightarrow> string"
  resolve_path :: "string \<Rightarrow> string \<Rightarrow> string"

text \<open>
  \<^item> \<open>web_address\<close>: \<open>protocol\<close> and \<open>pathname\<close> of a URL, \<open>None\<close> when \<open>new URL\<close> throws;
  \<^item> \<open>artifact_cid\<close>: the base32 text of the CID (raw, SHA-256) of the bytes.

  \<open>js_text\<close> is \<open>String(v)\<close> of a JSON value, which a regular expression and \<open>new URL\<close> apply to their
  argument; \<open>None\<close> is its \<open>TypeError\<close>.
\<close>

definition int_text :: "int \<Rightarrow> string" where
  "int_text k = (if k < 0 then CHR ''-'' # show_nat (nat (- k)) else show_nat (nat k))"

fun join_with :: "string \<Rightarrow> string list \<Rightarrow> string" where
  "join_with sep [] = []"
| "join_with sep [x] = x"
| "join_with sep (x # y # xs) = x @ sep @ join_with sep (y # xs)"

fun js_text :: "(rat \<Rightarrow> string) \<Rightarrow> jsval \<Rightarrow> string option" where
  "js_text f Undefined = Some ''undefined''"
| "js_text f Null = Some ''null''"
| "js_text f (Bool b) = Some (if b then ''true'' else ''false'')"
| "js_text f (Num n) = Some (case n of NaN \<Rightarrow> ''NaN'' | NegInf \<Rightarrow> ''-Infinity'' | PosInf \<Rightarrow> ''Infinity'' | Fin q \<Rightarrow> f q)"
| "js_text f (BigI k) = Some (int_text k)"
| "js_text f (Str s) = Some s"
| "js_text f (Arr xs) = map_option (join_with '','') (all_some (map (\<lambda>x. if x = Null \<or> x = Undefined then Some [] else js_text f x) xs))"
| "js_text f (Obj kvs) = (if ''toString'' \<in> fst ` set kvs then None else Some ''[object Object]'')"

definition name_char :: "char \<Rightarrow> bool" where
  "name_char c \<longleftrightarrow> lower_or_digit (lower c) \<or> c \<in> set ''._-''"

text \<open>\<open>/^[A-Za-z0-9][A-Za-z0-9._-]{0,127}$/\<close> and the credential reference around it.\<close>

fun session_name :: "string \<Rightarrow> bool" where
  "session_name [] = False"
| "session_name (c # r) = (lower_or_digit (lower c) \<and> length r \<le> 127 \<and> list_all name_char r)"

definition credential_reference :: "string \<Rightarrow> bool" where
  "credential_reference s \<longleftrightarrow> starts_with ''{{credential:'' s \<and>
     (let r = drop 13 s; n = length r - 2 in 2 \<le> length r \<and> drop n r = ''}}'' \<and> session_name (take n r))"

section \<open>Errors\<close>

datatype config_code =
    CONFIG_DIR_READ_FAILED | CONFIG_INVALID_JSON | CONFIG_SCHEMA_INVALID | PLUGIN_LOAD_FAILED | PLUGIN_REFERENCE_MISMATCH
  | PLUGIN_HASH_MISMATCH | PLUGIN_TRUST_REJECTED | CREDENTIAL_PROVIDER_UNSUPPORTED | POLICY_REFERENCE_MISMATCH
  | DEFAULT_REQUIREMENT_UNSATISFIABLE | DUPLICATE_APPLICATION_DID

definition quoted :: "string \<Rightarrow> string" where
  "quoted s = CHR 0x22 # s @ [CHR 0x22]"

datatype config_error = Config_Error config_code string string | Config_Type_Error

section \<open>The schema\<close>

definition object_schema :: "string list \<Rightarrow> (string \<times> jsval) list \<Rightarrow> jsval" where
  "object_schema required properties = Obj [(''type'', Str ''object''), (''required'', Arr (map Str required)),
     (''properties'', Obj properties), (''additionalProperties'', Bool False)]"

definition typed_object_schema :: jsval where
  "typed_object_schema = Obj [(''type'', Str ''object''), (''required'', Arr [Str ''type''])]"

definition policyEntrySchema :: jsval where
  "policyEntrySchema = Obj [(''type'', Str ''object''),
     (''properties'', Obj [(''reject'', Obj [(''type'', Str ''boolean''), (''default'', Bool False)]), (''requirements'', typed_object_schema)]),
     (''oneOf'', Arr [
        Obj [(''required'', Arr [Str ''requirements'']), (''properties'', Obj [(''reject'', Obj [(''const'', Bool False)])])],
        Obj [(''required'', Arr [Str ''reject'']), (''not'', Obj [(''required'', Arr [Str ''requirements''])]),
          (''properties'', Obj [(''reject'', Obj [(''const'', Bool True)])])]])]"

definition policy_schema :: jsval where
  "policy_schema = object_schema
     [''version'', ''type'', ''policyProfileUrl'', ''applicationDid'', ''executionProfile'', ''defaultRequirement'', ''signerGroups'']
     [(''version'', Obj [(''const'', Str ''1'')]), (''type'', Obj [(''const'', Str ''MpasApplicationPolicy'')]),
      (''policyProfileUrl'', Obj [(''const'', Str ''https://github.com/oma3dao/mpas/blob/main/specs/mpas-profile-policy-json.md'')]),
      (''applicationDid'', did_schema),
      (''executionProfile'', object_schema [''id''] [(''id'', did_schema), (''format'', nonempty_schema)]),
      (''defaultRequirement'', typed_object_schema),
      (''signerGroups'', Obj [(''type'', Str ''object''), (''required'', Arr [Str ''all'']),
         (''additionalProperties'', Obj [(''type'', Str ''array''), (''items'', did_schema)])]),
      (''policies'', Obj [(''type'', Str ''object''),
         (''additionalProperties'', Obj [(''type'', Str ''array''), (''items'', policyEntrySchema)])]),
      (''context'', Obj [(''type'', Str ''object''), (''additionalProperties'', Bool True)])]"

definition deploymentConfigSchema :: jsval where
  "deploymentConfigSchema = object_schema
     [''version'', ''type'', ''name'', ''target'', ''plugin'', ''credentialBindings'', ''executionTarget'', ''policy'', ''signerKeys'']
     [(''version'', Obj [(''const'', Str ''1'')]), (''type'', Obj [(''const'', Str ''MpasAdapterDeploymentConfig'')]), (''name'', nonempty_schema),
      (''target'', object_schema [''applicationDid''] [(''applicationDid'', did_schema)]),
      (''plugin'', object_schema [''pluginDid'', ''pluginVersion'', ''artifactDid'', ''path'']
         [(''pluginDid'', did_schema), (''pluginVersion'', nonempty_schema),
          (''artifactDid'', Obj [(''type'', Str ''string''), (''pattern'', Str ''^did:artifact:[a-z2-7]+'')]), (''path'', nonempty_schema)]),
      (''credentialBindings'', Obj [(''type'', Str ''array''),
         (''items'', object_schema [''credentialHandle'', ''provider'']
            [(''credentialHandle'', nonempty_schema), (''provider'', Obj [(''enum'', Arr [Str ''file'', Str ''macos-keychain''])])]),
         (''minItems'', Num (Fin 1))]),
      (''executionTarget'', typed_object_schema), (''policy'', policy_schema),
      (''signerKeys'', Obj [(''type'', Str ''array''),
         (''items'', object_schema [''did''] [(''did'', did_schema), (''label'', string_schema), (''publicJwk'', Obj [(''type'', Str ''object'')])]),
         (''minItems'', Num (Fin 1))]),
      (''passThrough'', Obj [(''enum'', Arr [Str ''allow'', Str ''deny''])])]"

section \<open>Managed OAuth\<close>

definition managed_auth :: "jsval \<Rightarrow> jsval option" where
  "managed_auth config = (let target = js_get config ''executionTarget'' in
     if strict_eq (js_get target ''type'') (Str ''mcp.http'') \<and> strict_eq (js_get (js_get target ''auth'') ''type'') (Str ''oauth2'')
     then Some (js_get target ''auth'') else None)"

definition absent :: "jsval \<Rightarrow> bool" where
  "absent v \<longleftrightarrow> v = Undefined \<or> v = Null"

definition nonempty_texts :: "jsval \<Rightarrow> bool" where
  "nonempty_texts v \<longleftrightarrow> is_array v \<and> list_all (\<lambda>x. is_string x \<and> x \<noteq> Str []) (elements v)"

text \<open>\<open>Object.entries\<close> of a JSON value.\<close>

fun own_entries :: "jsval \<Rightarrow> (string \<times> jsval) list" where
  "own_entries (Obj kvs) = kvs"
| "own_entries (Arr xs) = map (\<lambda>(i, x). (show_nat i, x)) (enumerate 0 xs)"
| "own_entries (Str s) = map (\<lambda>(i, c). (show_nat i, Str [c])) (enumerate 0 s)"
| "own_entries v = []"

definition https_url :: "('a) config_host_scheme \<Rightarrow> jsval \<Rightarrow> (string \<Rightarrow> bool) \<Rightarrow> bool" where
  "https_url H v pathOk \<longleftrightarrow> (case js_text (number_text H) v of
       None \<Rightarrow> False
     | Some t \<Rightarrow> (case web_address H t of None \<Rightarrow> False | Some (protocol, pathname) \<Rightarrow> protocol = ''https:'' \<and> pathOk pathname))"

definition bounded_integer :: "jsval \<Rightarrow> rat \<Rightarrow> bool" where
  "bounded_integer v limit \<longleftrightarrow> (case v of Num n \<Rightarrow> num_is_integer n \<and> \<not> num_lt n (Fin 0) \<and> \<not> num_lt (Fin limit) n | _ \<Rightarrow> False)"

text \<open>The checks give \<open>Some\<close> the message of the error they return, or \<open>Some None\<close> when they throw.\<close>

definition client_error :: "('a) config_host_scheme \<Rightarrow> jsval \<Rightarrow> string option option" where
  "client_error H client =
    (let type = js_get client ''type''; static = (type = Str ''static''); auto = (type = Str ''auto'');
         clientId = js_get client ''clientId'';
         clientSecret = (if static \<or> auto then js_get client ''clientSecret'' else Undefined);
         cimd = (if type = Str ''cimd'' \<or> auto then js_get client ''clientIdMetadataDocument'' else Undefined) in
     if type \<notin> Str ` {''auto'', ''static'', ''cimd'', ''dynamic''} then Some (Some ''Managed OAuth client mode is invalid.'')
     else if (static \<or> auto \<and> clientId \<noteq> Undefined) \<and> (\<not> is_string clientId \<or> clientId = Str [])
     then Some (Some ''Managed OAuth static client mode requires clientId.'')
     else case (if clientSecret = Undefined then Some True else map_option credential_reference (js_text (number_text H) clientSecret)) of
         None \<Rightarrow> Some None
       | Some reference \<Rightarrow>
           if \<not> reference then Some (Some ''Managed OAuth clientSecret must be an exact credential reference.'')
           else if type = Str ''cimd'' \<and> \<not> is_string cimd then Some (Some ''Managed OAuth CIMD mode requires clientIdMetadataDocument.'')
           else if cimd \<noteq> Undefined \<and> \<not> https_url H cimd (\<lambda>p. p \<noteq> ''/'')
           then Some (Some ''Managed OAuth clientIdMetadataDocument must use HTTPS and contain a non-root path.'')
           else None)"

definition validateManagedOAuthConfiguration :: "('a) config_host_scheme \<Rightarrow> jsval \<Rightarrow> jsval \<Rightarrow> string option option" where
  "validateManagedOAuthConfiguration H config auth =
    (let bindings = elements (js_get config ''credentialBindings'');
         scopes = js_get auth ''scopes''; owner = js_get auth ''owner''; sharing = js_get auth ''sharing'';
         safety = js_get (js_get auth ''refresh'') ''safetyWindowMs''; jitter = js_get (js_get auth ''refresh'') ''jitterMaxMs'' in
     if length bindings \<noteq> 1 \<or> js_get (hd bindings) ''provider'' \<noteq> Str ''file''
     then Some (Some ''Managed OAuth requires exactly one file-backed OAuth session binding.'')
     else if js_get auth ''scopePolicy'' \<noteq> Undefined \<and> js_get auth ''scopePolicy'' \<noteq> Str ''fixed''
     then Some (Some ''Managed OAuth scopePolicy currently supports only fixed.'')
     else if scopes \<noteq> Undefined \<and> \<not> nonempty_texts scopes then Some (Some ''Managed OAuth scopes must be non-empty strings.'')
     else if js_get auth ''issuer'' \<noteq> Undefined \<and> \<not> https_url H (js_get auth ''issuer'') (\<lambda>p. True)
     then Some (Some ''Managed OAuth issuer must be an HTTPS URL.'')
     else case client_error H (if absent (js_get auth ''client'') then Obj [(''type'', Str ''auto'')] else js_get auth ''client'') of
         Some e \<Rightarrow> Some e
       | None \<Rightarrow>
           if owner \<noteq> Undefined \<and> (\<not> is_string owner \<or> owner = Str [])
           then Some (Some ''Managed OAuth owner must be a non-empty operator principal.'')
           else (case List.find (\<lambda>(k, v). \<not> nonempty_texts v) (own_entries sharing) of
               Some (k, v) \<Rightarrow> Some (Some (''Managed OAuth sharing.'' @ k @ '' must contain non-empty strings.''))
             | None \<Rightarrow>
                 if truthy (js_get sharing ''applicationDids'') \<and>
                   \<not> array_includes (js_get sharing ''applicationDids'') (js_get (js_get config ''target'') ''applicationDid'')
                 then Some (Some ''Managed OAuth sharing must authorize the deployment Application DID.'')
                 else if safety \<noteq> Undefined \<and> \<not> bounded_integer safety 300000
                 then Some (Some ''Managed OAuth refresh safetyWindowMs must be from 0 to 300000.'')
                 else if jitter \<noteq> Undefined \<and> \<not> bounded_integer jitter 60000
                 then Some (Some ''Managed OAuth refresh jitterMaxMs must be from 0 to 60000.'')
                 else None))"

section \<open>The default requirement\<close>

text \<open>
  \<open>isRequirementSatisfiableForProposer\<close>; \<open>None\<close> is the \<open>TypeError\<close> of signers that are no array.
  \<open>every\<close> and \<open>some\<close> stop at the first element that decides.
\<close>

definition threshold_satisfiable :: "jsval \<Rightarrow> jsval \<Rightarrow> did \<Rightarrow> bool option" where
  "threshold_satisfiable requirement groups proposerDid = (case js_get requirement ''threshold'' of
       Num n \<Rightarrow>
         if \<not> num_is_integer n \<or> num_lt n (Fin 1) then Some False
         else (let explicit = js_get requirement ''eligibleSigners''; g = js_get requirement ''eligibleSignerGroup'';
                   eligibleSigners = (if \<not> absent explicit then explicit
                     else if truthy g then own_value groups (text_of g) else Undefined) in
           if \<not> truthy eligibleSigners then Some False
           else if \<not> is_array eligibleSigners then None
           else Some (num_le n (num_of_nat (length (filter (\<lambda>s. s \<noteq> Str proposerDid) (elements eligibleSigners))))))
     | _ \<Rightarrow> Some False)"

function isRequirementSatisfiableForProposer :: "jsval \<Rightarrow> jsval \<Rightarrow> did \<Rightarrow> bool option" where
  "isRequirementSatisfiableForProposer requirement groups proposerDid =
    (let type = js_get requirement ''type''; reqs = js_get requirement ''requirements'' in
     if type = Str ''proposerOnly'' then Some True
     else if type = Str ''threshold'' then threshold_satisfiable requirement groups proposerDid
     else if type = Str ''allOf'' then
       (if \<not> is_array reqs then None
        else case first_error (\<lambda>i nested. case isRequirementSatisfiableForProposer nested groups proposerDid of
            Some True \<Rightarrow> None | r \<Rightarrow> Some r) 0 (elements reqs) of None \<Rightarrow> Some True | Some r \<Rightarrow> r)
     else if type = Str ''anyOf'' then
       (if \<not> is_array reqs then None
        else case first_error (\<lambda>i nested. case isRequirementSatisfiableForProposer nested groups proposerDid of
            Some False \<Rightarrow> None | r \<Rightarrow> Some r) 0 (elements reqs) of None \<Rightarrow> Some False | Some r \<Rightarrow> r)
     else Some False)"
  by pat_completeness auto
termination
  by (relation "measure (\<lambda>(r, g, d). size r)") (auto dest: size_elements_get)

declare isRequirementSatisfiableForProposer.simps [simp del]

definition validateDefaultRequirement :: "jsval \<Rightarrow> string \<Rightarrow> config_error option" where
  "validateDefaultRequirement config filePath =
    (let policy = js_get config ''policy''; groups = js_get policy ''signerGroups'';
         proposers = (if absent (js_get groups ''proposers'') then js_get groups ''all'' else js_get groups ''proposers'') in
     first_error (\<lambda>i d. case isRequirementSatisfiableForProposer (js_get policy ''defaultRequirement'') groups (text_of d) of
         None \<Rightarrow> Some Config_Type_Error
       | Some True \<Rightarrow> None
       | Some False \<Rightarrow> Some (Config_Error DEFAULT_REQUIREMENT_UNSATISFIABLE
           (''policy.defaultRequirement cannot be satisfied for permitted proposer '' @ text_of d @
            ''. Check threshold signer groups and account for self-approval exclusion.'') filePath)) 0 (elements proposers))"

section \<open>Loading one file\<close>

definition signer_error :: "('a) config_host_scheme \<Rightarrow> jsval \<Rightarrow> string option" where
  "signer_error H signer =
    (let d = text_of (js_get signer ''did''); publicJwk = js_get signer ''publicJwk'';
         label = (if absent (js_get signer ''label'') then d else text_of (js_get signer ''label'')) in
     if isDidJwk d
     then (case didJwkToJwk H d of
         None \<Rightarrow> Some (''signerKeys: invalid did:jwk for '' @ label @ '': '')
       | Some embedded \<Rightarrow>
           if truthy publicJwk \<and> (validatePublicJwk H publicJwk (Some Verify_Op) = None \<or> samePublicKey H publicJwk embedded \<noteq> Some True)
           then Some (''signerKeys: publicJwk does not match the key embedded in did:jwk for '' @ label @
             ''. The DID is the source of truth; remove or correct publicJwk.'')
           else None)
     else if \<not> truthy publicJwk then Some (''signerKeys: publicJwk is required for non-did:jwk DID '' @ d @ ''.'')
     else if validatePublicJwk H publicJwk (Some Verify_Op) = None then Some ''signerKeys: invalid public JWK.''
     else None)"

definition computeArtifactDid :: "('a) config_host_scheme \<Rightarrow> jsval \<Rightarrow> string" where
  "computeArtifactDid H v = ''did:artifact:'' @ artifact_cid H (jcs H v)"

record loaded_deployment =
  dp_filePath :: string
  dp_config :: jsval
  dp_plugin :: jsval

definition deployment_target :: "loaded_deployment \<Rightarrow> jsval" where
  "deployment_target d = js_get (js_get (dp_config d) ''target'') ''applicationDid''"

text \<open>The checks of a parsed configuration before the plugin is read.\<close>

definition check_config :: "('a) config_host_scheme \<Rightarrow> jsval \<Rightarrow> string \<Rightarrow> config_error option" where
  "check_config H config filePath =
    (let invalid = (\<lambda>m. Config_Error CONFIG_SCHEMA_INVALID m filePath) in
     case List.find (\<lambda>b. js_get b ''provider'' \<noteq> Str ''file'') (elements (js_get config ''credentialBindings'')) of
       Some b \<Rightarrow> Some (Config_Error CREDENTIAL_PROVIDER_UNSUPPORTED (''Credential provider '' @ quoted (text_of (js_get b ''provider'')) @
         '' is not implemented. Use provider '' @ quoted ''file'' @ '' or implement '' @ quoted (text_of (js_get b ''provider'')) @
         '' explicitly. The adapter will not silently read credentials from disk.'') filePath)
     | None \<Rightarrow>
       (case (case managed_auth config of
           None \<Rightarrow> None
         | Some auth \<Rightarrow> (case js_text (number_text H) (if absent (js_get auth ''session'') then Str [] else js_get auth ''session'') of
             None \<Rightarrow> Some Config_Type_Error
           | Some t \<Rightarrow>
               if \<not> session_name t then Some (invalid ''executionTarget.auth.session must identify the configured OAuth token session.'')
               else map_option (\<lambda>e. case e of None \<Rightarrow> Config_Type_Error | Some m \<Rightarrow> invalid m) (validateManagedOAuthConfiguration H config auth))) of
         Some e \<Rightarrow> Some e
       | None \<Rightarrow>
         (case validatePolicyConfig (js_get config ''policy'') of
           Some m \<Rightarrow> Some (invalid (''Policy does not conform to the MPAS JSON Verifier Policy Profile: '' @ m))
         | None \<Rightarrow>
           (case validateDefaultRequirement config filePath of
             Some e \<Rightarrow> Some e
           | None \<Rightarrow> first_error (\<lambda>i signer. map_option invalid (signer_error H signer)) 0 (elements (js_get config ''signerKeys''))))))"

definition check_plugin :: "('a) config_host_scheme \<Rightarrow> jsval \<Rightarrow> jsval \<Rightarrow> string \<Rightarrow> config_error option" where
  "check_plugin H config plugin filePath =
    (let reference = js_get config ''plugin''; target = js_get (js_get config ''target'') ''applicationDid'';
         policy = js_get config ''policy'';
         profile = js_get policy ''executionProfile''; actual = js_get plugin ''executionProfile'' in
     if js_get plugin ''pluginDid'' \<noteq> js_get reference ''pluginDid'' \<or> js_get plugin ''pluginVersion'' \<noteq> js_get reference ''pluginVersion'' \<or>
       js_get plugin ''applicationDid'' \<noteq> target
     then Some (Config_Error PLUGIN_REFERENCE_MISMATCH ''Deployment config plugin reference does not match plugin.'' filePath)
     else if js_get policy ''applicationDid'' \<noteq> target
     then Some (Config_Error POLICY_REFERENCE_MISMATCH ''Policy applicationDid does not match the deployment target applicationDid.'' filePath)
     else if js_get profile ''id'' \<noteq> js_get actual ''id'' \<or>
       js_get profile ''format'' \<noteq> Undefined \<and> js_get profile ''format'' \<noteq> js_get actual ''format''
     then Some (Config_Error POLICY_REFERENCE_MISMATCH ''Policy executionProfile does not match the Application Plugin executionProfile.'' filePath)
     else if Str (computeArtifactDid H plugin) \<noteq> js_get reference ''artifactDid''
     then Some (Config_Error PLUGIN_HASH_MISMATCH ''Deployment config plugin artifactDid does not match plugin contents.'' filePath)
     else None)"

text \<open>
  \<open>read\<close> gives the bytes of a file; \<open>confirm\<close> is the operator's answer to the trust report of the plugin and
  the configuration.
\<close>

definition loadDeploymentConfigFile ::
    "('a) config_host_scheme \<Rightarrow> (string \<Rightarrow> string option) \<Rightarrow> (jsval \<Rightarrow> jsval \<Rightarrow> bool) \<Rightarrow> string \<Rightarrow> string \<Rightarrow> config_error + loaded_deployment" where
  "loadDeploymentConfigFile H read confirm filePath configDir =
    (case (case read filePath of None \<Rightarrow> None | Some raw \<Rightarrow> parse_json H (utf8_text H raw)) of
       None \<Rightarrow> Inl (Config_Error CONFIG_INVALID_JSON (''Deployment config is not valid JSON: '' @ filePath) filePath)
     | Some config \<Rightarrow>
       if \<not> (case compile_schema H deploymentConfigSchema of Some validate \<Rightarrow> validate config | None \<Rightarrow> False)
       then Inl (Config_Error CONFIG_SCHEMA_INVALID (filePath @ '' does not conform to the schema:'') filePath)
       else case check_config H config filePath of
         Some e \<Rightarrow> Inl e
       | None \<Rightarrow>
         (let pluginPath = resolve_path H configDir (text_of (js_get (js_get config ''plugin'') ''path'')) in
          case loadPlugin H pluginPath (read pluginPath) of
            Inl e \<Rightarrow> Inl (Config_Error PLUGIN_LOAD_FAILED (ld_message e) pluginPath)
          | Inr plugin \<Rightarrow>
            (case check_plugin H config plugin filePath of
               Some e \<Rightarrow> Inl e
             | None \<Rightarrow>
               if \<not> confirm plugin config
               then Inl (Config_Error PLUGIN_TRUST_REJECTED ''Operator declined to use the plugin after reviewing its trust information.'' filePath)
               else Inr \<lparr>dp_filePath = filePath, dp_config = config, dp_plugin = plugin\<rparr>)))"

section \<open>Loading a directory\<close>

definition ends_with :: "string \<Rightarrow> string \<Rightarrow> bool" where
  "ends_with p s \<longleftrightarrow> length p \<le> length s \<and> drop (length s - length p) s = p"

record loaded_configs =
  lcs_byApplicationDid :: "(jsval, loaded_deployment) jsmap"
  lcs_configs :: "loaded_deployment list"

fun load_all ::
    "('a) config_host_scheme \<Rightarrow> (string \<Rightarrow> string option) \<Rightarrow> (jsval \<Rightarrow> jsval \<Rightarrow> bool) \<Rightarrow> string \<Rightarrow> loaded_configs \<Rightarrow> string list \<Rightarrow>
      config_error + loaded_configs" where
  "load_all H read confirm configDir acc [] = Inr acc"
| "load_all H read confirm configDir acc (f # fs) =
    (let filePath = join_path H configDir f in
     case loadDeploymentConfigFile H read confirm filePath configDir of
       Inl e \<Rightarrow> Inl e
     | Inr d \<Rightarrow> (case map_get (lcs_byApplicationDid acc) (deployment_target d) of
         Some existing \<Rightarrow> Inl (Config_Error DUPLICATE_APPLICATION_DID
           (''Deployment configs '' @ quoted (text_of (js_get (dp_config existing) ''name'')) @ '' and '' @
            quoted (text_of (js_get (dp_config d) ''name'')) @ '' both target '' @ text_of (deployment_target d) @ ''. Each application DID must be served by exactly one config.'') filePath)
       | None \<Rightarrow> load_all H read confirm configDir \<lparr>lcs_byApplicationDid = map_set (deployment_target d) d (lcs_byApplicationDid acc),
           lcs_configs = lcs_configs acc @ [d]\<rparr> fs))"

definition loadDeploymentConfigs ::
    "('a) config_host_scheme \<Rightarrow> (string \<Rightarrow> string option) \<Rightarrow> (jsval \<Rightarrow> jsval \<Rightarrow> bool) \<Rightarrow> string \<Rightarrow> string list option \<Rightarrow>
      config_error + loaded_configs" where
  "loadDeploymentConfigs H read confirm configDir listing = (case listing of
       None \<Rightarrow> Inl (Config_Error CONFIG_DIR_READ_FAILED (''Unable to read config directory: '' @ configDir) configDir)
     | Some files \<Rightarrow> load_all H read confirm configDir \<lparr>lcs_byApplicationDid = [], lcs_configs = []\<rparr>
         (sort (filter (ends_with ''.json'') files)))"

end
