(* ===== verification/ConfigProperties.thy ===== *)
theory ConfigProperties
  imports ConfigLoader PolicyProperties
begin

text \<open>
  What a loaded deployment is: pinned to its plugin, alone on its application DID, and with a default
  requirement that the policy engine can satisfy for every permitted proposer.
\<close>

section \<open>Loaded configurations\<close>

lemma loaded_file:
  assumes "loadDeploymentConfigFile H read confirm filePath configDir = Inr d"
  shows "check_config H (dp_config d) filePath = None \<and> check_plugin H (dp_config d) (dp_plugin d) filePath = None \<and>
    confirm (dp_plugin d) (dp_config d) \<and>
    (let path = resolve_path H configDir (text_of (js_get (js_get (dp_config d) ''plugin'') ''path''))
     in loadPlugin H path (read path) = Inr (dp_plugin d))"
  using assms by (auto simp: loadDeploymentConfigFile_def Let_def split: option.splits sum.splits if_splits)

definition load_ok :: "('a) config_host_scheme \<Rightarrow> (string \<Rightarrow> string option) \<Rightarrow> (jsval \<Rightarrow> jsval \<Rightarrow> bool) \<Rightarrow> string \<Rightarrow> loaded_configs \<Rightarrow> bool" where
  "load_ok H read confirm configDir c \<longleftrightarrow> distinct (map deployment_target (lcs_configs c)) \<and>
     (\<forall>k d. map_get (lcs_byApplicationDid c) k = Some d \<longleftrightarrow> d \<in> set (lcs_configs c) \<and> deployment_target d = k) \<and>
     (\<forall>d \<in> set (lcs_configs c). \<exists>filePath. loadDeploymentConfigFile H read confirm filePath configDir = Inr d)"

lemma load_all_ok:
  "load_all H read confirm configDir acc files = Inr c \<Longrightarrow> load_ok H read confirm configDir acc \<Longrightarrow> load_ok H read confirm configDir c"
proof (induction H read confirm configDir acc files rule: load_all.induct)
  case (2 H read confirm configDir acc f fs)
  from 2(2) obtain d where d: "loadDeploymentConfigFile H read confirm (join_path H configDir f) configDir = Inr d"
    and new: "map_get (lcs_byApplicationDid acc) (deployment_target d) = None"
    and rest: "load_all H read confirm configDir \<lparr>lcs_byApplicationDid = map_set (deployment_target d) d (lcs_byApplicationDid acc),
        lcs_configs = lcs_configs acc @ [d]\<rparr> fs = Inr c"
    by (auto simp: Let_def split: sum.splits option.splits)
  have fresh: "deployment_target x \<noteq> deployment_target d" if "x \<in> set (lcs_configs acc)" for x
  proof
    assume "deployment_target x = deployment_target d"
    with 2(3) that have "map_get (lcs_byApplicationDid acc) (deployment_target d) = Some x" by (simp add: load_ok_def)
    with new show False by simp
  qed
  have "load_ok H read confirm configDir \<lparr>lcs_byApplicationDid = map_set (deployment_target d) d (lcs_byApplicationDid acc),
        lcs_configs = lcs_configs acc @ [d]\<rparr>"
    using 2(3) d fresh by (fastforce simp: load_ok_def split: if_splits)
  from 2(1) [OF refl d new rest this] show ?case .
qed simp

text \<open>The identities and the profile that a configuration, its policy and its plugin agree on, and the pinned artifact.\<close>

definition pinned_to :: "('a) config_host_scheme \<Rightarrow> jsval \<Rightarrow> jsval \<Rightarrow> bool" where
  "pinned_to H config plugin \<longleftrightarrow>
     js_get plugin ''pluginDid'' = js_get (js_get config ''plugin'') ''pluginDid'' \<and>
     js_get plugin ''pluginVersion'' = js_get (js_get config ''plugin'') ''pluginVersion'' \<and>
     js_get plugin ''applicationDid'' = js_get (js_get config ''target'') ''applicationDid'' \<and>
     js_get (js_get config ''policy'') ''applicationDid'' = js_get (js_get config ''target'') ''applicationDid'' \<and>
     js_get (js_get (js_get config ''policy'') ''executionProfile'') ''id'' = js_get (js_get plugin ''executionProfile'') ''id'' \<and>
     js_get (js_get (js_get config ''policy'') ''executionProfile'') ''format'' \<in> {Undefined, js_get (js_get plugin ''executionProfile'') ''format''} \<and>
     js_get (js_get config ''plugin'') ''artifactDid'' = Str (computeArtifactDid H plugin)"

lemma check_plugin_None: "check_plugin H config plugin filePath = None \<Longrightarrow> pinned_to H config plugin"
  by (auto simp: check_plugin_def pinned_to_def Let_def split: if_splits)

text \<open>A signer's key is in its DID, which a configured key repeats, or it is configured and valid.\<close>

definition signer_usable :: "('a) config_host_scheme \<Rightarrow> jsval \<Rightarrow> bool" where
  "signer_usable H signer \<longleftrightarrow>
     (let d = text_of (js_get signer ''did''); publicJwk = js_get signer ''publicJwk'' in
      if isDidJwk d
      then \<exists>embedded. didJwkToJwk H d = Some embedded \<and>
        (truthy publicJwk \<longrightarrow> validatePublicJwk H publicJwk (Some Verify_Op) \<noteq> None \<and> samePublicKey H publicJwk embedded = Some True)
      else truthy publicJwk \<and> validatePublicJwk H publicJwk (Some Verify_Op) \<noteq> None)"

lemma signer_error_None: "signer_error H signer = None \<Longrightarrow> signer_usable H signer"
  by (auto simp: signer_error_def signer_usable_def Let_def split: option.splits if_splits)

lemma check_config_None:
  assumes "check_config H config filePath = None"
  shows "(\<forall>b \<in> set (elements (js_get config ''credentialBindings'')). js_get b ''provider'' = Str ''file'') \<and>
    validatePolicyConfig (js_get config ''policy'') = None \<and> validateDefaultRequirement config filePath = None \<and>
    (\<forall>s \<in> set (elements (js_get config ''signerKeys'')). signer_usable H s)"
  using assms by (auto simp: check_config_def Let_def find_None_iff intro: signer_error_None dest: first_error_NoneD split: option.splits if_splits)

text \<open>
  C18. The adapter routes an application DID to one configuration, the only one with that target. Its
  plugin is loaded from the configured file, has the configured plugin DID and version, the target as
  application DID, the execution profile of the policy and the pinned artifact identifier, and was
  confirmed by the operator; its policy is for the target and valid, its default requirement passes
  the check of C19, every credential comes from a file and every signer has a usable key.
\<close>

theorem loaded_configs_are_pinned:
  assumes "loadDeploymentConfigs H read confirm configDir listing = Inr c"
  shows "distinct (map deployment_target (lcs_configs c)) \<and>
    (\<forall>k d. map_get (lcs_byApplicationDid c) k = Some d \<longleftrightarrow> d \<in> set (lcs_configs c) \<and> deployment_target d = k) \<and>
    (\<forall>d \<in> set (lcs_configs c).
       (let path = resolve_path H configDir (text_of (js_get (js_get (dp_config d) ''plugin'') ''path''))
        in loadPlugin H path (read path) = Inr (dp_plugin d)) \<and>
       pinned_to H (dp_config d) (dp_plugin d) \<and> confirm (dp_plugin d) (dp_config d) \<and>
       validatePolicyConfig (js_get (dp_config d) ''policy'') = None \<and>
       (\<exists>filePath. validateDefaultRequirement (dp_config d) filePath = None) \<and>
       (\<forall>b \<in> set (elements (js_get (dp_config d) ''credentialBindings'')). js_get b ''provider'' = Str ''file'') \<and>
       (\<forall>s \<in> set (elements (js_get (dp_config d) ''signerKeys'')). signer_usable H s))"
proof -
  obtain files where "load_all H read confirm configDir \<lparr>lcs_byApplicationDid = [], lcs_configs = []\<rparr> files = Inr c"
    using assms by (auto simp: loadDeploymentConfigs_def split: option.splits)
  then have ok: "load_ok H read confirm configDir c" by (rule load_all_ok) (simp add: load_ok_def)
  moreover have "\<exists>filePath. loadDeploymentConfigFile H read confirm filePath configDir = Inr d" if "d \<in> set (lcs_configs c)" for d
    using ok that by (auto simp: load_ok_def)
  ultimately show ?thesis
    unfolding load_ok_def using loaded_file check_plugin_None check_config_None by blast
qed

section \<open>The typed groups\<close>

lemma map_of_typed_groups:
  assumes "list_all2 (\<lambda>kv g. group_of kv = Some g) kvs gs" "\<And>kv. kv \<in> set kvs \<Longrightarrow> isDidArray (snd kv)"
  shows "map_of kvs g = map_option (\<lambda>ds. Arr (map Str ds)) (map_of gs g) \<and> (\<forall>ds. map_of gs g = Some ds \<longrightarrow> wf_group ds)"
  using assms
proof (induction rule: list_all2_induct)
  case (Cons kv kvs gd gs)
  then have "isDidArray (snd kv)" by simp
  then obtain ds where ds: "snd kv = Arr (map Str ds)" "wf_group ds"
    unfolding isDidArray_iff by blast
  then have "gd = (fst kv, ds)"
    using Cons.hyps(1) by (auto simp: group_of_def all_texts_Some_iff)
  with ds Cons show ?case by (cases kv) auto
qed simp

lemma typed_groups:
  assumes "validatePolicyConfig j = None" "policy_of j = Some p"
  shows "\<exists>kvs. js_get j ''signerGroups'' = Obj kvs \<and>
    (\<forall>g. map_of kvs g = map_option (\<lambda>ds. Arr (map Str ds)) (group_lookup p g)) \<and> (\<forall>g ds. group_lookup p g = Some ds \<longrightarrow> wf_group ds)"
proof -
  let ?groups = "js_get j ''signerGroups''"
  have rec: "is_record ?groups"
    and fg: "first_error (\<lambda>_ (groupName, signers). if isDidArray signers then None
               else Some (''Policy signerGroups.'' @ groupName @ '' must be a non-empty array of unique DIDs.''))
               0 (entries ?groups) = None"
    using assms(1) by (auto simp: validatePolicyConfig_def Let_def split: if_splits option.splits)
  then obtain kvs where kvs: "?groups = Obj kvs" by (auto elim: is_recordE)
  obtain gs where gs: "signerGroups p = Some gs" "all_some (map group_of kvs) = Some gs"
    using assms(2) kvs by (auto simp: policy_of_def split: option.splits if_splits)
  have all2: "list_all2 (\<lambda>kv g. group_of kv = Some g) kvs gs"
    using gs(2) by (simp add: all_some_Some_iff map_eq_map_SomeD)
  have did: "isDidArray (snd kv)" if "kv \<in> set kvs" for kv
    using first_error_NoneD [OF fg, of kv] that kvs by (auto split: prod.splits if_splits)
  show ?thesis using map_of_typed_groups [OF all2 did] kvs gs(1) by (auto simp: group_lookup_def)
qed

section \<open>Satisfiable requirements\<close>

text \<open>
  A requirement is uniform for a decision when its thresholds count that decision, and signers it lists
  itself are listed once.
\<close>

fun uniform :: "decision \<Rightarrow> requirement \<Rightarrow> bool" where
  "uniform d ProposerOnly = True"
| "uniform d (Threshold t) = (threshold_decision t = d \<and> opt_all (\<lambda>ds. ds \<noteq> [] \<and> distinct ds) (tr_eligibleSigners t))"
| "uniform d (AllOf rs) = list_all (uniform d) rs"
| "uniform d (AnyOf rs) = list_all (uniform d) rs"

lemma first_error_every:
  assumes "\<And>x. x \<in> set xs \<Longrightarrow> f x = Some (P x)"
  shows "first_error (\<lambda>i x. case f x of Some True \<Rightarrow> None | r \<Rightarrow> Some r) k xs = (if list_all P xs then None else Some (Some False))"
  using assms
proof (induction xs arbitrary: k)
  case (Cons x xs) then show ?case by (cases "P x") auto
qed simp

lemma first_error_some:
  assumes "\<And>x. x \<in> set xs \<Longrightarrow> f x = Some (P x)"
  shows "first_error (\<lambda>i x. case f x of Some False \<Rightarrow> None | r \<Rightarrow> Some r) k xs = (if list_ex P xs then Some (Some True) else None)"
  using assms
proof (induction xs arbitrary: k)
  case (Cons x xs) then show ?case by (cases "P x") auto
qed simp

lemma count_others: "distinct ds \<Longrightarrow> card {s \<in> set ds. s \<noteq> x} = length (filter (\<lambda>s. s \<noteq> Str x) (map Str ds))"
proof -
  assume "distinct ds"
  then have "card (set (filter (\<lambda>s. s \<noteq> x) ds)) = length (filter (\<lambda>s. s \<noteq> x) ds)" by (intro distinct_card) simp
  moreover have "filter (\<lambda>s. s \<noteq> Str x) (map Str ds) = map Str (filter (\<lambda>s. s \<noteq> x) ds)" by (induction ds) auto
  ultimately show ?thesis by simp
qed

lemma opt_texts_Some: "opt_texts v = Some (Some ds) \<longleftrightarrow> v = Arr (map Str ds)"
  by (cases v) (auto simp: all_texts_Some_iff)

lemma opt_texts_None: "opt_texts v = Some None \<longleftrightarrow> v = Undefined"
  by (cases v) simp_all

definition full_support :: "decision \<Rightarrow> (did \<times> decision) set" where
  "full_support d = {(s, x). x = d}"

lemma full_supporters: "threshold_decision t = d \<Longrightarrow> supporters p pd (full_support d) t = {s \<in> set (resolveEligibleSigners t p). s \<noteq> pd}"
  by (auto simp: supporters_def full_support_def)

lemma threshold_satisfiable_iff:
  assumes t: "threshold_of v = Some t" and ok: "threshold_error v (Obj kvs) path = None"
    and groups: "\<And>g. map_of kvs g = map_option (\<lambda>ds. Arr (map Str ds)) (group_lookup p g)" "\<And>g ds. group_lookup p g = Some ds \<Longrightarrow> wf_group ds"
    and u: "uniform d (Threshold t)"
  shows "threshold_satisfiable v (Obj kvs) pd = Some (req_holds p pd (full_support d) (Threshold t))"
proof -
  let ?g = "js_get v ''eligibleSignerGroup''" and ?sg = "js_get v ''eligibleSigners''"
  define hasGroup where "hasGroup = (case ?g of Str s \<Rightarrow> s \<noteq> [] | _ \<Rightarrow> False)"
  obtain n where n: "js_get v ''threshold'' = Num n" "tr_threshold t = n"
    using t by (auto simp: threshold_of_def split: jsval.splits option.splits)
  have g: "opt_text ?g = Some (tr_eligibleSignerGroup t)" and sg: "opt_texts ?sg = Some (tr_eligibleSigners t)"
    using t by (auto simp: threshold_of_def split: jsval.splits option.splits)
  have int: "num_is_integer n" "\<not> num_lt n (Fin 1)" and one: "hasGroup \<noteq> isDidArray ?sg"
    and known: "hasGroup \<Longrightarrow> has_own (Obj kvs) (text_of ?g)"
    using ok n(1) by (simp_all add: hasGroup_def threshold_error_def Let_def split: if_splits)
  have d: "threshold_decision t = d" using u by simp
  have holds: "req_holds p pd (full_support d) (Threshold t) = num_le n (num_of_nat (length (filter (\<lambda>s. s \<noteq> Str pd) (map Str ds))))"
    if "resolveEligibleSigners t p = ds" "distinct ds" for ds
    using that by (simp add: full_supporters [OF d] n count_others)
  show ?thesis
  proof (cases "tr_eligibleSigners t")
    case (Some ds)
    then have ds: "ds \<noteq> []" "distinct ds" "?sg = Arr (map Str ds)"
      using u sg by (simp_all add: opt_texts_Some)
    then have "resolveEligibleSigners t p = ds" using Some by (auto simp: resolveEligibleSigners_def split: list.splits)
    from holds [OF this ds(2)] ds(3) int show ?thesis by (simp add: threshold_satisfiable_def n absent_def)
  next
    case None
    then have sgu: "?sg = Undefined" using sg by (simp add: opt_texts_None)
    then have h: hasGroup using one by (auto simp: isDidArray_def)
    then obtain s where s: "?g = Str s" "s \<noteq> []" by (auto simp: hasGroup_def split: jsval.splits)
    then obtain ds where ds: "group_lookup p s = Some ds" "map_of kvs s = Some (Arr (map Str ds))"
      using known [OF h] groups(1) [of s] by (cases "group_lookup p s") (auto simp: map_of_eq_None_iff)
    moreover have "tr_eligibleSignerGroup t = Some s" using g s by simp
    ultimately have "resolveEligibleSigners t p = ds"
      using None s by (simp add: resolveEligibleSigners_def)
    from holds [OF this] groups(2) [OF ds(1)] ds(2) s int sgu show ?thesis
      by (simp add: threshold_satisfiable_def n absent_def wf_group_def)
  qed
qed

lemma satisfiable_iff:
  assumes "validateRequirement v (Obj kvs) path = None" "requirement_of v = Some r" "uniform d r"
    and groups: "\<And>g. map_of kvs g = map_option (\<lambda>ds. Arr (map Str ds)) (group_lookup p g)" "\<And>g ds. group_lookup p g = Some ds \<Longrightarrow> wf_group ds"
  shows "isRequirementSatisfiableForProposer v (Obj kvs) pd = Some (req_holds p pd (full_support d) r)"
  using assms(1-3)
proof (induction v "Obj kvs" path arbitrary: r rule: validateRequirement.induct)
  case (1 v path)
  let ?reqs = "js_get v ''requirements''" and ?sat = "\<lambda>x. isRequirementSatisfiableForProposer x (Obj kvs) pd"
  obtain ty where ty: "js_get v ''type'' = Str ty"
    using 1(2) by (subst (asm) validateRequirement.simps) (auto split: if_splits elim: is_stringE)
  have rec: "is_record v" using ty by (rule js_get_Str_record)
  have nested: "is_array ?reqs \<and> (\<exists>P. (\<forall>x \<in> set (elements ?reqs). ?sat x = Some (P x)) \<and>
      list_all P (elements ?reqs) = (\<forall>r \<in> set rs. req_holds p pd (full_support d) r) \<and>
      list_ex P (elements ?reqs) = (\<exists>r \<in> set rs. req_holds p pd (full_support d) r))"
    if comp: "ty = ''allOf'' \<or> ty = ''anyOf''" and rs: "all_some (map requirement_of (elements ?reqs)) = Some rs"
      and u: "list_all (uniform d) rs" for rs
  proof -
    have arr: "is_array ?reqs" "\<not> hasUnexpectedKeys v [''type'', ''requirements'']" "elements ?reqs \<noteq> []"
      and fe: "first_error (\<lambda>index nested. validateRequirement nested (Obj kvs)
        (path @ ''.requirements['' @ show_nat index @ '']'')) 0 (elements ?reqs) = None"
      using 1(2) comp ty rec by (subst (asm) validateRequirement.simps; auto simp: Let_def split: if_splits)+
    have all2: "list_all2 (\<lambda>x y. requirement_of x = Some y) (elements ?reqs) rs"
      using rs by (simp add: all_some_Some_iff map_eq_map_SomeD)
    have one: "?sat (elements ?reqs ! i) = Some (req_holds p pd (full_support d) (rs ! i))" if i: "i < length rs" for i
    proof -
      have x: "elements ?reqs ! i \<in> set (elements ?reqs)" "requirement_of (elements ?reqs ! i) = Some (rs ! i)"
        using all2 i by (auto simp: list_all2_conv_all_nth)
      have v: "validateRequirement (elements ?reqs ! i) (Obj kvs) (path @ ''.requirements['' @ show_nat i @ '']'') = None"
        using fe i all2 by (auto simp: first_error_None_iff list_all2_conv_all_nth)
      have "uniform d (rs ! i)" using u i by (simp add: list_all_length)
      from 1(1) [OF _ refl _ _ _ refl _ _ x(1) v x(2) this] comp ty rec arr show ?thesis by auto
    qed
    define P where "P x = (?sat x = Some True)" for x
    have len: "length (elements ?reqs) = length rs" using all2 by (rule list_all2_lengthD)
    have "\<forall>x \<in> set (elements ?reqs). ?sat x = Some (P x)"
      using one len by (auto simp: in_set_conv_nth P_def)
    moreover have "list_all P (elements ?reqs) = (\<forall>r \<in> set rs. req_holds p pd (full_support d) r)"
      "list_ex P (elements ?reqs) = (\<exists>r \<in> set rs. req_holds p pd (full_support d) r)"
      using one len by (auto simp: list_all_length list_ex_length in_set_conv_nth P_def Ball_def Bex_def)
    ultimately show ?thesis using arr(1) by blast
  qed
  have "ty \<in> {''proposerOnly'', ''threshold'', ''allOf'', ''anyOf''}"
    using 1(3) ty by (subst (asm) requirement_of.simps) (auto simp: Let_def split: if_splits)
  then consider "ty = ''proposerOnly''" | "ty = ''threshold''" | "ty = ''allOf''" | "ty = ''anyOf''" by blast
  then show ?case
  proof cases
    case 1
    with \<open>requirement_of v = Some r\<close> ty show ?thesis
      by (subst (asm) requirement_of.simps, subst isRequirementSatisfiableForProposer.simps) auto
  next
    case 2
    then obtain t where t: "threshold_of v = Some t" "r = Threshold t"
      using \<open>requirement_of v = Some r\<close> ty by (subst (asm) requirement_of.simps) (auto simp: Let_def)
    have "threshold_error v (Obj kvs) path = None"
      using \<open>validateRequirement v (Obj kvs) path = None\<close> 2 ty rec by (subst (asm) validateRequirement.simps) (auto simp: Let_def)
    from threshold_satisfiable_iff [OF t(1) this groups] \<open>uniform d r\<close> t(2) 2 ty show ?thesis
      by (subst isRequirementSatisfiableForProposer.simps) simp
  next
    case 3
    then obtain rs where rs: "all_some (map requirement_of (elements ?reqs)) = Some rs" "r = AllOf rs"
      using \<open>requirement_of v = Some r\<close> ty by (subst (asm) requirement_of.simps) (auto simp: Let_def)
    then obtain P where P: "is_array ?reqs" "\<And>x. x \<in> set (elements ?reqs) \<Longrightarrow> ?sat x = Some (P x)"
        "list_all P (elements ?reqs) = (\<forall>r \<in> set rs. req_holds p pd (full_support d) r)"
      using nested [of rs] 3 \<open>uniform d r\<close> by auto
    show ?thesis
      by (subst isRequirementSatisfiableForProposer.simps) (simp add: ty 3 P first_error_every [of _ ?sat, OF P(2)] rs)
  next
    case 4
    then obtain rs where rs: "all_some (map requirement_of (elements ?reqs)) = Some rs" "r = AnyOf rs"
      using \<open>requirement_of v = Some r\<close> ty by (subst (asm) requirement_of.simps) (auto simp: Let_def)
    then obtain P where P: "is_array ?reqs" "\<And>x. x \<in> set (elements ?reqs) \<Longrightarrow> ?sat x = Some (P x)"
        "list_ex P (elements ?reqs) = (\<exists>r \<in> set rs. req_holds p pd (full_support d) r)"
      using nested [of rs] 4 \<open>uniform d r\<close> by auto
    show ?thesis
      by (subst isRequirementSatisfiableForProposer.simps) (simp add: ty 4 P first_error_some [of _ ?sat, OF P(2)] rs)
  qed
qed

lemma full_support_holds:
  assumes "uniform d r" "req_holds p pd D r"
  shows "req_holds p pd (full_support d) r"
  using assms
proof (induction r)
  case (Threshold t)
  have "card (supporters p pd D t) \<le> card (supporters p pd (full_support d) t)"
    using Threshold.prems(1) by (intro card_mono) (auto simp: supporters_def full_support_def)
  with Threshold show ?case by (cases "tr_threshold t") (auto simp: num_of_nat_def num_le_def split: if_splits)
qed (auto simp: list_all_iff)

fun all_signers :: "policy_config \<Rightarrow> requirement \<Rightarrow> did list" where
  "all_signers p ProposerOnly = []"
| "all_signers p (Threshold t) = resolveEligibleSigners t p"
| "all_signers p (AllOf rs) = concat (map (all_signers p) rs)"
| "all_signers p (AnyOf rs) = concat (map (all_signers p) rs)"

lemma signers_suffice:
  assumes "uniform d r" "req_holds p pd (full_support d) r" "set (all_signers p r) \<subseteq> S"
  shows "req_holds p pd ((\<lambda>s. (s, d)) ` S) r"
  using assms
proof (induction r)
  case (Threshold t)
  then have "supporters p pd ((\<lambda>s. (s, d)) ` S) t = supporters p pd (full_support d) t"
    by (auto simp: supporters_def full_support_def)
  with Threshold show ?case by simp
qed (fastforce simp: list_all_iff)+

definition support_of :: "decision \<Rightarrow> did list \<Rightarrow> verified_approvals" where
  "support_of d signers = \<lparr>vas_actionEnvelopeHash = \<lparr>hash_alg = [], hash_value = []\<rparr>,
     vas_approvals = map (\<lambda>s. \<lparr>va_approval = Null, va_signerDid = s, va_decision = d, va_createdAt = []\<rparr>) signers\<rparr>"

lemma decisions_support: "decisions_of (vas_approvals (support_of d signers)) = (\<lambda>s. (s, d)) ` set signers"
  by (simp add: support_of_def decisions_of_def image_image)

lemma permits_default:
  assumes "policy_entries_for p pkg = []"
  shows "policy_permits pkg D p \<longleftrightarrow> consistent D \<and> req_holds p (proposer_did (actionEnvelope pkg)) D (defaultRequirement p)"
  using assms by (simp add: policy_permits_def matching_entries_def conditions_evaluable_def Let_def)

lemma default_attainable:
  assumes "uniform d (defaultRequirement p)" "policy_entries_for p pkg = []"
  shows "(\<exists>approvals. evaluatePolicy pkg approvals p = Inr Satisfied) \<longleftrightarrow>
    req_holds p (proposer_did (actionEnvelope pkg)) (full_support d) (defaultRequirement p)" (is "_ \<longleftrightarrow> ?full")
proof
  assume "\<exists>approvals. evaluatePolicy pkg approvals p = Inr Satisfied"
  then show ?full unfolding evaluatePolicy_Satisfied_iff permits_default [OF assms(2)]
    using full_support_holds [OF assms(1)] by blast
next
  assume full: ?full
  let ?a = "support_of d (all_signers p (defaultRequirement p))"
  have "consistent (decisions_of (vas_approvals ?a))" unfolding decisions_support by (auto simp: consistent_def)
  with signers_suffice [OF assms(1) full order_refl] show "\<exists>approvals. evaluatePolicy pkg approvals p = Inr Satisfied"
    unfolding evaluatePolicy_Satisfied_iff permits_default [OF assms(2)] by (metis decisions_support)
qed

lemma validateDefaultRequirement_None:
  assumes "validatePolicyConfig (js_get config ''policy'') = None" "policy_of (js_get config ''policy'') = Some p"
    and "uniform d (defaultRequirement p)"
  shows "validateDefaultRequirement config filePath = None \<longleftrightarrow>
    (\<forall>x. checkProposerAuthorization x p = Allowed \<longrightarrow> req_holds p x (full_support d) (defaultRequirement p))"
proof -
  let ?policy = "js_get config ''policy''"
  obtain kvs where kvs: "js_get ?policy ''signerGroups'' = Obj kvs"
    and groups: "\<And>g. map_of kvs g = map_option (\<lambda>ds. Arr (map Str ds)) (group_lookup p g)" "\<And>g ds. group_lookup p g = Some ds \<Longrightarrow> wf_group ds"
    using typed_groups [OF assms(1,2)] by blast
  have valid: "validateRequirement (js_get ?policy ''defaultRequirement'') (Obj kvs) ''defaultRequirement'' = None"
    and all: "isDidArray (js_get (Obj kvs) ''all'')"
    using assms(1) kvs by (auto simp: validatePolicyConfig_def Let_def split: if_splits option.splits)
  have typed: "requirement_of (js_get ?policy ''defaultRequirement'') = Some (defaultRequirement p)"
    using assms(2) by (auto simp: policy_of_def split: option.splits if_splits)
  have sat: "isRequirementSatisfiableForProposer (js_get ?policy ''defaultRequirement'') (Obj kvs) x =
      Some (req_holds p x (full_support d) (defaultRequirement p))" for x
    by (rule satisfiable_iff [OF valid typed assms(3) groups])
  obtain ds where ds: "(if absent (js_get (Obj kvs) ''proposers'') then js_get (Obj kvs) ''all'' else js_get (Obj kvs) ''proposers'') = Arr (map Str ds)"
    "\<And>x. checkProposerAuthorization x p = Allowed \<longleftrightarrow> x \<in> set ds"
  proof (cases "group_lookup p ''proposers''")
    case None
    then obtain ds where "group_lookup p ''all'' = Some ds"
      using all groups(1) [of "''all''"] by (cases "group_lookup p ''all''") (auto simp: isDidArray_def)
    with None groups(1) that [of ds] show ?thesis by (auto simp: absent_def checkProposerAuthorization_iff)
  next
    case (Some ds)
    with groups(1) that [of ds] show ?thesis by (auto simp: absent_def checkProposerAuthorization_iff)
  qed
  show ?thesis
    unfolding validateDefaultRequirement_def Let_def kvs ds(1) sat
    by (auto simp: first_error_None_iff ds(2) in_set_conv_nth split: bool.splits)
qed

text \<open>
  C19. The check of the default requirement is exact for the requirements whose thresholds all count
  one decision and list their explicit signers without repetition (\<open>uniform\<close>): a configuration with a
  valid policy passes it exactly when, for every permitted proposer of an operation without policy
  entries, some approvals make the policy engine answer \<open>satisfied\<close>. C20 shows what happens when two
  thresholds count different decisions.
\<close>

theorem default_requirement_check_exact:
  assumes "validatePolicyConfig (js_get config ''policy'') = None" "policy_of (js_get config ''policy'') = Some p"
    and "uniform d (defaultRequirement p)"
  shows "validateDefaultRequirement config filePath = None \<longleftrightarrow>
    (\<forall>pkg. policy_entries_for p pkg = [] \<longrightarrow> checkProposerAuthorization (proposer_did (actionEnvelope pkg)) p = Allowed \<longrightarrow>
      (\<exists>approvals. evaluatePolicy pkg approvals p = Inr Satisfied))"
proof
  assume "validateDefaultRequirement config filePath = None"
  then show "\<forall>pkg. policy_entries_for p pkg = [] \<longrightarrow> checkProposerAuthorization (proposer_did (actionEnvelope pkg)) p = Allowed \<longrightarrow>
      (\<exists>approvals. evaluatePolicy pkg approvals p = Inr Satisfied)"
    using validateDefaultRequirement_None [OF assms] default_attainable [OF assms(3)] by blast
next
  assume satisfied: "\<forall>pkg. policy_entries_for p pkg = [] \<longrightarrow> checkProposerAuthorization (proposer_did (actionEnvelope pkg)) p = Allowed \<longrightarrow>
      (\<exists>approvals. evaluatePolicy pkg approvals p = Inr Satisfied)"
  have "req_holds p x (full_support d) (defaultRequirement p)" if x: "checkProposerAuthorization x p = Allowed" for x
  proof -
    let ?pkg = "Obj [(''actionEnvelope'', Obj [(''proposer'', Obj [(''did'', Str x)])])]"
    have e: "policy_entries_for p ?pkg = []"
      by (simp add: policy_entries_for_def operation_name_of_def executionPayload_def)
    have d: "proposer_did (actionEnvelope ?pkg) = x" by (simp add: proposer_did_def actionEnvelope_def)
    show ?thesis using satisfied [rule_format, OF e] x default_attainable [OF assms(3) e] unfolding d by blast
  qed
  then show "validateDefaultRequirement config filePath = None"
    using validateDefaultRequirement_None [OF assms] by blast
qed

section \<open>Examples\<close>

definition quorum_json :: jsval where
  "quorum_json = Obj [(''signerGroups'', Obj [(''all'', Arr [Str ''a'', Str ''b'', Str ''c''])]),
     (''defaultRequirement'', Obj [(''type'', Str ''threshold''), (''threshold'', Num (Fin 2)), (''eligibleSignerGroup'', Str ''all'')])]"

definition quorum_policy :: policy_config where
  "quorum_policy = \<lparr>defaultRequirement = Threshold \<lparr>tr_threshold = Fin 2, tr_eligibleSignerGroup = Some ''all'', tr_eligibleSigners = None,
     tr_decision = None, tr_description = None\<rparr>, policies = None, signerGroups = Some [(''all'', [''a'', ''b'', ''c''])]\<rparr>"

lemma quorum_valid:
  "validatePolicyConfig (js_get (Obj [(''policy'', quorum_json)]) ''policy'') = None"
  "policy_of (js_get (Obj [(''policy'', quorum_json)]) ''policy'') = Some quorum_policy"
  "validateDefaultRequirement (Obj [(''policy'', quorum_json)]) [] = None"
  by code_simp+

lemma default_requirement_check_exact_witness:
  "\<exists>approvals. evaluatePolicy (example_package 5) approvals quorum_policy = Inr Satisfied"
proof -
  have "uniform Approve (defaultRequirement quorum_policy)" by (simp add: quorum_policy_def threshold_decision_def)
  from default_requirement_check_exact [OF quorum_valid(1,2) this, of "[]"] quorum_valid(3)
  have "\<forall>pkg. policy_entries_for quorum_policy pkg = [] \<longrightarrow>
      checkProposerAuthorization (proposer_did (actionEnvelope pkg)) quorum_policy = Allowed \<longrightarrow>
      (\<exists>approvals. evaluatePolicy pkg approvals quorum_policy = Inr Satisfied)" by simp
  moreover have "policy_entries_for quorum_policy (example_package 5) = []"
    by (simp add: policy_entries_for_def quorum_policy_def split: option.split)
  moreover have "checkProposerAuthorization (proposer_did (actionEnvelope (example_package 5))) quorum_policy = Allowed"
    by (simp add: checkProposerAuthorization_def group_lookup_def quorum_policy_def)
  ultimately show ?thesis by blast
qed

definition contradictory_json :: jsval where
  "contradictory_json = Obj [(''signerGroups'', Obj [(''all'', Arr [Str ''a'', Str ''b'']), (''proposers'', Arr [Str ''a''])]),
     (''defaultRequirement'', Obj [(''type'', Str ''allOf''), (''requirements'', Arr [
        Obj [(''type'', Str ''threshold''), (''threshold'', Num (Fin 1)), (''eligibleSigners'', Arr [Str ''b''])],
        Obj [(''type'', Str ''threshold''), (''threshold'', Num (Fin 1)), (''eligibleSigners'', Arr [Str ''b'']),
          (''decision'', Str ''abstain'')]])])]"

definition signer_threshold :: "decision option \<Rightarrow> threshold_requirement" where
  "signer_threshold d = \<lparr>tr_threshold = Fin 1, tr_eligibleSignerGroup = None, tr_eligibleSigners = Some [''b''], tr_decision = d, tr_description = None\<rparr>"

definition contradictory_policy :: policy_config where
  "contradictory_policy = \<lparr>defaultRequirement = AllOf [Threshold (signer_threshold None), Threshold (signer_threshold (Some Abstain))],
     policies = None, signerGroups = Some [(''all'', [''a'', ''b'']), (''proposers'', [''a''])]\<rparr>"

lemma contradictory_valid:
  "validatePolicyConfig (js_get (Obj [(''policy'', contradictory_json)]) ''policy'') = None"
  "policy_of (js_get (Obj [(''policy'', contradictory_json)]) ''policy'') = Some contradictory_policy"
  "validateDefaultRequirement (Obj [(''policy'', contradictory_json)]) filePath = None"
    apply code_simp
   apply code_simp
  apply (simp add: validateDefaultRequirement_def contradictory_json_def absent_def Let_def isRequirementSatisfiableForProposer.simps
      threshold_satisfiable_def num_of_nat_def num_le_def num_is_integer_iff)
  done

lemma threshold_of_one: "num_le (Fin 1) (num_of_nat (card A)) \<Longrightarrow> A \<noteq> {}"
  by (auto simp: num_of_nat_def num_le_def)

text \<open>
  C20. The check lets a default requirement through that nothing satisfies: two thresholds that count
  different decisions of the same only signer are each attainable, but a signer who takes both
  decisions contradicts himself, and the engine answers \<open>satisfied\<close> to no package.
\<close>

theorem unsatisfiable_default_accepted:
  "validatePolicyConfig contradictory_json = None \<and> policy_of contradictory_json = Some contradictory_policy \<and>
   validateDefaultRequirement (Obj [(''policy'', contradictory_json)]) filePath = None \<and>
   checkProposerAuthorization ''a'' contradictory_policy = Allowed \<and>
   evaluatePolicy pkg approvals contradictory_policy \<noteq> Inr Satisfied"
proof -
  let ?D = "decisions_of (vas_approvals approvals)" and ?pd = "proposer_did (actionEnvelope pkg)"
  have "\<not> policy_permits pkg ?D contradictory_policy"
  proof
    assume permits: "policy_permits pkg ?D contradictory_policy"
    have e: "policy_entries_for contradictory_policy pkg = []"
      by (simp add: policy_entries_for_def contradictory_policy_def split: option.split)
    have "supporters contradictory_policy ?pd ?D (signer_threshold d) \<noteq> {}" if "d = None \<or> d = Some Abstain" for d
      using permits that unfolding permits_default [OF e]
      by (intro threshold_of_one) (auto simp: contradictory_policy_def signer_threshold_def)
    then have "(''b'', Approve) \<in> ?D" "(''b'', Abstain) \<in> ?D"
      by (force simp: supporters_def signer_threshold_def resolveEligibleSigners_def threshold_decision_def)+
    with permits show False unfolding permits_default [OF e] by (auto simp: consistent_def)
  qed
  then have "evaluatePolicy pkg approvals contradictory_policy \<noteq> Inr Satisfied" by (simp add: evaluatePolicy_Satisfied_iff)
  moreover have "checkProposerAuthorization ''a'' contradictory_policy = Allowed"
    by (simp add: checkProposerAuthorization_def group_lookup_def contradictory_policy_def)
  ultimately show ?thesis using contradictory_valid by simp
qed

section \<open>A deployment\<close>

definition cx_plugin_text :: string where
  "cx_plugin_text = ''{\"pluginDid\":\"did:p:1\",\"pluginVersion\":\"1\",\"applicationDid\":\"did:a:1\",\"executionProfile\":{\"id\":\"did:e:1\"},\"operations\":{}}''"

definition cx_plugin :: jsval where
  "cx_plugin = Obj [(''pluginDid'', Str ''did:p:1''), (''pluginVersion'', Str ''1''), (''applicationDid'', Str ''did:a:1''),
     (''executionProfile'', Obj [(''id'', Str ''did:e:1'')]), (''operations'', Obj [])]"

definition cx_key :: jsval where
  "cx_key = Obj [(''kty'', Str ''OKP''), (''crv'', Str ''Ed25519''), (''x'', Str (replicate 43 (CHR ''A'')))]"

definition cx_config :: jsval where
  "cx_config = Obj [(''name'', Str ''n''), (''target'', Obj [(''applicationDid'', Str ''did:a:1'')]),
     (''plugin'', Obj [(''pluginDid'', Str ''did:p:1''), (''pluginVersion'', Str ''1''), (''artifactDid'', Str ''did:artifact:a''), (''path'', Str ''p.json'')]),
     (''credentialBindings'', Arr [Obj [(''credentialHandle'', Str ''h''), (''provider'', Str ''file'')]]),
     (''executionTarget'', Obj [(''type'', Str ''mcp.stdio'')]),
     (''policy'', Obj [(''applicationDid'', Str ''did:a:1''), (''executionProfile'', Obj [(''id'', Str ''did:e:1'')]),
        (''signerGroups'', Obj [(''all'', Arr [Str ''did:web:a'', Str ''did:web:b''])]),
        (''defaultRequirement'', Obj [(''type'', Str ''threshold''), (''threshold'', Num (Fin 1)), (''eligibleSignerGroup'', Str ''all'')])]),
     (''signerKeys'', Arr [Obj [(''did'', Str ''did:web:a''), (''publicJwk'', cx_key)]])]"

definition cx_host :: config_host where
  "cx_host = \<lparr>jcs = (\<lambda>v. []), sha256 = (\<lambda>s. []), legacy_date = (\<lambda>s. None), url_parse = (\<lambda>s. None),
     utf8_text = (\<lambda>bs. bs), wide_unit = (\<lambda>n. []), p256_point = (\<lambda>x y. False),
     compact_verify = (\<lambda>alg key jws. None), number_text = (\<lambda>r. []),
     compile_schema = (\<lambda>schema. Some (\<lambda>v. True)), sign_jws = (\<lambda>s. Inl []),
     parse_json = (\<lambda>s. if s = ''c'' then Some cx_config else None), web_address = (\<lambda>s. None), artifact_cid = (\<lambda>s. ''a''),
     join_path = (\<lambda>d f. f), resolve_path = (\<lambda>d f. f)\<rparr>"

definition cx_read :: "string \<Rightarrow> string option" where
  "cx_read path = (if path = ''c.json'' then Some ''c'' else if path = ''p.json'' then Some cx_plugin_text else None)"

lemma cx_plugin_loads: "loadPlugin cx_host ''p.json'' (Some cx_plugin_text) = Inr cx_plugin"
proof -
  have "strictJsonParse (wide_unit cx_host) (utf8_text cx_host cx_plugin_text) = Inr cx_plugin"
    by code_simp
  moreover have "length cx_plugin_text \<le> maxPluginDocumentBytes"
    by (simp add: cx_plugin_text_def maxPluginDocumentBytes_def)
  ultimately show ?thesis
    by (simp add: loadPlugin_Inr cx_plugin_def cx_host_def maxPluginDocumentDepth_def maxPluginDocumentNodes_def checkOperationSchemaResources_def)
qed

lemma cx_key_valid: "validatePublicJwk cx_host cx_key (Some Verify_Op) = Some Ed25519"
  by code_simp

lemma cx_policy_valid: "validatePolicyConfig (js_get cx_config ''policy'') = None" "validateDefaultRequirement cx_config ''c.json'' = None"
  by code_simp+

lemma cx_loads: "loadDeploymentConfigFile cx_host cx_read (\<lambda>p c. True) ''c.json'' [] =
    Inr \<lparr>dp_filePath = ''c.json'', dp_config = cx_config, dp_plugin = cx_plugin\<rparr>"
proof -
  have keys: "elements (js_get cx_config ''signerKeys'') = [Obj [(''did'', Str ''did:web:a''), (''publicJwk'', cx_key)]]"
    by (simp add: cx_config_def)
  have signer: "signer_error cx_host (Obj [(''did'', Str ''did:web:a''), (''publicJwk'', cx_key)]) = None"
    using cx_key_valid by (simp add: signer_error_def isDidJwk_def starts_with_def cx_key_def)
  have bindings: "elements (js_get cx_config ''credentialBindings'') = [Obj [(''credentialHandle'', Str ''h''), (''provider'', Str ''file'')]]"
    and auth: "managed_auth cx_config = None" and path: "js_get (js_get cx_config ''plugin'') ''path'' = Str ''p.json''"
    by (simp_all add: cx_config_def managed_auth_def)
  have c: "check_config cx_host cx_config ''c.json'' = None"
    by (simp add: check_config_def cx_policy_valid keys signer bindings auth)
  have p: "check_plugin cx_host cx_config cx_plugin ''c.json'' = None"
    by (simp add: check_plugin_def cx_config_def cx_plugin_def computeArtifactDid_def cx_host_def)
  have "cx_read ''c.json'' = Some ''c''" "cx_read ''p.json'' = Some cx_plugin_text" by (simp_all add: cx_read_def)
  moreover have "utf8_text cx_host s = s" "parse_json cx_host ''c'' = Some cx_config" "resolve_path cx_host d f = f"
    "compile_schema cx_host schema = Some (\<lambda>v. True)" for s d f schema
    by (simp_all add: cx_host_def)
  ultimately show ?thesis by (simp add: loadDeploymentConfigFile_def c p path cx_plugin_loads)
qed

lemma loaded_configs_are_pinned_witness:
  "\<exists>c d. loadDeploymentConfigs cx_host cx_read (\<lambda>p c. True) [] (Some [''c.json'', ''x'']) = Inr c \<and> lcs_configs c = [d] \<and>
     js_get (dp_plugin d) ''applicationDid'' = Str ''did:a:1'' \<and> pinned_to cx_host (dp_config d) (dp_plugin d)"
proof -
  let ?d = "\<lparr>dp_filePath = ''c.json'', dp_config = cx_config, dp_plugin = cx_plugin\<rparr>"
  have t: "deployment_target ?d = Str ''did:a:1''" by (simp add: deployment_target_def cx_config_def)
  have l: "loadDeploymentConfigs cx_host cx_read (\<lambda>p c. True) [] (Some [''c.json'', ''x'']) =
      Inr \<lparr>lcs_byApplicationDid = map_set (Str ''did:a:1'') ?d [], lcs_configs = [?d]\<rparr>"
  proof -
    have "sort (filter (ends_with ''.json'') [''c.json'', ''x'']) = [''c.json'']" by code_simp
    moreover have "join_path cx_host [] f = f" for f by (simp add: cx_host_def)
    ultimately show ?thesis by (simp add: loadDeploymentConfigs_def cx_loads t Let_def)
  qed
  from loaded_configs_are_pinned [OF l] have "pinned_to cx_host cx_config cx_plugin" by simp
  then show ?thesis using l by (simp add: cx_plugin_def)
qed

end
