(* ===== verification/OAuthClient.thy ===== *)
theory OAuthClient
  imports OAuthSession ConfigLoader
begin

text \<open>
  The identity of the adapter as an OAuth client: the configuration of a deployment, the client
  metadata document and the choice of a mode in \<open>cli/src/adapter/oauth-operator.ts\<close>, the client authentication of
  \<open>cli/src/adapter/oauth-client-auth.ts\<close>, and \<open>oauth-discovery.ts\<close>.

  \<^item> Metadata and documents are JSON values. The key file is an input: no loader, a loader that
    fails, or a key. The signature of an assertion is a parameter.
  \<^item> The text that a message appends from a caught error is left out.
\<close>

section \<open>URLs and errors\<close>

record url_parts =
  up_protocol :: string
  up_hostname :: string
  up_origin :: string
  up_pathname :: string
  up_search :: string
  up_hash :: string
  up_username :: string
  up_password :: string
  up_params :: "(string \<times> string) list"

record login_host = web_host +
  parse_url :: "string \<Rightarrow> url_parts option"
  request_target :: "string \<Rightarrow> string \<Rightarrow> url_parts option"
  print_number :: "rat \<Rightarrow> string"

text \<open>
  \<^item> \<open>parse_url\<close>: the parts of \<open>new URL(text)\<close> and its search parameters in order, \<open>None\<close> when it throws;
  \<^item> \<open>request_target\<close>: those of \<open>new URL(target, "http://" + host)\<close>.
\<close>

datatype client_failure = Client_Operator operator_error | Client_Error string

definition registration_failed :: "string \<Rightarrow> client_failure" where
  "registration_failed m = Client_Operator (operatorError ''OAUTH_CLIENT_REGISTRATION_FAILED'' m)"

definition assertCimdUrl :: "('a) login_host_scheme \<Rightarrow> string \<Rightarrow> client_failure + unit" where
  "assertCimdUrl H v = (case parse_url H v of
       None \<Rightarrow> Inl (registration_failed ''OAuth Client ID Metadata Document URL is invalid'')
     | Some url \<Rightarrow> require (up_protocol url = ''https:'' \<and> up_pathname url \<noteq> ''/'')
         (registration_failed ''OAuth Client ID Metadata Document URL must use HTTPS and contain a non-root path''))"

section \<open>The configuration of a deployment\<close>

definition optional_text :: "jsval \<Rightarrow> string option" where
  "optional_text v = (case v of Str s \<Rightarrow> Some s | _ \<Rightarrow> None)"

definition parseOAuthClientConfiguration :: "('a) login_host_scheme \<Rightarrow> jsval \<Rightarrow> client_failure + client_configuration" where
  "parseOAuthClientConfiguration H v =
    (let type = js_get v ''type''; clientId = js_get v ''clientId''; secret = js_get v ''clientSecret''; document = js_get v ''clientIdMetadataDocument'' in
     if v = Undefined then Inr (Auto_Client None None None)
     else if \<not> is_record v \<or> js_text (print_number H) type \<notin> Some ` {''auto'', ''static'', ''cimd'', ''dynamic''}
     then Inl (Client_Error ''OAuth client configuration must select auto, static, cimd, or dynamic mode'')
     else if type = Str ''dynamic'' then Inr Dynamic_Client
     else if type = Str ''cimd'' then
       (if \<not> is_string document then Inl (Client_Error ''OAuth CIMD mode requires clientIdMetadataDocument'')
        else and_then (assertCimdUrl H (text_of document)) (\<lambda>_. Inr (Cimd_Client (text_of document))))
     else if type = Str ''static'' then
       (if \<not> is_string clientId \<or> clientId = Str [] then Inl (Client_Error ''OAuth static client mode requires clientId'')
        else if secret \<noteq> Undefined \<and> \<not> is_string secret then Inl (Client_Error ''OAuth static clientSecret must be a credential reference'')
        else Inr (Static_Client (text_of clientId) (optional_text secret)))
     else if document \<noteq> Undefined \<and> \<not> is_string document then Inl (Client_Error ''OAuth auto clientIdMetadataDocument must be a string'')
     else and_then (if is_string document then assertCimdUrl H (text_of document) else Inr ()) (\<lambda>_.
       if clientId \<noteq> Undefined \<and> (\<not> is_string clientId \<or> clientId = Str []) then Inl (Client_Error ''OAuth auto clientId must be a non-empty string'')
       else if secret \<noteq> Undefined \<and> \<not> is_string secret then Inl (Client_Error ''OAuth auto clientSecret must be a credential reference'')
       else Inr (Auto_Client (optional_text clientId) (optional_text secret) (optional_text document))))"

definition parseStringArray :: "jsval \<Rightarrow> string \<Rightarrow> client_failure + string list option" where
  "parseStringArray v name =
    (if v = Undefined then Inr None
     else if \<not> nonempty_texts v then Inl (Client_Error (name @ '' must be an array of non-empty strings''))
     else Inr (Some (map text_of (elements v))))"

definition parseSharingPolicy :: "jsval \<Rightarrow> client_failure + partial_sharing option" where
  "parseSharingPolicy v =
    (if v = Undefined then Inr None
     else if \<not> is_record v then Inl (Client_Error ''OAuth sharing policy must be an object'')
     else and_then (parseStringArray (js_get v ''applicationDids'') ''OAuth sharing applicationDids'') (\<lambda>dids.
       and_then (parseStringArray (js_get v ''operatorPrincipals'') ''OAuth sharing operatorPrincipals'') (\<lambda>principals.
         Inr (Some \<lparr>ps_applicationDids = dids, ps_operatorPrincipals = principals\<rparr>))))"

definition optional_number :: "jsval \<Rightarrow> jsnum option" where
  "optional_number v = (case v of Num n \<Rightarrow> Some n | _ \<Rightarrow> None)"

definition parseRefreshPolicy :: "jsval \<Rightarrow> string + refresh_policy" where
  "parseRefreshPolicy v =
    (if v = Undefined then normalizeRefreshPolicy (None, None)
     else if \<not> is_record v then Inl ''OAuth refresh policy must be an object''
     else normalizeRefreshPolicy (optional_number (js_get v ''safetyWindowMs''), optional_number (js_get v ''jitterMaxMs'')))"

section \<open>Static clients and the mode\<close>

text \<open>The handle of a reference, \<open>{{credential:handle}}\<close>.\<close>

definition credentialReference :: "string \<Rightarrow> client_failure + string" where
  "credentialReference v = (if credential_reference v then Inr (take (length v - 15) (drop 13 v))
     else Inl (Client_Error ''OAuth clientSecret must be an exact {{credential:handle}} reference''))"

definition configured_id :: "client_configuration \<Rightarrow> string option" where
  "configured_id client = (case client of
       Static_Client i s \<Rightarrow> if i = [] then None else Some i
     | Auto_Client i s d \<Rightarrow> if given i then i else None
     | _ \<Rightarrow> None)"

definition configured_secret :: "client_configuration \<Rightarrow> string option" where
  "configured_secret client = (case client of Static_Client i s \<Rightarrow> s | Auto_Client i s d \<Rightarrow> s | _ \<Rightarrow> None)"

text \<open>\<open>resolve\<close> is the resolver of secrets, when there is one, and what it gives or throws.\<close>

definition resolveStaticClientInformation ::
    "client_configuration \<Rightarrow> (string \<Rightarrow> string option) option \<Rightarrow> client_failure + jsval option" where
  "resolveStaticClientInformation client resolve = (case configured_id client of
       None \<Rightarrow> Inr None
     | Some clientId \<Rightarrow>
         if \<not> given (configured_secret client) then Inr (Some (Obj [(''client_id'', Str clientId)]))
         else and_then (credentialReference (case configured_secret client of None \<Rightarrow> [] | Some s \<Rightarrow> s)) (\<lambda>handle. case resolve of
             None \<Rightarrow> Inl (Client_Error ''OAuth static client secret resolver is unavailable'')
           | Some f \<Rightarrow> (case f handle of
               None \<Rightarrow> Inl (Client_Error [])
             | Some secret \<Rightarrow> Inr (Some (Obj [(''client_id'', Str clientId), (''client_secret'', Str secret)])))))"

definition canReuseClientRegistration ::
    "('a) login_host_scheme \<Rightarrow> oauth_session option \<Rightarrow> session_request \<Rightarrow> string \<Rightarrow> string + bool" where
  "canReuseClientRegistration H previous r clientConfiguration = (case previous of
       None \<Rightarrow> Inr False
     | Some s \<Rightarrow> (case os_binding s of
         None \<Rightarrow> Inr False
       | Some b \<Rightarrow>
           if ob_clientMode b = Dynamic_Mode \<or> ob_clientConfiguration b \<noteq> clientConfiguration \<or> os_applicationDid s \<noteq> sr_applicationDid r
           then Inr False
           else and_then (canonicalResourceUrl H (os_resourceUrl s)) (\<lambda>x. and_then (canonicalResourceUrl H (sr_resourceUrl r)) (\<lambda>y.
             Inr (x = y \<and> os_clientInformation s \<noteq> None)))))"

definition pending_id :: string where
  "pending_id = ''dynamic-registration-pending''"

definition existing_id :: "jsval option \<Rightarrow> jsval" where
  "existing_id existing = (case existing of None \<Rightarrow> Undefined | Some v \<Rightarrow> js_get v ''client_id'')"

definition selectClientMode :: "client_configuration \<Rightarrow> jsval \<Rightarrow> jsval option \<Rightarrow> client_failure + client_mode \<times> string" where
  "selectClientMode client metadata existing =
    (let cimd = (js_get metadata ''client_id_metadata_document_supported'' = Bool True);
         registration = truthy (js_get metadata ''registration_endpoint'');
         static = (\<lambda>i. if i = [] \<or> existing_id existing \<noteq> Str i
           then Inl (registration_failed ''OAuth static client information is unavailable or does not match configuration'')
           else Inr (Static_Mode, i));
         dynamic = Inr (Dynamic_Mode, if absent (existing_id existing) then pending_id else text_of (existing_id existing)) in
     case client of
       Static_Client i s \<Rightarrow> static i
     | Cimd_Client d \<Rightarrow>
         if \<not> cimd then Inl (registration_failed ''OAuth CIMD mode is configured but the authorization server does not advertise it'')
         else Inr (Cimd_Mode, d)
     | Dynamic_Client \<Rightarrow>
         if \<not> registration then Inl (registration_failed ''OAuth dynamic client registration is configured but not advertised'') else dynamic
     | Auto_Client i s d \<Rightarrow>
         if given i then static (the i)
         else if given d \<and> cimd then Inr (Cimd_Mode, the d)
         else if registration then dynamic
         else Inl (registration_failed ''OAuth auto client selection found no static client, advertised CIMD, or advertised dynamic registration''))"

definition clientConfigurationForBinding :: "oauth_binding \<Rightarrow> client_configuration" where
  "clientConfigurationForBinding b = (case ob_clientMode b of
       Cimd_Mode \<Rightarrow> Cimd_Client (ob_clientId b) | Dynamic_Mode \<Rightarrow> Dynamic_Client | Static_Mode \<Rightarrow> Static_Client (ob_clientId b) None)"

section \<open>The client metadata document\<close>

definition LOOPBACK_REDIRECT_HOSTS :: "string list" where
  "LOOPBACK_REDIRECT_HOSTS = [''127.0.0.1'', ''[::1]'', ''localhost'']"

definition PRIVATE_JWK_MEMBERS :: "string list" where
  "PRIVATE_JWK_MEMBERS = [''d'', ''p'', ''q'', ''dp'', ''dq'', ''qi'', ''oth'', ''k'']"

definition matchesRegisteredRedirectUri :: "('a) login_host_scheme \<Rightarrow> string \<Rightarrow> string \<Rightarrow> bool" where
  "matchesRegisteredRedirectUri H registered selected \<longleftrightarrow> registered = selected \<or>
     (case (parse_url H registered, parse_url H selected) of
        (Some left, Some right) \<Rightarrow> up_protocol left = ''http:'' \<and> up_hostname left \<in> set LOOPBACK_REDIRECT_HOSTS \<and>
          up_protocol right = ''http:'' \<and> up_hostname right = up_hostname left \<and> up_pathname right = up_pathname left \<and>
          up_search right = up_search left \<and> up_hash right = [] \<and> up_hash left = [] \<and> up_username right = [] \<and> up_password right = [] \<and>
          up_username left = [] \<and> up_password left = []
      | _ \<Rightarrow> False)"

definition secret_member :: "string \<Rightarrow> bool" where
  "secret_member k \<longleftrightarrow> list_ex (\<lambda>p. occurs_in p (map lower k))
     [''secret'', ''password'', ''privatekey'', ''private_key'', ''private-key'', ''registration_access_token'']"

definition text_list :: "jsval \<Rightarrow> bool" where
  "text_list v \<longleftrightarrow> is_array v \<and> list_all is_string (elements v)"

definition jwks_error :: "jsval \<Rightarrow> string option" where
  "jwks_error v = (let jwks = js_get v ''jwks''; keys = (if is_record jwks then js_get jwks ''keys'' else Undefined) in
     if jwks = Undefined then None
     else if \<not> is_array keys \<or> \<not> list_all is_record (elements keys) then Some ''OAuth Client ID Metadata Document jwks must hold a keys array''
     else if list_ex (\<lambda>key. list_ex (has_own key) PRIVATE_JWK_MEMBERS) (elements keys)
     then Some ''OAuth Client ID Metadata Document must not contain private key material''
     else if js_get v ''jwks_uri'' \<noteq> Undefined then Some ''OAuth Client ID Metadata Document must not declare both jwks and jwks_uri''
     else None)"

definition document_error :: "('a) login_host_scheme \<Rightarrow> jsval \<Rightarrow> string \<Rightarrow> string \<Rightarrow> bool \<Rightarrow> string option" where
  "document_error H v clientId redirectUrl refreshRequested =
    (let uris = js_get v ''redirect_uris''; grants = js_get v ''grant_types''; name = js_get v ''client_name'' in
     if \<not> is_record v then Some ''OAuth Client ID Metadata Document must be a JSON object''
     else if js_get v ''client_id'' \<noteq> Str clientId then Some ''OAuth Client ID Metadata Document client_id does not match its URL''
     else if \<not> is_string name \<or> name = Str [] then Some ''OAuth Client ID Metadata Document is missing client_name''
     else if \<not> nonempty_texts uris \<or> elements uris = [] then Some ''OAuth Client ID Metadata Document is missing redirect_uris''
     else if \<not> list_ex (\<lambda>u. matchesRegisteredRedirectUri H (text_of u) redirectUrl) (elements uris)
     then Some ''OAuth Client ID Metadata Document does not register the selected redirect URI''
     else case List.find (\<lambda>k. js_get v k \<noteq> Undefined \<and> \<not> text_list (js_get v k)) [''grant_types'', ''response_types''] of
         Some k \<Rightarrow> Some (''OAuth Client ID Metadata Document '' @ k @ '' must be an array of strings'')
       | None \<Rightarrow>
           if refreshRequested \<and> (\<not> is_array grants \<or> Str ''refresh_token'' \<notin> set (elements grants))
           then Some ''OAuth Client ID Metadata Document does not advertise refresh_token''
           else if js_get v ''token_endpoint_auth_method'' \<noteq> Undefined \<and> \<not> is_string (js_get v ''token_endpoint_auth_method'')
           then Some ''OAuth Client ID Metadata Document token_endpoint_auth_method must be a string''
           else (case jwks_error v of
               Some m \<Rightarrow> Some m
             | None \<Rightarrow>
                 if list_ex secret_member (object_keys v)
                 then Some ''OAuth Client ID Metadata Document must not contain credentials or private keys''
                 else if occurs_in ''{{credential:'' (json_text (print_number H) v)
                 then Some ''OAuth Client ID Metadata Document must not contain deployment-secret references''
                 else None))"

definition validateClientMetadataDocumentValue ::
    "('a) login_host_scheme \<Rightarrow> jsval \<Rightarrow> string \<Rightarrow> string \<Rightarrow> bool \<Rightarrow> client_failure + jsval" where
  "validateClientMetadataDocumentValue H v clientId redirectUrl refreshRequested =
    (case document_error H v clientId redirectUrl refreshRequested of Some m \<Rightarrow> Inl (registration_failed m) | None \<Rightarrow> Inr v)"

definition MAX_CLIENT_METADATA_DOCUMENT_BYTES :: nat where
  "MAX_CLIENT_METADATA_DOCUMENT_BYTES = 65536"

text \<open>\<open>outcome\<close> is the answer to the request, \<open>None\<close> where there is nothing to send it with.\<close>

definition validateClientMetadataDocument ::
    "('a) login_host_scheme \<Rightarrow> int \<Rightarrow> string \<Rightarrow> string option \<Rightarrow> bool \<Rightarrow> (fetch_error + web_response) option \<Rightarrow> client_failure + jsval" where
  "validateClientMetadataDocument H now clientId redirectUrl refreshRequested outcome =
    and_then (assertCimdUrl H clientId) (\<lambda>_.
      case (if given redirectUrl then redirectUrl else None, outcome) of
        (Some redirect, Some answer) \<Rightarrow> (case answer of
            Inl error \<Rightarrow> Inl (if isTransportFailure error
              then Client_Operator (operatorError ''OAUTH_TEMPORARILY_UNAVAILABLE'' ''OAuth Client ID Metadata Document is temporarily unavailable'')
              else registration_failed ''OAuth Client ID Metadata Document could not be loaded: '')
          | Inr response \<Rightarrow>
              if ws_status response = 429
              then Inl (Client_Operator ((operatorError ''OAUTH_RATE_LIMITED'' ''OAuth Client ID Metadata Document retrieval is rate limited'')
                \<lparr>oe_retryAfterSeconds := parseRetryAfterSeconds H (ws_header response ''retry-after'') now\<rparr>))
              else if 500 \<le> ws_status response
              then Inl (Client_Operator (operatorError ''OAUTH_TEMPORARILY_UNAVAILABLE'' ''OAuth Client ID Metadata Document is temporarily unavailable''))
              else if ws_status response < 200 \<or> 299 < ws_status response
              then Inl (registration_failed ''OAuth Client ID Metadata Document could not be loaded'')
              else (case ws_body response of
                  None \<Rightarrow> Inl (Client_Error [])
                | Some body \<Rightarrow>
                    if MAX_CLIENT_METADATA_DOCUMENT_BYTES < length body
                    then Inl (registration_failed ''OAuth Client ID Metadata Document exceeds the size limit'')
                    else (case json_parse H body of
                        None \<Rightarrow> Inl (registration_failed ''OAuth Client ID Metadata Document is not valid JSON'')
                      | Some v \<Rightarrow> validateClientMetadataDocumentValue H v clientId redirect refreshRequested)))
      | _ \<Rightarrow> Inl (registration_failed ''OAuth CIMD validation prerequisites are unavailable''))"

section \<open>Client authentication\<close>

record adapter_key =
  ak_did :: did
  ak_privateJwk :: jsval
  ak_publicJwk :: "jsval option"

definition authentication_failed :: "string \<Rightarrow> operator_error" where
  "authentication_failed m = operatorError ''OAUTH_CLIENT_AUTHENTICATION_FAILED'' m"

definition stringList :: "jsval \<Rightarrow> string list option" where
  "stringList v = (if is_array v then Some (map text_of (filter is_string (elements v))) else None)"

text \<open>\<open>None\<close>: no loader; \<open>Some None\<close>: the loader fails.\<close>

definition loadKey :: "adapter_key option option \<Rightarrow> operator_error + adapter_key" where
  "loadKey loader = (case loader of
       None \<Rightarrow> Inl (authentication_failed ''The adapter signing key is not available to this command'')
     | Some None \<Rightarrow> Inl (authentication_failed ''The adapter signing key could not be loaded'')
     | Some (Some k) \<Rightarrow> Inr k)"

definition publicJwkOf :: "adapter_key \<Rightarrow> jsval" where
  "publicJwkOf k = (case ak_publicJwk k of
       Some v \<Rightarrow> v
     | None \<Rightarrow> Obj (filter (\<lambda>(m, v). m \<notin> set PRIVATE_JWK_MEMBERS) (entries (ak_privateJwk k))))"

definition assertionAlgorithm :: "jsval \<Rightarrow> operator_error + string" where
  "assertionAlgorithm jwk =
    (if js_get jwk ''kty'' = Str ''OKP'' \<and> js_get jwk ''crv'' = Str ''Ed25519'' then Inr ''EdDSA''
     else if js_get jwk ''kty'' = Str ''EC'' \<and> js_get jwk ''crv'' = Str ''P-256'' then Inr ''ES256''
     else Inl (authentication_failed ''The adapter DID key type cannot sign client assertions''))"

definition documentJwks :: "jsval \<Rightarrow> jsval list" where
  "documentJwks document = filter (\<lambda>k. is_record k \<or> is_array k) (elements (js_get (js_get document ''jwks'') ''keys''))"

definition safeSamePublicKey :: "('c) crypto_host_scheme \<Rightarrow> jsval \<Rightarrow> jsval \<Rightarrow> bool" where
  "safeSamePublicKey C left right \<longleftrightarrow> samePublicKey C left right = Some True"

definition assertAlgorithmAdvertised :: "jsval \<Rightarrow> string \<Rightarrow> operator_error + unit" where
  "assertAlgorithmAdvertised advertised algorithm = (case stringList advertised of
       None \<Rightarrow> Inr ()
     | Some xs \<Rightarrow> require (algorithm \<in> set xs)
         (authentication_failed (''The authorization server does not advertise '' @ algorithm @ '' for client assertions'')))"

definition selectClientAuthentication ::
    "('c) crypto_host_scheme \<Rightarrow> jsval \<Rightarrow> jsval \<Rightarrow> adapter_key option option \<Rightarrow> operator_error + client_authentication option" where
  "selectClientAuthentication C document metadata loader =
    (let declared = js_get document ''token_endpoint_auth_method'' in
     if declared = Undefined \<or> declared = Str ''none'' then Inr None
     else if declared \<noteq> Str ''private_key_jwt''
     then Inl (authentication_failed ''The client document declares an unsupported token endpoint authentication method'')
     else if (case stringList (js_get metadata ''token_endpoint_auth_methods_supported'') of None \<Rightarrow> True | Some xs \<Rightarrow> ''private_key_jwt'' \<notin> set xs)
     then Inl (operatorError ''OAUTH_CLIENT_REGISTRATION_FAILED'' ''The authorization server does not advertise private_key_jwt, which the client document requires'')
     else and_then (loadKey loader) (\<lambda>key. and_then (assertionAlgorithm (publicJwkOf key)) (\<lambda>algorithm.
       if \<not> list_ex (\<lambda>k. safeSamePublicKey C k (publicJwkOf key)) (documentJwks document)
       then Inl (authentication_failed ''The client document's jwks does not hold this adapter's DID key'')
       else and_then (assertAlgorithmAdvertised (js_get metadata ''token_endpoint_auth_signing_alg_values_supported'') algorithm) (\<lambda>_.
         Inr (Some \<lparr>ca_method = ''private_key_jwt'', ca_keyDid = ak_did key, ca_algorithm = algorithm\<rparr>)))))"

definition assertRevocationAuthentication :: "client_authentication \<Rightarrow> jsval \<Rightarrow> operator_error + unit" where
  "assertRevocationAuthentication binding metadata =
    (if (case stringList (js_get metadata ''revocation_endpoint_auth_methods_supported'') of None \<Rightarrow> False | Some xs \<Rightarrow> ca_method binding \<notin> set xs)
     then Inl (authentication_failed ''The revocation endpoint does not accept private_key_jwt'')
     else assertAlgorithmAdvertised (js_get metadata ''revocation_endpoint_auth_signing_alg_values_supported'') (ca_algorithm binding))"

definition CLIENT_ASSERTION_TYPE :: string where
  "CLIENT_ASSERTION_TYPE = ''urn:ietf:params:oauth:client-assertion-type:jwt-bearer''"

definition set_param :: "string \<Rightarrow> string \<Rightarrow> (string \<times> string) list \<Rightarrow> (string \<times> string) list" where
  "set_param k v ps = (if k \<in> fst ` set ps
     then (let (before, rest) = (takeWhile (\<lambda>p. fst p \<noteq> k) ps, dropWhile (\<lambda>p. fst p \<noteq> k) ps)
           in before @ (k, v) # filter (\<lambda>p. fst p \<noteq> k) rest)
     else ps @ [(k, v)])"

definition CLIENT_ASSERTION_TYP :: string where
  "CLIENT_ASSERTION_TYP = ''client-authentication+jwt''"

definition CLIENT_ASSERTION_LIFETIME_SECONDS :: int where
  "CLIENT_ASSERTION_LIFETIME_SECONDS = 60"

text \<open>
  \<open>sign\<close> is \<open>importJWK\<close> with the signature of \<open>SignJWT\<close> for a protected header and claims, \<open>None\<close> when the key
  cannot be imported; \<open>jti\<close> is the fresh identifier.
\<close>

definition signClientAssertion ::
    "(jsval \<Rightarrow> jsval \<Rightarrow> jsval \<Rightarrow> string option) \<Rightarrow> int \<Rightarrow> string \<Rightarrow> string \<Rightarrow> string \<Rightarrow> jsval \<Rightarrow> string \<Rightarrow> operator_error + string" where
  "signClientAssertion sign now jti clientId audience privateJwk algorithm =
    (let iat = now div 1000 in
     case sign privateJwk (Obj [(''alg'', Str algorithm), (''typ'', Str CLIENT_ASSERTION_TYP)])
         (Obj [(''jti'', Str jti), (''iss'', Str clientId), (''sub'', Str clientId), (''aud'', Str audience),
           (''iat'', Num (num_of_int iat)), (''exp'', Num (num_of_int (iat + CLIENT_ASSERTION_LIFETIME_SECONDS)))]) of
       None \<Rightarrow> Inl (authentication_failed ''The adapter signing key cannot be used for client assertions'')
     | Some assertion \<Rightarrow> Inr assertion)"

definition applyClientAssertion ::
    "(jsval \<Rightarrow> jsval \<Rightarrow> jsval \<Rightarrow> string option) \<Rightarrow> int \<Rightarrow> string \<Rightarrow> (string \<times> string) list \<Rightarrow> string \<Rightarrow> string \<Rightarrow>
      client_authentication \<Rightarrow> adapter_key option option \<Rightarrow> operator_error + (string \<times> string) list" where
  "applyClientAssertion sign now jti params clientId audience binding loader =
    and_then (loadKey loader) (\<lambda>key.
      let changed = authentication_failed ''The adapter signing key differs from the key bound to this session'' in
      if ak_did key \<noteq> ca_keyDid binding then Inl changed
      else and_then (assertionAlgorithm (publicJwkOf key)) (\<lambda>algorithm.
        if algorithm \<noteq> ca_algorithm binding then Inl changed
        else and_then (signClientAssertion sign now jti clientId audience (ak_privateJwk key) (ca_algorithm binding)) (\<lambda>assertion.
          Inr (set_param ''client_assertion'' assertion (set_param ''client_assertion_type'' CLIENT_ASSERTION_TYPE
            (set_param ''client_id'' clientId (filter (\<lambda>p. fst p \<noteq> ''client_secret'') params)))))))"

lemma set_param_names: "fst ` set (set_param k v ps) = insert k (fst ` set ps)"
proof (cases "k \<in> fst ` set ps")
  case True
  have split: "set ps = set (takeWhile (\<lambda>p. fst p \<noteq> k) ps) \<union> set (dropWhile (\<lambda>p. fst p \<noteq> k) ps)"
    by (metis set_append takeWhile_dropWhile_id)
  have "fst ` set (set_param k v ps) = insert k (fst ` set (takeWhile (\<lambda>p. fst p \<noteq> k) ps) \<union>
      (fst ` set (dropWhile (\<lambda>p. fst p \<noteq> k) ps) - {k}))"
    using True by (auto simp: set_param_def)
  also have "\<dots> = insert k (fst ` set ps)" by (subst split) auto
  finally show ?thesis .
qed (auto simp: set_param_def)

text \<open>An authenticated request carries no client secret.\<close>

lemma assertion_without_secret:
  assumes "applyClientAssertion sign now jti params clientId audience binding loader = Inr ps"
  shows "''client_secret'' \<notin> fst ` set ps" "{''client_id'', ''client_assertion_type'', ''client_assertion''} \<subseteq> fst ` set ps"
proof -
  obtain a where "ps = set_param ''client_assertion'' a (set_param ''client_assertion_type'' CLIENT_ASSERTION_TYPE
      (set_param ''client_id'' clientId (filter (\<lambda>p. fst p \<noteq> ''client_secret'') params)))"
    using assms by (auto simp: applyClientAssertion_def Let_def split: if_splits)
  then have names: "fst ` set ps = {''client_assertion'', ''client_assertion_type'', ''client_id''} \<union>
      fst ` set (filter (\<lambda>p. fst p \<noteq> ''client_secret'') params)"
    by (simp add: set_param_names insert_commute)
  show "''client_secret'' \<notin> fst ` set ps" "{''client_id'', ''client_assertion_type'', ''client_assertion''} \<subseteq> fst ` set ps"
    unfolding names by auto
qed

section \<open>Discovery\<close>

text \<open>\<open>assertExactAuthorizationServerIssuer\<close> of a discovery state, a JSON value.\<close>

definition assertExactAuthorizationServerIssuer :: "jsval \<Rightarrow> string + unit" where
  "assertExactAuthorizationServerIssuer state =
    (let metadata = js_get state ''authorizationServerMetadata''; declared = js_get metadata ''issuer'';
         methods = js_get metadata ''code_challenge_methods_supported'' in
     if js_get state ''resourceMetadata'' = Undefined \<or> declared = Undefined \<or> declared \<noteq> js_get state ''authorizationServerUrl''
     then Inl ''OAuth authorization-server metadata issuer does not exactly match the discovered issuer''
     else if absent methods \<or> Str ''S256'' \<notin> set (elements methods)
     then Inl ''OAuth authorization-server metadata must explicitly advertise PKCE S256''
     else Inr ())"

end
