(* ===== verification/OAuthLogin.thy ===== *)
theory OAuthLogin
  imports OAuthClient OAuthRefresh
begin

text \<open>
  The login of an operator in \<open>cli/src/adapter/oauth-operator.ts\<close>: the callback server, what the provider
  stores while the MCP SDK runs the flow, the end of the login, and logout with the revocation of tokens.

  \<^item> A machine over the session in memory, the credential file and the callback server. The SDK and the
    browser decide which call comes next and with what values; a write succeeds or fails.
  \<^item> A call of the provider gives the failure that it throws. What the SDK makes of it is the next event.
\<close>

section \<open>The callback\<close>

record callback_expectation =
  ce_state :: string
  ce_redirectUrl :: string
  ce_issuer :: string
  ce_issuerRequired :: bool
  ce_expiresAt :: timestamp

definition param :: "url_parts \<Rightarrow> string \<Rightarrow> string option" where
  "param url k = map_of (up_params url) k"

definition validateOAuthCallbackParameters :: "('a) login_host_scheme \<Rightarrow> url_parts \<Rightarrow> callback_expectation \<Rightarrow> int \<Rightarrow> string option" where
  "validateOAuthCallbackParameters H url expected now = (case parse_url H (ce_redirectUrl expected) of
       None \<Rightarrow> Some ''Invalid URL''
     | Some redirect \<Rightarrow>
         if up_origin url \<noteq> up_origin redirect \<or> up_pathname url \<noteq> up_pathname redirect then Some ''OAuth callback redirect URI mismatch''
         else if param url ''state'' \<noteq> Some (ce_state expected) then Some ''OAuth callback state mismatch''
         else if (case date_parse (legacy_date H) (ce_expiresAt expected) of None \<Rightarrow> False | Some t \<Rightarrow> t \<le> now)
         then Some ''OAuth authorization session expired''
         else if ce_issuerRequired expected \<and> \<not> given (param url ''iss'') \<or>
           param url ''iss'' \<noteq> None \<and> param url ''iss'' \<noteq> Some (ce_issuer expected)
         then Some ''OAuth callback issuer mismatch''
         else None)"

definition callbackError :: "string \<Rightarrow> operator_error" where
  "callbackError v = (let e = sanitizeOAuthErrorCode (Str v) in
     if e = Some ''access_denied''
     then operatorError ''OAUTH_AUTHORIZATION_DENIED'' ''Authorization was denied at the authorization server. The connection was not completed and login was not restarted.''
     else if e = Some ''invalid_scope''
     then operatorError ''OAUTH_INSUFFICIENT_SCOPE'' ''The authorization server rejected the requested scopes (invalid_scope). Review the configured scopes; login was not retried.''
     else if e = Some ''temporarily_unavailable'' \<or> e = Some ''server_error''
     then operatorError ''OAUTH_TEMPORARILY_UNAVAILABLE'' ''The authorization server is temporarily unavailable. Run login again later.''
     else operatorError ''OAUTH_UNKNOWN_ERROR'' ''The authorization server returned an unrecognized authorization error. No recovery was attempted.'')"

section \<open>The state\<close>

record authorization_attempt =
  aa_state :: string
  aa_redirectUrl :: string
  aa_expiresAt :: timestamp
  aa_consumedAt :: "timestamp option"

record login_session =
  ls_session :: oauth_session
  ls_attempt :: "authorization_attempt option"
  ls_codeVerifier :: "string option"
  ls_issuerRequired :: bool

text \<open>\<open>ls_issuerRequired\<close> is the \<open>authorizationResponseIssuerRequired\<close> of the session's binding.\<close>

datatype credential_file = No_File | Raw_File string | Session_File login_session

record login_configuration =
  lo_client :: client_configuration
  lo_clientConfiguration :: string
  lo_requestedScopes :: "string list"
  lo_scopeConfiguration :: string
  lo_expectedIssuer :: "string option"
  lo_jitterMaxMs :: int
  lo_persistArtifacts :: bool
  lo_interactive :: bool
  lo_command :: string

text \<open>\<open>lo_interactive\<close>: there is a browser to open or a callback for the authorization URL.\<close>

datatype login_phase = Login_Running | Login_Committed | Login_Failed

record login_world =
  lw_session :: login_session
  lw_file :: credential_file
  lw_previous :: "string option"
  lw_phase :: login_phase
  lw_issuerRequired :: bool
  lw_expectation :: "callback_expectation option"
  lw_consuming :: bool
  lw_pending :: "url_parts option"
  lw_code :: "(client_failure + string) option"
  lw_crashed :: bool
  lw_answers :: "int list"
  lw_accepted :: "(int \<times> url_parts) list"

definition write_login :: "bool \<Rightarrow> login_world \<Rightarrow> login_world" where
  "write_login ok w = (if ok then w\<lparr>lw_file := Session_File (lw_session w)\<rparr> else w)"

definition write_failure :: "bool \<Rightarrow> client_failure option" where
  "write_failure ok = (if ok then None else Some (Client_Error []))"

section \<open>The callback server\<close>

definition answer_with :: "int \<Rightarrow> login_world \<Rightarrow> login_world" where
  "answer_with status w = w\<lparr>lw_answers := lw_answers w @ [status]\<rparr>"

text \<open>The promise of the code takes its first outcome.\<close>

definition settle_code :: "client_failure + string \<Rightarrow> login_world \<Rightarrow> login_world" where
  "settle_code r w = (if lw_code w = None then w\<lparr>lw_code := Some r\<rparr> else w)"

definition callback_fails :: "client_failure \<Rightarrow> login_world \<Rightarrow> login_world" where
  "callback_fails e w = settle_code (Inl e) (answer_with 400 (w\<lparr>lw_consuming := True\<rparr>))"

text \<open>
  A request, up to the await of \<open>onConsume\<close>. The URL is built outside the \<open>try\<close>: the rejection of the
  handler, which nobody handles, ends the process.
\<close>

definition callback_request :: "('a) login_host_scheme \<Rightarrow> int \<Rightarrow> string \<Rightarrow> string \<Rightarrow> login_world \<Rightarrow> login_world" where
  "callback_request H now target hostname w = (case request_target H target hostname of
       None \<Rightarrow> w\<lparr>lw_crashed := True\<rparr>
     | Some url \<Rightarrow>
         if up_pathname url \<noteq> ''/oauth/callback'' then answer_with 404 w
         else (case lw_expectation w of
             None \<Rightarrow> answer_with 409 w
           | Some e \<Rightarrow>
               if lw_consuming w then answer_with 409 w
               else (case validateOAuthCallbackParameters H url e now of
                   Some m \<Rightarrow> callback_fails (Client_Error m) w
                 | None \<Rightarrow> (let w' = w\<lparr>lw_consuming := True, lw_accepted := lw_accepted w @ [(now, url)]\<rparr>; s = lw_session w in
                     case ls_attempt s of
                       None \<Rightarrow> callback_fails (Client_Error ''OAuth authorization session is no longer outstanding'') w'
                     | Some a \<Rightarrow>
                         if given (aa_consumedAt a)
                         then callback_fails (Client_Error ''OAuth authorization session is no longer outstanding'') w'
                         else w'\<lparr>lw_session := s\<lparr>ls_attempt := Some (a\<lparr>aa_consumedAt := Some (iso_of_ms now)\<rparr>)\<rparr>, lw_pending := Some url\<rparr>))))"

text \<open>After the consumption has been written, or not.\<close>

definition callback_consumed :: "bool \<Rightarrow> login_world \<Rightarrow> login_world" where
  "callback_consumed ok w = (case lw_pending w of
       None \<Rightarrow> w
     | Some url \<Rightarrow> (let w' = write_login ok (w\<lparr>lw_pending := None\<rparr>) in
         if \<not> ok then callback_fails (Client_Error []) w'
         else case param url ''error'' of
             Some e \<Rightarrow> callback_fails (Client_Operator (callbackError e)) w'
           | None \<Rightarrow> (case param url ''code'' of
               None \<Rightarrow> callback_fails (Client_Error ''OAuth callback is missing an authorization code'') w'
             | Some c \<Rightarrow>
                 if c = [] then callback_fails (Client_Error ''OAuth callback is missing an authorization code'') w'
                 else settle_code (Inr c) (answer_with 200 w'))))"

section \<open>The provider\<close>

definition login_redirect :: "login_session \<Rightarrow> string option" where
  "login_redirect s = (case ls_attempt s of Some a \<Rightarrow> Some (aa_redirectUrl a)
     | None \<Rightarrow> map_option ob_redirectUrl (os_binding (ls_session s)))"

definition issuer_of :: "jsval \<Rightarrow> string" where
  "issuer_of discovery = text_of (js_get discovery ''authorizationServerUrl'')"

text \<open>The client's document and authentication, for the mode that was selected.\<close>

definition client_identity ::
    "('a) login_host_scheme \<Rightarrow> ('c) crypto_host_scheme \<Rightarrow> int \<Rightarrow> jsval \<Rightarrow> client_mode \<times> string \<Rightarrow> string option \<Rightarrow>
      (fetch_error + web_response) option \<Rightarrow> adapter_key option option \<Rightarrow> client_failure + client_authentication option" where
  "client_identity H C now metadata selected redirectUrl outcome loader = (case selected of (mode, clientId) \<Rightarrow>
     if mode \<noteq> Cimd_Mode then Inr None
     else and_then (validateClientMetadataDocument H now clientId redirectUrl True outcome) (\<lambda>document.
       case selectClientAuthentication C document metadata loader of Inl e \<Rightarrow> Inl (Client_Operator e) | Inr a \<Rightarrow> Inr a))"

definition saveDiscoveryState ::
    "('a) login_host_scheme \<Rightarrow> ('c) crypto_host_scheme \<Rightarrow> login_configuration \<Rightarrow> int \<Rightarrow> jsval \<Rightarrow> (fetch_error + web_response) option \<Rightarrow>
      adapter_key option option \<Rightarrow> bool \<Rightarrow> login_world \<Rightarrow> client_failure option \<times> login_world" where
  "saveDiscoveryState H C cfg now discovery outcome loader ok w =
    (case assertExactAuthorizationServerIssuer discovery of
       Inl m \<Rightarrow> (Some (Client_Error m), w)
     | Inr _ \<Rightarrow>
       if given (lo_expectedIssuer cfg) \<and> Some (issuer_of discovery) \<noteq> lo_expectedIssuer cfg
       then (Some (Client_Error ''OAuth discovered issuer does not match the operator-pinned issuer''), w)
       else (let ls = lw_session w; s = (ls_session ls)\<lparr>os_discovery := Some discovery\<rparr>;
                 w1 = w\<lparr>lw_session := ls\<lparr>ls_session := s\<rparr>\<rparr>; metadata = js_get discovery ''authorizationServerMetadata'' in
         case selectClientMode (lo_client cfg) metadata (os_clientInformation s) of
           Inl e \<Rightarrow> (Some e, w1)
         | Inr (mode, clientId) \<Rightarrow>
           (case client_identity H C now metadata (mode, clientId) (login_redirect ls) outcome loader of
              Inl e \<Rightarrow> (Some e, w1)
            | Inr authentication \<Rightarrow>
              (let s1 = (if mode = Cimd_Mode then s\<lparr>os_clientInformation := Some (Obj [(''client_id'', Str clientId)])\<rparr> else s) in
               case canonicalResourceUrl H (os_resourceUrl s) of
                 Inl m \<Rightarrow> (Some (Client_Error m), w\<lparr>lw_session := ls\<lparr>ls_session := s1\<rparr>\<rparr>)
               | Inr resource \<Rightarrow>
                 (write_failure ok, write_login ok (w\<lparr>lw_session := ls\<lparr>ls_issuerRequired := lw_issuerRequired w, ls_session := s1\<lparr>os_binding := Some
                   \<lparr>ob_applicationDid = os_applicationDid s, ob_resourceUrl = resource, ob_issuer = issuer_of discovery,
                    ob_clientMode = mode, ob_clientId = clientId, ob_clientConfiguration = lo_clientConfiguration cfg,
                    ob_scopeConfiguration = Some (lo_scopeConfiguration cfg), ob_requestedScopes = lo_requestedScopes cfg,
                    ob_redirectUrl = (case login_redirect ls of None \<Rightarrow> [] | Some u \<Rightarrow> u),
                    ob_clientAuthentication = authentication\<rparr>\<rparr>\<rparr>\<rparr>))))))"

definition saveClientInformation :: "jsval \<Rightarrow> bool \<Rightarrow> login_world \<Rightarrow> client_failure option \<times> login_world" where
  "saveClientInformation v ok w =
    (let ls = lw_session w; s = ls_session ls; clientId = text_of (js_get v ''client_id'') in
     case os_binding s of
       None \<Rightarrow> (write_failure ok, write_login ok (w\<lparr>lw_session := ls\<lparr>ls_session := s\<lparr>os_clientInformation := Some v\<rparr>\<rparr>\<rparr>))
     | Some b \<Rightarrow>
         if \<not> (ob_clientMode b = Dynamic_Mode \<and> ob_clientId b = pending_id) \<and> clientId \<noteq> ob_clientId b
         then (Some (Client_Error ''OAuth client registration changed after the authorization tuple was selected''), w)
         else (write_failure ok, write_login ok (w\<lparr>lw_session := ls\<lparr>ls_session := s\<lparr>os_clientInformation := Some v,
           os_binding := Some (b\<lparr>ob_clientId := clientId\<rparr>)\<rparr>\<rparr>\<rparr>)))"

definition saveCodeVerifier :: "login_configuration \<Rightarrow> string \<Rightarrow> bool \<Rightarrow> login_world \<Rightarrow> client_failure option \<times> login_world" where
  "saveCodeVerifier cfg v ok w = (let w' = w\<lparr>lw_session := (lw_session w)\<lparr>ls_codeVerifier := Some v\<rparr>\<rparr> in
     if \<not> lo_persistArtifacts cfg then (None, w') else (write_failure ok, write_login ok w'))"

text \<open>\<open>opened\<close>: the callback for the URL and the browser did not throw. The expectation is bound before them.\<close>

definition redirectToAuthorization :: "login_configuration \<Rightarrow> bool \<Rightarrow> login_world \<Rightarrow> client_failure option \<times> login_world" where
  "redirectToAuthorization cfg opened w = (let ls = lw_session w in
     if \<not> lo_interactive cfg
     then (Some (Client_Error (''OAuth reauthorization required. The Credential Adapter cannot start a browser during dispatch. Run '' @
       lo_command cfg @ ''.'')), w)
     else case (ls_attempt ls, os_binding (ls_session ls)) of
       (Some a, Some b) \<Rightarrow>
         if lw_expectation w \<noteq> None then (Some (Client_Error ''OAuth callback expectation is already bound''), w)
         else (write_failure opened, w\<lparr>lw_expectation := Some \<lparr>ce_state = aa_state a, ce_redirectUrl = aa_redirectUrl a, ce_issuer = ob_issuer b,
           ce_issuerRequired = ls_issuerRequired ls, ce_expiresAt = aa_expiresAt a\<rparr>\<rparr>)
     | _ \<Rightarrow> (Some (Client_Error ''OAuth authorization tuple is incomplete''), w))"

definition save_login_tokens :: "login_configuration \<Rightarrow> int \<Rightarrow> int \<Rightarrow> oauth_tokens \<Rightarrow> bool \<Rightarrow> login_world \<Rightarrow> client_failure option \<times> login_world" where
  "save_login_tokens cfg now random t ok w = (write_failure ok, write_login ok (w\<lparr>lw_session :=
     \<lparr>ls_session = saveTokens now random (lo_jitterMaxMs cfg) t (ls_session (lw_session w)), ls_attempt = None, ls_codeVerifier = None,
      ls_issuerRequired = ls_issuerRequired (lw_session w)\<rparr>\<rparr>))"

text \<open>What \<open>observeAuthorizationMetadata\<close> sees in a response of the login.\<close>

definition issuer_required :: "('a) login_host_scheme \<Rightarrow> web_response \<Rightarrow> bool" where
  "issuer_required H response =
    (if \<not> occurs_in ''json'' (map lower (case ws_header response ''content-type'' of None \<Rightarrow> [] | Some c \<Rightarrow> c)) then False
     else case ws_body response of None \<Rightarrow> False | Some body \<Rightarrow> (case json_parse H body of
         None \<Rightarrow> False
       | Some v \<Rightarrow> is_record v \<and> is_string (js_get v ''issuer'') \<and> is_string (js_get v ''authorization_endpoint'') \<and>
           js_get v ''authorization_response_iss_parameter_supported'' = Bool True))"

section \<open>The end of a login\<close>

definition commit_login :: "bool \<Rightarrow> login_world \<Rightarrow> login_world" where
  "commit_login ok w = (let ls = lw_session w;
       s = (ls_session ls)\<lparr>os_reauthorizationRequired := False, os_reauthorizationReason := None\<rparr>;
       w' = write_login ok (w\<lparr>lw_session := ls\<lparr>ls_session := s\<rparr>\<rparr>) in
     if ok then w'\<lparr>lw_phase := Login_Committed\<rparr> else w')"

text \<open>\<open>restoreSession\<close> comes after the audit entry, whose failure leaves the attempt in the file.\<close>

definition fail_login :: "bool \<Rightarrow> bool \<Rightarrow> login_world \<Rightarrow> login_world" where
  "fail_login audited restored w = (let w' = w\<lparr>lw_phase := Login_Failed\<rparr> in
     if audited \<and> restored then w'\<lparr>lw_file := (case lw_previous w of None \<Rightarrow> No_File | Some raw \<Rightarrow> Raw_File raw)\<rparr>
     else w')"

section \<open>The machine\<close>

datatype login_event =
    L_Response web_response
  | L_Discovery jsval "(fetch_error + web_response) option" "adapter_key option option" bool
  | L_Client_Information jsval bool
  | L_Code_Verifier string bool
  | L_Redirect bool
  | L_Request string string
  | L_Consumed bool
  | L_Timeout
  | L_Tokens oauth_tokens int bool
  | L_Commit bool
  | L_Fail bool bool

fun login_step ::
    "('a) login_host_scheme \<Rightarrow> ('c) crypto_host_scheme \<Rightarrow> login_configuration \<Rightarrow> login_world \<Rightarrow> int \<times> login_event \<Rightarrow> login_world" where
  "login_step H C cfg w (now, L_Response r) = w\<lparr>lw_issuerRequired := lw_issuerRequired w \<or> issuer_required H r\<rparr>"
| "login_step H C cfg w (now, L_Discovery d r k ok) = snd (saveDiscoveryState H C cfg now d r k ok w)"
| "login_step H C cfg w (now, L_Client_Information v ok) = snd (saveClientInformation v ok w)"
| "login_step H C cfg w (now, L_Code_Verifier v ok) = snd (saveCodeVerifier cfg v ok w)"
| "login_step H C cfg w (now, L_Redirect opened) = snd (redirectToAuthorization cfg opened w)"
| "login_step H C cfg w (now, L_Request t h) = callback_request H now t h w"
| "login_step H C cfg w (now, L_Consumed ok) = callback_consumed ok w"
| "login_step H C cfg w (now, L_Timeout) = settle_code (Inl (Client_Error ''OAuth callback timed out'')) w"
| "login_step H C cfg w (now, L_Tokens t random ok) = snd (save_login_tokens cfg now random t ok w)"
| "login_step H C cfg w (now, L_Commit ok) = commit_login ok w"
| "login_step H C cfg w (now, L_Fail audited restored) = fail_login audited restored w"

text \<open>Nothing happens once the process has ended or the login is over.\<close>

definition live_step ::
    "('a) login_host_scheme \<Rightarrow> ('c) crypto_host_scheme \<Rightarrow> login_configuration \<Rightarrow> login_world \<Rightarrow> int \<times> login_event \<Rightarrow> login_world" where
  "live_step H C cfg w e = (if lw_crashed w \<or> lw_phase w \<noteq> Login_Running then w else login_step H C cfg w e)"

definition run_login ::
    "('a) login_host_scheme \<Rightarrow> ('c) crypto_host_scheme \<Rightarrow> login_configuration \<Rightarrow> login_world \<Rightarrow> (int \<times> login_event) list \<Rightarrow> login_world" where
  "run_login H C cfg w events = foldl (live_step H C cfg) w events"

text \<open>The login after its first write: the session of the attempt, without tokens and binding.\<close>

definition new_session :: "session_request \<Rightarrow> string \<Rightarrow> sharing_policy \<Rightarrow> jsval option \<Rightarrow> oauth_session" where
  "new_session r owner sharing information = \<lparr>os_session = sr_session r, os_credentialHandle = sr_credentialHandle r,
     os_applicationDid = sr_applicationDid r, os_resourceUrl = sr_resourceUrl r, os_owner = Some owner, os_sharing = Some sharing,
     os_binding = None, os_reauthorizationRequired = False, os_reauthorizationReason = None, os_clientInformation = information,
     os_tokens = None, os_discovery = None, os_tokensSavedAt = None, os_refreshJitterMs = None, os_refreshState = None, os_accessDenied = None\<rparr>"

definition startLogin :: "oauth_session \<Rightarrow> string \<Rightarrow> string \<Rightarrow> int \<Rightarrow> int \<Rightarrow> string option \<Rightarrow> login_world" where
  "startLogin s state redirectUrl createdAt timeoutMs previous =
    (let ls = \<lparr>ls_session = s, ls_attempt = Some \<lparr>aa_state = state, aa_redirectUrl = redirectUrl,
           aa_expiresAt = iso_of_ms (createdAt + timeoutMs), aa_consumedAt = None\<rparr>,
           ls_codeVerifier = None, ls_issuerRequired = False\<rparr> in
     \<lparr>lw_session = ls, lw_file = Session_File ls, lw_previous = previous, lw_phase = Login_Running, lw_issuerRequired = False,
      lw_expectation = None, lw_consuming = False, lw_pending = None, lw_code = None, lw_crashed = False, lw_answers = [], lw_accepted = []\<rparr>)"

section \<open>Logout\<close>

text \<open>
  \<open>revokeAdvertisedTokens\<close>: for each token whether the assertion could be made and the answer of the
  endpoint; the outcome and the reason.
\<close>

fun revoke_each :: "('a) login_host_scheme \<Rightarrow> int \<Rightarrow> bool \<Rightarrow> bool \<Rightarrow> string option \<Rightarrow> (bool \<times> (fetch_error + web_response)) list \<Rightarrow> string \<times> string option" where
  "revoke_each H now authenticated succeeded reason [] = (if succeeded then (''succeeded'', None) else (''failed'', reason))"
| "revoke_each H now authenticated succeeded reason ((asserted, answer) # rest) =
    (if authenticated \<and> \<not> asserted then (''failed'', Some ''oauth_client_authentication_failed'')
     else case answer of
         Inl e \<Rightarrow> revoke_each H now authenticated False (if reason = None then Some ''oauth_temporarily_unavailable'' else reason) rest
       | Inr response \<Rightarrow>
           if 200 \<le> ws_status response \<and> ws_status response \<le> 299 then revoke_each H now authenticated succeeded reason rest
           else revoke_each H now authenticated False
             (if reason = None then oauthReasonForCode (oe_code (tokenErrorFromResponse H now response Revocation)) else reason) rest)"

definition revocable_tokens :: "oauth_session \<Rightarrow> string list" where
  "revocable_tokens s = (case os_tokens s of None \<Rightarrow> [] | Some t \<Rightarrow>
     (case tk_refresh t of None \<Rightarrow> [] | Some r \<Rightarrow> if r = [] then [] else [r]) @ (if tk_access t = [] then [] else [tk_access t]))"

definition revokeAdvertisedTokens ::
    "('a) login_host_scheme \<Rightarrow> int \<Rightarrow> oauth_session \<Rightarrow> (nat \<Rightarrow> bool \<times> (fetch_error + web_response)) \<Rightarrow> string \<times> string option" where
  "revokeAdvertisedTokens H now s answers =
    (let metadata = (case os_discovery s of None \<Rightarrow> Undefined | Some d \<Rightarrow> js_get d ''authorizationServerMetadata'');
         endpoint = js_get metadata ''revocation_endpoint'';
         authentication = (case os_binding s of None \<Rightarrow> None | Some b \<Rightarrow> ob_clientAuthentication b) in
     if \<not> is_string endpoint \<or> endpoint = Str [] \<or> revocable_tokens s = [] then (''unavailable'', None)
     else if (case authentication of None \<Rightarrow> False | Some a \<Rightarrow> assertRevocationAuthentication a metadata \<noteq> Inr ())
     then (''failed'', Some ''oauth_client_authentication_failed'')
     else revoke_each H now (authentication \<noteq> None) True None (map answers [0..<length (revocable_tokens s)]))"

text \<open>
  \<open>logout\<close>: what it answers or the message it throws, and whether the file has been removed. \<open>audits\<close>
  says for the entries of the revocation and of the logout whether they could be appended.
\<close>

definition logout_session ::
    "('a) login_host_scheme \<Rightarrow> int \<Rightarrow> string \<Rightarrow> session_request \<Rightarrow> expectation \<Rightarrow> string \<Rightarrow> file_reading \<Rightarrow>
      (nat \<Rightarrow> bool \<times> (fetch_error + web_response)) \<Rightarrow> bool \<times> bool \<Rightarrow> (string + string \<times> string option) \<times> bool" where
  "logout_session H now operator r expected command reading answers audits = (case reading of
       Missing_File \<Rightarrow> (Inr (''unavailable'', None), True)
     | Insecure_File \<Rightarrow> (Inl [], False)
     | Malformed_File \<Rightarrow> (Inl [], False)
     | Read_File s \<Rightarrow> (case (if given (os_owner s) then os_owner s else None, os_sharing s) of
           (Some owner, Some sharing) \<Rightarrow>
             (case assertOperatorAccess operator (sr_applicationDid r) owner sharing of
                Inl m \<Rightarrow> (Inl m, False)
              | Inr _ \<Rightarrow> (case sessionMatchesRequest H s r expected of
                  Inl m \<Rightarrow> (Inl m, False)
                | Inr False \<Rightarrow> (Inl (''OAuth session binding changed. Run '' @ command @ ''.''), False)
                | Inr True \<Rightarrow>
                    if \<not> fst audits then (Inl [], False)
                    else if \<not> snd audits then (Inl [], True)
                    else (Inr (revokeAdvertisedTokens H now s answers), True)))
         | _ \<Rightarrow> (Inl ''OAuth session owner policy is missing'', False)))"

end
