(* ===== verification/OAuthLoginProperties.thy ===== *)
theory OAuthLoginProperties
  imports OAuthLogin
begin

text \<open>
  What a login keeps, whatever the browser, the SDK and other local processes do: one accepted callback, and a
  binding as the deployment configures it. And what a login that ends early leaves in the credential file.
\<close>

section \<open>The attempt\<close>

text \<open>The part of a configuration that a binding repeats, for the request \<open>r\<close> and the events \<open>E\<close> of a run.\<close>

definition authentication_as_declared ::
    "('c) crypto_host_scheme \<Rightarrow> jsval \<Rightarrow> jsval \<Rightarrow> adapter_key option option \<Rightarrow> client_authentication option \<Rightarrow> bool" where
  "authentication_as_declared C document metadata loader authentication \<longleftrightarrow>
     (case authentication of
        None \<Rightarrow> js_get document ''token_endpoint_auth_method'' \<in> {Undefined, Str ''none''}
      | Some a \<Rightarrow> js_get document ''token_endpoint_auth_method'' = Str ''private_key_jwt'' \<and>
          (\<exists>xs k. stringList (js_get metadata ''token_endpoint_auth_methods_supported'') = Some xs \<and> ''private_key_jwt'' \<in> set xs \<and>
            loader = Some (Some k) \<and> ca_keyDid a = ak_did k \<and>
            (\<exists>j \<in> set (documentJwks document). samePublicKey C j (publicJwkOf k) = Some True)))"

lemma selected_authentication:
  assumes "selectClientAuthentication C document metadata loader = Inr authentication"
  shows "authentication_as_declared C document metadata loader authentication"
proof (cases "js_get document ''token_endpoint_auth_method'' = Str ''private_key_jwt''")
  case False
  then show ?thesis using assms
    by (auto simp: selectClientAuthentication_def authentication_as_declared_def Let_def split: if_splits)
next
  case True
  from assms True obtain xs where x: "stringList (js_get metadata ''token_endpoint_auth_methods_supported'') = Some xs" "''private_key_jwt'' \<in> set xs"
    by (auto simp: selectClientAuthentication_def Let_def split: if_splits option.splits)
  have r: "and_then (loadKey loader) (\<lambda>key. and_then (assertionAlgorithm (publicJwkOf key)) (\<lambda>algorithm.
       if \<not> list_ex (\<lambda>k. safeSamePublicKey C k (publicJwkOf key)) (documentJwks document)
       then Inl (authentication_failed ''The client document's jwks does not hold this adapter's DID key'')
       else and_then (assertAlgorithmAdvertised (js_get metadata ''token_endpoint_auth_signing_alg_values_supported'') algorithm) (\<lambda>_.
         Inr (Some \<lparr>ca_method = ''private_key_jwt'', ca_keyDid = ak_did key, ca_algorithm = algorithm\<rparr>)))) = Inr authentication"
    using assms True x by (simp add: selectClientAuthentication_def)
  then obtain k alg where k: "loadKey loader = Inr k" "list_ex (\<lambda>j. safeSamePublicKey C j (publicJwkOf k)) (documentJwks document)"
      "authentication = Some \<lparr>ca_method = ''private_key_jwt'', ca_keyDid = ak_did k, ca_algorithm = alg\<rparr>"
    by (auto split: if_splits)
  from k(1) have "loader = Some (Some k)" by (auto simp: loadKey_def split: option.splits)
  with True x k(2,3) show ?thesis
    by (auto simp: authentication_as_declared_def safeSamePublicKey_def list_ex_iff)
qed

section \<open>The binding\<close>

definition configured_document :: "client_configuration \<Rightarrow> string option" where
  "configured_document client = (case client of Cimd_Client d \<Rightarrow> Some d | Auto_Client i s d \<Rightarrow> d | _ \<Rightarrow> None)"

definition client_as_configured ::
    "('a) login_host_scheme \<Rightarrow> ('c) crypto_host_scheme \<Rightarrow> client_configuration \<Rightarrow> jsval \<Rightarrow> adapter_key option option \<Rightarrow> oauth_binding \<Rightarrow> bool" where
  "client_as_configured H C client metadata loader b \<longleftrightarrow> (case ob_clientMode b of
       Static_Mode \<Rightarrow> configured_id client = Some (ob_clientId b) \<and> ob_clientAuthentication b = None
     | Dynamic_Mode \<Rightarrow> configured_id client = None \<and> truthy (js_get metadata ''registration_endpoint'') \<and> ob_clientAuthentication b = None
     | Cimd_Mode \<Rightarrow> configured_id client = None \<and> configured_document client = Some (ob_clientId b) \<and>
         js_get metadata ''client_id_metadata_document_supported'' = Bool True \<and>
         (\<exists>document. document_error H document (ob_clientId b) (ob_redirectUrl b) True = None \<and>
           authentication_as_declared C document metadata loader (ob_clientAuthentication b)))"

definition binding_as_configured ::
    "('a) login_host_scheme \<Rightarrow> ('c) crypto_host_scheme \<Rightarrow> login_configuration \<Rightarrow> session_request \<Rightarrow> (int \<times> login_event) set \<Rightarrow> oauth_binding \<Rightarrow> bool" where
  "binding_as_configured H C cfg r E b \<longleftrightarrow>
     ob_applicationDid b = sr_applicationDid r \<and> canonicalResourceUrl H (sr_resourceUrl r) = Inr (ob_resourceUrl b) \<and>
     ob_clientConfiguration b = lo_clientConfiguration cfg \<and> ob_scopeConfiguration b = Some (lo_scopeConfiguration cfg) \<and>
     ob_requestedScopes b = lo_requestedScopes cfg \<and> (given (lo_expectedIssuer cfg) \<longrightarrow> lo_expectedIssuer cfg = Some (ob_issuer b)) \<and>
     (\<exists>now d outcome loader ok. (now, L_Discovery d outcome loader ok) \<in> E \<and> assertExactAuthorizationServerIssuer d = Inr () \<and>
       ob_issuer b = issuer_of d \<and> client_as_configured H C (lo_client cfg) (js_get d ''authorizationServerMetadata'') loader b)"

lemma selected_mode:
  assumes "selectClientMode client metadata existing = Inr (mode, i)"
  shows "case mode of Static_Mode \<Rightarrow> configured_id client = Some i
     | Dynamic_Mode \<Rightarrow> configured_id client = None \<and> truthy (js_get metadata ''registration_endpoint'')
     | Cimd_Mode \<Rightarrow> configured_id client = None \<and> configured_document client = Some i \<and>
         js_get metadata ''client_id_metadata_document_supported'' = Bool True"
  using assms
  by (cases client) (auto simp: selectClientMode_def Let_def configured_id_def configured_document_def given_def split: if_splits)

lemma validated_document:
  assumes "validateClientMetadataDocument H now clientId redirectUrl refresh outcome = Inr document"
  shows "\<exists>u. redirectUrl = Some u \<and> document_error H document clientId u refresh = None"
  using assms
  by (auto simp: validateClientMetadataDocument_def validateClientMetadataDocumentValue_def given_def split: option.splits sum.splits if_splits)

lemma selected_client:
  assumes "selectClientMode client metadata existing = Inr (mode, i)"
    and "client_identity H C now metadata (mode, i) redirectUrl outcome loader = Inr authentication"
    and "ob_clientMode b = mode" "ob_clientId b = i" "ob_clientAuthentication b = authentication"
    and "ob_redirectUrl b = (case redirectUrl of None \<Rightarrow> [] | Some u \<Rightarrow> u)"
  shows "client_as_configured H C client metadata loader b"
proof (cases "mode = Cimd_Mode")
  case False
  then have "authentication = None" using assms(2) by (auto simp: client_identity_def)
  with False selected_mode [OF assms(1)] assms(3-5) show ?thesis
    by (cases mode) (simp_all add: client_as_configured_def)
next
  case True
  with assms(2) obtain document where d1: "validateClientMetadataDocument H now i redirectUrl True outcome = Inr document"
      and "(case selectClientAuthentication C document metadata loader of Inl e \<Rightarrow> Inl (Client_Operator e) | Inr a \<Rightarrow> Inr a) = Inr authentication"
    by (auto simp: client_identity_def)
  then have d: "validateClientMetadataDocument H now i redirectUrl True outcome = Inr document"
      "selectClientAuthentication C document metadata loader = Inr authentication"
    by (simp_all split: sum.split_asm)
  from validated_document [OF d(1)] assms(6) have "document_error H document i (ob_redirectUrl b) True = None" by auto
  with True selected_mode [OF assms(1)] selected_authentication [OF d(2)] assms(3-5) show ?thesis
    by (auto simp: client_as_configured_def)
qed

definition session_as_configured ::
    "('a) login_host_scheme \<Rightarrow> ('c) crypto_host_scheme \<Rightarrow> login_configuration \<Rightarrow> session_request \<Rightarrow> (int \<times> login_event) set \<Rightarrow> oauth_session \<Rightarrow> bool" where
  "session_as_configured H C cfg r E s \<longleftrightarrow> os_applicationDid s = sr_applicationDid r \<and> os_resourceUrl s = sr_resourceUrl r \<and>
     (\<forall>b. os_binding s = Some b \<longrightarrow> binding_as_configured H C cfg r E b)"

lemma configured_unchanged:
  assumes "session_as_configured H C cfg r E s" "os_applicationDid s' = os_applicationDid s" "os_resourceUrl s' = os_resourceUrl s" "os_binding s' = os_binding s"
  shows "session_as_configured H C cfg r E s'"
  using assms by (simp add: session_as_configured_def)

lemma saved_tokens [simp]:
  "os_applicationDid (saveTokens now random j t s) = os_applicationDid s" "os_resourceUrl (saveTokens now random j t s) = os_resourceUrl s"
  "os_binding (saveTokens now random j t s) = os_binding s"
  by (simp_all add: saveTokens_def Let_def)

lemma written_session [simp]: "lw_session (write_login ok w) = lw_session w"
  by (simp add: write_login_def)

text \<open>The ways out of \<open>saveDiscoveryState\<close>: without a new binding, or with the binding of the selected client.\<close>

lemma discovery_outcome:
  assumes "\<And>s. os_applicationDid s = os_applicationDid (ls_session (lw_session w)) \<Longrightarrow> os_resourceUrl s = os_resourceUrl (ls_session (lw_session w)) \<Longrightarrow>
      os_binding s = os_binding (ls_session (lw_session w)) \<Longrightarrow> P s"
    and "\<And>s b mode i authentication. os_applicationDid s = os_applicationDid (ls_session (lw_session w)) \<Longrightarrow>
      os_resourceUrl s = os_resourceUrl (ls_session (lw_session w)) \<Longrightarrow> os_binding s = Some b \<Longrightarrow>
      assertExactAuthorizationServerIssuer d = Inr () \<Longrightarrow>
      given (lo_expectedIssuer cfg) \<longrightarrow> lo_expectedIssuer cfg = Some (ob_issuer b) \<Longrightarrow> ob_issuer b = issuer_of d \<Longrightarrow>
      ob_applicationDid b = os_applicationDid (ls_session (lw_session w)) \<Longrightarrow>
      canonicalResourceUrl H (os_resourceUrl (ls_session (lw_session w))) = Inr (ob_resourceUrl b) \<Longrightarrow>
      ob_clientConfiguration b = lo_clientConfiguration cfg \<Longrightarrow> ob_scopeConfiguration b = Some (lo_scopeConfiguration cfg) \<Longrightarrow>
      ob_requestedScopes b = lo_requestedScopes cfg \<Longrightarrow>
      client_as_configured H C (lo_client cfg) (js_get d ''authorizationServerMetadata'') loader b \<Longrightarrow> P s"
  shows "P (ls_session (lw_session (snd (saveDiscoveryState H C cfg now d outcome loader ok w))))"
proof -
  let ?ls = "lw_session w"
  let ?s = "(ls_session ?ls)\<lparr>os_discovery := Some d\<rparr>"
  let ?m = "js_get d ''authorizationServerMetadata''"
  note same = assms(1) and bound = assms(2)
  show ?thesis
  proof (cases "assertExactAuthorizationServerIssuer d = Inr () \<and> \<not> (given (lo_expectedIssuer cfg) \<and> Some (issuer_of d) \<noteq> lo_expectedIssuer cfg)")
    case False
    then show ?thesis by (auto simp: saveDiscoveryState_def Let_def intro!: same split: sum.split)
  next
    case True
    then have exact: "assertExactAuthorizationServerIssuer d = Inr ()"
      and pinned: "given (lo_expectedIssuer cfg) \<longrightarrow> lo_expectedIssuer cfg = Some (issuer_of d)" by auto
    show ?thesis
    proof (cases "selectClientMode (lo_client cfg) ?m (os_clientInformation ?s)")
      case (Inl e)
      with exact pinned show ?thesis by (auto simp: saveDiscoveryState_def Let_def intro!: same)
    next
      case (Inr x)
      then obtain mode i where sel: "selectClientMode (lo_client cfg) ?m (os_clientInformation ?s) = Inr (mode, i)" by (cases x) simp
      show ?thesis
      proof (cases "client_identity H C now ?m (mode, i) (login_redirect ?ls) outcome loader")
        case (Inl e)
        with exact pinned sel show ?thesis by (auto simp: saveDiscoveryState_def Let_def intro!: same)
      next
        case identity: (Inr authentication)
        show ?thesis
        proof (cases "canonicalResourceUrl H (os_resourceUrl (ls_session ?ls))")
          case (Inl m)
          with exact pinned sel identity show ?thesis by (auto simp: saveDiscoveryState_def Let_def intro!: same)
        next
          case (Inr resource)
          with exact pinned sel identity show ?thesis
            by (auto simp: saveDiscoveryState_def Let_def intro!: bound selected_client)
        qed
      qed
    qed
  qed
qed

lemma binding_configuredI:
  assumes "(now, L_Discovery d outcome loader ok) \<in> E" "assertExactAuthorizationServerIssuer d = Inr ()"
    and "given (lo_expectedIssuer cfg) \<longrightarrow> lo_expectedIssuer cfg = Some (ob_issuer b)" "ob_issuer b = issuer_of d"
    and "ob_applicationDid b = sr_applicationDid r" "canonicalResourceUrl H (sr_resourceUrl r) = Inr (ob_resourceUrl b)"
    and "ob_clientConfiguration b = lo_clientConfiguration cfg" "ob_scopeConfiguration b = Some (lo_scopeConfiguration cfg)"
    and "ob_requestedScopes b = lo_requestedScopes cfg"
    and "client_as_configured H C (lo_client cfg) (js_get d ''authorizationServerMetadata'') loader b"
  shows "binding_as_configured H C cfg r E b"
  using assms unfolding binding_as_configured_def by blast

lemma configured_discovery:
  assumes "session_as_configured H C cfg r E (ls_session (lw_session w))" "(now, L_Discovery d outcome loader ok) \<in> E"
  shows "session_as_configured H C cfg r E (ls_session (lw_session (snd (saveDiscoveryState H C cfg now d outcome loader ok w))))"
proof (rule discovery_outcome)
  fix s :: oauth_session
  assume "os_applicationDid s = os_applicationDid (ls_session (lw_session w))" "os_resourceUrl s = os_resourceUrl (ls_session (lw_session w))"
    "os_binding s = os_binding (ls_session (lw_session w))"
  with assms(1) show "session_as_configured H C cfg r E s" by (rule configured_unchanged)
qed (use assms in \<open>auto simp: session_as_configured_def intro: binding_configuredI\<close>)

lemma configured_information:
  assumes "session_as_configured H C cfg r E (ls_session (lw_session w))"
  shows "session_as_configured H C cfg r E (ls_session (lw_session (snd (saveClientInformation v ok w))))"
proof (cases "os_binding (ls_session (lw_session w))")
  case None
  with assms show ?thesis by (simp add: saveClientInformation_def Let_def session_as_configured_def)
next
  case (Some b)
  let ?i = "text_of (js_get v ''client_id'')"
  have c: "binding_as_configured H C cfg r E b" using assms Some by (simp add: session_as_configured_def)
  have "binding_as_configured H C cfg r E (b\<lparr>ob_clientId := ?i\<rparr>)" if "ob_clientMode b = Dynamic_Mode \<or> ?i = ob_clientId b"
  proof (cases "ob_clientMode b = Dynamic_Mode")
    case True
    with c show ?thesis by (simp add: binding_as_configured_def client_as_configured_def)
  next
    case False
    with that have "b\<lparr>ob_clientId := ?i\<rparr> = b" by simp
    with c show ?thesis by simp
  qed
  with Some assms show ?thesis by (auto simp: saveClientInformation_def Let_def session_as_configured_def)
qed

section \<open>The parts of a state\<close>

text \<open>What the callback server keeps, and the attempt, change in the callback's own steps and when tokens are saved.\<close>

definition callback_part where
  "callback_part w = (lw_expectation w, lw_consuming w, lw_pending w, lw_code w, lw_accepted w)"

definition file_kept :: "login_world \<Rightarrow> login_world \<Rightarrow> bool" where
  "file_kept w w' \<longleftrightarrow> lw_file w' = lw_file w \<or> lw_file w' = Session_File (lw_session w') \<or> (\<forall>s. lw_file w' \<noteq> Session_File s)"

lemma discovery_keeps:
  "callback_part (snd (saveDiscoveryState H C cfg now d outcome loader ok w)) = callback_part w"
  "ls_attempt (lw_session (snd (saveDiscoveryState H C cfg now d outcome loader ok w))) = ls_attempt (lw_session w)"
  "file_kept w (snd (saveDiscoveryState H C cfg now d outcome loader ok w))"
  by (auto simp: saveDiscoveryState_def file_kept_def callback_part_def write_login_def Let_def split: sum.split prod.split)

lemma information_keeps:
  "callback_part (snd (saveClientInformation v ok w)) = callback_part w"
  "ls_attempt (lw_session (snd (saveClientInformation v ok w))) = ls_attempt (lw_session w)"
  "file_kept w (snd (saveClientInformation v ok w))"
  by (auto simp: saveClientInformation_def file_kept_def callback_part_def write_login_def Let_def split: option.split)

lemmas callback_defs = callback_request_def callback_consumed_def callback_fails_def settle_code_def answer_with_def write_login_def Let_def

lemma request_keeps:
  "ls_session (lw_session (callback_request H now t h w)) = ls_session (lw_session w)"
  "lw_file (callback_request H now t h w) = lw_file w"
  "lw_expectation (callback_request H now t h w) = lw_expectation w"
  by (simp_all add: callback_defs split: option.split)

lemma consumed_keeps:
  "lw_session (callback_consumed ok w) = lw_session w"
  "file_kept w (callback_consumed ok w)"
  "lw_expectation (callback_consumed ok w) = lw_expectation w" "lw_accepted (callback_consumed ok w) = lw_accepted w"
  by (auto simp: callback_defs file_kept_def split: option.split)

section \<open>A configured login\<close>

definition configured_login ::
    "('a) login_host_scheme \<Rightarrow> ('c) crypto_host_scheme \<Rightarrow> login_configuration \<Rightarrow> session_request \<Rightarrow> (int \<times> login_event) set \<Rightarrow> login_world \<Rightarrow> bool" where
  "configured_login H C cfg r E w \<longleftrightarrow> session_as_configured H C cfg r E (ls_session (lw_session w)) \<and>
     (\<forall>s. lw_file w = Session_File s \<longrightarrow> session_as_configured H C cfg r E (ls_session s))"

lemma configured_loginI:
  assumes "configured_login H C cfg r E w" "session_as_configured H C cfg r E (ls_session (lw_session w'))"
    and "file_kept w w'"
  shows "configured_login H C cfg r E w'"
  using assms by (auto simp: configured_login_def file_kept_def)

lemma configured_step:
  assumes "configured_login H C cfg r E w" "(now, e) \<in> E"
  shows "configured_login H C cfg r E (login_step H C cfg w (now, e))"
proof -
  have s: "session_as_configured H C cfg r E (ls_session (lw_session w))" using assms(1) by (simp add: configured_login_def)
  show ?thesis
  proof (rule configured_loginI [OF assms(1)])
    show "session_as_configured H C cfg r E (ls_session (lw_session (login_step H C cfg w (now, e))))"
      using s assms(2)
      by (cases e) (auto simp: configured_discovery configured_information request_keeps consumed_keeps saveCodeVerifier_def redirectToAuthorization_def
          save_login_tokens_def commit_login_def fail_login_def settle_code_def Let_def elim: configured_unchanged split: option.split)
    show "file_kept w (login_step H C cfg w (now, e))"
    proof (cases e)
      case (L_Request t h)
      then show ?thesis by (simp add: file_kept_def request_keeps)
    next
      case (L_Discovery d outcome loader ok)
      then show ?thesis by (simp add: discovery_keeps)
    next
      case (L_Client_Information v ok)
      then show ?thesis by (simp add: information_keeps)
    next
      case (L_Consumed ok)
      then show ?thesis by (simp add: consumed_keeps)
    qed (auto simp: saveCodeVerifier_def redirectToAuthorization_def
          save_login_tokens_def commit_login_def fail_login_def settle_code_def write_login_def file_kept_def Let_def split: option.split)
  qed
qed

lemma configured_run:
  "configured_login H C cfg r E w \<Longrightarrow> set events \<subseteq> E \<Longrightarrow> configured_login H C cfg r E (run_login H C cfg w events)"
proof (induction events arbitrary: w)
  case (Cons x events)
  have "configured_login H C cfg r E (live_step H C cfg w x)"
    using configured_step [OF Cons.prems(1), of "fst x" "snd x"] Cons.prems by (simp add: live_step_def)
  then show ?case using Cons.IH Cons.prems(2) by (simp add: run_login_def)
qed (simp add: run_login_def)

lemma configured_start: "configured_login H C cfg r E (startLogin (new_session r owner sharing information) st ru createdAt timeoutMs previous)"
  by (simp add: configured_login_def session_as_configured_def startLogin_def new_session_def Let_def)

section \<open>The callback server\<close>

definition good_callback :: "('a) login_host_scheme \<Rightarrow> (int \<times> login_event) set \<Rightarrow> callback_expectation \<Rightarrow> int \<times> url_parts \<Rightarrow> bool" where
  "good_callback H E e x \<longleftrightarrow> validateOAuthCallbackParameters H (snd x) e (fst x) = None \<and>
     (\<exists>t h. (fst x, L_Request t h) \<in> E \<and> request_target H t h = Some (snd x))"

definition callback_safe :: "('a) login_host_scheme \<Rightarrow> (int \<times> login_event) set \<Rightarrow> login_world \<Rightarrow> bool" where
  "callback_safe H E w \<longleftrightarrow>
     (\<not> lw_consuming w \<longrightarrow> lw_accepted w = [] \<and> lw_pending w = None \<and> (\<forall>c. lw_code w \<noteq> Some (Inr c))) \<and>
     (lw_accepted w = [] \<or> (\<exists>x e. lw_accepted w = [x] \<and> lw_expectation w = Some e \<and> good_callback H E e x)) \<and>
     (\<forall>url. lw_pending w = Some url \<longrightarrow> map snd (lw_accepted w) = [url] \<and> (\<forall>c. lw_code w \<noteq> Some (Inr c))) \<and>
     (\<forall>c. lw_code w = Some (Inr c) \<longrightarrow> (\<exists>url. map snd (lw_accepted w) = [url] \<and> param url ''error'' = None \<and> param url ''code'' = Some c \<and> c \<noteq> []))"

lemma callback_safe_kept: "callback_safe H E w \<Longrightarrow> callback_part w' = callback_part w \<Longrightarrow> callback_safe H E w'"
  by (simp add: callback_safe_def callback_part_def)

lemma callback_safe_request:
  assumes "callback_safe H E w" "(now, L_Request t h) \<in> E"
  shows "callback_safe H E (callback_request H now t h w)"
proof (cases "request_target H t h")
  case None
  with assms(1) show ?thesis by (simp add: callback_request_def callback_safe_def)
next
  case (Some url)
  show ?thesis
  proof (cases "up_pathname url \<noteq> ''/oauth/callback'' \<or> lw_expectation w = None \<or> lw_consuming w")
    case True
    then have "callback_part (callback_request H now t h w) = callback_part w"
      using Some by (auto simp: callback_part_def callback_request_def answer_with_def split: option.split)
    with assms(1) show ?thesis by (rule callback_safe_kept)
  next
    case False
    then obtain e where f: "up_pathname url = ''/oauth/callback''" "lw_expectation w = Some e" "\<not> lw_consuming w" by auto
    have n: "lw_accepted w = []" "lw_pending w = None" "\<And>c. lw_code w \<noteq> Some (Inr c)"
      using assms(1) f(3) by (simp_all add: callback_safe_def)
    show ?thesis
    proof (cases "validateOAuthCallbackParameters H url e now")
      case (Some m)
      with f n \<open>request_target H t h = Some url\<close> show ?thesis by (simp add: callback_defs callback_safe_def)
    next
      case None
      then have "good_callback H E e (now, url)" using assms(2) Some by (auto simp: good_callback_def)
      with f n None Some show ?thesis by (auto simp: callback_defs callback_safe_def split: option.split)
    qed
  qed
qed

lemma callback_safe_consumed: "callback_safe H E w \<Longrightarrow> callback_safe H E (callback_consumed ok w)"
  by (auto simp: callback_defs callback_safe_def split: option.split)

lemma callback_safe_step:
  assumes "callback_safe H E w" "(now, e) \<in> E"
  shows "callback_safe H E (login_step H C cfg w (now, e))"
proof (cases e)
  case (L_Redirect opened)
  have "lw_expectation w = None \<Longrightarrow> lw_accepted w = []" using assms(1) by (auto simp: callback_safe_def)
  with assms(1) L_Redirect show ?thesis
    by (auto simp: redirectToAuthorization_def callback_safe_def Let_def split: option.split)
next
  case L_Timeout
  with assms(1) show ?thesis by (auto simp: settle_code_def callback_safe_def)
next
  case (L_Request t h)
  with assms show ?thesis by (simp add: callback_safe_request)
next
  case (L_Consumed ok)
  with assms show ?thesis by (simp add: callback_safe_consumed)
next
  case (L_Discovery d outcome loader ok)
  then show ?thesis by (simp add: callback_safe_kept [OF assms(1)] discovery_keeps)
next
  case (L_Client_Information v ok)
  then show ?thesis by (simp add: callback_safe_kept [OF assms(1)] information_keeps)
qed (use assms(1) in \<open>auto intro!: callback_safe_kept [OF assms(1)] simp: saveCodeVerifier_def save_login_tokens_def
      commit_login_def fail_login_def write_login_def callback_part_def Let_def split: option.split\<close>)

lemma callback_safe_run:
  "callback_safe H E w \<Longrightarrow> set events \<subseteq> E \<Longrightarrow> callback_safe H E (run_login H C cfg w events)"
proof (induction events arbitrary: w)
  case (Cons x events)
  have "callback_safe H E (live_step H C cfg w x)"
    using callback_safe_step [OF Cons.prems(1), of "fst x" "snd x" C cfg] Cons.prems by (simp add: live_step_def)
  then show ?case using Cons.IH Cons.prems(2) by (simp add: run_login_def)
qed (simp add: run_login_def)

lemma callback_safe_start: "callback_safe H E (startLogin s st ru createdAt timeoutMs previous)"
  by (simp add: callback_safe_def startLogin_def Let_def)

section \<open>The expectation\<close>

definition expectation_as_started :: "login_configuration \<Rightarrow> string \<Rightarrow> string \<Rightarrow> timestamp \<Rightarrow> login_world \<Rightarrow> bool" where
  "expectation_as_started cfg st ru expiry w \<longleftrightarrow>
     (\<forall>a. ls_attempt (lw_session w) = Some a \<longrightarrow> aa_state a = st \<and> aa_redirectUrl a = ru \<and> aa_expiresAt a = expiry) \<and>
     (\<forall>e. lw_expectation w = Some e \<longrightarrow> ce_state e = st \<and> ce_redirectUrl e = ru \<and> ce_expiresAt e = expiry \<and>
        (given (lo_expectedIssuer cfg) \<longrightarrow> lo_expectedIssuer cfg = Some (ce_issuer e)))"

lemma request_attempt:
  "ls_attempt (lw_session (callback_request H now t h w)) = Some a \<Longrightarrow>
    \<exists>a'. ls_attempt (lw_session w) = Some a' \<and> aa_state a = aa_state a' \<and> aa_redirectUrl a = aa_redirectUrl a' \<and> aa_expiresAt a = aa_expiresAt a'"
  by (auto simp: callback_defs split: option.split_asm if_split_asm)

lemma started_step:
  assumes "expectation_as_started cfg st ru expiry w" "configured_login H C cfg r E w"
  shows "expectation_as_started cfg st ru expiry (login_step H C cfg w (now, e))"
proof (cases e)
  case (L_Redirect opened)
  have "given (lo_expectedIssuer cfg) \<longrightarrow> lo_expectedIssuer cfg = Some (ob_issuer b)" if "os_binding (ls_session (lw_session w)) = Some b" for b
    using assms(2) that by (simp add: configured_login_def session_as_configured_def binding_as_configured_def)
  with assms(1) L_Redirect show ?thesis
    by (auto simp: redirectToAuthorization_def expectation_as_started_def Let_def split: option.split)
next
  case (L_Request t h)
  then show ?thesis using assms(1)
    by (auto simp: expectation_as_started_def request_keeps dest!: request_attempt)
next
  case (L_Discovery d outcome loader ok)
  then show ?thesis using assms(1) discovery_keeps(1,2) [of H C cfg now d outcome loader ok w]
    by (simp add: expectation_as_started_def callback_part_def)
next
  case (L_Client_Information v ok)
  then show ?thesis using assms(1) information_keeps(1,2) [of v ok w] by (simp add: expectation_as_started_def callback_part_def)
qed (use assms(1) in \<open>auto simp: consumed_keeps saveCodeVerifier_def save_login_tokens_def settle_code_def expectation_as_started_def
      commit_login_def fail_login_def write_login_def Let_def split: option.split\<close>)

lemma started_run:
  "expectation_as_started cfg st ru expiry w \<Longrightarrow> configured_login H C cfg r E w \<Longrightarrow> set events \<subseteq> E \<Longrightarrow>
    expectation_as_started cfg st ru expiry (run_login H C cfg w events)"
proof (induction events arbitrary: w)
  case (Cons x events)
  have s: "expectation_as_started cfg st ru expiry (live_step H C cfg w x)"
    using started_step [OF Cons.prems(1,2), of "fst x" "snd x"] Cons.prems(1) by (simp add: live_step_def)
  have c: "configured_login H C cfg r E (live_step H C cfg w x)"
    using configured_step [OF Cons.prems(2), of "fst x" "snd x"] Cons.prems(2,3) by (simp add: live_step_def)
  from Cons.IH [OF s c] Cons.prems(3) show ?case by (simp add: run_login_def)
qed (simp add: run_login_def)

lemma started_start: "expectation_as_started cfg st ru (iso_of_ms (createdAt + timeoutMs)) (startLogin s st ru createdAt timeoutMs previous)"
  by (simp add: expectation_as_started_def startLogin_def Let_def)

lemma validated_callback:
  assumes "validateOAuthCallbackParameters H url e now = None"
  shows "(\<exists>redirect. parse_url H (ce_redirectUrl e) = Some redirect \<and> up_origin url = up_origin redirect \<and> up_pathname url = up_pathname redirect)
    \<and> param url ''state'' = Some (ce_state e)
    \<and> (\<forall>t. date_parse (legacy_date H) (ce_expiresAt e) = Some t \<longrightarrow> now < t)
    \<and> (param url ''iss'' = None \<or> param url ''iss'' = Some (ce_issuer e))"
  using assms by (auto simp: validateOAuthCallbackParameters_def split: option.split_asm if_split_asm)

section \<open>A login\<close>

definition ly_redirect :: "(string \<times> string) list \<Rightarrow> url_parts" where
  "ly_redirect params = \<lparr>up_protocol = ''http:'', up_hostname = ''127.0.0.1'', up_origin = ''http://127.0.0.1:1'', up_pathname = ''/oauth/callback'',
     up_search = [], up_hash = [], up_username = [], up_password = [], up_params = params\<rparr>"

definition ly_url :: url_parts where
  "ly_url = ly_redirect [(''state'', ''s''), (''iss'', ''https://as''), (''code'', ''c'')]"

definition ly_host :: login_host where
  "ly_host = \<lparr>jcs = (\<lambda>v. []), sha256 = (\<lambda>s. s), legacy_date = (\<lambda>s. None), url_parse = (\<lambda>s. None),
     web_url = (\<lambda>s. Some \<lparr>wu_href = s, wu_protocol = ''https:'', wu_hostname = ''t'', wu_host = ''t''\<rparr>),
     json_parse = (\<lambda>s. None), challenge_params = (\<lambda>h. (None, None)),
     parse_url = (\<lambda>s. if s = ''u'' then Some (ly_redirect []) else None),
     request_target = (\<lambda>t h. if t = ''q'' then Some ly_url else None), print_number = (\<lambda>n. [])\<rparr>"

definition ly_crypto :: crypto_host where
  "ly_crypto = \<lparr>jcs = (\<lambda>v. []), sha256 = (\<lambda>s. s), legacy_date = (\<lambda>s. None), url_parse = (\<lambda>s. None),
     utf8_text = (\<lambda>s. s), wide_unit = (\<lambda>n. []), p256_point = (\<lambda>x y. True), compact_verify = (\<lambda>a k j. None)\<rparr>"

definition ly_request :: session_request where
  "ly_request = \<lparr>sr_session = ''s'', sr_credentialHandle = ''h'', sr_applicationDid = ''did:web:app'', sr_resourceUrl = ''https://t/''\<rparr>"

definition ly_sharing :: sharing_policy where
  "ly_sharing = \<lparr>sp_applicationDids = [''did:web:app''], sp_operatorPrincipals = [''op'']\<rparr>"

definition ly_client :: jsval where
  "ly_client = Obj [(''client_id'', Str ''c'')]"

definition ly_cfg :: login_configuration where
  "ly_cfg = \<lparr>lo_client = Static_Client ''c'' None, lo_clientConfiguration = ''static'', lo_requestedScopes = [''read''], lo_scopeConfiguration = ''read'',
     lo_expectedIssuer = Some ''https://as'', lo_jitterMaxMs = 0, lo_persistArtifacts = True, lo_interactive = True, lo_command = ''login''\<rparr>"

definition ly_discovery :: jsval where
  "ly_discovery = Obj [(''authorizationServerUrl'', Str ''https://as''), (''resourceMetadata'', Obj []),
     (''authorizationServerMetadata'', Obj [(''issuer'', Str ''https://as''), (''code_challenge_methods_supported'', Arr [Str ''S256''])])]"

definition ly_events :: "(int \<times> login_event) list" where
  "ly_events = map (Pair 0) [L_Discovery ly_discovery None None True, L_Redirect True, L_Request ''q'' [], L_Consumed True]"

definition ly_binding :: oauth_binding where
  "ly_binding = \<lparr>ob_applicationDid = ''did:web:app'', ob_resourceUrl = ''https://t/'', ob_issuer = ''https://as'', ob_clientMode = Static_Mode,
     ob_clientId = ''c'', ob_clientConfiguration = ''static'', ob_scopeConfiguration = Some ''read'', ob_requestedScopes = [''read''],
     ob_redirectUrl = ''u'', ob_clientAuthentication = None\<rparr>"

definition ly_start :: login_world where
  "ly_start = startLogin (new_session ly_request ''op'' ly_sharing (Some ly_client)) ''s'' ''u'' 0 300000 None"

lemma ly_range: "iso_range 300000"
  by code_simp

lemma ly_started: "\<not> lw_crashed ly_start" "lw_phase ly_start = Login_Running" "lw_expectation ly_start = None" "lw_code ly_start = None"
    "ls_attempt (lw_session ly_start) = Some \<lparr>aa_state = ''s'', aa_redirectUrl = ''u'', aa_expiresAt = iso_of_ms 300000, aa_consumedAt = None\<rparr>"
    "lw_consuming ly_start = False" "os_clientInformation (ls_session (lw_session ly_start)) = Some ly_client"
    "os_resourceUrl (ls_session (lw_session ly_start)) = ''https://t/''" "os_applicationDid (ls_session (lw_session ly_start)) = ''did:web:app''"
    "lw_issuerRequired ly_start = False"
  by (simp_all add: ly_start_def startLogin_def new_session_def ly_request_def Let_def)

lemma ly_discovered:
  "saveDiscoveryState ly_host ly_crypto ly_cfg 0 ly_discovery None None True ly_start =
    (None, write_login True (ly_start\<lparr>lw_session := (lw_session ly_start)\<lparr>ls_issuerRequired := False, ls_session :=
       (ls_session (lw_session ly_start))\<lparr>os_discovery := Some ly_discovery, os_binding := Some ly_binding\<rparr>\<rparr>\<rparr>))"
proof -
  have a: "assertExactAuthorizationServerIssuer ly_discovery = Inr ()" "issuer_of ly_discovery = ''https://as''" by code_simp+
  have m: "selectClientMode (lo_client ly_cfg) m (Some ly_client) = Inr (Static_Mode, ''c'')" for m
    by (simp add: selectClientMode_def ly_cfg_def ly_client_def existing_id_def)
  have r: "canonicalResourceUrl ly_host ''https://t/'' = Inr ''https://t/''" by (simp add: canonicalResourceUrl_def ly_host_def)
  show ?thesis
    by (simp add: saveDiscoveryState_def a m r ly_started client_identity_def login_redirect_def Let_def write_failure_def ly_binding_def)
      (simp add: ly_cfg_def given_def)
qed

lemma ly_run:
  "lw_code (run_login ly_host ly_crypto ly_cfg (startLogin (new_session ly_request ''op'' ly_sharing (Some ly_client)) ''s'' ''u'' 0 300000 None) ly_events) = Some (Inr ''c'')"
  "os_binding (ls_session (lw_session (run_login ly_host ly_crypto ly_cfg
      (startLogin (new_session ly_request ''op'' ly_sharing (Some ly_client)) ''s'' ''u'' 0 300000 None) ly_events))) = Some ly_binding"
proof -
  have t: "request_target ly_host ''q'' [] = Some ly_url" "parse_url ly_host ''u'' = Some (ly_redirect [])" by (simp_all add: ly_host_def)
  have u: "up_pathname ly_url = ''/oauth/callback''" "up_origin ly_url = up_origin (ly_redirect [])" "up_pathname (ly_redirect []) = ''/oauth/callback''"
    "param ly_url ''state'' = Some ''s''" "param ly_url ''iss'' = Some ''https://as''" "param ly_url ''code'' = Some ''c''" "param ly_url ''error'' = None"
    by (simp_all add: ly_url_def ly_redirect_def param_def)
  have v: "validateOAuthCallbackParameters ly_host ly_url \<lparr>ce_state = ''s'', ce_redirectUrl = ''u'', ce_issuer = ''https://as'',
      ce_issuerRequired = False, ce_expiresAt = iso_of_ms 300000\<rparr> 0 = None"
    by (simp add: validateOAuthCallbackParameters_def t u date_parse_iso [OF ly_range])
  have i: "lo_interactive ly_cfg" "ob_issuer ly_binding = ''https://as''" by (simp_all add: ly_cfg_def ly_binding_def)
  note s = ly_started
  have "lw_code (run_login ly_host ly_crypto ly_cfg ly_start ly_events) = Some (Inr ''c'') \<and>
      os_binding (ls_session (lw_session (run_login ly_host ly_crypto ly_cfg ly_start ly_events))) = Some ly_binding"
    by (simp add: run_login_def ly_events_def live_step_def s ly_discovered redirectToAuthorization_def i write_failure_def write_login_def Let_def
        callback_request_def callback_consumed_def t u v answer_with_def settle_code_def given_def)
  then show "lw_code (run_login ly_host ly_crypto ly_cfg (startLogin (new_session ly_request ''op'' ly_sharing (Some ly_client)) ''s'' ''u'' 0 300000 None) ly_events) = Some (Inr ''c'')"
    "os_binding (ls_session (lw_session (run_login ly_host ly_crypto ly_cfg
      (startLogin (new_session ly_request ''op'' ly_sharing (Some ly_client)) ''s'' ''u'' 0 300000 None) ly_events))) = Some ly_binding"
    unfolding ly_start_def by auto
qed

section \<open>The properties\<close>

text \<open>
  C21. An authorization code is accepted at most once in a login, from a request to the callback server whose URL has the
  redirect's origin and path and the attempt's state, before its deadline, with the pinned issuer if it names one, and without
  an error.
\<close>

theorem code_accepted_once:
  assumes "lw_code (run_login H C cfg (startLogin (new_session r owner sharing information) st ru createdAt timeoutMs previous) events) = Some (Inr code)"
    and "iso_range (createdAt + timeoutMs)"
  shows "\<exists>now url t h redirect.
      lw_accepted (run_login H C cfg (startLogin (new_session r owner sharing information) st ru createdAt timeoutMs previous) events) = [(now, url)] \<and>
      (now, L_Request t h) \<in> set events \<and> request_target H t h = Some url \<and>
      parse_url H ru = Some redirect \<and> up_origin url = up_origin redirect \<and> up_pathname url = up_pathname redirect \<and>
      param url ''state'' = Some st \<and> now < createdAt + timeoutMs \<and>
      (given (lo_expectedIssuer cfg) \<longrightarrow> param url ''iss'' \<in> {None, lo_expectedIssuer cfg}) \<and>
      param url ''error'' = None \<and> param url ''code'' = Some code \<and> code \<noteq> []"
proof -
  let ?w = "run_login H C cfg (startLogin (new_session r owner sharing information) st ru createdAt timeoutMs previous) events"
  have safe: "callback_safe H (set events) ?w" by (rule callback_safe_run [OF callback_safe_start]) simp
  obtain url where u: "map snd (lw_accepted ?w) = [url]" "param url ''error'' = None" "param url ''code'' = Some code" "code \<noteq> []"
    using safe assms(1) by (auto simp: callback_safe_def)
  have "lw_accepted ?w \<noteq> []" using u(1) by auto
  then obtain x e where x: "lw_accepted ?w = [x]" "lw_expectation ?w = Some e" "good_callback H (set events) e x"
    using safe unfolding callback_safe_def by blast
  have "snd x = url" using u(1) x(1) by simp
  then obtain now where n: "x = (now, url)" by (cases x) simp
  have started: "expectation_as_started cfg st ru (iso_of_ms (createdAt + timeoutMs)) ?w"
    by (rule started_run [OF started_start configured_start order.refl])
  then have e: "ce_state e = st" "ce_redirectUrl e = ru" "ce_expiresAt e = iso_of_ms (createdAt + timeoutMs)"
      "given (lo_expectedIssuer cfg) \<longrightarrow> lo_expectedIssuer cfg = Some (ce_issuer e)"
    using x(2) by (simp_all add: expectation_as_started_def)
  have v: "validateOAuthCallbackParameters H url e now = None" and t: "\<exists>t h. (now, L_Request t h) \<in> set events \<and> request_target H t h = Some url"
    using x(3) n by (simp_all add: good_callback_def)
  obtain t h where t: "(now, L_Request t h) \<in> set events" "request_target H t h = Some url" using t by blast
  from validated_callback [OF v] e date_parse_iso [OF assms(2)] obtain redirect where p: "parse_url H ru = Some redirect"
      "up_origin url = up_origin redirect" "up_pathname url = up_pathname redirect" "param url ''state'' = Some st" "now < createdAt + timeoutMs"
      "param url ''iss'' = None \<or> param url ''iss'' = Some (ce_issuer e)" by auto
  from p(6) e(4) have "given (lo_expectedIssuer cfg) \<longrightarrow> param url ''iss'' \<in> {None, lo_expectedIssuer cfg}" by auto
  with x(1) n t p(1-5) u(2-4) show ?thesis by blast
qed

theorem code_accepted_once_witness:
  "\<exists>now url. lw_accepted (run_login ly_host ly_crypto ly_cfg (startLogin (new_session ly_request ''op'' ly_sharing (Some ly_client)) ''s'' ''u'' 0 300000 None) ly_events)
     = [(now, url)] \<and> now < 300000 \<and> param url ''code'' = Some ''c''"
  using code_accepted_once [OF ly_run(1)] ly_range by auto

text \<open>
  C22. Whatever a login holds as its binding, in memory or in the credential file, is what the deployment configures: the
  pinned issuer, the scopes, the resource and the client; and a client document's authentication is never dropped or replaced.
\<close>

theorem login_binding_as_configured:
  assumes "lw_session (run_login H C cfg (startLogin (new_session r owner sharing information) st ru createdAt timeoutMs previous) events) = s \<or>
      lw_file (run_login H C cfg (startLogin (new_session r owner sharing information) st ru createdAt timeoutMs previous) events) = Session_File s"
    and "os_binding (ls_session s) = Some b"
  shows "ob_applicationDid b = sr_applicationDid r \<and> canonicalResourceUrl H (sr_resourceUrl r) = Inr (ob_resourceUrl b) \<and>
     ob_clientConfiguration b = lo_clientConfiguration cfg \<and> ob_scopeConfiguration b = Some (lo_scopeConfiguration cfg) \<and>
     ob_requestedScopes b = lo_requestedScopes cfg \<and> (given (lo_expectedIssuer cfg) \<longrightarrow> lo_expectedIssuer cfg = Some (ob_issuer b)) \<and>
     (\<exists>now d outcome loader ok. (now, L_Discovery d outcome loader ok) \<in> set events \<and> assertExactAuthorizationServerIssuer d = Inr () \<and>
       ob_issuer b = issuer_of d \<and> client_as_configured H C (lo_client cfg) (js_get d ''authorizationServerMetadata'') loader b)"
proof -
  have "configured_login H C cfg r (set events)
      (run_login H C cfg (startLogin (new_session r owner sharing information) st ru createdAt timeoutMs previous) events)"
    by (rule configured_run [OF configured_start order.refl])
  with assms have "binding_as_configured H C cfg r (set events) b"
    by (auto simp: configured_login_def session_as_configured_def)
  then show ?thesis by (simp add: binding_as_configured_def)
qed

theorem login_binding_as_configured_witness:
  "\<exists>b. os_binding (ls_session (lw_session (run_login ly_host ly_crypto ly_cfg
      (startLogin (new_session ly_request ''op'' ly_sharing (Some ly_client)) ''s'' ''u'' 0 300000 None) ly_events))) = Some b \<and>
     ob_issuer b = ''https://as'' \<and> ob_requestedScopes b = [''read'']"
  using login_binding_as_configured [OF disjI1 [OF refl] ly_run(2)] ly_run(2) by (auto simp: ly_cfg_def given_def)

text \<open>
  C23. A login that fails puts back what the file held before it, when the audit entry and the write succeed. A request
  to the callback server whose URL cannot be parsed ends the process instead: the file keeps the attempt, without tokens, and the
  earlier grant is lost.
\<close>

theorem malformed_callback_loses_grant:
  assumes "request_target H t h = None"
  shows "lw_file (run_login H C cfg (startLogin (new_session r owner sharing information) st ru createdAt timeoutMs (Some raw))
      ((now, L_Fail True True) # events)) = Raw_File raw \<and>
    (\<exists>s. lw_file (run_login H C cfg (startLogin (new_session r owner sharing information) st ru createdAt timeoutMs (Some raw))
      ((now, L_Request t h) # events)) = Session_File s \<and> os_tokens (ls_session s) = None)"
proof -
  have stop: "run_login H C cfg w xs = w" if "lw_crashed w \<or> lw_phase w \<noteq> Login_Running" for w xs
    using that by (induction xs) (simp_all add: run_login_def live_step_def)
  let ?w = "startLogin (new_session r owner sharing information) st ru createdAt timeoutMs (Some raw)"
  have f: "\<not> lw_crashed ?w" "lw_phase ?w = Login_Running" "lw_previous ?w = Some raw"
      "\<exists>s. lw_file ?w = Session_File s \<and> os_tokens (ls_session s) = None"
    by (simp_all add: startLogin_def new_session_def Let_def)
  have step: "run_login H C cfg ?w (x # events) = run_login H C cfg (login_step H C cfg ?w x) events" for x
    using f by (simp add: run_login_def live_step_def)
  have "run_login H C cfg ?w ((now, L_Fail True True) # events) = fail_login True True ?w"
    unfolding step login_step.simps by (rule stop) (simp add: fail_login_def Let_def)
  then have fails: "lw_file (run_login H C cfg ?w ((now, L_Fail True True) # events)) = Raw_File raw"
    using f(3) by (simp add: fail_login_def Let_def)
  have "run_login H C cfg ?w ((now, L_Request t h) # events) = ?w\<lparr>lw_crashed := True\<rparr>"
    unfolding step login_step.simps by (simp add: callback_request_def assms stop)
  with f(4) fails show ?thesis by simp
qed

theorem malformed_callback_loses_grant_witness:
  "\<exists>s. lw_file (run_login ly_host ly_crypto ly_cfg (startLogin (new_session ly_request ''op'' ly_sharing None) ''s'' ''u'' 0 300000 (Some ''grant''))
      [(0, L_Request ''//'' [])]) = Session_File s \<and> os_tokens (ls_session s) = None"
  using malformed_callback_loses_grant [where H = ly_host and C = ly_crypto and cfg = ly_cfg and t = "''//''" and h = "[]" and r = ly_request and
      owner = "''op''" and sharing = ly_sharing and information = None and st = "''s''" and ru = "''u''" and createdAt = 0 and
      timeoutMs = 300000 and raw = "''grant''" and now = 0 and events = "[]"]
  by (simp add: ly_host_def)

end
