(* ===== verification/Spec2Isabelle.thy ===== *)
theory Spec2Isabelle
  imports PolicyProperties DispatchLedger ApprovalRequirements VerificationProperties CoordinationProperties
    WorkflowStore RetryBackoff AdapterProperties EngineProperties ServerProperties SqliteStore RelayProperties
    OAuthProperties ConfigProperties OAuthLoginProperties
begin

text \<open>
  MPAS, multi-party authorization of actions: an agent proposes an action, other parties
  approve it with signatures over its envelope, and an adapter executes it once.

  \<^bold>\<open>The parts and how they interact.\<close> A \<^emph>\<open>proposer bridge\<close> records an action as a workflow and submits it to
  the action endpoint of the \<^emph>\<open>adapter\<close>. The adapter verifies the Action Package (schema,
  times, hashes, signatures), checks the payload against the application's plugin, evaluates the
  policy, and either answers with the approvals that are missing or records the dispatch in
  its ledger and transmits the call to the application. When approvals are missing the bridge
  builds a replacement action and hands it to the \<^emph>\<open>coordination service\<close>, which collects the
  approvals of the signers and relays messages between the parties; the bridge then submits the
  completed package, with retries.

  \<^bold>\<open>Theories and sources.\<close> Paths are relative to \<open>src/\<close>; \<open>lib\<close> is \<open>sdk/protocol/src/lib\<close>.

  \<^item> \<open>Prelude\<close> (decimal rendering, loops with early return, JavaScript maps as association lists),
    \<open>JsValue\<close> (JavaScript values and their conversions), \<open>JsDate\<close> (ISO dates),
    \<open>JsonText\<close>, \<open>NumberText\<close>: what the source uses of its language.
  \<^item> \<open>MpasTypes\<close>: the types of \<open>sdk/protocol/src/types/mpas.ts\<close>, hashes, and the record \<open>host\<close>.
  \<^item> \<open>StrictJson\<close>: \<open>sdk/protocol/src/utils/strict-json.ts\<close>, the parser that refuses
    repeated members.
  \<^item> \<open>Base64url\<close>, \<open>SignatureSuites\<close>: \<open>lib/signature-suites.ts\<close> and \<open>lib/did-jwk.ts\<close>.
  \<^item> \<open>Verification\<close>, \<open>VerificationExample\<close>, \<open>VerificationProperties\<close>: \<open>lib/verification.ts\<close>,
    from the structural checks to \<open>verifyActionPackage\<close>.
  \<^item> \<open>PolicyEngine\<close>, \<open>PolicyProperties\<close>: \<open>lib/policy-engine.ts\<close>, the validation and the
    evaluation of policies.
  \<^item> \<open>ApprovalRequirements\<close>: \<open>lib/approval-requirements.ts\<close>, the status of an approval expression.
  \<^item> \<open>PluginLoader\<close>: \<open>lib/plugin-loader.ts\<close>, \<open>lib/mcp-payload.ts\<close>, \<open>lib/upstream-binding.ts\<close>.
  \<^item> \<open>DispatchLedger\<close>: \<open>cli/src/adapter/dispatch-ledger.ts\<close>, the journal of dispatches.
  \<^item> \<open>Adapter\<close>, \<open>AdapterExample\<close>, \<open>AdapterProperties\<close>: \<open>cli/src/adapter/adapter-api-server.ts\<close>
    with \<open>lib/receipt-builder.ts\<close> and \<open>lib/auth-requirements-builder.ts\<close>, as a machine of
    concurrent handlers.
  \<^item> \<open>Routing\<close>: \<open>lib/routing.ts\<close>, delivery envelopes, problem documents and the fingerprint of a
    request.
  \<^item> \<open>CoordinationRequests\<close>, \<open>CoordinationStore\<close>, \<open>CoordinationProperties\<close>: \<open>validation.ts\<close>,
    \<open>types.ts\<close> and \<open>store.ts\<close> of \<open>cli/src/coordination\<close>.
  \<^item> \<open>HttpAuth\<close>: \<open>lib/rfc9421.ts\<close> and the HTTP signers of \<open>lib/signer.ts\<close>, signed requests and used
    nonces.
  \<^item> \<open>NotificationHub\<close>, \<open>CoordinationServer\<close>: \<open>notifications.ts\<close> and \<open>coordination-api-server.ts\<close> of
    \<open>cli/src/coordination\<close> with \<open>runIdempotent\<close> of \<open>store.ts\<close>, as a machine of concurrent requests;
    \<open>ServerInvariants\<close>, \<open>ServerExample\<close>, \<open>ServerProperties\<close> hold its lemmas.
  \<^item> \<open>WorkflowStore\<close>: \<open>lib/workflow-store.ts\<close>, the durable records of the bridge.
  \<^item> \<open>SqliteStore\<close>: \<open>cli/src/bridge/sqlite-workflow-store.ts\<close>, the same records in SQL tables.
  \<^item> \<open>RelayWorker\<close>, \<open>RelayExample\<close>, \<open>RelayProperties\<close>: \<open>cli/src/adapter/verifier-relay-worker.ts\<close>, the
    worker of a verifier that takes actions from the relay and returns the responses.
  \<^item> \<open>RetryBackoff\<close>: \<open>lib/retry-backoff.ts\<close>.
  \<^item> \<open>HardenedFetch\<close>: \<open>hardened-fetch.ts\<close> and \<open>oauth-fetch-policy.ts\<close> of \<open>cli/src/adapter\<close>, outbound requests.
  \<^item> \<open>OAuthErrors\<close>: \<open>oauth-errors.ts\<close> and \<open>oauth-scope-guard.ts\<close> with the classification of
    answers in \<open>oauth-operator.ts\<close>; \<open>OAuthSession\<close>, \<open>OAuthRefresh\<close>: the sessions of \<open>oauth-operator.ts\<close> and their
    refresh, as a machine; \<open>OAuthExample\<close> and \<open>OAuthProperties\<close> hold runs and lemmas.
  \<^item> \<open>OAuthClient\<close>: \<open>oauth-client-auth.ts\<close>, \<open>oauth-discovery.ts\<close> and the client's identity in \<open>oauth-operator.ts\<close>;
    \<open>OAuthLogin\<close>, \<open>OAuthLoginProperties\<close>: login with the callback server, and logout, as a machine.
  \<^item> \<open>ConfigLoader\<close>, \<open>ConfigProperties\<close>: \<open>cli/src/adapter/config-loader.ts\<close>, the deployment
    configurations that the adapter starts with.
  \<^item> \<open>WorkflowEngine\<close>, \<open>EngineExample\<close>, \<open>EngineProperties\<close>: \<open>lib/workflow-engine.ts\<close>, as a
    machine over the store and the lanes of the Tasks.

  \<^bold>\<open>How state and operations correspond.\<close> A class is a record of its fields; a method is a function
  from the state to the state and a result, in which every branch of the source is a branch. A
  thrown error is a value of a sum or option type; \<open>undefined\<close> is a constructor of the
  JavaScript values. Code that awaits is cut at its awaits: the steps of \<open>adapter_step\<close>,
  \<open>engine_step\<close>, \<open>server_step\<close>, \<open>worker_step\<close>, \<open>oauth_step\<close> and \<open>login_step\<close> are the stretches between them, and a list of steps is one interleaving. A crash
  or a restart is a step that keeps only what the code keeps on disk.

  \<^bold>\<open>Interfaces.\<close> The locale \<open>dispatch_journal\<close> is what the ledger relies on of its file, \<open>workflow_store\<close>
  what the engine relies on of a store; both are interpreted on the models of their
  providers.

  \<^bold>\<open>What the lemmas show.\<close>

  \<^item> Policies: a validated policy is well formed; the engine permits a package exactly when the
    profile does, which is stated without the engine's matching, for conditions that the code and the
    profile read alike; the decisions of signers other than the proposer settle the answer.
  \<^item> Verification: a verified package is timely, bound to its payload, and every approval it
    reports is backed by a signature.
  \<^item> The ledger and the adapter: only verified actions are transmitted that the policy permits or, where
    neither plugin nor policy names the operation, that the deployment lets pass, each journaled and at
    most once over any interleaving and any crashes; outcomes are recorded and never change.
  \<^item> Coordination: a workflow is ready only with its requirements met by distinct signers; an action
    identifier names one workflow for good, with its lifecycle; the first response, delivered from the
    designated verifier, stays; polling.
  \<^item> The coordination service: a verified request is authentic, its store is a run of the coordination
    store, stored decisions are those of authenticated signers, and a nonce is used once.
  \<^item> The workflow engine: outcomes come from the action endpoint, an idempotency key covers one
    request, and every remote call is made under a claim and before a shutdown.
  \<^item> The workflow store: a terminal outcome and a live claim outlast every operation but the purge of an
    overdue record; the index of Action IDs is complete. The SQL store refines the in-memory
    reference store, operation by operation.
  \<^item> The relay worker passes no delivery over, repeats a response unchanged until it is accepted,
    and reads its file back; a fatal error while it connects is covered up.
  \<^item> OAuth: a refresh token is not sent again while the outcome of the last request is unknown, except
    by transports that refresh by themselves and after a failed login that puts back the file from before
    a request; the scopes of a login are exact; requests stay within the policy.
  \<^item> Login: one authorization code is accepted, with the attempt's state and the pinned issuer; the binding is what
    the deployment configures; a malformed request to the callback server costs the stored grant.
  \<^item> Configurations: those that load agree with their plugin and pin it; the check of the default
    requirement is exact where all thresholds count one decision, and lets one through that nothing
    satisfies where they count different ones.
  \<^item> Parsing and printing: round trips, canonical encodings, and a strict parser that ends.

  \<^bold>\<open>Bounds and fuel.\<close> The strict parser runs on fuel that its theorem shows sufficient for every
  text. The polls of a relay are unfolded as often as there are deliveries. Numbers are doubles with
  exact integers up to \<open>2^53\<close>; years are \<open>0\<close> to \<open>9999\<close> where a date is printed.

  \<^bold>\<open>Parameters.\<close> Code outside the repository is a field of \<open>host\<close> or of a record that extends it: the
  canonical JSON text, the digest, dates in other forms than ISO, URL parsing, the cryptographic
  primitives, the schema compiler and the printing of numbers. Remote answers, clock readings,
  random numbers and fresh identifiers are inputs of the steps.

  \<^bold>\<open>Not modelled.\<close> The HTTP clients of these parts, the MCP servers, the OAuth flow of the MCP SDK
  between the calls of its provider, the installer and the command line, and the bridge generator: their work is input and output through libraries the
  repository does not hold, or follows the interfaces modelled here.
\<close>

end
